(* ===== verification/Prelude.thy ===== *)
theory Prelude
  imports Complex_Main "HOL-Library.Word"
begin

text \<open>
  Shared vocabulary of the development: machine-integer synonyms, the decimal printer that
  stands for \<^verbatim>\<open>std::to_string\<close>, and the container model of
  \<^verbatim>\<open>std::unordered_map\<close>.

  An \<^verbatim>\<open>unordered_map\<close> is an association list: its order is the (unspecified) order in
  which a range-based \<^verbatim>\<open>for\<close> visits the entries, so a theorem that quantifies over every
  association list holds for every hash order.  \<open>um_emplace\<close> never overwrites, as
  \<^verbatim>\<open>emplace\<close> does not; \<open>um_assign\<close> is \<^verbatim>\<open>m[k] = v\<close>; \<open>um_erase\<close> is
  \<^verbatim>\<open>erase(k)\<close>; \<open>um_modify\<close> is the idiom
  \<^verbatim>\<open>if (auto it = m.find(k); it != m.end()) it->second... = ...\<close>.
  The contract of the container is the locale \<open>keyed_container\<close>, interpreted on the list
  model at the end of the theory.
\<close>

named_theorems um_simps \<open>lookup after an operation of the container model\<close>
named_theorems engine_simps \<open>lookup after an operation of the engine state\<close>

section \<open>Machine integers and names\<close>

type_synonym u8 = "8 word"
type_synonym u16 = "16 word"
type_synonym u32 = "32 word"
type_synonym u64 = "64 word"

text \<open>Decimal printing of an unsigned number, most significant digit first.\<close>

definition digit_char :: "nat \<Rightarrow> char" where
  "digit_char d = char_of (48 + d)"

fun nat_to_string :: "nat \<Rightarrow> string" where
  "nat_to_string n =
     (if n < 10 then [digit_char n] else nat_to_string (n div 10) @ [digit_char (n mod 10)])"

declare nat_to_string.simps [simp del]

definition u64_to_string :: "u64 \<Rightarrow> string" where
  "u64_to_string w = nat_to_string (unat w)"

definition int_to_string :: "int \<Rightarrow> string" where
  "int_to_string i = (if i < 0 then ''-'' @ nat_to_string (nat (- i)) else nat_to_string (nat i))"

lemma nat_to_string_nonempty: "nat_to_string n \<noteq> []" "[] \<noteq> nat_to_string n"
  by (subst nat_to_string.simps, simp)+

lemma digit_char_inj: "a < 10 \<Longrightarrow> b < 10 \<Longrightarrow> digit_char a = digit_char b \<longleftrightarrow> a = b"
proof -
  assume "a < 10" "b < 10"
  then have "of_char (digit_char a) = 48 + a" "of_char (digit_char b) = 48 + b"
    by (simp_all add: digit_char_def of_char_of take_bit_eq_mod)
  then show ?thesis by (metis add_left_cancel)
qed

lemma nat_to_string_inj: "nat_to_string m = nat_to_string n \<longleftrightarrow> m = n"
proof (induction m arbitrary: n rule: nat_to_string.induct)
  case (1 m)
  show ?case
  proof (cases "m < 10")
    case True
    then have m: "nat_to_string m = [digit_char m]" by (subst nat_to_string.simps) simp
    show ?thesis
    proof (cases "n < 10")
      case True
      with \<open>m < 10\<close> m show ?thesis
        by (simp add: nat_to_string.simps [of n] digit_char_inj)
    next
      case False
      with \<open>m < 10\<close> m show ?thesis
        by (auto simp: nat_to_string.simps [of n] nat_to_string_nonempty)
    qed
  next
    case False
    note m = False
    have dec: "nat_to_string m = nat_to_string (m div 10) @ [digit_char (m mod 10)]"
      using m by (subst nat_to_string.simps) simp
    show ?thesis
    proof (cases "n < 10")
      case True
      with m dec show ?thesis
        by (auto simp: nat_to_string.simps [of n] nat_to_string_nonempty)
    next
      case False
      then have "nat_to_string n = nat_to_string (n div 10) @ [digit_char (n mod 10)]"
        by (subst nat_to_string.simps) simp
      with dec "1.IH" [OF m, of "n div 10"] have
        "nat_to_string m = nat_to_string n \<longleftrightarrow> m div 10 = n div 10 \<and> m mod 10 = n mod 10"
        by (simp add: digit_char_inj)
      then show ?thesis by (metis div_mult_mod_eq)
    qed
  qed
qed

lemma u64_to_string_inj: "u64_to_string v = u64_to_string w \<longleftrightarrow> v = w"
  by (simp add: u64_to_string_def nat_to_string_inj word_unat_eq_iff)

section \<open>Generic lemmas\<close>

lemma fold_invariant_elem:
  assumes "P s" and "\<And>x s. x \<in> set xs \<Longrightarrow> P s \<Longrightarrow> P (f x s)"
  shows "P (fold f xs s)"
  using assms by (induction xs arbitrary: s) auto

lemma fold_measure_eq:
  assumes "\<And>x s. x \<in> set xs \<Longrightarrow> g (f x s) = g s"
  shows "g (fold f xs s) = g s"
  using assms by (induction xs arbitrary: s) auto

lemma map_option_is_None [simp]: "map_option f x = None \<longleftrightarrow> x = None"
  by (cases x) auto

text \<open>A loop that returns from the function at the first element with a result.\<close>

fun first_some :: "('a \<Rightarrow> 'b option) \<Rightarrow> 'a list \<Rightarrow> 'b option" where
  "first_some f [] = None"
| "first_some f (x # xs) = (case f x of Some y \<Rightarrow> Some y | None \<Rightarrow> first_some f xs)"

lemma first_some_None: "first_some f xs = None \<longleftrightarrow> (\<forall>x \<in> set xs. f x = None)"
  by (induction xs) (auto split: option.splits)

lemma first_some_Some: "first_some f xs = Some y \<Longrightarrow> \<exists>x \<in> set xs. f x = Some y"
  by (induction xs) (auto split: option.splits)

section \<open>The container model\<close>

type_synonym ('k, 'v) umap = "('k \<times> 'v) list"

definition um_find :: "('k, 'v) umap \<Rightarrow> 'k \<Rightarrow> 'v option" where
  "um_find m k = map_of m k"

definition um_emplace :: "'k \<Rightarrow> 'v \<Rightarrow> ('k, 'v) umap \<Rightarrow> ('k, 'v) umap" where
  "um_emplace k v m = (if um_find m k = None then m @ [(k, v)] else m)"

definition um_modify :: "'k \<Rightarrow> ('v \<Rightarrow> 'v) \<Rightarrow> ('k, 'v) umap \<Rightarrow> ('k, 'v) umap" where
  "um_modify k f m = map (\<lambda>(k', v). (k', if k' = k then f v else v)) m"

definition um_assign :: "'k \<Rightarrow> 'v \<Rightarrow> ('k, 'v) umap \<Rightarrow> ('k, 'v) umap" where
  "um_assign k v m = (if um_find m k = None then m @ [(k, v)] else um_modify k (\<lambda>_. v) m)"

definition um_erase :: "'k \<Rightarrow> ('k, 'v) umap \<Rightarrow> ('k, 'v) umap" where
  "um_erase k m = filter (\<lambda>p. fst p \<noteq> k) m"

definition um_keys :: "('k, 'v) umap \<Rightarrow> 'k list" where
  "um_keys m = map fst m"

definition um_values :: "('k, 'v) umap \<Rightarrow> 'v list" where
  "um_values m = map snd m"

definition um_wf :: "('k, 'v) umap \<Rightarrow> bool" where
  "um_wf m \<longleftrightarrow> distinct (um_keys m)"

lemma um_find_Nil [um_simps, simp]: "um_find [] k = None"
  by (simp add: um_find_def)

lemma um_find_Cons: "um_find ((k', v) # m) k = (if k' = k then Some v else um_find m k)"
  by (simp add: um_find_def)

lemma um_find_None_iff: "um_find m k = None \<longleftrightarrow> k \<notin> set (um_keys m)"
  by (simp add: um_find_def um_keys_def map_of_eq_None_iff)

lemma um_find_append: "um_find (m @ n) k = (case um_find m k of None \<Rightarrow> um_find n k | Some v \<Rightarrow> Some v)"
  by (simp add: um_find_def map_add_def split: option.splits)

lemma um_find_emplace [um_simps]:
  "um_find (um_emplace k v m) k' = (if k' = k \<and> um_find m k = None then Some v else um_find m k')"
  by (auto simp: um_emplace_def um_find_append um_find_Cons split: option.splits)

lemma um_find_modify [um_simps]:
  "um_find (um_modify k f m) k' = (if k' = k then map_option f (um_find m k) else um_find m k')"
  by (induction m) (auto simp: um_modify_def um_find_def)

lemma um_find_assign [um_simps]:
  "um_find (um_assign k v m) k' = (if k' = k then Some v else um_find m k')"
  by (auto simp: um_assign_def um_find_append um_find_Cons um_find_modify split: option.splits)

lemma um_find_erase [um_simps]:
  "um_find (um_erase k m) k' = (if k' = k then None else um_find m k')"
  by (induction m) (auto simp: um_erase_def um_find_def)

lemma um_keys_modify [um_simps]: "um_keys (um_modify k f m) = um_keys m"
  by (simp add: um_keys_def um_modify_def case_prod_beta)

lemma um_wf_Nil [simp]: "um_wf []"
  by (simp add: um_wf_def um_keys_def)

lemma um_wf_modify [simp]: "um_wf (um_modify k f m) = um_wf m"
  by (simp add: um_wf_def um_keys_modify)

lemma um_wf_emplace: "um_wf m \<Longrightarrow> um_wf (um_emplace k v m)"
  by (auto simp: um_wf_def um_emplace_def um_find_None_iff um_keys_def)

lemma um_wf_assign: "um_wf m \<Longrightarrow> um_wf (um_assign k v m)"
  by (cases "um_find m k")
    (auto simp: um_assign_def um_wf_def um_find_None_iff um_keys_def, simp add: um_modify_def case_prod_beta comp_def)

lemma um_wf_erase: "um_wf m \<Longrightarrow> um_wf (um_erase k m)"
  by (auto simp: um_wf_def um_erase_def um_keys_def distinct_map_filter)

lemmas um_wf_intros = um_wf_emplace um_wf_assign um_wf_erase

lemma um_find_in_set: "um_find m k = Some v \<Longrightarrow> (k, v) \<in> set m"
  by (simp add: um_find_def map_of_SomeD)

lemma um_in_set_find: "um_wf m \<Longrightarrow> (k, v) \<in> set m \<Longrightarrow> um_find m k = Some v"
  by (simp add: um_wf_def um_find_def um_keys_def)

lemma um_values_in: "v \<in> set (um_values m) \<longleftrightarrow> (\<exists>k. (k, v) \<in> set m)"
  by (force simp: um_values_def)

lemma um_find_in_values: "um_find m k = Some v \<Longrightarrow> v \<in> set (um_values m)"
  by (auto simp: um_values_in dest: um_find_in_set)

text \<open>Every entry is filed under the key its own identity field carries.\<close>

definition um_keyed :: "('v \<Rightarrow> 'k) \<Rightarrow> ('k, 'v) umap \<Rightarrow> bool" where
  "um_keyed key m \<longleftrightarrow> list_all (\<lambda>(k, v). key v = k) m"

lemma um_keyed_Nil [simp]: "um_keyed key []"
  by (simp add: um_keyed_def)

lemma um_keyed_find: "um_keyed key m \<Longrightarrow> um_find m k = Some v \<Longrightarrow> key v = k"
  by (auto simp: um_keyed_def list_all_iff dest: um_find_in_set)

lemma um_keyed_emplace: "um_keyed key m \<Longrightarrow> key v = k \<Longrightarrow> um_keyed key (um_emplace k v m)"
  by (simp add: um_keyed_def um_emplace_def)

lemma um_keyed_erase: "um_keyed key m \<Longrightarrow> um_keyed key (um_erase k m)"
  by (auto simp: um_keyed_def um_erase_def list_all_iff)

lemma um_keyed_modify:
  "um_keyed key m \<Longrightarrow> (\<And>v. key (f v) = key v) \<Longrightarrow> um_keyed key (um_modify k f m)"
  by (auto simp: um_keyed_def um_modify_def list_all_iff)

lemma um_keyed_values_find:
  "um_wf m \<Longrightarrow> um_keyed key m \<Longrightarrow> v \<in> set (um_values m) \<Longrightarrow> um_find m (key v) = Some v"
  by (auto simp: um_values_in um_keyed_def list_all_iff intro: um_in_set_find)

section \<open>The contract of the container\<close>

locale keyed_container =
  fixes empty :: "'m"
    and find :: "'m \<Rightarrow> 'k \<Rightarrow> 'v option"
    and emplace :: "'k \<Rightarrow> 'v \<Rightarrow> 'm \<Rightarrow> 'm"
    and assign :: "'k \<Rightarrow> 'v \<Rightarrow> 'm \<Rightarrow> 'm"
    and modify :: "'k \<Rightarrow> ('v \<Rightarrow> 'v) \<Rightarrow> 'm \<Rightarrow> 'm"
    and erase :: "'k \<Rightarrow> 'm \<Rightarrow> 'm"
    and wf :: "'m \<Rightarrow> bool"
  assumes find_empty: "find empty k = None"
    and find_emplace:
      "find (emplace k v m) k' = (if k' = k \<and> find m k = None then Some v else find m k')"
    and find_assign: "find (assign k v m) k' = (if k' = k then Some v else find m k')"
    and find_modify: "find (modify k f m) k' = (if k' = k then map_option f (find m k) else find m k')"
    and find_erase: "find (erase k m) k' = (if k' = k then None else find m k')"
    and wf_empty: "wf empty"
    and wf_emplace: "wf m \<Longrightarrow> wf (emplace k v m)"
    and wf_assign: "wf m \<Longrightarrow> wf (assign k v m)"
    and wf_modify: "wf m \<Longrightarrow> wf (modify k f m)"
    and wf_erase: "wf m \<Longrightarrow> wf (erase k m)"
begin

lemma emplace_keeps_first: "find (emplace k w (emplace k v m)) k = find (emplace k v m) k"
  by (simp add: find_emplace)

lemma emplace_after_erase: "find (emplace k v (erase k m)) k = Some v"
  by (simp add: find_emplace find_erase)

lemma modify_absent: "find m k = None \<Longrightarrow> find (modify k f m) k' = find m k'"
  by (simp add: find_modify)

lemma modify_compose: "find (modify k f (modify k g m)) k' = find (modify k (f \<circ> g) m) k'"
  by (simp add: find_modify option.map_comp)

lemma erase_other: "k \<noteq> k' \<Longrightarrow> find (erase k m) k' = find m k'"
  by (simp add: find_erase)

end

interpretation um: keyed_container "[]" um_find um_emplace um_assign um_modify um_erase um_wf
  by unfold_locales (simp_all add: um_simps um_wf_intros)

text \<open>A result that is mapped.\<close>

lemma map_sum_Inr: "map_sum id f m = Inr y \<longleftrightarrow> (\<exists>x. m = Inr x \<and> y = f x)"
  by (cases m) auto

end
