(* ===== verification/Types.thy ===== *)
theory Types
  imports Prelude
begin

text \<open>
  The vocabulary types of \<^verbatim>\<open>engine/include/engine/core/types.hpp\<close>: the structured
  48-bit UID with its packing and field accessors, and the enumerations every other part of the
  engine uses.  The one-field wrappers \<^verbatim>\<open>UID\<close> and \<^verbatim>\<open>PlayerID\<close> are type
  synonyms of their single field.  Enumerators carry a prefix where two enumerations of the source
  use the same name.  A \<^verbatim>\<open>float\<close> is a real number; no definition of this theory
  computes with one.
\<close>

unbundle bit_operations_syntax

section \<open>Structured identifiers\<close>

definition ENGINE_TICKS_PER_SECOND :: u64 where
  "ENGINE_TICKS_PER_SECOND = 20"

type_synonym UID = u64
type_synonym PlayerID = string
type_synonym float32 = real

datatype UIDDomain = ROLLING_STOCK | INFRASTRUCTURE | OPERATIONS

fun domain_code :: "UIDDomain \<Rightarrow> u8" where
  "domain_code ROLLING_STOCK = 0x01"
| "domain_code INFRASTRUCTURE = 0x02"
| "domain_code OPERATIONS = 0x03"

datatype UIDKind =
    VEHICLE_TYPE | VEHICLE | TRAIN_CONSIST | CARRIER
  | STATION | DISPATCH_AREA | TRACK_SECTION | SWITCH | SIGNAL | DERAILER | BLOCK_SECTION
  | BOUNDARY_NODE | LEVEL_CROSSING | AXLE_COUNTER | INTERLOCKING | POWER_SUPPLY
  | ROUTE | ALARM | DISPATCH_EXCHANGE | TIMETABLE_POINT | TIMETABLE_CONNECTION

fun kind_code :: "UIDKind \<Rightarrow> u8" where
  "kind_code VEHICLE_TYPE = 0x01"
| "kind_code VEHICLE = 0x02"
| "kind_code TRAIN_CONSIST = 0x03"
| "kind_code CARRIER = 0x04"
| "kind_code STATION = 0x11"
| "kind_code DISPATCH_AREA = 0x12"
| "kind_code TRACK_SECTION = 0x13"
| "kind_code SWITCH = 0x14"
| "kind_code SIGNAL = 0x15"
| "kind_code DERAILER = 0x16"
| "kind_code BLOCK_SECTION = 0x17"
| "kind_code BOUNDARY_NODE = 0x18"
| "kind_code LEVEL_CROSSING = 0x19"
| "kind_code AXLE_COUNTER = 0x1A"
| "kind_code INTERLOCKING = 0x1B"
| "kind_code POWER_SUPPLY = 0x1C"
| "kind_code ROUTE = 0x21"
| "kind_code ALARM = 0x22"
| "kind_code DISPATCH_EXCHANGE = 0x23"
| "kind_code TIMETABLE_POINT = 0x24"
| "kind_code TIMETABLE_CONNECTION = 0x25"

definition UID_MAX_SAFE_JSON_INTEGER :: u64 where
  "UID_MAX_SAFE_JSON_INTEGER = push_bit 53 1 - 1"

definition make_uid :: "UIDDomain \<Rightarrow> UIDKind \<Rightarrow> u16 \<Rightarrow> u16 \<Rightarrow> UID" where
  "make_uid domain kind scope instance_no =
     push_bit 40 (ucast (domain_code domain)) OR push_bit 32 (ucast (kind_code kind)) OR
     push_bit 16 (ucast scope) OR ucast instance_no"

definition uid_domain :: "UID \<Rightarrow> u8" where
  "uid_domain uid = ucast (drop_bit 40 uid AND 0xFF)"

definition uid_kind :: "UID \<Rightarrow> u8" where
  "uid_kind uid = ucast (drop_bit 32 uid AND 0xFF)"

definition uid_scope :: "UID \<Rightarrow> u16" where
  "uid_scope uid = ucast (drop_bit 16 uid AND 0xFFFF)"

definition uid_instance :: "UID \<Rightarrow> u16" where
  "uid_instance uid = ucast (uid AND 0xFFFF)"

definition uid_is_safe_json_integer :: "UID \<Rightarrow> bool" where
  "uid_is_safe_json_integer uid \<longleftrightarrow> uid \<le> UID_MAX_SAFE_JSON_INTEGER"

definition uid_has_kind :: "UID \<Rightarrow> UIDDomain \<Rightarrow> UIDKind \<Rightarrow> bool" where
  "uid_has_kind uid domain kind \<longleftrightarrow>
     uid_is_safe_json_integer uid \<and> uid_domain uid = domain_code domain \<and> uid_kind uid = kind_code kind"

lemma domain_code_inj: "domain_code d = domain_code d' \<longleftrightarrow> d = d'"
  by (cases d; cases d'; simp)

lemma kind_code_inj: "kind_code k = kind_code k' \<longleftrightarrow> k = k'"
  by (cases k; cases k'; simp)

text \<open>Each field occupies its own bit range of the packed value.\<close>

lemma bit_byte_mask [simp]: "bit (0xFF :: int) n \<longleftrightarrow> n < 8"
  using bit_mask_iff [where 'a = int, of 8 n] by (simp add: mask_eq_exp_minus_1)

lemma bit_half_mask [simp]: "bit (0xFFFF :: int) n \<longleftrightarrow> n < 16"
  using bit_mask_iff [where 'a = int, of 16 n] by (simp add: mask_eq_exp_minus_1)

lemmas uid_bit_simps = make_uid_def uid_domain_def uid_kind_def uid_scope_def uid_instance_def
  bit_simps

lemma uid_domain_make_uid [simp]: "uid_domain (make_uid d k s i) = domain_code d"
  by (rule bit_word_eqI) (auto simp: uid_bit_simps dest: bit_imp_le_length)

lemma uid_kind_make_uid [simp]: "uid_kind (make_uid d k s i) = kind_code k"
  by (rule bit_word_eqI) (auto simp: uid_bit_simps dest: bit_imp_le_length)

lemma uid_scope_make_uid [simp]: "uid_scope (make_uid d k s i) = s"
  by (rule bit_word_eqI) (auto simp: uid_bit_simps dest: bit_imp_le_length)

lemma uid_instance_make_uid [simp]: "uid_instance (make_uid d k s i) = i"
  by (rule bit_word_eqI) (auto simp: uid_bit_simps dest: bit_imp_le_length)

lemma make_uid_top_bits: "drop_bit 48 (make_uid d k s i) = 0"
  by (rule bit_word_eqI) (auto simp: uid_bit_simps dest: bit_imp_le_length)

lemma make_uid_safe [simp]: "uid_is_safe_json_integer (make_uid d k s i)"
proof -
  have "make_uid d k s i = take_bit 48 (make_uid d k s i)"
    by (rule bit_word_eqI) (auto simp: uid_bit_simps dest: bit_imp_le_length)
  then have "unat (make_uid d k s i) = unat (take_bit 48 (make_uid d k s i))" by simp
  also have "\<dots> < 2 ^ 48" by (simp add: take_bit_eq_mod unat_mod)
  finally have "unat (make_uid d k s i) < 2 ^ 48" .
  then show ?thesis
    by (simp add: uid_is_safe_json_integer_def UID_MAX_SAFE_JSON_INTEGER_def word_le_nat_alt)
qed

text \<open>
  A UID is nonzero in its domain byte, so a packed UID is never the null UID \<open>0\<close> that the
  code uses for \<open>no device\<close>.
\<close>

lemma make_uid_nonzero: "make_uid d k s i \<noteq> 0"
proof
  assume "make_uid d k s i = 0"
  then have "uid_domain (make_uid d k s i) = 0" by (simp add: uid_domain_def)
  then show False by (cases d) simp_all
qed

section \<open>Enumerations\<close>

datatype CommandPriority = PRIO_EMERGENCY | PRIO_SAFETY | PRIO_NORMAL | PRIO_BACKGROUND

fun priority_index :: "CommandPriority \<Rightarrow> nat" where
  "priority_index PRIO_EMERGENCY = 0"
| "priority_index PRIO_SAFETY = 1"
| "priority_index PRIO_NORMAL = 2"
| "priority_index PRIO_BACKGROUND = 3"

lemma priority_index_inj: "priority_index p = priority_index q \<longleftrightarrow> p = q"
  by (cases p; cases q; simp)

text \<open>Lower numeric value, higher priority: the order of the enumerators.\<close>

instantiation CommandPriority :: linorder
begin

definition less_eq_CommandPriority :: "CommandPriority \<Rightarrow> CommandPriority \<Rightarrow> bool" where
  "p \<le> q \<longleftrightarrow> priority_index p \<le> priority_index q"

definition less_CommandPriority :: "CommandPriority \<Rightarrow> CommandPriority \<Rightarrow> bool" where
  "p < q \<longleftrightarrow> priority_index p < priority_index q"

instance
  by standard (auto simp: less_eq_CommandPriority_def less_CommandPriority_def priority_index_inj)

end

datatype TrackOccupancy = FREE | OCCUPIED

datatype SwitchPosition = STRAIGHT | DIVERGENT | MOVING | TRAILED_DAMAGED

datatype LevelCrossingStatus = LX_OPEN | LX_WARNING | LX_CLOSED | LX_FAULT_NO_CONTROL

datatype SignalAspect =
    S1_STOP | S2_PROCEED | S3_PROCEED_40 | S4_PROCEED_40_EXPECT_STOP | S5_EXPECT_STOP
  | S6_PROCEED_100 | S7_PROCEED_100_EXPECT_STOP | S8_PROCEED_100_EXPECT_40
  | S9_PROCEED_100_EXPECT_60 | S10_PROCEED_40 | S11_PROCEED_40_EXPECT_40 | S12_PROCEED_60
  | S13_PROCEED_60_EXPECT_60 | SZ_PROCEED | SZN_PROCEED_W24 | MS1_STOP | MS2_SHUNTING_ALLOWED

datatype RandomEventType =
    TRACK_CLOSURE | INFRASTRUCTURE_FAIL | MEDICAL_EMERGENCY | POLICE_CALL | RECOVERY_TRAIN
  | PASSENGER_ALARM

datatype TrainCategory = PASSENGER | FREIGHT | MAINTENANCE

datatype TractionStatus = OPERATIONAL | DEFECTIVE

datatype DispatchFormType = S2 | S24 | S25 | S26 | S35 | S51 | S52 | S55 | S56 | S76

datatype TelegramDirection = SENT | RECEIVED

datatype TelegramStatus = PENDING | CONFIRMED | REJECTED | SUPERSEDED

datatype ExchangeStatus =
    EX_IDLE | S2_SENT | S24_RECEIVED | S25_SENT | S26_RECEIVED | EX_CLOSED | EX_CANCELLED

datatype ChangeCause = CAUSE_COMMAND | CAUSE_AUTO | CAUSE_TIMEOUT

datatype DerailerState = LOCKED | UNLOCKED

datatype BlockDirectionState =
    NEUTRAL | OUTBOUND_PENDING | OUTBOUND | INBOUND_PENDING | INBOUND | DIR_EMERGENCY
  | RESET_PENDING

fun direction_index :: "BlockDirectionState \<Rightarrow> int" where
  "direction_index NEUTRAL = 0"
| "direction_index OUTBOUND_PENDING = 1"
| "direction_index OUTBOUND = 2"
| "direction_index INBOUND_PENDING = 3"
| "direction_index INBOUND = 4"
| "direction_index DIR_EMERGENCY = 5"
| "direction_index RESET_PENDING = 6"

datatype BlockSectionState = BS_CLOSED | BS_OPEN

datatype EntrySide = SIDE_LEFT | SIDE_RIGHT

section \<open>Panel events and train views\<close>

record TrainSlot =
  slot_number :: string
  slot_has_extra_info :: bool
  slot_manually_placed :: bool
  slot_entry_side :: EntrySide

record PipEvent =
  pip_section_uid :: UID
  pip_station_uid :: UID
  pip_occupancy :: TrackOccupancy
  pip_slot :: "TrainSlot option"
  pip_lcs_boundary_crossing :: bool

record TrainSnapshot =
  tsnap_uid :: UID
  tsnap_section_uid :: UID
  tsnap_speed_kmh :: float32
  tsnap_total_length_m :: float32
  tsnap_total_axles :: int
  tsnap_vehicle_uids :: "UID list"

end
