(* ===== verification/Operator_Codes.thy ===== *)
theory Operator_Codes
  imports Prelude
begin

text \<open>
  The operator command codes of \<^verbatim>\<open>engine/include/engine/core/command.hpp\<close>
  (\<^verbatim>\<open>enum class OperatorCommandCode\<close>) and their logging names
  (\<^verbatim>\<open>operator_command_code_name\<close>).
\<close>

datatype (plugins only: size code) OperatorCommandCode =
    OC_SES | OC_SEO | OC_SZI | OC_SZW | OC_SZN | OC_SZO | OC_SAM | OC_SAW | OC_ZWP | OC_ZWM
    | OC_ZWS | OC_ZWO | OC_ITS | OC_ITO | OC_ZWB | OC_ZBP | OC_ZBM | OC_ZRI | OC_ZRK
    | OC_OPS | OC_SLI | OC_SLK | OC_BLW | OC_BLP | OC_BLO | OC_BLZ | OC_BLAI | OC_BLA
    | OC_BLS | OC_OST | OC_ZKB | OC_PZM | OC_OZK | OC_ZESI | OC_ZES | OC_PZZI | OC_PZZ
    | OC_POZ | OC_DPOI | OC_DPO | OC_DKOI | OC_DKO | OC_DKPI | OC_DKP | OC_BPZ | OC_DPWI
    | OC_DPW | OC_BTW | OC_BTO | OC_BPO | OC_BKO | OC_PDZ | OC_PDO | OC_PZT | OC_PAZ
    | OC_PZO | OC_PDII | OC_PDI | OC_MRS | OC_ODS | OC_ZAL | OC_POC | OC_PZA | OC_PZAI
    | OC_PZW | OC_SSO | OC_SSS | OC_UPAI | OC_UPA | OC_UPAO | OC_UPN | OC_UPO | OC_ZSO
    | OC_ZSS

fun operator_command_code_name :: "OperatorCommandCode \<Rightarrow> string" where
  "operator_command_code_name OC_SES = ''SES''"
| "operator_command_code_name OC_SEO = ''SEO''"
| "operator_command_code_name OC_SZI = ''SZI''"
| "operator_command_code_name OC_SZW = ''SZW''"
| "operator_command_code_name OC_SZN = ''SZN''"
| "operator_command_code_name OC_SZO = ''SZO''"
| "operator_command_code_name OC_SAM = ''SAM''"
| "operator_command_code_name OC_SAW = ''SAW''"
| "operator_command_code_name OC_ZWP = ''ZWP''"
| "operator_command_code_name OC_ZWM = ''ZWM''"
| "operator_command_code_name OC_ZWS = ''ZWS''"
| "operator_command_code_name OC_ZWO = ''ZWO''"
| "operator_command_code_name OC_ITS = ''ITS''"
| "operator_command_code_name OC_ITO = ''ITO''"
| "operator_command_code_name OC_ZWB = ''ZWB''"
| "operator_command_code_name OC_ZBP = ''ZBP''"
| "operator_command_code_name OC_ZBM = ''ZBM''"
| "operator_command_code_name OC_ZRI = ''ZRI''"
| "operator_command_code_name OC_ZRK = ''ZRK''"
| "operator_command_code_name OC_OPS = ''OPS''"
| "operator_command_code_name OC_SLI = ''SLI''"
| "operator_command_code_name OC_SLK = ''SLK''"
| "operator_command_code_name OC_BLW = ''BLW''"
| "operator_command_code_name OC_BLP = ''BLP''"
| "operator_command_code_name OC_BLO = ''BLO''"
| "operator_command_code_name OC_BLZ = ''BLZ''"
| "operator_command_code_name OC_BLAI = ''BLAI''"
| "operator_command_code_name OC_BLA = ''BLA''"
| "operator_command_code_name OC_BLS = ''BLS''"
| "operator_command_code_name OC_OST = ''OST''"
| "operator_command_code_name OC_ZKB = ''ZKB''"
| "operator_command_code_name OC_PZM = ''PZM''"
| "operator_command_code_name OC_OZK = ''OZK''"
| "operator_command_code_name OC_ZESI = ''ZESI''"
| "operator_command_code_name OC_ZES = ''ZES''"
| "operator_command_code_name OC_PZZI = ''PZZI''"
| "operator_command_code_name OC_PZZ = ''PZZ''"
| "operator_command_code_name OC_POZ = ''POZ''"
| "operator_command_code_name OC_DPOI = ''DPOI''"
| "operator_command_code_name OC_DPO = ''DPO''"
| "operator_command_code_name OC_DKOI = ''DKOI''"
| "operator_command_code_name OC_DKO = ''DKO''"
| "operator_command_code_name OC_DKPI = ''DKPI''"
| "operator_command_code_name OC_DKP = ''DKP''"
| "operator_command_code_name OC_BPZ = ''BPZ''"
| "operator_command_code_name OC_DPWI = ''DPWI''"
| "operator_command_code_name OC_DPW = ''DPW''"
| "operator_command_code_name OC_BTW = ''BTW''"
| "operator_command_code_name OC_BTO = ''BTO''"
| "operator_command_code_name OC_BPO = ''BPO''"
| "operator_command_code_name OC_BKO = ''BKO''"
| "operator_command_code_name OC_PDZ = ''PDZ''"
| "operator_command_code_name OC_PDO = ''PDO''"
| "operator_command_code_name OC_PZT = ''PZT''"
| "operator_command_code_name OC_PAZ = ''PAZ''"
| "operator_command_code_name OC_PZO = ''PZO''"
| "operator_command_code_name OC_PDII = ''PDII''"
| "operator_command_code_name OC_PDI = ''PDI''"
| "operator_command_code_name OC_MRS = ''MRS''"
| "operator_command_code_name OC_ODS = ''ODS''"
| "operator_command_code_name OC_ZAL = ''ZAL''"
| "operator_command_code_name OC_POC = ''POC''"
| "operator_command_code_name OC_PZA = ''PZA''"
| "operator_command_code_name OC_PZAI = ''PZAI''"
| "operator_command_code_name OC_PZW = ''PZW''"
| "operator_command_code_name OC_SSO = ''SSO''"
| "operator_command_code_name OC_SSS = ''SSS''"
| "operator_command_code_name OC_UPAI = ''UPAI''"
| "operator_command_code_name OC_UPA = ''UPA''"
| "operator_command_code_name OC_UPAO = ''UPAO''"
| "operator_command_code_name OC_UPN = ''UPN''"
| "operator_command_code_name OC_UPO = ''UPO''"
| "operator_command_code_name OC_ZSO = ''ZSO''"
| "operator_command_code_name OC_ZSS = ''ZSS''"

end
