(* ===== verification/Ml8_Codes.thy ===== *)
theory Ml8_Codes
  imports Prelude
begin

text \<open>
  The ML8 command codes of \<^verbatim>\<open>engine/include/engine/core/command.hpp\<close>
  (\<^verbatim>\<open>enum class Ml8CommandCode\<close>) and their logging names
  (\<^verbatim>\<open>ml8_command_code_name\<close>).
\<close>

datatype (plugins only: size code) Ml8CommandCode =
    ML8_AK | ML8_AZK | ML8_BLZ | ML8_BLZC | ML8_DOP | ML8_DOPS | ML8_DPZ | ML8_HMI | ML8_KRA
    | ML8_KSR | ML8_LKA | ML8_LOFF | ML8_MAN | ML8_NPU | ML8_NPW | ML8_NPZ | ML8_OGI
    | ML8_OP | ML8_OPO | ML8_OSTOP | ML8_OTB | ML8_OTE | ML8_OTEYYY | ML8_OTP | ML8_OTPON
    | ML8_OT | ML8_OTZ | ML8_OUZ | ML8_OUZ_DR | ML8_OUZ_DZ | ML8_OUZ_JN | ML8_OUZ_PJ
    | ML8_OUZ_X | ML8_OUZ_ZN | ML8_OWBL | ML8_OZCZ | ML8_P | ML8_POC | ML8_POT | ML8_PZK
    | ML8_PPN | ML8_PPZ | ML8_PZ | ML8_PZB | ML8_PZS | ML8_SPEC | ML8_STJ | ML8_STOJ
    | ML8_STOP | ML8_SZ | ML8_NSZ | ML8_WBL | ML8_WPN | ML8_WPZ | ML8_WZ | ML8_ZCZ | ML8_ZDM
    | ML8_ZDP | ML8_ZEROLO | ML8_ZI | ML8_ZO | ML8_ZPO | ML8_ZW | ML8_ZWBL | ML8_Z
    | ML8_Z_DR | ML8_Z_DZ | ML8_Z_JN | ML8_Z_PJ | ML8_Z_X | ML8_Z_ZN

fun ml8_command_code_name :: "Ml8CommandCode \<Rightarrow> string" where
  "ml8_command_code_name ML8_AK = ''AK''"
| "ml8_command_code_name ML8_AZK = ''AZK''"
| "ml8_command_code_name ML8_BLZ = ''BLZ''"
| "ml8_command_code_name ML8_BLZC = ''BLZC''"
| "ml8_command_code_name ML8_DOP = ''DOP''"
| "ml8_command_code_name ML8_DOPS = ''DOPS''"
| "ml8_command_code_name ML8_DPZ = ''DPZ''"
| "ml8_command_code_name ML8_HMI = ''HMI''"
| "ml8_command_code_name ML8_KRA = ''KRA''"
| "ml8_command_code_name ML8_KSR = ''KSR''"
| "ml8_command_code_name ML8_LKA = ''LKA''"
| "ml8_command_code_name ML8_LOFF = ''LOFF''"
| "ml8_command_code_name ML8_MAN = ''MAN''"
| "ml8_command_code_name ML8_NPU = ''NPU''"
| "ml8_command_code_name ML8_NPW = ''NPW''"
| "ml8_command_code_name ML8_NPZ = ''NPZ''"
| "ml8_command_code_name ML8_OGI = ''OGI''"
| "ml8_command_code_name ML8_OP = ''OP''"
| "ml8_command_code_name ML8_OPO = ''OPO''"
| "ml8_command_code_name ML8_OSTOP = ''OSTOP''"
| "ml8_command_code_name ML8_OTB = ''OTB''"
| "ml8_command_code_name ML8_OTE = ''OTE''"
| "ml8_command_code_name ML8_OTEYYY = ''OTEYYY''"
| "ml8_command_code_name ML8_OTP = ''OTP''"
| "ml8_command_code_name ML8_OTPON = ''OTPON''"
| "ml8_command_code_name ML8_OT = ''OT''"
| "ml8_command_code_name ML8_OTZ = ''OTZ''"
| "ml8_command_code_name ML8_OUZ = ''OUZ''"
| "ml8_command_code_name ML8_OUZ_DR = ''OUZ_DR''"
| "ml8_command_code_name ML8_OUZ_DZ = ''OUZ_DZ''"
| "ml8_command_code_name ML8_OUZ_JN = ''OUZ_JN''"
| "ml8_command_code_name ML8_OUZ_PJ = ''OUZ_PJ''"
| "ml8_command_code_name ML8_OUZ_X = ''OUZ_X''"
| "ml8_command_code_name ML8_OUZ_ZN = ''OUZ_ZN''"
| "ml8_command_code_name ML8_OWBL = ''OWBL''"
| "ml8_command_code_name ML8_OZCZ = ''OZCZ''"
| "ml8_command_code_name ML8_P = ''P''"
| "ml8_command_code_name ML8_POC = ''POC''"
| "ml8_command_code_name ML8_POT = ''POT''"
| "ml8_command_code_name ML8_PZK = ''PZK''"
| "ml8_command_code_name ML8_PPN = ''PPN''"
| "ml8_command_code_name ML8_PPZ = ''PPZ''"
| "ml8_command_code_name ML8_PZ = ''PZ''"
| "ml8_command_code_name ML8_PZB = ''PZB''"
| "ml8_command_code_name ML8_PZS = ''PZS''"
| "ml8_command_code_name ML8_SPEC = ''SPEC''"
| "ml8_command_code_name ML8_STJ = ''STJ''"
| "ml8_command_code_name ML8_STOJ = ''STOJ''"
| "ml8_command_code_name ML8_STOP = ''STOP''"
| "ml8_command_code_name ML8_SZ = ''SZ''"
| "ml8_command_code_name ML8_NSZ = ''NSZ''"
| "ml8_command_code_name ML8_WBL = ''WBL''"
| "ml8_command_code_name ML8_WPN = ''WPN''"
| "ml8_command_code_name ML8_WPZ = ''WPZ''"
| "ml8_command_code_name ML8_WZ = ''WZ''"
| "ml8_command_code_name ML8_ZCZ = ''ZCZ''"
| "ml8_command_code_name ML8_ZDM = ''ZDM''"
| "ml8_command_code_name ML8_ZDP = ''ZDP''"
| "ml8_command_code_name ML8_ZEROLO = ''ZEROLO''"
| "ml8_command_code_name ML8_ZI = ''ZI''"
| "ml8_command_code_name ML8_ZO = ''ZO''"
| "ml8_command_code_name ML8_ZPO = ''ZPO''"
| "ml8_command_code_name ML8_ZW = ''ZW''"
| "ml8_command_code_name ML8_ZWBL = ''ZWBL''"
| "ml8_command_code_name ML8_Z = ''Z''"
| "ml8_command_code_name ML8_Z_DR = ''Z_DR''"
| "ml8_command_code_name ML8_Z_DZ = ''Z_DZ''"
| "ml8_command_code_name ML8_Z_JN = ''Z_JN''"
| "ml8_command_code_name ML8_Z_PJ = ''Z_PJ''"
| "ml8_command_code_name ML8_Z_X = ''Z_X''"
| "ml8_command_code_name ML8_Z_ZN = ''Z_ZN''"

end
