(* ===== verification/Commands.thy ===== *)
theory Commands
  imports Types Operator_Codes Ml8_Codes
begin

text \<open>
  Operator command payloads and their envelope, from
  \<^verbatim>\<open>engine/include/engine/core/command.hpp\<close>.  The variant
  \<^verbatim>\<open>Command\<close> is a datatype with one constructor per payload struct; the
  constructor's arguments are the struct's fields in their order.
\<close>

datatype Shl12Op = SHL_BLW | SHL_BLP | SHL_BLO | SHL_BLZ | SHL_BLAI | SHL_BLA | SHL_OPS

datatype OperatorTargetKind =
    TK_SIGNAL | TK_SWITCH | TK_DERAILER | TK_TRACK_SECTION | TK_BLOCK_SECTION
  | TK_AXLE_COUNTER_SYSTEM | TK_STATION | TK_ROUTE | TK_LEVEL_CROSSING
  | TK_INTERLOCKING_COMPUTER | TK_POWER_SUPPLY

datatype (plugins only: size code) Command =
    SetSwitchPositionCmd UID SwitchPosition
  | SetSignalAspectCmd UID SignalAspect
  | SetDerailerPositionCmd UID DerailerState
  | SetBlockSectionCmd UID BlockSectionState
  | RequestRouteCmd UID UID
  | CancelRouteCmd UID bool
  | AcknowledgeAlarmCmd UID
  | SetBlockDirectionCmd UID Shl12Op
  | InitAxleCounterResetCmd UID
  | ResetAxleCounterCmd UID
  | OperatorCommandCmd UID OperatorTargetKind OperatorCommandCode
  | Ml8CommandCmd UID OperatorTargetKind Ml8CommandCode

record CommandMeta =
  meta_seq_id :: u32
  meta_priority :: CommandPriority
  meta_player_id :: PlayerID
  meta_dispatch_area_uid :: UID
  meta_timestamp_us :: u64

record EnvelopedCommand =
  env_meta :: CommandMeta
  env_payload :: Command

end
