(* ===== verification/Track_Model.thy ===== *)
theory Track_Model
  imports Commands
begin

text \<open>
  The topology and runtime device model of
  \<^verbatim>\<open>engine/include/engine/core/track_model.hpp\<close>: one record per struct, the static
  fields first and the runtime fields after them, in the order of the source.
\<close>

record OperatorCommandRuntimeState =
  op_stopped :: bool
  op_substitute_initialized :: bool
  op_substitute_active :: bool
  op_automatic_route_enabled :: bool
  op_clamped :: bool
  op_traffic_closed :: bool
  op_detection_bypassed :: bool
  op_special_initialized :: bool
  op_special_active :: bool
  op_axle_reset_initialized :: bool
  op_active_ml8_command :: "Ml8CommandCode option"
  op_active_command_timeout_tick :: "u64 option"

definition default_operator_state :: OperatorCommandRuntimeState where
  "default_operator_state =
     \<lparr>op_stopped = False, op_substitute_initialized = False, op_substitute_active = False,
      op_automatic_route_enabled = False, op_clamped = False, op_traffic_closed = False,
      op_detection_bypassed = False, op_special_initialized = False, op_special_active = False,
      op_axle_reset_initialized = False, op_active_ml8_command = None,
      op_active_command_timeout_tick = None\<rparr>"

datatype CounterKind = COUNTER_IT | COUNTER_IZ

record TrackPort =
  port_neighbor_uid :: UID
  port_counter_uid :: UID
  port_counter_kind :: CounterKind
  port_signal_uids :: "UID list"

record TrackSection =
  ts_uid :: UID
  ts_pid :: string
  ts_station_uid :: UID
  ts_side_a :: TrackPort
  ts_side_b :: TrackPort
  ts_length_m :: float32
  ts_electrified :: bool
  ts_max_speed_kmh :: int
  ts_station_section :: bool
  ts_occupancy :: TrackOccupancy
  ts_axle_count :: int
  ts_train_uid :: "UID option"
  ts_operator_state :: OperatorCommandRuntimeState

record SwitchLeg =
  leg_neighbor_uid :: UID
  leg_iz_uid :: UID
  leg_signal_uids :: "UID list"

record Switch =
  sw_uid :: UID
  sw_pid :: string
  sw_station_uid :: UID
  sw_type_id :: string
  sw_trunk :: SwitchLeg
  sw_straight :: SwitchLeg
  sw_divergent :: SwitchLeg
  sw_length_m :: float32
  sw_max_speed_straight_kmh :: int
  sw_max_speed_divergent_kmh :: int
  sw_position :: SwitchPosition
  sw_control_lost :: bool
  sw_occupancy :: TrackOccupancy
  sw_axle_count :: int
  sw_locked_by_route_uid :: "UID option"
  sw_moving_ticks_remaining :: int
  sw_operator_state :: OperatorCommandRuntimeState

datatype SignalType = SIG_ENTRY | SIG_DEPARTURE | SIG_BLOCK | SIG_SHUNTING

record Signal =
  sig_uid :: UID
  sig_pid :: string
  sig_station_uid :: UID
  sig_type_id :: string
  sig_type :: SignalType
  sig_governs_section_uid :: UID
  sig_current_aspect :: SignalAspect
  sig_locked_by_route_uid :: "UID option"
  sig_operator_state :: OperatorCommandRuntimeState

record Derailer =
  dr_uid :: UID
  dr_pid :: string
  dr_station_uid :: UID
  dr_type_id :: string
  dr_guards_section_uid :: UID
  dr_state :: DerailerState
  dr_locked_by_route_uid :: "UID option"
  dr_operator_state :: OperatorCommandRuntimeState

record BlockSection =
  bs_uid :: UID
  bs_pid :: string
  bs_type_id :: string
  bs_station_uid :: UID
  bs_neighbor_station_uid :: UID
  bs_line_number :: int
  bs_departure_signal_uid :: UID
  bs_entry_signal_uid :: UID
  bs_szlak_section_uids :: "UID list"
  bs_state :: BlockSectionState
  bs_direction :: BlockDirectionState
  bs_axle_count :: int
  bs_operator_state :: OperatorCommandRuntimeState
  bs_reset_init_tick :: "u64 option"

record RouteState =
  rt_uid :: UID
  rt_from_signal_uid :: UID
  rt_to_signal_uid :: UID
  rt_section_uids :: "UID list"
  rt_switch_uids :: "UID list"
  rt_derailer_uids :: "UID list"
  rt_created_tick :: u64
  rt_train_entered :: bool
  rt_overlap_release_tick :: "u64 option"

record AlarmState =
  al_uid :: UID
  al_kind :: string
  al_object_uid :: UID
  al_message :: string
  al_timestamp_us :: u64

record LevelCrossing =
  lx_uid :: UID
  lx_pid :: string
  lx_station_uid :: UID
  lx_status :: LevelCrossingStatus
  lx_warning_start_tick :: "u64 option"
  lx_warning_duration_ticks :: u32

record BoundaryNode =
  bn_uid :: UID
  bn_pid :: string
  bn_station_uid :: UID
  bn_description :: string

end
