(* ===== verification/Engine_State.thy ===== *)
theory Engine_State
  imports Track_Model
begin

text \<open>
  The mutable world state of one session: \<^verbatim>\<open>class EngineState\<close> of
  \<^verbatim>\<open>engine/include/engine/core/engine_state.hpp\<close> and
  \<^verbatim>\<open>engine/src/engine_state.cpp\<close>.  Each private map is a field of the record; the
  \<^verbatim>\<open>find_*\<close> methods return an option for the nullable pointer, the
  \<^verbatim>\<open>for_each_*\<close> methods visit the list of values, and each mutator returns the updated
  record.  The mutators share one shape, a modification of the entry under a key that does nothing
  when the key is absent, so every lookup after a mutator is a simplification rule of the collection
  \<open>engine_simps\<close>.  The theory ends with the two facts the rest of the development rests
  on: the well-formedness of the maps and the immutability of the loaded topology.
\<close>

section \<open>State\<close>

record EngineState =
  es_session_id :: string
  es_current_tick :: u64
  es_boundary_nodes :: "(UID, BoundaryNode) umap"
  es_track_sections :: "(UID, TrackSection) umap"
  es_switches :: "(UID, Switch) umap"
  es_signals :: "(UID, Signal) umap"
  es_derailers :: "(UID, Derailer) umap"
  es_block_sections :: "(UID, BlockSection) umap"
  es_routes :: "(UID, RouteState) umap"
  es_alarms :: "(UID, AlarmState) umap"
  es_level_crossings :: "(UID, LevelCrossing) umap"

definition empty_state :: EngineState where
  "empty_state =
     \<lparr>es_session_id = [], es_current_tick = 0, es_boundary_nodes = [], es_track_sections = [],
      es_switches = [], es_signals = [], es_derailers = [], es_block_sections = [],
      es_routes = [], es_alarms = [], es_level_crossings = []\<rparr>"

section \<open>The read-only view\<close>

definition find_boundary_node :: "EngineState \<Rightarrow> UID \<Rightarrow> BoundaryNode option" where
  "find_boundary_node s uid = um_find (es_boundary_nodes s) uid"

definition find_track_section :: "EngineState \<Rightarrow> UID \<Rightarrow> TrackSection option" where
  "find_track_section s uid = um_find (es_track_sections s) uid"

definition find_switch :: "EngineState \<Rightarrow> UID \<Rightarrow> Switch option" where
  "find_switch s uid = um_find (es_switches s) uid"

definition find_signal :: "EngineState \<Rightarrow> UID \<Rightarrow> Signal option" where
  "find_signal s uid = um_find (es_signals s) uid"

definition find_derailer :: "EngineState \<Rightarrow> UID \<Rightarrow> Derailer option" where
  "find_derailer s uid = um_find (es_derailers s) uid"

definition find_block_section :: "EngineState \<Rightarrow> UID \<Rightarrow> BlockSection option" where
  "find_block_section s uid = um_find (es_block_sections s) uid"

definition find_level_crossing :: "EngineState \<Rightarrow> UID \<Rightarrow> LevelCrossing option" where
  "find_level_crossing s uid = um_find (es_level_crossings s) uid"

definition find_route :: "EngineState \<Rightarrow> UID \<Rightarrow> RouteState option" where
  "find_route s uid = um_find (es_routes s) uid"

definition find_alarm :: "EngineState \<Rightarrow> UID \<Rightarrow> AlarmState option" where
  "find_alarm s uid = um_find (es_alarms s) uid"

definition for_each_track_section :: "EngineState \<Rightarrow> TrackSection list" where
  "for_each_track_section s = um_values (es_track_sections s)"

definition for_each_switch :: "EngineState \<Rightarrow> Switch list" where
  "for_each_switch s = um_values (es_switches s)"

definition for_each_signal :: "EngineState \<Rightarrow> Signal list" where
  "for_each_signal s = um_values (es_signals s)"

definition for_each_derailer :: "EngineState \<Rightarrow> Derailer list" where
  "for_each_derailer s = um_values (es_derailers s)"

definition for_each_block_section :: "EngineState \<Rightarrow> BlockSection list" where
  "for_each_block_section s = um_values (es_block_sections s)"

definition for_each_route :: "EngineState \<Rightarrow> RouteState list" where
  "for_each_route s = um_values (es_routes s)"

definition for_each_alarm :: "EngineState \<Rightarrow> AlarmState list" where
  "for_each_alarm s = um_values (es_alarms s)"

definition for_each_boundary_node :: "EngineState \<Rightarrow> BoundaryNode list" where
  "for_each_boundary_node s = um_values (es_boundary_nodes s)"

definition for_each_level_crossing :: "EngineState \<Rightarrow> LevelCrossing list" where
  "for_each_level_crossing s = um_values (es_level_crossings s)"

section \<open>Loading\<close>

definition set_session_id :: "string \<Rightarrow> EngineState \<Rightarrow> EngineState" where
  "set_session_id sid s = s\<lparr>es_session_id := sid\<rparr>"

definition set_current_tick :: "u64 \<Rightarrow> EngineState \<Rightarrow> EngineState" where
  "set_current_tick tick s = s\<lparr>es_current_tick := tick\<rparr>"

definition insert_boundary_node :: "BoundaryNode \<Rightarrow> EngineState \<Rightarrow> EngineState" where
  "insert_boundary_node n s = s\<lparr>es_boundary_nodes := um_emplace (bn_uid n) n (es_boundary_nodes s)\<rparr>"

definition insert_track_section :: "TrackSection \<Rightarrow> EngineState \<Rightarrow> EngineState" where
  "insert_track_section t s = s\<lparr>es_track_sections := um_emplace (ts_uid t) t (es_track_sections s)\<rparr>"

definition insert_switch :: "Switch \<Rightarrow> EngineState \<Rightarrow> EngineState" where
  "insert_switch sw s = s\<lparr>es_switches := um_emplace (sw_uid sw) sw (es_switches s)\<rparr>"

definition insert_signal :: "Signal \<Rightarrow> EngineState \<Rightarrow> EngineState" where
  "insert_signal sig s = s\<lparr>es_signals := um_emplace (sig_uid sig) sig (es_signals s)\<rparr>"

definition insert_derailer :: "Derailer \<Rightarrow> EngineState \<Rightarrow> EngineState" where
  "insert_derailer d s = s\<lparr>es_derailers := um_emplace (dr_uid d) d (es_derailers s)\<rparr>"

definition insert_block_section :: "BlockSection \<Rightarrow> EngineState \<Rightarrow> EngineState" where
  "insert_block_section b s = s\<lparr>es_block_sections := um_emplace (bs_uid b) b (es_block_sections s)\<rparr>"

definition insert_level_crossing :: "LevelCrossing \<Rightarrow> EngineState \<Rightarrow> EngineState" where
  "insert_level_crossing lx s =
     s\<lparr>es_level_crossings := um_emplace (lx_uid lx) lx (es_level_crossings s)\<rparr>"

section \<open>Runtime mutators\<close>

text \<open>
  The shape all mutators share: look the key up, change the found entry in place, do nothing when
  there is none.
\<close>

definition modify_track_section :: "UID \<Rightarrow> (TrackSection \<Rightarrow> TrackSection) \<Rightarrow> EngineState \<Rightarrow> EngineState" where
  "modify_track_section uid f s = s\<lparr>es_track_sections := um_modify uid f (es_track_sections s)\<rparr>"

definition modify_switch :: "UID \<Rightarrow> (Switch \<Rightarrow> Switch) \<Rightarrow> EngineState \<Rightarrow> EngineState" where
  "modify_switch uid f s = s\<lparr>es_switches := um_modify uid f (es_switches s)\<rparr>"

definition modify_signal :: "UID \<Rightarrow> (Signal \<Rightarrow> Signal) \<Rightarrow> EngineState \<Rightarrow> EngineState" where
  "modify_signal uid f s = s\<lparr>es_signals := um_modify uid f (es_signals s)\<rparr>"

definition modify_derailer :: "UID \<Rightarrow> (Derailer \<Rightarrow> Derailer) \<Rightarrow> EngineState \<Rightarrow> EngineState" where
  "modify_derailer uid f s = s\<lparr>es_derailers := um_modify uid f (es_derailers s)\<rparr>"

definition modify_block_section :: "UID \<Rightarrow> (BlockSection \<Rightarrow> BlockSection) \<Rightarrow> EngineState \<Rightarrow> EngineState" where
  "modify_block_section uid f s = s\<lparr>es_block_sections := um_modify uid f (es_block_sections s)\<rparr>"

definition modify_level_crossing :: "UID \<Rightarrow> (LevelCrossing \<Rightarrow> LevelCrossing) \<Rightarrow> EngineState \<Rightarrow> EngineState" where
  "modify_level_crossing uid f s = s\<lparr>es_level_crossings := um_modify uid f (es_level_crossings s)\<rparr>"

definition modify_route :: "UID \<Rightarrow> (RouteState \<Rightarrow> RouteState) \<Rightarrow> EngineState \<Rightarrow> EngineState" where
  "modify_route uid f s = s\<lparr>es_routes := um_modify uid f (es_routes s)\<rparr>"

definition apply_track_section_occupancy ::
    "UID \<Rightarrow> TrackOccupancy \<Rightarrow> int \<Rightarrow> EngineState \<Rightarrow> EngineState" where
  "apply_track_section_occupancy uid occ axle_count s =
     modify_track_section uid
       (\<lambda>t. t\<lparr>ts_occupancy := occ, ts_axle_count := axle_count\<rparr>) s"

definition apply_level_crossing_status ::
    "UID \<Rightarrow> LevelCrossingStatus \<Rightarrow> EngineState \<Rightarrow> EngineState" where
  "apply_level_crossing_status uid status s =
     modify_level_crossing uid
       (\<lambda>lx. lx\<lparr>lx_status := status, lx_warning_start_tick := (if status = LX_WARNING then Some (es_current_tick s) else None)\<rparr>) s"

definition apply_switch_position :: "UID \<Rightarrow> SwitchPosition \<Rightarrow> int \<Rightarrow> EngineState \<Rightarrow> EngineState" where
  "apply_switch_position uid pos moving_ticks s =
     modify_switch uid
       (\<lambda>sw. sw\<lparr>sw_position := pos, sw_moving_ticks_remaining := moving_ticks\<rparr>) s"

definition apply_switch_control :: "UID \<Rightarrow> bool \<Rightarrow> EngineState \<Rightarrow> EngineState" where
  "apply_switch_control uid control_lost s =
     modify_switch uid
       (\<lambda>sw. sw\<lparr>sw_control_lost := control_lost\<rparr>) s"

definition apply_switch_lock :: "UID \<Rightarrow> UID option \<Rightarrow> EngineState \<Rightarrow> EngineState" where
  "apply_switch_lock uid route_uid s =
     modify_switch uid
       (\<lambda>sw. sw\<lparr>sw_locked_by_route_uid := route_uid\<rparr>) s"

definition apply_switch_occupancy :: "UID \<Rightarrow> TrackOccupancy \<Rightarrow> int \<Rightarrow> EngineState \<Rightarrow> EngineState" where
  "apply_switch_occupancy uid occ axle_count s =
     modify_switch uid
       (\<lambda>sw. sw\<lparr>sw_occupancy := occ, sw_axle_count := axle_count\<rparr>) s"

definition apply_signal_aspect :: "UID \<Rightarrow> SignalAspect \<Rightarrow> EngineState \<Rightarrow> EngineState" where
  "apply_signal_aspect uid aspect s =
     modify_signal uid
       (\<lambda>sig. sig\<lparr>sig_current_aspect := aspect\<rparr>) s"

definition apply_signal_lock :: "UID \<Rightarrow> UID option \<Rightarrow> EngineState \<Rightarrow> EngineState" where
  "apply_signal_lock uid route_uid s =
     modify_signal uid
       (\<lambda>sig. sig\<lparr>sig_locked_by_route_uid := route_uid\<rparr>) s"

definition apply_derailer_state :: "UID \<Rightarrow> DerailerState \<Rightarrow> EngineState \<Rightarrow> EngineState" where
  "apply_derailer_state uid st s =
     modify_derailer uid
       (\<lambda>d. d\<lparr>dr_state := st\<rparr>) s"

definition apply_derailer_lock :: "UID \<Rightarrow> UID option \<Rightarrow> EngineState \<Rightarrow> EngineState" where
  "apply_derailer_lock uid route_uid s =
     modify_derailer uid
       (\<lambda>d. d\<lparr>dr_locked_by_route_uid := route_uid\<rparr>) s"

definition apply_block_section_state :: "UID \<Rightarrow> BlockSectionState \<Rightarrow> EngineState \<Rightarrow> EngineState" where
  "apply_block_section_state uid st s =
     modify_block_section uid
       (\<lambda>b. b\<lparr>bs_state := st\<rparr>) s"

definition apply_block_section_direction ::
    "UID \<Rightarrow> BlockDirectionState \<Rightarrow> EngineState \<Rightarrow> EngineState" where
  "apply_block_section_direction uid dir s =
     modify_block_section uid
       (\<lambda>b. b\<lparr>bs_direction := dir, bs_reset_init_tick := (if dir = RESET_PENDING then Some (es_current_tick s) else None)\<rparr>) s"

definition apply_block_section_axle_count :: "UID \<Rightarrow> int \<Rightarrow> EngineState \<Rightarrow> EngineState" where
  "apply_block_section_axle_count uid axle_count s =
     modify_block_section uid
       (\<lambda>b. b\<lparr>bs_axle_count := axle_count\<rparr>) s"

text \<open>
  The flag update of one operator command.  Each group of \<^verbatim>\<open>case\<close> labels that shares
  a body is one membership test, in the order of the switch statement.
\<close>

definition apply_operator_state ::
    "OperatorCommandCode \<Rightarrow> bool \<Rightarrow> OperatorCommandRuntimeState \<Rightarrow> OperatorCommandRuntimeState" where
  "apply_operator_state code active st =
    (if code = OC_SES then st\<lparr>op_stopped := active\<rparr>
     else if code = OC_SEO then st\<lparr>op_stopped := False\<rparr>
     else if code = OC_SZI then
       st\<lparr>op_substitute_initialized := active, op_special_initialized := active\<rparr>
     else if code \<in> {OC_SZW, OC_SZN} then
       st\<lparr>op_substitute_initialized := False, op_substitute_active := active,
          op_special_active := active\<rparr>
     else if code = OC_SZO then
       st\<lparr>op_substitute_initialized := False, op_substitute_active := False,
          op_special_initialized := False, op_special_active := False\<rparr>
     else if code = OC_SAM then st\<lparr>op_automatic_route_enabled := active\<rparr>
     else if code = OC_SAW then st\<lparr>op_automatic_route_enabled := False\<rparr>
     else if code = OC_ZWS then st\<lparr>op_clamped := active\<rparr>
     else if code = OC_ZWO then st\<lparr>op_clamped := False\<rparr>
     else if code \<in> {OC_ITS, OC_BLS} then st\<lparr>op_traffic_closed := active\<rparr>
     else if code \<in> {OC_ITO, OC_OST} then st\<lparr>op_traffic_closed := False\<rparr>
     else if code = OC_ZWB then st\<lparr>op_detection_bypassed := active\<rparr>
     else if code \<in> {OC_ZBP, OC_ZBM} then st\<lparr>op_detection_bypassed := False\<rparr>
     else if code \<in> {OC_ZRI, OC_BLAI, OC_ZKB, OC_ZESI, OC_PZZI, OC_DPOI, OC_DKOI, OC_DKPI,
                     OC_DPWI, OC_PDII, OC_PZAI, OC_UPAI} then
       st\<lparr>op_special_initialized := active\<rparr>
     else if code \<in> {OC_ZRK, OC_BLA, OC_ZES, OC_PZZ, OC_DPO, OC_DKO, OC_DKP, OC_DPW, OC_PDI,
                     OC_PZA, OC_PZM} then
       st\<lparr>op_special_initialized := False, op_special_active := active\<rparr>
     else if code \<in> {OC_OPS, OC_OZK, OC_BTO, OC_PDO, OC_UPAO, OC_ZSO} then
       st\<lparr>op_special_initialized := False, op_special_active := False,
          op_axle_reset_initialized := False\<rparr>
     else if code = OC_SLI then
       st\<lparr>op_axle_reset_initialized := active, op_special_initialized := active\<rparr>
     else if code = OC_SLK then
       st\<lparr>op_axle_reset_initialized := False, op_special_initialized := False\<rparr>
     else st\<lparr>op_special_active := active\<rparr>)"

text \<open>
  The dispatch on the target kind that both command-state mutators share: a function on the
  operator state of one device is applied to the device of that kind, where the kind
  \<^verbatim>\<open>SWITCH\<close> falls back to a derailer when no switch has the UID.
\<close>

definition on_target ::
    "(OperatorCommandRuntimeState \<Rightarrow> OperatorCommandRuntimeState) \<Rightarrow> UID \<Rightarrow> OperatorTargetKind \<Rightarrow>
     EngineState \<Rightarrow> EngineState" where
  "on_target f uid target_kind s =
    (let on_derailer = modify_derailer uid (\<lambda>x. x\<lparr>dr_operator_state := f (dr_operator_state x)\<rparr>);
         on_switch = modify_switch uid (\<lambda>x. x\<lparr>sw_operator_state := f (sw_operator_state x)\<rparr>)
     in case target_kind of
          TK_SIGNAL \<Rightarrow> modify_signal uid (\<lambda>x. x\<lparr>sig_operator_state := f (sig_operator_state x)\<rparr>) s
        | TK_SWITCH \<Rightarrow> if find_switch s uid = None then on_derailer (on_switch s) else on_switch s
        | TK_DERAILER \<Rightarrow> on_derailer s
        | TK_TRACK_SECTION \<Rightarrow>
            modify_track_section uid (\<lambda>x. x\<lparr>ts_operator_state := f (ts_operator_state x)\<rparr>) s
        | TK_BLOCK_SECTION \<Rightarrow>
            modify_block_section uid (\<lambda>x. x\<lparr>bs_operator_state := f (bs_operator_state x)\<rparr>) s
        | _ \<Rightarrow> s)"

definition apply_operator_command_state ::
    "UID \<Rightarrow> OperatorTargetKind \<Rightarrow> OperatorCommandCode \<Rightarrow> bool \<Rightarrow> EngineState \<Rightarrow> EngineState" where
  "apply_operator_command_state uid target_kind code active s =
     on_target (apply_operator_state code active) uid target_kind s"

definition apply_ml8_command_state ::
    "UID \<Rightarrow> OperatorTargetKind \<Rightarrow> Ml8CommandCode \<Rightarrow> bool \<Rightarrow> EngineState \<Rightarrow> EngineState" where
  "apply_ml8_command_state uid target_kind code active s =
     on_target (\<lambda>st. st\<lparr>op_active_ml8_command := (if active then Some code else None)\<rparr>)
       uid target_kind s"

definition apply_axle_counter_reset :: "UID \<Rightarrow> OperatorTargetKind \<Rightarrow> EngineState \<Rightarrow> EngineState" where
  "apply_axle_counter_reset uid target_kind s =
     (case target_kind of
        TK_SWITCH \<Rightarrow> apply_switch_occupancy uid FREE 0 s
      | TK_TRACK_SECTION \<Rightarrow> apply_track_section_occupancy uid FREE 0 s
      | TK_BLOCK_SECTION \<Rightarrow> apply_block_section_axle_count uid 0 s
      | _ \<Rightarrow> s)"

definition add_route :: "RouteState \<Rightarrow> EngineState \<Rightarrow> EngineState" where
  "add_route route s = s\<lparr>es_routes := um_emplace (rt_uid route) route (es_routes s)\<rparr>"

definition remove_route :: "UID \<Rightarrow> EngineState \<Rightarrow> EngineState" where
  "remove_route route_uid s = s\<lparr>es_routes := um_erase route_uid (es_routes s)\<rparr>"

definition add_alarm :: "AlarmState \<Rightarrow> EngineState \<Rightarrow> EngineState" where
  "add_alarm alarm s = s\<lparr>es_alarms := um_emplace (al_uid alarm) alarm (es_alarms s)\<rparr>"

definition remove_alarm :: "UID \<Rightarrow> EngineState \<Rightarrow> EngineState" where
  "remove_alarm alarm_uid s = s\<lparr>es_alarms := um_erase alarm_uid (es_alarms s)\<rparr>"

section \<open>Lookup after a mutator\<close>

lemmas find_defs = find_boundary_node_def find_track_section_def find_switch_def find_signal_def
  find_derailer_def find_block_section_def find_level_crossing_def find_route_def find_alarm_def

lemma find_modify_track_section [engine_simps]:
  "find_track_section (modify_track_section u f s) v = (if v = u then map_option f (find_track_section s u) else find_track_section s v)"
  "find_boundary_node (modify_track_section u f s) v = find_boundary_node s v"
  "find_switch (modify_track_section u f s) v = find_switch s v"
  "find_signal (modify_track_section u f s) v = find_signal s v"
  "find_derailer (modify_track_section u f s) v = find_derailer s v"
  "find_block_section (modify_track_section u f s) v = find_block_section s v"
  "find_level_crossing (modify_track_section u f s) v = find_level_crossing s v"
  "find_route (modify_track_section u f s) v = find_route s v"
  "find_alarm (modify_track_section u f s) v = find_alarm s v"
  "es_current_tick (modify_track_section u f s) = es_current_tick s"
  by (simp_all add: modify_track_section_def find_defs um_simps)

lemma find_modify_switch [engine_simps]:
  "find_switch (modify_switch u f s) v = (if v = u then map_option f (find_switch s u) else find_switch s v)"
  "find_boundary_node (modify_switch u f s) v = find_boundary_node s v"
  "find_track_section (modify_switch u f s) v = find_track_section s v"
  "find_signal (modify_switch u f s) v = find_signal s v"
  "find_derailer (modify_switch u f s) v = find_derailer s v"
  "find_block_section (modify_switch u f s) v = find_block_section s v"
  "find_level_crossing (modify_switch u f s) v = find_level_crossing s v"
  "find_route (modify_switch u f s) v = find_route s v"
  "find_alarm (modify_switch u f s) v = find_alarm s v"
  "es_current_tick (modify_switch u f s) = es_current_tick s"
  by (simp_all add: modify_switch_def find_defs um_simps)

lemma find_modify_signal [engine_simps]:
  "find_signal (modify_signal u f s) v = (if v = u then map_option f (find_signal s u) else find_signal s v)"
  "find_boundary_node (modify_signal u f s) v = find_boundary_node s v"
  "find_track_section (modify_signal u f s) v = find_track_section s v"
  "find_switch (modify_signal u f s) v = find_switch s v"
  "find_derailer (modify_signal u f s) v = find_derailer s v"
  "find_block_section (modify_signal u f s) v = find_block_section s v"
  "find_level_crossing (modify_signal u f s) v = find_level_crossing s v"
  "find_route (modify_signal u f s) v = find_route s v"
  "find_alarm (modify_signal u f s) v = find_alarm s v"
  "es_current_tick (modify_signal u f s) = es_current_tick s"
  by (simp_all add: modify_signal_def find_defs um_simps)

lemma find_modify_derailer [engine_simps]:
  "find_derailer (modify_derailer u f s) v = (if v = u then map_option f (find_derailer s u) else find_derailer s v)"
  "find_boundary_node (modify_derailer u f s) v = find_boundary_node s v"
  "find_track_section (modify_derailer u f s) v = find_track_section s v"
  "find_switch (modify_derailer u f s) v = find_switch s v"
  "find_signal (modify_derailer u f s) v = find_signal s v"
  "find_block_section (modify_derailer u f s) v = find_block_section s v"
  "find_level_crossing (modify_derailer u f s) v = find_level_crossing s v"
  "find_route (modify_derailer u f s) v = find_route s v"
  "find_alarm (modify_derailer u f s) v = find_alarm s v"
  "es_current_tick (modify_derailer u f s) = es_current_tick s"
  by (simp_all add: modify_derailer_def find_defs um_simps)

lemma find_modify_block_section [engine_simps]:
  "find_block_section (modify_block_section u f s) v = (if v = u then map_option f (find_block_section s u) else find_block_section s v)"
  "find_boundary_node (modify_block_section u f s) v = find_boundary_node s v"
  "find_track_section (modify_block_section u f s) v = find_track_section s v"
  "find_switch (modify_block_section u f s) v = find_switch s v"
  "find_signal (modify_block_section u f s) v = find_signal s v"
  "find_derailer (modify_block_section u f s) v = find_derailer s v"
  "find_level_crossing (modify_block_section u f s) v = find_level_crossing s v"
  "find_route (modify_block_section u f s) v = find_route s v"
  "find_alarm (modify_block_section u f s) v = find_alarm s v"
  "es_current_tick (modify_block_section u f s) = es_current_tick s"
  by (simp_all add: modify_block_section_def find_defs um_simps)

lemma find_modify_level_crossing [engine_simps]:
  "find_level_crossing (modify_level_crossing u f s) v = (if v = u then map_option f (find_level_crossing s u) else find_level_crossing s v)"
  "find_boundary_node (modify_level_crossing u f s) v = find_boundary_node s v"
  "find_track_section (modify_level_crossing u f s) v = find_track_section s v"
  "find_switch (modify_level_crossing u f s) v = find_switch s v"
  "find_signal (modify_level_crossing u f s) v = find_signal s v"
  "find_derailer (modify_level_crossing u f s) v = find_derailer s v"
  "find_block_section (modify_level_crossing u f s) v = find_block_section s v"
  "find_route (modify_level_crossing u f s) v = find_route s v"
  "find_alarm (modify_level_crossing u f s) v = find_alarm s v"
  "es_current_tick (modify_level_crossing u f s) = es_current_tick s"
  by (simp_all add: modify_level_crossing_def find_defs um_simps)

lemma find_modify_route [engine_simps]:
  "find_route (modify_route u f s) v = (if v = u then map_option f (find_route s u) else find_route s v)"
  "find_boundary_node (modify_route u f s) v = find_boundary_node s v"
  "find_track_section (modify_route u f s) v = find_track_section s v"
  "find_switch (modify_route u f s) v = find_switch s v"
  "find_signal (modify_route u f s) v = find_signal s v"
  "find_derailer (modify_route u f s) v = find_derailer s v"
  "find_block_section (modify_route u f s) v = find_block_section s v"
  "find_level_crossing (modify_route u f s) v = find_level_crossing s v"
  "find_alarm (modify_route u f s) v = find_alarm s v"
  "es_current_tick (modify_route u f s) = es_current_tick s"
  by (simp_all add: modify_route_def find_defs um_simps)

lemma find_add_route [engine_simps]:
  "find_route (add_route r s) v = (if v = rt_uid r \<and> find_route s v = None then Some r else find_route s v)"
  "find_boundary_node (add_route r s) v = find_boundary_node s v"
  "find_track_section (add_route r s) v = find_track_section s v"
  "find_switch (add_route r s) v = find_switch s v"
  "find_signal (add_route r s) v = find_signal s v"
  "find_derailer (add_route r s) v = find_derailer s v"
  "find_block_section (add_route r s) v = find_block_section s v"
  "find_level_crossing (add_route r s) v = find_level_crossing s v"
  "find_alarm (add_route r s) v = find_alarm s v"
  "es_current_tick (add_route r s) = es_current_tick s"
  by (auto simp: add_route_def find_defs um_simps)

lemma find_remove_route [engine_simps]:
  "find_route (remove_route u s) v = (if v = u then None else find_route s v)"
  "find_boundary_node (remove_route u s) v = find_boundary_node s v"
  "find_track_section (remove_route u s) v = find_track_section s v"
  "find_switch (remove_route u s) v = find_switch s v"
  "find_signal (remove_route u s) v = find_signal s v"
  "find_derailer (remove_route u s) v = find_derailer s v"
  "find_block_section (remove_route u s) v = find_block_section s v"
  "find_level_crossing (remove_route u s) v = find_level_crossing s v"
  "find_alarm (remove_route u s) v = find_alarm s v"
  "es_current_tick (remove_route u s) = es_current_tick s"
  by (auto simp: remove_route_def find_defs um_simps)

lemma find_add_alarm [engine_simps]:
  "find_alarm (add_alarm a s) v = (if v = al_uid a \<and> find_alarm s v = None then Some a else find_alarm s v)"
  "find_boundary_node (add_alarm a s) v = find_boundary_node s v"
  "find_track_section (add_alarm a s) v = find_track_section s v"
  "find_switch (add_alarm a s) v = find_switch s v"
  "find_signal (add_alarm a s) v = find_signal s v"
  "find_derailer (add_alarm a s) v = find_derailer s v"
  "find_block_section (add_alarm a s) v = find_block_section s v"
  "find_level_crossing (add_alarm a s) v = find_level_crossing s v"
  "find_route (add_alarm a s) v = find_route s v"
  "es_current_tick (add_alarm a s) = es_current_tick s"
  by (auto simp: add_alarm_def find_defs um_simps)

lemma find_remove_alarm [engine_simps]:
  "find_alarm (remove_alarm u s) v = (if v = u then None else find_alarm s v)"
  "find_boundary_node (remove_alarm u s) v = find_boundary_node s v"
  "find_track_section (remove_alarm u s) v = find_track_section s v"
  "find_switch (remove_alarm u s) v = find_switch s v"
  "find_signal (remove_alarm u s) v = find_signal s v"
  "find_derailer (remove_alarm u s) v = find_derailer s v"
  "find_block_section (remove_alarm u s) v = find_block_section s v"
  "find_level_crossing (remove_alarm u s) v = find_level_crossing s v"
  "find_route (remove_alarm u s) v = find_route s v"
  "es_current_tick (remove_alarm u s) = es_current_tick s"
  by (auto simp: remove_alarm_def find_defs um_simps)

lemma find_set_current_tick [engine_simps]:
  "find_boundary_node (set_current_tick t s) v = find_boundary_node s v"
  "find_track_section (set_current_tick t s) v = find_track_section s v"
  "find_switch (set_current_tick t s) v = find_switch s v"
  "find_signal (set_current_tick t s) v = find_signal s v"
  "find_derailer (set_current_tick t s) v = find_derailer s v"
  "find_block_section (set_current_tick t s) v = find_block_section s v"
  "find_level_crossing (set_current_tick t s) v = find_level_crossing s v"
  "find_route (set_current_tick t s) v = find_route s v"
  "find_alarm (set_current_tick t s) v = find_alarm s v"
  "es_current_tick (set_current_tick t s) = t"
  by (auto simp: set_current_tick_def find_defs um_simps)

text \<open>Applying a function to one operator state touches nothing else of any device.\<close>

lemma find_signal_on_target [engine_simps]:
  "find_signal (on_target f u k s) v =
     (if v = u \<and> k = TK_SIGNAL
      then map_option (\<lambda>x. x\<lparr>sig_operator_state := f (sig_operator_state x)\<rparr>) (find_signal s u)
      else find_signal s v)"
  by (cases k) (simp_all add: on_target_def Let_def engine_simps)

lemma find_switch_on_target [engine_simps]:
  "find_switch (on_target f u k s) v =
     (if v = u \<and> k = TK_SWITCH
      then map_option (\<lambda>x. x\<lparr>sw_operator_state := f (sw_operator_state x)\<rparr>) (find_switch s u)
      else find_switch s v)"
  by (cases k) (simp_all add: on_target_def Let_def engine_simps)

lemma find_derailer_on_target [engine_simps]:
  "find_derailer (on_target f u k s) v =
     (if v = u \<and> (k = TK_DERAILER \<or> k = TK_SWITCH \<and> find_switch s u = None)
      then map_option (\<lambda>x. x\<lparr>dr_operator_state := f (dr_operator_state x)\<rparr>) (find_derailer s u)
      else find_derailer s v)"
  by (cases k) (simp_all add: on_target_def Let_def engine_simps)

lemma find_track_section_on_target [engine_simps]:
  "find_track_section (on_target f u k s) v =
     (if v = u \<and> k = TK_TRACK_SECTION
      then map_option (\<lambda>x. x\<lparr>ts_operator_state := f (ts_operator_state x)\<rparr>) (find_track_section s u)
      else find_track_section s v)"
  by (cases k) (simp_all add: on_target_def Let_def engine_simps)

lemma find_block_section_on_target [engine_simps]:
  "find_block_section (on_target f u k s) v =
     (if v = u \<and> k = TK_BLOCK_SECTION
      then map_option (\<lambda>x. x\<lparr>bs_operator_state := f (bs_operator_state x)\<rparr>) (find_block_section s u)
      else find_block_section s v)"
  by (cases k) (simp_all add: on_target_def Let_def engine_simps)

lemma find_other_on_target [engine_simps]:
  "find_boundary_node (on_target f u k s) v = find_boundary_node s v"
  "find_level_crossing (on_target f u k s) v = find_level_crossing s v"
  "find_route (on_target f u k s) v = find_route s v"
  "find_alarm (on_target f u k s) v = find_alarm s v"
  "es_current_tick (on_target f u k s) = es_current_tick s"
  by (cases k; simp add: on_target_def Let_def engine_simps)+

text \<open>Every mutator is one of the shapes above.\<close>

lemmas mutator_defs [engine_simps] =
  apply_track_section_occupancy_def apply_level_crossing_status_def
  apply_switch_position_def apply_switch_control_def
  apply_switch_lock_def apply_switch_occupancy_def
  apply_signal_aspect_def apply_signal_lock_def
  apply_derailer_state_def apply_derailer_lock_def
  apply_block_section_state_def apply_block_section_direction_def
  apply_block_section_axle_count_def apply_operator_command_state_def
  apply_ml8_command_state_def

section \<open>Well-formed states\<close>

text \<open>
  Every map has at most one entry per key and files each object under its own UID.  The loader
  establishes this by inserting with \<^verbatim>\<open>emplace(x.uid, x)\<close>, and every mutator keeps
  it.
\<close>

definition wf_state :: "EngineState \<Rightarrow> bool" where
  "wf_state s \<longleftrightarrow>
     (um_wf (es_boundary_nodes s) \<and> um_keyed bn_uid (es_boundary_nodes s)) \<and>
     (um_wf (es_track_sections s) \<and> um_keyed ts_uid (es_track_sections s)) \<and>
     (um_wf (es_switches s) \<and> um_keyed sw_uid (es_switches s)) \<and>
     (um_wf (es_signals s) \<and> um_keyed sig_uid (es_signals s)) \<and>
     (um_wf (es_derailers s) \<and> um_keyed dr_uid (es_derailers s)) \<and>
     (um_wf (es_block_sections s) \<and> um_keyed bs_uid (es_block_sections s)) \<and>
     (um_wf (es_routes s) \<and> um_keyed rt_uid (es_routes s)) \<and>
     (um_wf (es_alarms s) \<and> um_keyed al_uid (es_alarms s)) \<and>
     (um_wf (es_level_crossings s) \<and> um_keyed lx_uid (es_level_crossings s))"

lemma wf_empty_state: "wf_state empty_state"
  by (simp add: wf_state_def empty_state_def)

lemma wf_state_keys:
  "wf_state s \<Longrightarrow> find_switch s u = Some sw \<Longrightarrow> sw_uid sw = u"
  "wf_state s \<Longrightarrow> find_track_section s u = Some t \<Longrightarrow> ts_uid t = u"
  "wf_state s \<Longrightarrow> find_signal s u = Some sig \<Longrightarrow> sig_uid sig = u"
  "wf_state s \<Longrightarrow> find_derailer s u = Some d \<Longrightarrow> dr_uid d = u"
  "wf_state s \<Longrightarrow> find_block_section s u = Some b \<Longrightarrow> bs_uid b = u"
  "wf_state s \<Longrightarrow> find_route s u = Some r \<Longrightarrow> rt_uid r = u"
  "wf_state s \<Longrightarrow> find_alarm s u = Some a \<Longrightarrow> al_uid a = u"
  "wf_state s \<Longrightarrow> find_level_crossing s u = Some lx \<Longrightarrow> lx_uid lx = u"
  by (auto simp: wf_state_def find_defs dest: um_keyed_find)

lemma wf_state_values:
  "wf_state s \<Longrightarrow> sw \<in> set (for_each_switch s) \<longleftrightarrow> find_switch s (sw_uid sw) = Some sw"
  "wf_state s \<Longrightarrow> r \<in> set (for_each_route s) \<longleftrightarrow> find_route s (rt_uid r) = Some r"
  "wf_state s \<Longrightarrow> d \<in> set (for_each_derailer s) \<longleftrightarrow> find_derailer s (dr_uid d) = Some d"
  "wf_state s \<Longrightarrow> lx \<in> set (for_each_level_crossing s) \<longleftrightarrow>
     find_level_crossing s (lx_uid lx) = Some lx"
  by (auto simp: wf_state_def find_defs for_each_switch_def for_each_route_def
      for_each_derailer_def for_each_level_crossing_def
      intro: um_keyed_values_find um_find_in_values)

lemma wf_state_switch_uids: "wf_state s \<Longrightarrow> distinct (map sw_uid (for_each_switch s))"
proof -
  assume "wf_state s"
  then have wf: "um_wf (es_switches s)" and key: "um_keyed sw_uid (es_switches s)"
    by (simp_all add: wf_state_def)
  from key have "map sw_uid (um_values (es_switches s)) = um_keys (es_switches s)"
    by (auto simp: um_keyed_def list_all_iff um_values_def um_keys_def)
  with wf show ?thesis by (simp add: for_each_switch_def um_wf_def)
qed

lemma wf_modify:
  "wf_state s \<Longrightarrow> (\<And>x. ts_uid (f x) = ts_uid x) \<Longrightarrow> wf_state (modify_track_section u f s)"
  "wf_state s \<Longrightarrow> (\<And>x. sw_uid (g x) = sw_uid x) \<Longrightarrow> wf_state (modify_switch u g s)"
  "wf_state s \<Longrightarrow> (\<And>x. sig_uid (h x) = sig_uid x) \<Longrightarrow> wf_state (modify_signal u h s)"
  "wf_state s \<Longrightarrow> (\<And>x. dr_uid (i x) = dr_uid x) \<Longrightarrow> wf_state (modify_derailer u i s)"
  "wf_state s \<Longrightarrow> (\<And>x. bs_uid (j x) = bs_uid x) \<Longrightarrow> wf_state (modify_block_section u j s)"
  "wf_state s \<Longrightarrow> (\<And>x. lx_uid (k x) = lx_uid x) \<Longrightarrow> wf_state (modify_level_crossing u k s)"
  "wf_state s \<Longrightarrow> (\<And>x. rt_uid (l x) = rt_uid x) \<Longrightarrow> wf_state (modify_route u l s)"
  by (simp_all add: wf_state_def modify_track_section_def modify_switch_def modify_signal_def
      modify_derailer_def modify_block_section_def modify_level_crossing_def modify_route_def
      um_keyed_modify)

lemma wf_on_target: "wf_state s \<Longrightarrow> wf_state (on_target f u k s)"
  by (cases k) (simp_all add: on_target_def Let_def wf_modify)

lemma wf_axle_counter_reset: "wf_state s \<Longrightarrow> wf_state (apply_axle_counter_reset u k s)"
  by (cases k) (simp_all add: apply_axle_counter_reset_def mutator_defs wf_modify)

lemma wf_routes_alarms:
  "wf_state s \<Longrightarrow> wf_state (add_route r s)"
  "wf_state s \<Longrightarrow> wf_state (remove_route u s)"
  "wf_state s \<Longrightarrow> wf_state (add_alarm a s)"
  "wf_state s \<Longrightarrow> wf_state (remove_alarm u s)"
  "wf_state s \<Longrightarrow> wf_state (set_current_tick t s)"
  "wf_state s \<Longrightarrow> wf_state (set_session_id i s)"
  by (simp_all add: wf_state_def add_route_def remove_route_def add_alarm_def remove_alarm_def
      set_current_tick_def set_session_id_def um_wf_intros um_keyed_emplace um_keyed_erase)

lemma wf_inserts:
  "wf_state s \<Longrightarrow> wf_state (insert_boundary_node n s)"
  "wf_state s \<Longrightarrow> wf_state (insert_track_section t s)"
  "wf_state s \<Longrightarrow> wf_state (insert_switch sw s)"
  "wf_state s \<Longrightarrow> wf_state (insert_signal sig s)"
  "wf_state s \<Longrightarrow> wf_state (insert_derailer d s)"
  "wf_state s \<Longrightarrow> wf_state (insert_block_section b s)"
  "wf_state s \<Longrightarrow> wf_state (insert_level_crossing lx s)"
  by (simp_all add: wf_state_def insert_boundary_node_def insert_track_section_def
      insert_switch_def insert_signal_def insert_derailer_def insert_block_section_def
      insert_level_crossing_def um_wf_intros um_keyed_emplace)

lemmas wf_state_intros = wf_modify wf_on_target wf_axle_counter_reset wf_routes_alarms wf_inserts

section \<open>The loaded topology\<close>

text \<open>
  The static part of a device is the device with its runtime fields reset to their defaults.  The
  topology of a state is the static part of every map the loader fills.
\<close>

definition ts_static :: "TrackSection \<Rightarrow> TrackSection" where
  "ts_static t = t\<lparr>ts_occupancy := FREE, ts_axle_count := 0, ts_train_uid := None,
     ts_operator_state := default_operator_state\<rparr>"

definition sw_static :: "Switch \<Rightarrow> Switch" where
  "sw_static sw = sw\<lparr>sw_position := STRAIGHT, sw_control_lost := False, sw_occupancy := FREE,
     sw_axle_count := 0, sw_locked_by_route_uid := None, sw_moving_ticks_remaining := 0,
     sw_operator_state := default_operator_state\<rparr>"

definition sig_static :: "Signal \<Rightarrow> Signal" where
  "sig_static sig = sig\<lparr>sig_current_aspect := S1_STOP, sig_locked_by_route_uid := None,
     sig_operator_state := default_operator_state\<rparr>"

definition dr_static :: "Derailer \<Rightarrow> Derailer" where
  "dr_static d = d\<lparr>dr_state := LOCKED, dr_locked_by_route_uid := None,
     dr_operator_state := default_operator_state\<rparr>"

definition bs_static :: "BlockSection \<Rightarrow> BlockSection" where
  "bs_static b = b\<lparr>bs_state := BS_CLOSED, bs_direction := NEUTRAL, bs_axle_count := 0,
     bs_operator_state := default_operator_state, bs_reset_init_tick := None\<rparr>"

definition lx_static :: "LevelCrossing \<Rightarrow> LevelCrossing" where
  "lx_static lx = lx\<lparr>lx_status := LX_OPEN, lx_warning_start_tick := None\<rparr>"

definition static_map :: "('v \<Rightarrow> 'v) \<Rightarrow> ('k, 'v) umap \<Rightarrow> ('k, 'v) umap" where
  "static_map st m = map (\<lambda>(k, v). (k, st v)) m"

lemma static_map_modify:
  "(\<And>v. st (f v) = st v) \<Longrightarrow> static_map st (um_modify k f m) = static_map st m"
  by (auto simp: static_map_def um_modify_def)

lemma um_find_static_map: "um_find (static_map st m) k = map_option st (um_find m k)"
  by (induction m) (auto simp: static_map_def um_find_def)

definition topology :: "EngineState \<Rightarrow> EngineState" where
  "topology s =
     \<lparr>es_session_id = es_session_id s, es_current_tick = 0,
      es_boundary_nodes = es_boundary_nodes s,
      es_track_sections = static_map ts_static (es_track_sections s),
      es_switches = static_map sw_static (es_switches s),
      es_signals = static_map sig_static (es_signals s),
      es_derailers = static_map dr_static (es_derailers s),
      es_block_sections = static_map bs_static (es_block_sections s),
      es_routes = [], es_alarms = [],
      es_level_crossings = static_map lx_static (es_level_crossings s)\<rparr>"

lemma topology_modify:
  "(\<And>x. ts_static (f x) = ts_static x) \<Longrightarrow> topology (modify_track_section u f s) = topology s"
  "(\<And>x. sw_static (g x) = sw_static x) \<Longrightarrow> topology (modify_switch u g s) = topology s"
  "(\<And>x. sig_static (h x) = sig_static x) \<Longrightarrow> topology (modify_signal u h s) = topology s"
  "(\<And>x. dr_static (i x) = dr_static x) \<Longrightarrow> topology (modify_derailer u i s) = topology s"
  "(\<And>x. bs_static (j x) = bs_static x) \<Longrightarrow> topology (modify_block_section u j s) = topology s"
  "(\<And>x. lx_static (k x) = lx_static x) \<Longrightarrow> topology (modify_level_crossing u k s) = topology s"
  "topology (modify_route u l s) = topology s"
  by (simp_all add: topology_def modify_track_section_def modify_switch_def modify_signal_def
      modify_derailer_def modify_block_section_def modify_level_crossing_def modify_route_def
      static_map_modify)

lemmas static_defs = ts_static_def sw_static_def sig_static_def dr_static_def bs_static_def
  lx_static_def

lemma topology_on_target: "topology (on_target f u k s) = topology s"
  by (cases k) (simp_all add: on_target_def Let_def topology_modify static_defs)

lemma topology_axle_counter_reset: "topology (apply_axle_counter_reset u k s) = topology s"
  by (cases k) (simp_all add: apply_axle_counter_reset_def mutator_defs topology_modify static_defs)

lemma topology_routes_alarms:
  "topology (add_route r s) = topology s"
  "topology (remove_route u s) = topology s"
  "topology (add_alarm a s) = topology s"
  "topology (remove_alarm u s) = topology s"
  "topology (set_current_tick t s) = topology s"
  by (simp_all add: topology_def add_route_def remove_route_def add_alarm_def remove_alarm_def
      set_current_tick_def)

lemmas topology_simps = topology_modify topology_on_target topology_axle_counter_reset
  topology_routes_alarms

lemma topology_finds:
  "topology s = topology t \<Longrightarrow> map_option sw_static (find_switch s u) = map_option sw_static (find_switch t u)"
  "topology s = topology t \<Longrightarrow>
     map_option ts_static (find_track_section s u) = map_option ts_static (find_track_section t u)"
  "topology s = topology t \<Longrightarrow>
     map_option sig_static (find_signal s u) = map_option sig_static (find_signal t u)"
  by (simp_all add: topology_def find_defs flip: um_find_static_map)

end
