(* ===== verification/State_Applier.thy ===== *)
theory State_Applier
  imports Engine_State
begin

text \<open>
  The vocabulary of state changes of \<^verbatim>\<open>engine/include/engine/core/control_system.hpp\<close>
  (the variant \<^verbatim>\<open>DeviceStateChange\<close> and \<^verbatim>\<open>InterlockingViolation\<close>)
  and the visitor that applies them, \<^verbatim>\<open>engine/include/engine/core/state_applier.hpp\<close>.
  One constructor per alternative of the variant with the struct's fields in their order, one
  equation of \<open>apply_change\<close> per call operator.  The last sections show what a change can
  touch: no change alters the loaded topology, every change keeps the maps well formed, and each
  device is only changed by the alternatives that name it.
\<close>

section \<open>State changes\<close>

datatype (plugins only: size code) DeviceStateChange =
    SignalAspectChange UID SignalAspect ChangeCause "UID option"
  | SwitchPositionChange UID SwitchPosition ChangeCause int
  | SwitchLocked UID UID
  | SwitchUnlocked UID UID
  | DerailerStateChange UID DerailerState ChangeCause "UID option"
  | BlockSectionStateChange UID BlockSectionState
  | TrackSectionOccupancyChange UID TrackOccupancy int UID
  | BlockDirectionChange UID BlockDirectionState bool
  | AxleCounterResetChange UID OperatorTargetKind
  | OperatorCommandStateChange UID OperatorTargetKind OperatorCommandCode bool
  | Ml8CommandStateChange UID OperatorTargetKind Ml8CommandCode bool
  | RouteAdded RouteState
  | RouteRemoved UID string
  | AlarmRaised AlarmState
  | AlarmCleared UID
  | RouteOverlapTimerStarted UID u64
  | EmergencyRouteReleaseExecuted UID
  | LevelCrossingStateChange UID LevelCrossingStatus
  | SwitchControlStateChange UID bool

record InterlockingViolation =
  viol_reason_code :: u8
  viol_reason_text :: string
  viol_offending_uid :: UID

section \<open>Applying a change\<close>

fun apply_change :: "DeviceStateChange \<Rightarrow> EngineState \<Rightarrow> EngineState" where
  "apply_change (SignalAspectChange uid new_aspect cause route_uid) s =
     (let s' = apply_signal_aspect uid new_aspect s
      in if route_uid \<noteq> None then apply_signal_lock uid route_uid s'
         else if new_aspect = S1_STOP \<or> new_aspect = MS1_STOP then apply_signal_lock uid None s'
         else s')"
| "apply_change (SwitchPositionChange uid new_position cause moving_ticks) s =
     apply_switch_position uid new_position moving_ticks s"
| "apply_change (SwitchControlStateChange switch_uid control_lost) s =
     apply_switch_control switch_uid control_lost s"
| "apply_change (SwitchLocked switch_uid route_uid) s =
     apply_switch_lock switch_uid (Some route_uid) s"
| "apply_change (SwitchUnlocked switch_uid route_uid) s = apply_switch_lock switch_uid None s"
| "apply_change (DerailerStateChange uid new_state cause route_uid) s =
     (let s' = apply_derailer_state uid new_state s
      in if route_uid \<noteq> None then apply_derailer_lock uid route_uid s'
         else if new_state = LOCKED then apply_derailer_lock uid None s'
         else s')"
| "apply_change (BlockSectionStateChange uid new_state) s = apply_block_section_state uid new_state s"
| "apply_change (TrackSectionOccupancyChange uid occ axle_count train_uid) s =
     apply_track_section_occupancy uid occ axle_count s"
| "apply_change (BlockDirectionChange uid new_direction confirm) s =
     apply_block_section_direction uid new_direction s"
| "apply_change (AxleCounterResetChange uid target_kind) s =
     apply_axle_counter_reset uid target_kind s"
| "apply_change (OperatorCommandStateChange uid target_kind code active) s =
     apply_operator_command_state uid target_kind code active s"
| "apply_change (Ml8CommandStateChange uid target_kind code active) s =
     apply_ml8_command_state uid target_kind code active s"
| "apply_change (RouteAdded route) s = add_route route s"
| "apply_change (RouteRemoved route_uid reason) s = remove_route route_uid s"
| "apply_change (LevelCrossingStateChange crossing_uid status) s =
     apply_level_crossing_status crossing_uid status s"
| "apply_change (RouteOverlapTimerStarted route_uid release_tick) s =
     modify_route route_uid (\<lambda>r. r\<lparr>rt_overlap_release_tick := Some release_tick\<rparr>) s"
| "apply_change (EmergencyRouteReleaseExecuted route_uid) s = s"
| "apply_change (AlarmRaised alarm) s = add_alarm alarm s"
| "apply_change (AlarmCleared alarm_uid) s = remove_alarm alarm_uid s"

definition apply_all :: "EngineState \<Rightarrow> DeviceStateChange list \<Rightarrow> EngineState" where
  "apply_all s changes = fold apply_change changes s"

lemma apply_all_simps [simp]:
  "apply_all s [] = s"
  "apply_all s (c # cs) = apply_all (apply_change c s) cs"
  "apply_all s (cs @ ds) = apply_all (apply_all s cs) ds"
  by (simp_all add: apply_all_def)

section \<open>What no change alters\<close>

lemma wf_apply_change: "wf_state s \<Longrightarrow> wf_state (apply_change c s)"
  by (cases c) (simp_all add: Let_def mutator_defs wf_state_intros)

lemma wf_apply_all: "wf_state s \<Longrightarrow> wf_state (apply_all s cs)"
  by (induction cs arbitrary: s) (simp_all add: wf_apply_change)

lemma topology_apply_change: "topology (apply_change c s) = topology s"
  by (cases c) (simp_all add: Let_def mutator_defs topology_simps static_defs)

lemma topology_apply_all: "topology (apply_all s cs) = topology s"
  by (induction cs arbitrary: s) (simp_all add: topology_apply_change)

lemma find_axle_counter_reset [engine_simps]:
  "find_signal (apply_axle_counter_reset u k s) v = find_signal s v"
  "find_derailer (apply_axle_counter_reset u k s) v = find_derailer s v"
  "find_route (apply_axle_counter_reset u k s) v = find_route s v"
  "find_alarm (apply_axle_counter_reset u k s) v = find_alarm s v"
  "find_level_crossing (apply_axle_counter_reset u k s) v = find_level_crossing s v"
  "find_boundary_node (apply_axle_counter_reset u k s) v = find_boundary_node s v"
  "find_switch (apply_axle_counter_reset u k s) v =
     (if v = u \<and> k = TK_SWITCH
      then map_option (\<lambda>sw. sw\<lparr>sw_occupancy := FREE, sw_axle_count := 0\<rparr>) (find_switch s u)
      else find_switch s v)"
  "find_track_section (apply_axle_counter_reset u k s) v =
     (if v = u \<and> k = TK_TRACK_SECTION
      then map_option (\<lambda>t. t\<lparr>ts_occupancy := FREE, ts_axle_count := 0\<rparr>) (find_track_section s u)
      else find_track_section s v)"
  "find_block_section (apply_axle_counter_reset u k s) v =
     (if v = u \<and> k = TK_BLOCK_SECTION
      then map_option (\<lambda>b. b\<lparr>bs_axle_count := 0\<rparr>) (find_block_section s u)
      else find_block_section s v)"
  "es_current_tick (apply_axle_counter_reset u k s) = es_current_tick s"
  by (cases k; simp add: apply_axle_counter_reset_def engine_simps)+

lemma tick_apply_change [simp]: "es_current_tick (apply_change c s) = es_current_tick s"
  by (cases c) (simp_all add: Let_def engine_simps)

lemma tick_apply_all [simp]: "es_current_tick (apply_all s cs) = es_current_tick s"
  by (induction cs arbitrary: s) simp_all

section \<open>Which changes concern which device\<close>

text \<open>
  The lock and the position of a switch are written by four alternatives only.  The predicates
  select the changes that concern one field of one device; a list without such changes leaves
  that field alone.
\<close>

fun moves_switch :: "UID \<Rightarrow> DeviceStateChange \<Rightarrow> bool" where
  "moves_switch u (SwitchPositionChange v p c n) \<longleftrightarrow> v = u"
| "moves_switch u _ \<longleftrightarrow> False"

fun locks_switch :: "UID \<Rightarrow> DeviceStateChange \<Rightarrow> bool" where
  "locks_switch u (SwitchLocked v r) \<longleftrightarrow> v = u"
| "locks_switch u (SwitchUnlocked v r) \<longleftrightarrow> v = u"
| "locks_switch u _ \<longleftrightarrow> False"

fun shows_aspect :: "UID \<Rightarrow> DeviceStateChange \<Rightarrow> bool" where
  "shows_aspect u (SignalAspectChange v a c r) \<longleftrightarrow> v = u"
| "shows_aspect u _ \<longleftrightarrow> False"

fun moves_derailer :: "UID \<Rightarrow> DeviceStateChange \<Rightarrow> bool" where
  "moves_derailer u (DerailerStateChange v st c r) \<longleftrightarrow> v = u"
| "moves_derailer u _ \<longleftrightarrow> False"

fun changes_route :: "UID \<Rightarrow> DeviceStateChange \<Rightarrow> bool" where
  "changes_route u (RouteAdded r) \<longleftrightarrow> rt_uid r = u"
| "changes_route u (RouteRemoved v m) \<longleftrightarrow> v = u"
| "changes_route u (RouteOverlapTimerStarted v t) \<longleftrightarrow> v = u"
| "changes_route u _ \<longleftrightarrow> False"

abbreviation switch_position :: "EngineState \<Rightarrow> UID \<Rightarrow> SwitchPosition option" where
  "switch_position s u \<equiv> map_option sw_position (find_switch s u)"

abbreviation switch_lock :: "EngineState \<Rightarrow> UID \<Rightarrow> UID option option" where
  "switch_lock s u \<equiv> map_option sw_locked_by_route_uid (find_switch s u)"

abbreviation signal_aspect :: "EngineState \<Rightarrow> UID \<Rightarrow> SignalAspect option" where
  "signal_aspect s u \<equiv> map_option sig_current_aspect (find_signal s u)"

abbreviation signal_lock :: "EngineState \<Rightarrow> UID \<Rightarrow> UID option option" where
  "signal_lock s u \<equiv> map_option sig_locked_by_route_uid (find_signal s u)"

abbreviation derailer_state :: "EngineState \<Rightarrow> UID \<Rightarrow> DerailerState option" where
  "derailer_state s u \<equiv> map_option dr_state (find_derailer s u)"

abbreviation derailer_lock :: "EngineState \<Rightarrow> UID \<Rightarrow> UID option option" where
  "derailer_lock s u \<equiv> map_option dr_locked_by_route_uid (find_derailer s u)"

lemma position_apply_change:
  "switch_position (apply_change c s) u =
     (case c of SwitchPositionChange v p cause n \<Rightarrow>
        if v = u then map_option (\<lambda>_. p) (find_switch s u) else switch_position s u
      | _ \<Rightarrow> switch_position s u)"
  by (cases c) (auto simp: Let_def engine_simps option.map_comp comp_def)

lemma lock_apply_change:
  "switch_lock (apply_change c s) u =
     (case c of
        SwitchLocked v r \<Rightarrow>
          if v = u then map_option (\<lambda>_. Some r) (find_switch s u) else switch_lock s u
      | SwitchUnlocked v r \<Rightarrow>
          if v = u then map_option (\<lambda>_. None) (find_switch s u) else switch_lock s u
      | _ \<Rightarrow> switch_lock s u)"
  by (cases c) (auto simp: Let_def engine_simps option.map_comp comp_def)

lemma aspect_apply_change:
  "signal_aspect (apply_change c s) u =
     (case c of SignalAspectChange v a cause r \<Rightarrow>
        if v = u then map_option (\<lambda>_. a) (find_signal s u) else signal_aspect s u
      | _ \<Rightarrow> signal_aspect s u)"
  by (cases c) (auto simp: Let_def engine_simps option.map_comp comp_def)

lemma signal_lock_apply_change:
  "signal_lock (apply_change c s) u =
     (case c of SignalAspectChange v a cause r \<Rightarrow>
        if v = u then
          (if r \<noteq> None then map_option (\<lambda>_. r) (find_signal s u)
           else if a = S1_STOP \<or> a = MS1_STOP then map_option (\<lambda>_. None) (find_signal s u)
           else signal_lock s u)
        else signal_lock s u
      | _ \<Rightarrow> signal_lock s u)"
  by (cases c) (auto simp: Let_def engine_simps option.map_comp comp_def)

lemma derailer_apply_change:
  "derailer_state (apply_change c s) u =
     (case c of DerailerStateChange v st cause r \<Rightarrow>
        if v = u then map_option (\<lambda>_. st) (find_derailer s u) else derailer_state s u
      | _ \<Rightarrow> derailer_state s u)"
  "derailer_lock (apply_change c s) u =
     (case c of DerailerStateChange v st cause r \<Rightarrow>
        if v = u then
          (if r \<noteq> None then map_option (\<lambda>_. r) (find_derailer s u)
           else if st = LOCKED then map_option (\<lambda>_. None) (find_derailer s u)
           else derailer_lock s u)
        else derailer_lock s u
      | _ \<Rightarrow> derailer_lock s u)"
  by (cases c; auto simp: Let_def engine_simps option.map_comp comp_def)+

lemma route_apply_change:
  "find_route (apply_change c s) u =
     (case c of
        RouteAdded r \<Rightarrow> if u = rt_uid r \<and> find_route s u = None then Some r else find_route s u
      | RouteRemoved v m \<Rightarrow> if u = v then None else find_route s u
      | RouteOverlapTimerStarted v t \<Rightarrow>
          if u = v then map_option (\<lambda>r. r\<lparr>rt_overlap_release_tick := Some t\<rparr>) (find_route s u)
          else find_route s u
      | _ \<Rightarrow> find_route s u)"
  by (cases c) (auto simp: Let_def engine_simps)

lemma exists_apply_change [simp]:
  "find_switch (apply_change c s) u = None \<longleftrightarrow> find_switch s u = None"
  "find_signal (apply_change c s) u = None \<longleftrightarrow> find_signal s u = None"
  "find_derailer (apply_change c s) u = None \<longleftrightarrow> find_derailer s u = None"
  "find_track_section (apply_change c s) u = None \<longleftrightarrow> find_track_section s u = None"
  "find_block_section (apply_change c s) u = None \<longleftrightarrow> find_block_section s u = None"
  by (cases c; auto simp: Let_def engine_simps)+

lemma exists_apply_all [simp]:
  "find_switch (apply_all s cs) u = None \<longleftrightarrow> find_switch s u = None"
  "find_signal (apply_all s cs) u = None \<longleftrightarrow> find_signal s u = None"
  "find_derailer (apply_all s cs) u = None \<longleftrightarrow> find_derailer s u = None"
  "find_track_section (apply_all s cs) u = None \<longleftrightarrow> find_track_section s u = None"
  "find_block_section (apply_all s cs) u = None \<longleftrightarrow> find_block_section s u = None"
  by (induction cs arbitrary: s) simp_all

text \<open>A list of changes without one that concerns the device leaves its field alone.\<close>

lemma position_apply_all_frame:
  "list_all (\<lambda>c. \<not> moves_switch u c) cs \<Longrightarrow> switch_position (apply_all s cs) u = switch_position s u"
  by (induction cs arbitrary: s)
    (auto simp: position_apply_change split: DeviceStateChange.splits)

lemma lock_apply_all_frame:
  "list_all (\<lambda>c. \<not> locks_switch u c) cs \<Longrightarrow> switch_lock (apply_all s cs) u = switch_lock s u"
  by (induction cs arbitrary: s) (auto simp: lock_apply_change split: DeviceStateChange.splits)

lemma aspect_apply_all_frame:
  "list_all (\<lambda>c. \<not> shows_aspect u c) cs \<Longrightarrow>
     signal_aspect (apply_all s cs) u = signal_aspect s u \<and> signal_lock (apply_all s cs) u = signal_lock s u"
  by (induction cs arbitrary: s)
    (auto simp: aspect_apply_change signal_lock_apply_change split: DeviceStateChange.splits)

lemma derailer_apply_all_frame:
  "list_all (\<lambda>c. \<not> moves_derailer u c) cs \<Longrightarrow>
     derailer_state (apply_all s cs) u = derailer_state s u \<and>
     derailer_lock (apply_all s cs) u = derailer_lock s u"
  by (induction cs arbitrary: s) (auto simp: derailer_apply_change split: DeviceStateChange.splits)

lemma route_apply_all_frame:
  "list_all (\<lambda>c. \<not> changes_route u c) cs \<Longrightarrow> find_route (apply_all s cs) u = find_route s u"
  by (induction cs arbitrary: s) (auto simp: route_apply_change split: DeviceStateChange.splits)

end
