(* ===== verification/Route_Graph.thy ===== *)
theory Route_Graph
  imports State_Applier
begin

text \<open>
  Route search on the station topology: \<^verbatim>\<open>srk/common/include/srk/common/route_graph.hpp\<close>
  and \<^verbatim>\<open>srk/common/src/route_graph.cpp\<close>.  The search loop is a total function, with
  the number of unvisited nodes plus the queue length as its measure.  Walking the predecessor map
  back from the goal takes as many steps as the map has entries at most; the bound is a fuel
  argument, and \<open>bfs_total\<close> shows that it never runs out and that
  \<^verbatim>\<open>prev.at\<close> never throws.
\<close>

unbundle bit_operations_syntax

section \<open>Data\<close>

datatype NodeKind = NODE_TRACK_SECTION | NODE_SWITCH

record RoutePathNode =
  node_kind :: NodeKind
  node_uid :: UID
  node_required_position :: SwitchPosition

record RoutePath =
  rp_from_signal_uid :: UID
  rp_to_signal_uid :: UID
  rp_nodes :: "RoutePathNode list"
  rp_section_uids :: "UID list"
  rp_switch_uids :: "UID list"
  rp_derailer_uids :: "UID list"
  rp_flank_switches :: "RoutePathNode list"

text \<open>A policy reads the state, may extend the path, and accepts or rejects it.\<close>

type_synonym RoutePathPolicy = "EngineState \<Rightarrow> RoutePath \<Rightarrow> bool \<times> RoutePath"

section \<open>Neighbours\<close>

definition topology_neighbors :: "EngineState \<Rightarrow> UID \<Rightarrow> UID \<Rightarrow> UID list" where
  "topology_neighbors s node came_from =
    (case find_track_section s node of
       Some ts \<Rightarrow>
         (if came_from = 0
          then [port_neighbor_uid (ts_side_a ts), port_neighbor_uid (ts_side_b ts)]
          else if port_neighbor_uid (ts_side_a ts) = came_from then [port_neighbor_uid (ts_side_b ts)]
          else if port_neighbor_uid (ts_side_b ts) = came_from then [port_neighbor_uid (ts_side_a ts)]
          else [])
     | None \<Rightarrow>
         (case find_switch s node of
            Some sw \<Rightarrow>
              filter (\<lambda>u. u \<noteq> came_from)
                [leg_neighbor_uid (sw_trunk sw), leg_neighbor_uid (sw_straight sw),
                 leg_neighbor_uid (sw_divergent sw)]
          | None \<Rightarrow> []))"

definition is_traversable_node :: "EngineState \<Rightarrow> UID \<Rightarrow> bool" where
  "is_traversable_node s uid \<longleftrightarrow> find_track_section s uid \<noteq> None \<or> find_switch s uid \<noteq> None"

section \<open>Breadth-first search\<close>

type_synonym bfs_prev = "(UID, UID) umap"
type_synonym bfs_queue = "(UID \<times> UID) list"

datatype bfs_result = BfsFound "UID list" | BfsNone | BfsStuck

text \<open>
  Walking back from the goal: each node is pushed onto the path and the finished path reversed, so
  the node goes in front of what has been collected.
\<close>

fun bfs_reconstruct :: "nat \<Rightarrow> bfs_prev \<Rightarrow> UID \<Rightarrow> UID list \<Rightarrow> UID list option" where
  "bfs_reconstruct 0 prev n path = (if n = 0 then Some path else None)"
| "bfs_reconstruct (Suc fuel) prev n path =
     (if n = 0 then Some path
      else case um_find prev n of
             None \<Rightarrow> None
           | Some p \<Rightarrow> bfs_reconstruct fuel prev p (n # path))"

definition bfs_visit :: "EngineState \<Rightarrow> UID \<Rightarrow> UID \<Rightarrow> bfs_prev \<times> bfs_queue \<Rightarrow> bfs_prev \<times> bfs_queue" where
  "bfs_visit s cur next_uid st =
    (let (prev, q) = st
     in if um_find prev next_uid \<noteq> None then (prev, q)
        else (um_emplace next_uid cur prev,
              if is_traversable_node s next_uid then q @ [(next_uid, cur)] else q))"

definition bfs_expand :: "EngineState \<Rightarrow> UID \<Rightarrow> UID \<Rightarrow> bfs_prev \<Rightarrow> bfs_queue \<Rightarrow> bfs_prev \<times> bfs_queue" where
  "bfs_expand s cur from prev q = fold (bfs_visit s cur) (topology_neighbors s cur from) (prev, q)"

definition node_uids :: "EngineState \<Rightarrow> UID list" where
  "node_uids s = remdups (um_keys (es_track_sections s) @ um_keys (es_switches s))"

definition bfs_measure :: "EngineState \<Rightarrow> bfs_prev \<times> bfs_queue \<Rightarrow> nat" where
  "bfs_measure s st =
     length (snd st) + length (filter (\<lambda>u. um_find (fst st) u = None) (node_uids s))"

lemma in_node_uids: "u \<in> set (node_uids s) \<longleftrightarrow> is_traversable_node s u"
  by (auto simp: node_uids_def is_traversable_node_def find_defs um_find_None_iff)

lemma filter_remove_one:
  assumes "x \<in> set xs" "P x" and Q: "\<And>y. Q y \<longleftrightarrow> P y \<and> y \<noteq> x"
  shows "Suc (length (filter Q xs)) \<le> length (filter P xs)"
proof -
  have "filter Q xs = filter (\<lambda>y. y \<noteq> x) (filter P xs)"
    unfolding filter_filter by (rule filter_cong) (auto simp: Q)
  also have "length \<dots> < length (filter P xs)"
    using assms(1,2) by (intro length_filter_less [of x]) auto
  finally show ?thesis by simp
qed

lemma length_filter_weaken:
  "(\<And>x. P x \<Longrightarrow> Q x) \<Longrightarrow> length (filter P xs) \<le> length (filter Q xs)"
  by (induction xs) auto

lemma bfs_measure_visit: "bfs_measure s (bfs_visit s cur n st) \<le> bfs_measure s st"
proof -
  obtain prev q where st: "st = (prev, q)" by (cases st)
  show ?thesis
  proof (cases "um_find prev n = None \<and> is_traversable_node s n")
    case True
    then have "Suc (length (filter (\<lambda>u. um_find (um_emplace n cur prev) u = None) (node_uids s)))
        \<le> length (filter (\<lambda>u. um_find prev u = None) (node_uids s))"
      by (intro filter_remove_one [of n]) (auto simp: in_node_uids um_simps)
    with True show ?thesis by (simp add: st bfs_visit_def bfs_measure_def)
  next
    case False
    have "length (filter (\<lambda>u. um_find (um_emplace n cur prev) u = None) (node_uids s))
        \<le> length (filter (\<lambda>u. um_find prev u = None) (node_uids s))"
      by (rule length_filter_weaken) (auto simp: um_simps split: if_splits)
    with False show ?thesis by (auto simp: st bfs_visit_def bfs_measure_def)
  qed
qed

lemma bfs_measure_fold: "bfs_measure s (fold (bfs_visit s cur) ns st) \<le> bfs_measure s st"
proof (induction ns arbitrary: st)
  case Nil
  show ?case by simp
next
  case (Cons n ns)
  have "bfs_measure s (fold (bfs_visit s cur) ns (bfs_visit s cur n st))
      \<le> bfs_measure s (bfs_visit s cur n st)"
    by (rule Cons.IH)
  also have "\<dots> \<le> bfs_measure s st" by (rule bfs_measure_visit)
  finally show ?case by simp
qed

function bfs_loop :: "EngineState \<Rightarrow> UID \<Rightarrow> bfs_prev \<Rightarrow> bfs_queue \<Rightarrow> bfs_result" where
  "bfs_loop s goal prev [] = BfsNone"
| "bfs_loop s goal prev ((cur, from) # q) =
     (if cur = goal
      then (case bfs_reconstruct (length prev) prev goal [] of
              None \<Rightarrow> BfsStuck | Some path \<Rightarrow> BfsFound path)
      else let st = bfs_expand s cur from prev q
           in bfs_loop s goal (fst st) (snd st))"
  by pat_completeness auto
termination
proof (relation "measure (\<lambda>(s, goal, prev, q). bfs_measure s (prev, q))", goal_cases)
  case 1
  show ?case by simp
next
  case (2 s goal prev cur fr q x)
  have "bfs_measure s (fold (bfs_visit s cur) (topology_neighbors s cur fr) (prev, q))
      \<le> bfs_measure s (prev, q)"
    by (rule bfs_measure_fold)
  moreover have "bfs_measure s (prev, q) < bfs_measure s (prev, (cur, fr) # q)"
    by (simp add: bfs_measure_def)
  ultimately show ?case by (simp add: 2 bfs_expand_def)
qed

definition bfs :: "EngineState \<Rightarrow> UID \<Rightarrow> UID \<Rightarrow> bfs_result" where
  "bfs s start goal = bfs_loop s goal [(start, 0)] [(start, 0)]"

section \<open>Switch positions and route paths\<close>

definition required_switch_position :: "Switch \<Rightarrow> UID \<Rightarrow> UID \<Rightarrow> SwitchPosition" where
  "required_switch_position sw came_from going_to =
    (if leg_neighbor_uid (sw_trunk sw) = came_from \<and> leg_neighbor_uid (sw_straight sw) = going_to
     then STRAIGHT
     else if leg_neighbor_uid (sw_trunk sw) = came_from \<and> leg_neighbor_uid (sw_divergent sw) = going_to
     then DIVERGENT
     else if leg_neighbor_uid (sw_straight sw) = came_from then STRAIGHT
     else if leg_neighbor_uid (sw_divergent sw) = came_from then DIVERGENT
     else STRAIGHT)"

text \<open>
  The classification loop over the found path.  The first argument is the element before the
  current one, \<open>0\<close> at the start, as the index arithmetic of the source gives it.
\<close>

fun classify_nodes :: "EngineState \<Rightarrow> UID \<Rightarrow> UID list \<Rightarrow> RoutePathNode list" where
  "classify_nodes s from [] = []"
| "classify_nodes s from (uid # rest) =
    (case find_track_section s uid of
       Some _ \<Rightarrow> [\<lparr>node_kind = NODE_TRACK_SECTION, node_uid = uid, node_required_position = STRAIGHT\<rparr>]
     | None \<Rightarrow>
         (case find_switch s uid of
            Some sw \<Rightarrow>
              [\<lparr>node_kind = NODE_SWITCH, node_uid = uid,
                node_required_position =
                  required_switch_position sw from (case rest of [] \<Rightarrow> 0 | to # _ \<Rightarrow> to)\<rparr>]
          | None \<Rightarrow> [])) @ classify_nodes s uid rest"

definition node_uids_of_kind :: "NodeKind \<Rightarrow> RoutePathNode list \<Rightarrow> UID list" where
  "node_uids_of_kind k nodes = map node_uid (filter (\<lambda>n. node_kind n = k) nodes)"

definition derailers_guarding :: "EngineState \<Rightarrow> UID list \<Rightarrow> UID list" where
  "derailers_guarding s sections =
     map dr_uid (filter (\<lambda>d. dr_guards_section_uid d \<in> set sections) (for_each_derailer s))"

fun apply_policies :: "RoutePathPolicy list \<Rightarrow> EngineState \<Rightarrow> RoutePath \<Rightarrow> RoutePath option" where
  "apply_policies [] s rp = Some rp"
| "apply_policies (policy # ps) s rp =
     (case policy s rp of (ok, rp') \<Rightarrow> if ok then apply_policies ps s rp' else None)"

definition path_of_uids :: "EngineState \<Rightarrow> UID \<Rightarrow> UID \<Rightarrow> UID list \<Rightarrow> RoutePath" where
  "path_of_uids s from_signal_uid to_signal_uid path_uids =
    (let nodes = classify_nodes s 0 path_uids;
         sections = node_uids_of_kind NODE_TRACK_SECTION nodes
     in \<lparr>rp_from_signal_uid = from_signal_uid, rp_to_signal_uid = to_signal_uid,
         rp_nodes = nodes, rp_section_uids = sections,
         rp_switch_uids = node_uids_of_kind NODE_SWITCH nodes,
         rp_derailer_uids = derailers_guarding s sections, rp_flank_switches = []\<rparr>)"

definition path_of_section :: "EngineState \<Rightarrow> UID \<Rightarrow> UID \<Rightarrow> UID \<Rightarrow> RoutePath" where
  "path_of_section s from_signal_uid to_signal_uid start =
     \<lparr>rp_from_signal_uid = from_signal_uid, rp_to_signal_uid = to_signal_uid,
      rp_nodes = [\<lparr>node_kind = NODE_TRACK_SECTION, node_uid = start, node_required_position = STRAIGHT\<rparr>],
      rp_section_uids = [start], rp_switch_uids = [],
      rp_derailer_uids = derailers_guarding s [start], rp_flank_switches = []\<rparr>"

definition find_route_path ::
    "EngineState \<Rightarrow> UID \<Rightarrow> UID \<Rightarrow> RoutePathPolicy list \<Rightarrow> RoutePath option" where
  "find_route_path s from_signal_uid to_signal_uid policies =
    (case (find_signal s from_signal_uid, find_signal s to_signal_uid) of
       (Some entry, Some exit) \<Rightarrow>
         (let start = sig_governs_section_uid entry; goal = sig_governs_section_uid exit
          in if start = goal
             then apply_policies policies s (path_of_section s from_signal_uid to_signal_uid start)
             else (case bfs s start goal of
                     BfsFound path_uids \<Rightarrow>
                       apply_policies policies s
                         (path_of_uids s from_signal_uid to_signal_uid path_uids)
                   | _ \<Rightarrow> None))
     | _ \<Rightarrow> None)"

definition make_route_uid :: "UID \<Rightarrow> UID \<Rightarrow> u64 \<Rightarrow> UID" where
  "make_route_uid from_signal_uid to_signal_uid tick =
     make_uid OPERATIONS ROUTE
       (uid_scope from_signal_uid XOR uid_scope to_signal_uid)
       ((uid_instance from_signal_uid XOR uid_instance to_signal_uid XOR ucast tick) AND 0xFFFF)"

end
