(* ===== verification/Device_Rules.thy ===== *)
theory Device_Rules
  imports Route_Graph
begin

text \<open>
  The shared interlocking rules R1 to R10 and the tick helpers of
  \<^verbatim>\<open>srk/common/src/device_rules.cpp\<close>, with the reason codes of
  \<^verbatim>\<open>srk/common/include/srk/common/nak_codes.hpp\<close>.  Every \<^verbatim>\<open>check_*\<close>
  returns the violation of the first failing test in the order of the source, message text
  included; every \<^verbatim>\<open>execute_*\<close> returns the list of state changes.  A loop that
  returns early is \<open>first_some\<close>.
\<close>

section \<open>Reason codes and violations\<close>

definition NAK_UNSPECIFIED :: u8 where "NAK_UNSPECIFIED = 0x00"
definition NAK_NOT_FOUND :: u8 where "NAK_NOT_FOUND = 0x01"
definition NAK_SAFETY_BLOCK :: u8 where "NAK_SAFETY_BLOCK = 0x02"
definition NAK_INVALID_STATE :: u8 where "NAK_INVALID_STATE = 0x03"
definition NAK_ROUTE_LOCKED :: u8 where "NAK_ROUTE_LOCKED = 0x04"
definition NAK_NO_PATH :: u8 where "NAK_NO_PATH = 0x05"
definition NAK_SWITCH_MOVING :: u8 where "NAK_SWITCH_MOVING = 0x06"
definition NAK_UNSUPPORTED :: u8 where "NAK_UNSUPPORTED = 0x07"
definition NAK_UNAUTHORIZED :: u8 where "NAK_UNAUTHORIZED = 0x08"
definition NAK_SESSION_PAUSED :: u8 where "NAK_SESSION_PAUSED = 0x09"

lemmas nak_defs = NAK_UNSPECIFIED_def NAK_NOT_FOUND_def NAK_SAFETY_BLOCK_def NAK_INVALID_STATE_def
  NAK_ROUTE_LOCKED_def NAK_NO_PATH_def NAK_SWITCH_MOVING_def NAK_UNSUPPORTED_def
  NAK_UNAUTHORIZED_def NAK_SESSION_PAUSED_def

definition violation :: "u8 \<Rightarrow> string \<Rightarrow> UID \<Rightarrow> InterlockingViolation" where
  "violation code text uid =
     \<lparr>viol_reason_code = code, viol_reason_text = text, viol_offending_uid = uid\<rparr>"

definition uid_str :: "UID \<Rightarrow> string" where
  "uid_str uid = u64_to_string uid"

section \<open>R1: SetSwitchPosition\<close>

definition check_set_switch_position ::
    "EngineState \<Rightarrow> UID \<Rightarrow> SwitchPosition \<Rightarrow> InterlockingViolation option" where
  "check_set_switch_position s uid position =
    (case find_switch s uid of
       None \<Rightarrow> Some (violation NAK_NOT_FOUND (''Switch not found: '' @ uid_str uid) uid)
     | Some sw \<Rightarrow>
         if sw_position sw = MOVING then
           Some (violation NAK_SWITCH_MOVING (''Switch is already moving: '' @ uid_str uid) uid)
         else if sw_occupancy sw = OCCUPIED then
           Some (violation NAK_SAFETY_BLOCK (''Switch is occupied: '' @ uid_str uid) uid)
         else (case sw_locked_by_route_uid sw of
             Some r \<Rightarrow>
               Some (violation NAK_ROUTE_LOCKED
                 (''Switch locked by route '' @ uid_str r @ '': '' @ uid_str uid) uid)
           | None \<Rightarrow>
               if sw_position sw = position then
                 Some (violation NAK_INVALID_STATE
                   (''Switch already in requested position: '' @ uid_str uid) uid)
               else None))"

definition execute_set_switch_position ::
    "EngineState \<Rightarrow> UID \<Rightarrow> SwitchPosition \<Rightarrow> int \<Rightarrow> DeviceStateChange list" where
  "execute_set_switch_position s uid position throw_time_ticks =
    (if throw_time_ticks > 0
     then [SwitchPositionChange uid MOVING CAUSE_COMMAND throw_time_ticks]
     else [SwitchPositionChange uid position CAUSE_COMMAND 0])"

section \<open>R2: SetSignalAspect\<close>

definition check_set_signal_aspect ::
    "EngineState \<Rightarrow> UID \<Rightarrow> SignalAspect \<Rightarrow> InterlockingViolation option" where
  "check_set_signal_aspect s uid aspect =
    (case find_signal s uid of
       None \<Rightarrow> Some (violation NAK_NOT_FOUND (''Signal not found: '' @ uid_str uid) uid)
     | Some sig \<Rightarrow>
         if sig_locked_by_route_uid sig \<noteq> None \<and> \<not> (aspect = S1_STOP \<or> aspect = MS1_STOP) then
           Some (violation NAK_ROUTE_LOCKED
             (''Cannot change locked signal to proceed aspect: '' @ uid_str uid) uid)
         else None)"

definition execute_set_signal_aspect ::
    "EngineState \<Rightarrow> UID \<Rightarrow> SignalAspect \<Rightarrow> DeviceStateChange list" where
  "execute_set_signal_aspect s uid aspect = [SignalAspectChange uid aspect CAUSE_COMMAND None]"

section \<open>R3: SetDerailerPosition\<close>

definition check_set_derailer_position ::
    "EngineState \<Rightarrow> UID \<Rightarrow> DerailerState \<Rightarrow> InterlockingViolation option" where
  "check_set_derailer_position s uid position =
    (case find_derailer s uid of
       None \<Rightarrow> Some (violation NAK_NOT_FOUND (''Derailer not found: '' @ uid_str uid) uid)
     | Some d \<Rightarrow>
         (case dr_locked_by_route_uid d of
            Some r \<Rightarrow>
              Some (violation NAK_ROUTE_LOCKED
                (''Derailer locked by route '' @ uid_str r @ '': '' @ uid_str uid) uid)
          | None \<Rightarrow>
              if position = UNLOCKED \<and>
                 map_option ts_occupancy (find_track_section s (dr_guards_section_uid d)) = Some OCCUPIED
              then Some (violation NAK_SAFETY_BLOCK (''Guarded section is occupied: '' @ uid_str uid) uid)
              else None))"

definition execute_set_derailer_position ::
    "EngineState \<Rightarrow> UID \<Rightarrow> DerailerState \<Rightarrow> DeviceStateChange list" where
  "execute_set_derailer_position s uid position =
     [DerailerStateChange uid position CAUSE_COMMAND None]"

section \<open>R4: SetBlockSection\<close>

definition check_set_block_section ::
    "EngineState \<Rightarrow> UID \<Rightarrow> BlockSectionState \<Rightarrow> InterlockingViolation option" where
  "check_set_block_section s uid st =
    (case find_block_section s uid of
       None \<Rightarrow> Some (violation NAK_NOT_FOUND (''Block section not found: '' @ uid_str uid) uid)
     | Some bs \<Rightarrow>
         if st = BS_CLOSED \<and> bs_axle_count bs \<noteq> 0 then
           Some (violation NAK_SAFETY_BLOCK
             (''Cannot close block section: axle count '' @ int_to_string (bs_axle_count bs) @
              '' != 0: '' @ uid_str uid) uid)
         else None)"

definition execute_set_block_section ::
    "EngineState \<Rightarrow> UID \<Rightarrow> BlockSectionState \<Rightarrow> DeviceStateChange list" where
  "execute_set_block_section s uid st = [BlockSectionStateChange uid st]"

section \<open>R5: RequestRoute and CancelRoute\<close>

text \<open>Flank protection: the switch behind the unused leg is required to deflect.\<close>

definition flank_of_node :: "EngineState \<Rightarrow> RoutePathNode \<Rightarrow> RoutePathNode list" where
  "flank_of_node s node =
    (if node_kind node \<noteq> NODE_SWITCH then []
     else case find_switch s (node_uid node) of
            None \<Rightarrow> []
          | Some sw \<Rightarrow>
              (let unused_leg =
                     (if node_required_position node = STRAIGHT
                      then leg_neighbor_uid (sw_divergent sw) else leg_neighbor_uid (sw_straight sw))
               in case find_switch s unused_leg of
                    None \<Rightarrow> []
                  | Some flank_sw \<Rightarrow>
                      [\<lparr>node_kind = NODE_SWITCH, node_uid = sw_uid flank_sw,
                        node_required_position =
                          (if leg_neighbor_uid (sw_trunk flank_sw) = sw_uid sw then DIVERGENT
                           else if leg_neighbor_uid (sw_straight flank_sw) = sw_uid sw then DIVERGENT
                           else if leg_neighbor_uid (sw_divergent flank_sw) = sw_uid sw then STRAIGHT
                           else STRAIGHT)\<rparr>]))"

definition FlankProtectionPolicy :: RoutePathPolicy where
  "FlankProtectionPolicy s path =
     (True, path\<lparr>rp_flank_switches :=
              rp_flank_switches path @ concat (map (flank_of_node s) (rp_nodes path))\<rparr>)"

definition check_route_node :: "EngineState \<Rightarrow> RoutePathNode \<Rightarrow> InterlockingViolation option" where
  "check_route_node s node =
    (if node_kind node \<noteq> NODE_SWITCH then None
     else case find_switch s (node_uid node) of
            None \<Rightarrow> None
          | Some sw \<Rightarrow>
              if sw_occupancy sw = OCCUPIED then
                Some (violation NAK_SAFETY_BLOCK
                  (''Switch occupied on route path: '' @ uid_str (node_uid node)) (node_uid node))
              else if sw_locked_by_route_uid sw \<noteq> None then
                Some (violation NAK_ROUTE_LOCKED
                  (''Switch locked by another route: '' @ uid_str (node_uid node)) (node_uid node))
              else if sw_position sw = MOVING then
                Some (violation NAK_SWITCH_MOVING
                  (''Switch is moving: '' @ uid_str (node_uid node)) (node_uid node))
              else None)"

definition check_route_section :: "EngineState \<Rightarrow> UID \<Rightarrow> InterlockingViolation option" where
  "check_route_section s suid =
    (if map_option ts_occupancy (find_track_section s suid) = Some OCCUPIED
     then Some (violation NAK_SAFETY_BLOCK
            (''Track section occupied on route path: '' @ uid_str suid) suid)
     else None)"

definition check_request_route ::
    "EngineState \<Rightarrow> UID \<Rightarrow> UID \<Rightarrow> RoutePathPolicy list \<Rightarrow> InterlockingViolation option" where
  "check_request_route s from_uid to_uid policies =
    (case find_signal s from_uid of
       None \<Rightarrow> Some (violation NAK_NOT_FOUND (''Entry signal not found: '' @ uid_str from_uid) from_uid)
     | Some entry \<Rightarrow>
       (case find_signal s to_uid of
          None \<Rightarrow> Some (violation NAK_NOT_FOUND (''Exit signal not found: '' @ uid_str to_uid) to_uid)
        | Some exit \<Rightarrow>
            if sig_locked_by_route_uid entry \<noteq> None then
              Some (violation NAK_ROUTE_LOCKED
                (''Entry signal already route-locked: '' @ uid_str from_uid) from_uid)
            else (case find_route_path s from_uid to_uid policies of
                None \<Rightarrow>
                  Some (violation NAK_NO_PATH
                    (''No topology path from '' @ uid_str from_uid @ '' to '' @ uid_str to_uid) 0)
              | Some path \<Rightarrow>
                  (case first_some (check_route_node s) (rp_nodes path) of
                     Some v \<Rightarrow> Some v
                   | None \<Rightarrow> first_some (check_route_section s) (rp_section_uids path)))))"

text \<open>The changes for one switch of a route: throw it if needed, then lock it.\<close>

definition set_route_switch :: "EngineState \<Rightarrow> UID \<Rightarrow> RoutePathNode \<Rightarrow> DeviceStateChange list" where
  "set_route_switch s route_uid node =
    (case find_switch s (node_uid node) of
       None \<Rightarrow> []
     | Some sw \<Rightarrow>
         (if sw_position sw \<noteq> node_required_position node
          then [SwitchPositionChange (node_uid node) (node_required_position node) CAUSE_AUTO 0]
          else []) @ [SwitchLocked (node_uid node) route_uid])"

definition set_route_derailer :: "EngineState \<Rightarrow> UID \<Rightarrow> UID \<Rightarrow> DeviceStateChange list" where
  "set_route_derailer s route_uid duid =
    (case find_derailer s duid of
       None \<Rightarrow> []
     | Some d \<Rightarrow>
         if dr_state d = LOCKED
         then [DerailerStateChange duid UNLOCKED CAUSE_AUTO (Some route_uid)] else [])"

definition route_state_of :: "EngineState \<Rightarrow> UID \<Rightarrow> UID \<Rightarrow> UID \<Rightarrow> u64 \<Rightarrow> RoutePath \<Rightarrow> RouteState" where
  "route_state_of s route_uid from_uid to_uid tick path =
     \<lparr>rt_uid = route_uid, rt_from_signal_uid = from_uid, rt_to_signal_uid = to_uid,
      rt_section_uids = rp_section_uids path,
      rt_switch_uids =
        rp_switch_uids path @
        map node_uid (filter (\<lambda>f. find_switch s (node_uid f) \<noteq> None) (rp_flank_switches path)),
      rt_derailer_uids = rp_derailer_uids path, rt_created_tick = tick,
      rt_train_entered = False, rt_overlap_release_tick = None\<rparr>"

definition execute_request_route ::
    "EngineState \<Rightarrow> UID \<Rightarrow> UID \<Rightarrow> u64 \<Rightarrow> RoutePathPolicy list \<Rightarrow> DeviceStateChange list" where
  "execute_request_route s from_uid to_uid tick policies =
    (case find_route_path s from_uid to_uid policies of
       None \<Rightarrow> []
     | Some path \<Rightarrow>
         (let route_uid = make_route_uid from_uid to_uid tick
          in concat (map (set_route_switch s route_uid)
                      (filter (\<lambda>n. node_kind n = NODE_SWITCH) (rp_nodes path))) @
             concat (map (set_route_switch s route_uid) (rp_flank_switches path)) @
             concat (map (set_route_derailer s route_uid) (rp_derailer_uids path)) @
             [SignalAspectChange from_uid S2_PROCEED CAUSE_AUTO (Some route_uid),
              RouteAdded (route_state_of s route_uid from_uid to_uid tick path)]))"

definition check_cancel_route :: "EngineState \<Rightarrow> UID \<Rightarrow> bool \<Rightarrow> InterlockingViolation option" where
  "check_cancel_route s route_uid force =
    (case find_route s route_uid of
       None \<Rightarrow> Some (violation NAK_NOT_FOUND (''Route not found: '' @ uid_str route_uid) route_uid)
     | Some route \<Rightarrow>
         if \<not> force \<and> rt_train_entered route then
           Some (violation NAK_SAFETY_BLOCK
             (''Train has entered route; use force to cancel: '' @ uid_str route_uid) route_uid)
         else None)"

definition relock_derailer :: "EngineState \<Rightarrow> UID \<Rightarrow> DeviceStateChange list" where
  "relock_derailer s duid =
    (if derailer_state s duid = Some UNLOCKED
     then [DerailerStateChange duid LOCKED CAUSE_AUTO None] else [])"

definition execute_cancel_route :: "EngineState \<Rightarrow> UID \<Rightarrow> bool \<Rightarrow> DeviceStateChange list" where
  "execute_cancel_route s route_uid force =
    (case find_route s route_uid of
       None \<Rightarrow> []
     | Some route \<Rightarrow>
         [SignalAspectChange (rt_from_signal_uid route) S1_STOP CAUSE_COMMAND (Some route_uid)] @
         map (\<lambda>swuid. SwitchUnlocked swuid route_uid) (rt_switch_uids route) @
         concat (map (relock_derailer s) (rt_derailer_uids route)) @
         (if force then [EmergencyRouteReleaseExecuted route_uid] else []) @
         [RouteRemoved route_uid (if force then ''FORCE'' else ''OPERATOR_CANCEL'')])"

section \<open>R7: AcknowledgeAlarm\<close>

definition check_acknowledge_alarm :: "EngineState \<Rightarrow> UID \<Rightarrow> InterlockingViolation option" where
  "check_acknowledge_alarm s alarm_uid =
    (if find_alarm s alarm_uid = None
     then Some (violation NAK_NOT_FOUND (''Alarm not found: '' @ uid_str alarm_uid) alarm_uid)
     else None)"

definition execute_acknowledge_alarm :: "EngineState \<Rightarrow> UID \<Rightarrow> DeviceStateChange list" where
  "execute_acknowledge_alarm s alarm_uid = [AlarmCleared alarm_uid]"

section \<open>Operator commands\<close>

definition target_exists :: "EngineState \<Rightarrow> UID \<Rightarrow> OperatorTargetKind \<Rightarrow> bool" where
  "target_exists s uid kind =
    (case kind of
       TK_SIGNAL \<Rightarrow> find_signal s uid \<noteq> None
     | TK_SWITCH \<Rightarrow> find_switch s uid \<noteq> None \<or> find_derailer s uid \<noteq> None
     | TK_DERAILER \<Rightarrow> find_derailer s uid \<noteq> None
     | TK_TRACK_SECTION \<Rightarrow> find_track_section s uid \<noteq> None
     | TK_BLOCK_SECTION \<Rightarrow> find_block_section s uid \<noteq> None
     | _ \<Rightarrow> uid \<noteq> 0)"

definition check_operator_command ::
    "EngineState \<Rightarrow> UID \<Rightarrow> OperatorTargetKind \<Rightarrow> OperatorCommandCode \<Rightarrow> InterlockingViolation option" where
  "check_operator_command s uid kind code =
    (if \<not> target_exists s uid kind then
       Some (violation NAK_NOT_FOUND (''Operator command target not found: '' @ uid_str uid) uid)
     else
       case (if code \<in> {OC_ZWP, OC_ZWM, OC_ZBP, OC_ZBM} then
               (case find_switch s uid of
                  None \<Rightarrow> None
                | Some sw \<Rightarrow>
                    if sw_occupancy sw = OCCUPIED then
                      Some (violation NAK_SAFETY_BLOCK (''Switch is occupied: '' @ uid_str uid) uid)
                    else if sw_locked_by_route_uid sw \<noteq> None then
                      Some (violation NAK_ROUTE_LOCKED (''Switch locked by route: '' @ uid_str uid) uid)
                    else if sw_position sw = MOVING then
                      Some (violation NAK_SWITCH_MOVING (''Switch is moving: '' @ uid_str uid) uid)
                    else None)
             else None) of
         Some v \<Rightarrow> Some v
       | None \<Rightarrow>
           if code = OC_BLZ \<and>
              (case find_block_section s uid of None \<Rightarrow> False | Some bs \<Rightarrow> bs_axle_count bs \<noteq> 0)
           then Some (violation NAK_SAFETY_BLOCK ''Cannot release block direction: axle count != 0'' uid)
           else None)"

definition stop_aspect :: "Signal \<Rightarrow> SignalAspect" where
  "stop_aspect sig = (if sig_type sig = SIG_SHUNTING then MS1_STOP else S1_STOP)"

definition throw_device ::
    "EngineState \<Rightarrow> UID \<Rightarrow> SwitchPosition \<Rightarrow> DerailerState \<Rightarrow> int \<Rightarrow> DeviceStateChange list" where
  "throw_device s uid pos dpos throw_time_ticks =
    (if find_switch s uid \<noteq> None then execute_set_switch_position s uid pos throw_time_ticks
     else if find_derailer s uid \<noteq> None then execute_set_derailer_position s uid dpos
     else [])"

definition confirm_direction :: "EngineState \<Rightarrow> UID \<Rightarrow> DeviceStateChange list" where
  "confirm_direction s uid =
    (case find_block_section s uid of
       None \<Rightarrow> []
     | Some bs \<Rightarrow>
         [BlockDirectionChange uid
            (if bs_direction bs = INBOUND_PENDING then INBOUND else OUTBOUND) False,
          BlockSectionStateChange uid BS_OPEN])"

definition execute_operator_command ::
    "EngineState \<Rightarrow> UID \<Rightarrow> OperatorTargetKind \<Rightarrow> OperatorCommandCode \<Rightarrow> int \<Rightarrow> DeviceStateChange list" where
  "execute_operator_command s uid kind code throw_time_ticks =
     OperatorCommandStateChange uid kind code True #
    (if code = OC_SES then
       (case find_signal s uid of
          None \<Rightarrow> []
        | Some sig \<Rightarrow> [SignalAspectChange uid (stop_aspect sig) CAUSE_COMMAND None])
     else if code \<in> {OC_SEO, OC_SZO, OC_SAW, OC_ZWO, OC_ITO, OC_OST, OC_OZK, OC_BTO, OC_PDO, OC_UPAO,
                     OC_ZSO} then
       [OperatorCommandStateChange uid kind code False]
     else if code \<in> {OC_SZW, OC_SZN} then [SignalAspectChange uid S2_PROCEED CAUSE_COMMAND None]
     else if code \<in> {OC_ZWP, OC_ZBP} then throw_device s uid STRAIGHT LOCKED throw_time_ticks
     else if code \<in> {OC_ZWM, OC_ZBM} then throw_device s uid DIVERGENT UNLOCKED throw_time_ticks
     else if code = OC_SLK then
       [AxleCounterResetChange uid kind, OperatorCommandStateChange uid kind code False]
     else if code = OC_BLS then [BlockSectionStateChange uid BS_CLOSED]
     else if code \<in> {OC_BLW, OC_BPZ} then [BlockDirectionChange uid OUTBOUND_PENDING True]
     else if code \<in> {OC_BPO, OC_BKO, OC_BTW, OC_POC, OC_PZW} then
       [BlockSectionStateChange uid BS_CLOSED]
     else if code \<in> {OC_BLP, OC_POZ} then confirm_direction s uid
     else if code \<in> {OC_BLO, OC_BLZ, OC_BLA, OC_OPS, OC_DPW} then
       [BlockDirectionChange uid NEUTRAL False, BlockSectionStateChange uid BS_CLOSED]
     else if code \<in> {OC_BLAI, OC_DPWI} then [BlockDirectionChange uid DIR_EMERGENCY False]
     else [])"

section \<open>R8: SetBlockDirection (SHL-12)\<close>

definition check_direction_op ::
    "BlockSection \<Rightarrow> UID \<Rightarrow> Shl12Op \<Rightarrow> InterlockingViolation option" where
  "check_direction_op bs uid op =
    (let dir = bs_direction bs
     in case op of
          SHL_BLW \<Rightarrow>
            if dir \<noteq> NEUTRAL then
              Some (violation NAK_INVALID_STATE
                (''BLW requires NEUTRAL direction, current: '' @ int_to_string (direction_index dir)) uid)
            else None
        | SHL_BLP \<Rightarrow>
            if dir \<noteq> OUTBOUND_PENDING \<and> dir \<noteq> INBOUND_PENDING then
              Some (violation NAK_INVALID_STATE ''BLP requires OUTBOUND_PENDING or INBOUND_PENDING'' uid)
            else None
        | SHL_BLO \<Rightarrow>
            if dir \<noteq> OUTBOUND_PENDING then
              Some (violation NAK_INVALID_STATE ''BLO requires OUTBOUND_PENDING'' uid)
            else None
        | SHL_BLZ \<Rightarrow>
            if dir \<noteq> OUTBOUND \<and> dir \<noteq> INBOUND then
              Some (violation NAK_INVALID_STATE ''BLZ requires OUTBOUND or INBOUND'' uid)
            else if bs_axle_count bs \<noteq> 0 then
              Some (violation NAK_SAFETY_BLOCK ''Cannot release direction: axle count != 0'' uid)
            else None
        | SHL_BLAI \<Rightarrow>
            if dir = RESET_PENDING then
              Some (violation NAK_INVALID_STATE ''BLAI not allowed in RESET_PENDING state'' uid)
            else None
        | SHL_BLA \<Rightarrow>
            if dir \<noteq> DIR_EMERGENCY then
              Some (violation NAK_INVALID_STATE ''BLA requires EMERGENCY state'' uid)
            else None
        | SHL_OPS \<Rightarrow>
            if dir \<noteq> DIR_EMERGENCY \<and> dir \<noteq> RESET_PENDING then
              Some (violation NAK_INVALID_STATE ''OPS requires EMERGENCY or RESET_PENDING state'' uid)
            else None)"

definition check_set_block_direction ::
    "EngineState \<Rightarrow> UID \<Rightarrow> Shl12Op \<Rightarrow> InterlockingViolation option" where
  "check_set_block_direction s uid op =
    (case find_block_section s uid of
       None \<Rightarrow> Some (violation NAK_NOT_FOUND (''Block section not found: '' @ uid_str uid) uid)
     | Some bs \<Rightarrow> check_direction_op bs uid op)"

definition execute_set_block_direction ::
    "EngineState \<Rightarrow> UID \<Rightarrow> Shl12Op \<Rightarrow> DeviceStateChange list" where
  "execute_set_block_direction s uid op =
    (case find_block_section s uid of
       None \<Rightarrow> []
     | Some bs \<Rightarrow>
         (case op of
            SHL_BLW \<Rightarrow> [BlockDirectionChange uid OUTBOUND_PENDING True]
          | SHL_BLP \<Rightarrow>
              if bs_direction bs = OUTBOUND_PENDING
              then [BlockDirectionChange uid OUTBOUND False, BlockSectionStateChange uid BS_OPEN]
              else [BlockDirectionChange uid INBOUND False, BlockSectionStateChange uid BS_OPEN]
          | SHL_BLO \<Rightarrow> [BlockDirectionChange uid NEUTRAL False]
          | SHL_BLZ \<Rightarrow> [BlockDirectionChange uid NEUTRAL False, BlockSectionStateChange uid BS_CLOSED]
          | SHL_BLAI \<Rightarrow> [BlockDirectionChange uid DIR_EMERGENCY False]
          | SHL_BLA \<Rightarrow> [BlockDirectionChange uid NEUTRAL False, BlockSectionStateChange uid BS_CLOSED]
          | SHL_OPS \<Rightarrow> [BlockDirectionChange uid NEUTRAL False, BlockSectionStateChange uid BS_CLOSED]))"

section \<open>R9 and R10: axle-counter reset\<close>

definition check_init_axle_counter_reset :: "EngineState \<Rightarrow> UID \<Rightarrow> InterlockingViolation option" where
  "check_init_axle_counter_reset s uid =
    (case find_block_section s uid of
       None \<Rightarrow> Some (violation NAK_NOT_FOUND (''Block section not found: '' @ uid_str uid) uid)
     | Some bs \<Rightarrow>
         if bs_direction bs \<noteq> NEUTRAL
         then Some (violation NAK_INVALID_STATE ''SLI requires NEUTRAL direction'' uid) else None)"

definition execute_init_axle_counter_reset :: "EngineState \<Rightarrow> UID \<Rightarrow> DeviceStateChange list" where
  "execute_init_axle_counter_reset s uid = [BlockDirectionChange uid RESET_PENDING False]"

definition check_reset_axle_counter :: "EngineState \<Rightarrow> UID \<Rightarrow> InterlockingViolation option" where
  "check_reset_axle_counter s uid =
    (case find_block_section s uid of
       None \<Rightarrow> Some (violation NAK_NOT_FOUND (''Block section not found: '' @ uid_str uid) uid)
     | Some bs \<Rightarrow>
         if bs_direction bs \<noteq> RESET_PENDING
         then Some (violation NAK_INVALID_STATE ''SLK requires RESET_PENDING state'' uid)
         else (case bs_reset_init_tick bs of
                 None \<Rightarrow> Some (violation NAK_SAFETY_BLOCK ''SLK requires 60s delay after SLI'' uid)
               | Some t0 \<Rightarrow>
                   if es_current_tick s < t0 + 60 * ENGINE_TICKS_PER_SECOND
                   then Some (violation NAK_SAFETY_BLOCK ''SLK requires 60s delay after SLI'' uid)
                   else None))"

definition execute_reset_axle_counter :: "EngineState \<Rightarrow> UID \<Rightarrow> DeviceStateChange list" where
  "execute_reset_axle_counter s uid =
     [BlockDirectionChange uid NEUTRAL False, BlockSectionStateChange uid BS_CLOSED]"

section \<open>Tick helpers\<close>

type_synonym pending_targets = "(UID, SwitchPosition) umap"

text \<open>One visit of the switch-machine loop, threading the pending targets.\<close>

definition landing_target :: "pending_targets \<Rightarrow> UID \<Rightarrow> SwitchPosition" where
  "landing_target pending uid = (case um_find pending uid of Some p \<Rightarrow> p | None \<Rightarrow> STRAIGHT)"

definition tick_switch_machine ::
    "Switch \<Rightarrow> pending_targets \<times> DeviceStateChange list \<Rightarrow> pending_targets \<times> DeviceStateChange list" where
  "tick_switch_machine sw st =
    (let (pending, changes) = st; uid = sw_uid sw; remaining = sw_moving_ticks_remaining sw - 1
     in if sw_position sw \<noteq> MOVING then (um_erase uid pending, changes)
        else if sw_moving_ticks_remaining sw \<le> 0 then
          (um_erase uid pending,
           changes @ [SwitchPositionChange uid (landing_target pending uid) CAUSE_AUTO 0])
        else if remaining = 0 then
          (um_erase uid pending,
           changes @ [SwitchPositionChange uid (landing_target pending uid) CAUSE_AUTO 0])
        else (pending, changes @ [SwitchPositionChange uid MOVING CAUSE_AUTO remaining]))"

definition tick_switch_machines ::
    "EngineState \<Rightarrow> pending_targets \<Rightarrow> pending_targets \<times> DeviceStateChange list" where
  "tick_switch_machines s pending = fold tick_switch_machine (for_each_switch s) (pending, [])"

definition sections_free :: "EngineState \<Rightarrow> UID list \<Rightarrow> bool" where
  "sections_free s uids \<longleftrightarrow>
     list_all (\<lambda>suid. map_option ts_occupancy (find_track_section s suid) \<noteq> Some OCCUPIED) uids"

definition release_route :: "EngineState \<Rightarrow> u64 \<Rightarrow> RouteState \<Rightarrow> DeviceStateChange list" where
  "release_route s current_tick route =
    (if \<not> rt_train_entered route then []
     else if \<not> sections_free s (rt_section_uids route) then []
     else case rt_overlap_release_tick route of
            None \<Rightarrow>
              [RouteOverlapTimerStarted (rt_uid route) (current_tick + 60 * ENGINE_TICKS_PER_SECOND)]
          | Some t \<Rightarrow>
              if current_tick < t then []
              else [SignalAspectChange (rt_from_signal_uid route) S1_STOP CAUSE_AUTO
                      (Some (rt_uid route))] @
                   map (\<lambda>swuid. SwitchUnlocked swuid (rt_uid route)) (rt_switch_uids route) @
                   [RouteRemoved (rt_uid route) ''TRAIN_CLEARED''])"

definition tick_route_auto_release :: "EngineState \<Rightarrow> u64 \<Rightarrow> DeviceStateChange list" where
  "tick_route_auto_release s current_tick =
     concat (map (release_route s current_tick) (for_each_route s))"

definition tick_level_crossing :: "u64 \<Rightarrow> LevelCrossing \<Rightarrow> DeviceStateChange list" where
  "tick_level_crossing current_tick lx =
    (case lx_warning_start_tick lx of
       Some t0 \<Rightarrow>
         if lx_status lx = LX_WARNING \<and> t0 + ucast (lx_warning_duration_ticks lx) \<le> current_tick
         then [LevelCrossingStateChange (lx_uid lx) LX_CLOSED] else []
     | None \<Rightarrow> [])"

definition tick_level_crossings :: "EngineState \<Rightarrow> u64 \<Rightarrow> DeviceStateChange list" where
  "tick_level_crossings s current_tick =
     concat (map (tick_level_crossing current_tick) (for_each_level_crossing s))"

end
