(* ===== verification/Control_Systems.thy ===== *)
theory Control_Systems
  imports Device_Rules
begin

text \<open>
  The two interlockings that implement \<^verbatim>\<open>IControlSystem\<close>,
  \<^verbatim>\<open>srk/ebilock/src/ebilock_system.cpp\<close> and
  \<^verbatim>\<open>srk/ml8/src/ml8_system.cpp\<close>, and the factory registry of
  \<^verbatim>\<open>engine/src/control_system_registry.cpp\<close>.  A system object is a record of its
  private members; \<^verbatim>\<open>execute_command\<close> and \<^verbatim>\<open>on_tick\<close> return the
  updated object with the list of state changes.
\<close>

section \<open>EbiLock X4\<close>

record EbiLockSystem =
  eb_throw_ticks :: int
  eb_pending_targets :: pending_targets

definition make_EbiLockSystem :: "int \<Rightarrow> EbiLockSystem" where
  "make_EbiLockSystem eea4_throw_ticks =
     \<lparr>eb_throw_ticks = eea4_throw_ticks, eb_pending_targets = []\<rparr>"

definition ebilock_system_id :: string where
  "ebilock_system_id = ''ebilock_x4''"

definition ebilock_supported_command_types :: "string list" where
  "ebilock_supported_command_types =
     [''SetSwitchPositionCmd'', ''SetSignalAspectCmd'', ''SetDerailerPositionCmd'',
      ''SetBlockSectionCmd'', ''RequestRouteCmd'', ''CancelRouteCmd'', ''AcknowledgeAlarmCmd'',
      ''SetBlockDirectionCmd'', ''InitAxleCounterResetCmd'', ''ResetAxleCounterCmd'',
      ''OperatorCommandCmd'']"

definition kPolicies :: "RoutePathPolicy list" where
  "kPolicies = [FlankProtectionPolicy]"

fun ebilock_check_command :: "EngineState \<Rightarrow> Command \<Rightarrow> InterlockingViolation option" where
  "ebilock_check_command s (SetSwitchPositionCmd uid p) = check_set_switch_position s uid p"
| "ebilock_check_command s (SetSignalAspectCmd uid a) = check_set_signal_aspect s uid a"
| "ebilock_check_command s (SetDerailerPositionCmd uid p) = check_set_derailer_position s uid p"
| "ebilock_check_command s (SetBlockSectionCmd uid st) = check_set_block_section s uid st"
| "ebilock_check_command s (RequestRouteCmd f t) = check_request_route s f t kPolicies"
| "ebilock_check_command s (CancelRouteCmd r force) = check_cancel_route s r force"
| "ebilock_check_command s (AcknowledgeAlarmCmd a) = check_acknowledge_alarm s a"
| "ebilock_check_command s (SetBlockDirectionCmd b op) = check_set_block_direction s b op"
| "ebilock_check_command s (InitAxleCounterResetCmd b) = check_init_axle_counter_reset s b"
| "ebilock_check_command s (ResetAxleCounterCmd b) = check_reset_axle_counter s b"
| "ebilock_check_command s (OperatorCommandCmd uid k c) = check_operator_command s uid k c"
| "ebilock_check_command s (Ml8CommandCmd uid k c) =
     Some (violation NAK_UNSUPPORTED ''Unrecognised command'' 0)"

fun ebilock_execute_command ::
    "EbiLockSystem \<Rightarrow> EngineState \<Rightarrow> Command \<Rightarrow> EbiLockSystem \<times> DeviceStateChange list" where
  "ebilock_execute_command sys s (SetSwitchPositionCmd uid p) =
     (if eb_throw_ticks sys > 0
      then sys\<lparr>eb_pending_targets := um_assign uid p (eb_pending_targets sys)\<rparr> else sys,
      execute_set_switch_position s uid p (eb_throw_ticks sys))"
| "ebilock_execute_command sys s (SetSignalAspectCmd uid a) = (sys, execute_set_signal_aspect s uid a)"
| "ebilock_execute_command sys s (SetDerailerPositionCmd uid p) =
     (sys, execute_set_derailer_position s uid p)"
| "ebilock_execute_command sys s (SetBlockSectionCmd uid st) = (sys, execute_set_block_section s uid st)"
| "ebilock_execute_command sys s (RequestRouteCmd f t) =
     (sys, execute_request_route s f t (es_current_tick s) kPolicies)"
| "ebilock_execute_command sys s (CancelRouteCmd r force) = (sys, execute_cancel_route s r force)"
| "ebilock_execute_command sys s (AcknowledgeAlarmCmd a) = (sys, execute_acknowledge_alarm s a)"
| "ebilock_execute_command sys s (SetBlockDirectionCmd b op) = (sys, execute_set_block_direction s b op)"
| "ebilock_execute_command sys s (InitAxleCounterResetCmd b) =
     (sys, execute_init_axle_counter_reset s b)"
| "ebilock_execute_command sys s (ResetAxleCounterCmd b) = (sys, execute_reset_axle_counter s b)"
| "ebilock_execute_command sys s (OperatorCommandCmd uid k c) =
     (sys, execute_operator_command s uid k c (eb_throw_ticks sys))"
| "ebilock_execute_command sys s (Ml8CommandCmd uid k c) = (sys, [])"

definition ebilock_on_tick ::
    "EbiLockSystem \<Rightarrow> EngineState \<Rightarrow> u64 \<Rightarrow> EbiLockSystem \<times> DeviceStateChange list" where
  "ebilock_on_tick sys s tick_num =
    (let (pending, changes) = tick_switch_machines s (eb_pending_targets sys)
     in (sys\<lparr>eb_pending_targets := pending\<rparr>, changes @ tick_route_auto_release s tick_num))"

section \<open>ESTW ML8\<close>

record Ml8System =
  ml_throw_ticks :: int
  ml_pending_targets :: pending_targets

definition make_Ml8System :: "int \<Rightarrow> Ml8System" where
  "make_Ml8System eea4_throw_ticks = \<lparr>ml_throw_ticks = eea4_throw_ticks, ml_pending_targets = []\<rparr>"

definition ml8_system_id :: string where
  "ml8_system_id = ''estw_ml8''"

definition ml8_supported_command_types :: "string list" where
  "ml8_supported_command_types =
     [''SetSwitchPositionCmd'', ''SetSignalAspectCmd'', ''SetDerailerPositionCmd'',
      ''SetBlockSectionCmd'', ''RequestRouteCmd'', ''CancelRouteCmd'', ''AcknowledgeAlarmCmd'',
      ''SetBlockDirectionCmd'', ''InitAxleCounterResetCmd'', ''ResetAxleCounterCmd'',
      ''OperatorCommandCmd'', ''Ml8CommandCmd'']"

definition check_ml8_command ::
    "EngineState \<Rightarrow> UID \<Rightarrow> OperatorTargetKind \<Rightarrow> Ml8CommandCode \<Rightarrow> InterlockingViolation option" where
  "check_ml8_command s uid kind code =
    (if \<not> target_exists s uid kind then
       Some (violation NAK_NOT_FOUND (''ML8 command target not found: '' @ u64_to_string uid) uid)
     else
       case (if code \<in> {ML8_PZ, ML8_DPZ, ML8_PPZ, ML8_WPZ} then
               (case find_switch s uid of
                  None \<Rightarrow> None
                | Some sw \<Rightarrow>
                    if sw_occupancy sw = OCCUPIED then
                      Some (violation NAK_SAFETY_BLOCK (''Switch is occupied: '' @ u64_to_string uid) uid)
                    else if sw_position sw = MOVING then
                      Some (violation NAK_INVALID_STATE (''Switch is moving: '' @ u64_to_string uid) uid)
                    else None)
             else None) of
         Some v \<Rightarrow> Some v
       | None \<Rightarrow>
           if code \<in> {ML8_BLZ, ML8_ZWBL} \<and>
              (case find_block_section s uid of None \<Rightarrow> False | Some bs \<Rightarrow> bs_axle_count bs \<noteq> 0)
           then Some (violation NAK_SAFETY_BLOCK ''Cannot restore block: axle count != 0'' uid)
           else None)"

definition execute_ml8_command ::
    "Ml8System \<Rightarrow> EngineState \<Rightarrow> UID \<Rightarrow> OperatorTargetKind \<Rightarrow> Ml8CommandCode \<Rightarrow>
     Ml8System \<times> DeviceStateChange list" where
  "execute_ml8_command sys s uid kind code =
    (if code \<in> {ML8_PZ, ML8_DPZ} \<and> find_switch s uid \<noteq> None \<and> ml_throw_ticks sys > 0
     then sys\<lparr>ml_pending_targets := um_assign uid DIVERGENT (ml_pending_targets sys)\<rparr> else sys,
     Ml8CommandStateChange uid kind code True #
    (if code \<in> {ML8_STOJ, ML8_STJ, ML8_STOP} then
       (case find_signal s uid of
          None \<Rightarrow> []
        | Some sig \<Rightarrow> [SignalAspectChange uid (stop_aspect sig) CAUSE_COMMAND None])
     else if code \<in> {ML8_SZ, ML8_NSZ} then
       (if find_signal s uid \<noteq> None
        then [SignalAspectChange uid S2_PROCEED CAUSE_COMMAND None] else [])
     else if code \<in> {ML8_PZ, ML8_DPZ} then throw_device s uid DIVERGENT UNLOCKED (ml_throw_ticks sys)
     else if code = ML8_PPZ then [Ml8CommandStateChange uid kind code False]
     else if code = ML8_ZEROLO then [AxleCounterResetChange uid kind]
     else if code = ML8_WBL then [BlockDirectionChange uid OUTBOUND_PENDING True]
     else if code = ML8_PZK then confirm_direction s uid
     else if code = ML8_AZK then [BlockDirectionChange uid DIR_EMERGENCY False]
     else if code \<in> {ML8_BLZ, ML8_ZWBL, ML8_OWBL} then
       [BlockDirectionChange uid NEUTRAL False, BlockSectionStateChange uid BS_CLOSED]
     else if code \<in> {ML8_OSTOP, ML8_OUZ, ML8_OUZ_DR, ML8_OUZ_DZ, ML8_OUZ_JN, ML8_OUZ_PJ, ML8_OUZ_X,
                     ML8_OUZ_ZN, ML8_OPO, ML8_WPN, ML8_WPZ} then
       [Ml8CommandStateChange uid kind code False]
     else []))"

fun ml8_check_command :: "EngineState \<Rightarrow> Command \<Rightarrow> InterlockingViolation option" where
  "ml8_check_command s (SetSwitchPositionCmd uid p) = check_set_switch_position s uid p"
| "ml8_check_command s (SetSignalAspectCmd uid a) = check_set_signal_aspect s uid a"
| "ml8_check_command s (SetDerailerPositionCmd uid p) = check_set_derailer_position s uid p"
| "ml8_check_command s (SetBlockSectionCmd uid st) = check_set_block_section s uid st"
| "ml8_check_command s (RequestRouteCmd f t) = check_request_route s f t kPolicies"
| "ml8_check_command s (CancelRouteCmd r force) = check_cancel_route s r force"
| "ml8_check_command s (AcknowledgeAlarmCmd a) = check_acknowledge_alarm s a"
| "ml8_check_command s (SetBlockDirectionCmd b op) = check_set_block_direction s b op"
| "ml8_check_command s (InitAxleCounterResetCmd b) = check_init_axle_counter_reset s b"
| "ml8_check_command s (ResetAxleCounterCmd b) = check_reset_axle_counter s b"
| "ml8_check_command s (OperatorCommandCmd uid k c) = check_operator_command s uid k c"
| "ml8_check_command s (Ml8CommandCmd uid k c) = check_ml8_command s uid k c"

fun ml8_execute_command ::
    "Ml8System \<Rightarrow> EngineState \<Rightarrow> Command \<Rightarrow> Ml8System \<times> DeviceStateChange list" where
  "ml8_execute_command sys s (SetSwitchPositionCmd uid p) =
     (if ml_throw_ticks sys > 0
      then sys\<lparr>ml_pending_targets := um_assign uid p (ml_pending_targets sys)\<rparr> else sys,
      execute_set_switch_position s uid p (ml_throw_ticks sys))"
| "ml8_execute_command sys s (SetSignalAspectCmd uid a) = (sys, execute_set_signal_aspect s uid a)"
| "ml8_execute_command sys s (SetDerailerPositionCmd uid p) =
     (sys, execute_set_derailer_position s uid p)"
| "ml8_execute_command sys s (SetBlockSectionCmd uid st) = (sys, execute_set_block_section s uid st)"
| "ml8_execute_command sys s (RequestRouteCmd f t) =
     (sys, execute_request_route s f t (es_current_tick s) kPolicies)"
| "ml8_execute_command sys s (CancelRouteCmd r force) = (sys, execute_cancel_route s r force)"
| "ml8_execute_command sys s (AcknowledgeAlarmCmd a) = (sys, execute_acknowledge_alarm s a)"
| "ml8_execute_command sys s (SetBlockDirectionCmd b op) = (sys, execute_set_block_direction s b op)"
| "ml8_execute_command sys s (InitAxleCounterResetCmd b) =
     (sys, execute_init_axle_counter_reset s b)"
| "ml8_execute_command sys s (ResetAxleCounterCmd b) = (sys, execute_reset_axle_counter s b)"
| "ml8_execute_command sys s (OperatorCommandCmd uid k c) =
     (sys, execute_operator_command s uid k c (ml_throw_ticks sys))"
| "ml8_execute_command sys s (Ml8CommandCmd uid k c) = execute_ml8_command sys s uid k c"

definition ml8_on_tick ::
    "Ml8System \<Rightarrow> EngineState \<Rightarrow> u64 \<Rightarrow> Ml8System \<times> DeviceStateChange list" where
  "ml8_on_tick sys s tick_num =
    (let (pending, changes) = tick_switch_machines s (ml_pending_targets sys)
     in (sys\<lparr>ml_pending_targets := pending\<rparr>, changes @ tick_route_auto_release s tick_num))"

section \<open>The interface\<close>

text \<open>
  \<^verbatim>\<open>IControlSystem\<close> as the record of its virtual functions, over the type
  \<open>'sys\<close> of the object behind the interface, and the two objects the factories make.
\<close>

record 'sys IControlSystem =
  cs_system_id :: string
  cs_check_command :: "'sys \<Rightarrow> EngineState \<Rightarrow> Command \<Rightarrow> InterlockingViolation option"
  cs_execute_command :: "'sys \<Rightarrow> EngineState \<Rightarrow> Command \<Rightarrow> 'sys \<times> DeviceStateChange list"
  cs_on_tick :: "'sys \<Rightarrow> EngineState \<Rightarrow> u64 \<Rightarrow> 'sys \<times> DeviceStateChange list"
  cs_supported_command_types :: "string list"

definition ebilock_interface :: "EbiLockSystem IControlSystem" where
  "ebilock_interface =
     \<lparr>cs_system_id = ebilock_system_id, cs_check_command = (\<lambda>_. ebilock_check_command),
      cs_execute_command = ebilock_execute_command, cs_on_tick = ebilock_on_tick,
      cs_supported_command_types = ebilock_supported_command_types\<rparr>"

definition ml8_interface :: "Ml8System IControlSystem" where
  "ml8_interface =
     \<lparr>cs_system_id = ml8_system_id, cs_check_command = (\<lambda>_. ml8_check_command),
      cs_execute_command = ml8_execute_command, cs_on_tick = ml8_on_tick,
      cs_supported_command_types = ml8_supported_command_types\<rparr>"

lemma interface_simps [simp]:
  "cs_check_command ebilock_interface sys = ebilock_check_command"
  "cs_execute_command ebilock_interface = ebilock_execute_command"
  "cs_on_tick ebilock_interface = ebilock_on_tick"
  "cs_check_command ml8_interface sys' = ml8_check_command"
  "cs_execute_command ml8_interface = ml8_execute_command"
  "cs_on_tick ml8_interface = ml8_on_tick"
  by (simp_all add: ebilock_interface_def ml8_interface_def)

section \<open>The registry\<close>

datatype registry_error = LogicError string | OutOfRange string

text \<open>
  The registry maps a system identifier to a factory.  Registering an identifier twice throws, as
  does creating a system that was never registered.
\<close>

definition register_system ::
    "string \<Rightarrow> (unit \<Rightarrow> 'f) \<Rightarrow> (string, unit \<Rightarrow> 'f) umap \<Rightarrow> registry_error + (string, unit \<Rightarrow> 'f) umap" where
  "register_system sid factory factories =
    (if um_find factories sid \<noteq> None
     then Inl (LogicError (''ControlSystemRegistry: ID '' @ [CHR 0x27] @ sid @ [CHR 0x27] @
            '' already registered''))
     else Inr (um_emplace sid factory factories))"

definition create_system :: "string \<Rightarrow> (string, unit \<Rightarrow> 'f) umap \<Rightarrow> registry_error + 'f" where
  "create_system sid factories =
    (case um_find factories sid of
       None \<Rightarrow> Inl (OutOfRange (''ControlSystemRegistry: unknown system ID '' @ [CHR 0x27] @ sid @
               [CHR 0x27]))
     | Some f \<Rightarrow> Inr (f ()))"

definition has_system :: "string \<Rightarrow> (string, unit \<Rightarrow> 'f) umap \<Rightarrow> bool" where
  "has_system sid factories \<longleftrightarrow> um_find factories sid \<noteq> None"

end
