(* ===== verification/Route_Search.thy ===== *)
theory Route_Search
  imports Route_Graph
begin

text \<open>
  Correctness of the breadth-first search: it always returns, a returned path is a chain of
  topology neighbours from start to goal without repetition, and on a symmetric topology the answer
  \<open>no path\<close> means that the goal cannot be reached at all.
\<close>

section \<open>The predecessor map\<close>

text \<open>
  The map grows by appending: each entry names a predecessor that is already in the map and that has
  the new node among the neighbours it offers when entered from its own predecessor.
\<close>

inductive prev_ok :: "EngineState \<Rightarrow> UID \<Rightarrow> bfs_prev \<Rightarrow> bool" for s start where
  prev_start: "prev_ok s start [(start, 0)]"
| prev_extend: "prev_ok s start (m @ [(n, p)])"
    if "prev_ok s start m" "um_find m p = Some c" "um_find m n = None"
       "n \<in> set (topology_neighbors s p c)"

lemma prev_ok_find_start: "prev_ok s start m \<Longrightarrow> um_find m start = Some 0"
  by (induction rule: prev_ok.induct) (simp_all add: um_find_Cons um_find_append)

lemma um_find_extend: "um_find m u = Some c \<Longrightarrow> um_find (m @ x) u = Some c"
  by (simp add: um_find_append)

text \<open>A walk that stays inside the map is not affected by later entries, nor by spare fuel.\<close>

lemma bfs_reconstruct_extend:
  "bfs_reconstruct k m n acc = Some r \<Longrightarrow> k \<le> k' \<Longrightarrow> bfs_reconstruct k' (m @ x) n acc = Some r"
proof (induction k arbitrary: n acc k')
  case 0
  then show ?case by (cases k') (auto split: if_splits)
next
  case (Suc k)
  then obtain k'' where k': "k' = Suc k''" "k \<le> k''" by (cases k') auto
  show ?case
  proof (cases "n = 0")
    case True
    with Suc.prems k' show ?thesis by simp
  next
    case False
    with Suc.prems obtain p where p: "um_find m n = Some p" "bfs_reconstruct k m p (n # acc) = Some r"
      by (auto split: option.splits)
    from Suc.IH [OF p(2) k'(2)] False p(1) k' show ?thesis by (simp add: um_find_extend)
  qed
qed

lemma bfs_reconstruct_total:
  assumes "prev_ok s start m"
  shows "um_find m n = Some c \<Longrightarrow> \<exists>r. bfs_reconstruct (length m) m n acc = Some r"
  using assms
proof (induction arbitrary: n c acc rule: prev_ok.induct)
  case prev_start
  then show ?case by (auto simp: um_find_Cons split: if_splits)
next
  case (prev_extend m p c0 n0)
  show ?case
  proof (cases "um_find m n")
    case (Some c')
    then obtain r where "bfs_reconstruct (length m) m n acc = Some r"
      using prev_extend.IH by blast
    then have "bfs_reconstruct (length (m @ [(n0, p)])) (m @ [(n0, p)]) n acc = Some r"
      by (rule bfs_reconstruct_extend) simp
    then show ?thesis by blast
  next
    case None
    with prev_extend.prems have "n = n0" by (auto simp: um_find_append um_find_Cons split: if_splits)
    moreover obtain r where "bfs_reconstruct (length m) m p (n0 # acc) = Some r"
      using prev_extend.IH prev_extend.hyps(2) by blast
    then have "bfs_reconstruct (length m) (m @ [(n0, p)]) p (n0 # acc) = Some r"
      by (rule bfs_reconstruct_extend) simp
    ultimately show ?thesis using prev_extend.hyps(3)
      by (auto simp: um_find_append um_find_Cons)
  qed
qed

section \<open>The loop invariant\<close>

definition queue_ok :: "EngineState \<Rightarrow> UID \<Rightarrow> bfs_prev \<Rightarrow> bfs_queue \<Rightarrow> bool" where
  "queue_ok s start prev q \<longleftrightarrow>
     (\<forall>(u, c) \<in> set q. um_find prev u = Some c \<and> (u = start \<or> is_traversable_node s u))"

lemma bfs_visit_prev_ok:
  assumes "prev_ok s start prev" "um_find prev cur = Some c" "n \<in> set (topology_neighbors s cur c)"
    and "queue_ok s start prev q" and "bfs_visit s cur n (prev, q) = (prev', q')"
  shows "prev_ok s start prev' \<and> um_find prev' cur = Some c \<and> queue_ok s start prev' q'"
proof (cases "um_find prev n")
  case None
  then have p': "prev' = prev @ [(n, cur)]"
    and q': "q' = (if is_traversable_node s n then q @ [(n, cur)] else q)"
    using assms(5) by (auto simp: bfs_visit_def um_emplace_def)
  have "prev_ok s start prev'"
    unfolding p' by (rule prev_ok.prev_extend [OF assms(1,2) None assms(3)])
  moreover have "um_find prev' cur = Some c"
    using assms(2) by (simp add: p' um_find_extend)
  moreover have "queue_ok s start prev' q'"
    using assms(4) None by (auto simp: queue_ok_def p' q' um_find_extend um_find_append um_find_Cons)
  ultimately show ?thesis by blast
next
  case (Some x)
  with assms show ?thesis by (simp add: bfs_visit_def)
qed

lemma bfs_fold_prev_ok:
  assumes "set ns \<subseteq> set (topology_neighbors s cur c)"
  shows "prev_ok s start prev \<Longrightarrow> um_find prev cur = Some c \<Longrightarrow> queue_ok s start prev q \<Longrightarrow>
    fold (bfs_visit s cur) ns (prev, q) = (prev', q') \<Longrightarrow>
    prev_ok s start prev' \<and> queue_ok s start prev' q'"
  using assms
proof (induction ns arbitrary: prev q)
  case Nil
  then show ?case by simp
next
  case (Cons n ns)
  obtain p1 q1 where st: "bfs_visit s cur n (prev, q) = (p1, q1)" by (cases "bfs_visit s cur n (prev, q)")
  from Cons.prems(5) have n: "n \<in> set (topology_neighbors s cur c)" by simp
  from bfs_visit_prev_ok [OF Cons.prems(1,2) n Cons.prems(3) st]
  have "prev_ok s start p1" "um_find p1 cur = Some c" "queue_ok s start p1 q1" by auto
  with Cons.IH [OF this] Cons.prems(4,5) st show ?case by simp
qed

lemma bfs_expand_prev_ok:
  assumes "prev_ok s start prev" "queue_ok s start prev ((cur, c) # q)"
    and "bfs_expand s cur c prev q = (prev', q')"
  shows "prev_ok s start prev' \<and> queue_ok s start prev' q'"
proof (rule bfs_fold_prev_ok [OF subset_refl assms(1)])
  show "um_find prev cur = Some c" "queue_ok s start prev q"
    using assms(2) by (auto simp: queue_ok_def)
  show "fold (bfs_visit s cur) (topology_neighbors s cur c) (prev, q) = (prev', q')"
    using assms(3) by (simp add: bfs_expand_def)
qed

lemma bfs_start_ok: "prev_ok s start [(start, 0)]" "queue_ok s start [(start, 0)] [(start, 0)]"
  by (simp_all add: prev_ok.prev_start queue_ok_def um_find_Cons)

lemma bfs_loop_total:
  "prev_ok s start prev \<Longrightarrow> queue_ok s start prev q \<Longrightarrow> bfs_loop s goal prev q \<noteq> BfsStuck"
proof (induction s goal prev q rule: bfs_loop.induct)
  case (1 s goal prev)
  show ?case by simp
next
  case (2 s goal prev cur c q)
  show ?case
  proof (cases "cur = goal")
    case True
    with "2.prems" have "um_find prev goal = Some c" by (simp add: queue_ok_def)
    then obtain r where "bfs_reconstruct (length prev) prev goal [] = Some r"
      using bfs_reconstruct_total [OF "2.prems"(1)] by blast
    with True show ?thesis by simp
  next
    case False
    obtain prev' q' where st: "bfs_expand s cur c prev q = (prev', q')"
      by (cases "bfs_expand s cur c prev q")
    with "2.IH" [OF False refl] False bfs_expand_prev_ok [OF "2.prems" st] show ?thesis by simp
  qed
qed

section \<open>Paths\<close>

text \<open>Each element is among the neighbours its predecessor offers, entered from the one before.\<close>

fun route_chain :: "EngineState \<Rightarrow> UID \<Rightarrow> UID list \<Rightarrow> bool" where
  "route_chain s from (u # v # rest) \<longleftrightarrow> v \<in> set (topology_neighbors s u from) \<and> route_chain s u (v # rest)"
| "route_chain s from _ \<longleftrightarrow> True"

lemma route_chain_snoc:
  "route_chain s c (xs @ [p]) \<Longrightarrow> n \<in> set (topology_neighbors s p (if xs = [] then c else last xs)) \<Longrightarrow>
   route_chain s c (xs @ [p, n])"
proof (induction xs arbitrary: c)
  case Nil
  then show ?case by simp
next
  case (Cons x xs)
  then show ?case by (cases xs) auto
qed

definition valid_route :: "EngineState \<Rightarrow> UID \<Rightarrow> UID \<Rightarrow> UID list \<Rightarrow> bool" where
  "valid_route s start goal path \<longleftrightarrow>
     path \<noteq> [] \<and> hd path = start \<and> last path = goal \<and> distinct path \<and> route_chain s 0 path"

definition no_null_node :: "EngineState \<Rightarrow> bool" where
  "no_null_node s \<longleftrightarrow> \<not> is_traversable_node s 0"

lemma no_null_neighbors: "no_null_node s \<Longrightarrow> topology_neighbors s 0 c = []"
  by (simp add: no_null_node_def is_traversable_node_def topology_neighbors_def)

lemma bfs_reconstruct_path:
  assumes "prev_ok s start m" and "no_null_node s" and "start \<noteq> 0"
  shows "um_find m n = Some c \<Longrightarrow> n \<noteq> 0 \<Longrightarrow>
    \<exists>xs. bfs_reconstruct (length m) m n acc = Some (xs @ n # acc) \<and>
         c = (if xs = [] then 0 else last xs) \<and> hd (xs @ [n]) = start \<and> distinct (xs @ [n]) \<and>
         set (xs @ [n]) \<subseteq> set (um_keys m) \<and> route_chain s 0 (xs @ [n])"
  using assms(1)
proof (induction arbitrary: n c acc rule: prev_ok.induct)
  case prev_start
  then show ?case
    by (intro exI [of _ "[]"]) (auto simp: um_find_Cons um_keys_def split: if_splits)
next
  case (prev_extend m p c0 n0)
  let ?m' = "m @ [(n0, p)]"
  show ?case
  proof (cases "um_find m n")
    case (Some c')
    with prev_extend.prems have "c' = c" by (simp add: um_find_append)
    with Some prev_extend.IH [OF _ prev_extend.prems(2)] obtain xs where
      xs: "bfs_reconstruct (length m) m n acc = Some (xs @ n # acc)"
        "c = (if xs = [] then 0 else last xs)" "hd (xs @ [n]) = start" "distinct (xs @ [n])"
        "set (xs @ [n]) \<subseteq> set (um_keys m)" "route_chain s 0 (xs @ [n])"
      by blast
    moreover from xs(1) have "bfs_reconstruct (length ?m') ?m' n acc = Some (xs @ n # acc)"
      by (rule bfs_reconstruct_extend) simp
    ultimately show ?thesis by (intro exI [of _ xs]) (auto simp: um_keys_def)
  next
    case None
    with prev_extend.prems have n: "n = n0" "c = p"
      by (auto simp: um_find_append um_find_Cons split: if_splits)
    have "p \<noteq> 0" using prev_extend.hyps(4) no_null_neighbors [OF assms(2)] by auto
    with prev_extend.IH [OF prev_extend.hyps(2)] obtain xs where
      xs: "bfs_reconstruct (length m) m p (n0 # acc) = Some (xs @ p # n0 # acc)"
        "c0 = (if xs = [] then 0 else last xs)" "hd (xs @ [p]) = start" "distinct (xs @ [p])"
        "set (xs @ [p]) \<subseteq> set (um_keys m)" "route_chain s 0 (xs @ [p])"
      by blast
    from xs(1) have "bfs_reconstruct (length m) ?m' p (n0 # acc) = Some (xs @ p # n0 # acc)"
      by (rule bfs_reconstruct_extend) simp
    then have "bfs_reconstruct (length ?m') ?m' n acc = Some ((xs @ [p]) @ n # acc)"
      using None prev_extend.prems(2) by (simp add: n um_find_append um_find_Cons)
    moreover have "n0 \<notin> set (um_keys m)" using None by (simp add: n um_find_None_iff)
    moreover have "route_chain s 0 (xs @ [p, n0])"
      using route_chain_snoc [OF xs(6)] prev_extend.hyps(4) xs(2) by simp
    ultimately show ?thesis using xs n
      by (intro exI [of _ "xs @ [p]"]) (auto simp: um_keys_def hd_append)
  qed
qed

lemma bfs_loop_sound:
  assumes "no_null_node s" and "start \<noteq> 0" and "goal \<noteq> 0"
  shows "prev_ok s start prev \<Longrightarrow> queue_ok s start prev q \<Longrightarrow> bfs_loop s goal prev q = BfsFound path \<Longrightarrow>
    valid_route s start goal path"
  using assms
proof (induction s goal prev q rule: bfs_loop.induct)
  case (1 s goal prev)
  then show ?case by simp
next
  case (2 s goal prev cur c q)
  show ?case
  proof (cases "cur = goal")
    case True
    with "2.prems"(2) have "um_find prev goal = Some c" by (simp add: queue_ok_def)
    with bfs_reconstruct_path [OF "2.prems"(1,4,5)] "2.prems"(6) obtain xs where
      "bfs_reconstruct (length prev) prev goal [] = Some (xs @ [goal])" "hd (xs @ [goal]) = start"
      "distinct (xs @ [goal])" "route_chain s 0 (xs @ [goal])"
      by blast
    with True "2.prems"(3) show ?thesis by (auto simp: valid_route_def)
  next
    case False
    obtain prev' q' where st: "bfs_expand s cur c prev q = (prev', q')"
      by (cases "bfs_expand s cur c prev q")
    with "2.IH" [OF False refl] False bfs_expand_prev_ok [OF "2.prems"(1,2) st] "2.prems"
    show ?thesis by simp
  qed
qed

section \<open>Completeness on symmetric topologies\<close>

definition all_neighbors :: "EngineState \<Rightarrow> UID \<Rightarrow> UID list" where
  "all_neighbors s node =
    (case find_track_section s node of
       Some ts \<Rightarrow> [port_neighbor_uid (ts_side_a ts), port_neighbor_uid (ts_side_b ts)]
     | None \<Rightarrow>
         (case find_switch s node of
            Some sw \<Rightarrow> [leg_neighbor_uid (sw_trunk sw), leg_neighbor_uid (sw_straight sw),
                        leg_neighbor_uid (sw_divergent sw)]
          | None \<Rightarrow> []))"

text \<open>Two nodes of the station name each other as neighbours or neither does.\<close>

definition symmetric_topology :: "EngineState \<Rightarrow> bool" where
  "symmetric_topology s \<longleftrightarrow>
     list_all (\<lambda>u. list_all (\<lambda>v. v \<in> set (all_neighbors s u) \<longrightarrow> u \<in> set (all_neighbors s v))
       (node_uids s)) (node_uids s)"

inductive node_reachable :: "EngineState \<Rightarrow> UID \<Rightarrow> UID \<Rightarrow> bool" for s start where
  reach_start: "node_reachable s start start"
| reach_step: "node_reachable s start v"
    if "node_reachable s start u" "v \<in> set (all_neighbors s u)" "is_traversable_node s v"

lemma symmetric_topologyD:
  "symmetric_topology s \<Longrightarrow> is_traversable_node s u \<Longrightarrow> is_traversable_node s v \<Longrightarrow>
   v \<in> set (all_neighbors s u) \<Longrightarrow> u \<in> set (all_neighbors s v)"
  by (auto simp: symmetric_topology_def list_all_iff in_node_uids)

lemma topology_neighbors_subset: "set (topology_neighbors s u c) \<subseteq> set (all_neighbors s u)"
  by (auto simp: topology_neighbors_def all_neighbors_def split: option.splits if_splits)

lemma neighbors_traversable: "v \<in> set (all_neighbors s u) \<Longrightarrow> is_traversable_node s u"
  by (cases "find_track_section s u"; cases "find_switch s u")
    (auto simp: all_neighbors_def is_traversable_node_def)

text \<open>Entered from one of its neighbours, a node offers all the others.\<close>

lemma neighbors_cover:
  assumes "v \<in> set (all_neighbors s u)" and "c = 0 \<or> c \<in> set (all_neighbors s u)" and "v \<noteq> 0"
  shows "v = c \<or> v \<in> set (topology_neighbors s u c)"
  using assms by (auto simp: all_neighbors_def topology_neighbors_def split: option.splits)

lemma prev_ok_pred:
  assumes "prev_ok s start m" "um_find m n = Some p" "n \<noteq> start"
  shows "\<exists>c. um_find m p = Some c \<and> n \<in> set (topology_neighbors s p c)"
  using assms
proof (induction arbitrary: n p rule: prev_ok.induct)
  case prev_start
  then show ?case by (simp add: um_find_Cons split: if_splits)
next
  case (prev_extend m p0 c0 n0)
  show ?case
  proof (cases "um_find m n")
    case (Some x)
    with prev_extend.prems have "um_find m n = Some p" by (simp add: um_find_append)
    from prev_extend.IH [OF this prev_extend.prems(2)] show ?thesis by (auto simp: um_find_extend)
  next
    case None
    with prev_extend.prems(1) have "n = n0" "p = p0"
      by (auto simp: um_find_append um_find_Cons split: if_splits)
    with prev_extend.hyps(2,4) show ?thesis by (auto simp: um_find_extend)
  qed
qed

definition expanded_ok :: "EngineState \<Rightarrow> UID \<Rightarrow> UID \<Rightarrow> bfs_prev \<Rightarrow> bfs_queue \<Rightarrow> bool" where
  "expanded_ok s start goal prev q \<longleftrightarrow>
     (\<forall>u c. (u = start \<or> is_traversable_node s u) \<longrightarrow> um_find prev u = Some c \<longrightarrow> (u, c) \<notin> set q \<longrightarrow>
        u \<noteq> goal \<and>
        (\<forall>v \<in> set (all_neighbors s u). is_traversable_node s v \<longrightarrow> um_find prev v \<noteq> None))"

lemma bfs_fold_visits:
  assumes "fold (bfs_visit s cur) ns (prev, q) = (prev', q')"
  shows "(\<forall>u c. um_find prev u = Some c \<longrightarrow> um_find prev' u = Some c) \<and>
         (\<forall>u \<in> set ns. um_find prev' u \<noteq> None) \<and> set q \<subseteq> set q' \<and>
         (\<forall>u c. um_find prev u = None \<longrightarrow> um_find prev' u = Some c \<longrightarrow> is_traversable_node s u \<longrightarrow>
            (u, c) \<in> set q')"
  using assms
proof (induction ns arbitrary: prev q)
  case Nil
  then show ?case by simp
next
  case (Cons n ns)
  obtain p1 q1 where st: "bfs_visit s cur n (prev, q) = (p1, q1)" by (cases "bfs_visit s cur n (prev, q)")
  have step: "(\<forall>u c. um_find prev u = Some c \<longrightarrow> um_find p1 u = Some c)" "um_find p1 n \<noteq> None"
    "set q \<subseteq> set q1"
    "\<forall>u c. um_find prev u = None \<longrightarrow> um_find p1 u = Some c \<longrightarrow> is_traversable_node s u \<longrightarrow> (u, c) \<in> set q1"
    using st by (auto simp: bfs_visit_def um_simps split: if_splits)
  have rest: "(\<forall>u c. um_find p1 u = Some c \<longrightarrow> um_find prev' u = Some c) \<and>
      (\<forall>u \<in> set ns. um_find prev' u \<noteq> None) \<and> set q1 \<subseteq> set q' \<and>
      (\<forall>u c. um_find p1 u = None \<longrightarrow> um_find prev' u = Some c \<longrightarrow> is_traversable_node s u \<longrightarrow>
         (u, c) \<in> set q')"
    by (rule Cons.IH) (use Cons.prems st in simp)
  show ?case
  proof (intro conjI allI ballI impI)
    fix u c assume "um_find prev u = Some c"
    with step(1) rest show "um_find prev' u = Some c" by blast
  next
    fix u assume "u \<in> set (n # ns)"
    with step(2) rest show "um_find prev' u \<noteq> None" by (cases "u = n") auto
  next
    show "set q \<subseteq> set q'" using step(3) rest by blast
  next
    fix u c assume *: "um_find prev u = None" "um_find prev' u = Some c" "is_traversable_node s u"
    show "(u, c) \<in> set q'"
    proof (cases "um_find p1 u")
      case None
      with * rest show ?thesis by blast
    next
      case (Some c1)
      with rest *(2) have "c1 = c" by auto
      with Some step(4) * rest show ?thesis by blast
    qed
  qed
qed

lemma bfs_expand_expanded_ok:
  assumes sym: "symmetric_topology s" "no_null_node s"
    and ok: "prev_ok s start prev" "queue_ok s start prev ((cur, c) # q)"
    and ex: "expanded_ok s start goal prev ((cur, c) # q)" and "cur \<noteq> goal"
    and st: "bfs_expand s cur c prev q = (prev', q')"
  shows "expanded_ok s start goal prev' q'"
  unfolding expanded_ok_def
proof (intro allI impI)
  note grow = bfs_fold_visits [OF st [unfolded bfs_expand_def]]
  fix u d
  assume u: "u = start \<or> is_traversable_node s u" "um_find prev' u = Some d" "(u, d) \<notin> set q'"
  have cur: "um_find prev cur = Some c" using ok(2) by (simp add: queue_ok_def)
  have old: "um_find prev u = Some d"
  proof (cases "um_find prev u")
    case None
    with grow u prev_ok_find_start [OF ok(1)] show ?thesis by auto
  next
    case (Some d')
    with grow u(2) show ?thesis by (metis option.inject)
  qed
  show "u \<noteq> goal \<and> (\<forall>v \<in> set (all_neighbors s u). is_traversable_node s v \<longrightarrow> um_find prev' v \<noteq> None)"
  proof (cases "u = cur")
    case False
    with u(3) grow have "(u, d) \<notin> set ((cur, c) # q)" by auto
    with ex u(1) old have "u \<noteq> goal"
      "\<forall>v \<in> set (all_neighbors s u). is_traversable_node s v \<longrightarrow> um_find prev v \<noteq> None"
      unfolding expanded_ok_def by blast+
    with grow show ?thesis by (metis not_None_eq)
  next
    case True
    with cur old have d: "d = c" by simp
    have "um_find prev' v \<noteq> None" if v: "v \<in> set (all_neighbors s cur)" "is_traversable_node s v" for v
    proof -
      have "v \<noteq> 0" using v(2) sym(2) by (auto simp: no_null_node_def)
      have from_ok: "c = 0 \<or> c \<in> set (all_neighbors s cur) \<and> um_find prev c \<noteq> None"
      proof (cases "cur = start")
        case True
        with cur prev_ok_find_start [OF ok(1)] show ?thesis by simp
      next
        case False
        from prev_ok_pred [OF ok(1) cur False] obtain e where
          e: "um_find prev c = Some e" "cur \<in> set (topology_neighbors s c e)" by blast
        have cur_in: "cur \<in> set (all_neighbors s c)" using e(2) topology_neighbors_subset by blast
        have "c \<in> set (all_neighbors s cur)"
          by (rule symmetric_topologyD [OF sym(1) neighbors_traversable [OF cur_in]
                neighbors_traversable [OF v(1)] cur_in])
        with e(1) show ?thesis by simp
      qed
      with neighbors_cover [OF v(1), of c] \<open>v \<noteq> 0\<close> have
        "v \<in> set (topology_neighbors s cur c) \<or> um_find prev v \<noteq> None" by auto
      with grow show ?thesis by (metis not_None_eq)
    qed
    with True \<open>cur \<noteq> goal\<close> show ?thesis by blast
  qed
qed

lemma bfs_loop_complete:
  assumes "symmetric_topology s" "no_null_node s" "node_reachable s start goal"
  shows "prev_ok s start prev \<Longrightarrow> queue_ok s start prev q \<Longrightarrow> expanded_ok s start goal prev q \<Longrightarrow>
    bfs_loop s goal prev q \<noteq> BfsNone"
  using assms
proof (induction s goal prev q rule: bfs_loop.induct)
  case (1 s goal prev)
  have "um_find prev u \<noteq> None" if "node_reachable s start u" for u
    using that
  proof (induction rule: node_reachable.induct)
    case reach_start
    show ?case using prev_ok_find_start [OF "1.prems"(1)] by simp
  next
    case (reach_step u v)
    have "u = start \<or> is_traversable_node s u" using neighbors_traversable [OF reach_step.hyps(2)] by simp
    with reach_step "1.prems"(3) show ?case by (auto simp: expanded_ok_def)
  qed
  then obtain c where "um_find prev goal = Some c" using "1.prems"(6) by blast
  moreover have "goal = start \<or> is_traversable_node s goal"
    using "1.prems"(6) by (cases rule: node_reachable.cases) auto
  ultimately show ?case using "1.prems"(3) by (auto simp: expanded_ok_def)
next
  case (2 s goal prev cur c q)
  show ?case
  proof (cases "cur = goal")
    case True
    then show ?thesis by (simp split: option.splits)
  next
    case False
    obtain prev' q' where st: "bfs_expand s cur c prev q = (prev', q')"
      by (cases "bfs_expand s cur c prev q")
    have "prev_ok s start prev'" "queue_ok s start prev' q'"
      using bfs_expand_prev_ok [OF "2.prems"(1,2) st] by auto
    moreover have "expanded_ok s start goal prev' q'"
      using bfs_expand_expanded_ok [OF "2.prems"(4,5,1,2,3) False st] .
    ultimately show ?thesis using "2.IH" [OF False refl] "2.prems"(4-6) False st by simp
  qed
qed

lemma bfs_start_expanded: "expanded_ok s start goal [(start, 0)] [(start, 0)]"
  by (simp add: expanded_ok_def um_find_Cons)

end
