(* ===== verification/Sample_Station.thy ===== *)
theory Sample_Station
  imports Route_Graph
begin

text \<open>
  A small station on which the theorems of the development are evaluated: three track sections
  meeting at one switch, a signal per section, a derailer and a block section.

  \<^verbatim>\<open>
    boundary 51 -- section 1 -- (trunk) switch 10 (straight) -- section 2 -- boundary 52
                                                  (divergent) -- section 3 -- boundary 53
  \<close>

  Signal \<open>2\<^sub>n\<close> (UID \<open>20 + n\<close>) governs section \<open>n\<close>, derailer 30 guards section 2, and block
  section 40 leads to the neighbouring station.
\<close>

definition sample_port :: "UID \<Rightarrow> TrackPort" where
  "sample_port n =
     \<lparr>port_neighbor_uid = n, port_counter_uid = 90, port_counter_kind = COUNTER_IT,
      port_signal_uids = []\<rparr>"

definition sample_leg :: "UID \<Rightarrow> SwitchLeg" where
  "sample_leg n = \<lparr>leg_neighbor_uid = n, leg_iz_uid = 91, leg_signal_uids = []\<rparr>"

definition sample_section :: "UID \<Rightarrow> UID \<Rightarrow> UID \<Rightarrow> TrackSection" where
  "sample_section u a b =
     \<lparr>ts_uid = u, ts_pid = ''T'', ts_station_uid = 99, ts_side_a = sample_port a,
      ts_side_b = sample_port b, ts_length_m = 100, ts_electrified = True, ts_max_speed_kmh = 100,
      ts_station_section = True, ts_occupancy = FREE, ts_axle_count = 0, ts_train_uid = None,
      ts_operator_state = default_operator_state\<rparr>"

definition sample_switch :: "UID \<Rightarrow> UID \<Rightarrow> UID \<Rightarrow> UID \<Rightarrow> Switch" where
  "sample_switch u t st dv =
     \<lparr>sw_uid = u, sw_pid = ''R'', sw_station_uid = 99, sw_type_id = ''EEA4'', sw_trunk = sample_leg t,
      sw_straight = sample_leg st, sw_divergent = sample_leg dv, sw_length_m = 30,
      sw_max_speed_straight_kmh = 100, sw_max_speed_divergent_kmh = 40, sw_position = STRAIGHT,
      sw_control_lost = False, sw_occupancy = FREE, sw_axle_count = 0, sw_locked_by_route_uid = None,
      sw_moving_ticks_remaining = 0, sw_operator_state = default_operator_state\<rparr>"

definition sample_signal :: "UID \<Rightarrow> UID \<Rightarrow> Signal" where
  "sample_signal u g =
     \<lparr>sig_uid = u, sig_pid = ''S'', sig_station_uid = 99, sig_type_id = ''SEM'', sig_type = SIG_ENTRY,
      sig_governs_section_uid = g, sig_current_aspect = S1_STOP, sig_locked_by_route_uid = None,
      sig_operator_state = default_operator_state\<rparr>"

definition sample_derailer :: "UID \<Rightarrow> UID \<Rightarrow> Derailer" where
  "sample_derailer u g =
     \<lparr>dr_uid = u, dr_pid = ''W'', dr_station_uid = 99, dr_type_id = ''WYK'', dr_guards_section_uid = g,
      dr_state = LOCKED, dr_locked_by_route_uid = None, dr_operator_state = default_operator_state\<rparr>"

definition sample_block :: "UID \<Rightarrow> BlockSection" where
  "sample_block u =
     \<lparr>bs_uid = u, bs_pid = ''B'', bs_type_id = ''SHL-12'', bs_station_uid = 99,
      bs_neighbor_station_uid = 98, bs_line_number = 1, bs_departure_signal_uid = 22,
      bs_entry_signal_uid = 21, bs_szlak_section_uids = [], bs_state = BS_CLOSED,
      bs_direction = NEUTRAL, bs_axle_count = 0, bs_operator_state = default_operator_state,
      bs_reset_init_tick = None\<rparr>"

definition sample_station :: EngineState where
  "sample_station =
     \<lparr>es_session_id = ''s1'', es_current_tick = 7, es_boundary_nodes = [],
      es_track_sections =
        [(1, sample_section 1 51 10), (2, sample_section 2 10 52), (3, sample_section 3 10 53)],
      es_switches = [(10, sample_switch 10 1 2 3)],
      es_signals = [(21, sample_signal 21 1), (22, sample_signal 22 2), (23, sample_signal 23 3)],
      es_derailers = [(30, sample_derailer 30 2)],
      es_block_sections = [(40, sample_block 40)],
      es_routes = [], es_alarms = [], es_level_crossings = []\<rparr>"

lemmas sample_defs = sample_station_def sample_section_def sample_switch_def sample_signal_def
  sample_derailer_def sample_block_def sample_port_def sample_leg_def

lemma wf_sample_station: "wf_state sample_station"
  by (simp add: wf_state_def sample_defs um_wf_def um_keyed_def um_keys_def)

lemma sample_find_switch:
  "find_switch sample_station u = (if u = 10 then Some (sample_switch 10 1 2 3) else None)"
  by (simp add: find_switch_def sample_station_def um_find_Cons)

lemma sample_find_section:
  "find_track_section sample_station u =
     (if u = 1 then Some (sample_section 1 51 10) else if u = 2 then Some (sample_section 2 10 52)
      else if u = 3 then Some (sample_section 3 10 53) else None)"
  by (simp add: find_track_section_def sample_station_def um_find_Cons)

lemma sample_find_signal:
  "find_signal sample_station u =
     (if u = 21 then Some (sample_signal 21 1) else if u = 22 then Some (sample_signal 22 2)
      else if u = 23 then Some (sample_signal 23 3) else None)"
  by (simp add: find_signal_def sample_station_def um_find_Cons)

lemma sample_find_derailer:
  "find_derailer sample_station u = (if u = 30 then Some (sample_derailer 30 2) else None)"
  by (simp add: find_derailer_def sample_station_def um_find_Cons)

lemma sample_find_block:
  "find_block_section sample_station u = (if u = 40 then Some (sample_block 40) else None)"
  by (simp add: find_block_section_def sample_station_def um_find_Cons)

lemma sample_find_none:
  "find_route sample_station u = None" "find_alarm sample_station u = None"
  "find_boundary_node sample_station u = None" "find_level_crossing sample_station u = None"
  by (simp_all add: find_defs sample_station_def)

lemmas sample_finds = sample_find_switch sample_find_section sample_find_signal
  sample_find_derailer sample_find_block sample_find_none

text \<open>Evaluating the search on a concrete station.\<close>

lemma sample_traversable: "is_traversable_node sample_station u \<longleftrightarrow> u = 1 \<or> u = 2 \<or> u = 3 \<or> u = 10"
  by (auto simp: is_traversable_node_def sample_find_section sample_find_switch)

lemma sample_neighbors:
  "topology_neighbors sample_station 1 0 = [51, 10]"
  "topology_neighbors sample_station 2 0 = [10, 52]"
  "topology_neighbors sample_station 10 1 = [2, 3]"
  "topology_neighbors sample_station 10 2 = [1, 3]"
  "topology_neighbors sample_station 2 10 = [52]"
  "topology_neighbors sample_station 3 10 = [53]"
  "topology_neighbors sample_station 1 10 = [51]"
  by (simp_all add: topology_neighbors_def sample_find_section sample_find_switch
      sample_section_def sample_switch_def sample_port_def sample_leg_def)

lemma sample_bfs:
  "bfs sample_station 1 2 = BfsFound [1, 10, 2]"
  "bfs sample_station 1 3 = BfsFound [1, 10, 3]"
  "bfs sample_station 2 3 = BfsFound [2, 10, 3]"
  by (simp_all add: bfs_def bfs_expand_def bfs_visit_def sample_neighbors sample_traversable
      um_find_Cons um_emplace_def)

definition sample_envelope :: "CommandPriority \<Rightarrow> Command \<Rightarrow> EnvelopedCommand" where
  "sample_envelope prio cmd =
     \<lparr>env_meta = \<lparr>meta_seq_id = 1, meta_priority = prio, meta_player_id = ''p1'',
                  meta_dispatch_area_uid = 99, meta_timestamp_us = 0\<rparr>, env_payload = cmd\<rparr>"

section \<open>A crossover\<close>

text \<open>
  Two switches back to back: the divergent leg of switch 10 is joined to the straight leg of switch
  11.  Switch 11 stands straight, is occupied by a train and is locked by route 77.

  \<^verbatim>\<open>
    section 1 -- (trunk) switch 10 (straight) -- section 2
                                   (divergent)
                                        |
                                   (straight)
    section 4 -- (trunk) switch 11 (divergent) -- section 5
  \<close>
\<close>

definition sample_crossover :: EngineState where
  "sample_crossover =
     \<lparr>es_session_id = ''s2'', es_current_tick = 7, es_boundary_nodes = [],
      es_track_sections =
        [(1, sample_section 1 51 10), (2, sample_section 2 10 52), (4, sample_section 4 54 11),
         (5, sample_section 5 11 55)],
      es_switches =
        [(10, sample_switch 10 1 2 11),
         (11, (sample_switch 11 4 10 5)\<lparr>sw_occupancy := OCCUPIED, sw_locked_by_route_uid := Some 77\<rparr>)],
      es_signals = [(21, sample_signal 21 1), (22, sample_signal 22 2)],
      es_derailers = [], es_block_sections = [], es_routes = [], es_alarms = [],
      es_level_crossings = []\<rparr>"

lemma wf_sample_crossover: "wf_state sample_crossover"
  by (simp add: wf_state_def sample_crossover_def sample_section_def sample_switch_def
      sample_signal_def um_wf_def um_keyed_def um_keys_def)

lemma crossover_find_switch:
  "find_switch sample_crossover u =
     (if u = 10 then Some (sample_switch 10 1 2 11)
      else if u = 11 then
        Some ((sample_switch 11 4 10 5)\<lparr>sw_occupancy := OCCUPIED, sw_locked_by_route_uid := Some 77\<rparr>)
      else None)"
  by (simp add: find_switch_def sample_crossover_def um_find_Cons)

lemma crossover_find_section:
  "find_track_section sample_crossover u =
     (if u = 1 then Some (sample_section 1 51 10) else if u = 2 then Some (sample_section 2 10 52)
      else if u = 4 then Some (sample_section 4 54 11)
      else if u = 5 then Some (sample_section 5 11 55) else None)"
  by (simp add: find_track_section_def sample_crossover_def um_find_Cons)

lemma crossover_find_signal:
  "find_signal sample_crossover u =
     (if u = 21 then Some (sample_signal 21 1) else if u = 22 then Some (sample_signal 22 2) else None)"
  by (simp add: find_signal_def sample_crossover_def um_find_Cons)

lemma crossover_traversable:
  "is_traversable_node sample_crossover u \<longleftrightarrow> u = 1 \<or> u = 2 \<or> u = 4 \<or> u = 5 \<or> u = 10 \<or> u = 11"
  by (auto simp: is_traversable_node_def crossover_find_section crossover_find_switch)

lemma crossover_neighbors:
  "topology_neighbors sample_crossover 1 0 = [51, 10]"
  "topology_neighbors sample_crossover 10 1 = [2, 11]"
  by (simp_all add: topology_neighbors_def crossover_find_section crossover_find_switch
      sample_section_def sample_switch_def sample_port_def sample_leg_def)

lemma crossover_bfs: "bfs sample_crossover 1 2 = BfsFound [1, 10, 2]"
  by (simp add: bfs_def bfs_expand_def bfs_visit_def crossover_neighbors crossover_traversable
      um_find_Cons um_emplace_def)

end
