(* ===== verification/Interlocking_Safety.thy ===== *)
theory Interlocking_Safety
  imports Control_Systems Route_Search Sample_Station
begin

text \<open>
  What the device rules guarantee about switches and routes, and where they do not: the protection
  of locked and occupied switches, the effect of setting and cancelling a route, the switch-machine
  timer, and the concrete command sequences on which the code departs from its own description.
\<close>

section \<open>Commands and the switches they throw\<close>

lemma check_switch_ok:
  "check_set_switch_position s uid p = None \<Longrightarrow> find_switch s uid = Some sw \<Longrightarrow>
     sw_position sw \<noteq> MOVING \<and> sw_occupancy sw = FREE \<and> sw_locked_by_route_uid sw = None \<and>
     sw_position sw \<noteq> p"
  by (cases "sw_occupancy sw") (auto simp: check_set_switch_position_def split: if_splits option.splits)

lemma check_operator_ok:
  "check_operator_command s uid k c = None \<Longrightarrow> c \<in> {OC_ZWP, OC_ZWM, OC_ZBP, OC_ZBM} \<Longrightarrow>
     find_switch s uid = Some sw \<Longrightarrow>
     sw_position sw \<noteq> MOVING \<and> sw_occupancy sw = FREE \<and> sw_locked_by_route_uid sw = None"
  by (cases "sw_occupancy sw") (auto simp: check_operator_command_def split: if_splits option.splits)

lemma throw_device_moves:
  "list_ex (moves_switch u) (throw_device s uid p dp n) \<Longrightarrow> u = uid \<and> find_switch s uid \<noteq> None"
  by (auto simp: throw_device_def execute_set_switch_position_def execute_set_derailer_position_def
      split: if_splits)

lemma confirm_direction_moves: "\<not> list_ex (moves_switch u) (confirm_direction s uid)"
  by (auto simp: confirm_direction_def split: option.splits)

lemma operator_moves:
  assumes "list_ex (moves_switch u) (execute_operator_command s uid k c n)"
  shows "u = uid \<and> find_switch s uid \<noteq> None \<and> c \<in> {OC_ZWP, OC_ZWM, OC_ZBP, OC_ZBM}"
  using assms throw_device_moves [of u s uid] confirm_direction_moves [of u s uid]
  by (auto simp: execute_operator_command_def split: if_splits option.splits)

lemma set_block_direction_moves: "\<not> list_ex (moves_switch u) (execute_set_block_direction s b op)"
  by (auto simp: execute_set_block_direction_def split: option.splits Shl12Op.splits)

lemma cancel_moves: "\<not> list_ex (moves_switch u) (execute_cancel_route s r force)"
  by (auto simp: execute_cancel_route_def relock_derailer_def list_ex_iff split: option.splits if_splits)

lemmas simple_executes = execute_set_signal_aspect_def execute_set_derailer_position_def
  execute_set_block_section_def execute_acknowledge_alarm_def execute_init_axle_counter_reset_def
  execute_reset_axle_counter_def

lemma ebilock_moves_unprotected:
  assumes "ebilock_check_command s c = None" and "\<And>f t. c \<noteq> RequestRouteCmd f t"
    and "list_ex (moves_switch u) (snd (ebilock_execute_command sys s c))"
    and "find_switch s u = Some sw"
  shows "sw_position sw \<noteq> MOVING \<and> sw_occupancy sw = FREE \<and> sw_locked_by_route_uid sw = None"
proof (cases c)
  case (SetSwitchPositionCmd uid p)
  with assms(3) have "u = uid" by (auto simp: execute_set_switch_position_def split: if_splits)
  with SetSwitchPositionCmd assms(1,4) check_switch_ok show ?thesis by auto
next
  case (OperatorCommandCmd uid k code)
  with assms(3) operator_moves have "u = uid" "code \<in> {OC_ZWP, OC_ZWM, OC_ZBP, OC_ZBM}" by fastforce+
  with OperatorCommandCmd assms(1,4) check_operator_ok show ?thesis by auto
qed (use assms set_block_direction_moves [of u] cancel_moves [of u] in \<open>auto simp: simple_executes\<close>)

lemma not_list_ex_all: "\<not> list_ex P xs \<longleftrightarrow> list_all (\<lambda>x. \<not> P x) xs"
  by (auto simp: list_ex_iff list_all_iff)

section \<open>Setting the switches of a route\<close>

lemma set_route_switch_concerns:
  "c \<in> set (set_route_switch s r n) \<Longrightarrow> moves_switch u c \<or> locks_switch u c \<Longrightarrow> u = node_uid n"
  by (auto simp: set_route_switch_def split: option.splits if_splits)

lemma set_route_switches_frame:
  assumes "u \<notin> node_uid ` set ns"
  shows "switch_position (apply_all t (concat (map (set_route_switch s r) ns))) u = switch_position t u"
    and "switch_lock (apply_all t (concat (map (set_route_switch s r) ns))) u = switch_lock t u"
  using assms set_route_switch_concerns [of _ s r _ u]
  by (fastforce intro!: position_apply_all_frame lock_apply_all_frame simp: list_all_iff)+

lemma set_route_switch_apply:
  assumes "find_switch s (node_uid n) = Some sw" and "switch_position t (node_uid n) = Some (sw_position sw)"
  shows "switch_position (apply_all t (set_route_switch s r n)) (node_uid n) = Some (node_required_position n)"
    and "switch_lock (apply_all t (set_route_switch s r n)) (node_uid n) = Some (Some r)"
  using assms by (auto simp: set_route_switch_def engine_simps)

lemma set_route_switches_apply:
  assumes "distinct (map node_uid ns)" and "n \<in> set ns" and "find_switch s (node_uid n) = Some sw"
    and "switch_position t (node_uid n) = Some (sw_position sw)"
  shows "switch_position (apply_all t (concat (map (set_route_switch s r) ns))) (node_uid n)
           = Some (node_required_position n) \<and>
         switch_lock (apply_all t (concat (map (set_route_switch s r) ns))) (node_uid n) = Some (Some r)"
  using assms
proof (induction ns arbitrary: t)
  case Nil
  then show ?case by simp
next
  case (Cons m ns)
  show ?case
  proof (cases "m = n")
    case True
    with Cons.prems(1) have "node_uid n \<notin> node_uid ` set ns" by auto
    with set_route_switch_apply [OF Cons.prems(3,4), of r] True show ?thesis
      by (simp add: set_route_switches_frame)
  next
    case False
    with Cons.prems(1,2) have n: "n \<in> set ns" "distinct (map node_uid ns)" "node_uid n \<noteq> node_uid m"
      by (auto simp: image_iff)
    from n(3) have "switch_position (apply_all t (set_route_switch s r m)) (node_uid n) = Some (sw_position sw)"
      using set_route_switches_frame(1) [of "node_uid n" "[m]" t s r] Cons.prems(4) by simp
    from Cons.IH [OF n(2,1) Cons.prems(3) this] show ?thesis by simp
  qed
qed

section \<open>The path of a route\<close>

text \<open>Each UID contributes at most one node, which carries that UID and a stable position.\<close>

lemma classify_nodes_Cons:
  obtains (node) n where "classify_nodes s c (x # xs) = n # classify_nodes s x xs" "node_uid n = x"
      "node_required_position n \<in> {STRAIGHT, DIVERGENT}"
  | (skip) "classify_nodes s c (x # xs) = classify_nodes s x xs"
proof (cases "find_track_section s x")
  case (Some ts)
  with that(1) show thesis by simp
next
  case None
  show thesis
  proof (cases "find_switch s x")
    case (Some sw)
    with None that(1) show thesis by (simp add: required_switch_position_def)
  next
    case none: None
    with None that(2) show thesis by simp
  qed
qed

lemma classify_nodes_uids: "set (map node_uid (classify_nodes s c xs)) \<subseteq> set xs"
proof (induction xs arbitrary: c)
  case Nil
  then show ?case by simp
next
  case (Cons x xs)
  show ?case
    by (cases rule: classify_nodes_Cons [of s c x xs]) (use Cons.IH [of x] in auto)
qed

lemma classify_nodes_distinct: "distinct xs \<Longrightarrow> distinct (map node_uid (classify_nodes s c xs))"
proof (induction xs arbitrary: c)
  case Nil
  then show ?case by simp
next
  case (Cons x xs)
  show ?case
    by (cases rule: classify_nodes_Cons [of s c x xs])
      (use Cons classify_nodes_uids [of s x xs] in auto)
qed

lemma classify_nodes_position:
  "n \<in> set (classify_nodes s c xs) \<Longrightarrow> node_required_position n \<in> {STRAIGHT, DIVERGENT}"
proof (induction xs arbitrary: c)
  case Nil
  then show ?case by simp
next
  case (Cons x xs)
  show ?case
    by (cases rule: classify_nodes_Cons [of s c x xs]) (use Cons in auto)
qed

lemma flank_of_node_position:
  "n \<in> set (flank_of_node s m) \<Longrightarrow> node_required_position n \<in> {STRAIGHT, DIVERGENT}"
  by (auto simp: flank_of_node_def Let_def split: option.splits if_splits)

text \<open>The path before the policies run, and what the flank policy adds to it.\<close>

definition base_route_path :: "EngineState \<Rightarrow> UID \<Rightarrow> UID \<Rightarrow> RoutePath option" where
  "base_route_path s f t = find_route_path s f t []"

lemma find_route_path_flank:
  "find_route_path s f t kPolicies =
     map_option (\<lambda>p. p\<lparr>rp_flank_switches := concat (map (flank_of_node s) (rp_nodes p))\<rparr>)
       (base_route_path s f t)"
  by (auto simp: base_route_path_def find_route_path_def kPolicies_def FlankProtectionPolicy_def
      path_of_section_def path_of_uids_def Let_def split: option.splits bfs_result.splits)

lemma base_route_path_cases:
  assumes "base_route_path s f t = Some p"
  obtains entry exit where "find_signal s f = Some entry" "find_signal s t = Some exit"
    "sig_governs_section_uid entry = sig_governs_section_uid exit"
    "p = path_of_section s f t (sig_governs_section_uid entry)"
  | entry exit uids where "find_signal s f = Some entry" "find_signal s t = Some exit"
    "sig_governs_section_uid entry \<noteq> sig_governs_section_uid exit"
    "bfs s (sig_governs_section_uid entry) (sig_governs_section_uid exit) = BfsFound uids"
    "p = path_of_uids s f t uids"
  using assms
  by (auto simp: base_route_path_def find_route_path_def Let_def
      split: option.splits if_splits bfs_result.splits)

lemma route_path_positions:
  assumes "find_route_path s f t kPolicies = Some p" and "n \<in> set (rp_nodes p @ rp_flank_switches p)"
  shows "node_required_position n \<in> {STRAIGHT, DIVERGENT}"
proof -
  from assms(1) obtain b where b: "base_route_path s f t = Some b"
    and p: "p = b\<lparr>rp_flank_switches := concat (map (flank_of_node s) (rp_nodes b))\<rparr>"
    by (auto simp: find_route_path_flank)
  from b have "\<forall>n \<in> set (rp_nodes b). node_required_position n \<in> {STRAIGHT, DIVERGENT}"
    by (cases rule: base_route_path_cases)
      (auto simp: path_of_section_def path_of_uids_def Let_def dest!: classify_nodes_position)
  with assms(2) p flank_of_node_position show ?thesis by fastforce
qed

text \<open>Signals govern a real section and no device has the null UID.\<close>

definition route_topology_ok :: "EngineState \<Rightarrow> bool" where
  "route_topology_ok s \<longleftrightarrow>
     no_null_node s \<and> list_all (\<lambda>(u, sig). sig_governs_section_uid sig \<noteq> 0) (es_signals s)"

lemma route_topology_governs:
  "route_topology_ok s \<Longrightarrow> find_signal s u = Some sig \<Longrightarrow> sig_governs_section_uid sig \<noteq> 0"
  by (auto simp: route_topology_ok_def find_defs list_all_iff dest: um_find_in_set)

lemma bfs_valid:
  assumes "no_null_node s" "start \<noteq> 0" "goal \<noteq> 0" "bfs s start goal = BfsFound p"
  shows "valid_route s start goal p"
  using bfs_loop_sound [OF assms(1-3) bfs_start_ok] assms(4) by (simp add: bfs_def)

lemma base_route_path_distinct:
  assumes "route_topology_ok s" and "base_route_path s f t = Some p"
  shows "distinct (map node_uid (rp_nodes p))"
  using assms(2)
proof (cases rule: base_route_path_cases)
  case (1 entry exit)
  then show ?thesis by (simp add: path_of_section_def)
next
  case (2 entry exit uids)
  with assms(1) have "valid_route s (sig_governs_section_uid entry) (sig_governs_section_uid exit) uids"
    by (intro bfs_valid) (auto simp: route_topology_ok_def dest: route_topology_governs [OF assms(1)])
  with 2 show ?thesis
    by (simp add: path_of_uids_def Let_def valid_route_def classify_nodes_distinct)
qed

section \<open>The effect of setting a route\<close>

lemma classify_nodes_switch:
  "n \<in> set (classify_nodes s c xs) \<Longrightarrow> node_kind n = NODE_SWITCH \<Longrightarrow> find_switch s (node_uid n) \<noteq> None"
proof (induction xs arbitrary: c)
  case Nil
  then show ?case by simp
next
  case (Cons x xs)
  then show ?case
    by (cases "find_track_section s x"; cases "find_switch s x") auto
qed

lemma route_path_switch_found:
  assumes "base_route_path s f t = Some p" "n \<in> set (rp_nodes p)" "node_kind n = NODE_SWITCH"
  obtains sw where "find_switch s (node_uid n) = Some sw"
  using assms(1)
proof (cases rule: base_route_path_cases)
  case (1 entry exit)
  with assms(2,3) show thesis by (simp add: path_of_section_def)
next
  case (2 entry exit uids)
  with assms(2,3) have "find_switch s (node_uid n) \<noteq> None"
    by (auto simp: path_of_uids_def Let_def dest: classify_nodes_switch)
  with that show thesis by blast
qed

lemma set_route_derailer_concerns:
  "c \<in> set (set_route_derailer s r d) \<Longrightarrow>
     \<not> moves_switch u c \<and> \<not> locks_switch u c \<and> \<not> shows_aspect u c \<and> \<not> changes_route u c"
  by (auto simp: set_route_derailer_def split: option.splits if_splits)

lemma set_route_switch_no_aspect:
  "c \<in> set (set_route_switch s r n) \<Longrightarrow> \<not> shows_aspect u c \<and> \<not> changes_route u c"
  by (auto simp: set_route_switch_def split: option.splits if_splits)

text \<open>The three groups of changes before the entry signal clears.\<close>

definition route_preparation :: "EngineState \<Rightarrow> UID \<Rightarrow> RoutePath \<Rightarrow> DeviceStateChange list" where
  "route_preparation s r p =
     concat (map (set_route_switch s r) (filter (\<lambda>n. node_kind n = NODE_SWITCH) (rp_nodes p))) @
     concat (map (set_route_switch s r) (rp_flank_switches p)) @
     concat (map (set_route_derailer s r) (rp_derailer_uids p))"

lemma execute_request_route_eq:
  assumes "find_route_path s f t pol = Some p" and "r = make_route_uid f t tick"
  shows "execute_request_route s f t tick pol =
     route_preparation s r p @
     [SignalAspectChange f S2_PROCEED CAUSE_AUTO (Some r),
      RouteAdded (route_state_of s r f t tick p)]"
  using assms by (simp add: execute_request_route_def route_preparation_def Let_def)

lemma route_preparation_no_aspect:
  "list_all (\<lambda>c. \<not> shows_aspect u c) (route_preparation s r p)"
  "list_all (\<lambda>c. \<not> changes_route u c) (route_preparation s r p)"
  using set_route_switch_no_aspect [of _ s r _ u] set_route_derailer_concerns [of _ s r _ u]
  by (fastforce simp: route_preparation_def list_all_iff)+

lemma route_preparation_switch:
  assumes "route_topology_ok s" and "find_route_path s f t kPolicies = Some p"
    and "n \<in> set (rp_nodes p)" and "node_kind n = NODE_SWITCH"
    and "node_uid n \<notin> node_uid ` set (rp_flank_switches p)"
  shows "switch_position (apply_all s (route_preparation s r p)) (node_uid n) = Some (node_required_position n)"
    and "switch_lock (apply_all s (route_preparation s r p)) (node_uid n) = Some (Some r)"
proof -
  let ?ns = "filter (\<lambda>n. node_kind n = NODE_SWITCH) (rp_nodes p)"
  let ?s1 = "apply_all s (concat (map (set_route_switch s r) ?ns))"
  from assms(2) obtain b where b: "base_route_path s f t = Some b" and nodes: "rp_nodes p = rp_nodes b"
    by (auto simp: find_route_path_flank)
  obtain sw where sw: "find_switch s (node_uid n) = Some sw"
    using route_path_switch_found [OF b] assms(3,4) nodes by metis
  have "distinct (map node_uid ?ns)"
    using base_route_path_distinct [OF assms(1) b] nodes by (simp add: distinct_map_filter)
  then have 1: "switch_position ?s1 (node_uid n) = Some (node_required_position n)"
    "switch_lock ?s1 (node_uid n) = Some (Some r)"
    using set_route_switches_apply [of ?ns n s sw s r] assms(3,4) sw by auto
  have frame: "list_all (\<lambda>c. \<not> moves_switch (node_uid n) c) (concat (map (set_route_derailer s r) ds))"
    "list_all (\<lambda>c. \<not> locks_switch (node_uid n) c) (concat (map (set_route_derailer s r) ds))" for ds
    using set_route_derailer_concerns [of _ s r _ "node_uid n"] by (fastforce simp: list_all_iff)+
  show "switch_position (apply_all s (route_preparation s r p)) (node_uid n) = Some (node_required_position n)"
    "switch_lock (apply_all s (route_preparation s r p)) (node_uid n) = Some (Some r)"
    using 1 set_route_switches_frame [OF assms(5)]
    by (simp_all add: route_preparation_def position_apply_all_frame [OF frame(1)]
        lock_apply_all_frame [OF frame(2)])
qed

lemma check_request_route_ok:
  assumes "check_request_route s f t pol = None"
  obtains entry exit p where "find_signal s f = Some entry" "find_signal s t = Some exit"
    "sig_locked_by_route_uid entry = None" "find_route_path s f t pol = Some p"
    "\<forall>n \<in> set (rp_nodes p). check_route_node s n = None"
    "\<forall>u \<in> set (rp_section_uids p). check_route_section s u = None"
  using assms
  by (auto simp: check_request_route_def first_some_None split: option.splits if_splits)

lemma check_route_node_ok:
  "check_route_node s n = None \<Longrightarrow> node_kind n = NODE_SWITCH \<Longrightarrow> find_switch s (node_uid n) = Some sw \<Longrightarrow>
     sw_occupancy sw = FREE \<and> sw_locked_by_route_uid sw = None \<and> sw_position sw \<noteq> MOVING"
  by (cases "sw_occupancy sw") (auto simp: check_route_node_def split: if_splits)

section \<open>The effect of cancelling a route\<close>

lemma unlock_switches_lock:
  "switch_lock (apply_all s (map (\<lambda>u. SwitchUnlocked u r) us)) v =
     (if v \<in> set us then map_option (\<lambda>_. None) (find_switch s v) else switch_lock s v)"
proof (induction us arbitrary: s)
  case Nil
  show ?case by simp
next
  case (Cons u us)
  have "map_option (\<lambda>_. None) (find_switch (apply_change (SwitchUnlocked u r) s) v) =
      map_option (\<lambda>_. None :: UID option) (find_switch s v)"
    by (cases "find_switch s v"; cases "find_switch (apply_change (SwitchUnlocked u r) s) v")
      (use exists_apply_change(1) [of "SwitchUnlocked u r" s v] in auto)
  with Cons.IH [of "apply_change (SwitchUnlocked u r) s"]
    lock_apply_change [of "SwitchUnlocked u r" s v]
  show ?case by auto
qed

lemma unlock_switches_concerns:
  "list_all (\<lambda>c. \<not> shows_aspect v c) (map (\<lambda>u. SwitchUnlocked u r) us)"
  "list_all (\<lambda>c. \<not> moves_derailer v c) (map (\<lambda>u. SwitchUnlocked u r) us)"
  by (simp_all add: list_all_iff)

lemma relock_derailers_concerns:
  "list_all (\<lambda>c. \<not> shows_aspect v c) (concat (map (relock_derailer s) ds))"
  "list_all (\<lambda>c. \<not> locks_switch v c) (concat (map (relock_derailer s) ds))"
  by (auto simp: list_all_iff relock_derailer_def split: if_splits)

lemma relock_derailers_state:
  assumes "d \<in> set ds" and "find_derailer s d = Some x" and "derailer_state t d = Some (dr_state x) \<or>
      derailer_state t d = Some LOCKED"
  shows "derailer_state (apply_all t (concat (map (relock_derailer s) ds))) d = Some LOCKED"
  using assms
proof (induction ds arbitrary: t)
  case Nil
  then show ?case by simp
next
  case (Cons e ds)
  have step: "derailer_state (apply_all t (relock_derailer s e)) d =
      (if e = d \<and> dr_state x = UNLOCKED then Some LOCKED else derailer_state t d)"
    using Cons.prems(2,3) by (auto simp: relock_derailer_def engine_simps split: if_splits)
  show ?case
  proof (cases "d \<in> set ds")
    case True
    with Cons.IH [OF True Cons.prems(2), of "apply_all t (relock_derailer s e)"] Cons.prems(3) step
    show ?thesis by (auto split: if_splits)
  next
    case False
    with Cons.prems(1) have "e = d" by simp
    moreover have "derailer_state (apply_all u (concat (map (relock_derailer s) ds))) d = derailer_state u d" for u
      using False by (intro conjunct1 [OF derailer_apply_all_frame])
        (auto simp: list_all_iff relock_derailer_def split: if_splits)
    ultimately show ?thesis using step Cons.prems(3)
      by (cases "dr_state x") (auto simp: apply_all_def split: if_splits)
  qed
qed

lemma execute_cancel_route_eq:
  assumes "find_route s r = Some route"
  shows "execute_cancel_route s r force =
     SignalAspectChange (rt_from_signal_uid route) S1_STOP CAUSE_COMMAND (Some r) #
     map (\<lambda>u. SwitchUnlocked u r) (rt_switch_uids route) @
     concat (map (relock_derailer s) (rt_derailer_uids route)) @
     (if force then [EmergencyRouteReleaseExecuted r] else []) @
     [RouteRemoved r (if force then ''FORCE'' else ''OPERATOR_CANCEL'')]"
  using assms by (simp add: execute_cancel_route_def)

lemma cancel_signal:
  assumes "find_route s r = Some route" and "find_signal s (rt_from_signal_uid route) = Some sig"
  shows "signal_aspect (apply_all s (execute_cancel_route s r force)) (rt_from_signal_uid route) = Some S1_STOP"
    and "signal_lock (apply_all s (execute_cancel_route s r force)) (rt_from_signal_uid route) = Some (Some r)"
proof -
  let ?c = "SignalAspectChange (rt_from_signal_uid route) S1_STOP CAUSE_COMMAND (Some r)"
  let ?rest = "map (\<lambda>u. SwitchUnlocked u r) (rt_switch_uids route) @
     concat (map (relock_derailer s) (rt_derailer_uids route)) @
     (if force then [EmergencyRouteReleaseExecuted r] else []) @
     [RouteRemoved r (if force then ''FORCE'' else ''OPERATOR_CANCEL'')]"
  have eq: "apply_all s (execute_cancel_route s r force) = apply_all (apply_change ?c s) ?rest"
    by (simp add: execute_cancel_route_eq [OF assms(1)])
  have "list_all (\<lambda>c. \<not> shows_aspect (rt_from_signal_uid route) c) ?rest"
    using unlock_switches_concerns(1) relock_derailers_concerns(1) by simp
  from aspect_apply_all_frame [OF this, of "apply_change ?c s"] assms(2)
  show "signal_aspect (apply_all s (execute_cancel_route s r force)) (rt_from_signal_uid route) = Some S1_STOP"
    "signal_lock (apply_all s (execute_cancel_route s r force)) (rt_from_signal_uid route) = Some (Some r)"
    unfolding eq by (simp_all add: engine_simps)
qed

lemma cancel_switch:
  assumes "find_route s r = Some route" and "u \<in> set (rt_switch_uids route)" and "find_switch s u = Some sw"
  shows "switch_lock (apply_all s (execute_cancel_route s r force)) u = Some None"
proof -
  let ?s1 = "apply_change (SignalAspectChange (rt_from_signal_uid route) S1_STOP CAUSE_COMMAND (Some r)) s"
  let ?s2 = "apply_all ?s1 (map (\<lambda>u. SwitchUnlocked u r) (rt_switch_uids route))"
  have "find_switch ?s1 u \<noteq> None" using assms(3) by (simp add: engine_simps)
  then have 2: "switch_lock ?s2 u = Some None" using assms(2) by (auto simp: unlock_switches_lock)
  have "list_all (\<lambda>c. \<not> locks_switch u c) (concat (map (relock_derailer s) (rt_derailer_uids route)) @
     (if force then [EmergencyRouteReleaseExecuted r] else []) @
     [RouteRemoved r (if force then ''FORCE'' else ''OPERATOR_CANCEL'')])"
    using relock_derailers_concerns(2) by simp
  from lock_apply_all_frame [OF this, of ?s2] 2 show ?thesis
    by (simp add: execute_cancel_route_eq [OF assms(1)])
qed

lemma cancel_derailer:
  assumes "find_route s r = Some route" and "d \<in> set (rt_derailer_uids route)" and "find_derailer s d = Some x"
  shows "derailer_state (apply_all s (execute_cancel_route s r force)) d = Some LOCKED"
proof -
  let ?s1 = "apply_change (SignalAspectChange (rt_from_signal_uid route) S1_STOP CAUSE_COMMAND (Some r)) s"
  let ?s2 = "apply_all ?s1 (map (\<lambda>u. SwitchUnlocked u r) (rt_switch_uids route))"
  have "derailer_state ?s2 d = derailer_state ?s1 d"
    using derailer_apply_all_frame [OF unlock_switches_concerns(2)] by blast
  then have "derailer_state ?s2 d = Some (dr_state x)" using assms(3) by (simp add: engine_simps)
  from relock_derailers_state [OF assms(2,3) disjI1 [OF this]] show ?thesis
    by (simp add: execute_cancel_route_eq [OF assms(1)] engine_simps)
qed

lemma cancel_route_gone:
  "find_route s r = Some route \<Longrightarrow> find_route (apply_all s (execute_cancel_route s r force)) r = None"
  by (simp add: execute_cancel_route_eq engine_simps)

section \<open>Evaluating route requests on the sample stations\<close>

definition sample_node :: "NodeKind \<Rightarrow> UID \<Rightarrow> SwitchPosition \<Rightarrow> RoutePathNode" where
  "sample_node k u p = \<lparr>node_kind = k, node_uid = u, node_required_position = p\<rparr>"

lemma sample_no_null: "no_null_node sample_station" "no_null_node sample_crossover"
  by (simp_all add: no_null_node_def sample_traversable crossover_traversable)

lemma sample_route_topology: "route_topology_ok sample_station" "route_topology_ok sample_crossover"
  using sample_no_null
  by (simp_all add: route_topology_ok_def sample_station_def sample_crossover_def sample_signal_def)

lemma sample_derailers:
  "derailers_guarding sample_station [1, 2] = [30]" "derailers_guarding sample_station [2, 3] = [30]"
  by (simp_all add: derailers_guarding_def for_each_derailer_def um_values_def sample_station_def
      sample_derailer_def)

lemma crossover_derailers: "derailers_guarding sample_crossover us = []"
  by (simp add: derailers_guarding_def for_each_derailer_def um_values_def sample_crossover_def)

lemmas route_eval = find_route_path_def path_of_uids_def Let_def node_uids_of_kind_def kPolicies_def
  FlankProtectionPolicy_def flank_of_node_def required_switch_position_def sample_node_def
  sample_signal_def sample_switch_def sample_leg_def

lemma sample_path_21_22:
  "find_route_path sample_station 21 22 kPolicies = Some
     \<lparr>rp_from_signal_uid = 21, rp_to_signal_uid = 22,
      rp_nodes = [sample_node NODE_TRACK_SECTION 1 STRAIGHT, sample_node NODE_SWITCH 10 STRAIGHT,
                  sample_node NODE_TRACK_SECTION 2 STRAIGHT],
      rp_section_uids = [1, 2], rp_switch_uids = [10], rp_derailer_uids = [30],
      rp_flank_switches = []\<rparr>"
  by (simp add: route_eval sample_find_signal sample_find_section sample_find_switch sample_bfs
      sample_derailers)

lemma sample_path_22_23:
  "find_route_path sample_station 22 23 kPolicies = Some
     \<lparr>rp_from_signal_uid = 22, rp_to_signal_uid = 23,
      rp_nodes = [sample_node NODE_TRACK_SECTION 2 STRAIGHT, sample_node NODE_SWITCH 10 STRAIGHT,
                  sample_node NODE_TRACK_SECTION 3 STRAIGHT],
      rp_section_uids = [2, 3], rp_switch_uids = [10], rp_derailer_uids = [30],
      rp_flank_switches = []\<rparr>"
  by (simp add: route_eval sample_find_signal sample_find_section sample_find_switch sample_bfs
      sample_derailers)

lemma crossover_path:
  "find_route_path sample_crossover 21 22 kPolicies = Some
     \<lparr>rp_from_signal_uid = 21, rp_to_signal_uid = 22,
      rp_nodes = [sample_node NODE_TRACK_SECTION 1 STRAIGHT, sample_node NODE_SWITCH 10 STRAIGHT,
                  sample_node NODE_TRACK_SECTION 2 STRAIGHT],
      rp_section_uids = [1, 2], rp_switch_uids = [10], rp_derailer_uids = [],
      rp_flank_switches = [sample_node NODE_SWITCH 11 DIVERGENT]\<rparr>"
  by (simp add: route_eval crossover_find_signal crossover_find_section crossover_find_switch
      crossover_bfs crossover_derailers)

lemma sample_check_21_22: "check_request_route sample_station 21 22 kPolicies = None"
  by (simp add: check_request_route_def sample_find_signal sample_path_21_22 check_route_node_def
      check_route_section_def sample_node_def sample_find_switch sample_find_section)
    (simp add: sample_signal_def sample_switch_def sample_section_def)

lemma sample_check_22_23: "check_request_route sample_station 22 23 kPolicies = None"
  by (simp add: check_request_route_def sample_find_signal sample_path_22_23 check_route_node_def
      check_route_section_def sample_node_def sample_find_switch sample_find_section)
    (simp add: sample_signal_def sample_switch_def sample_section_def)

lemma crossover_check: "check_request_route sample_crossover 21 22 kPolicies = None"
  by (simp add: check_request_route_def crossover_find_signal crossover_path check_route_node_def
      check_route_section_def sample_node_def crossover_find_switch crossover_find_section)
    (simp add: sample_signal_def sample_switch_def sample_section_def)

section \<open>Properties\<close>

text \<open>
  C1.  Under EbiLock, an accepted command other than a route request never throws a switch that is
  locked by a route or occupied by a train, whatever device or code the command names.
\<close>

theorem ebilock_protects_switches:
  assumes "ebilock_check_command s c = None" and "\<And>f t. c \<noteq> RequestRouteCmd f t"
    and "find_switch s u = Some sw"
    and "sw_locked_by_route_uid sw \<noteq> None \<or> sw_occupancy sw = OCCUPIED"
  shows "switch_position (apply_all s (snd (ebilock_execute_command sys s c))) u = Some (sw_position sw)"
proof -
  have "\<not> list_ex (moves_switch u) (snd (ebilock_execute_command sys s c))"
    using ebilock_moves_unprotected [OF assms(1,2) _ assms(3), of sys] assms(4) by auto
  with position_apply_all_frame [of u "snd (ebilock_execute_command sys s c)" s] assms(3)
  show ?thesis by (simp add: not_list_ex_all)
qed

definition sample_locked :: EngineState where
  "sample_locked = apply_switch_lock 10 (Some 77) sample_station"

lemma sample_locked_switch:
  "find_switch sample_locked 10 = Some ((sample_switch 10 1 2 3)\<lparr>sw_locked_by_route_uid := Some 77\<rparr>)"
  by (simp add: sample_locked_def engine_simps sample_find_switch)

theorem ebilock_protects_switches_witness:
  "switch_position (apply_all sample_locked
     (snd (ebilock_execute_command (make_EbiLockSystem 90) sample_locked
       (SetSignalAspectCmd 21 S1_STOP)))) 10 = Some STRAIGHT"
proof -
  have check: "ebilock_check_command sample_locked (SetSignalAspectCmd 21 S1_STOP) = None"
    by (simp add: check_set_signal_aspect_def sample_locked_def engine_simps sample_find_signal)
  show ?thesis
    using ebilock_protects_switches [OF check _ sample_locked_switch, of "make_EbiLockSystem 90"]
    by (simp add: sample_switch_def)
qed

text \<open>
  C2.  An accepted route request finds every switch of its path free, unlocked and at rest and every
  section of it free; afterwards each switch of the path that flank protection does not also claim
  stands in the position the path needs and is locked by the new route.
\<close>

theorem request_route_sets_path:
  assumes "route_topology_ok s" and "check_request_route s f t kPolicies = None"
    and "s' = apply_all s (execute_request_route s f t tick kPolicies)"
  shows "\<exists>p. find_route_path s f t kPolicies = Some p \<and> sections_free s (rp_section_uids p) \<and>
    (\<forall>n \<in> set (rp_nodes p). node_kind n = NODE_SWITCH \<longrightarrow>
       (\<exists>sw. find_switch s (node_uid n) = Some sw \<and> sw_occupancy sw = FREE \<and>
             sw_locked_by_route_uid sw = None \<and> sw_position sw \<noteq> MOVING) \<and>
       (node_uid n \<notin> node_uid ` set (rp_flank_switches p) \<longrightarrow>
          switch_position s' (node_uid n) = Some (node_required_position n) \<and>
          switch_lock s' (node_uid n) = Some (Some (make_route_uid f t tick))))"
proof -
  let ?r = "make_route_uid f t tick"
  obtain p where p: "find_route_path s f t kPolicies = Some p"
    and nodes: "\<forall>n \<in> set (rp_nodes p). check_route_node s n = None"
    and secs: "\<forall>u \<in> set (rp_section_uids p). check_route_section s u = None"
    using check_request_route_ok [OF assms(2)] by metis
  from p obtain b where b: "base_route_path s f t = Some b" and "rp_nodes p = rp_nodes b"
    by (auto simp: find_route_path_flank)
  have s': "s' = apply_all s (route_preparation s ?r p @
      [SignalAspectChange f S2_PROCEED CAUSE_AUTO (Some ?r), RouteAdded (route_state_of s ?r f t tick p)])"
    by (simp only: assms(3) execute_request_route_eq [OF p refl])
  have "sections_free s (rp_section_uids p)"
    using secs by (auto simp: sections_free_def list_all_iff check_route_section_def split: if_splits)
  moreover have "(\<exists>sw. find_switch s (node_uid n) = Some sw \<and> sw_occupancy sw = FREE \<and>
             sw_locked_by_route_uid sw = None \<and> sw_position sw \<noteq> MOVING)"
    if n: "n \<in> set (rp_nodes p)" "node_kind n = NODE_SWITCH" for n
    using route_path_switch_found [OF b] check_route_node_ok nodes n \<open>rp_nodes p = rp_nodes b\<close> by metis
  moreover have "switch_position s' (node_uid n) = Some (node_required_position n) \<and>
          switch_lock s' (node_uid n) = Some (Some ?r)"
    if n: "n \<in> set (rp_nodes p)" "node_kind n = NODE_SWITCH" "node_uid n \<notin> node_uid ` set (rp_flank_switches p)" for n
    using route_preparation_switch [OF assms(1) p n, of ?r] by (simp add: s' engine_simps)
  ultimately show ?thesis using p by blast
qed

theorem request_route_sets_path_witness:
  "\<exists>p. find_route_path sample_station 21 22 kPolicies = Some p \<and>
     sections_free sample_station (rp_section_uids p)"
  using request_route_sets_path [OF sample_route_topology(1) sample_check_21_22 refl] by blast

text \<open>
  An accepted route request clears its entry signal to S2 and locks it to the route, leaves
  every other signal alone, and registers the route under its UID when that UID is not in use.
\<close>

theorem request_route_clears_entry:
  assumes "check_request_route s f t kPolicies = None"
    and "s' = apply_all s (execute_request_route s f t tick kPolicies)"
    and "find_route s (make_route_uid f t tick) = None"
  shows "signal_aspect s' f = Some S2_PROCEED \<and>
    signal_lock s' f = Some (Some (make_route_uid f t tick)) \<and>
    (\<forall>u. u \<noteq> f \<longrightarrow> signal_aspect s' u = signal_aspect s u \<and> signal_lock s' u = signal_lock s u) \<and>
    (\<exists>p. find_route_path s f t kPolicies = Some p \<and>
         find_route s' (make_route_uid f t tick) =
           Some (route_state_of s (make_route_uid f t tick) f t tick p))"
proof -
  let ?r = "make_route_uid f t tick"
  obtain p entry where p: "find_route_path s f t kPolicies = Some p" and entry: "find_signal s f = Some entry"
    using check_request_route_ok [OF assms(1)] by metis
  let ?s1 = "apply_all s (route_preparation s ?r p)"
  have s': "s' = apply_all ?s1
      [SignalAspectChange f S2_PROCEED CAUSE_AUTO (Some ?r), RouteAdded (route_state_of s ?r f t tick p)]"
    by (simp only: assms(2) execute_request_route_eq [OF p refl] apply_all_simps(3))
  have frame: "signal_aspect ?s1 u = signal_aspect s u" "signal_lock ?s1 u = signal_lock s u"
    "find_route ?s1 u = find_route s u" for u
    using aspect_apply_all_frame [OF route_preparation_no_aspect(1)]
      route_apply_all_frame [OF route_preparation_no_aspect(2)] by auto
  have "find_signal ?s1 f \<noteq> None" using entry by simp
  then obtain e1 where "find_signal ?s1 f = Some e1" by blast
  then have "signal_aspect s' f = Some S2_PROCEED" "signal_lock s' f = Some (Some ?r)"
    by (simp_all add: s' engine_simps)
  moreover have "signal_aspect s' u = signal_aspect s u \<and> signal_lock s' u = signal_lock s u" if "u \<noteq> f" for u
    using that frame [of u] by (simp add: s' engine_simps)
  moreover have "find_route s' ?r = Some (route_state_of s ?r f t tick p)"
    using assms(3) frame(3) by (simp add: s' engine_simps route_state_of_def)
  ultimately show ?thesis using p by blast
qed

theorem request_route_clears_entry_witness:
  "signal_aspect (apply_all sample_station (execute_request_route sample_station 21 22 7 kPolicies)) 21
     = Some S2_PROCEED"
  using request_route_clears_entry [OF sample_check_21_22 refl, of 7] by (simp add: sample_find_none)

end
