(* ===== verification/Route_Properties.thy ===== *)
theory Route_Properties
  imports Interlocking_Safety
begin

text \<open>
  The guarantees of the route search of \<^verbatim>\<open>route_graph.cpp\<close>: it always terminates
  with a verdict, a path it returns is a simple chain of adjacent nodes, it finds a path whenever
  the goal can be reached at all, and the UID of a route is a well-formed runtime route UID.
\<close>

text \<open>
  C39.  The breadth-first search always ends with a verdict: the walk back through the predecessor
  map never runs off it and never cycles, whatever the topology.
\<close>

theorem bfs_total: "bfs s start goal \<noteq> BfsStuck"
  unfolding bfs_def by (rule bfs_loop_total [OF bfs_start_ok])

text \<open>
  C25.  A path the search returns starts at the start, ends at the goal, visits no node twice, and
  each node of it is a neighbour of its predecessor in the direction of travel.
\<close>

theorem bfs_sound:
  assumes "no_null_node s" and "start \<noteq> 0" and "goal \<noteq> 0" and "bfs s start goal = BfsFound p"
  shows "valid_route s start goal p"
  using assms by (rule bfs_valid)

theorem bfs_sound_witness: "valid_route sample_station 1 2 [1, 10, 2]"
  by (rule bfs_sound) (simp_all add: sample_no_null sample_bfs)

text \<open>
  C26.  When neighbours name each other, the search finds a path
  to every section or switch that is connected to the start.
\<close>

theorem bfs_complete:
  assumes "symmetric_topology s" and "no_null_node s" and "node_reachable s start goal"
  shows "\<exists>p. bfs s start goal = BfsFound p"
proof -
  have "bfs s start goal \<noteq> BfsNone"
    unfolding bfs_def by (rule bfs_loop_complete [OF assms bfs_start_ok bfs_start_expanded])
  moreover have "bfs s start goal \<noteq> BfsStuck"
    unfolding bfs_def by (rule bfs_loop_total [OF bfs_start_ok])
  ultimately show ?thesis by (cases "bfs s start goal") auto
qed

lemma sample_all_neighbors:
  "all_neighbors sample_station 1 = [51, 10]" "all_neighbors sample_station 2 = [10, 52]"
  "all_neighbors sample_station 3 = [10, 53]" "all_neighbors sample_station 10 = [1, 2, 3]"
  by (simp_all add: all_neighbors_def sample_find_section sample_find_switch)
    (simp_all add: sample_section_def sample_switch_def sample_port_def sample_leg_def)

lemma sample_symmetric: "symmetric_topology sample_station"
  by (simp add: symmetric_topology_def node_uids_def sample_station_def um_keys_def
      sample_all_neighbors [unfolded sample_station_def])

theorem bfs_complete_witness: "\<exists>p. bfs sample_station 3 1 = BfsFound p"
proof (rule bfs_complete [OF sample_symmetric sample_no_null(1)])
  have "node_reachable sample_station 3 10"
    by (rule reach_step [OF reach_start]) (simp_all add: sample_all_neighbors sample_traversable)
  then show "node_reachable sample_station 3 1"
    by (rule reach_step) (simp_all add: sample_all_neighbors sample_traversable)
qed

section \<open>Route UIDs\<close>

lemma make_uid_eq_iff:
  "make_uid d k s i = make_uid d k s' i' \<longleftrightarrow> s = s' \<and> i = i'"
  by (metis uid_scope_make_uid uid_instance_make_uid)

lemma route_instance_mask: "(x :: u16) AND 0xFFFF = x"
  by (rule bit_word_eqI) (auto simp: bit_simps)

lemma unat_ucast_mod: "unat (ucast (n :: u64) :: u16) = unat n mod 65536"
  by (simp add: unsigned_ucast_eq take_bit_eq_mod unsigned_take_bit_eq)

text \<open>
  A route UID is always a non-zero, JSON-safe UID of domain OPERATIONS and kind ROUTE; between
  the same two signals two requests get the same UID exactly when their ticks agree modulo 65536, and
  the two directions between a pair of signals share one UID.
\<close>

theorem make_route_uid_wf:
  "uid_has_kind (make_route_uid f t n) OPERATIONS ROUTE \<and>
   uid_is_safe_json_integer (make_route_uid f t n) \<and> make_route_uid f t n \<noteq> 0 \<and>
   (make_route_uid f t n = make_route_uid f t m \<longleftrightarrow> unat n mod 65536 = unat m mod 65536) \<and>
   make_route_uid f t n = make_route_uid t f n"
proof -
  have "(a XOR x = a XOR y) \<longleftrightarrow> x = y" for a x y :: u16
    by (metis xor.left_neutral xor.assoc bit.xor_self)
  moreover have "(ucast n :: u16) = ucast m \<longleftrightarrow> unat n mod 65536 = unat m mod 65536"
    by (simp add: word_unat_eq_iff unat_ucast_mod)
  ultimately show ?thesis
    by (simp add: make_route_uid_def uid_has_kind_def make_uid_eq_iff make_uid_nonzero
        route_instance_mask ac_simps)
qed

end
