(* ===== verification/Block_Line.thy ===== *)
theory Block_Line
  imports Interlocking_Safety
begin

text \<open>
  The line block between two stations (SHL-12): rules R8, R9 and R10 and the operator commands
  that act on a block section.  The step relation \<open>line_step\<close> is the state machine the rules
  carry out; \<open>documented_step\<close> is the one that the comment of
  \<^verbatim>\<open>srk/ml8/include/srk/ml8/ml8_system.hpp\<close> and \<^verbatim>\<open>docs/ARCHITECTURE.md\<close> describe.
  The rules implement the first exactly and the second except in the cases \<open>departs\<close> lists.
\<close>

section \<open>The state machine of the rules\<close>

datatype line_op = LineDirection Shl12Op | LineResetInit | LineReset

type_synonym line_state = "BlockDirectionState \<times> BlockSectionState"

inductive line_step :: "line_op \<Rightarrow> line_state \<Rightarrow> line_state \<Rightarrow> bool" where
  line_blw: "line_step (LineDirection SHL_BLW) (NEUTRAL, b) (OUTBOUND_PENDING, b)"
| line_blp_out: "line_step (LineDirection SHL_BLP) (OUTBOUND_PENDING, b) (OUTBOUND, BS_OPEN)"
| line_blp_in: "line_step (LineDirection SHL_BLP) (INBOUND_PENDING, b) (INBOUND, BS_OPEN)"
| line_blo: "line_step (LineDirection SHL_BLO) (OUTBOUND_PENDING, b) (NEUTRAL, b)"
| line_blz: "d \<in> {OUTBOUND, INBOUND} \<Longrightarrow> line_step (LineDirection SHL_BLZ) (d, b) (NEUTRAL, BS_CLOSED)"
| line_blai: "d \<noteq> RESET_PENDING \<Longrightarrow> line_step (LineDirection SHL_BLAI) (d, b) (DIR_EMERGENCY, b)"
| line_bla: "line_step (LineDirection SHL_BLA) (DIR_EMERGENCY, b) (NEUTRAL, BS_CLOSED)"
| line_ops: "d \<in> {DIR_EMERGENCY, RESET_PENDING} \<Longrightarrow>
    line_step (LineDirection SHL_OPS) (d, b) (NEUTRAL, BS_CLOSED)"
| line_sli: "line_step LineResetInit (NEUTRAL, b) (RESET_PENDING, b)"
| line_slk: "line_step LineReset (RESET_PENDING, b) (NEUTRAL, BS_CLOSED)"

code_pred line_step .

inductive_simps line_step_simps:
  "line_step (LineDirection SHL_BLW) (d, b) y" "line_step (LineDirection SHL_BLP) (d, b) y"
  "line_step (LineDirection SHL_BLO) (d, b) y" "line_step (LineDirection SHL_BLZ) (d, b) y"
  "line_step (LineDirection SHL_BLAI) (d, b) y" "line_step (LineDirection SHL_BLA) (d, b) y"
  "line_step (LineDirection SHL_OPS) (d, b) y" "line_step LineResetInit (d, b) y"
  "line_step LineReset (d, b) y"

text \<open>An open line has an established direction or is in the emergency procedure.\<close>

definition line_ok :: "line_state \<Rightarrow> bool" where
  "line_ok x \<longleftrightarrow> (snd x = BS_OPEN \<longrightarrow> fst x \<in> {OUTBOUND, INBOUND, DIR_EMERGENCY})"

inductive line_reachable :: "line_state \<Rightarrow> bool" where
  line_initial: "line_reachable (NEUTRAL, BS_CLOSED)"
| line_next: "line_reachable x \<Longrightarrow> line_step op x y \<Longrightarrow> line_reachable y"

lemma line_reachable_ok: "line_reachable x \<Longrightarrow> line_ok x"
proof (induction rule: line_reachable.induct)
  case line_initial
  show ?case by (simp add: line_ok_def)
next
  case (line_next x op y)
  from line_next.hyps(2) line_next.IH show ?case
    by (cases rule: line_step.cases) (auto simp: line_ok_def)
qed

section \<open>The rules on one block section\<close>

abbreviation line_view :: "EngineState \<Rightarrow> UID \<Rightarrow> line_state option" where
  "line_view s u \<equiv> map_option (\<lambda>b. (bs_direction b, bs_state b)) (find_block_section s u)"

fun line_command :: "line_op \<Rightarrow> UID \<Rightarrow> Command" where
  "line_command (LineDirection op) u = SetBlockDirectionCmd u op"
| "line_command LineResetInit u = InitAxleCounterResetCmd u"
| "line_command LineReset u = ResetAxleCounterCmd u"

text \<open>What a rule demands beyond the step: an empty line for BLZ, the 60 second delay for SLK.\<close>

definition line_guard :: "EngineState \<Rightarrow> BlockSection \<Rightarrow> line_op \<Rightarrow> bool" where
  "line_guard s b op \<longleftrightarrow>
    (op = LineDirection SHL_BLZ \<longrightarrow> bs_axle_count b = 0) \<and>
    (op = LineReset \<longrightarrow>
      (case bs_reset_init_tick b of None \<Rightarrow> False
       | Some t0 \<Rightarrow> t0 + 60 * ENGINE_TICKS_PER_SECOND \<le> es_current_tick s))"

lemma check_direction_iff:
  "check_direction_op b u op = None \<longleftrightarrow>
     (\<exists>y. line_step (LineDirection op) (bs_direction b, bs_state b) y) \<and>
     (op = SHL_BLZ \<longrightarrow> bs_axle_count b = 0)"
  by (cases op) (auto simp: check_direction_op_def line_step_simps Let_def)

lemma line_check_iff:
  assumes "find_block_section s u = Some b"
  shows "ml8_check_command s (line_command op u) = None \<longleftrightarrow>
    (\<exists>y. line_step op (bs_direction b, bs_state b) y) \<and> line_guard s b op"
  using assms
  by (cases op) (auto simp: check_set_block_direction_def check_direction_iff line_guard_def line_step_simps
      check_init_axle_counter_reset_def check_reset_axle_counter_def split: option.splits)

lemma line_execute_step:
  assumes "find_block_section s u = Some b" and "ml8_check_command s (line_command op u) = None"
    and "s' = apply_all s (snd (ml8_execute_command sys s (line_command op u)))"
  shows "\<exists>y. line_step op (bs_direction b, bs_state b) y \<and> line_view s' u = Some y"
proof -
  have step: "\<exists>y. line_step op (bs_direction b, bs_state b) y"
    using assms(1,2) line_check_iff by blast
  show ?thesis
  proof (cases op)
    case (LineDirection o')
    with assms(1,3) step show ?thesis
      by (cases o') (auto simp: execute_set_block_direction_def engine_simps line_step_simps)
  qed (use assms(1,3) step in \<open>auto simp: simple_executes engine_simps line_step_simps\<close>)
qed

lemma line_execute_other:
  assumes "v \<noteq> u"
  shows "find_block_section (apply_all s (snd (ml8_execute_command sys s (line_command op u)))) v =
    find_block_section s v"
proof (cases op)
  case (LineDirection o')
  with assms show ?thesis
    by (cases o') (auto simp: execute_set_block_direction_def engine_simps split: option.split)
qed (use assms in \<open>auto simp: simple_executes engine_simps\<close>)

section \<open>The documented state machine\<close>

text \<open>
  Lines 15 to 27 of \<^verbatim>\<open>ml8_system.hpp\<close>; the state of the section after BLP, BLZ and BLA and the
  empty line for BLZ are from \<^verbatim>\<open>ARCHITECTURE.md\<close>.  Neither says what OPS makes of the section.
\<close>

inductive documented_step :: "line_op \<Rightarrow> line_state \<Rightarrow> line_state \<Rightarrow> bool" where
  doc_blw: "documented_step (LineDirection SHL_BLW) (NEUTRAL, b) (OUTBOUND_PENDING, b)"
| doc_blp_out: "documented_step (LineDirection SHL_BLP) (OUTBOUND_PENDING, b) (OUTBOUND, BS_OPEN)"
| doc_blp_in: "documented_step (LineDirection SHL_BLP) (INBOUND_PENDING, b) (INBOUND, BS_OPEN)"
| doc_blo: "documented_step (LineDirection SHL_BLO) (OUTBOUND_PENDING, b) (NEUTRAL, b)"
| doc_blz: "d \<in> {OUTBOUND, INBOUND} \<Longrightarrow> documented_step (LineDirection SHL_BLZ) (d, b) (NEUTRAL, BS_CLOSED)"
| doc_blai: "documented_step (LineDirection SHL_BLAI) (d, b) (DIR_EMERGENCY, b)"
| doc_bla: "documented_step (LineDirection SHL_BLA) (DIR_EMERGENCY, b) (NEUTRAL, BS_CLOSED)"
| doc_ops: "documented_step (LineDirection SHL_OPS) (DIR_EMERGENCY, b) (NEUTRAL, b')"
| doc_sli: "documented_step LineResetInit (NEUTRAL, b) (RESET_PENDING, b)"
| doc_slk: "documented_step LineReset (RESET_PENDING, b) (NEUTRAL, BS_OPEN)"

inductive_simps documented_step_simps:
  "documented_step (LineDirection SHL_BLW) (d, b) y" "documented_step (LineDirection SHL_BLP) (d, b) y"
  "documented_step (LineDirection SHL_BLO) (d, b) y" "documented_step (LineDirection SHL_BLZ) (d, b) y"
  "documented_step (LineDirection SHL_BLAI) (d, b) y" "documented_step (LineDirection SHL_BLA) (d, b) y"
  "documented_step (LineDirection SHL_OPS) (d, b) y" "documented_step LineResetInit (d, b) y"
  "documented_step LineReset (d, b) y"

definition documented_guard :: "BlockSection \<Rightarrow> line_op \<Rightarrow> bool" where
  "documented_guard b op \<longleftrightarrow> (op = LineDirection SHL_BLZ \<or> op = LineResetInit \<longrightarrow> bs_axle_count b = 0)"

text \<open>Where the rules depart from the document: in \<^verbatim>\<open>RESET_PENDING\<close> they refuse BLAI, accept OPS, and
  let SLK wait for a minute and close the section; and SLI does not ask for an empty line.\<close>

definition departs :: "BlockSection \<Rightarrow> line_op \<Rightarrow> bool" where
  "departs b op \<longleftrightarrow>
     bs_direction b = RESET_PENDING \<and> op \<in> {LineDirection SHL_BLAI, LineDirection SHL_OPS, LineReset} \<or>
     bs_direction b = NEUTRAL \<and> bs_axle_count b \<noteq> 0 \<and> op = LineResetInit"

lemma line_step_documented:
  assumes "\<not> departs b op"
  shows "line_step op (bs_direction b, bs_state b) y \<Longrightarrow> documented_step op (bs_direction b, bs_state b) y"
    and "((\<exists>y. line_step op (bs_direction b, bs_state b) y) \<and> line_guard s b op) =
         ((\<exists>y. documented_step op (bs_direction b, bs_state b) y) \<and> documented_guard b op)"
proof -
  show "line_step op (bs_direction b, bs_state b) y \<Longrightarrow> documented_step op (bs_direction b, bs_state b) y"
    by (erule line_step.cases; use assms in \<open>auto simp: departs_def documented_step_simps\<close>)
  have "((\<exists>y. line_step op (bs_direction b, bs_state b) y) \<and> line_guard s b op) =
         ((\<exists>y. documented_step op (bs_direction b, bs_state b) y) \<and> documented_guard b op)"
    if "op = LineDirection o'" for o'
    using assms by (cases o') (auto simp: that departs_def line_guard_def documented_guard_def line_step_simps documented_step_simps)
  moreover have "((\<exists>y. line_step op (bs_direction b, bs_state b) y) \<and> line_guard s b op) =
         ((\<exists>y. documented_step op (bs_direction b, bs_state b) y) \<and> documented_guard b op)"
    if "op \<in> {LineResetInit, LineReset}"
    using assms that by (auto simp: departs_def line_guard_def documented_guard_def line_step_simps documented_step_simps)
  ultimately show "((\<exists>y. line_step op (bs_direction b, bs_state b) y) \<and> line_guard s b op) =
         ((\<exists>y. documented_step op (bs_direction b, bs_state b) y) \<and> documented_guard b op)"
    by (cases op) auto
qed

section \<open>Properties\<close>

text \<open>
  C8.  Rules R8 to R10 implement the state machine of the line: a line command is accepted exactly when
  the machine has a step from the current direction and the line is empty for BLZ or the delay has passed
  for SLK, and carrying it out performs that step on this line only.  Unless the command is one of the four
  in which the rules depart from the documented machine, it is accepted exactly when the documents say so
  and does what they say; in these four the two machines differ as stated.
\<close>

theorem line_rules_refine_state_machine:
  assumes "find_block_section s u = Some b"
    and "s' = apply_all s (snd (ml8_execute_command sys s (line_command op u)))"
  shows "(ml8_check_command s (line_command op u) = None \<longleftrightarrow>
            (\<exists>y. line_step op (bs_direction b, bs_state b) y) \<and> line_guard s b op) \<and>
    (ml8_check_command s (line_command op u) = None \<longrightarrow>
            (\<exists>y. line_step op (bs_direction b, bs_state b) y \<and> line_view s' u = Some y)) \<and>
    (\<forall>v. v \<noteq> u \<longrightarrow> find_block_section s' v = find_block_section s v) \<and>
    (\<not> departs b op \<longrightarrow>
      (ml8_check_command s (line_command op u) = None \<longleftrightarrow>
        (\<exists>y. documented_step op (bs_direction b, bs_state b) y) \<and> documented_guard b op) \<and>
      (ml8_check_command s (line_command op u) = None \<longrightarrow>
        (\<exists>y. documented_step op (bs_direction b, bs_state b) y \<and> line_view s' u = Some y))) \<and>
    (departs b op \<longrightarrow>
      (op = LineDirection SHL_BLAI \<longrightarrow> ml8_check_command s (line_command op u) \<noteq> None) \<and>
      (op \<in> {LineDirection SHL_OPS, LineResetInit} \<longrightarrow> ml8_check_command s (line_command op u) = None) \<and>
      (op = LineReset \<and> ml8_check_command s (line_command op u) = None \<longrightarrow> line_view s' u = Some (NEUTRAL, BS_CLOSED)))"
proof -
  note check = line_check_iff [OF assms(1), of op]
  have exec: "\<exists>y. line_step op (bs_direction b, bs_state b) y \<and> line_view s' u = Some y"
    if "ml8_check_command s (line_command op u) = None"
    using line_execute_step [OF assms(1) that assms(2)] .
  have other: "\<forall>v. v \<noteq> u \<longrightarrow> find_block_section s' v = find_block_section s v"
    using line_execute_other assms(2) by blast
  have doc: "\<not> departs b op \<longrightarrow>
      (ml8_check_command s (line_command op u) = None \<longleftrightarrow>
        (\<exists>y. documented_step op (bs_direction b, bs_state b) y) \<and> documented_guard b op) \<and>
      (ml8_check_command s (line_command op u) = None \<longrightarrow>
        (\<exists>y. documented_step op (bs_direction b, bs_state b) y \<and> line_view s' u = Some y))"
    using exec check line_step_documented(2) [of b op s] line_step_documented(1) by blast
  have differ: "departs b op \<longrightarrow>
      (op = LineDirection SHL_BLAI \<longrightarrow> ml8_check_command s (line_command op u) \<noteq> None) \<and>
      (op \<in> {LineDirection SHL_OPS, LineResetInit} \<longrightarrow> ml8_check_command s (line_command op u) = None) \<and>
      (op = LineReset \<and> ml8_check_command s (line_command op u) = None \<longrightarrow> line_view s' u = Some (NEUTRAL, BS_CLOSED))"
  proof (cases op)
    case (LineDirection o')
    then show ?thesis using check by (cases o') (auto simp: departs_def line_step_simps line_guard_def)
  next
    case LineResetInit
    then show ?thesis using check by (auto simp: departs_def line_step_simps line_guard_def)
  next
    case LineReset
    then show ?thesis using exec by (auto simp: line_step_simps)
  qed
  show ?thesis by (intro conjI check other doc differ impI exec)
qed

theorem line_rules_refine_state_machine_witness:
  "line_view (apply_all sample_station (snd (ml8_execute_command (make_Ml8System 90) sample_station
     (line_command (LineDirection SHL_BLW) 40)))) 40 = Some (OUTBOUND_PENDING, BS_CLOSED)"
proof -
  have find: "find_block_section sample_station 40 = Some (sample_block 40)" by (simp add: sample_find_block)
  have view: "(bs_direction (sample_block 40), bs_state (sample_block 40)) = (NEUTRAL, BS_CLOSED)"
    by (simp add: sample_block_def)
  from line_rules_refine_state_machine [OF find refl, of "LineDirection SHL_BLW" "make_Ml8System 90"]
  show ?thesis
    unfolding view by (auto simp: line_step_simps line_guard_def simp del: line_command.simps ml8_execute_command.simps)
qed

text \<open>
  A line that is only operated through these rules is never open without an established
  direction or an emergency procedure in progress.
\<close>

theorem open_line_has_direction:
  assumes "line_reachable x" and "line_view s u = Some x" and "ml8_check_command s (line_command op u) = None"
    and "s' = apply_all s (snd (ml8_execute_command sys s (line_command op u)))"
  shows "\<exists>y. line_view s' u = Some y \<and> line_reachable y \<and> line_ok y"
proof -
  from assms(2) obtain b where "find_block_section s u = Some b" and x: "x = (bs_direction b, bs_state b)"
    by auto
  from line_execute_step [OF this(1) assms(3,4)] obtain y where
    "line_step op x y" "line_view s' u = Some y" using x by blast
  with line_next [OF assms(1)] line_reachable_ok show ?thesis by blast
qed

theorem open_line_has_direction_witness:
  "\<exists>y. line_view (apply_all sample_station (snd (ml8_execute_command (make_Ml8System 90) sample_station
     (line_command (LineDirection SHL_BLW) 40)))) 40 = Some y \<and> line_ok y"
proof -
  have "line_view sample_station 40 = Some (NEUTRAL, BS_CLOSED)"
    by (simp add: sample_find_block sample_block_def)
  moreover have "ml8_check_command sample_station (line_command (LineDirection SHL_BLW) 40) = None"
    by (simp add: check_set_block_direction_def sample_find_block check_direction_op_def)
      (simp add: sample_block_def)
  ultimately show ?thesis
    using open_line_has_direction [OF line_initial _ _ refl, of sample_station 40] by blast
qed

text \<open>
  The operator command BLP, unlike the rule for BLP, asks for no pending request and no empty
  line: it is accepted for any existing block section, in any direction state and whatever the axle
  count, and opens the line.
\<close>

theorem operator_blp_opens_any_line:
  assumes "find_block_section s u = Some b"
    and "s' = apply_all s (snd (ebilock_execute_command sys s (OperatorCommandCmd u TK_BLOCK_SECTION OC_BLP)))"
  shows "ebilock_check_command s (OperatorCommandCmd u TK_BLOCK_SECTION OC_BLP) = None \<and>
    line_view s' u = Some (if bs_direction b = INBOUND_PENDING then INBOUND else OUTBOUND, BS_OPEN)"
  using assms
  by (simp add: check_operator_command_def target_exists_def execute_operator_command_def
      confirm_direction_def engine_simps)

definition sample_busy_line :: EngineState where
  "sample_busy_line = apply_block_section_axle_count 40 12 sample_station"

theorem operator_blp_opens_any_line_witness:
  "line_view (apply_all sample_busy_line (snd (ebilock_execute_command (make_EbiLockSystem 90) sample_busy_line
     (OperatorCommandCmd 40 TK_BLOCK_SECTION OC_BLP)))) 40 = Some (OUTBOUND, BS_OPEN)"
proof -
  have "find_block_section sample_busy_line 40 = Some ((sample_block 40)\<lparr>bs_axle_count := 12\<rparr>)"
    by (simp add: sample_busy_line_def engine_simps sample_find_block)
  from operator_blp_opens_any_line [OF this refl, of "make_EbiLockSystem 90"] show ?thesis
    by (simp add: sample_block_def del: ebilock_execute_command.simps)
qed

text \<open>
  The axle counter reset keeps its 60 second delay: after SLI at tick \<open>t0\<close>, as long
  as nothing else touches the block section, SLK is accepted exactly from tick \<open>t0 + 1200\<close>
  on.  It returns the line to neutral and closed but leaves the axle count as it was.
\<close>

theorem axle_reset_waits_60_seconds:
  assumes "find_block_section s u = Some b" and "check_init_axle_counter_reset s u = None"
    and "find_block_section t u = find_block_section (apply_all s (execute_init_axle_counter_reset s u)) u"
    and "unat (es_current_tick s) + 1200 < 2 ^ 64"
  shows "(check_reset_axle_counter t u = None \<longleftrightarrow>
            unat (es_current_tick s) + 1200 \<le> unat (es_current_tick t)) \<and>
    map_option bs_axle_count (find_block_section (apply_all t (execute_reset_axle_counter t u)) u)
      = Some (bs_axle_count b)"
proof -
  have t: "find_block_section t u =
      Some (b\<lparr>bs_direction := RESET_PENDING, bs_reset_init_tick := Some (es_current_tick s)\<rparr>)"
    using assms(1,3) by (simp add: execute_init_axle_counter_reset_def engine_simps)
  have "unat (es_current_tick s + 60 * ENGINE_TICKS_PER_SECOND) = unat (es_current_tick s) + 1200"
    using assms(4) by (simp add: ENGINE_TICKS_PER_SECOND_def unat_word_ariths)
  then show ?thesis
    using t by (simp add: check_reset_axle_counter_def execute_reset_axle_counter_def engine_simps
        word_less_nat_alt not_less)
qed

theorem axle_reset_waits_60_seconds_witness:
  "check_reset_axle_counter (set_current_tick 1207
     (apply_all sample_station (execute_init_axle_counter_reset sample_station 40))) 40 = None"
proof -
  have "check_init_axle_counter_reset sample_station 40 = None"
    by (simp add: check_init_axle_counter_reset_def sample_find_block) (simp add: sample_block_def)
  moreover have "es_current_tick sample_station = 7" by (simp add: sample_station_def)
  ultimately show ?thesis
    using axle_reset_waits_60_seconds [of sample_station 40 "sample_block 40"
      "set_current_tick 1207 (apply_all sample_station (execute_init_axle_counter_reset sample_station 40))"]
    by (simp add: sample_find_block engine_simps)
qed

end
