(* ===== verification/Dispatch_Exchange.thy ===== *)
theory Dispatch_Exchange
  imports Types
begin

text \<open>
  The telegram exchange between two dispatch areas,
  \<^verbatim>\<open>server/src/dispatch_exchange_manager.cpp\<close>, and the registry of area owners,
  \<^verbatim>\<open>server/src/ownership_guard.cpp\<close>.  A manager is a record of its map and its
  counter; \<open>submit_telegram\<close> returns the outcome with the updated manager.  The protocol of
  one directed pair of areas is the step relation \<open>exchange_step\<close>, which the code is shown
  to implement.
\<close>

section \<open>Data\<close>

datatype TelegramResult = ACCEPTED | REJECTED_WRONG_STATE | REJECTED_DUPLICATE

record TelegramOutcome =
  to_result :: TelegramResult
  to_new_status :: ExchangeStatus
  to_telegram_status :: TelegramStatus
  to_exchange_id :: string

record ExchangeState =
  xs_exchange_id :: string
  xs_status :: ExchangeStatus
  xs_train_number :: string

type_synonym exchange_key = "string \<times> string"

record DispatchExchangeManager =
  xm_exchanges :: "(exchange_key, ExchangeState) umap"
  xm_next_id :: u64

definition new_exchange_manager :: DispatchExchangeManager where
  "new_exchange_manager = \<lparr>xm_exchanges = [], xm_next_id = 1\<rparr>"

definition default_exchange :: ExchangeState where
  "default_exchange = \<lparr>xs_exchange_id = [], xs_status = EX_IDLE, xs_train_number = []\<rparr>"

fun to_telegram_status :: "TelegramResult \<Rightarrow> TelegramStatus" where
  "to_telegram_status ACCEPTED = CONFIRMED"
| "to_telegram_status REJECTED_WRONG_STATE = REJECTED"
| "to_telegram_status REJECTED_DUPLICATE = REJECTED"

section \<open>Operations\<close>

definition format_exchange_id :: "u64 \<Rightarrow> string" where
  "format_exchange_id n =
    (let digits = nat_to_string (unat n)
     in ''exch-'' @ replicate (7 - length digits) (CHR ''0'') @ digits)"

definition generate_exchange_id :: "DispatchExchangeManager \<Rightarrow> string \<times> DispatchExchangeManager" where
  "generate_exchange_id m = (format_exchange_id (xm_next_id m), m\<lparr>xm_next_id := xm_next_id m + 1\<rparr>)"

definition get_or_create ::
    "exchange_key \<Rightarrow> DispatchExchangeManager \<Rightarrow> ExchangeState \<times> DispatchExchangeManager" where
  "get_or_create key m =
    (case um_find (xm_exchanges m) key of
       Some ex \<Rightarrow> (ex, m)
     | None \<Rightarrow> (default_exchange, m\<lparr>xm_exchanges := um_emplace key default_exchange (xm_exchanges m)\<rparr>))"

definition reject_telegram ::
    "TelegramResult \<Rightarrow> ExchangeState \<Rightarrow> DispatchExchangeManager \<Rightarrow> TelegramOutcome \<times> DispatchExchangeManager" where
  "reject_telegram reason ex m =
     (\<lparr>to_result = reason, to_new_status = xs_status ex, to_telegram_status = to_telegram_status reason,
       to_exchange_id = []\<rparr>, m)"

definition accept_telegram ::
    "exchange_key \<Rightarrow> string \<Rightarrow> ExchangeStatus \<Rightarrow> ExchangeState \<Rightarrow> DispatchExchangeManager \<Rightarrow>
     TelegramOutcome \<times> DispatchExchangeManager" where
  "accept_telegram key train_number new_status ex m =
     (\<lparr>to_result = ACCEPTED, to_new_status = new_status, to_telegram_status = CONFIRMED,
       to_exchange_id = xs_exchange_id ex\<rparr>,
      m\<lparr>xm_exchanges := um_assign key
          (ex\<lparr>xs_status := new_status, xs_train_number := train_number\<rparr>) (xm_exchanges m)\<rparr>)"

definition confirm_telegram ::
    "ExchangeState \<Rightarrow> DispatchExchangeManager \<Rightarrow> TelegramOutcome \<times> DispatchExchangeManager" where
  "confirm_telegram ex m =
     (\<lparr>to_result = ACCEPTED, to_new_status = xs_status ex, to_telegram_status = CONFIRMED,
       to_exchange_id = xs_exchange_id ex\<rparr>, m)"

definition submit_telegram ::
    "string \<Rightarrow> string \<Rightarrow> DispatchFormType \<Rightarrow> TelegramDirection \<Rightarrow> string \<Rightarrow> DispatchExchangeManager \<Rightarrow>
     TelegramOutcome \<times> DispatchExchangeManager" where
  "submit_telegram src_area dst_area form direction train_number m0 =
    (let key = (src_area, dst_area); (ex, m) = get_or_create key m0 in
     if (form = S2 \<or> form = S55) \<and> direction = SENT then
       (if xs_status ex \<in> {EX_IDLE, EX_CLOSED, EX_CANCELLED} then
          (let (eid, m') = generate_exchange_id m
           in accept_telegram key train_number S2_SENT (ex\<lparr>xs_exchange_id := eid\<rparr>) m')
        else if xs_status ex = S2_SENT then reject_telegram REJECTED_DUPLICATE ex m
        else reject_telegram REJECTED_WRONG_STATE ex m)
     else if (form = S24 \<or> form = S56) \<and> direction = RECEIVED then
       (if xs_status ex = S2_SENT then accept_telegram key train_number S24_RECEIVED ex m
        else if xs_status ex = S24_RECEIVED then reject_telegram REJECTED_DUPLICATE ex m
        else reject_telegram REJECTED_WRONG_STATE ex m)
     else if form = S25 \<and> direction = SENT then
       (if xs_status ex = S24_RECEIVED then accept_telegram key train_number S25_SENT ex m
        else reject_telegram REJECTED_WRONG_STATE ex m)
     else if form = S26 \<and> direction = RECEIVED then
       (if xs_status ex = S25_SENT then accept_telegram key train_number S26_RECEIVED ex m
        else reject_telegram REJECTED_WRONG_STATE ex m)
     else if form = S35 \<and> direction = SENT then
       (if xs_status ex = S2_SENT then accept_telegram key train_number EX_CANCELLED ex m
        else reject_telegram REJECTED_WRONG_STATE ex m)
     else if form = S51 \<or> form = S52 then
       (if xs_status ex \<in> {EX_IDLE, EX_CLOSED, EX_CANCELLED} then reject_telegram REJECTED_WRONG_STATE ex m
        else confirm_telegram ex m)
     else if form = S76 then
       (if xs_status ex \<in> {EX_CLOSED, EX_CANCELLED} then reject_telegram REJECTED_WRONG_STATE ex m
        else confirm_telegram ex m)
     else reject_telegram REJECTED_WRONG_STATE ex m)"

definition exchange_status :: "string \<Rightarrow> string \<Rightarrow> DispatchExchangeManager \<Rightarrow> ExchangeStatus" where
  "exchange_status src_area dst_area m =
    (case um_find (xm_exchanges m) (src_area, dst_area) of None \<Rightarrow> EX_IDLE | Some ex \<Rightarrow> xs_status ex)"

definition close_exchange :: "string \<Rightarrow> string \<Rightarrow> DispatchExchangeManager \<Rightarrow> DispatchExchangeManager" where
  "close_exchange src_area dst_area m =
    (case um_find (xm_exchanges m) (src_area, dst_area) of
       None \<Rightarrow> m
     | Some ex \<Rightarrow>
         if xs_status ex = S26_RECEIVED
         then m\<lparr>xm_exchanges := um_modify (src_area, dst_area) (\<lambda>e. e\<lparr>xs_status := EX_CLOSED\<rparr>) (xm_exchanges m)\<rparr>
         else m)"

section \<open>The protocol of one pair of areas\<close>

datatype exchange_event = Request | LineClear | Departure | Arrival | Cancellation | Closing |
  CrossingNotice | FreeMessage

fun event_of :: "DispatchFormType \<Rightarrow> TelegramDirection \<Rightarrow> exchange_event option" where
  "event_of S2 SENT = Some Request"
| "event_of S55 SENT = Some Request"
| "event_of S24 RECEIVED = Some LineClear"
| "event_of S56 RECEIVED = Some LineClear"
| "event_of S25 SENT = Some Departure"
| "event_of S26 RECEIVED = Some Arrival"
| "event_of S35 SENT = Some Cancellation"
| "event_of S51 _ = Some CrossingNotice"
| "event_of S52 _ = Some CrossingNotice"
| "event_of S76 _ = Some FreeMessage"
| "event_of _ _ = None"

inductive exchange_step :: "ExchangeStatus \<Rightarrow> exchange_event \<Rightarrow> ExchangeStatus \<Rightarrow> bool" where
  step_request: "exchange_step st Request S2_SENT" if "st \<in> {EX_IDLE, EX_CLOSED, EX_CANCELLED}"
| step_clear: "exchange_step S2_SENT LineClear S24_RECEIVED"
| step_cancel: "exchange_step S2_SENT Cancellation EX_CANCELLED"
| step_depart: "exchange_step S24_RECEIVED Departure S25_SENT"
| step_arrive: "exchange_step S25_SENT Arrival S26_RECEIVED"
| step_close: "exchange_step S26_RECEIVED Closing EX_CLOSED"
| step_notice: "exchange_step st CrossingNotice st" if "st \<notin> {EX_IDLE, EX_CLOSED, EX_CANCELLED}"
| step_message: "exchange_step st FreeMessage st" if "st \<notin> {EX_CLOSED, EX_CANCELLED}"

text \<open>The events that move the protocol; the others are only answered.\<close>

definition main_event :: "exchange_event \<Rightarrow> bool" where
  "main_event e \<longleftrightarrow> e \<notin> {CrossingNotice, FreeMessage}"

lemma main_event_simps [simp]:
  "\<not> main_event CrossingNotice" "\<not> main_event FreeMessage" "main_event Closing"
  by (simp_all add: main_event_def)

code_pred exchange_step .

inductive_cases exchange_step_to:
  "exchange_step st e S2_SENT" "exchange_step st e S24_RECEIVED" "exchange_step st e S25_SENT"
  "exchange_step st e S26_RECEIVED"

inductive exchange_log :: "ExchangeStatus \<Rightarrow> exchange_event list \<Rightarrow> bool" where
  log_start: "exchange_log EX_IDLE []"
| log_step: "exchange_log st evs \<Longrightarrow> exchange_step st e st' \<Longrightarrow> main_event e \<Longrightarrow>
    exchange_log st' (evs @ [e])"

inductive_cases exchange_log_at:
  "exchange_log S2_SENT evs" "exchange_log S24_RECEIVED evs" "exchange_log S25_SENT evs"
  "exchange_log S26_RECEIVED evs"

lemma exchange_log_sent: "exchange_log S2_SENT evs \<Longrightarrow> \<exists>l. evs = l @ [Request]"
  by (erule exchange_log_at) (auto elim!: exchange_step_to)

lemma exchange_log_clear: "exchange_log S24_RECEIVED evs \<Longrightarrow> \<exists>l. evs = l @ [Request, LineClear]"
  by (erule exchange_log_at) (auto elim!: exchange_step_to dest!: exchange_log_sent)

lemma exchange_log_departed:
  "exchange_log S25_SENT evs \<Longrightarrow> \<exists>l. evs = l @ [Request, LineClear, Departure]"
  by (erule exchange_log_at) (auto elim!: exchange_step_to dest!: exchange_log_clear)

lemma exchange_log_arrived:
  "exchange_log S26_RECEIVED evs \<Longrightarrow> \<exists>l. evs = l @ [Request, LineClear, Departure, Arrival]"
  by (erule exchange_log_at) (auto elim!: exchange_step_to dest!: exchange_log_departed)

section \<open>What a telegram does\<close>

lemma status_get_or_create:
  assumes "get_or_create (a, b) m = (ex, m')"
  shows "xs_status ex = exchange_status a b m" "exchange_status c d m' = exchange_status c d m"
    "um_find (xm_exchanges m') (a, b) = Some ex" "xm_next_id m' = xm_next_id m"
  using assms
  by (cases "um_find (xm_exchanges m) (a, b)";
      auto simp: get_or_create_def exchange_status_def default_exchange_def um_simps split: option.split if_splits)+

lemma accept_simps:
  "to_result (fst (accept_telegram k n st ex m)) = ACCEPTED"
  "to_new_status (fst (accept_telegram k n st ex m)) = st"
  "exchange_status c d (snd (accept_telegram (a, b) n st ex m)) =
     (if (c, d) = (a, b) then st else exchange_status c d m)"
  by (auto simp: accept_telegram_def exchange_status_def um_simps)

lemma reject_simps:
  "to_result (fst (reject_telegram r ex m)) = r" "to_new_status (fst (reject_telegram r ex m)) = xs_status ex"
  "snd (reject_telegram r ex m) = m"
  by (simp_all add: reject_telegram_def)

lemma confirm_simps:
  "to_result (fst (confirm_telegram ex m)) = ACCEPTED" "to_new_status (fst (confirm_telegram ex m)) = xs_status ex"
  "snd (confirm_telegram ex m) = m"
  by (simp_all add: confirm_telegram_def)

lemma status_generate: "exchange_status c d (snd (generate_exchange_id m)) = exchange_status c d m"
  by (simp add: generate_exchange_id_def exchange_status_def)

text \<open>The status of the pair after a telegram, and whether it was accepted.\<close>

definition telegram_target :: "ExchangeStatus \<Rightarrow> exchange_event option \<Rightarrow> ExchangeStatus option" where
  "telegram_target st e =
    (case e of
       Some Request \<Rightarrow> if st \<in> {EX_IDLE, EX_CLOSED, EX_CANCELLED} then Some S2_SENT else None
     | Some LineClear \<Rightarrow> if st = S2_SENT then Some S24_RECEIVED else None
     | Some Departure \<Rightarrow> if st = S24_RECEIVED then Some S25_SENT else None
     | Some Arrival \<Rightarrow> if st = S25_SENT then Some S26_RECEIVED else None
     | Some Cancellation \<Rightarrow> if st = S2_SENT then Some EX_CANCELLED else None
     | Some Closing \<Rightarrow> if st = S26_RECEIVED then Some EX_CLOSED else None
     | Some CrossingNotice \<Rightarrow> if st \<in> {EX_IDLE, EX_CLOSED, EX_CANCELLED} then None else Some st
     | Some FreeMessage \<Rightarrow> if st \<in> {EX_CLOSED, EX_CANCELLED} then None else Some st
     | None \<Rightarrow> None)"

lemma telegram_target_step: "telegram_target st (Some e) = Some st' \<longleftrightarrow> exchange_step st e st'"
  by (cases e) (auto simp: telegram_target_def exchange_step.simps split: if_splits)

lemma submit_telegram_target:
  assumes "submit_telegram a b f d n m = (o', m')"
  shows "(case telegram_target (exchange_status a b m) (event_of f d) of
            Some st \<Rightarrow> to_result o' = ACCEPTED \<and> to_new_status o' = st \<and>
              (\<forall>x y. exchange_status x y m' = (if (x, y) = (a, b) then st else exchange_status x y m))
          | None \<Rightarrow> to_result o' \<noteq> ACCEPTED \<and> to_new_status o' = exchange_status a b m \<and>
              (\<forall>x y. exchange_status x y m' = exchange_status x y m))"
proof -
  obtain ex m1 where g: "get_or_create (a, b) m = (ex, m1)" by (cases "get_or_create (a, b) m")
  note st = status_get_or_create(1,2) [OF g]
  obtain eid m2 where e: "generate_exchange_id m1 = (eid, m2)" by (cases "generate_exchange_id m1")
  have m2: "exchange_status x y m2 = exchange_status x y m" for x y
    using status_generate [of x y m1] e st(2) by simp
  have "o' = fst (submit_telegram a b f d n m)" "m' = snd (submit_telegram a b f d n m)"
    using assms(1) by simp_all
  then show ?thesis
    by (cases f; cases d; cases "exchange_status a b m")
      (simp_all add: submit_telegram_def telegram_target_def Let_def g e st m2
        accept_simps reject_simps confirm_simps)
qed

section \<open>Exchange identifiers\<close>

definition decimal_value :: "string \<Rightarrow> nat" where
  "decimal_value s = foldl (\<lambda>a c. 10 * a + (of_char c - 48)) 0 s"

lemma of_digit_char: "d < 10 \<Longrightarrow> of_char (digit_char d) = 48 + d"
  by (simp add: digit_char_def of_char_of take_bit_eq_mod)

lemma decimal_value_nat: "decimal_value (nat_to_string n) = n"
proof (induction n rule: nat_to_string.induct)
  case (1 n)
  show ?case
  proof (cases "n < 10")
    case True
    then show ?thesis by (subst nat_to_string.simps) (simp add: decimal_value_def of_digit_char)
  next
    case False
    then have "nat_to_string n = nat_to_string (n div 10) @ [digit_char (n mod 10)]"
      by (subst nat_to_string.simps) simp
    moreover have "decimal_value (nat_to_string (n div 10) @ [digit_char (n mod 10)]) =
        10 * decimal_value (nat_to_string (n div 10)) + n mod 10"
      by (simp add: decimal_value_def of_digit_char)
    ultimately show ?thesis using 1 [OF False] by simp
  qed
qed

lemma decimal_value_pad: "decimal_value (replicate k (CHR ''0'') @ s) = decimal_value s"
  by (induction k) (simp_all add: decimal_value_def)

lemma format_exchange_id_inj: "format_exchange_id m = format_exchange_id n \<longleftrightarrow> m = n"
proof
  assume eq: "format_exchange_id m = format_exchange_id n"
  have "decimal_value (drop 5 (format_exchange_id k)) = unat k" for k
    by (simp add: format_exchange_id_def Let_def decimal_value_pad decimal_value_nat)
  with eq show "m = n" by (metis word_unat_eq_iff)
qed simp

section \<open>Runs of the manager\<close>

datatype exchange_op = Telegram string string DispatchFormType TelegramDirection string
  | CloseExchange string string

text \<open>The manager after an operation, and the protocol event the operation recorded, with its pair.\<close>

fun exchange_apply ::
    "exchange_op \<Rightarrow> DispatchExchangeManager \<times> (exchange_key \<times> exchange_event) list \<Rightarrow>
     DispatchExchangeManager \<times> (exchange_key \<times> exchange_event) list" where
  "exchange_apply (Telegram a b f d n) (m, evs) =
    (let (outcome, m') = submit_telegram a b f d n m
     in (m', case event_of f d of
               Some e \<Rightarrow> if to_result outcome = ACCEPTED \<and> main_event e then evs @ [((a, b), e)] else evs
             | None \<Rightarrow> evs))"
| "exchange_apply (CloseExchange a b) (m, evs) =
    (close_exchange a b m, if exchange_status a b m = S26_RECEIVED then evs @ [((a, b), Closing)] else evs)"

definition pair_log :: "exchange_key \<Rightarrow> (exchange_key \<times> exchange_event) list \<Rightarrow> exchange_event list" where
  "pair_log k evs = map snd (filter (\<lambda>x. fst x = k) evs)"

definition logs_match :: "DispatchExchangeManager \<times> (exchange_key \<times> exchange_event) list \<Rightarrow> bool" where
  "logs_match st \<longleftrightarrow> (\<forall>a b. exchange_log (exchange_status a b (fst st)) (pair_log (a, b) (snd st)))"

lemma status_close:
  "exchange_status c d (close_exchange a b m) =
     (if (c, d) = (a, b) \<and> exchange_status a b m = S26_RECEIVED then EX_CLOSED else exchange_status c d m)"
  by (auto simp: close_exchange_def exchange_status_def um_simps split: option.splits)

lemma exchange_apply_matches:
  assumes "logs_match (m, evs)"
  shows "logs_match (exchange_apply op (m, evs))"
proof (cases op)
  case (CloseExchange a b)
  with assms show ?thesis
    by (auto simp: logs_match_def pair_log_def status_close intro!: log_step [OF _ step_close])
      (metis)
next
  case (Telegram a b f d n)
  obtain out m' where sub: "submit_telegram a b f d n m = (out, m')"
    by (cases "submit_telegram a b f d n m")
  note t = submit_telegram_target [OF sub]
  show ?thesis
  proof (cases "telegram_target (exchange_status a b m) (event_of f d)")
    case None
    with t have "exchange_status x y m' = exchange_status x y m" "to_result out \<noteq> ACCEPTED" for x y by simp_all
    with assms sub Telegram show ?thesis by (auto simp: logs_match_def split: option.splits)
  next
    case (Some st)
    then obtain e where e: "event_of f d = Some e" "exchange_step (exchange_status a b m) e st"
      using telegram_target_step by (cases "event_of f d") (auto simp: telegram_target_def [of _ None])
    have same: "st = exchange_status a b m" if "\<not> main_event e"
      using e(2) that by (cases rule: exchange_step.cases) (simp_all add: main_event_def)
    have "exchange_log st (pair_log (a, b) evs @ [e])" if "main_event e"
      using assms e(2) that by (auto simp: logs_match_def intro: log_step)
    with Some t e same assms sub Telegram show ?thesis
      by (cases "main_event e") (auto simp: logs_match_def pair_log_def)
  qed
qed

lemma exchange_run_matches: "logs_match (fold exchange_apply ops (new_exchange_manager, []))"
proof -
  have "logs_match (fold exchange_apply ops st)" if "logs_match st" for st
    using that
  proof (induction ops arbitrary: st)
    case Nil
    then show ?case by simp
  next
    case (Cons op ops)
    then show ?case using exchange_apply_matches [of "fst st" "snd st" op] by simp
  qed
  moreover have "logs_match (new_exchange_manager, [])"
    by (simp add: logs_match_def new_exchange_manager_def exchange_status_def pair_log_def log_start)
  ultimately show ?thesis by blast
qed

section \<open>Ownership of dispatch areas\<close>

type_synonym OwnershipGuard = "(UID, PlayerID) umap"

definition set_owner :: "UID \<Rightarrow> PlayerID \<Rightarrow> OwnershipGuard \<Rightarrow> OwnershipGuard" where
  "set_owner dispatch_area player owners = um_assign dispatch_area player owners"

definition release_owner :: "UID \<Rightarrow> OwnershipGuard \<Rightarrow> OwnershipGuard" where
  "release_owner dispatch_area owners = um_erase dispatch_area owners"

definition release_all :: "PlayerID \<Rightarrow> OwnershipGuard \<Rightarrow> OwnershipGuard" where
  "release_all player owners = filter (\<lambda>p. snd p \<noteq> player) owners"

definition check_owner :: "UID \<Rightarrow> PlayerID \<Rightarrow> OwnershipGuard \<Rightarrow> bool" where
  "check_owner dispatch_area player owners \<longleftrightarrow>
    (case um_find owners dispatch_area of None \<Rightarrow> False | Some p \<Rightarrow> p = player)"

definition get_owner :: "UID \<Rightarrow> OwnershipGuard \<Rightarrow> PlayerID option" where
  "get_owner dispatch_area owners = um_find owners dispatch_area"

lemma um_find_release_all:
  "um_wf owners \<Longrightarrow> um_find (release_all player owners) a =
     (if um_find owners a = Some player then None else um_find owners a)"
proof (induction owners)
  case Nil
  show ?case by (simp add: release_all_def)
next
  case (Cons x owners)
  obtain k v where x: "x = (k, v)" by (cases x)
  with Cons.prems have "um_wf owners" "k \<notin> set (um_keys owners)" by (simp_all add: um_wf_def um_keys_def)
  with Cons.IH x show ?case
    by (auto simp: release_all_def um_find_Cons um_find_None_iff [symmetric])
qed

section \<open>Properties\<close>

text \<open>
  C7.  The manager implements the exchange protocol, notices and free messages included: a form in a
  direction is accepted exactly when it stands for an event of which the protocol has a step from the current
  status, the status of its own pair then follows the step and is otherwise unchanged, and no other pair of
  areas is affected.  A crossing notice needs an exchange under way, so S51 is refused while the pair is idle.
\<close>

theorem submit_telegram_refines_protocol:
  assumes "submit_telegram a b f d n m = (out, m')"
  shows "(to_result out = ACCEPTED \<longleftrightarrow>
      (\<exists>e st. event_of f d = Some e \<and> exchange_step (exchange_status a b m) e st)) \<and>
    to_new_status out = exchange_status a b m' \<and>
    (to_result out = ACCEPTED \<longrightarrow>
      (\<exists>e. event_of f d = Some e \<and> exchange_step (exchange_status a b m) e (exchange_status a b m'))) \<and>
    (to_result out \<noteq> ACCEPTED \<longrightarrow> exchange_status a b m' = exchange_status a b m) \<and>
    (\<forall>x y. (x, y) \<noteq> (a, b) \<longrightarrow> exchange_status x y m' = exchange_status x y m) \<and>
    (exchange_status a b m = EX_IDLE \<and> f \<in> {S51, S52} \<longrightarrow> to_result out = REJECTED_WRONG_STATE)"
proof -
  have idle: "exchange_status a b m = EX_IDLE \<and> f \<in> {S51, S52} \<longrightarrow> to_result out = REJECTED_WRONG_STATE"
    using assms status_get_or_create(1) [of a b m]
    by (cases d; cases "get_or_create (a, b) m") (auto simp: submit_telegram_def reject_telegram_def)
  show ?thesis
  proof (cases "telegram_target (exchange_status a b m) (event_of f d)")
    case None
    then have "\<not> exchange_step (exchange_status a b m) e st" if "event_of f d = Some e" for e st
      using that telegram_target_step [of "exchange_status a b m" e st] by simp
    with submit_telegram_target [OF assms] None idle show ?thesis by auto
  next
    case (Some st)
    then obtain e where "event_of f d = Some e" "exchange_step (exchange_status a b m) e st"
      using telegram_target_step by (cases "event_of f d") (auto simp: telegram_target_def [of _ None])
    with submit_telegram_target [OF assms] Some idle show ?thesis by auto
  qed
qed

theorem submit_telegram_refines_protocol_witness:
  "to_result (fst (submit_telegram ''A'' ''B'' S2 SENT ''4120'' new_exchange_manager)) = ACCEPTED"
proof -
  have "exchange_status ''A'' ''B'' new_exchange_manager = EX_IDLE"
    by (simp add: exchange_status_def new_exchange_manager_def)
  then have "\<exists>st. exchange_step (exchange_status ''A'' ''B'' new_exchange_manager) Request st"
    using step_request by auto
  with submit_telegram_refines_protocol [of "''A''" "''B''" S2 SENT "''4120''" new_exchange_manager]
  show ?thesis
    by (cases "submit_telegram ''A'' ''B'' S2 SENT ''4120'' new_exchange_manager") auto
qed

text \<open>
  C5.  No train departs without line clear: in every run of the manager, while an exchange is at
  S25 the accepted telegrams of its pair end with the request, the line-clear reply and the
  departure notice, in this order and with no cancellation in between.
\<close>

theorem departure_needs_line_clear:
  assumes "(m, evs) = fold exchange_apply ops (new_exchange_manager, [])"
    and "exchange_status a b m = S25_SENT"
  shows "\<exists>l. pair_log (a, b) evs = l @ [Request, LineClear, Departure]"
  using exchange_run_matches [of ops] assms exchange_log_departed
  by (metis logs_match_def fst_conv snd_conv)

definition sample_ops :: "exchange_op list" where
  "sample_ops = [Telegram ''A'' ''B'' S2 SENT ''1'', Telegram ''A'' ''B'' S24 RECEIVED ''1'',
     Telegram ''A'' ''B'' S25 SENT ''1'']"

theorem departure_needs_line_clear_witness:
  "\<exists>l. pair_log (''A'', ''B'') (snd (fold exchange_apply sample_ops (new_exchange_manager, []))) =
     l @ [Request, LineClear, Departure]"
proof (rule departure_needs_line_clear)
  show "(fst (fold exchange_apply sample_ops (new_exchange_manager, [])),
      snd (fold exchange_apply sample_ops (new_exchange_manager, []))) =
      fold exchange_apply sample_ops (new_exchange_manager, [])" by simp
  show "exchange_status ''A'' ''B'' (fst (fold exchange_apply sample_ops (new_exchange_manager, []))) = S25_SENT"
    by (simp add: sample_ops_def submit_telegram_def get_or_create_def new_exchange_manager_def
        default_exchange_def generate_exchange_id_def accept_telegram_def exchange_status_def um_simps Let_def)
qed

text \<open>
  Nothing but \<^verbatim>\<open>close\<close> ends an exchange whose train has arrived: from S26 on
  every further telegram of the pair leaves the status at S26, so that the next request between the
  two areas is refused.
\<close>

theorem arrived_exchange_stays_open:
  assumes "exchange_status a b m = S26_RECEIVED" and "submit_telegram a b f d n m = (out, m')"
  shows "exchange_status a b m' = S26_RECEIVED \<and>
    (event_of f d = Some Request \<longrightarrow> to_result out = REJECTED_WRONG_STATE)"
proof -
  have "telegram_target S26_RECEIVED (event_of f d) \<in> {None, Some S26_RECEIVED}"
    by (cases f; cases d) (auto simp: telegram_target_def)
  moreover have "to_result out = REJECTED_WRONG_STATE" if "event_of f d = Some Request"
    using that assms status_get_or_create(1) [of a b m]
    by (cases f; cases d; cases "get_or_create (a, b) m") (auto simp: submit_telegram_def reject_telegram_def)
  ultimately show ?thesis using submit_telegram_target [OF assms(2)] assms(1) by auto
qed

theorem arrived_exchange_stays_open_witness:
  "to_result (fst (submit_telegram ''A'' ''B'' S2 SENT ''2''
     \<lparr>xm_exchanges = [((''A'', ''B''), \<lparr>xs_exchange_id = ''exch-0000001'', xs_status = S26_RECEIVED,
        xs_train_number = ''1''\<rparr>)], xm_next_id = 2\<rparr>)) = REJECTED_WRONG_STATE"
  using arrived_exchange_stays_open [of "''A''" "''B''" "\<lparr>xm_exchanges = [((''A'', ''B''),
     \<lparr>xs_exchange_id = ''exch-0000001'', xs_status = S26_RECEIVED, xs_train_number = ''1''\<rparr>)], xm_next_id = 2\<rparr>"
     S2 SENT "''2''"]
  by (cases "submit_telegram ''A'' ''B'' S2 SENT ''2'' \<lparr>xm_exchanges = [((''A'', ''B''),
     \<lparr>xs_exchange_id = ''exch-0000001'', xs_status = S26_RECEIVED, xs_train_number = ''1''\<rparr>)], xm_next_id = 2\<rparr>")
    (simp add: exchange_status_def um_find_Cons)

text \<open>
  Exchange identifiers are unique: two requests accepted at different values of the counter
  get different identifiers, the zero padding never makes two of them equal.
\<close>

lemma exchange_ids_distinct:
  "fst (generate_exchange_id m) = fst (generate_exchange_id m') \<longleftrightarrow> xm_next_id m = xm_next_id m'"
  by (simp add: generate_exchange_id_def format_exchange_id_inj)

text \<open>
  An area has at most one owner: \<^verbatim>\<open>check\<close> accepts exactly the player that
  \<^verbatim>\<open>get_owner\<close> reports, the last assignment wins over any earlier owner, and
  releasing a player takes all of that player's areas and no other player's.
\<close>

theorem ownership_is_exclusive:
  assumes "um_wf owners"
  shows "(check_owner a p owners \<and> check_owner a q owners \<longrightarrow> p = q) \<and>
    (check_owner a p owners \<longleftrightarrow> get_owner a owners = Some p) \<and>
    (check_owner a q (set_owner a p owners) \<longleftrightarrow> q = p) \<and>
    (b \<noteq> a \<longrightarrow> get_owner b (set_owner a p owners) = get_owner b owners) \<and>
    \<not> check_owner a q (release_owner a owners) \<and>
    (check_owner a q (release_all p owners) \<longleftrightarrow> q \<noteq> p \<and> check_owner a q owners)"
  using assms
  by (auto simp: check_owner_def get_owner_def set_owner_def release_owner_def um_find_release_all um_simps
      split: option.splits)

theorem ownership_is_exclusive_witness:
  "\<not> check_owner 5 ''p2'' (set_owner 5 ''p1'' [(5, ''p2'')])"
  using ownership_is_exclusive [of "[(5, ''p2'')]" 5 "''p1''" "''p2''"] by (simp add: um_wf_def um_keys_def)

end
