(* ===== verification/Db_Writer.thy ===== *)
theory Db_Writer
  imports Types
begin

text \<open>
  The rows the server stores and the writer that keeps them in memory,
  \<^verbatim>\<open>server/include/server/db_writer.hpp\<close> (\<^verbatim>\<open>NullDbWriter\<close>), the panel writer
  \<^verbatim>\<open>server/src/pip_writer.cpp\<close>, and the pure helpers of the PostgreSQL writer
  \<^verbatim>\<open>server/src/pg_db_writer.cpp\<close>: array literals, the checked weekdays and the text the
  audit hash is taken of.  The JSON printer and the hash function are parameters; the SQL statements
  are in \<open>Pg_Writer\<close>.
\<close>

section \<open>Rows\<close>

record TelegramRow =
  tr_form_type :: string
  tr_exchange_id :: string
  tr_train_number :: string
  tr_from_uid :: u64
  tr_to_uid :: u64
  tr_direction :: string
  tr_status :: string
  tr_track_number :: "string option"
  tr_km_markers :: "string list"
  tr_body :: string
  tr_timestamp_us :: u64

definition empty_telegram_row :: TelegramRow where
  "empty_telegram_row =
     \<lparr>tr_form_type = [], tr_exchange_id = [], tr_train_number = [], tr_from_uid = 0, tr_to_uid = 0,
      tr_direction = [], tr_status = [], tr_track_number = None, tr_km_markers = [], tr_body = [],
      tr_timestamp_us = 0\<rparr>"

record DomainEventRow =
  der_event_type :: u8
  der_event_id :: u32
  der_timestamp_us :: u64
  der_object_uid :: "u64 option"
  der_payload :: "u8 list"

record EdrJournalEntryRow =
  ej_operating_point_id :: string
  ej_station_uid :: u64
  ej_journal_page :: string
  ej_entry_type :: string
  ej_train_number :: "string option"
  ej_direction :: "string option"
  ej_track_number :: "string option"
  ej_scheduled_arrival_secs :: "string option"
  ej_scheduled_departure_secs :: "string option"
  ej_actual_arrival_secs :: "string option"
  ej_actual_departure_secs :: "string option"
  ej_body :: string
  ej_notes :: "string option"
  ej_timestamp_us :: u64

record EdrUpdate =
  eu_train_number :: string
  eu_station_uid :: u64
  eu_timestamp_us :: u64

record TimetableUpsert =
  tu_train_number :: string
  tu_station_uid :: u64
  tu_operating_point_id :: "string option"
  tu_scheduled_arrival_secs :: "string option"
  tu_scheduled_departure_secs :: string
  tu_track_number :: "string option"
  tu_stop_type :: string
  tu_operating_days :: "int list"

record ChatMessage =
  cm_sender_id :: string
  cm_target_type :: string
  cm_target_id :: "string option"
  cm_body :: string
  cm_timestamp_us :: int

section \<open>The in-memory writer\<close>

record NullDbWriter =
  seeded_operating_days :: "int list"
  written_telegrams :: "TelegramRow list"
  written_events :: "DomainEventRow list"
  edr_updates :: "EdrUpdate list"
  edr_departures :: "EdrUpdate list"
  edr_arrivals :: "EdrUpdate list"
  pip_upserts :: "(u64 \<times> string) list"
  saved_snapshots :: "(int \<times> int \<times> u8 list) list"
  chat_messages :: "ChatMessage list"
  op_assignments :: "(string \<times> string \<times> string) list"
  op_releases :: "(string \<times> string) list"
  timetable_upserts :: "TimetableUpsert list"
  edr_journal_entries :: "EdrJournalEntryRow list"
  edr_journal_status_updates :: "(int \<times> string \<times> string option) list"

definition new_db_writer :: NullDbWriter where
  "new_db_writer =
     \<lparr>seeded_operating_days = [], written_telegrams = [], written_events = [], edr_updates = [],
      edr_departures = [], edr_arrivals = [], pip_upserts = [], saved_snapshots = [], chat_messages = [],
      op_assignments = [], op_releases = [], timetable_upserts = [], edr_journal_entries = [],
      edr_journal_status_updates = []\<rparr>"

definition init_session :: "string \<Rightarrow> int \<Rightarrow> NullDbWriter \<Rightarrow> string \<times> NullDbWriter" where
  "init_session display_name schema_version db = (''00000000-0000-0000-0000-000000000001'', db)"

definition seed_edr_entries_for_operating_day :: "int \<Rightarrow> NullDbWriter \<Rightarrow> int \<times> NullDbWriter" where
  "seed_edr_entries_for_operating_day iso_weekday db =
     (0, db\<lparr>seeded_operating_days := seeded_operating_days db @ [iso_weekday]\<rparr>)"

definition write_dispatch_telegram :: "TelegramRow \<Rightarrow> NullDbWriter \<Rightarrow> NullDbWriter" where
  "write_dispatch_telegram row db = db\<lparr>written_telegrams := written_telegrams db @ [row]\<rparr>"

definition write_domain_event :: "DomainEventRow \<Rightarrow> NullDbWriter \<Rightarrow> NullDbWriter" where
  "write_domain_event row db = db\<lparr>written_events := written_events db @ [row]\<rparr>"

definition update_edr_track_clear_time :: "string \<Rightarrow> u64 \<Rightarrow> u64 \<Rightarrow> NullDbWriter \<Rightarrow> NullDbWriter" where
  "update_edr_track_clear_time train_number station_uid timestamp_us db =
     db\<lparr>edr_updates := edr_updates db @ [\<lparr>eu_train_number = train_number, eu_station_uid = station_uid,
        eu_timestamp_us = timestamp_us\<rparr>]\<rparr>"

definition update_edr_departure :: "string \<Rightarrow> u64 \<Rightarrow> u64 \<Rightarrow> NullDbWriter \<Rightarrow> NullDbWriter" where
  "update_edr_departure train_number station_uid timestamp_us db =
     db\<lparr>edr_departures := edr_departures db @ [\<lparr>eu_train_number = train_number, eu_station_uid = station_uid,
        eu_timestamp_us = timestamp_us\<rparr>]\<rparr>"

definition update_edr_arrival :: "string \<Rightarrow> u64 \<Rightarrow> u64 \<Rightarrow> NullDbWriter \<Rightarrow> NullDbWriter" where
  "update_edr_arrival train_number station_uid timestamp_us db =
     db\<lparr>edr_arrivals := edr_arrivals db @ [\<lparr>eu_train_number = train_number, eu_station_uid = station_uid,
        eu_timestamp_us = timestamp_us\<rparr>]\<rparr>"

definition append_edr_journal_entry :: "EdrJournalEntryRow \<Rightarrow> NullDbWriter \<Rightarrow> int \<times> NullDbWriter" where
  "append_edr_journal_entry row db =
     (let entries = edr_journal_entries db @ [row]
      in (int (length entries), db\<lparr>edr_journal_entries := entries\<rparr>))"

definition update_edr_journal_entry_status ::
    "int \<Rightarrow> string \<Rightarrow> string option \<Rightarrow> NullDbWriter \<Rightarrow> NullDbWriter" where
  "update_edr_journal_entry_status entry_id status notes db =
     db\<lparr>edr_journal_status_updates := edr_journal_status_updates db @ [(entry_id, status, notes)]\<rparr>"

definition upsert_pip_track_state :: "u64 \<Rightarrow> string \<Rightarrow> NullDbWriter \<Rightarrow> NullDbWriter" where
  "upsert_pip_track_state section_uid trains_json db =
     db\<lparr>pip_upserts := pip_upserts db @ [(section_uid, trains_json)]\<rparr>"

definition save_snapshot :: "int \<Rightarrow> int \<Rightarrow> u8 list \<Rightarrow> NullDbWriter \<Rightarrow> NullDbWriter" where
  "save_snapshot seq_cursor timestamp_us payload db =
     db\<lparr>saved_snapshots := saved_snapshots db @ [(seq_cursor, timestamp_us, payload)]\<rparr>"

definition append_chat_message ::
    "string \<Rightarrow> string \<Rightarrow> string option \<Rightarrow> string \<Rightarrow> int \<Rightarrow> NullDbWriter \<Rightarrow> NullDbWriter" where
  "append_chat_message sender_id target_type target_id body timestamp_us db =
     db\<lparr>chat_messages := chat_messages db @ [\<lparr>cm_sender_id = sender_id, cm_target_type = target_type,
        cm_target_id = target_id, cm_body = body, cm_timestamp_us = timestamp_us\<rparr>]\<rparr>"

definition assign_operating_point :: "string \<Rightarrow> string \<Rightarrow> string \<Rightarrow> NullDbWriter \<Rightarrow> int \<times> NullDbWriter" where
  "assign_operating_point operating_point_id station_sid client_id db =
     (let assignments = op_assignments db @ [(operating_point_id, station_sid, client_id)]
      in (int (length assignments), db\<lparr>op_assignments := assignments\<rparr>))"

definition release_operating_point :: "string \<Rightarrow> string \<Rightarrow> NullDbWriter \<Rightarrow> NullDbWriter" where
  "release_operating_point operating_point_id client_id db =
     db\<lparr>op_releases := op_releases db @ [(operating_point_id, client_id)]\<rparr>"

definition upsert_timetable_template :: "TimetableUpsert \<Rightarrow> NullDbWriter \<Rightarrow> NullDbWriter" where
  "upsert_timetable_template row db = db\<lparr>timetable_upserts := timetable_upserts db @ [row]\<rparr>"

section \<open>The panel writer\<close>

datatype JsonValue = JString string | JBool bool | JArray "JsonValue list" | JObject "(string \<times> JsonValue) list"

definition slot_json :: "TrainSlot \<Rightarrow> JsonValue" where
  "slot_json slot =
     JObject [(''number'', JString (slot_number slot)), (''has_extra_info'', JBool (slot_has_extra_info slot)),
              (''manually_placed'', JBool (slot_manually_placed slot)),
              (''entry_side'', JString (if slot_entry_side slot = SIDE_LEFT then ''LEFT'' else ''RIGHT''))]"

definition on_pip_event :: "(JsonValue \<Rightarrow> string) \<Rightarrow> PipEvent \<Rightarrow> NullDbWriter \<Rightarrow> NullDbWriter" where
  "on_pip_event dump ev db =
    (let trains_json =
           (case (pip_occupancy ev, pip_slot ev) of
              (OCCUPIED, Some slot) \<Rightarrow> dump (JArray [slot_json slot])
            | _ \<Rightarrow> ''[]'')
     in upsert_pip_track_state (pip_section_uid ev) trains_json db)"

definition on_pip_events :: "(JsonValue \<Rightarrow> string) \<Rightarrow> PipEvent list \<Rightarrow> NullDbWriter \<Rightarrow> NullDbWriter" where
  "on_pip_events dump events db = fold (on_pip_event dump) events db"

section \<open>Helpers of the PostgreSQL writer\<close>

datatype pg_error = PgError string

fun join_with :: "char \<Rightarrow> string list \<Rightarrow> string" where
  "join_with c [] = []"
| "join_with c [s] = s"
| "join_with c (s # ss) = s @ c # join_with c ss"

definition pg_smallint_array_literal :: "int list \<Rightarrow> string" where
  "pg_smallint_array_literal values = ''{'' @ join_with (CHR '','') (map int_to_string values) @ ''}''"

definition km_escape :: "string \<Rightarrow> string" where
  "km_escape s = concat (map (\<lambda>c. if c = CHR ''\"'' \<or> c = CHR 0x5C then [CHR 0x5C, c] else [c]) s)"

definition km_array_literal :: "string list \<Rightarrow> string" where
  "km_array_literal km_markers =
     ''{'' @ join_with (CHR '','') (map (\<lambda>s. CHR ''\"'' # km_escape s @ [CHR ''\"'']) km_markers) @ ''}''"

definition check_iso_weekday :: "int \<Rightarrow> pg_error + unit" where
  "check_iso_weekday iso_weekday =
     (if iso_weekday < 1 \<or> iso_weekday > 7 then Inl (PgError ''[PgDbWriter] invalid ISO weekday; expected 1..7'')
      else Inr ())"

definition check_operating_days :: "int list \<Rightarrow> pg_error + unit" where
  "check_operating_days operating_days =
     (if operating_days = [] then Inl (PgError ''[PgDbWriter] operating_days must not be empty'')
      else if list_ex (\<lambda>day. day < 1 \<or> day > 7) operating_days
      then Inl (PgError ''[PgDbWriter] operating_days values must be in range 1..7'')
      else Inr ())"

definition bytes_of_string :: "string \<Rightarrow> u8 list" where
  "bytes_of_string s = map of_char s"

text \<open>The bytes the audit hash of an event is computed of.\<close>

definition audit_input :: "string \<Rightarrow> int \<Rightarrow> int \<Rightarrow> u8 list \<Rightarrow> u8 list" where
  "audit_input session_id event_id timestamp_us payload =
     bytes_of_string (session_id @ ''|'' @ int_to_string event_id @ ''|'' @ int_to_string timestamp_us @ ''|'') @ payload"

section \<open>What the panel table holds\<close>

text \<open>The table keeps the last value written per section.\<close>

definition pip_table :: "NullDbWriter \<Rightarrow> u64 \<Rightarrow> string option" where
  "pip_table db section_uid = map_of (rev (pip_upserts db)) section_uid"

section \<open>Reading an array literal\<close>

text \<open>The text PostgreSQL reads between the quotes of an array element.\<close>

fun km_unescape :: "string \<Rightarrow> string \<times> string" where
  "km_unescape (c # s) =
     (if c = CHR ''\"'' then ([], s)
      else if c = CHR 0x5C then (case s of d # s' \<Rightarrow> apfst ((#) d) (km_unescape s') | [] \<Rightarrow> ([], []))
      else apfst ((#) c) (km_unescape s))"
| "km_unescape [] = ([], [])"

lemma km_unescape_escape: "km_unescape (km_escape s @ CHR ''\"'' # rest) = (s, rest)"
  by (induction s) (auto simp: km_escape_def)

end
