(* ===== verification/Dispatch_Coordinator.thy ===== *)
theory Dispatch_Coordinator
  imports Dispatch_Exchange Db_Writer
begin

text \<open>
  The handling of a telegram behind the wire: the exchange state machine is driven, the telegram is
  stored, and the electronic train register is updated
  (\<^verbatim>\<open>server/src/dispatch_coordinator.cpp\<close>,
  \<^verbatim>\<open>server/src/edr_coordinator.cpp\<close>).  Area identifiers are the decimal texts of
  their UIDs; \<^verbatim>\<open>std::stoull\<close> is modelled with its two exceptions.
\<close>

section \<open>Numbers from text\<close>

datatype stoull_error = InvalidArgument | OutOfRange

definition is_space :: "char \<Rightarrow> bool" where
  "is_space c \<longleftrightarrow> c = CHR '' '' \<or> (9 \<le> (of_char c :: nat) \<and> (of_char c :: nat) \<le> 13)"

definition is_digit :: "char \<Rightarrow> bool" where
  "is_digit c \<longleftrightarrow> 48 \<le> (of_char c :: nat) \<and> (of_char c :: nat) \<le> 57"

definition stoull :: "string \<Rightarrow> stoull_error + u64" where
  "stoull str =
    (let s = dropWhile is_space str;
         negative = (s \<noteq> [] \<and> hd s = CHR ''-'');
         t = (if s \<noteq> [] \<and> (hd s = CHR ''-'' \<or> hd s = CHR ''+'') then tl s else s);
         digits = takeWhile is_digit t;
         value = decimal_value digits
     in if digits = [] then Inl InvalidArgument
        else if 2 ^ 64 \<le> value then Inl OutOfRange
        else Inr (if negative then - word_of_nat value else word_of_nat value))"

section \<open>The coordinator\<close>

fun form_type_str :: "DispatchFormType \<Rightarrow> string" where
  "form_type_str S2 = ''S2''"
| "form_type_str S24 = ''S24''"
| "form_type_str S25 = ''S25''"
| "form_type_str S26 = ''S26''"
| "form_type_str S35 = ''S35''"
| "form_type_str S51 = ''S51''"
| "form_type_str S52 = ''S52''"
| "form_type_str S55 = ''S55''"
| "form_type_str S56 = ''S56''"
| "form_type_str S76 = ''S76''"

record DispatchOutcome =
  do_exchange_id :: string
  do_new_status :: ExchangeStatus

record DispatchCoordinator =
  dc_exchanges :: DispatchExchangeManager
  dc_db :: NullDbWriter

definition on_telegram_accepted ::
    "DispatchFormType \<Rightarrow> TelegramDirection \<Rightarrow> string \<Rightarrow> string \<Rightarrow> string \<Rightarrow> u64 \<Rightarrow> NullDbWriter \<Rightarrow>
     stoull_error + NullDbWriter" where
  "on_telegram_accepted form direction src_area dst_area train_number timestamp_us db =
    (let station_str = (if direction = SENT then src_area else dst_area) in
     case stoull station_str of
       Inl err \<Rightarrow> Inl err
     | Inr station_uid \<Rightarrow>
         Inr (if form = S25 then update_edr_departure train_number station_uid timestamp_us db
              else if form = S26 then update_edr_arrival train_number station_uid timestamp_us db
              else db))"

definition telegram_row ::
    "DispatchFormType \<Rightarrow> TelegramDirection \<Rightarrow> TelegramOutcome \<Rightarrow> u64 \<Rightarrow> u64 \<Rightarrow> string \<Rightarrow> string option \<Rightarrow>
     string list \<Rightarrow> u64 \<Rightarrow> TelegramRow" where
  "telegram_row form direction outcome from_uid to_uid train_number track_number km_markers timestamp_us =
     \<lparr>tr_form_type = form_type_str form, tr_exchange_id = to_exchange_id outcome,
      tr_train_number = train_number, tr_from_uid = from_uid, tr_to_uid = to_uid,
      tr_direction = (if direction = SENT then ''SENT'' else ''RECEIVED''),
      tr_status = (if to_result outcome \<noteq> ACCEPTED then ''REJECTED_STRICT_POLICY'' else ''ACCEPTED''),
      tr_track_number = track_number, tr_km_markers = km_markers, tr_body = [], tr_timestamp_us = timestamp_us\<rparr>"

text \<open>The result with the coordinator after the call, also when an exception leaves it.\<close>

definition handle_dispatch_form ::
    "DispatchFormType \<Rightarrow> TelegramDirection \<Rightarrow> string \<Rightarrow> string \<Rightarrow> string \<Rightarrow> string option \<Rightarrow> string list \<Rightarrow>
     u64 \<Rightarrow> DispatchCoordinator \<Rightarrow> (stoull_error + DispatchOutcome option) \<times> DispatchCoordinator" where
  "handle_dispatch_form form direction src_area dst_area train_number track_number km_markers timestamp_us c =
    (let (outcome, exchanges) = submit_telegram src_area dst_area form direction train_number (dc_exchanges c);
         c1 = c\<lparr>dc_exchanges := exchanges\<rparr>
     in case (stoull src_area, stoull dst_area) of
       (Inr from_uid, Inr to_uid) \<Rightarrow>
         (let row = telegram_row form direction outcome from_uid to_uid train_number track_number km_markers timestamp_us;
              c2 = c1\<lparr>dc_db := write_dispatch_telegram row (dc_db c1)\<rparr>
          in if to_result outcome \<noteq> ACCEPTED then (Inr None, c2)
             else let c3 = (if form = S24 \<or> form = S56
                            then c2\<lparr>dc_db := update_edr_track_clear_time train_number to_uid timestamp_us (dc_db c2)\<rparr>
                            else c2)
                  in case on_telegram_accepted form direction src_area dst_area train_number timestamp_us (dc_db c3) of
                       Inl err \<Rightarrow> (Inl err, c3)
                     | Inr db \<Rightarrow>
                         (Inr (Some \<lparr>do_exchange_id = to_exchange_id outcome, do_new_status = to_new_status outcome\<rparr>),
                          c3\<lparr>dc_db := db\<rparr>))
     | (Inl err, _) \<Rightarrow> (Inl err, c1)
     | (_, Inl err) \<Rightarrow> (Inl err, c1))"

definition handle_free_text ::
    "string \<Rightarrow> string \<Rightarrow> string \<Rightarrow> u64 \<Rightarrow> DispatchCoordinator \<Rightarrow> (stoull_error + unit) \<times> DispatchCoordinator" where
  "handle_free_text src_area dst_area body timestamp_us c =
    (case (stoull src_area, stoull dst_area) of
       (Inr from_uid, Inr to_uid) \<Rightarrow>
         (Inr (), c\<lparr>dc_db := write_dispatch_telegram
            (empty_telegram_row\<lparr>tr_form_type := ''FREE_TEXT'', tr_from_uid := from_uid, tr_to_uid := to_uid,
               tr_direction := ''SENT'', tr_status := ''ACCEPTED'', tr_body := body, tr_timestamp_us := timestamp_us\<rparr>)
            (dc_db c)\<rparr>)
     | (Inl err, _) \<Rightarrow> (Inl err, c)
     | (_, Inl err) \<Rightarrow> (Inl err, c))"

section \<open>Area identifiers\<close>

lemma digit_char_is_digit: "d < 10 \<Longrightarrow> is_digit (digit_char d)"
  by (simp add: is_digit_def of_digit_char)

lemma nat_to_string_digits: "list_all is_digit (nat_to_string n)"
proof (induction n rule: nat_to_string.induct)
  case (1 n)
  then show ?case by (subst nat_to_string.simps) (simp add: digit_char_is_digit)
qed

lemma digit_not_special: "is_digit c \<Longrightarrow> \<not> is_space c \<and> c \<noteq> CHR ''-'' \<and> c \<noteq> CHR ''+''"
  by (auto simp: is_digit_def is_space_def)

lemma stoull_u64_to_string [simp]: "stoull (u64_to_string u) = Inr u"
proof -
  let ?s = "u64_to_string u"
  have digits: "list_all is_digit ?s" and ne: "?s \<noteq> []"
    by (simp_all add: u64_to_string_def nat_to_string_digits nat_to_string_nonempty)
  then have "is_digit (hd ?s)" by (cases ?s) simp_all
  then have hd: "\<not> is_space (hd ?s)" "hd ?s \<noteq> CHR ''-''" "hd ?s \<noteq> CHR ''+''" by (auto dest: digit_not_special)
  have dw: "dropWhile is_space ?s = ?s" using hd(1) ne by (cases ?s) simp_all
  have tw: "takeWhile is_digit ?s = ?s" using digits by (simp add: list_all_iff takeWhile_eq_all_conv)
  have dec: "decimal_value ?s = unat u" by (simp add: u64_to_string_def decimal_value_nat)
  have fits: "\<not> 18446744073709551616 \<le> unat u" using unsigned_less [of u, where 'a = nat] by (simp add: not_le)
  show ?thesis by (simp add: stoull_def Let_def dw tw dec fits hd ne)
qed

lemma stoull_exchange_id: "stoull (format_exchange_id n) = Inl InvalidArgument"
  by (simp add: stoull_def format_exchange_id_def Let_def is_space_def is_digit_def)

lemma form_type_str_inj: "form_type_str f = form_type_str f' \<longleftrightarrow> f = f'"
  by (cases f; cases f'; simp)

section \<open>What a telegram stores\<close>

lemma handle_dispatch_form_areas:
  "handle_dispatch_form form d (u64_to_string a) (u64_to_string b) n trk km ts c =
    (let (outcome, exchanges) = submit_telegram (u64_to_string a) (u64_to_string b) form d n (dc_exchanges c);
         row = telegram_row form d outcome a b n trk km ts;
         db = write_dispatch_telegram row (dc_db c)
     in if to_result outcome \<noteq> ACCEPTED then (Inr None, c\<lparr>dc_exchanges := exchanges, dc_db := db\<rparr>)
        else let db1 = (if form = S24 \<or> form = S56 then update_edr_track_clear_time n b ts db else db);
                 db2 = (if form = S25 then update_edr_departure n (if d = SENT then a else b) ts db1
                        else if form = S26 then update_edr_arrival n (if d = SENT then a else b) ts db1 else db1)
             in (Inr (Some \<lparr>do_exchange_id = to_exchange_id outcome, do_new_status = to_new_status outcome\<rparr>),
                 c\<lparr>dc_exchanges := exchanges, dc_db := db2\<rparr>))"
  by (cases "submit_telegram (u64_to_string a) (u64_to_string b) form d n (dc_exchanges c)")
    (simp add: handle_dispatch_form_def on_telegram_accepted_def Let_def)

section \<open>Properties\<close>

text \<open>
  Every telegram between two areas is stored exactly once, with its form, direction and areas and
  the verdict of the exchange protocol; a departure or an arrival is entered in the train register
  only for an accepted S25 or S26, and no other row of the writer changes.
\<close>

theorem telegram_is_recorded:
  assumes "handle_dispatch_form form d (u64_to_string a) (u64_to_string b) n trk km ts c = (result, c')"
    and "submit_telegram (u64_to_string a) (u64_to_string b) form d n (dc_exchanges c) = (outcome, exchanges)"
  shows "dc_exchanges c' = exchanges \<and>
    written_telegrams (dc_db c') =
      written_telegrams (dc_db c) @ [telegram_row form d outcome a b n trk km ts] \<and>
    edr_departures (dc_db c') = edr_departures (dc_db c) @
      (if form = S25 \<and> to_result outcome = ACCEPTED
       then [\<lparr>eu_train_number = n, eu_station_uid = (if d = SENT then a else b), eu_timestamp_us = ts\<rparr>] else []) \<and>
    edr_arrivals (dc_db c') = edr_arrivals (dc_db c) @
      (if form = S26 \<and> to_result outcome = ACCEPTED
       then [\<lparr>eu_train_number = n, eu_station_uid = (if d = SENT then a else b), eu_timestamp_us = ts\<rparr>] else []) \<and>
    edr_updates (dc_db c') = edr_updates (dc_db c) @
      (if (form = S24 \<or> form = S56) \<and> to_result outcome = ACCEPTED
       then [\<lparr>eu_train_number = n, eu_station_uid = b, eu_timestamp_us = ts\<rparr>] else []) \<and>
    result = Inr (if to_result outcome = ACCEPTED
       then Some \<lparr>do_exchange_id = to_exchange_id outcome, do_new_status = to_new_status outcome\<rparr> else None)"
  using assms
  by (auto simp: handle_dispatch_form_areas Let_def write_dispatch_telegram_def update_edr_track_clear_time_def
      update_edr_departure_def update_edr_arrival_def split: if_splits)

definition sample_coordinator :: DispatchCoordinator where
  "sample_coordinator = \<lparr>dc_exchanges = new_exchange_manager, dc_db = new_db_writer\<rparr>"

theorem telegram_is_recorded_witness:
  "length (written_telegrams (dc_db (snd (handle_dispatch_form S25 SENT (u64_to_string 1) (u64_to_string 2)
     ''7001'' None [] 5 sample_coordinator)))) = 1"
proof -
  obtain r c' where h: "handle_dispatch_form S25 SENT (u64_to_string 1) (u64_to_string 2) ''7001'' None [] 5 sample_coordinator = (r, c')"
    by (cases "handle_dispatch_form S25 SENT (u64_to_string 1) (u64_to_string 2) ''7001'' None [] 5 sample_coordinator")
  obtain o' x where s: "submit_telegram (u64_to_string 1) (u64_to_string 2) S25 SENT ''7001'' (dc_exchanges sample_coordinator) = (o', x)"
    by (cases "submit_telegram (u64_to_string 1) (u64_to_string 2) S25 SENT ''7001'' (dc_exchanges sample_coordinator)")
  from telegram_is_recorded [OF h s] h show ?thesis by (simp add: sample_coordinator_def new_db_writer_def)
qed

text \<open>
  A departure is entered in the train register only after the neighbour has given line clear:
  the exchange of the two areas stood at S24 and stands at S25 afterwards.
\<close>

theorem departure_entry_needs_line_clear:
  assumes "handle_dispatch_form form d (u64_to_string a) (u64_to_string b) n trk km ts c = (result, c')"
    and "edr_departures (dc_db c') \<noteq> edr_departures (dc_db c)"
  shows "exchange_status (u64_to_string a) (u64_to_string b) (dc_exchanges c) = S24_RECEIVED \<and>
    exchange_status (u64_to_string a) (u64_to_string b) (dc_exchanges c') = S25_SENT \<and> d = SENT"
proof -
  obtain outcome exchanges where s:
    "submit_telegram (u64_to_string a) (u64_to_string b) form d n (dc_exchanges c) = (outcome, exchanges)"
    by (cases "submit_telegram (u64_to_string a) (u64_to_string b) form d n (dc_exchanges c)")
  have rec: "dc_exchanges c' = exchanges" "form = S25 \<and> to_result outcome = ACCEPTED"
    using assms s by (auto simp: handle_dispatch_form_areas Let_def write_dispatch_telegram_def
      update_edr_track_clear_time_def update_edr_departure_def update_edr_arrival_def split: if_splits)
  from submit_telegram_target [OF s] rec show ?thesis
    by (cases d; cases "exchange_status (u64_to_string a) (u64_to_string b) (dc_exchanges c)")
      (simp_all add: telegram_target_def)
qed

definition line_clear_coordinator :: DispatchCoordinator where
  "line_clear_coordinator = sample_coordinator\<lparr>dc_exchanges := \<lparr>xm_exchanges =
     [((u64_to_string 1, u64_to_string 2), \<lparr>xs_exchange_id = ''e'', xs_status = S24_RECEIVED, xs_train_number = ''7001''\<rparr>)],
     xm_next_id = 2\<rparr>\<rparr>"

theorem departure_entry_needs_line_clear_witness:
  "exchange_status (u64_to_string 1) (u64_to_string 2)
     (dc_exchanges (snd (handle_dispatch_form S25 SENT (u64_to_string 1) (u64_to_string 2) ''7001'' None [] 5
        line_clear_coordinator))) = S25_SENT"
proof -
  obtain r c' where h: "handle_dispatch_form S25 SENT (u64_to_string 1) (u64_to_string 2) ''7001'' None [] 5 line_clear_coordinator = (r, c')"
    by (cases "handle_dispatch_form S25 SENT (u64_to_string 1) (u64_to_string 2) ''7001'' None [] 5 line_clear_coordinator")
  then have "edr_departures (dc_db c') \<noteq> edr_departures (dc_db line_clear_coordinator)"
    by (auto simp: handle_dispatch_form_areas line_clear_coordinator_def sample_coordinator_def Let_def submit_telegram_def
        get_or_create_def um_find_def accept_telegram_def update_edr_departure_def write_dispatch_telegram_def new_db_writer_def)
  from departure_entry_needs_line_clear [OF h this] h show ?thesis by simp
qed

end
