(* ===== verification/Route_Cancellation.thy ===== *)
theory Route_Cancellation
  imports Interlocking_Safety
begin

text \<open>
  Cancelling a route and the route requests the interlocking should have refused: what a
  cancellation releases and what it leaves locked, the flank switch no check looks at, the route
  between the two legs of one switch, and the ML8 command that throws a locked switch.
\<close>

section \<open>A station with one route set\<close>

definition sample_route_uid :: UID where
  "sample_route_uid = make_route_uid 21 22 7"

definition sample_routed :: EngineState where
  "sample_routed = apply_all sample_station (execute_request_route sample_station 21 22 7 kPolicies)"

lemma sample_request_changes:
  "execute_request_route sample_station 21 22 7 kPolicies =
     [SwitchLocked 10 sample_route_uid,
      DerailerStateChange 30 UNLOCKED CAUSE_AUTO (Some sample_route_uid),
      SignalAspectChange 21 S2_PROCEED CAUSE_AUTO (Some sample_route_uid),
      RouteAdded \<lparr>rt_uid = sample_route_uid, rt_from_signal_uid = 21, rt_to_signal_uid = 22,
        rt_section_uids = [1, 2], rt_switch_uids = [10], rt_derailer_uids = [30],
        rt_created_tick = 7, rt_train_entered = False, rt_overlap_release_tick = None\<rparr>]"
  by (simp add: execute_request_route_def sample_path_21_22 sample_route_uid_def Let_def
      set_route_switch_def set_route_derailer_def sample_find_switch sample_find_derailer
      sample_node_def sample_switch_def sample_derailer_def route_state_of_def)

lemma routed_find_switch:
  "find_switch sample_routed 10 =
     Some ((sample_switch 10 1 2 3)\<lparr>sw_locked_by_route_uid := Some sample_route_uid\<rparr>)"
  by (simp add: sample_routed_def sample_request_changes engine_simps sample_find_switch)

lemma routed_find_signal:
  "find_signal sample_routed 21 =
     Some ((sample_signal 21 1)\<lparr>sig_current_aspect := S2_PROCEED,
             sig_locked_by_route_uid := Some sample_route_uid\<rparr>)"
  "find_signal sample_routed 22 = Some (sample_signal 22 2)"
  by (simp_all add: sample_routed_def sample_request_changes engine_simps sample_find_signal)

lemma routed_find_derailer:
  "find_derailer sample_routed 30 =
     Some ((sample_derailer 30 2)\<lparr>dr_state := UNLOCKED, dr_locked_by_route_uid := Some sample_route_uid\<rparr>)"
  by (simp add: sample_routed_def sample_request_changes engine_simps sample_find_derailer)

lemma routed_find_route:
  "find_route sample_routed sample_route_uid =
     Some \<lparr>rt_uid = sample_route_uid, rt_from_signal_uid = 21, rt_to_signal_uid = 22,
        rt_section_uids = [1, 2], rt_switch_uids = [10], rt_derailer_uids = [30],
        rt_created_tick = 7, rt_train_entered = False, rt_overlap_release_tick = None\<rparr>"
  by (simp add: sample_routed_def sample_request_changes engine_simps sample_find_none)

section \<open>Properties\<close>

text \<open>
  C27.  Cancelling a route puts its entry signal back to S1, unlocks every switch of the route and
  its flank, relocks every derailer of the route and removes the route, whether forced or not.
\<close>

theorem cancel_route_releases:
  assumes "find_route s r = Some route" and "s' = apply_all s (execute_cancel_route s r force)"
  shows "find_route s' r = None \<and>
    (find_signal s (rt_from_signal_uid route) \<noteq> None \<longrightarrow>
       signal_aspect s' (rt_from_signal_uid route) = Some S1_STOP) \<and>
    (\<forall>u \<in> set (rt_switch_uids route). find_switch s u \<noteq> None \<longrightarrow> switch_lock s' u = Some None) \<and>
    (\<forall>d \<in> set (rt_derailer_uids route). find_derailer s d \<noteq> None \<longrightarrow> derailer_state s' d = Some LOCKED) \<and>
    (\<forall>u. switch_position s' u = switch_position s u)"
proof -
  have "switch_position s' u = switch_position s u" for u
    using cancel_moves [of u s r force] assms(2) by (simp add: not_list_ex_all position_apply_all_frame)
  then show ?thesis
    unfolding assms(2)
    using cancel_route_gone [OF assms(1)] cancel_signal(1) [OF assms(1)] cancel_switch [OF assms(1)]
      cancel_derailer [OF assms(1)] by blast
qed

theorem cancel_route_releases_witness:
  "switch_lock (apply_all sample_routed (execute_cancel_route sample_routed sample_route_uid False)) 10
     = Some None \<and>
   derailer_state (apply_all sample_routed (execute_cancel_route sample_routed sample_route_uid False)) 30
     = Some LOCKED"
  using cancel_route_releases [OF routed_find_route refl, of False] routed_find_switch routed_find_derailer
  by simp

text \<open>
  The entry signal of a cancelled route stays locked by the route that no longer exists, and
  every later route request from that signal is refused with ROUTE\_LOCKED until some command puts
  the signal to stop by itself.
\<close>

theorem cancelled_route_keeps_entry_locked:
  assumes "find_route s r = Some route" and "s' = apply_all s (execute_cancel_route s r force)"
    and "find_signal s (rt_from_signal_uid route) = Some sig" and "find_signal s t \<noteq> None"
  shows "find_route s' r = None \<and> signal_lock s' (rt_from_signal_uid route) = Some (Some r) \<and>
    map_option viol_reason_code (check_request_route s' (rt_from_signal_uid route) t kPolicies)
      = Some NAK_ROUTE_LOCKED"
proof -
  have lock: "signal_lock s' (rt_from_signal_uid route) = Some (Some r)"
    using cancel_signal(2) [OF assms(1,3)] assms(2) by simp
  then obtain e where e: "find_signal s' (rt_from_signal_uid route) = Some e"
      "sig_locked_by_route_uid e = Some r" by blast
  have "find_signal s' t \<noteq> None" using assms(2,4) by simp
  then obtain x where "find_signal s' t = Some x" by blast
  with e have "map_option viol_reason_code (check_request_route s' (rt_from_signal_uid route) t kPolicies)
      = Some NAK_ROUTE_LOCKED" by (simp add: check_request_route_def violation_def)
  moreover have "find_route s' r = None" unfolding assms(2) by (rule cancel_route_gone [OF assms(1)])
  ultimately show ?thesis using lock by blast
qed

theorem cancelled_route_keeps_entry_locked_witness:
  "map_option viol_reason_code (check_request_route
     (apply_all sample_routed (execute_cancel_route sample_routed sample_route_uid False)) 21 22 kPolicies)
     = Some NAK_ROUTE_LOCKED"
  using cancelled_route_keeps_entry_locked [OF routed_find_route refl, of _ 22 False] routed_find_signal
  by simp

text \<open>
  No test of a route request looks at the flank switches: on the crossover the request from
  signal 21 to signal 22 is accepted although flank switch 11 is occupied and locked by route 77,
  and carrying it out throws that switch and takes its lock.
\<close>

theorem flank_switch_is_not_checked:
  "ebilock_check_command sample_crossover (RequestRouteCmd 21 22) = None \<and>
   map_option sw_occupancy (find_switch sample_crossover 11) = Some OCCUPIED \<and>
   switch_position sample_crossover 11 = Some STRAIGHT \<and> switch_lock sample_crossover 11 = Some (Some 77) \<and>
   (let s' = apply_all sample_crossover
               (snd (ebilock_execute_command (make_EbiLockSystem 90) sample_crossover (RequestRouteCmd 21 22)))
    in switch_position s' 11 = Some DIVERGENT \<and> switch_lock s' 11 = Some (Some (make_route_uid 21 22 7)))"
proof -
  have tick: "es_current_tick sample_crossover = 7" by (simp add: sample_crossover_def)
  have "execute_request_route sample_crossover 21 22 7 kPolicies =
     [SwitchLocked 10 (make_route_uid 21 22 7), SwitchPositionChange 11 DIVERGENT CAUSE_AUTO 0,
      SwitchLocked 11 (make_route_uid 21 22 7),
      SignalAspectChange 21 S2_PROCEED CAUSE_AUTO (Some (make_route_uid 21 22 7)),
      RouteAdded (route_state_of sample_crossover (make_route_uid 21 22 7) 21 22 7
        (the (find_route_path sample_crossover 21 22 kPolicies)))]"
    by (simp add: execute_request_route_def crossover_path Let_def set_route_switch_def
        crossover_find_switch sample_node_def sample_switch_def)
  then show ?thesis
    by (simp add: crossover_check tick Let_def engine_simps crossover_find_switch)
      (simp add: sample_switch_def)
qed

text \<open>
  The search treats the straight and the divergent leg of a switch as joined to each other, so
  the request from signal 22 to signal 23 is accepted: it leads a train from section 2 over the
  straight leg of switch 10 into the divergent leg towards section 3, with the switch set straight.
\<close>

theorem leg_to_leg_route_is_accepted:
  "ebilock_check_command sample_station (RequestRouteCmd 22 23) = None \<and>
   map_option (\<lambda>sw. (leg_neighbor_uid (sw_straight sw), leg_neighbor_uid (sw_divergent sw)))
     (find_switch sample_station 10) = Some (2, 3) \<and>
   map_option (\<lambda>p. map (\<lambda>n. (node_uid n, node_required_position n)) (rp_nodes p))
     (find_route_path sample_station 22 23 kPolicies)
       = Some [(2, STRAIGHT), (10, STRAIGHT), (3, STRAIGHT)]"
  by (simp add: sample_check_22_23 sample_path_22_23 sample_find_switch sample_node_def)
    (simp add: sample_switch_def sample_leg_def)

text \<open>
  The ML8 throw command PZ is accepted for any free switch at rest, also one locked by a route,
  and takes the switch out of its position while the route and its proceed aspect stay in place.
\<close>

theorem ml8_pz_throws_locked_switch:
  assumes "find_switch s u = Some sw" and "sw_occupancy sw = FREE" and "sw_position sw \<noteq> MOVING"
    and "ml_throw_ticks sys > 0"
    and "s' = apply_all s (snd (ml8_execute_command sys s (Ml8CommandCmd u TK_SWITCH ML8_PZ)))"
  shows "ml8_check_command s (Ml8CommandCmd u TK_SWITCH ML8_PZ) = None \<and>
    switch_position s' u = Some MOVING \<and> switch_lock s' u = Some (sw_locked_by_route_uid sw) \<and>
    (\<forall>f. signal_aspect s' f = signal_aspect s f) \<and> (\<forall>r. find_route s' r = find_route s r)"
  using assms
  by (simp add: check_ml8_command_def target_exists_def execute_ml8_command_def throw_device_def
      execute_set_switch_position_def engine_simps)

theorem ml8_pz_throws_locked_switch_witness:
  "switch_position (apply_all sample_routed (snd (ml8_execute_command (make_Ml8System 90) sample_routed
      (Ml8CommandCmd 10 TK_SWITCH ML8_PZ)))) 10 = Some MOVING \<and>
   switch_lock sample_routed 10 = Some (Some sample_route_uid)"
  using ml8_pz_throws_locked_switch [OF routed_find_switch _ _ _ refl, of "make_Ml8System 90"]
  by (simp add: routed_find_switch) (simp add: sample_switch_def make_Ml8System_def)

end
