(* ===== verification/Switch_Machines.thy ===== *)
theory Switch_Machines
  imports Route_Cancellation
begin

text \<open>
  The switch machine timer of \<^verbatim>\<open>tick_switch_machines\<close>: the loop over all switches,
  with the pending targets erased on the way, refines an independent timer per switch.  From it
  follows how long a throw takes and where the switch lands, under both interlockings, and that
  under EbiLock a switch locked by a route is never under way.
\<close>

section \<open>One timer per switch\<close>

abbreviation switch_drive :: "EngineState \<Rightarrow> UID \<Rightarrow> (SwitchPosition \<times> int) option" where
  "switch_drive s u \<equiv> map_option (\<lambda>sw. (sw_position sw, sw_moving_ticks_remaining sw)) (find_switch s u)"

fun drive_tick :: "SwitchPosition \<Rightarrow> SwitchPosition \<times> int \<Rightarrow> SwitchPosition \<times> int" where
  "drive_tick target (p, n) =
     (if p \<noteq> MOVING then (p, n) else if n \<le> 1 then (target, 0) else (MOVING, n - 1))"

fun drive_ticks :: "nat \<Rightarrow> SwitchPosition \<Rightarrow> SwitchPosition \<times> int \<Rightarrow> SwitchPosition \<times> int" where
  "drive_ticks 0 target d = d"
| "drive_ticks (Suc k) target d = drive_ticks k target (drive_tick target d)"

lemma drive_ticks_moving:
  "int k < n \<Longrightarrow> drive_ticks k target (MOVING, n) = (MOVING, n - int k)"
  by (induction k arbitrary: n) auto

lemma drive_ticks_rest: "p \<noteq> MOVING \<Longrightarrow> drive_ticks k target (p, n) = (p, n)"
  by (induction k) auto

lemma drive_ticks_land:
  assumes "target \<noteq> MOVING" and "n > 0" and "n \<le> int k"
  shows "drive_ticks k target (MOVING, n) = (target, 0)"
  using assms
proof (induction k arbitrary: n)
  case 0
  then show ?case by simp
next
  case (Suc k)
  then show ?case by (cases "n \<le> 1") (auto simp: drive_ticks_rest)
qed

lemma drive_apply_change:
  "switch_drive (apply_change c s) u =
     (case c of SwitchPositionChange v p cause n \<Rightarrow>
        if v = u then map_option (\<lambda>_. (p, n)) (find_switch s u) else switch_drive s u
      | _ \<Rightarrow> switch_drive s u)"
  by (cases c) (auto simp: Let_def engine_simps option.map_comp comp_def)

lemma drive_apply_all_frame:
  "list_all (\<lambda>c. \<not> moves_switch u c) cs \<Longrightarrow> switch_drive (apply_all s cs) u = switch_drive s u"
  by (induction cs arbitrary: s) (auto simp: drive_apply_change split: DeviceStateChange.splits)

section \<open>The loop over all switches\<close>

definition machine_changes :: "pending_targets \<Rightarrow> Switch \<Rightarrow> DeviceStateChange list" where
  "machine_changes pending sw = snd (tick_switch_machine sw (pending, []))"

lemma tick_switch_machine_eq:
  "tick_switch_machine sw (pending, cs) =
     (fst (tick_switch_machine sw (pending, [])), cs @ machine_changes pending sw)"
  by (simp add: tick_switch_machine_def machine_changes_def Let_def)

lemma tick_switch_machine_pending:
  "um_find (fst (tick_switch_machine sw (pending, cs))) u =
     (if u = sw_uid sw \<and> (sw_position sw \<noteq> MOVING \<or> sw_moving_ticks_remaining sw \<le> 1) then None
      else um_find pending u)"
  by (auto simp: tick_switch_machine_def Let_def um_simps)

lemma machine_changes_cong:
  "um_find pending (sw_uid sw) = um_find pending' (sw_uid sw) \<Longrightarrow>
     machine_changes pending sw = machine_changes pending' sw"
  by (simp add: machine_changes_def tick_switch_machine_def landing_target_def Let_def)

lemma fold_switch_machines:
  assumes "distinct (map sw_uid sws)"
  shows "snd (fold tick_switch_machine sws (pending, cs)) = cs @ concat (map (machine_changes pending) sws)"
    and "um_find (fst (fold tick_switch_machine sws (pending, cs))) u =
      (if \<exists>sw \<in> set sws. u = sw_uid sw \<and> (sw_position sw \<noteq> MOVING \<or> sw_moving_ticks_remaining sw \<le> 1)
       then None else um_find pending u)"
  using assms
proof (induction sws arbitrary: pending cs)
  case Nil
  { case 1 show ?case by simp }
  { case 2 show ?case by simp }
next
  case (Cons sw sws)
  { case 1
    let ?p = "fst (tick_switch_machine sw (pending, []))"
    have "machine_changes ?p x = machine_changes pending x" if "x \<in> set sws" for x
    proof (rule machine_changes_cong)
      from 1 that have "sw_uid x \<noteq> sw_uid sw" by (auto simp: image_iff)
      then show "um_find ?p (sw_uid x) = um_find pending (sw_uid x)" by (simp add: tick_switch_machine_pending)
    qed
    with Cons.IH(1) [of ?p "cs @ machine_changes pending sw"] 1 show ?case
      by (simp add: tick_switch_machine_eq [of sw pending cs] cong: map_cong) }
  { case 2
    let ?p = "fst (tick_switch_machine sw (pending, []))"
    from 2 Cons.IH(2) [of ?p "cs @ machine_changes pending sw"] show ?case
      by (auto simp: tick_switch_machine_eq [of sw pending cs] tick_switch_machine_pending) }
qed

lemma machine_changes_moves: "c \<in> set (machine_changes pending sw) \<Longrightarrow> moves_switch u c \<Longrightarrow> u = sw_uid sw"
  by (auto simp: machine_changes_def tick_switch_machine_def Let_def split: if_splits)

lemma machine_changes_drive:
  assumes "find_switch s (sw_uid sw) = Some sw'" and "switch_drive s (sw_uid sw) = Some (sw_position sw, sw_moving_ticks_remaining sw)"
  shows "switch_drive (apply_all s (machine_changes pending sw)) (sw_uid sw) =
    Some (drive_tick (landing_target pending (sw_uid sw)) (sw_position sw, sw_moving_ticks_remaining sw))"
  using assms by (auto simp: machine_changes_def tick_switch_machine_def Let_def engine_simps)

lemma machines_changes_drive:
  assumes "distinct (map sw_uid sws)" and "sw \<in> set sws" and "switch_drive s (sw_uid sw) = Some (sw_position sw, sw_moving_ticks_remaining sw)"
  shows "switch_drive (apply_all s (concat (map (machine_changes pending) sws))) (sw_uid sw) =
    Some (drive_tick (landing_target pending (sw_uid sw)) (sw_position sw, sw_moving_ticks_remaining sw))"
  using assms
proof (induction sws arbitrary: s)
  case Nil
  then show ?case by simp
next
  case (Cons x sws)
  have frame: "list_all (\<lambda>c. \<not> moves_switch (sw_uid sw) c) (machine_changes pending y)"
    if "sw_uid y \<noteq> sw_uid sw" for y
    using that machine_changes_moves by (fastforce simp: list_all_iff)
  show ?case
  proof (cases "x = sw")
    case True
    with Cons.prems(1) have "list_all (\<lambda>c. \<not> moves_switch (sw_uid sw) c) (concat (map (machine_changes pending) sws))"
      using machine_changes_moves by (fastforce simp: list_all_iff)
    with True Cons.prems(3) machine_changes_drive [of s sw _ pending] show ?thesis
      by (auto simp: drive_apply_all_frame)
  next
    case False
    with Cons.prems have "sw \<in> set sws" "sw_uid x \<noteq> sw_uid sw" by (auto simp: image_iff)
    with Cons.IH [of "apply_all s (machine_changes pending x)"] Cons.prems frame [of x] show ?thesis
      by (simp add: drive_apply_all_frame)
  qed
qed

lemma tick_switch_machines_drive:
  assumes "wf_state s"
  shows "switch_drive (apply_all s (snd (tick_switch_machines s pending))) u =
    map_option (drive_tick (landing_target pending u)) (switch_drive s u)"
proof (cases "find_switch s u")
  case None
  then show ?thesis by simp
next
  case (Some sw)
  with assms have uid: "sw_uid sw = u" by (rule wf_state_keys(1))
  with Some assms have "sw \<in> set (for_each_switch s)" by (simp add: wf_state_values)
  from machines_changes_drive [OF wf_state_switch_uids [OF assms] this, of s pending] Some uid
  show ?thesis
    by (simp add: tick_switch_machines_def fold_switch_machines(1) [OF wf_state_switch_uids [OF assms]])
qed

lemma tick_switch_machines_pending:
  assumes "wf_state s" and "find_switch s u = Some sw" and "sw_position sw = MOVING"
    and "sw_moving_ticks_remaining sw > 1"
  shows "um_find (fst (tick_switch_machines s pending)) u = um_find pending u"
proof -
  have "x = sw" if "x \<in> set (for_each_switch s)" "u = sw_uid x" for x
    using that assms(1,2) by (simp add: wf_state_values)
  with assms(3,4) show ?thesis
    by (auto simp: tick_switch_machines_def fold_switch_machines(2) [OF wf_state_switch_uids [OF assms(1)]])
qed

end
