(* ===== verification/Interlocking_Runs.thy ===== *)
theory Interlocking_Runs
  imports Switch_Machines
begin

text \<open>
  The contract between the engine loop and a control system.  \<open>process_command\<close> and
  \<open>control_tick\<close> are the two places where \<^verbatim>\<open>EngineLoop::do_tick\<close>
  (\<^verbatim>\<open>engine/src/engine_loop.cpp\<close>) calls the interlocking.  The locale
  \<open>interlocking\<close> states what the loop may rely on, an invariant kept by accepted commands,
  ticks and occupancy reports; \<open>switch_drives\<close> adds the switch-machine law.  Both are
  interpreted for EbiLock and for ML8.
\<close>

section \<open>The calls of the engine loop\<close>

definition process_command ::
    "'sys IControlSystem \<Rightarrow> EnvelopedCommand \<Rightarrow>
     'sys \<times> EngineState \<times> (EnvelopedCommand \<times> InterlockingViolation) list \<times> DeviceStateChange list \<Rightarrow>
     'sys \<times> EngineState \<times> (EnvelopedCommand \<times> InterlockingViolation) list \<times> DeviceStateChange list" where
  "process_command ctl cmd st =
    (let (sys, s, naks, tick_all_changes) = st
     in case cs_check_command ctl sys s (env_payload cmd) of
          Some viol \<Rightarrow> (sys, s, naks @ [(cmd, viol)], tick_all_changes)
        | None \<Rightarrow>
            (let (sys', changes) = cs_execute_command ctl sys s (env_payload cmd)
             in (sys', apply_all s changes, naks, tick_all_changes @ changes)))"

definition control_tick ::
    "'sys IControlSystem \<Rightarrow> 'sys \<times> EngineState \<Rightarrow> 'sys \<times> EngineState \<times> DeviceStateChange list" where
  "control_tick ctl st =
    (let (sys, s) = st; next_tick_num = es_current_tick s + 1;
         (sys', tick_changes) = cs_on_tick ctl sys s next_tick_num
     in (sys', apply_all s tick_changes, tick_changes))"

text \<open>A tick without commands and trains.\<close>

definition idle_tick :: "'sys IControlSystem \<Rightarrow> 'sys \<times> EngineState \<Rightarrow> 'sys \<times> EngineState" where
  "idle_tick ctl st =
    (let (sys', s', changes) = control_tick ctl st
     in (sys', set_current_tick (es_current_tick (snd st) + 1) s'))"

fun idle_ticks :: "nat \<Rightarrow> 'sys IControlSystem \<Rightarrow> 'sys \<times> EngineState \<Rightarrow> 'sys \<times> EngineState" where
  "idle_ticks 0 ctl st = st"
| "idle_ticks (Suc k) ctl st = idle_ticks k ctl (idle_tick ctl st)"

section \<open>The contracts\<close>

locale interlocking =
  fixes ctl :: "'sys IControlSystem" and inv :: "EngineState \<Rightarrow> bool"
  assumes execute_inv: "inv s \<Longrightarrow> cs_check_command ctl sys s c = None \<Longrightarrow>
      inv (apply_all s (snd (cs_execute_command ctl sys s c)))"
    and on_tick_inv: "inv s \<Longrightarrow> inv (apply_all s (snd (cs_on_tick ctl sys s n)))"
    and occupancy_inv: "inv s \<Longrightarrow> inv (apply_track_section_occupancy u occ axles s)"
    and set_tick_inv: "inv s \<Longrightarrow> inv (set_current_tick n s)"
begin

lemma process_command_inv:
  assumes "inv (fst (snd st))"
  shows "inv (fst (snd (process_command ctl cmd st)))"
  using assms execute_inv
  by (auto simp: process_command_def Let_def split: prod.splits option.splits) (metis snd_conv)

lemma process_commands_inv:
  "inv (fst (snd st)) \<Longrightarrow> inv (fst (snd (fold (process_command ctl) cmds st)))"
  by (induction cmds arbitrary: st) (simp_all add: process_command_inv)

lemma control_tick_inv: "inv s \<Longrightarrow> inv (fst (snd (control_tick ctl (sys, s))))"
  using on_tick_inv [of s sys "es_current_tick s + 1"]
  by (auto simp: control_tick_def Let_def split: prod.splits)

lemma idle_ticks_inv: "inv (snd st) \<Longrightarrow> inv (snd (idle_ticks k ctl st))"
proof (induction k arbitrary: st)
  case 0
  then show ?case by simp
next
  case (Suc k)
  then have "inv (snd (idle_tick ctl st))"
    using control_tick_inv [of "snd st" "fst st"]
    by (auto simp: idle_tick_def set_tick_inv split: prod.splits)
  then show ?case by (simp add: Suc.IH)
qed

end

locale switch_drives =
  fixes ctl :: "'sys IControlSystem" and pending :: "'sys \<Rightarrow> pending_targets"
  assumes on_tick_drive: "wf_state s \<Longrightarrow>
      switch_drive (apply_all s (snd (cs_on_tick ctl sys s n))) u =
        map_option (drive_tick (landing_target (pending sys) u)) (switch_drive s u)"
    and on_tick_pending: "wf_state s \<Longrightarrow> switch_drive s u = Some (MOVING, k) \<Longrightarrow> k > 1 \<Longrightarrow>
      um_find (pending (fst (cs_on_tick ctl sys s n))) u = um_find (pending sys) u"
begin

lemma idle_tick_drive:
  assumes "wf_state s" and "idle_tick ctl (sys, s) = (sys', s')"
  shows "wf_state s'"
    and "switch_drive s' u = map_option (drive_tick (landing_target (pending sys) u)) (switch_drive s u)"
    and "switch_drive s u = Some (MOVING, k) \<Longrightarrow> k > 1 \<Longrightarrow>
      landing_target (pending sys') u = landing_target (pending sys) u"
proof -
  let ?r = "cs_on_tick ctl sys s (es_current_tick s + 1)"
  from assms(2) have eq: "sys' = fst ?r"
    "s' = set_current_tick (es_current_tick s + 1) (apply_all s (snd ?r))"
    by (auto simp: idle_tick_def control_tick_def Let_def split: prod.splits)
  show "wf_state s'" by (simp add: eq(2) set_current_tick_def wf_state_def)
      (use wf_apply_all [OF assms(1), of "snd ?r"] in \<open>simp add: wf_state_def\<close>)
  have "switch_drive s' u = switch_drive (apply_all s (snd ?r)) u"
    by (simp add: eq(2) engine_simps)
  then show "switch_drive s' u = map_option (drive_tick (landing_target (pending sys) u)) (switch_drive s u)"
    using on_tick_drive [OF assms(1)] by simp
  show "landing_target (pending sys') u = landing_target (pending sys) u"
    if "switch_drive s u = Some (MOVING, k)" "k > 1"
    using on_tick_pending [OF assms(1) that] by (simp add: eq(1) landing_target_def)
qed

lemma idle_ticks_drive:
  assumes "wf_state s" and "switch_drive s u = Some (MOVING, n)" and "n > 0"
    and "landing_target (pending sys) u = target" and "target \<noteq> MOVING"
  shows "switch_drive (snd (idle_ticks k ctl (sys, s))) u = Some (drive_ticks k target (MOVING, n))"
proof -
  have rest: "switch_drive (snd (idle_ticks k ctl (sys, s))) u = Some (p, m)"
    if "wf_state s" "switch_drive s u = Some (p, m)" "p \<noteq> MOVING" for k sys s p m
    using that
  proof (induction k arbitrary: sys s)
    case 0
    then show ?case by simp
  next
    case (Suc k)
    obtain sys' s' where t: "idle_tick ctl (sys, s) = (sys', s')" by (cases "idle_tick ctl (sys, s)")
    have "switch_drive s' u = Some (p, m)"
      unfolding idle_tick_drive(2) [OF Suc.prems(1) t] Suc.prems(2) using Suc.prems(3) by simp
    from Suc.IH [OF idle_tick_drive(1) [OF Suc.prems(1) t] this Suc.prems(3)] t show ?case by simp
  qed
  show ?thesis
    using assms
  proof (induction k arbitrary: sys s n)
    case 0
    then show ?case by simp
  next
    case (Suc k)
    obtain sys' s' where t: "idle_tick ctl (sys, s) = (sys', s')" by (cases "idle_tick ctl (sys, s)")
    note step = idle_tick_drive [OF Suc.prems(1) t]
    show ?case
    proof (cases "n \<le> 1")
      case True
      have "switch_drive s' u = Some (target, 0)" unfolding step(2) Suc.prems(2) using True Suc.prems(4) by simp
      from rest [OF step(1) this Suc.prems(5)] True Suc.prems(5) t show ?thesis
        by (simp add: drive_ticks_rest)
    next
      case False
      have "switch_drive s' u = Some (MOVING, n - 1)" unfolding step(2) Suc.prems(2) using False by simp
      moreover have "n - 1 > 0" "landing_target (pending sys') u = target"
        using step(3) [OF Suc.prems(2)] False Suc.prems(4) by simp_all
      ultimately have "switch_drive (snd (idle_ticks k ctl (sys', s'))) u =
          Some (drive_ticks k target (MOVING, n - 1))"
        by (rule Suc.IH [OF step(1) _ _ _ Suc.prems(5)])
      with t False show ?thesis by simp
    qed
  qed
qed

lemma throw_lands:
  assumes "wf_state s" and "switch_drive s u = Some (MOVING, n)" and "n > 0"
    and "landing_target (pending sys) u = target" and "target \<noteq> MOVING"
  shows "switch_position (snd (idle_ticks k ctl (sys, s))) u = Some (if int k < n then MOVING else target)"
proof -
  have "switch_position (snd (idle_ticks k ctl (sys, s))) u =
      map_option fst (switch_drive (snd (idle_ticks k ctl (sys, s))) u)"
    by (simp add: option.map_comp comp_def)
  also have "\<dots> = Some (fst (drive_ticks k target (MOVING, n)))"
    unfolding idle_ticks_drive [OF assms] by simp
  also have "fst (drive_ticks k target (MOVING, n)) = (if int k < n then MOVING else target)"
    using assms(3,5) by (simp add: drive_ticks_moving drive_ticks_land)
  finally show ?thesis .
qed

end

section \<open>What both interlockings do on a tick\<close>

lemma release_route_moves: "c \<in> set (release_route s n r) \<Longrightarrow> \<not> moves_switch u c"
  by (auto simp: release_route_def split: if_splits option.splits)

lemma auto_release_moves: "list_all (\<lambda>c. \<not> moves_switch u c) (tick_route_auto_release s n)"
  using release_route_moves by (fastforce simp: tick_route_auto_release_def list_all_iff)

lemma ebilock_on_tick_eq:
  "ebilock_on_tick sys s n =
     (sys\<lparr>eb_pending_targets := fst (tick_switch_machines s (eb_pending_targets sys))\<rparr>,
      snd (tick_switch_machines s (eb_pending_targets sys)) @ tick_route_auto_release s n)"
  by (simp add: ebilock_on_tick_def split: prod.splits)

lemma ml8_on_tick_eq:
  "ml8_on_tick sys s n =
     (sys\<lparr>ml_pending_targets := fst (tick_switch_machines s (ml_pending_targets sys))\<rparr>,
      snd (tick_switch_machines s (ml_pending_targets sys)) @ tick_route_auto_release s n)"
  by (simp add: ml8_on_tick_def split: prod.splits)

interpretation eb_drives: switch_drives ebilock_interface eb_pending_targets
  by unfold_locales
    (auto simp: ebilock_on_tick_eq drive_apply_all_frame [OF auto_release_moves]
      tick_switch_machines_drive intro: tick_switch_machines_pending)

interpretation ml_drives: switch_drives ml8_interface ml_pending_targets
  by unfold_locales
    (auto simp: ml8_on_tick_eq drive_apply_all_frame [OF auto_release_moves]
      tick_switch_machines_drive intro: tick_switch_machines_pending)

section \<open>EbiLock: a locked switch is at rest\<close>

definition locked_switches_rest :: "EngineState \<Rightarrow> bool" where
  "locked_switches_rest s \<longleftrightarrow>
     list_all (\<lambda>(u, sw). sw_locked_by_route_uid sw \<noteq> None \<longrightarrow> sw_position sw \<noteq> MOVING) (es_switches s)"

definition ebilock_inv :: "EngineState \<Rightarrow> bool" where
  "ebilock_inv s \<longleftrightarrow> wf_state s \<and> locked_switches_rest s"

lemma ebilock_inv_iff:
  "ebilock_inv s \<longleftrightarrow> wf_state s \<and>
     (\<forall>u. switch_position s u = Some MOVING \<longrightarrow> switch_lock s u = Some None)"
proof -
  have "locked_switches_rest s \<longleftrightarrow> (\<forall>u sw. find_switch s u = Some sw \<longrightarrow>
      sw_locked_by_route_uid sw \<noteq> None \<longrightarrow> sw_position sw \<noteq> MOVING)" if "wf_state s"
  proof -
    have "(u, sw) \<in> set (es_switches s) \<longleftrightarrow> find_switch s u = Some sw" for u sw
      using that um_find_in_set um_in_set_find by (fastforce simp: find_switch_def wf_state_def)
    then show ?thesis unfolding locked_switches_rest_def list_all_iff by blast
  qed
  then show ?thesis by (fastforce simp: ebilock_inv_def)
qed

lemma sample_ebilock_inv: "ebilock_inv sample_station"
  by (simp add: ebilock_inv_def wf_sample_station) (simp add: locked_switches_rest_def sample_station_def sample_switch_def)

fun takes_lock :: "UID \<Rightarrow> DeviceStateChange \<Rightarrow> bool" where
  "takes_lock u (SwitchLocked v r) \<longleftrightarrow> v = u"
| "takes_lock u _ \<longleftrightarrow> False"

lemma lock_apply_all_released:
  "list_all (\<lambda>c. \<not> takes_lock u c) cs \<Longrightarrow> switch_lock s u = Some None \<Longrightarrow>
     switch_lock (apply_all s cs) u = Some None"
proof (induction cs arbitrary: s)
  case Nil
  then show ?case by simp
next
  case (Cons c cs)
  have "switch_lock (apply_change c s) u = Some None"
    using Cons.prems unfolding lock_apply_change by (cases c) auto
  with Cons show ?case by simp
qed

lemma operator_takes_no_lock: "list_all (\<lambda>c. \<not> takes_lock u c) (execute_operator_command s uid k code n)"
  by (simp add: execute_operator_command_def throw_device_def execute_set_switch_position_def
      execute_set_derailer_position_def confirm_direction_def split: option.split)

lemma cancel_takes_no_lock: "list_all (\<lambda>c. \<not> takes_lock u c) (execute_cancel_route s r force)"
  by (auto simp: execute_cancel_route_def relock_derailer_def list_all_iff split: option.splits if_splits)

lemma ebilock_takes_no_lock:
  assumes "\<And>f t. c \<noteq> RequestRouteCmd f t"
  shows "list_all (\<lambda>c. \<not> takes_lock u c) (snd (ebilock_execute_command sys s c))"
proof (cases c)
  case (RequestRouteCmd f t)
  with assms show ?thesis by blast
qed (simp_all add: operator_takes_no_lock cancel_takes_no_lock simple_executes
    execute_set_switch_position_def execute_set_block_direction_def split: option.split Shl12Op.split)

text \<open>Setting a route leaves each switch alone or in a stable position.\<close>

definition rests_after :: "EngineState \<Rightarrow> UID \<Rightarrow> EngineState \<Rightarrow> bool" where
  "rests_after s u t \<longleftrightarrow> switch_position t u \<in> {Some STRAIGHT, Some DIVERGENT} \<or>
     switch_position t u = switch_position s u \<and> switch_lock t u = switch_lock s u"

lemma rests_after_frame:
  "list_all (\<lambda>c. \<not> moves_switch u c \<and> \<not> locks_switch u c) cs \<Longrightarrow>
     rests_after s u (apply_all t cs) \<longleftrightarrow> rests_after s u t"
  using position_apply_all_frame [of u cs t] lock_apply_all_frame [of u cs t]
  by (simp add: rests_after_def list_all_iff)

lemma set_route_switch_rests:
  assumes "node_required_position n \<in> {STRAIGHT, DIVERGENT}" and "rests_after s u t"
  shows "rests_after s u (apply_all t (set_route_switch s r n))"
proof (cases "u = node_uid n \<and> find_switch s u \<noteq> None")
  case False
  then have "list_all (\<lambda>c. \<not> moves_switch u c \<and> \<not> locks_switch u c) (set_route_switch s r n)"
    by (auto simp: set_route_switch_def split: option.split)
  with assms(2) show ?thesis by (simp add: rests_after_frame)
next
  case True
  then obtain sw where sw: "find_switch s u = Some sw" and u: "u = node_uid n" by blast
  show ?thesis
  proof (cases "find_switch t u")
    case None
    with assms(2) sw have False by (simp add: rests_after_def)
    then show ?thesis by simp
  next
    case (Some tw)
    with sw u assms show ?thesis
      by (auto simp: set_route_switch_def rests_after_def engine_simps)
  qed
qed

lemma set_route_switches_rest:
  "\<forall>n \<in> set ns. node_required_position n \<in> {STRAIGHT, DIVERGENT} \<Longrightarrow> rests_after s u t \<Longrightarrow>
     rests_after s u (apply_all t (concat (map (set_route_switch s r) ns)))"
  by (induction ns arbitrary: t) (simp_all add: set_route_switch_rests)

lemma request_route_rests: "rests_after s u (apply_all s (execute_request_route s f t tick kPolicies))"
proof (cases "find_route_path s f t kPolicies")
  case None
  then show ?thesis by (simp add: execute_request_route_def rests_after_def)
next
  case (Some p)
  let ?r = "make_route_uid f t tick"
  let ?rest = "concat (map (set_route_derailer s ?r) (rp_derailer_uids p)) @
    [SignalAspectChange f S2_PROCEED CAUSE_AUTO (Some ?r), RouteAdded (route_state_of s ?r f t tick p)]"
  have "list_all (\<lambda>c. \<not> moves_switch u c \<and> \<not> locks_switch u c) ?rest"
    using set_route_derailer_concerns [of _ s ?r] by (auto simp: list_all_iff)
  moreover have "rests_after s u s" by (simp add: rests_after_def)
  then have "rests_after s u (apply_all s
      (concat (map (set_route_switch s ?r) (filter (\<lambda>n. node_kind n = NODE_SWITCH) (rp_nodes p))) @
       concat (map (set_route_switch s ?r) (rp_flank_switches p))))"
    using route_path_positions [OF Some] unfolding apply_all_simps(3)
    by (intro set_route_switches_rest) auto
  ultimately have "rests_after s u (apply_all (apply_all s
      (concat (map (set_route_switch s ?r) (filter (\<lambda>n. node_kind n = NODE_SWITCH) (rp_nodes p))) @
       concat (map (set_route_switch s ?r) (rp_flank_switches p)))) ?rest)"
    by (simp only: rests_after_frame)
  then show ?thesis
    by (simp only: execute_request_route_eq [OF Some refl] route_preparation_def apply_all_simps(3) append_assoc)
qed

lemma ebilock_execute_inv:
  assumes "ebilock_inv s" and "ebilock_check_command s c = None"
  shows "ebilock_inv (apply_all s (snd (ebilock_execute_command sys s c)))" (is "ebilock_inv ?s'")
proof -
  have "switch_lock ?s' u = Some None" if mv: "switch_position ?s' u = Some MOVING" for u
  proof (cases "\<exists>f t. c = RequestRouteCmd f t")
    case True
    then have "rests_after s u ?s'" using request_route_rests by auto
    with mv have "switch_position s u = Some MOVING" "switch_lock ?s' u = switch_lock s u"
      unfolding rests_after_def by (simp_all del: map_option_eq_Some)
    with assms(1) show ?thesis unfolding ebilock_inv_iff by metis
  next
    case False
    then have c: "c \<noteq> RequestRouteCmd f t" for f t by blast
    have "find_switch s u \<noteq> None"
      using mv exists_apply_all(1) by (metis map_option_is_None option.distinct(1))
    then obtain sw where sw: "find_switch s u = Some sw" by blast
    have "switch_lock s u = Some None"
    proof (cases "list_ex (moves_switch u) (snd (ebilock_execute_command sys s c))")
      case True
      from ebilock_moves_unprotected [OF assms(2) c this sw] sw show ?thesis by simp
    next
      case False
      then have "switch_position ?s' u = switch_position s u"
        by (simp add: not_list_ex_all position_apply_all_frame)
      with mv assms(1) show ?thesis unfolding ebilock_inv_iff by metis
    qed
    then show ?thesis by (rule lock_apply_all_released [OF ebilock_takes_no_lock [OF c]])
  qed
  with assms(1) wf_apply_all show ?thesis by (auto simp: ebilock_inv_iff)
qed

lemma on_tick_takes_no_lock:
  "list_all (\<lambda>c. \<not> takes_lock u c) (snd (tick_switch_machines s pending) @ tick_route_auto_release s n)"
  if "wf_state s"
  using that
  by (auto simp: tick_switch_machines_def fold_switch_machines(1) wf_state_switch_uids list_all_iff
      machine_changes_def tick_switch_machine_def tick_route_auto_release_def release_route_def Let_def
      split: if_splits option.splits)

lemma ebilock_tick_inv:
  assumes "ebilock_inv s"
  shows "ebilock_inv (apply_all s (snd (ebilock_on_tick sys s n)))" (is "ebilock_inv ?s'")
proof -
  from assms have wf: "wf_state s" by (simp add: ebilock_inv_def)
  have "switch_lock ?s' u = Some None" if mv: "switch_position ?s' u = Some MOVING" for u
  proof -
    have "map_option fst (switch_drive ?s' u) = Some MOVING" using mv by auto
    then have "map_option fst (map_option (drive_tick (landing_target (eb_pending_targets sys) u)) (switch_drive s u))
        = Some MOVING"
      by (simp only: eb_drives.on_tick_drive [OF wf, of sys n u, unfolded interface_simps])
    then have "switch_position s u = Some MOVING" by (cases "find_switch s u") (auto split: if_splits)
    with assms have "switch_lock s u = Some None" unfolding ebilock_inv_iff by metis
    with on_tick_takes_no_lock [OF wf] show ?thesis
      by (simp only: ebilock_on_tick_eq snd_conv lock_apply_all_released)
  qed
  with wf wf_apply_all show ?thesis by (auto simp: ebilock_inv_iff)
qed

lemma drive_occupancy [simp]:
  "find_switch (apply_track_section_occupancy u occ n s) v = find_switch s v"
  "find_switch (set_current_tick t s) v = find_switch s v"
  by (simp_all add: engine_simps)

lemma wf_occupancy: "wf_state s \<Longrightarrow> wf_state (apply_track_section_occupancy u occ n s)"
  by (simp add: apply_track_section_occupancy_def wf_state_intros)

lemma wf_set_tick: "wf_state s \<Longrightarrow> wf_state (set_current_tick t s)"
  by (simp add: set_current_tick_def wf_state_def)

interpretation ebilock: interlocking ebilock_interface ebilock_inv
  by unfold_locales
    (simp_all add: ebilock_execute_inv ebilock_tick_inv, simp_all add: ebilock_inv_iff wf_occupancy wf_set_tick)

interpretation ml8: interlocking ml8_interface wf_state
  by unfold_locales (auto simp: wf_apply_all wf_occupancy wf_set_tick)

end
