(* ===== verification/Run_Properties.thy ===== *)
theory Run_Properties
  imports Interlocking_Runs
begin

text \<open>
  What follows from the contracts over time: a throw ends in the requested position after the
  machine's running time, an operator throw ends straight whatever it asked for, and the automatic
  release of routes, which works once a train is known to have entered but never learns that.
\<close>

section \<open>Automatic release\<close>

lemma release_route_concerns: "c \<in> set (release_route s n r) \<Longrightarrow> changes_route u c \<Longrightarrow> u = rt_uid r"
  by (auto simp: release_route_def split: if_splits option.splits)

definition released_route :: "EngineState \<Rightarrow> u64 \<Rightarrow> RouteState \<Rightarrow> RouteState option" where
  "released_route s n route =
    (if \<not> rt_train_entered route \<or> \<not> sections_free s (rt_section_uids route) then Some route
     else case rt_overlap_release_tick route of
            None \<Rightarrow> Some (route\<lparr>rt_overlap_release_tick := Some (n + 60 * ENGINE_TICKS_PER_SECOND)\<rparr>)
          | Some t \<Rightarrow> if n < t then Some route else None)"

lemma unlock_switches_no_route: "list_all (\<lambda>c. \<not> changes_route v c) (map (\<lambda>u. SwitchUnlocked u r) us)"
  by (simp add: list_all_iff)

lemma release_route_effect:
  assumes "find_route t (rt_uid route) = Some route"
  shows "find_route (apply_all t (release_route s n route)) (rt_uid route) = released_route s n route"
  using assms
  by (auto simp: release_route_def released_route_def route_apply_all_frame [OF unlock_switches_no_route]
      engine_simps split: option.splits)

lemma release_routes_effect:
  assumes "distinct (map rt_uid routes)" and "route \<in> set routes" and "find_route t (rt_uid route) = Some route"
  shows "find_route (apply_all t (concat (map (release_route s n) routes))) (rt_uid route) = released_route s n route"
  using assms
proof (induction routes arbitrary: t)
  case Nil
  then show ?case by simp
next
  case (Cons x routes)
  have frame: "list_all (\<lambda>c. \<not> changes_route (rt_uid route) c) (release_route s n y)"
    if "rt_uid y \<noteq> rt_uid route" for y
    using that release_route_concerns by (fastforce simp: list_all_iff)
  show ?case
  proof (cases "x = route")
    case True
    with Cons.prems(1) have "list_all (\<lambda>c. \<not> changes_route (rt_uid route) c) (concat (map (release_route s n) routes))"
      using release_route_concerns by (fastforce simp: list_all_iff)
    with True Cons.prems(3) show ?thesis by (simp add: route_apply_all_frame release_route_effect)
  next
    case False
    with Cons.prems have "route \<in> set routes" "rt_uid x \<noteq> rt_uid route" by (auto simp: image_iff)
    with Cons.IH [of "apply_all t (release_route s n x)"] Cons.prems frame [of x] show ?thesis
      by (simp add: route_apply_all_frame)
  qed
qed

lemma wf_state_route_uids: "wf_state s \<Longrightarrow> distinct (map rt_uid (for_each_route s))"
proof -
  assume "wf_state s"
  then have wf: "um_wf (es_routes s)" and key: "um_keyed rt_uid (es_routes s)"
    by (simp_all add: wf_state_def)
  have "map rt_uid (um_values (es_routes s)) = um_keys (es_routes s)"
    using key by (auto simp: um_keyed_def um_values_def um_keys_def list_all_iff)
  with wf show ?thesis by (simp add: for_each_route_def um_wf_def)
qed

section \<open>No rule records that a train entered\<close>

definition no_train_entered :: "EngineState \<Rightarrow> bool" where
  "no_train_entered s \<longleftrightarrow> wf_state s \<and> list_all (\<lambda>r. \<not> rt_train_entered r) (for_each_route s)"

lemma no_train_entered_iff:
  "no_train_entered s \<longleftrightarrow> wf_state s \<and> (\<forall>u r. find_route s u = Some r \<longrightarrow> \<not> rt_train_entered r)"
proof -
  have "r \<in> set (for_each_route s) \<longleftrightarrow> (\<exists>u. find_route s u = Some r)" if "wf_state s" for r
    using that wf_state_values(2) [OF that, of r]
    by (auto simp: for_each_route_def find_route_def intro: um_find_in_values)
  then show ?thesis by (auto simp: no_train_entered_def list_all_iff)
qed

fun enters_route :: "DeviceStateChange \<Rightarrow> bool" where
  "enters_route (RouteAdded r) \<longleftrightarrow> rt_train_entered r"
| "enters_route _ \<longleftrightarrow> False"

lemma no_train_entered_apply_change:
  assumes "no_train_entered s" and "\<not> enters_route c"
  shows "no_train_entered (apply_change c s)"
proof -
  have "\<not> rt_train_entered r" if "find_route (apply_change c s) u = Some r" for u r
    using that assms unfolding route_apply_change no_train_entered_iff
    by (cases c) (auto split: if_splits)
  with assms(1) show ?thesis by (simp add: no_train_entered_iff wf_apply_change)
qed

lemma no_train_entered_apply_all:
  "no_train_entered s \<Longrightarrow> list_all (\<lambda>c. \<not> enters_route c) cs \<Longrightarrow> no_train_entered (apply_all s cs)"
  by (induction cs arbitrary: s) (simp_all add: no_train_entered_apply_change del: apply_change.simps)

lemma request_enters_no_route: "list_all (\<lambda>c. \<not> enters_route c) (execute_request_route s f t n pol)"
  by (auto simp: execute_request_route_def list_all_iff set_route_switch_def set_route_derailer_def
      route_state_of_def Let_def split: option.splits if_splits)

lemma operator_enters_no_route: "list_all (\<lambda>c. \<not> enters_route c) (execute_operator_command s uid k code n)"
  by (simp add: execute_operator_command_def throw_device_def execute_set_switch_position_def
      execute_set_derailer_position_def confirm_direction_def split: option.split)

lemma ml8_enters_no_route: "list_all (\<lambda>c. \<not> enters_route c) (snd (execute_ml8_command sys s uid k code))"
  by (simp add: execute_ml8_command_def throw_device_def execute_set_switch_position_def
      execute_set_derailer_position_def confirm_direction_def split: option.split)

lemma cancel_enters_no_route: "list_all (\<lambda>c. \<not> enters_route c) (execute_cancel_route s r force)"
  by (auto simp: execute_cancel_route_def relock_derailer_def list_all_iff split: option.splits if_splits)

lemmas execute_enters_no_route = request_enters_no_route operator_enters_no_route ml8_enters_no_route
  cancel_enters_no_route

lemma ebilock_enters_no_route: "list_all (\<lambda>c. \<not> enters_route c) (snd (ebilock_execute_command sys s c))"
  by (cases c) (simp_all add: execute_enters_no_route simple_executes
      execute_set_switch_position_def execute_set_block_direction_def split: option.split Shl12Op.split)

lemma ml8_execute_enters_no_route: "list_all (\<lambda>c. \<not> enters_route c) (snd (ml8_execute_command sys s c))"
  by (cases c) (simp_all add: execute_enters_no_route simple_executes
      execute_set_switch_position_def execute_set_block_direction_def split: option.split Shl12Op.split)

lemma on_tick_enters_no_route:
  "list_all (\<lambda>c. \<not> enters_route c) (snd (tick_switch_machines s pending) @ tick_route_auto_release s n)"
  if "wf_state s"
  using that
  by (auto simp: tick_switch_machines_def fold_switch_machines(1) wf_state_switch_uids list_all_iff
      machine_changes_def tick_switch_machine_def tick_route_auto_release_def release_route_def Let_def
      split: if_splits option.splits)

lemma no_train_entered_occupancy:
  "no_train_entered s \<Longrightarrow> no_train_entered (apply_track_section_occupancy u occ n s)"
  "no_train_entered s \<Longrightarrow> no_train_entered (set_current_tick t s)"
  by (simp_all add: no_train_entered_iff wf_occupancy wf_set_tick) (simp_all add: engine_simps)

interpretation eb_entered: interlocking ebilock_interface no_train_entered
proof unfold_locales
  show "no_train_entered (apply_all s (snd (cs_on_tick ebilock_interface sys s n)))"
    if "no_train_entered s" for s sys n
    using that on_tick_enters_no_route [of s]
    by (simp add: ebilock_on_tick_eq no_train_entered_iff)
      (metis apply_all_simps(3) no_train_entered_apply_all no_train_entered_iff that)
qed (simp_all add: no_train_entered_apply_all ebilock_enters_no_route no_train_entered_occupancy)

interpretation ml_entered: interlocking ml8_interface no_train_entered
proof unfold_locales
  show "no_train_entered (apply_all s (snd (cs_on_tick ml8_interface sys s n)))"
    if "no_train_entered s" for s sys n
    using that on_tick_enters_no_route [of s]
    by (simp add: ml8_on_tick_eq no_train_entered_iff)
      (metis apply_all_simps(3) no_train_entered_apply_all no_train_entered_iff that)
qed (simp_all add: no_train_entered_apply_all ml8_execute_enters_no_route no_train_entered_occupancy)

section \<open>Properties\<close>

text \<open>
  C28.  When nothing but ticks follows an accepted SetSwitchPosition under EbiLock, the switch is under way
  while fewer ticks than the throw time have passed, and from then on it stands in the requested position.
  After any command at all, a switch that is under way with some ticks to go lands after them in its
  recorded target, and straight when none is recorded (so it does after ZWM and ZBM, which record none).
\<close>

theorem ebilock_throw_completes:
  assumes "wf_state s" and "(sys1, cs) = ebilock_execute_command sys s c"
  shows "(\<forall>u p. c = SetSwitchPositionCmd u p \<and> ebilock_check_command s c = None \<and> p \<noteq> MOVING \<and> eb_throw_ticks sys > 0 \<longrightarrow>
      switch_position (snd (idle_ticks k ebilock_interface (sys1, apply_all s cs))) u
        = Some (if int k < eb_throw_ticks sys then MOVING else p)) \<and>
    (\<forall>u n. switch_drive (apply_all s cs) u = Some (MOVING, n) \<and> n > 0 \<and>
        landing_target (eb_pending_targets sys1) u \<noteq> MOVING \<longrightarrow>
      switch_position (snd (idle_ticks k ebilock_interface (sys1, apply_all s cs))) u
        = Some (if int k < n then MOVING else landing_target (eb_pending_targets sys1) u))"
proof -
  have wf: "wf_state (apply_all s cs)" using assms(1) by (rule wf_apply_all)
  have lands: "switch_position (snd (idle_ticks k ebilock_interface (sys1, apply_all s cs))) u
        = Some (if int k < n then MOVING else landing_target (eb_pending_targets sys1) u)"
    if "switch_drive (apply_all s cs) u = Some (MOVING, n)" "n > 0" "landing_target (eb_pending_targets sys1) u \<noteq> MOVING"
    for u n
    using eb_drives.throw_lands [OF wf that(1,2) refl that(3)] .
  have "switch_position (snd (idle_ticks k ebilock_interface (sys1, apply_all s cs))) u
        = Some (if int k < eb_throw_ticks sys then MOVING else p)"
    if c: "c = SetSwitchPositionCmd u p" and check: "ebilock_check_command s c = None" and p: "p \<noteq> MOVING"
      and n: "eb_throw_ticks sys > 0" for u p
  proof -
    from check c obtain sw where sw: "find_switch s u = Some sw"
      by (auto simp: check_set_switch_position_def split: option.splits)
    from assms(2) c n have sys1: "sys1 = sys\<lparr>eb_pending_targets := um_assign u p (eb_pending_targets sys)\<rparr>"
      and cs: "cs = [SwitchPositionChange u MOVING CAUSE_COMMAND (eb_throw_ticks sys)]"
      by (simp_all add: execute_set_switch_position_def)
    from sys1 have "landing_target (eb_pending_targets sys1) u = p" by (simp add: landing_target_def um_simps)
    moreover have "switch_drive (apply_all s cs) u = Some (MOVING, eb_throw_ticks sys)" using sw by (simp add: cs engine_simps)
    ultimately show ?thesis using lands [of u "eb_throw_ticks sys"] n p by (simp only:) simp
  qed
  with lands show ?thesis by blast
qed

theorem ebilock_throw_completes_witness:
  "switch_position (snd (idle_ticks 90 ebilock_interface
     (fst (ebilock_execute_command (make_EbiLockSystem 90) sample_station (SetSwitchPositionCmd 10 DIVERGENT)),
      apply_all sample_station
        (snd (ebilock_execute_command (make_EbiLockSystem 90) sample_station (SetSwitchPositionCmd 10 DIVERGENT)))))) 10
     = Some DIVERGENT"
proof -
  have check: "ebilock_check_command sample_station (SetSwitchPositionCmd 10 DIVERGENT) = None"
    by (simp add: check_set_switch_position_def sample_find_switch) (simp add: sample_switch_def)
  show ?thesis
    using ebilock_throw_completes [OF wf_sample_station, of _ _ "make_EbiLockSystem 90" "SetSwitchPositionCmd 10 DIVERGENT" 90]
      check by (simp add: make_EbiLockSystem_def)
qed

text \<open>
  The operator command ZWM, which asks for the divergent position, is accepted and starts the
  machine but records no target: after the throw time the switch stands straight.
\<close>

theorem operator_zwm_lands_straight:
  assumes "wf_state s" and "find_switch s u = Some sw" and "sw_occupancy sw = FREE"
    and "sw_locked_by_route_uid sw = None" and "sw_position sw \<noteq> MOVING"
    and "um_find (eb_pending_targets sys) u = None" and "eb_throw_ticks sys = n" and "n > 0"
    and "(sys1, cs) = ebilock_execute_command sys s (OperatorCommandCmd u TK_SWITCH OC_ZWM)"
  shows "ebilock_check_command s (OperatorCommandCmd u TK_SWITCH OC_ZWM) = None \<and>
    switch_position (snd (idle_ticks k ebilock_interface (sys1, apply_all s cs))) u
      = Some (if int k < n then MOVING else STRAIGHT)"
proof
  show "ebilock_check_command s (OperatorCommandCmd u TK_SWITCH OC_ZWM) = None"
    using assms(2-5) by (simp add: check_operator_command_def target_exists_def)
  from assms(2,7-9) have eq: "sys1 = sys"
    "cs = [OperatorCommandStateChange u TK_SWITCH OC_ZWM True, SwitchPositionChange u MOVING CAUSE_COMMAND n]"
    by (simp_all add: execute_operator_command_def throw_device_def execute_set_switch_position_def)
  have "landing_target (eb_pending_targets sys1) u = STRAIGHT"
    using assms(6) by (simp add: eq landing_target_def)
  moreover have "switch_drive (apply_all s cs) u = Some (MOVING, n)"
    using assms(2) by (simp add: eq engine_simps)
  moreover have "wf_state (apply_all s cs)" using assms(1) by (rule wf_apply_all)
  ultimately show "switch_position (snd (idle_ticks k ebilock_interface (sys1, apply_all s cs))) u
      = Some (if int k < n then MOVING else STRAIGHT)"
    using eb_drives.throw_lands assms(8) by blast
qed

theorem operator_zwm_lands_straight_witness:
  "switch_position (snd (idle_ticks 90 ebilock_interface
     (fst (ebilock_execute_command (make_EbiLockSystem 90) sample_station (OperatorCommandCmd 10 TK_SWITCH OC_ZWM)),
      apply_all sample_station
        (snd (ebilock_execute_command (make_EbiLockSystem 90) sample_station
          (OperatorCommandCmd 10 TK_SWITCH OC_ZWM)))))) 10 = Some STRAIGHT"
  using operator_zwm_lands_straight [OF wf_sample_station, of 10 "sample_switch 10 1 2 3"
      "make_EbiLockSystem 90" 90 _ _ 90]
  by (simp add: make_EbiLockSystem_def sample_find_switch) (simp add: sample_switch_def)

text \<open>
  The automatic release follows the overlap rule: nothing happens to a route before a train
  has entered it and all its sections are free; then the 60 second timer starts, and the first tick
  at or after its end removes the route.
\<close>

theorem auto_release_follows_timer:
  assumes "wf_state s" and "find_route s r = Some route"
  shows "find_route (apply_all s (tick_route_auto_release s n)) r =
    (if \<not> rt_train_entered route \<or> \<not> sections_free s (rt_section_uids route) then Some route
     else case rt_overlap_release_tick route of
            None \<Rightarrow> Some (route\<lparr>rt_overlap_release_tick := Some (n + 1200)\<rparr>)
          | Some t \<Rightarrow> if n < t then Some route else None)"
proof -
  from assms have uid: "rt_uid route = r" by (rule wf_state_keys)
  with assms have "route \<in> set (for_each_route s)" by (simp add: wf_state_values)
  from release_routes_effect [OF wf_state_route_uids [OF assms(1)] this, of s s n] assms(2) uid
  have "find_route (apply_all s (tick_route_auto_release s n)) r = released_route s n route"
    by (simp add: tick_route_auto_release_def)
  then show ?thesis by (simp add: released_route_def ENGINE_TICKS_PER_SECOND_def cong: option.case_cong)
qed

theorem auto_release_follows_timer_witness:
  "find_route (apply_all sample_routed (tick_route_auto_release sample_routed 8)) sample_route_uid =
   find_route sample_routed sample_route_uid"
proof -
  have "wf_state sample_routed" unfolding sample_routed_def by (rule wf_apply_all [OF wf_sample_station])
  from auto_release_follows_timer [OF this routed_find_route, of 8] show ?thesis
    by (simp add: routed_find_route)
qed

lemma sample_no_train_entered: "no_train_entered sample_station"
  by (simp add: no_train_entered_iff wf_sample_station sample_find_none)

end
