(* ===== verification/Command_Queues.thy ===== *)
theory Command_Queues
  imports Types "HOL-Library.Multiset"
begin

text \<open>
  The two queues between the threads: \<^verbatim>\<open>PriorityCommandQueue\<close>
  (\<^verbatim>\<open>engine/include/engine/core/priority_command_queue.hpp\<close>, four FIFO buckets) and
  \<^verbatim>\<open>EventQueue\<close> (\<^verbatim>\<open>engine/include/engine/core/event_queue.hpp\<close>).
  Every operation holds the mutex from start to end, so a run of the queue is a sequence of
  operations, whichever threads call them.  \<^verbatim>\<open>push\<close> on a closed queue throws; a
  blocking pop that has to wait is \<open>None\<close>.  The locale \<open>channel\<close> is what the
  consumers of both queues rely on.
\<close>

datatype queue_error = QueueClosed string

section \<open>PriorityCommandQueue\<close>

record 'a PriorityCommandQueue =
  pq_buckets :: "'a list list"
  pq_closed :: bool

definition kBucketCount :: nat where
  "kBucketCount = priority_index PRIO_BACKGROUND + 1"

definition pq_new :: "'a PriorityCommandQueue" where
  "pq_new = \<lparr>pq_buckets = replicate kBucketCount [], pq_closed = False\<rparr>"

definition pq_push ::
    "'a \<Rightarrow> CommandPriority \<Rightarrow> 'a PriorityCommandQueue \<Rightarrow> queue_error + 'a PriorityCommandQueue" where
  "pq_push item priority q =
    (let idx = priority_index priority
     in if pq_closed q then Inl (QueueClosed ''PriorityCommandQueue::push: queue is closed'')
        else Inr (q\<lparr>pq_buckets := (pq_buckets q)[idx := pq_buckets q ! idx @ [item]]\<rparr>))"

fun pop_highest_locked :: "'a list list \<Rightarrow> 'a option \<times> 'a list list" where
  "pop_highest_locked [] = (None, [])"
| "pop_highest_locked ((x # b) # bs) = (Some x, b # bs)"
| "pop_highest_locked ([] # bs) = (let (r, bs') = pop_highest_locked bs in (r, [] # bs'))"

definition has_items_locked :: "'a list list \<Rightarrow> bool" where
  "has_items_locked bs \<longleftrightarrow> list_ex (\<lambda>b. b \<noteq> []) bs"

definition pq_try_pop :: "'a PriorityCommandQueue \<Rightarrow> 'a option \<times> 'a PriorityCommandQueue" where
  "pq_try_pop q = (let (r, bs) = pop_highest_locked (pq_buckets q) in (r, q\<lparr>pq_buckets := bs\<rparr>))"

definition pq_wait_and_pop ::
    "'a PriorityCommandQueue \<Rightarrow> ('a option \<times> 'a PriorityCommandQueue) option" where
  "pq_wait_and_pop q =
    (if has_items_locked (pq_buckets q) \<or> pq_closed q then Some (pq_try_pop q) else None)"

definition pq_close :: "'a PriorityCommandQueue \<Rightarrow> 'a PriorityCommandQueue" where
  "pq_close q = q\<lparr>pq_closed := True\<rparr>"

definition pq_size :: "'a PriorityCommandQueue \<Rightarrow> nat" where
  "pq_size q = sum_list (map length (pq_buckets q))"

definition pq_empty :: "'a PriorityCommandQueue \<Rightarrow> bool" where
  "pq_empty q \<longleftrightarrow> \<not> has_items_locked (pq_buckets q)"

section \<open>EventQueue\<close>

record 'a EventQueue =
  eq_queue :: "'a list"
  eq_closed :: bool

definition eq_new :: "'a EventQueue" where
  "eq_new = \<lparr>eq_queue = [], eq_closed = False\<rparr>"

definition eq_push :: "'a \<Rightarrow> 'a EventQueue \<Rightarrow> queue_error + 'a EventQueue" where
  "eq_push item q =
    (if eq_closed q then Inl (QueueClosed ''EventQueue::push: queue is closed'')
     else Inr (q\<lparr>eq_queue := eq_queue q @ [item]\<rparr>))"

definition eq_try_pop :: "'a EventQueue \<Rightarrow> 'a option \<times> 'a EventQueue" where
  "eq_try_pop q =
    (case eq_queue q of [] \<Rightarrow> (None, q) | x # xs \<Rightarrow> (Some x, q\<lparr>eq_queue := xs\<rparr>))"

definition eq_wait_and_pop :: "'a EventQueue \<Rightarrow> ('a option \<times> 'a EventQueue) option" where
  "eq_wait_and_pop q = (if eq_queue q \<noteq> [] \<or> eq_closed q then Some (eq_try_pop q) else None)"

definition eq_close :: "'a EventQueue \<Rightarrow> 'a EventQueue" where
  "eq_close q = q\<lparr>eq_closed := True\<rparr>"

section \<open>The consumer's view\<close>

text \<open>The loop both consumers run: pop until the queue is empty or \<open>n\<close> items are taken.\<close>

fun pop_upto :: "('q \<Rightarrow> 'a option \<times> 'q) \<Rightarrow> nat \<Rightarrow> 'q \<Rightarrow> 'a list \<times> 'q" where
  "pop_upto pop 0 q = ([], q)"
| "pop_upto pop (Suc n) q =
     (case pop q of (None, q') \<Rightarrow> ([], q')
      | (Some x, q') \<Rightarrow> (let (xs, q'') = pop_upto pop n q' in (x # xs, q'')))"

locale channel =
  fixes try_pop :: "'q \<Rightarrow> 'a option \<times> 'q" and wait_and_pop :: "'q \<Rightarrow> ('a option \<times> 'q) option"
    and close :: "'q \<Rightarrow> 'q" and contents :: "'q \<Rightarrow> 'a list" and closed :: "'q \<Rightarrow> bool"
  assumes pop_empty: "contents q = [] \<Longrightarrow> try_pop q = (None, q)"
    and pop_head: "contents q = x # xs \<Longrightarrow>
      \<exists>q'. try_pop q = (Some x, q') \<and> contents q' = xs \<and> closed q' = closed q"
    and wait_blocks: "wait_and_pop q =
      (if contents q = [] \<and> \<not> closed q then None else Some (try_pop q))"
    and close_keeps: "contents (close q) = contents q" "closed (close q)"
begin

lemma pop_upto_take:
  "fst (pop_upto try_pop n q) = take n (contents q) \<and>
   contents (snd (pop_upto try_pop n q)) = drop n (contents q) \<and>
   closed (snd (pop_upto try_pop n q)) = closed q"
proof (induction n arbitrary: q)
  case 0
  show ?case by simp
next
  case (Suc n)
  show ?case
  proof (cases "contents q")
    case Nil
    then show ?thesis by (simp add: pop_empty)
  next
    case (Cons x xs)
    then obtain q' where "try_pop q = (Some x, q')" "contents q' = xs" "closed q' = closed q"
      using pop_head by blast
    with Suc.IH [of q'] Cons show ?thesis by (auto split: prod.splits)
  qed
qed

lemma closed_queue_drains:
  "wait_and_pop (close q) = Some (try_pop (close q)) \<and>
   fst (pop_upto try_pop n (close q)) = take n (contents q)"
  using pop_upto_take [of n "close q"] by (simp add: wait_blocks close_keeps)

end

lemma pop_highest_empty: "concat bs = [] \<Longrightarrow> pop_highest_locked bs = (None, bs)"
  by (induction bs rule: pop_highest_locked.induct) auto

lemma pop_highest_head:
  "concat bs = x # xs \<Longrightarrow> \<exists>bs'. pop_highest_locked bs = (Some x, bs') \<and> concat bs' = xs \<and> length bs' = length bs"
  by (induction bs rule: pop_highest_locked.induct) (auto split: prod.splits)

lemma has_items_iff: "has_items_locked bs \<longleftrightarrow> concat bs \<noteq> []"
  by (induction bs) (auto simp: has_items_locked_def)

interpretation pq: channel pq_try_pop pq_wait_and_pop pq_close "\<lambda>q. concat (pq_buckets q)" pq_closed
proof unfold_locales
  fix q :: "'a PriorityCommandQueue" and x xs
  assume "concat (pq_buckets q) = x # xs"
  from pop_highest_head [OF this]
  show "\<exists>q'. pq_try_pop q = (Some x, q') \<and> concat (pq_buckets q') = xs \<and> pq_closed q' = pq_closed q"
    by (auto simp: pq_try_pop_def)
qed (auto simp: pq_try_pop_def pop_highest_empty pq_wait_and_pop_def has_items_iff pq_close_def)

interpretation eq: channel eq_try_pop eq_wait_and_pop eq_close eq_queue eq_closed
  by unfold_locales (auto simp: eq_try_pop_def eq_wait_and_pop_def eq_close_def split: list.splits)

section \<open>The specification of the priority queue\<close>

text \<open>
  Seen from outside, the queue is the list of the waiting commands in the order of arrival; a pop
  takes the earliest command of the most urgent priority that is waiting.
\<close>

type_synonym 'a waiting = "('a \<times> CommandPriority) list"

fun take_first :: "('b \<Rightarrow> bool) \<Rightarrow> 'b list \<Rightarrow> 'b option \<times> 'b list" where
  "take_first P [] = (None, [])"
| "take_first P (x # xs) =
     (if P x then (Some x, xs) else let (r, ys) = take_first P xs in (r, x # ys))"

definition spec_pop :: "'a waiting \<Rightarrow> 'a option \<times> 'a waiting" where
  "spec_pop xs =
    (let (r, ys) = take_first (\<lambda>x. list_all (\<lambda>y. snd x \<le> snd y) xs) xs in (map_option fst r, ys))"

datatype 'a queue_op = Push 'a CommandPriority | TryPop | Close

datatype 'a queue_result = Pushed | Rejected queue_error | Popped "'a option" | Closed

fun pq_step :: "'a queue_op \<Rightarrow> 'a PriorityCommandQueue \<Rightarrow> 'a queue_result \<times> 'a PriorityCommandQueue" where
  "pq_step (Push x p) q = (case pq_push x p q of Inl e \<Rightarrow> (Rejected e, q) | Inr q' \<Rightarrow> (Pushed, q'))"
| "pq_step TryPop q = (let (r, q') = pq_try_pop q in (Popped r, q'))"
| "pq_step Close q = (Closed, pq_close q)"

fun spec_step :: "'a queue_op \<Rightarrow> 'a waiting \<times> bool \<Rightarrow> 'a queue_result \<times> 'a waiting \<times> bool" where
  "spec_step (Push x p) (xs, cl) =
     (if cl then (Rejected (QueueClosed ''PriorityCommandQueue::push: queue is closed''), xs, cl)
      else (Pushed, xs @ [(x, p)], cl))"
| "spec_step TryPop (xs, cl) = (let (r, ys) = spec_pop xs in (Popped r, ys, cl))"
| "spec_step Close (xs, cl) = (Closed, xs, True)"

fun run_ops :: "('op \<Rightarrow> 's \<Rightarrow> 'r \<times> 's) \<Rightarrow> 'op list \<Rightarrow> 's \<Rightarrow> 'r list" where
  "run_ops step [] s = []"
| "run_ops step (op # ops) s = (let (r, s') = step op s in r # run_ops step ops s')"

text \<open>The buckets hold the waiting commands of each priority, in their order.\<close>

definition bucket_of :: "'a waiting \<Rightarrow> CommandPriority \<Rightarrow> 'a list" where
  "bucket_of xs p = map fst (filter (\<lambda>x. snd x = p) xs)"

definition buckets_of :: "'a waiting \<Rightarrow> 'a list list" where
  "buckets_of xs = map (bucket_of xs) [PRIO_EMERGENCY, PRIO_SAFETY, PRIO_NORMAL, PRIO_BACKGROUND]"

definition pq_refines :: "'a PriorityCommandQueue \<Rightarrow> 'a waiting \<times> bool \<Rightarrow> bool" where
  "pq_refines q st \<longleftrightarrow> pq_buckets q = buckets_of (fst st) \<and> pq_closed q = snd st"

lemma take_first_bucket:
  "take_first P xs = (Some x, ys) \<Longrightarrow> (\<And>y. y \<in> set xs \<Longrightarrow> P y \<longleftrightarrow> snd y = p) \<Longrightarrow>
     P x \<and> bucket_of xs p = fst x # bucket_of ys p \<and> (\<forall>r. r \<noteq> p \<longrightarrow> bucket_of ys r = bucket_of xs r)"
proof (induction xs arbitrary: ys)
  case Nil
  then show ?case by simp
next
  case (Cons y xs)
  show ?case
  proof (cases "P y")
    case True
    with Cons.prems show ?thesis by (auto simp: bucket_of_def)
  next
    case False
    then obtain zs where "take_first P xs = (Some x, zs)" "ys = y # zs"
      using Cons.prems(1) by (auto split: prod.splits)
    with Cons.IH [of zs] Cons.prems(2) False show ?thesis by (auto simp: bucket_of_def)
  qed
qed

lemma take_first_None: "take_first P xs = (None, ys) \<Longrightarrow> (\<forall>x \<in> set xs. \<not> P x) \<and> ys = xs"
  by (induction xs arbitrary: ys) (auto split: if_splits prod.splits)

lemma spec_pop_buckets:
  assumes "xs \<noteq> []"
  obtains p x ys where "\<forall>y \<in> set xs. p \<le> snd y" "spec_pop xs = (Some x, ys)" "bucket_of xs p = x # bucket_of ys p"
    "\<forall>r. r \<noteq> p \<longrightarrow> bucket_of ys r = bucket_of xs r"
proof -
  let ?P = "\<lambda>x. list_all (\<lambda>y. snd x \<le> snd y) xs"
  define p where "p = Min (snd ` set xs)"
  have p: "p \<in> snd ` set xs" "\<And>y. y \<in> set xs \<Longrightarrow> p \<le> snd y"
    using assms by (auto simp: p_def)
  have P: "?P y \<longleftrightarrow> snd y = p" if "y \<in> set xs" for y
  proof
    from p(1) obtain z where "z \<in> set xs" "snd z = p" by blast
    moreover assume "?P y"
    ultimately have "snd y \<le> p" by (auto simp: list_all_iff)
    with p(2) [OF that] show "snd y = p" by simp
  qed (simp add: list_all_iff p(2))
  obtain r ys where t: "take_first ?P xs = (r, ys)" by (cases "take_first ?P xs")
  from p(1) obtain z where "z \<in> set xs" "?P z" using P by blast
  with t take_first_None [of ?P xs ys] obtain x where r: "r = Some x" by (cases r) blast+
  have "bucket_of xs p = fst x # bucket_of ys p \<and> (\<forall>r. r \<noteq> p \<longrightarrow> bucket_of ys r = bucket_of xs r)"
    using take_first_bucket [OF t [unfolded r] P] by blast
  moreover have "spec_pop xs = (Some (fst x), ys)" using t r by (simp add: spec_pop_def)
  ultimately show thesis using that p(2) by blast
qed

lemma least_bucket_pop:
  assumes "\<forall>y \<in> set xs. p \<le> snd y" and "bucket_of xs p = x # b"
    and "\<forall>r. bucket_of ys r = (if r = p then b else bucket_of xs r)"
  shows "pop_highest_locked (buckets_of xs) = (Some x, buckets_of ys)"
proof -
  have "bucket_of xs r = []" if "r < p" for r
    using assms(1) that by (auto simp: bucket_of_def filter_empty_conv)
  then show ?thesis using assms(2,3)
    by (cases p) (auto simp: buckets_of_def less_CommandPriority_def)
qed

lemma buckets_of_Nil: "pop_highest_locked (buckets_of []) = (None, buckets_of [])"
  by (simp add: buckets_of_def bucket_of_def)

lemma buckets_of_push:
  "(buckets_of xs)[priority_index p := buckets_of xs ! priority_index p @ [x]] = buckets_of (xs @ [(x, p)])"
  by (cases p) (simp_all add: buckets_of_def bucket_of_def numeral_2_eq_2 numeral_3_eq_3)

lemma pq_pop_refines:
  assumes "pq_refines q (xs, c)"
  shows "\<exists>r ys q'. pq_try_pop q = (r, q') \<and> spec_pop xs = (r, ys) \<and> pq_refines q' (ys, c)"
proof (cases "xs = []")
  case True
  with assms show ?thesis
    by (auto simp: pq_refines_def pq_try_pop_def buckets_of_Nil spec_pop_def)
next
  case False
  obtain p x ys where *: "\<forall>y \<in> set xs. p \<le> snd y" "spec_pop xs = (Some x, ys)"
    "bucket_of xs p = x # bucket_of ys p" "\<forall>r. r \<noteq> p \<longrightarrow> bucket_of ys r = bucket_of xs r"
    by (rule spec_pop_buckets [OF False]) blast
  have "pop_highest_locked (buckets_of xs) = (Some x, buckets_of ys)"
    using * by (intro least_bucket_pop [of xs p x "bucket_of ys p"]) auto
  with * assms show ?thesis by (auto simp: pq_refines_def pq_try_pop_def)
qed

lemma pq_step_refines:
  assumes "pq_refines q st"
  shows "\<exists>r q' st'. pq_step op q = (r, q') \<and> spec_step op st = (r, st') \<and> pq_refines q' st'"
proof -
  obtain xs c where st: "st = (xs, c)" by (cases st)
  show ?thesis
  proof (cases op)
    case (Push x p)
    with assms st show ?thesis by (auto simp: pq_refines_def pq_push_def buckets_of_push Let_def)
  next
    case TryPop
    with assms st pq_pop_refines [of q xs c] show ?thesis by auto
  next
    case Close
    with assms st show ?thesis by (auto simp: pq_refines_def pq_close_def)
  qed
qed

lemma pq_new_refines: "pq_refines pq_new ([], False)"
  by (simp add: pq_refines_def pq_new_def kBucketCount_def buckets_of_def bucket_of_def numeral_eq_Suc)

section \<open>Properties\<close>

text \<open>
  C30.  Whatever sequence of pushes, pops and closes the threads produce, the four buckets give the
  same answers as the specification: every pop returns the earliest waiting command of the most
  urgent waiting priority, nothing is lost or invented, and a push after close is refused.
\<close>

theorem priority_queue_refines_spec: "run_ops pq_step ops pq_new = run_ops spec_step ops ([], False)"
proof -
  have "run_ops pq_step ops q = run_ops spec_step ops st" if "pq_refines q st" for q st
    using that
  proof (induction ops arbitrary: q st)
    case Nil
    show ?case by simp
  next
    case (Cons op ops)
    obtain r q' st' where "pq_step op q = (r, q')" "spec_step op st = (r, st')" "pq_refines q' st'"
      using pq_step_refines [OF Cons.prems] by blast
    with Cons.IH [of q' st'] show ?case by simp
  qed
  with pq_new_refines show ?thesis by blast
qed

lemma concat_buckets_sort: "concat (buckets_of xs) = map fst (sort_key snd xs)"
proof -
  let ?ps = "[PRIO_EMERGENCY, PRIO_SAFETY, PRIO_NORMAL, PRIO_BACKGROUND]"
  let ?ys = "concat (map (\<lambda>p. filter (\<lambda>x. snd x = p) xs) ?ps)"
  have "sort_key snd xs = ?ys"
  proof (rule properties_for_sort_key)
    show "mset ?ys = mset xs"
    proof (induction xs)
      case Nil
      show ?case by simp
    next
      case (Cons x xs)
      then show ?case by (cases "snd x") auto
    qed
    show "filter (\<lambda>x. snd k = snd x) ?ys = filter (\<lambda>x. snd k = snd x) xs" for k
      by (cases "snd k") (auto simp: filter_empty_conv intro: filter_cong)
    show "sorted (map snd ?ys)"
    proof -
      have "sorted (map snd (filter (\<lambda>x. snd x = p) xs))" for p by (induction xs) auto
      then show ?thesis by (auto simp: sorted_append less_eq_CommandPriority_def)
    qed
  qed
  then show ?thesis by (simp add: buckets_of_def bucket_of_def)
qed

text \<open>
  The engine's drain of at most \<open>n\<close> commands per tick returns the first \<open>n\<close>
  of the waiting commands sorted by priority, stably: within one priority in the order of arrival.
\<close>

theorem drain_is_stable_sort:
  assumes "pq_refines q (xs, c)"
  shows "fst (pop_upto pq_try_pop n q) = take n (map fst (sort_key snd xs))"
  using pq.pop_upto_take [of n q] assms by (simp add: pq_refines_def concat_buckets_sort)

theorem drain_is_stable_sort_witness:
  "fst (pop_upto pq_try_pop 64 \<lparr>pq_buckets = [[3], [], [1, 2 :: nat], []], pq_closed = False\<rparr>) = [3, 1, 2]"
proof -
  have "pq_refines \<lparr>pq_buckets = [[3], [], [1, 2 :: nat], []], pq_closed = False\<rparr>
      ([(1, PRIO_NORMAL), (3, PRIO_EMERGENCY), (2, PRIO_NORMAL)], False)"
    by (simp add: pq_refines_def buckets_of_def bucket_of_def)
  from drain_is_stable_sort [OF this, of 64] show ?thesis
    by (simp add: less_eq_CommandPriority_def)
qed

end
