(* ===== verification/Floats.thy ===== *)
theory Floats
  imports Prelude
begin

text \<open>
  Floating point arithmetic.  \<open>fp p q\<close> rounds a real number to the nearest number with a significand
  of \<open>p\<close> bits and smallest exponent \<open>- q\<close>, ties to even: it halves the magnitude until the
  significand fits and rounds it to an integer.  \<open>f32\<close> and \<open>f64\<close> are the single and double
  precision formats.  A C++ \<^verbatim>\<open>float\<close> is a real number on which every operation applies
  \<open>f32\<close>; infinities and NaN are not modelled for it, and the theorems about quotients assume a
  non-zero divisor.  A \<^verbatim>\<open>double\<close> of the panel geometry is a value of the type \<open>double\<close>,
  which has infinities and NaN, because that code tests for them; the sign of zero is left out.  The
  locale \<open>binary_format\<close> proves the laws of every format once, \<open>rounding\<close> collects what the
  other proofs need.
\<close>

section \<open>Rounding\<close>

definition round_half_even :: "real \<Rightarrow> int" where
  "round_half_even x =
    (let n = \<lfloor>x\<rfloor>; d = x - of_int n
     in if d < 1 / 2 then n else if d > 1 / 2 then n + 1 else if even n then n else n + 1)"

function fp_scale :: "nat \<Rightarrow> real \<Rightarrow> int \<Rightarrow> real \<times> int" where
  "fp_scale p y e = (if y < 2 ^ p then (y, e) else fp_scale p (y / 2) (e + 1))"
  by auto

termination
proof (relation "measure (\<lambda>(p, y, e). nat \<lfloor>y\<rfloor>)")
  fix p y e
  assume "\<not> y < (2 :: real) ^ p"
  moreover have "(1 :: real) \<le> 2 ^ p" by simp
  ultimately have "1 \<le> y" by linarith
  then have "1 \<le> \<lfloor>y\<rfloor>" by simp
  moreover have "\<lfloor>y / 2\<rfloor> < \<lfloor>y\<rfloor>" using \<open>1 \<le> y\<close> \<open>1 \<le> \<lfloor>y\<rfloor>\<close> unfolding floor_less_iff by linarith
  ultimately have "nat \<lfloor>y / 2\<rfloor> < nat \<lfloor>y\<rfloor>" by linarith
  then show "((p, y / 2, e + 1), p, y, e) \<in> measure (\<lambda>(p, y, e). nat \<lfloor>y\<rfloor>)" by simp
qed simp

declare fp_scale.simps [simp del]

definition fp_nonneg :: "nat \<Rightarrow> nat \<Rightarrow> real \<Rightarrow> real" where
  "fp_nonneg p q x =
    (let (y, e) = fp_scale p (x * 2 ^ q) (- int q) in of_int (round_half_even y) * 2 powi e)"

definition fp :: "nat \<Rightarrow> nat \<Rightarrow> real \<Rightarrow> real" where
  "fp p q x = (if x < 0 then - fp_nonneg p q (- x) else fp_nonneg p q x)"

definition f32 :: "real \<Rightarrow> real" where
  "f32 x = fp 24 149 x"

definition f64 :: "real \<Rightarrow> real" where
  "f64 x = fp 53 1074 x"

text \<open>The library functions on floats, with their argument order.\<close>

definition std_min :: "real \<Rightarrow> real \<Rightarrow> real" where
  "std_min a b = (if b < a then b else a)"

definition std_max :: "real \<Rightarrow> real \<Rightarrow> real" where
  "std_max a b = (if a < b then b else a)"

definition std_clamp :: "real \<Rightarrow> real \<Rightarrow> real \<Rightarrow> real" where
  "std_clamp v lo hi = (if v < lo then lo else if hi < v then hi else v)"

section \<open>Double precision with infinities\<close>

datatype (plugins only: code size) double = Fin real | PosInf | NegInf | NaN

definition isfinite :: "double \<Rightarrow> bool" where
  "isfinite x = (case x of Fin _ \<Rightarrow> True | _ \<Rightarrow> False)"

text \<open>The result of an operation: rounded, and an infinity when it is out of range.\<close>

definition to_double :: "real \<Rightarrow> double" where
  "to_double x = (let r = f64 x in if r \<ge> 2 ^ 1024 then PosInf else if r \<le> - (2 ^ 1024) then NegInf else Fin r)"

fun d_neg :: "double \<Rightarrow> double" where
  "d_neg (Fin x) = Fin (- x)"
| "d_neg PosInf = NegInf"
| "d_neg NegInf = PosInf"
| "d_neg NaN = NaN"

fun d_add :: "double \<Rightarrow> double \<Rightarrow> double" where
  "d_add (Fin x) (Fin y) = to_double (x + y)"
| "d_add NaN _ = NaN"
| "d_add _ NaN = NaN"
| "d_add PosInf NegInf = NaN"
| "d_add NegInf PosInf = NaN"
| "d_add PosInf _ = PosInf"
| "d_add NegInf _ = NegInf"
| "d_add (Fin _) y = y"

definition d_sub :: "double \<Rightarrow> double \<Rightarrow> double" where
  "d_sub x y = d_add x (d_neg y)"

definition d_inf :: "bool \<Rightarrow> double" where
  "d_inf negative = (if negative then NegInf else PosInf)"

fun d_sgn :: "double \<Rightarrow> real" where
  "d_sgn (Fin x) = sgn x"
| "d_sgn PosInf = 1"
| "d_sgn NegInf = -1"
| "d_sgn NaN = 0"

definition d_mul :: "double \<Rightarrow> double \<Rightarrow> double" where
  "d_mul x y =
    (case (x, y) of (Fin a, Fin b) \<Rightarrow> to_double (a * b)
     | _ \<Rightarrow> if d_sgn x * d_sgn y = 0 then NaN else d_inf (d_sgn x * d_sgn y < 0))"

definition d_div :: "double \<Rightarrow> double \<Rightarrow> double" where
  "d_div x y =
    (case (x, y) of
       (Fin a, Fin b) \<Rightarrow> if b = 0 then (if a = 0 then NaN else d_inf (a < 0)) else to_double (a / b)
     | (Fin _, NaN) \<Rightarrow> NaN
     | (Fin _, _) \<Rightarrow> Fin 0
     | (NaN, _) \<Rightarrow> NaN
     | (_, Fin b) \<Rightarrow> d_inf ((d_sgn x < 0) \<noteq> (b < 0))
     | _ \<Rightarrow> NaN)"

fun d_less :: "double \<Rightarrow> double \<Rightarrow> bool" where
  "d_less (Fin x) (Fin y) \<longleftrightarrow> x < y"
| "d_less (Fin _) PosInf \<longleftrightarrow> True"
| "d_less NegInf (Fin _) \<longleftrightarrow> True"
| "d_less NegInf PosInf \<longleftrightarrow> True"
| "d_less _ _ \<longleftrightarrow> False"

definition d_le :: "double \<Rightarrow> double \<Rightarrow> bool" where
  "d_le x y \<longleftrightarrow> d_less x y \<or> (x = y \<and> x \<noteq> NaN)"

definition d_clamp :: "double \<Rightarrow> double \<Rightarrow> double \<Rightarrow> double" where
  "d_clamp v lo hi = (if d_less v lo then lo else if d_less hi v then hi else v)"

definition d_hypot :: "double \<Rightarrow> double \<Rightarrow> double" where
  "d_hypot x y =
    (case (x, y) of
       (Fin a, Fin b) \<Rightarrow> to_double (sqrt (a * a + b * b))
     | _ \<Rightarrow> if x \<in> {PosInf, NegInf} \<or> y \<in> {PosInf, NegInf} then PosInf else NaN)"

section \<open>Rounding to an integer\<close>

lemma round_half_even_int [simp]: "round_half_even (of_int n) = n"
  by (simp add: round_half_even_def)

lemma round_half_even_numeral [simp]:
  "round_half_even 0 = 0" "round_half_even (numeral k) = numeral k"
  using round_half_even_int [of 0] round_half_even_int [of "numeral k"] by simp_all

lemma round_half_even_bounds: "\<lfloor>x\<rfloor> \<le> round_half_even x" "round_half_even x \<le> \<lfloor>x\<rfloor> + 1"
  by (simp_all add: round_half_even_def Let_def)

lemma round_half_even_mono: "x \<le> y \<Longrightarrow> round_half_even x \<le> round_half_even y"
proof -
  assume le: "x \<le> y"
  show ?thesis
  proof (cases "\<lfloor>x\<rfloor> = \<lfloor>y\<rfloor>")
    case True
    with le show ?thesis by (auto simp: round_half_even_def Let_def)
  next
    case False
    with le have "\<lfloor>x\<rfloor> + 1 \<le> \<lfloor>y\<rfloor>" by linarith
    with round_half_even_bounds(2) [of x] round_half_even_bounds(1) [of y] show ?thesis by linarith
  qed
qed

section \<open>Laws of rounding\<close>

locale rounding =
  fixes rnd :: "real \<Rightarrow> real"
  assumes rnd_mono: "x \<le> y \<Longrightarrow> rnd x \<le> rnd y" and rnd_idem: "rnd (rnd x) = rnd x"
    and rnd_zero: "rnd 0 = 0"
begin

lemma rnd_nonneg: "0 \<le> x \<Longrightarrow> 0 \<le> rnd x"
  using rnd_mono [of 0 x] by (simp add: rnd_zero)

lemma rnd_nonpos: "x \<le> 0 \<Longrightarrow> rnd x \<le> 0"
  using rnd_mono [of x 0] by (simp add: rnd_zero)

lemma rnd_add_ge: "rnd x = x \<Longrightarrow> 0 \<le> y \<Longrightarrow> x \<le> rnd (x + y)"
  using rnd_mono [of x "x + y"] by simp

lemma rnd_le: "x \<le> y \<Longrightarrow> rnd y = y \<Longrightarrow> rnd x \<le> y"
  using rnd_mono [of x y] by simp

lemma rnd_diff_nonneg: "y \<le> x \<Longrightarrow> 0 \<le> rnd (x - y)"
  by (rule rnd_nonneg) simp

end

section \<open>The laws of a format\<close>

lemma powi_step: "e < e' \<Longrightarrow> 2 * (2 :: real) powi e \<le> 2 powi e'"
  using power_int_increasing [of "e + 1" e' "2 :: real"] power_int_add [of "2 :: real" e 1] by simp

lemma half_precision: "1 \<le> p \<Longrightarrow> 2 * (2 :: 'a :: comm_semiring_1) ^ (p - 1) = 2 ^ p"
  by (metis le_add_diff_inverse plus_1_eq_Suc power_Suc)

lemma fp_scale_spec:
  assumes "fp_scale p y e = (y', e')" and "0 \<le> y" and "1 \<le> p"
  shows "e \<le> e' \<and> y = y' * 2 powi (e' - e) \<and> 0 \<le> y' \<and> y' < 2 ^ p \<and> (e' = e \<or> 2 ^ (p - 1) \<le> y')"
  using assms
proof (induction p y e rule: fp_scale.induct)
  case (1 p y e)
  show ?case
  proof (cases "y < 2 ^ p")
    case True
    with "1.prems" show ?thesis by (simp add: fp_scale.simps [of p y])
  next
    case False
    with "1.prems" have rec: "fp_scale p (y / 2) (e + 1) = (y', e')" by (simp add: fp_scale.simps [of p y])
    from "1.IH" [OF False this] "1.prems"(2,3) have ih: "e + 1 \<le> e'" "y / 2 = y' * 2 powi (e' - (e + 1))"
      "0 \<le> y'" "y' < 2 ^ p" "e' = e + 1 \<or> 2 ^ (p - 1) \<le> y'" by auto
    have "(2 :: real) powi (e' - e) = 2 * 2 powi (e' - (e + 1))"
      using power_int_add [of "2 :: real" "e' - (e + 1)" 1] by (simp add: algebra_simps)
    with ih(2) have "y = y' * 2 powi (e' - e)" by simp
    moreover have "2 ^ (p - 1) \<le> y'" if "e' = e + 1"
      using ih(2) that False half_precision [OF "1.prems"(3), where 'a = real] by simp
    ultimately show ?thesis using ih by auto
  qed
qed

locale binary_format =
  fixes p q :: nat
  assumes precision: "1 \<le> p"
begin

lemmas half = half_precision [OF precision, where 'a = real]

lemma round_half_even_power [simp]: "round_half_even (2 ^ n) = 2 ^ n"
  using round_half_even_int [of "2 ^ n"] by simp

lemma powi_half:
  assumes "e < k"
  shows "2 ^ p * (2 :: real) powi e \<le> 2 ^ (p - 1) * 2 powi k"
proof -
  have "2 ^ p * (2 :: real) powi e = 2 ^ (p - 1) * (2 * 2 powi e)" using half by simp
  also have "\<dots> \<le> 2 ^ (p - 1) * 2 powi k" by (rule mult_left_mono [OF powi_step [OF assms]]) simp
  finally show ?thesis .
qed

text \<open>Every non-negative number, its significand and its exponent.\<close>

lemma fp_decompose:
  assumes "0 \<le> x"
  obtains m e where "x = m * 2 powi e" "- int q \<le> e" "0 \<le> m" "m < 2 ^ p" "e = - int q \<or> 2 ^ (p - 1) \<le> m"
    "fp_nonneg p q x = of_int (round_half_even m) * 2 powi e"
proof -
  obtain m e where s: "fp_scale p (x * 2 ^ q) (- int q) = (m, e)" by (cases "fp_scale p (x * 2 ^ q) (- int q)")
  from fp_scale_spec [OF s _ precision] assms have *: "- int q \<le> e" "x * 2 ^ q = m * 2 powi (e + int q)" "0 \<le> m" "m < 2 ^ p"
    "e = - int q \<or> 2 ^ (p - 1) \<le> m" by auto
  have "(2 :: real) powi (e + int q) = 2 powi e * 2 ^ q"
    using power_int_add [of "2 :: real" e "int q"] by simp
  with *(2) have "x = m * 2 powi e" by simp
  with that * s show thesis by (simp add: fp_nonneg_def)
qed

lemma fp_nonneg_mono:
  assumes "0 \<le> x" and "x \<le> y"
  shows "fp_nonneg p q x \<le> fp_nonneg p q y"
proof -
  obtain m e where x: "x = m * 2 powi e" "0 \<le> m" "m < 2 ^ p" "e = - int q \<or> 2 ^ (p - 1) \<le> m" "- int q \<le> e"
    "fp_nonneg p q x = of_int (round_half_even m) * 2 powi e"
    by (rule fp_decompose [OF assms(1)]) blast
  from assms have "0 \<le> y" by simp
  then obtain n k where y: "y = n * 2 powi k" "0 \<le> n" "n < 2 ^ p" "k = - int q \<or> 2 ^ (p - 1) \<le> n" "- int q \<le> k"
    "fp_nonneg p q y = of_int (round_half_even n) * 2 powi k"
    by (rule fp_decompose) blast
  consider "e = k" | "e < k" | "k < e" by linarith
  then show ?thesis
  proof cases
    case 1
    with assms(2) x y have "m \<le> n" by simp
    with 1 x y round_half_even_mono show ?thesis by simp
  next
    case 2
    have m: "round_half_even m \<le> 2 ^ p" using round_half_even_mono [of m "of_int (2 ^ p)"] x(3) by simp
    have "2 ^ (p - 1) \<le> n" using 2 x(5) y(4) by auto
    with round_half_even_mono [of "of_int (2 ^ (p - 1))" n] have n: "2 ^ (p - 1) \<le> round_half_even n" by simp
    have "of_int (round_half_even m) * 2 powi e \<le> (2 ^ p :: real) * 2 powi e"
      using m by (intro mult_right_mono) simp_all
    also have "\<dots> \<le> 2 ^ (p - 1) * 2 powi k" by (rule powi_half [OF 2])
    also have "\<dots> \<le> of_int (round_half_even n) * 2 powi k" using n by (intro mult_right_mono) simp_all
    finally show ?thesis using x y by simp
  next
    case 3
    have "2 ^ (p - 1) \<le> m" using 3 x(4) y(5) by auto
    have "n * 2 powi k < 2 ^ p * 2 powi k" using y(3) by simp
    also have "\<dots> \<le> 2 ^ (p - 1) * 2 powi e" by (rule powi_half [OF 3])
    also have "\<dots> \<le> m * 2 powi e" using \<open>2 ^ (p - 1) \<le> m\<close> by (intro mult_right_mono) simp_all
    finally have False using assms(2) x(1) y(1) by simp
    then show ?thesis ..
  qed
qed

lemma fp_nonneg_zero [simp]: "fp_nonneg p q 0 = 0"
proof -
  have "fp_scale p 0 (- int q) = (0, - int q)" by (simp add: fp_scale.simps)
  then show ?thesis by (simp add: fp_nonneg_def)
qed

lemma fp_nonneg_representable:
  assumes "0 \<le> m" and "m \<le> 2 ^ p" and "- int q \<le> e"
  shows "fp_nonneg p q (of_int m * 2 powi e) = of_int m * 2 powi e"
proof -
  let ?x = "of_int m * 2 powi e :: real"
  have "0 \<le> ?x" using assms(1) by simp
  then obtain n k where n: "?x = n * 2 powi k" "n < 2 ^ p" "k = - int q \<or> 2 ^ (p - 1) \<le> n"
    "fp_nonneg p q ?x = of_int (round_half_even n) * 2 powi k" by (rule fp_decompose) blast
  have "\<exists>j :: int. n = of_int j"
  proof (cases "k \<le> e")
    case True
    have "n * 2 powi k = of_int m * (2 powi (e - k) * 2 powi k)"
      using n(1) by (simp add: power_int_diff)
    then have "n = of_int m * 2 powi (e - k)" by simp
    also have "2 powi (e - k) = (of_int (2 ^ nat (e - k)) :: real)" using True by (simp add: power_int_def)
    finally have "n = of_int (m * 2 ^ nat (e - k))" by simp
    then show ?thesis by blast
  next
    case False
    then have k: "2 ^ (p - 1) \<le> n" "e < k" using n(3) assms(3) by auto
    have "of_int m * 2 powi e \<le> (2 ^ p :: real) * 2 powi e"
      using assms(2) by (intro mult_right_mono) simp_all
    also have "\<dots> \<le> 2 ^ (p - 1) * 2 powi k" by (rule powi_half [OF k(2)])
    finally have "n * 2 powi k \<le> 2 ^ (p - 1) * 2 powi k" using n(1) by simp
    then have "n \<le> 2 ^ (p - 1)" by simp
    with k(1) have "n = of_int (2 ^ (p - 1))" by simp
    then show ?thesis by blast
  qed
  then obtain j :: int where "n = of_int j" by blast
  with n(1,4) show ?thesis by simp
qed

lemma fp_nonneg_ge: "0 \<le> x \<Longrightarrow> 0 \<le> fp_nonneg p q x"
  using fp_nonneg_mono [of 0 x] by simp

lemma fp_nonneg_idem:
  assumes "0 \<le> x"
  shows "fp_nonneg p q (fp_nonneg p q x) = fp_nonneg p q x"
proof -
  obtain m e where x: "0 \<le> m" "m < 2 ^ p" "- int q \<le> e"
    "fp_nonneg p q x = of_int (round_half_even m) * 2 powi e"
    by (rule fp_decompose [OF assms]) blast
  have "0 \<le> round_half_even m" using round_half_even_mono [of "of_int 0" m] x(1) by simp
  moreover have "round_half_even m \<le> 2 ^ p" using round_half_even_mono [of m "of_int (2 ^ p)"] x(2) by simp
  ultimately show ?thesis using fp_nonneg_representable x(3,4) by simp
qed


lemma fp_mono:
  assumes "x \<le> y"
  shows "fp p q x \<le> fp p q y"
proof -
  consider "0 \<le> x" | "x < 0" "0 \<le> y" | "y < 0" by linarith
  then show ?thesis
  proof cases
    case 1
    with assms show ?thesis by (simp add: fp_def fp_nonneg_mono)
  next
    case 2
    then have "fp p q x \<le> 0" "0 \<le> fp p q y" using fp_nonneg_ge [of "- x"] fp_nonneg_ge [of y]
      by (simp_all add: fp_def)
    then show ?thesis by simp
  next
    case 3
    with assms show ?thesis using fp_nonneg_mono [of "- y" "- x"] by (simp add: fp_def)
  qed
qed

lemma fp_idem: "fp p q (fp p q x) = fp p q x"
proof (cases "x < 0")
  case True
  then show ?thesis using fp_nonneg_ge [of "- x"] fp_nonneg_idem [of "- x"]
    by (cases "fp_nonneg p q (- x) = 0") (simp_all add: fp_def)
next
  case False
  then show ?thesis using fp_nonneg_ge [of x] fp_nonneg_idem [of x] by (simp add: fp_def)
qed

lemma fp_representable:
  assumes "\<bar>m\<bar> \<le> 2 ^ p" and "- int q \<le> e"
  shows "fp p q (of_int m * 2 powi e) = of_int m * 2 powi e"
proof (cases "m < 0")
  case True
  then have "of_int m * (2 :: real) powi e < 0" by (simp add: mult_neg_pos)
  with True assms fp_nonneg_representable [of "- m" e] show ?thesis by (simp add: fp_def)
next
  case False
  then have "\<not> of_int m * (2 :: real) powi e < 0" by (simp add: not_less)
  with False assms fp_nonneg_representable [of m e] show ?thesis by (simp add: fp_def)
qed

lemma fp_of_int: "\<bar>m\<bar> \<le> 2 ^ p \<Longrightarrow> fp p q (of_int m) = of_int m"
  using fp_representable [of m 0] by simp

text \<open>A number in the normal range is rounded at its last bit.\<close>

lemma fp_normal:
  assumes "2 ^ (p - 1) \<le> m" and "m < 2 ^ p" and "- int q \<le> e"
  shows "fp p q (m * 2 powi e) = of_int (round_half_even m) * 2 powi e"
proof -
  have "(0 :: real) < 2 ^ (p - 1)" by simp
  with assms(1) have m: "0 < m" by linarith
  then have pos: "0 \<le> m * 2 powi e" by simp
  then obtain n k where n: "m * 2 powi e = n * 2 powi k" "- int q \<le> k" "n < 2 ^ p" "k = - int q \<or> 2 ^ (p - 1) \<le> n"
    "fp_nonneg p q (m * 2 powi e) = of_int (round_half_even n) * 2 powi k" by (rule fp_decompose) blast
  have "\<not> e < k"
  proof
    assume "e < k"
    then have "2 ^ (p - 1) \<le> n" using n(4) assms(3) by auto
    have "m * 2 powi e < 2 ^ p * 2 powi e" using assms(2) by simp
    also have "\<dots> \<le> 2 ^ (p - 1) * 2 powi k" by (rule powi_half [OF \<open>e < k\<close>])
    also have "\<dots> \<le> n * 2 powi k" using \<open>2 ^ (p - 1) \<le> n\<close> by (intro mult_right_mono) simp_all
    finally show False using n(1) by simp
  qed
  moreover have "\<not> k < e"
  proof
    assume "k < e"
    have "n * 2 powi k < 2 ^ p * 2 powi k" using n(3) by simp
    also have "\<dots> \<le> 2 ^ (p - 1) * 2 powi e" by (rule powi_half [OF \<open>k < e\<close>])
    also have "\<dots> \<le> m * 2 powi e" using assms(1) by (intro mult_right_mono) simp_all
    finally show False using n(1) by simp
  qed
  ultimately have "k = e" by simp
  then have "m = n" using n(1) by simp
  with n(5) pos \<open>k = e\<close> show ?thesis by (simp add: fp_def not_less)
qed

text \<open>The smallest positive number of the format is not lost, and none below it remains.\<close>

lemma fp_tiny: "fp p q (2 powi (- int q)) = 2 powi (- int q)"
  using fp_representable [of 1 "- int q"] by simp

lemma fp_positive: "2 powi (- int q) \<le> x \<Longrightarrow> 0 < fp p q x"
  using fp_mono [of "2 powi (- int q)" x] by (simp add: fp_tiny less_le_trans [of 0 "2 powi (- int q)"])

lemma fp_gap:
  assumes "0 < fp p q x"
  shows "2 powi (- int q) \<le> fp p q x"
proof -
  have x: "0 \<le> x" using assms fp_nonneg_ge [of "- x"] by (cases "x < 0") (simp_all add: fp_def)
  then obtain m e where m: "- int q \<le> e" "fp_nonneg p q x = of_int (round_half_even m) * 2 powi e"
    by (rule fp_decompose) blast
  have "0 < fp_nonneg p q x" using assms x by (simp add: fp_def)
  with m(2) have "0 < of_int (round_half_even m) * (2 :: real) powi e" by simp
  then have "0 < (of_int (round_half_even m) :: real)" by (rule zero_less_mult_pos2) simp
  then have "0 < round_half_even m" by simp
  then have "(1 :: real) \<le> of_int (round_half_even m)" by simp
  with m(1) have "1 * 2 powi (- int q) \<le> of_int (round_half_even m) * (2 powi e :: real)"
    by (intro mult_mono power_int_increasing) simp_all
  with m(2) x show ?thesis by (simp add: fp_def)
qed

end

sublocale binary_format \<subseteq> rounding "fp p q"
  by unfold_locales (simp_all add: fp_mono fp_idem, simp add: fp_def)

interpretation single: binary_format 24 149
  by unfold_locales simp

interpretation double: binary_format 53 1074
  by unfold_locales simp

lemma f32_fp: "f32 = fp 24 149"
  by (rule ext) (simp add: f32_def)

lemma f64_fp: "f64 = fp 53 1074"
  by (rule ext) (simp add: f64_def)

interpretation f32: rounding f32
  unfolding f32_fp by (rule single.rounding_axioms)

interpretation f64: rounding f64
  unfolding f64_fp by (rule double.rounding_axioms)

lemma f32_of_int: "\<bar>m\<bar> \<le> 2 ^ 24 \<Longrightarrow> f32 (of_int m) = of_int m"
  by (simp add: f32_fp single.fp_of_int)

section \<open>Lengths in double precision\<close>

text \<open>A non-negative double that is not NaN: what \<^verbatim>\<open>hypot\<close> and sums of lengths give.\<close>

definition d_length :: "double \<Rightarrow> bool" where
  "d_length x \<longleftrightarrow> (case x of Fin r \<Rightarrow> 0 \<le> r \<and> f64 r = r | PosInf \<Rightarrow> True | _ \<Rightarrow> False)"

lemma to_double_length: "0 \<le> x \<Longrightarrow> d_length (to_double x)"
  using f64.rnd_nonneg [of x] by (simp add: to_double_def d_length_def Let_def f64.rnd_idem)

lemma d_hypot_length: "isfinite x \<Longrightarrow> isfinite y \<Longrightarrow> d_length (d_hypot x y)"
  by (cases x; cases y) (simp_all add: isfinite_def d_hypot_def to_double_length)

lemma d_add_length: "d_length x \<Longrightarrow> d_length y \<Longrightarrow> d_length (d_add x y)"
  by (cases x; cases y) (simp_all add: d_length_def to_double_length [unfolded d_length_def])

lemma d_add_positive:
  assumes "d_length x" and "d_length y" and "d_less (Fin 0) x \<or> d_less (Fin 0) y"
  shows "d_less (Fin 0) (d_add x y)"
proof (cases x; cases y)
  fix a b
  assume xy: "x = Fin a" "y = Fin b"
  with assms have ab: "0 \<le> a" "0 \<le> b" "f64 a = a" "f64 b = b" "0 < a \<or> 0 < b" by (auto simp: d_length_def)
  then have "0 < f64 (a + b)"
    using f64.rnd_mono [of a "a + b"] f64.rnd_mono [of b "a + b"] by auto
  with xy show ?thesis by (simp add: to_double_def Let_def)
qed (use assms in \<open>simp_all add: d_length_def\<close>)

end
