(* ===== verification/Train_Physics.thy ===== *)
theory Train_Physics
  imports Types Floats
begin

text \<open>
  Longitudinal train dynamics and the driver automaton,
  \<^verbatim>\<open>engine/include/engine/physics/physics_model.hpp\<close> and
  \<^verbatim>\<open>engine/include/engine/physics/driver_ai.hpp\<close>.  Every arithmetic operation of
  the source is one application of \<open>f32\<close>; literals that are not representable are rounded
  too.
\<close>

section \<open>PhysicsModel\<close>

record TrainPhysicsParams =
  pp_total_mass_t :: real
  pp_max_traction_kn :: real
  pp_max_speed_ms :: real
  pp_davis_A :: real
  pp_davis_B :: real
  pp_davis_C :: real

record TrainPhysicsState =
  ps_position_m :: real
  ps_velocity_ms :: real
  ps_accel_ms2 :: real
  ps_traction_kn :: real
  ps_brake_kn :: real

definition kmh_per_ms :: real where
  "kmh_per_ms = f32 3.6"

definition davis_resistance :: "TrainPhysicsParams \<Rightarrow> real \<Rightarrow> real" where
  "davis_resistance p v_ms =
    (let v_kmh = f32 (v_ms * kmh_per_ms)
     in f32 (f32 (pp_davis_A p + f32 (pp_davis_B p * v_kmh)) + f32 (f32 (pp_davis_C p * v_kmh) * v_kmh)))"

definition braking_distance :: "TrainPhysicsParams \<Rightarrow> TrainPhysicsState \<Rightarrow> real" where
  "braking_distance p s =
    (let mass_kg = f32 (pp_total_mass_t p * 1000); brake_n = f32 (ps_brake_kn s * 1000)
     in if brake_n \<le> 0 \<or> mass_kg \<le> 0 then 1000000000
        else let a_brake_ms2 = f32 (brake_n / mass_kg)
             in f32 (f32 (ps_velocity_ms s * ps_velocity_ms s) / f32 (2 * a_brake_ms2)))"

definition integrate :: "TrainPhysicsParams \<Rightarrow> TrainPhysicsState \<Rightarrow> real \<Rightarrow> TrainPhysicsState" where
  "integrate p s dt_s =
    (let mass_kg = f32 (pp_total_mass_t p * 1000);
         f_traction = f32 (std_min (ps_traction_kn s) (pp_max_traction_kn p) * 1000);
         f_brake = f32 (ps_brake_kn s * 1000);
         f_resist = davis_resistance p (ps_velocity_ms s);
         f_net0 = f32 (f32 (f_traction - f_resist) - f_brake);
         f_net = (if ps_velocity_ms s \<le> 0 \<and> f_net0 < 0 then 0 else f_net0);
         accel = f32 (f_net / mass_kg);
         v_new = std_clamp (f32 (ps_velocity_ms s + f32 (accel * dt_s))) 0 (pp_max_speed_ms p);
         v_avg = f32 (1 / 2 * f32 (ps_velocity_ms s + v_new))
     in s\<lparr>ps_position_m := f32 (ps_position_m s + f32 (v_avg * dt_s)), ps_velocity_ms := v_new,
          ps_accel_ms2 := accel\<rparr>)"

definition brake_decel_from_lambda :: "real \<Rightarrow> real" where
  "brake_decel_from_lambda lambda_pct =
     std_clamp (f32 (f32 (f32 (lambda_pct / 100) * f32 9.81) * f32 0.85)) (f32 0.3) 8"

definition max_brake_kn :: "TrainPhysicsParams \<Rightarrow> real \<Rightarrow> real" where
  "max_brake_kn p lambda_pct = f32 (brake_decel_from_lambda lambda_pct * pp_total_mass_t p)"

record VehiclePhysicsContrib =
  vc_mass_t :: real
  vc_traction_kn :: real
  vc_max_speed_ms :: real
  vc_davis_a :: real
  vc_davis_b :: real
  vc_davis_c :: real

definition add_vehicle :: "VehiclePhysicsContrib \<Rightarrow> TrainPhysicsParams \<Rightarrow> TrainPhysicsParams" where
  "add_vehicle v p =
     \<lparr>pp_total_mass_t = f32 (pp_total_mass_t p + vc_mass_t v),
      pp_max_traction_kn = f32 (pp_max_traction_kn p + vc_traction_kn v),
      pp_max_speed_ms = std_min (pp_max_speed_ms p) (vc_max_speed_ms v),
      pp_davis_A = f32 (pp_davis_A p + f32 (vc_davis_a v * vc_mass_t v)),
      pp_davis_B = f32 (pp_davis_B p + f32 (vc_davis_b v * vc_mass_t v)),
      pp_davis_C = f32 (pp_davis_C p + f32 (vc_davis_c v * vc_mass_t v))\<rparr>"

definition build_train_params :: "VehiclePhysicsContrib list \<Rightarrow> TrainPhysicsParams" where
  "build_train_params vehicles =
    (let p = fold add_vehicle vehicles
               \<lparr>pp_total_mass_t = 0, pp_max_traction_kn = 0, pp_max_speed_ms = 999, pp_davis_A = 0,
                pp_davis_B = 0, pp_davis_C = 0\<rparr>
     in if pp_max_speed_ms p \<ge> 999 then p\<lparr>pp_max_speed_ms := 0\<rparr> else p)"

section \<open>DriverAI\<close>

datatype DriverState = STOPPED | ACCELERATING | CRUISING | BRAKING

record DriverInput =
  di_aspect :: SignalAspect
  di_distance_to_signal_m :: real
  di_target_speed_ms :: real
  di_max_brake_kn :: real
  di_next_aspect :: SignalAspect
  di_distance_to_next_signal_m :: real

record DriverOutput =
  do_traction_kn :: real
  do_brake_kn :: real
  do_state :: DriverState

definition kmh :: "real \<Rightarrow> real" where
  "kmh v = f32 (v / kmh_per_ms)"

fun aspect_speed_ms :: "SignalAspect \<Rightarrow> real" where
  "aspect_speed_ms S1_STOP = 0"
| "aspect_speed_ms S2_PROCEED = 999"
| "aspect_speed_ms S3_PROCEED_40 = kmh 40"
| "aspect_speed_ms S4_PROCEED_40_EXPECT_STOP = kmh 40"
| "aspect_speed_ms S5_EXPECT_STOP = 999"
| "aspect_speed_ms S6_PROCEED_100 = kmh 100"
| "aspect_speed_ms S7_PROCEED_100_EXPECT_STOP = kmh 100"
| "aspect_speed_ms S8_PROCEED_100_EXPECT_40 = kmh 100"
| "aspect_speed_ms S9_PROCEED_100_EXPECT_60 = kmh 100"
| "aspect_speed_ms S10_PROCEED_40 = kmh 40"
| "aspect_speed_ms S11_PROCEED_40_EXPECT_40 = kmh 40"
| "aspect_speed_ms S12_PROCEED_60 = kmh 60"
| "aspect_speed_ms S13_PROCEED_60_EXPECT_60 = kmh 60"
| "aspect_speed_ms MS2_SHUNTING_ALLOWED = kmh 40"
| "aspect_speed_ms _ = 0"

definition is_stop_aspect :: "SignalAspect \<Rightarrow> bool" where
  "is_stop_aspect asp \<longleftrightarrow> asp = S1_STOP"

fun expected_next_speed_ms :: "SignalAspect \<Rightarrow> real" where
  "expected_next_speed_ms S4_PROCEED_40_EXPECT_STOP = 0"
| "expected_next_speed_ms S5_EXPECT_STOP = 0"
| "expected_next_speed_ms S7_PROCEED_100_EXPECT_STOP = 0"
| "expected_next_speed_ms S8_PROCEED_100_EXPECT_40 = kmh 40"
| "expected_next_speed_ms S11_PROCEED_40_EXPECT_40 = kmh 40"
| "expected_next_speed_ms S9_PROCEED_100_EXPECT_60 = kmh 60"
| "expected_next_speed_ms S13_PROCEED_60_EXPECT_60 = kmh 60"
| "expected_next_speed_ms _ = 999"

definition kBrakingMargin :: real where "kBrakingMargin = f32 1.10"
definition kSpeedBandMs :: real where "kSpeedBandMs = 1 / 2"
definition kStoppedThresholdMs :: real where "kStoppedThresholdMs = f32 0.05"

definition braking_distance_to_speed ::
    "TrainPhysicsParams \<Rightarrow> TrainPhysicsState \<Rightarrow> real \<Rightarrow> real \<Rightarrow> real" where
  "braking_distance_to_speed p s brake_kn target_speed_ms =
    (let mass_kg = f32 (pp_total_mass_t p * 1000); brake_n = f32 (brake_kn * 1000)
     in if mass_kg \<le> 0 \<or> brake_n \<le> 0 then 1000000000
        else let v = std_max 0 (ps_velocity_ms s); v_target = std_max 0 target_speed_ms
             in if v \<le> v_target then 0
                else let a_brake = f32 (brake_n / mass_kg)
                     in f32 (f32 (f32 (v * v) - f32 (v_target * v_target)) / f32 (2 * a_brake)))"

text \<open>The transition part of \<^verbatim>\<open>DriverAI::tick\<close>.\<close>

definition driver_transition ::
    "DriverState \<Rightarrow> TrainPhysicsParams \<Rightarrow> TrainPhysicsState \<Rightarrow> DriverInput \<Rightarrow> DriverState" where
  "driver_transition prev_state p s inp =
    (let signal_vmax = aspect_speed_ms (di_aspect inp);
         eff_vmax_ms = std_min signal_vmax (di_target_speed_ms inp);
         must_stop = is_stop_aspect (di_aspect inp);
         movement_vmax_ms = (if must_stop then di_target_speed_ms inp else eff_vmax_ms);
         d_stop = f32 (braking_distance p (s\<lparr>ps_brake_kn := di_max_brake_kn inp\<rparr>) * kBrakingMargin);
         expected_next_vmax_ms = expected_next_speed_ms (di_next_aspect inp);
         has_advisory_limit = expected_next_vmax_ms < 998;
         d_to_advisory_speed =
           f32 (braking_distance_to_speed p s (di_max_brake_kn inp) expected_next_vmax_ms * kBrakingMargin);
         v = ps_velocity_ms s;
         advisory_brake_now = (has_advisory_limit \<and> v > f32 (expected_next_vmax_ms + kSpeedBandMs) \<and>
           d_to_advisory_speed \<ge> di_distance_to_next_signal_m inp)
     in if must_stop then
          (if v \<le> kStoppedThresholdMs then STOPPED
           else if d_stop \<ge> di_distance_to_signal_m inp then BRAKING
           else if v \<ge> f32 (movement_vmax_ms - kSpeedBandMs) then CRUISING else ACCELERATING)
        else if advisory_brake_now then BRAKING
        else if v \<le> kStoppedThresholdMs \<and> prev_state = STOPPED then
          (if movement_vmax_ms > kStoppedThresholdMs then ACCELERATING else prev_state)
        else if prev_state = STOPPED \<and> movement_vmax_ms > kStoppedThresholdMs then ACCELERATING
        else if prev_state = ACCELERATING then
          (if v \<ge> f32 (movement_vmax_ms - kSpeedBandMs) then CRUISING else prev_state)
        else if prev_state = CRUISING then
          (if v > f32 (movement_vmax_ms + kSpeedBandMs) then BRAKING
           else if v < f32 (movement_vmax_ms - f32 (kSpeedBandMs * 2)) then ACCELERATING
           else prev_state)
        else if prev_state = BRAKING then
          (if v \<le> kStoppedThresholdMs \<and> must_stop then STOPPED
           else if \<not> must_stop then
             (if has_advisory_limit \<and> v > f32 (expected_next_vmax_ms + kSpeedBandMs) then BRAKING
              else if v \<le> f32 (movement_vmax_ms - kSpeedBandMs) then CRUISING
              else prev_state)
           else prev_state)
        else prev_state)"

definition driver_tick ::
    "DriverState \<Rightarrow> TrainPhysicsParams \<Rightarrow> TrainPhysicsState \<Rightarrow> DriverInput \<Rightarrow> DriverOutput" where
  "driver_tick prev_state p s inp =
    (let new_state = driver_transition prev_state p s inp
     in case new_state of
          STOPPED \<Rightarrow> \<lparr>do_traction_kn = 0, do_brake_kn = di_max_brake_kn inp, do_state = new_state\<rparr>
        | ACCELERATING \<Rightarrow>
            \<lparr>do_traction_kn = pp_max_traction_kn p, do_brake_kn = 0, do_state = new_state\<rparr>
        | CRUISING \<Rightarrow>
            \<lparr>do_traction_kn =
               std_min (f32 (davis_resistance p (ps_velocity_ms s) / 1000)) (pp_max_traction_kn p),
             do_brake_kn = 0, do_state = new_state\<rparr>
        | BRAKING \<Rightarrow> \<lparr>do_traction_kn = 0, do_brake_kn = di_max_brake_kn inp, do_state = new_state\<rparr>)"

section \<open>Properties\<close>

lemma clamp_bounds: "lo \<le> hi \<Longrightarrow> lo \<le> std_clamp v lo hi \<and> std_clamp v lo hi \<le> hi"
  by (simp add: std_clamp_def)

lemma integrate_velocity:
  "0 \<le> pp_max_speed_ms p \<Longrightarrow>
     0 \<le> ps_velocity_ms (integrate p s dt) \<and> ps_velocity_ms (integrate p s dt) \<le> pp_max_speed_ms p"
  using clamp_bounds [of 0 "pp_max_speed_ms p"] by (simp add: integrate_def Let_def)

text \<open>No step moves the train backwards, whatever forces act on it and whatever the rounding does.\<close>

lemma integrate_forward:
  assumes "0 \<le> pp_max_speed_ms p" and "0 \<le> ps_velocity_ms s" and "0 \<le> dt"
    and "f32 (ps_position_m s) = ps_position_m s"
  shows "ps_position_m s \<le> ps_position_m (integrate p s dt)"
proof -
  define v where "v = ps_velocity_ms (integrate p s dt)"
  have "0 \<le> v" using integrate_velocity [OF assms(1)] by (simp add: v_def)
  have "ps_position_m (integrate p s dt) =
      f32 (ps_position_m s + f32 (f32 (1 / 2 * f32 (ps_velocity_ms s + v)) * dt))"
    by (simp add: v_def integrate_def Let_def)
  moreover have "0 \<le> f32 (f32 (1 / 2 * f32 (ps_velocity_ms s + v)) * dt)"
    using \<open>0 \<le> v\<close> assms(2,3) by (intro f32.rnd_nonneg mult_nonneg_nonneg) simp_all
  ultimately show ?thesis using f32.rnd_add_ge [OF assms(4)] by simp
qed

definition sample_params :: TrainPhysicsParams where
  "sample_params = \<lparr>pp_total_mass_t = 100, pp_max_traction_kn = 200, pp_max_speed_ms = 30,
     pp_davis_A = 0, pp_davis_B = 0, pp_davis_C = 0\<rparr>"

definition sample_physics :: "real \<Rightarrow> real \<Rightarrow> TrainPhysicsState" where
  "sample_physics x v = \<lparr>ps_position_m = x, ps_velocity_ms = v, ps_accel_ms2 = 0, ps_traction_kn = 0,
     ps_brake_kn = 0\<rparr>"

text \<open>
  The driver obeys a stop signal: with S1 ahead and the stopping distance, ten percent margin
  included, reaching the signal, the driver cuts traction and applies the full service brake; and in
  no situation are traction and brake commanded together.
\<close>

theorem driver_obeys_stop:
  assumes "0 \<le> pp_max_traction_kn p"
  shows "(di_aspect inp = S1_STOP \<and>
          f32 (braking_distance p (s\<lparr>ps_brake_kn := di_max_brake_kn inp\<rparr>) * kBrakingMargin)
            \<ge> di_distance_to_signal_m inp \<longrightarrow>
          do_traction_kn (driver_tick prev p s inp) = 0 \<and>
          do_brake_kn (driver_tick prev p s inp) = di_max_brake_kn inp \<and>
          do_state (driver_tick prev p s inp) \<in> {STOPPED, BRAKING}) \<and>
    (do_traction_kn (driver_tick prev p s inp) = 0 \<or> do_brake_kn (driver_tick prev p s inp) = 0) \<and>
    do_traction_kn (driver_tick prev p s inp) \<le> pp_max_traction_kn p"
proof -
  have "driver_transition prev p s inp \<in> {STOPPED, BRAKING}"
    if "di_aspect inp = S1_STOP"
      "f32 (braking_distance p (s\<lparr>ps_brake_kn := di_max_brake_kn inp\<rparr>) * kBrakingMargin)
         \<ge> di_distance_to_signal_m inp"
    using that by (simp add: driver_transition_def is_stop_aspect_def Let_def)
  then show ?thesis
    using assms by (cases "driver_transition prev p s inp") (auto simp: driver_tick_def std_min_def Let_def)
qed

theorem driver_obeys_stop_witness:
  "do_traction_kn (driver_tick CRUISING sample_params (sample_physics 0 0)
     \<lparr>di_aspect = S1_STOP, di_distance_to_signal_m = 0, di_target_speed_ms = 20, di_max_brake_kn = 80,
      di_next_aspect = S2_PROCEED, di_distance_to_next_signal_m = 1000000000\<rparr>) = 0"
proof -
  let ?i = "\<lparr>di_aspect = S1_STOP, di_distance_to_signal_m = 0, di_target_speed_ms = 20, di_max_brake_kn = 80,
      di_next_aspect = S2_PROCEED, di_distance_to_next_signal_m = 1000000000\<rparr>"
  have "0 \<le> braking_distance sample_params ((sample_physics 0 0)\<lparr>ps_brake_kn := 80\<rparr>)"
    by (auto simp: braking_distance_def Let_def sample_physics_def f32.rnd_zero)
  then have "0 \<le> f32 (braking_distance sample_params ((sample_physics 0 0)\<lparr>ps_brake_kn := 80\<rparr>) * kBrakingMargin)"
    by (intro f32.rnd_nonneg mult_nonneg_nonneg) (simp_all add: kBrakingMargin_def f32.rnd_nonneg)
  with driver_obeys_stop [of sample_params ?i "sample_physics 0 0" CRUISING] show ?thesis
    by (simp add: sample_params_def)
qed

end
