(* ===== verification/Train_Sim.thy ===== *)
theory Train_Sim
  imports Train_Physics
begin

text \<open>
  One simulated train, \<^verbatim>\<open>engine/src/train_sim.cpp\<close>, and its construction from a
  consist with the vehicles of \<^verbatim>\<open>engine/include/engine/core/fleet_registry.hpp\<close>.
  The control policy and the integrator are the interfaces of the source, arguments of
  \<open>train_sim_tick_with\<close>; \<open>train_sim_tick\<close> is the tick with the default ones.
\<close>

section \<open>State\<close>

record SectionCrossing =
  sc_from_section_uid :: UID
  sc_to_section_uid :: UID
  sc_overshoot_m :: real

record TrainSimState =
  tr_train_uid :: UID
  tr_current_section_uid :: UID
  tr_physics_params :: TrainPhysicsParams
  tr_physics_state :: TrainPhysicsState
  tr_driver_state :: DriverState
  tr_max_brake_kn :: real
  tr_total_axles :: int
  tr_total_length_m :: real
  tr_vehicle_uids :: "UID list"

record TrainSimTickInput =
  ti_driver_input :: DriverInput
  ti_section_length_m :: real
  ti_next_section_uid :: "UID option"

type_synonym control_policy =
  "DriverState \<Rightarrow> TrainPhysicsParams \<Rightarrow> TrainPhysicsState \<Rightarrow> DriverInput \<Rightarrow> DriverOutput"

type_synonym physics_integrator = "TrainPhysicsParams \<Rightarrow> TrainPhysicsState \<Rightarrow> real \<Rightarrow> TrainPhysicsState"

section \<open>Tick\<close>

definition train_sim_tick_with ::
    "control_policy \<Rightarrow> physics_integrator \<Rightarrow> real \<Rightarrow> TrainSimTickInput \<Rightarrow> TrainSimState \<Rightarrow>
     TrainSimState \<times> SectionCrossing option" where
  "train_sim_tick_with compute step dt_s inp st =
    (let driver_input0 = ti_driver_input inp;
         driver_input = (if di_max_brake_kn driver_input0 \<le> 0
                         then driver_input0\<lparr>di_max_brake_kn := tr_max_brake_kn st\<rparr> else driver_input0);
         control = compute (tr_driver_state st) (tr_physics_params st) (tr_physics_state st) driver_input;
         phys = step (tr_physics_params st)
                  ((tr_physics_state st)\<lparr>ps_traction_kn := do_traction_kn control,
                                         ps_brake_kn := do_brake_kn control\<rparr>) dt_s;
         st' = st\<lparr>tr_physics_state := phys, tr_driver_state := do_state control\<rparr>
     in if ti_section_length_m inp > 0 \<and> ps_position_m phys \<ge> ti_section_length_m inp then
          (let overshoot = f32 (ps_position_m phys - ti_section_length_m inp)
           in case ti_next_section_uid inp of
                Some next_uid \<Rightarrow>
                  (st'\<lparr>tr_current_section_uid := next_uid, tr_physics_state := phys\<lparr>ps_position_m := overshoot\<rparr>\<rparr>,
                   Some \<lparr>sc_from_section_uid = tr_current_section_uid st, sc_to_section_uid = next_uid,
                         sc_overshoot_m = overshoot\<rparr>)
              | None \<Rightarrow>
                  (st'\<lparr>tr_physics_state :=
                        \<lparr>ps_position_m = ti_section_length_m inp, ps_velocity_ms = 0, ps_accel_ms2 = 0,
                         ps_traction_kn = 0, ps_brake_kn = tr_max_brake_kn st\<rparr>,
                       tr_driver_state := STOPPED\<rparr>, None))
        else (st', None))"

definition train_sim_tick ::
    "real \<Rightarrow> TrainSimTickInput \<Rightarrow> TrainSimState \<Rightarrow> TrainSimState \<times> SectionCrossing option" where
  "train_sim_tick = train_sim_tick_with driver_tick integrate"

section \<open>Building a train from a consist\<close>

record DavisCoefficients =
  davis_a :: real
  davis_b :: real
  davis_c :: real

record Vehicle =
  veh_uid :: UID
  veh_pid :: string
  veh_type_uid :: UID
  veh_display_name :: string
  veh_vehicle_type :: string
  veh_vehicle_subtype :: string
  veh_length_m :: real
  veh_axle_count :: int
  veh_mass_empty_t :: real
  veh_effective_mass_t :: real
  veh_max_speed_kmh :: int
  veh_braking_lambda_pct :: int
  veh_power_kw :: "real option"
  veh_traction_force_kn :: "real option"
  veh_traction_capable :: bool
  veh_traction_status :: "TractionStatus option"
  veh_multiple_coupling_capable :: "bool option"
  veh_davis :: DavisCoefficients

record TrainConsist =
  con_uid :: UID
  con_pid :: string
  con_display_name :: string
  con_train_category :: TrainCategory
  con_carrier_id :: "UID option"
  con_vehicle_uids :: "UID list"
  con_total_length_m :: real
  con_total_axles :: int
  con_total_mass_t :: real
  con_consist_lambda_pct :: real
  con_max_speed_kmh :: real
  con_total_traction_kn :: real
  con_total_power_kw :: real

datatype sim_error = InvalidArgument string

definition to_upper_char :: "char \<Rightarrow> char" where
  "to_upper_char c = (let n = of_char c :: nat in if 97 \<le> n \<and> n \<le> 122 then char_of (n - 32) else c)"

definition is_locomotive :: "Vehicle \<Rightarrow> bool" where
  "is_locomotive v \<longleftrightarrow> map to_upper_char (veh_vehicle_type v) = ''LOCOMOTIVE''"

definition is_operational_traction_unit :: "Vehicle \<Rightarrow> bool" where
  "is_operational_traction_unit v \<longleftrightarrow>
     (veh_traction_capable v \<or> veh_traction_force_kn v \<noteq> None \<or> veh_power_kw v \<noteq> None) \<and>
     (veh_traction_status v = None \<or> veh_traction_status v = Some OPERATIONAL)"

definition traction_force :: "Vehicle \<Rightarrow> real" where
  "traction_force v = (case veh_traction_force_kn v of Some f \<Rightarrow> f | None \<Rightarrow> 0)"

definition base_contrib :: "Vehicle \<Rightarrow> VehiclePhysicsContrib" where
  "base_contrib v =
     \<lparr>vc_mass_t = veh_effective_mass_t v,
      vc_traction_kn =
        (if is_operational_traction_unit v \<and> \<not> is_locomotive v then traction_force v else 0),
      vc_max_speed_ms = f32 (f32 (of_int (veh_max_speed_kmh v)) / kmh_per_ms),
      vc_davis_a = davis_a (veh_davis v), vc_davis_b = davis_b (veh_davis v),
      vc_davis_c = davis_c (veh_davis v)\<rparr>"

definition operational_locomotive_indices :: "Vehicle list \<Rightarrow> nat list" where
  "operational_locomotive_indices vehicles =
     filter (\<lambda>i. is_operational_traction_unit (vehicles ! i) \<and> is_locomotive (vehicles ! i))
       [0..<length vehicles]"

definition set_traction ::
    "Vehicle list \<Rightarrow> nat \<Rightarrow> VehiclePhysicsContrib list \<Rightarrow> VehiclePhysicsContrib list" where
  "set_traction vehicles idx contrib =
     contrib[idx := (contrib ! idx)\<lparr>vc_traction_kn := traction_force (vehicles ! idx)\<rparr>]"

definition assign_locomotives ::
    "Vehicle list \<Rightarrow> VehiclePhysicsContrib list \<Rightarrow> VehiclePhysicsContrib list" where
  "assign_locomotives vehicles contrib =
    (case operational_locomotive_indices vehicles of
       [] \<Rightarrow> contrib
     | [idx] \<Rightarrow> set_traction vehicles idx contrib
     | first_idx # rest \<Rightarrow>
         (let same_type = list_all (\<lambda>i. veh_type_uid (vehicles ! i) = veh_type_uid (vehicles ! first_idx))
                            (first_idx # rest);
              coupling_allowed =
                (same_type \<and> veh_multiple_coupling_capable (vehicles ! first_idx) = Some True)
          in if coupling_allowed then fold (set_traction vehicles) (first_idx # rest) contrib
             else set_traction vehicles first_idx contrib))"

definition make_train_sim_state ::
    "TrainConsist \<Rightarrow> Vehicle list \<Rightarrow> UID \<Rightarrow> sim_error + TrainSimState" where
  "make_train_sim_state consist vehicles initial_section_uid =
    (if vehicles = [] then
       Inl (InvalidArgument ''make_train_sim_state requires at least one vehicle'')
     else if length vehicles \<noteq> length (con_vehicle_uids consist) then
       Inl (InvalidArgument ''Vehicle list size must match consist.vehicle_uids size'')
     else
       (let contrib = assign_locomotives vehicles (map base_contrib vehicles);
            params = build_train_params contrib
        in Inr \<lparr>tr_train_uid = con_uid consist, tr_current_section_uid = initial_section_uid,
                tr_physics_params = params,
                tr_physics_state = \<lparr>ps_position_m = 0, ps_velocity_ms = 0, ps_accel_ms2 = 0,
                                    ps_traction_kn = 0, ps_brake_kn = 0\<rparr>,
                tr_driver_state = STOPPED,
                tr_max_brake_kn = max_brake_kn params (con_consist_lambda_pct consist),
                tr_total_axles = con_total_axles consist, tr_total_length_m = con_total_length_m consist,
                tr_vehicle_uids = con_vehicle_uids consist\<rparr>))"

section \<open>A train stays on its section\<close>

text \<open>
  A sound train state.  The mass is positive, so that the integrator's division is defined; a train
  of mass zero would divide by zero, which in C++ gives an infinity or NaN.
\<close>

definition sim_ok :: "TrainSimState \<Rightarrow> bool" where
  "sim_ok st \<longleftrightarrow>
    (let ph = tr_physics_state st
     in f32 (ps_position_m ph) = ps_position_m ph \<and> 0 \<le> ps_position_m ph \<and> 0 \<le> ps_velocity_ms ph \<and>
        0 \<le> pp_max_speed_ms (tr_physics_params st) \<and>
        0 < f32 (pp_total_mass_t (tr_physics_params st) * 1000))"

lemma integrate_ok:
  assumes "0 \<le> pp_max_speed_ms p" and "0 \<le> ps_velocity_ms s" and "0 \<le> dt" and "0 \<le> ps_position_m s"
    and "f32 (ps_position_m s) = ps_position_m s"
  shows "f32 (ps_position_m (integrate p s dt)) = ps_position_m (integrate p s dt)"
    "0 \<le> ps_position_m (integrate p s dt)" "0 \<le> ps_velocity_ms (integrate p s dt)"
    "ps_velocity_ms (integrate p s dt) \<le> pp_max_speed_ms p"
proof -
  show v: "0 \<le> ps_velocity_ms (integrate p s dt)" "ps_velocity_ms (integrate p s dt) \<le> pp_max_speed_ms p"
    using integrate_velocity [OF assms(1)] by simp_all
  show "0 \<le> ps_position_m (integrate p s dt)"
    using integrate_forward [OF assms(1-3,5)] assms(4) by simp
  show "f32 (ps_position_m (integrate p s dt)) = ps_position_m (integrate p s dt)"
    by (simp add: integrate_def Let_def f32.rnd_idem)
qed

lemma tick_cases:
  assumes "train_sim_tick dt inp st = (st', c)"
  obtains (stay) t b ds where
    "st' = st\<lparr>tr_physics_state := integrate (tr_physics_params st)
         ((tr_physics_state st)\<lparr>ps_traction_kn := t, ps_brake_kn := b\<rparr>) dt, tr_driver_state := ds\<rparr>"
    "c = None" "ti_section_length_m inp > 0 \<longrightarrow> ps_position_m (tr_physics_state st') < ti_section_length_m inp"
  | (cross) t b ds n x where
    "ti_next_section_uid inp = Some n"
    "st' = st\<lparr>tr_physics_state := (integrate (tr_physics_params st)
         ((tr_physics_state st)\<lparr>ps_traction_kn := t, ps_brake_kn := b\<rparr>) dt)\<lparr>ps_position_m := f32 (x - ti_section_length_m inp)\<rparr>,
         tr_driver_state := ds, tr_current_section_uid := n\<rparr>"
    "c = Some \<lparr>sc_from_section_uid = tr_current_section_uid st, sc_to_section_uid = n,
        sc_overshoot_m = f32 (x - ti_section_length_m inp)\<rparr>"
    "ti_section_length_m inp \<le> x" "ti_section_length_m inp > 0"
  | (dead_end) "ti_next_section_uid inp = None" "c = None" "ti_section_length_m inp > 0"
    "st' = st\<lparr>tr_physics_state := \<lparr>ps_position_m = ti_section_length_m inp, ps_velocity_ms = 0, ps_accel_ms2 = 0,
         ps_traction_kn = 0, ps_brake_kn = tr_max_brake_kn st\<rparr>, tr_driver_state := STOPPED\<rparr>"
proof -
  define ctl where "ctl = driver_tick (tr_driver_state st) (tr_physics_params st) (tr_physics_state st)
    (if di_max_brake_kn (ti_driver_input inp) \<le> 0
     then (ti_driver_input inp)\<lparr>di_max_brake_kn := tr_max_brake_kn st\<rparr> else ti_driver_input inp)"
  define phys where "phys = integrate (tr_physics_params st)
    ((tr_physics_state st)\<lparr>ps_traction_kn := do_traction_kn ctl, ps_brake_kn := do_brake_kn ctl\<rparr>) dt"
  have tick: "train_sim_tick dt inp st =
    (if ti_section_length_m inp > 0 \<and> ps_position_m phys \<ge> ti_section_length_m inp then
       (case ti_next_section_uid inp of
          Some n \<Rightarrow> (st\<lparr>tr_physics_state := phys\<lparr>ps_position_m := f32 (ps_position_m phys - ti_section_length_m inp)\<rparr>,
                     tr_driver_state := do_state ctl, tr_current_section_uid := n\<rparr>,
                   Some \<lparr>sc_from_section_uid = tr_current_section_uid st, sc_to_section_uid = n,
                     sc_overshoot_m = f32 (ps_position_m phys - ti_section_length_m inp)\<rparr>)
        | None \<Rightarrow> (st\<lparr>tr_physics_state := \<lparr>ps_position_m = ti_section_length_m inp, ps_velocity_ms = 0,
                     ps_accel_ms2 = 0, ps_traction_kn = 0, ps_brake_kn = tr_max_brake_kn st\<rparr>,
                     tr_driver_state := STOPPED\<rparr>, None))
     else (st\<lparr>tr_physics_state := phys, tr_driver_state := do_state ctl\<rparr>, None))"
    by (simp add: train_sim_tick_def train_sim_tick_with_def Let_def ctl_def phys_def split: option.split)
  show thesis
  proof (cases "ti_section_length_m inp > 0 \<and> ps_position_m phys \<ge> ti_section_length_m inp")
    case False
    with assms tick show thesis by (intro stay [where t = "do_traction_kn ctl" and b = "do_brake_kn ctl" and ds = "do_state ctl"])
        (auto simp: phys_def)
  next
    case True
    show thesis
    proof (cases "ti_next_section_uid inp")
      case None
      with True assms tick show thesis by (intro dead_end) auto
    next
      case (Some n)
      with True assms tick show thesis
        by (intro cross [where n = n and t = "do_traction_kn ctl" and b = "do_brake_kn ctl" and
              ds = "do_state ctl" and x = "ps_position_m phys"])
          (auto simp: phys_def)
    qed
  qed
qed

section \<open>Traction of the consist\<close>

definition coupling_allowed :: "Vehicle list \<Rightarrow> bool" where
  "coupling_allowed vehicles \<longleftrightarrow>
    (case operational_locomotive_indices vehicles of
       [] \<Rightarrow> False
     | f # rest \<Rightarrow> list_all (\<lambda>i. veh_type_uid (vehicles ! i) = veh_type_uid (vehicles ! f)) (f # rest) \<and>
         veh_multiple_coupling_capable (vehicles ! f) = Some True)"

lemma fold_set_traction:
  assumes "\<forall>i \<in> set idxs. i < length contrib" and "j < length contrib"
  shows "vc_traction_kn (fold (set_traction vehicles) idxs contrib ! j) =
    (if j \<in> set idxs then traction_force (vehicles ! j) else vc_traction_kn (contrib ! j))"
    and "length (fold (set_traction vehicles) idxs contrib) = length contrib"
  using assms
  by (induction idxs arbitrary: contrib) (auto simp: set_traction_def nth_list_update)

lemma operational_indices:
  "i \<in> set (operational_locomotive_indices vehicles) \<longleftrightarrow>
     i < length vehicles \<and> is_operational_traction_unit (vehicles ! i) \<and> is_locomotive (vehicles ! i)"
  by (auto simp: operational_locomotive_indices_def)

section \<open>Properties\<close>

text \<open>
  C32.  A tick keeps a train on the track: position and speed stay non-negative, and unless the tick
  reports a crossing the train is still within its section, at most at its very end; it reports a
  crossing only into the section it was given, and at a dead end it stands.
\<close>

theorem train_stays_on_section:
  assumes "sim_ok st" and "0 \<le> dt" and "0 < ti_section_length_m inp"
    and "f32 (ti_section_length_m inp) = ti_section_length_m inp" and "train_sim_tick dt inp st = (st', c)"
  shows "sim_ok st' \<and>
    (case c of
       None \<Rightarrow> ps_position_m (tr_physics_state st') \<le> ti_section_length_m inp \<and>
         tr_current_section_uid st' = tr_current_section_uid st
     | Some x \<Rightarrow> ti_next_section_uid inp = Some (sc_to_section_uid x) \<and>
         sc_from_section_uid x = tr_current_section_uid st \<and>
         tr_current_section_uid st' = sc_to_section_uid x)"
  using assms(5)
proof (cases rule: tick_cases)
  case (stay t b ds)
  with integrate_ok [of "tr_physics_params st" "(tr_physics_state st)\<lparr>ps_traction_kn := t, ps_brake_kn := b\<rparr>" dt]
    assms(1-3) show ?thesis by (simp add: sim_ok_def Let_def)
next
  case (cross t b ds n x)
  with integrate_ok [of "tr_physics_params st" "(tr_physics_state st)\<lparr>ps_traction_kn := t, ps_brake_kn := b\<rparr>" dt]
    assms(1,2) show ?thesis by (simp add: sim_ok_def Let_def f32.rnd_idem f32.rnd_diff_nonneg)
next
  case dead_end
  with assms(1,3,4) show ?thesis by (simp add: sim_ok_def Let_def)
qed

definition sample_train :: "UID \<Rightarrow> UID \<Rightarrow> real \<Rightarrow> TrainSimState" where
  "sample_train u sec x =
     \<lparr>tr_train_uid = u, tr_current_section_uid = sec, tr_physics_params = sample_params,
      tr_physics_state = sample_physics x 0, tr_driver_state = STOPPED, tr_max_brake_kn = 80,
      tr_total_axles = 8, tr_total_length_m = 100, tr_vehicle_uids = []\<rparr>"

lemma sample_train_ok: "sim_ok (sample_train u sec 100)"
  using f32_of_int [of 100] f32_of_int [of 100000]
  by (simp add: sim_ok_def sample_train_def sample_physics_def sample_params_def)

definition sample_input :: "SignalAspect \<Rightarrow> UID option \<Rightarrow> TrainSimTickInput" where
  "sample_input a nxt =
     \<lparr>ti_driver_input = \<lparr>di_aspect = a, di_distance_to_signal_m = 0, di_target_speed_ms = 20,
        di_max_brake_kn = 80, di_next_aspect = S2_PROCEED, di_distance_to_next_signal_m = 1000000000\<rparr>,
      ti_section_length_m = 500, ti_next_section_uid = nxt\<rparr>"

theorem train_stays_on_section_witness:
  "sim_ok (fst (train_sim_tick (f32 0.05) (sample_input S1_STOP (Some 2)) (sample_train 7 1 100)))"
proof -
  have "sim_ok (sample_train 7 1 100)"
    by (rule sample_train_ok)
  from train_stays_on_section [OF this f32.rnd_nonneg, of "0.05" "sample_input S1_STOP (Some 2)"]
    f32_of_int [of 500] show ?thesis
    by (cases "train_sim_tick (f32 0.05) (sample_input S1_STOP (Some 2)) (sample_train 7 1 100)")
      (simp add: sample_input_def)
qed

text \<open>
  The traction of a consist: a motor unit that is not a locomotive always pulls; of several
  operational locomotives all pull when they are of one type that allows multiple coupling, and
  otherwise only the first one; a defective unit never pulls.
\<close>

theorem consist_traction:
  assumes "i < length vehicles"
  shows "vc_traction_kn (assign_locomotives vehicles (map base_contrib vehicles) ! i) =
    (if \<not> is_operational_traction_unit (vehicles ! i) then 0
     else if \<not> is_locomotive (vehicles ! i) \<or> coupling_allowed vehicles \<or>
       (\<exists>rest. operational_locomotive_indices vehicles = i # rest)
     then traction_force (vehicles ! i) else 0)"
proof -
  let ?base = "map base_contrib vehicles" and ?ix = "operational_locomotive_indices vehicles"
  have ix: "\<forall>j \<in> set ?ix. j < length ?base" by (simp add: operational_indices)
  have base: "vc_traction_kn (?base ! i) =
      (if is_operational_traction_unit (vehicles ! i) \<and> \<not> is_locomotive (vehicles ! i)
       then traction_force (vehicles ! i) else 0)"
    using assms by (simp add: base_contrib_def)
  have one: "vc_traction_kn (set_traction vehicles f ?base ! i) =
      (if i = f then traction_force (vehicles ! i) else vc_traction_kn (?base ! i))" if "f < length vehicles" for f
    using that assms by (auto simp: set_traction_def nth_list_update)
  show ?thesis
  proof (cases ?ix)
    case Nil
    with operational_indices [of i vehicles] assms base show ?thesis
      by (auto simp: assign_locomotives_def coupling_allowed_def)
  next
    case (Cons f rest)
    then have f: "f < length vehicles" "is_operational_traction_unit (vehicles ! f)" "is_locomotive (vehicles ! f)"
      using operational_indices [of f vehicles] by simp_all
    have assign: "assign_locomotives vehicles ?base =
        (if coupling_allowed vehicles then fold (set_traction vehicles) ?ix ?base
         else set_traction vehicles f ?base)"
      using Cons by (cases rest) (simp_all add: assign_locomotives_def coupling_allowed_def Let_def)
    show ?thesis
      using operational_indices [of i vehicles] assms f base one [OF f(1)] Cons
        fold_set_traction(1) [OF ix, of i vehicles]
      by (auto simp: assign)
  qed
qed

definition sample_vehicle :: "UID \<Rightarrow> Vehicle" where
  "sample_vehicle u =
     \<lparr>veh_uid = u, veh_pid = ''ET22'', veh_type_uid = 3, veh_display_name = ''ET22'',
      veh_vehicle_type = ''LOCOMOTIVE'', veh_vehicle_subtype = ''ELECTRIC'', veh_length_m = 19,
      veh_axle_count = 6, veh_mass_empty_t = 120, veh_effective_mass_t = 120, veh_max_speed_kmh = 120,
      veh_braking_lambda_pct = 80, veh_power_kw = Some 3000, veh_traction_force_kn = Some 350,
      veh_traction_capable = True, veh_traction_status = Some OPERATIONAL,
      veh_multiple_coupling_capable = None, veh_davis = \<lparr>davis_a = 39, davis_b = 0, davis_c = 0\<rparr>\<rparr>"

theorem consist_traction_witness:
  "vc_traction_kn (assign_locomotives [sample_vehicle 1, sample_vehicle 2]
     (map base_contrib [sample_vehicle 1, sample_vehicle 2]) ! 1) = 0"
proof -
  have loco: "is_locomotive (sample_vehicle u)" "is_operational_traction_unit (sample_vehicle u)" for u
    by (simp_all add: is_locomotive_def sample_vehicle_def to_upper_char_def is_operational_traction_unit_def)
  have ix: "operational_locomotive_indices [sample_vehicle 1, sample_vehicle 2] = [0, 1]"
    by (simp add: operational_locomotive_indices_def upt_conv_Cons loco)
  show ?thesis
    using consist_traction [of 1 "[sample_vehicle 1, sample_vehicle 2]"]
    by (simp add: ix coupling_allowed_def loco) (simp add: sample_vehicle_def)
qed

end
