(* ===== verification/Train_Fleet.thy ===== *)
theory Train_Fleet
  imports Train_Sim State_Applier
begin

text \<open>
  The trains of a session, \<^verbatim>\<open>engine/src/train_fleet.cpp\<close>: spawning and despawning,
  the walk over the topology to the next section, and the tick of all trains with its effect on the
  occupancy of the sections.  The functions that mutate the engine state and append to the vectors
  of changes and panel events thread all three.
\<close>

section \<open>Topology helpers\<close>

definition ahead_port :: "TrackSection \<Rightarrow> UID \<Rightarrow> TrackPort" where
  "ahead_port section from_uid =
    (if port_neighbor_uid (ts_side_a section) = from_uid then ts_side_b section else ts_side_a section)"

record NextSectionInfo =
  ni_section_uid :: "UID option"
  ni_from_uid :: UID
  ni_is_boundary_crossing :: bool
  ni_trailed_switch_uid :: "UID option"

definition no_next_section :: NextSectionInfo where
  "no_next_section = \<lparr>ni_section_uid = None, ni_from_uid = 0, ni_is_boundary_crossing = False,
     ni_trailed_switch_uid = None\<rparr>"

definition resolve_next_section :: "EngineState \<Rightarrow> UID \<Rightarrow> UID \<Rightarrow> NextSectionInfo" where
  "resolve_next_section s current_uid from_uid =
    (case find_track_section s current_uid of
       None \<Rightarrow> no_next_section
     | Some current \<Rightarrow>
       (let next_uid = port_neighbor_uid (ahead_port current from_uid) in
        if next_uid = 0 then no_next_section
        else if find_track_section s next_uid \<noteq> None then
          \<lparr>ni_section_uid = Some next_uid, ni_from_uid = current_uid, ni_is_boundary_crossing = False,
           ni_trailed_switch_uid = None\<rparr>
        else (case find_switch s next_uid of
            Some sw \<Rightarrow>
              if sw_position sw = MOVING then no_next_section
              else
                (let (exit_uid, trailed_uid) =
                   (if leg_neighbor_uid (sw_trunk sw) = current_uid then
                      (if sw_position sw = STRAIGHT then leg_neighbor_uid (sw_straight sw)
                       else leg_neighbor_uid (sw_divergent sw), None)
                    else
                      (leg_neighbor_uid (sw_trunk sw),
                       if leg_neighbor_uid (sw_straight sw) = current_uid \<and> sw_position sw \<noteq> STRAIGHT \<or>
                          leg_neighbor_uid (sw_divergent sw) = current_uid \<and> sw_position sw \<noteq> DIVERGENT
                       then Some (sw_uid sw) else None))
                 in if exit_uid = 0 then no_next_section
                    else \<lparr>ni_section_uid = Some exit_uid, ni_from_uid = next_uid,
                          ni_is_boundary_crossing = False, ni_trailed_switch_uid = trailed_uid\<rparr>)
          | None \<Rightarrow>
              \<lparr>ni_section_uid = None, ni_from_uid = 0, ni_is_boundary_crossing = True,
               ni_trailed_switch_uid = None\<rparr>)))"

definition ahead_signal_aspect :: "EngineState \<Rightarrow> TrackSection \<Rightarrow> UID \<Rightarrow> SignalAspect" where
  "ahead_signal_aspect s section from_uid =
    (case first_some (find_signal s) (port_signal_uids (ahead_port section from_uid)) of
       Some sig \<Rightarrow> sig_current_aspect sig
     | None \<Rightarrow> S2_PROCEED)"

section \<open>The fleet\<close>

record TrainEntry =
  te_sim :: TrainSimState
  te_from_uid :: UID
  te_pending_boundary_removal :: bool

type_synonym TrainFleet = "TrainEntry list"

definition TICK_DT_S :: real where
  "TICK_DT_S = f32 0.05"

definition add_train :: "TrainSimState \<Rightarrow> UID \<Rightarrow> TrainFleet \<Rightarrow> TrainFleet" where
  "add_train initial from_uid entries =
     entries @ [\<lparr>te_sim = initial, te_from_uid = from_uid, te_pending_boundary_removal = False\<rparr>]"

definition make_train_slot :: "UID \<Rightarrow> TrainSlot" where
  "make_train_slot train_uid =
     \<lparr>slot_number = nat_to_string (unat (uid_instance train_uid)), slot_has_extra_info = False,
      slot_manually_placed = False, slot_entry_side = SIDE_LEFT\<rparr>"

definition occupied_event :: "UID \<Rightarrow> UID \<Rightarrow> UID \<Rightarrow> PipEvent" where
  "occupied_event section_uid station_uid train_uid =
     \<lparr>pip_section_uid = section_uid, pip_station_uid = station_uid, pip_occupancy = OCCUPIED,
      pip_slot = Some (make_train_slot train_uid), pip_lcs_boundary_crossing = False\<rparr>"

definition free_event :: "UID \<Rightarrow> UID \<Rightarrow> bool \<Rightarrow> PipEvent" where
  "free_event section_uid station_uid boundary =
     \<lparr>pip_section_uid = section_uid, pip_station_uid = station_uid, pip_occupancy = FREE,
      pip_slot = None, pip_lcs_boundary_crossing = boundary\<rparr>"

text \<open>The state, the changes and the panel events the operations thread.\<close>

type_synonym fleet_effects = "EngineState \<times> DeviceStateChange list \<times> PipEvent list"

definition spawn ::
    "TrainSimState \<Rightarrow> UID \<Rightarrow> TrainFleet \<times> fleet_effects \<Rightarrow> string option \<times> TrainFleet \<times> fleet_effects" where
  "spawn initial from_uid st =
    (let (entries, s, changes, pip_events) = st; section_uid = tr_current_section_uid initial;
         train_uid = tr_train_uid initial; axles = tr_total_axles initial
     in case find_track_section s section_uid of
          None \<Rightarrow> (Some (''initial section '' @ u64_to_string section_uid @ '' not found''), st)
        | Some section \<Rightarrow>
            if ts_occupancy section \<noteq> FREE
            then (Some (''initial section '' @ ts_pid section @ '' is not free''), st)
            else (None, add_train initial from_uid entries,
                  apply_track_section_occupancy section_uid OCCUPIED axles s,
                  changes @ [TrackSectionOccupancyChange section_uid OCCUPIED axles train_uid],
                  pip_events @ [occupied_event section_uid (ts_station_uid section) train_uid]))"

fun remove_first_train :: "UID \<Rightarrow> TrainFleet \<Rightarrow> TrainFleet" where
  "remove_first_train u [] = []"
| "remove_first_train u (e # es) =
     (if tr_train_uid (te_sim e) = u then es else e # remove_first_train u es)"

definition despawn ::
    "UID \<Rightarrow> TrainFleet \<times> fleet_effects \<Rightarrow> string option \<times> TrainFleet \<times> fleet_effects" where
  "despawn train_uid st =
    (let (entries, s, changes, pip_events) = st
     in case find (\<lambda>e. tr_train_uid (te_sim e) = train_uid) entries of
          None \<Rightarrow> (Some (''train '' @ u64_to_string train_uid @ '' not found''), st)
        | Some e \<Rightarrow>
            (let section_uid = tr_current_section_uid (te_sim e)
             in case find_track_section s section_uid of
                  None \<Rightarrow> (None, remove_first_train train_uid entries, s, changes, pip_events)
                | Some section \<Rightarrow>
                    (None, remove_first_train train_uid entries,
                     apply_track_section_occupancy section_uid FREE 0 s,
                     changes @ [TrackSectionOccupancyChange section_uid FREE 0 0],
                     pip_events @ [free_event section_uid (ts_station_uid section) False])))"

definition snapshot_trains :: "TrainFleet \<Rightarrow> TrainSnapshot list" where
  "snapshot_trains entries =
     map (\<lambda>e. let t = te_sim e in
       \<lparr>tsnap_uid = tr_train_uid t, tsnap_section_uid = tr_current_section_uid t,
        tsnap_speed_kmh = f32 (ps_velocity_ms (tr_physics_state t) * kmh_per_ms),
        tsnap_total_length_m = tr_total_length_m t, tsnap_total_axles = tr_total_axles t,
        tsnap_vehicle_uids = tr_vehicle_uids t\<rparr>) entries"

section \<open>The tick of one train\<close>

definition tick_input :: "EngineState \<Rightarrow> TrackSection \<Rightarrow> TrainEntry \<Rightarrow> NextSectionInfo \<Rightarrow> TrainSimTickInput" where
  "tick_input s section entry info =
    (let t = te_sim entry;
         speed_limit_ms = f32 (f32 (of_int (ts_max_speed_kmh section)) / kmh_per_ms);
         distance_to_signal_m =
           std_max 0 (f32 (ts_length_m section - ps_position_m (tr_physics_state t)))
     in \<lparr>ti_driver_input =
           \<lparr>di_aspect = ahead_signal_aspect s section (te_from_uid entry),
            di_distance_to_signal_m = distance_to_signal_m,
            di_target_speed_ms = std_min speed_limit_ms (pp_max_speed_ms (tr_physics_params t)),
            di_max_brake_kn = tr_max_brake_kn t, di_next_aspect = S2_PROCEED,
            di_distance_to_next_signal_m = 1000000000\<rparr>,
         ti_section_length_m = ts_length_m section, ti_next_section_uid = ni_section_uid info\<rparr>)"

definition leave_boundary ::
    "UID \<Rightarrow> TrackSection \<Rightarrow> fleet_effects \<Rightarrow> fleet_effects" where
  "leave_boundary current_uid section eff =
    (let (s, changes, pip_events) = eff
     in (apply_track_section_occupancy current_uid FREE 0 s,
         changes @ [TrackSectionOccupancyChange current_uid FREE 0 0],
         pip_events @ [free_event current_uid (ts_station_uid section) True]))"

definition section_events :: "EngineState \<Rightarrow> UID \<Rightarrow> UID \<Rightarrow> UID \<Rightarrow> PipEvent list" where
  "section_events s from_uid to_uid train_uid =
    (case find_track_section s from_uid of
       None \<Rightarrow> [] | Some sec \<Rightarrow> [free_event from_uid (ts_station_uid sec) False]) @
    (case find_track_section s to_uid of
       None \<Rightarrow> [] | Some sec \<Rightarrow> [occupied_event to_uid (ts_station_uid sec) train_uid])"

definition cross_section ::
    "NextSectionInfo \<Rightarrow> SectionCrossing \<Rightarrow> TrainSimState \<Rightarrow> fleet_effects \<Rightarrow> fleet_effects" where
  "cross_section info crossing t eff =
    (let (s, changes, pip_events) = eff; axles = tr_total_axles t; train_uid = tr_train_uid t;
         from_uid = sc_from_section_uid crossing; to_uid = sc_to_section_uid crossing;
         trailing = (case ni_trailed_switch_uid info of
                       None \<Rightarrow> []
                     | Some sw \<Rightarrow> [SwitchControlStateChange sw True,
                                    SwitchPositionChange sw TRAILED_DAMAGED CAUSE_AUTO 0]);
         s' = apply_track_section_occupancy to_uid OCCUPIED axles
                (apply_track_section_occupancy from_uid FREE 0 s)
     in (s', changes @ trailing @
             [TrackSectionOccupancyChange from_uid FREE 0 0,
              TrackSectionOccupancyChange to_uid OCCUPIED axles train_uid],
         pip_events @ section_events s' from_uid to_uid train_uid))"

definition tick_entry :: "TrainEntry \<Rightarrow> fleet_effects \<Rightarrow> TrainEntry \<times> fleet_effects" where
  "tick_entry entry eff =
    (let s = fst eff; current_uid = tr_current_section_uid (te_sim entry)
     in case find_track_section s current_uid of
          None \<Rightarrow> (entry, eff)
        | Some section \<Rightarrow>
            (let info = resolve_next_section s current_uid (te_from_uid entry);
                 (t, crossing) = train_sim_tick TICK_DT_S (tick_input s section entry info) (te_sim entry);
                 entry1 = entry\<lparr>te_sim := t\<rparr>;
                 leaves = (ni_is_boundary_crossing info \<and> \<not> te_pending_boundary_removal entry \<and>
                           ps_position_m (tr_physics_state t) \<ge> f32 (ts_length_m section - f32 0.001));
                 eff1 = (if leaves then leave_boundary current_uid section eff else eff);
                 entry2 = (if leaves then entry1\<lparr>te_pending_boundary_removal := True\<rparr> else entry1)
             in case crossing of
                  None \<Rightarrow> (entry2, eff1)
                | Some c \<Rightarrow> (entry2\<lparr>te_from_uid := ni_from_uid info\<rparr>, cross_section info c t eff1)))"

fun tick_entries :: "TrainFleet \<Rightarrow> fleet_effects \<Rightarrow> TrainFleet \<times> fleet_effects" where
  "tick_entries [] eff = ([], eff)"
| "tick_entries (e # es) eff =
     (let (e', eff1) = tick_entry e eff; (es', eff2) = tick_entries es eff1 in (e' # es', eff2))"

definition tick_all ::
    "TrainFleet \<Rightarrow> EngineState \<Rightarrow> TrainFleet \<times> EngineState \<times> DeviceStateChange list \<times> PipEvent list" where
  "tick_all entries s =
    (let (entries', s', changes, pip_events) = tick_entries entries (s, [], [])
     in (filter (\<lambda>e. \<not> te_pending_boundary_removal e) entries', s', changes, pip_events))"

section \<open>What the fleet changes in the engine state\<close>

text \<open>
  Every operation of the fleet changes the engine state by a sequence of occupancy reports for
  track sections, and by nothing else.
\<close>

inductive occupancy_steps :: "EngineState \<Rightarrow> EngineState \<Rightarrow> bool" where
  occ_refl: "occupancy_steps s s"
| occ_step: "occupancy_steps s t \<Longrightarrow> occupancy_steps s (apply_track_section_occupancy u occ n t)"

lemma occupancy_steps_trans: "occupancy_steps s t \<Longrightarrow> occupancy_steps r s \<Longrightarrow> occupancy_steps r t"
  by (induction rule: occupancy_steps.induct) (auto intro: occ_step)

lemma occupancy_steps_frame:
  assumes "occupancy_steps s t"
  shows "find_switch t u = find_switch s u" "find_signal t u = find_signal s u"
    "find_derailer t u = find_derailer s u" "find_block_section t u = find_block_section s u"
    "find_route t u = find_route s u" "es_current_tick t = es_current_tick s"
  using assms by (induction rule: occupancy_steps.induct) (simp_all add: engine_simps)

lemma occupancy_steps_topology: "occupancy_steps s t \<Longrightarrow> topology t = topology s"
  by (induction rule: occupancy_steps.induct)
    (simp_all add: apply_track_section_occupancy_def topology_simps static_defs)

lemma occupancy_steps_inv:
  assumes "occupancy_steps s t" and "P s" and "\<And>u occ n s. P s \<Longrightarrow> P (apply_track_section_occupancy u occ n s)"
  shows "P t"
  using assms by (induction rule: occupancy_steps.induct) auto

lemma spawn_occupancy: "occupancy_steps s (fst (snd (snd (spawn t f (es, s, ch, pip)))))"
  by (auto simp: spawn_def Let_def intro: occupancy_steps.intros split: option.split)

lemma despawn_occupancy: "occupancy_steps s (fst (snd (snd (despawn u (es, s, ch, pip)))))"
  by (auto simp: despawn_def Let_def intro: occupancy_steps.intros split: option.split)

lemma cross_occupancy: "occupancy_steps s (fst (cross_section info c t (s, ch, pip)))"
  by (simp add: cross_section_def Let_def occupancy_steps.intros)

lemma leave_occupancy: "occupancy_steps s (fst (leave_boundary u sec (s, ch, pip)))"
  by (simp add: leave_boundary_def occupancy_steps.intros)

lemma cross_leave_occupancy:
  "occupancy_steps s (fst (cross_section info c t (leave_boundary u sec (s, ch, pip))))"
proof (rule occupancy_steps_trans [OF _ leave_occupancy])
  show "occupancy_steps (fst (leave_boundary u sec (s, ch, pip)))
      (fst (cross_section info c t (leave_boundary u sec (s, ch, pip))))"
    by (cases "leave_boundary u sec (s, ch, pip)") (simp add: cross_occupancy)
qed

lemma tick_entry_occupancy: "occupancy_steps (fst eff) (fst (snd (tick_entry e eff)))"
proof -
  obtain s ch pip where eff: "eff = (s, ch, pip)" by (cases eff)
  show ?thesis
    unfolding eff tick_entry_def Let_def
    by (auto simp: occ_refl leave_occupancy cross_occupancy cross_leave_occupancy
        split: option.split prod.split if_split)
qed

lemma tick_entries_occupancy: "occupancy_steps (fst eff) (fst (snd (tick_entries es eff)))"
proof (induction es arbitrary: eff)
  case Nil
  show ?case by (simp add: occ_refl)
next
  case (Cons e es)
  obtain e' eff1 where 1: "tick_entry e eff = (e', eff1)" by (cases "tick_entry e eff")
  obtain es' eff2 where 2: "tick_entries es eff1 = (es', eff2)" by (cases "tick_entries es eff1")
  from tick_entry_occupancy [of eff e] 1 have "occupancy_steps (fst eff) (fst eff1)" by simp
  moreover from Cons.IH [of eff1] 2 have "occupancy_steps (fst eff1) (fst eff2)" by simp
  ultimately have "occupancy_steps (fst eff) (fst eff2)" by (rule occupancy_steps_trans [rotated])
  with 1 2 show ?case by simp
qed

lemma tick_all_occupancy: "tick_all es s = (es', s', ch, pip) \<Longrightarrow> occupancy_steps s s'"
  using tick_entries_occupancy [of "(s, [], [])" es] by (auto simp: tick_all_def Let_def split: prod.splits)

text \<open>Changes that have been reported stay in the list.\<close>

lemma tick_entry_changes: "set (fst (snd eff)) \<subseteq> set (fst (snd (snd (tick_entry e eff))))"
proof -
  obtain s ch pip where eff: "eff = (s, ch, pip)" by (cases eff)
  show ?thesis
    unfolding eff tick_entry_def Let_def
    by (auto simp: leave_boundary_def cross_section_def Let_def split: option.split prod.split if_split)
qed

lemma tick_entries_changes: "set (fst (snd eff)) \<subseteq> set (fst (snd (snd (tick_entries es eff))))"
proof (induction es arbitrary: eff)
  case Nil
  show ?case by simp
next
  case (Cons e es)
  obtain e' eff1 where 1: "tick_entry e eff = (e', eff1)" by (cases "tick_entry e eff")
  obtain es' eff2 where 2: "tick_entries es eff1 = (es', eff2)" by (cases "tick_entries es eff1")
  from tick_entry_changes [of eff e] 1 Cons.IH [of eff1] 2 show ?case by auto
qed

section \<open>A train at the end of its section\<close>

text \<open>Whatever the driver does, a train at the end of its section crosses into the next one.\<close>

lemma at_end_crosses:
  assumes "sim_ok t" and "0 \<le> dt" and "ps_position_m (tr_physics_state t) = ti_section_length_m inp"
    and "0 < ti_section_length_m inp" and "ti_next_section_uid inp = Some n"
    and "train_sim_tick dt inp t = (t', c)"
  shows "\<exists>x. c = Some x \<and> sc_from_section_uid x = tr_current_section_uid t \<and> sc_to_section_uid x = n \<and>
    tr_current_section_uid t' = n \<and> tr_train_uid t' = tr_train_uid t \<and> tr_total_axles t' = tr_total_axles t"
  using assms(6)
proof (cases rule: tick_cases)
  case (stay tr b ds)
  let ?s = "(tr_physics_state t)\<lparr>ps_traction_kn := tr, ps_brake_kn := b\<rparr>"
  have "0 \<le> pp_max_speed_ms (tr_physics_params t)" "0 \<le> ps_velocity_ms ?s" "f32 (ps_position_m ?s) = ps_position_m ?s"
    using assms(1) by (simp_all add: sim_ok_def Let_def)
  then have "ps_position_m ?s \<le> ps_position_m (integrate (tr_physics_params t) ?s dt)"
    using assms(2) integrate_forward by blast
  with stay assms(3,4) show ?thesis by simp
next
  case (cross tr b ds m x)
  with assms(5) show ?thesis by simp
next
  case dead_end
  with assms(5) show ?thesis by simp
qed

lemma TICK_DT_S_nonneg: "0 \<le> TICK_DT_S"
  unfolding TICK_DT_S_def by (rule f32.rnd_nonneg) simp

definition at_section_end :: "EngineState \<Rightarrow> TrainEntry \<Rightarrow> bool" where
  "at_section_end s e \<longleftrightarrow>
    (case find_track_section s (tr_current_section_uid (te_sim e)) of
       None \<Rightarrow> False
     | Some sec \<Rightarrow> 0 < ts_length_m sec \<and> ps_position_m (tr_physics_state (te_sim e)) = ts_length_m sec) \<and>
    sim_ok (te_sim e) \<and> \<not> te_pending_boundary_removal e"

lemma resolve_boundary: "ni_is_boundary_crossing (resolve_next_section s u f) \<Longrightarrow>
    ni_section_uid (resolve_next_section s u f) = None"
  by (auto simp: resolve_next_section_def no_next_section_def Let_def split: option.splits if_splits prod.splits)

lemma tick_entry_crosses:
  assumes "at_section_end s e" and "info = resolve_next_section s (tr_current_section_uid (te_sim e)) (te_from_uid e)"
    and "ni_section_uid info = Some n"
  shows "\<exists>t c. tick_entry e (s, ch, pip) =
      (e\<lparr>te_sim := t, te_from_uid := ni_from_uid info\<rparr>, cross_section info c t (s, ch, pip)) \<and>
    sc_from_section_uid c = tr_current_section_uid (te_sim e) \<and> sc_to_section_uid c = n \<and>
    tr_current_section_uid t = n \<and> tr_train_uid t = tr_train_uid (te_sim e) \<and>
    tr_total_axles t = tr_total_axles (te_sim e)"
proof -
  from assms(1) obtain sec where sec: "find_track_section s (tr_current_section_uid (te_sim e)) = Some sec"
    "0 < ts_length_m sec" "ps_position_m (tr_physics_state (te_sim e)) = ts_length_m sec" "sim_ok (te_sim e)"
    by (auto simp: at_section_end_def split: option.splits)
  let ?inp = "tick_input s sec e info"
  have inp: "ti_section_length_m ?inp = ts_length_m sec" "ti_next_section_uid ?inp = Some n"
    using assms(3) by (simp_all add: tick_input_def Let_def)
  obtain t c where tick: "train_sim_tick TICK_DT_S ?inp (te_sim e) = (t, c)"
    by (cases "train_sim_tick TICK_DT_S ?inp (te_sim e)")
  from at_end_crosses [OF sec(4) TICK_DT_S_nonneg _ _ inp(2) tick] sec inp obtain x where
    x: "c = Some x" "sc_from_section_uid x = tr_current_section_uid (te_sim e)" "sc_to_section_uid x = n"
      "tr_current_section_uid t = n" "tr_train_uid t = tr_train_uid (te_sim e)"
      "tr_total_axles t = tr_total_axles (te_sim e)" by auto
  have "\<not> ni_is_boundary_crossing info" using resolve_boundary assms(2,3) by fastforce
  with sec(1) tick x assms(2) show ?thesis by (auto simp: tick_entry_def Let_def)
qed

end
