(* ===== verification/Fleet_Properties.thy ===== *)
theory Fleet_Properties
  imports Train_Fleet Sample_Station
begin

text \<open>
  What the fleet guarantees about occupancy, and the two situations in which a train and the world
  state part company: a trailed switch that is reported but never marked, and a switch whose exit
  leads straight into another switch.
\<close>

definition sample_entry :: "UID \<Rightarrow> UID \<Rightarrow> TrainEntry" where
  "sample_entry sec behind =
     \<lparr>te_sim = sample_train 7 sec 100, te_from_uid = behind, te_pending_boundary_removal = False\<rparr>"

text \<open>Switch 10 of the station in its divergent position.\<close>

definition sample_diverted :: EngineState where
  "sample_diverted = apply_switch_position 10 DIVERGENT 0 sample_station"

definition crossover_diverted :: EngineState where
  "crossover_diverted = apply_switch_position 10 DIVERGENT 0 sample_crossover"

lemma diverted_finds:
  "find_track_section sample_diverted u = find_track_section sample_station u"
  "find_track_section crossover_diverted u = find_track_section sample_crossover u"
  "find_switch sample_diverted 10 = Some ((sample_switch 10 1 2 3)\<lparr>sw_position := DIVERGENT, sw_moving_ticks_remaining := 0\<rparr>)"
  "find_switch crossover_diverted 10 = Some ((sample_switch 10 1 2 11)\<lparr>sw_position := DIVERGENT, sw_moving_ticks_remaining := 0\<rparr>)"
  by (simp_all add: sample_diverted_def crossover_diverted_def engine_simps sample_find_switch crossover_find_switch)

lemma sample_at_end:
  "at_section_end sample_diverted (sample_entry 2 52)" "at_section_end crossover_diverted (sample_entry 1 51)"
  by (simp_all add: at_section_end_def sample_entry_def sample_train_ok diverted_finds)
    (simp_all add: sample_train_def sample_physics_def sample_find_section crossover_find_section sample_section_def)

lemma sample_trails:
  "resolve_next_section sample_diverted 2 52 =
     \<lparr>ni_section_uid = Some 1, ni_from_uid = 10, ni_is_boundary_crossing = False, ni_trailed_switch_uid = Some 10\<rparr>"
  by (simp add: resolve_next_section_def diverted_finds sample_find_section ahead_port_def)
    (simp add: sample_section_def sample_port_def sample_find_section diverted_finds sample_switch_def
      sample_leg_def)

lemma crossover_exit:
  "resolve_next_section crossover_diverted 1 51 =
     \<lparr>ni_section_uid = Some 11, ni_from_uid = 10, ni_is_boundary_crossing = False, ni_trailed_switch_uid = None\<rparr>"
  by (simp add: resolve_next_section_def diverted_finds crossover_find_section ahead_port_def)
    (simp add: sample_section_def sample_port_def crossover_find_section diverted_finds sample_switch_def
      sample_leg_def)



text \<open>
  A trailed switch is reported and forgotten: the crossing puts the damage into the list of
  changes that is sent to the clients, but the switch keeps its position and its control in the
  engine state, whichever trains the fleet ticks.
\<close>

theorem trailed_switch_keeps_position:
  assumes "at_section_end s e"
    and "info = resolve_next_section s (tr_current_section_uid (te_sim e)) (te_from_uid e)"
    and "ni_section_uid info = Some n" and "ni_trailed_switch_uid info = Some w"
    and "tick_all (e # es) s = (fleet', s', ch, pip)"
  shows "SwitchPositionChange w TRAILED_DAMAGED CAUSE_AUTO 0 \<in> set ch \<and>
    SwitchControlStateChange w True \<in> set ch \<and> (\<forall>u. find_switch s' u = find_switch s u)"
proof -
  from tick_entry_crosses [OF assms(1-3), of "[]" "[]"] obtain t c where
    t: "tick_entry e (s, [], []) = (e\<lparr>te_sim := t, te_from_uid := ni_from_uid info\<rparr>, cross_section info c t (s, [], []))"
    by blast
  obtain s1 ch1 pip1 where x: "cross_section info c t (s, [], []) = (s1, ch1, pip1)"
    by (cases "cross_section info c t (s, [], [])") auto
  have in1: "SwitchPositionChange w TRAILED_DAMAGED CAUSE_AUTO 0 \<in> set ch1" "SwitchControlStateChange w True \<in> set ch1"
    using x assms(4) by (auto simp: cross_section_def Let_def)
  have keep: "set ch1 \<subseteq> set (fst (snd (snd (tick_entries es (s1, ch1, pip1)))))"
    using tick_entries_changes [of "(s1, ch1, pip1)" es] by simp
  have "ch = fst (snd (snd (tick_entries es (s1, ch1, pip1))))"
    using assms(5) t x by (auto simp: tick_all_def split: prod.splits)
  with in1 keep occupancy_steps_frame(1) [OF tick_all_occupancy [OF assms(5)]] show ?thesis by blast
qed

theorem trailed_switch_keeps_position_witness:
  "SwitchPositionChange 10 TRAILED_DAMAGED CAUSE_AUTO 0
     \<in> set (fst (snd (snd (tick_all [sample_entry 2 52] sample_diverted)))) \<and>
   find_switch (fst (snd (tick_all [sample_entry 2 52] sample_diverted))) 10 = find_switch sample_diverted 10"
proof -
  let ?r = "tick_all [sample_entry 2 52] sample_diverted"
  obtain fl s' ch pip where r: "?r = (fl, s', ch, pip)" by (cases ?r) auto
  have e: "tr_current_section_uid (te_sim (sample_entry 2 52)) = 2" "te_from_uid (sample_entry 2 52) = 52"
    by (simp_all add: sample_entry_def sample_train_def)
  from trailed_switch_keeps_position [OF sample_at_end(1) refl _ _ r] r show ?thesis
    by (simp add: e sample_trails)
qed

text \<open>
  A train is lost between two switches: when the exit of the switch ahead is not a track
  section, as between the two switches of a crossover, the train crosses to the UID of that other
  element, its last section reads free, and no later tick ever moves it again.
\<close>

theorem train_lost_beyond_switch:
  assumes "at_section_end s e" and "u = tr_current_section_uid (te_sim e)"
    and "ni_section_uid (resolve_next_section s u (te_from_uid e)) = Some n"
    and "find_track_section s n = None" and "tick_entry e (s, ch, pip) = (e', s', ch', pip')"
  shows "tr_current_section_uid (te_sim e') = n \<and>
    map_option ts_occupancy (find_track_section s' u) = Some FREE \<and>
    (\<forall>t eff. fst eff = t \<and> find_track_section t n = None \<longrightarrow> tick_entry e' eff = (e', eff))"
proof -
  let ?info = "resolve_next_section s u (te_from_uid e)"
  from tick_entry_crosses [OF assms(1) _ assms(3) [unfolded assms(2)], of ch pip] assms(2,5) obtain t c where
    t: "e' = e\<lparr>te_sim := t, te_from_uid := ni_from_uid ?info\<rparr>"
      "(s', ch', pip') = cross_section ?info c t (s, ch, pip)"
      "sc_from_section_uid c = u" "sc_to_section_uid c = n" "tr_current_section_uid t = n" by auto
  from assms(1,2) obtain sec where sec: "find_track_section s u = Some sec"
    by (auto simp: at_section_end_def split: option.splits)
  have "n \<noteq> u" using sec assms(4) by auto
  with t sec have "map_option ts_occupancy (find_track_section s' u) = Some FREE"
    by (simp add: cross_section_def Let_def engine_simps)
  with t show ?thesis by (auto simp: tick_entry_def Let_def)
qed

theorem train_lost_beyond_switch_witness:
  "map_option ts_occupancy (find_track_section
     (fst (snd (tick_entry (sample_entry 1 51) (crossover_diverted, [], [])))) 1) = Some FREE \<and>
   tr_current_section_uid (te_sim (fst (tick_entry (sample_entry 1 51) (crossover_diverted, [], [])))) = 11"
proof -
  let ?r = "tick_entry (sample_entry 1 51) (crossover_diverted, [], [])"
  have e: "tr_current_section_uid (te_sim (sample_entry 1 51)) = 1" "te_from_uid (sample_entry 1 51) = 51"
    by (simp_all add: sample_entry_def sample_train_def)
  obtain e' s' ch' pip' where r: "?r = (e', s', ch', pip')" by (cases ?r) auto
  have "find_track_section crossover_diverted 11 = None" by (simp add: diverted_finds crossover_find_section)
  with train_lost_beyond_switch [OF sample_at_end(2) refl _ _ r, of 11] r show ?thesis
    by (simp add: e crossover_exit)
qed

end
