(* ===== verification/Engine_Loop.thy ===== *)
theory Engine_Loop
  imports Run_Properties Command_Queues Fleet_Properties
begin

text \<open>
  The engine tick, \<^verbatim>\<open>EngineLoop::do_tick\<close> of
  \<^verbatim>\<open>engine/src/engine_loop.cpp\<close>, with the snapshot of
  \<^verbatim>\<open>engine/include/engine/core/engine_snapshot.hpp\<close>.  A loop is a record of the
  references and members of the class; a tick returns the new loop and what the callbacks and the
  error stream received.  All callbacks are taken to be set.  The thread around the tick (sleeping,
  starting and stopping) is in \<open>Server_Lifecycle\<close>; producers push between ticks.
\<close>

section \<open>The loop\<close>

datatype FleetCommand = SpawnRequest TrainSimState UID | DespawnRequest UID

record EngineSnapshot = EngineState +
  snap_trains :: "TrainSnapshot list"

record 'sys EngineLoop =
  el_state :: EngineState
  el_control :: 'sys
  el_queue :: "EnvelopedCommand PriorityCommandQueue"
  el_snapshot :: "EngineSnapshot option"
  el_train_fleet :: TrainFleet
  el_fleet_commands :: "FleetCommand EventQueue"

record TickOutput =
  out_naks :: "(EnvelopedCommand \<times> InterlockingViolation) list"
  out_rejected :: "string list"
  out_pip_events :: "PipEvent list list"
  out_changes :: "DeviceStateChange list option"

definition MAX_CMDS_PER_TICK :: nat where
  "MAX_CMDS_PER_TICK = 64"

type_synonym 'sys command_state =
  "'sys \<times> EngineState \<times> (EnvelopedCommand \<times> InterlockingViolation) list \<times> DeviceStateChange list"

text \<open>Step 1: the command drain.\<close>

fun drain_commands ::
    "nat \<Rightarrow> 'sys IControlSystem \<Rightarrow> EnvelopedCommand PriorityCommandQueue \<times> 'sys command_state \<Rightarrow>
     EnvelopedCommand PriorityCommandQueue \<times> 'sys command_state" where
  "drain_commands 0 ctl (q, st) = (q, st)"
| "drain_commands (Suc n) ctl (q, st) =
     (case pq_try_pop q of
        (None, q') \<Rightarrow> (q', st)
      | (Some cmd, q') \<Rightarrow> drain_commands n ctl (q', process_command ctl cmd st))"

text \<open>Step 3: one fleet command, and the drain of all of them.\<close>

definition apply_fleet_command ::
    "FleetCommand \<Rightarrow> string list \<times> TrainFleet \<times> fleet_effects \<Rightarrow> string list \<times> TrainFleet \<times> fleet_effects" where
  "apply_fleet_command cmd st =
    (let (errors, fleet) = st;
         (error, fleet') = (case cmd of
            SpawnRequest initial from_uid \<Rightarrow> spawn initial from_uid fleet
          | DespawnRequest train_uid \<Rightarrow> despawn train_uid fleet)
     in (case error of None \<Rightarrow> errors | Some e \<Rightarrow> errors @ [''[engine] fleet command rejected: '' @ e],
         fleet'))"

definition drain_fleet_commands ::
    "FleetCommand EventQueue \<Rightarrow> TrainFleet \<times> fleet_effects \<Rightarrow>
     FleetCommand EventQueue \<times> string list \<times> TrainFleet \<times> fleet_effects" where
  "drain_fleet_commands q fleet =
    (let (cmds, q') = pop_upto eq_try_pop (length (eq_queue q)) q
     in (q', fold apply_fleet_command cmds ([], fleet)))"

text \<open>Step 6: the snapshot.\<close>

definition make_snapshot :: "EngineState \<Rightarrow> TrainFleet \<Rightarrow> EngineSnapshot" where
  "make_snapshot s entries =
     \<lparr>es_session_id = es_session_id s, es_current_tick = es_current_tick s,
      es_boundary_nodes = es_boundary_nodes s, es_track_sections = es_track_sections s,
      es_switches = es_switches s, es_signals = es_signals s, es_derailers = es_derailers s,
      es_block_sections = es_block_sections s, es_routes = es_routes s, es_alarms = es_alarms s,
      es_level_crossings = es_level_crossings s, snap_trains = snapshot_trains entries\<rparr>"

definition do_tick :: "'sys IControlSystem \<Rightarrow> 'sys EngineLoop \<Rightarrow> 'sys EngineLoop \<times> TickOutput" where
  "do_tick ctl lp =
    (let (queue, sys1, s1, naks, changes1) =
           drain_commands MAX_CMDS_PER_TICK ctl (el_queue lp, el_control lp, el_state lp, [], []);
         next_tick_num = es_current_tick s1 + 1;
         (sys2, s2, tick_changes) = control_tick ctl (sys1, s1);
         (fleet_queue, errors, fleet1, s3, changes3, fleet_pip_events) =
           drain_fleet_commands (el_fleet_commands lp) (el_train_fleet lp, s2, changes1 @ tick_changes, []);
         (fleet2, s4, fleet_changes, tick_pip_events) =
           (if fleet1 \<noteq> [] then tick_all fleet1 s3 else (fleet1, s3, [], []));
         tick_all_changes = changes3 @ fleet_changes;
         s5 = set_current_tick next_tick_num s4
     in (\<lparr>el_state = s5, el_control = sys2, el_queue = queue, el_snapshot = Some (make_snapshot s5 fleet2),
          el_train_fleet = fleet2, el_fleet_commands = fleet_queue\<rparr>,
         \<lparr>out_naks = naks, out_rejected = errors,
          out_pip_events = filter (\<lambda>b. b \<noteq> []) [fleet_pip_events, tick_pip_events],
          out_changes = (if tick_all_changes \<noteq> [] then Some tick_all_changes else None)\<rparr>))"

fun do_ticks :: "nat \<Rightarrow> 'sys IControlSystem \<Rightarrow> 'sys EngineLoop \<Rightarrow> 'sys EngineLoop" where
  "do_ticks 0 ctl lp = lp"
| "do_ticks (Suc n) ctl lp = do_ticks n ctl (fst (do_tick ctl lp))"

definition enqueue_fleet_command :: "FleetCommand \<Rightarrow> 'sys EngineLoop \<Rightarrow> queue_error + 'sys EngineLoop" where
  "enqueue_fleet_command cmd lp =
    (case eq_push cmd (el_fleet_commands lp) of
       Inl e \<Rightarrow> Inl e | Inr q \<Rightarrow> Inr (lp\<lparr>el_fleet_commands := q\<rparr>))"

section \<open>The stages of a tick\<close>

lemma drain_commands_fold:
  "drain_commands n ctl (q, st) =
     (snd (pop_upto pq_try_pop n q), fold (process_command ctl) (fst (pop_upto pq_try_pop n q)) st)"
  by (induction n arbitrary: q st) (auto split: prod.splits option.splits)

lemma apply_fleet_occupancy:
  "occupancy_steps (fst (snd (snd st))) (fst (snd (snd (apply_fleet_command cmd st))))"
proof -
  obtain errs es s ch pip where st: "st = (errs, es, s, ch, pip)" by (cases st) auto
  show ?thesis
  proof (cases cmd)
    case (SpawnRequest t f)
    with spawn_occupancy [of s t f es ch pip] st show ?thesis
      by (cases "spawn t f (es, s, ch, pip)") (simp add: apply_fleet_command_def)
  next
    case (DespawnRequest u)
    with despawn_occupancy [of s u es ch pip] st show ?thesis
      by (cases "despawn u (es, s, ch, pip)") (simp add: apply_fleet_command_def)
  qed
qed

lemma fold_fleet_occupancy:
  "occupancy_steps (fst (snd (snd st))) (fst (snd (snd (fold apply_fleet_command cmds st))))"
proof (induction cmds arbitrary: st)
  case Nil
  show ?case by (simp add: occ_refl)
next
  case (Cons cmd cmds)
  show ?case
    using occupancy_steps_trans [OF Cons.IH [of "apply_fleet_command cmd st"] apply_fleet_occupancy [of st cmd]]
    by simp
qed

lemma drain_fleet_occupancy:
  "drain_fleet_commands q (es, s, ch, pip) = (q', errs, es', s', ch', pip') \<Longrightarrow> occupancy_steps s s'"
  using fold_fleet_occupancy [of "([], es, s, ch, pip)" "fst (pop_upto eq_try_pop (length (eq_queue q)) q)"]
  by (auto simp: drain_fleet_commands_def Let_def split: prod.splits)

text \<open>The engine state after a tick: commands, control tick, occupancy reports, tick counter.\<close>

lemma do_tick_stages:
  obtains sys s1 naks ch s4 where
    "fold (process_command ctl) (take MAX_CMDS_PER_TICK (concat (pq_buckets (el_queue lp))))
       (el_control lp, el_state lp, [], []) = (sys, s1, naks, ch)"
    "occupancy_steps (fst (snd (control_tick ctl (sys, s1)))) s4"
    "el_state (fst (do_tick ctl lp)) = set_current_tick (es_current_tick s1 + 1) s4"
    "el_control (fst (do_tick ctl lp)) = fst (control_tick ctl (sys, s1))"
    "out_naks (snd (do_tick ctl lp)) = naks"
    "concat (pq_buckets (el_queue (fst (do_tick ctl lp)))) = drop MAX_CMDS_PER_TICK (concat (pq_buckets (el_queue lp)))"
    "el_snapshot (fst (do_tick ctl lp)) =
       Some (make_snapshot (el_state (fst (do_tick ctl lp))) (el_train_fleet (fst (do_tick ctl lp))))"
proof -
  obtain q sys s1 naks ch where 1: "drain_commands MAX_CMDS_PER_TICK ctl (el_queue lp, el_control lp, el_state lp, [], [])
      = (q, sys, s1, naks, ch)" by (cases "drain_commands MAX_CMDS_PER_TICK ctl (el_queue lp, el_control lp, el_state lp, [], [])") auto
  obtain sys2 s2 tch where 2: "control_tick ctl (sys, s1) = (sys2, s2, tch)" by (cases "control_tick ctl (sys, s1)") auto
  obtain fq errs fl1 s3 ch3 pip3 where 3:
    "drain_fleet_commands (el_fleet_commands lp) (el_train_fleet lp, s2, ch @ tch, []) = (fq, errs, fl1, s3, ch3, pip3)"
    by (cases "drain_fleet_commands (el_fleet_commands lp) (el_train_fleet lp, s2, ch @ tch, [])") auto
  obtain fl2 s4 ch4 pip4 where 4: "(if fl1 \<noteq> [] then tick_all fl1 s3 else (fl1, s3, [], [])) = (fl2, s4, ch4, pip4)"
    by (cases "if fl1 \<noteq> [] then tick_all fl1 s3 else (fl1, s3, [], [])") auto
  have occ: "occupancy_steps s2 s4"
    using occupancy_steps_trans [OF _ drain_fleet_occupancy [OF 3]] 4
    by (cases "fl1 = []") (auto intro: occ_refl dest: tick_all_occupancy)
  have tick: "do_tick ctl lp =
     (\<lparr>el_state = set_current_tick (es_current_tick s1 + 1) s4, el_control = sys2, el_queue = q,
       el_snapshot = Some (make_snapshot (set_current_tick (es_current_tick s1 + 1) s4) fl2),
       el_train_fleet = fl2, el_fleet_commands = fq\<rparr>,
      \<lparr>out_naks = naks, out_rejected = errs, out_pip_events = filter (\<lambda>b. b \<noteq> []) [pip3, pip4],
       out_changes = (if ch3 @ ch4 \<noteq> [] then Some (ch3 @ ch4) else None)\<rparr>)"
    unfolding do_tick_def Let_def 1 by (simp add: 2 3 4)
  from 1 have "(sys, s1, naks, ch) = fold (process_command ctl)
      (take MAX_CMDS_PER_TICK (concat (pq_buckets (el_queue lp)))) (el_control lp, el_state lp, [], [])"
    and "concat (pq_buckets q) = drop MAX_CMDS_PER_TICK (concat (pq_buckets (el_queue lp)))"
    using pq.pop_upto_take [of MAX_CMDS_PER_TICK "el_queue lp"] by (auto simp: drain_commands_fold)
  with that [of sys s1 naks ch s4] tick occ 2 show thesis by simp
qed

context interlocking
begin

lemma do_tick_inv:
  assumes "inv (el_state lp)"
  shows "inv (el_state (fst (do_tick ctl lp)))"
proof -
  obtain sys s1 naks ch s4 where st:
    "fold (process_command ctl) (take MAX_CMDS_PER_TICK (concat (pq_buckets (el_queue lp))))
       (el_control lp, el_state lp, [], []) = (sys, s1, naks, ch)"
    "occupancy_steps (fst (snd (control_tick ctl (sys, s1)))) s4"
    "el_state (fst (do_tick ctl lp)) = set_current_tick (es_current_tick s1 + 1) s4"
    by (rule do_tick_stages [of ctl lp]) blast
  from process_commands_inv [of "(el_control lp, el_state lp, [], [])"] assms st(1) have "inv s1"
    by (metis fst_conv snd_conv)
  then have "inv (fst (snd (control_tick ctl (sys, s1))))" by (rule control_tick_inv)
  then have "inv s4" using occupancy_inv by (rule occupancy_steps_inv [OF st(2)])
  then show ?thesis by (simp add: st(3) set_tick_inv)
qed

lemma do_ticks_inv: "inv (el_state lp) \<Longrightarrow> inv (el_state (do_ticks n ctl lp))"
  by (induction n arbitrary: lp) (simp_all add: do_tick_inv)

end

section \<open>No switch is ever reported occupied\<close>

definition switches_free :: "EngineState \<Rightarrow> bool" where
  "switches_free s \<longleftrightarrow> list_all (\<lambda>(u, sw). sw_occupancy sw = FREE) (es_switches s)"

lemma switches_free_modify:
  "switches_free s \<Longrightarrow> (\<And>sw. sw_occupancy sw = FREE \<Longrightarrow> sw_occupancy (f sw) = FREE) \<Longrightarrow>
     switches_free (modify_switch u f s)"
  by (auto simp: switches_free_def modify_switch_def um_modify_def list_all_iff)

lemma switches_free_other:
  "switches_free (modify_signal u f1 s) = switches_free s"
  "switches_free (modify_derailer u f2 s) = switches_free s"
  "switches_free (modify_block_section u f3 s) = switches_free s"
  "switches_free (modify_track_section u f4 s) = switches_free s"
  "switches_free (modify_level_crossing u f5 s) = switches_free s"
  "switches_free (modify_route u f6 s) = switches_free s"
  "switches_free (add_route r s) = switches_free s" "switches_free (remove_route u s) = switches_free s"
  "switches_free (add_alarm a s) = switches_free s" "switches_free (remove_alarm u s) = switches_free s"
  "switches_free (set_current_tick n s) = switches_free s"
  by (simp_all add: switches_free_def modify_signal_def modify_derailer_def modify_block_section_def
      modify_track_section_def modify_level_crossing_def modify_route_def add_route_def remove_route_def
      add_alarm_def remove_alarm_def set_current_tick_def)

lemma switches_free_operator:
  "switches_free s \<Longrightarrow> switches_free (on_target upd u k s)"
  by (cases k) (simp_all add: on_target_def switches_free_modify switches_free_other Let_def)

lemma switches_free_apply_change: "switches_free s \<Longrightarrow> switches_free (apply_change c s)"
  by (cases c) (simp_all add: Let_def mutator_defs switches_free_modify switches_free_other
      apply_axle_counter_reset_def switches_free_operator split: OperatorTargetKind.split)

lemma switches_free_apply_all: "switches_free s \<Longrightarrow> switches_free (apply_all s cs)"
  by (induction cs arbitrary: s) (simp_all add: switches_free_apply_change del: apply_change.simps)

interpretation eb_free: interlocking ebilock_interface switches_free
  by unfold_locales (simp_all add: switches_free_apply_all apply_track_section_occupancy_def switches_free_other)

interpretation ml_free: interlocking ml8_interface switches_free
  by unfold_locales (simp_all add: switches_free_apply_all apply_track_section_occupancy_def switches_free_other)

section \<open>Evaluating a tick\<close>

definition sample_loop :: "EnvelopedCommand list \<Rightarrow> EbiLockSystem EngineLoop" where
  "sample_loop cmds =
     \<lparr>el_state = sample_station, el_control = make_EbiLockSystem 90,
      el_queue = \<lparr>pq_buckets = [[], [], cmds, []], pq_closed = False\<rparr>, el_snapshot = None,
      el_train_fleet = [], el_fleet_commands = eq_new\<rparr>"

lemma do_tick_topology: "topology (el_state (fst (do_tick ctl lp))) = topology (el_state lp)"
proof -
  obtain sys s1 naks ch s4 where st:
    "fold (process_command ctl) (take MAX_CMDS_PER_TICK (concat (pq_buckets (el_queue lp))))
       (el_control lp, el_state lp, [], []) = (sys, s1, naks, ch)"
    "occupancy_steps (fst (snd (control_tick ctl (sys, s1)))) s4"
    "el_state (fst (do_tick ctl lp)) = set_current_tick (es_current_tick s1 + 1) s4"
    by (rule do_tick_stages [of ctl lp]) blast
  have cmd: "topology (fst (snd (process_command ctl c st))) = topology (fst (snd st))" for c st
    by (auto simp: process_command_def Let_def topology_apply_all split: prod.splits option.splits)
  have "topology (fst (snd (fold (process_command ctl) cmds st))) = topology (fst (snd st))" for cmds st
    by (rule fold_measure_eq) (rule cmd)
  from this [of _ "(el_control lp, el_state lp, [], [])"] st(1) have "topology s1 = topology (el_state lp)"
    by (metis fst_conv snd_conv)
  moreover have "topology (fst (snd (control_tick ctl (sys, s1)))) = topology s1"
    by (auto simp: control_tick_def Let_def topology_apply_all split: prod.splits)
  moreover have "topology (set_current_tick n s4) = topology s4" for n
    by (simp add: set_current_tick_def topology_def static_defs)
  ultimately show ?thesis using occupancy_steps_topology [OF st(2)] by (simp add: st(3))
qed

lemma process_command_tick: "es_current_tick (fst (snd (process_command ctl c st))) = es_current_tick (fst (snd st))"
  by (auto simp: process_command_def Let_def split: prod.splits option.splits)

section \<open>Properties\<close>

text \<open>
  Under EbiLock no switch that a route has locked is ever under way: the invariant survives any
  number of engine ticks, whatever commands are queued, however the trains run and whatever is
  spawned or removed.
\<close>

theorem engine_keeps_locked_switches_at_rest:
  assumes "ebilock_inv (el_state lp)" and "s = el_state (do_ticks n ebilock_interface lp)"
    and "find_switch s u = Some sw" and "sw_locked_by_route_uid sw \<noteq> None"
  shows "sw_position sw \<noteq> MOVING"
proof
  assume "sw_position sw = MOVING"
  moreover have "ebilock_inv s" using ebilock.do_ticks_inv [OF assms(1)] assms(2) by simp
  ultimately show False using assms(3,4) by (auto simp: ebilock_inv_iff)
qed

theorem engine_keeps_locked_switches_at_rest_witness:
  "sw_position ((sample_switch 10 1 2 3)\<lparr>sw_locked_by_route_uid := Some 77\<rparr>) \<noteq> MOVING"
proof -
  let ?lp = "(sample_loop [])\<lparr>el_state := sample_locked\<rparr>"
  have "wf_state sample_locked"
    unfolding sample_locked_def apply_switch_lock_def by (rule wf_state_intros) (simp_all add: wf_sample_station)
  then have "ebilock_inv sample_locked"
    by (simp add: ebilock_inv_def locked_switches_rest_def sample_locked_def apply_switch_lock_def modify_switch_def
        um_modify_def) (simp add: sample_station_def sample_switch_def)
  then show ?thesis
    using engine_keeps_locked_switches_at_rest [of ?lp sample_locked 0 10, OF _ _ sample_locked_switch] by simp
qed

text \<open>
  C29.  A tick takes at most 64 commands, in priority order and within one priority in the order of
  arrival, leaves the rest queued, refuses exactly those the interlocking refuses at that moment,
  advances the tick by one and publishes a snapshot of the state it ends in.
\<close>

theorem tick_processes_commands_in_order:
  assumes "pq_refines (el_queue lp) (waiting, c)" and "(lp', out) = do_tick ctl lp"
  shows "out_naks out =
      fst (snd (snd (fold (process_command ctl) (take 64 (map fst (sort_key snd waiting)))
        (el_control lp, el_state lp, [], [])))) \<and>
    concat (pq_buckets (el_queue lp')) = drop 64 (map fst (sort_key snd waiting)) \<and>
    es_current_tick (el_state lp') = es_current_tick (el_state lp) + 1 \<and>
    topology (el_state lp') = topology (el_state lp) \<and>
    el_snapshot lp' = Some (make_snapshot (el_state lp') (el_train_fleet lp'))"
proof -
  have q: "concat (pq_buckets (el_queue lp)) = map fst (sort_key snd waiting)"
    using assms(1) by (simp add: pq_refines_def concat_buckets_sort)
  have eq: "lp' = fst (do_tick ctl lp)" "out = snd (do_tick ctl lp)"
    using assms(2) by (metis fst_conv, metis snd_conv)
  obtain sys s1 naks ch s4 where st:
    "fold (process_command ctl) (take MAX_CMDS_PER_TICK (concat (pq_buckets (el_queue lp))))
       (el_control lp, el_state lp, [], []) = (sys, s1, naks, ch)"
    "el_state (fst (do_tick ctl lp)) = set_current_tick (es_current_tick s1 + 1) s4"
    "out_naks (snd (do_tick ctl lp)) = naks"
    "concat (pq_buckets (el_queue (fst (do_tick ctl lp)))) = drop MAX_CMDS_PER_TICK (concat (pq_buckets (el_queue lp)))"
    "el_snapshot (fst (do_tick ctl lp)) =
       Some (make_snapshot (el_state (fst (do_tick ctl lp))) (el_train_fleet (fst (do_tick ctl lp))))"
    by (rule do_tick_stages [of ctl lp]) blast
  have "es_current_tick (fst (snd (fold (process_command ctl) cmds st))) = es_current_tick (fst (snd st))" for cmds st
    by (rule fold_measure_eq) (rule process_command_tick)
  from this [of _ "(el_control lp, el_state lp, [], [])"] st(1) have "es_current_tick s1 = es_current_tick (el_state lp)"
    by (metis fst_conv snd_conv)
  then have "es_current_tick (set_current_tick (es_current_tick s1 + 1) s4) = es_current_tick (el_state lp) + 1"
    by (simp add: set_current_tick_def)
  with st q do_tick_topology [of ctl lp] show ?thesis
    by (simp add: eq MAX_CMDS_PER_TICK_def)
qed

theorem tick_processes_commands_in_order_witness:
  "es_current_tick (el_state (fst (do_tick ebilock_interface
     (sample_loop [sample_envelope PRIO_NORMAL (RequestRouteCmd 21 22)])))) = 8"
proof -
  let ?lp = "sample_loop [sample_envelope PRIO_NORMAL (RequestRouteCmd 21 22)]"
  have "pq_refines (el_queue ?lp) ([(sample_envelope PRIO_NORMAL (RequestRouteCmd 21 22), PRIO_NORMAL)], False)"
    by (simp add: pq_refines_def sample_loop_def buckets_of_def bucket_of_def)
  moreover have "(fst (do_tick ebilock_interface ?lp), snd (do_tick ebilock_interface ?lp)) =
      do_tick ebilock_interface ?lp" by simp
  ultimately have "es_current_tick (el_state (fst (do_tick ebilock_interface ?lp))) =
      es_current_tick (el_state ?lp) + 1"
    by (rule tick_processes_commands_in_order [THEN conjunct2, THEN conjunct2, THEN conjunct1])
  then show ?thesis by (simp add: sample_loop_def sample_station_def)
qed

text \<open>
  No train ever occupies a switch: from a state with free switches, under either interlocking,
  every switch still reads free after any number of ticks with any commands and trains, so that the
  test for an occupied switch never refuses a throw.
\<close>

theorem engine_never_occupies_switches:
  assumes "switches_free (el_state lp)" and "switches_free (el_state lp2)"
  shows "switches_free (el_state (do_ticks n ebilock_interface lp)) \<and>
    switches_free (el_state (do_ticks n ml8_interface lp2)) \<and>
    (find_switch (el_state (do_ticks n ebilock_interface lp)) u = Some sw \<longrightarrow> sw_occupancy sw = FREE)"
proof -
  have "switches_free (el_state (do_ticks n ebilock_interface lp))"
    using assms(1) by (rule eb_free.do_ticks_inv)
  moreover have "switches_free (el_state (do_ticks n ml8_interface lp2))"
    using assms(2) by (rule ml_free.do_ticks_inv)
  ultimately show ?thesis
    by (auto simp: switches_free_def find_switch_def list_all_iff dest: um_find_in_set)
qed

definition sample_ml8_loop :: "Ml8System EngineLoop" where
  "sample_ml8_loop =
     \<lparr>el_state = sample_station, el_control = make_Ml8System 90, el_queue = pq_new, el_snapshot = None,
      el_train_fleet = [sample_entry 2 52], el_fleet_commands = eq_new\<rparr>"

theorem engine_never_occupies_switches_witness:
  "switches_free (el_state (do_ticks 20 ml8_interface sample_ml8_loop))"
proof -
  have "switches_free sample_station" by (simp add: switches_free_def sample_station_def sample_switch_def)
  then show ?thesis
    using engine_never_occupies_switches [of "sample_loop []" sample_ml8_loop 20]
    by (simp add: sample_loop_def sample_ml8_loop_def)
qed

text \<open>
  Nothing ever marks a route as entered: from a state without entered routes no tick under
  either interlocking, with any commands and trains, produces one, and the automatic release of
  routes does nothing at any later tick.
\<close>

theorem auto_release_never_fires:
  assumes "no_train_entered (el_state lp)" and "no_train_entered (el_state lp2)"
  shows "no_train_entered (el_state (do_ticks k ebilock_interface lp)) \<and>
    tick_route_auto_release (el_state (do_ticks k ebilock_interface lp)) n = [] \<and>
    tick_route_auto_release (el_state (do_ticks k ml8_interface lp2)) n = []"
proof -
  have none: "tick_route_auto_release s n = []" if "no_train_entered s" for s
    using that by (auto simp: tick_route_auto_release_def no_train_entered_def list_all_iff release_route_def)
  show ?thesis
    using eb_entered.do_ticks_inv [OF assms(1)] ml_entered.do_ticks_inv [OF assms(2)] none by blast
qed

theorem auto_release_never_fires_witness:
  "tick_route_auto_release (el_state (do_ticks 5 ebilock_interface
     (sample_loop [sample_envelope PRIO_NORMAL (RequestRouteCmd 21 22)]))) 12 = []"
  using auto_release_never_fires [of "sample_loop [sample_envelope PRIO_NORMAL (RequestRouteCmd 21 22)]" sample_ml8_loop]
  by (simp add: sample_loop_def sample_ml8_loop_def sample_no_train_entered)

end
