(* ===== verification/Proto_Library.thy ===== *)
theory Proto_Library
  imports Types
begin

text \<open>
  The FlatBuffers runtime, as far as the generated headers under \<^verbatim>\<open>autogens/proto/\<close>
  call it.  The runtime is a third-party library, so it is a parameter: a record of the functions
  the headers use, over an abstract type \<open>'t\<close> of references into a buffer (a table, a
  string or a vector).  A null pointer or a null offset is \<open>None\<close>.  The counters the verifier
  keeps are not tracked; \<open>fb_VerifyTableStart\<close> and \<open>fb_EndTable\<close> may refuse any table.

  \<open>FbElem\<close> is one call on the builder between \<^verbatim>\<open>StartTable\<close> and
  \<^verbatim>\<open>EndTable\<close>: a scalar with its vtable offset, value and default, or an offset to an
  object built before.  \<open>fb_reads_back\<close> states the documented behaviour that readers and
  builders share: a scalar equal to its default is not stored, an absent field reads as the
  default, a string, a vector or a table read through its offset is the one that was added.
  The tree of calls itself is such a runtime (\<open>tree_runtime\<close>).
\<close>

type_synonym i8 = "8 word"
type_synonym i32 = "32 word"

section \<open>The calls of the builder\<close>

datatype (plugins only: size code) 't FbElem =
    AddElement_u8 nat u8 u8
  | AddElement_i8 nat i8 i8
  | AddElement_u16 nat u16 u16
  | AddElement_u32 nat u32 u32
  | AddElement_i32 nat i32 i32
  | AddElement_u64 nat u64 u64
  | AddElement_float nat float32 float32
  | AddOffset nat "'t option"

section \<open>The runtime\<close>

record 't FlatBuffers =
  fb_GetRoot :: "u8 list \<Rightarrow> 't"
  fb_VerifyBuffer :: "('t \<Rightarrow> bool) \<Rightarrow> u8 list \<Rightarrow> bool"
  fb_VerifyTableStart :: "'t \<Rightarrow> bool"
  fb_EndTable :: "'t \<Rightarrow> bool"
  fb_VerifyField :: "'t \<Rightarrow> nat \<Rightarrow> nat \<Rightarrow> bool"
  fb_VerifyOffset :: "'t \<Rightarrow> nat \<Rightarrow> bool"
  fb_VerifyOffsetRequired :: "'t \<Rightarrow> nat \<Rightarrow> bool"
  fb_VerifyString :: "'t option \<Rightarrow> bool"
  fb_VerifyVector :: "'t option \<Rightarrow> bool"
  fb_VerifyVectorOfStrings :: "'t option \<Rightarrow> bool"
  fb_VerifyVectorOfTables :: "('t \<Rightarrow> bool) \<Rightarrow> 't option \<Rightarrow> bool"
  fb_VerifyTable :: "('t \<Rightarrow> bool) \<Rightarrow> 't option \<Rightarrow> bool"
  fb_GetField_u8 :: "'t \<Rightarrow> nat \<Rightarrow> u8 \<Rightarrow> u8"
  fb_GetField_i8 :: "'t \<Rightarrow> nat \<Rightarrow> i8 \<Rightarrow> i8"
  fb_GetField_u16 :: "'t \<Rightarrow> nat \<Rightarrow> u16 \<Rightarrow> u16"
  fb_GetField_u32 :: "'t \<Rightarrow> nat \<Rightarrow> u32 \<Rightarrow> u32"
  fb_GetField_i32 :: "'t \<Rightarrow> nat \<Rightarrow> i32 \<Rightarrow> i32"
  fb_GetField_u64 :: "'t \<Rightarrow> nat \<Rightarrow> u64 \<Rightarrow> u64"
  fb_GetField_float :: "'t \<Rightarrow> nat \<Rightarrow> float32 \<Rightarrow> float32"
  fb_GetPointer :: "'t \<Rightarrow> nat \<Rightarrow> 't option"
  fb_str :: "'t \<Rightarrow> string"
  fb_vec_u64 :: "'t \<Rightarrow> u64 list"
  fb_vec_refs :: "'t \<Rightarrow> 't list"
  fb_CreateString :: "string \<Rightarrow> 't"
  fb_CreateVector_u64 :: "u64 list \<Rightarrow> 't"
  fb_CreateVector_refs :: "'t list \<Rightarrow> 't"
  fb_Table :: "'t FbElem list \<Rightarrow> 't"
  fb_Finish :: "'t \<Rightarrow> u8 list"

section \<open>What a reader finds in a table that was built\<close>

text \<open>A scalar that equals its default is omitted, so the reader's default is returned.\<close>

fun read_u8 :: "'t FbElem list \<Rightarrow> nat \<Rightarrow> u8 \<Rightarrow> u8" where
  "read_u8 (AddElement_u8 k v d # es) off def = (if k = off then (if v = d then def else v) else read_u8 es off def)"
| "read_u8 (_ # es) off def = read_u8 es off def"
| "read_u8 [] off def = def"

fun read_i8 :: "'t FbElem list \<Rightarrow> nat \<Rightarrow> i8 \<Rightarrow> i8" where
  "read_i8 (AddElement_i8 k v d # es) off def = (if k = off then (if v = d then def else v) else read_i8 es off def)"
| "read_i8 (_ # es) off def = read_i8 es off def"
| "read_i8 [] off def = def"

fun read_u16 :: "'t FbElem list \<Rightarrow> nat \<Rightarrow> u16 \<Rightarrow> u16" where
  "read_u16 (AddElement_u16 k v d # es) off def = (if k = off then (if v = d then def else v) else read_u16 es off def)"
| "read_u16 (_ # es) off def = read_u16 es off def"
| "read_u16 [] off def = def"

fun read_u32 :: "'t FbElem list \<Rightarrow> nat \<Rightarrow> u32 \<Rightarrow> u32" where
  "read_u32 (AddElement_u32 k v d # es) off def = (if k = off then (if v = d then def else v) else read_u32 es off def)"
| "read_u32 (_ # es) off def = read_u32 es off def"
| "read_u32 [] off def = def"

fun read_i32 :: "'t FbElem list \<Rightarrow> nat \<Rightarrow> i32 \<Rightarrow> i32" where
  "read_i32 (AddElement_i32 k v d # es) off def = (if k = off then (if v = d then def else v) else read_i32 es off def)"
| "read_i32 (_ # es) off def = read_i32 es off def"
| "read_i32 [] off def = def"

fun read_u64 :: "'t FbElem list \<Rightarrow> nat \<Rightarrow> u64 \<Rightarrow> u64" where
  "read_u64 (AddElement_u64 k v d # es) off def = (if k = off then (if v = d then def else v) else read_u64 es off def)"
| "read_u64 (_ # es) off def = read_u64 es off def"
| "read_u64 [] off def = def"

fun read_float :: "'t FbElem list \<Rightarrow> nat \<Rightarrow> float32 \<Rightarrow> float32" where
  "read_float (AddElement_float k v d # es) off def = (if k = off then (if v = d then def else v) else read_float es off def)"
| "read_float (_ # es) off def = read_float es off def"
| "read_float [] off def = def"

fun read_pointer :: "'t FbElem list \<Rightarrow> nat \<Rightarrow> 't option" where
  "read_pointer (AddOffset k r # es) off = (if k = off then r else read_pointer es off)"
| "read_pointer (_ # es) off = read_pointer es off"
| "read_pointer [] off = None"

definition fb_reads_back :: "'t FlatBuffers \<Rightarrow> bool" where
  "fb_reads_back fb \<longleftrightarrow>
     (\<forall>es. fb_GetField_u8 fb (fb_Table fb es) = read_u8 es) \<and>
     (\<forall>es. fb_GetField_i8 fb (fb_Table fb es) = read_i8 es) \<and>
     (\<forall>es. fb_GetField_u16 fb (fb_Table fb es) = read_u16 es) \<and>
     (\<forall>es. fb_GetField_u32 fb (fb_Table fb es) = read_u32 es) \<and>
     (\<forall>es. fb_GetField_i32 fb (fb_Table fb es) = read_i32 es) \<and>
     (\<forall>es. fb_GetField_u64 fb (fb_Table fb es) = read_u64 es) \<and>
     (\<forall>es. fb_GetField_float fb (fb_Table fb es) = read_float es) \<and>
     (\<forall>es. fb_GetPointer fb (fb_Table fb es) = read_pointer es) \<and>
     (\<forall>s. fb_str fb (fb_CreateString fb s) = s) \<and>
     (\<forall>xs. fb_vec_u64 fb (fb_CreateVector_u64 fb xs) = xs) \<and>
     (\<forall>rs. fb_vec_refs fb (fb_CreateVector_refs fb rs) = rs)"

lemma fb_reads_backD:
  assumes "fb_reads_back fb"
  shows "fb_GetField_u8 fb (fb_Table fb es) = read_u8 es"
    "fb_GetField_i8 fb (fb_Table fb es) = read_i8 es"
    "fb_GetField_u16 fb (fb_Table fb es) = read_u16 es"
    "fb_GetField_u32 fb (fb_Table fb es) = read_u32 es"
    "fb_GetField_i32 fb (fb_Table fb es) = read_i32 es"
    "fb_GetField_u64 fb (fb_Table fb es) = read_u64 es"
    "fb_GetField_float fb (fb_Table fb es) = read_float es"
    "fb_GetPointer fb (fb_Table fb es) = read_pointer es"
    "fb_str fb (fb_CreateString fb s) = s"
    "fb_vec_u64 fb (fb_CreateVector_u64 fb xs) = xs"
    "fb_vec_refs fb (fb_CreateVector_refs fb rs) = rs"
  using assms by (simp_all add: fb_reads_back_def)

section \<open>A runtime that keeps the calls\<close>

text \<open>
  References are the trees of the calls that built them.  The instance shows that the law can
  hold; it does not produce bytes.
\<close>

datatype (plugins only: size code) FbTree =
    TreeTable "FbTree FbElem list"
  | TreeString string
  | TreeVector_u64 "u64 list"
  | TreeVector_refs "FbTree list"

fun tree_elems :: "FbTree \<Rightarrow> FbTree FbElem list" where
  "tree_elems (TreeTable es) = es"
| "tree_elems _ = []"

fun tree_string :: "FbTree \<Rightarrow> string" where
  "tree_string (TreeString s) = s"
| "tree_string _ = []"

fun tree_u64s :: "FbTree \<Rightarrow> u64 list" where
  "tree_u64s (TreeVector_u64 xs) = xs"
| "tree_u64s _ = []"

fun tree_refs :: "FbTree \<Rightarrow> FbTree list" where
  "tree_refs (TreeVector_refs rs) = rs"
| "tree_refs _ = []"

definition tree_runtime :: "(u8 list \<Rightarrow> FbTree) \<Rightarrow> FbTree FlatBuffers" where
  "tree_runtime rt =
    \<lparr>fb_GetRoot = rt, fb_VerifyBuffer = (\<lambda>p b. p (rt b)), fb_VerifyTableStart = (\<lambda>_. True),
     fb_EndTable = (\<lambda>_. True), fb_VerifyField = (\<lambda>_ _ _. True), fb_VerifyOffset = (\<lambda>_ _. True),
     fb_VerifyOffsetRequired = (\<lambda>t off. read_pointer (tree_elems t) off \<noteq> None),
     fb_VerifyString = (\<lambda>_. True), fb_VerifyVector = (\<lambda>_. True),
     fb_VerifyVectorOfStrings = (\<lambda>_. True),
     fb_VerifyVectorOfTables = (\<lambda>p r. case r of None \<Rightarrow> True | Some v \<Rightarrow> list_all p (tree_refs v)),
     fb_VerifyTable = (\<lambda>p r. case r of None \<Rightarrow> True | Some t \<Rightarrow> p t),
     fb_GetField_u8 = (\<lambda>t. read_u8 (tree_elems t)), fb_GetField_i8 = (\<lambda>t. read_i8 (tree_elems t)),
     fb_GetField_u16 = (\<lambda>t. read_u16 (tree_elems t)), fb_GetField_u32 = (\<lambda>t. read_u32 (tree_elems t)),
     fb_GetField_i32 = (\<lambda>t. read_i32 (tree_elems t)), fb_GetField_u64 = (\<lambda>t. read_u64 (tree_elems t)),
     fb_GetField_float = (\<lambda>t. read_float (tree_elems t)),
     fb_GetPointer = (\<lambda>t. read_pointer (tree_elems t)),
     fb_str = tree_string, fb_vec_u64 = tree_u64s, fb_vec_refs = tree_refs,
     fb_CreateString = TreeString, fb_CreateVector_u64 = TreeVector_u64,
     fb_CreateVector_refs = TreeVector_refs, fb_Table = TreeTable, fb_Finish = (\<lambda>_. [])\<rparr>"

lemma tree_runtime_reads_back: "fb_reads_back (tree_runtime rt)"
  by (simp add: fb_reads_back_def tree_runtime_def)

end
