(* ===== verification/Proto_Common.thy ===== *)
theory Proto_Common
  imports Proto_Library
begin

text \<open>
  The shared enumerations of the wire protocol, \<^verbatim>\<open>autogens/proto/common_generated.h\<close>.
  An enumeration is its underlying byte; the lists of values and names and the lookup of a name
  are the functions the header declares.
\<close>

section \<open>enum \<^verbatim>\<open>Aspect\<close>\<close>

definition EnumValuesAspect :: "i8 list" where
  "EnumValuesAspect = [0, 1, 2, 3, 4, 5, 6, 7, 8, 9, 10, 11, 12, 13, 14, 15, 16]"

definition EnumNamesAspect :: "string list" where
  "EnumNamesAspect = [''S1_STOP'', ''S2_PROCEED'', ''S3_PROCEED_40'', ''S4_PROCEED_40_EXPECT_STOP'',
     ''S5_EXPECT_STOP'', ''S6_PROCEED_100'', ''S7_PROCEED_100_EXPECT_STOP'',
     ''S8_PROCEED_100_EXPECT_40'', ''S9_PROCEED_100_EXPECT_60'', ''S10_PROCEED_40'',
     ''S11_PROCEED_40_EXPECT_40'', ''S12_PROCEED_60'', ''S13_PROCEED_60_EXPECT_60'',
     ''SZ_PROCEED'', ''SZN_PROCEED_W24'', ''MS1_STOP'', ''MS2_SHUNTING_ALLOWED'']"

definition EnumNameAspect :: "i8 \<Rightarrow> string" where
  "EnumNameAspect e = (if sint e < 0 \<or> 16 < sint e then [] else EnumNamesAspect ! unat e)"

section \<open>enum \<^verbatim>\<open>SwitchPosition\<close>\<close>

definition SwitchPosition_STRAIGHT :: i8 where "SwitchPosition_STRAIGHT = 0"
definition SwitchPosition_DIVERGENT :: i8 where "SwitchPosition_DIVERGENT = 1"

definition EnumValuesSwitchPosition :: "i8 list" where
  "EnumValuesSwitchPosition = [0, 1, 2]"

definition EnumNamesSwitchPosition :: "string list" where
  "EnumNamesSwitchPosition = [''STRAIGHT'', ''DIVERGENT'', ''MOVING'']"

definition EnumNameSwitchPosition :: "i8 \<Rightarrow> string" where
  "EnumNameSwitchPosition e = (if sint e < 0 \<or> 2 < sint e then [] else EnumNamesSwitchPosition ! unat e)"

section \<open>enum \<^verbatim>\<open>DerailerPosition\<close>\<close>

definition DerailerPosition_LOCKED :: i8 where "DerailerPosition_LOCKED = 0"
definition DerailerPosition_UNLOCKED :: i8 where "DerailerPosition_UNLOCKED = 1"

definition EnumValuesDerailerPosition :: "i8 list" where
  "EnumValuesDerailerPosition = [0, 1]"

definition EnumNamesDerailerPosition :: "string list" where
  "EnumNamesDerailerPosition = [''LOCKED'', ''UNLOCKED'']"

definition EnumNameDerailerPosition :: "i8 \<Rightarrow> string" where
  "EnumNameDerailerPosition e = (if sint e < 0 \<or> 1 < sint e then [] else EnumNamesDerailerPosition ! unat e)"

section \<open>enum \<^verbatim>\<open>BlockSectionState\<close>\<close>

definition BlockSectionState_OPEN :: i8 where "BlockSectionState_OPEN = 0"
definition BlockSectionState_CLOSED :: i8 where "BlockSectionState_CLOSED = 1"

definition EnumValuesBlockSectionState :: "i8 list" where
  "EnumValuesBlockSectionState = [0, 1]"

definition EnumNamesBlockSectionState :: "string list" where
  "EnumNamesBlockSectionState = [''OPEN'', ''CLOSED'']"

definition EnumNameBlockSectionState :: "i8 \<Rightarrow> string" where
  "EnumNameBlockSectionState e = (if sint e < 0 \<or> 1 < sint e then [] else EnumNamesBlockSectionState ! unat e)"

section \<open>enum \<^verbatim>\<open>BlockDirectionState\<close>\<close>

definition EnumValuesBlockDirectionState :: "i8 list" where
  "EnumValuesBlockDirectionState = [0, 1, 2, 3, 4, 5, 6]"

definition EnumNamesBlockDirectionState :: "string list" where
  "EnumNamesBlockDirectionState = [''NEUTRAL'', ''OUTBOUND_PENDING'', ''OUTBOUND'', ''INBOUND_PENDING'', ''INBOUND'',
     ''EMERGENCY'', ''RESET_PENDING'']"

definition EnumNameBlockDirectionState :: "i8 \<Rightarrow> string" where
  "EnumNameBlockDirectionState e = (if sint e < 0 \<or> 6 < sint e then [] else EnumNamesBlockDirectionState ! unat e)"

section \<open>enum \<^verbatim>\<open>ChangeCause\<close>\<close>

definition ChangeCause_COMMAND :: i8 where "ChangeCause_COMMAND = 0"
definition ChangeCause_AUTO :: i8 where "ChangeCause_AUTO = 1"

definition EnumValuesChangeCause :: "i8 list" where
  "EnumValuesChangeCause = [0, 1, 2]"

definition EnumNamesChangeCause :: "string list" where
  "EnumNamesChangeCause = [''COMMAND'', ''AUTO'', ''TIMEOUT'']"

definition EnumNameChangeCause :: "i8 \<Rightarrow> string" where
  "EnumNameChangeCause e = (if sint e < 0 \<or> 2 < sint e then [] else EnumNamesChangeCause ! unat e)"

section \<open>enum \<^verbatim>\<open>DispatchFormType\<close>\<close>

definition DispatchFormType_S2 :: i8 where "DispatchFormType_S2 = 0"
definition DispatchFormType_S24 :: i8 where "DispatchFormType_S24 = 1"
definition DispatchFormType_S25 :: i8 where "DispatchFormType_S25 = 2"
definition DispatchFormType_S26 :: i8 where "DispatchFormType_S26 = 3"
definition DispatchFormType_S55 :: i8 where "DispatchFormType_S55 = 4"
definition DispatchFormType_S56 :: i8 where "DispatchFormType_S56 = 5"

definition EnumValuesDispatchFormType :: "i8 list" where
  "EnumValuesDispatchFormType = [0, 1, 2, 3, 4, 5]"

definition EnumNamesDispatchFormType :: "string list" where
  "EnumNamesDispatchFormType = [''S2'', ''S24'', ''S25'', ''S26'', ''S55'', ''S56'']"

definition EnumNameDispatchFormType :: "i8 \<Rightarrow> string" where
  "EnumNameDispatchFormType e = (if sint e < 0 \<or> 5 < sint e then [] else EnumNamesDispatchFormType ! unat e)"

section \<open>enum \<^verbatim>\<open>TelegramDirection\<close>\<close>

definition TelegramDirection_SENT :: i8 where "TelegramDirection_SENT = 0"

definition EnumValuesTelegramDirection :: "i8 list" where
  "EnumValuesTelegramDirection = [0, 1]"

definition EnumNamesTelegramDirection :: "string list" where
  "EnumNamesTelegramDirection = [''SENT'', ''RECEIVED'']"

definition EnumNameTelegramDirection :: "i8 \<Rightarrow> string" where
  "EnumNameTelegramDirection e = (if sint e < 0 \<or> 1 < sint e then [] else EnumNamesTelegramDirection ! unat e)"

section \<open>enum \<^verbatim>\<open>ExchangeStatus\<close>\<close>

definition ExchangeStatus_PENDING :: i8 where "ExchangeStatus_PENDING = 0"
definition ExchangeStatus_ACCEPTED :: i8 where "ExchangeStatus_ACCEPTED = 1"
definition ExchangeStatus_REJECTED :: i8 where "ExchangeStatus_REJECTED = 2"
definition ExchangeStatus_CLOSED :: i8 where "ExchangeStatus_CLOSED = 3"

definition EnumValuesExchangeStatus :: "i8 list" where
  "EnumValuesExchangeStatus = [0, 1, 2, 3]"

definition EnumNamesExchangeStatus :: "string list" where
  "EnumNamesExchangeStatus = [''PENDING'', ''ACCEPTED'', ''REJECTED'', ''CLOSED'']"

definition EnumNameExchangeStatus :: "i8 \<Rightarrow> string" where
  "EnumNameExchangeStatus e = (if sint e < 0 \<or> 3 < sint e then [] else EnumNamesExchangeStatus ! unat e)"

section \<open>enum \<^verbatim>\<open>SessionState\<close>\<close>

definition EnumValuesSessionState :: "i8 list" where
  "EnumValuesSessionState = [0, 1, 2, 3]"

definition EnumNamesSessionState :: "string list" where
  "EnumNamesSessionState = [''STARTED'', ''PAUSED'', ''RESUMED'', ''ENDED'']"

definition EnumNameSessionState :: "i8 \<Rightarrow> string" where
  "EnumNameSessionState e = (if sint e < 0 \<or> 3 < sint e then [] else EnumNamesSessionState ! unat e)"

end
