(* ===== verification/Proto_Commands.thy ===== *)
theory Proto_Commands
  imports Proto_Common
begin

text \<open>
  The command tables of the wire protocol, \<^verbatim>\<open>autogens/proto/commands_generated.h\<close>:
  per table its accessors, its verifier, the setters of its builder and its create function, over
  the FlatBuffers runtime of theory \<open>Proto_Library\<close>.
\<close>

section \<open>enum \<^verbatim>\<open>Shl12Op\<close>\<close>

definition EnumValuesShl12Op :: "i8 list" where
  "EnumValuesShl12Op = [0, 1, 2, 3, 4, 5, 6]"

definition EnumNamesShl12Op :: "string list" where
  "EnumNamesShl12Op = [''BLW'', ''BLP'', ''BLO'', ''BLZ'', ''BLAI'', ''BLA'', ''OPS'']"

definition EnumNameShl12Op :: "i8 \<Rightarrow> string" where
  "EnumNameShl12Op e = (if sint e < 0 \<or> 6 < sint e then [] else EnumNamesShl12Op ! unat e)"

section \<open>enum \<^verbatim>\<open>OperatorTargetKind\<close>\<close>

definition EnumValuesOperatorTargetKind :: "i8 list" where
  "EnumValuesOperatorTargetKind = [0, 1, 2, 3, 4, 5, 6, 7, 8, 9, 10]"

definition EnumNamesOperatorTargetKind :: "string list" where
  "EnumNamesOperatorTargetKind = [''SIGNAL'', ''SWITCH'', ''DERAILER'', ''TRACK_SECTION'', ''BLOCK_SECTION'',
     ''AXLE_COUNTER_SYSTEM'', ''STATION'', ''ROUTE'', ''LEVEL_CROSSING'',
     ''INTERLOCKING_COMPUTER'', ''POWER_SUPPLY'']"

definition EnumNameOperatorTargetKind :: "i8 \<Rightarrow> string" where
  "EnumNameOperatorTargetKind e = (if sint e < 0 \<or> 10 < sint e then [] else EnumNamesOperatorTargetKind ! unat e)"

section \<open>enum \<^verbatim>\<open>OperatorCommandCode\<close>\<close>

definition EnumValuesOperatorCommandCode :: "i8 list" where
  "EnumValuesOperatorCommandCode = [0, 1, 2, 3, 4, 5, 6, 7, 8, 9, 10, 11, 12, 13, 14, 15, 16, 17, 18, 19, 20, 21, 22, 23, 24,
     25, 26, 27, 28, 29, 30, 31, 32, 33, 34, 35, 36, 37, 38, 39, 40, 41, 42, 43, 44, 45, 46,
     47, 48, 49, 50, 51, 52, 53, 54, 55, 56, 57, 58, 59, 60, 61, 62, 63, 64, 65, 66, 67, 68,
     69, 70, 71, 72, 73]"

definition EnumNamesOperatorCommandCode :: "string list" where
  "EnumNamesOperatorCommandCode = [''SES'', ''SEO'', ''SZI'', ''SZW'', ''SZN'', ''SZO'', ''SAM'', ''SAW'', ''ZWP'', ''ZWM'',
     ''ZWS'', ''ZWO'', ''ITS'', ''ITO'', ''ZWB'', ''ZBP'', ''ZBM'', ''ZRI'', ''ZRK'',
     ''OPS'', ''SLI'', ''SLK'', ''BLW'', ''BLP'', ''BLO'', ''BLZ'', ''BLAI'', ''BLA'',
     ''BLS'', ''OST'', ''ZKB'', ''PZM'', ''OZK'', ''ZESI'', ''ZES'', ''PZZI'', ''PZZ'',
     ''POZ'', ''DPOI'', ''DPO'', ''DKOI'', ''DKO'', ''DKPI'', ''DKP'', ''BPZ'', ''DPWI'',
     ''DPW'', ''BTW'', ''BTO'', ''BPO'', ''BKO'', ''PDZ'', ''PDO'', ''PZT'', ''PAZ'',
     ''PZO'', ''PDII'', ''PDI'', ''MRS'', ''ODS'', ''ZAL'', ''POC'', ''PZA'', ''PZAI'',
     ''PZW'', ''SSO'', ''SSS'', ''UPAI'', ''UPA'', ''UPAO'', ''UPN'', ''UPO'', ''ZSO'',
     ''ZSS'']"

definition EnumNameOperatorCommandCode :: "i8 \<Rightarrow> string" where
  "EnumNameOperatorCommandCode e = (if sint e < 0 \<or> 73 < sint e then [] else EnumNamesOperatorCommandCode ! unat e)"

section \<open>enum \<^verbatim>\<open>Ml8CommandCode\<close>\<close>

definition EnumValuesMl8CommandCode :: "i8 list" where
  "EnumValuesMl8CommandCode = [0, 1, 2, 3, 4, 5, 6, 7, 8, 9, 10, 11, 12, 13, 14, 15, 16, 17, 18, 19, 20, 21, 22, 23, 24,
     25, 26, 27, 28, 29, 30, 31, 32, 33, 34, 35, 36, 37, 38, 39, 40, 41, 42, 43, 44, 45, 46,
     47, 48, 49, 50, 51, 52, 53, 54, 55, 56, 57, 58, 59, 60, 61, 62, 63, 64, 65, 66, 67, 68,
     69, 70]"

definition EnumNamesMl8CommandCode :: "string list" where
  "EnumNamesMl8CommandCode = [''AK'', ''AZK'', ''BLZ'', ''BLZC'', ''DOP'', ''DOPS'', ''DPZ'', ''HMI'', ''KRA'', ''KSR'',
     ''LKA'', ''LOFF'', ''MAN'', ''NPU'', ''NPW'', ''NPZ'', ''OGI'', ''OP'', ''OPO'',
     ''OSTOP'', ''OTB'', ''OTE'', ''OTEYYY'', ''OTP'', ''OTPON'', ''OT'', ''OTZ'', ''OUZ'',
     ''OUZ_DR'', ''OUZ_DZ'', ''OUZ_JN'', ''OUZ_PJ'', ''OUZ_X'', ''OUZ_ZN'', ''OWBL'',
     ''OZCZ'', ''P'', ''POC'', ''POT'', ''PZK'', ''PPN'', ''PPZ'', ''PZ'', ''PZB'', ''PZS'',
     ''SPEC'', ''STJ'', ''STOJ'', ''STOP'', ''SZ'', ''NSZ'', ''WBL'', ''WPN'', ''WPZ'',
     ''WZ'', ''ZCZ'', ''ZDM'', ''ZDP'', ''ZEROLO'', ''ZI'', ''ZO'', ''ZPO'', ''ZW'',
     ''ZWBL'', ''Z'', ''Z_DR'', ''Z_DZ'', ''Z_JN'', ''Z_PJ'', ''Z_X'', ''Z_ZN'']"

definition EnumNameMl8CommandCode :: "i8 \<Rightarrow> string" where
  "EnumNameMl8CommandCode e = (if sint e < 0 \<or> 70 < sint e then [] else EnumNamesMl8CommandCode ! unat e)"

section \<open>enum \<^verbatim>\<open>NakReason\<close>\<close>

definition NakReason_UNSUPPORTED :: i8 where "NakReason_UNSUPPORTED = 7"

definition EnumValuesNakReason :: "i8 list" where
  "EnumValuesNakReason = [0, 1, 2, 3, 4, 5, 6, 7, 8, 9]"

definition EnumNamesNakReason :: "string list" where
  "EnumNamesNakReason = [''UNSPECIFIED'', ''NOT_FOUND'', ''SAFETY_BLOCK'', ''INVALID_STATE'', ''ROUTE_LOCKED'',
     ''NO_PATH'', ''SWITCH_MOVING'', ''UNSUPPORTED'', ''UNAUTHORIZED'', ''SESSION_PAUSED'']"

definition EnumNameNakReason :: "i8 \<Rightarrow> string" where
  "EnumNameNakReason e = (if sint e < 0 \<or> 9 < sint e then [] else EnumNamesNakReason ! unat e)"

section \<open>table \<^verbatim>\<open>SetSwitchPosition\<close>\<close>

definition SetSwitchPosition_uid :: "'t FlatBuffers \<Rightarrow> 't \<Rightarrow> u64" where
  "SetSwitchPosition_uid fb t = fb_GetField_u64 fb t 4 0"

definition SetSwitchPosition_position :: "'t FlatBuffers \<Rightarrow> 't \<Rightarrow> i8" where
  "SetSwitchPosition_position fb t = fb_GetField_i8 fb t 6 0"

definition SetSwitchPosition_Verify :: "'t FlatBuffers \<Rightarrow> 't \<Rightarrow> bool" where
  "SetSwitchPosition_Verify fb t \<longleftrightarrow>
     fb_VerifyTableStart fb t \<and>
     fb_VerifyField fb t 4 8 \<and>
     fb_VerifyField fb t 6 1 \<and>
     fb_EndTable fb t"

definition SetSwitchPosition_add_uid :: "u64 \<Rightarrow> 't FbElem" where
  "SetSwitchPosition_add_uid uid = AddElement_u64 4 uid 0"

definition SetSwitchPosition_add_position :: "i8 \<Rightarrow> 't FbElem" where
  "SetSwitchPosition_add_position position = AddElement_i8 6 position 0"

definition CreateSetSwitchPosition :: "'t FlatBuffers \<Rightarrow> u64 \<Rightarrow> i8 \<Rightarrow> 't" where
  "CreateSetSwitchPosition fb uid position =
     fb_Table fb [SetSwitchPosition_add_uid uid, SetSwitchPosition_add_position position]"

lemmas SetSwitchPosition_defs = SetSwitchPosition_uid_def SetSwitchPosition_position_def
 SetSwitchPosition_Verify_def SetSwitchPosition_add_uid_def
 SetSwitchPosition_add_position_def CreateSetSwitchPosition_def

section \<open>table \<^verbatim>\<open>SetSignalAspect\<close>\<close>

definition SetSignalAspect_uid :: "'t FlatBuffers \<Rightarrow> 't \<Rightarrow> u64" where
  "SetSignalAspect_uid fb t = fb_GetField_u64 fb t 4 0"

definition SetSignalAspect_aspect :: "'t FlatBuffers \<Rightarrow> 't \<Rightarrow> i8" where
  "SetSignalAspect_aspect fb t = fb_GetField_i8 fb t 6 0"

definition SetSignalAspect_Verify :: "'t FlatBuffers \<Rightarrow> 't \<Rightarrow> bool" where
  "SetSignalAspect_Verify fb t \<longleftrightarrow>
     fb_VerifyTableStart fb t \<and>
     fb_VerifyField fb t 4 8 \<and>
     fb_VerifyField fb t 6 1 \<and>
     fb_EndTable fb t"

definition SetSignalAspect_add_uid :: "u64 \<Rightarrow> 't FbElem" where
  "SetSignalAspect_add_uid uid = AddElement_u64 4 uid 0"

definition SetSignalAspect_add_aspect :: "i8 \<Rightarrow> 't FbElem" where
  "SetSignalAspect_add_aspect aspect = AddElement_i8 6 aspect 0"

definition CreateSetSignalAspect :: "'t FlatBuffers \<Rightarrow> u64 \<Rightarrow> i8 \<Rightarrow> 't" where
  "CreateSetSignalAspect fb uid aspect =
     fb_Table fb [SetSignalAspect_add_uid uid, SetSignalAspect_add_aspect aspect]"

lemmas SetSignalAspect_defs = SetSignalAspect_uid_def SetSignalAspect_aspect_def
 SetSignalAspect_Verify_def SetSignalAspect_add_uid_def SetSignalAspect_add_aspect_def
 CreateSetSignalAspect_def

section \<open>table \<^verbatim>\<open>SetDerailerPosition\<close>\<close>

definition SetDerailerPosition_uid :: "'t FlatBuffers \<Rightarrow> 't \<Rightarrow> u64" where
  "SetDerailerPosition_uid fb t = fb_GetField_u64 fb t 4 0"

definition SetDerailerPosition_position :: "'t FlatBuffers \<Rightarrow> 't \<Rightarrow> i8" where
  "SetDerailerPosition_position fb t = fb_GetField_i8 fb t 6 0"

definition SetDerailerPosition_Verify :: "'t FlatBuffers \<Rightarrow> 't \<Rightarrow> bool" where
  "SetDerailerPosition_Verify fb t \<longleftrightarrow>
     fb_VerifyTableStart fb t \<and>
     fb_VerifyField fb t 4 8 \<and>
     fb_VerifyField fb t 6 1 \<and>
     fb_EndTable fb t"

definition SetDerailerPosition_add_uid :: "u64 \<Rightarrow> 't FbElem" where
  "SetDerailerPosition_add_uid uid = AddElement_u64 4 uid 0"

definition SetDerailerPosition_add_position :: "i8 \<Rightarrow> 't FbElem" where
  "SetDerailerPosition_add_position position = AddElement_i8 6 position 0"

definition CreateSetDerailerPosition :: "'t FlatBuffers \<Rightarrow> u64 \<Rightarrow> i8 \<Rightarrow> 't" where
  "CreateSetDerailerPosition fb uid position =
     fb_Table fb [SetDerailerPosition_add_uid uid, SetDerailerPosition_add_position position]"

lemmas SetDerailerPosition_defs = SetDerailerPosition_uid_def
 SetDerailerPosition_position_def SetDerailerPosition_Verify_def
 SetDerailerPosition_add_uid_def SetDerailerPosition_add_position_def
 CreateSetDerailerPosition_def

section \<open>table \<^verbatim>\<open>SetBlockSection\<close>\<close>

definition SetBlockSection_uid :: "'t FlatBuffers \<Rightarrow> 't \<Rightarrow> u64" where
  "SetBlockSection_uid fb t = fb_GetField_u64 fb t 4 0"

definition SetBlockSection_state :: "'t FlatBuffers \<Rightarrow> 't \<Rightarrow> i8" where
  "SetBlockSection_state fb t = fb_GetField_i8 fb t 6 0"

definition SetBlockSection_Verify :: "'t FlatBuffers \<Rightarrow> 't \<Rightarrow> bool" where
  "SetBlockSection_Verify fb t \<longleftrightarrow>
     fb_VerifyTableStart fb t \<and>
     fb_VerifyField fb t 4 8 \<and>
     fb_VerifyField fb t 6 1 \<and>
     fb_EndTable fb t"

definition SetBlockSection_add_uid :: "u64 \<Rightarrow> 't FbElem" where
  "SetBlockSection_add_uid uid = AddElement_u64 4 uid 0"

definition SetBlockSection_add_state :: "i8 \<Rightarrow> 't FbElem" where
  "SetBlockSection_add_state state = AddElement_i8 6 state 0"

definition CreateSetBlockSection :: "'t FlatBuffers \<Rightarrow> u64 \<Rightarrow> i8 \<Rightarrow> 't" where
  "CreateSetBlockSection fb uid state =
     fb_Table fb [SetBlockSection_add_uid uid, SetBlockSection_add_state state]"

lemmas SetBlockSection_defs = SetBlockSection_uid_def SetBlockSection_state_def
 SetBlockSection_Verify_def SetBlockSection_add_uid_def SetBlockSection_add_state_def
 CreateSetBlockSection_def

section \<open>table \<^verbatim>\<open>RequestRoute\<close>\<close>

definition RequestRoute_from_signal_uid :: "'t FlatBuffers \<Rightarrow> 't \<Rightarrow> u64" where
  "RequestRoute_from_signal_uid fb t = fb_GetField_u64 fb t 4 0"

definition RequestRoute_to_signal_uid :: "'t FlatBuffers \<Rightarrow> 't \<Rightarrow> u64" where
  "RequestRoute_to_signal_uid fb t = fb_GetField_u64 fb t 6 0"

definition RequestRoute_Verify :: "'t FlatBuffers \<Rightarrow> 't \<Rightarrow> bool" where
  "RequestRoute_Verify fb t \<longleftrightarrow>
     fb_VerifyTableStart fb t \<and>
     fb_VerifyField fb t 4 8 \<and>
     fb_VerifyField fb t 6 8 \<and>
     fb_EndTable fb t"

definition RequestRoute_add_from_signal_uid :: "u64 \<Rightarrow> 't FbElem" where
  "RequestRoute_add_from_signal_uid from_signal_uid = AddElement_u64 4 from_signal_uid 0"

definition RequestRoute_add_to_signal_uid :: "u64 \<Rightarrow> 't FbElem" where
  "RequestRoute_add_to_signal_uid to_signal_uid = AddElement_u64 6 to_signal_uid 0"

definition CreateRequestRoute :: "'t FlatBuffers \<Rightarrow> u64 \<Rightarrow> u64 \<Rightarrow> 't" where
  "CreateRequestRoute fb from_signal_uid to_signal_uid =
     fb_Table fb [RequestRoute_add_to_signal_uid to_signal_uid,
        RequestRoute_add_from_signal_uid from_signal_uid]"

lemmas RequestRoute_defs = RequestRoute_from_signal_uid_def RequestRoute_to_signal_uid_def
 RequestRoute_Verify_def RequestRoute_add_from_signal_uid_def
 RequestRoute_add_to_signal_uid_def CreateRequestRoute_def

section \<open>table \<^verbatim>\<open>CancelRoute\<close>\<close>

definition CancelRoute_route_uid :: "'t FlatBuffers \<Rightarrow> 't \<Rightarrow> u64" where
  "CancelRoute_route_uid fb t = fb_GetField_u64 fb t 4 0"

definition CancelRoute_Verify :: "'t FlatBuffers \<Rightarrow> 't \<Rightarrow> bool" where
  "CancelRoute_Verify fb t \<longleftrightarrow>
     fb_VerifyTableStart fb t \<and>
     fb_VerifyField fb t 4 8 \<and>
     fb_EndTable fb t"

definition CancelRoute_add_route_uid :: "u64 \<Rightarrow> 't FbElem" where
  "CancelRoute_add_route_uid route_uid = AddElement_u64 4 route_uid 0"

definition CreateCancelRoute :: "'t FlatBuffers \<Rightarrow> u64 \<Rightarrow> 't" where
  "CreateCancelRoute fb route_uid =
     fb_Table fb [CancelRoute_add_route_uid route_uid]"

lemmas CancelRoute_defs = CancelRoute_route_uid_def CancelRoute_Verify_def
 CancelRoute_add_route_uid_def CreateCancelRoute_def

section \<open>table \<^verbatim>\<open>AcknowledgeAlarm\<close>\<close>

definition AcknowledgeAlarm_alarm_uid :: "'t FlatBuffers \<Rightarrow> 't \<Rightarrow> u64" where
  "AcknowledgeAlarm_alarm_uid fb t = fb_GetField_u64 fb t 4 0"

definition AcknowledgeAlarm_Verify :: "'t FlatBuffers \<Rightarrow> 't \<Rightarrow> bool" where
  "AcknowledgeAlarm_Verify fb t \<longleftrightarrow>
     fb_VerifyTableStart fb t \<and>
     fb_VerifyField fb t 4 8 \<and>
     fb_EndTable fb t"

definition AcknowledgeAlarm_add_alarm_uid :: "u64 \<Rightarrow> 't FbElem" where
  "AcknowledgeAlarm_add_alarm_uid alarm_uid = AddElement_u64 4 alarm_uid 0"

definition CreateAcknowledgeAlarm :: "'t FlatBuffers \<Rightarrow> u64 \<Rightarrow> 't" where
  "CreateAcknowledgeAlarm fb alarm_uid =
     fb_Table fb [AcknowledgeAlarm_add_alarm_uid alarm_uid]"

lemmas AcknowledgeAlarm_defs = AcknowledgeAlarm_alarm_uid_def AcknowledgeAlarm_Verify_def
 AcknowledgeAlarm_add_alarm_uid_def CreateAcknowledgeAlarm_def

section \<open>table \<^verbatim>\<open>SetBlockDirection\<close>\<close>

definition SetBlockDirection_block_section_uid :: "'t FlatBuffers \<Rightarrow> 't \<Rightarrow> u64" where
  "SetBlockDirection_block_section_uid fb t = fb_GetField_u64 fb t 4 0"

definition SetBlockDirection_operation :: "'t FlatBuffers \<Rightarrow> 't \<Rightarrow> i8" where
  "SetBlockDirection_operation fb t = fb_GetField_i8 fb t 6 0"

definition SetBlockDirection_Verify :: "'t FlatBuffers \<Rightarrow> 't \<Rightarrow> bool" where
  "SetBlockDirection_Verify fb t \<longleftrightarrow>
     fb_VerifyTableStart fb t \<and>
     fb_VerifyField fb t 4 8 \<and>
     fb_VerifyField fb t 6 1 \<and>
     fb_EndTable fb t"

definition SetBlockDirection_add_block_section_uid :: "u64 \<Rightarrow> 't FbElem" where
  "SetBlockDirection_add_block_section_uid block_section_uid = AddElement_u64 4 block_section_uid 0"

definition SetBlockDirection_add_operation :: "i8 \<Rightarrow> 't FbElem" where
  "SetBlockDirection_add_operation operation = AddElement_i8 6 operation 0"

definition CreateSetBlockDirection :: "'t FlatBuffers \<Rightarrow> u64 \<Rightarrow> i8 \<Rightarrow> 't" where
  "CreateSetBlockDirection fb block_section_uid operation =
     fb_Table fb [SetBlockDirection_add_block_section_uid block_section_uid,
        SetBlockDirection_add_operation operation]"

lemmas SetBlockDirection_defs = SetBlockDirection_block_section_uid_def
 SetBlockDirection_operation_def SetBlockDirection_Verify_def
 SetBlockDirection_add_block_section_uid_def SetBlockDirection_add_operation_def
 CreateSetBlockDirection_def

section \<open>table \<^verbatim>\<open>InitAxleCounterReset\<close>\<close>

definition InitAxleCounterReset_block_section_uid :: "'t FlatBuffers \<Rightarrow> 't \<Rightarrow> u64" where
  "InitAxleCounterReset_block_section_uid fb t = fb_GetField_u64 fb t 4 0"

definition InitAxleCounterReset_Verify :: "'t FlatBuffers \<Rightarrow> 't \<Rightarrow> bool" where
  "InitAxleCounterReset_Verify fb t \<longleftrightarrow>
     fb_VerifyTableStart fb t \<and>
     fb_VerifyField fb t 4 8 \<and>
     fb_EndTable fb t"

definition InitAxleCounterReset_add_block_section_uid :: "u64 \<Rightarrow> 't FbElem" where
  "InitAxleCounterReset_add_block_section_uid block_section_uid = AddElement_u64 4 block_section_uid 0"

definition CreateInitAxleCounterReset :: "'t FlatBuffers \<Rightarrow> u64 \<Rightarrow> 't" where
  "CreateInitAxleCounterReset fb block_section_uid =
     fb_Table fb [InitAxleCounterReset_add_block_section_uid block_section_uid]"

lemmas InitAxleCounterReset_defs = InitAxleCounterReset_block_section_uid_def
 InitAxleCounterReset_Verify_def InitAxleCounterReset_add_block_section_uid_def
 CreateInitAxleCounterReset_def

section \<open>table \<^verbatim>\<open>ResetAxleCounter\<close>\<close>

definition ResetAxleCounter_block_section_uid :: "'t FlatBuffers \<Rightarrow> 't \<Rightarrow> u64" where
  "ResetAxleCounter_block_section_uid fb t = fb_GetField_u64 fb t 4 0"

definition ResetAxleCounter_Verify :: "'t FlatBuffers \<Rightarrow> 't \<Rightarrow> bool" where
  "ResetAxleCounter_Verify fb t \<longleftrightarrow>
     fb_VerifyTableStart fb t \<and>
     fb_VerifyField fb t 4 8 \<and>
     fb_EndTable fb t"

definition ResetAxleCounter_add_block_section_uid :: "u64 \<Rightarrow> 't FbElem" where
  "ResetAxleCounter_add_block_section_uid block_section_uid = AddElement_u64 4 block_section_uid 0"

definition CreateResetAxleCounter :: "'t FlatBuffers \<Rightarrow> u64 \<Rightarrow> 't" where
  "CreateResetAxleCounter fb block_section_uid =
     fb_Table fb [ResetAxleCounter_add_block_section_uid block_section_uid]"

lemmas ResetAxleCounter_defs = ResetAxleCounter_block_section_uid_def
 ResetAxleCounter_Verify_def ResetAxleCounter_add_block_section_uid_def
 CreateResetAxleCounter_def

section \<open>table \<^verbatim>\<open>OperatorCommand\<close>\<close>

definition OperatorCommand_target_uid :: "'t FlatBuffers \<Rightarrow> 't \<Rightarrow> u64" where
  "OperatorCommand_target_uid fb t = fb_GetField_u64 fb t 4 0"

definition OperatorCommand_target_kind :: "'t FlatBuffers \<Rightarrow> 't \<Rightarrow> i8" where
  "OperatorCommand_target_kind fb t = fb_GetField_i8 fb t 6 0"

definition OperatorCommand_command_code :: "'t FlatBuffers \<Rightarrow> 't \<Rightarrow> i8" where
  "OperatorCommand_command_code fb t = fb_GetField_i8 fb t 8 0"

definition OperatorCommand_Verify :: "'t FlatBuffers \<Rightarrow> 't \<Rightarrow> bool" where
  "OperatorCommand_Verify fb t \<longleftrightarrow>
     fb_VerifyTableStart fb t \<and>
     fb_VerifyField fb t 4 8 \<and>
     fb_VerifyField fb t 6 1 \<and>
     fb_VerifyField fb t 8 1 \<and>
     fb_EndTable fb t"

definition OperatorCommand_add_target_uid :: "u64 \<Rightarrow> 't FbElem" where
  "OperatorCommand_add_target_uid target_uid = AddElement_u64 4 target_uid 0"

definition OperatorCommand_add_target_kind :: "i8 \<Rightarrow> 't FbElem" where
  "OperatorCommand_add_target_kind target_kind = AddElement_i8 6 target_kind 0"

definition OperatorCommand_add_command_code :: "i8 \<Rightarrow> 't FbElem" where
  "OperatorCommand_add_command_code command_code = AddElement_i8 8 command_code 0"

definition CreateOperatorCommand :: "'t FlatBuffers \<Rightarrow> u64 \<Rightarrow> i8 \<Rightarrow> i8 \<Rightarrow> 't" where
  "CreateOperatorCommand fb target_uid target_kind command_code =
     fb_Table fb [OperatorCommand_add_target_uid target_uid, OperatorCommand_add_command_code command_code,
        OperatorCommand_add_target_kind target_kind]"

lemmas OperatorCommand_defs = OperatorCommand_target_uid_def
 OperatorCommand_target_kind_def OperatorCommand_command_code_def
 OperatorCommand_Verify_def OperatorCommand_add_target_uid_def
 OperatorCommand_add_target_kind_def OperatorCommand_add_command_code_def
 CreateOperatorCommand_def

section \<open>table \<^verbatim>\<open>Ml8Command\<close>\<close>

definition Ml8Command_target_uid :: "'t FlatBuffers \<Rightarrow> 't \<Rightarrow> u64" where
  "Ml8Command_target_uid fb t = fb_GetField_u64 fb t 4 0"

definition Ml8Command_target_kind :: "'t FlatBuffers \<Rightarrow> 't \<Rightarrow> i8" where
  "Ml8Command_target_kind fb t = fb_GetField_i8 fb t 6 0"

definition Ml8Command_command_code :: "'t FlatBuffers \<Rightarrow> 't \<Rightarrow> i8" where
  "Ml8Command_command_code fb t = fb_GetField_i8 fb t 8 0"

definition Ml8Command_Verify :: "'t FlatBuffers \<Rightarrow> 't \<Rightarrow> bool" where
  "Ml8Command_Verify fb t \<longleftrightarrow>
     fb_VerifyTableStart fb t \<and>
     fb_VerifyField fb t 4 8 \<and>
     fb_VerifyField fb t 6 1 \<and>
     fb_VerifyField fb t 8 1 \<and>
     fb_EndTable fb t"

definition Ml8Command_add_target_uid :: "u64 \<Rightarrow> 't FbElem" where
  "Ml8Command_add_target_uid target_uid = AddElement_u64 4 target_uid 0"

definition Ml8Command_add_target_kind :: "i8 \<Rightarrow> 't FbElem" where
  "Ml8Command_add_target_kind target_kind = AddElement_i8 6 target_kind 0"

definition Ml8Command_add_command_code :: "i8 \<Rightarrow> 't FbElem" where
  "Ml8Command_add_command_code command_code = AddElement_i8 8 command_code 0"

definition CreateMl8Command :: "'t FlatBuffers \<Rightarrow> u64 \<Rightarrow> i8 \<Rightarrow> i8 \<Rightarrow> 't" where
  "CreateMl8Command fb target_uid target_kind command_code =
     fb_Table fb [Ml8Command_add_target_uid target_uid, Ml8Command_add_command_code command_code,
        Ml8Command_add_target_kind target_kind]"

lemmas Ml8Command_defs = Ml8Command_target_uid_def Ml8Command_target_kind_def
 Ml8Command_command_code_def Ml8Command_Verify_def Ml8Command_add_target_uid_def
 Ml8Command_add_target_kind_def Ml8Command_add_command_code_def CreateMl8Command_def

section \<open>table \<^verbatim>\<open>CommandAck\<close>\<close>

definition CommandAck_req_seq_id :: "'t FlatBuffers \<Rightarrow> 't \<Rightarrow> u32" where
  "CommandAck_req_seq_id fb t = fb_GetField_u32 fb t 4 0"

definition CommandAck_event_id :: "'t FlatBuffers \<Rightarrow> 't \<Rightarrow> u32" where
  "CommandAck_event_id fb t = fb_GetField_u32 fb t 6 0"

definition CommandAck_Verify :: "'t FlatBuffers \<Rightarrow> 't \<Rightarrow> bool" where
  "CommandAck_Verify fb t \<longleftrightarrow>
     fb_VerifyTableStart fb t \<and>
     fb_VerifyField fb t 4 4 \<and>
     fb_VerifyField fb t 6 4 \<and>
     fb_EndTable fb t"

definition CommandAck_add_req_seq_id :: "u32 \<Rightarrow> 't FbElem" where
  "CommandAck_add_req_seq_id req_seq_id = AddElement_u32 4 req_seq_id 0"

definition CommandAck_add_event_id :: "u32 \<Rightarrow> 't FbElem" where
  "CommandAck_add_event_id event_id = AddElement_u32 6 event_id 0"

definition CreateCommandAck :: "'t FlatBuffers \<Rightarrow> u32 \<Rightarrow> u32 \<Rightarrow> 't" where
  "CreateCommandAck fb req_seq_id event_id =
     fb_Table fb [CommandAck_add_event_id event_id, CommandAck_add_req_seq_id req_seq_id]"

lemmas CommandAck_defs = CommandAck_req_seq_id_def CommandAck_event_id_def
 CommandAck_Verify_def CommandAck_add_req_seq_id_def CommandAck_add_event_id_def
 CreateCommandAck_def

section \<open>table \<^verbatim>\<open>CommandNak\<close>\<close>

definition CommandNak_req_seq_id :: "'t FlatBuffers \<Rightarrow> 't \<Rightarrow> u32" where
  "CommandNak_req_seq_id fb t = fb_GetField_u32 fb t 4 0"

definition CommandNak_reason :: "'t FlatBuffers \<Rightarrow> 't \<Rightarrow> i8" where
  "CommandNak_reason fb t = fb_GetField_i8 fb t 6 0"

definition CommandNak_reason_text :: "'t FlatBuffers \<Rightarrow> 't \<Rightarrow> 't option" where
  "CommandNak_reason_text fb t = fb_GetPointer fb t 8"

definition CommandNak_Verify :: "'t FlatBuffers \<Rightarrow> 't \<Rightarrow> bool" where
  "CommandNak_Verify fb t \<longleftrightarrow>
     fb_VerifyTableStart fb t \<and>
     fb_VerifyField fb t 4 4 \<and>
     fb_VerifyField fb t 6 1 \<and>
     fb_VerifyOffset fb t 8 \<and>
     fb_VerifyString fb (CommandNak_reason_text fb t) \<and>
     fb_EndTable fb t"

definition CommandNak_add_req_seq_id :: "u32 \<Rightarrow> 't FbElem" where
  "CommandNak_add_req_seq_id req_seq_id = AddElement_u32 4 req_seq_id 0"

definition CommandNak_add_reason :: "i8 \<Rightarrow> 't FbElem" where
  "CommandNak_add_reason reason = AddElement_i8 6 reason 0"

definition CommandNak_add_reason_text :: "'t option \<Rightarrow> 't FbElem" where
  "CommandNak_add_reason_text reason_text = AddOffset 8 reason_text"

definition CreateCommandNak :: "'t FlatBuffers \<Rightarrow> u32 \<Rightarrow> i8 \<Rightarrow> 't option \<Rightarrow> 't" where
  "CreateCommandNak fb req_seq_id reason reason_text =
     fb_Table fb [CommandNak_add_reason_text reason_text, CommandNak_add_req_seq_id req_seq_id,
        CommandNak_add_reason reason]"

lemmas CommandNak_defs = CommandNak_req_seq_id_def CommandNak_reason_def
 CommandNak_reason_text_def CommandNak_Verify_def CommandNak_add_req_seq_id_def
 CommandNak_add_reason_def CommandNak_add_reason_text_def CreateCommandNak_def

end
