(* ===== verification/Wire_Codes.thy ===== *)
theory Wire_Codes
  imports Commands Proto_Commands
begin

text \<open>
  The numeric values of the engine's enumerations
  (\<^verbatim>\<open>engine/include/engine/core/types.hpp\<close> and
  \<^verbatim>\<open>command.hpp\<close>): all are \<^verbatim>\<open>enum class ... : uint8_t\<close> without
  initialisers, so an enumerator's value is its position.  \<open>enum_code\<close> is the cast to the
  byte, \<open>enum_of_code\<close> the cast from the byte; a byte beyond the last enumerator names none.
\<close>

section \<open>Casts\<close>

fun position_in :: "'e list \<Rightarrow> 'e \<Rightarrow> nat" where
  "position_in [] e = 0"
| "position_in (x # xs) e = (if x = e then 0 else Suc (position_in xs e))"

definition enum_code :: "'e list \<Rightarrow> 'e \<Rightarrow> u8" where
  "enum_code enumerators e = word_of_nat (position_in enumerators e)"

definition enum_of_code :: "'e list \<Rightarrow> u8 \<Rightarrow> 'e option" where
  "enum_of_code enumerators c =
     (if unat c < length enumerators then Some (enumerators ! unat c) else None)"

lemma position_in_less: "e \<in> set xs \<Longrightarrow> position_in xs e < length xs"
  by (induction xs) auto

lemma nth_position_in: "e \<in> set xs \<Longrightarrow> xs ! position_in xs e = e"
  by (induction xs) auto

lemma enum_of_enum_code:
  assumes "e \<in> set xs" and "length xs \<le> 256"
  shows "enum_of_code xs (enum_code xs e) = Some e"
proof -
  have "position_in xs e < length xs" using assms(1) by (rule position_in_less)
  then have "unat (word_of_nat (position_in xs e) :: u8) = position_in xs e"
    using assms(2) by (simp add: unat_of_nat)
  then show ?thesis using assms(1) by (simp add: enum_of_code_def enum_code_def position_in_less nth_position_in)
qed

section \<open>The enumerators in order\<close>

definition SwitchPosition_values :: "SwitchPosition list" where
  "SwitchPosition_values = [STRAIGHT, DIVERGENT, MOVING, TRAILED_DAMAGED]"

definition SignalAspect_values :: "SignalAspect list" where
  "SignalAspect_values =
     [S1_STOP, S2_PROCEED, S3_PROCEED_40, S4_PROCEED_40_EXPECT_STOP, S5_EXPECT_STOP, S6_PROCEED_100,
      S7_PROCEED_100_EXPECT_STOP, S8_PROCEED_100_EXPECT_40, S9_PROCEED_100_EXPECT_60, S10_PROCEED_40,
      S11_PROCEED_40_EXPECT_40, S12_PROCEED_60, S13_PROCEED_60_EXPECT_60, SZ_PROCEED, SZN_PROCEED_W24,
      MS1_STOP, MS2_SHUNTING_ALLOWED]"

definition DerailerState_values :: "DerailerState list" where
  "DerailerState_values = [LOCKED, UNLOCKED]"

definition BlockDirectionState_values :: "BlockDirectionState list" where
  "BlockDirectionState_values =
     [NEUTRAL, OUTBOUND_PENDING, OUTBOUND, INBOUND_PENDING, INBOUND, DIR_EMERGENCY, RESET_PENDING]"

definition ChangeCause_values :: "ChangeCause list" where
  "ChangeCause_values = [CAUSE_COMMAND, CAUSE_AUTO, CAUSE_TIMEOUT]"

definition Shl12Op_values :: "Shl12Op list" where
  "Shl12Op_values = [SHL_BLW, SHL_BLP, SHL_BLO, SHL_BLZ, SHL_BLAI, SHL_BLA, SHL_OPS]"

definition OperatorTargetKind_values :: "OperatorTargetKind list" where
  "OperatorTargetKind_values =
     [TK_SIGNAL, TK_SWITCH, TK_DERAILER, TK_TRACK_SECTION, TK_BLOCK_SECTION, TK_AXLE_COUNTER_SYSTEM,
      TK_STATION, TK_ROUTE, TK_LEVEL_CROSSING, TK_INTERLOCKING_COMPUTER, TK_POWER_SUPPLY]"

definition OperatorCommandCode_values :: "OperatorCommandCode list" where
  "OperatorCommandCode_values =
     [OC_SES, OC_SEO, OC_SZI, OC_SZW, OC_SZN, OC_SZO, OC_SAM, OC_SAW, OC_ZWP, OC_ZWM, OC_ZWS,
      OC_ZWO, OC_ITS, OC_ITO, OC_ZWB, OC_ZBP, OC_ZBM, OC_ZRI, OC_ZRK, OC_OPS, OC_SLI,
      OC_SLK, OC_BLW, OC_BLP, OC_BLO, OC_BLZ, OC_BLAI, OC_BLA, OC_BLS, OC_OST, OC_ZKB,
      OC_PZM, OC_OZK, OC_ZESI, OC_ZES, OC_PZZI, OC_PZZ, OC_POZ, OC_DPOI, OC_DPO, OC_DKOI,
      OC_DKO, OC_DKPI, OC_DKP, OC_BPZ, OC_DPWI, OC_DPW, OC_BTW, OC_BTO, OC_BPO, OC_BKO,
      OC_PDZ, OC_PDO, OC_PZT, OC_PAZ, OC_PZO, OC_PDII, OC_PDI, OC_MRS, OC_ODS, OC_ZAL,
      OC_POC, OC_PZA, OC_PZAI, OC_PZW, OC_SSO, OC_SSS, OC_UPAI, OC_UPA, OC_UPAO, OC_UPN,
      OC_UPO, OC_ZSO, OC_ZSS]"

definition Ml8CommandCode_values :: "Ml8CommandCode list" where
  "Ml8CommandCode_values =
     [ML8_AK, ML8_AZK, ML8_BLZ, ML8_BLZC, ML8_DOP, ML8_DOPS, ML8_DPZ, ML8_HMI, ML8_KRA, ML8_KSR,
      ML8_LKA, ML8_LOFF, ML8_MAN, ML8_NPU, ML8_NPW, ML8_NPZ, ML8_OGI, ML8_OP, ML8_OPO,
      ML8_OSTOP, ML8_OTB, ML8_OTE, ML8_OTEYYY, ML8_OTP, ML8_OTPON, ML8_OT, ML8_OTZ, ML8_OUZ,
      ML8_OUZ_DR, ML8_OUZ_DZ, ML8_OUZ_JN, ML8_OUZ_PJ, ML8_OUZ_X, ML8_OUZ_ZN, ML8_OWBL,
      ML8_OZCZ, ML8_P, ML8_POC, ML8_POT, ML8_PZK, ML8_PPN, ML8_PPZ, ML8_PZ, ML8_PZB,
      ML8_PZS, ML8_SPEC, ML8_STJ, ML8_STOJ, ML8_STOP, ML8_SZ, ML8_NSZ, ML8_WBL, ML8_WPN,
      ML8_WPZ, ML8_WZ, ML8_ZCZ, ML8_ZDM, ML8_ZDP, ML8_ZEROLO, ML8_ZI, ML8_ZO, ML8_ZPO,
      ML8_ZW, ML8_ZWBL, ML8_Z, ML8_Z_DR, ML8_Z_DZ, ML8_Z_JN, ML8_Z_PJ, ML8_Z_X, ML8_Z_ZN]"

end
