(* ===== verification/Proto_Snapshot.thy ===== *)
theory Proto_Snapshot
  imports Proto_Common
begin

text \<open>
  The snapshot tables of the wire protocol, \<^verbatim>\<open>autogens/proto/snapshot_generated.h\<close>:
  per table its accessors, its verifier, the setters of its builder and its create function, over
  the FlatBuffers runtime of theory \<open>Proto_Library\<close>.
\<close>

section \<open>table \<^verbatim>\<open>OperatorCommandRuntimeState\<close>\<close>

definition OperatorCommandRuntimeState_stopped :: "'t FlatBuffers \<Rightarrow> 't \<Rightarrow> bool" where
  "OperatorCommandRuntimeState_stopped fb t \<longleftrightarrow> fb_GetField_u8 fb t 4 0 \<noteq> 0"

definition OperatorCommandRuntimeState_substitute_initialized :: "'t FlatBuffers \<Rightarrow> 't \<Rightarrow> bool" where
  "OperatorCommandRuntimeState_substitute_initialized fb t \<longleftrightarrow> fb_GetField_u8 fb t 6 0 \<noteq> 0"

definition OperatorCommandRuntimeState_substitute_active :: "'t FlatBuffers \<Rightarrow> 't \<Rightarrow> bool" where
  "OperatorCommandRuntimeState_substitute_active fb t \<longleftrightarrow> fb_GetField_u8 fb t 8 0 \<noteq> 0"

definition OperatorCommandRuntimeState_automatic_route_enabled :: "'t FlatBuffers \<Rightarrow> 't \<Rightarrow> bool" where
  "OperatorCommandRuntimeState_automatic_route_enabled fb t \<longleftrightarrow> fb_GetField_u8 fb t 10 0 \<noteq> 0"

definition OperatorCommandRuntimeState_clamped :: "'t FlatBuffers \<Rightarrow> 't \<Rightarrow> bool" where
  "OperatorCommandRuntimeState_clamped fb t \<longleftrightarrow> fb_GetField_u8 fb t 12 0 \<noteq> 0"

definition OperatorCommandRuntimeState_traffic_closed :: "'t FlatBuffers \<Rightarrow> 't \<Rightarrow> bool" where
  "OperatorCommandRuntimeState_traffic_closed fb t \<longleftrightarrow> fb_GetField_u8 fb t 14 0 \<noteq> 0"

definition OperatorCommandRuntimeState_detection_bypassed :: "'t FlatBuffers \<Rightarrow> 't \<Rightarrow> bool" where
  "OperatorCommandRuntimeState_detection_bypassed fb t \<longleftrightarrow> fb_GetField_u8 fb t 16 0 \<noteq> 0"

definition OperatorCommandRuntimeState_special_initialized :: "'t FlatBuffers \<Rightarrow> 't \<Rightarrow> bool" where
  "OperatorCommandRuntimeState_special_initialized fb t \<longleftrightarrow> fb_GetField_u8 fb t 18 0 \<noteq> 0"

definition OperatorCommandRuntimeState_special_active :: "'t FlatBuffers \<Rightarrow> 't \<Rightarrow> bool" where
  "OperatorCommandRuntimeState_special_active fb t \<longleftrightarrow> fb_GetField_u8 fb t 20 0 \<noteq> 0"

definition OperatorCommandRuntimeState_axle_reset_initialized :: "'t FlatBuffers \<Rightarrow> 't \<Rightarrow> bool" where
  "OperatorCommandRuntimeState_axle_reset_initialized fb t \<longleftrightarrow> fb_GetField_u8 fb t 22 0 \<noteq> 0"

definition OperatorCommandRuntimeState_ml8_command_active :: "'t FlatBuffers \<Rightarrow> 't \<Rightarrow> bool" where
  "OperatorCommandRuntimeState_ml8_command_active fb t \<longleftrightarrow> fb_GetField_u8 fb t 24 0 \<noteq> 0"

definition OperatorCommandRuntimeState_ml8_command_code :: "'t FlatBuffers \<Rightarrow> 't \<Rightarrow> i8" where
  "OperatorCommandRuntimeState_ml8_command_code fb t = fb_GetField_i8 fb t 26 0"

definition OperatorCommandRuntimeState_Verify :: "'t FlatBuffers \<Rightarrow> 't \<Rightarrow> bool" where
  "OperatorCommandRuntimeState_Verify fb t \<longleftrightarrow>
     fb_VerifyTableStart fb t \<and>
     fb_VerifyField fb t 4 1 \<and>
     fb_VerifyField fb t 6 1 \<and>
     fb_VerifyField fb t 8 1 \<and>
     fb_VerifyField fb t 10 1 \<and>
     fb_VerifyField fb t 12 1 \<and>
     fb_VerifyField fb t 14 1 \<and>
     fb_VerifyField fb t 16 1 \<and>
     fb_VerifyField fb t 18 1 \<and>
     fb_VerifyField fb t 20 1 \<and>
     fb_VerifyField fb t 22 1 \<and>
     fb_VerifyField fb t 24 1 \<and>
     fb_VerifyField fb t 26 1 \<and>
     fb_EndTable fb t"

definition OperatorCommandRuntimeState_add_stopped :: "bool \<Rightarrow> 't FbElem" where
  "OperatorCommandRuntimeState_add_stopped stopped = AddElement_u8 4 (if stopped then 1 else 0) 0"

definition OperatorCommandRuntimeState_add_substitute_initialized :: "bool \<Rightarrow> 't FbElem" where
  "OperatorCommandRuntimeState_add_substitute_initialized substitute_initialized = AddElement_u8 6 (if substitute_initialized then 1 else 0) 0"

definition OperatorCommandRuntimeState_add_substitute_active :: "bool \<Rightarrow> 't FbElem" where
  "OperatorCommandRuntimeState_add_substitute_active substitute_active = AddElement_u8 8 (if substitute_active then 1 else 0) 0"

definition OperatorCommandRuntimeState_add_automatic_route_enabled :: "bool \<Rightarrow> 't FbElem" where
  "OperatorCommandRuntimeState_add_automatic_route_enabled automatic_route_enabled = AddElement_u8 10 (if automatic_route_enabled then 1 else 0) 0"

definition OperatorCommandRuntimeState_add_clamped :: "bool \<Rightarrow> 't FbElem" where
  "OperatorCommandRuntimeState_add_clamped clamped = AddElement_u8 12 (if clamped then 1 else 0) 0"

definition OperatorCommandRuntimeState_add_traffic_closed :: "bool \<Rightarrow> 't FbElem" where
  "OperatorCommandRuntimeState_add_traffic_closed traffic_closed = AddElement_u8 14 (if traffic_closed then 1 else 0) 0"

definition OperatorCommandRuntimeState_add_detection_bypassed :: "bool \<Rightarrow> 't FbElem" where
  "OperatorCommandRuntimeState_add_detection_bypassed detection_bypassed = AddElement_u8 16 (if detection_bypassed then 1 else 0) 0"

definition OperatorCommandRuntimeState_add_special_initialized :: "bool \<Rightarrow> 't FbElem" where
  "OperatorCommandRuntimeState_add_special_initialized special_initialized = AddElement_u8 18 (if special_initialized then 1 else 0) 0"

definition OperatorCommandRuntimeState_add_special_active :: "bool \<Rightarrow> 't FbElem" where
  "OperatorCommandRuntimeState_add_special_active special_active = AddElement_u8 20 (if special_active then 1 else 0) 0"

definition OperatorCommandRuntimeState_add_axle_reset_initialized :: "bool \<Rightarrow> 't FbElem" where
  "OperatorCommandRuntimeState_add_axle_reset_initialized axle_reset_initialized = AddElement_u8 22 (if axle_reset_initialized then 1 else 0) 0"

definition OperatorCommandRuntimeState_add_ml8_command_active :: "bool \<Rightarrow> 't FbElem" where
  "OperatorCommandRuntimeState_add_ml8_command_active ml8_command_active = AddElement_u8 24 (if ml8_command_active then 1 else 0) 0"

definition OperatorCommandRuntimeState_add_ml8_command_code :: "i8 \<Rightarrow> 't FbElem" where
  "OperatorCommandRuntimeState_add_ml8_command_code ml8_command_code = AddElement_i8 26 ml8_command_code 0"

definition CreateOperatorCommandRuntimeState :: "'t FlatBuffers \<Rightarrow> bool \<Rightarrow> bool \<Rightarrow> bool \<Rightarrow> bool \<Rightarrow> bool \<Rightarrow> bool \<Rightarrow> bool \<Rightarrow> bool \<Rightarrow> bool \<Rightarrow> bool \<Rightarrow> bool \<Rightarrow> i8 \<Rightarrow> 't" where
  "CreateOperatorCommandRuntimeState fb stopped substitute_initialized substitute_active automatic_route_enabled clamped traffic_closed detection_bypassed special_initialized special_active axle_reset_initialized ml8_command_active ml8_command_code =
     fb_Table fb [OperatorCommandRuntimeState_add_ml8_command_code ml8_command_code,
        OperatorCommandRuntimeState_add_ml8_command_active ml8_command_active,
        OperatorCommandRuntimeState_add_axle_reset_initialized axle_reset_initialized,
        OperatorCommandRuntimeState_add_special_active special_active,
        OperatorCommandRuntimeState_add_special_initialized special_initialized,
        OperatorCommandRuntimeState_add_detection_bypassed detection_bypassed,
        OperatorCommandRuntimeState_add_traffic_closed traffic_closed,
        OperatorCommandRuntimeState_add_clamped clamped,
        OperatorCommandRuntimeState_add_automatic_route_enabled automatic_route_enabled,
        OperatorCommandRuntimeState_add_substitute_active substitute_active,
        OperatorCommandRuntimeState_add_substitute_initialized substitute_initialized,
        OperatorCommandRuntimeState_add_stopped stopped]"

lemmas OperatorCommandRuntimeState_defs = OperatorCommandRuntimeState_stopped_def
 OperatorCommandRuntimeState_substitute_initialized_def
 OperatorCommandRuntimeState_substitute_active_def
 OperatorCommandRuntimeState_automatic_route_enabled_def
 OperatorCommandRuntimeState_clamped_def OperatorCommandRuntimeState_traffic_closed_def
 OperatorCommandRuntimeState_detection_bypassed_def
 OperatorCommandRuntimeState_special_initialized_def
 OperatorCommandRuntimeState_special_active_def
 OperatorCommandRuntimeState_axle_reset_initialized_def
 OperatorCommandRuntimeState_ml8_command_active_def
 OperatorCommandRuntimeState_ml8_command_code_def OperatorCommandRuntimeState_Verify_def
 OperatorCommandRuntimeState_add_stopped_def
 OperatorCommandRuntimeState_add_substitute_initialized_def
 OperatorCommandRuntimeState_add_substitute_active_def
 OperatorCommandRuntimeState_add_automatic_route_enabled_def
 OperatorCommandRuntimeState_add_clamped_def
 OperatorCommandRuntimeState_add_traffic_closed_def
 OperatorCommandRuntimeState_add_detection_bypassed_def
 OperatorCommandRuntimeState_add_special_initialized_def
 OperatorCommandRuntimeState_add_special_active_def
 OperatorCommandRuntimeState_add_axle_reset_initialized_def
 OperatorCommandRuntimeState_add_ml8_command_active_def
 OperatorCommandRuntimeState_add_ml8_command_code_def CreateOperatorCommandRuntimeState_def

section \<open>table \<^verbatim>\<open>SwitchState\<close>\<close>

definition SwitchState_uid :: "'t FlatBuffers \<Rightarrow> 't \<Rightarrow> u64" where
  "SwitchState_uid fb t = fb_GetField_u64 fb t 4 0"

definition SwitchState_position :: "'t FlatBuffers \<Rightarrow> 't \<Rightarrow> i8" where
  "SwitchState_position fb t = fb_GetField_i8 fb t 6 0"

definition SwitchState_occupied :: "'t FlatBuffers \<Rightarrow> 't \<Rightarrow> bool" where
  "SwitchState_occupied fb t \<longleftrightarrow> fb_GetField_u8 fb t 8 0 \<noteq> 0"

definition SwitchState_axle_count :: "'t FlatBuffers \<Rightarrow> 't \<Rightarrow> i32" where
  "SwitchState_axle_count fb t = fb_GetField_i32 fb t 10 0"

definition SwitchState_train_uid :: "'t FlatBuffers \<Rightarrow> 't \<Rightarrow> u64" where
  "SwitchState_train_uid fb t = fb_GetField_u64 fb t 12 0"

definition SwitchState_locked_by_route :: "'t FlatBuffers \<Rightarrow> 't \<Rightarrow> bool" where
  "SwitchState_locked_by_route fb t \<longleftrightarrow> fb_GetField_u8 fb t 14 0 \<noteq> 0"

definition SwitchState_operator_state :: "'t FlatBuffers \<Rightarrow> 't \<Rightarrow> 't option" where
  "SwitchState_operator_state fb t = fb_GetPointer fb t 16"

definition SwitchState_Verify :: "'t FlatBuffers \<Rightarrow> 't \<Rightarrow> bool" where
  "SwitchState_Verify fb t \<longleftrightarrow>
     fb_VerifyTableStart fb t \<and>
     fb_VerifyField fb t 4 8 \<and>
     fb_VerifyField fb t 6 1 \<and>
     fb_VerifyField fb t 8 1 \<and>
     fb_VerifyField fb t 10 4 \<and>
     fb_VerifyField fb t 12 8 \<and>
     fb_VerifyField fb t 14 1 \<and>
     fb_VerifyOffset fb t 16 \<and>
     fb_VerifyTable fb (OperatorCommandRuntimeState_Verify fb) (SwitchState_operator_state fb t) \<and>
     fb_EndTable fb t"

definition SwitchState_add_uid :: "u64 \<Rightarrow> 't FbElem" where
  "SwitchState_add_uid uid = AddElement_u64 4 uid 0"

definition SwitchState_add_position :: "i8 \<Rightarrow> 't FbElem" where
  "SwitchState_add_position position = AddElement_i8 6 position 0"

definition SwitchState_add_occupied :: "bool \<Rightarrow> 't FbElem" where
  "SwitchState_add_occupied occupied = AddElement_u8 8 (if occupied then 1 else 0) 0"

definition SwitchState_add_axle_count :: "i32 \<Rightarrow> 't FbElem" where
  "SwitchState_add_axle_count axle_count = AddElement_i32 10 axle_count 0"

definition SwitchState_add_train_uid :: "u64 \<Rightarrow> 't FbElem" where
  "SwitchState_add_train_uid train_uid = AddElement_u64 12 train_uid 0"

definition SwitchState_add_locked_by_route :: "bool \<Rightarrow> 't FbElem" where
  "SwitchState_add_locked_by_route locked_by_route = AddElement_u8 14 (if locked_by_route then 1 else 0) 0"

definition SwitchState_add_operator_state :: "'t option \<Rightarrow> 't FbElem" where
  "SwitchState_add_operator_state operator_state = AddOffset 16 operator_state"

definition CreateSwitchState :: "'t FlatBuffers \<Rightarrow> u64 \<Rightarrow> i8 \<Rightarrow> bool \<Rightarrow> i32 \<Rightarrow> u64 \<Rightarrow> bool \<Rightarrow> 't option \<Rightarrow> 't" where
  "CreateSwitchState fb uid position occupied axle_count train_uid locked_by_route operator_state =
     fb_Table fb [SwitchState_add_train_uid train_uid, SwitchState_add_uid uid,
        SwitchState_add_operator_state operator_state,
        SwitchState_add_axle_count axle_count,
        SwitchState_add_locked_by_route locked_by_route, SwitchState_add_occupied occupied,
        SwitchState_add_position position]"

lemmas SwitchState_defs = SwitchState_uid_def SwitchState_position_def
 SwitchState_occupied_def SwitchState_axle_count_def SwitchState_train_uid_def
 SwitchState_locked_by_route_def SwitchState_operator_state_def SwitchState_Verify_def
 SwitchState_add_uid_def SwitchState_add_position_def SwitchState_add_occupied_def
 SwitchState_add_axle_count_def SwitchState_add_train_uid_def
 SwitchState_add_locked_by_route_def SwitchState_add_operator_state_def
 CreateSwitchState_def

section \<open>table \<^verbatim>\<open>TrackSectionState\<close>\<close>

definition TrackSectionState_uid :: "'t FlatBuffers \<Rightarrow> 't \<Rightarrow> u64" where
  "TrackSectionState_uid fb t = fb_GetField_u64 fb t 4 0"

definition TrackSectionState_occupied :: "'t FlatBuffers \<Rightarrow> 't \<Rightarrow> bool" where
  "TrackSectionState_occupied fb t \<longleftrightarrow> fb_GetField_u8 fb t 6 0 \<noteq> 0"

definition TrackSectionState_axle_count :: "'t FlatBuffers \<Rightarrow> 't \<Rightarrow> i32" where
  "TrackSectionState_axle_count fb t = fb_GetField_i32 fb t 8 0"

definition TrackSectionState_train_uid :: "'t FlatBuffers \<Rightarrow> 't \<Rightarrow> u64" where
  "TrackSectionState_train_uid fb t = fb_GetField_u64 fb t 10 0"

definition TrackSectionState_operator_state :: "'t FlatBuffers \<Rightarrow> 't \<Rightarrow> 't option" where
  "TrackSectionState_operator_state fb t = fb_GetPointer fb t 12"

definition TrackSectionState_Verify :: "'t FlatBuffers \<Rightarrow> 't \<Rightarrow> bool" where
  "TrackSectionState_Verify fb t \<longleftrightarrow>
     fb_VerifyTableStart fb t \<and>
     fb_VerifyField fb t 4 8 \<and>
     fb_VerifyField fb t 6 1 \<and>
     fb_VerifyField fb t 8 4 \<and>
     fb_VerifyField fb t 10 8 \<and>
     fb_VerifyOffset fb t 12 \<and>
     fb_VerifyTable fb (OperatorCommandRuntimeState_Verify fb) (TrackSectionState_operator_state fb t) \<and>
     fb_EndTable fb t"

definition TrackSectionState_add_uid :: "u64 \<Rightarrow> 't FbElem" where
  "TrackSectionState_add_uid uid = AddElement_u64 4 uid 0"

definition TrackSectionState_add_occupied :: "bool \<Rightarrow> 't FbElem" where
  "TrackSectionState_add_occupied occupied = AddElement_u8 6 (if occupied then 1 else 0) 0"

definition TrackSectionState_add_axle_count :: "i32 \<Rightarrow> 't FbElem" where
  "TrackSectionState_add_axle_count axle_count = AddElement_i32 8 axle_count 0"

definition TrackSectionState_add_train_uid :: "u64 \<Rightarrow> 't FbElem" where
  "TrackSectionState_add_train_uid train_uid = AddElement_u64 10 train_uid 0"

definition TrackSectionState_add_operator_state :: "'t option \<Rightarrow> 't FbElem" where
  "TrackSectionState_add_operator_state operator_state = AddOffset 12 operator_state"

definition CreateTrackSectionState :: "'t FlatBuffers \<Rightarrow> u64 \<Rightarrow> bool \<Rightarrow> i32 \<Rightarrow> u64 \<Rightarrow> 't option \<Rightarrow> 't" where
  "CreateTrackSectionState fb uid occupied axle_count train_uid operator_state =
     fb_Table fb [TrackSectionState_add_train_uid train_uid, TrackSectionState_add_uid uid,
        TrackSectionState_add_operator_state operator_state,
        TrackSectionState_add_axle_count axle_count, TrackSectionState_add_occupied occupied]"

lemmas TrackSectionState_defs = TrackSectionState_uid_def TrackSectionState_occupied_def
 TrackSectionState_axle_count_def TrackSectionState_train_uid_def
 TrackSectionState_operator_state_def TrackSectionState_Verify_def
 TrackSectionState_add_uid_def TrackSectionState_add_occupied_def
 TrackSectionState_add_axle_count_def TrackSectionState_add_train_uid_def
 TrackSectionState_add_operator_state_def CreateTrackSectionState_def

section \<open>table \<^verbatim>\<open>SignalState\<close>\<close>

definition SignalState_uid :: "'t FlatBuffers \<Rightarrow> 't \<Rightarrow> u64" where
  "SignalState_uid fb t = fb_GetField_u64 fb t 4 0"

definition SignalState_aspect :: "'t FlatBuffers \<Rightarrow> 't \<Rightarrow> i8" where
  "SignalState_aspect fb t = fb_GetField_i8 fb t 6 0"

definition SignalState_operator_state :: "'t FlatBuffers \<Rightarrow> 't \<Rightarrow> 't option" where
  "SignalState_operator_state fb t = fb_GetPointer fb t 8"

definition SignalState_Verify :: "'t FlatBuffers \<Rightarrow> 't \<Rightarrow> bool" where
  "SignalState_Verify fb t \<longleftrightarrow>
     fb_VerifyTableStart fb t \<and>
     fb_VerifyField fb t 4 8 \<and>
     fb_VerifyField fb t 6 1 \<and>
     fb_VerifyOffset fb t 8 \<and>
     fb_VerifyTable fb (OperatorCommandRuntimeState_Verify fb) (SignalState_operator_state fb t) \<and>
     fb_EndTable fb t"

definition SignalState_add_uid :: "u64 \<Rightarrow> 't FbElem" where
  "SignalState_add_uid uid = AddElement_u64 4 uid 0"

definition SignalState_add_aspect :: "i8 \<Rightarrow> 't FbElem" where
  "SignalState_add_aspect aspect = AddElement_i8 6 aspect 0"

definition SignalState_add_operator_state :: "'t option \<Rightarrow> 't FbElem" where
  "SignalState_add_operator_state operator_state = AddOffset 8 operator_state"

definition CreateSignalState :: "'t FlatBuffers \<Rightarrow> u64 \<Rightarrow> i8 \<Rightarrow> 't option \<Rightarrow> 't" where
  "CreateSignalState fb uid aspect operator_state =
     fb_Table fb [SignalState_add_uid uid, SignalState_add_operator_state operator_state,
        SignalState_add_aspect aspect]"

lemmas SignalState_defs = SignalState_uid_def SignalState_aspect_def
 SignalState_operator_state_def SignalState_Verify_def SignalState_add_uid_def
 SignalState_add_aspect_def SignalState_add_operator_state_def CreateSignalState_def

section \<open>table \<^verbatim>\<open>DerailerState\<close>\<close>

definition DerailerState_uid :: "'t FlatBuffers \<Rightarrow> 't \<Rightarrow> u64" where
  "DerailerState_uid fb t = fb_GetField_u64 fb t 4 0"

definition DerailerState_position :: "'t FlatBuffers \<Rightarrow> 't \<Rightarrow> i8" where
  "DerailerState_position fb t = fb_GetField_i8 fb t 6 0"

definition DerailerState_operator_state :: "'t FlatBuffers \<Rightarrow> 't \<Rightarrow> 't option" where
  "DerailerState_operator_state fb t = fb_GetPointer fb t 8"

definition DerailerState_Verify :: "'t FlatBuffers \<Rightarrow> 't \<Rightarrow> bool" where
  "DerailerState_Verify fb t \<longleftrightarrow>
     fb_VerifyTableStart fb t \<and>
     fb_VerifyField fb t 4 8 \<and>
     fb_VerifyField fb t 6 1 \<and>
     fb_VerifyOffset fb t 8 \<and>
     fb_VerifyTable fb (OperatorCommandRuntimeState_Verify fb) (DerailerState_operator_state fb t) \<and>
     fb_EndTable fb t"

definition DerailerState_add_uid :: "u64 \<Rightarrow> 't FbElem" where
  "DerailerState_add_uid uid = AddElement_u64 4 uid 0"

definition DerailerState_add_position :: "i8 \<Rightarrow> 't FbElem" where
  "DerailerState_add_position position = AddElement_i8 6 position 0"

definition DerailerState_add_operator_state :: "'t option \<Rightarrow> 't FbElem" where
  "DerailerState_add_operator_state operator_state = AddOffset 8 operator_state"

definition CreateDerailerState :: "'t FlatBuffers \<Rightarrow> u64 \<Rightarrow> i8 \<Rightarrow> 't option \<Rightarrow> 't" where
  "CreateDerailerState fb uid position operator_state =
     fb_Table fb [DerailerState_add_uid uid, DerailerState_add_operator_state operator_state,
        DerailerState_add_position position]"

lemmas DerailerState_defs = DerailerState_uid_def DerailerState_position_def
 DerailerState_operator_state_def DerailerState_Verify_def DerailerState_add_uid_def
 DerailerState_add_position_def DerailerState_add_operator_state_def
 CreateDerailerState_def

section \<open>table \<^verbatim>\<open>BlockSectionSnapshotState\<close>\<close>

definition BlockSectionSnapshotState_uid :: "'t FlatBuffers \<Rightarrow> 't \<Rightarrow> u64" where
  "BlockSectionSnapshotState_uid fb t = fb_GetField_u64 fb t 4 0"

definition BlockSectionSnapshotState_state :: "'t FlatBuffers \<Rightarrow> 't \<Rightarrow> i8" where
  "BlockSectionSnapshotState_state fb t = fb_GetField_i8 fb t 6 0"

definition BlockSectionSnapshotState_block_direction :: "'t FlatBuffers \<Rightarrow> 't \<Rightarrow> i8" where
  "BlockSectionSnapshotState_block_direction fb t = fb_GetField_i8 fb t 8 0"

definition BlockSectionSnapshotState_operator_state :: "'t FlatBuffers \<Rightarrow> 't \<Rightarrow> 't option" where
  "BlockSectionSnapshotState_operator_state fb t = fb_GetPointer fb t 10"

definition BlockSectionSnapshotState_Verify :: "'t FlatBuffers \<Rightarrow> 't \<Rightarrow> bool" where
  "BlockSectionSnapshotState_Verify fb t \<longleftrightarrow>
     fb_VerifyTableStart fb t \<and>
     fb_VerifyField fb t 4 8 \<and>
     fb_VerifyField fb t 6 1 \<and>
     fb_VerifyField fb t 8 1 \<and>
     fb_VerifyOffset fb t 10 \<and>
     fb_VerifyTable fb (OperatorCommandRuntimeState_Verify fb) (BlockSectionSnapshotState_operator_state fb t) \<and>
     fb_EndTable fb t"

definition BlockSectionSnapshotState_add_uid :: "u64 \<Rightarrow> 't FbElem" where
  "BlockSectionSnapshotState_add_uid uid = AddElement_u64 4 uid 0"

definition BlockSectionSnapshotState_add_state :: "i8 \<Rightarrow> 't FbElem" where
  "BlockSectionSnapshotState_add_state state = AddElement_i8 6 state 0"

definition BlockSectionSnapshotState_add_block_direction :: "i8 \<Rightarrow> 't FbElem" where
  "BlockSectionSnapshotState_add_block_direction block_direction = AddElement_i8 8 block_direction 0"

definition BlockSectionSnapshotState_add_operator_state :: "'t option \<Rightarrow> 't FbElem" where
  "BlockSectionSnapshotState_add_operator_state operator_state = AddOffset 10 operator_state"

definition CreateBlockSectionSnapshotState :: "'t FlatBuffers \<Rightarrow> u64 \<Rightarrow> i8 \<Rightarrow> i8 \<Rightarrow> 't option \<Rightarrow> 't" where
  "CreateBlockSectionSnapshotState fb uid state block_direction operator_state =
     fb_Table fb [BlockSectionSnapshotState_add_uid uid,
        BlockSectionSnapshotState_add_operator_state operator_state,
        BlockSectionSnapshotState_add_block_direction block_direction,
        BlockSectionSnapshotState_add_state state]"

lemmas BlockSectionSnapshotState_defs = BlockSectionSnapshotState_uid_def
 BlockSectionSnapshotState_state_def BlockSectionSnapshotState_block_direction_def
 BlockSectionSnapshotState_operator_state_def BlockSectionSnapshotState_Verify_def
 BlockSectionSnapshotState_add_uid_def BlockSectionSnapshotState_add_state_def
 BlockSectionSnapshotState_add_block_direction_def
 BlockSectionSnapshotState_add_operator_state_def CreateBlockSectionSnapshotState_def

section \<open>table \<^verbatim>\<open>RouteState\<close>\<close>

definition RouteState_uid :: "'t FlatBuffers \<Rightarrow> 't \<Rightarrow> u64" where
  "RouteState_uid fb t = fb_GetField_u64 fb t 4 0"

definition RouteState_from_signal_uid :: "'t FlatBuffers \<Rightarrow> 't \<Rightarrow> u64" where
  "RouteState_from_signal_uid fb t = fb_GetField_u64 fb t 6 0"

definition RouteState_to_signal_uid :: "'t FlatBuffers \<Rightarrow> 't \<Rightarrow> u64" where
  "RouteState_to_signal_uid fb t = fb_GetField_u64 fb t 8 0"

definition RouteState_section_uids :: "'t FlatBuffers \<Rightarrow> 't \<Rightarrow> 't option" where
  "RouteState_section_uids fb t = fb_GetPointer fb t 10"

definition RouteState_Verify :: "'t FlatBuffers \<Rightarrow> 't \<Rightarrow> bool" where
  "RouteState_Verify fb t \<longleftrightarrow>
     fb_VerifyTableStart fb t \<and>
     fb_VerifyField fb t 4 8 \<and>
     fb_VerifyField fb t 6 8 \<and>
     fb_VerifyField fb t 8 8 \<and>
     fb_VerifyOffset fb t 10 \<and>
     fb_VerifyVector fb (RouteState_section_uids fb t) \<and>
     fb_EndTable fb t"

definition RouteState_add_uid :: "u64 \<Rightarrow> 't FbElem" where
  "RouteState_add_uid uid = AddElement_u64 4 uid 0"

definition RouteState_add_from_signal_uid :: "u64 \<Rightarrow> 't FbElem" where
  "RouteState_add_from_signal_uid from_signal_uid = AddElement_u64 6 from_signal_uid 0"

definition RouteState_add_to_signal_uid :: "u64 \<Rightarrow> 't FbElem" where
  "RouteState_add_to_signal_uid to_signal_uid = AddElement_u64 8 to_signal_uid 0"

definition RouteState_add_section_uids :: "'t option \<Rightarrow> 't FbElem" where
  "RouteState_add_section_uids section_uids = AddOffset 10 section_uids"

definition CreateRouteState :: "'t FlatBuffers \<Rightarrow> u64 \<Rightarrow> u64 \<Rightarrow> u64 \<Rightarrow> 't option \<Rightarrow> 't" where
  "CreateRouteState fb uid from_signal_uid to_signal_uid section_uids =
     fb_Table fb [RouteState_add_to_signal_uid to_signal_uid, RouteState_add_from_signal_uid from_signal_uid,
        RouteState_add_uid uid, RouteState_add_section_uids section_uids]"

lemmas RouteState_defs = RouteState_uid_def RouteState_from_signal_uid_def
 RouteState_to_signal_uid_def RouteState_section_uids_def RouteState_Verify_def
 RouteState_add_uid_def RouteState_add_from_signal_uid_def
 RouteState_add_to_signal_uid_def RouteState_add_section_uids_def CreateRouteState_def

section \<open>table \<^verbatim>\<open>AlarmState\<close>\<close>

definition AlarmState_uid :: "'t FlatBuffers \<Rightarrow> 't \<Rightarrow> u64" where
  "AlarmState_uid fb t = fb_GetField_u64 fb t 4 0"

definition AlarmState_alarm_type :: "'t FlatBuffers \<Rightarrow> 't \<Rightarrow> i8" where
  "AlarmState_alarm_type fb t = fb_GetField_i8 fb t 6 0"

definition AlarmState_object_uid :: "'t FlatBuffers \<Rightarrow> 't \<Rightarrow> u64" where
  "AlarmState_object_uid fb t = fb_GetField_u64 fb t 8 0"

definition AlarmState_message :: "'t FlatBuffers \<Rightarrow> 't \<Rightarrow> 't option" where
  "AlarmState_message fb t = fb_GetPointer fb t 10"

definition AlarmState_Verify :: "'t FlatBuffers \<Rightarrow> 't \<Rightarrow> bool" where
  "AlarmState_Verify fb t \<longleftrightarrow>
     fb_VerifyTableStart fb t \<and>
     fb_VerifyField fb t 4 8 \<and>
     fb_VerifyField fb t 6 1 \<and>
     fb_VerifyField fb t 8 8 \<and>
     fb_VerifyOffset fb t 10 \<and>
     fb_VerifyString fb (AlarmState_message fb t) \<and>
     fb_EndTable fb t"

definition AlarmState_add_uid :: "u64 \<Rightarrow> 't FbElem" where
  "AlarmState_add_uid uid = AddElement_u64 4 uid 0"

definition AlarmState_add_alarm_type :: "i8 \<Rightarrow> 't FbElem" where
  "AlarmState_add_alarm_type alarm_type = AddElement_i8 6 alarm_type 0"

definition AlarmState_add_object_uid :: "u64 \<Rightarrow> 't FbElem" where
  "AlarmState_add_object_uid object_uid = AddElement_u64 8 object_uid 0"

definition AlarmState_add_message :: "'t option \<Rightarrow> 't FbElem" where
  "AlarmState_add_message message = AddOffset 10 message"

definition CreateAlarmState :: "'t FlatBuffers \<Rightarrow> u64 \<Rightarrow> i8 \<Rightarrow> u64 \<Rightarrow> 't option \<Rightarrow> 't" where
  "CreateAlarmState fb uid alarm_type object_uid message =
     fb_Table fb [AlarmState_add_object_uid object_uid, AlarmState_add_uid uid,
        AlarmState_add_message message, AlarmState_add_alarm_type alarm_type]"

lemmas AlarmState_defs = AlarmState_uid_def AlarmState_alarm_type_def
 AlarmState_object_uid_def AlarmState_message_def AlarmState_Verify_def
 AlarmState_add_uid_def AlarmState_add_alarm_type_def AlarmState_add_object_uid_def
 AlarmState_add_message_def CreateAlarmState_def

section \<open>table \<^verbatim>\<open>DispatchAreaOwnership\<close>\<close>

definition DispatchAreaOwnership_dispatch_area_uid :: "'t FlatBuffers \<Rightarrow> 't \<Rightarrow> u64" where
  "DispatchAreaOwnership_dispatch_area_uid fb t = fb_GetField_u64 fb t 4 0"

definition DispatchAreaOwnership_station_uid :: "'t FlatBuffers \<Rightarrow> 't \<Rightarrow> u64" where
  "DispatchAreaOwnership_station_uid fb t = fb_GetField_u64 fb t 6 0"

definition DispatchAreaOwnership_owner_client_id :: "'t FlatBuffers \<Rightarrow> 't \<Rightarrow> 't option" where
  "DispatchAreaOwnership_owner_client_id fb t = fb_GetPointer fb t 8"

definition DispatchAreaOwnership_Verify :: "'t FlatBuffers \<Rightarrow> 't \<Rightarrow> bool" where
  "DispatchAreaOwnership_Verify fb t \<longleftrightarrow>
     fb_VerifyTableStart fb t \<and>
     fb_VerifyField fb t 4 8 \<and>
     fb_VerifyField fb t 6 8 \<and>
     fb_VerifyOffset fb t 8 \<and>
     fb_VerifyString fb (DispatchAreaOwnership_owner_client_id fb t) \<and>
     fb_EndTable fb t"

definition DispatchAreaOwnership_add_dispatch_area_uid :: "u64 \<Rightarrow> 't FbElem" where
  "DispatchAreaOwnership_add_dispatch_area_uid dispatch_area_uid = AddElement_u64 4 dispatch_area_uid 0"

definition DispatchAreaOwnership_add_station_uid :: "u64 \<Rightarrow> 't FbElem" where
  "DispatchAreaOwnership_add_station_uid station_uid = AddElement_u64 6 station_uid 0"

definition DispatchAreaOwnership_add_owner_client_id :: "'t option \<Rightarrow> 't FbElem" where
  "DispatchAreaOwnership_add_owner_client_id owner_client_id = AddOffset 8 owner_client_id"

definition CreateDispatchAreaOwnership :: "'t FlatBuffers \<Rightarrow> u64 \<Rightarrow> u64 \<Rightarrow> 't option \<Rightarrow> 't" where
  "CreateDispatchAreaOwnership fb dispatch_area_uid station_uid owner_client_id =
     fb_Table fb [DispatchAreaOwnership_add_station_uid station_uid,
        DispatchAreaOwnership_add_dispatch_area_uid dispatch_area_uid,
        DispatchAreaOwnership_add_owner_client_id owner_client_id]"

lemmas DispatchAreaOwnership_defs = DispatchAreaOwnership_dispatch_area_uid_def
 DispatchAreaOwnership_station_uid_def DispatchAreaOwnership_owner_client_id_def
 DispatchAreaOwnership_Verify_def DispatchAreaOwnership_add_dispatch_area_uid_def
 DispatchAreaOwnership_add_station_uid_def DispatchAreaOwnership_add_owner_client_id_def
 CreateDispatchAreaOwnership_def

section \<open>table \<^verbatim>\<open>TrainState\<close>\<close>

definition TrainState_uid :: "'t FlatBuffers \<Rightarrow> 't \<Rightarrow> u64" where
  "TrainState_uid fb t = fb_GetField_u64 fb t 4 0"

definition TrainState_vehicle_uids :: "'t FlatBuffers \<Rightarrow> 't \<Rightarrow> 't option" where
  "TrainState_vehicle_uids fb t = fb_GetPointer fb t 6"

definition TrainState_section_uid :: "'t FlatBuffers \<Rightarrow> 't \<Rightarrow> u64" where
  "TrainState_section_uid fb t = fb_GetField_u64 fb t 8 0"

definition TrainState_direction :: "'t FlatBuffers \<Rightarrow> 't \<Rightarrow> i8" where
  "TrainState_direction fb t = fb_GetField_i8 fb t 10 0"

definition TrainState_speed_kmh :: "'t FlatBuffers \<Rightarrow> 't \<Rightarrow> float32" where
  "TrainState_speed_kmh fb t = fb_GetField_float fb t 12 0"

definition TrainState_total_length_m :: "'t FlatBuffers \<Rightarrow> 't \<Rightarrow> float32" where
  "TrainState_total_length_m fb t = fb_GetField_float fb t 14 0"

definition TrainState_total_axles :: "'t FlatBuffers \<Rightarrow> 't \<Rightarrow> i32" where
  "TrainState_total_axles fb t = fb_GetField_i32 fb t 16 0"

definition TrainState_Verify :: "'t FlatBuffers \<Rightarrow> 't \<Rightarrow> bool" where
  "TrainState_Verify fb t \<longleftrightarrow>
     fb_VerifyTableStart fb t \<and>
     fb_VerifyField fb t 4 8 \<and>
     fb_VerifyOffset fb t 6 \<and>
     fb_VerifyVector fb (TrainState_vehicle_uids fb t) \<and>
     fb_VerifyField fb t 8 8 \<and>
     fb_VerifyField fb t 10 1 \<and>
     fb_VerifyField fb t 12 4 \<and>
     fb_VerifyField fb t 14 4 \<and>
     fb_VerifyField fb t 16 4 \<and>
     fb_EndTable fb t"

definition TrainState_add_uid :: "u64 \<Rightarrow> 't FbElem" where
  "TrainState_add_uid uid = AddElement_u64 4 uid 0"

definition TrainState_add_vehicle_uids :: "'t option \<Rightarrow> 't FbElem" where
  "TrainState_add_vehicle_uids vehicle_uids = AddOffset 6 vehicle_uids"

definition TrainState_add_section_uid :: "u64 \<Rightarrow> 't FbElem" where
  "TrainState_add_section_uid section_uid = AddElement_u64 8 section_uid 0"

definition TrainState_add_direction :: "i8 \<Rightarrow> 't FbElem" where
  "TrainState_add_direction direction = AddElement_i8 10 direction 0"

definition TrainState_add_speed_kmh :: "float32 \<Rightarrow> 't FbElem" where
  "TrainState_add_speed_kmh speed_kmh = AddElement_float 12 speed_kmh 0"

definition TrainState_add_total_length_m :: "float32 \<Rightarrow> 't FbElem" where
  "TrainState_add_total_length_m total_length_m = AddElement_float 14 total_length_m 0"

definition TrainState_add_total_axles :: "i32 \<Rightarrow> 't FbElem" where
  "TrainState_add_total_axles total_axles = AddElement_i32 16 total_axles 0"

definition CreateTrainState :: "'t FlatBuffers \<Rightarrow> u64 \<Rightarrow> 't option \<Rightarrow> u64 \<Rightarrow> i8 \<Rightarrow> float32 \<Rightarrow> float32 \<Rightarrow> i32 \<Rightarrow> 't" where
  "CreateTrainState fb uid vehicle_uids section_uid direction speed_kmh total_length_m total_axles =
     fb_Table fb [TrainState_add_section_uid section_uid, TrainState_add_uid uid,
        TrainState_add_total_axles total_axles,
        TrainState_add_total_length_m total_length_m, TrainState_add_speed_kmh speed_kmh,
        TrainState_add_vehicle_uids vehicle_uids, TrainState_add_direction direction]"

lemmas TrainState_defs = TrainState_uid_def TrainState_vehicle_uids_def
 TrainState_section_uid_def TrainState_direction_def TrainState_speed_kmh_def
 TrainState_total_length_m_def TrainState_total_axles_def TrainState_Verify_def
 TrainState_add_uid_def TrainState_add_vehicle_uids_def TrainState_add_section_uid_def
 TrainState_add_direction_def TrainState_add_speed_kmh_def
 TrainState_add_total_length_m_def TrainState_add_total_axles_def CreateTrainState_def

section \<open>table \<^verbatim>\<open>Snapshot\<close>\<close>

definition Snapshot_schema_version :: "'t FlatBuffers \<Rightarrow> 't \<Rightarrow> u32" where
  "Snapshot_schema_version fb t = fb_GetField_u32 fb t 4 0"

definition Snapshot_session_id :: "'t FlatBuffers \<Rightarrow> 't \<Rightarrow> 't option" where
  "Snapshot_session_id fb t = fb_GetPointer fb t 6"

definition Snapshot_seq_cursor :: "'t FlatBuffers \<Rightarrow> 't \<Rightarrow> u32" where
  "Snapshot_seq_cursor fb t = fb_GetField_u32 fb t 8 0"

definition Snapshot_timestamp_us :: "'t FlatBuffers \<Rightarrow> 't \<Rightarrow> u64" where
  "Snapshot_timestamp_us fb t = fb_GetField_u64 fb t 10 0"

definition Snapshot_switches :: "'t FlatBuffers \<Rightarrow> 't \<Rightarrow> 't option" where
  "Snapshot_switches fb t = fb_GetPointer fb t 12"

definition Snapshot_track_sections :: "'t FlatBuffers \<Rightarrow> 't \<Rightarrow> 't option" where
  "Snapshot_track_sections fb t = fb_GetPointer fb t 14"

definition Snapshot_signals :: "'t FlatBuffers \<Rightarrow> 't \<Rightarrow> 't option" where
  "Snapshot_signals fb t = fb_GetPointer fb t 16"

definition Snapshot_derailers :: "'t FlatBuffers \<Rightarrow> 't \<Rightarrow> 't option" where
  "Snapshot_derailers fb t = fb_GetPointer fb t 18"

definition Snapshot_block_sections :: "'t FlatBuffers \<Rightarrow> 't \<Rightarrow> 't option" where
  "Snapshot_block_sections fb t = fb_GetPointer fb t 20"

definition Snapshot_active_routes :: "'t FlatBuffers \<Rightarrow> 't \<Rightarrow> 't option" where
  "Snapshot_active_routes fb t = fb_GetPointer fb t 22"

definition Snapshot_active_alarms :: "'t FlatBuffers \<Rightarrow> 't \<Rightarrow> 't option" where
  "Snapshot_active_alarms fb t = fb_GetPointer fb t 24"

definition Snapshot_dispatch_area_assignments :: "'t FlatBuffers \<Rightarrow> 't \<Rightarrow> 't option" where
  "Snapshot_dispatch_area_assignments fb t = fb_GetPointer fb t 26"

definition Snapshot_trains :: "'t FlatBuffers \<Rightarrow> 't \<Rightarrow> 't option" where
  "Snapshot_trains fb t = fb_GetPointer fb t 28"

definition Snapshot_Verify :: "'t FlatBuffers \<Rightarrow> 't \<Rightarrow> bool" where
  "Snapshot_Verify fb t \<longleftrightarrow>
     fb_VerifyTableStart fb t \<and>
     fb_VerifyField fb t 4 4 \<and>
     fb_VerifyOffsetRequired fb t 6 \<and>
     fb_VerifyString fb (Snapshot_session_id fb t) \<and>
     fb_VerifyField fb t 8 4 \<and>
     fb_VerifyField fb t 10 8 \<and>
     fb_VerifyOffset fb t 12 \<and>
     fb_VerifyVector fb (Snapshot_switches fb t) \<and>
     fb_VerifyVectorOfTables fb (SwitchState_Verify fb) (Snapshot_switches fb t) \<and>
     fb_VerifyOffset fb t 14 \<and>
     fb_VerifyVector fb (Snapshot_track_sections fb t) \<and>
     fb_VerifyVectorOfTables fb (TrackSectionState_Verify fb) (Snapshot_track_sections fb t) \<and>
     fb_VerifyOffset fb t 16 \<and>
     fb_VerifyVector fb (Snapshot_signals fb t) \<and>
     fb_VerifyVectorOfTables fb (SignalState_Verify fb) (Snapshot_signals fb t) \<and>
     fb_VerifyOffset fb t 18 \<and>
     fb_VerifyVector fb (Snapshot_derailers fb t) \<and>
     fb_VerifyVectorOfTables fb (DerailerState_Verify fb) (Snapshot_derailers fb t) \<and>
     fb_VerifyOffset fb t 20 \<and>
     fb_VerifyVector fb (Snapshot_block_sections fb t) \<and>
     fb_VerifyVectorOfTables fb (BlockSectionSnapshotState_Verify fb) (Snapshot_block_sections fb t) \<and>
     fb_VerifyOffset fb t 22 \<and>
     fb_VerifyVector fb (Snapshot_active_routes fb t) \<and>
     fb_VerifyVectorOfTables fb (RouteState_Verify fb) (Snapshot_active_routes fb t) \<and>
     fb_VerifyOffset fb t 24 \<and>
     fb_VerifyVector fb (Snapshot_active_alarms fb t) \<and>
     fb_VerifyVectorOfTables fb (AlarmState_Verify fb) (Snapshot_active_alarms fb t) \<and>
     fb_VerifyOffset fb t 26 \<and>
     fb_VerifyVector fb (Snapshot_dispatch_area_assignments fb t) \<and>
     fb_VerifyVectorOfTables fb (DispatchAreaOwnership_Verify fb) (Snapshot_dispatch_area_assignments fb t) \<and>
     fb_VerifyOffset fb t 28 \<and>
     fb_VerifyVector fb (Snapshot_trains fb t) \<and>
     fb_VerifyVectorOfTables fb (TrainState_Verify fb) (Snapshot_trains fb t) \<and>
     fb_EndTable fb t"

definition Snapshot_add_schema_version :: "u32 \<Rightarrow> 't FbElem" where
  "Snapshot_add_schema_version schema_version = AddElement_u32 4 schema_version 0"

definition Snapshot_add_session_id :: "'t option \<Rightarrow> 't FbElem" where
  "Snapshot_add_session_id session_id = AddOffset 6 session_id"

definition Snapshot_add_seq_cursor :: "u32 \<Rightarrow> 't FbElem" where
  "Snapshot_add_seq_cursor seq_cursor = AddElement_u32 8 seq_cursor 0"

definition Snapshot_add_timestamp_us :: "u64 \<Rightarrow> 't FbElem" where
  "Snapshot_add_timestamp_us timestamp_us = AddElement_u64 10 timestamp_us 0"

definition Snapshot_add_switches :: "'t option \<Rightarrow> 't FbElem" where
  "Snapshot_add_switches switches = AddOffset 12 switches"

definition Snapshot_add_track_sections :: "'t option \<Rightarrow> 't FbElem" where
  "Snapshot_add_track_sections track_sections = AddOffset 14 track_sections"

definition Snapshot_add_signals :: "'t option \<Rightarrow> 't FbElem" where
  "Snapshot_add_signals signals = AddOffset 16 signals"

definition Snapshot_add_derailers :: "'t option \<Rightarrow> 't FbElem" where
  "Snapshot_add_derailers derailers = AddOffset 18 derailers"

definition Snapshot_add_block_sections :: "'t option \<Rightarrow> 't FbElem" where
  "Snapshot_add_block_sections block_sections = AddOffset 20 block_sections"

definition Snapshot_add_active_routes :: "'t option \<Rightarrow> 't FbElem" where
  "Snapshot_add_active_routes active_routes = AddOffset 22 active_routes"

definition Snapshot_add_active_alarms :: "'t option \<Rightarrow> 't FbElem" where
  "Snapshot_add_active_alarms active_alarms = AddOffset 24 active_alarms"

definition Snapshot_add_dispatch_area_assignments :: "'t option \<Rightarrow> 't FbElem" where
  "Snapshot_add_dispatch_area_assignments dispatch_area_assignments = AddOffset 26 dispatch_area_assignments"

definition Snapshot_add_trains :: "'t option \<Rightarrow> 't FbElem" where
  "Snapshot_add_trains trains = AddOffset 28 trains"

definition CreateSnapshot :: "'t FlatBuffers \<Rightarrow> u32 \<Rightarrow> 't option \<Rightarrow> u32 \<Rightarrow> u64 \<Rightarrow> 't option \<Rightarrow> 't option \<Rightarrow> 't option \<Rightarrow> 't option \<Rightarrow> 't option \<Rightarrow> 't option \<Rightarrow> 't option \<Rightarrow> 't option \<Rightarrow> 't option \<Rightarrow> 't" where
  "CreateSnapshot fb schema_version session_id seq_cursor timestamp_us switches track_sections signals derailers block_sections active_routes active_alarms dispatch_area_assignments trains =
     fb_Table fb [Snapshot_add_timestamp_us timestamp_us, Snapshot_add_trains trains,
        Snapshot_add_dispatch_area_assignments dispatch_area_assignments,
        Snapshot_add_active_alarms active_alarms, Snapshot_add_active_routes active_routes,
        Snapshot_add_block_sections block_sections, Snapshot_add_derailers derailers,
        Snapshot_add_signals signals, Snapshot_add_track_sections track_sections,
        Snapshot_add_switches switches, Snapshot_add_seq_cursor seq_cursor,
        Snapshot_add_session_id session_id, Snapshot_add_schema_version schema_version]"

lemmas Snapshot_defs = Snapshot_schema_version_def Snapshot_session_id_def
 Snapshot_seq_cursor_def Snapshot_timestamp_us_def Snapshot_switches_def
 Snapshot_track_sections_def Snapshot_signals_def Snapshot_derailers_def
 Snapshot_block_sections_def Snapshot_active_routes_def Snapshot_active_alarms_def
 Snapshot_dispatch_area_assignments_def Snapshot_trains_def Snapshot_Verify_def
 Snapshot_add_schema_version_def Snapshot_add_session_id_def Snapshot_add_seq_cursor_def
 Snapshot_add_timestamp_us_def Snapshot_add_switches_def Snapshot_add_track_sections_def
 Snapshot_add_signals_def Snapshot_add_derailers_def Snapshot_add_block_sections_def
 Snapshot_add_active_routes_def Snapshot_add_active_alarms_def
 Snapshot_add_dispatch_area_assignments_def Snapshot_add_trains_def CreateSnapshot_def

end
