(* ===== verification/Snapshot_Service.thy ===== *)
theory Snapshot_Service
  imports Engine_Loop Wire_Codes Proto_Snapshot
begin

text \<open>
  The serialiser of engine snapshots, \<^verbatim>\<open>engine/src/snapshot_service.cpp\<close>, over the
  generated builders of theory \<open>Proto_Snapshot\<close>, and the splitting into chunks.  A snapshot
  is the record \<open>EngineSnapshot\<close> of theory \<open>Engine_Loop\<close>; its maps are visited in the
  (unspecified) order of the association lists.  A reader's view of the tables is defined for the
  round trip.
\<close>

section \<open>Enumerations\<close>

definition to_proto_aspect :: "SignalAspect \<Rightarrow> i8" where
  "to_proto_aspect a = enum_code SignalAspect_values a"

definition to_proto_switch_pos :: "SwitchPosition \<Rightarrow> i8" where
  "to_proto_switch_pos p = enum_code SwitchPosition_values p"

definition to_proto_derailer_pos :: "DerailerState \<Rightarrow> i8" where
  "to_proto_derailer_pos s = enum_code DerailerState_values s"

definition to_proto_block_state :: "BlockSectionState \<Rightarrow> i8" where
  "to_proto_block_state s = (if s = BS_CLOSED then BlockSectionState_CLOSED else BlockSectionState_OPEN)"

definition to_proto_block_dir :: "BlockDirectionState \<Rightarrow> i8" where
  "to_proto_block_dir d = enum_code BlockDirectionState_values d"

definition alarm_kind_byte :: "string \<Rightarrow> i8" where
  "alarm_kind_byte kind =
     (if kind = ''TRACK_OCCUPIED_UNEXPECTEDLY'' then 0
      else if kind = ''SWITCH_POSITION_MISMATCH'' then 1
      else if kind = ''SIGNAL_OVERRUN'' then 2
      else if kind = ''DERAILER_CONFLICT'' then 3
      else if kind = ''COMMS_FAILURE'' then 4
      else if kind = ''ENGINE_FAULT'' then 5
      else 0)"

section \<open>Serialisation\<close>

definition switch_table :: "'t FlatBuffers \<Rightarrow> UID \<times> Switch \<Rightarrow> 't" where
  "switch_table fb = (\<lambda>(uid, sw). fb_Table fb
     [SwitchState_add_uid uid, SwitchState_add_position (to_proto_switch_pos (sw_position sw)),
      SwitchState_add_occupied (sw_occupancy sw = OCCUPIED),
      SwitchState_add_axle_count (word_of_int (sw_axle_count sw)),
      SwitchState_add_locked_by_route (sw_locked_by_route_uid sw \<noteq> None)])"

definition train_by_section :: "TrainSnapshot list \<Rightarrow> (UID, UID) umap" where
  "train_by_section trains = fold (\<lambda>tr. um_emplace (tsnap_section_uid tr) (tsnap_uid tr)) trains []"

definition track_section_table :: "'t FlatBuffers \<Rightarrow> (UID, UID) umap \<Rightarrow> UID \<times> TrackSection \<Rightarrow> 't" where
  "track_section_table fb trains = (\<lambda>(uid, ts). fb_Table fb
     ([TrackSectionState_add_uid uid, TrackSectionState_add_occupied (ts_occupancy ts = OCCUPIED),
       TrackSectionState_add_axle_count (word_of_int (ts_axle_count ts))] @
      (case um_find trains uid of Some tr \<Rightarrow> [TrackSectionState_add_train_uid tr] | None \<Rightarrow> [])))"

definition signal_table :: "'t FlatBuffers \<Rightarrow> UID \<times> Signal \<Rightarrow> 't" where
  "signal_table fb = (\<lambda>(uid, sig). fb_Table fb
     [SignalState_add_uid uid, SignalState_add_aspect (to_proto_aspect (sig_current_aspect sig))])"

definition derailer_table :: "'t FlatBuffers \<Rightarrow> UID \<times> Derailer \<Rightarrow> 't" where
  "derailer_table fb = (\<lambda>(uid, der). fb_Table fb
     [DerailerState_add_uid uid, DerailerState_add_position (to_proto_derailer_pos (dr_state der))])"

definition block_section_table :: "'t FlatBuffers \<Rightarrow> UID \<times> BlockSection \<Rightarrow> 't" where
  "block_section_table fb = (\<lambda>(uid, bs). fb_Table fb
     [BlockSectionSnapshotState_add_uid uid,
      BlockSectionSnapshotState_add_state (to_proto_block_state (bs_state bs)),
      BlockSectionSnapshotState_add_block_direction (to_proto_block_dir (bs_direction bs))])"

definition route_table :: "'t FlatBuffers \<Rightarrow> UID \<times> RouteState \<Rightarrow> 't" where
  "route_table fb = (\<lambda>(uid, rt). fb_Table fb
     [RouteState_add_uid (rt_uid rt), RouteState_add_from_signal_uid (rt_from_signal_uid rt),
      RouteState_add_to_signal_uid (rt_to_signal_uid rt),
      RouteState_add_section_uids (Some (fb_CreateVector_u64 fb (rt_section_uids rt)))])"

definition alarm_table :: "'t FlatBuffers \<Rightarrow> UID \<times> AlarmState \<Rightarrow> 't" where
  "alarm_table fb = (\<lambda>(uid, al). fb_Table fb
     [AlarmState_add_uid (al_uid al), AlarmState_add_alarm_type (alarm_kind_byte (al_kind al)),
      AlarmState_add_object_uid (al_object_uid al),
      AlarmState_add_message (Some (fb_CreateString fb (al_message al)))])"

definition train_table :: "'t FlatBuffers \<Rightarrow> TrainSnapshot \<Rightarrow> 't" where
  "train_table fb tr = fb_Table fb
     [TrainState_add_uid (tsnap_uid tr),
      TrainState_add_vehicle_uids (Some (fb_CreateVector_u64 fb (tsnap_vehicle_uids tr))),
      TrainState_add_section_uid (tsnap_section_uid tr), TrainState_add_speed_kmh (tsnap_speed_kmh tr),
      TrainState_add_total_length_m (tsnap_total_length_m tr),
      TrainState_add_total_axles (word_of_int (tsnap_total_axles tr))]"

definition snapshot_table :: "'t FlatBuffers \<Rightarrow> EngineSnapshot \<Rightarrow> 't" where
  "snapshot_table fb snap =
    (let vec = (\<lambda>rs. Some (fb_CreateVector_refs fb rs)) in
     fb_Table fb
      [Snapshot_add_schema_version 1,
       Snapshot_add_session_id (Some (fb_CreateString fb (es_session_id snap))),
       Snapshot_add_seq_cursor (ucast (es_current_tick snap)),
       Snapshot_add_switches (vec (map (switch_table fb) (es_switches snap))),
       Snapshot_add_track_sections (vec (map (track_section_table fb (train_by_section (snap_trains snap)))
         (es_track_sections snap))),
       Snapshot_add_signals (vec (map (signal_table fb) (es_signals snap))),
       Snapshot_add_derailers (vec (map (derailer_table fb) (es_derailers snap))),
       Snapshot_add_block_sections (vec (map (block_section_table fb) (es_block_sections snap))),
       Snapshot_add_active_routes (vec (map (route_table fb) (es_routes snap))),
       Snapshot_add_active_alarms (vec (map (alarm_table fb) (es_alarms snap))),
       Snapshot_add_trains (vec (map (train_table fb) (snap_trains snap)))])"

definition serialize_snapshot :: "'t FlatBuffers \<Rightarrow> EngineSnapshot \<Rightarrow> u8 list" where
  "serialize_snapshot fb snap = fb_Finish fb (snapshot_table fb snap)"

section \<open>Chunks\<close>

definition DEFAULT_CHUNK_SIZE :: nat where
  "DEFAULT_CHUNK_SIZE = 64 * 1024"

function chunk_from :: "u8 list \<Rightarrow> nat \<Rightarrow> nat \<Rightarrow> u8 list list" where
  "chunk_from binary chunk_size offset =
    (if chunk_size = 0 \<or> \<not> offset < length binary then []
     else (let len = min chunk_size (length binary - offset)
           in take len (drop offset binary) # chunk_from binary chunk_size (offset + len)))"
  by pat_completeness auto
termination
  by (relation "measure (\<lambda>(b, n, k). length b - k)") auto

declare chunk_from.simps [simp del]

definition chunk :: "u8 list \<Rightarrow> nat \<Rightarrow> u8 list list" where
  "chunk binary chunk_size =
     (if binary = [] \<or> chunk_size = 0 then [[]] else chunk_from binary chunk_size 0)"

section \<open>Lemmas on chunks\<close>

lemma concat_chunk_from: "0 < n \<Longrightarrow> concat (chunk_from b n k) = drop k b"
proof (induction b n k rule: chunk_from.induct)
  case (1 b n k)
  show ?case
  proof (cases "k < length b")
    case True
    let ?len = "min n (length b - k)"
    have "concat (chunk_from b n k) = take ?len (drop k b) @ drop (k + ?len) b"
      using 1 True by (subst chunk_from.simps) (simp add: Let_def)
    also have "\<dots> = drop k b"
      using append_take_drop_id [of ?len "drop k b"] by (simp add: add.commute)
    finally show ?thesis .
  qed (subst chunk_from.simps, simp)
qed

lemma chunk_from_sizes:
  "c \<in> set (chunk_from b n k) \<Longrightarrow> 0 < length c \<and> length c \<le> n"
proof (induction b n k rule: chunk_from.induct)
  case (1 b n k)
  show ?case
  proof (cases "n = 0 \<or> \<not> k < length b")
    case True
    then show ?thesis using 1 by (subst (asm) chunk_from.simps) simp
  next
    case False
    then have "c = take (min n (length b - k)) (drop k b) \<or> c \<in> set (chunk_from b n (k + min n (length b - k)))"
      using 1(2) by (subst (asm) chunk_from.simps) (simp add: Let_def)
    then show ?thesis using 1(1) [OF False refl] False by auto
  qed
qed

lemma butlast_chunk_from:
  "c \<in> set (butlast (chunk_from b n k)) \<Longrightarrow> length c = n"
proof (induction b n k rule: chunk_from.induct)
  case (1 b n k)
  show ?case
  proof (cases "n = 0 \<or> \<not> k < length b")
    case True
    then show ?thesis using 1 by (subst (asm) chunk_from.simps) simp
  next
    case False
    let ?len = "min n (length b - k)"
    have step: "chunk_from b n k = take ?len (drop k b) # chunk_from b n (k + ?len)"
      using False by (subst chunk_from.simps) (simp add: Let_def)
    have "chunk_from b n (k + ?len) \<noteq> [] \<and> (c = take ?len (drop k b) \<or> c \<in> set (butlast (chunk_from b n (k + ?len))))"
      using 1(2) step by (auto split: if_splits)
    moreover have "k + ?len < length b" if "chunk_from b n (k + ?len) \<noteq> []"
      using that by (subst (asm) chunk_from.simps) (auto split: if_splits)
    ultimately show ?thesis using 1(1) [OF False refl] False by auto
  qed
qed

lemma chunk_nonempty: "chunk b n \<noteq> []"
  by (simp add: chunk_def) (subst chunk_from.simps, simp add: Let_def)

lemma chunk_first:
  assumes "n \<le> length b" and "0 < n"
  shows "hd (chunk b n) = take n b"
proof -
  have "b \<noteq> []" using assms by auto
  then show ?thesis using assms by (simp add: chunk_def) (subst chunk_from.simps, simp add: Let_def min_def)
qed

section \<open>The client's reading\<close>

definition refs_of :: "'t FlatBuffers \<Rightarrow> 't option \<Rightarrow> 't list" where
  "refs_of fb p = (case p of None \<Rightarrow> [] | Some v \<Rightarrow> fb_vec_refs fb v)"

definition client_switch :: "'t FlatBuffers \<Rightarrow> 't \<Rightarrow> UID \<times> SwitchPosition option \<times> bool \<times> i32 \<times> bool" where
  "client_switch fb r = (SwitchState_uid fb r, enum_of_code SwitchPosition_values (SwitchState_position fb r),
     SwitchState_occupied fb r, SwitchState_axle_count fb r, SwitchState_locked_by_route fb r)"

definition client_section :: "'t FlatBuffers \<Rightarrow> 't \<Rightarrow> UID \<times> bool \<times> i32 \<times> u64" where
  "client_section fb r = (TrackSectionState_uid fb r, TrackSectionState_occupied fb r,
     TrackSectionState_axle_count fb r, TrackSectionState_train_uid fb r)"

definition client_signal :: "'t FlatBuffers \<Rightarrow> 't \<Rightarrow> UID \<times> SignalAspect option" where
  "client_signal fb r = (SignalState_uid fb r, enum_of_code SignalAspect_values (SignalState_aspect fb r))"

definition client_derailer :: "'t FlatBuffers \<Rightarrow> 't \<Rightarrow> UID \<times> DerailerState option" where
  "client_derailer fb r = (DerailerState_uid fb r, enum_of_code DerailerState_values (DerailerState_position fb r))"

definition client_block_section :: "'t FlatBuffers \<Rightarrow> 't \<Rightarrow> UID \<times> bool \<times> BlockDirectionState option" where
  "client_block_section fb r = (BlockSectionSnapshotState_uid fb r,
     BlockSectionSnapshotState_state fb r = BlockSectionState_OPEN,
     enum_of_code BlockDirectionState_values (BlockSectionSnapshotState_block_direction fb r))"

definition client_route :: "'t FlatBuffers \<Rightarrow> 't \<Rightarrow> UID \<times> UID \<times> UID \<times> UID list" where
  "client_route fb r = (RouteState_uid fb r, RouteState_from_signal_uid fb r, RouteState_to_signal_uid fb r,
     (case RouteState_section_uids fb r of None \<Rightarrow> [] | Some v \<Rightarrow> fb_vec_u64 fb v))"

definition client_alarm :: "'t FlatBuffers \<Rightarrow> 't \<Rightarrow> UID \<times> i8 \<times> UID \<times> string option" where
  "client_alarm fb r = (AlarmState_uid fb r, AlarmState_alarm_type fb r, AlarmState_object_uid fb r,
     map_option (fb_str fb) (AlarmState_message fb r))"

definition client_train :: "'t FlatBuffers \<Rightarrow> 't \<Rightarrow> UID \<times> UID list \<times> UID \<times> float32 \<times> float32 \<times> i32" where
  "client_train fb r = (TrainState_uid fb r,
     (case TrainState_vehicle_uids fb r of None \<Rightarrow> [] | Some v \<Rightarrow> fb_vec_u64 fb v),
     TrainState_section_uid fb r, TrainState_speed_kmh fb r, TrainState_total_length_m fb r, TrainState_total_axles fb r)"

lemmas snapshot_wire_defs = SwitchState_defs TrackSectionState_defs SignalState_defs DerailerState_defs
  BlockSectionSnapshotState_defs RouteState_defs AlarmState_defs TrainState_defs Snapshot_defs

lemmas client_defs = client_switch_def client_section_def client_signal_def client_derailer_def
  client_block_section_def client_route_def client_alarm_def client_train_def

lemma device_enum_codes [simp]:
  "enum_of_code SwitchPosition_values (to_proto_switch_pos p) = Some p"
  "enum_of_code SignalAspect_values (to_proto_aspect a) = Some a"
  "enum_of_code DerailerState_values (to_proto_derailer_pos d) = Some d"
  "enum_of_code BlockDirectionState_values (to_proto_block_dir b) = Some b"
  "(to_proto_block_state s = BlockSectionState_OPEN) = (s = BS_OPEN)"
  subgoal by (cases p) (simp_all add: to_proto_switch_pos_def SwitchPosition_values_def enum_code_def enum_of_code_def)
  subgoal by (cases a) (simp_all add: to_proto_aspect_def SignalAspect_values_def enum_code_def enum_of_code_def)
  subgoal by (cases d) (simp_all add: to_proto_derailer_pos_def DerailerState_values_def enum_code_def enum_of_code_def)
  subgoal by (cases b) (simp_all add: to_proto_block_dir_def BlockDirectionState_values_def enum_code_def enum_of_code_def)
  subgoal by (cases s) (simp_all add: to_proto_block_state_def BlockSectionState_OPEN_def BlockSectionState_CLOSED_def)
  done

lemma read_tables:
  assumes "fb_reads_back fb"
  shows "client_switch fb (switch_table fb (u, sw)) =
      (u, Some (sw_position sw), sw_occupancy sw = OCCUPIED, word_of_int (sw_axle_count sw), sw_locked_by_route_uid sw \<noteq> None)"
    "client_section fb (track_section_table fb m (u, ts)) =
      (u, ts_occupancy ts = OCCUPIED, word_of_int (ts_axle_count ts), case um_find m u of None \<Rightarrow> 0 | Some tr \<Rightarrow> tr)"
    "client_signal fb (signal_table fb (u, sig)) = (u, Some (sig_current_aspect sig))"
    "client_derailer fb (derailer_table fb (u, der)) = (u, Some (dr_state der))"
    "client_block_section fb (block_section_table fb (u, bs)) = (u, bs_state bs = BS_OPEN, Some (bs_direction bs))"
    "client_route fb (route_table fb (u, rt)) =
      (rt_uid rt, rt_from_signal_uid rt, rt_to_signal_uid rt, rt_section_uids rt)"
    "client_alarm fb (alarm_table fb (u, al)) =
      (al_uid al, alarm_kind_byte (al_kind al), al_object_uid al, Some (al_message al))"
    "client_train fb (train_table fb tr) = (tsnap_uid tr, tsnap_vehicle_uids tr, tsnap_section_uid tr,
      tsnap_speed_kmh tr, tsnap_total_length_m tr, word_of_int (tsnap_total_axles tr))"
proof -
  note rb = fb_reads_backD [OF assms]
  show "client_switch fb (switch_table fb (u, sw)) =
      (u, Some (sw_position sw), sw_occupancy sw = OCCUPIED, word_of_int (sw_axle_count sw), sw_locked_by_route_uid sw \<noteq> None)"
    by (simp add: client_switch_def switch_table_def SwitchState_defs rb)
  show "client_section fb (track_section_table fb m (u, ts)) =
      (u, ts_occupancy ts = OCCUPIED, word_of_int (ts_axle_count ts), case um_find m u of None \<Rightarrow> 0 | Some tr \<Rightarrow> tr)"
    by (simp add: client_section_def track_section_table_def TrackSectionState_defs rb split: option.split)
  show "client_signal fb (signal_table fb (u, sig)) = (u, Some (sig_current_aspect sig))"
    by (simp add: client_signal_def signal_table_def SignalState_defs rb)
  show "client_derailer fb (derailer_table fb (u, der)) = (u, Some (dr_state der))"
    by (simp add: client_derailer_def derailer_table_def DerailerState_defs rb)
  show "client_block_section fb (block_section_table fb (u, bs)) = (u, bs_state bs = BS_OPEN, Some (bs_direction bs))"
    by (simp add: client_block_section_def block_section_table_def BlockSectionSnapshotState_defs rb)
  show "client_route fb (route_table fb (u, rt)) =
      (rt_uid rt, rt_from_signal_uid rt, rt_to_signal_uid rt, rt_section_uids rt)"
    by (simp add: client_route_def route_table_def RouteState_defs rb)
  show "client_alarm fb (alarm_table fb (u, al)) =
      (al_uid al, alarm_kind_byte (al_kind al), al_object_uid al, Some (al_message al))"
    by (simp add: client_alarm_def alarm_table_def AlarmState_defs rb)
  show "client_train fb (train_table fb tr) = (tsnap_uid tr, tsnap_vehicle_uids tr, tsnap_section_uid tr,
      tsnap_speed_kmh tr, tsnap_total_length_m tr, word_of_int (tsnap_total_axles tr))"
    by (simp add: client_train_def train_table_def TrainState_defs rb)
qed

lemma read_snapshot:
  assumes "fb_reads_back fb"
  shows "refs_of fb (Snapshot_switches fb (snapshot_table fb snap)) = map (switch_table fb) (es_switches snap)"
    "refs_of fb (Snapshot_track_sections fb (snapshot_table fb snap)) =
       map (track_section_table fb (train_by_section (snap_trains snap))) (es_track_sections snap)"
    "refs_of fb (Snapshot_signals fb (snapshot_table fb snap)) = map (signal_table fb) (es_signals snap)"
    "refs_of fb (Snapshot_derailers fb (snapshot_table fb snap)) = map (derailer_table fb) (es_derailers snap)"
    "refs_of fb (Snapshot_block_sections fb (snapshot_table fb snap)) =
       map (block_section_table fb) (es_block_sections snap)"
    "refs_of fb (Snapshot_active_routes fb (snapshot_table fb snap)) = map (route_table fb) (es_routes snap)"
    "Snapshot_seq_cursor fb (snapshot_table fb snap) = ucast (es_current_tick snap)"
    "refs_of fb (Snapshot_active_alarms fb (snapshot_table fb snap)) = map (alarm_table fb) (es_alarms snap)"
    "refs_of fb (Snapshot_trains fb (snapshot_table fb snap)) = map (train_table fb) (snap_trains snap)"
    "Snapshot_schema_version fb (snapshot_table fb snap) = 1"
    "map_option (fb_str fb) (Snapshot_session_id fb (snapshot_table fb snap)) = Some (es_session_id snap)"
  by (simp_all add: refs_of_def snapshot_table_def Let_def Snapshot_defs fb_reads_backD [OF assms])

text \<open>What is not sent: level crossings, the operator states of the devices and the axles of a line.\<close>

lemma not_in_snapshot:
  "snapshot_table fb (snap\<lparr>es_level_crossings := x\<rparr>) = snapshot_table fb snap"
  "switch_table fb (u, sw\<lparr>sw_operator_state := o1\<rparr>) = switch_table fb (u, sw)"
  "track_section_table fb m (u, ts\<lparr>ts_operator_state := o2\<rparr>) = track_section_table fb m (u, ts)"
  "signal_table fb (u, sig\<lparr>sig_operator_state := o3\<rparr>) = signal_table fb (u, sig)"
  "derailer_table fb (u, der\<lparr>dr_operator_state := o4\<rparr>) = derailer_table fb (u, der)"
  "block_section_table fb (u, bs\<lparr>bs_operator_state := o5, bs_axle_count := k\<rparr>) = block_section_table fb (u, bs)"
  by (simp_all add: snapshot_table_def switch_table_def track_section_table_def signal_table_def
      derailer_table_def block_section_table_def)

section \<open>Properties\<close>

text \<open>
  C21.  A client that puts the chunks of a serialised snapshot together and reads them through the generated
  accessors finds the session, the tick as cursor, and in the order of the maps every switch with its
  position, occupancy, axles and lock, every section with its occupancy, axles and train, every signal with
  its aspect, every derailer, every line with its state and direction, every route with its ends and sections,
  every alarm and every train.  (Level crossings, operator states and the axles of a line are not sent; a snapshot of more than one chunk does
  not arrive at all, see theory \<open>Gateway_Safety\<close>.)  The
  hypothesis on the finished buffer is what FlatBuffers promises: its root is the table it was finished with.
\<close>

theorem snapshot_reads_back:
  assumes "fb_reads_back fb" and "fb_GetRoot fb (fb_Finish fb (snapshot_table fb snap)) = snapshot_table fb snap"
    and "t = fb_GetRoot fb (concat (chunk (serialize_snapshot fb snap) DEFAULT_CHUNK_SIZE))"
  shows "map (client_switch fb) (refs_of fb (Snapshot_switches fb t)) =
      map (\<lambda>(u, sw). (u, Some (sw_position sw), sw_occupancy sw = OCCUPIED, word_of_int (sw_axle_count sw),
          sw_locked_by_route_uid sw \<noteq> None)) (es_switches snap) \<and>
    map (client_section fb) (refs_of fb (Snapshot_track_sections fb t)) =
      map (\<lambda>(u, ts). (u, ts_occupancy ts = OCCUPIED, word_of_int (ts_axle_count ts),
          case um_find (train_by_section (snap_trains snap)) u of None \<Rightarrow> 0 | Some tr \<Rightarrow> tr)) (es_track_sections snap) \<and>
    map (client_signal fb) (refs_of fb (Snapshot_signals fb t)) =
      map (\<lambda>(u, sig). (u, Some (sig_current_aspect sig))) (es_signals snap) \<and>
    map (client_derailer fb) (refs_of fb (Snapshot_derailers fb t)) =
      map (\<lambda>(u, der). (u, Some (dr_state der))) (es_derailers snap) \<and>
    map (client_block_section fb) (refs_of fb (Snapshot_block_sections fb t)) =
      map (\<lambda>(u, bs). (u, bs_state bs = BS_OPEN, Some (bs_direction bs))) (es_block_sections snap) \<and>
    map (client_route fb) (refs_of fb (Snapshot_active_routes fb t)) =
      map (\<lambda>(u, rt). (rt_uid rt, rt_from_signal_uid rt, rt_to_signal_uid rt, rt_section_uids rt)) (es_routes snap) \<and>
    map (client_alarm fb) (refs_of fb (Snapshot_active_alarms fb t)) =
      map (\<lambda>(u, al). (al_uid al, alarm_kind_byte (al_kind al), al_object_uid al, Some (al_message al))) (es_alarms snap) \<and>
    map (client_train fb) (refs_of fb (Snapshot_trains fb t)) =
      map (\<lambda>tr. (tsnap_uid tr, tsnap_vehicle_uids tr, tsnap_section_uid tr, tsnap_speed_kmh tr,
          tsnap_total_length_m tr, word_of_int (tsnap_total_axles tr))) (snap_trains snap) \<and>
    Snapshot_schema_version fb t = 1 \<and> map_option (fb_str fb) (Snapshot_session_id fb t) = Some (es_session_id snap) \<and>
    Snapshot_seq_cursor fb t = ucast (es_current_tick snap)"
proof -
  have "concat (chunk (serialize_snapshot fb snap) DEFAULT_CHUNK_SIZE) = serialize_snapshot fb snap"
    using concat_chunk_from [of DEFAULT_CHUNK_SIZE "serialize_snapshot fb snap" 0]
    by (simp add: chunk_def DEFAULT_CHUNK_SIZE_def)
  then have t: "t = snapshot_table fb snap" using assms(2,3) by (simp add: serialize_snapshot_def)
  show ?thesis
    unfolding t read_snapshot [OF assms(1)] map_map
    by (intro conjI map_cong refl) (simp_all add: read_tables [OF assms(1)] split: prod.split)
qed

text \<open>A runtime whose buffers are empty and have the given table as their root.\<close>

definition snapshot_runtime :: "EngineSnapshot \<Rightarrow> FbTree FlatBuffers" where
  "snapshot_runtime snap = tree_runtime (\<lambda>_. snapshot_table (tree_runtime (\<lambda>_. TreeString [])) snap)"

lemma snapshot_table_runtime: "snapshot_table (tree_runtime rt) snap = snapshot_table (tree_runtime rt') snap"
proof -
  have "switch_table (tree_runtime rt) = switch_table (tree_runtime rt')"
    "track_section_table (tree_runtime rt) = track_section_table (tree_runtime rt')"
    "signal_table (tree_runtime rt) = signal_table (tree_runtime rt')"
    "derailer_table (tree_runtime rt) = derailer_table (tree_runtime rt')"
    "block_section_table (tree_runtime rt) = block_section_table (tree_runtime rt')"
    "route_table (tree_runtime rt) = route_table (tree_runtime rt')"
    "alarm_table (tree_runtime rt) = alarm_table (tree_runtime rt')"
    "train_table (tree_runtime rt) = train_table (tree_runtime rt')"
    by (simp_all add: fun_eq_iff switch_table_def track_section_table_def signal_table_def derailer_table_def
        block_section_table_def route_table_def alarm_table_def train_table_def tree_runtime_def)
  then show ?thesis by (simp add: snapshot_table_def) (simp add: tree_runtime_def)
qed

theorem snapshot_reads_back_witness:
  "map (client_signal (snapshot_runtime (make_snapshot sample_station [])))
     (refs_of (snapshot_runtime (make_snapshot sample_station []))
       (Snapshot_signals (snapshot_runtime (make_snapshot sample_station []))
         (fb_GetRoot (snapshot_runtime (make_snapshot sample_station []))
           (concat (chunk (serialize_snapshot (snapshot_runtime (make_snapshot sample_station []))
              (make_snapshot sample_station [])) DEFAULT_CHUNK_SIZE))))) =
   map (\<lambda>(u, sig). (u, Some (sig_current_aspect sig))) (es_signals (make_snapshot sample_station []))"
proof -
  let ?snap = "make_snapshot sample_station []"
  have "fb_GetRoot (snapshot_runtime ?snap) (fb_Finish (snapshot_runtime ?snap) (snapshot_table (snapshot_runtime ?snap) ?snap)) =
      snapshot_table (snapshot_runtime ?snap) ?snap"
    unfolding snapshot_runtime_def by (subst (4) snapshot_table_runtime) (simp add: tree_runtime_def)
  from snapshot_reads_back [OF _ this refl] show ?thesis
    using tree_runtime_reads_back by (simp add: snapshot_runtime_def)
qed

text \<open>
  The chunks of a buffer, put together in order, are the buffer; there is at least one, none is
  longer than the chunk size, and only the last may be shorter.
\<close>

theorem chunks_reassemble:
  assumes "0 < n"
  shows "concat (chunk b n) = b \<and> chunk b n \<noteq> [] \<and> (\<forall>c \<in> set (chunk b n). length c \<le> n) \<and>
    (\<forall>c \<in> set (butlast (chunk b n)). length c = n)"
  using assms concat_chunk_from [of n b 0] chunk_from_sizes [of _ b n 0] butlast_chunk_from [of _ b n 0]
    chunk_nonempty [of b n] by (auto simp: chunk_def)

theorem chunks_reassemble_witness:
  "concat (chunk [1, 2, 3, 4, 5] 2) = ([1, 2, 3, 4, 5] :: u8 list)"
  using chunks_reassemble [of 2 "[1, 2, 3, 4, 5]"] by simp

text \<open>
  The cursor a snapshot carries for the client's event stream is the engine's tick, whatever
  the number of the last event.
\<close>

theorem snapshot_cursor_is_tick:
  assumes "fb_reads_back fb"
  shows "Snapshot_seq_cursor fb (snapshot_table fb snap) = ucast (es_current_tick snap)"
  using assms by (rule read_snapshot(7))

theorem snapshot_cursor_is_tick_witness:
  "Snapshot_seq_cursor (tree_runtime (\<lambda>_. TreeString []))
     (snapshot_table (tree_runtime (\<lambda>_. TreeString [])) ((make_snapshot sample_station [])\<lparr>es_current_tick := 77\<rparr>)) = 77"
  using snapshot_cursor_is_tick [OF tree_runtime_reads_back, of "\<lambda>_. TreeString []"
      "(make_snapshot sample_station [])\<lparr>es_current_tick := 77\<rparr>"] by simp

text \<open>A trailed switch is sent with a number the wire protocol has no name for.\<close>

lemma trailed_position_unnamed:
  "to_proto_switch_pos TRAILED_DAMAGED \<notin> set EnumValuesSwitchPosition \<and>
   EnumNameSwitchPosition (to_proto_switch_pos TRAILED_DAMAGED) = []"
  by (simp add: to_proto_switch_pos_def enum_code_def SwitchPosition_values_def EnumValuesSwitchPosition_def
      EnumNameSwitchPosition_def)

end
