(* ===== verification/Command_Ingress.thy ===== *)
theory Command_Ingress
  imports Wire_Codes
begin

text \<open>
  The parser of operator commands from the wire, \<^verbatim>\<open>server/src/command_ingress.cpp\<close>,
  over the generated accessors of theory \<open>Proto_Commands\<close>.  A verified message may carry an
  enumeration byte for which the engine has no enumerator; the C++ cast then produces an unnamed
  value, which is \<open>Wire_Unnamed\<close> with the command type and the UID.
\<close>

section \<open>Command type bytes\<close>

definition kSetSwitchPosition :: u8 where "kSetSwitchPosition = 0x01"
definition kSetSignalAspect :: u8 where "kSetSignalAspect = 0x02"
definition kSetDerailerPosition :: u8 where "kSetDerailerPosition = 0x03"
definition kSetBlockSection :: u8 where "kSetBlockSection = 0x04"
definition kRequestRoute :: u8 where "kRequestRoute = 0x05"
definition kCancelRoute :: u8 where "kCancelRoute = 0x06"
definition kAcknowledgeAlarm :: u8 where "kAcknowledgeAlarm = 0x07"
definition kSetBlockDirection :: u8 where "kSetBlockDirection = 0x08"
definition kInitAxleCounterReset :: u8 where "kInitAxleCounterReset = 0x09"
definition kResetAxleCounter :: u8 where "kResetAxleCounter = 0x0A"
definition kOperatorCommand :: u8 where "kOperatorCommand = 0x20"
definition kMl8Command :: u8 where "kMl8Command = 0x21"

lemmas cmd_type_defs = kSetSwitchPosition_def kSetSignalAspect_def kSetDerailerPosition_def
  kSetBlockSection_def kRequestRoute_def kCancelRoute_def kAcknowledgeAlarm_def
  kSetBlockDirection_def kInitAxleCounterReset_def kResetAxleCounter_def kOperatorCommand_def
  kMl8Command_def

section \<open>From wire enumerations to the engine's\<close>

definition from_proto_SwitchPosition :: "i8 \<Rightarrow> SwitchPosition" where
  "from_proto_SwitchPosition p =
     (if p = SwitchPosition_STRAIGHT then STRAIGHT
      else if p = SwitchPosition_DIVERGENT then DIVERGENT else STRAIGHT)"

definition from_proto_Aspect :: "i8 \<Rightarrow> SignalAspect option" where
  "from_proto_Aspect a = enum_of_code SignalAspect_values a"

definition from_proto_DerailerPosition :: "i8 \<Rightarrow> DerailerState" where
  "from_proto_DerailerPosition p = (if p = DerailerPosition_UNLOCKED then UNLOCKED else LOCKED)"

definition from_proto_BlockSectionState :: "i8 \<Rightarrow> BlockSectionState" where
  "from_proto_BlockSectionState s = (if s = BlockSectionState_OPEN then BS_OPEN else BS_CLOSED)"

definition from_proto_Shl12Op :: "i8 \<Rightarrow> Shl12Op option" where
  "from_proto_Shl12Op op = enum_of_code Shl12Op_values op"

definition from_proto_OperatorTargetKind :: "i8 \<Rightarrow> OperatorTargetKind option" where
  "from_proto_OperatorTargetKind kind = enum_of_code OperatorTargetKind_values kind"

definition from_proto_OperatorCommandCode :: "i8 \<Rightarrow> OperatorCommandCode option" where
  "from_proto_OperatorCommandCode code = enum_of_code OperatorCommandCode_values code"

definition from_proto_Ml8CommandCode :: "i8 \<Rightarrow> Ml8CommandCode option" where
  "from_proto_Ml8CommandCode code = enum_of_code Ml8CommandCode_values code"

section \<open>Parsing\<close>

datatype (plugins only: size code) WireCommand = Wire_Command Command | Wire_Unnamed u8 UID

definition parse_command :: "'t FlatBuffers \<Rightarrow> u8 \<Rightarrow> u8 list \<Rightarrow> WireCommand option" where
  "parse_command fb cmd_type fb_data =
    (let msg = fb_GetRoot fb fb_data;
         verified = (\<lambda>verify. fb_VerifyBuffer fb verify fb_data);
         unnamed = (\<lambda>uid. Some (Wire_Unnamed cmd_type uid))
     in
     if cmd_type = kSetSwitchPosition then
       (if \<not> verified (SetSwitchPosition_Verify fb) then None
        else if SetSwitchPosition_uid fb msg = 0 then None
        else Some (Wire_Command (SetSwitchPositionCmd (SetSwitchPosition_uid fb msg)
               (from_proto_SwitchPosition (SetSwitchPosition_position fb msg)))))
     else if cmd_type = kSetSignalAspect then
       (if \<not> verified (SetSignalAspect_Verify fb) then None
        else if SetSignalAspect_uid fb msg = 0 then None
        else (case from_proto_Aspect (SetSignalAspect_aspect fb msg) of
                None \<Rightarrow> unnamed (SetSignalAspect_uid fb msg)
              | Some a \<Rightarrow> Some (Wire_Command (SetSignalAspectCmd (SetSignalAspect_uid fb msg) a))))
     else if cmd_type = kSetDerailerPosition then
       (if \<not> verified (SetDerailerPosition_Verify fb) then None
        else if SetDerailerPosition_uid fb msg = 0 then None
        else Some (Wire_Command (SetDerailerPositionCmd (SetDerailerPosition_uid fb msg)
               (from_proto_DerailerPosition (SetDerailerPosition_position fb msg)))))
     else if cmd_type = kSetBlockSection then
       (if \<not> verified (SetBlockSection_Verify fb) then None
        else if SetBlockSection_uid fb msg = 0 then None
        else Some (Wire_Command (SetBlockSectionCmd (SetBlockSection_uid fb msg)
               (from_proto_BlockSectionState (SetBlockSection_state fb msg)))))
     else if cmd_type = kRequestRoute then
       (if \<not> verified (RequestRoute_Verify fb) then None
        else if RequestRoute_from_signal_uid fb msg = 0 \<or> RequestRoute_to_signal_uid fb msg = 0 then None
        else Some (Wire_Command (RequestRouteCmd (RequestRoute_from_signal_uid fb msg)
               (RequestRoute_to_signal_uid fb msg))))
     else if cmd_type = kCancelRoute then
       (if \<not> verified (CancelRoute_Verify fb) then None
        else if CancelRoute_route_uid fb msg = 0 then None
        else Some (Wire_Command (CancelRouteCmd (CancelRoute_route_uid fb msg) False)))
     else if cmd_type = kAcknowledgeAlarm then
       (if \<not> verified (AcknowledgeAlarm_Verify fb) then None
        else if AcknowledgeAlarm_alarm_uid fb msg = 0 then None
        else Some (Wire_Command (AcknowledgeAlarmCmd (AcknowledgeAlarm_alarm_uid fb msg))))
     else if cmd_type = kSetBlockDirection then
       (if \<not> verified (SetBlockDirection_Verify fb) then None
        else if SetBlockDirection_block_section_uid fb msg = 0 then None
        else (case from_proto_Shl12Op (SetBlockDirection_operation fb msg) of
                None \<Rightarrow> unnamed (SetBlockDirection_block_section_uid fb msg)
              | Some op \<Rightarrow> Some (Wire_Command
                  (SetBlockDirectionCmd (SetBlockDirection_block_section_uid fb msg) op))))
     else if cmd_type = kInitAxleCounterReset then
       (if \<not> verified (InitAxleCounterReset_Verify fb) then None
        else if InitAxleCounterReset_block_section_uid fb msg = 0 then None
        else Some (Wire_Command (InitAxleCounterResetCmd (InitAxleCounterReset_block_section_uid fb msg))))
     else if cmd_type = kResetAxleCounter then
       (if \<not> verified (ResetAxleCounter_Verify fb) then None
        else if ResetAxleCounter_block_section_uid fb msg = 0 then None
        else Some (Wire_Command (ResetAxleCounterCmd (ResetAxleCounter_block_section_uid fb msg))))
     else if cmd_type = kOperatorCommand then
       (if \<not> verified (OperatorCommand_Verify fb) then None
        else if OperatorCommand_target_uid fb msg = 0 then None
        else (case (from_proto_OperatorTargetKind (OperatorCommand_target_kind fb msg),
                    from_proto_OperatorCommandCode (OperatorCommand_command_code fb msg)) of
                (Some kind, Some code) \<Rightarrow>
                  Some (Wire_Command (OperatorCommandCmd (OperatorCommand_target_uid fb msg) kind code))
              | _ \<Rightarrow> unnamed (OperatorCommand_target_uid fb msg)))
     else if cmd_type = kMl8Command then
       (if \<not> verified (Ml8Command_Verify fb) then None
        else if Ml8Command_target_uid fb msg = 0 then None
        else (case (from_proto_OperatorTargetKind (Ml8Command_target_kind fb msg),
                    from_proto_Ml8CommandCode (Ml8Command_command_code fb msg)) of
                (Some kind, Some code) \<Rightarrow>
                  Some (Wire_Command (Ml8CommandCmd (Ml8Command_target_uid fb msg) kind code))
              | _ \<Rightarrow> unnamed (Ml8Command_target_uid fb msg)))
     else None)"

definition parse_payload :: "'t FlatBuffers \<Rightarrow> u8 list \<Rightarrow> WireCommand option" where
  "parse_payload fb payload =
     (case payload of [] \<Rightarrow> None | cmd_type # fb_data \<Rightarrow> parse_command fb cmd_type fb_data)"

section \<open>The client's side\<close>

text \<open>The UIDs a command names, and the commands a client can express on the wire.\<close>

fun command_uids :: "Command \<Rightarrow> UID list" where
  "command_uids (SetSwitchPositionCmd u _) = [u]"
| "command_uids (SetSignalAspectCmd u _) = [u]"
| "command_uids (SetDerailerPositionCmd u _) = [u]"
| "command_uids (SetBlockSectionCmd u _) = [u]"
| "command_uids (RequestRouteCmd u v) = [u, v]"
| "command_uids (CancelRouteCmd u _) = [u]"
| "command_uids (AcknowledgeAlarmCmd u) = [u]"
| "command_uids (SetBlockDirectionCmd u _) = [u]"
| "command_uids (InitAxleCounterResetCmd u) = [u]"
| "command_uids (ResetAxleCounterCmd u) = [u]"
| "command_uids (OperatorCommandCmd u _ _) = [u]"
| "command_uids (Ml8CommandCmd u _ _) = [u]"

definition expressible :: "Command \<Rightarrow> bool" where
  "expressible c \<longleftrightarrow> 0 \<notin> set (command_uids c) \<and>
     (case c of SetSwitchPositionCmd _ p \<Rightarrow> p = STRAIGHT \<or> p = DIVERGENT
      | CancelRouteCmd _ force \<Rightarrow> \<not> force | _ \<Rightarrow> True)"

text \<open>The command type byte and the table a client builds with the generated functions.\<close>

fun wire_of_command :: "'t FlatBuffers \<Rightarrow> Command \<Rightarrow> u8 \<times> 't" where
  "wire_of_command fb (SetSwitchPositionCmd u p) =
     (kSetSwitchPosition, CreateSetSwitchPosition fb u (enum_code SwitchPosition_values p))"
| "wire_of_command fb (SetSignalAspectCmd u a) =
     (kSetSignalAspect, CreateSetSignalAspect fb u (enum_code SignalAspect_values a))"
| "wire_of_command fb (SetDerailerPositionCmd u d) =
     (kSetDerailerPosition, CreateSetDerailerPosition fb u (enum_code DerailerState_values d))"
| "wire_of_command fb (SetBlockSectionCmd u b) =
     (kSetBlockSection, CreateSetBlockSection fb u
        (if b = BS_OPEN then BlockSectionState_OPEN else BlockSectionState_CLOSED))"
| "wire_of_command fb (RequestRouteCmd u v) = (kRequestRoute, CreateRequestRoute fb u v)"
| "wire_of_command fb (CancelRouteCmd u _) = (kCancelRoute, CreateCancelRoute fb u)"
| "wire_of_command fb (AcknowledgeAlarmCmd u) = (kAcknowledgeAlarm, CreateAcknowledgeAlarm fb u)"
| "wire_of_command fb (SetBlockDirectionCmd u op) =
     (kSetBlockDirection, CreateSetBlockDirection fb u (enum_code Shl12Op_values op))"
| "wire_of_command fb (InitAxleCounterResetCmd u) = (kInitAxleCounterReset, CreateInitAxleCounterReset fb u)"
| "wire_of_command fb (ResetAxleCounterCmd u) = (kResetAxleCounter, CreateResetAxleCounter fb u)"
| "wire_of_command fb (OperatorCommandCmd u k code) =
     (kOperatorCommand, CreateOperatorCommand fb u (enum_code OperatorTargetKind_values k)
        (enum_code OperatorCommandCode_values code))"
| "wire_of_command fb (Ml8CommandCmd u k code) =
     (kMl8Command, CreateMl8Command fb u (enum_code OperatorTargetKind_values k)
        (enum_code Ml8CommandCode_values code))"

text \<open>
  The body holds a given table: its root is the table, and the verifier finds every scalar field of
  the table in order, so that a buffer is accepted exactly when the table's own checks hold.
\<close>

definition body_holds :: "'t FlatBuffers \<Rightarrow> u8 list \<Rightarrow> 't \<Rightarrow> bool" where
  "body_holds fb body t \<longleftrightarrow>
     fb_GetRoot fb body = t \<and> (\<forall>p. fb_VerifyBuffer fb p body = p t) \<and>
     fb_VerifyTableStart fb t \<and> fb_EndTable fb t \<and> (\<forall>off n. fb_VerifyField fb t off n)"

section \<open>Lemmas on the conversions\<close>


lemmas command_table_defs = SetSwitchPosition_defs SetSignalAspect_defs SetDerailerPosition_defs
  SetBlockSection_defs RequestRoute_defs CancelRoute_defs AcknowledgeAlarm_defs SetBlockDirection_defs
  InitAxleCounterReset_defs ResetAxleCounter_defs OperatorCommand_defs Ml8Command_defs

lemma enumerators_complete:
  "p \<in> set SwitchPosition_values" "a \<in> set SignalAspect_values" "d \<in> set DerailerState_values"
  "op \<in> set Shl12Op_values" "k \<in> set OperatorTargetKind_values" "oc \<in> set OperatorCommandCode_values"
  "mc \<in> set Ml8CommandCode_values"
  subgoal by (cases p) (simp_all add: SwitchPosition_values_def)
  subgoal by (cases a) (simp_all add: SignalAspect_values_def)
  subgoal by (cases d) (simp_all add: DerailerState_values_def)
  subgoal by (cases op) (simp_all add: Shl12Op_values_def)
  subgoal by (cases k) (simp_all add: OperatorTargetKind_values_def)
  subgoal by (cases oc) (simp_all add: OperatorCommandCode_values_def)
  subgoal by (cases mc) (simp_all add: Ml8CommandCode_values_def)
  done

lemma from_proto_enum_code [simp]:
  "from_proto_Aspect (enum_code SignalAspect_values a) = Some a"
  "from_proto_Shl12Op (enum_code Shl12Op_values op) = Some op"
  "from_proto_OperatorTargetKind (enum_code OperatorTargetKind_values k) = Some k"
  "from_proto_OperatorCommandCode (enum_code OperatorCommandCode_values oc) = Some oc"
  "from_proto_Ml8CommandCode (enum_code Ml8CommandCode_values mc) = Some mc"
  unfolding from_proto_Aspect_def from_proto_Shl12Op_def from_proto_OperatorTargetKind_def
    from_proto_OperatorCommandCode_def from_proto_Ml8CommandCode_def
  by (rule enum_of_enum_code, rule enumerators_complete,
    simp add: SignalAspect_values_def Shl12Op_values_def OperatorTargetKind_values_def
      OperatorCommandCode_values_def Ml8CommandCode_values_def)+

lemma from_proto_DerailerPosition_code [simp]:
  "from_proto_DerailerPosition (enum_code DerailerState_values d) = d"
  by (cases d) (simp_all add: from_proto_DerailerPosition_def enum_code_def DerailerState_values_def
      DerailerPosition_UNLOCKED_def)

lemma from_proto_SwitchPosition_code:
  "p = STRAIGHT \<or> p = DIVERGENT \<Longrightarrow> from_proto_SwitchPosition (enum_code SwitchPosition_values p) = p"
  by (cases p) (simp_all add: from_proto_SwitchPosition_def enum_code_def SwitchPosition_values_def
      SwitchPosition_STRAIGHT_def SwitchPosition_DIVERGENT_def)

lemma from_proto_BlockSectionState_code [simp]:
  "from_proto_BlockSectionState (if b = BS_OPEN then BlockSectionState_OPEN else BlockSectionState_CLOSED) = b"
  by (cases b) (simp_all add: from_proto_BlockSectionState_def BlockSectionState_OPEN_def BlockSectionState_CLOSED_def)

lemma parse_command_expressible:
  "parse_command fb ty body = Some (Wire_Command c) \<Longrightarrow> expressible c"
  by (auto simp: parse_command_def Let_def expressible_def from_proto_SwitchPosition_def
      split: if_splits option.splits)

section \<open>Properties\<close>

text \<open>
  C18.  The parser inverts the client's encoding: a command with nonzero UIDs, a switch position of
  rest and no forced cancellation, built with the generated functions and sent with its type byte,
  is parsed to exactly that command.
\<close>

theorem parse_wire_of_command:
  assumes "expressible c" and "fb_reads_back fb"
    and "body_holds fb body (snd (wire_of_command fb c))"
  shows "parse_payload fb (fst (wire_of_command fb c) # body) = Some (Wire_Command c)"
  using assms
  by (cases c) (simp_all add: parse_payload_def parse_command_def cmd_type_defs body_holds_def
      command_table_defs fb_reads_backD [OF assms(2)] expressible_def Let_def from_proto_SwitchPosition_code)

theorem parse_wire_of_command_witness:
  "parse_payload (tree_runtime (\<lambda>_. snd (wire_of_command (tree_runtime (\<lambda>_. TreeString [])) (OperatorCommandCmd 7 TK_SWITCH OC_ZWP))))
     [kOperatorCommand, 1, 2] = Some (Wire_Command (OperatorCommandCmd 7 TK_SWITCH OC_ZWP))"
proof -
  let ?c = "OperatorCommandCmd 7 TK_SWITCH OC_ZWP"
  let ?fb = "tree_runtime (\<lambda>_. snd (wire_of_command (tree_runtime (\<lambda>_. TreeString [])) ?c))"
  have "expressible ?c" by (simp add: expressible_def)
  moreover have "body_holds ?fb [1, 2] (snd (wire_of_command ?fb ?c))"
    by (simp add: body_holds_def tree_runtime_def OperatorCommand_defs)
  ultimately show ?thesis
    using parse_wire_of_command [of ?c ?fb "[1, 2]", OF _ tree_runtime_reads_back] by simp
qed

text \<open>
  An enumeration byte beyond the list passes the verifier: the four commands that carry one over by a cast
  then leave the parser with an unnamed value, and still with a nonzero UID.
\<close>

lemma parsed_unnamed:
  "parse_command fb ty body = Some (Wire_Unnamed ty' u) \<Longrightarrow>
    ty' = ty \<and> u \<noteq> 0 \<and> ty \<in> {kSetSignalAspect, kSetBlockDirection, kOperatorCommand, kMl8Command}"
  by (auto simp: parse_command_def Let_def split: if_splits option.splits)

text \<open>
  The wire numbers of the operator commands of both interlocking systems are the engine's: the
  generated name tables list the engine's enumerators in order.
\<close>

theorem command_codes_agree:
  "map operator_command_code_name OperatorCommandCode_values = EnumNamesOperatorCommandCode \<and>
   map ml8_command_code_name Ml8CommandCode_values = EnumNamesMl8CommandCode \<and>
   map EnumNameOperatorCommandCode EnumValuesOperatorCommandCode = EnumNamesOperatorCommandCode \<and>
   map EnumNameMl8CommandCode EnumValuesMl8CommandCode = EnumNamesMl8CommandCode"
proof (intro conjI)
  show "map operator_command_code_name OperatorCommandCode_values = EnumNamesOperatorCommandCode"
    by (simp add: OperatorCommandCode_values_def EnumNamesOperatorCommandCode_def)
  show "map ml8_command_code_name Ml8CommandCode_values = EnumNamesMl8CommandCode"
    by (simp add: Ml8CommandCode_values_def EnumNamesMl8CommandCode_def)
  show "map EnumNameOperatorCommandCode EnumValuesOperatorCommandCode = EnumNamesOperatorCommandCode"
    by (simp add: EnumValuesOperatorCommandCode_def EnumNameOperatorCommandCode_def EnumNamesOperatorCommandCode_def)
  show "map EnumNameMl8CommandCode EnumValuesMl8CommandCode = EnumNamesMl8CommandCode"
    by (simp add: EnumValuesMl8CommandCode_def EnumNameMl8CommandCode_def EnumNamesMl8CommandCode_def)
qed

end
