(* ===== verification/Frame.thy ===== *)
theory Frame
  imports Prelude
begin

text \<open>
  The wire framing of \<^verbatim>\<open>server/src/frame.cpp\<close> and
  \<^verbatim>\<open>server/include/server/frame.hpp\<close>: a 16 byte header with magic, type, flags,
  sequence number, payload length and CRC, then the payload.  Byte vectors are lists of
  \<open>u8\<close>, all other quantities keep their width.  The lookup table of the CRC is shown equal
  to eight steps of the bitwise register, which is linear and injective; error detection rests on
  that.
\<close>

unbundle bit_operations_syntax

section \<open>Constants\<close>

definition kMagicByte0 :: u8 where "kMagicByte0 = 0x53"
definition kMagicByte1 :: u8 where "kMagicByte1 = 0x52"
definition kHeaderSize :: u32 where "kHeaderSize = 16"
definition kMaxPayloadLen :: u32 where "kMaxPayloadLen = 65535"
definition kFlagIsLastChunk :: u8 where "kFlagIsLastChunk = 0x01"

lemmas frame_consts = kMagicByte0_def kMagicByte1_def kHeaderSize_def kMaxPayloadLen_def

section \<open>CRC-32/ISO-HDLC\<close>

text \<open>One inner iteration of the table construction.\<close>

definition crc32_bit :: "u32 \<Rightarrow> u32" where
  "crc32_bit c = (if c AND 1 \<noteq> 0 then 0xEDB88320 XOR drop_bit 1 c else drop_bit 1 c)"

definition crc32_table :: "u32 list" where
  "crc32_table = map (\<lambda>i. (crc32_bit ^^ 8) (word_of_nat i)) [0..<256]"

definition crc32_byte :: "u8 \<Rightarrow> u32 \<Rightarrow> u32" where
  "crc32_byte b crc = (crc32_table ! unat ((crc XOR ucast b) AND 0xFF)) XOR drop_bit 8 crc"

definition crc32_update :: "u32 \<Rightarrow> u8 list \<Rightarrow> u32" where
  "crc32_update crc data = fold crc32_byte data crc"

definition crc32_iso_hdlc :: "u8 list \<Rightarrow> u32" where
  "crc32_iso_hdlc data = crc32_update 0xFFFFFFFF data XOR 0xFFFFFFFF"

section \<open>Encoding\<close>

definition le32 :: "u32 \<Rightarrow> u8 list" where
  "le32 x = [ucast (x AND 0xFF), ucast (drop_bit 8 x AND 0xFF), ucast (drop_bit 16 x AND 0xFF),
             ucast (drop_bit 24 x AND 0xFF)]"

definition frame_crc :: "u8 list \<Rightarrow> u8 list \<Rightarrow> u32" where
  "frame_crc header payload =
    (let crc = crc32_update 0xFFFFFFFF header;
         crc = (if payload \<noteq> [] then crc32_update crc payload else crc)
     in crc XOR 0xFFFFFFFF)"

definition encode_frame :: "u8 \<Rightarrow> u8 \<Rightarrow> u32 \<Rightarrow> u8 list \<Rightarrow> u8 list" where
  "encode_frame msg_type_byte flags seq_id payload =
    (let payload_len = word_of_nat (length payload) :: u32;
         header = [kMagicByte0, kMagicByte1, msg_type_byte, flags] @ le32 seq_id @ le32 payload_len;
         body = take (unat payload_len) payload
     in header @ le32 (frame_crc header body) @ body)"

section \<open>Decoding\<close>

datatype FrameDecodeStatus = kOk | kNeedMoreData | kBadMagic | kBadLength | kBadCrc

record DecodedFrame =
  df_msg_type :: u8
  df_flags :: u8
  df_seq_id :: u32
  df_payload :: "u8 list"

record FrameDecodeResult =
  fdr_status :: FrameDecodeStatus
  fdr_frame :: DecodedFrame
  fdr_bytes_consumed :: u32

definition empty_frame :: DecodedFrame where
  "empty_frame = \<lparr>df_msg_type = 0, df_flags = 0, df_seq_id = 0, df_payload = []\<rparr>"

definition decode_failure :: "FrameDecodeStatus \<Rightarrow> FrameDecodeResult" where
  "decode_failure st = \<lparr>fdr_status = st, fdr_frame = empty_frame, fdr_bytes_consumed = 0\<rparr>"

definition read_le32 :: "u8 list \<Rightarrow> nat \<Rightarrow> u32" where
  "read_le32 data i =
     ucast (data ! i) OR push_bit 8 (ucast (data ! (i + 1))) OR push_bit 16 (ucast (data ! (i + 2))) OR
     push_bit 24 (ucast (data ! (i + 3)))"

definition decode_frame :: "u8 list \<Rightarrow> FrameDecodeResult" where
  "decode_frame data =
    (if length data < unat kHeaderSize then decode_failure kNeedMoreData
     else if data ! 0 \<noteq> kMagicByte0 \<or> data ! 1 \<noteq> kMagicByte1 then decode_failure kBadMagic
     else let payload_len = read_le32 data 8 in
       if payload_len > kMaxPayloadLen then decode_failure kBadLength
       else let total = kHeaderSize + payload_len in
         if length data < unat total then decode_failure kNeedMoreData
         else let expected_crc = read_le32 data 12;
                  payload = take (unat payload_len) (drop (unat kHeaderSize) data);
                  actual_crc = frame_crc (take 12 data) payload
              in if actual_crc \<noteq> expected_crc then decode_failure kBadCrc
                 else \<lparr>fdr_status = kOk,
                       fdr_frame = \<lparr>df_msg_type = data ! 2, df_flags = data ! 3,
                                    df_seq_id = read_le32 data 4, df_payload = payload\<rparr>,
                       fdr_bytes_consumed = total\<rparr>)"

section \<open>The CRC register\<close>

lemma crc32_bit_alt: "crc32_bit c = (if bit c 0 then 0xEDB88320 XOR drop_bit 1 c else drop_bit 1 c)"
  by (simp add: crc32_bit_def and_one_eq bit_0 odd_iff_mod_2_eq_one)

lemma crc32_bit_xor: "crc32_bit (x XOR y) = crc32_bit x XOR crc32_bit y"
  by (simp add: crc32_bit_alt bit_simps drop_bit_xor ac_simps)

lemma crc32_bits_xor: "(crc32_bit ^^ n) (x XOR y) = (crc32_bit ^^ n) x XOR (crc32_bit ^^ n) y"
  by (induction n) (simp_all add: crc32_bit_xor)

lemma crc32_bit_shift:
  assumes "\<not> bit x 0"
  shows "crc32_bit x = drop_bit 1 x"
  using assms by (simp add: crc32_bit_alt)

lemma crc32_bits_shift:
  assumes "\<And>i. i < n \<Longrightarrow> \<not> bit x i"
  shows "(crc32_bit ^^ n) x = drop_bit n x"
  using assms
proof (induction n)
  case 0
  show ?case by simp
next
  case (Suc n)
  then have "(crc32_bit ^^ n) x = drop_bit n x" "\<not> bit (drop_bit n x) 0"
    by (simp_all add: bit_drop_bit_eq)
  then show ?case by (simp add: crc32_bit_shift drop_bit_drop_bit)
qed

lemma xor_cancel: "(a :: 'a :: len word) XOR x = a XOR y \<longleftrightarrow> x = y"
  by (metis xor.assoc xor.left_neutral bit.xor_self)

lemma xor_cancel_right: "(x :: 'a :: len word) XOR a = y XOR a \<longleftrightarrow> x = y"
  by (simp add: xor.commute [of _ a] xor_cancel)

lemma crc32_bit_inj: "crc32_bit x = crc32_bit y \<longleftrightarrow> x = y"
proof
  assume eq: "crc32_bit x = crc32_bit y"
  have top: "bit (crc32_bit z) 31 \<longleftrightarrow> bit z 0" for z
    by (auto simp: crc32_bit_alt bit_simps bit_0 dest: bit_imp_le_length)
  from eq have "bit x 0 \<longleftrightarrow> bit y 0" using top by metis
  with eq have shifted: "drop_bit 1 x = drop_bit 1 y"
    by (auto simp: crc32_bit_alt xor_cancel split: if_splits)
  show "x = y"
  proof (rule bit_word_eqI)
    fix n assume "n < LENGTH(32)"
    show "bit x n \<longleftrightarrow> bit y n"
    proof (cases n)
      case 0
      with \<open>bit x 0 \<longleftrightarrow> bit y 0\<close> show ?thesis by simp
    next
      case (Suc m)
      from shifted have "bit (drop_bit 1 x) m \<longleftrightarrow> bit (drop_bit 1 y) m" by simp
      with Suc show ?thesis by (simp add: bit_drop_bit_eq)
    qed
  qed
qed simp

lemma crc32_bits_inj: "(crc32_bit ^^ n) x = (crc32_bit ^^ n) y \<longleftrightarrow> x = y"
  by (induction n) (simp_all add: crc32_bit_inj)

lemma byte_mask_less: "unat ((x :: u32) AND 0xFF) < 256"
proof -
  have "x AND 0xFF = take_bit 8 x" by (simp add: take_bit_eq_mask mask_eq_exp_minus_1)
  then show ?thesis by (simp add: unsigned_take_bit_eq take_bit_nat_less_exp [of 8, simplified])
qed

lemma crc32_table_nth: "crc32_table ! unat ((x :: u32) AND 0xFF) = (crc32_bit ^^ 8) (x AND 0xFF)"
  using byte_mask_less [of x] by (simp add: crc32_table_def)

lemma crc32_byte_eq: "crc32_byte b c = (crc32_bit ^^ 8) (c XOR ucast b)"
proof -
  let ?x = "c XOR ucast b" and ?hi = "(c XOR ucast b) AND NOT (mask 8)"
  have m: "(0xFF :: u32) = mask 8" by (simp add: mask_eq_exp_minus_1)
  have "?x = (?x AND 0xFF) XOR ?hi" unfolding m by (rule bit_word_eqI) (auto simp: bit_simps)
  then have "(crc32_bit ^^ 8) ?x = (crc32_bit ^^ 8) (?x AND 0xFF) XOR (crc32_bit ^^ 8) ?hi"
    using crc32_bits_xor by metis
  also have "(crc32_bit ^^ 8) ?hi = drop_bit 8 ?hi"
    by (rule crc32_bits_shift) (auto simp: bit_simps)
  also have "drop_bit 8 ?hi = drop_bit 8 c"
    by (rule bit_word_eqI) (auto simp: bit_simps dest: bit_imp_le_length)
  finally show ?thesis by (simp add: crc32_byte_def crc32_table_nth)
qed

lemma crc32_byte_inj: "crc32_byte b x = crc32_byte b y \<longleftrightarrow> x = y"
  by (simp add: crc32_byte_eq crc32_bits_inj xor_cancel_right)

lemma ucast_u8_inj: "(ucast (a :: u8) :: u32) = ucast b \<longleftrightarrow> a = b"
proof
  assume "(ucast a :: u32) = ucast b"
  then have *: "bit (ucast a :: u32) n \<longleftrightarrow> bit (ucast b :: u32) n" for n by simp
  show "a = b"
  proof (rule bit_word_eqI)
    show "bit a n \<longleftrightarrow> bit b n" if "n < LENGTH(8)" for n using * [of n] that by (simp add: bit_simps)
  qed
qed simp

lemma crc32_byte_diff: "a \<noteq> b \<Longrightarrow> crc32_byte a x \<noteq> crc32_byte b x"
  by (simp add: crc32_byte_eq crc32_bits_inj xor_cancel ucast_u8_inj)

lemma crc32_update_inj: "crc32_update x data = crc32_update y data \<longleftrightarrow> x = y"
  by (induction data arbitrary: x y) (simp_all add: crc32_update_def crc32_byte_inj)

lemma crc32_update_append: "crc32_update c (xs @ ys) = crc32_update (crc32_update c xs) ys"
  by (simp add: crc32_update_def)

lemma crc32_update_change:
  assumes "i < length data" and "b \<noteq> data ! i"
  shows "crc32_update c (data[i := b]) \<noteq> crc32_update c data"
proof -
  have d: "data = take i data @ data ! i # drop (Suc i) data" using assms(1) by (rule id_take_nth_drop)
  have "data[i := b] = take i data @ b # drop (Suc i) data" using assms(1) by (rule upd_conv_take_nth_drop)
  moreover have "crc32_update c (take i data @ x # drop (Suc i) data) =
      crc32_update (crc32_byte x (crc32_update c (take i data))) (drop (Suc i) data)" for x
    by (simp add: crc32_update_def)
  ultimately show ?thesis
    using d crc32_update_inj crc32_byte_diff [OF assms(2)] by metis
qed

lemma frame_crc_eq: "frame_crc header payload = crc32_iso_hdlc (header @ payload)"
  by (simp add: frame_crc_def crc32_iso_hdlc_def crc32_update_append Let_def) (simp add: crc32_update_def)

section \<open>Little-endian fields\<close>

lemma le32_length [simp]: "length (le32 x) = 4"
  by (simp add: le32_def)

lemma read_le32_le32: "read_le32 (xs @ le32 x @ ys) (length xs) = x"
proof -
  have "read_le32 (xs @ le32 x @ ys) (length xs) =
      ucast (ucast (x AND 0xFF) :: u8) OR push_bit 8 (ucast (ucast (drop_bit 8 x AND 0xFF) :: u8)) OR
      push_bit 16 (ucast (ucast (drop_bit 16 x AND 0xFF) :: u8)) OR
      push_bit 24 (ucast (ucast (drop_bit 24 x AND 0xFF) :: u8))"
    by (simp add: read_le32_def le32_def nth_append)
  also have "(0xFF :: u32) = mask 8" by (simp add: mask_eq_exp_minus_1)
  also have "ucast (ucast (x AND mask 8) :: u8) OR push_bit 8 (ucast (ucast (drop_bit 8 x AND mask 8) :: u8)) OR
      push_bit 16 (ucast (ucast (drop_bit 16 x AND mask 8) :: u8)) OR
      push_bit 24 (ucast (ucast (drop_bit 24 x AND mask 8) :: u8)) = x"
  proof (rule bit_word_eqI)
    fix n assume "n < LENGTH(32)"
    then consider "n < 8" | "8 \<le> n" "n < 16" | "16 \<le> n" "n < 24" | "24 \<le> n" "n < 32" by fastforce
    then show "bit (ucast (ucast (x AND mask 8) :: u8) OR push_bit 8 (ucast (ucast (drop_bit 8 x AND mask 8) :: u8)) OR
      push_bit 16 (ucast (ucast (drop_bit 16 x AND mask 8) :: u8)) OR
      push_bit 24 (ucast (ucast (drop_bit 24 x AND mask 8) :: u8)) :: u32) n \<longleftrightarrow> bit x n"
      by cases (auto simp: bit_simps)
  qed
  finally show ?thesis .
qed

lemma le32_surj:
  assumes "length bs = 4"
  shows "\<exists>x. bs = le32 x"
proof -
  from assms obtain a b c d where bs: "bs = [a, b, c, d]"
    by (auto simp: length_Suc_conv numeral_eq_Suc)
  let ?x = "ucast a OR push_bit 8 (ucast b) OR push_bit 16 (ucast c) OR push_bit 24 (ucast d) :: u32"
  have m: "(0xFF :: u32) = mask 8" by (simp add: mask_eq_exp_minus_1)
  have "ucast (?x AND 0xFF) = a" "ucast (drop_bit 8 ?x AND 0xFF) = b" "ucast (drop_bit 16 ?x AND 0xFF) = c"
    "ucast (drop_bit 24 ?x AND 0xFF) = d"
    unfolding m by (rule bit_word_eqI; auto simp: bit_simps dest: bit_imp_le_length)+
  then have "bs = le32 ?x" by (simp add: bs le32_def)
  then show ?thesis by blast
qed

lemma word_of_nat_small: "n \<le> 65535 \<Longrightarrow> unat (word_of_nat n :: u32) = n"
  by (simp add: unat_of_nat)

definition frame_header :: "u8 \<Rightarrow> u8 \<Rightarrow> u32 \<Rightarrow> nat \<Rightarrow> u8 list" where
  "frame_header t f q n = [kMagicByte0, kMagicByte1, t, f] @ le32 q @ le32 (word_of_nat n)"

lemma frame_header_length [simp]: "length (frame_header t f q n) = 12"
  by (simp add: frame_header_def)

lemma encode_frame_eq:
  assumes "length p < 2 ^ 32"
  shows "encode_frame t f q p =
    frame_header t f q (length p) @ le32 (frame_crc (frame_header t f q (length p)) p) @ p"
  using assms by (simp add: encode_frame_def frame_header_def Let_def unat_of_nat)

lemma encode_frame_length: "length p < 2 ^ 32 \<Longrightarrow> length (encode_frame t f q p) = 16 + length p"
  by (simp add: encode_frame_eq)

lemma frame_fields:
  assumes "data = frame_header t f q n @ rest"
  shows "data ! 0 = kMagicByte0" "data ! 1 = kMagicByte1" "data ! 2 = t" "data ! 3 = f"
    "read_le32 data 4 = q" "read_le32 data 8 = word_of_nat n" "take 12 data = frame_header t f q n"
proof -
  show "data ! 0 = kMagicByte0" "data ! 1 = kMagicByte1" "data ! 2 = t" "data ! 3 = f"
    using assms by (simp_all add: frame_header_def nth_Cons')
  show "read_le32 data 4 = q"
    using read_le32_le32 [of "[kMagicByte0, kMagicByte1, t, f]" q] assms
    by (simp add: frame_header_def numeral_eq_Suc)
  show "read_le32 data 8 = word_of_nat n"
    using read_le32_le32 [of "[kMagicByte0, kMagicByte1, t, f] @ le32 q" "word_of_nat n"] assms
    by (simp add: frame_header_def)
  show "take 12 data = frame_header t f q n" using assms by simp
qed

lemma read_le32_prefix: "i + 3 < length xs \<Longrightarrow> read_le32 (xs @ ys) i = read_le32 xs i"
  by (simp add: read_le32_def nth_append)

text \<open>Decoding a buffer with a given header, CRC field and remainder.\<close>

lemma decode_parts:
  assumes "length h = 12" and "h ! 0 = kMagicByte0" and "h ! 1 = kMagicByte1"
    and "read_le32 h 8 = word_of_nat n" and "n \<le> 65535"
  shows "decode_frame (h @ le32 c @ rest) =
    (if length rest < n then decode_failure kNeedMoreData
     else if frame_crc h (take n rest) \<noteq> c then decode_failure kBadCrc
     else \<lparr>fdr_status = kOk,
           fdr_frame = \<lparr>df_msg_type = h ! 2, df_flags = h ! 3, df_seq_id = read_le32 h 4, df_payload = take n rest\<rparr>,
           fdr_bytes_consumed = 16 + word_of_nat n\<rparr>)"
proof -
  let ?data = "h @ le32 c @ rest"
  have crc: "read_le32 ?data 12 = c" using read_le32_le32 [of h c rest] assms(1) by simp
  have len: "unat (16 + word_of_nat n :: u32) = 16 + n" "\<not> word_of_nat n > (65535 :: u32)"
    using assms(5) by (simp_all add: word_less_nat_alt unat_word_ariths unat_of_nat)
  show ?thesis using assms crc len
    by (simp add: decode_frame_def Let_def frame_consts word_of_nat_small read_le32_prefix nth_append)
qed

lemma frame_header_fields:
  "frame_header t f q n ! 0 = kMagicByte0" "frame_header t f q n ! 1 = kMagicByte1"
  "frame_header t f q n ! 2 = t" "frame_header t f q n ! 3 = f" "read_le32 (frame_header t f q n) 4 = q"
  "read_le32 (frame_header t f q n) 8 = word_of_nat n"
  using frame_fields [of "frame_header t f q n" t f q n "[]"] by simp_all

lemmas decode_framed = decode_parts [OF frame_header_length frame_header_fields(1,2,6), unfolded frame_header_fields]

lemma frame_crc_change:
  assumes "i < length (h @ p)" and "b \<noteq> (h @ p) ! i" and "h' @ p' = (h @ p)[i := b]"
  shows "frame_crc h' p' \<noteq> frame_crc h p"
  using crc32_update_change [OF assms(1,2)] assms(3)
  by (simp add: frame_crc_eq crc32_iso_hdlc_def xor_cancel_right)

lemma read_le32_update: "i < j \<or> j + 3 < i \<Longrightarrow> read_le32 (xs[i := b]) j = read_le32 xs j"
  by (auto simp: read_le32_def)

text \<open>
  The encoder accepts payloads the decoder refuses: a payload of more than 65535 bytes (and fewer
  than 2 to the 32) is framed without complaint and decodes to a length error.
\<close>

lemma oversized_frame_rejected:
  assumes "65535 < length p" and "length p < 2 ^ 32"
  shows "decode_frame (encode_frame t f q p @ rest) = decode_failure kBadLength"
proof -
  have "encode_frame t f q p @ rest = frame_header t f q (length p) @
      le32 (frame_crc (frame_header t f q (length p)) p) @ p @ rest"
    using assms(2) by (simp add: encode_frame_eq)
  moreover have "(65535 :: u32) < word_of_nat (length p)"
    using assms by (simp add: word_less_nat_alt unat_of_nat)
  ultimately show ?thesis
    using frame_fields(1,2,6) [of "encode_frame t f q p @ rest"] by (simp add: decode_frame_def frame_consts Let_def)
qed

section \<open>Properties\<close>

text \<open>
  C24.  Decoding inverts encoding: a frame followed by any further bytes is decoded to its type,
  flags, sequence number and payload, and exactly its own bytes are consumed.
\<close>

theorem decode_encode:
  assumes "length p \<le> 65535"
  shows "decode_frame (encode_frame t f q p @ rest) =
    \<lparr>fdr_status = kOk, fdr_frame = \<lparr>df_msg_type = t, df_flags = f, df_seq_id = q, df_payload = p\<rparr>,
     fdr_bytes_consumed = word_of_nat (length (encode_frame t f q p))\<rparr>"
  using assms decode_framed [OF assms, of t f q _ "p @ rest"] by (simp add: encode_frame_eq)

theorem decode_encode_witness:
  "fdr_frame (decode_frame (encode_frame 0x10 0 7 [1, 2, 3] @ [9])) =
     \<lparr>df_msg_type = 0x10, df_flags = 0, df_seq_id = 7, df_payload = [1, 2, 3]\<rparr>"
  using decode_encode [of "[1, 2, 3]" "0x10" 0 7 "[9]"] by simp

text \<open>
  A frame that has only partly arrived is never misread: every proper prefix of an encoded
  frame decodes to the request for more data, with nothing consumed.
\<close>

theorem decode_prefix:
  assumes "length p \<le> 65535" and "k < length (encode_frame t f q p)"
  shows "decode_frame (take k (encode_frame t f q p)) = decode_failure kNeedMoreData"
proof (cases "k < 16")
  case True
  then show ?thesis by (simp add: decode_frame_def frame_consts)
next
  case False
  then have "take k (encode_frame t f q p) = frame_header t f q (length p) @
      le32 (frame_crc (frame_header t f q (length p)) p) @ take (k - 16) p"
    using assms(1) by (simp add: encode_frame_eq)
  with decode_framed [OF assms(1), of t f q _ "take (k - 16) p"] assms False show ?thesis
    by (simp add: encode_frame_length)
qed

theorem decode_prefix_witness:
  "decode_frame (take 17 (encode_frame 0x10 0 7 [1, 2, 3])) = decode_failure kNeedMoreData"
  by (rule decode_prefix) (simp_all add: encode_frame_length)

text \<open>
  C37.  The checksum detects every single corrupted byte outside the length field: whatever the
  other value of the byte, the decoder reports a bad magic or a bad CRC and consumes nothing.
\<close>

theorem single_byte_error_detected:
  assumes "length p \<le> 65535" and "i < length (encode_frame t f q p)" and "i \<notin> {8, 9, 10, 11}"
    and "b \<noteq> encode_frame t f q p ! i"
  shows "decode_frame ((encode_frame t f q p)[i := b]) \<in> {decode_failure kBadMagic, decode_failure kBadCrc}"
proof -
  let ?h = "frame_header t f q (length p)" and ?E = "encode_frame t f q p"
  let ?c = "frame_crc ?h p"
  have E: "?E = ?h @ le32 ?c @ p" using assms(1) by (simp add: encode_frame_eq)
  have len: "length ?E = 16 + length p" using assms(1) by (simp add: encode_frame_length)
  consider "i < 2" | "2 \<le> i" "i < 8" | "12 \<le> i" "i < 16" | "16 \<le> i" using assms(3) by fastforce
  then show ?thesis
  proof cases
    case 1
    then have "i = 0 \<or> i = 1" by auto
    moreover have "?E ! 0 = kMagicByte0" "?E ! 1 = kMagicByte1"
      using E frame_header_fields(1,2) [of t f q "length p"] by (simp_all add: nth_append)
    ultimately have "?E[i := b] ! 0 \<noteq> kMagicByte0 \<or> ?E[i := b] ! 1 \<noteq> kMagicByte1"
      using assms(4) len by auto
    with len show ?thesis by (simp add: decode_frame_def frame_consts)
  next
    case 2
    then have "?E[i := b] = ?h[i := b] @ le32 ?c @ p" using E by (simp add: list_update_append)
    moreover have "frame_crc (?h[i := b]) p \<noteq> ?c"
      using 2 assms(4) E by (intro frame_crc_change [of i]) (auto simp: nth_append list_update_append)
    ultimately show ?thesis
      using 2 assms(1) frame_header_fields
      by (simp add: decode_parts [where n = "length p"] read_le32_update)
  next
    case 3
    obtain c' where c': "(le32 ?c)[i - 12 := b] = le32 c'" using le32_surj [of "(le32 ?c)[i - 12 := b]"] by auto
    have "i - 12 < 4" using 3 by simp
    with c' have "?E[i := b] = ?h @ le32 c' @ p" using E 3 by (simp add: list_update_append)
    moreover have "(le32 ?c)[i - 12 := b] ! (i - 12) \<noteq> le32 ?c ! (i - 12)"
      using 3 assms(4) E \<open>i - 12 < 4\<close> by (simp add: nth_append)
    with c' have "c' \<noteq> ?c" by auto
    ultimately show ?thesis using decode_framed [OF assms(1), of t f q c' p] by simp
  next
    case 4
    then have "\<not> i - 12 < 4" by simp
    with 4 have "?E[i := b] = ?h @ le32 ?c @ p[i - 16 := b]" using E by (simp add: list_update_append)
    moreover have "frame_crc ?h (p[i - 16 := b]) \<noteq> ?c"
      using 4 assms(2,4) E len \<open>\<not> i - 12 < 4\<close> by (intro frame_crc_change [of "i - 4"]) (auto simp: nth_append list_update_append)
    ultimately show ?thesis using decode_framed [OF assms(1), of t f q ?c "p[i - 16 := b]"] by simp
  qed
qed

theorem single_byte_error_detected_witness:
  "decode_frame ((encode_frame 0x10 0 7 [1, 2, 3])[17 := 5]) \<in>
     {decode_failure kBadMagic, decode_failure kBadCrc}"
  by (rule single_byte_error_detected) (simp_all add: encode_frame_length, simp add: encode_frame_eq nth_append)

text \<open>
  C38.  The table-driven CRC computes the CRC-32/ISO-HDLC register bit by bit: each byte is added
  to the register, which is then shifted eight times with the reflected polynomial.
\<close>

theorem crc32_table_correct:
  "crc32_iso_hdlc data =
     fold (\<lambda>b c. (crc32_bit ^^ 8) (c XOR ucast b)) data 0xFFFFFFFF XOR 0xFFFFFFFF"
proof -
  have "crc32_byte = (\<lambda>b c. (crc32_bit ^^ 8) (c XOR ucast b))" by (intro ext) (rule crc32_byte_eq)
  then show ?thesis by (simp add: crc32_iso_hdlc_def crc32_update_def)
qed

end
