(* ===== verification/Proto_Session.thy ===== *)
theory Proto_Session
  imports Proto_Common
begin

text \<open>
  The session tables of the wire protocol, \<^verbatim>\<open>autogens/proto/session_generated.h\<close>:
  per table its accessors, its verifier, the setters of its builder and its create function, over
  the FlatBuffers runtime of theory \<open>Proto_Library\<close>.
\<close>

section \<open>enum \<^verbatim>\<open>SessionNoticeType\<close>\<close>

definition EnumValuesSessionNoticeType :: "i8 list" where
  "EnumValuesSessionNoticeType = [0, 1, 2, 3, 4]"

definition EnumNamesSessionNoticeType :: "string list" where
  "EnumNamesSessionNoticeType = [''INFO'', ''WARNING'', ''ERROR'', ''STATE_CHANGE'', ''OWNERSHIP_REVOKED'']"

definition EnumNameSessionNoticeType :: "i8 \<Rightarrow> string" where
  "EnumNameSessionNoticeType e = (if sint e < 0 \<or> 4 < sint e then [] else EnumNamesSessionNoticeType ! unat e)"

section \<open>table \<^verbatim>\<open>DispatchAreaInfo\<close>\<close>

definition DispatchAreaInfo_dispatch_area_id :: "'t FlatBuffers \<Rightarrow> 't \<Rightarrow> 't option" where
  "DispatchAreaInfo_dispatch_area_id fb t = fb_GetPointer fb t 4"

definition DispatchAreaInfo_station_sid :: "'t FlatBuffers \<Rightarrow> 't \<Rightarrow> 't option" where
  "DispatchAreaInfo_station_sid fb t = fb_GetPointer fb t 6"

definition DispatchAreaInfo_display_name :: "'t FlatBuffers \<Rightarrow> 't \<Rightarrow> 't option" where
  "DispatchAreaInfo_display_name fb t = fb_GetPointer fb t 8"

definition DispatchAreaInfo_Verify :: "'t FlatBuffers \<Rightarrow> 't \<Rightarrow> bool" where
  "DispatchAreaInfo_Verify fb t \<longleftrightarrow>
     fb_VerifyTableStart fb t \<and>
     fb_VerifyOffsetRequired fb t 4 \<and>
     fb_VerifyString fb (DispatchAreaInfo_dispatch_area_id fb t) \<and>
     fb_VerifyOffsetRequired fb t 6 \<and>
     fb_VerifyString fb (DispatchAreaInfo_station_sid fb t) \<and>
     fb_VerifyOffset fb t 8 \<and>
     fb_VerifyString fb (DispatchAreaInfo_display_name fb t) \<and>
     fb_EndTable fb t"

definition DispatchAreaInfo_add_dispatch_area_id :: "'t option \<Rightarrow> 't FbElem" where
  "DispatchAreaInfo_add_dispatch_area_id dispatch_area_id = AddOffset 4 dispatch_area_id"

definition DispatchAreaInfo_add_station_sid :: "'t option \<Rightarrow> 't FbElem" where
  "DispatchAreaInfo_add_station_sid station_sid = AddOffset 6 station_sid"

definition DispatchAreaInfo_add_display_name :: "'t option \<Rightarrow> 't FbElem" where
  "DispatchAreaInfo_add_display_name display_name = AddOffset 8 display_name"

definition CreateDispatchAreaInfo :: "'t FlatBuffers \<Rightarrow> 't option \<Rightarrow> 't option \<Rightarrow> 't option \<Rightarrow> 't" where
  "CreateDispatchAreaInfo fb dispatch_area_id station_sid display_name =
     fb_Table fb [DispatchAreaInfo_add_display_name display_name,
        DispatchAreaInfo_add_station_sid station_sid,
        DispatchAreaInfo_add_dispatch_area_id dispatch_area_id]"

lemmas DispatchAreaInfo_defs = DispatchAreaInfo_dispatch_area_id_def
 DispatchAreaInfo_station_sid_def DispatchAreaInfo_display_name_def
 DispatchAreaInfo_Verify_def DispatchAreaInfo_add_dispatch_area_id_def
 DispatchAreaInfo_add_station_sid_def DispatchAreaInfo_add_display_name_def
 CreateDispatchAreaInfo_def

section \<open>table \<^verbatim>\<open>Handshake\<close>\<close>

definition Handshake_proto_version :: "'t FlatBuffers \<Rightarrow> 't \<Rightarrow> u32" where
  "Handshake_proto_version fb t = fb_GetField_u32 fb t 4 0"

definition Handshake_player_id :: "'t FlatBuffers \<Rightarrow> 't \<Rightarrow> 't option" where
  "Handshake_player_id fb t = fb_GetPointer fb t 6"

definition Handshake_auth_token :: "'t FlatBuffers \<Rightarrow> 't \<Rightarrow> 't option" where
  "Handshake_auth_token fb t = fb_GetPointer fb t 8"

definition Handshake_client_version :: "'t FlatBuffers \<Rightarrow> 't \<Rightarrow> 't option" where
  "Handshake_client_version fb t = fb_GetPointer fb t 10"

definition Handshake_Verify :: "'t FlatBuffers \<Rightarrow> 't \<Rightarrow> bool" where
  "Handshake_Verify fb t \<longleftrightarrow>
     fb_VerifyTableStart fb t \<and>
     fb_VerifyField fb t 4 4 \<and>
     fb_VerifyOffsetRequired fb t 6 \<and>
     fb_VerifyString fb (Handshake_player_id fb t) \<and>
     fb_VerifyOffsetRequired fb t 8 \<and>
     fb_VerifyString fb (Handshake_auth_token fb t) \<and>
     fb_VerifyOffset fb t 10 \<and>
     fb_VerifyString fb (Handshake_client_version fb t) \<and>
     fb_EndTable fb t"

definition Handshake_add_proto_version :: "u32 \<Rightarrow> 't FbElem" where
  "Handshake_add_proto_version proto_version = AddElement_u32 4 proto_version 0"

definition Handshake_add_player_id :: "'t option \<Rightarrow> 't FbElem" where
  "Handshake_add_player_id player_id = AddOffset 6 player_id"

definition Handshake_add_auth_token :: "'t option \<Rightarrow> 't FbElem" where
  "Handshake_add_auth_token auth_token = AddOffset 8 auth_token"

definition Handshake_add_client_version :: "'t option \<Rightarrow> 't FbElem" where
  "Handshake_add_client_version client_version = AddOffset 10 client_version"

definition CreateHandshake :: "'t FlatBuffers \<Rightarrow> u32 \<Rightarrow> 't option \<Rightarrow> 't option \<Rightarrow> 't option \<Rightarrow> 't" where
  "CreateHandshake fb proto_version player_id auth_token client_version =
     fb_Table fb [Handshake_add_client_version client_version, Handshake_add_auth_token auth_token,
        Handshake_add_player_id player_id, Handshake_add_proto_version proto_version]"

lemmas Handshake_defs = Handshake_proto_version_def Handshake_player_id_def
 Handshake_auth_token_def Handshake_client_version_def Handshake_Verify_def
 Handshake_add_proto_version_def Handshake_add_player_id_def Handshake_add_auth_token_def
 Handshake_add_client_version_def CreateHandshake_def

section \<open>table \<^verbatim>\<open>HandshakeAck\<close>\<close>

definition HandshakeAck_session_id :: "'t FlatBuffers \<Rightarrow> 't \<Rightarrow> 't option" where
  "HandshakeAck_session_id fb t = fb_GetPointer fb t 4"

definition HandshakeAck_server_tick_hz :: "'t FlatBuffers \<Rightarrow> 't \<Rightarrow> u32" where
  "HandshakeAck_server_tick_hz fb t = fb_GetField_u32 fb t 6 20"

definition HandshakeAck_assigned_dispatch_areas :: "'t FlatBuffers \<Rightarrow> 't \<Rightarrow> 't option" where
  "HandshakeAck_assigned_dispatch_areas fb t = fb_GetPointer fb t 8"

definition HandshakeAck_server_time_us :: "'t FlatBuffers \<Rightarrow> 't \<Rightarrow> u64" where
  "HandshakeAck_server_time_us fb t = fb_GetField_u64 fb t 10 0"

definition HandshakeAck_Verify :: "'t FlatBuffers \<Rightarrow> 't \<Rightarrow> bool" where
  "HandshakeAck_Verify fb t \<longleftrightarrow>
     fb_VerifyTableStart fb t \<and>
     fb_VerifyOffsetRequired fb t 4 \<and>
     fb_VerifyString fb (HandshakeAck_session_id fb t) \<and>
     fb_VerifyField fb t 6 4 \<and>
     fb_VerifyOffset fb t 8 \<and>
     fb_VerifyVector fb (HandshakeAck_assigned_dispatch_areas fb t) \<and>
     fb_VerifyVectorOfTables fb (DispatchAreaInfo_Verify fb) (HandshakeAck_assigned_dispatch_areas fb t) \<and>
     fb_VerifyField fb t 10 8 \<and>
     fb_EndTable fb t"

definition HandshakeAck_add_session_id :: "'t option \<Rightarrow> 't FbElem" where
  "HandshakeAck_add_session_id session_id = AddOffset 4 session_id"

definition HandshakeAck_add_server_tick_hz :: "u32 \<Rightarrow> 't FbElem" where
  "HandshakeAck_add_server_tick_hz server_tick_hz = AddElement_u32 6 server_tick_hz 20"

definition HandshakeAck_add_assigned_dispatch_areas :: "'t option \<Rightarrow> 't FbElem" where
  "HandshakeAck_add_assigned_dispatch_areas assigned_dispatch_areas = AddOffset 8 assigned_dispatch_areas"

definition HandshakeAck_add_server_time_us :: "u64 \<Rightarrow> 't FbElem" where
  "HandshakeAck_add_server_time_us server_time_us = AddElement_u64 10 server_time_us 0"

definition CreateHandshakeAck :: "'t FlatBuffers \<Rightarrow> 't option \<Rightarrow> u32 \<Rightarrow> 't option \<Rightarrow> u64 \<Rightarrow> 't" where
  "CreateHandshakeAck fb session_id server_tick_hz assigned_dispatch_areas server_time_us =
     fb_Table fb [HandshakeAck_add_server_time_us server_time_us,
        HandshakeAck_add_assigned_dispatch_areas assigned_dispatch_areas,
        HandshakeAck_add_server_tick_hz server_tick_hz,
        HandshakeAck_add_session_id session_id]"

lemmas HandshakeAck_defs = HandshakeAck_session_id_def HandshakeAck_server_tick_hz_def
 HandshakeAck_assigned_dispatch_areas_def HandshakeAck_server_time_us_def
 HandshakeAck_Verify_def HandshakeAck_add_session_id_def
 HandshakeAck_add_server_tick_hz_def HandshakeAck_add_assigned_dispatch_areas_def
 HandshakeAck_add_server_time_us_def CreateHandshakeAck_def

section \<open>table \<^verbatim>\<open>Heartbeat\<close>\<close>

definition Heartbeat_sender_time_us :: "'t FlatBuffers \<Rightarrow> 't \<Rightarrow> u64" where
  "Heartbeat_sender_time_us fb t = fb_GetField_u64 fb t 4 0"

definition Heartbeat_Verify :: "'t FlatBuffers \<Rightarrow> 't \<Rightarrow> bool" where
  "Heartbeat_Verify fb t \<longleftrightarrow>
     fb_VerifyTableStart fb t \<and>
     fb_VerifyField fb t 4 8 \<and>
     fb_EndTable fb t"

definition Heartbeat_add_sender_time_us :: "u64 \<Rightarrow> 't FbElem" where
  "Heartbeat_add_sender_time_us sender_time_us = AddElement_u64 4 sender_time_us 0"

definition CreateHeartbeat :: "'t FlatBuffers \<Rightarrow> u64 \<Rightarrow> 't" where
  "CreateHeartbeat fb sender_time_us =
     fb_Table fb [Heartbeat_add_sender_time_us sender_time_us]"

lemmas Heartbeat_defs = Heartbeat_sender_time_us_def Heartbeat_Verify_def
 Heartbeat_add_sender_time_us_def CreateHeartbeat_def

section \<open>table \<^verbatim>\<open>HeartbeatAck\<close>\<close>

definition HeartbeatAck_req_seq_id :: "'t FlatBuffers \<Rightarrow> 't \<Rightarrow> u32" where
  "HeartbeatAck_req_seq_id fb t = fb_GetField_u32 fb t 4 0"

definition HeartbeatAck_responder_time_us :: "'t FlatBuffers \<Rightarrow> 't \<Rightarrow> u64" where
  "HeartbeatAck_responder_time_us fb t = fb_GetField_u64 fb t 6 0"

definition HeartbeatAck_Verify :: "'t FlatBuffers \<Rightarrow> 't \<Rightarrow> bool" where
  "HeartbeatAck_Verify fb t \<longleftrightarrow>
     fb_VerifyTableStart fb t \<and>
     fb_VerifyField fb t 4 4 \<and>
     fb_VerifyField fb t 6 8 \<and>
     fb_EndTable fb t"

definition HeartbeatAck_add_req_seq_id :: "u32 \<Rightarrow> 't FbElem" where
  "HeartbeatAck_add_req_seq_id req_seq_id = AddElement_u32 4 req_seq_id 0"

definition HeartbeatAck_add_responder_time_us :: "u64 \<Rightarrow> 't FbElem" where
  "HeartbeatAck_add_responder_time_us responder_time_us = AddElement_u64 6 responder_time_us 0"

definition CreateHeartbeatAck :: "'t FlatBuffers \<Rightarrow> u32 \<Rightarrow> u64 \<Rightarrow> 't" where
  "CreateHeartbeatAck fb req_seq_id responder_time_us =
     fb_Table fb [HeartbeatAck_add_responder_time_us responder_time_us,
        HeartbeatAck_add_req_seq_id req_seq_id]"

lemmas HeartbeatAck_defs = HeartbeatAck_req_seq_id_def HeartbeatAck_responder_time_us_def
 HeartbeatAck_Verify_def HeartbeatAck_add_req_seq_id_def
 HeartbeatAck_add_responder_time_us_def CreateHeartbeatAck_def

section \<open>table \<^verbatim>\<open>SnapshotRequest\<close>\<close>

definition SnapshotRequest_since_seq_id :: "'t FlatBuffers \<Rightarrow> 't \<Rightarrow> u32" where
  "SnapshotRequest_since_seq_id fb t = fb_GetField_u32 fb t 4 0"

definition SnapshotRequest_force_full :: "'t FlatBuffers \<Rightarrow> 't \<Rightarrow> bool" where
  "SnapshotRequest_force_full fb t \<longleftrightarrow> fb_GetField_u8 fb t 6 1 \<noteq> 0"

definition SnapshotRequest_Verify :: "'t FlatBuffers \<Rightarrow> 't \<Rightarrow> bool" where
  "SnapshotRequest_Verify fb t \<longleftrightarrow>
     fb_VerifyTableStart fb t \<and>
     fb_VerifyField fb t 4 4 \<and>
     fb_VerifyField fb t 6 1 \<and>
     fb_EndTable fb t"

definition SnapshotRequest_add_since_seq_id :: "u32 \<Rightarrow> 't FbElem" where
  "SnapshotRequest_add_since_seq_id since_seq_id = AddElement_u32 4 since_seq_id 0"

definition SnapshotRequest_add_force_full :: "bool \<Rightarrow> 't FbElem" where
  "SnapshotRequest_add_force_full force_full = AddElement_u8 6 (if force_full then 1 else 0) 1"

definition CreateSnapshotRequest :: "'t FlatBuffers \<Rightarrow> u32 \<Rightarrow> bool \<Rightarrow> 't" where
  "CreateSnapshotRequest fb since_seq_id force_full =
     fb_Table fb [SnapshotRequest_add_since_seq_id since_seq_id, SnapshotRequest_add_force_full force_full]"

lemmas SnapshotRequest_defs = SnapshotRequest_since_seq_id_def
 SnapshotRequest_force_full_def SnapshotRequest_Verify_def
 SnapshotRequest_add_since_seq_id_def SnapshotRequest_add_force_full_def
 CreateSnapshotRequest_def

section \<open>table \<^verbatim>\<open>SessionNotice\<close>\<close>

definition SessionNotice_type :: "'t FlatBuffers \<Rightarrow> 't \<Rightarrow> i8" where
  "SessionNotice_type fb t = fb_GetField_i8 fb t 4 0"

definition SessionNotice_code :: "'t FlatBuffers \<Rightarrow> 't \<Rightarrow> u16" where
  "SessionNotice_code fb t = fb_GetField_u16 fb t 6 0"

definition SessionNotice_message :: "'t FlatBuffers \<Rightarrow> 't \<Rightarrow> 't option" where
  "SessionNotice_message fb t = fb_GetPointer fb t 8"

definition SessionNotice_station_sid :: "'t FlatBuffers \<Rightarrow> 't \<Rightarrow> 't option" where
  "SessionNotice_station_sid fb t = fb_GetPointer fb t 10"

definition SessionNotice_dispatch_area_id :: "'t FlatBuffers \<Rightarrow> 't \<Rightarrow> 't option" where
  "SessionNotice_dispatch_area_id fb t = fb_GetPointer fb t 12"

definition SessionNotice_Verify :: "'t FlatBuffers \<Rightarrow> 't \<Rightarrow> bool" where
  "SessionNotice_Verify fb t \<longleftrightarrow>
     fb_VerifyTableStart fb t \<and>
     fb_VerifyField fb t 4 1 \<and>
     fb_VerifyField fb t 6 2 \<and>
     fb_VerifyOffset fb t 8 \<and>
     fb_VerifyString fb (SessionNotice_message fb t) \<and>
     fb_VerifyOffset fb t 10 \<and>
     fb_VerifyString fb (SessionNotice_station_sid fb t) \<and>
     fb_VerifyOffset fb t 12 \<and>
     fb_VerifyString fb (SessionNotice_dispatch_area_id fb t) \<and>
     fb_EndTable fb t"

definition SessionNotice_add_type :: "i8 \<Rightarrow> 't FbElem" where
  "SessionNotice_add_type type0 = AddElement_i8 4 type0 0"

definition SessionNotice_add_code :: "u16 \<Rightarrow> 't FbElem" where
  "SessionNotice_add_code code = AddElement_u16 6 code 0"

definition SessionNotice_add_message :: "'t option \<Rightarrow> 't FbElem" where
  "SessionNotice_add_message message = AddOffset 8 message"

definition SessionNotice_add_station_sid :: "'t option \<Rightarrow> 't FbElem" where
  "SessionNotice_add_station_sid station_sid = AddOffset 10 station_sid"

definition SessionNotice_add_dispatch_area_id :: "'t option \<Rightarrow> 't FbElem" where
  "SessionNotice_add_dispatch_area_id dispatch_area_id = AddOffset 12 dispatch_area_id"

definition CreateSessionNotice :: "'t FlatBuffers \<Rightarrow> i8 \<Rightarrow> u16 \<Rightarrow> 't option \<Rightarrow> 't option \<Rightarrow> 't option \<Rightarrow> 't" where
  "CreateSessionNotice fb type0 code message station_sid dispatch_area_id =
     fb_Table fb [SessionNotice_add_dispatch_area_id dispatch_area_id,
        SessionNotice_add_station_sid station_sid, SessionNotice_add_message message,
        SessionNotice_add_code code, SessionNotice_add_type type0]"

lemmas SessionNotice_defs = SessionNotice_type_def SessionNotice_code_def
 SessionNotice_message_def SessionNotice_station_sid_def
 SessionNotice_dispatch_area_id_def SessionNotice_Verify_def SessionNotice_add_type_def
 SessionNotice_add_code_def SessionNotice_add_message_def
 SessionNotice_add_station_sid_def SessionNotice_add_dispatch_area_id_def
 CreateSessionNotice_def

end
