(* ===== verification/Transport_Gateway.thy ===== *)
theory Transport_Gateway
  imports Snapshot_Service Command_Ingress Frame Proto_Session
begin

text \<open>
  The sessions of the binary protocol, \<^verbatim>\<open>server/src/transport_gateway.cpp\<close>.  A
  gateway is a record of the command queue and the snapshot it refers to, of all session objects
  (kept alive by their callbacks), of the registered ones (\<^verbatim>\<open>sessions_\<close>) and of the
  tasks posted to the IO context, which run in the order of posting.  The handlers run on the IO
  thread, one after the other.

  Three effects are explicit: \<open>gw_blocked\<close> is set when a thread locks the session mutex it
  already holds, \<open>gw_terminated\<close> when a task lets an exception escape from the IO thread, and
  \<open>gw_clock_reads\<close> counts the readings of the steady clock, which is a parameter of the
  environment together with the FlatBuffers runtime and the dispatch channel handler.  A write to
  an open socket succeeds, a write to a closed one throws.
\<close>

section \<open>Constants\<close>

definition msg_type_kHandshake :: u8 where "msg_type_kHandshake = 0x01"
definition msg_type_kHandshakeAck :: u8 where "msg_type_kHandshakeAck = 0x02"
definition msg_type_kHeartbeat :: u8 where "msg_type_kHeartbeat = 0x03"
definition msg_type_kHeartbeatAck :: u8 where "msg_type_kHeartbeatAck = 0x04"
definition msg_type_kCommand :: u8 where "msg_type_kCommand = 0x10"
definition msg_type_kCommandAck :: u8 where "msg_type_kCommandAck = 0x11"
definition msg_type_kCommandNak :: u8 where "msg_type_kCommandNak = 0x12"
definition msg_type_kDomainEvent :: u8 where "msg_type_kDomainEvent = 0x20"
definition msg_type_kSnapshotRequest :: u8 where "msg_type_kSnapshotRequest = 0x30"
definition msg_type_kSnapshotChunk :: u8 where "msg_type_kSnapshotChunk = 0x31"
definition msg_type_kDispatchChannel :: u8 where "msg_type_kDispatchChannel = 0x61"

lemmas msg_type_defs = msg_type_kHandshake_def msg_type_kHandshakeAck_def msg_type_kHeartbeat_def
  msg_type_kHeartbeatAck_def msg_type_kCommand_def msg_type_kCommandAck_def msg_type_kCommandNak_def
  msg_type_kDomainEvent_def msg_type_kSnapshotRequest_def msg_type_kSnapshotChunk_def
  msg_type_kDispatchChannel_def

definition kReadBufSize :: nat where
  "kReadBufSize = 65536 + unat kHeaderSize"

section \<open>Sessions and the gateway\<close>

datatype SessionState = kHandshake | kActive | kClosing

record ClientInfo =
  ci_player_id :: string
  ci_session_id :: string
  ci_dispatch_area_id :: string
  ci_state :: SessionState

text \<open>The read buffer is represented by its filled part.\<close>

record ClientSession =
  cs_info :: ClientInfo
  cs_tx_seq :: u32
  cs_read_buf :: "u8 list"
  cs_reading :: bool
  cs_socket_open :: bool
  cs_written :: "u8 list list"

definition new_session :: ClientSession where
  "new_session =
     \<lparr>cs_info = \<lparr>ci_player_id = [], ci_session_id = [], ci_dispatch_area_id = [], ci_state = kHandshake\<rparr>,
      cs_tx_seq = 0, cs_read_buf = [], cs_reading = False, cs_socket_open = True, cs_written = []\<rparr>"

record WireEnvelope =
  we_meta :: CommandMeta
  we_payload :: WireCommand

type_synonym session_id = nat

datatype IoTask =
    WriteFrame session_id "u8 list"
  | BroadcastFrame "u8 list"
  | BroadcastToPair string string "u8 list"

record 'd TransportGateway =
  gw_cmd_queue :: "WireEnvelope PriorityCommandQueue"
  gw_snapshot :: "EngineSnapshot option"
  gw_objects :: "(session_id, ClientSession) umap"
  gw_sessions :: "session_id list"
  gw_tasks :: "IoTask list"
  gw_dispatch :: 'd
  gw_running :: bool
  gw_acceptor_open :: bool
  gw_mutex_held :: bool
  gw_blocked :: bool
  gw_terminated :: bool
  gw_clock_reads :: nat

record ('t, 'd) GatewayEnv =
  ge_fb :: "'t FlatBuffers"
  ge_clock :: "nat \<Rightarrow> u64"
  ge_handler :: "('d \<Rightarrow> u8 list \<Rightarrow> string \<Rightarrow> string \<Rightarrow> 'd \<times> IoTask list) option"

definition session_of :: "'d TransportGateway \<Rightarrow> session_id \<Rightarrow> ClientSession" where
  "session_of g i = (case um_find (gw_objects g) i of Some s \<Rightarrow> s | None \<Rightarrow> new_session)"

definition update_session ::
    "session_id \<Rightarrow> (ClientSession \<Rightarrow> ClientSession) \<Rightarrow> 'd TransportGateway \<Rightarrow> 'd TransportGateway" where
  "update_session i f g = g\<lparr>gw_objects := um_assign i (f (session_of g i)) (gw_objects g)\<rparr>"

definition session_state :: "'d TransportGateway \<Rightarrow> session_id \<Rightarrow> SessionState" where
  "session_state g i = ci_state (cs_info (session_of g i))"

definition is_active :: "'d TransportGateway \<Rightarrow> session_id \<Rightarrow> bool" where
  "is_active g i \<longleftrightarrow> session_state g i = kActive"

definition now_us :: "('t, 'd) GatewayEnv \<Rightarrow> 'd TransportGateway \<Rightarrow> u64 \<times> 'd TransportGateway" where
  "now_us env g = (ge_clock env (gw_clock_reads g), g\<lparr>gw_clock_reads := gw_clock_reads g + 1\<rparr>)"

section \<open>Registration and closing\<close>

definition unregister_session :: "session_id \<Rightarrow> 'd TransportGateway \<Rightarrow> 'd TransportGateway" where
  "unregister_session i g =
     (if gw_mutex_held g then g\<lparr>gw_blocked := True\<rparr>
      else g\<lparr>gw_sessions := removeAll i (gw_sessions g)\<rparr>)"

definition register_session :: "session_id \<Rightarrow> 'd TransportGateway \<Rightarrow> 'd TransportGateway" where
  "register_session i g =
     (if gw_mutex_held g then g\<lparr>gw_blocked := True\<rparr>
      else g\<lparr>gw_sessions := (if i \<in> set (gw_sessions g) then gw_sessions g else gw_sessions g @ [i])\<rparr>)"

definition close_session :: "session_id \<Rightarrow> 'd TransportGateway \<Rightarrow> 'd TransportGateway" where
  "close_session i g =
     unregister_session i
       (update_session i (\<lambda>s. s\<lparr>cs_info := (cs_info s)\<lparr>ci_state := kClosing\<rparr>, cs_socket_open := False\<rparr>) g)"

section \<open>Sending\<close>

definition send :: "u8 list \<Rightarrow> session_id \<Rightarrow> 'd TransportGateway \<Rightarrow> 'd TransportGateway" where
  "send frame i g = g\<lparr>gw_tasks := gw_tasks g @ [WriteFrame i frame]\<rparr>"

definition send_frame ::
    "u8 \<Rightarrow> u8 \<Rightarrow> u8 list \<Rightarrow> session_id \<Rightarrow> 'd TransportGateway \<Rightarrow> 'd TransportGateway" where
  "send_frame mt flags payload i g =
     (let seq = cs_tx_seq (session_of g i)
      in send (encode_frame mt flags seq payload) i
           (update_session i (\<lambda>s. s\<lparr>cs_tx_seq := seq + 1\<rparr>) g))"

fun send_chunks :: "session_id \<Rightarrow> u8 list list \<Rightarrow> 'd TransportGateway \<Rightarrow> 'd TransportGateway" where
  "send_chunks i [] g = g"
| "send_chunks i (c # cs) g =
     send_chunks i cs
       (send_frame msg_type_kSnapshotChunk (if cs = [] then kFlagIsLastChunk else 0) c i g)"

section \<open>The handlers of a session\<close>

definition handle_handshake ::
    "('t, 'd) GatewayEnv \<Rightarrow> session_id \<Rightarrow> DecodedFrame \<Rightarrow> 'd TransportGateway \<Rightarrow> 'd TransportGateway" where
  "handle_handshake env i frame g =
    (let fb = ge_fb env; payload = df_payload frame in
     if payload = [] then close_session i g
     else if \<not> fb_VerifyBuffer fb (Handshake_Verify fb) payload then close_session i g
     else let hs = fb_GetRoot fb payload in
       (case (Handshake_player_id fb hs, Handshake_auth_token fb hs) of
          (Some player, Some token) \<Rightarrow>
            (let (t0, g1) = now_us env g;
                 player_id = fb_str fb player;
                 sid = ''SID-'' @ player_id @ ''-'' @ u64_to_string t0;
                 g2 = update_session i (\<lambda>s. s\<lparr>cs_info := (cs_info s)
                        \<lparr>ci_player_id := player_id, ci_session_id := sid, ci_state := kActive\<rparr>\<rparr>) g1;
                 (t1, g3) = now_us env g2;
                 ack = CreateHandshakeAck fb (Some (fb_CreateString fb sid)) 20 None t1
             in send_frame msg_type_kHandshakeAck 0 (fb_Finish fb ack) i g3)
        | _ \<Rightarrow> close_session i g))"

definition handle_snapshot_request ::
    "('t, 'd) GatewayEnv \<Rightarrow> session_id \<Rightarrow> DecodedFrame \<Rightarrow> 'd TransportGateway \<Rightarrow> 'd TransportGateway" where
  "handle_snapshot_request env i frame g =
    (case gw_snapshot g of
       None \<Rightarrow> g
     | Some snap \<Rightarrow> send_chunks i (chunk (serialize_snapshot (ge_fb env) snap) DEFAULT_CHUNK_SIZE) g)"

definition handle_command ::
    "('t, 'd) GatewayEnv \<Rightarrow> session_id \<Rightarrow> DecodedFrame \<Rightarrow> 'd TransportGateway \<Rightarrow> 'd TransportGateway" where
  "handle_command env i frame g =
    (let fb = ge_fb env in
     if df_payload frame = [] then g
     else (case parse_payload fb (df_payload frame) of
       None \<Rightarrow>
         (let nak = CreateCommandNak fb (df_seq_id frame) NakReason_UNSUPPORTED
                      (Some (fb_CreateString fb ''Unsupported command type''))
          in send_frame msg_type_kCommandNak 0 (fb_Finish fb nak) i g)
     | Some cmd \<Rightarrow>
         (let (t, g1) = now_us env g;
              meta = \<lparr>meta_seq_id = df_seq_id frame, meta_priority = PRIO_NORMAL,
                      meta_player_id = ci_player_id (cs_info (session_of g i)),
                      meta_dispatch_area_uid = 0, meta_timestamp_us = t\<rparr>
          in case pq_push \<lparr>we_meta = meta, we_payload = cmd\<rparr> PRIO_NORMAL (gw_cmd_queue g1) of
               Inl err \<Rightarrow> g1
             | Inr q \<Rightarrow>
                 send_frame msg_type_kCommandAck 0 (fb_Finish fb (CreateCommandAck fb (df_seq_id frame) 0)) i
                   (g1\<lparr>gw_cmd_queue := q\<rparr>))))"

definition handle_heartbeat ::
    "('t, 'd) GatewayEnv \<Rightarrow> session_id \<Rightarrow> DecodedFrame \<Rightarrow> 'd TransportGateway \<Rightarrow> 'd TransportGateway" where
  "handle_heartbeat env i frame g =
    (let fb = ge_fb env; (t, g1) = now_us env g
     in send_frame msg_type_kHeartbeatAck 0 (fb_Finish fb (CreateHeartbeatAck fb (df_seq_id frame) t)) i g1)"

definition handle_dispatch_channel ::
    "('t, 'd) GatewayEnv \<Rightarrow> session_id \<Rightarrow> DecodedFrame \<Rightarrow> 'd TransportGateway \<Rightarrow> 'd TransportGateway" where
  "handle_dispatch_channel env i frame g =
    (case ge_handler env of
       None \<Rightarrow> g
     | Some handler \<Rightarrow>
         (let info = cs_info (session_of g i);
              (d, tasks) = handler (gw_dispatch g) (df_payload frame) (ci_player_id info) (ci_dispatch_area_id info)
          in g\<lparr>gw_dispatch := d, gw_tasks := gw_tasks g @ tasks\<rparr>))"

definition handle_frame ::
    "('t, 'd) GatewayEnv \<Rightarrow> session_id \<Rightarrow> DecodedFrame \<Rightarrow> 'd TransportGateway \<Rightarrow> 'd TransportGateway" where
  "handle_frame env i frame g =
    (let mt = df_msg_type frame in
     if mt = msg_type_kHandshake then handle_handshake env i frame g
     else if mt = msg_type_kSnapshotRequest then
       (if is_active g i then handle_snapshot_request env i frame g else g)
     else if mt = msg_type_kCommand then (if is_active g i then handle_command env i frame g else g)
     else if mt = msg_type_kHeartbeat then handle_heartbeat env i frame g
     else if mt = msg_type_kDispatchChannel then
       (if is_active g i then handle_dispatch_channel env i frame g else g)
     else g)"

section \<open>Reading\<close>

lemma decode_ok_consumes:
  assumes "fdr_status (decode_frame data) = kOk"
  shows "16 \<le> unat (fdr_bytes_consumed (decode_frame data))"
    "unat (fdr_bytes_consumed (decode_frame data)) \<le> length data"
proof -
  let ?n = "read_le32 data 8"
  have "\<not> ?n > kMaxPayloadLen" and le: "unat (kHeaderSize + ?n) \<le> length data"
    and eq: "fdr_bytes_consumed (decode_frame data) = kHeaderSize + ?n"
    using assms by (auto simp: decode_frame_def decode_failure_def Let_def split: if_splits)
  then have "unat ?n \<le> 65535" by (simp add: kMaxPayloadLen_def word_le_nat_alt not_less)
  then have "unat (kHeaderSize + ?n) = 16 + unat ?n"
    by (simp add: kHeaderSize_def unat_word_ariths)
  then show "16 \<le> unat (fdr_bytes_consumed (decode_frame data))"
    "unat (fdr_bytes_consumed (decode_frame data)) \<le> length data"
    using le eq by simp_all
qed

text \<open>The loop over the buffer: what stays in it, and the gateway after the frames it held.\<close>

function process_bytes ::
    "('t, 'd) GatewayEnv \<Rightarrow> session_id \<Rightarrow> u8 list \<Rightarrow> 'd TransportGateway \<Rightarrow> u8 list \<times> 'd TransportGateway" where
  "process_bytes env i buf g =
    (if buf = [] then ([], g)
     else let result = decode_frame buf in
       if fdr_status result = kNeedMoreData then (buf, g)
       else if fdr_status result \<noteq> kOk then (buf, close_session i g)
       else process_bytes env i (drop (unat (fdr_bytes_consumed result)) buf)
              (handle_frame env i (fdr_frame result) g))"
  by pat_completeness auto
termination
proof (relation "measure (\<lambda>(env, i, buf, g). length buf)")
  show "wf (measure (\<lambda>(env :: ('t, 'd) GatewayEnv, i :: session_id, buf :: u8 list, g :: 'd TransportGateway). length buf))"
    by simp
next
  fix env :: "('t, 'd) GatewayEnv" and i :: session_id and buf :: "u8 list" and g :: "'d TransportGateway" and x
  assume "buf \<noteq> []" "x = decode_frame buf" "\<not> fdr_status x \<noteq> kOk"
  then have "0 < unat (fdr_bytes_consumed x)" using decode_ok_consumes(1) [of buf] by simp
  with \<open>buf \<noteq> []\<close> show "((env, i, drop (unat (fdr_bytes_consumed x)) buf, handle_frame env i (fdr_frame x) g), env, i, buf, g)
      \<in> measure (\<lambda>(env, i, buf, g). length buf)" by simp
qed

declare process_bytes.simps [simp del]

definition process_buffer ::
    "('t, 'd) GatewayEnv \<Rightarrow> session_id \<Rightarrow> 'd TransportGateway \<Rightarrow> 'd TransportGateway" where
  "process_buffer env i g =
    (let (rest, g') = process_bytes env i (cs_read_buf (session_of g i)) g
     in update_session i (\<lambda>s. s\<lparr>cs_read_buf := rest\<rparr>) g')"

definition do_read :: "session_id \<Rightarrow> 'd TransportGateway \<Rightarrow> 'd TransportGateway" where
  "do_read i g = update_session i (\<lambda>s. s\<lparr>cs_reading := True\<rparr>) g"

text \<open>The number of bytes the next read may bring.\<close>

definition read_size :: "'d TransportGateway \<Rightarrow> session_id \<Rightarrow> nat" where
  "read_size g i = kReadBufSize - length (cs_read_buf (session_of g i))"

definition on_read ::
    "('t, 'd) GatewayEnv \<Rightarrow> session_id \<Rightarrow> u8 list option \<Rightarrow> 'd TransportGateway \<Rightarrow> 'd TransportGateway" where
  "on_read env i received g =
    (let g0 = update_session i (\<lambda>s. s\<lparr>cs_reading := False\<rparr>) g in
     case received of
       None \<Rightarrow> unregister_session i g0
     | Some bytes \<Rightarrow>
         (let g1 = process_buffer env i (update_session i (\<lambda>s. s\<lparr>cs_read_buf := cs_read_buf s @ bytes\<rparr>) g0)
          in if session_state g1 i \<noteq> kClosing then do_read i g1 else g1))"

text \<open>
  A read brings bytes only if one was asked for, which a closing session does not, and the socket is open.  (A
  handshake behind the frame that closed the session makes it ask again; that read ends with an error.)
\<close>

definition deliver ::
    "('t, 'd) GatewayEnv \<Rightarrow> session_id \<Rightarrow> u8 list \<Rightarrow> 'd TransportGateway \<Rightarrow> 'd TransportGateway" where
  "deliver env i bytes g =
     (if cs_reading (session_of g i) \<and> cs_socket_open (session_of g i) then on_read env i (Some bytes) g else g)"

section \<open>The gateway's own operations\<close>

definition accept_client :: "session_id \<Rightarrow> 'd TransportGateway \<Rightarrow> 'd TransportGateway" where
  "accept_client i g =
     do_read i (register_session i (g\<lparr>gw_objects := um_assign i new_session (gw_objects g)\<rparr>))"

definition gateway_start :: "'d TransportGateway \<Rightarrow> 'd TransportGateway" where
  "gateway_start g = (if gw_running g then g else g\<lparr>gw_running := True, gw_acceptor_open := True\<rparr>)"

definition gateway_stop :: "'d TransportGateway \<Rightarrow> 'd TransportGateway" where
  "gateway_stop g =
    (if \<not> gw_running g then g
     else let g1 = g\<lparr>gw_running := False, gw_acceptor_open := False, gw_mutex_held := True\<rparr>;
              g2 = fold close_session (gw_sessions g1) g1
          in if gw_blocked g2 then g2 else g2\<lparr>gw_sessions := [], gw_mutex_held := False\<rparr>)"

definition broadcast :: "u8 list \<Rightarrow> 'd TransportGateway \<Rightarrow> 'd TransportGateway" where
  "broadcast frame g = g\<lparr>gw_tasks := gw_tasks g @ [BroadcastFrame frame]\<rparr>"

definition broadcast_to_pair :: "string \<Rightarrow> string \<Rightarrow> u8 list \<Rightarrow> 'd TransportGateway \<Rightarrow> 'd TransportGateway" where
  "broadcast_to_pair src dst frame g = g\<lparr>gw_tasks := gw_tasks g @ [BroadcastToPair src dst frame]\<rparr>"

text \<open>The next task of the IO context.\<close>

definition run_task :: "IoTask \<Rightarrow> 'd TransportGateway \<Rightarrow> 'd TransportGateway" where
  "run_task task g =
    (case task of
       WriteFrame i frame \<Rightarrow>
         (if cs_socket_open (session_of g i) then update_session i (\<lambda>s. s\<lparr>cs_written := cs_written s @ [frame]\<rparr>) g
          else g\<lparr>gw_terminated := True\<rparr>)
     | BroadcastFrame frame \<Rightarrow>
         fold (\<lambda>i g. if is_active g i then send frame i g else g) (gw_sessions g) g
     | BroadcastToPair src dst frame \<Rightarrow>
         fold (\<lambda>i g. if \<not> is_active g i then g
                 else let area = ci_dispatch_area_id (cs_info (session_of g i))
                      in if area = src \<or> area = dst then send frame i g else g) (gw_sessions g) g)"

definition run_next :: "'d TransportGateway \<Rightarrow> 'd TransportGateway" where
  "run_next g =
    (if gw_terminated g \<or> gw_blocked g then g
     else case gw_tasks g of [] \<Rightarrow> g | task # tasks \<Rightarrow> run_task task (g\<lparr>gw_tasks := tasks\<rparr>))"

end
