(* ===== verification/Session_Stream.thy ===== *)
theory Session_Stream
  imports Transport_Gateway
begin

text \<open>
  How a session reads its byte stream: the handlers do not depend on the read buffer, the loop over
  the buffer composes, so the frames a client sends are handled one by one in their order however
  the network cuts the stream, and the buffer never fills up.
\<close>


section \<open>Session objects\<close>

lemma um_assign_twice: "um_assign k v (um_assign k w m) = um_assign k v m"
proof -
  have "um_find (um_assign k w m) k = Some w" by (simp add: um_find_assign)
  moreover have "um_modify k (\<lambda>_. v) (m @ [(k, w)]) = m @ [(k, v)]" if "um_find m k = None"
    using that by (auto simp: um_modify_def um_find_None_iff um_keys_def image_iff intro!: map_idI)
  moreover have "um_modify k (\<lambda>_. v) (um_modify k (\<lambda>_. w) m) = um_modify k (\<lambda>_. v) m"
    by (auto simp: um_modify_def)
  ultimately show ?thesis by (simp add: um_assign_def)
qed

lemma session_of_update [simp]:
  "session_of (update_session i f g) j = (if j = i then f (session_of g i) else session_of g j)"
  by (simp add: update_session_def session_of_def um_find_assign)

lemma update_update: "update_session i f (update_session i h g) = update_session i (f \<circ> h) g"
  by (simp add: update_session_def um_assign_twice session_of_def um_find_assign)

lemma update_session_fields [simp]:
  "gw_cmd_queue (update_session i f g) = gw_cmd_queue g" "gw_snapshot (update_session i f g) = gw_snapshot g"
  "gw_sessions (update_session i f g) = gw_sessions g" "gw_tasks (update_session i f g) = gw_tasks g"
  "gw_dispatch (update_session i f g) = gw_dispatch g" "gw_mutex_held (update_session i f g) = gw_mutex_held g"
  "gw_blocked (update_session i f g) = gw_blocked g" "gw_terminated (update_session i f g) = gw_terminated g"
  "gw_clock_reads (update_session i f g) = gw_clock_reads g" "gw_running (update_session i f g) = gw_running g"
  by (simp_all add: update_session_def)

lemma session_of_fields [simp]:
  "session_of (g\<lparr>gw_cmd_queue := a\<rparr>) j = session_of g j" "session_of (g\<lparr>gw_sessions := b\<rparr>) j = session_of g j"
  "session_of (g\<lparr>gw_tasks := c\<rparr>) j = session_of g j" "session_of (g\<lparr>gw_dispatch := d\<rparr>) j = session_of g j"
  "session_of (g\<lparr>gw_blocked := e\<rparr>) j = session_of g j" "session_of (g\<lparr>gw_clock_reads := r\<rparr>) j = session_of g j"
  "session_of (g\<lparr>gw_mutex_held := h\<rparr>) j = session_of g j" "session_of (g\<lparr>gw_terminated := u\<rparr>) j = session_of g j"
  by (simp_all add: session_of_def)

lemma update_commute [simp]:
  "update_session i f (g\<lparr>gw_cmd_queue := a\<rparr>) = (update_session i f g)\<lparr>gw_cmd_queue := a\<rparr>"
  "update_session i f (g\<lparr>gw_sessions := b\<rparr>) = (update_session i f g)\<lparr>gw_sessions := b\<rparr>"
  "update_session i f (g\<lparr>gw_tasks := c\<rparr>) = (update_session i f g)\<lparr>gw_tasks := c\<rparr>"
  "update_session i f (g\<lparr>gw_dispatch := d\<rparr>) = (update_session i f g)\<lparr>gw_dispatch := d\<rparr>"
  "update_session i f (g\<lparr>gw_blocked := e\<rparr>) = (update_session i f g)\<lparr>gw_blocked := e\<rparr>"
  "update_session i f (g\<lparr>gw_clock_reads := r\<rparr>) = (update_session i f g)\<lparr>gw_clock_reads := r\<rparr>"
  by (simp_all add: update_session_def)

section \<open>The read buffer does not matter to the handlers\<close>

definition set_buffer :: "session_id \<Rightarrow> u8 list \<Rightarrow> bool \<Rightarrow> 'd TransportGateway \<Rightarrow> 'd TransportGateway" where
  "set_buffer i buf r g = update_session i (\<lambda>s. s\<lparr>cs_read_buf := buf, cs_reading := r\<rparr>) g"

lemma set_buffer_fields [simp]:
  "gw_cmd_queue (set_buffer i b r g) = gw_cmd_queue g" "gw_snapshot (set_buffer i b r g) = gw_snapshot g"
  "gw_sessions (set_buffer i b r g) = gw_sessions g" "gw_tasks (set_buffer i b r g) = gw_tasks g"
  "gw_dispatch (set_buffer i b r g) = gw_dispatch g" "gw_mutex_held (set_buffer i b r g) = gw_mutex_held g"
  "gw_clock_reads (set_buffer i b r g) = gw_clock_reads g"
  "cs_info (session_of (set_buffer i b r g) i) = cs_info (session_of g i)"
  "cs_tx_seq (session_of (set_buffer i b r g) i) = cs_tx_seq (session_of g i)"
  "cs_read_buf (session_of (set_buffer i b r g) i) = b"
  "session_state (set_buffer i b r g) i = session_state g i" "is_active (set_buffer i b r g) i = is_active g i"
  by (simp_all add: set_buffer_def session_state_def is_active_def)

lemma set_buffer_commute [simp]:
  "set_buffer i b r (g\<lparr>gw_cmd_queue := q\<rparr>) = (set_buffer i b r g)\<lparr>gw_cmd_queue := q\<rparr>"
  "set_buffer i b r (g\<lparr>gw_sessions := l\<rparr>) = (set_buffer i b r g)\<lparr>gw_sessions := l\<rparr>"
  "set_buffer i b r (g\<lparr>gw_tasks := c\<rparr>) = (set_buffer i b r g)\<lparr>gw_tasks := c\<rparr>"
  "set_buffer i b r (g\<lparr>gw_dispatch := d\<rparr>) = (set_buffer i b r g)\<lparr>gw_dispatch := d\<rparr>"
  "set_buffer i b r (g\<lparr>gw_blocked := e\<rparr>) = (set_buffer i b r g)\<lparr>gw_blocked := e\<rparr>"
  "set_buffer i b r (g\<lparr>gw_clock_reads := k\<rparr>) = (set_buffer i b r g)\<lparr>gw_clock_reads := k\<rparr>"
  by (simp_all add: set_buffer_def)

lemma set_buffer_twice: "set_buffer i b r (set_buffer i b' r' g) = set_buffer i b r g"
  by (simp add: set_buffer_def update_update comp_def)

lemma update_set_buffer:
  assumes "\<And>s. f (s\<lparr>cs_read_buf := b, cs_reading := r\<rparr>) = (f s)\<lparr>cs_read_buf := b, cs_reading := r\<rparr>"
  shows "update_session i f (set_buffer i b r g) = set_buffer i b r (update_session i f g)"
  by (simp add: set_buffer_def update_update comp_def assms)

lemma close_set_buffer: "close_session i (set_buffer i b r g) = set_buffer i b r (close_session i g)"
  unfolding close_session_def
  by (subst update_set_buffer, rule ClientSession.equality) (simp_all add: unregister_session_def)

lemma send_frame_set_buffer:
  "send_frame mt fl p i (set_buffer i b r g) = set_buffer i b r (send_frame mt fl p i g)"
  unfolding send_frame_def Let_def
  by (subst update_set_buffer, rule ClientSession.equality) (simp_all add: send_def)

lemma send_frame_commute [simp]:
  "send_frame mt fl p i (g\<lparr>gw_clock_reads := k\<rparr>) = (send_frame mt fl p i g)\<lparr>gw_clock_reads := k\<rparr>"
  "send_frame mt fl p i (g\<lparr>gw_cmd_queue := q\<rparr>) = (send_frame mt fl p i g)\<lparr>gw_cmd_queue := q\<rparr>"
  by (simp_all add: send_frame_def Let_def send_def)

lemma send_chunks_set_buffer:
  "send_chunks i cs (set_buffer i b r g) = set_buffer i b r (send_chunks i cs g)"
  by (induction cs arbitrary: g) (simp_all add: send_frame_set_buffer)

lemma identify_set_buffer:
  "update_session i (\<lambda>s. s\<lparr>cs_info := (cs_info s)\<lparr>ci_player_id := a, ci_session_id := c, ci_state := st\<rparr>\<rparr>)
     (set_buffer i b r g) =
   set_buffer i b r (update_session i
     (\<lambda>s. s\<lparr>cs_info := (cs_info s)\<lparr>ci_player_id := a, ci_session_id := c, ci_state := st\<rparr>\<rparr>) g)"
  by (rule update_set_buffer, rule ClientSession.equality) simp_all

lemma handle_handshake_set_buffer:
  "handle_handshake env i f (set_buffer i b r g) = set_buffer i b r (handle_handshake env i f g)"
  by (simp add: handle_handshake_def Let_def now_us_def close_set_buffer send_frame_set_buffer
      identify_set_buffer split: option.split)

lemma handle_frame_set_buffer:
  "handle_frame env i f (set_buffer i b r g) = set_buffer i b r (handle_frame env i f g)"
  by (auto simp: handle_frame_def Let_def handle_handshake_set_buffer handle_snapshot_request_def
      handle_command_def handle_heartbeat_def handle_dispatch_channel_def now_us_def send_frame_set_buffer
      send_chunks_set_buffer split: option.split sum.split prod.split)

text \<open>One round of the loop.\<close>

lemma process_bytes_step:
  "process_bytes env i [] g = ([], g)"
  "fdr_status (decode_frame b) = kNeedMoreData \<Longrightarrow> process_bytes env i b g = (b, g)"
  "b \<noteq> [] \<Longrightarrow> fdr_status (decode_frame b) \<noteq> kNeedMoreData \<Longrightarrow> fdr_status (decode_frame b) \<noteq> kOk \<Longrightarrow>
     process_bytes env i b g = (b, close_session i g)"
  "b \<noteq> [] \<Longrightarrow> fdr_status (decode_frame b) = kOk \<Longrightarrow>
     process_bytes env i b g =
       process_bytes env i (drop (unat (fdr_bytes_consumed (decode_frame b))) b)
         (handle_frame env i (fdr_frame (decode_frame b)) g)"
  by (subst process_bytes.simps, simp add: Let_def)+

lemma process_bytes_set_buffer:
  "process_bytes env i buf (set_buffer i b r g) = apsnd (set_buffer i b r) (process_bytes env i buf g)"
proof (induction env i buf g rule: process_bytes.induct)
  case (1 env i buf g)
  show ?case
    by (subst (1 2) process_bytes.simps)
      (use 1 in \<open>simp add: Let_def close_set_buffer handle_frame_set_buffer\<close>)
qed

section \<open>Splitting the stream\<close>

lemma decode_stable:
  assumes "fdr_status (decode_frame b) \<noteq> kNeedMoreData"
  shows "decode_frame (b @ x) = decode_frame b"
proof -
  have len: "16 \<le> length b"
    using assms by (auto simp: decode_frame_def decode_failure_def kHeaderSize_def split: if_splits)
  have r: "read_le32 (b @ x) 4 = read_le32 b 4" "read_le32 (b @ x) 8 = read_le32 b 8" "read_le32 (b @ x) 12 = read_le32 b 12"
    using len by (simp_all add: read_le32_prefix)
  have n: "(b @ x) ! 0 = b ! 0" "(b @ x) ! 1 = b ! 1" "(b @ x) ! 2 = b ! 2" "(b @ x) ! 3 = b ! 3"
    "(b @ x) ! Suc 0 = b ! Suc 0"
    using len by (simp_all add: nth_append del: length_greater_0_conv)
  have t: "take 12 (b @ x) = take 12 b" using len by simp
  show ?thesis
  proof (cases "read_le32 b 8 > kMaxPayloadLen")
    case True
    then show ?thesis using len by (simp add: decode_frame_def r n kHeaderSize_def)
  next
    case False
    then have "unat (read_le32 b 8) \<le> 65535" by (simp add: kMaxPayloadLen_def word_le_nat_alt not_less)
    then have total: "unat (kHeaderSize + read_le32 b 8) = 16 + unat (read_le32 b 8)"
      by (simp add: kHeaderSize_def unat_word_ariths)
    show ?thesis
    proof (cases "b ! 0 = kMagicByte0 \<and> b ! 1 = kMagicByte1")
      case True
      then have "16 + unat (read_le32 b 8) \<le> length b"
        using assms len False total by (auto simp: decode_frame_def decode_failure_def kHeaderSize_def Let_def not_less split: if_splits)
      then show ?thesis using len False total
        by (simp add: decode_frame_def r n t kHeaderSize_def Let_def)
    next
      case False
      then show ?thesis using len by (auto simp: decode_frame_def n kHeaderSize_def)
    qed
  qed
qed

lemma close_close: "close_session i (close_session i g) = close_session i g"
  by (simp add: close_session_def unregister_session_def update_update comp_def)

lemma process_bytes_append:
  "process_bytes env i (b1 @ b2) g =
    (let (rest, g') = process_bytes env i b1 g in process_bytes env i (rest @ b2) g')"
proof (induction env i b1 g rule: process_bytes.induct)
  case (1 env i b1 g)
  show ?case
  proof (cases "b1 = [] \<or> fdr_status (decode_frame b1) = kNeedMoreData")
    case True
    then show ?thesis by (subst (2) process_bytes.simps) (auto simp: Let_def)
  next
    case False
    then have st: "decode_frame (b1 @ b2) = decode_frame b1" by (simp add: decode_stable)
    show ?thesis
    proof (cases "fdr_status (decode_frame b1) = kOk")
      case True
      let ?n = "unat (fdr_bytes_consumed (decode_frame b1))"
      have "?n \<le> length b1" using decode_ok_consumes(2) [OF True] .
      then have "process_bytes env i (b1 @ b2) g =
          process_bytes env i (drop ?n b1 @ b2) (handle_frame env i (fdr_frame (decode_frame b1)) g)"
        using False True st by (subst process_bytes.simps) (simp add: Let_def)
      moreover have "process_bytes env i b1 g =
          process_bytes env i (drop ?n b1) (handle_frame env i (fdr_frame (decode_frame b1)) g)"
        using False True by (subst process_bytes.simps) (simp add: Let_def)
      ultimately show ?thesis using "1.IH" False True by simp
    next
      case bad: False
      then show ?thesis using False st
        by (subst (1 2 3) process_bytes.simps) (simp add: Let_def close_close)
    qed
  qed
qed


lemma need_more_bounded:
  assumes "fdr_status (decode_frame b) = kNeedMoreData"
  shows "length b < kReadBufSize"
proof (cases "length b < 16")
  case True
  then show ?thesis by (simp add: kReadBufSize_def kHeaderSize_def)
next
  case False
  then have "\<not> read_le32 b 8 > kMaxPayloadLen" and less: "length b < unat (kHeaderSize + read_le32 b 8)"
    using assms by (auto simp: decode_frame_def decode_failure_def kHeaderSize_def Let_def split: if_splits)
  then have "unat (read_le32 b 8) \<le> 65535" by (simp add: kMaxPayloadLen_def word_le_nat_alt not_less)
  then have "unat (kHeaderSize + read_le32 b 8) = 16 + unat (read_le32 b 8)"
    by (simp add: kHeaderSize_def unat_word_ariths)
  with less \<open>unat (read_le32 b 8) \<le> 65535\<close> show ?thesis by (simp add: kReadBufSize_def kHeaderSize_def)
qed

lemma close_session_simps [simp]:
  "session_state (close_session i g) i = kClosing" "\<not> cs_socket_open (session_of (close_session i g) i)"
  "gw_cmd_queue (close_session i g) = gw_cmd_queue g" "gw_tasks (close_session i g) = gw_tasks g"
  by (simp_all add: close_session_def unregister_session_def session_state_def)

lemma process_bytes_rest:
  "process_bytes env i b g = (rest, g') \<Longrightarrow>
     length rest < kReadBufSize \<or> session_state g' i = kClosing"
proof (induction env i b g arbitrary: rest g' rule: process_bytes.induct)
  case (1 env i b g)
  consider "b = []" | "b \<noteq> []" "fdr_status (decode_frame b) = kNeedMoreData"
    | "b \<noteq> []" "fdr_status (decode_frame b) \<noteq> kNeedMoreData" "fdr_status (decode_frame b) \<noteq> kOk"
    | "b \<noteq> []" "fdr_status (decode_frame b) = kOk" by blast
  then show ?case
  proof cases
    case 1
    with "1.prems" show ?thesis by (subst (asm) process_bytes.simps) (simp add: kReadBufSize_def kHeaderSize_def)
  next
    case 2
    with "1.prems" show ?thesis by (subst (asm) process_bytes.simps) (simp add: need_more_bounded Let_def)
  next
    case 3
    with "1.prems" show ?thesis
      by (subst (asm) process_bytes.simps)
        (auto simp: Let_def)
  next
    case 4
    with "1.prems" have "process_bytes env i (drop (unat (fdr_bytes_consumed (decode_frame b))) b)
        (handle_frame env i (fdr_frame (decode_frame b)) g) = (rest, g')" by (simp add: process_bytes_step(4))
    with "1.IH" 4 show ?thesis by simp
  qed
qed

lemma session_state_update:
  "session_state (update_session i f g) j = ci_state (cs_info (if j = i then f (session_of g i) else session_of g j))"
  by (simp add: session_state_def)

text \<open>A read leaves the unread bytes in the buffer and asks for more unless the session is closing.\<close>

lemma on_read_bytes:
  assumes "process_bytes env i (cs_read_buf (session_of g i) @ bytes) g = (rest, g')"
  shows "on_read env i (Some bytes) g = set_buffer i rest (session_state g' i \<noteq> kClosing) g'"
proof -
  let ?buf = "cs_read_buf (session_of g i) @ bytes"
  have "update_session i (\<lambda>s. s\<lparr>cs_read_buf := cs_read_buf s @ bytes\<rparr>) (update_session i (\<lambda>s. s\<lparr>cs_reading := False\<rparr>) g)
      = set_buffer i ?buf False g"
    unfolding set_buffer_def update_update
    by (simp add: update_session_def comp_def) (rule arg_cong [of _ _ "\<lambda>v. g\<lparr>gw_objects := um_assign i v (gw_objects g)\<rparr>"], rule ClientSession.equality, simp_all)
  moreover have "process_bytes env i ?buf (set_buffer i ?buf False g) = (rest, set_buffer i ?buf False g')"
    by (simp add: process_bytes_set_buffer assms)
  moreover have "update_session i (\<lambda>s. s\<lparr>cs_read_buf := rest\<rparr>) (set_buffer i ?buf False g') = set_buffer i rest False g'"
    unfolding set_buffer_def update_update
    by (rule arg_cong [of _ _ "\<lambda>f. update_session i f g'"], rule ext, rule ClientSession.equality) simp_all
  moreover have "do_read i (set_buffer i rest False g') = set_buffer i rest True g'"
    by (simp add: do_read_def set_buffer_def update_update comp_def)
  ultimately show ?thesis
    by (simp add: on_read_def process_buffer_def Let_def)
qed

lemma on_read_append:
  "on_read env i (Some b2) (on_read env i (Some b1) g) = on_read env i (Some (b1 @ b2)) g"
proof -
  let ?buf = "cs_read_buf (session_of g i)"
  obtain rest g1 where 1: "process_bytes env i (?buf @ b1) g = (rest, g1)"
    by (cases "process_bytes env i (?buf @ b1) g") auto
  obtain rest2 g2 where 2: "process_bytes env i (rest @ b2) g1 = (rest2, g2)"
    by (cases "process_bytes env i (rest @ b2) g1") auto
  have "process_bytes env i (?buf @ b1 @ b2) g = (rest2, g2)"
    using process_bytes_append [of env i "?buf @ b1" b2 g] 1 2 by simp
  from on_read_bytes [OF this] have whole: "on_read env i (Some (b1 @ b2)) g = set_buffer i rest2 (session_state g2 i \<noteq> kClosing) g2" .
  let ?s = "set_buffer i rest (session_state g1 i \<noteq> kClosing) g1"
  have "process_bytes env i (cs_read_buf (session_of ?s i) @ b2) ?s =
      (rest2, set_buffer i rest (session_state g1 i \<noteq> kClosing) g2)"
    by (simp add: process_bytes_set_buffer 2)
  from on_read_bytes [OF this] whole show ?thesis
    by (simp add: on_read_bytes [OF 1] set_buffer_twice)
qed

definition decoded_frame :: "u8 \<times> u8 \<times> u32 \<times> u8 list \<Rightarrow> DecodedFrame" where
  "decoded_frame = (\<lambda>(t, f, q, p). \<lparr>df_msg_type = t, df_flags = f, df_seq_id = q, df_payload = p\<rparr>)"

definition encoded_frame :: "u8 \<times> u8 \<times> u32 \<times> u8 list \<Rightarrow> u8 list" where
  "encoded_frame = (\<lambda>(t, f, q, p). encode_frame t f q p)"

lemma decode_encoded:
  assumes "case fr of (t, f, q, p) \<Rightarrow> length p \<le> 65535"
  shows "decode_frame (encoded_frame fr @ x) =
      \<lparr>fdr_status = kOk, fdr_frame = decoded_frame fr, fdr_bytes_consumed = word_of_nat (length (encoded_frame fr))\<rparr>"
    "unat (word_of_nat (length (encoded_frame fr)) :: u32) = length (encoded_frame fr)" "16 \<le> length (encoded_frame fr)"
proof -
  obtain t f q p where fr: "fr = (t, f, q, p)" by (cases fr) auto
  with assms have p: "length p \<le> 65535" by simp
  show "decode_frame (encoded_frame fr @ x) =
      \<lparr>fdr_status = kOk, fdr_frame = decoded_frame fr, fdr_bytes_consumed = word_of_nat (length (encoded_frame fr))\<rparr>"
    using decode_framed [OF p, of t f q _ "p @ x"] p
    by (simp add: encoded_frame_def decoded_frame_def fr encode_frame_eq)
  have len: "length (encoded_frame fr) = 16 + length p"
    using p by (simp add: encoded_frame_def fr encode_frame_length)
  then show "unat (word_of_nat (length (encoded_frame fr)) :: u32) = length (encoded_frame fr)"
    using p by (simp only: unat_of_nat) (simp add: len)
  show "16 \<le> length (encoded_frame fr)" using len by simp
qed

text \<open>A part of a frame waits for the rest of it.\<close>

lemma process_partial:
  assumes "case fr of (t, f, q, p) \<Rightarrow> length p \<le> 65535" and "encoded_frame fr = b @ y" and "y \<noteq> []"
  shows "process_bytes env i b g = (b, g)"
proof (cases "b = [] \<or> fdr_status (decode_frame b) = kNeedMoreData")
  case True
  then show ?thesis by (subst process_bytes.simps) (auto simp: Let_def)
next
  case False
  then have "decode_frame b = decode_frame (encoded_frame fr @ [])" using decode_stable [of b y] assms(2) by simp
  with decode_encoded(1) [OF assms(1), of "[]"] decode_encoded(2) [OF assms(1)] decode_ok_consumes(2) [of b]
  have "length (encoded_frame fr) \<le> length b" by simp
  with assms(2,3) show ?thesis by simp
qed

definition handle_frames ::
    "('t, 'd) GatewayEnv \<Rightarrow> session_id \<Rightarrow> (u8 \<times> u8 \<times> u32 \<times> u8 list) list \<Rightarrow> 'd TransportGateway \<Rightarrow> 'd TransportGateway" where
  "handle_frames env i fs g = fold (\<lambda>fr. handle_frame env i (decoded_frame fr)) fs g"

text \<open>The beginning of a sequence of frames: the frames that are complete are handled.\<close>

lemma process_prefix:
  assumes "b @ x = concat (map encoded_frame fs)" and "\<forall>(t, f, q, p) \<in> set fs. length p \<le> 65535"
  shows "\<exists>k rest. k \<le> length fs \<and>
    process_bytes env i b g = (rest, handle_frames env i (take k fs) g) \<and>
    b = concat (map encoded_frame (take k fs)) @ rest \<and> (k < length fs \<longrightarrow> length rest < length (encoded_frame (fs ! k)))"
  using assms
proof (induction fs arbitrary: b g)
  case Nil
  then show ?case by (simp add: process_bytes.simps handle_frames_def)
next
  case (Cons fr fs)
  let ?n = "length (encoded_frame fr)"
  have fr: "case fr of (t, f, q, p) \<Rightarrow> length p \<le> 65535" using Cons.prems(2) by auto
  note dec = decode_encoded [OF fr]
  show ?case
  proof (cases "?n \<le> length b")
    case True
    then have b: "b = encoded_frame fr @ drop ?n b" and rest: "drop ?n b @ x = concat (map encoded_frame fs)"
      using arg_cong [OF Cons.prems(1), of "take ?n"] arg_cong [OF Cons.prems(1), of "drop ?n"]
      by (metis append_eq_append_conv_if append_take_drop_id concat.simps(2) length_append list.simps(9) append_eq_conv_conj, simp)
    have "process_bytes env i b g = process_bytes env i (drop ?n b) (handle_frame env i (decoded_frame fr) g)"
      using dec(3) by (subst b) (subst process_bytes_step(4); auto simp: dec(1,2))
    moreover have "\<forall>(t, f, q, p) \<in> set fs. length p \<le> 65535" using Cons.prems(2) by simp
    from Cons.IH [OF rest this, of "handle_frame env i (decoded_frame fr) g"] obtain k rest where "k \<le> length fs"
      "process_bytes env i (drop ?n b) (handle_frame env i (decoded_frame fr) g) =
         (rest, handle_frames env i (take k fs) (handle_frame env i (decoded_frame fr) g))"
      "drop ?n b = concat (map encoded_frame (take k fs)) @ rest"
      "k < length fs \<longrightarrow> length rest < length (encoded_frame (fs ! k))"
      by blast
    ultimately show ?thesis using b by (intro exI [of _ "Suc k"] exI [of _ rest]) (simp add: handle_frames_def)
  next
    case False
    then have "b = take (length b) (encoded_frame fr)"
      using arg_cong [OF Cons.prems(1), of "take (length b)"] by simp
    then have "encoded_frame fr = b @ drop (length b) (encoded_frame fr)" by (metis append_take_drop_id)
    from process_partial [OF fr this] False
    show ?thesis by (intro exI [of _ 0] exI [of _ b]) (simp add: handle_frames_def)
  qed
qed

section \<open>The reads of a session\<close>

lemma handle_frames_take:
  assumes "n \<le> length fs"
  shows "handle_frames env i (take k (drop n fs)) (handle_frames env i (take n fs) g) = handle_frames env i (take (n + k) fs) g"
  by (simp add: handle_frames_def take_add)

lemma set_buffer_open [simp]: "cs_socket_open (session_of (set_buffer i b r g) i) = cs_socket_open (session_of g i)"
  by (simp add: set_buffer_def)

lemma deliver_first:
  assumes "cs_reading (session_of g i)" and "cs_socket_open (session_of g i)" and "cs_read_buf (session_of g i) = []"
  shows "deliver env i c g = deliver env i c (set_buffer i [] True g)"
proof -
  obtain rest g' where p: "process_bytes env i c g = (rest, g')" by (cases "process_bytes env i c g")
  then have "process_bytes env i (cs_read_buf (session_of (set_buffer i [] True g) i) @ c) (set_buffer i [] True g) =
      (rest, set_buffer i [] True g')"
    by (simp add: process_bytes_set_buffer)
  from on_read_bytes [OF this] on_read_bytes [of env i g c rest g'] p assms show ?thesis
    by (simp add: deliver_def set_buffer_twice) (simp add: set_buffer_def)
qed

text \<open>Where a session is after some reads: how many frames it has handled and what it keeps.\<close>

definition stream_at ::
    "('t, 'd) GatewayEnv \<Rightarrow> session_id \<Rightarrow> (u8 \<times> u8 \<times> u32 \<times> u8 list) list \<Rightarrow> 'd TransportGateway \<Rightarrow> u8 list \<Rightarrow>
     nat \<Rightarrow> u8 list \<Rightarrow> bool \<Rightarrow> bool" where
  "stream_at env i fs g received n rest r \<longleftrightarrow> n \<le> length fs \<and>
     (\<exists>y. concat (map encoded_frame (take n fs)) @ rest @ y = concat (map encoded_frame fs)) \<and>
     (if r \<and> cs_socket_open (session_of (handle_frames env i (take n fs) g) i)
      then received = concat (map encoded_frame (take n fs)) @ rest \<and>
        (n < length fs \<longrightarrow> length rest < length (encoded_frame (fs ! n)))
      else session_state (handle_frames env i (take n fs) g) i = kClosing \<or>
        \<not> cs_socket_open (session_of (handle_frames env i (take n fs) g) i))"

lemma deliver_step:
  assumes "stream_at env i fs g received n rest r" and "\<forall>(t, f, q, p) \<in> set fs. length p \<le> 65535"
    and "received @ c @ x = concat (map encoded_frame fs)"
  shows "\<exists>n' rest' r'. stream_at env i fs g (received @ c) n' rest' r' \<and>
    deliver env i c (set_buffer i rest r (handle_frames env i (take n fs) g)) =
      set_buffer i rest' r' (handle_frames env i (take n' fs) g)"
proof (cases "r \<and> cs_socket_open (session_of (handle_frames env i (take n fs) g) i)")
  case False
  then have "deliver env i c (set_buffer i rest r (handle_frames env i (take n fs) g)) =
      set_buffer i rest r (handle_frames env i (take n fs) g)"
    by (auto simp: deliver_def) (simp add: set_buffer_def)
  with assms(1) False show ?thesis
    by (intro exI [of _ n] exI [of _ rest] exI [of _ r]) (auto simp: stream_at_def)
next
  case True
  let ?h = "handle_frames env i (take n fs) g"
  have n: "n \<le> length fs" and rec: "received = concat (map encoded_frame (take n fs)) @ rest"
    using assms(1) True by (simp_all add: stream_at_def)
  have split: "concat (map encoded_frame fs) = concat (map encoded_frame (take n fs)) @ concat (map encoded_frame (drop n fs))"
    by (metis append_take_drop_id concat_append map_append)
  with assms(3) rec have "(rest @ c) @ x = concat (map encoded_frame (drop n fs))" by simp
  moreover have "\<forall>(t, f, q, p) \<in> set (drop n fs). length p \<le> 65535" using assms(2) by (auto dest: in_set_dropD)
  ultimately obtain k rest' where k: "k \<le> length fs - n"
    and p: "process_bytes env i (rest @ c) ?h = (rest', handle_frames env i (take (n + k) fs) g)"
    and b: "rest @ c = concat (map encoded_frame (take k (drop n fs))) @ rest'"
    and short: "k < length fs - n \<longrightarrow> length rest' < length (encoded_frame (drop n fs ! k))"
    using process_prefix [of "rest @ c" x "drop n fs" env i ?h] unfolding handle_frames_take [OF n] length_drop by blast
  let ?r = "session_state (handle_frames env i (take (n + k) fs) g) i \<noteq> kClosing"
  have "process_bytes env i (cs_read_buf (session_of (set_buffer i rest r ?h) i) @ c) (set_buffer i rest r ?h) =
      (rest', set_buffer i rest r (handle_frames env i (take (n + k) fs) g))"
    by (simp add: process_bytes_set_buffer p)
  from on_read_bytes [OF this] True
  have "deliver env i c (set_buffer i rest r ?h) = set_buffer i rest' ?r (handle_frames env i (take (n + k) fs) g)"
    by (simp add: deliver_def set_buffer_twice) (simp add: set_buffer_def)
  moreover have "received @ c = concat (map encoded_frame (take (n + k) fs)) @ rest'"
    using rec b by (simp add: take_add)
  moreover from this assms(3) have "concat (map encoded_frame (take (n + k) fs)) @ rest' @ x = concat (map encoded_frame fs)"
    by (metis append.assoc)
  ultimately show ?thesis using n k short
    by (intro exI [of _ "n + k"] exI [of _ rest'] exI [of _ ?r]) (auto simp: stream_at_def nth_drop)
qed

lemma deliver_run:
  assumes "\<forall>(t, f, q, p) \<in> set fs. length p \<le> 65535" and "concat cs @ x = concat (map encoded_frame fs)"
  shows "\<exists>n rest r. stream_at env i fs g (concat cs) n rest r \<and>
    fold (deliver env i) cs (set_buffer i [] True g) = set_buffer i rest r (handle_frames env i (take n fs) g)"
  using assms(2)
proof (induction cs arbitrary: x rule: rev_induct)
  case Nil
  have "fs \<noteq> [] \<Longrightarrow> 0 < length (encoded_frame (fs ! 0))"
    using decode_encoded(3) [of "fs ! 0"] assms(1) by (cases fs) fastforce+
  then show ?case
    by (intro exI [of _ 0] exI [of _ "[]"] exI [of _ True]) (simp add: handle_frames_def stream_at_def)
next
  case (snoc c cs)
  from snoc.IH [of "c @ x"] snoc.prems obtain n rest r where at: "stream_at env i fs g (concat cs) n rest r"
    and run: "fold (deliver env i) cs (set_buffer i [] True g) = set_buffer i rest r (handle_frames env i (take n fs) g)" by auto
  from deliver_step [OF at assms(1), of c x] snoc.prems run show ?case by simp
qed

section \<open>Properties\<close>

text \<open>
  C17.  An open session that waits for input and has an empty buffer handles the frames of its byte
  stream in their order, however the network cuts them: after all reads the gateway is, apart from the
  session's buffer, the one after handling the first \<open>n\<close> frames directly.  These are all the
  frames, with nothing left in the buffer, unless the session is closing or its socket closed after them; then
  no further read brings bytes, and what follows is lost.
\<close>

theorem frames_handled_in_order:
  assumes "concat chunks = concat (map encoded_frame fs)" and "\<forall>(t, f, q, p) \<in> set fs. length p \<le> 65535"
    and "cs_reading (session_of g i)" and "cs_socket_open (session_of g i)" and "cs_read_buf (session_of g i) = []"
    and "chunks \<noteq> []"
  shows "\<exists>n rest reading. n \<le> length fs \<and>
    fold (deliver env i) chunks g =
      set_buffer i rest reading (fold (\<lambda>fr. handle_frame env i (decoded_frame fr)) (take n fs) g) \<and>
    (if n = length fs then rest = []
     else let h = fold (\<lambda>fr. handle_frame env i (decoded_frame fr)) (take n fs) g
       in \<not> (reading \<and> cs_socket_open (session_of h i)) \<and>
          (session_state h i = kClosing \<or> \<not> cs_socket_open (session_of h i)))"
proof -
  have all: "concat (map encoded_frame fs) = concat (map encoded_frame (take n fs)) @ concat (map encoded_frame (drop n fs))" for n
    by (metis append_take_drop_id concat_append map_append)
  have "concat chunks @ [] = concat (map encoded_frame fs)" using assms(1) by simp
  from deliver_run [OF assms(2) this, of env i g] obtain n rest r where
    at: "stream_at env i fs g (concat chunks) n rest r"
    and run: "fold (deliver env i) chunks (set_buffer i [] True g) = set_buffer i rest r (handle_frames env i (take n fs) g)"
    by blast
  have first: "fold (deliver env i) chunks (set_buffer i [] True g) = fold (deliver env i) chunks g"
    using assms(6) by (cases chunks) (simp_all add: deliver_first [OF assms(3-5)])
  have "rest = []" if "n = length fs" using at that by (auto simp: stream_at_def)
  moreover have "\<not> (r \<and> cs_socket_open (session_of (handle_frames env i (take n fs) g) i))" if "n < length fs"
  proof
    assume "r \<and> cs_socket_open (session_of (handle_frames env i (take n fs) g) i)"
    with at that assms(1) all [of n] have "rest = concat (map encoded_frame (drop n fs))"
      and "length rest < length (encoded_frame (fs ! n))" by (auto simp: stream_at_def)
    with that show False by (simp add: Cons_nth_drop_Suc [symmetric])
  qed
  ultimately show ?thesis using at run unfolding handle_frames_def first
    by (intro exI [of _ n] exI [of _ rest] exI [of _ r]) (auto simp: stream_at_def handle_frames_def Let_def split: if_splits)
qed

definition idle_gateway :: "unit TransportGateway" where
  "idle_gateway =
     \<lparr>gw_cmd_queue = pq_new, gw_snapshot = None, gw_objects = [(1, new_session)], gw_sessions = [1],
      gw_tasks = [], gw_dispatch = (), gw_running = True, gw_acceptor_open = True, gw_mutex_held = False,
      gw_blocked = False, gw_terminated = False, gw_clock_reads = 0\<rparr>"

definition sample_env :: "FbTree \<Rightarrow> (FbTree, unit) GatewayEnv" where
  "sample_env rt =
     \<lparr>ge_fb = tree_runtime (\<lambda>_. rt), ge_clock = (\<lambda>n. word_of_nat (1000 + n)), ge_handler = None\<rparr>"

lemma idle_session [simp]: "session_of idle_gateway (Suc 0) = new_session"
  by (simp add: idle_gateway_def session_of_def um_find_def)

theorem frames_handled_in_order_witness:
  "\<exists>reading. fold (deliver (sample_env (TreeString [])) 1)
      [take 5 (encode_frame 3 0 7 [1]), drop 5 (encode_frame 3 0 7 [1])] (do_read 1 idle_gateway) =
    set_buffer 1 [] reading (handle_frame (sample_env (TreeString [])) 1
      \<lparr>df_msg_type = 3, df_flags = 0, df_seq_id = 7, df_payload = [1]\<rparr> (do_read 1 idle_gateway))"
proof -
  define start where "start = do_read 1 idle_gateway"
  have "session_state start 1 \<noteq> kClosing" "cs_socket_open (session_of start 1)" "cs_reading (session_of start 1)"
    "cs_read_buf (session_of start 1) = []"
    by (simp_all add: start_def do_read_def session_state_def new_session_def)
  then show ?thesis
    using frames_handled_in_order [of "[take 5 (encode_frame 3 0 7 [1]), drop 5 (encode_frame 3 0 7 [1])]"
        "[(3, 0, 7, [1])]" start 1 "sample_env (TreeString [])"]
    unfolding start_def [symmetric]
    by (auto simp: encoded_frame_def decoded_frame_def le_Suc_eq)
qed

text \<open>
  C40.  The read buffer never fills up: after every read that fitted into it the session is closing
  or there is room for at least one more byte, so a read of zero bytes is never asked for.
\<close>

theorem read_buffer_has_room:
  assumes "length bytes \<le> read_size g i" and "g' = on_read env i (Some bytes) g"
  shows "session_state g' i = kClosing \<or> 0 < read_size g' i"
proof -
  obtain rest g1 where p: "process_bytes env i (cs_read_buf (session_of g i) @ bytes) g = (rest, g1)"
    by (cases "process_bytes env i (cs_read_buf (session_of g i) @ bytes) g") auto
  from on_read_bytes [OF this] assms(2) have "g' = set_buffer i rest (session_state g1 i \<noteq> kClosing) g1" by simp
  with process_bytes_rest [OF p] show ?thesis by (auto simp: read_size_def)
qed

theorem read_buffer_has_room_witness:
  "session_state (on_read (sample_env (TreeString [])) 1 (Some [0x53]) idle_gateway) 1 = kClosing \<or>
   0 < read_size (on_read (sample_env (TreeString [])) 1 (Some [0x53]) idle_gateway) 1"
  by (rule read_buffer_has_room [of "[0x53]" idle_gateway 1, OF _ refl])
    (simp add: read_size_def new_session_def kReadBufSize_def kHeaderSize_def)

end
