(* ===== verification/Gateway_Safety.thy ===== *)
theory Gateway_Safety
  imports Session_Stream
begin

text \<open>
  What a client can make the gateway of theory \<open>Transport_Gateway\<close> do: which frames reach
  the engine's command queue and when, what the handshake checks, what happens to a session that was
  closed, to a large snapshot, to a write on a closed socket and to a gateway that is stopped while
  clients are connected.
\<close>

section \<open>Frames of a session\<close>

lemma send_frame_simps [simp]:
  "gw_cmd_queue (send_frame mt fl p i g) = gw_cmd_queue g" "gw_snapshot (send_frame mt fl p i g) = gw_snapshot g"
  "gw_sessions (send_frame mt fl p i g) = gw_sessions g" "gw_dispatch (send_frame mt fl p i g) = gw_dispatch g"
  "gw_blocked (send_frame mt fl p i g) = gw_blocked g" "gw_terminated (send_frame mt fl p i g) = gw_terminated g"
  "gw_tasks (send_frame mt fl p i g) = gw_tasks g @ [WriteFrame i (encode_frame mt fl (cs_tx_seq (session_of g i)) p)]"
  "session_state (send_frame mt fl p i g) j = session_state g j"
  "cs_info (session_of (send_frame mt fl p i g) j) = cs_info (session_of g j)"
  "cs_socket_open (session_of (send_frame mt fl p i g) j) = cs_socket_open (session_of g j)"
  by (auto simp: send_frame_def send_def Let_def session_state_def)

lemma session_state_fields [simp]:
  "session_state (g\<lparr>gw_cmd_queue := a\<rparr>) j = session_state g j" "session_state (g\<lparr>gw_tasks := c\<rparr>) j = session_state g j"
  "session_state (g\<lparr>gw_dispatch := d\<rparr>) j = session_state g j" "session_state (g\<lparr>gw_clock_reads := r\<rparr>) j = session_state g j"
  by (simp_all add: session_state_def)

lemma send_chunks_simps:
  "gw_cmd_queue (send_chunks i cs g) = gw_cmd_queue g" "session_state (send_chunks i cs g) j = session_state g j"
  by (induction cs arbitrary: g) simp_all

lemma send_chunks_tasks: "\<exists>more. gw_tasks (send_chunks i cs g) = gw_tasks g @ more"
proof (induction cs arbitrary: g)
  case (Cons c cs)
  from Cons.IH [of "send_frame msg_type_kSnapshotChunk (if cs = [] then kFlagIsLastChunk else 0) c i g"]
  show ?case by auto
qed simp

lemma session_of_accepted: "session_of (accept_client i g) i = new_session\<lparr>cs_reading := True\<rparr>"
  by (simp add: accept_client_def do_read_def register_session_def) (simp add: session_of_def um_find_assign)

lemma now_us_simps [simp]:
  "fst (now_us env g) = ge_clock env (gw_clock_reads g)"
  "snd (now_us env g) = g\<lparr>gw_clock_reads := gw_clock_reads g + 1\<rparr>"
  by (simp_all add: now_us_def)

text \<open>The payload of a handshake the server accepts.\<close>

definition valid_handshake :: "'t FlatBuffers \<Rightarrow> u8 list \<Rightarrow> bool" where
  "valid_handshake fb payload \<longleftrightarrow> payload \<noteq> [] \<and> fb_VerifyBuffer fb (Handshake_Verify fb) payload \<and>
     Handshake_player_id fb (fb_GetRoot fb payload) \<noteq> None \<and> Handshake_auth_token fb (fb_GetRoot fb payload) \<noteq> None"

definition handshake_player :: "'t FlatBuffers \<Rightarrow> u8 list \<Rightarrow> string" where
  "handshake_player fb payload =
     (case Handshake_player_id fb (fb_GetRoot fb payload) of None \<Rightarrow> [] | Some p \<Rightarrow> fb_str fb p)"

lemma handshake_accepted:
  assumes "valid_handshake (ge_fb env) (df_payload f)"
  shows "handle_handshake env i f g =
    (let fb = ge_fb env; g1 = g\<lparr>gw_clock_reads := gw_clock_reads g + 1\<rparr>;
         sid = ''SID-'' @ handshake_player fb (df_payload f) @ ''-'' @ u64_to_string (ge_clock env (gw_clock_reads g));
         g2 = update_session i (\<lambda>s. s\<lparr>cs_info := (cs_info s)\<lparr>ci_player_id := handshake_player fb (df_payload f),
                ci_session_id := sid, ci_state := kActive\<rparr>\<rparr>) g1;
         ack = CreateHandshakeAck fb (Some (fb_CreateString fb sid)) 20 None (ge_clock env (gw_clock_reads g + 1))
     in send_frame msg_type_kHandshakeAck 0 (fb_Finish fb ack) i (g2\<lparr>gw_clock_reads := gw_clock_reads g + 2\<rparr>))"
  using assms
  by (auto simp: handle_handshake_def valid_handshake_def handshake_player_def now_us_def Let_def)

lemma handshake_refused:
  assumes "\<not> valid_handshake (ge_fb env) (df_payload f)"
  shows "handle_handshake env i f g = close_session i g"
  using assms by (auto simp: handle_handshake_def valid_handshake_def Let_def split: option.split)

lemma handle_command_cases:
  "handle_command env i f g = g \<or> gw_cmd_queue (handle_command env i f g) = gw_cmd_queue g \<or>
   (\<exists>cmd. parse_payload (ge_fb env) (df_payload f) = Some cmd \<and>
      pq_push \<lparr>we_meta = \<lparr>meta_seq_id = df_seq_id f, meta_priority = PRIO_NORMAL,
                 meta_player_id = ci_player_id (cs_info (session_of g i)), meta_dispatch_area_uid = 0,
                 meta_timestamp_us = ge_clock env (gw_clock_reads g)\<rparr>, we_payload = cmd\<rparr>
        PRIO_NORMAL (gw_cmd_queue g) = Inr (gw_cmd_queue (handle_command env i f g)))"
  by (auto simp: handle_command_def Let_def now_us_def split: option.split sum.split)

lemma handle_command_state [simp]: "session_state (handle_command env i f g) j = session_state g j"
  by (auto simp: handle_command_def Let_def now_us_def split: option.split sum.split)

lemma handle_frame_other:
  assumes "df_msg_type f \<noteq> msg_type_kHandshake" and "df_msg_type f \<noteq> msg_type_kCommand"
  shows "gw_cmd_queue (handle_frame env i f g) = gw_cmd_queue g"
    "session_state (handle_frame env i f g) j = session_state g j"
  using assms
  by (auto simp: handle_frame_def Let_def handle_snapshot_request_def handle_heartbeat_def now_us_def
      handle_dispatch_channel_def send_chunks_simps split: option.split prod.split)

text \<open>What a session that is not active is sent in answer to a frame.\<close>

definition answers_inactive :: "'t FlatBuffers \<Rightarrow> session_id \<Rightarrow> DecodedFrame \<Rightarrow> IoTask list \<Rightarrow> bool" where
  "answers_inactive fb i f ts \<longleftrightarrow> ts = [] \<or>
     (\<exists>seq payload. df_msg_type f = msg_type_kHandshake \<and> valid_handshake fb (df_payload f) \<and>
        ts = [WriteFrame i (encode_frame msg_type_kHandshakeAck 0 seq payload)]) \<or>
     (\<exists>seq payload. df_msg_type f = msg_type_kHeartbeat \<and>
        ts = [WriteFrame i (encode_frame msg_type_kHeartbeatAck 0 seq payload)])"

lemma inactive_frame:
  assumes "\<not> is_active g i"
  shows "(df_msg_type f \<notin> {msg_type_kHandshake, msg_type_kHeartbeat} \<longrightarrow> handle_frame env i f g = g) \<and>
     gw_cmd_queue (handle_frame env i f g) = gw_cmd_queue g \<and> gw_dispatch (handle_frame env i f g) = gw_dispatch g \<and>
     (\<exists>ts. gw_tasks (handle_frame env i f g) = gw_tasks g @ ts \<and> answers_inactive (ge_fb env) i f ts)"
proof -
  have neq: "msg_type_kHeartbeat \<noteq> msg_type_kHandshake" "msg_type_kHeartbeat \<noteq> msg_type_kSnapshotRequest"
    "msg_type_kHeartbeat \<noteq> msg_type_kCommand"
    by (simp_all add: msg_type_defs)
  consider "df_msg_type f = msg_type_kHandshake" | "df_msg_type f = msg_type_kHeartbeat"
    | "df_msg_type f \<notin> {msg_type_kHandshake, msg_type_kHeartbeat}" by blast
  then show ?thesis
  proof cases
    case 1
    then show ?thesis
      by (cases "valid_handshake (ge_fb env) (df_payload f)")
        (auto simp: handle_frame_def handshake_accepted handshake_refused answers_inactive_def close_session_def
          unregister_session_def Let_def)
  next
    case 2
    then show ?thesis using neq by (auto simp: handle_frame_def handle_heartbeat_def answers_inactive_def now_us_def Let_def)
  next
    case 3
    then have "handle_frame env i f g = g" using assms by (simp add: handle_frame_def Let_def)
    then show ?thesis by (simp add: answers_inactive_def)
  qed
qed

section \<open>Properties\<close>

text \<open>
  C4.  Commands reach the engine only through an active session: if a frame changes the command
  queue, it is a command frame of a session that was active, it parses, and it is pushed once, under
  the sender's player id, its sequence number and the priority NORMAL; and a session becomes active
  only by a valid handshake of its own.  A frame of a session that is not active changes nothing at all
  unless it is a handshake or a heartbeat; these leave the command queue and the dispatch channel alone and
  are answered by at most one frame to the sender, the acknowledgement of a valid handshake or of the
  heartbeat.  So an inactive session gets no snapshot and sends no telegram.
\<close>

theorem commands_need_active_session:
  fixes g :: "'d TransportGateway"
  assumes "g' = handle_frame env i f g"
  shows "(gw_cmd_queue g' \<noteq> gw_cmd_queue g \<longrightarrow>
       is_active g i \<and> df_msg_type f = msg_type_kCommand \<and>
       (\<exists>cmd t. parse_payload (ge_fb env) (df_payload f) = Some cmd \<and>
          pq_push \<lparr>we_meta = \<lparr>meta_seq_id = df_seq_id f, meta_priority = PRIO_NORMAL,
                     meta_player_id = ci_player_id (cs_info (session_of g i)), meta_dispatch_area_uid = 0,
                     meta_timestamp_us = t\<rparr>, we_payload = cmd\<rparr>
            PRIO_NORMAL (gw_cmd_queue g) = Inr (gw_cmd_queue g'))) \<and>
     (is_active g' i \<and> \<not> is_active g i \<longrightarrow>
       df_msg_type f = msg_type_kHandshake \<and> valid_handshake (ge_fb env) (df_payload f)) \<and>
     (\<not> is_active g i \<longrightarrow>
       (df_msg_type f \<notin> {msg_type_kHandshake, msg_type_kHeartbeat} \<longrightarrow> g' = g) \<and>
       gw_cmd_queue g' = gw_cmd_queue g \<and> gw_dispatch g' = gw_dispatch g \<and>
       (\<exists>ts. gw_tasks g' = gw_tasks g @ ts \<and> answers_inactive (ge_fb env) i f ts))"
proof -
  note inactive = inactive_frame [of g i f env, folded assms]
  have neq: "msg_type_kHandshake \<noteq> msg_type_kCommand" "msg_type_kSnapshotRequest \<noteq> msg_type_kCommand"
    "msg_type_kHandshake \<noteq> msg_type_kSnapshotRequest"
    by (simp_all add: msg_type_defs)
  consider "df_msg_type f = msg_type_kHandshake" | "df_msg_type f = msg_type_kCommand"
    | "df_msg_type f \<noteq> msg_type_kHandshake" "df_msg_type f \<noteq> msg_type_kCommand" by blast
  then show ?thesis
  proof cases
    case 1
    show ?thesis
    proof (cases "valid_handshake (ge_fb env) (df_payload f)")
      case True
      then show ?thesis using 1 assms neq inactive by (simp add: handle_frame_def handshake_accepted Let_def)
    next
      case False
      then show ?thesis using 1 assms neq inactive by (simp add: handle_frame_def handshake_refused is_active_def)
    qed
  next
    case 2
    then have g': "g' = (if is_active g i then handle_command env i f g else g)"
      using assms neq by (simp add: handle_frame_def)
    show ?thesis
    proof (cases "is_active g i")
      case True
      with handle_command_cases [of env i f g] 2 g' show ?thesis by auto
    qed (use g' 2 inactive in simp)
  next
    case 3
    then show ?thesis using assms inactive by (simp add: handle_frame_other is_active_def)
  qed
qed

theorem commands_need_active_session_witness:
  "\<not> is_active (handle_frame (sample_env (TreeString [])) 1
      \<lparr>df_msg_type = 0x10, df_flags = 0, df_seq_id = 1, df_payload = [6]\<rparr> idle_gateway) 1 \<and>
   gw_cmd_queue (handle_frame (sample_env (TreeString [])) 1
      \<lparr>df_msg_type = 0x10, df_flags = 0, df_seq_id = 1, df_payload = [6]\<rparr> idle_gateway) = gw_cmd_queue idle_gateway"
proof -
  have "\<not> is_active idle_gateway 1" by (simp add: is_active_def session_state_def new_session_def)
  then show ?thesis using commands_need_active_session [OF refl, of "sample_env (TreeString [])" 1
      "\<lparr>df_msg_type = 0x10, df_flags = 0, df_seq_id = 1, df_payload = [6]\<rparr>" idle_gateway]
    by (auto simp: msg_type_defs)
qed

text \<open>
  The handshake checks that a token is present, not which: two valid handshakes with the same
  player id have the same effect, whatever their tokens and protocol versions.
\<close>

theorem any_token_is_accepted:
  assumes "valid_handshake (ge_fb env) p" and "valid_handshake (ge_fb env) q"
    and "handshake_player (ge_fb env) p = handshake_player (ge_fb env) q"
  shows "handle_handshake env i (f\<lparr>df_payload := p\<rparr>) g = handle_handshake env i (f\<lparr>df_payload := q\<rparr>) g \<and>
    is_active (handle_handshake env i (f\<lparr>df_payload := p\<rparr>) g) i"
  using assms by (simp add: handshake_accepted Let_def is_active_def session_state_def)

definition handshake_env :: "(FbTree, unit) GatewayEnv" where
  "handshake_env = (sample_env (TreeString []))\<lparr>ge_fb := tree_runtime (\<lambda>b.
     TreeTable [AddOffset 6 (Some (TreeString ''anna'')),
                AddOffset 8 (Some (TreeString (if b = [1] then ''forged'' else ''token'')))])\<rparr>"

lemma handshake_env_valid:
  "p \<noteq> [] \<Longrightarrow> valid_handshake (ge_fb handshake_env) p" "handshake_player (ge_fb handshake_env) p = ''anna''"
  by (simp_all add: valid_handshake_def handshake_player_def handshake_env_def tree_runtime_def Handshake_defs)

theorem any_token_is_accepted_witness:
  "handle_handshake handshake_env 1 \<lparr>df_msg_type = 1, df_flags = 0, df_seq_id = 0, df_payload = [1]\<rparr> idle_gateway =
   handle_handshake handshake_env 1 \<lparr>df_msg_type = 1, df_flags = 0, df_seq_id = 0, df_payload = [2]\<rparr> idle_gateway"
  using any_token_is_accepted [of handshake_env "[1]" "[2]" 1
      "\<lparr>df_msg_type = 1, df_flags = 0, df_seq_id = 0, df_payload = []\<rparr>" idle_gateway]
  by (simp add: handshake_env_valid)

text \<open>
  Closing a session does not end it: a valid handshake still in the read buffer makes the
  closed session active again, and a command after it is queued although the socket is closed.
\<close>

theorem closed_session_still_commands:
  assumes "valid_handshake (ge_fb env) p" and "parse_payload (ge_fb env) c = Some cmd"
    and "\<not> pq_closed (gw_cmd_queue g)"
    and "g' = handle_frame env i \<lparr>df_msg_type = msg_type_kCommand, df_flags = 0, df_seq_id = n, df_payload = c\<rparr>
      (handle_frame env i \<lparr>df_msg_type = msg_type_kHandshake, df_flags = 0, df_seq_id = m, df_payload = p\<rparr>
        (close_session i g))"
  shows "is_active g' i \<and> \<not> cs_socket_open (session_of g' i) \<and>
    (\<exists>e. we_payload e = cmd \<and> pq_push e PRIO_NORMAL (gw_cmd_queue g) = Inr (gw_cmd_queue g'))"
proof -
  let ?hs = "\<lparr>df_msg_type = msg_type_kHandshake, df_flags = 0, df_seq_id = m, df_payload = p\<rparr>"
  let ?cmd = "\<lparr>df_msg_type = msg_type_kCommand, df_flags = 0, df_seq_id = n, df_payload = c\<rparr>"
  define h where "h = handle_frame env i ?hs (close_session i g)"
  have neq: "msg_type_kCommand \<noteq> msg_type_kHandshake" "msg_type_kCommand \<noteq> msg_type_kSnapshotRequest"
    by (simp_all add: msg_type_defs)
  have h: "is_active h i" "\<not> cs_socket_open (session_of h i)" "gw_cmd_queue h = gw_cmd_queue g"
    using assms(1) by (simp_all add: h_def handle_frame_def handshake_accepted Let_def is_active_def session_state_def)
  have c: "c \<noteq> []" using assms(2) by (auto simp: parse_payload_def)
  have "g' = handle_frame env i ?cmd h" using assms(4) by (simp only: h_def)
  also have "\<dots> = handle_command env i ?cmd h" using h(1) neq by (simp add: handle_frame_def)
  finally have "g' = handle_command env i ?cmd h" .
  moreover obtain q where "pq_push e PRIO_NORMAL (gw_cmd_queue g) = Inr (q e)" for e
    using assms(3) by (simp add: pq_push_def Let_def)
  moreover have "is_active g' i \<and> \<not> cs_socket_open (session_of g' i)"
    using calculation assms(2) c h by (simp add: handle_command_def Let_def now_us_def is_active_def)
  moreover define e where "e = \<lparr>we_meta = \<lparr>meta_seq_id = n, meta_priority = PRIO_NORMAL,
      meta_player_id = ci_player_id (cs_info (session_of h i)), meta_dispatch_area_uid = 0,
      meta_timestamp_us = ge_clock env (gw_clock_reads h)\<rparr>, we_payload = cmd\<rparr>"
  ultimately have "is_active g' i \<and> \<not> cs_socket_open (session_of g' i) \<and> we_payload e = cmd \<and>
      pq_push e PRIO_NORMAL (gw_cmd_queue g) = Inr (gw_cmd_queue g')"
    using assms(2) c h by (simp add: handle_command_def Let_def now_us_def)
  then show ?thesis by blast
qed

theorem closed_session_still_commands_witness:
  "\<exists>g' :: unit TransportGateway. is_active g' 1 \<and> \<not> cs_socket_open (session_of g' 1)"
proof -
  let ?env = "(sample_env (TreeString []))\<lparr>ge_fb := tree_runtime (\<lambda>b.
     TreeTable [AddElement_u64 4 9 0, AddOffset 6 (Some (TreeString ''anna'')), AddOffset 8 (Some (TreeString ''t''))])\<rparr>"
  have "valid_handshake (ge_fb ?env) [1]" by (simp add: valid_handshake_def tree_runtime_def Handshake_defs)
  moreover have "parse_payload (ge_fb ?env) [6] = Some (Wire_Command (CancelRouteCmd 9 False))"
    by (simp add: parse_payload_def parse_command_def cmd_type_defs tree_runtime_def CancelRoute_defs)
  moreover have "\<not> pq_closed (gw_cmd_queue idle_gateway)" by (simp add: idle_gateway_def pq_new_def)
  ultimately show ?thesis using closed_session_still_commands [of ?env "[1]" "[6]" _ idle_gateway _ 1] by blast
qed

text \<open>
  A client that never logs in can end the server's IO thread: a heartbeat followed, in one
  read, by sixteen bytes that are no frame posts an answer and closes the socket; the answer is then
  written to the closed socket, and the exception leaves the IO thread.
\<close>

theorem heartbeat_and_garbage_terminates_server:
  assumes "16 \<le> length junk" and "junk ! 0 \<noteq> kMagicByte0" and "length p \<le> 65535"
    and "gw_tasks g = []" and "\<not> gw_blocked g" and "\<not> gw_terminated g" and "\<not> gw_mutex_held g"
    and "g' = on_read env i (Some (encode_frame msg_type_kHeartbeat fl q p @ junk)) (accept_client i g)"
  shows "gw_terminated (run_next g')"
proof -
  let ?a = "accept_client i g"
  let ?f = "\<lparr>df_msg_type = msg_type_kHeartbeat, df_flags = fl, df_seq_id = q, df_payload = p\<rparr>"
  define hb where "hb = handle_frame env i ?f ?a"
  have acc: "cs_read_buf (session_of ?a i) = []" "gw_tasks ?a = []" "\<not> gw_blocked ?a" "\<not> gw_terminated ?a" "\<not> gw_mutex_held ?a"
    using assms(4-7) by (simp_all add: session_of_accepted new_session_def)
      (simp_all add: accept_client_def do_read_def register_session_def)
  have junk: "fdr_status (decode_frame junk) = kBadMagic"
    using assms(1,2) by (simp add: decode_frame_def kHeaderSize_def decode_failure_def)
  have len: "length (encode_frame msg_type_kHeartbeat fl q p) = 16 + length p"
    using assms(3) by (simp add: encode_frame_length)
  have dec: "decode_frame (encode_frame msg_type_kHeartbeat fl q p @ junk) =
    \<lparr>fdr_status = kOk, fdr_frame = ?f, fdr_bytes_consumed = word_of_nat (length (encode_frame msg_type_kHeartbeat fl q p))\<rparr>"
    using decode_framed [OF assms(3), of msg_type_kHeartbeat fl q _ "p @ junk"] assms(3) by (simp add: encode_frame_eq)
  have "unat (word_of_nat (length (encode_frame msg_type_kHeartbeat fl q p)) :: u32) = length (encode_frame msg_type_kHeartbeat fl q p)"
    using assms(3) by (simp only: unat_of_nat) (simp add: len)
  moreover have "junk \<noteq> []" using assms(1) by auto
  ultimately have "process_bytes env i (encode_frame msg_type_kHeartbeat fl q p @ junk) ?a = (junk, close_session i hb)"
    using dec junk by (simp add: process_bytes_step(3,4) hb_def)
  then have g': "g' = set_buffer i junk False (close_session i hb)"
    using on_read_bytes [of env i ?a "encode_frame msg_type_kHeartbeat fl q p @ junk"] acc(1) assms(8) by simp
  have hb: "\<exists>fr. gw_tasks hb = [WriteFrame i fr]" "\<not> gw_blocked hb" "\<not> gw_terminated hb" "\<not> gw_mutex_held hb"
    using acc by (simp_all add: hb_def handle_frame_def msg_type_defs handle_heartbeat_def now_us_def Let_def
        send_frame_def send_def)
  then show ?thesis
    by (auto simp: g' run_next_def run_task_def set_buffer_def close_session_def unregister_session_def)
qed

theorem heartbeat_and_garbage_terminates_server_witness:
  "gw_terminated (run_next (on_read (sample_env (TreeString [])) 2
     (Some (encode_frame msg_type_kHeartbeat 0 0 [] @ replicate 16 0)) (accept_client 2 idle_gateway)))"
  by (rule heartbeat_and_garbage_terminates_server [of "replicate 16 0" "[]" idle_gateway, OF _ _ _ _ _ _ _ refl])
    (simp_all add: kMagicByte0_def idle_gateway_def)

text \<open>
  Stopping the gateway never returns while a client is connected: the loop that closes the
  sessions holds the mutex that closing a session locks again; with no client it stops.
\<close>

theorem stop_blocks_with_clients:
  assumes "gw_running g" and "\<not> gw_mutex_held g" and "\<not> gw_blocked g"
  shows "gw_blocked (gateway_stop g) \<longleftrightarrow> gw_sessions g \<noteq> []"
proof -
  have held: "gw_mutex_held (close_session i h) = gw_mutex_held h" for i and h :: "'a TransportGateway"
    by (simp add: close_session_def unregister_session_def)
  have "gw_mutex_held h \<Longrightarrow> gw_blocked (fold close_session is h) \<longleftrightarrow> gw_blocked h \<or> is \<noteq> []" for "is" and h :: "'a TransportGateway"
    by (induction "is" arbitrary: h) (auto simp: held close_session_def unregister_session_def)
  then show ?thesis using assms by (simp add: gateway_stop_def Let_def)
qed

theorem stop_blocks_with_clients_witness:
  "gw_blocked (gateway_stop idle_gateway) \<longleftrightarrow> gw_sessions idle_gateway \<noteq> []"
  by (rule stop_blocks_with_clients) (simp_all add: idle_gateway_def)

text \<open>
  A client never receives a snapshot of 64 KiB or more: its first chunk fills the chunk size,
  which is one byte more than the longest payload the decoder of the same protocol accepts.
\<close>

theorem large_snapshot_is_unreadable:
  assumes "gw_snapshot g = Some snap" and "65536 \<le> length (serialize_snapshot (ge_fb env) snap)"
  shows "\<exists>frame more. gw_tasks (handle_snapshot_request env i f g) = gw_tasks g @ WriteFrame i frame # more \<and>
    (\<forall>rest. decode_frame (frame @ rest) = decode_failure kBadLength)"
proof -
  let ?b = "serialize_snapshot (ge_fb env) snap"
  obtain c cs where cs: "chunk ?b DEFAULT_CHUNK_SIZE = c # cs" using chunk_nonempty by (cases "chunk ?b DEFAULT_CHUNK_SIZE") auto
  have "c = take 65536 ?b"
    using chunk_first [of DEFAULT_CHUNK_SIZE ?b] assms(2) cs by (simp add: DEFAULT_CHUNK_SIZE_def)
  then have c: "length c = 65536" using assms(2) by simp
  let ?flag = "if cs = [] then kFlagIsLastChunk else 0"
  let ?frame = "encode_frame msg_type_kSnapshotChunk ?flag (cs_tx_seq (session_of g i)) c"
  obtain more where "gw_tasks (send_chunks i cs (send_frame msg_type_kSnapshotChunk ?flag c i g)) =
      (gw_tasks g @ [WriteFrame i ?frame]) @ more"
    using send_chunks_tasks [of i cs "send_frame msg_type_kSnapshotChunk ?flag c i g"] by auto
  then have "gw_tasks (handle_snapshot_request env i f g) = gw_tasks g @ WriteFrame i ?frame # more"
    using assms(1) cs by (simp add: handle_snapshot_request_def)
  moreover have "decode_frame (?frame @ rest) = decode_failure kBadLength" for rest
    by (rule oversized_frame_rejected) (simp_all add: c)
  ultimately show ?thesis by blast
qed

theorem large_snapshot_is_unreadable_witness:
  "\<exists>frame. decode_frame frame = decode_failure kBadLength"
proof -
  let ?env = "(sample_env (TreeString []))\<lparr>ge_fb := (tree_runtime (\<lambda>_. TreeString []))\<lparr>fb_Finish := \<lambda>_. replicate 70000 0\<rparr>\<rparr>"
  have "65536 \<le> length (serialize_snapshot (ge_fb ?env) (make_snapshot sample_station []))"
    by (simp add: serialize_snapshot_def)
  moreover have "gw_snapshot (idle_gateway\<lparr>gw_snapshot := Some (make_snapshot sample_station [])\<rparr>) = Some (make_snapshot sample_station [])"
    by simp
  ultimately obtain frame where "\<forall>rest. decode_frame (frame @ rest) = decode_failure kBadLength"
    using large_snapshot_is_unreadable [of "idle_gateway\<lparr>gw_snapshot := Some (make_snapshot sample_station [])\<rparr>"
      "make_snapshot sample_station []" ?env 1 undefined] by blast
  then have "decode_frame (frame @ []) = decode_failure kBadLength" by (rule spec)
  then show ?thesis by (intro exI [of _ frame]) simp
qed

end
