(* ===== verification/Proto_Dispatch.thy ===== *)
theory Proto_Dispatch
  imports Proto_Common
begin

text \<open>
  The dispatch channel tables of the wire protocol, \<^verbatim>\<open>autogens/proto/dispatch_channel_generated.h\<close>:
  per table its accessors, its verifier, the setters of its builder and its create function, over
  the FlatBuffers runtime of theory \<open>Proto_Library\<close>.
\<close>

section \<open>enum \<^verbatim>\<open>DispatchChannelMessageKind\<close>\<close>

definition DispatchChannelMessageKind_DISPATCH_FORM :: i8 where "DispatchChannelMessageKind_DISPATCH_FORM = 0"
definition DispatchChannelMessageKind_FREE_TEXT :: i8 where "DispatchChannelMessageKind_FREE_TEXT = 1"

definition EnumValuesDispatchChannelMessageKind :: "i8 list" where
  "EnumValuesDispatchChannelMessageKind = [0, 1]"

definition EnumNamesDispatchChannelMessageKind :: "string list" where
  "EnumNamesDispatchChannelMessageKind = [''DISPATCH_FORM'', ''FREE_TEXT'']"

definition EnumNameDispatchChannelMessageKind :: "i8 \<Rightarrow> string" where
  "EnumNameDispatchChannelMessageKind e = (if sint e < 0 \<or> 1 < sint e then [] else EnumNamesDispatchChannelMessageKind ! unat e)"

section \<open>enum \<^verbatim>\<open>DispatchChannelMessageBody\<close>\<close>

definition DispatchChannelMessageBody_DispatchFormPayload :: u8 where "DispatchChannelMessageBody_DispatchFormPayload = 1"
definition DispatchChannelMessageBody_FreeTextPayload :: u8 where "DispatchChannelMessageBody_FreeTextPayload = 2"

definition EnumValuesDispatchChannelMessageBody :: "u8 list" where
  "EnumValuesDispatchChannelMessageBody = [0, 1, 2]"

definition EnumNamesDispatchChannelMessageBody :: "string list" where
  "EnumNamesDispatchChannelMessageBody = [''NONE'', ''DispatchFormPayload'', ''FreeTextPayload'']"

definition EnumNameDispatchChannelMessageBody :: "u8 \<Rightarrow> string" where
  "EnumNameDispatchChannelMessageBody e = (if e < 0 \<or> 2 < e then [] else EnumNamesDispatchChannelMessageBody ! unat e)"

section \<open>table \<^verbatim>\<open>DispatchFormPayload\<close>\<close>

definition DispatchFormPayload_form_type :: "'t FlatBuffers \<Rightarrow> 't \<Rightarrow> i8" where
  "DispatchFormPayload_form_type fb t = fb_GetField_i8 fb t 4 0"

definition DispatchFormPayload_train_number :: "'t FlatBuffers \<Rightarrow> 't \<Rightarrow> 't option" where
  "DispatchFormPayload_train_number fb t = fb_GetPointer fb t 6"

definition DispatchFormPayload_km_markers :: "'t FlatBuffers \<Rightarrow> 't \<Rightarrow> 't option" where
  "DispatchFormPayload_km_markers fb t = fb_GetPointer fb t 8"

definition DispatchFormPayload_track_number :: "'t FlatBuffers \<Rightarrow> 't \<Rightarrow> 't option" where
  "DispatchFormPayload_track_number fb t = fb_GetPointer fb t 10"

definition DispatchFormPayload_Verify :: "'t FlatBuffers \<Rightarrow> 't \<Rightarrow> bool" where
  "DispatchFormPayload_Verify fb t \<longleftrightarrow>
     fb_VerifyTableStart fb t \<and>
     fb_VerifyField fb t 4 1 \<and>
     fb_VerifyOffsetRequired fb t 6 \<and>
     fb_VerifyString fb (DispatchFormPayload_train_number fb t) \<and>
     fb_VerifyOffset fb t 8 \<and>
     fb_VerifyVector fb (DispatchFormPayload_km_markers fb t) \<and>
     fb_VerifyVectorOfStrings fb (DispatchFormPayload_km_markers fb t) \<and>
     fb_VerifyOffset fb t 10 \<and>
     fb_VerifyString fb (DispatchFormPayload_track_number fb t) \<and>
     fb_EndTable fb t"

definition DispatchFormPayload_add_form_type :: "i8 \<Rightarrow> 't FbElem" where
  "DispatchFormPayload_add_form_type form_type = AddElement_i8 4 form_type 0"

definition DispatchFormPayload_add_train_number :: "'t option \<Rightarrow> 't FbElem" where
  "DispatchFormPayload_add_train_number train_number = AddOffset 6 train_number"

definition DispatchFormPayload_add_km_markers :: "'t option \<Rightarrow> 't FbElem" where
  "DispatchFormPayload_add_km_markers km_markers = AddOffset 8 km_markers"

definition DispatchFormPayload_add_track_number :: "'t option \<Rightarrow> 't FbElem" where
  "DispatchFormPayload_add_track_number track_number = AddOffset 10 track_number"

definition CreateDispatchFormPayload :: "'t FlatBuffers \<Rightarrow> i8 \<Rightarrow> 't option \<Rightarrow> 't option \<Rightarrow> 't option \<Rightarrow> 't" where
  "CreateDispatchFormPayload fb form_type train_number km_markers track_number =
     fb_Table fb [DispatchFormPayload_add_track_number track_number,
        DispatchFormPayload_add_km_markers km_markers,
        DispatchFormPayload_add_train_number train_number,
        DispatchFormPayload_add_form_type form_type]"

lemmas DispatchFormPayload_defs = DispatchFormPayload_form_type_def
 DispatchFormPayload_train_number_def DispatchFormPayload_km_markers_def
 DispatchFormPayload_track_number_def DispatchFormPayload_Verify_def
 DispatchFormPayload_add_form_type_def DispatchFormPayload_add_train_number_def
 DispatchFormPayload_add_km_markers_def DispatchFormPayload_add_track_number_def
 CreateDispatchFormPayload_def

section \<open>table \<^verbatim>\<open>FreeTextPayload\<close>\<close>

definition FreeTextPayload_body :: "'t FlatBuffers \<Rightarrow> 't \<Rightarrow> 't option" where
  "FreeTextPayload_body fb t = fb_GetPointer fb t 4"

definition FreeTextPayload_Verify :: "'t FlatBuffers \<Rightarrow> 't \<Rightarrow> bool" where
  "FreeTextPayload_Verify fb t \<longleftrightarrow>
     fb_VerifyTableStart fb t \<and>
     fb_VerifyOffsetRequired fb t 4 \<and>
     fb_VerifyString fb (FreeTextPayload_body fb t) \<and>
     fb_EndTable fb t"

definition FreeTextPayload_add_body :: "'t option \<Rightarrow> 't FbElem" where
  "FreeTextPayload_add_body body = AddOffset 4 body"

definition CreateFreeTextPayload :: "'t FlatBuffers \<Rightarrow> 't option \<Rightarrow> 't" where
  "CreateFreeTextPayload fb body =
     fb_Table fb [FreeTextPayload_add_body body]"

lemmas FreeTextPayload_defs = FreeTextPayload_body_def FreeTextPayload_Verify_def
 FreeTextPayload_add_body_def CreateFreeTextPayload_def

section \<open>table \<^verbatim>\<open>DispatchChannelMessage\<close>\<close>

definition DispatchChannelMessage_src_area_uid :: "'t FlatBuffers \<Rightarrow> 't \<Rightarrow> u64" where
  "DispatchChannelMessage_src_area_uid fb t = fb_GetField_u64 fb t 4 0"

definition DispatchChannelMessage_dst_area_uid :: "'t FlatBuffers \<Rightarrow> 't \<Rightarrow> u64" where
  "DispatchChannelMessage_dst_area_uid fb t = fb_GetField_u64 fb t 6 0"

definition DispatchChannelMessage_direction :: "'t FlatBuffers \<Rightarrow> 't \<Rightarrow> i8" where
  "DispatchChannelMessage_direction fb t = fb_GetField_i8 fb t 8 0"

definition DispatchChannelMessage_kind :: "'t FlatBuffers \<Rightarrow> 't \<Rightarrow> i8" where
  "DispatchChannelMessage_kind fb t = fb_GetField_i8 fb t 10 0"

definition DispatchChannelMessage_body_type :: "'t FlatBuffers \<Rightarrow> 't \<Rightarrow> u8" where
  "DispatchChannelMessage_body_type fb t = fb_GetField_u8 fb t 12 0"

definition DispatchChannelMessage_body :: "'t FlatBuffers \<Rightarrow> 't \<Rightarrow> 't option" where
  "DispatchChannelMessage_body fb t = fb_GetPointer fb t 14"

definition DispatchChannelMessage_body_as_DispatchFormPayload :: "'t FlatBuffers \<Rightarrow> 't \<Rightarrow> 't option" where
  "DispatchChannelMessage_body_as_DispatchFormPayload fb t = (if DispatchChannelMessage_body_type fb t = DispatchChannelMessageBody_DispatchFormPayload then DispatchChannelMessage_body fb t else None)"

definition DispatchChannelMessage_body_as_FreeTextPayload :: "'t FlatBuffers \<Rightarrow> 't \<Rightarrow> 't option" where
  "DispatchChannelMessage_body_as_FreeTextPayload fb t = (if DispatchChannelMessage_body_type fb t = DispatchChannelMessageBody_FreeTextPayload then DispatchChannelMessage_body fb t else None)"

definition DispatchChannelMessage_exchange_uid :: "'t FlatBuffers \<Rightarrow> 't \<Rightarrow> u64" where
  "DispatchChannelMessage_exchange_uid fb t = fb_GetField_u64 fb t 16 0"

definition DispatchChannelMessage_exchange_status :: "'t FlatBuffers \<Rightarrow> 't \<Rightarrow> i8" where
  "DispatchChannelMessage_exchange_status fb t = fb_GetField_i8 fb t 18 0"

definition DispatchChannelMessage_timestamp_us :: "'t FlatBuffers \<Rightarrow> 't \<Rightarrow> u64" where
  "DispatchChannelMessage_timestamp_us fb t = fb_GetField_u64 fb t 20 0"

definition DispatchChannelMessage_sender_id :: "'t FlatBuffers \<Rightarrow> 't \<Rightarrow> 't option" where
  "DispatchChannelMessage_sender_id fb t = fb_GetPointer fb t 22"

definition VerifyDispatchChannelMessageBody :: "'t FlatBuffers \<Rightarrow> 't option \<Rightarrow> u8 \<Rightarrow> bool" where
  "VerifyDispatchChannelMessageBody fb obj ty \<longleftrightarrow> (if ty = DispatchChannelMessageBody_DispatchFormPayload then fb_VerifyTable fb (DispatchFormPayload_Verify fb) obj else (if ty = DispatchChannelMessageBody_FreeTextPayload then fb_VerifyTable fb (FreeTextPayload_Verify fb) obj else True))"

definition DispatchChannelMessage_Verify :: "'t FlatBuffers \<Rightarrow> 't \<Rightarrow> bool" where
  "DispatchChannelMessage_Verify fb t \<longleftrightarrow>
     fb_VerifyTableStart fb t \<and>
     fb_VerifyField fb t 4 8 \<and>
     fb_VerifyField fb t 6 8 \<and>
     fb_VerifyField fb t 8 1 \<and>
     fb_VerifyField fb t 10 1 \<and>
     fb_VerifyField fb t 12 1 \<and>
     fb_VerifyOffset fb t 14 \<and>
     VerifyDispatchChannelMessageBody fb (DispatchChannelMessage_body fb t) (DispatchChannelMessage_body_type fb t) \<and>
     fb_VerifyField fb t 16 8 \<and>
     fb_VerifyField fb t 18 1 \<and>
     fb_VerifyField fb t 20 8 \<and>
     fb_VerifyOffset fb t 22 \<and>
     fb_VerifyString fb (DispatchChannelMessage_sender_id fb t) \<and>
     fb_EndTable fb t"

definition DispatchChannelMessage_add_src_area_uid :: "u64 \<Rightarrow> 't FbElem" where
  "DispatchChannelMessage_add_src_area_uid src_area_uid = AddElement_u64 4 src_area_uid 0"

definition DispatchChannelMessage_add_dst_area_uid :: "u64 \<Rightarrow> 't FbElem" where
  "DispatchChannelMessage_add_dst_area_uid dst_area_uid = AddElement_u64 6 dst_area_uid 0"

definition DispatchChannelMessage_add_direction :: "i8 \<Rightarrow> 't FbElem" where
  "DispatchChannelMessage_add_direction direction = AddElement_i8 8 direction 0"

definition DispatchChannelMessage_add_kind :: "i8 \<Rightarrow> 't FbElem" where
  "DispatchChannelMessage_add_kind kind = AddElement_i8 10 kind 0"

definition DispatchChannelMessage_add_body_type :: "u8 \<Rightarrow> 't FbElem" where
  "DispatchChannelMessage_add_body_type body_type = AddElement_u8 12 body_type 0"

definition DispatchChannelMessage_add_body :: "'t option \<Rightarrow> 't FbElem" where
  "DispatchChannelMessage_add_body body = AddOffset 14 body"

definition DispatchChannelMessage_add_exchange_uid :: "u64 \<Rightarrow> 't FbElem" where
  "DispatchChannelMessage_add_exchange_uid exchange_uid = AddElement_u64 16 exchange_uid 0"

definition DispatchChannelMessage_add_exchange_status :: "i8 \<Rightarrow> 't FbElem" where
  "DispatchChannelMessage_add_exchange_status exchange_status = AddElement_i8 18 exchange_status 0"

definition DispatchChannelMessage_add_timestamp_us :: "u64 \<Rightarrow> 't FbElem" where
  "DispatchChannelMessage_add_timestamp_us timestamp_us = AddElement_u64 20 timestamp_us 0"

definition DispatchChannelMessage_add_sender_id :: "'t option \<Rightarrow> 't FbElem" where
  "DispatchChannelMessage_add_sender_id sender_id = AddOffset 22 sender_id"

definition CreateDispatchChannelMessage :: "'t FlatBuffers \<Rightarrow> u64 \<Rightarrow> u64 \<Rightarrow> i8 \<Rightarrow> i8 \<Rightarrow> u8 \<Rightarrow> 't option \<Rightarrow> u64 \<Rightarrow> i8 \<Rightarrow> u64 \<Rightarrow> 't option \<Rightarrow> 't" where
  "CreateDispatchChannelMessage fb src_area_uid dst_area_uid direction kind body_type body exchange_uid exchange_status timestamp_us sender_id =
     fb_Table fb [DispatchChannelMessage_add_timestamp_us timestamp_us,
        DispatchChannelMessage_add_exchange_uid exchange_uid,
        DispatchChannelMessage_add_dst_area_uid dst_area_uid,
        DispatchChannelMessage_add_src_area_uid src_area_uid,
        DispatchChannelMessage_add_sender_id sender_id,
        DispatchChannelMessage_add_body body,
        DispatchChannelMessage_add_exchange_status exchange_status,
        DispatchChannelMessage_add_body_type body_type,
        DispatchChannelMessage_add_kind kind, DispatchChannelMessage_add_direction direction]"

lemmas DispatchChannelMessage_defs = DispatchChannelMessage_src_area_uid_def
 DispatchChannelMessage_dst_area_uid_def DispatchChannelMessage_direction_def
 DispatchChannelMessage_kind_def DispatchChannelMessage_body_type_def
 DispatchChannelMessage_body_def DispatchChannelMessage_body_as_DispatchFormPayload_def
 DispatchChannelMessage_body_as_FreeTextPayload_def
 DispatchChannelMessage_exchange_uid_def DispatchChannelMessage_exchange_status_def
 DispatchChannelMessage_timestamp_us_def DispatchChannelMessage_sender_id_def
 DispatchChannelMessage_Verify_def DispatchChannelMessage_add_src_area_uid_def
 DispatchChannelMessage_add_dst_area_uid_def DispatchChannelMessage_add_direction_def
 DispatchChannelMessage_add_kind_def DispatchChannelMessage_add_body_type_def
 DispatchChannelMessage_add_body_def DispatchChannelMessage_add_exchange_uid_def
 DispatchChannelMessage_add_exchange_status_def
 DispatchChannelMessage_add_timestamp_us_def DispatchChannelMessage_add_sender_id_def
 CreateDispatchChannelMessage_def

end
