(* ===== verification/Dispatch_Channel.thy ===== *)
theory Dispatch_Channel
  imports Dispatch_Coordinator Gateway_Safety Proto_Dispatch
begin

text \<open>
  The wire side of the telegrams, \<^verbatim>\<open>server/src/dispatch_channel.cpp\<close>: a message of the
  dispatch channel is verified, checked against the area of its sender, handed to the coordinator
  and sent on to both areas.  \<open>on_inbound\<close> has the type of the gateway's dispatch channel
  handler; the task it posts is the broadcast to the pair.  The system clock is a parameter.
\<close>

section \<open>Conversions\<close>

definition to_engine_form :: "i8 \<Rightarrow> DispatchFormType" where
  "to_engine_form ft =
     (if ft = DispatchFormType_S2 then S2 else if ft = DispatchFormType_S24 then S24
      else if ft = DispatchFormType_S25 then S25 else if ft = DispatchFormType_S26 then S26
      else if ft = DispatchFormType_S55 then S55 else if ft = DispatchFormType_S56 then S56 else S2)"

fun to_proto_status :: "ExchangeStatus \<Rightarrow> i8" where
  "to_proto_status EX_IDLE = ExchangeStatus_PENDING"
| "to_proto_status S2_SENT = ExchangeStatus_PENDING"
| "to_proto_status S25_SENT = ExchangeStatus_PENDING"
| "to_proto_status S24_RECEIVED = ExchangeStatus_ACCEPTED"
| "to_proto_status S26_RECEIVED = ExchangeStatus_ACCEPTED"
| "to_proto_status EX_CANCELLED = ExchangeStatus_REJECTED"
| "to_proto_status EX_CLOSED = ExchangeStatus_CLOSED"

section \<open>An inbound message\<close>

definition free_text_frame ::
    "'t FlatBuffers \<Rightarrow> u64 \<Rightarrow> u64 \<Rightarrow> string \<Rightarrow> string \<Rightarrow> u64 \<Rightarrow> u8 list" where
  "free_text_frame fb src_uid dst_uid sender_client_id body ts =
    (let root = CreateDispatchChannelMessage fb src_uid dst_uid TelegramDirection_SENT
                  DispatchChannelMessageKind_FREE_TEXT DispatchChannelMessageBody_FreeTextPayload
                  (Some (CreateFreeTextPayload fb (Some (fb_CreateString fb body)))) 0 ExchangeStatus_ACCEPTED ts
                  (Some (fb_CreateString fb sender_client_id))
     in encode_frame msg_type_kDispatchChannel 0 0 (fb_Finish fb root))"

definition wire_exchange_uid :: "string \<Rightarrow> u64" where
  "wire_exchange_uid exchange_id = (case stoull exchange_id of Inl _ \<Rightarrow> 0 | Inr n \<Rightarrow> n)"

definition dispatch_form_frame ::
    "'t FlatBuffers \<Rightarrow> u64 \<Rightarrow> u64 \<Rightarrow> i8 \<Rightarrow> i8 \<Rightarrow> string \<Rightarrow> string \<Rightarrow> string list \<Rightarrow> string option \<Rightarrow>
     DispatchOutcome \<Rightarrow> u64 \<Rightarrow> u8 list" where
  "dispatch_form_frame fb src_uid dst_uid direction form_type sender_client_id train_number km_markers track_number
     outcome ts =
    (let km_vec = fb_CreateVector_refs fb (map (fb_CreateString fb) km_markers);
         dfp = CreateDispatchFormPayload fb form_type (Some (fb_CreateString fb train_number)) (Some km_vec)
                 (map_option (fb_CreateString fb) track_number);
         root = CreateDispatchChannelMessage fb src_uid dst_uid direction DispatchChannelMessageKind_DISPATCH_FORM
                  DispatchChannelMessageBody_DispatchFormPayload (Some dfp)
                  (wire_exchange_uid (do_exchange_id outcome)) (to_proto_status (do_new_status outcome)) ts
                  (Some (fb_CreateString fb sender_client_id))
     in encode_frame msg_type_kDispatchChannel 0 0 (fb_Finish fb root))"

definition on_inbound ::
    "'t FlatBuffers \<Rightarrow> u64 \<Rightarrow> DispatchCoordinator \<Rightarrow> u8 list \<Rightarrow> string \<Rightarrow> string \<Rightarrow> DispatchCoordinator \<times> IoTask list" where
  "on_inbound fb ts c payload sender_client_id sender_area_id =
    (if \<not> fb_VerifyBuffer fb (DispatchChannelMessage_Verify fb) payload then (c, [])
     else let msg = fb_GetRoot fb payload;
              src_uid = DispatchChannelMessage_src_area_uid fb msg;
              dst_uid = DispatchChannelMessage_dst_area_uid fb msg
       in if src_uid = 0 \<or> dst_uid = 0 then (c, [])
       else let src_area = u64_to_string src_uid; dst_area = u64_to_string dst_uid
       in if src_area \<noteq> sender_area_id then (c, [])
       else if DispatchChannelMessage_kind fb msg = DispatchChannelMessageKind_FREE_TEXT then
         (case DispatchChannelMessage_body_as_FreeTextPayload fb msg of
            None \<Rightarrow> (c, [])
          | Some ft_payload \<Rightarrow>
            (case FreeTextPayload_body fb ft_payload of
               None \<Rightarrow> (c, [])
             | Some b \<Rightarrow>
                (let body = fb_str fb b
                 in (snd (handle_free_text src_area dst_area body ts c),
                     [BroadcastToPair src_area dst_area
                        (free_text_frame fb src_uid dst_uid sender_client_id body ts)]))))
       else
         (case DispatchChannelMessage_body_as_DispatchFormPayload fb msg of
            None \<Rightarrow> (c, [])
          | Some form_payload \<Rightarrow>
            (case DispatchFormPayload_train_number fb form_payload of
               None \<Rightarrow> (c, [])
             | Some tn \<Rightarrow>
                (let train_number = fb_str fb tn;
                     form = to_engine_form (DispatchFormPayload_form_type fb form_payload);
                     direction = (if DispatchChannelMessage_direction fb msg = TelegramDirection_SENT then SENT else RECEIVED);
                     track_number = map_option (fb_str fb) (DispatchFormPayload_track_number fb form_payload);
                     km_markers = (case DispatchFormPayload_km_markers fb form_payload of
                                     None \<Rightarrow> [] | Some km \<Rightarrow> map (fb_str fb) (fb_vec_refs fb km));
                     (outcome, c') = handle_dispatch_form form direction src_area dst_area train_number track_number km_markers ts c
                 in case outcome of
                      Inr (Some out) \<Rightarrow>
                        (c', [BroadcastToPair src_area dst_area
                           (dispatch_form_frame fb src_uid dst_uid (DispatchChannelMessage_direction fb msg)
                              (DispatchFormPayload_form_type fb form_payload) sender_client_id train_number km_markers
                              track_number out ts)])
                    | _ \<Rightarrow> (c', [])))))"

section \<open>The sender's area is never set\<close>

definition no_areas :: "'d TransportGateway \<Rightarrow> bool" where
  "no_areas g \<longleftrightarrow> (\<forall>i. ci_dispatch_area_id (cs_info (session_of g i)) = [])"

lemma no_areas_update:
  "no_areas g \<Longrightarrow> (\<And>s. ci_dispatch_area_id (cs_info (f s)) = ci_dispatch_area_id (cs_info s)) \<Longrightarrow>
     no_areas (update_session i f g)"
  by (simp add: no_areas_def)

lemma no_areas_fields [simp]:
  "no_areas (g\<lparr>gw_cmd_queue := a\<rparr>) = no_areas g" "no_areas (g\<lparr>gw_tasks := c\<rparr>) = no_areas g"
  "no_areas (g\<lparr>gw_dispatch := d\<rparr>) = no_areas g" "no_areas (g\<lparr>gw_clock_reads := r\<rparr>) = no_areas g"
  "no_areas (g\<lparr>gw_sessions := b\<rparr>) = no_areas g" "no_areas (g\<lparr>gw_blocked := e\<rparr>) = no_areas g"
  "no_areas (g\<lparr>gw_terminated := t\<rparr>) = no_areas g"
  by (simp_all add: no_areas_def)

lemma no_areas_close: "no_areas g \<Longrightarrow> no_areas (close_session i g)"
  by (simp add: close_session_def unregister_session_def no_areas_update)

lemma no_areas_send_frame: "no_areas g \<Longrightarrow> no_areas (send_frame mt fl p i g)"
  by (simp add: send_frame_def Let_def send_def no_areas_update)

lemma no_areas_send_chunks: "no_areas g \<Longrightarrow> no_areas (send_chunks i cs g)"
  by (induction cs arbitrary: g) (simp_all add: no_areas_send_frame)

lemma gw_dispatch_simps [simp]:
  "gw_dispatch (update_session i f g) = gw_dispatch g" "gw_dispatch (send_frame mt fl p i g) = gw_dispatch g"
  "gw_dispatch (send_chunks i cs g) = gw_dispatch g" "gw_dispatch (close_session i g) = gw_dispatch g"
  subgoal by (simp add: update_session_def)
  subgoal by (simp add: send_frame_def Let_def send_def update_session_def)
  subgoal by (induction cs arbitrary: g) (simp_all add: send_frame_def Let_def send_def update_session_def)
  subgoal by (simp add: close_session_def unregister_session_def update_session_def)
  done

text \<open>What every handler but the one of the channel itself leaves alone.\<close>

lemma handlers_keep_dispatch:
  assumes "no_areas g"
  shows "no_areas (handle_handshake env i f g) \<and> gw_dispatch (handle_handshake env i f g) = gw_dispatch g"
    and "no_areas (handle_snapshot_request env i f g) \<and>
         gw_dispatch (handle_snapshot_request env i f g) = gw_dispatch g"
    and "no_areas (handle_command env i f g) \<and> gw_dispatch (handle_command env i f g) = gw_dispatch g"
    and "no_areas (handle_heartbeat env i f g) \<and> gw_dispatch (handle_heartbeat env i f g) = gw_dispatch g"
proof -
  show "no_areas (handle_handshake env i f g) \<and> gw_dispatch (handle_handshake env i f g) = gw_dispatch g"
  proof (cases "valid_handshake (ge_fb env) (df_payload f)")
    case True
    then show ?thesis
      by (simp add: handshake_accepted Let_def) (intro no_areas_send_frame no_areas_update; simp add: assms)
  next
    case False
    then show ?thesis using assms by (simp add: handshake_refused no_areas_close)
  qed
  show "no_areas (handle_snapshot_request env i f g) \<and>
        gw_dispatch (handle_snapshot_request env i f g) = gw_dispatch g"
    using assms by (simp add: handle_snapshot_request_def no_areas_send_chunks split: option.split)
  show "no_areas (handle_command env i f g) \<and> gw_dispatch (handle_command env i f g) = gw_dispatch g"
    using assms by (simp add: handle_command_def Let_def now_us_def no_areas_send_frame split: option.split sum.split)
  show "no_areas (handle_heartbeat env i f g) \<and> gw_dispatch (handle_heartbeat env i f g) = gw_dispatch g"
    using assms by (simp add: handle_heartbeat_def Let_def now_us_def no_areas_send_frame)
qed

lemma on_inbound_without_area: "on_inbound fb ts c payload client [] = (c, [])"
proof -
  have "u64_to_string u \<noteq> []" for u by (simp add: u64_to_string_def nat_to_string_nonempty)
  then show ?thesis by (simp add: on_inbound_def Let_def)
qed

lemma handle_frame_keeps_dispatch:
  assumes "no_areas g" and "ge_handler env = Some (on_inbound fb ts)"
  shows "no_areas (handle_frame env i f g) \<and> gw_dispatch (handle_frame env i f g) = gw_dispatch g"
proof -
  have "ci_dispatch_area_id (cs_info (session_of g i)) = []" using assms(1) by (simp add: no_areas_def)
  then have channel: "no_areas (handle_dispatch_channel env i f g) \<and>
      gw_dispatch (handle_dispatch_channel env i f g) = gw_dispatch g"
    using assms by (simp add: handle_dispatch_channel_def on_inbound_without_area)
  show ?thesis unfolding handle_frame_def Let_def
    by (simp only: handlers_keep_dispatch [OF assms(1)] channel assms(1) simp_thms if_cancel split: if_split)
qed

section \<open>Properties\<close>

text \<open>
  No dispatcher can send a telegram: no frame ever gives a session a dispatch area, and without
  one the channel drops every message; whatever frames a client sends, the exchanges, the telegram
  rows and the train register stay as they were and nothing is sent to the areas.
\<close>

theorem dispatch_channel_never_delivers:
  assumes "no_areas g" and "ge_handler env = Some (on_inbound fb ts)"
    and "g' = fold (handle_frame env i) fs g"
  shows "gw_dispatch g' = gw_dispatch g \<and> no_areas g'"
proof -
  have "no_areas h \<Longrightarrow> gw_dispatch (fold (handle_frame env i) fs h) = gw_dispatch h \<and>
      no_areas (fold (handle_frame env i) fs h)" for h
    by (induction fs arbitrary: h) (simp_all add: handle_frame_keeps_dispatch [OF _ assms(2)])
  then show ?thesis using assms(1,3) by simp
qed

definition dispatch_gateway :: "DispatchCoordinator TransportGateway" where
  "dispatch_gateway =
     \<lparr>gw_cmd_queue = pq_new, gw_snapshot = None, gw_objects = [(1, new_session)], gw_sessions = [1],
      gw_tasks = [], gw_dispatch = sample_coordinator, gw_running = True, gw_acceptor_open = True, gw_mutex_held = False,
      gw_blocked = False, gw_terminated = False, gw_clock_reads = 0\<rparr>"

definition dispatch_env :: "(FbTree, DispatchCoordinator) GatewayEnv" where
  "dispatch_env =
     \<lparr>ge_fb = tree_runtime (\<lambda>_. TreeString []), ge_clock = (\<lambda>n. word_of_nat (1000 + n)),
      ge_handler = Some (on_inbound (tree_runtime (\<lambda>_. TreeString [])) 5)\<rparr>"

theorem dispatch_channel_never_delivers_witness:
  "gw_dispatch (fold (handle_frame dispatch_env 1)
      [\<lparr>df_msg_type = msg_type_kDispatchChannel, df_flags = 0, df_seq_id = 0, df_payload = [1]\<rparr>] dispatch_gateway) =
   sample_coordinator"
proof -
  have "no_areas dispatch_gateway"
    by (simp add: no_areas_def dispatch_gateway_def session_of_def um_find_def new_session_def)
  moreover have "ge_handler dispatch_env = Some (on_inbound (tree_runtime (\<lambda>_. TreeString [])) 5)"
    by (simp add: dispatch_env_def)
  moreover have "gw_dispatch dispatch_gateway = sample_coordinator" by (simp add: dispatch_gateway_def)
  ultimately show ?thesis using dispatch_channel_never_delivers [OF _ _ refl] by metis
qed

text \<open>
  The exchange number never reaches the wire: the identifier the server generates is not a
  decimal number, so the message carries 0 for every exchange.
\<close>

theorem wire_exchange_uid_is_zero:
  "wire_exchange_uid (fst (generate_exchange_id m)) = 0"
  by (simp add: wire_exchange_uid_def generate_exchange_id_def stoull_exchange_id)

end
