(* ===== verification/Snapshot_View.thy ===== *)
theory Snapshot_View
  imports Engine_Loop
begin

text \<open>
  The read-only view \<^verbatim>\<open>IStateView\<close> of \<^verbatim>\<open>engine/include/engine/core/state_view.hpp\<close>
  as a record of its virtual methods, its two implementations (\<^verbatim>\<open>EngineState\<close> and the
  published copy, \<^verbatim>\<open>engine/src/engine_snapshot.cpp\<close>), and
  \<^verbatim>\<open>engine/src/spawn_resolver.cpp\<close>, which finds the section behind a boundary node
  through the view.
\<close>

section \<open>The view\<close>

record IStateView =
  view_find_boundary_node :: "UID \<Rightarrow> BoundaryNode option"
  view_find_track_section :: "UID \<Rightarrow> TrackSection option"
  view_find_switch :: "UID \<Rightarrow> Switch option"
  view_find_signal :: "UID \<Rightarrow> Signal option"
  view_find_derailer :: "UID \<Rightarrow> Derailer option"
  view_find_block_section :: "UID \<Rightarrow> BlockSection option"
  view_find_route :: "UID \<Rightarrow> RouteState option"
  view_find_alarm :: "UID \<Rightarrow> AlarmState option"
  view_find_level_crossing :: "UID \<Rightarrow> LevelCrossing option"
  view_for_each_track_section :: "TrackSection list"
  view_for_each_switch :: "Switch list"
  view_for_each_signal :: "Signal list"
  view_for_each_derailer :: "Derailer list"
  view_for_each_block_section :: "BlockSection list"
  view_for_each_route :: "RouteState list"
  view_for_each_alarm :: "AlarmState list"
  view_for_each_boundary_node :: "BoundaryNode list"
  view_for_each_level_crossing :: "LevelCrossing list"
  view_session_id :: string
  view_current_tick :: u64

definition engine_view :: "EngineState \<Rightarrow> IStateView" where
  "engine_view s =
     \<lparr>view_find_boundary_node = find_boundary_node s, view_find_track_section = find_track_section s,
      view_find_switch = find_switch s, view_find_signal = find_signal s, view_find_derailer = find_derailer s,
      view_find_block_section = find_block_section s, view_find_route = find_route s, view_find_alarm = find_alarm s,
      view_find_level_crossing = find_level_crossing s, view_for_each_track_section = for_each_track_section s,
      view_for_each_switch = for_each_switch s, view_for_each_signal = for_each_signal s,
      view_for_each_derailer = for_each_derailer s, view_for_each_block_section = for_each_block_section s,
      view_for_each_route = for_each_route s, view_for_each_alarm = for_each_alarm s,
      view_for_each_boundary_node = for_each_boundary_node s, view_for_each_level_crossing = for_each_level_crossing s,
      view_session_id = es_session_id s, view_current_tick = es_current_tick s\<rparr>"

section \<open>The snapshot\<close>

definition snap_find_boundary_node :: "EngineSnapshot \<Rightarrow> UID \<Rightarrow> BoundaryNode option" where
  "snap_find_boundary_node snap uid = um_find (es_boundary_nodes snap) uid"

definition snap_find_track_section :: "EngineSnapshot \<Rightarrow> UID \<Rightarrow> TrackSection option" where
  "snap_find_track_section snap uid = um_find (es_track_sections snap) uid"

definition snap_find_switch :: "EngineSnapshot \<Rightarrow> UID \<Rightarrow> Switch option" where
  "snap_find_switch snap uid = um_find (es_switches snap) uid"

definition snap_find_signal :: "EngineSnapshot \<Rightarrow> UID \<Rightarrow> Signal option" where
  "snap_find_signal snap uid = um_find (es_signals snap) uid"

definition snap_find_derailer :: "EngineSnapshot \<Rightarrow> UID \<Rightarrow> Derailer option" where
  "snap_find_derailer snap uid = um_find (es_derailers snap) uid"

definition snap_find_block_section :: "EngineSnapshot \<Rightarrow> UID \<Rightarrow> BlockSection option" where
  "snap_find_block_section snap uid = um_find (es_block_sections snap) uid"

definition snap_find_route :: "EngineSnapshot \<Rightarrow> UID \<Rightarrow> RouteState option" where
  "snap_find_route snap uid = um_find (es_routes snap) uid"

definition snap_find_alarm :: "EngineSnapshot \<Rightarrow> UID \<Rightarrow> AlarmState option" where
  "snap_find_alarm snap uid = um_find (es_alarms snap) uid"

definition snap_find_level_crossing :: "EngineSnapshot \<Rightarrow> UID \<Rightarrow> LevelCrossing option" where
  "snap_find_level_crossing snap uid = um_find (es_level_crossings snap) uid"

definition snap_for_each_track_section :: "EngineSnapshot \<Rightarrow> TrackSection list" where
  "snap_for_each_track_section snap = um_values (es_track_sections snap)"

definition snap_for_each_switch :: "EngineSnapshot \<Rightarrow> Switch list" where
  "snap_for_each_switch snap = um_values (es_switches snap)"

definition snap_for_each_signal :: "EngineSnapshot \<Rightarrow> Signal list" where
  "snap_for_each_signal snap = um_values (es_signals snap)"

definition snap_for_each_derailer :: "EngineSnapshot \<Rightarrow> Derailer list" where
  "snap_for_each_derailer snap = um_values (es_derailers snap)"

definition snap_for_each_block_section :: "EngineSnapshot \<Rightarrow> BlockSection list" where
  "snap_for_each_block_section snap = um_values (es_block_sections snap)"

definition snap_for_each_route :: "EngineSnapshot \<Rightarrow> RouteState list" where
  "snap_for_each_route snap = um_values (es_routes snap)"

definition snap_for_each_alarm :: "EngineSnapshot \<Rightarrow> AlarmState list" where
  "snap_for_each_alarm snap = um_values (es_alarms snap)"

definition snap_for_each_boundary_node :: "EngineSnapshot \<Rightarrow> BoundaryNode list" where
  "snap_for_each_boundary_node snap = um_values (es_boundary_nodes snap)"

definition snap_for_each_level_crossing :: "EngineSnapshot \<Rightarrow> LevelCrossing list" where
  "snap_for_each_level_crossing snap = um_values (es_level_crossings snap)"

definition snapshot_view :: "EngineSnapshot \<Rightarrow> IStateView" where
  "snapshot_view s =
     \<lparr>view_find_boundary_node = snap_find_boundary_node s, view_find_track_section = snap_find_track_section s,
      view_find_switch = snap_find_switch s, view_find_signal = snap_find_signal s,
      view_find_derailer = snap_find_derailer s, view_find_block_section = snap_find_block_section s,
      view_find_route = snap_find_route s, view_find_alarm = snap_find_alarm s,
      view_find_level_crossing = snap_find_level_crossing s,
      view_for_each_track_section = snap_for_each_track_section s, view_for_each_switch = snap_for_each_switch s,
      view_for_each_signal = snap_for_each_signal s, view_for_each_derailer = snap_for_each_derailer s,
      view_for_each_block_section = snap_for_each_block_section s, view_for_each_route = snap_for_each_route s,
      view_for_each_alarm = snap_for_each_alarm s, view_for_each_boundary_node = snap_for_each_boundary_node s,
      view_for_each_level_crossing = snap_for_each_level_crossing s,
      view_session_id = es_session_id s, view_current_tick = es_current_tick s\<rparr>"

text \<open>The published copy answers every query as the state it was taken from.\<close>

lemma snapshot_view_make: "snapshot_view (make_snapshot s entries) = engine_view s"
  by (simp add: snapshot_view_def engine_view_def make_snapshot_def fun_eq_iff
      snap_find_boundary_node_def snap_find_track_section_def snap_find_switch_def snap_find_signal_def
      snap_find_derailer_def snap_find_block_section_def snap_find_route_def snap_find_alarm_def
      snap_find_level_crossing_def snap_for_each_track_section_def snap_for_each_switch_def
      snap_for_each_signal_def snap_for_each_derailer_def snap_for_each_block_section_def
      snap_for_each_route_def snap_for_each_alarm_def snap_for_each_boundary_node_def
      snap_for_each_level_crossing_def find_boundary_node_def find_track_section_def find_switch_def
      find_signal_def find_derailer_def find_block_section_def find_route_def find_alarm_def
      find_level_crossing_def for_each_track_section_def for_each_switch_def for_each_signal_def
      for_each_derailer_def for_each_block_section_def for_each_route_def for_each_alarm_def
      for_each_boundary_node_def for_each_level_crossing_def)

section \<open>Where a train is spawned\<close>

record SpawnPoint =
  sp_section_uid :: UID
  sp_from_uid :: UID

datatype SpawnError = UNKNOWN_BOUNDARY | NO_ADJACENT_SECTION | AMBIGUOUS | SECTION_OCCUPIED

fun SpawnError_to_string :: "SpawnError \<Rightarrow> string" where
  "SpawnError_to_string UNKNOWN_BOUNDARY = ''boundary node not found''"
| "SpawnError_to_string NO_ADJACENT_SECTION = ''no track section adjacent to the boundary node''"
| "SpawnError_to_string AMBIGUOUS = ''more than one track section references the boundary node''"
| "SpawnError_to_string SECTION_OCCUPIED = ''the section adjacent to the boundary node is not free''"

definition references_boundary :: "UID \<Rightarrow> TrackSection \<Rightarrow> bool" where
  "references_boundary boundary_uid t \<longleftrightarrow>
     port_neighbor_uid (ts_side_a t) = boundary_uid \<or> port_neighbor_uid (ts_side_b t) = boundary_uid"

text \<open>The visitor keeps the last match and counts all of them.\<close>

definition count_adjacent ::
    "UID \<Rightarrow> TrackSection \<Rightarrow> TrackSection option \<times> nat \<Rightarrow> TrackSection option \<times> nat" where
  "count_adjacent boundary_uid t acc =
     (if references_boundary boundary_uid t then (Some t, snd acc + 1) else acc)"

definition resolve_spawn_at_boundary :: "IStateView \<Rightarrow> UID \<Rightarrow> SpawnError + SpawnPoint" where
  "resolve_spawn_at_boundary state boundary_uid =
    (if view_find_boundary_node state boundary_uid = None then Inl UNKNOWN_BOUNDARY
     else
       (let (adjacent, matches) = fold (count_adjacent boundary_uid) (view_for_each_track_section state) (None, 0)
        in if matches = 0 then Inl NO_ADJACENT_SECTION
           else if matches > 1 then Inl AMBIGUOUS
           else case adjacent of
                  None \<Rightarrow> Inl NO_ADJACENT_SECTION
                | Some t \<Rightarrow>
                    if ts_occupancy t \<noteq> FREE then Inl SECTION_OCCUPIED
                    else Inr \<lparr>sp_section_uid = ts_uid t, sp_from_uid = boundary_uid\<rparr>))"

lemma count_adjacent_fold:
  "fold (count_adjacent b) ts (a, n) =
     (let ms = filter (references_boundary b) ts in (if ms = [] then a else Some (last ms), n + length ms))"
  by (induction ts arbitrary: a n) (auto simp: count_adjacent_def Let_def)

lemma resolve_spawn_filter:
  "resolve_spawn_at_boundary v b =
    (if view_find_boundary_node v b = None then Inl UNKNOWN_BOUNDARY
     else case filter (references_boundary b) (view_for_each_track_section v) of
       [] \<Rightarrow> Inl NO_ADJACENT_SECTION
     | [t] \<Rightarrow> if ts_occupancy t \<noteq> FREE then Inl SECTION_OCCUPIED
              else Inr \<lparr>sp_section_uid = ts_uid t, sp_from_uid = b\<rparr>
     | _ \<Rightarrow> Inl AMBIGUOUS)"
  by (simp add: resolve_spawn_at_boundary_def count_adjacent_fold Let_def split: list.split)

end
