(* ===== verification/Json_Library.thy ===== *)
theory Json_Library
  imports Types Floats
begin

text \<open>
  The JSON library and the file system, as far as the loaders of the program call them.  Both are
  code outside the repository, so they are parameters: \<open>Json\<close> is a record of the functions of
  \<^verbatim>\<open>nlohmann::json\<close> over an abstract type \<open>'j\<close> of documents, \<open>Files\<close> one of the
  queries on files.  A function that throws returns the text of the exception as the left side of a
  sum.  \<open>json_laws\<close> states the documented behaviour the loaders rely on: a member that
  \<^verbatim>\<open>contains\<close> reports is one that \<^verbatim>\<open>at\<close> reads, in an object, and a value whose kind has been tested converts.
  \<open>json_tree\<close> is an instance of it.
\<close>

section \<open>Errors in sequence\<close>

definition and_then :: "'e + 'a \<Rightarrow> ('a \<Rightarrow> 'e + 'b) \<Rightarrow> 'e + 'b" where
  "and_then m f = (case m of Inl e \<Rightarrow> Inl e | Inr x \<Rightarrow> f x)"

fun fold_result :: "('a \<Rightarrow> 's \<Rightarrow> 'e + 's) \<Rightarrow> 'a list \<Rightarrow> 's \<Rightarrow> 'e + 's" where
  "fold_result f [] s = Inr s"
| "fold_result f (x # xs) s = and_then (f x s) (fold_result f xs)"

fun map_result :: "('a \<Rightarrow> 'e + 'b) \<Rightarrow> 'a list \<Rightarrow> 'e + 'b list" where
  "map_result f [] = Inr []"
| "map_result f (x # xs) = and_then (f x) (\<lambda>y. and_then (map_result f xs) (\<lambda>ys. Inr (y # ys)))"

definition map_error :: "('d \<Rightarrow> 'e) \<Rightarrow> 'd + 'a \<Rightarrow> 'e + 'a" where
  "map_error f m = (case m of Inl e \<Rightarrow> Inl (f e) | Inr x \<Rightarrow> Inr x)"

lemma and_then_simps [simp]: "and_then (Inl e) f = Inl e" "and_then (Inr x) f = f x"
  by (simp_all add: and_then_def)

lemma and_then_Inr: "and_then m f = Inr y \<longleftrightarrow> (\<exists>x. m = Inr x \<and> f x = Inr y)"
  by (cases m) simp_all

lemma and_then_Inl: "and_then m f = Inl e \<longleftrightarrow> m = Inl e \<or> (\<exists>x. m = Inr x \<and> f x = Inl e)"
  by (cases m) simp_all

lemma map_error_simps [simp]: "map_error h (Inl e) = Inl (h e)" "map_error h (Inr x) = Inr x"
  by (simp_all add: map_error_def)

lemma map_error_Inr [simp]: "map_error h m = Inr x \<longleftrightarrow> m = Inr x"
  by (cases m) simp_all

lemma fold_result_invariant:
  assumes "fold_result f xs s = Inr s'" and "P s"
    and "\<And>x s t. x \<in> set xs \<Longrightarrow> P s \<Longrightarrow> f x s = Inr t \<Longrightarrow> P t"
  shows "P s'"
  using assms
proof (induction xs arbitrary: s)
  case (Cons x xs)
  from Cons.prems(1) obtain t where t: "f x s = Inr t" "fold_result f xs t = Inr s'"
    by (auto simp: and_then_Inr)
  then show ?case using Cons.IH [OF t(2)] Cons.prems(2,3) by (metis list.set_intros)
qed simp

lemma fold_result_error:
  assumes "fold_result f xs s = Inl e"
  obtains x t where "x \<in> set xs" "f x t = Inl e"
  using assms by (induction xs arbitrary: s) (auto simp: and_then_Inl)

section \<open>Documents\<close>

record 'j Json =
  j_contains :: "'j \<Rightarrow> string \<Rightarrow> bool"
  j_at :: "'j \<Rightarrow> string \<Rightarrow> string + 'j"
  j_is_null :: "'j \<Rightarrow> bool"
  j_is_string :: "'j \<Rightarrow> bool"
  j_is_boolean :: "'j \<Rightarrow> bool"
  j_is_number :: "'j \<Rightarrow> bool"
  j_is_number_integer :: "'j \<Rightarrow> bool"
  j_is_number_unsigned :: "'j \<Rightarrow> bool"
  j_is_array :: "'j \<Rightarrow> bool"
  j_is_object :: "'j \<Rightarrow> bool"
  j_get_string :: "'j \<Rightarrow> string + string"
  j_get_bool :: "'j \<Rightarrow> string + bool"
  j_get_u64 :: "'j \<Rightarrow> string + u64"
  j_get_int :: "'j \<Rightarrow> string + int"
  j_get_i64 :: "'j \<Rightarrow> string + int"
  j_get_float :: "'j \<Rightarrow> string + float32"
  j_get_double :: "'j \<Rightarrow> string + double"
  j_elements :: "'j \<Rightarrow> 'j list"
  j_items :: "'j \<Rightarrow> string + (string \<times> 'j) list"

definition json_laws :: "'j Json \<Rightarrow> bool" where
  "json_laws js \<longleftrightarrow>
     (\<forall>j k. j_contains js j k \<longleftrightarrow> (\<exists>v. j_at js j k = Inr v)) \<and>
     (\<forall>j k. j_contains js j k \<longrightarrow> j_is_object js j) \<and>
     (\<forall>v. j_is_string js v \<longrightarrow> (\<exists>s. j_get_string js v = Inr s)) \<and>
     (\<forall>v. j_is_boolean js v \<longrightarrow> (\<exists>b. j_get_bool js v = Inr b)) \<and>
     (\<forall>v. j_is_number js v \<longrightarrow> (\<exists>n. j_get_int js v = Inr n) \<and> (\<exists>x. j_get_float js v = Inr x) \<and>
        (\<exists>x. j_get_double js v = Inr x)) \<and>
     (\<forall>v. j_is_number_integer js v \<longrightarrow> (\<exists>n. j_get_i64 js v = Inr n)) \<and>
     (\<forall>v. j_is_number_unsigned js v \<longrightarrow> (\<exists>u. j_get_u64 js v = Inr u))"

text \<open>\<^verbatim>\<open>j.contains(k) && p(j.at(k))\<close>\<close>

definition has_member :: "'j Json \<Rightarrow> ('j \<Rightarrow> bool) \<Rightarrow> 'j \<Rightarrow> string \<Rightarrow> bool" where
  "has_member js p j k \<longleftrightarrow> j_contains js j k \<and> (case j_at js j k of Inl _ \<Rightarrow> False | Inr v \<Rightarrow> p v)"

text \<open>\<^verbatim>\<open>j.value(k, d)\<close>: an exception for anything but an object, the default for a missing member\<close>

definition j_value :: "'j Json \<Rightarrow> ('j \<Rightarrow> string + 'a) \<Rightarrow> 'j \<Rightarrow> string \<Rightarrow> 'a \<Rightarrow> string + 'a" where
  "j_value js get j k d =
     (if \<not> j_is_object js j then Inl ''[json.exception.type_error.306] cannot use value()''
      else if j_contains js j k then and_then (j_at js j k) get else Inr d)"

lemma json_lawsD:
  assumes "json_laws js"
  shows "j_contains js j k \<Longrightarrow> \<exists>v. j_at js j k = Inr v"
    "j_is_string js v \<Longrightarrow> \<exists>s. j_get_string js v = Inr s"
    "j_is_boolean js v \<Longrightarrow> \<exists>b. j_get_bool js v = Inr b"
    "j_is_number js v \<Longrightarrow> \<exists>n. j_get_int js v = Inr n"
    "j_is_number js v \<Longrightarrow> \<exists>x. j_get_float js v = Inr x"
    "j_is_number_unsigned js v \<Longrightarrow> \<exists>u. j_get_u64 js v = Inr u"
    "j_is_number js v \<Longrightarrow> \<exists>x. j_get_double js v = Inr x"
    "j_is_number_integer js v \<Longrightarrow> \<exists>n. j_get_i64 js v = Inr n"
    "j_at js j k = Inr v \<Longrightarrow> j_contains js j k"
    "j_contains js j k \<Longrightarrow> j_is_object js j"
  using assms by (auto simp: json_laws_def)

section \<open>Files\<close>

type_synonym path = "string list"

record 'j Files =
  fs_exists :: "path \<Rightarrow> bool"
  fs_entries :: "path \<Rightarrow> path list"
  fs_is_regular_file :: "path \<Rightarrow> bool"
  fs_can_open :: "path \<Rightarrow> bool"
  fs_parse :: "path \<Rightarrow> string + 'j"

fun path_string :: "path \<Rightarrow> string" where
  "path_string [] = []"
| "path_string [c] = c"
| "path_string (c # cs) = c @ ''/'' @ path_string cs"

definition path_filename :: "path \<Rightarrow> string" where
  "path_filename p = (if p = [] then [] else last p)"

text \<open>The part of the file name from its last dot on; a name that starts with its only dot has none.\<close>

definition path_extension :: "path \<Rightarrow> string" where
  "path_extension p =
    (let name = path_filename p; suffix = rev (takeWhile (\<lambda>c. c \<noteq> CHR ''.'') (rev name)); stem = length name - length suffix
     in if name = ''.'' \<or> name = ''..'' \<or> stem \<le> 1 then [] else CHR ''.'' # suffix)"

definition quoted :: "string \<Rightarrow> string" where
  "quoted s = CHR 0x27 # s @ [CHR 0x27]"

section \<open>Trees as documents\<close>

datatype (plugins only: size code) JsonTree =
    JsNull
  | JsBool bool
  | JsUnsigned u64
  | JsInteger int
  | JsNumber real
  | JsString string
  | JsArray "JsonTree list"
  | JsObject "(string \<times> JsonTree) list"

definition type_error :: string where
  "type_error = ''[json.exception.type_error.302]''"

fun tree_member :: "JsonTree \<Rightarrow> string \<Rightarrow> JsonTree option" where
  "tree_member (JsObject ms) k = map_of ms k"
| "tree_member _ k = None"

definition json_tree :: "JsonTree Json" where
  "json_tree =
    \<lparr>j_contains = (\<lambda>j k. tree_member j k \<noteq> None),
     j_at = (\<lambda>j k. case tree_member j k of Some v \<Rightarrow> Inr v | None \<Rightarrow> Inl ''[json.exception.out_of_range.403]''),
     j_is_null = (\<lambda>j. case j of JsNull \<Rightarrow> True | _ \<Rightarrow> False),
     j_is_string = (\<lambda>j. case j of JsString _ \<Rightarrow> True | _ \<Rightarrow> False),
     j_is_boolean = (\<lambda>j. case j of JsBool _ \<Rightarrow> True | _ \<Rightarrow> False),
     j_is_number = (\<lambda>j. case j of JsUnsigned _ \<Rightarrow> True | JsInteger _ \<Rightarrow> True | JsNumber _ \<Rightarrow> True | _ \<Rightarrow> False),
     j_is_number_integer = (\<lambda>j. case j of JsUnsigned _ \<Rightarrow> True | JsInteger _ \<Rightarrow> True | _ \<Rightarrow> False),
     j_is_number_unsigned = (\<lambda>j. case j of JsUnsigned _ \<Rightarrow> True | _ \<Rightarrow> False),
     j_is_array = (\<lambda>j. case j of JsArray _ \<Rightarrow> True | _ \<Rightarrow> False),
     j_is_object = (\<lambda>j. case j of JsObject _ \<Rightarrow> True | _ \<Rightarrow> False),
     j_get_string = (\<lambda>j. case j of JsString s \<Rightarrow> Inr s | _ \<Rightarrow> Inl type_error),
     j_get_bool = (\<lambda>j. case j of JsBool b \<Rightarrow> Inr b | _ \<Rightarrow> Inl type_error),
     j_get_u64 = (\<lambda>j. case j of JsUnsigned u \<Rightarrow> Inr u | JsInteger i \<Rightarrow> Inr (word_of_int i) | JsNumber x \<Rightarrow> Inr (word_of_int \<lfloor>x\<rfloor>)
        | JsBool b \<Rightarrow> Inr (of_bool b) | _ \<Rightarrow> Inl type_error),
     j_get_int = (\<lambda>j. case j of JsUnsigned u \<Rightarrow> Inr (uint u) | JsInteger i \<Rightarrow> Inr i | JsNumber x \<Rightarrow> Inr \<lfloor>x\<rfloor>
        | JsBool b \<Rightarrow> Inr (of_bool b) | _ \<Rightarrow> Inl type_error),
     j_get_i64 = (\<lambda>j. case j of JsUnsigned u \<Rightarrow> Inr (sint u) | JsInteger i \<Rightarrow> Inr i | JsNumber x \<Rightarrow> Inr \<lfloor>x\<rfloor>
        | JsBool b \<Rightarrow> Inr (of_bool b) | _ \<Rightarrow> Inl type_error),
     j_get_float = (\<lambda>j. case j of JsUnsigned u \<Rightarrow> Inr (of_int (uint u)) | JsInteger i \<Rightarrow> Inr (of_int i) | JsNumber x \<Rightarrow> Inr x
        | JsBool b \<Rightarrow> Inr (of_bool b) | _ \<Rightarrow> Inl type_error),
     j_get_double = (\<lambda>j. case j of JsUnsigned u \<Rightarrow> Inr (to_double (of_int (uint u)))
        | JsInteger i \<Rightarrow> Inr (to_double (of_int i)) | JsNumber x \<Rightarrow> Inr (to_double x)
        | JsBool b \<Rightarrow> Inr (Fin (of_bool b)) | _ \<Rightarrow> Inl type_error),
     j_elements = (\<lambda>j. case j of JsArray vs \<Rightarrow> vs | JsObject ms \<Rightarrow> map snd ms | JsNull \<Rightarrow> [] | v \<Rightarrow> [v]),
     j_items = (\<lambda>j. case j of JsObject ms \<Rightarrow> Inr ms | JsNull \<Rightarrow> Inr [] | JsArray [] \<Rightarrow> Inr []
        | _ \<Rightarrow> Inl ''[json.exception.invalid_iterator.207] cannot use key()'')\<rparr>"

lemma json_tree_laws: "json_laws json_tree"
  by (auto simp: json_laws_def json_tree_def split: JsonTree.splits option.splits)

end
