(* ===== verification/Fleet_Registry.thy ===== *)
theory Fleet_Registry
  imports Json_Library Train_Sim "HOL-Library.List_Lexorder" "HOL-Library.Char_ord"
begin

text \<open>
  The fleet data of the simulation, \<^verbatim>\<open>engine/src/fleet_registry.cpp\<close> and
  \<^verbatim>\<open>engine/include/engine/core/fleet_registry.hpp\<close>: vehicle types, vehicles that inherit
  from their type, consists with their derived totals, and carriers, read from JSON files.  An
  exception is the left side of a sum; the registry an exception leaves behind half loaded is not
  represented.  Sums of masses are taken in double precision where the code does so.
\<close>

definition float_max :: float32 where
  "float_max = (2 ^ 24 - 1) * 2 ^ 104"

section \<open>Data\<close>

record VehicleType =
  vt_uid :: UID
  vt_type_name :: string
  vt_pkp_series :: string
  vt_family :: string
  vt_vehicle_type :: string
  vt_vehicle_subtype :: string
  vt_length_m :: float32
  vt_axle_count :: int
  vt_mass_empty_t :: float32
  vt_mass_gross_t :: "float32 option"
  vt_max_speed_kmh :: int
  vt_braking_lambda_pct :: int
  vt_power_kw :: "float32 option"
  vt_traction_force_kn :: "float32 option"
  vt_multiple_coupling_capable :: "bool option"
  vt_davis :: DavisCoefficients

record Carrier =
  car_id :: UID
  car_name :: string
  car_service_types :: "string list"
  car_logo :: "string option"

datatype load_error = FleetLoadError string | JsonException string

record FleetRegistry =
  fr_types :: "(UID, VehicleType) umap"
  fr_vehicles :: "(UID, Vehicle) umap"
  fr_consists :: "(UID, TrainConsist) umap"
  fr_carriers :: "(UID, Carrier) umap"

definition empty_registry :: FleetRegistry where
  "empty_registry = \<lparr>fr_types = [], fr_vehicles = [], fr_consists = [], fr_carriers = []\<rparr>"

section \<open>Files\<close>

definition is_json_file :: "'j Files \<Rightarrow> path \<Rightarrow> bool" where
  "is_json_file fs p \<longleftrightarrow> fs_is_regular_file fs p \<and> path_extension p = ''.json''"

definition collect_json_files :: "'j Files \<Rightarrow> path \<Rightarrow> load_error + path list" where
  "collect_json_files fs rt =
     (if \<not> fs_exists fs rt then Inl (FleetLoadError (''Missing directory: '' @ path_string rt))
      else Inr (sort (filter (is_json_file fs) (fs_entries fs rt))))"

definition collect_vehicle_files :: "'j Files \<Rightarrow> path \<Rightarrow> load_error + path list" where
  "collect_vehicle_files fs rt =
     (if \<not> fs_exists fs rt then Inl (FleetLoadError (''Missing directory: '' @ path_string rt))
      else Inr (sort (filter (\<lambda>p. fs_is_regular_file fs p \<and> path_filename p = ''vehicle.json'') (fs_entries fs rt))))"

definition parse_json_file :: "'j Files \<Rightarrow> path \<Rightarrow> load_error + 'j" where
  "parse_json_file fs p =
     (if \<not> fs_can_open fs p then Inl (FleetLoadError (''Cannot open file: '' @ path_string p))
      else map_error (\<lambda>what. FleetLoadError (''JSON parse error in '' @ path_string p @ '': '' @ what)) (fs_parse fs p))"

section \<open>Fields\<close>

definition to_upper :: "string \<Rightarrow> string" where
  "to_upper s = map to_upper_char s"

definition member_of :: "'j Json \<Rightarrow> 'j \<Rightarrow> string \<Rightarrow> load_error + 'j" where
  "member_of js j key = map_error JsonException (j_at js j key)"

text \<open>A required member of a given kind, and one that may be absent or null.\<close>

definition require_field ::
    "'j Json \<Rightarrow> ('j \<Rightarrow> bool) \<Rightarrow> ('j \<Rightarrow> string + 'a) \<Rightarrow> string \<Rightarrow> 'j \<Rightarrow> string \<Rightarrow> path \<Rightarrow> load_error + 'a" where
  "require_field js ok get what j key p =
     (if \<not> has_member js ok j key
      then Inl (FleetLoadError (''Missing or invalid '' @ what @ '' field '' @ quoted key @ '' in '' @ path_string p))
      else and_then (member_of js j key) (\<lambda>v. map_error JsonException (get v)))"

definition optional_field ::
    "'j Json \<Rightarrow> ('j \<Rightarrow> bool) \<Rightarrow> ('j \<Rightarrow> string + 'a) \<Rightarrow> string \<Rightarrow> 'j \<Rightarrow> string \<Rightarrow> path \<Rightarrow> load_error + 'a option" where
  "optional_field js ok get what j key p =
     (if \<not> j_contains js j key \<or> has_member js (j_is_null js) j key then Inr None
      else if \<not> has_member js ok j key
      then Inl (FleetLoadError (''Invalid '' @ what @ '' '' @ quoted key @ '' in '' @ path_string p))
      else and_then (member_of js j key) (\<lambda>v. map_error JsonException (map_sum id Some (get v))))"

definition require_string :: "'j Json \<Rightarrow> 'j \<Rightarrow> string \<Rightarrow> path \<Rightarrow> load_error + string" where
  "require_string js = require_field js (j_is_string js) (j_get_string js) ''string''"

definition optional_string :: "'j Json \<Rightarrow> 'j \<Rightarrow> string \<Rightarrow> load_error + string" where
  "optional_string js j key =
     (if \<not> has_member js (j_is_string js) j key then Inr []
      else and_then (member_of js j key) (\<lambda>v. map_error JsonException (j_get_string js v)))"

definition require_int :: "'j Json \<Rightarrow> 'j \<Rightarrow> string \<Rightarrow> path \<Rightarrow> load_error + int" where
  "require_int js = require_field js (j_is_number js) (j_get_int js) ''numeric''"

definition require_uid :: "'j Json \<Rightarrow> 'j \<Rightarrow> string \<Rightarrow> path \<Rightarrow> load_error + UID" where
  "require_uid js j key p =
     and_then (require_field js (j_is_number_unsigned js) (j_get_u64 js) ''UID'' j key p) (\<lambda>uid.
       if \<not> uid_is_safe_json_integer uid
       then Inl (FleetLoadError (''UID field '' @ quoted key @ '' exceeds the JSON-safe integer range in '' @ path_string p))
       else Inr uid)"

definition require_float :: "'j Json \<Rightarrow> 'j \<Rightarrow> string \<Rightarrow> path \<Rightarrow> load_error + float32" where
  "require_float js = require_field js (j_is_number js) (j_get_float js) ''numeric''"

definition optional_float :: "'j Json \<Rightarrow> 'j \<Rightarrow> string \<Rightarrow> path \<Rightarrow> load_error + float32 option" where
  "optional_float js = optional_field js (j_is_number js) (j_get_float js) ''numeric field''"

definition optional_bool :: "'j Json \<Rightarrow> 'j \<Rightarrow> string \<Rightarrow> path \<Rightarrow> load_error + bool option" where
  "optional_bool js = optional_field js (j_is_boolean js) (j_get_bool js) ''boolean field''"

definition resolve_float_override :: "'j Json \<Rightarrow> 'j \<Rightarrow> string \<Rightarrow> float32 \<Rightarrow> path \<Rightarrow> load_error + float32" where
  "resolve_float_override js j key fallback p =
     map_sum id (\<lambda>v. case v of Some x \<Rightarrow> x | None \<Rightarrow> fallback)
       (optional_field js (j_is_number js) (j_get_float js) ''numeric override'' j key p)"

definition resolve_int_override :: "'j Json \<Rightarrow> 'j \<Rightarrow> string \<Rightarrow> int \<Rightarrow> path \<Rightarrow> load_error + int" where
  "resolve_int_override js j key fallback p =
     map_sum id (\<lambda>v. case v of Some x \<Rightarrow> x | None \<Rightarrow> fallback)
       (optional_field js (j_is_number js) (j_get_int js) ''integer override'' j key p)"

definition resolve_optional_float_override ::
    "'j Json \<Rightarrow> 'j \<Rightarrow> string \<Rightarrow> float32 option \<Rightarrow> path \<Rightarrow> load_error + float32 option" where
  "resolve_optional_float_override js j key fallback p =
     (if \<not> j_contains js j key then Inr fallback
      else optional_field js (j_is_number js) (j_get_float js) ''numeric override'' j key p)"

section \<open>Categories\<close>

definition is_locomotive_type :: "string \<Rightarrow> bool" where
  "is_locomotive_type vehicle_type \<longleftrightarrow> to_upper vehicle_type = ''LOCOMOTIVE''"

definition is_traction_capable :: "string \<Rightarrow> string \<Rightarrow> bool" where
  "is_traction_capable vehicle_type vehicle_subtype \<longleftrightarrow>
     (let type = to_upper vehicle_type; subtype = to_upper vehicle_subtype
      in type = ''LOCOMOTIVE'' \<or> ((type = ''EMU_UNIT'' \<or> type = ''DMU_UNIT'') \<and> subtype = ''MOTOR''))"

definition parse_traction_status :: "string \<Rightarrow> path \<Rightarrow> load_error + TractionStatus" where
  "parse_traction_status value p =
     (if to_upper value = ''OPERATIONAL'' then Inr OPERATIONAL
      else if to_upper value = ''DEFECTIVE'' then Inr DEFECTIVE
      else Inl (FleetLoadError (''Invalid tractionStatus value '' @ quoted value @ '' in '' @ path_string p)))"

definition optional_traction_status :: "'j Json \<Rightarrow> 'j \<Rightarrow> string \<Rightarrow> path \<Rightarrow> load_error + TractionStatus option" where
  "optional_traction_status js j key p =
     and_then (optional_field js (j_is_string js) (j_get_string js) ''string field'' j key p) (\<lambda>v.
       case v of None \<Rightarrow> Inr None | Some s \<Rightarrow> map_sum id Some (parse_traction_status s p))"

definition parse_train_category :: "string \<Rightarrow> path \<Rightarrow> load_error + TrainCategory" where
  "parse_train_category value p =
     (let upper = to_upper value
      in if upper = ''PASSENGER'' then Inr PASSENGER
         else if upper = ''FREIGHT'' then Inr FREIGHT
         else if upper = ''MAINTENANCE'' then Inr MAINTENANCE
         else Inl (FleetLoadError (''Invalid trainCategory value '' @ quoted value @ '' in '' @ path_string p)))"

text \<open>The first component of the folder of a file, relative to the root it was found under.\<close>

definition category_from_folder :: "path \<Rightarrow> path \<Rightarrow> TrainCategory option" where
  "category_from_folder file trains_root =
     (let rel = drop (length trains_root) (butlast file);
          first = (case rel of [] \<Rightarrow> ''.'' | c # _ \<Rightarrow> c); upper = to_upper first
      in if upper = ''PASSENGER'' \<or> upper = ''LOCAL'' then Some PASSENGER
         else if upper = ''FREIGHT'' then Some FREIGHT
         else if upper = ''SHUNTING'' then Some MAINTENANCE
         else None)"

definition davis :: "real \<Rightarrow> real \<Rightarrow> real \<Rightarrow> DavisCoefficients" where
  "davis a b c = \<lparr>davis_a = f32 a, davis_b = f32 b, davis_c = f32 c\<rparr>"

definition davis_defaults :: "string \<Rightarrow> string \<Rightarrow> int \<Rightarrow> DavisCoefficients" where
  "davis_defaults vehicle_type vehicle_subtype max_speed_kmh =
     (let type = to_upper vehicle_type; subtype = to_upper vehicle_subtype
      in if type = ''LOCOMOTIVE'' \<and> subtype = ''ELECTRIC'' then
           (if max_speed_kmh > 130 then davis 34.335 0.17658 0.0024525 else davis 39.24 0.1962 0.0017658)
         else if type = ''LOCOMOTIVE'' \<and> subtype = ''DIESEL'' then davis 44.145 0.21582 0.0019620
         else if type = ''LOCOMOTIVE'' \<and> subtype = ''STEAM'' then davis 44.145 0.21582 0.0019620
         else if type = ''EMU_UNIT'' \<and> subtype = ''MOTOR'' then davis 34.335 0.17658 0.0014715
         else if (type = ''EMU_UNIT'' \<or> type = ''DMU_UNIT'') \<and> (subtype = ''TRAILER'' \<or> subtype = ''CONTROL'')
         then davis 29.43 0.14715 0.0013734
         else if type = ''DMU_UNIT'' \<and> subtype = ''MOTOR'' then davis 39.24 0.1962 0.0017658
         else if type = ''PASSENGER_WAGON'' then davis 29.43 0.14715 0.0013734
         else if type = ''FREIGHT_WAGON'' then davis 14.715 0.07848 0.0007848
         else if type = ''SERVICE_WAGON'' then davis 24.525 0.12753 0.0011772
         else davis 39.24 0.1962 0.0017658)"

section \<open>Vehicle types\<close>

definition read_type_davis ::
    "'j Json \<Rightarrow> path \<Rightarrow> 'j \<Rightarrow> string \<Rightarrow> string \<Rightarrow> int \<Rightarrow> load_error + DavisCoefficients" where
  "read_type_davis js p j vehicle_type vehicle_subtype max_speed_kmh =
    (let has = (\<lambda>key. j_contains js j key \<and> \<not> has_member js (j_is_null js) j key)
     in if has ''davisA'' \<or> has ''davisB'' \<or> has ''davisC'' then
          (if \<not> (has ''davisA'' \<and> has ''davisB'' \<and> has ''davisC'')
           then Inl (FleetLoadError (''Incomplete Davis coefficients in '' @ path_string p))
           else and_then (require_float js j ''davisA'' p) (\<lambda>a.
                and_then (require_float js j ''davisB'' p) (\<lambda>b.
                and_then (require_float js j ''davisC'' p) (\<lambda>c.
                  Inr \<lparr>davis_a = a, davis_b = b, davis_c = c\<rparr>))))
        else Inr (davis_defaults vehicle_type vehicle_subtype max_speed_kmh))"

definition read_type :: "'j Json \<Rightarrow> path \<Rightarrow> 'j \<Rightarrow> load_error + VehicleType" where
  "read_type js p j =
     and_then (require_uid js j ''uid'' p) (\<lambda>uid.
     and_then (require_string js j ''typeName'' p) (\<lambda>type_name.
     and_then (optional_string js j ''pkpSeries'') (\<lambda>pkp_series.
     and_then (optional_string js j ''family'') (\<lambda>family.
     and_then (require_string js j ''vehicleType'' p) (\<lambda>vehicle_type.
     and_then (optional_string js j ''vehicleSubtype'') (\<lambda>vehicle_subtype.
     and_then (require_float js j ''lengthM'' p) (\<lambda>length_m.
     and_then (require_int js j ''axleCount'' p) (\<lambda>axle_count.
     and_then (require_float js j ''massEmptyT'' p) (\<lambda>mass_empty_t.
     and_then (optional_float js j ''massGrossT'' p) (\<lambda>mass_gross_t.
     and_then (require_int js j ''maxSpeedKmh'' p) (\<lambda>max_speed_kmh.
     and_then (require_int js j ''brakingLambdaPct'' p) (\<lambda>braking_lambda_pct.
     and_then (optional_float js j ''powerKW'' p) (\<lambda>power_kw.
     and_then (optional_float js j ''tractionForceKN'' p) (\<lambda>traction_force_kn.
     and_then (optional_bool js j ''multipleCouplingCapable'' p) (\<lambda>multiple_coupling_capable.
       if \<not> is_traction_capable vehicle_type vehicle_subtype \<and> multiple_coupling_capable \<noteq> None
       then Inl (FleetLoadError
         (''multipleCouplingCapable is only valid for traction-capable type categories in '' @ path_string p))
       else
     and_then (read_type_davis js p j vehicle_type vehicle_subtype max_speed_kmh) (\<lambda>dav.
       Inr \<lparr>vt_uid = uid, vt_type_name = type_name, vt_pkp_series = pkp_series, vt_family = family,
            vt_vehicle_type = vehicle_type, vt_vehicle_subtype = vehicle_subtype, vt_length_m = length_m,
            vt_axle_count = axle_count, vt_mass_empty_t = mass_empty_t, vt_mass_gross_t = mass_gross_t,
            vt_max_speed_kmh = max_speed_kmh, vt_braking_lambda_pct = braking_lambda_pct,
            vt_power_kw = power_kw, vt_traction_force_kn = traction_force_kn,
            vt_multiple_coupling_capable = multiple_coupling_capable, vt_davis = dav\<rparr>))))))))))))))))"

definition duplicate_uid :: "string \<Rightarrow> UID \<Rightarrow> path \<Rightarrow> load_error" where
  "duplicate_uid what uid p =
     FleetLoadError (''Duplicate '' @ what @ '': '' @ u64_to_string uid @ '' in '' @ path_string p)"

definition load_type :: "'j Json \<Rightarrow> 'j Files \<Rightarrow> path \<Rightarrow> FleetRegistry \<Rightarrow> load_error + FleetRegistry" where
  "load_type js fs p reg =
     and_then (parse_json_file fs p) (\<lambda>j.
     and_then (read_type js p j) (\<lambda>type.
       if um_find (fr_types reg) (vt_uid type) \<noteq> None then Inl (duplicate_uid ''type uid'' (vt_uid type) p)
       else Inr (reg\<lparr>fr_types := um_emplace (vt_uid type) type (fr_types reg)\<rparr>)))"

definition load_types :: "'j Json \<Rightarrow> 'j Files \<Rightarrow> path \<Rightarrow> FleetRegistry \<Rightarrow> load_error + FleetRegistry" where
  "load_types js fs types_dir reg =
     and_then (collect_json_files fs types_dir) (\<lambda>files. fold_result (load_type js fs) files reg)"

section \<open>Vehicles\<close>

definition read_vehicle_status ::
    "'j Json \<Rightarrow> path \<Rightarrow> 'j \<Rightarrow> bool \<Rightarrow> load_error + TractionStatus option" where
  "read_vehicle_status js p j traction_capable =
     and_then (optional_traction_status js j ''tractionStatus'' p) (\<lambda>override.
       if traction_capable then Inr (Some (case override of Some st \<Rightarrow> st | None \<Rightarrow> OPERATIONAL))
       else if override \<noteq> None
       then Inl (FleetLoadError (''tractionStatus is only valid for traction-capable vehicles in '' @ path_string p))
       else Inr None)"

definition read_vehicle_davis :: "'j Json \<Rightarrow> path \<Rightarrow> 'j \<Rightarrow> VehicleType \<Rightarrow> load_error + DavisCoefficients" where
  "read_vehicle_davis js p j type =
    (if j_contains js j ''davisA'' \<or> j_contains js j ''davisB'' \<or> j_contains js j ''davisC'' then
       and_then (require_float js j ''davisA'' p) (\<lambda>a.
       and_then (require_float js j ''davisB'' p) (\<lambda>b.
       and_then (require_float js j ''davisC'' p) (\<lambda>c.
         Inr \<lparr>davis_a = a, davis_b = b, davis_c = c\<rparr>)))
     else Inr (vt_davis type))"

text \<open>The vehicle with the values of its type where it has none of its own.\<close>

definition read_vehicle_of_type ::
    "'j Json \<Rightarrow> path \<Rightarrow> 'j \<Rightarrow> UID \<Rightarrow> string \<Rightarrow> UID \<Rightarrow> string \<Rightarrow> VehicleType \<Rightarrow> load_error + Vehicle" where
  "read_vehicle_of_type js p j uid pid type_uid display_name type =
     and_then (optional_string js j ''vehicleType'') (\<lambda>type_override.
       if type_override \<noteq> [] \<and> type_override \<noteq> vt_vehicle_type type
       then Inl (FleetLoadError (''VehicleType override mismatch in '' @ path_string p)) else
     and_then (optional_string js j ''vehicleSubtype'') (\<lambda>subtype_override.
       if subtype_override \<noteq> [] \<and> subtype_override \<noteq> vt_vehicle_subtype type
       then Inl (FleetLoadError (''VehicleSubtype override mismatch in '' @ path_string p)) else
     and_then (resolve_float_override js j ''lengthM'' (vt_length_m type) p) (\<lambda>length_m.
     and_then (resolve_int_override js j ''axleCount'' (vt_axle_count type) p) (\<lambda>axle_count.
     and_then (resolve_float_override js j ''massEmptyT'' (vt_mass_empty_t type) p) (\<lambda>mass_empty_t.
     and_then (optional_float js j ''massGrossT'' p) (\<lambda>mass_gross_override.
     and_then (resolve_int_override js j ''maxSpeedKmh'' (vt_max_speed_kmh type) p) (\<lambda>max_speed_kmh.
     and_then (resolve_int_override js j ''brakingLambdaPct'' (vt_braking_lambda_pct type) p) (\<lambda>braking_lambda_pct.
     and_then (resolve_optional_float_override js j ''powerKW'' (vt_power_kw type) p) (\<lambda>power_kw.
     and_then (resolve_optional_float_override js j ''tractionForceKN'' (vt_traction_force_kn type) p) (\<lambda>traction_force_kn.
     let traction_capable = is_traction_capable (vt_vehicle_type type) (vt_vehicle_subtype type) in
     and_then (read_vehicle_status js p j traction_capable) (\<lambda>traction_status.
     and_then (read_vehicle_davis js p j type) (\<lambda>dav.
       Inr \<lparr>veh_uid = uid, veh_pid = pid, veh_type_uid = type_uid, veh_display_name = display_name,
            veh_vehicle_type = vt_vehicle_type type, veh_vehicle_subtype = vt_vehicle_subtype type,
            veh_length_m = length_m, veh_axle_count = axle_count, veh_mass_empty_t = mass_empty_t,
            veh_effective_mass_t =
              (case mass_gross_override of Some x \<Rightarrow> x
               | None \<Rightarrow> (case vt_mass_gross_t type of Some x \<Rightarrow> x | None \<Rightarrow> mass_empty_t)),
            veh_max_speed_kmh = max_speed_kmh, veh_braking_lambda_pct = braking_lambda_pct,
            veh_power_kw = power_kw, veh_traction_force_kn = traction_force_kn,
            veh_traction_capable = traction_capable, veh_traction_status = traction_status,
            veh_multiple_coupling_capable = vt_multiple_coupling_capable type, veh_davis = dav\<rparr>))))))))))))"

definition read_vehicle :: "'j Json \<Rightarrow> (UID, VehicleType) umap \<Rightarrow> path \<Rightarrow> 'j \<Rightarrow> load_error + Vehicle" where
  "read_vehicle js types p j =
     and_then (require_uid js j ''uid'' p) (\<lambda>uid.
     and_then (require_string js j ''pID'' p) (\<lambda>pid.
     and_then (require_uid js j ''type_uid'' p) (\<lambda>type_uid.
     and_then (require_string js j ''displayName'' p) (\<lambda>display_name.
       case um_find types type_uid of
         None \<Rightarrow> Inl (FleetLoadError (''Vehicle references unknown type_uid '' @ quoted (u64_to_string type_uid) @
                   '' in '' @ path_string p))
       | Some type \<Rightarrow> read_vehicle_of_type js p j uid pid type_uid display_name type))))"

definition load_vehicle :: "'j Json \<Rightarrow> 'j Files \<Rightarrow> path \<Rightarrow> FleetRegistry \<Rightarrow> load_error + FleetRegistry" where
  "load_vehicle js fs p reg =
     and_then (parse_json_file fs p) (\<lambda>j.
     and_then (read_vehicle js (fr_types reg) p j) (\<lambda>vehicle.
       if um_find (fr_vehicles reg) (veh_uid vehicle) \<noteq> None
       then Inl (duplicate_uid ''vehicle uid'' (veh_uid vehicle) p)
       else Inr (reg\<lparr>fr_vehicles := um_emplace (veh_uid vehicle) vehicle (fr_vehicles reg)\<rparr>)))"

definition load_vehicles :: "'j Json \<Rightarrow> 'j Files \<Rightarrow> path \<Rightarrow> FleetRegistry \<Rightarrow> load_error + FleetRegistry" where
  "load_vehicles js fs vehicles_dir reg =
     and_then (collect_vehicle_files fs vehicles_dir) (\<lambda>files. fold_result (load_vehicle js fs) files reg)"

section \<open>Consists\<close>

text \<open>What the loop over the vehicles of a consist accumulates.\<close>

record ConsistSums =
  sm_vehicle_uids :: "UID list"
  sm_length_m :: float32
  sm_axles :: int
  sm_mass_t :: float32
  sm_max_speed_kmh :: float32
  sm_traction_kn :: float32
  sm_power_kw :: float32
  sm_lambda_mass :: real
  sm_locomotives :: "Vehicle list"

definition no_sums :: ConsistSums where
  "no_sums = \<lparr>sm_vehicle_uids = [], sm_length_m = 0, sm_axles = 0, sm_mass_t = 0, sm_max_speed_kmh = float_max,
     sm_traction_kn = 0, sm_power_kw = 0, sm_lambda_mass = 0, sm_locomotives = []\<rparr>"

definition value_or_0 :: "float32 option \<Rightarrow> float32" where
  "value_or_0 x = (case x of Some v \<Rightarrow> v | None \<Rightarrow> 0)"

definition add_traction :: "Vehicle \<Rightarrow> ConsistSums \<Rightarrow> ConsistSums" where
  "add_traction v acc =
     acc\<lparr>sm_traction_kn := f32 (sm_traction_kn acc + value_or_0 (veh_traction_force_kn v)),
          sm_power_kw := f32 (sm_power_kw acc + value_or_0 (veh_power_kw v))\<rparr>"

definition operational :: "Vehicle \<Rightarrow> bool" where
  "operational v \<longleftrightarrow> veh_traction_status v = None \<or> veh_traction_status v = Some OPERATIONAL"

definition add_consist_vehicle :: "Vehicle \<Rightarrow> ConsistSums \<Rightarrow> ConsistSums" where
  "add_consist_vehicle v acc =
    (let acc = acc\<lparr>sm_length_m := f32 (sm_length_m acc + veh_length_m v),
                     sm_axles := sm_axles acc + veh_axle_count v,
                     sm_mass_t := f32 (sm_mass_t acc + veh_effective_mass_t v),
                     sm_max_speed_kmh := std_min (sm_max_speed_kmh acc) (f32 (of_int (veh_max_speed_kmh v)))\<rparr>;
         acc = (if veh_traction_capable v \<and> operational v then
                   (if is_locomotive_type (veh_vehicle_type v)
                    then acc\<lparr>sm_locomotives := sm_locomotives acc @ [v]\<rparr> else add_traction v acc)
                 else acc)
     in acc\<lparr>sm_lambda_mass := f64 (sm_lambda_mass acc +
               f64 (of_int (veh_braking_lambda_pct v) * veh_effective_mass_t v))\<rparr>)"

definition add_consist_item ::
    "'j Json \<Rightarrow> (UID, Vehicle) umap \<Rightarrow> path \<Rightarrow> 'j \<Rightarrow> ConsistSums \<Rightarrow> load_error + ConsistSums" where
  "add_consist_item js vehicles p item acc =
    (if \<not> j_is_number_unsigned js item
     then Inl (FleetLoadError (''Invalid vehicle uid entry in '' @ path_string p))
     else and_then (map_error JsonException (j_get_u64 js item)) (\<lambda>vehicle_uid.
       let acc = acc\<lparr>sm_vehicle_uids := sm_vehicle_uids acc @ [vehicle_uid]\<rparr>
       in case um_find vehicles vehicle_uid of
            None \<Rightarrow> Inl (FleetLoadError (''Consist references unknown vehicle uid '' @
                      quoted (u64_to_string vehicle_uid) @ '' in '' @ path_string p))
          | Some v \<Rightarrow> Inr (add_consist_vehicle v acc)))"

definition add_locomotives :: "ConsistSums \<Rightarrow> ConsistSums" where
  "add_locomotives acc =
    (case sm_locomotives acc of
       [] \<Rightarrow> acc
     | [v] \<Rightarrow> add_traction v acc
     | first # others \<Rightarrow>
         (let same_type = list_all (\<lambda>v. veh_type_uid v = veh_type_uid first) (sm_locomotives acc);
              coupling_allowed = (same_type \<and> veh_multiple_coupling_capable first = Some True)
          in if coupling_allowed then fold add_traction (sm_locomotives acc) acc else add_traction first acc))"

definition read_carrier_id ::
    "'j Json \<Rightarrow> (UID, Carrier) umap \<Rightarrow> path \<Rightarrow> 'j \<Rightarrow> load_error + UID option" where
  "read_carrier_id js carriers p j =
    (if j_contains js j ''carrier'' \<and> \<not> has_member js (j_is_null js) j ''carrier''
     then Inl (FleetLoadError
       (''Field '' @ quoted ''carrier'' @ '' is deprecated; use numeric '' @ quoted ''carrierId'' @ '' in '' @ path_string p))
     else if j_contains js j ''carrierId'' \<and> \<not> has_member js (j_is_null js) j ''carrierId'' then
       and_then (require_uid js j ''carrierId'' p) (\<lambda>carrier_id.
         if \<not> uid_has_kind carrier_id ROLLING_STOCK CARRIER
         then Inl (FleetLoadError (''carrierId has an invalid UID domain/kind in '' @ path_string p))
         else if um_find carriers carrier_id = None
         then Inl (FleetLoadError (''Unknown carrierId '' @ quoted (u64_to_string carrier_id) @ '' in '' @ path_string p))
         else Inr (Some carrier_id))
     else Inr None)"

definition read_consist :: "'j Json \<Rightarrow> FleetRegistry \<Rightarrow> path \<Rightarrow> path \<Rightarrow> 'j \<Rightarrow> load_error + TrainConsist" where
  "read_consist js reg consists_dir p j =
     and_then (require_uid js j ''uid'' p) (\<lambda>uid.
     and_then (require_string js j ''pID'' p) (\<lambda>pid.
     and_then (require_string js j ''displayName'' p) (\<lambda>display_name.
     and_then (require_string js j ''trainCategory'' p) (\<lambda>category.
     and_then (parse_train_category category p) (\<lambda>train_category.
     and_then (read_carrier_id js (fr_carriers reg) p j) (\<lambda>carrier_id.
       if \<not> has_member js (j_is_array js) j ''vehicle_uids''
       then Inl (FleetLoadError (''Missing or invalid array field '' @ quoted ''vehicle_uids'' @ '' in '' @ path_string p))
       else if category_from_folder p consists_dir \<noteq> None \<and> category_from_folder p consists_dir \<noteq> Some train_category
       then Inl (FleetLoadError (''trainCategory does not match folder in '' @ path_string p))
       else
     and_then (member_of js j ''vehicle_uids'') (\<lambda>items.
     and_then (fold_result (add_consist_item js (fr_vehicles reg) p) (j_elements js items) no_sums) (\<lambda>acc.
       let acc = add_locomotives acc in
       if sm_vehicle_uids acc = [] then Inl (FleetLoadError (''Train consist has no vehicles in '' @ path_string p))
       else Inr \<lparr>con_uid = uid, con_pid = pid, con_display_name = display_name, con_train_category = train_category,
                 con_carrier_id = carrier_id, con_vehicle_uids = sm_vehicle_uids acc,
                 con_total_length_m = sm_length_m acc, con_total_axles = sm_axles acc,
                 con_total_mass_t = sm_mass_t acc,
                 con_consist_lambda_pct =
                   (if sm_mass_t acc > 0 then f32 (f64 (sm_lambda_mass acc / sm_mass_t acc)) else 0),
                 con_max_speed_kmh = (if sm_max_speed_kmh acc = float_max then 0 else sm_max_speed_kmh acc),
                 con_total_traction_kn = sm_traction_kn acc, con_total_power_kw = sm_power_kw acc\<rparr>))))))))"

definition load_consist ::
    "'j Json \<Rightarrow> 'j Files \<Rightarrow> path \<Rightarrow> path \<Rightarrow> FleetRegistry \<Rightarrow> load_error + FleetRegistry" where
  "load_consist js fs consists_dir p reg =
     and_then (parse_json_file fs p) (\<lambda>j.
     and_then (read_consist js reg consists_dir p j) (\<lambda>consist.
       if um_find (fr_consists reg) (con_uid consist) \<noteq> None
       then Inl (duplicate_uid ''consist uid'' (con_uid consist) p)
       else Inr (reg\<lparr>fr_consists := um_emplace (con_uid consist) consist (fr_consists reg)\<rparr>)))"

definition load_consists :: "'j Json \<Rightarrow> 'j Files \<Rightarrow> path \<Rightarrow> FleetRegistry \<Rightarrow> load_error + FleetRegistry" where
  "load_consists js fs consists_dir reg =
     and_then (collect_json_files fs consists_dir) (\<lambda>files. fold_result (load_consist js fs consists_dir) files reg)"

section \<open>Carriers\<close>

definition add_service_type :: "'j Json \<Rightarrow> path \<Rightarrow> 'j \<Rightarrow> string list \<Rightarrow> load_error + string list" where
  "add_service_type js p item service_types =
    (if \<not> j_is_string js item
     then Inl (FleetLoadError (''Carrier type entries must be strings in '' @ path_string p))
     else and_then (map_error JsonException (j_get_string js item)) (\<lambda>service_type.
       if service_type \<noteq> ''passenger'' \<and> service_type \<noteq> ''freight''
       then Inl (FleetLoadError (''Invalid carrier type '' @ quoted service_type @ '' in '' @ path_string p))
       else Inr (if service_type \<in> set service_types then service_types else service_types @ [service_type])))"

definition read_logo :: "'j Json \<Rightarrow> path \<Rightarrow> 'j \<Rightarrow> load_error + string option" where
  "read_logo js p item =
    (if j_contains js item ''logo'' \<and> \<not> has_member js (j_is_null js) item ''logo'' then
       (if \<not> has_member js (j_is_string js) item ''logo''
        then Inl (FleetLoadError (''Carrier logo must be a string or null in '' @ path_string p))
        else and_then (member_of js item ''logo'') (\<lambda>v. map_error JsonException (map_sum id Some (j_get_string js v))))
     else Inr None)"

text \<open>The state of the loop over the carriers: the names seen so far and the registry.\<close>

definition load_carrier ::
    "'j Json \<Rightarrow> path \<Rightarrow> 'j \<Rightarrow> string list \<times> FleetRegistry \<Rightarrow> load_error + string list \<times> FleetRegistry" where
  "load_carrier js p item = (\<lambda>(carrier_names, reg).
    (if \<not> j_is_object js item
     then Inl (FleetLoadError (''Carrier entries must be objects in '' @ path_string p))
     else
     and_then (require_uid js item ''id'' p) (\<lambda>id'.
       if \<not> uid_has_kind id' ROLLING_STOCK CARRIER
       then Inl (FleetLoadError (''Carrier id has an invalid UID domain/kind in '' @ path_string p))
       else
     and_then (require_string js item ''name'' p) (\<lambda>name.
       if name \<in> set carrier_names
       then Inl (FleetLoadError (''Duplicate carrier name '' @ quoted name @ '' in '' @ path_string p))
       else if \<not> has_member js (\<lambda>v. j_is_array js v \<and> j_elements js v \<noteq> []) item ''type''
       then Inl (FleetLoadError
         (''Carrier entries must contain a non-empty '' @ quoted ''type'' @ '' array in '' @ path_string p))
       else
     and_then (member_of js item ''type'') (\<lambda>types.
     and_then (fold_result (add_service_type js p) (j_elements js types) []) (\<lambda>service_types.
     and_then (read_logo js p item) (\<lambda>logo.
       if um_find (fr_carriers reg) id' \<noteq> None then Inl (duplicate_uid ''carrier id'' id' p)
       else Inr (carrier_names @ [name],
         reg\<lparr>fr_carriers := um_emplace id'
               \<lparr>car_id = id', car_name = name, car_service_types = service_types, car_logo = logo\<rparr>
               (fr_carriers reg)\<rparr>))))))))"

definition load_carriers :: "'j Json \<Rightarrow> 'j Files \<Rightarrow> path \<Rightarrow> FleetRegistry \<Rightarrow> load_error + FleetRegistry" where
  "load_carriers js fs p reg =
    (if \<not> fs_exists fs p then Inr reg
     else
     and_then (parse_json_file fs p) (\<lambda>j.
       if \<not> (j_is_object js j \<and> has_member js (j_is_array js) j ''carriers'')
       then Inl (FleetLoadError (''carriers.json must contain a '' @ quoted ''carriers'' @ '' array''))
       else
     and_then (member_of js j ''carriers'') (\<lambda>items.
       map_sum id snd (fold_result (load_carrier js p) (j_elements js items) ([], reg)))))"

section \<open>The registry\<close>

definition load_fleet :: "'j Json \<Rightarrow> 'j Files \<Rightarrow> path \<Rightarrow> load_error + FleetRegistry" where
  "load_fleet js fs data_root =
     and_then (load_types js fs (data_root @ [''vehicle-types'']) empty_registry) (\<lambda>reg.
     and_then (load_vehicles js fs (data_root @ [''vehicles'']) reg) (\<lambda>reg.
     and_then (load_carriers js fs (data_root @ [''carriers'', ''carriers.json'']) reg) (\<lambda>reg.
       load_consists js fs (data_root @ [''trains'']) reg)))"

definition get_type :: "FleetRegistry \<Rightarrow> UID \<Rightarrow> load_error + VehicleType" where
  "get_type reg uid =
    (case um_find (fr_types reg) uid of
       None \<Rightarrow> Inl (FleetLoadError (''VehicleType not found: '' @ u64_to_string uid)) | Some t \<Rightarrow> Inr t)"

definition get_vehicle :: "FleetRegistry \<Rightarrow> UID \<Rightarrow> load_error + Vehicle" where
  "get_vehicle reg uid =
    (case um_find (fr_vehicles reg) uid of
       None \<Rightarrow> Inl (FleetLoadError (''Vehicle not found: '' @ u64_to_string uid)) | Some v \<Rightarrow> Inr v)"

definition get_consist :: "FleetRegistry \<Rightarrow> UID \<Rightarrow> load_error + TrainConsist" where
  "get_consist reg uid =
    (case um_find (fr_consists reg) uid of
       None \<Rightarrow> Inl (FleetLoadError (''TrainConsist not found: '' @ u64_to_string uid)) | Some c \<Rightarrow> Inr c)"

definition has_vehicle :: "FleetRegistry \<Rightarrow> UID \<Rightarrow> bool" where
  "has_vehicle reg uid \<longleftrightarrow> um_find (fr_vehicles reg) uid \<noteq> None"

definition has_consist :: "FleetRegistry \<Rightarrow> UID \<Rightarrow> bool" where
  "has_consist reg uid \<longleftrightarrow> um_find (fr_consists reg) uid \<noteq> None"

definition has_carrier :: "FleetRegistry \<Rightarrow> UID \<Rightarrow> bool" where
  "has_carrier reg uid \<longleftrightarrow> um_find (fr_carriers reg) uid \<noteq> None"

end
