(* ===== verification/Fleet_Loading.thy ===== *)
theory Fleet_Loading
  imports Fleet_Registry
begin

text \<open>
  What a loaded fleet satisfies: every reference resolves, the maps are keyed by the identifiers of
  their entries, vehicles agree with their types, the totals of a consist are those of its vehicles;
  and the errors the loader can end in.
\<close>

section \<open>Well-formed registries\<close>

definition entries_ok :: "('v \<Rightarrow> UID) \<Rightarrow> ('v \<Rightarrow> bool) \<Rightarrow> (UID, 'v) umap \<Rightarrow> bool" where
  "entries_ok key ok m \<longleftrightarrow> um_wf m \<and> um_keyed key m \<and> (\<forall>(k, v) \<in> set m. ok v \<and> uid_is_safe_json_integer k)"

lemma entries_ok_Nil [simp]: "entries_ok key ok []"
  by (simp add: entries_ok_def)

lemma entries_ok_emplace:
  assumes "entries_ok key ok m" and "ok v" and "uid_is_safe_json_integer (key v)"
  shows "entries_ok key ok (um_emplace (key v) v m)"
  using assms um_wf_emplace [of m "key v" v] um_keyed_emplace [of key m v "key v"]
  by (auto simp: entries_ok_def um_emplace_def)

lemma entries_ok_find:
  assumes "entries_ok key ok m" and "um_find m k = Some v"
  shows "ok v" "key v = k"
  using assms um_find_in_set [of m k v] um_keyed_find [of key m k v] by (auto simp: entries_ok_def)

lemma entries_ok_mono: "entries_ok key ok m \<Longrightarrow> (\<And>v. ok v \<Longrightarrow> ok' v) \<Longrightarrow> entries_ok key ok' m"
  by (auto simp: entries_ok_def)

definition vehicle_ok :: "(UID, VehicleType) umap \<Rightarrow> Vehicle \<Rightarrow> bool" where
  "vehicle_ok types v \<longleftrightarrow> (\<exists>t. um_find types (veh_type_uid v) = Some t \<and>
     veh_vehicle_type v = vt_vehicle_type t \<and> veh_vehicle_subtype v = vt_vehicle_subtype t \<and>
     veh_multiple_coupling_capable v = vt_multiple_coupling_capable t \<and>
     veh_traction_capable v = is_traction_capable (vt_vehicle_type t) (vt_vehicle_subtype t) \<and>
     (veh_traction_status v \<noteq> None \<longleftrightarrow> veh_traction_capable v))"

text \<open>
  Which vehicles pull a consist: every serviceable powered vehicle that is no locomotive; of the serviceable
  locomotives all of them when they may be coupled, which takes one type and the permission of the first
  one, and otherwise the first alone.  The order is the order in which the forces are added.\<close>

definition in_service :: "Vehicle \<Rightarrow> bool" where
  "in_service v \<longleftrightarrow> veh_traction_capable v \<and> veh_traction_status v \<in> {None, Some OPERATIONAL}"

definition pulling :: "Vehicle list \<Rightarrow> Vehicle list" where
  "pulling vs =
    (let locomotives = filter (\<lambda>v. in_service v \<and> is_locomotive_type (veh_vehicle_type v)) vs
     in filter (\<lambda>v. in_service v \<and> \<not> is_locomotive_type (veh_vehicle_type v)) vs @
        (if length locomotives \<le> 1 \<or>
            (\<forall>v \<in> set locomotives. veh_type_uid v = veh_type_uid (hd locomotives)) \<and>
              veh_multiple_coupling_capable (hd locomotives) = Some True
         then locomotives else [hd locomotives]))"

definition total :: "(Vehicle \<Rightarrow> float32) \<Rightarrow> Vehicle list \<Rightarrow> float32" where
  "total f vs = fold (\<lambda>v x. f32 (x + f v)) vs 0"

text \<open>The brake percentage of a consist is that of its vehicles, weighted with their masses.\<close>

definition lambda_mass :: "Vehicle list \<Rightarrow> real" where
  "lambda_mass vs = fold (\<lambda>v x. f64 (x + f64 (of_int (veh_braking_lambda_pct v) * veh_effective_mass_t v))) vs 0"

definition lowest_speed :: "Vehicle list \<Rightarrow> real" where
  "lowest_speed vs = Min ((\<lambda>v. f32 (of_int (veh_max_speed_kmh v))) ` set vs)"

definition consist_ok :: "(UID, Vehicle) umap \<Rightarrow> (UID, Carrier) umap \<Rightarrow> TrainConsist \<Rightarrow> bool" where
  "consist_ok vehicles carriers c \<longleftrightarrow>
     (\<exists>vs. vs \<noteq> [] \<and> map (um_find vehicles) (con_vehicle_uids c) = map Some vs \<and>
        con_total_axles c = sum_list (map veh_axle_count vs) \<and>
        con_total_length_m c = total veh_length_m vs \<and>
        con_total_mass_t c = total veh_effective_mass_t vs \<and>
        con_total_traction_kn c = total (\<lambda>v. value_or_0 (veh_traction_force_kn v)) (pulling vs) \<and>
        con_total_power_kw c = total (\<lambda>v. value_or_0 (veh_power_kw v)) (pulling vs) \<and>
        con_consist_lambda_pct c =
          (if con_total_mass_t c > 0 then f32 (f64 (lambda_mass vs / con_total_mass_t c)) else 0) \<and>
        con_max_speed_kmh c = (if lowest_speed vs < float_max then lowest_speed vs else 0)) \<and>
     (\<forall>i. con_carrier_id c = Some i \<longrightarrow> um_find carriers i \<noteq> None)"

definition carrier_ok :: "Carrier \<Rightarrow> bool" where
  "carrier_ok c \<longleftrightarrow> uid_has_kind (car_id c) ROLLING_STOCK CARRIER \<and>
     set (car_service_types c) \<subseteq> {''passenger'', ''freight''} \<and> distinct (car_service_types c)"

definition fleet_ok :: "FleetRegistry \<Rightarrow> bool" where
  "fleet_ok reg \<longleftrightarrow>
     entries_ok vt_uid (\<lambda>_. True) (fr_types reg) \<and>
     entries_ok veh_uid (vehicle_ok (fr_types reg)) (fr_vehicles reg) \<and>
     entries_ok con_uid (consist_ok (fr_vehicles reg) (fr_carriers reg)) (fr_consists reg) \<and>
     entries_ok car_id carrier_ok (fr_carriers reg)"

lemma fleet_ok_empty: "fleet_ok empty_registry"
  by (simp add: fleet_ok_def empty_registry_def)

section \<open>Types and vehicles\<close>

lemma require_uid_safe: "require_uid js j key p = Inr uid \<Longrightarrow> uid_is_safe_json_integer uid"
  by (auto simp: require_uid_def and_then_Inr split: if_splits)

lemma read_type_uid:
  assumes "read_type js p j = Inr t"
  shows "uid_is_safe_json_integer (vt_uid t)"
  using assms by (auto simp: read_type_def and_then_Inr split: if_splits intro: require_uid_safe)

lemma load_type_ok:
  assumes "load_type js fs p reg = Inr reg'" and "entries_ok vt_uid (\<lambda>_. True) (fr_types reg)"
  shows "entries_ok vt_uid (\<lambda>_. True) (fr_types reg')" "reg' = reg\<lparr>fr_types := fr_types reg'\<rparr>"
  using assms
  by (auto simp: load_type_def and_then_Inr split: if_splits intro!: entries_ok_emplace read_type_uid)

lemma read_vehicle_status_ok:
  "read_vehicle_status js p j capable = Inr st \<Longrightarrow> st \<noteq> None \<longleftrightarrow> capable"
  by (auto simp: read_vehicle_status_def and_then_Inr split: if_splits)

lemma read_vehicle_of_type_fields:
  assumes "read_vehicle_of_type js p j uid pid type_uid display_name t = Inr v"
  shows "veh_uid v = uid" "veh_type_uid v = type_uid" "veh_vehicle_type v = vt_vehicle_type t"
    "veh_vehicle_subtype v = vt_vehicle_subtype t"
    "veh_multiple_coupling_capable v = vt_multiple_coupling_capable t"
    "veh_traction_capable v = is_traction_capable (vt_vehicle_type t) (vt_vehicle_subtype t)"
    "veh_traction_status v \<noteq> None \<longleftrightarrow> veh_traction_capable v"
  using assms
  by (auto simp: read_vehicle_of_type_def Let_def and_then_Inr dest!: read_vehicle_status_ok split: if_splits)

lemma read_vehicle_ok:
  assumes "read_vehicle js types p j = Inr v"
  shows "vehicle_ok types v" "uid_is_safe_json_integer (veh_uid v)"
proof -
  obtain uid pid type_uid name t where t: "um_find types type_uid = Some t"
    and uid: "require_uid js j ''uid'' p = Inr uid"
    and v: "read_vehicle_of_type js p j uid pid type_uid name t = Inr v"
    using assms by (auto simp: read_vehicle_def and_then_Inr split: option.splits)
  show "vehicle_ok types v" using read_vehicle_of_type_fields [OF v] t by (auto simp: vehicle_ok_def)
  show "uid_is_safe_json_integer (veh_uid v)"
    using read_vehicle_of_type_fields(1) [OF v] require_uid_safe [OF uid] by simp
qed

lemma load_vehicle_ok:
  assumes "load_vehicle js fs p reg = Inr reg'"
    and "entries_ok veh_uid (vehicle_ok (fr_types reg)) (fr_vehicles reg)"
  shows "entries_ok veh_uid (vehicle_ok (fr_types reg')) (fr_vehicles reg')"
    "reg' = reg\<lparr>fr_vehicles := fr_vehicles reg'\<rparr>"
  using assms
  by (auto simp: load_vehicle_def and_then_Inr split: if_splits intro!: entries_ok_emplace read_vehicle_ok)

section \<open>Carriers\<close>

lemma add_service_type_ok:
  assumes "set ts \<subseteq> {''passenger'', ''freight''} \<and> distinct ts" and "add_service_type js p item ts = Inr ts'"
  shows "set ts' \<subseteq> {''passenger'', ''freight''} \<and> distinct ts'"
  using assms by (auto simp: add_service_type_def and_then_Inr split: if_splits)

lemma service_types_ok:
  assumes "fold_result (add_service_type js p) items [] = Inr ts"
  shows "set ts \<subseteq> {''passenger'', ''freight''} \<and> distinct ts"
  by (rule fold_result_invariant [where P = "\<lambda>ts. set ts \<subseteq> {''passenger'', ''freight''} \<and> distinct ts", OF assms])
     (simp, erule (1) add_service_type_ok)

lemma load_carrier_ok:
  assumes "load_carrier js p item (names, reg) = Inr (names', reg')"
    and "entries_ok car_id carrier_ok (fr_carriers reg)"
  shows "entries_ok car_id carrier_ok (fr_carriers reg') \<and> reg' = reg\<lparr>fr_carriers := fr_carriers reg'\<rparr>"
proof -
  obtain i name types ts lg where
    i: "require_uid js item ''id'' p = Inr i" "uid_has_kind i ROLLING_STOCK CARRIER"
    and ts: "fold_result (add_service_type js p) types [] = Inr ts"
    and reg': "reg' = reg\<lparr>fr_carriers := um_emplace i
      \<lparr>car_id = i, car_name = name, car_service_types = ts, car_logo = lg\<rparr> (fr_carriers reg)\<rparr>"
    using assms(1) by (auto simp: load_carrier_def and_then_Inr split: if_splits)
  let ?c = "\<lparr>car_id = i, car_name = name, car_service_types = ts, car_logo = lg\<rparr>"
  have "carrier_ok ?c" using i(2) service_types_ok [OF ts] by (simp add: carrier_ok_def)
  then have "entries_ok car_id carrier_ok (um_emplace (car_id ?c) ?c (fr_carriers reg))"
    using assms(2) require_uid_safe [OF i(1)] by (intro entries_ok_emplace) simp_all
  then show ?thesis by (simp add: reg')
qed

section \<open>Consists\<close>

definition sum_of :: "Vehicle list \<Rightarrow> ConsistSums \<Rightarrow> ConsistSums" where
  "sum_of vs acc = fold add_consist_vehicle vs acc"

lemma add_consist_vehicle_uids:
  "add_consist_vehicle v (acc\<lparr>sm_vehicle_uids := us\<rparr>) = (add_consist_vehicle v acc)\<lparr>sm_vehicle_uids := us\<rparr>"
  "sm_vehicle_uids (add_consist_vehicle v acc) = sm_vehicle_uids acc"
  by (simp_all add: add_consist_vehicle_def Let_def add_traction_def)

lemma sum_of_uids: "sum_of vs (acc\<lparr>sm_vehicle_uids := us\<rparr>) = (sum_of vs acc)\<lparr>sm_vehicle_uids := us\<rparr>"
  unfolding sum_of_def by (induction vs arbitrary: acc) (simp_all add: add_consist_vehicle_uids)

lemma add_consist_item_Inr:
  assumes "add_consist_item js vehicles p item acc = Inr acc'"
  shows "\<exists>u v. um_find vehicles u = Some v \<and>
    acc' = (add_consist_vehicle v acc)\<lparr>sm_vehicle_uids := sm_vehicle_uids acc @ [u]\<rparr>"
  using assms
  by (auto simp: add_consist_item_def Let_def and_then_Inr add_consist_vehicle_uids split: if_splits option.splits)

lemma add_consist_items:
  assumes "fold_result (add_consist_item js vehicles p) items acc = Inr acc'"
  shows "\<exists>us vs. map (um_find vehicles) us = map Some vs \<and>
    acc' = (sum_of vs acc)\<lparr>sm_vehicle_uids := sm_vehicle_uids acc @ us\<rparr>"
  using assms
proof (induction items arbitrary: acc)
  case Nil
  then show ?case by (intro exI [of _ "[]"]) (simp add: sum_of_def)
next
  case (Cons item items)
  obtain acc1 where acc1: "add_consist_item js vehicles p item acc = Inr acc1"
    and rest1: "fold_result (add_consist_item js vehicles p) items acc1 = Inr acc'"
    using Cons.prems by (auto simp: and_then_Inr)
  obtain u v where v: "um_find vehicles u = Some v"
    and "acc1 = (add_consist_vehicle v acc)\<lparr>sm_vehicle_uids := sm_vehicle_uids acc @ [u]\<rparr>"
    using add_consist_item_Inr [OF acc1] by blast
  with rest1 have rest: "fold_result (add_consist_item js vehicles p) items
      ((add_consist_vehicle v acc)\<lparr>sm_vehicle_uids := sm_vehicle_uids acc @ [u]\<rparr>) = Inr acc'" by simp
  from Cons.IH [OF rest] obtain us vs where "map (um_find vehicles) us = map Some vs"
    and "acc' = (sum_of vs ((add_consist_vehicle v acc)\<lparr>sm_vehicle_uids := sm_vehicle_uids acc @ [u]\<rparr>))
      \<lparr>sm_vehicle_uids := sm_vehicle_uids acc @ [u] @ us\<rparr>"
    by auto
  then show ?case using v
    by (intro exI [of _ "u # us"] exI [of _ "v # vs"]) (simp add: sum_of_uids, simp add: sum_of_def)
qed

lemma sum_of_fields:
  "sm_axles (sum_of vs acc) = sm_axles acc + sum_list (map veh_axle_count vs)"
  "sm_length_m (sum_of vs acc) = fold (\<lambda>v l. f32 (l + veh_length_m v)) vs (sm_length_m acc)"
  "sm_mass_t (sum_of vs acc) = fold (\<lambda>v m. f32 (m + veh_effective_mass_t v)) vs (sm_mass_t acc)"
  "sm_lambda_mass (sum_of vs acc) =
     fold (\<lambda>v x. f64 (x + f64 (of_int (veh_braking_lambda_pct v) * veh_effective_mass_t v))) vs (sm_lambda_mass acc)"
  "sm_locomotives (sum_of vs acc) =
     sm_locomotives acc @ filter (\<lambda>v. in_service v \<and> is_locomotive_type (veh_vehicle_type v)) vs"
  "sm_traction_kn (sum_of vs acc) = fold (\<lambda>v x. f32 (x + value_or_0 (veh_traction_force_kn v)))
     (filter (\<lambda>v. in_service v \<and> \<not> is_locomotive_type (veh_vehicle_type v)) vs) (sm_traction_kn acc)"
  "sm_power_kw (sum_of vs acc) = fold (\<lambda>v x. f32 (x + value_or_0 (veh_power_kw v)))
     (filter (\<lambda>v. in_service v \<and> \<not> is_locomotive_type (veh_vehicle_type v)) vs) (sm_power_kw acc)"
  "sm_max_speed_kmh (sum_of vs acc) =
     fold (\<lambda>v s. std_min s (f32 (of_int (veh_max_speed_kmh v)))) vs (sm_max_speed_kmh acc)"
  unfolding sum_of_def
  by (induction vs arbitrary: acc)
    (auto simp: add_consist_vehicle_def Let_def add_traction_def in_service_def operational_def)

lemma fold_std_min_in: "fold (\<lambda>v s. std_min s (f v)) vs x \<in> insert x (f ` set vs)"
proof (induction vs arbitrary: x)
  case (Cons w vs)
  have "fold (\<lambda>v s. std_min s (f v)) vs (std_min x (f w)) \<in> insert (std_min x (f w)) (f ` set vs)" by (rule Cons)
  then show ?case by (auto simp: std_min_def)
qed simp

lemma fold_std_min_le: "fold (\<lambda>v s. std_min s (f v)) vs x \<le> x"
proof (induction vs arbitrary: x)
  case (Cons w vs)
  have "fold (\<lambda>v s. std_min s (f v)) vs (std_min x (f w)) \<le> std_min x (f w)" by (rule Cons)
  also have "\<dots> \<le> x" by (simp add: std_min_def)
  finally show ?case by simp
qed simp

lemma fold_std_min: "v \<in> set vs \<Longrightarrow> fold (\<lambda>v s. std_min s (f v)) vs x \<le> f v"
proof (induction vs arbitrary: x)
  case (Cons w vs)
  have "fold (\<lambda>v s. std_min s (f v)) vs (std_min x (f w)) \<le> std_min x (f w)" by (rule fold_std_min_le)
  moreover have "std_min x (f w) \<le> f w" by (simp add: std_min_def)
  ultimately show ?case using Cons by auto
qed simp

lemma fold_std_min_Min: "fold (\<lambda>v s. std_min s (f v)) vs x = Min (insert x (f ` set vs))"
  using fold_std_min_in [of f vs x] fold_std_min_le [of f vs x] fold_std_min [of _ vs f x]
  by (intro Min_eqI [symmetric]) auto

lemma add_traction_fields [simp]:
  "sm_vehicle_uids (add_traction v acc) = sm_vehicle_uids acc" "sm_axles (add_traction v acc) = sm_axles acc"
  "sm_length_m (add_traction v acc) = sm_length_m acc" "sm_mass_t (add_traction v acc) = sm_mass_t acc"
  "sm_max_speed_kmh (add_traction v acc) = sm_max_speed_kmh acc"
  "sm_lambda_mass (add_traction v acc) = sm_lambda_mass acc"
  by (simp_all add: add_traction_def)

lemma fold_add_traction_fields [simp]:
  "sm_vehicle_uids (fold add_traction vs acc) = sm_vehicle_uids acc"
  "sm_axles (fold add_traction vs acc) = sm_axles acc" "sm_length_m (fold add_traction vs acc) = sm_length_m acc"
  "sm_mass_t (fold add_traction vs acc) = sm_mass_t acc"
  "sm_max_speed_kmh (fold add_traction vs acc) = sm_max_speed_kmh acc"
  "sm_lambda_mass (fold add_traction vs acc) = sm_lambda_mass acc"
  "sm_traction_kn (fold add_traction vs acc) =
     fold (\<lambda>v x. f32 (x + value_or_0 (veh_traction_force_kn v))) vs (sm_traction_kn acc)"
  "sm_power_kw (fold add_traction vs acc) = fold (\<lambda>v x. f32 (x + value_or_0 (veh_power_kw v))) vs (sm_power_kw acc)"
  by (induction vs arbitrary: acc) (simp_all, simp_all add: add_traction_def)

lemma add_locomotives_fields [simp]:
  "sm_vehicle_uids (add_locomotives acc) = sm_vehicle_uids acc" "sm_axles (add_locomotives acc) = sm_axles acc"
  "sm_length_m (add_locomotives acc) = sm_length_m acc" "sm_mass_t (add_locomotives acc) = sm_mass_t acc"
  "sm_max_speed_kmh (add_locomotives acc) = sm_max_speed_kmh acc"
  "sm_lambda_mass (add_locomotives acc) = sm_lambda_mass acc"
  by (simp_all add: add_locomotives_def Let_def split: list.split)

lemma add_locomotives_uids:
  "add_locomotives (acc\<lparr>sm_vehicle_uids := us\<rparr>) = (add_locomotives acc)\<lparr>sm_vehicle_uids := us\<rparr>"
proof -
  have one: "add_traction v (a\<lparr>sm_vehicle_uids := us\<rparr>) = (add_traction v a)\<lparr>sm_vehicle_uids := us\<rparr>" for v a
    by (simp add: add_traction_def)
  have "fold add_traction vs (a\<lparr>sm_vehicle_uids := us\<rparr>) = (fold add_traction vs a)\<lparr>sm_vehicle_uids := us\<rparr>" for vs a
    by (induction vs arbitrary: a) (simp_all add: one)
  then show ?thesis by (auto simp: add_locomotives_def one Let_def split: list.split)
qed

lemma add_locomotives_fold:
  assumes "sm_locomotives acc = ls"
  shows "add_locomotives acc = fold add_traction
    (if length ls \<le> 1 \<or> (\<forall>v \<in> set ls. veh_type_uid v = veh_type_uid (hd ls)) \<and>
        veh_multiple_coupling_capable (hd ls) = Some True then ls else [hd ls]) acc"
proof (cases ls rule: list.exhaust [case_names none some])
  case none
  with assms show ?thesis by (simp add: add_locomotives_def)
next
  case (some v vs)
  show ?thesis
  proof (cases vs)
    case Nil
    with some assms show ?thesis by (simp add: add_locomotives_def)
  next
    case (Cons w ws)
    have "list_all (\<lambda>v'. veh_type_uid v' = veh_type_uid v) ls \<longleftrightarrow>
        (\<forall>v' \<in> set ls. veh_type_uid v' = veh_type_uid v)"
      by (rule list_all_iff)
    moreover have "add_locomotives acc =
        (if list_all (\<lambda>v'. veh_type_uid v' = veh_type_uid v) ls \<and> veh_multiple_coupling_capable v = Some True
         then fold add_traction ls acc else add_traction v acc)"
      using assms by (simp only: add_locomotives_def some Cons list.case Let_def)
    ultimately show ?thesis using some Cons by simp
  qed
qed

lemma pulled_sums:
  "sm_traction_kn (add_locomotives (sum_of vs no_sums)) = total (\<lambda>v. value_or_0 (veh_traction_force_kn v)) (pulling vs)"
  "sm_power_kw (add_locomotives (sum_of vs no_sums)) = total (\<lambda>v. value_or_0 (veh_power_kw v)) (pulling vs)"
proof -
  define ls where "ls = filter (\<lambda>v. in_service v \<and> is_locomotive_type (veh_vehicle_type v)) vs"
  have ls: "sm_locomotives (sum_of vs no_sums) = ls" by (simp add: sum_of_fields no_sums_def ls_def)
  have other: "sm_traction_kn (fold add_traction us (sum_of vs no_sums)) =
      total (\<lambda>v. value_or_0 (veh_traction_force_kn v))
        (filter (\<lambda>v. in_service v \<and> \<not> is_locomotive_type (veh_vehicle_type v)) vs @ us)"
    "sm_power_kw (fold add_traction us (sum_of vs no_sums)) =
      total (\<lambda>v. value_or_0 (veh_power_kw v))
        (filter (\<lambda>v. in_service v \<and> \<not> is_locomotive_type (veh_vehicle_type v)) vs @ us)" for us
    by (simp_all add: sum_of_fields total_def no_sums_def)
  have "add_locomotives (sum_of vs no_sums) = fold add_traction
      (if length ls \<le> 1 \<or> (\<forall>v \<in> set ls. veh_type_uid v = veh_type_uid (hd ls)) \<and>
          veh_multiple_coupling_capable (hd ls) = Some True then ls else [hd ls]) (sum_of vs no_sums)"
    by (rule add_locomotives_fold [OF ls])
  then show "sm_traction_kn (add_locomotives (sum_of vs no_sums)) = total (\<lambda>v. value_or_0 (veh_traction_force_kn v)) (pulling vs)"
    "sm_power_kw (add_locomotives (sum_of vs no_sums)) = total (\<lambda>v. value_or_0 (veh_power_kw v)) (pulling vs)"
    by (simp_all only: other pulling_def Let_def ls_def)
qed

lemma read_carrier_id_known:
  "read_carrier_id js carriers p j = Inr (Some i) \<Longrightarrow> um_find carriers i \<noteq> None"
  by (auto simp: read_carrier_id_def and_then_Inr split: if_splits)

lemma read_consist_ok:
  assumes "read_consist js reg consists_dir p j = Inr c"
  shows "consist_ok (fr_vehicles reg) (fr_carriers reg) c" "uid_is_safe_json_integer (con_uid c)"
proof -
  obtain uid carrier items acc where uid: "require_uid js j ''uid'' p = Inr uid" and c_uid: "con_uid c = uid"
    and carrier: "read_carrier_id js (fr_carriers reg) p j = Inr carrier" "con_carrier_id c = carrier"
    and items: "fold_result (add_consist_item js (fr_vehicles reg) p) (j_elements js items) no_sums = Inr acc"
    and uids: "sm_vehicle_uids acc \<noteq> []" "con_vehicle_uids c = sm_vehicle_uids acc"
    and totals: "con_total_axles c = sm_axles acc" "con_total_length_m c = sm_length_m acc"
      "con_total_mass_t c = sm_mass_t acc"
      "con_max_speed_kmh c = (if sm_max_speed_kmh acc = float_max then 0 else sm_max_speed_kmh acc)"
      "con_consist_lambda_pct c =
        (if sm_mass_t acc > 0 then f32 (f64 (sm_lambda_mass acc / sm_mass_t acc)) else 0)"
      "con_total_traction_kn c = sm_traction_kn (add_locomotives acc)"
      "con_total_power_kw c = sm_power_kw (add_locomotives acc)"
    using assms by (auto simp: read_consist_def Let_def and_then_Inr split: if_splits)
  obtain us vs where vs: "map (um_find (fr_vehicles reg)) us = map Some vs"
    and acc: "acc = (sum_of vs no_sums)\<lparr>sm_vehicle_uids := us\<rparr>"
    using add_consist_items [OF items] by (auto simp: no_sums_def)
  have ne: "vs \<noteq> []" using uids acc vs by (cases vs) auto
  have pulled: "sm_traction_kn (add_locomotives acc) = sm_traction_kn (add_locomotives (sum_of vs no_sums))"
    "sm_power_kw (add_locomotives acc) = sm_power_kw (add_locomotives (sum_of vs no_sums))"
    using add_locomotives_uids [of us "sum_of vs no_sums"] by (simp_all add: acc)
  have least: "con_max_speed_kmh c = (if lowest_speed vs < float_max then lowest_speed vs else 0)"
  proof -
    have "sm_max_speed_kmh acc = min float_max (lowest_speed vs)"
      using ne by (simp add: acc sum_of_fields no_sums_def fold_std_min_Min lowest_speed_def)
    then show ?thesis by (simp add: totals(4) min_def)
  qed
  show "consist_ok (fr_vehicles reg) (fr_carriers reg) c" unfolding consist_ok_def
  proof (intro conjI exI [of _ vs])
    show "map (um_find (fr_vehicles reg)) (con_vehicle_uids c) = map Some vs" using vs uids acc by simp
    show "\<forall>i. con_carrier_id c = Some i \<longrightarrow> um_find (fr_carriers reg) i \<noteq> None"
      using carrier by (auto dest!: read_carrier_id_known)
  qed (use ne least totals acc pulled pulled_sums [of vs] in
      \<open>simp_all add: sum_of_fields no_sums_def total_def lambda_mass_def\<close>)
  show "uid_is_safe_json_integer (con_uid c)" using require_uid_safe [OF uid] c_uid by simp
qed

lemma load_consist_ok:
  assumes "load_consist js fs dir p reg = Inr reg'"
    and "entries_ok con_uid (consist_ok (fr_vehicles reg) (fr_carriers reg)) (fr_consists reg)"
  shows "entries_ok con_uid (consist_ok (fr_vehicles reg') (fr_carriers reg')) (fr_consists reg')"
    "reg' = reg\<lparr>fr_consists := fr_consists reg'\<rparr>"
  using assms
  by (auto simp: load_consist_def and_then_Inr split: if_splits intro!: entries_ok_emplace read_consist_ok)

section \<open>The whole load\<close>

lemma load_types_ok:
  assumes "load_types js fs dir reg = Inr reg'" and "fleet_ok reg" and "fr_vehicles reg = []" and "fr_consists reg = []"
  shows "fleet_ok reg' \<and> fr_vehicles reg' = [] \<and> fr_consists reg' = []"
proof -
  obtain files where "fold_result (load_type js fs) files reg = Inr reg'"
    using assms(1) by (auto simp: load_types_def and_then_Inr)
  then show ?thesis
  proof (rule fold_result_invariant [where P = "\<lambda>r. fleet_ok r \<and> fr_vehicles r = [] \<and> fr_consists r = []"])
    show "fleet_ok reg \<and> fr_vehicles reg = [] \<and> fr_consists reg = []" using assms by simp
  next
    fix f r r' assume r: "fleet_ok r \<and> fr_vehicles r = [] \<and> fr_consists r = []" and l: "load_type js fs f r = Inr r'"
    obtain ts where "r' = r\<lparr>fr_types := ts\<rparr>" using load_type_ok(2) [OF l] r by (auto simp: fleet_ok_def)
    then show "fleet_ok r' \<and> fr_vehicles r' = [] \<and> fr_consists r' = []"
      using load_type_ok(1) [OF l] r by (simp add: fleet_ok_def)
  qed
qed

lemma load_vehicles_ok:
  assumes "load_vehicles js fs dir reg = Inr reg'" and "fleet_ok reg" and "fr_consists reg = []"
  shows "fleet_ok reg' \<and> fr_consists reg' = []"
proof -
  obtain files where "fold_result (load_vehicle js fs) files reg = Inr reg'"
    using assms(1) by (auto simp: load_vehicles_def and_then_Inr)
  then show ?thesis
  proof (rule fold_result_invariant [where P = "\<lambda>r. fleet_ok r \<and> fr_consists r = []"])
    show "fleet_ok reg \<and> fr_consists reg = []" using assms by simp
  next
    fix f r r' assume r: "fleet_ok r \<and> fr_consists r = []" and l: "load_vehicle js fs f r = Inr r'"
    obtain vs where "r' = r\<lparr>fr_vehicles := vs\<rparr>" using load_vehicle_ok(2) [OF l] r by (auto simp: fleet_ok_def)
    then show "fleet_ok r' \<and> fr_consists r' = []" using load_vehicle_ok(1) [OF l] r by (simp add: fleet_ok_def)
  qed
qed

lemma map_sum_snd_Inr: "map_sum id snd m = Inr r \<longleftrightarrow> (\<exists>n. m = Inr (n, r))"
  by (cases m) auto

lemma load_carriers_ok:
  assumes "load_carriers js fs p reg = Inr reg'" and "fleet_ok reg" and "fr_consists reg = []"
  shows "fleet_ok reg' \<and> fr_consists reg' = []"
proof (cases "fs_exists fs p")
  case False
  then show ?thesis using assms by (simp add: load_carriers_def)
next
  case True
  then obtain items names where items: "fold_result (load_carrier js p) items ([], reg) = Inr (names, reg')"
    using assms(1) by (auto simp: load_carriers_def and_then_Inr map_sum_snd_Inr split: if_splits)
  have "case (names, reg') of (ns, r) \<Rightarrow> fleet_ok r \<and> fr_consists r = []"
  proof (rule fold_result_invariant [OF items, where P = "\<lambda>(ns, r). fleet_ok r \<and> fr_consists r = []"])
    show "case ([], reg) of (ns, r) \<Rightarrow> fleet_ok r \<and> fr_consists r = []" using assms by simp
  next
    fix x and s t :: "string list \<times> FleetRegistry"
    assume s: "case s of (ns, r) \<Rightarrow> fleet_ok r \<and> fr_consists r = []" and l: "load_carrier js p x s = Inr t"
    obtain ns r ns' r' where st: "s = (ns, r)" "t = (ns', r')" by (cases s; cases t) auto
    from load_carrier_ok [of js p x ns r ns' r'] l st s
    have ok: "entries_ok car_id carrier_ok (fr_carriers r')" and r': "r' = r\<lparr>fr_carriers := fr_carriers r'\<rparr>"
      by (auto simp: fleet_ok_def)
    then obtain cs where "r' = r\<lparr>fr_carriers := cs\<rparr>" by metis
    then show "case t of (ns, r) \<Rightarrow> fleet_ok r \<and> fr_consists r = []" using ok s st by (simp add: fleet_ok_def)
  qed
  then show ?thesis by simp
qed

lemma load_consists_ok:
  assumes "load_consists js fs dir reg = Inr reg'" and "fleet_ok reg"
  shows "fleet_ok reg'"
proof -
  obtain files where "fold_result (load_consist js fs dir) files reg = Inr reg'"
    using assms(1) by (auto simp: load_consists_def and_then_Inr)
  then show ?thesis
  proof (rule fold_result_invariant [where P = fleet_ok])
    fix f r r' assume r: "fleet_ok r" and l: "load_consist js fs dir f r = Inr r'"
    obtain cs where "r' = r\<lparr>fr_consists := cs\<rparr>" using load_consist_ok(2) [OF l] r by (auto simp: fleet_ok_def)
    then show "fleet_ok r'" using load_consist_ok(1) [OF l] r by (simp add: fleet_ok_def)
  qed (rule assms(2))
qed

section \<open>Only fleet errors\<close>

definition fleet_error :: "load_error \<Rightarrow> bool" where
  "fleet_error e \<longleftrightarrow> (\<exists>m. e = FleetLoadError m)"

definition safe_result :: "load_error + 'a \<Rightarrow> bool" where
  "safe_result m \<longleftrightarrow> (\<forall>e. m = Inl e \<longrightarrow> fleet_error e)"

named_theorems safe_intros \<open>computations that fail with a fleet error only\<close>

lemma safe_basic [safe_intros]: "safe_result (Inr x)" "safe_result (Inl (FleetLoadError m))"
  by (simp_all add: safe_result_def fleet_error_def)

lemma safe_and_then [safe_intros]:
  "safe_result m \<Longrightarrow> (\<And>x. m = Inr x \<Longrightarrow> safe_result (f x)) \<Longrightarrow> safe_result (and_then m f)"
  by (auto simp: safe_result_def and_then_Inl)

lemma safe_if [safe_intros]: "(b \<Longrightarrow> safe_result m) \<Longrightarrow> (\<not> b \<Longrightarrow> safe_result n) \<Longrightarrow> safe_result (if b then m else n)"
  by simp

lemma safe_option [safe_intros]:
  "safe_result m \<Longrightarrow> (\<And>x. safe_result (f x)) \<Longrightarrow> safe_result (case v of None \<Rightarrow> m | Some x \<Rightarrow> f x)"
  by (simp split: option.split)

lemma safe_map_sum [safe_intros]: "safe_result m \<Longrightarrow> safe_result (map_sum id g m)"
  by (cases m) (auto simp: safe_result_def)

lemma safe_map_error [safe_intros]: "safe_result (map_error (\<lambda>w. FleetLoadError (f w)) m)"
  by (cases m) (auto simp: safe_result_def fleet_error_def)

lemma safe_fold_result [safe_intros]:
  "(\<And>x s. x \<in> set xs \<Longrightarrow> safe_result (f x s)) \<Longrightarrow> safe_result (fold_result f xs s)"
  by (induction xs arbitrary: s) (auto intro!: safe_intros)

lemma safe_field:
  assumes "json_laws js" and "\<And>v. ok v \<Longrightarrow> \<exists>x. get v = Inr x"
  shows "safe_result (require_field js ok get what j key p)" "safe_result (optional_field js ok get what j key p)"
proof -
  have get: "safe_result (and_then (member_of js j key) (\<lambda>v. map_error JsonException (get' v)))"
    if h: "has_member js ok j key" and g: "\<And>v. ok v \<Longrightarrow> \<exists>x. get' v = Inr x" for get' :: "'a \<Rightarrow> string + 'c"
  proof -
    obtain v where "j_at js j key = Inr v" "ok v" using h by (auto simp: has_member_def split: sum.splits)
    then show ?thesis using g [of v] by (auto simp: member_of_def safe_result_def)
  qed
  show "safe_result (require_field js ok get what j key p)"
    using get [of get] assms(2) by (auto simp: require_field_def intro!: safe_intros)
  have "\<exists>x. map_sum id Some (get v) = Inr x" if "ok v" for v using assms(2) [OF that] by auto
  then show "safe_result (optional_field js ok get what j key p)"
    using get [of "\<lambda>v. map_sum id Some (get v)"] by (auto simp: optional_field_def intro!: safe_intros)
qed

lemma safe_member [safe_intros]:
  assumes "has_member js ok j key"
  shows "safe_result (member_of js j key)"
  using assms by (auto simp: has_member_def member_of_def safe_result_def split: sum.splits)

lemma safe_fields:
  assumes "json_laws js"
  shows "safe_result (require_string js j key p)" "safe_result (require_int js j key p)"
    "safe_result (require_float js j key p)" "safe_result (require_uid js j key p)"
    "safe_result (optional_float js j key p)" "safe_result (optional_bool js j key p)"
    "safe_result (optional_string js j key)" "safe_result (resolve_float_override js j key x p)"
    "safe_result (resolve_int_override js j key n p)" "safe_result (resolve_optional_float_override js j key ov p)"
    "safe_result (optional_traction_status js j key p)"
proof -
  note laws = json_lawsD [OF assms] and field = safe_field [OF assms]
  have str: "safe_result (optional_string js j key)"
  proof (cases "has_member js (j_is_string js) j key")
    case True
    then obtain v where v: "j_at js j key = Inr v" "j_is_string js v" by (auto simp: has_member_def split: sum.splits)
    then obtain t where "j_get_string js v = Inr t" using laws(2) by blast
    then show ?thesis using True v by (auto simp: optional_string_def member_of_def safe_result_def)
  qed (simp add: optional_string_def safe_intros)
  then show "safe_result (optional_string js j key)" .
  show "safe_result (require_string js j key p)" "safe_result (require_int js j key p)"
    "safe_result (require_float js j key p)" "safe_result (optional_float js j key p)"
    "safe_result (optional_bool js j key p)"
    unfolding require_string_def require_int_def require_float_def optional_float_def optional_bool_def
    by (rule field, rule laws, assumption)+
  show "safe_result (require_uid js j key p)"
    unfolding require_uid_def by (intro safe_intros field) (rule laws, assumption)
  show "safe_result (resolve_float_override js j key x p)" "safe_result (resolve_int_override js j key n p)"
    "safe_result (resolve_optional_float_override js j key ov p)"
    unfolding resolve_float_override_def resolve_int_override_def resolve_optional_float_override_def
    by ((intro safe_intros field, rule laws, assumption)+)
  show "safe_result (optional_traction_status js j key p)"
    unfolding optional_traction_status_def parse_traction_status_def
    by (intro safe_intros field) (rule laws, assumption)
qed

lemma safe_load_type: "json_laws js \<Longrightarrow> safe_result (load_type js fs p reg)"
  unfolding load_type_def read_type_def read_type_davis_def parse_json_file_def duplicate_uid_def Let_def
  by (intro safe_intros safe_fields)

lemma safe_load_vehicle: "json_laws js \<Longrightarrow> safe_result (load_vehicle js fs p reg)"
  unfolding load_vehicle_def read_vehicle_def read_vehicle_of_type_def read_vehicle_status_def
    read_vehicle_davis_def parse_json_file_def duplicate_uid_def Let_def
  by (intro safe_intros safe_fields)

lemma safe_get:
  assumes "\<exists>x. m = Inr x"
  shows "safe_result (map_error JsonException m)"
  using assms by (auto simp: safe_result_def)

lemma safe_load_consist:
  assumes "json_laws js"
  shows "safe_result (load_consist js fs dir p reg)"
proof -
  have item: "safe_result (add_consist_item js vehicles p item acc)" for vehicles item acc
    unfolding add_consist_item_def Let_def
    by (intro safe_intros safe_get) (rule json_lawsD(6) [OF assms], simp)
  show ?thesis
    unfolding load_consist_def read_consist_def read_carrier_id_def parse_train_category_def parse_json_file_def
      duplicate_uid_def Let_def
    by (intro safe_intros safe_fields assms item) simp_all
qed

lemma safe_load_carrier:
  assumes "json_laws js"
  shows "safe_result (load_carrier js p item acc)"
proof -
  have service: "safe_result (add_service_type js p i ts)" for i ts
    unfolding add_service_type_def
    by (intro safe_intros safe_get) (rule json_lawsD(2) [OF assms], simp)
  have lg: "safe_result (read_logo js p item)"
  proof (cases "has_member js (j_is_string js) item ''logo''")
    case True
    then obtain v where v: "j_at js item ''logo'' = Inr v" "j_is_string js v"
      by (auto simp: has_member_def split: sum.splits)
    then obtain t where "j_get_string js v = Inr t" using json_lawsD(2) [OF assms] by blast
    then show ?thesis using True v by (auto simp: read_logo_def member_of_def safe_result_def)
  qed (auto simp: read_logo_def intro!: safe_intros)
  show ?thesis unfolding load_carrier_def duplicate_uid_def case_prod_beta
    by (intro safe_intros safe_fields assms service lg) simp_all
qed

section \<open>Inheritance\<close>

definition absent :: "'j Json \<Rightarrow> 'j \<Rightarrow> string \<Rightarrow> bool" where
  "absent js j key \<longleftrightarrow> \<not> j_contains js j key \<or> has_member js (j_is_null js) j key"

definition own_value :: "'j Json \<Rightarrow> ('j \<Rightarrow> string + 'a) \<Rightarrow> 'j \<Rightarrow> string \<Rightarrow> 'a \<Rightarrow> bool" where
  "own_value js get j key x \<longleftrightarrow> and_then (j_at js j key) get = Inr x"

lemma optional_field_Inr:
  assumes "optional_field js ok get what j key p = Inr x"
  shows "if absent js j key then x = None else \<exists>y. x = Some y \<and> own_value js get j key y"
proof (cases "absent js j key")
  case True
  then show ?thesis using assms by (auto simp: optional_field_def absent_def)
next
  case False
  then obtain v where v: "j_at js j key = Inr v" and g: "map_sum id Some (get v) = Inr x"
    using assms by (auto simp: optional_field_def absent_def member_of_def and_then_Inr split: if_splits)
  then show ?thesis using False by (cases "get v") (auto simp: own_value_def)
qed

lemma resolve_override_Inr:
  assumes "map_sum id (\<lambda>v. case v of Some x \<Rightarrow> x | None \<Rightarrow> fallback) (optional_field js ok get what j key p) = Inr y"
  shows "if absent js j key then y = fallback else own_value js get j key y"
proof (cases "optional_field js ok get what j key p")
  case (Inr x)
  then show ?thesis using assms optional_field_Inr [OF Inr] by (auto split: if_splits option.splits)
qed (use assms in simp)

lemma resolve_optional_Inr:
  assumes "resolve_optional_float_override js j key fallback p = Inr x"
  shows "if \<not> j_contains js j key then x = fallback
    else if absent js j key then x = None else \<exists>y. x = Some y \<and> own_value js (j_get_float js) j key y"
  using assms optional_field_Inr [of js "j_is_number js" "j_get_float js" "''numeric override''" j key p x]
  by (auto simp: resolve_optional_float_override_def split: if_splits)

lemma read_vehicle_of_type_values:
  assumes "read_vehicle_of_type js p j uid pid type_uid display_name t = Inr v"
  shows "resolve_float_override js j ''lengthM'' (vt_length_m t) p = Inr (veh_length_m v)"
    "resolve_int_override js j ''axleCount'' (vt_axle_count t) p = Inr (veh_axle_count v)"
    "resolve_float_override js j ''massEmptyT'' (vt_mass_empty_t t) p = Inr (veh_mass_empty_t v)"
    "resolve_int_override js j ''maxSpeedKmh'' (vt_max_speed_kmh t) p = Inr (veh_max_speed_kmh v)"
    "resolve_int_override js j ''brakingLambdaPct'' (vt_braking_lambda_pct t) p = Inr (veh_braking_lambda_pct v)"
    "resolve_optional_float_override js j ''powerKW'' (vt_power_kw t) p = Inr (veh_power_kw v)"
    "resolve_optional_float_override js j ''tractionForceKN'' (vt_traction_force_kn t) p = Inr (veh_traction_force_kn v)"
    "\<exists>mg. optional_float js j ''massGrossT'' p = Inr mg \<and> veh_effective_mass_t v =
       (case mg of Some x \<Rightarrow> x | None \<Rightarrow> (case vt_mass_gross_t t of Some x \<Rightarrow> x | None \<Rightarrow> veh_mass_empty_t v))"
  using assms by (auto simp: read_vehicle_of_type_def Let_def and_then_Inr split: if_splits option.split)

lemma fleet_ok_loaded:
  assumes "load_fleet js fs data_root = Inr reg"
  shows "fleet_ok reg"
proof -
  obtain r1 r2 r3 where r1: "load_types js fs (data_root @ [''vehicle-types'']) empty_registry = Inr r1"
    and r2: "load_vehicles js fs (data_root @ [''vehicles'']) r1 = Inr r2"
    and r3: "load_carriers js fs (data_root @ [''carriers'', ''carriers.json'']) r2 = Inr r3"
    and r4: "load_consists js fs (data_root @ [''trains'']) r3 = Inr reg"
    using assms by (auto simp: load_fleet_def and_then_Inr)
  have "fleet_ok r1 \<and> fr_vehicles r1 = [] \<and> fr_consists r1 = []"
    by (rule load_types_ok [OF r1 fleet_ok_empty]) (simp_all add: empty_registry_def)
  then have "fleet_ok r2 \<and> fr_consists r2 = []" using load_vehicles_ok [OF r2] by blast
  then have "fleet_ok r3" using load_carriers_ok [OF r3] by blast
  then show ?thesis by (rule load_consists_ok [OF r4])
qed

section \<open>Properties\<close>

text \<open>
  C16.  A fleet that loads is consistent: identifiers are unique and JSON-safe, every vehicle has its
  type and carries that type's category, coupling and traction flags, every consist has vehicles that
  exist and totals that are theirs (axles, rounded length and mass, traction force and power of the
  vehicles that pull, brake percentage weighted by mass, the lowest speed of its vehicles; 0 stands for
  a lowest speed that does not fit a float), and every carrier it names is registered.
\<close>

theorem loaded_fleet_is_consistent:
  assumes "load_fleet js fs data_root = Inr reg"
  shows "fleet_ok reg"
  by (rule fleet_ok_loaded [OF assms])

definition sample_type :: JsonTree where
  "sample_type = JsObject
     [(''uid'', JsUnsigned 0x010100010001), (''typeName'', JsString ''ET22''), (''vehicleType'', JsString ''LOCOMOTIVE''),
      (''vehicleSubtype'', JsString ''ELECTRIC''), (''lengthM'', JsNumber 19), (''axleCount'', JsUnsigned 6),
      (''massEmptyT'', JsNumber 120), (''maxSpeedKmh'', JsUnsigned 125), (''brakingLambdaPct'', JsUnsigned 68),
      (''powerKW'', JsNumber 3000), (''tractionForceKN'', JsNumber 410)]"

definition sample_unit :: JsonTree where
  "sample_unit = JsObject
     [(''uid'', JsUnsigned 0x010200010001), (''pID'', JsString ''ET22-001''), (''type_uid'', JsUnsigned 0x010100010001),
      (''displayName'', JsString ''ET22-001''), (''massEmptyT'', JsNumber 121), (''tractionStatus'', JsString ''defective'')]"

definition sample_consist :: JsonTree where
  "sample_consist = JsObject
     [(''uid'', JsUnsigned 0x010300010001), (''pID'', JsString ''T1''), (''displayName'', JsString ''Train''),
      (''trainCategory'', JsString ''FREIGHT''), (''vehicle_uids'', JsArray [JsUnsigned 0x010200010001])]"

definition sample_fleet_files :: "JsonTree Files" where
  "sample_fleet_files =
     \<lparr>fs_exists = (\<lambda>p. p \<noteq> [''data'', ''carriers'', ''carriers.json'']),
      fs_entries = (\<lambda>p. if p = [''data'', ''vehicle-types''] then [p @ [''t.json'']]
        else if p = [''data'', ''vehicles''] then [p @ [''ET22''], p @ [''ET22'', ''vehicle.json'']]
        else [p @ [''freight'', ''c.json'']]),
      fs_is_regular_file = (\<lambda>p. last p \<noteq> ''ET22''), fs_can_open = (\<lambda>_. True),
      fs_parse = (\<lambda>p. Inr (if last p = ''t.json'' then sample_type
        else if last p = ''vehicle.json'' then sample_unit else sample_consist))\<rparr>"

lemma sample_upper [simp]:
  "to_upper ''LOCOMOTIVE'' = ''LOCOMOTIVE''" "to_upper ''ELECTRIC'' = ''ELECTRIC''"
  "to_upper ''defective'' = ''DEFECTIVE''" "to_upper ''FREIGHT'' = ''FREIGHT''" "to_upper ''freight'' = ''FREIGHT''"
  by code_simp+

lemmas sample_fleet_defs = load_fleet_def load_types_def load_vehicles_def load_carriers_def load_consists_def
      collect_json_files_def collect_vehicle_files_def is_json_file_def path_extension_def path_filename_def Let_def
      sample_fleet_files_def parse_json_file_def load_type_def read_type_def json_tree_def sample_type_def
      require_uid_def require_string_def require_float_def require_int_def require_field_def has_member_def member_of_def
      optional_string_def optional_float_def optional_bool_def optional_field_def read_type_davis_def empty_registry_def
      load_vehicle_def read_vehicle_def read_vehicle_of_type_def sample_unit_def resolve_float_override_def
      resolve_int_override_def resolve_optional_float_override_def read_vehicle_status_def optional_traction_status_def
      parse_traction_status_def read_vehicle_davis_def um_emplace_def um_find_Cons
      is_traction_capable_def load_consist_def read_consist_def sample_consist_def parse_train_category_def
      read_carrier_id_def category_from_folder_def add_consist_item_def no_sums_def add_consist_vehicle_def operational_def
      add_locomotives_def uid_is_safe_json_integer_def UID_MAX_SAFE_JSON_INTEGER_def

lemma sample_fleet_loads:
  "\<exists>reg c. load_fleet json_tree sample_fleet_files [''data''] = Inr reg \<and>
     fr_consists reg = [(0x010300010001, c)] \<and> con_pid c = ''T1''"
  by (simp add: sample_fleet_defs)

theorem loaded_fleet_is_consistent_witness:
  "\<exists>reg. load_fleet json_tree sample_fleet_files [''data''] = Inr reg \<and> fr_consists reg \<noteq> [] \<and> fleet_ok reg"
  using sample_fleet_loads loaded_fleet_is_consistent [of json_tree sample_fleet_files "[''data'']"] by fastforce

text \<open>
  C33.  Loading ends with a fleet or with a \<^verbatim>\<open>FleetLoadError\<close>: whatever the files hold,
  no exception of the JSON library escapes, because every member is tested before it is converted.
\<close>

theorem load_fails_only_with_fleet_errors:
  assumes "json_laws js" and "load_fleet js fs data_root = Inl e"
  shows "\<exists>m. e = FleetLoadError m"
proof -
  have files: "safe_result (collect_json_files fs d)" "safe_result (collect_vehicle_files fs d)" for d
    unfolding collect_json_files_def collect_vehicle_files_def by (intro safe_intros)+
  have carriers: "safe_result (load_carriers js fs p reg)" for p reg
  proof -
    have "safe_result (map_sum id snd (fold_result (load_carrier js p) items acc))" for items acc
      using safe_fold_result [of items "load_carrier js p" acc] safe_load_carrier [OF assms(1)]
      by (cases "fold_result (load_carrier js p) items acc") (auto simp: safe_result_def)
    then show ?thesis unfolding load_carriers_def parse_json_file_def
      by (auto intro!: safe_and_then safe_if safe_basic safe_map_error safe_member)
  qed
  have "safe_result (load_fleet js fs data_root)"
    unfolding load_fleet_def load_types_def load_vehicles_def load_consists_def
    by (intro safe_intros files carriers safe_load_type safe_load_vehicle safe_load_consist assms(1))
  then show ?thesis using assms(2) by (simp add: safe_result_def fleet_error_def)
qed

theorem load_fails_only_with_fleet_errors_witness:
  "\<exists>e m. load_fleet json_tree (sample_fleet_files\<lparr>fs_parse := (\<lambda>_. Inr (JsArray []))\<rparr>) [''data''] = Inl e \<and>
     e = FleetLoadError m"
proof -
  have "\<exists>e. load_fleet json_tree (sample_fleet_files\<lparr>fs_parse := (\<lambda>_. Inr (JsArray []))\<rparr>) [''data''] = Inl e"
    by (simp add: load_fleet_def load_types_def collect_json_files_def is_json_file_def path_extension_def
        path_filename_def Let_def sample_fleet_files_def parse_json_file_def load_type_def read_type_def json_tree_def
        require_uid_def require_field_def has_member_def)
  then show ?thesis using load_fails_only_with_fleet_errors [OF json_tree_laws] by blast
qed

text \<open>
  A vehicle takes each value from its own file when the member is there and not null, else from
  its type; its effective mass is its own gross mass, else that of its type, else its empty mass; a
  null power or traction force removes the value of the type.
\<close>

theorem vehicle_inherits_from_type:
  assumes "read_vehicle_of_type js p j uid pid type_uid name t = Inr v"
  shows "(if absent js j ''lengthM'' then veh_length_m v = vt_length_m t
      else own_value js (j_get_float js) j ''lengthM'' (veh_length_m v)) \<and>
    (if absent js j ''massEmptyT'' then veh_mass_empty_t v = vt_mass_empty_t t
      else own_value js (j_get_float js) j ''massEmptyT'' (veh_mass_empty_t v)) \<and>
    (if absent js j ''massGrossT''
      then veh_effective_mass_t v = (case vt_mass_gross_t t of Some x \<Rightarrow> x | None \<Rightarrow> veh_mass_empty_t v)
      else own_value js (j_get_float js) j ''massGrossT'' (veh_effective_mass_t v)) \<and>
    (if absent js j ''axleCount'' then veh_axle_count v = vt_axle_count t
      else own_value js (j_get_int js) j ''axleCount'' (veh_axle_count v)) \<and>
    (if absent js j ''maxSpeedKmh'' then veh_max_speed_kmh v = vt_max_speed_kmh t
      else own_value js (j_get_int js) j ''maxSpeedKmh'' (veh_max_speed_kmh v)) \<and>
    (if absent js j ''brakingLambdaPct'' then veh_braking_lambda_pct v = vt_braking_lambda_pct t
      else own_value js (j_get_int js) j ''brakingLambdaPct'' (veh_braking_lambda_pct v)) \<and>
    (if \<not> j_contains js j ''powerKW'' then veh_power_kw v = vt_power_kw t
      else if absent js j ''powerKW'' then veh_power_kw v = None
      else own_value js (map_sum id Some \<circ> j_get_float js) j ''powerKW'' (veh_power_kw v)) \<and>
    (if \<not> j_contains js j ''tractionForceKN'' then veh_traction_force_kn v = vt_traction_force_kn t
      else if absent js j ''tractionForceKN'' then veh_traction_force_kn v = None
      else own_value js (map_sum id Some \<circ> j_get_float js) j ''tractionForceKN'' (veh_traction_force_kn v))"
proof (intro conjI)
  note vals = read_vehicle_of_type_values [OF assms, unfolded resolve_float_override_def resolve_int_override_def]
  show "if absent js j ''lengthM'' then veh_length_m v = vt_length_m t
      else own_value js (j_get_float js) j ''lengthM'' (veh_length_m v)"
    by (rule resolve_override_Inr [OF vals(1)])
  show "if absent js j ''massEmptyT'' then veh_mass_empty_t v = vt_mass_empty_t t
      else own_value js (j_get_float js) j ''massEmptyT'' (veh_mass_empty_t v)"
    by (rule resolve_override_Inr [OF vals(3)])
  show "if absent js j ''massGrossT''
      then veh_effective_mass_t v = (case vt_mass_gross_t t of Some x \<Rightarrow> x | None \<Rightarrow> veh_mass_empty_t v)
      else own_value js (j_get_float js) j ''massGrossT'' (veh_effective_mass_t v)"
    using vals(8) by (auto simp: optional_float_def dest!: optional_field_Inr split: if_splits)
  show "if absent js j ''axleCount'' then veh_axle_count v = vt_axle_count t
      else own_value js (j_get_int js) j ''axleCount'' (veh_axle_count v)"
    by (rule resolve_override_Inr [OF vals(2)])
  show "if absent js j ''maxSpeedKmh'' then veh_max_speed_kmh v = vt_max_speed_kmh t
      else own_value js (j_get_int js) j ''maxSpeedKmh'' (veh_max_speed_kmh v)"
    by (rule resolve_override_Inr [OF vals(4)])
  show "if absent js j ''brakingLambdaPct'' then veh_braking_lambda_pct v = vt_braking_lambda_pct t
      else own_value js (j_get_int js) j ''brakingLambdaPct'' (veh_braking_lambda_pct v)"
    by (rule resolve_override_Inr [OF vals(5)])
qed (use read_vehicle_of_type_values(6,7) [OF assms, THEN resolve_optional_Inr] in
  \<open>auto simp: own_value_def and_then_Inr split: if_splits\<close>)

definition ET22 :: VehicleType where
  "ET22 = \<lparr>vt_uid = 1, vt_type_name = ''ET22'', vt_pkp_series = ''ET22'', vt_family = [], vt_vehicle_type = ''LOCOMOTIVE'',
     vt_vehicle_subtype = ''ELECTRIC'', vt_length_m = 19, vt_axle_count = 6, vt_mass_empty_t = 120, vt_mass_gross_t = None,
     vt_max_speed_kmh = 125, vt_braking_lambda_pct = 68, vt_power_kw = Some 3000, vt_traction_force_kn = Some 410,
     vt_multiple_coupling_capable = None, vt_davis = davis_defaults ''LOCOMOTIVE'' ''ELECTRIC'' 125\<rparr>"

lemma sample_unit_reads: "\<exists>v. read_vehicle_of_type json_tree [] sample_unit 1 [] 1 [] ET22 = Inr v"
  by (simp add: read_vehicle_of_type_def sample_unit_def json_tree_def ET22_def optional_string_def has_member_def
      resolve_float_override_def resolve_int_override_def resolve_optional_float_override_def optional_field_def
      member_of_def optional_float_def read_vehicle_status_def optional_traction_status_def parse_traction_status_def
      read_vehicle_davis_def is_traction_capable_def Let_def)

theorem vehicle_inherits_from_type_witness:
  "\<exists>v. read_vehicle_of_type json_tree [] sample_unit 1 [] 1 [] ET22 = Inr v \<and>
     veh_length_m v = 19 \<and> veh_mass_empty_t v = 121 \<and> veh_effective_mass_t v = 121 \<and> veh_power_kw v = Some 3000"
proof -
  obtain v where v: "read_vehicle_of_type json_tree [] sample_unit 1 [] 1 [] ET22 = Inr v"
    using sample_unit_reads by blast
  have "absent json_tree sample_unit ''lengthM''" "\<not> absent json_tree sample_unit ''massEmptyT''"
    "absent json_tree sample_unit ''massGrossT''" "\<not> j_contains json_tree sample_unit ''powerKW''"
    by (simp_all add: absent_def has_member_def json_tree_def sample_unit_def)
  moreover have "x = 121" if "own_value json_tree (j_get_float json_tree) sample_unit ''massEmptyT'' x" for x
    using that by (simp add: own_value_def json_tree_def sample_unit_def)
  ultimately show ?thesis using v vehicle_inherits_from_type [OF v] by (auto simp: ET22_def)
qed

end
