(* ===== verification/Terminal.thy ===== *)
theory Terminal
  imports Snapshot_View Fleet_Loading Dispatch_Coordinator
begin

text \<open>
  The built-in terminal of the server, \<^verbatim>\<open>server/src/terminal\<close>: the session with its
  login, the command registry, the accounts, and the commands spawn, despawn and trains.  A command is
  a record of the methods of \<^verbatim>\<open>ITerminalCommand\<close>; its \<open>execute\<close> maps the world the command
  refers to (the engine loop) to the text it returns, or the text of the exception it throws, and the
  world after it.  The locale \<open>terminal_command\<close> is what the proofs use of a command.
\<close>

section \<open>Permissions and accounts\<close>

datatype Permission = PERM_SPAWN | PERM_DESPAWN | PERM_KICK | PERM_BAN | PERM_RESET | PERM_SETTINGS | PERM_LOGS

fun Permission_to_string :: "Permission \<Rightarrow> string" where
  "Permission_to_string PERM_SPAWN = ''SPAWN''"
| "Permission_to_string PERM_DESPAWN = ''DESPAWN''"
| "Permission_to_string PERM_KICK = ''KICK''"
| "Permission_to_string PERM_BAN = ''BAN''"
| "Permission_to_string PERM_RESET = ''RESET''"
| "Permission_to_string PERM_SETTINGS = ''SETTINGS''"
| "Permission_to_string PERM_LOGS = ''LOGS''"

definition all_permissions :: "Permission set" where
  "all_permissions = {PERM_SPAWN, PERM_DESPAWN, PERM_KICK, PERM_BAN, PERM_RESET, PERM_SETTINGS, PERM_LOGS}"

record UserAccount =
  ua_login :: string
  ua_password :: string
  ua_permissions :: "Permission set"

type_synonym IUserStore = "string \<Rightarrow> string \<Rightarrow> UserAccount option"

definition authenticate :: "UserAccount list \<Rightarrow> IUserStore" where
  "authenticate accounts login password =
     find (\<lambda>a. ua_login a = login \<and> ua_password a = password) accounts"

definition with_default_admin :: "UserAccount list" where
  "with_default_admin = [\<lparr>ua_login = ''admin'', ua_password = ''admin123'', ua_permissions = all_permissions\<rparr>]"

section \<open>Commands\<close>

record 'w ITerminalCommand =
  tc_name :: string
  tc_help :: string
  tc_required_permission :: Permission
  tc_execute :: "string list \<Rightarrow> 'w \<Rightarrow> (string + string) \<times> 'w"

text \<open>A \<^verbatim>\<open>std::map\<close> from names to commands, in the order of the names.\<close>

type_synonym 'w CommandRegistry = "(string \<times> 'w ITerminalCommand) list"

definition registry_find :: "'w CommandRegistry \<Rightarrow> string \<Rightarrow> 'w ITerminalCommand option" where
  "registry_find reg name = map_of reg name"

definition registry_add :: "'w ITerminalCommand \<Rightarrow> 'w CommandRegistry \<Rightarrow> string + 'w CommandRegistry" where
  "registry_add cmd reg =
     (if registry_find reg (tc_name cmd) \<noteq> None
      then Inl (''CommandRegistry: duplicate command name '' @ quoted (tc_name cmd))
      else Inr (insort_key fst (tc_name cmd, cmd) reg))"

definition registry_for_each :: "'w CommandRegistry \<Rightarrow> 'w ITerminalCommand list" where
  "registry_for_each reg = map snd reg"

section \<open>The session\<close>

text \<open>White-space separated words, as the stream operator reads them.\<close>

function tokenize :: "string \<Rightarrow> string list" where
  "tokenize line =
    (let s = dropWhile is_space line
     in if s = [] then []
        else takeWhile (\<lambda>c. \<not> is_space c) s # tokenize (dropWhile (\<lambda>c. \<not> is_space c) s))"
  by auto

termination
proof (relation "measure length")
  fix line s :: string
  assume s: "s = dropWhile is_space line" "s \<noteq> []"
  then have "\<not> is_space (hd s)" using hd_dropWhile [of is_space line] by simp
  then have "length (dropWhile (\<lambda>c. \<not> is_space c) s) < length s"
    using s(2) by (cases s) (auto simp: less_Suc_eq_le length_dropWhile_le)
  also have "length s \<le> length line" using s(1) length_dropWhile_le by metis
  finally show "(dropWhile (\<lambda>c. \<not> is_space c) s, line) \<in> measure length" by simp
qed simp

declare tokenize.simps [simp del]

text \<open>The UTF-8 bytes of the dash in the messages.\<close>

definition dash :: string where
  "dash = '' '' @ [CHR 0xE2, CHR 0x80, CHR 0x94] @ '' ''"

definition newline :: string where
  "newline = [CHR 0x0A]"

definition handle_login :: "IUserStore \<Rightarrow> string list \<Rightarrow> UserAccount option \<Rightarrow> string \<times> UserAccount option" where
  "handle_login users args user =
    (case args of
       [login, password] \<Rightarrow>
         (case users login password of
            None \<Rightarrow> (''invalid credentials'', user)
          | Some account \<Rightarrow> (''logged in as '' @ ua_login account, Some account))
     | _ \<Rightarrow> (''usage: login <user> <password>'', user))"

definition build_help :: "'w CommandRegistry \<Rightarrow> UserAccount option \<Rightarrow> string" where
  "build_help reg user =
    ''built-in commands:'' @ newline @ ''  login <user> <password>'' @ newline @ ''  logout'' @ newline @ ''  help'' @
    (case user of
       None \<Rightarrow> newline @ ''log in to see available commands''
     | Some u \<Rightarrow> concat (map (\<lambda>cmd. newline @ ''  '' @ tc_help cmd)
         (filter (\<lambda>cmd. tc_required_permission cmd \<in> ua_permissions u) (registry_for_each reg))))"

type_synonym 'w session = "UserAccount option \<times> 'w"

definition process_line ::
    "'w CommandRegistry \<Rightarrow> IUserStore \<Rightarrow> string \<Rightarrow> 'w session \<Rightarrow> (string + string) \<times> 'w session" where
  "process_line reg users line = (\<lambda>(user, w).
    (case tokenize line of
       [] \<Rightarrow> (Inr [], (user, w))
     | verb # args \<Rightarrow>
         if verb = ''login'' then (let (out, user') = handle_login users args user in (Inr out, (user', w)))
         else if verb = ''logout'' then
           (case user of
              None \<Rightarrow> (Inr ''not logged in'', (user, w))
            | Some u \<Rightarrow> (Inr (''logged out: '' @ ua_login u), (None, w)))
         else if verb = ''help'' then (Inr (build_help reg user), (user, w))
         else
           (case user of
              None \<Rightarrow> (Inr (''not logged in'' @ dash @ ''use: login <user> <password>''), (user, w))
            | Some u \<Rightarrow>
                (case registry_find reg verb of
                   None \<Rightarrow> (Inr (''unknown command: '' @ verb @ '' (try `help`)''), (user, w))
                 | Some cmd \<Rightarrow>
                     if tc_required_permission cmd \<notin> ua_permissions u
                     then (Inr (''permission denied: `'' @ verb @ ''` requires '' @
                             Permission_to_string (tc_required_permission cmd)), (user, w))
                     else (let (out, w') = tc_execute cmd args w in (out, (user, w')))))))"

text \<open>
  The reader thread: what it writes to standard output for the lines up to the end of the input.  An
  exception of a command is not caught and ends the thread, and with it the process.
\<close>

definition terminal_greeting :: string where
  "terminal_greeting = ''[terminal] built-in terminal ready'' @ dash @ ''type `help`'' @ newline @ ''> ''"

fun terminal_lines ::
    "'w CommandRegistry \<Rightarrow> IUserStore \<Rightarrow> string list \<Rightarrow> 'w session \<Rightarrow> (string + string) list \<times> 'w session" where
  "terminal_lines reg users [] st = ([], st)"
| "terminal_lines reg users (line # ls) st =
    (case process_line reg users line st of
       (Inl e, st') \<Rightarrow> ([Inl e], st')
     | (Inr out, st') \<Rightarrow>
         (let (outs, st'') = terminal_lines reg users ls st' in (Inr out # outs, st'')))"

definition terminal_stdout :: "(string + string) list \<Rightarrow> string" where
  "terminal_stdout outs = terminal_greeting @
     concat (map (\<lambda>r. case r of Inl _ \<Rightarrow> [] | Inr out \<Rightarrow> (if out \<noteq> [] then out @ newline else []) @ ''> '') outs)"

section \<open>Lookup\<close>

definition parse_uint :: "string \<Rightarrow> u64 option" where
  "parse_uint text =
     (if text = [] \<or> \<not> list_all is_digit text \<or> decimal_value text \<ge> 2 ^ 64 then None
      else Some (of_nat (decimal_value text)))"

definition resolve_consist_uid :: "FleetRegistry \<Rightarrow> string \<Rightarrow> UID option" where
  "resolve_consist_uid fleet arg =
    (case parse_uint arg of
       Some uid \<Rightarrow> if has_consist fleet uid then Some uid else None
     | None \<Rightarrow> map_option fst (find (\<lambda>(uid, consist). con_pid consist = arg) (fr_consists fleet)))"

definition resolve_boundary_uid :: "EngineSnapshot \<Rightarrow> string \<Rightarrow> UID option" where
  "resolve_boundary_uid snap arg =
    (case parse_uint arg of
       Some uid \<Rightarrow> if um_find (es_boundary_nodes snap) uid \<noteq> None then Some uid else None
     | None \<Rightarrow> map_option fst (find (\<lambda>(uid, node). bn_pid node = arg) (es_boundary_nodes snap)))"

section \<open>The commands\<close>

definition load_error_text :: "load_error \<Rightarrow> string" where
  "load_error_text e = (case e of FleetLoadError m \<Rightarrow> m | JsonException m \<Rightarrow> m)"

fun get_vehicles :: "FleetRegistry \<Rightarrow> UID list \<Rightarrow> load_error + Vehicle list" where
  "get_vehicles fleet [] = Inr []"
| "get_vehicles fleet (u # us) = and_then (get_vehicle fleet u) (\<lambda>v. map_sum id ((#) v) (get_vehicles fleet us))"

definition enqueue :: "FleetCommand \<Rightarrow> string \<Rightarrow> 'sys EngineLoop \<Rightarrow> (string + string) \<times> 'sys EngineLoop" where
  "enqueue cmd answer lp =
    (case enqueue_fleet_command cmd lp of
       Inl (QueueClosed e) \<Rightarrow> (Inl e, lp)
     | Inr lp' \<Rightarrow> (Inr answer, lp'))"

text \<open>The part of spawn behind the lookups.\<close>

definition spawn_at ::
    "FleetRegistry \<Rightarrow> TrainConsist \<Rightarrow> UID \<Rightarrow> SpawnPoint \<Rightarrow> 'sys EngineLoop \<Rightarrow> (string + string) \<times> 'sys EngineLoop" where
  "spawn_at fleet consist consist_uid point lp =
    (case get_vehicles fleet (con_vehicle_uids consist) of
       Inl e \<Rightarrow> (Inl (load_error_text e), lp)
     | Inr vehicles \<Rightarrow>
         (case make_train_sim_state consist vehicles (sp_section_uid point) of
            Inl (Train_Sim.InvalidArgument e) \<Rightarrow> (Inr (''spawn rejected: '' @ e), lp)
          | Inr initial \<Rightarrow>
              enqueue (SpawnRequest initial (sp_from_uid point))
                (''spawn queued: '' @ con_pid consist @ '' (uid '' @ u64_to_string consist_uid @ '') at section uid '' @
                 u64_to_string (sp_section_uid point)) lp))"

definition spawn_execute ::
    "FleetRegistry \<Rightarrow> string list \<Rightarrow> 'sys EngineLoop \<Rightarrow> (string + string) \<times> 'sys EngineLoop" where
  "spawn_execute fleet args lp =
    (case args of
       [consist_arg, boundary_arg] \<Rightarrow>
        (case el_snapshot lp of
           None \<Rightarrow> (Inr ''world snapshot not available yet'', lp)
         | Some snap \<Rightarrow>
          (case resolve_consist_uid fleet consist_arg of
             None \<Rightarrow> (Inr (''unknown consist: '' @ consist_arg), lp)
           | Some consist_uid \<Rightarrow>
            (case get_consist fleet consist_uid of
               Inl e \<Rightarrow> (Inl (load_error_text e), lp)
             | Inr consist \<Rightarrow>
                if list_ex (\<lambda>train. tsnap_uid train = consist_uid) (snap_trains snap)
                then (Inr (''train already active: '' @ con_pid consist), lp)
                else
                 (case resolve_boundary_uid snap boundary_arg of
                    None \<Rightarrow> (Inr (''unknown boundary node: '' @ boundary_arg), lp)
                  | Some boundary_uid \<Rightarrow>
                     (case resolve_spawn_at_boundary (snapshot_view snap) boundary_uid of
                        Inl error \<Rightarrow> (Inr (''spawn rejected: '' @ SpawnError_to_string error), lp)
                      | Inr point \<Rightarrow> spawn_at fleet consist consist_uid point lp)))))
     | _ \<Rightarrow> (Inr ''usage: spawn <consist uid|pID> <boundary uid|pID>'', lp))"

definition despawn_execute ::
    "FleetRegistry \<Rightarrow> string list \<Rightarrow> 'sys EngineLoop \<Rightarrow> (string + string) \<times> 'sys EngineLoop" where
  "despawn_execute fleet args lp =
    (case args of
       [arg] \<Rightarrow>
        (case el_snapshot lp of
           None \<Rightarrow> (Inr ''world snapshot not available yet'', lp)
         | Some snap \<Rightarrow>
          (case (case resolve_consist_uid fleet arg of Some uid \<Rightarrow> Some uid | None \<Rightarrow> parse_uint arg) of
             None \<Rightarrow> (Inr (''unknown train: '' @ arg), lp)
           | Some train_uid \<Rightarrow>
              if \<not> list_ex (\<lambda>train. tsnap_uid train = train_uid) (snap_trains snap)
              then (Inr (''no active train: '' @ arg), lp)
              else enqueue (DespawnRequest train_uid) (''despawn queued: uid '' @ u64_to_string train_uid) lp))
     | _ \<Rightarrow> (Inr ''usage: despawn <train uid|consist pID>'', lp))"

text \<open>A number with one decimal place, correctly rounded, as \<^verbatim>\<open>std::fixed\<close> and
  \<^verbatim>\<open>std::setprecision(1)\<close> print it.\<close>

definition print_fixed1 :: "float32 \<Rightarrow> string" where
  "print_fixed1 x =
    (let n = nat (round_half_even (\<bar>x\<bar> * 10))
     in (if x < 0 then ''-'' else []) @ nat_to_string (n div 10) @ ''.'' @ nat_to_string (n mod 10))"

definition train_line :: "TrainSnapshot \<Rightarrow> string" where
  "train_line t =
     newline @ ''  uid '' @ u64_to_string (tsnap_uid t) @ ''  section '' @ u64_to_string (tsnap_section_uid t) @ ''  '' @
     print_fixed1 (tsnap_speed_kmh t) @ '' km/h  '' @ int_to_string (tsnap_total_axles t) @ '' axles''"

definition trains_execute :: "string list \<Rightarrow> 'sys EngineLoop \<Rightarrow> (string + string) \<times> 'sys EngineLoop" where
  "trains_execute args lp =
    (case el_snapshot lp of
       None \<Rightarrow> (Inr ''world snapshot not available yet'', lp)
     | Some snap \<Rightarrow>
        (if snap_trains snap = [] then (Inr ''no active trains'', lp)
         else (Inr (''active trains ('' @ nat_to_string (length (snap_trains snap)) @ ''):'' @
                concat (map train_line (snap_trains snap))), lp)))"

definition SpawnCommand :: "FleetRegistry \<Rightarrow> 'sys EngineLoop ITerminalCommand" where
  "SpawnCommand fleet =
     \<lparr>tc_name = ''spawn'',
      tc_help = ''spawn <consist uid|pID> <boundary uid|pID>'' @ dash @ ''spawn a train at a boundary node'',
      tc_required_permission = PERM_SPAWN, tc_execute = spawn_execute fleet\<rparr>"

definition DespawnCommand :: "FleetRegistry \<Rightarrow> 'sys EngineLoop ITerminalCommand" where
  "DespawnCommand fleet =
     \<lparr>tc_name = ''despawn'',
      tc_help = ''despawn <train uid|consist pID>'' @ dash @ ''remove an active train from the world'',
      tc_required_permission = PERM_DESPAWN, tc_execute = despawn_execute fleet\<rparr>"

definition TrainsCommand :: "'sys EngineLoop ITerminalCommand" where
  "TrainsCommand =
     \<lparr>tc_name = ''trains'', tc_help = ''trains'' @ dash @ ''list active trains'',
      tc_required_permission = PERM_LOGS, tc_execute = trains_execute\<rparr>"

text \<open>What the server registers at its start.\<close>

definition server_registry :: "FleetRegistry \<Rightarrow> string + 'sys EngineLoop CommandRegistry" where
  "server_registry fleet =
     and_then (registry_add (SpawnCommand fleet) []) (\<lambda>reg.
     and_then (registry_add (DespawnCommand fleet) reg) (\<lambda>reg.
       registry_add TrainsCommand reg))"

end
