(* ===== verification/Terminal_Properties.thy ===== *)
theory Terminal_Properties
  imports Terminal
begin

text \<open>
  What the terminal promises: nothing reaches the engine without a login that holds the permission,
  spawn and despawn queue one request that the published state justifies, and numbers print and parse.
\<close>

section \<open>Commands that queue\<close>

text \<open>
  A command of the terminal leaves the loop as it is or adds one request to the fleet queue, and only a
  closed queue makes it throw.
\<close>

definition enqueued :: "FleetCommand \<Rightarrow> 'sys EngineLoop \<Rightarrow> 'sys EngineLoop" where
  "enqueued cmd lp = lp\<lparr>el_fleet_commands := (el_fleet_commands lp)\<lparr>eq_queue := eq_queue (el_fleet_commands lp) @ [cmd]\<rparr>\<rparr>"

locale terminal_command =
  fixes execute :: "FleetRegistry \<Rightarrow> string list \<Rightarrow> 'sys EngineLoop \<Rightarrow> (string + string) \<times> 'sys EngineLoop"
    and permitted :: "FleetRegistry \<Rightarrow> 'sys EngineLoop \<Rightarrow> FleetCommand \<Rightarrow> bool"
  assumes outcome: "fleet_ok fleet \<Longrightarrow> execute fleet args lp = (r, lp') \<Longrightarrow>
    lp' = lp \<and> (\<exists>text. r = Inr text) \<or>
    lp' = lp \<and> (\<exists>e. r = Inl e) \<and> eq_closed (el_fleet_commands lp) \<or>
    (\<exists>cmd text. lp' = enqueued cmd lp \<and> r = Inr text \<and> permitted fleet lp cmd)"
begin

lemma engine_untouched:
  assumes "fleet_ok fleet" and "execute fleet args lp = (r, lp')"
  shows "el_state lp' = el_state lp" "el_control lp' = el_control lp" "el_queue lp' = el_queue lp"
    "el_train_fleet lp' = el_train_fleet lp" "el_snapshot lp' = el_snapshot lp"
  using outcome [OF assms] by (auto simp: enqueued_def)

lemma answers_while_open:
  assumes "fleet_ok fleet" and "execute fleet args lp = (r, lp')" and "\<not> eq_closed (el_fleet_commands lp)"
  shows "\<exists>text. r = Inr text"
  using outcome [OF assms(1,2)] assms(3) by auto

lemma queue_grows:
  assumes "fleet_ok fleet" and "execute fleet args lp = (r, lp')"
  shows "lp' = lp \<or> (\<exists>cmd. lp' = enqueued cmd lp \<and> permitted fleet lp cmd)"
  using outcome [OF assms] by auto

end

lemma enqueue_cases:
  assumes "enqueue cmd answer lp = (r, lp')"
  shows "lp' = enqueued cmd lp \<and> r = Inr answer \<and> \<not> eq_closed (el_fleet_commands lp) \<or>
    lp' = lp \<and> (\<exists>e. r = Inl e) \<and> eq_closed (el_fleet_commands lp)"
  using assms by (auto simp: enqueue_def enqueue_fleet_command_def eq_push_def enqueued_def split: if_splits)

section \<open>Spawn\<close>

text \<open>The requests that spawn may queue: an idle consist of the fleet, at the free section behind a boundary.\<close>

definition spawnable :: "FleetRegistry \<Rightarrow> EngineSnapshot \<Rightarrow> TrainSimState \<Rightarrow> UID \<Rightarrow> bool" where
  "spawnable fleet snap initial boundary \<longleftrightarrow>
     (\<exists>consist t. um_find (fr_consists fleet) (tr_train_uid initial) = Some consist \<and>
        tr_vehicle_uids initial = con_vehicle_uids consist \<and> tr_total_axles initial = con_total_axles consist \<and>
        tr_train_uid initial \<notin> tsnap_uid ` set (snap_trains snap) \<and>
        snap_find_boundary_node snap boundary \<noteq> None \<and>
        filter (references_boundary boundary) (snap_for_each_track_section snap) = [t] \<and>
        ts_occupancy t = FREE \<and> tr_current_section_uid initial = ts_uid t)"

lemma fleet_ok_consist:
  assumes "fleet_ok fleet" and "get_consist fleet uid = Inr consist"
  shows "um_find (fr_consists fleet) uid = Some consist" "con_uid consist = uid"
    "consist_ok (fr_vehicles fleet) (fr_carriers fleet) consist"
proof -
  show found: "um_find (fr_consists fleet) uid = Some consist"
    using assms(2) by (simp add: get_consist_def split: option.splits)
  show "con_uid consist = uid" "consist_ok (fr_vehicles fleet) (fr_carriers fleet) consist"
    using assms(1) entries_ok_find [OF _ found] by (auto simp: fleet_ok_def)
qed

lemma get_vehicles_ok:
  assumes "map (um_find (fr_vehicles fleet)) us = map Some vs"
  shows "get_vehicles fleet us = Inr vs"
  using assms by (induction us arbitrary: vs) (auto simp: get_vehicle_def)

lemma resolve_consist_known:
  assumes "fleet_ok fleet" and "resolve_consist_uid fleet arg = Some uid"
  shows "\<exists>consist. get_consist fleet uid = Inr consist"
proof -
  have wf: "um_wf (fr_consists fleet)" using assms(1) by (simp add: fleet_ok_def entries_ok_def)
  have "um_find (fr_consists fleet) uid \<noteq> None"
  proof (cases "parse_uint arg")
    case None
    then obtain c where "(uid, c) \<in> set (fr_consists fleet)"
      using assms(2) by (auto simp: resolve_consist_uid_def find_Some_iff) (metis nth_mem prod.collapse)
    then show ?thesis using um_in_set_find [OF wf] by simp
  qed (use assms(2) in \<open>auto simp: resolve_consist_uid_def has_consist_def split: if_splits\<close>)
  then show ?thesis by (auto simp: get_consist_def)
qed

lemma spawn_at_outcome:
  assumes "fleet_ok fleet" and "get_consist fleet uid = Inr consist" and "spawn_at fleet consist uid point lp = (r, lp')"
  shows "lp' = lp \<and> (\<exists>e. r = Inl e) \<and> eq_closed (el_fleet_commands lp) \<or>
    (\<exists>initial text. lp' = enqueued (SpawnRequest initial (sp_from_uid point)) lp \<and> r = Inr text \<and>
       tr_train_uid initial = uid \<and> tr_current_section_uid initial = sp_section_uid point \<and>
       tr_vehicle_uids initial = con_vehicle_uids consist \<and> tr_total_axles initial = con_total_axles consist)"
proof -
  note consist = fleet_ok_consist [OF assms(1,2)]
  obtain vs where vs: "vs \<noteq> []" "map (um_find (fr_vehicles fleet)) (con_vehicle_uids consist) = map Some vs"
    using consist(3) by (auto simp: consist_ok_def)
  have len: "length vs = length (con_vehicle_uids consist)" using vs(2) by (metis length_map)
  obtain initial where initial: "make_train_sim_state consist vs (sp_section_uid point) = Inr initial"
    and fields: "tr_train_uid initial = uid" "tr_current_section_uid initial = sp_section_uid point"
      "tr_vehicle_uids initial = con_vehicle_uids consist" "tr_total_axles initial = con_total_axles consist"
    using vs(1) len consist(2) by (simp add: make_train_sim_state_def Let_def)
  then show ?thesis
    using assms(3) enqueue_cases get_vehicles_ok [OF vs(2)] by (fastforce simp: spawn_at_def)
qed

lemma resolve_spawn_Inr:
  assumes "resolve_spawn_at_boundary (snapshot_view snap) b = Inr point"
  shows "snap_find_boundary_node snap b \<noteq> None \<and> sp_from_uid point = b \<and>
    (\<exists>t. filter (references_boundary b) (snap_for_each_track_section snap) = [t] \<and>
      ts_occupancy t = FREE \<and> sp_section_uid point = ts_uid t)"
  using assms by (auto simp: resolve_spawn_filter snapshot_view_def split: list.splits if_splits)

definition spawn_permitted :: "FleetRegistry \<Rightarrow> 'sys EngineLoop \<Rightarrow> FleetCommand \<Rightarrow> bool" where
  "spawn_permitted fleet lp cmd \<longleftrightarrow>
     (\<exists>snap initial boundary. el_snapshot lp = Some snap \<and> cmd = SpawnRequest initial boundary \<and>
        spawnable fleet snap initial boundary)"

lemma spawn_outcome:
  assumes "fleet_ok fleet" and "spawn_execute fleet args lp = (r, lp')"
  shows "lp' = lp \<and> (\<exists>text. r = Inr text) \<or>
    lp' = lp \<and> (\<exists>e. r = Inl e) \<and> eq_closed (el_fleet_commands lp) \<or>
    (\<exists>cmd text. lp' = enqueued cmd lp \<and> r = Inr text \<and> spawn_permitted fleet lp cmd)"
proof (cases "\<exists>snap uid consist b point carg barg. args = [carg, barg] \<and> el_snapshot lp = Some snap \<and>
    resolve_consist_uid fleet carg = Some uid \<and> get_consist fleet uid = Inr consist \<and>
    uid \<notin> tsnap_uid ` set (snap_trains snap) \<and> resolve_boundary_uid snap barg = Some b \<and>
    resolve_spawn_at_boundary (snapshot_view snap) b = Inr point")
  case True
  then obtain snap uid consist b point carg barg where args: "args = [carg, barg]"
    and snap: "el_snapshot lp = Some snap" and uid: "resolve_consist_uid fleet carg = Some uid"
    and consist: "get_consist fleet uid = Inr consist" and idle: "uid \<notin> tsnap_uid ` set (snap_trains snap)"
    and b: "resolve_boundary_uid snap barg = Some b"
    and point: "resolve_spawn_at_boundary (snapshot_view snap) b = Inr point" by blast
  have exec: "spawn_execute fleet args lp = spawn_at fleet consist uid point lp"
    using args snap uid consist idle b point by (auto simp: spawn_execute_def list_ex_iff)
  note found = fleet_ok_consist [OF assms(1) consist] and pt = resolve_spawn_Inr [OF point]
  from spawn_at_outcome [OF assms(1) consist, of point lp r lp'] assms(2) exec show ?thesis
    using snap found idle pt unfolding spawn_permitted_def spawnable_def by metis
next
  case False
  have "\<exists>text. spawn_execute fleet args lp = (Inr text, lp)"
  proof (rule ccontr)
    assume no: "\<nexists>text. spawn_execute fleet args lp = (Inr text, lp)"
    then obtain carg barg snap uid where f: "args = [carg, barg]" "el_snapshot lp = Some snap"
      "resolve_consist_uid fleet carg = Some uid"
      by (auto simp: spawn_execute_def split: list.splits option.splits)
    obtain consist where c: "get_consist fleet uid = Inr consist" using resolve_consist_known [OF assms(1) f(3)] by blast
    then have idle: "uid \<notin> tsnap_uid ` set (snap_trains snap)"
      using no f by (auto simp: spawn_execute_def list_ex_iff split: if_splits)
    then obtain b point where "resolve_boundary_uid snap barg = Some b"
      "resolve_spawn_at_boundary (snapshot_view snap) b = Inr point"
      using no f c by (auto simp: spawn_execute_def split: option.splits sum.splits if_splits)
    then show False using False f c idle by blast
  qed
  then show ?thesis using assms(2) by auto
qed

section \<open>Despawn and trains\<close>

definition despawn_permitted :: "FleetRegistry \<Rightarrow> 'sys EngineLoop \<Rightarrow> FleetCommand \<Rightarrow> bool" where
  "despawn_permitted fleet lp cmd \<longleftrightarrow>
     (\<exists>snap uid. el_snapshot lp = Some snap \<and> cmd = DespawnRequest uid \<and> uid \<in> tsnap_uid ` set (snap_trains snap))"

lemma despawn_outcome:
  assumes "despawn_execute fleet args lp = (r, lp')"
  shows "lp' = lp \<and> (\<exists>text. r = Inr text) \<or>
    lp' = lp \<and> (\<exists>e. r = Inl e) \<and> eq_closed (el_fleet_commands lp) \<or>
    (\<exists>cmd text. lp' = enqueued cmd lp \<and> r = Inr text \<and> despawn_permitted fleet lp cmd)"
  using assms
  by (auto simp: despawn_execute_def list_ex_iff despawn_permitted_def dest!: enqueue_cases
      split: list.splits option.splits if_splits)

lemma trains_outcome: "trains_execute args lp = (r, lp') \<Longrightarrow> lp' = lp \<and> (\<exists>text. r = Inr text)"
  by (auto simp: trains_execute_def split: option.splits if_splits)

interpretation spawn_cmd: terminal_command spawn_execute spawn_permitted
  by unfold_locales (rule spawn_outcome)

interpretation despawn_cmd: terminal_command despawn_execute despawn_permitted
  by unfold_locales (rule despawn_outcome)

interpretation trains_cmd: terminal_command "\<lambda>_. trains_execute" "\<lambda>_ _ _. False"
  by unfold_locales (auto dest: trains_outcome)

section \<open>The session\<close>

lemma process_line_world:
  assumes "process_line reg users line (user, w) = (out, (user', w'))" and "w' \<noteq> w"
  shows "\<exists>u verb args cmd. user = Some u \<and> tokenize line = verb # args \<and> registry_find reg verb = Some cmd \<and>
    tc_required_permission cmd \<in> ua_permissions u \<and> tc_execute cmd args w = (out, w')"
  using assms by (auto simp: process_line_def Let_def split: list.splits if_splits option.splits prod.splits)

lemma process_line_user:
  assumes "process_line reg users line (user, w) = (out, (Some u, w'))"
  shows "user = Some u \<or> (\<exists>login password. tokenize line = [''login'', login, password] \<and> users login password = Some u)"
  using assms
  by (auto simp: process_line_def handle_login_def Let_def split: list.splits if_splits option.splits prod.splits)

lemma terminal_lines_world:
  assumes "terminal_lines reg users lines (user, w) = (outs, (user', w'))" and "w' \<noteq> w"
  shows "\<exists>pre line post u verb args cmd. lines = pre @ line # post \<and> tokenize line = verb # args \<and>
    registry_find reg verb = Some cmd \<and> tc_required_permission cmd \<in> ua_permissions u \<and>
    (user = Some u \<or> (\<exists>lg \<in> set pre. \<exists>login password. tokenize lg = [''login'', login, password] \<and>
       users login password = Some u))"
  using assms
proof (induction lines arbitrary: user w outs)
  case (Cons line lines)
  obtain out user1 w1 where step: "process_line reg users line (user, w) = (out, (user1, w1))"
    by (metis prod_cases3)
  show ?case
  proof (cases "w1 = w")
    case False
    from process_line_world [OF step False] obtain u verb args cmd where "user = Some u" "tokenize line = verb # args"
      "registry_find reg verb = Some cmd" "tc_required_permission cmd \<in> ua_permissions u" by blast
    moreover have "line # lines = [] @ line # lines" by simp
    ultimately show ?thesis by blast
  next
    case True
    then obtain answer outs' where out: "out = Inr answer"
      and rest: "terminal_lines reg users lines (user1, w) = (outs', (user', w'))"
      using Cons.prems step by (auto split: sum.splits prod.splits)
    from Cons.IH [OF rest Cons.prems(2)] obtain pre line' post u verb args cmd where
      split: "lines = pre @ line' # post" "tokenize line' = verb # args" "registry_find reg verb = Some cmd"
        "tc_required_permission cmd \<in> ua_permissions u"
      and login: "user1 = Some u \<or> (\<exists>lg \<in> set pre. \<exists>login password. tokenize lg = [''login'', login, password] \<and>
        users login password = Some u)" by blast
    have "user = Some u \<or> (\<exists>lg \<in> set (line # pre). \<exists>login password. tokenize lg = [''login'', login, password] \<and>
        users login password = Some u)"
      using login process_line_user [of reg users line user w out u w1] step by auto
    moreover have "line # lines = (line # pre) @ line' # post" using split(1) by simp
    ultimately show ?thesis using split(2,3,4) by blast
  qed
qed simp

section \<open>Numbers\<close>

lemma parse_uint_print [simp]: "parse_uint (u64_to_string u) = Some u"
proof -
  have "decimal_value (u64_to_string u) = unat u" "list_all is_digit (u64_to_string u)" "u64_to_string u \<noteq> []"
    by (simp_all add: u64_to_string_def decimal_value_nat nat_to_string_digits nat_to_string_nonempty)
  moreover have "unat u < 2 ^ 64" using unsigned_less [of u] by simp
  ultimately show ?thesis by (simp add: parse_uint_def)
qed

text \<open>A pID of digits only is never looked up.\<close>

lemma numeric_pid_is_not_found:
  assumes "parse_uint pid = Some u" and "um_find (fr_consists fleet) u = None"
  shows "resolve_consist_uid fleet pid = None"
  using assms by (simp add: resolve_consist_uid_def has_consist_def)

section \<open>The queued request and the engine\<close>

definition current_snapshot :: "'sys EngineLoop \<Rightarrow> bool" where
  "current_snapshot lp \<longleftrightarrow> el_snapshot lp = Some (make_snapshot (el_state lp) (el_train_fleet lp))"

lemma spawnable_section_free:
  assumes "spawnable fleet (make_snapshot s entries) initial b" and "wf_state s"
  shows "\<exists>t. find_track_section s (tr_current_section_uid initial) = Some t \<and> ts_occupancy t = FREE"
proof -
  obtain t where t: "filter (references_boundary b) (um_values (es_track_sections s)) = [t]"
    and free: "ts_occupancy t = FREE" and uid: "tr_current_section_uid initial = ts_uid t"
    using assms(1) by (auto simp: spawnable_def snap_for_each_track_section_def make_snapshot_def)
  have "t \<in> set (um_values (es_track_sections s))" using arg_cong [OF t, of set] by auto
  then have "um_find (es_track_sections s) (ts_uid t) = Some t"
    using um_keyed_values_find assms(2) by (auto simp: wf_state_def)
  then show ?thesis using free uid by (simp add: find_track_section_def)
qed

lemma drain_fleet_queue:
  "fst (snd (drain_fleet_commands q (fleet, s, ch, pip))) =
     fst (fold apply_fleet_command (eq_queue q) ([], fleet, s, ch, pip)) \<and>
   snd (snd (drain_fleet_commands q (fleet, s, ch, pip))) =
     snd (fold apply_fleet_command (eq_queue q) ([], fleet, s, ch, pip))"
proof -
  have "fst (pop_upto eq_try_pop (length (eq_queue q)) q) = eq_queue q"
    using eq.pop_upto_take [of "length (eq_queue q)" q] by simp
  then show ?thesis
    by (cases "pop_upto eq_try_pop (length (eq_queue q)) q") (auto simp: drain_fleet_commands_def)
qed

lemma apply_spawn:
  assumes "find_track_section s (tr_current_section_uid initial) = Some t" and "ts_occupancy t = FREE"
  shows "\<exists>ch' pip'. apply_fleet_command (SpawnRequest initial b) (errors, fleet, s, ch, pip) =
    (errors, add_train initial b fleet,
     apply_track_section_occupancy (tr_current_section_uid initial) OCCUPIED (tr_total_axles initial) s, ch', pip')"
  using assms by (simp add: apply_fleet_command_def spawn_def Let_def)

section \<open>A station with two boundaries\<close>

definition boundary_station :: EngineState where
  "boundary_station = sample_station\<lparr>es_boundary_nodes :=
     [(51, \<lparr>bn_uid = 51, bn_pid = ''W'', bn_station_uid = 99, bn_description = []\<rparr>),
      (52, \<lparr>bn_uid = 52, bn_pid = ''E'', bn_station_uid = 99, bn_description = []\<rparr>)]\<rparr>"

definition boundary_loop :: "unit EngineLoop" where
  "boundary_loop = \<lparr>el_state = boundary_station, el_control = (), el_queue = pq_new,
     el_snapshot = Some (make_snapshot boundary_station []), el_train_fleet = [], el_fleet_commands = eq_new\<rparr>"

lemma sample_loaded:
  obtains fleet c where "load_fleet json_tree sample_fleet_files [''data''] = Inr fleet"
    "fr_consists fleet = [(0x010300010001, c)]" "con_pid c = ''T1''"
  using sample_fleet_loads by blast

lemma spawn_at_boundary:
  assumes "fr_consists fleet = [(0x010300010001, c)]" and "con_pid c = ''T1''"
    and "el_snapshot lp = Some (make_snapshot boundary_station [])"
  shows "spawn_execute fleet [''T1'', ''W''] lp = spawn_at fleet c 0x010300010001 \<lparr>sp_section_uid = 1, sp_from_uid = 51\<rparr> lp"
    "spawn_execute fleet [''T1'', ''E''] lp = spawn_at fleet c 0x010300010001 \<lparr>sp_section_uid = 2, sp_from_uid = 52\<rparr> lp"
  using assms
  by (simp_all add: spawn_execute_def resolve_consist_uid_def parse_uint_def is_digit_def get_consist_def um_find_Cons
      make_snapshot_def snapshot_trains_def resolve_boundary_uid_def boundary_station_def sample_defs
      resolve_spawn_filter snapshot_view_def snap_find_boundary_node_def snap_for_each_track_section_def um_values_def
      references_boundary_def)

lemma sample_spawn:
  obtains fleet c t answer where "load_fleet json_tree sample_fleet_files [''data''] = Inr fleet"
    "fr_consists fleet = [(0x010300010001, c)]" "con_pid c = ''T1''"
    "spawn_execute fleet [''T1'', ''W''] boundary_loop = (Inr answer, enqueued (SpawnRequest t 51) boundary_loop)"
    "tr_train_uid t = 0x010300010001" "tr_current_section_uid t = 1"
proof -
  obtain fleet c where fleet: "load_fleet json_tree sample_fleet_files [''data''] = Inr fleet"
    and c: "fr_consists fleet = [(0x010300010001, c)]" "con_pid c = ''T1''" by (rule sample_loaded)
  have get: "get_consist fleet 0x010300010001 = Inr c" using c by (simp add: get_consist_def um_find_Cons)
  obtain r lp where s: "spawn_execute fleet [''T1'', ''W''] boundary_loop = (r, lp)"
    by (cases "spawn_execute fleet [''T1'', ''W''] boundary_loop")
  then have "spawn_at fleet c 0x010300010001 \<lparr>sp_section_uid = 1, sp_from_uid = 51\<rparr> boundary_loop = (r, lp)"
    using spawn_at_boundary(1) [OF c, of boundary_loop] by (simp add: boundary_loop_def)
  from spawn_at_outcome [OF fleet_ok_loaded [OF fleet] get this] obtain t answer where
    "lp = enqueued (SpawnRequest t 51) boundary_loop" "r = Inr answer"
    "tr_train_uid t = 0x010300010001" "tr_current_section_uid t = 1"
    by (auto simp: boundary_loop_def eq_new_def)
  then show thesis using that [OF fleet c] s by simp
qed

lemma enqueued_neq: "enqueued cmd lp \<noteq> lp"
proof
  assume "enqueued cmd lp = lp"
  then have "eq_queue (el_fleet_commands (enqueued cmd lp)) = eq_queue (el_fleet_commands lp)" by simp
  then show False by (simp add: enqueued_def)
qed

section \<open>Properties\<close>

text \<open>
  C6.  The terminal gives nobody a way around the login: when the lines typed since the start of a
  session changed anything, one of them is a command that is registered, and an earlier line is a login
  with the credentials of an account that holds the permission of this command.
\<close>

theorem terminal_needs_login_and_permission:
  assumes "terminal_lines reg (authenticate accounts) lines (None, w) = (outs, (user, w'))" and "w' \<noteq> w"
  shows "\<exists>pre line post lg login password u verb args cmd.
    lines = pre @ line # post \<and> lg \<in> set pre \<and> tokenize lg = [''login'', login, password] \<and>
    u \<in> set accounts \<and> ua_login u = login \<and> ua_password u = password \<and>
    tokenize line = verb # args \<and> registry_find reg verb = Some cmd \<and>
    tc_required_permission cmd \<in> ua_permissions u"
proof -
  obtain pre line post u verb args cmd lg login password where
    run: "lines = pre @ line # post" "tokenize line = verb # args" "registry_find reg verb = Some cmd"
      "tc_required_permission cmd \<in> ua_permissions u"
    and login: "lg \<in> set pre" "tokenize lg = [''login'', login, password]"
      "authenticate accounts login password = Some u"
    using terminal_lines_world [OF assms] by auto
  from login(3) have "u \<in> set accounts" "ua_login u = login" "ua_password u = password"
    by (auto simp: authenticate_def find_Some_iff)
  then show ?thesis using run login(1,2) by blast
qed

lemma tokenize_samples:
  "tokenize ''login admin admin123'' = [''login'', ''admin'', ''admin123'']"
  "tokenize ''spawn T1  W'' = [''spawn'', ''T1'', ''W'']"
  by (simp_all add: tokenize.simps is_space_def Let_def)

lemma server_registry_commands:
  "server_registry fleet = Inr [(''despawn'', DespawnCommand fleet), (''spawn'', SpawnCommand fleet), (''trains'', TrainsCommand)]"
  by (simp add: server_registry_def registry_add_def registry_find_def SpawnCommand_def DespawnCommand_def
      TrainsCommand_def)

theorem terminal_needs_login_and_permission_witness:
  "\<exists>fleet reg outs user w'. server_registry fleet = Inr reg \<and>
     terminal_lines reg (authenticate with_default_admin) [''login admin admin123'', ''spawn T1  W'']
       (None, boundary_loop) = (outs, (user, w')) \<and> w' \<noteq> boundary_loop \<and>
     (\<exists>cmd. registry_find reg ''spawn'' = Some cmd \<and> tc_required_permission cmd = PERM_SPAWN)"
proof -
  obtain fleet c t answer where
    spawned: "spawn_execute fleet [''T1'', ''W''] boundary_loop = (Inr answer, enqueued (SpawnRequest t 51) boundary_loop)"
    by (rule sample_spawn)
  let ?reg = "[(''despawn'', DespawnCommand fleet), (''spawn'', SpawnCommand fleet), (''trains'', TrainsCommand)]
    :: unit EngineLoop CommandRegistry"
  let ?lines = "[''login admin admin123'', ''spawn T1  W'']"
  obtain outs user w' where run: "terminal_lines ?reg (authenticate with_default_admin) ?lines (None, boundary_loop) =
      (outs, (user, w'))" by (metis prod_cases3)
  then have "w' = enqueued (SpawnRequest t 51) boundary_loop"
    using spawned by (simp add: process_line_def tokenize_samples handle_login_def authenticate_def
        with_default_admin_def all_permissions_def registry_find_def SpawnCommand_def Let_def split: prod.splits)
  then have changed: "w' \<noteq> boundary_loop" by (simp add: enqueued_neq)
  from terminal_needs_login_and_permission [OF run changed] have "registry_find ?reg ''spawn'' \<noteq> None"
    by (simp add: registry_find_def)
  then show ?thesis using server_registry_commands run changed
    by (intro exI [of _ fleet] exI [of _ ?reg]) (auto simp: registry_find_def SpawnCommand_def)
qed

text \<open>
  C20.  With a fleet that has been loaded, spawn never ends in an exception while the engine runs: it
  answers and leaves everything as it is, or queues exactly one request, for a consist of the fleet that
  the published state does not show active, on the one section that names the boundary node, which is
  free.
\<close>

theorem spawn_queues_what_the_snapshot_allows:
  assumes "load_fleet js fs data_root = Inr fleet" and "spawn_execute fleet args lp = (r, lp')"
  shows "lp' = lp \<and> (\<exists>text. r = Inr text) \<or>
    lp' = lp \<and> (\<exists>e. r = Inl e) \<and> eq_closed (el_fleet_commands lp) \<or>
    (\<exists>initial boundary snap text. lp' = enqueued (SpawnRequest initial boundary) lp \<and> r = Inr text \<and>
       el_snapshot lp = Some snap \<and> spawnable fleet snap initial boundary)"
proof -
  have "fleet_ok fleet" by (rule fleet_ok_loaded [OF assms(1)])
  show ?thesis using spawn_cmd.outcome [OF \<open>fleet_ok fleet\<close> assms(2)] unfolding spawn_permitted_def by blast
qed

theorem spawn_queues_what_the_snapshot_allows_witness:
  "\<exists>fleet initial lp' answer. load_fleet json_tree sample_fleet_files [''data''] = Inr fleet \<and>
     spawn_execute fleet [''T1'', ''W''] boundary_loop = (Inr answer, lp') \<and>
     lp' = enqueued (SpawnRequest initial 51) boundary_loop \<and>
     spawnable fleet (make_snapshot boundary_station []) initial 51"
proof -
  obtain fleet c t answer where fleet: "load_fleet json_tree sample_fleet_files [''data''] = Inr fleet"
    and spawned: "spawn_execute fleet [''T1'', ''W''] boundary_loop = (Inr answer, enqueued (SpawnRequest t 51) boundary_loop)"
    by (rule sample_spawn)
  have "spawnable fleet (make_snapshot boundary_station []) t 51"
    using spawn_queues_what_the_snapshot_allows [OF fleet spawned] enqueued_neq [of "SpawnRequest t 51" boundary_loop]
    by (auto simp: enqueued_def boundary_loop_def eq_new_def)
  then show ?thesis using fleet spawned by blast
qed

text \<open>
  The engine does not check again what spawn has checked against the published state: typed twice
  before the next tick, with two boundary nodes, the same consist is spawned twice, and the fleet has
  two trains with one UID.
\<close>

theorem consist_can_be_spawned_twice:
  "\<exists>fleet answer1 lp1 answer2 lp2 queue trains effects.
     load_fleet json_tree sample_fleet_files [''data''] = Inr fleet \<and>
     spawn_execute fleet [''T1'', ''W''] boundary_loop = (Inr answer1, lp1) \<and>
     spawn_execute fleet [''T1'', ''E''] lp1 = (Inr answer2, lp2) \<and>
     drain_fleet_commands (el_fleet_commands lp2) ([], boundary_station, [], []) = (queue, [], trains, effects) \<and>
     map (\<lambda>e. tr_train_uid (te_sim e)) trains = [0x010300010001, 0x010300010001]"
proof -
  obtain fleet c t1 text1 where fleet: "load_fleet json_tree sample_fleet_files [''data''] = Inr fleet"
    and c: "fr_consists fleet = [(0x010300010001, c)]" "con_pid c = ''T1''"
    and s1: "spawn_execute fleet [''T1'', ''W''] boundary_loop = (Inr text1, enqueued (SpawnRequest t1 51) boundary_loop)"
    and t1: "tr_train_uid t1 = 0x010300010001" "tr_current_section_uid t1 = 1"
    by (rule sample_spawn)
  let ?lp1 = "enqueued (SpawnRequest t1 51) boundary_loop"
  have get: "get_consist fleet 0x010300010001 = Inr c" using c by (simp add: get_consist_def um_find_Cons)
  obtain answer2 lp2 where s2: "spawn_execute fleet [''T1'', ''E''] ?lp1 = (answer2, lp2)"
    by (cases "spawn_execute fleet [''T1'', ''E''] ?lp1")
  have "spawn_at fleet c 0x010300010001 \<lparr>sp_section_uid = 2, sp_from_uid = 52\<rparr> ?lp1 = (answer2, lp2)"
    using spawn_at_boundary(2) [OF c, of ?lp1] s2 by (simp add: boundary_loop_def enqueued_def)
  from spawn_at_outcome [OF fleet_ok_loaded [OF fleet] get this] obtain t2 text2 where
    2: "lp2 = enqueued (SpawnRequest t2 52) ?lp1" "answer2 = Inr text2"
      "tr_train_uid t2 = 0x010300010001" "tr_current_section_uid t2 = 2"
    by (auto simp: boundary_loop_def eq_new_def enqueued_def)
  have queue: "eq_queue (el_fleet_commands lp2) = [SpawnRequest t1 51, SpawnRequest t2 52]"
    by (simp add: 2(1) enqueued_def boundary_loop_def eq_new_def)
  have sections: "find_track_section boundary_station u = find_track_section sample_station u" for u
    by (simp add: boundary_station_def find_track_section_def)
  obtain ch1 pip1 where a1: "apply_fleet_command (SpawnRequest t1 51) ([], [], boundary_station, [], []) =
      ([], add_train t1 51 [], apply_track_section_occupancy 1 OCCUPIED (tr_total_axles t1) boundary_station, ch1, pip1)"
    using apply_spawn [of boundary_station t1 "sample_section 1 51 10" 51 "[]" "[]" "[]" "[]"] t1(2)
    by (auto simp: sections sample_find_section sample_section_def)
  obtain ch2 pip2 s2 where a2: "apply_fleet_command (SpawnRequest t2 52) ([], add_train t1 51 [],
      apply_track_section_occupancy 1 OCCUPIED (tr_total_axles t1) boundary_station, ch1, pip1) =
      ([], add_train t2 52 (add_train t1 51 []), s2, ch2, pip2)"
    using apply_spawn [of "apply_track_section_occupancy 1 OCCUPIED (tr_total_axles t1) boundary_station" t2
        "sample_section 2 10 52" 52 "[]" "add_train t1 51 []" ch1 pip1] 2(4)
    by (auto simp: sections sample_find_section sample_section_def apply_track_section_occupancy_def engine_simps)
  obtain q errors trains eff where d: "drain_fleet_commands (el_fleet_commands lp2) ([], boundary_station, [], []) =
      (q, errors, trains, eff)"
    by (metis prod_cases4)
  have "errors = [] \<and> trains = add_train t2 52 (add_train t1 51 [])"
    using drain_fleet_queue [of "el_fleet_commands lp2" "[]" boundary_station "[]" "[]"] d queue a1 a2 by simp
  then have trains: "map (\<lambda>e. tr_train_uid (te_sim e)) trains = [0x010300010001, 0x010300010001]"
    and "drain_fleet_commands (el_fleet_commands lp2) ([], boundary_station, [], []) = (q, [], trains, eff)"
    using t1(1) 2(3) d by (simp_all add: add_train_def)
  moreover have "spawn_execute fleet [''T1'', ''E''] ?lp1 = (Inr text2, lp2)" using s2 2(2) by simp
  ultimately show ?thesis using fleet s1
    by - (rule exI [of _ fleet], rule exI [of _ text1], rule exI [of _ ?lp1], rule exI [of _ text2],
      rule exI [of _ lp2], rule exI [of _ q], rule exI [of _ trains], rule exI [of _ eff], simp)
qed

end
