(* ===== verification/Topology_Loader.thy ===== *)
theory Topology_Loader
  imports Json_Library Engine_State
begin

text \<open>
  The loading of the world, \<^verbatim>\<open>engine/src/topology_loader.cpp\<close>: scenario directories with a
  \<^verbatim>\<open>meta.json\<close>, a \<^verbatim>\<open>topology.json\<close> and an optional \<^verbatim>\<open>objects.json\<close> are read into
  an engine state, object by object.  JSON documents and files are the parameters of
  \<open>Json_Library\<close>.  An exception is the left side of a sum: \<open>RuntimeError\<close> for
  \<^verbatim>\<open>std::runtime_error\<close>, \<open>LibraryError\<close> for an exception of the JSON library that passes through.
\<close>

datatype loader_error = RuntimeError string | LibraryError string

record ScenarioMeta =
  sm_station_sid :: string
  sm_control_system_id :: string
  sm_schema_version :: int

section \<open>Helpers\<close>

definition lib :: "string + 'a \<Rightarrow> loader_error + 'a" where
  "lib m = map_error LibraryError m"

definition read_json :: "'j Files \<Rightarrow> path \<Rightarrow> loader_error + 'j" where
  "read_json fs p =
    (if \<not> fs_can_open fs p then Inl (RuntimeError (''topology_loader: cannot open '' @ quoted (path_string p)))
     else map_error (\<lambda>what. RuntimeError (''topology_loader: JSON parse error in '' @ quoted (path_string p) @
            '': '' @ what)) (fs_parse fs p))"

definition require_uid_field :: "'j Json \<Rightarrow> 'j \<Rightarrow> string \<Rightarrow> path \<Rightarrow> loader_error + UID" where
  "require_uid_field js j key p =
    (if \<not> has_member js (j_is_number_unsigned js) j key
     then Inl (RuntimeError (''topology_loader: missing or invalid UID field '' @ quoted key @ '' in '' @ path_string p))
     else and_then (lib (j_at js j key)) (\<lambda>v. lib (j_get_u64 js v)))"

definition station_uid_from_object_uid :: "UID \<Rightarrow> UID" where
  "station_uid_from_object_uid obj_uid = make_uid INFRASTRUCTURE STATION (uid_scope obj_uid) 1"

text \<open>The UIDs of an array.\<close>

definition uid_list :: "'j Json \<Rightarrow> 'j list \<Rightarrow> loader_error + UID list" where
  "uid_list js vs = map_result (\<lambda>v. lib (j_get_u64 js v)) vs"

definition signal_uids_field :: "'j Json \<Rightarrow> 'j \<Rightarrow> loader_error + UID list" where
  "signal_uids_field js j =
    (if j_contains js j ''signalUIDs''
     then and_then (lib (j_at js j ''signalUIDs'')) (\<lambda>vs. uid_list js (j_elements js vs))
     else Inr [])"

definition parse_track_port :: "'j Json \<Rightarrow> 'j \<Rightarrow> path \<Rightarrow> loader_error + TrackPort" where
  "parse_track_port js j p =
     and_then (require_uid_field js j ''neighborUID'' p) (\<lambda>neighbor_uid.
     and_then
      (if j_contains js j ''itUID'' then map_sum id (\<lambda>uid. (uid, COUNTER_IT)) (require_uid_field js j ''itUID'' p)
       else if j_contains js j ''izUID'' then map_sum id (\<lambda>uid. (uid, COUNTER_IZ)) (require_uid_field js j ''izUID'' p)
       else Inr (0, COUNTER_IT)) (\<lambda>(counter_uid, counter_kind).
     and_then (signal_uids_field js j) (\<lambda>signal_uids.
       Inr \<lparr>port_neighbor_uid = neighbor_uid, port_counter_uid = counter_uid,
            port_counter_kind = counter_kind, port_signal_uids = signal_uids\<rparr>)))"

definition parse_switch_leg :: "'j Json \<Rightarrow> 'j \<Rightarrow> path \<Rightarrow> loader_error + SwitchLeg" where
  "parse_switch_leg js j p =
     and_then (require_uid_field js j ''neighborUID'' p) (\<lambda>neighbor_uid.
     and_then (if j_contains js j ''izUID'' then require_uid_field js j ''izUID'' p else Inr 0) (\<lambda>iz_uid.
     and_then (signal_uids_field js j) (\<lambda>signal_uids.
       Inr \<lparr>leg_neighbor_uid = neighbor_uid, leg_iz_uid = iz_uid, leg_signal_uids = signal_uids\<rparr>)))"

definition parse_signal_type :: "string \<Rightarrow> loader_error + SignalType" where
  "parse_signal_type s =
    (if s = ''ENTRY'' then Inr SIG_ENTRY
     else if s = ''DEPARTURE'' then Inr SIG_DEPARTURE
     else if s = ''BLOCK'' then Inr SIG_BLOCK
     else if s = ''SHUNTING'' then Inr SIG_SHUNTING
     else Inl (RuntimeError (''topology_loader: unknown signal type '' @ quoted s)))"

definition parse_initial_aspect :: "string \<Rightarrow> loader_error + SignalAspect" where
  "parse_initial_aspect s =
    (if s = ''STOP'' \<or> s = ''S1_STOP'' then Inr S1_STOP
     else if s = ''S2_PROCEED'' then Inr S2_PROCEED
     else if s = ''S3_PROCEED_40'' then Inr S3_PROCEED_40
     else if s = ''MS1_STOP'' then Inr MS1_STOP
     else if s = ''MS2_SHUNTING_ALLOWED'' then Inr MS2_SHUNTING_ALLOWED
     else Inl (RuntimeError (''topology_loader: unknown initial_aspect '' @ quoted s)))"

definition parse_block_state :: "string \<Rightarrow> loader_error + BlockSectionState" where
  "parse_block_state s =
    (if s = ''CLOSED'' then Inr BS_CLOSED
     else if s = ''OPEN'' then Inr BS_OPEN
     else Inl (RuntimeError (''topology_loader: unknown initialState '' @ quoted s)))"

definition parse_block_direction :: "string \<Rightarrow> loader_error + BlockDirectionState" where
  "parse_block_direction s =
    (if s = ''NEUTRAL'' then Inr NEUTRAL
     else if s = ''OUTBOUND'' then Inr OUTBOUND
     else if s = ''INBOUND'' then Inr INBOUND
     else Inl (RuntimeError (''topology_loader: unknown initialDirection '' @ quoted s)))"

section \<open>One loader per kind of object\<close>

type_synonym 'j object_loader = "path \<Rightarrow> 'j \<Rightarrow> EngineState \<Rightarrow> loader_error + EngineState"

definition pid_field :: "'j Json \<Rightarrow> 'j \<Rightarrow> loader_error + string" where
  "pid_field js j = and_then (lib (j_at js j ''pID'')) (\<lambda>v. lib (j_get_string js v))"

definition load_boundary_node :: "'j Json \<Rightarrow> 'j object_loader" where
  "load_boundary_node js p j s =
     and_then (require_uid_field js j ''uid'' p) (\<lambda>uid.
     and_then (pid_field js j) (\<lambda>pid.
     and_then (lib (j_value js (j_get_string js) j ''description'' [])) (\<lambda>description.
       Inr (insert_boundary_node
         \<lparr>bn_uid = uid, bn_pid = pid, bn_station_uid = station_uid_from_object_uid uid,
          bn_description = description\<rparr> s))))"

definition load_track_section :: "'j Json \<Rightarrow> 'j object_loader" where
  "load_track_section js p j s =
     and_then (require_uid_field js j ''uid'' p) (\<lambda>uid.
     and_then (pid_field js j) (\<lambda>pid.
     and_then (lib (j_at js j ''sideA'')) (\<lambda>a. and_then (parse_track_port js a p) (\<lambda>side_a.
     and_then (lib (j_at js j ''sideB'')) (\<lambda>b. and_then (parse_track_port js b p) (\<lambda>side_b.
     and_then (lib (j_value js (j_get_float js) j ''lengthM'' 0)) (\<lambda>length_m.
     and_then (lib (j_value js (j_get_bool js) j ''electrified'' False)) (\<lambda>electrified.
     and_then (lib (j_value js (j_get_int js) j ''maxSpeedKmh'' 0)) (\<lambda>max_speed_kmh.
     and_then (lib (j_value js (j_get_bool js) j ''occupied'' False)) (\<lambda>occupied.
     and_then (lib (j_value js (j_get_bool js) j ''station_section'' True)) (\<lambda>station_section.
       Inr (insert_track_section
         \<lparr>ts_uid = uid, ts_pid = pid, ts_station_uid = station_uid_from_object_uid uid,
          ts_side_a = side_a, ts_side_b = side_b, ts_length_m = length_m, ts_electrified = electrified,
          ts_max_speed_kmh = max_speed_kmh, ts_station_section = station_section,
          ts_occupancy = (if occupied then OCCUPIED else FREE), ts_axle_count = 0, ts_train_uid = None,
          ts_operator_state = default_operator_state\<rparr> s))))))))))))"

definition load_switch :: "'j Json \<Rightarrow> 'j object_loader" where
  "load_switch js p j s =
     and_then (require_uid_field js j ''uid'' p) (\<lambda>uid.
     and_then (pid_field js j) (\<lambda>pid.
     and_then (lib (j_value js (j_get_string js) j ''typeID'' [])) (\<lambda>type_id.
     and_then (lib (j_at js j ''trunk'')) (\<lambda>t. and_then (parse_switch_leg js t p) (\<lambda>trunk.
     and_then (lib (j_at js j ''straight'')) (\<lambda>st. and_then (parse_switch_leg js st p) (\<lambda>straight.
     and_then (lib (j_at js j ''divergent'')) (\<lambda>dv. and_then (parse_switch_leg js dv p) (\<lambda>divergent.
     and_then (lib (j_value js (j_get_float js) j ''lengthM'' 0)) (\<lambda>length_m.
     and_then (lib (j_value js (j_get_int js) j ''maxSpeedStraightKmh'' 0)) (\<lambda>max_speed_straight_kmh.
     and_then (lib (j_value js (j_get_int js) j ''maxSpeedDivergentKmh'' 0)) (\<lambda>max_speed_divergent_kmh.
       Inr (insert_switch
         \<lparr>sw_uid = uid, sw_pid = pid, sw_station_uid = station_uid_from_object_uid uid, sw_type_id = type_id,
          sw_trunk = trunk, sw_straight = straight, sw_divergent = divergent, sw_length_m = length_m,
          sw_max_speed_straight_kmh = max_speed_straight_kmh,
          sw_max_speed_divergent_kmh = max_speed_divergent_kmh, sw_position = STRAIGHT,
          sw_control_lost = False, sw_occupancy = FREE, sw_axle_count = 0, sw_locked_by_route_uid = None,
          sw_moving_ticks_remaining = 0, sw_operator_state = default_operator_state\<rparr> s)))))))))))))"

definition load_block_section :: "'j Json \<Rightarrow> 'j object_loader" where
  "load_block_section js p j s =
     and_then (require_uid_field js j ''uid'' p) (\<lambda>uid.
     and_then (pid_field js j) (\<lambda>pid.
     and_then (lib (j_value js (j_get_string js) j ''type_id'' ''SHL-12'')) (\<lambda>type_id.
     and_then (require_uid_field js j ''neighborStationUID'' p) (\<lambda>neighbor_station_uid.
     and_then (lib (j_value js (j_get_int js) j ''lineNumber'' 0)) (\<lambda>line_number.
     and_then (require_uid_field js j ''departureSignalUID'' p) (\<lambda>departure_signal_uid.
     and_then (require_uid_field js j ''entrySignalUID'' p) (\<lambda>entry_signal_uid.
     and_then (lib (j_value js (\<lambda>v. Inr (j_elements js v)) j ''szlakSectionUIDs'' [])) (\<lambda>items.
     and_then (uid_list js items) (\<lambda>szlak_section_uids.
     and_then (lib (j_value js (j_get_string js) j ''initialState'' ''CLOSED'')) (\<lambda>initial_state.
     and_then (parse_block_state initial_state) (\<lambda>state.
     and_then (lib (j_value js (j_get_string js) j ''initialDirection'' ''NEUTRAL'')) (\<lambda>initial_direction.
     and_then (parse_block_direction initial_direction) (\<lambda>direction.
       Inr (insert_block_section
         \<lparr>bs_uid = uid, bs_pid = pid, bs_type_id = type_id, bs_station_uid = station_uid_from_object_uid uid,
          bs_neighbor_station_uid = neighbor_station_uid, bs_line_number = line_number,
          bs_departure_signal_uid = departure_signal_uid, bs_entry_signal_uid = entry_signal_uid,
          bs_szlak_section_uids = szlak_section_uids, bs_state = state, bs_direction = direction,
          bs_axle_count = 0, bs_operator_state = default_operator_state, bs_reset_init_tick = None\<rparr> s))))))))))))))"

definition load_signal :: "'j Json \<Rightarrow> 'j object_loader" where
  "load_signal js p j s =
     and_then (require_uid_field js j ''uid'' p) (\<lambda>uid.
     and_then (pid_field js j) (\<lambda>pid.
     and_then (lib (j_value js (j_get_string js) j ''typeID'' [])) (\<lambda>type_id.
     and_then (lib (j_at js j ''type'')) (\<lambda>t. and_then (lib (j_get_string js t)) (\<lambda>type_name.
     and_then (parse_signal_type type_name) (\<lambda>type.
     and_then (require_uid_field js j ''governs_section'' p) (\<lambda>governs_section_uid.
     and_then (lib (j_value js (j_get_string js) j ''initial_aspect'' ''STOP'')) (\<lambda>initial_aspect.
     and_then (parse_initial_aspect initial_aspect) (\<lambda>current_aspect.
       Inr (insert_signal
         \<lparr>sig_uid = uid, sig_pid = pid, sig_station_uid = station_uid_from_object_uid uid,
          sig_type_id = type_id, sig_type = type, sig_governs_section_uid = governs_section_uid,
          sig_current_aspect = current_aspect, sig_locked_by_route_uid = None,
          sig_operator_state = default_operator_state\<rparr> s))))))))))"

definition load_derailer :: "'j Json \<Rightarrow> 'j object_loader" where
  "load_derailer js p j s =
     and_then (require_uid_field js j ''uid'' p) (\<lambda>uid.
     and_then (pid_field js j) (\<lambda>pid.
     and_then (lib (j_value js (j_get_string js) j ''typeID'' [])) (\<lambda>type_id.
     and_then (require_uid_field js j ''guards_section'' p) (\<lambda>guards_section_uid.
       Inr (insert_derailer
         \<lparr>dr_uid = uid, dr_pid = pid, dr_station_uid = station_uid_from_object_uid uid, dr_type_id = type_id,
          dr_guards_section_uid = guards_section_uid, dr_state = LOCKED, dr_locked_by_route_uid = None,
          dr_operator_state = default_operator_state\<rparr> s)))))"

section \<open>Scenarios\<close>

definition kTopologyKinds :: "'j Json \<Rightarrow> (string \<times> 'j object_loader) list" where
  "kTopologyKinds js =
     [(''boundary_nodes'', load_boundary_node js), (''track_sections'', load_track_section js),
      (''switches'', load_switch js), (''block_sections'', load_block_section js)]"

definition kObjectsKinds :: "'j Json \<Rightarrow> (string \<times> 'j object_loader) list" where
  "kObjectsKinds js = [(''signals'', load_signal js), (''derailers'', load_derailer js)]"

definition load_object_array ::
    "'j Json \<Rightarrow> 'j \<Rightarrow> path \<Rightarrow> string \<times> 'j object_loader \<Rightarrow> EngineState \<Rightarrow> loader_error + EngineState" where
  "load_object_array js doc p kind s =
     and_then (lib (j_value js (\<lambda>v. Inr (j_elements js v)) doc (fst kind) [])) (\<lambda>items.
       fold_result (snd kind p) items s)"

definition load_object_arrays ::
    "'j Json \<Rightarrow> 'j \<Rightarrow> path \<Rightarrow> (string \<times> 'j object_loader) list \<Rightarrow> EngineState \<Rightarrow> loader_error + EngineState" where
  "load_object_arrays js doc p kinds s = fold_result (load_object_array js doc p) kinds s"

definition load_scenario :: "'j Json \<Rightarrow> 'j Files \<Rightarrow> path \<Rightarrow> EngineState \<Rightarrow> loader_error + EngineState \<times> ScenarioMeta" where
  "load_scenario js fs dir s =
     and_then (read_json fs (dir @ [''meta.json''])) (\<lambda>meta.
     and_then (lib (j_at js meta ''station_sid'')) (\<lambda>v. and_then (lib (j_get_string js v)) (\<lambda>station_sid.
     and_then (lib (j_at js meta ''control_system'')) (\<lambda>v. and_then (lib (j_get_string js v)) (\<lambda>control_system_id.
     and_then (lib (j_value js (j_get_int js) meta ''schema_version'' 1)) (\<lambda>schema_version.
     let s0 = set_session_id station_sid s; topo_path = dir @ [''topology.json''] in
     and_then (read_json fs topo_path) (\<lambda>topo.
     and_then (load_object_arrays js topo topo_path (kTopologyKinds js) s0) (\<lambda>s1.
     let objects_path = dir @ [''objects.json''] in
     and_then
      (if fs_exists fs objects_path
       then and_then (read_json fs objects_path) (\<lambda>objs. load_object_arrays js objs objects_path (kObjectsKinds js) s1)
       else Inr s1) (\<lambda>s2.
       Inr (s2, \<lparr>sm_station_sid = station_sid, sm_control_system_id = control_system_id,
                  sm_schema_version = schema_version\<rparr>))))))))))"

definition load_next_scenario ::
    "'j Json \<Rightarrow> 'j Files \<Rightarrow> path \<Rightarrow> EngineState \<times> ScenarioMeta list \<Rightarrow> loader_error + EngineState \<times> ScenarioMeta list" where
  "load_next_scenario js fs dir st =
     and_then (load_scenario js fs dir (fst st)) (\<lambda>(s, meta). Inr (s, snd st @ [meta]))"

definition load_world ::
    "'j Json \<Rightarrow> 'j Files \<Rightarrow> path list \<Rightarrow> EngineState \<Rightarrow> loader_error + EngineState \<times> ScenarioMeta list" where
  "load_world js fs scenario_dirs s =
    (if scenario_dirs = [] then Inl (RuntimeError ''load_world: scenario_dirs must not be empty'')
     else
     and_then (fold_result (load_next_scenario js fs) scenario_dirs (s, [])) (\<lambda>(s', results).
       Inr (set_session_id (sm_station_sid (hd results)) s', results)))"

end
