(* ===== verification/Topology_Properties.thy ===== *)
theory Topology_Properties
  imports Topology_Loader Interlocking_Runs
begin

text \<open>
  What a loaded world satisfies.  The locale \<open>loading\<close> collects what an invariant has to survive:
  the insertion of each kind of object in the state in which the loader creates it; it is interpreted on
  well-formedness, on the fresh world and on \<open>keeps\<close>, by which later scenarios
  never overwrite what an earlier one has loaded.
\<close>

section \<open>New objects\<close>

definition new_section :: "TrackSection \<Rightarrow> bool" where
  "new_section t \<longleftrightarrow> ts_axle_count t = 0 \<and> ts_train_uid t = None \<and> ts_operator_state t = default_operator_state \<and>
     ts_station_uid t = station_uid_from_object_uid (ts_uid t)"

definition new_switch :: "Switch \<Rightarrow> bool" where
  "new_switch sw \<longleftrightarrow> sw_position sw = STRAIGHT \<and> \<not> sw_control_lost sw \<and> sw_occupancy sw = FREE \<and>
     sw_locked_by_route_uid sw = None \<and> sw_moving_ticks_remaining sw = 0 \<and>
     sw_operator_state sw = default_operator_state \<and> sw_station_uid sw = station_uid_from_object_uid (sw_uid sw)"

definition new_signal :: "Signal \<Rightarrow> bool" where
  "new_signal sig \<longleftrightarrow> sig_locked_by_route_uid sig = None \<and> sig_operator_state sig = default_operator_state \<and>
     sig_current_aspect sig \<in> {S1_STOP, S2_PROCEED, S3_PROCEED_40, MS1_STOP, MS2_SHUNTING_ALLOWED} \<and>
     sig_station_uid sig = station_uid_from_object_uid (sig_uid sig)"

definition new_derailer :: "Derailer \<Rightarrow> bool" where
  "new_derailer d \<longleftrightarrow> dr_state d = LOCKED \<and> dr_locked_by_route_uid d = None \<and>
     dr_operator_state d = default_operator_state \<and> dr_station_uid d = station_uid_from_object_uid (dr_uid d)"

definition new_block_section :: "BlockSection \<Rightarrow> bool" where
  "new_block_section b \<longleftrightarrow> bs_axle_count b = 0 \<and> bs_reset_init_tick b = None \<and>
     bs_operator_state b = default_operator_state \<and> bs_station_uid b = station_uid_from_object_uid (bs_uid b)"

section \<open>Loading keeps an invariant\<close>

locale loading =
  fixes good :: "EngineState \<Rightarrow> bool"
  assumes session: "good s \<Longrightarrow> good (set_session_id sid s)"
    and boundary: "good s \<Longrightarrow> good (insert_boundary_node n s)"
    and "section": "good s \<Longrightarrow> new_section t \<Longrightarrow> good (insert_track_section t s)"
    and switch: "good s \<Longrightarrow> new_switch sw \<Longrightarrow> good (insert_switch sw s)"
    and signal: "good s \<Longrightarrow> new_signal sig \<Longrightarrow> good (insert_signal sig s)"
    and derailer: "good s \<Longrightarrow> new_derailer d \<Longrightarrow> good (insert_derailer d s)"
    and block: "good s \<Longrightarrow> new_block_section b \<Longrightarrow> good (insert_block_section b s)"
begin

lemma load_boundary_node_good: "load_boundary_node js p j s = Inr s' \<Longrightarrow> good s \<Longrightarrow> good s'"
  by (auto simp: load_boundary_node_def and_then_Inr intro!: boundary)

lemma load_track_section_good: "load_track_section js p j s = Inr s' \<Longrightarrow> good s \<Longrightarrow> good s'"
  by (auto simp: load_track_section_def and_then_Inr new_section_def intro!: "section")

lemma load_switch_good: "load_switch js p j s = Inr s' \<Longrightarrow> good s \<Longrightarrow> good s'"
  by (auto simp: load_switch_def and_then_Inr new_switch_def intro!: switch)

lemma load_block_section_good: "load_block_section js p j s = Inr s' \<Longrightarrow> good s \<Longrightarrow> good s'"
  by (auto simp: load_block_section_def and_then_Inr new_block_section_def intro!: block)

lemma parse_initial_aspect_range:
  "parse_initial_aspect a = Inr x \<Longrightarrow> x \<in> {S1_STOP, S2_PROCEED, S3_PROCEED_40, MS1_STOP, MS2_SHUNTING_ALLOWED}"
  by (auto simp: parse_initial_aspect_def split: if_splits)

lemma load_signal_good: "load_signal js p j s = Inr s' \<Longrightarrow> good s \<Longrightarrow> good s'"
  by (auto simp: load_signal_def and_then_Inr new_signal_def dest: parse_initial_aspect_range intro!: signal)

lemma load_derailer_good: "load_derailer js p j s = Inr s' \<Longrightarrow> good s \<Longrightarrow> good s'"
  by (auto simp: load_derailer_def and_then_Inr new_derailer_def intro!: derailer)

lemma load_object_array_good:
  assumes "load_object_array js doc p kind s = Inr s'" and "good s"
    and "\<And>j s s'. snd kind p j s = Inr s' \<Longrightarrow> good s \<Longrightarrow> good s'"
  shows "good s'"
proof -
  obtain items where "fold_result (snd kind p) items s = Inr s'"
    using assms(1) by (auto simp: load_object_array_def and_then_Inr)
  then show ?thesis by (rule fold_result_invariant [where P = good]) (use assms in auto)
qed

lemma load_topology_good:
  assumes "load_object_arrays js doc p (kTopologyKinds js) s = Inr s'" and "good s"
  shows "good s'"
  using assms(1) unfolding load_object_arrays_def
  by (rule fold_result_invariant [where P = good])
     (auto simp: assms(2) kTopologyKinds_def elim!: load_object_array_good load_boundary_node_good
        load_track_section_good load_switch_good load_block_section_good)

lemma load_objects_good:
  assumes "load_object_arrays js doc p (kObjectsKinds js) s = Inr s'" and "good s"
  shows "good s'"
  using assms(1) unfolding load_object_arrays_def
  by (rule fold_result_invariant [where P = good])
     (auto simp: assms(2) kObjectsKinds_def elim!: load_object_array_good load_signal_good load_derailer_good)

lemma load_scenario_good:
  assumes "load_scenario js fs dir s = Inr (s', meta)" and "good s"
  shows "good s'"
proof -
  obtain sid topo s1 where
    s1: "load_object_arrays js topo (dir @ [''topology.json'']) (kTopologyKinds js) (set_session_id sid s) = Inr s1"
    and s': "s' = s1 \<or> (\<exists>objs. load_object_arrays js objs (dir @ [''objects.json'']) (kObjectsKinds js) s1 = Inr s')"
    using assms(1) by (auto simp: load_scenario_def and_then_Inr Let_def split: if_splits)
  have "good s1" by (rule load_topology_good [OF s1 session [OF assms(2)]])
  then show ?thesis using s' by (auto intro: load_objects_good)
qed

lemma load_next_good:
  assumes "load_next_scenario js fs dir st = Inr st'" and "good (fst st)"
  shows "good (fst st')"
  using assms by (auto simp: load_next_scenario_def and_then_Inr intro: load_scenario_good)

lemma load_next_scenarios_good:
  assumes "fold_result (load_next_scenario js fs) dirs st = Inr st'" and "good (fst st)"
  shows "good (fst st')"
  using assms(1) by (rule fold_result_invariant [where P = "\<lambda>st. good (fst st)"]) (use assms(2) load_next_good in auto)

lemma load_world_good:
  assumes "load_world js fs dirs s = Inr (s', metas)" and "good s"
  shows "good s'"
  using assms load_next_scenarios_good [of js fs dirs "(s, [])"]
  by (auto simp: load_world_def and_then_Inr split: if_splits intro: session)

end

section \<open>Invariants of a loaded world\<close>

definition fresh_world :: "EngineState \<Rightarrow> bool" where
  "fresh_world s \<longleftrightarrow>
     (\<forall>t \<in> set (for_each_track_section s). new_section t) \<and> (\<forall>sw \<in> set (for_each_switch s). new_switch sw) \<and>
     (\<forall>sig \<in> set (for_each_signal s). new_signal sig) \<and> (\<forall>d \<in> set (for_each_derailer s). new_derailer d) \<and>
     (\<forall>b \<in> set (for_each_block_section s). new_block_section b) \<and>
     es_routes s = [] \<and> es_alarms s = [] \<and> es_level_crossings s = [] \<and> es_current_tick s = 0"

lemma um_values_emplace: "v' \<in> set (um_values (um_emplace k v m)) \<Longrightarrow> v' = v \<or> v' \<in> set (um_values m)"
  by (auto simp: um_emplace_def um_values_def split: option.splits if_splits)

lemmas insert_defs = insert_boundary_node_def insert_track_section_def insert_switch_def insert_signal_def
  insert_derailer_def insert_block_section_def set_session_id_def

lemmas for_each_defs = for_each_track_section_def for_each_switch_def for_each_signal_def for_each_derailer_def
  for_each_block_section_def

interpretation loading_wf: loading wf_state
  by unfold_locales (simp_all add: wf_state_intros)

interpretation loading_fresh: loading fresh_world
  by unfold_locales (auto simp: fresh_world_def insert_defs for_each_defs dest!: um_values_emplace)

lemma fresh_world_ebilock: "wf_state s \<Longrightarrow> fresh_world s \<Longrightarrow> ebilock_inv s"
  by (auto simp: ebilock_inv_def locked_switches_rest_def fresh_world_def for_each_switch_def um_values_def
      new_switch_def list_all_iff)

text \<open>What is there stays as it is.\<close>

definition keeps :: "EngineState \<Rightarrow> EngineState \<Rightarrow> bool" where
  "keeps s s' \<longleftrightarrow>
     (\<forall>u x. find_boundary_node s u = Some x \<longrightarrow> find_boundary_node s' u = Some x) \<and>
     (\<forall>u x. find_track_section s u = Some x \<longrightarrow> find_track_section s' u = Some x) \<and>
     (\<forall>u x. find_switch s u = Some x \<longrightarrow> find_switch s' u = Some x) \<and>
     (\<forall>u x. find_signal s u = Some x \<longrightarrow> find_signal s' u = Some x) \<and>
     (\<forall>u x. find_derailer s u = Some x \<longrightarrow> find_derailer s' u = Some x) \<and>
     (\<forall>u x. find_block_section s u = Some x \<longrightarrow> find_block_section s' u = Some x)"

lemma keeps_refl [simp]: "keeps s s"
  by (simp add: keeps_def)

interpretation loading_keeps: loading "keeps s" for s
  by unfold_locales
     (auto simp: keeps_def insert_defs find_boundary_node_def find_track_section_def find_switch_def
       find_signal_def find_derailer_def find_block_section_def um_find_emplace)

lemma fresh_empty: "fresh_world empty_state"
  by (simp add: fresh_world_def empty_state_def for_each_defs um_values_def)

lemma load_next_scenarios_metas:
  assumes "fold_result (load_next_scenario js fs) dirs st = Inr st'"
  shows "\<exists>metas. snd st' = snd st @ metas \<and> length metas = length dirs"
  using assms
proof (induction dirs arbitrary: st)
  case (Cons dir dirs)
  obtain st1 where st1: "load_next_scenario js fs dir st = Inr st1"
    and rest: "fold_result (load_next_scenario js fs) dirs st1 = Inr st'"
    using Cons.prems by (auto simp: and_then_Inr)
  obtain meta where "snd st1 = snd st @ [meta]" using st1 by (auto simp: load_next_scenario_def and_then_Inr)
  then show ?case using Cons.IH [OF rest] by (metis append.assoc append_Cons append_Nil length_Cons)
qed simp

lemma load_world_metas:
  assumes "load_world js fs dirs s = Inr (s', metas)"
  shows "length metas = length dirs" "es_session_id s' = sm_station_sid (hd metas)" "dirs \<noteq> []"
  using assms load_next_scenarios_metas [of js fs dirs "(s, [])"]
  by (auto simp: load_world_def and_then_Inr set_session_id_def split: if_splits)

lemma fold_result_append:
  "fold_result f (xs @ ys) s = and_then (fold_result f xs s) (fold_result f ys)"
proof (induction xs arbitrary: s)
  case (Cons x xs)
  then show ?case by (cases "f x s") simp_all
qed simp

lemma keeps_set_session: "keeps (set_session_id sid s) s' = keeps s s'" "keeps s (set_session_id sid s') = keeps s s'"
  by (simp_all add: keeps_def set_session_id_def find_boundary_node_def find_track_section_def find_switch_def
      find_signal_def find_derailer_def find_block_section_def)

section \<open>Sample scenarios\<close>

definition sample_meta :: "string \<Rightarrow> JsonTree" where
  "sample_meta sid = JsObject [(''station_sid'', JsString sid), (''control_system'', JsString ''ebilock_x4'')]"

definition sample_side :: "u64 \<Rightarrow> JsonTree" where
  "sample_side u = JsObject [(''neighborUID'', JsUnsigned u), (''itUID'', JsUnsigned 9)]"

definition sample_topology :: "string \<Rightarrow> JsonTree" where
  "sample_topology pid = JsObject
     [(''boundary_nodes'', JsArray [JsObject [(''uid'', JsUnsigned 7), (''pID'', JsString ''W'')]]),
      (''track_sections'', JsArray [JsObject [(''uid'', JsUnsigned 1), (''pID'', JsString pid),
         (''sideA'', sample_side 7), (''sideB'', sample_side 2)]])]"

text \<open>Two scenarios that both have a section 1; neither has an \<^verbatim>\<open>objects.json\<close>.\<close>

definition sample_scenario_files :: "JsonTree Files" where
  "sample_scenario_files =
     \<lparr>fs_exists = (\<lambda>p. False), fs_entries = (\<lambda>p. []), fs_is_regular_file = (\<lambda>p. True), fs_can_open = (\<lambda>p. True),
      fs_parse = (\<lambda>p. Inr (if last p = ''meta.json'' then sample_meta (hd p) else sample_topology (hd p)))\<rparr>"

lemmas sample_scenario_defs = load_world_def load_next_scenario_def load_scenario_def read_json_def lib_def
  sample_scenario_files_def sample_meta_def sample_topology_def sample_side_def json_tree_def j_value_def
  load_object_arrays_def load_object_array_def kTopologyKinds_def load_boundary_node_def load_track_section_def
  require_uid_field_def has_member_def pid_field_def parse_track_port_def signal_uids_field_def

lemma sample_world_loads:
  "\<exists>s m. load_world json_tree sample_scenario_files [[''A'']] empty_state = Inr (s, m) \<and>
     map_option ts_pid (find_track_section s 1) = Some ''A''"
  "\<exists>s m. load_world json_tree sample_scenario_files ([[''A'']] @ [[''B'']]) empty_state = Inr (s, m)"
  by (simp_all add: sample_scenario_defs Let_def insert_track_section_def insert_boundary_node_def set_session_id_def
      find_track_section_def um_emplace_def um_find_Cons empty_state_def)

section \<open>Properties\<close>

text \<open>
  C13.  The world the loader builds from any files is well-formed and fresh: every map is keyed by the
  UIDs of its objects, every switch is straight, at rest, free and unlocked, every derailer locked, no
  signal is held by a route, there is no route, no alarm and no level crossing, every object belongs to
  the station in the scope of its own UID, the tick is 0, and the session is that of the first scenario.
\<close>

theorem loaded_world_is_fresh:
  assumes "load_world js fs dirs empty_state = Inr (s, metas)"
  shows "wf_state s \<and> fresh_world s \<and> ebilock_inv s \<and> length metas = length dirs \<and>
    es_session_id s = sm_station_sid (hd metas)"
  using loading_wf.load_world_good [OF assms wf_empty_state] loading_fresh.load_world_good [OF assms fresh_empty]
    fresh_world_ebilock load_world_metas [OF assms] by blast

theorem loaded_world_is_fresh_witness:
  "\<exists>s m. load_world json_tree sample_scenario_files [[''A'']] empty_state = Inr (s, m) \<and>
     fresh_world s \<and> es_session_id s = sm_station_sid (hd m)"
proof -
  obtain s m where s: "load_world json_tree sample_scenario_files [[''A'']] empty_state = Inr (s, m)"
    using sample_world_loads(1) by blast
  show ?thesis using s loaded_world_is_fresh [OF s] by blast
qed

text \<open>
  A world of several scenarios contains the world of the first ones unchanged: an object of a later
  scenario with a UID that is already taken is ignored.
\<close>

theorem later_scenarios_never_overwrite:
  assumes "load_world js fs dirs s = Inr (s1, metas1)" and "load_world js fs (dirs @ dirs') s = Inr (s2, metas2)"
  shows "keeps s s1 \<and> keeps s1 s2 \<and> metas1 = take (length dirs) metas2 \<and> es_session_id s1 = es_session_id s2"
proof -
  have ne: "dirs \<noteq> []" using assms(1) by (auto simp: load_world_def)
  obtain t1 where t1: "fold_result (load_next_scenario js fs) dirs (s, []) = Inr (t1, metas1)"
    and s1: "s1 = set_session_id (sm_station_sid (hd metas1)) t1"
    using assms(1) ne by (auto simp: load_world_def and_then_Inr)
  obtain t2 where t2: "fold_result (load_next_scenario js fs) dirs' (t1, metas1) = Inr (t2, metas2)"
    and s2: "s2 = set_session_id (sm_station_sid (hd metas2)) t2"
    using assms(2) ne t1 by (auto simp: load_world_def and_then_Inr fold_result_append)
  obtain ms where ms: "metas2 = metas1 @ ms" using load_next_scenarios_metas [OF t2] by auto
  have len: "length metas1 = length dirs" using load_next_scenarios_metas [OF t1] by simp
  then have hd: "hd metas2 = hd metas1" using ms ne by (cases metas1) auto
  have "keeps s t1" using loading_keeps.load_next_scenarios_good [OF t1, of s] by simp
  moreover have "keeps t1 t2" using loading_keeps.load_next_scenarios_good [OF t2, of t1] by simp
  ultimately show ?thesis using s1 s2 ms len hd by (simp add: keeps_set_session) (simp add: set_session_id_def)
qed

theorem later_scenarios_never_overwrite_witness:
  "\<exists>s m. load_world json_tree sample_scenario_files ([[''A'']] @ [[''B'']]) empty_state = Inr (s, m) \<and>
     map_option ts_pid (find_track_section s 1) = Some ''A''"
proof -
  obtain s1 m1 where s1: "load_world json_tree sample_scenario_files [[''A'']] empty_state = Inr (s1, m1)"
    and pid: "map_option ts_pid (find_track_section s1 1) = Some ''A''"
    using sample_world_loads(1) by blast
  obtain s2 m2 where s2: "load_world json_tree sample_scenario_files ([[''A'']] @ [[''B'']]) empty_state = Inr (s2, m2)"
    using sample_world_loads(2) by blast
  from pid later_scenarios_never_overwrite [OF s1 s2] have "map_option ts_pid (find_track_section s2 1) = Some ''A''"
    by (auto simp: keeps_def)
  then show ?thesis using s2 by blast
qed

text \<open>
  A missing pID is reported by the exception of the JSON library, which is no
  \<^verbatim>\<open>std::runtime_error\<close>.
\<close>

lemma missing_pid_is_no_runtime_error:
  "\<exists>e. load_boundary_node json_tree p (JsObject [(''uid'', JsUnsigned 7)]) s = Inl (LibraryError e)"
  by (simp add: load_boundary_node_def require_uid_field_def has_member_def pid_field_def lib_def json_tree_def)

end
