(* ===== verification/Proto_Events.thy ===== *)
theory Proto_Events
  imports Proto_Common
begin

text \<open>
  The domain event tables of the wire protocol, \<^verbatim>\<open>autogens/proto/events_generated.h\<close>:
  per table its accessors, its verifier, the setters of its builder and its create function, over
  the FlatBuffers runtime of theory \<open>Proto_Library\<close>.
\<close>

section \<open>enum \<^verbatim>\<open>RouteReleaseReason\<close>\<close>

definition RouteReleaseReason_TRAIN_CLEARED :: i8 where "RouteReleaseReason_TRAIN_CLEARED = 0"
definition RouteReleaseReason_OPERATOR_CANCEL :: i8 where "RouteReleaseReason_OPERATOR_CANCEL = 1"
definition RouteReleaseReason_TIMEOUT :: i8 where "RouteReleaseReason_TIMEOUT = 2"
definition RouteReleaseReason_CONFLICT :: i8 where "RouteReleaseReason_CONFLICT = 3"

definition EnumValuesRouteReleaseReason :: "i8 list" where
  "EnumValuesRouteReleaseReason = [0, 1, 2, 3]"

definition EnumNamesRouteReleaseReason :: "string list" where
  "EnumNamesRouteReleaseReason = [''TRAIN_CLEARED'', ''OPERATOR_CANCEL'', ''TIMEOUT'', ''CONFLICT'']"

definition EnumNameRouteReleaseReason :: "i8 \<Rightarrow> string" where
  "EnumNameRouteReleaseReason e = (if sint e < 0 \<or> 3 < sint e then [] else EnumNamesRouteReleaseReason ! unat e)"

section \<open>enum \<^verbatim>\<open>Direction\<close>\<close>

definition EnumValuesDirection :: "i8 list" where
  "EnumValuesDirection = [0, 1]"

definition EnumNamesDirection :: "string list" where
  "EnumNamesDirection = [''FORWARD'', ''BACKWARD'']"

definition EnumNameDirection :: "i8 \<Rightarrow> string" where
  "EnumNameDirection e = (if sint e < 0 \<or> 1 < sint e then [] else EnumNamesDirection ! unat e)"

section \<open>enum \<^verbatim>\<open>AlarmType\<close>\<close>

definition AlarmType_TRACK_OCCUPIED_UNEXPECTEDLY :: i8 where "AlarmType_TRACK_OCCUPIED_UNEXPECTEDLY = 0"
definition AlarmType_SWITCH_POSITION_MISMATCH :: i8 where "AlarmType_SWITCH_POSITION_MISMATCH = 1"
definition AlarmType_SIGNAL_OVERRUN :: i8 where "AlarmType_SIGNAL_OVERRUN = 2"
definition AlarmType_DERAILER_CONFLICT :: i8 where "AlarmType_DERAILER_CONFLICT = 3"
definition AlarmType_COMMS_FAILURE :: i8 where "AlarmType_COMMS_FAILURE = 4"
definition AlarmType_ENGINE_FAULT :: i8 where "AlarmType_ENGINE_FAULT = 5"

definition EnumValuesAlarmType :: "i8 list" where
  "EnumValuesAlarmType = [0, 1, 2, 3, 4, 5]"

definition EnumNamesAlarmType :: "string list" where
  "EnumNamesAlarmType = [''TRACK_OCCUPIED_UNEXPECTEDLY'', ''SWITCH_POSITION_MISMATCH'', ''SIGNAL_OVERRUN'',
     ''DERAILER_CONFLICT'', ''COMMS_FAILURE'', ''ENGINE_FAULT'']"

definition EnumNameAlarmType :: "i8 \<Rightarrow> string" where
  "EnumNameAlarmType e = (if sint e < 0 \<or> 5 < sint e then [] else EnumNamesAlarmType ! unat e)"

section \<open>enum \<^verbatim>\<open>TrainDecomposeReason\<close>\<close>

definition EnumValuesTrainDecomposeReason :: "i8 list" where
  "EnumValuesTrainDecomposeReason = [0, 1, 2]"

definition EnumNamesTrainDecomposeReason :: "string list" where
  "EnumNamesTrainDecomposeReason = [''UNCOUPLED'', ''SCENARIO_RESET'', ''DERAILED'']"

definition EnumNameTrainDecomposeReason :: "i8 \<Rightarrow> string" where
  "EnumNameTrainDecomposeReason e = (if sint e < 0 \<or> 2 < sint e then [] else EnumNamesTrainDecomposeReason ! unat e)"

section \<open>table \<^verbatim>\<open>SwitchPositionChanged\<close>\<close>

definition SwitchPositionChanged_uid :: "'t FlatBuffers \<Rightarrow> 't \<Rightarrow> u64" where
  "SwitchPositionChanged_uid fb t = fb_GetField_u64 fb t 4 0"

definition SwitchPositionChanged_new_position :: "'t FlatBuffers \<Rightarrow> 't \<Rightarrow> i8" where
  "SwitchPositionChanged_new_position fb t = fb_GetField_i8 fb t 6 0"

definition SwitchPositionChanged_cause :: "'t FlatBuffers \<Rightarrow> 't \<Rightarrow> i8" where
  "SwitchPositionChanged_cause fb t = fb_GetField_i8 fb t 8 0"

definition SwitchPositionChanged_Verify :: "'t FlatBuffers \<Rightarrow> 't \<Rightarrow> bool" where
  "SwitchPositionChanged_Verify fb t \<longleftrightarrow>
     fb_VerifyTableStart fb t \<and>
     fb_VerifyField fb t 4 8 \<and>
     fb_VerifyField fb t 6 1 \<and>
     fb_VerifyField fb t 8 1 \<and>
     fb_EndTable fb t"

definition SwitchPositionChanged_add_uid :: "u64 \<Rightarrow> 't FbElem" where
  "SwitchPositionChanged_add_uid uid = AddElement_u64 4 uid 0"

definition SwitchPositionChanged_add_new_position :: "i8 \<Rightarrow> 't FbElem" where
  "SwitchPositionChanged_add_new_position new_position = AddElement_i8 6 new_position 0"

definition SwitchPositionChanged_add_cause :: "i8 \<Rightarrow> 't FbElem" where
  "SwitchPositionChanged_add_cause cause = AddElement_i8 8 cause 0"

definition CreateSwitchPositionChanged :: "'t FlatBuffers \<Rightarrow> u64 \<Rightarrow> i8 \<Rightarrow> i8 \<Rightarrow> 't" where
  "CreateSwitchPositionChanged fb uid new_position cause =
     fb_Table fb [SwitchPositionChanged_add_uid uid, SwitchPositionChanged_add_cause cause,
        SwitchPositionChanged_add_new_position new_position]"

lemmas SwitchPositionChanged_defs = SwitchPositionChanged_uid_def
 SwitchPositionChanged_new_position_def SwitchPositionChanged_cause_def
 SwitchPositionChanged_Verify_def SwitchPositionChanged_add_uid_def
 SwitchPositionChanged_add_new_position_def SwitchPositionChanged_add_cause_def
 CreateSwitchPositionChanged_def

section \<open>table \<^verbatim>\<open>SwitchOccupancyChanged\<close>\<close>

definition SwitchOccupancyChanged_uid :: "'t FlatBuffers \<Rightarrow> 't \<Rightarrow> u64" where
  "SwitchOccupancyChanged_uid fb t = fb_GetField_u64 fb t 4 0"

definition SwitchOccupancyChanged_occupied :: "'t FlatBuffers \<Rightarrow> 't \<Rightarrow> bool" where
  "SwitchOccupancyChanged_occupied fb t \<longleftrightarrow> fb_GetField_u8 fb t 6 0 \<noteq> 0"

definition SwitchOccupancyChanged_axle_count :: "'t FlatBuffers \<Rightarrow> 't \<Rightarrow> i32" where
  "SwitchOccupancyChanged_axle_count fb t = fb_GetField_i32 fb t 8 0"

definition SwitchOccupancyChanged_train_uid :: "'t FlatBuffers \<Rightarrow> 't \<Rightarrow> u64" where
  "SwitchOccupancyChanged_train_uid fb t = fb_GetField_u64 fb t 10 0"

definition SwitchOccupancyChanged_Verify :: "'t FlatBuffers \<Rightarrow> 't \<Rightarrow> bool" where
  "SwitchOccupancyChanged_Verify fb t \<longleftrightarrow>
     fb_VerifyTableStart fb t \<and>
     fb_VerifyField fb t 4 8 \<and>
     fb_VerifyField fb t 6 1 \<and>
     fb_VerifyField fb t 8 4 \<and>
     fb_VerifyField fb t 10 8 \<and>
     fb_EndTable fb t"

definition SwitchOccupancyChanged_add_uid :: "u64 \<Rightarrow> 't FbElem" where
  "SwitchOccupancyChanged_add_uid uid = AddElement_u64 4 uid 0"

definition SwitchOccupancyChanged_add_occupied :: "bool \<Rightarrow> 't FbElem" where
  "SwitchOccupancyChanged_add_occupied occupied = AddElement_u8 6 (if occupied then 1 else 0) 0"

definition SwitchOccupancyChanged_add_axle_count :: "i32 \<Rightarrow> 't FbElem" where
  "SwitchOccupancyChanged_add_axle_count axle_count = AddElement_i32 8 axle_count 0"

definition SwitchOccupancyChanged_add_train_uid :: "u64 \<Rightarrow> 't FbElem" where
  "SwitchOccupancyChanged_add_train_uid train_uid = AddElement_u64 10 train_uid 0"

definition CreateSwitchOccupancyChanged :: "'t FlatBuffers \<Rightarrow> u64 \<Rightarrow> bool \<Rightarrow> i32 \<Rightarrow> u64 \<Rightarrow> 't" where
  "CreateSwitchOccupancyChanged fb uid occupied axle_count train_uid =
     fb_Table fb [SwitchOccupancyChanged_add_train_uid train_uid, SwitchOccupancyChanged_add_uid uid,
        SwitchOccupancyChanged_add_axle_count axle_count,
        SwitchOccupancyChanged_add_occupied occupied]"

lemmas SwitchOccupancyChanged_defs = SwitchOccupancyChanged_uid_def
 SwitchOccupancyChanged_occupied_def SwitchOccupancyChanged_axle_count_def
 SwitchOccupancyChanged_train_uid_def SwitchOccupancyChanged_Verify_def
 SwitchOccupancyChanged_add_uid_def SwitchOccupancyChanged_add_occupied_def
 SwitchOccupancyChanged_add_axle_count_def SwitchOccupancyChanged_add_train_uid_def
 CreateSwitchOccupancyChanged_def

section \<open>table \<^verbatim>\<open>SignalAspectChanged\<close>\<close>

definition SignalAspectChanged_uid :: "'t FlatBuffers \<Rightarrow> 't \<Rightarrow> u64" where
  "SignalAspectChanged_uid fb t = fb_GetField_u64 fb t 4 0"

definition SignalAspectChanged_new_aspect :: "'t FlatBuffers \<Rightarrow> 't \<Rightarrow> i8" where
  "SignalAspectChanged_new_aspect fb t = fb_GetField_i8 fb t 6 0"

definition SignalAspectChanged_cause :: "'t FlatBuffers \<Rightarrow> 't \<Rightarrow> i8" where
  "SignalAspectChanged_cause fb t = fb_GetField_i8 fb t 8 0"

definition SignalAspectChanged_Verify :: "'t FlatBuffers \<Rightarrow> 't \<Rightarrow> bool" where
  "SignalAspectChanged_Verify fb t \<longleftrightarrow>
     fb_VerifyTableStart fb t \<and>
     fb_VerifyField fb t 4 8 \<and>
     fb_VerifyField fb t 6 1 \<and>
     fb_VerifyField fb t 8 1 \<and>
     fb_EndTable fb t"

definition SignalAspectChanged_add_uid :: "u64 \<Rightarrow> 't FbElem" where
  "SignalAspectChanged_add_uid uid = AddElement_u64 4 uid 0"

definition SignalAspectChanged_add_new_aspect :: "i8 \<Rightarrow> 't FbElem" where
  "SignalAspectChanged_add_new_aspect new_aspect = AddElement_i8 6 new_aspect 0"

definition SignalAspectChanged_add_cause :: "i8 \<Rightarrow> 't FbElem" where
  "SignalAspectChanged_add_cause cause = AddElement_i8 8 cause 0"

definition CreateSignalAspectChanged :: "'t FlatBuffers \<Rightarrow> u64 \<Rightarrow> i8 \<Rightarrow> i8 \<Rightarrow> 't" where
  "CreateSignalAspectChanged fb uid new_aspect cause =
     fb_Table fb [SignalAspectChanged_add_uid uid, SignalAspectChanged_add_cause cause,
        SignalAspectChanged_add_new_aspect new_aspect]"

lemmas SignalAspectChanged_defs = SignalAspectChanged_uid_def
 SignalAspectChanged_new_aspect_def SignalAspectChanged_cause_def
 SignalAspectChanged_Verify_def SignalAspectChanged_add_uid_def
 SignalAspectChanged_add_new_aspect_def SignalAspectChanged_add_cause_def
 CreateSignalAspectChanged_def

section \<open>table \<^verbatim>\<open>TrackSectionOccupancyChanged\<close>\<close>

definition TrackSectionOccupancyChanged_uid :: "'t FlatBuffers \<Rightarrow> 't \<Rightarrow> u64" where
  "TrackSectionOccupancyChanged_uid fb t = fb_GetField_u64 fb t 4 0"

definition TrackSectionOccupancyChanged_occupied :: "'t FlatBuffers \<Rightarrow> 't \<Rightarrow> bool" where
  "TrackSectionOccupancyChanged_occupied fb t \<longleftrightarrow> fb_GetField_u8 fb t 6 0 \<noteq> 0"

definition TrackSectionOccupancyChanged_axle_count :: "'t FlatBuffers \<Rightarrow> 't \<Rightarrow> i32" where
  "TrackSectionOccupancyChanged_axle_count fb t = fb_GetField_i32 fb t 8 0"

definition TrackSectionOccupancyChanged_train_uid :: "'t FlatBuffers \<Rightarrow> 't \<Rightarrow> u64" where
  "TrackSectionOccupancyChanged_train_uid fb t = fb_GetField_u64 fb t 10 0"

definition TrackSectionOccupancyChanged_Verify :: "'t FlatBuffers \<Rightarrow> 't \<Rightarrow> bool" where
  "TrackSectionOccupancyChanged_Verify fb t \<longleftrightarrow>
     fb_VerifyTableStart fb t \<and>
     fb_VerifyField fb t 4 8 \<and>
     fb_VerifyField fb t 6 1 \<and>
     fb_VerifyField fb t 8 4 \<and>
     fb_VerifyField fb t 10 8 \<and>
     fb_EndTable fb t"

definition TrackSectionOccupancyChanged_add_uid :: "u64 \<Rightarrow> 't FbElem" where
  "TrackSectionOccupancyChanged_add_uid uid = AddElement_u64 4 uid 0"

definition TrackSectionOccupancyChanged_add_occupied :: "bool \<Rightarrow> 't FbElem" where
  "TrackSectionOccupancyChanged_add_occupied occupied = AddElement_u8 6 (if occupied then 1 else 0) 0"

definition TrackSectionOccupancyChanged_add_axle_count :: "i32 \<Rightarrow> 't FbElem" where
  "TrackSectionOccupancyChanged_add_axle_count axle_count = AddElement_i32 8 axle_count 0"

definition TrackSectionOccupancyChanged_add_train_uid :: "u64 \<Rightarrow> 't FbElem" where
  "TrackSectionOccupancyChanged_add_train_uid train_uid = AddElement_u64 10 train_uid 0"

definition CreateTrackSectionOccupancyChanged :: "'t FlatBuffers \<Rightarrow> u64 \<Rightarrow> bool \<Rightarrow> i32 \<Rightarrow> u64 \<Rightarrow> 't" where
  "CreateTrackSectionOccupancyChanged fb uid occupied axle_count train_uid =
     fb_Table fb [TrackSectionOccupancyChanged_add_train_uid train_uid,
        TrackSectionOccupancyChanged_add_uid uid,
        TrackSectionOccupancyChanged_add_axle_count axle_count,
        TrackSectionOccupancyChanged_add_occupied occupied]"

lemmas TrackSectionOccupancyChanged_defs = TrackSectionOccupancyChanged_uid_def
 TrackSectionOccupancyChanged_occupied_def TrackSectionOccupancyChanged_axle_count_def
 TrackSectionOccupancyChanged_train_uid_def TrackSectionOccupancyChanged_Verify_def
 TrackSectionOccupancyChanged_add_uid_def TrackSectionOccupancyChanged_add_occupied_def
 TrackSectionOccupancyChanged_add_axle_count_def
 TrackSectionOccupancyChanged_add_train_uid_def CreateTrackSectionOccupancyChanged_def

section \<open>table \<^verbatim>\<open>DerailerPositionChanged\<close>\<close>

definition DerailerPositionChanged_uid :: "'t FlatBuffers \<Rightarrow> 't \<Rightarrow> u64" where
  "DerailerPositionChanged_uid fb t = fb_GetField_u64 fb t 4 0"

definition DerailerPositionChanged_new_position :: "'t FlatBuffers \<Rightarrow> 't \<Rightarrow> i8" where
  "DerailerPositionChanged_new_position fb t = fb_GetField_i8 fb t 6 0"

definition DerailerPositionChanged_cause :: "'t FlatBuffers \<Rightarrow> 't \<Rightarrow> i8" where
  "DerailerPositionChanged_cause fb t = fb_GetField_i8 fb t 8 0"

definition DerailerPositionChanged_Verify :: "'t FlatBuffers \<Rightarrow> 't \<Rightarrow> bool" where
  "DerailerPositionChanged_Verify fb t \<longleftrightarrow>
     fb_VerifyTableStart fb t \<and>
     fb_VerifyField fb t 4 8 \<and>
     fb_VerifyField fb t 6 1 \<and>
     fb_VerifyField fb t 8 1 \<and>
     fb_EndTable fb t"

definition DerailerPositionChanged_add_uid :: "u64 \<Rightarrow> 't FbElem" where
  "DerailerPositionChanged_add_uid uid = AddElement_u64 4 uid 0"

definition DerailerPositionChanged_add_new_position :: "i8 \<Rightarrow> 't FbElem" where
  "DerailerPositionChanged_add_new_position new_position = AddElement_i8 6 new_position 0"

definition DerailerPositionChanged_add_cause :: "i8 \<Rightarrow> 't FbElem" where
  "DerailerPositionChanged_add_cause cause = AddElement_i8 8 cause 0"

definition CreateDerailerPositionChanged :: "'t FlatBuffers \<Rightarrow> u64 \<Rightarrow> i8 \<Rightarrow> i8 \<Rightarrow> 't" where
  "CreateDerailerPositionChanged fb uid new_position cause =
     fb_Table fb [DerailerPositionChanged_add_uid uid, DerailerPositionChanged_add_cause cause,
        DerailerPositionChanged_add_new_position new_position]"

lemmas DerailerPositionChanged_defs = DerailerPositionChanged_uid_def
 DerailerPositionChanged_new_position_def DerailerPositionChanged_cause_def
 DerailerPositionChanged_Verify_def DerailerPositionChanged_add_uid_def
 DerailerPositionChanged_add_new_position_def DerailerPositionChanged_add_cause_def
 CreateDerailerPositionChanged_def

section \<open>table \<^verbatim>\<open>BlockSectionStateChanged\<close>\<close>

definition BlockSectionStateChanged_uid :: "'t FlatBuffers \<Rightarrow> 't \<Rightarrow> u64" where
  "BlockSectionStateChanged_uid fb t = fb_GetField_u64 fb t 4 0"

definition BlockSectionStateChanged_new_state :: "'t FlatBuffers \<Rightarrow> 't \<Rightarrow> i8" where
  "BlockSectionStateChanged_new_state fb t = fb_GetField_i8 fb t 6 0"

definition BlockSectionStateChanged_Verify :: "'t FlatBuffers \<Rightarrow> 't \<Rightarrow> bool" where
  "BlockSectionStateChanged_Verify fb t \<longleftrightarrow>
     fb_VerifyTableStart fb t \<and>
     fb_VerifyField fb t 4 8 \<and>
     fb_VerifyField fb t 6 1 \<and>
     fb_EndTable fb t"

definition BlockSectionStateChanged_add_uid :: "u64 \<Rightarrow> 't FbElem" where
  "BlockSectionStateChanged_add_uid uid = AddElement_u64 4 uid 0"

definition BlockSectionStateChanged_add_new_state :: "i8 \<Rightarrow> 't FbElem" where
  "BlockSectionStateChanged_add_new_state new_state = AddElement_i8 6 new_state 0"

definition CreateBlockSectionStateChanged :: "'t FlatBuffers \<Rightarrow> u64 \<Rightarrow> i8 \<Rightarrow> 't" where
  "CreateBlockSectionStateChanged fb uid new_state =
     fb_Table fb [BlockSectionStateChanged_add_uid uid, BlockSectionStateChanged_add_new_state new_state]"

lemmas BlockSectionStateChanged_defs = BlockSectionStateChanged_uid_def
 BlockSectionStateChanged_new_state_def BlockSectionStateChanged_Verify_def
 BlockSectionStateChanged_add_uid_def BlockSectionStateChanged_add_new_state_def
 CreateBlockSectionStateChanged_def

section \<open>table \<^verbatim>\<open>RouteSet\<close>\<close>

definition RouteSet_uid :: "'t FlatBuffers \<Rightarrow> 't \<Rightarrow> u64" where
  "RouteSet_uid fb t = fb_GetField_u64 fb t 4 0"

definition RouteSet_from_signal_uid :: "'t FlatBuffers \<Rightarrow> 't \<Rightarrow> u64" where
  "RouteSet_from_signal_uid fb t = fb_GetField_u64 fb t 6 0"

definition RouteSet_to_signal_uid :: "'t FlatBuffers \<Rightarrow> 't \<Rightarrow> u64" where
  "RouteSet_to_signal_uid fb t = fb_GetField_u64 fb t 8 0"

definition RouteSet_section_uids :: "'t FlatBuffers \<Rightarrow> 't \<Rightarrow> 't option" where
  "RouteSet_section_uids fb t = fb_GetPointer fb t 10"

definition RouteSet_Verify :: "'t FlatBuffers \<Rightarrow> 't \<Rightarrow> bool" where
  "RouteSet_Verify fb t \<longleftrightarrow>
     fb_VerifyTableStart fb t \<and>
     fb_VerifyField fb t 4 8 \<and>
     fb_VerifyField fb t 6 8 \<and>
     fb_VerifyField fb t 8 8 \<and>
     fb_VerifyOffset fb t 10 \<and>
     fb_VerifyVector fb (RouteSet_section_uids fb t) \<and>
     fb_EndTable fb t"

definition RouteSet_add_uid :: "u64 \<Rightarrow> 't FbElem" where
  "RouteSet_add_uid uid = AddElement_u64 4 uid 0"

definition RouteSet_add_from_signal_uid :: "u64 \<Rightarrow> 't FbElem" where
  "RouteSet_add_from_signal_uid from_signal_uid = AddElement_u64 6 from_signal_uid 0"

definition RouteSet_add_to_signal_uid :: "u64 \<Rightarrow> 't FbElem" where
  "RouteSet_add_to_signal_uid to_signal_uid = AddElement_u64 8 to_signal_uid 0"

definition RouteSet_add_section_uids :: "'t option \<Rightarrow> 't FbElem" where
  "RouteSet_add_section_uids section_uids = AddOffset 10 section_uids"

definition CreateRouteSet :: "'t FlatBuffers \<Rightarrow> u64 \<Rightarrow> u64 \<Rightarrow> u64 \<Rightarrow> 't option \<Rightarrow> 't" where
  "CreateRouteSet fb uid from_signal_uid to_signal_uid section_uids =
     fb_Table fb [RouteSet_add_to_signal_uid to_signal_uid, RouteSet_add_from_signal_uid from_signal_uid,
        RouteSet_add_uid uid, RouteSet_add_section_uids section_uids]"

lemmas RouteSet_defs = RouteSet_uid_def RouteSet_from_signal_uid_def
 RouteSet_to_signal_uid_def RouteSet_section_uids_def RouteSet_Verify_def
 RouteSet_add_uid_def RouteSet_add_from_signal_uid_def RouteSet_add_to_signal_uid_def
 RouteSet_add_section_uids_def CreateRouteSet_def

section \<open>table \<^verbatim>\<open>RouteReleased\<close>\<close>

definition RouteReleased_route_uid :: "'t FlatBuffers \<Rightarrow> 't \<Rightarrow> u64" where
  "RouteReleased_route_uid fb t = fb_GetField_u64 fb t 4 0"

definition RouteReleased_reason :: "'t FlatBuffers \<Rightarrow> 't \<Rightarrow> i8" where
  "RouteReleased_reason fb t = fb_GetField_i8 fb t 6 0"

definition RouteReleased_Verify :: "'t FlatBuffers \<Rightarrow> 't \<Rightarrow> bool" where
  "RouteReleased_Verify fb t \<longleftrightarrow>
     fb_VerifyTableStart fb t \<and>
     fb_VerifyField fb t 4 8 \<and>
     fb_VerifyField fb t 6 1 \<and>
     fb_EndTable fb t"

definition RouteReleased_add_route_uid :: "u64 \<Rightarrow> 't FbElem" where
  "RouteReleased_add_route_uid route_uid = AddElement_u64 4 route_uid 0"

definition RouteReleased_add_reason :: "i8 \<Rightarrow> 't FbElem" where
  "RouteReleased_add_reason reason = AddElement_i8 6 reason 0"

definition CreateRouteReleased :: "'t FlatBuffers \<Rightarrow> u64 \<Rightarrow> i8 \<Rightarrow> 't" where
  "CreateRouteReleased fb route_uid reason =
     fb_Table fb [RouteReleased_add_route_uid route_uid, RouteReleased_add_reason reason]"

lemmas RouteReleased_defs = RouteReleased_route_uid_def RouteReleased_reason_def
 RouteReleased_Verify_def RouteReleased_add_route_uid_def RouteReleased_add_reason_def
 CreateRouteReleased_def

section \<open>table \<^verbatim>\<open>TrainMovement\<close>\<close>

definition TrainMovement_train_uid :: "'t FlatBuffers \<Rightarrow> 't \<Rightarrow> u64" where
  "TrainMovement_train_uid fb t = fb_GetField_u64 fb t 4 0"

definition TrainMovement_section_uid :: "'t FlatBuffers \<Rightarrow> 't \<Rightarrow> u64" where
  "TrainMovement_section_uid fb t = fb_GetField_u64 fb t 6 0"

definition TrainMovement_direction :: "'t FlatBuffers \<Rightarrow> 't \<Rightarrow> i8" where
  "TrainMovement_direction fb t = fb_GetField_i8 fb t 8 0"

definition TrainMovement_speed_kmh :: "'t FlatBuffers \<Rightarrow> 't \<Rightarrow> float32" where
  "TrainMovement_speed_kmh fb t = fb_GetField_float fb t 10 0"

definition TrainMovement_Verify :: "'t FlatBuffers \<Rightarrow> 't \<Rightarrow> bool" where
  "TrainMovement_Verify fb t \<longleftrightarrow>
     fb_VerifyTableStart fb t \<and>
     fb_VerifyField fb t 4 8 \<and>
     fb_VerifyField fb t 6 8 \<and>
     fb_VerifyField fb t 8 1 \<and>
     fb_VerifyField fb t 10 4 \<and>
     fb_EndTable fb t"

definition TrainMovement_add_train_uid :: "u64 \<Rightarrow> 't FbElem" where
  "TrainMovement_add_train_uid train_uid = AddElement_u64 4 train_uid 0"

definition TrainMovement_add_section_uid :: "u64 \<Rightarrow> 't FbElem" where
  "TrainMovement_add_section_uid section_uid = AddElement_u64 6 section_uid 0"

definition TrainMovement_add_direction :: "i8 \<Rightarrow> 't FbElem" where
  "TrainMovement_add_direction direction = AddElement_i8 8 direction 0"

definition TrainMovement_add_speed_kmh :: "float32 \<Rightarrow> 't FbElem" where
  "TrainMovement_add_speed_kmh speed_kmh = AddElement_float 10 speed_kmh 0"

definition CreateTrainMovement :: "'t FlatBuffers \<Rightarrow> u64 \<Rightarrow> u64 \<Rightarrow> i8 \<Rightarrow> float32 \<Rightarrow> 't" where
  "CreateTrainMovement fb train_uid section_uid direction speed_kmh =
     fb_Table fb [TrainMovement_add_section_uid section_uid, TrainMovement_add_train_uid train_uid,
        TrainMovement_add_speed_kmh speed_kmh, TrainMovement_add_direction direction]"

lemmas TrainMovement_defs = TrainMovement_train_uid_def TrainMovement_section_uid_def
 TrainMovement_direction_def TrainMovement_speed_kmh_def TrainMovement_Verify_def
 TrainMovement_add_train_uid_def TrainMovement_add_section_uid_def
 TrainMovement_add_direction_def TrainMovement_add_speed_kmh_def CreateTrainMovement_def

section \<open>table \<^verbatim>\<open>AlarmRaised\<close>\<close>

definition AlarmRaised_alarm_uid :: "'t FlatBuffers \<Rightarrow> 't \<Rightarrow> u64" where
  "AlarmRaised_alarm_uid fb t = fb_GetField_u64 fb t 4 0"

definition AlarmRaised_alarm_type :: "'t FlatBuffers \<Rightarrow> 't \<Rightarrow> i8" where
  "AlarmRaised_alarm_type fb t = fb_GetField_i8 fb t 6 0"

definition AlarmRaised_object_uid :: "'t FlatBuffers \<Rightarrow> 't \<Rightarrow> u64" where
  "AlarmRaised_object_uid fb t = fb_GetField_u64 fb t 8 0"

definition AlarmRaised_message :: "'t FlatBuffers \<Rightarrow> 't \<Rightarrow> 't option" where
  "AlarmRaised_message fb t = fb_GetPointer fb t 10"

definition AlarmRaised_Verify :: "'t FlatBuffers \<Rightarrow> 't \<Rightarrow> bool" where
  "AlarmRaised_Verify fb t \<longleftrightarrow>
     fb_VerifyTableStart fb t \<and>
     fb_VerifyField fb t 4 8 \<and>
     fb_VerifyField fb t 6 1 \<and>
     fb_VerifyField fb t 8 8 \<and>
     fb_VerifyOffset fb t 10 \<and>
     fb_VerifyString fb (AlarmRaised_message fb t) \<and>
     fb_EndTable fb t"

definition AlarmRaised_add_alarm_uid :: "u64 \<Rightarrow> 't FbElem" where
  "AlarmRaised_add_alarm_uid alarm_uid = AddElement_u64 4 alarm_uid 0"

definition AlarmRaised_add_alarm_type :: "i8 \<Rightarrow> 't FbElem" where
  "AlarmRaised_add_alarm_type alarm_type = AddElement_i8 6 alarm_type 0"

definition AlarmRaised_add_object_uid :: "u64 \<Rightarrow> 't FbElem" where
  "AlarmRaised_add_object_uid object_uid = AddElement_u64 8 object_uid 0"

definition AlarmRaised_add_message :: "'t option \<Rightarrow> 't FbElem" where
  "AlarmRaised_add_message message = AddOffset 10 message"

definition CreateAlarmRaised :: "'t FlatBuffers \<Rightarrow> u64 \<Rightarrow> i8 \<Rightarrow> u64 \<Rightarrow> 't option \<Rightarrow> 't" where
  "CreateAlarmRaised fb alarm_uid alarm_type object_uid message =
     fb_Table fb [AlarmRaised_add_object_uid object_uid, AlarmRaised_add_alarm_uid alarm_uid,
        AlarmRaised_add_message message, AlarmRaised_add_alarm_type alarm_type]"

lemmas AlarmRaised_defs = AlarmRaised_alarm_uid_def AlarmRaised_alarm_type_def
 AlarmRaised_object_uid_def AlarmRaised_message_def AlarmRaised_Verify_def
 AlarmRaised_add_alarm_uid_def AlarmRaised_add_alarm_type_def
 AlarmRaised_add_object_uid_def AlarmRaised_add_message_def CreateAlarmRaised_def

section \<open>table \<^verbatim>\<open>AlarmCleared\<close>\<close>

definition AlarmCleared_alarm_uid :: "'t FlatBuffers \<Rightarrow> 't \<Rightarrow> u64" where
  "AlarmCleared_alarm_uid fb t = fb_GetField_u64 fb t 4 0"

definition AlarmCleared_Verify :: "'t FlatBuffers \<Rightarrow> 't \<Rightarrow> bool" where
  "AlarmCleared_Verify fb t \<longleftrightarrow>
     fb_VerifyTableStart fb t \<and>
     fb_VerifyField fb t 4 8 \<and>
     fb_EndTable fb t"

definition AlarmCleared_add_alarm_uid :: "u64 \<Rightarrow> 't FbElem" where
  "AlarmCleared_add_alarm_uid alarm_uid = AddElement_u64 4 alarm_uid 0"

definition CreateAlarmCleared :: "'t FlatBuffers \<Rightarrow> u64 \<Rightarrow> 't" where
  "CreateAlarmCleared fb alarm_uid =
     fb_Table fb [AlarmCleared_add_alarm_uid alarm_uid]"

lemmas AlarmCleared_defs = AlarmCleared_alarm_uid_def AlarmCleared_Verify_def
 AlarmCleared_add_alarm_uid_def CreateAlarmCleared_def

section \<open>table \<^verbatim>\<open>DispatchAreaOwnershipChanged\<close>\<close>

definition DispatchAreaOwnershipChanged_dispatch_area_uid :: "'t FlatBuffers \<Rightarrow> 't \<Rightarrow> u64" where
  "DispatchAreaOwnershipChanged_dispatch_area_uid fb t = fb_GetField_u64 fb t 4 0"

definition DispatchAreaOwnershipChanged_station_uid :: "'t FlatBuffers \<Rightarrow> 't \<Rightarrow> u64" where
  "DispatchAreaOwnershipChanged_station_uid fb t = fb_GetField_u64 fb t 6 0"

definition DispatchAreaOwnershipChanged_new_owner_client_id :: "'t FlatBuffers \<Rightarrow> 't \<Rightarrow> 't option" where
  "DispatchAreaOwnershipChanged_new_owner_client_id fb t = fb_GetPointer fb t 8"

definition DispatchAreaOwnershipChanged_Verify :: "'t FlatBuffers \<Rightarrow> 't \<Rightarrow> bool" where
  "DispatchAreaOwnershipChanged_Verify fb t \<longleftrightarrow>
     fb_VerifyTableStart fb t \<and>
     fb_VerifyField fb t 4 8 \<and>
     fb_VerifyField fb t 6 8 \<and>
     fb_VerifyOffset fb t 8 \<and>
     fb_VerifyString fb (DispatchAreaOwnershipChanged_new_owner_client_id fb t) \<and>
     fb_EndTable fb t"

definition DispatchAreaOwnershipChanged_add_dispatch_area_uid :: "u64 \<Rightarrow> 't FbElem" where
  "DispatchAreaOwnershipChanged_add_dispatch_area_uid dispatch_area_uid = AddElement_u64 4 dispatch_area_uid 0"

definition DispatchAreaOwnershipChanged_add_station_uid :: "u64 \<Rightarrow> 't FbElem" where
  "DispatchAreaOwnershipChanged_add_station_uid station_uid = AddElement_u64 6 station_uid 0"

definition DispatchAreaOwnershipChanged_add_new_owner_client_id :: "'t option \<Rightarrow> 't FbElem" where
  "DispatchAreaOwnershipChanged_add_new_owner_client_id new_owner_client_id = AddOffset 8 new_owner_client_id"

definition CreateDispatchAreaOwnershipChanged :: "'t FlatBuffers \<Rightarrow> u64 \<Rightarrow> u64 \<Rightarrow> 't option \<Rightarrow> 't" where
  "CreateDispatchAreaOwnershipChanged fb dispatch_area_uid station_uid new_owner_client_id =
     fb_Table fb [DispatchAreaOwnershipChanged_add_station_uid station_uid,
        DispatchAreaOwnershipChanged_add_dispatch_area_uid dispatch_area_uid,
        DispatchAreaOwnershipChanged_add_new_owner_client_id new_owner_client_id]"

lemmas DispatchAreaOwnershipChanged_defs =
 DispatchAreaOwnershipChanged_dispatch_area_uid_def
 DispatchAreaOwnershipChanged_station_uid_def
 DispatchAreaOwnershipChanged_new_owner_client_id_def
 DispatchAreaOwnershipChanged_Verify_def
 DispatchAreaOwnershipChanged_add_dispatch_area_uid_def
 DispatchAreaOwnershipChanged_add_station_uid_def
 DispatchAreaOwnershipChanged_add_new_owner_client_id_def
 CreateDispatchAreaOwnershipChanged_def

section \<open>table \<^verbatim>\<open>SessionStateChanged\<close>\<close>

definition SessionStateChanged_new_state :: "'t FlatBuffers \<Rightarrow> 't \<Rightarrow> i8" where
  "SessionStateChanged_new_state fb t = fb_GetField_i8 fb t 4 0"

definition SessionStateChanged_Verify :: "'t FlatBuffers \<Rightarrow> 't \<Rightarrow> bool" where
  "SessionStateChanged_Verify fb t \<longleftrightarrow>
     fb_VerifyTableStart fb t \<and>
     fb_VerifyField fb t 4 1 \<and>
     fb_EndTable fb t"

definition SessionStateChanged_add_new_state :: "i8 \<Rightarrow> 't FbElem" where
  "SessionStateChanged_add_new_state new_state = AddElement_i8 4 new_state 0"

definition CreateSessionStateChanged :: "'t FlatBuffers \<Rightarrow> i8 \<Rightarrow> 't" where
  "CreateSessionStateChanged fb new_state =
     fb_Table fb [SessionStateChanged_add_new_state new_state]"

lemmas SessionStateChanged_defs = SessionStateChanged_new_state_def
 SessionStateChanged_Verify_def SessionStateChanged_add_new_state_def
 CreateSessionStateChanged_def

section \<open>table \<^verbatim>\<open>TrainComposed\<close>\<close>

definition TrainComposed_train_uid :: "'t FlatBuffers \<Rightarrow> 't \<Rightarrow> u64" where
  "TrainComposed_train_uid fb t = fb_GetField_u64 fb t 4 0"

definition TrainComposed_vehicle_uids :: "'t FlatBuffers \<Rightarrow> 't \<Rightarrow> 't option" where
  "TrainComposed_vehicle_uids fb t = fb_GetPointer fb t 6"

definition TrainComposed_total_length_m :: "'t FlatBuffers \<Rightarrow> 't \<Rightarrow> float32" where
  "TrainComposed_total_length_m fb t = fb_GetField_float fb t 8 0"

definition TrainComposed_total_axles :: "'t FlatBuffers \<Rightarrow> 't \<Rightarrow> i32" where
  "TrainComposed_total_axles fb t = fb_GetField_i32 fb t 10 0"

definition TrainComposed_Verify :: "'t FlatBuffers \<Rightarrow> 't \<Rightarrow> bool" where
  "TrainComposed_Verify fb t \<longleftrightarrow>
     fb_VerifyTableStart fb t \<and>
     fb_VerifyField fb t 4 8 \<and>
     fb_VerifyOffset fb t 6 \<and>
     fb_VerifyVector fb (TrainComposed_vehicle_uids fb t) \<and>
     fb_VerifyField fb t 8 4 \<and>
     fb_VerifyField fb t 10 4 \<and>
     fb_EndTable fb t"

definition TrainComposed_add_train_uid :: "u64 \<Rightarrow> 't FbElem" where
  "TrainComposed_add_train_uid train_uid = AddElement_u64 4 train_uid 0"

definition TrainComposed_add_vehicle_uids :: "'t option \<Rightarrow> 't FbElem" where
  "TrainComposed_add_vehicle_uids vehicle_uids = AddOffset 6 vehicle_uids"

definition TrainComposed_add_total_length_m :: "float32 \<Rightarrow> 't FbElem" where
  "TrainComposed_add_total_length_m total_length_m = AddElement_float 8 total_length_m 0"

definition TrainComposed_add_total_axles :: "i32 \<Rightarrow> 't FbElem" where
  "TrainComposed_add_total_axles total_axles = AddElement_i32 10 total_axles 0"

definition CreateTrainComposed :: "'t FlatBuffers \<Rightarrow> u64 \<Rightarrow> 't option \<Rightarrow> float32 \<Rightarrow> i32 \<Rightarrow> 't" where
  "CreateTrainComposed fb train_uid vehicle_uids total_length_m total_axles =
     fb_Table fb [TrainComposed_add_train_uid train_uid, TrainComposed_add_total_axles total_axles,
        TrainComposed_add_total_length_m total_length_m,
        TrainComposed_add_vehicle_uids vehicle_uids]"

lemmas TrainComposed_defs = TrainComposed_train_uid_def TrainComposed_vehicle_uids_def
 TrainComposed_total_length_m_def TrainComposed_total_axles_def TrainComposed_Verify_def
 TrainComposed_add_train_uid_def TrainComposed_add_vehicle_uids_def
 TrainComposed_add_total_length_m_def TrainComposed_add_total_axles_def
 CreateTrainComposed_def

section \<open>table \<^verbatim>\<open>TrainDecomposed\<close>\<close>

definition TrainDecomposed_train_uid :: "'t FlatBuffers \<Rightarrow> 't \<Rightarrow> u64" where
  "TrainDecomposed_train_uid fb t = fb_GetField_u64 fb t 4 0"

definition TrainDecomposed_reason :: "'t FlatBuffers \<Rightarrow> 't \<Rightarrow> i8" where
  "TrainDecomposed_reason fb t = fb_GetField_i8 fb t 6 0"

definition TrainDecomposed_Verify :: "'t FlatBuffers \<Rightarrow> 't \<Rightarrow> bool" where
  "TrainDecomposed_Verify fb t \<longleftrightarrow>
     fb_VerifyTableStart fb t \<and>
     fb_VerifyField fb t 4 8 \<and>
     fb_VerifyField fb t 6 1 \<and>
     fb_EndTable fb t"

definition TrainDecomposed_add_train_uid :: "u64 \<Rightarrow> 't FbElem" where
  "TrainDecomposed_add_train_uid train_uid = AddElement_u64 4 train_uid 0"

definition TrainDecomposed_add_reason :: "i8 \<Rightarrow> 't FbElem" where
  "TrainDecomposed_add_reason reason = AddElement_i8 6 reason 0"

definition CreateTrainDecomposed :: "'t FlatBuffers \<Rightarrow> u64 \<Rightarrow> i8 \<Rightarrow> 't" where
  "CreateTrainDecomposed fb train_uid reason =
     fb_Table fb [TrainDecomposed_add_train_uid train_uid, TrainDecomposed_add_reason reason]"

lemmas TrainDecomposed_defs = TrainDecomposed_train_uid_def TrainDecomposed_reason_def
 TrainDecomposed_Verify_def TrainDecomposed_add_train_uid_def
 TrainDecomposed_add_reason_def CreateTrainDecomposed_def

section \<open>table \<^verbatim>\<open>BlockDirectionStateChanged\<close>\<close>

definition BlockDirectionStateChanged_uid :: "'t FlatBuffers \<Rightarrow> 't \<Rightarrow> u64" where
  "BlockDirectionStateChanged_uid fb t = fb_GetField_u64 fb t 4 0"

definition BlockDirectionStateChanged_new_direction :: "'t FlatBuffers \<Rightarrow> 't \<Rightarrow> i8" where
  "BlockDirectionStateChanged_new_direction fb t = fb_GetField_i8 fb t 6 0"

definition BlockDirectionStateChanged_cause :: "'t FlatBuffers \<Rightarrow> 't \<Rightarrow> i8" where
  "BlockDirectionStateChanged_cause fb t = fb_GetField_i8 fb t 8 0"

definition BlockDirectionStateChanged_Verify :: "'t FlatBuffers \<Rightarrow> 't \<Rightarrow> bool" where
  "BlockDirectionStateChanged_Verify fb t \<longleftrightarrow>
     fb_VerifyTableStart fb t \<and>
     fb_VerifyField fb t 4 8 \<and>
     fb_VerifyField fb t 6 1 \<and>
     fb_VerifyField fb t 8 1 \<and>
     fb_EndTable fb t"

definition BlockDirectionStateChanged_add_uid :: "u64 \<Rightarrow> 't FbElem" where
  "BlockDirectionStateChanged_add_uid uid = AddElement_u64 4 uid 0"

definition BlockDirectionStateChanged_add_new_direction :: "i8 \<Rightarrow> 't FbElem" where
  "BlockDirectionStateChanged_add_new_direction new_direction = AddElement_i8 6 new_direction 0"

definition BlockDirectionStateChanged_add_cause :: "i8 \<Rightarrow> 't FbElem" where
  "BlockDirectionStateChanged_add_cause cause = AddElement_i8 8 cause 0"

definition CreateBlockDirectionStateChanged :: "'t FlatBuffers \<Rightarrow> u64 \<Rightarrow> i8 \<Rightarrow> i8 \<Rightarrow> 't" where
  "CreateBlockDirectionStateChanged fb uid new_direction cause =
     fb_Table fb [BlockDirectionStateChanged_add_uid uid, BlockDirectionStateChanged_add_cause cause,
        BlockDirectionStateChanged_add_new_direction new_direction]"

lemmas BlockDirectionStateChanged_defs = BlockDirectionStateChanged_uid_def
 BlockDirectionStateChanged_new_direction_def BlockDirectionStateChanged_cause_def
 BlockDirectionStateChanged_Verify_def BlockDirectionStateChanged_add_uid_def
 BlockDirectionStateChanged_add_new_direction_def BlockDirectionStateChanged_add_cause_def
 CreateBlockDirectionStateChanged_def

section \<open>table \<^verbatim>\<open>OperatorCommandStateChanged\<close>\<close>

definition OperatorCommandStateChanged_uid :: "'t FlatBuffers \<Rightarrow> 't \<Rightarrow> u64" where
  "OperatorCommandStateChanged_uid fb t = fb_GetField_u64 fb t 4 0"

definition OperatorCommandStateChanged_target_kind :: "'t FlatBuffers \<Rightarrow> 't \<Rightarrow> i8" where
  "OperatorCommandStateChanged_target_kind fb t = fb_GetField_i8 fb t 6 0"

definition OperatorCommandStateChanged_command_code :: "'t FlatBuffers \<Rightarrow> 't \<Rightarrow> i8" where
  "OperatorCommandStateChanged_command_code fb t = fb_GetField_i8 fb t 8 0"

definition OperatorCommandStateChanged_active :: "'t FlatBuffers \<Rightarrow> 't \<Rightarrow> bool" where
  "OperatorCommandStateChanged_active fb t \<longleftrightarrow> fb_GetField_u8 fb t 10 0 \<noteq> 0"

definition OperatorCommandStateChanged_Verify :: "'t FlatBuffers \<Rightarrow> 't \<Rightarrow> bool" where
  "OperatorCommandStateChanged_Verify fb t \<longleftrightarrow>
     fb_VerifyTableStart fb t \<and>
     fb_VerifyField fb t 4 8 \<and>
     fb_VerifyField fb t 6 1 \<and>
     fb_VerifyField fb t 8 1 \<and>
     fb_VerifyField fb t 10 1 \<and>
     fb_EndTable fb t"

definition OperatorCommandStateChanged_add_uid :: "u64 \<Rightarrow> 't FbElem" where
  "OperatorCommandStateChanged_add_uid uid = AddElement_u64 4 uid 0"

definition OperatorCommandStateChanged_add_target_kind :: "i8 \<Rightarrow> 't FbElem" where
  "OperatorCommandStateChanged_add_target_kind target_kind = AddElement_i8 6 target_kind 0"

definition OperatorCommandStateChanged_add_command_code :: "i8 \<Rightarrow> 't FbElem" where
  "OperatorCommandStateChanged_add_command_code command_code = AddElement_i8 8 command_code 0"

definition OperatorCommandStateChanged_add_active :: "bool \<Rightarrow> 't FbElem" where
  "OperatorCommandStateChanged_add_active active = AddElement_u8 10 (if active then 1 else 0) 0"

definition CreateOperatorCommandStateChanged :: "'t FlatBuffers \<Rightarrow> u64 \<Rightarrow> i8 \<Rightarrow> i8 \<Rightarrow> bool \<Rightarrow> 't" where
  "CreateOperatorCommandStateChanged fb uid target_kind command_code active =
     fb_Table fb [OperatorCommandStateChanged_add_uid uid, OperatorCommandStateChanged_add_active active,
        OperatorCommandStateChanged_add_command_code command_code,
        OperatorCommandStateChanged_add_target_kind target_kind]"

lemmas OperatorCommandStateChanged_defs = OperatorCommandStateChanged_uid_def
 OperatorCommandStateChanged_target_kind_def OperatorCommandStateChanged_command_code_def
 OperatorCommandStateChanged_active_def OperatorCommandStateChanged_Verify_def
 OperatorCommandStateChanged_add_uid_def OperatorCommandStateChanged_add_target_kind_def
 OperatorCommandStateChanged_add_command_code_def
 OperatorCommandStateChanged_add_active_def CreateOperatorCommandStateChanged_def

section \<open>table \<^verbatim>\<open>Ml8CommandStateChanged\<close>\<close>

definition Ml8CommandStateChanged_uid :: "'t FlatBuffers \<Rightarrow> 't \<Rightarrow> u64" where
  "Ml8CommandStateChanged_uid fb t = fb_GetField_u64 fb t 4 0"

definition Ml8CommandStateChanged_target_kind :: "'t FlatBuffers \<Rightarrow> 't \<Rightarrow> i8" where
  "Ml8CommandStateChanged_target_kind fb t = fb_GetField_i8 fb t 6 0"

definition Ml8CommandStateChanged_command_code :: "'t FlatBuffers \<Rightarrow> 't \<Rightarrow> i8" where
  "Ml8CommandStateChanged_command_code fb t = fb_GetField_i8 fb t 8 0"

definition Ml8CommandStateChanged_active :: "'t FlatBuffers \<Rightarrow> 't \<Rightarrow> bool" where
  "Ml8CommandStateChanged_active fb t \<longleftrightarrow> fb_GetField_u8 fb t 10 0 \<noteq> 0"

definition Ml8CommandStateChanged_Verify :: "'t FlatBuffers \<Rightarrow> 't \<Rightarrow> bool" where
  "Ml8CommandStateChanged_Verify fb t \<longleftrightarrow>
     fb_VerifyTableStart fb t \<and>
     fb_VerifyField fb t 4 8 \<and>
     fb_VerifyField fb t 6 1 \<and>
     fb_VerifyField fb t 8 1 \<and>
     fb_VerifyField fb t 10 1 \<and>
     fb_EndTable fb t"

definition Ml8CommandStateChanged_add_uid :: "u64 \<Rightarrow> 't FbElem" where
  "Ml8CommandStateChanged_add_uid uid = AddElement_u64 4 uid 0"

definition Ml8CommandStateChanged_add_target_kind :: "i8 \<Rightarrow> 't FbElem" where
  "Ml8CommandStateChanged_add_target_kind target_kind = AddElement_i8 6 target_kind 0"

definition Ml8CommandStateChanged_add_command_code :: "i8 \<Rightarrow> 't FbElem" where
  "Ml8CommandStateChanged_add_command_code command_code = AddElement_i8 8 command_code 0"

definition Ml8CommandStateChanged_add_active :: "bool \<Rightarrow> 't FbElem" where
  "Ml8CommandStateChanged_add_active active = AddElement_u8 10 (if active then 1 else 0) 0"

definition CreateMl8CommandStateChanged :: "'t FlatBuffers \<Rightarrow> u64 \<Rightarrow> i8 \<Rightarrow> i8 \<Rightarrow> bool \<Rightarrow> 't" where
  "CreateMl8CommandStateChanged fb uid target_kind command_code active =
     fb_Table fb [Ml8CommandStateChanged_add_uid uid, Ml8CommandStateChanged_add_active active,
        Ml8CommandStateChanged_add_command_code command_code,
        Ml8CommandStateChanged_add_target_kind target_kind]"

lemmas Ml8CommandStateChanged_defs = Ml8CommandStateChanged_uid_def
 Ml8CommandStateChanged_target_kind_def Ml8CommandStateChanged_command_code_def
 Ml8CommandStateChanged_active_def Ml8CommandStateChanged_Verify_def
 Ml8CommandStateChanged_add_uid_def Ml8CommandStateChanged_add_target_kind_def
 Ml8CommandStateChanged_add_command_code_def Ml8CommandStateChanged_add_active_def
 CreateMl8CommandStateChanged_def

section \<open>table \<^verbatim>\<open>DispatchTelegramStateChanged\<close>\<close>

definition DispatchTelegramStateChanged_exchange_uid :: "'t FlatBuffers \<Rightarrow> 't \<Rightarrow> u64" where
  "DispatchTelegramStateChanged_exchange_uid fb t = fb_GetField_u64 fb t 4 0"

definition DispatchTelegramStateChanged_src_area_uid :: "'t FlatBuffers \<Rightarrow> 't \<Rightarrow> u64" where
  "DispatchTelegramStateChanged_src_area_uid fb t = fb_GetField_u64 fb t 6 0"

definition DispatchTelegramStateChanged_dst_area_uid :: "'t FlatBuffers \<Rightarrow> 't \<Rightarrow> u64" where
  "DispatchTelegramStateChanged_dst_area_uid fb t = fb_GetField_u64 fb t 8 0"

definition DispatchTelegramStateChanged_form_type :: "'t FlatBuffers \<Rightarrow> 't \<Rightarrow> i8" where
  "DispatchTelegramStateChanged_form_type fb t = fb_GetField_i8 fb t 10 0"

definition DispatchTelegramStateChanged_direction :: "'t FlatBuffers \<Rightarrow> 't \<Rightarrow> i8" where
  "DispatchTelegramStateChanged_direction fb t = fb_GetField_i8 fb t 12 0"

definition DispatchTelegramStateChanged_train_number :: "'t FlatBuffers \<Rightarrow> 't \<Rightarrow> 't option" where
  "DispatchTelegramStateChanged_train_number fb t = fb_GetPointer fb t 14"

definition DispatchTelegramStateChanged_new_status :: "'t FlatBuffers \<Rightarrow> 't \<Rightarrow> i8" where
  "DispatchTelegramStateChanged_new_status fb t = fb_GetField_i8 fb t 16 0"

definition DispatchTelegramStateChanged_timestamp_us :: "'t FlatBuffers \<Rightarrow> 't \<Rightarrow> u64" where
  "DispatchTelegramStateChanged_timestamp_us fb t = fb_GetField_u64 fb t 18 0"

definition DispatchTelegramStateChanged_Verify :: "'t FlatBuffers \<Rightarrow> 't \<Rightarrow> bool" where
  "DispatchTelegramStateChanged_Verify fb t \<longleftrightarrow>
     fb_VerifyTableStart fb t \<and>
     fb_VerifyField fb t 4 8 \<and>
     fb_VerifyField fb t 6 8 \<and>
     fb_VerifyField fb t 8 8 \<and>
     fb_VerifyField fb t 10 1 \<and>
     fb_VerifyField fb t 12 1 \<and>
     fb_VerifyOffset fb t 14 \<and>
     fb_VerifyString fb (DispatchTelegramStateChanged_train_number fb t) \<and>
     fb_VerifyField fb t 16 1 \<and>
     fb_VerifyField fb t 18 8 \<and>
     fb_EndTable fb t"

definition DispatchTelegramStateChanged_add_exchange_uid :: "u64 \<Rightarrow> 't FbElem" where
  "DispatchTelegramStateChanged_add_exchange_uid exchange_uid = AddElement_u64 4 exchange_uid 0"

definition DispatchTelegramStateChanged_add_src_area_uid :: "u64 \<Rightarrow> 't FbElem" where
  "DispatchTelegramStateChanged_add_src_area_uid src_area_uid = AddElement_u64 6 src_area_uid 0"

definition DispatchTelegramStateChanged_add_dst_area_uid :: "u64 \<Rightarrow> 't FbElem" where
  "DispatchTelegramStateChanged_add_dst_area_uid dst_area_uid = AddElement_u64 8 dst_area_uid 0"

definition DispatchTelegramStateChanged_add_form_type :: "i8 \<Rightarrow> 't FbElem" where
  "DispatchTelegramStateChanged_add_form_type form_type = AddElement_i8 10 form_type 0"

definition DispatchTelegramStateChanged_add_direction :: "i8 \<Rightarrow> 't FbElem" where
  "DispatchTelegramStateChanged_add_direction direction = AddElement_i8 12 direction 0"

definition DispatchTelegramStateChanged_add_train_number :: "'t option \<Rightarrow> 't FbElem" where
  "DispatchTelegramStateChanged_add_train_number train_number = AddOffset 14 train_number"

definition DispatchTelegramStateChanged_add_new_status :: "i8 \<Rightarrow> 't FbElem" where
  "DispatchTelegramStateChanged_add_new_status new_status = AddElement_i8 16 new_status 0"

definition DispatchTelegramStateChanged_add_timestamp_us :: "u64 \<Rightarrow> 't FbElem" where
  "DispatchTelegramStateChanged_add_timestamp_us timestamp_us = AddElement_u64 18 timestamp_us 0"

definition CreateDispatchTelegramStateChanged :: "'t FlatBuffers \<Rightarrow> u64 \<Rightarrow> u64 \<Rightarrow> u64 \<Rightarrow> i8 \<Rightarrow> i8 \<Rightarrow> 't option \<Rightarrow> i8 \<Rightarrow> u64 \<Rightarrow> 't" where
  "CreateDispatchTelegramStateChanged fb exchange_uid src_area_uid dst_area_uid form_type direction train_number new_status timestamp_us =
     fb_Table fb [DispatchTelegramStateChanged_add_timestamp_us timestamp_us,
        DispatchTelegramStateChanged_add_dst_area_uid dst_area_uid,
        DispatchTelegramStateChanged_add_src_area_uid src_area_uid,
        DispatchTelegramStateChanged_add_exchange_uid exchange_uid,
        DispatchTelegramStateChanged_add_train_number train_number,
        DispatchTelegramStateChanged_add_new_status new_status,
        DispatchTelegramStateChanged_add_direction direction,
        DispatchTelegramStateChanged_add_form_type form_type]"

lemmas DispatchTelegramStateChanged_defs = DispatchTelegramStateChanged_exchange_uid_def
 DispatchTelegramStateChanged_src_area_uid_def
 DispatchTelegramStateChanged_dst_area_uid_def DispatchTelegramStateChanged_form_type_def
 DispatchTelegramStateChanged_direction_def DispatchTelegramStateChanged_train_number_def
 DispatchTelegramStateChanged_new_status_def DispatchTelegramStateChanged_timestamp_us_def
 DispatchTelegramStateChanged_Verify_def DispatchTelegramStateChanged_add_exchange_uid_def
 DispatchTelegramStateChanged_add_src_area_uid_def
 DispatchTelegramStateChanged_add_dst_area_uid_def
 DispatchTelegramStateChanged_add_form_type_def
 DispatchTelegramStateChanged_add_direction_def
 DispatchTelegramStateChanged_add_train_number_def
 DispatchTelegramStateChanged_add_new_status_def
 DispatchTelegramStateChanged_add_timestamp_us_def CreateDispatchTelegramStateChanged_def

end
