(* ===== verification/Dispatch_Bus.thy ===== *)
theory Dispatch_Bus
  imports Session_Stream Db_Writer Proto_Events Device_Rules Sample_Station
begin

text \<open>
  The engine's changes on their way to the clients, \<^verbatim>\<open>server/src/dispatch_bus.cpp\<close>: each
  change that has an event type becomes a DOMAIN_EVENT frame, is broadcast, and is stored as a row
  that is read back from the bytes of the frame.  The references the object holds (the gateway and
  the database writer) are fields of its state; the clock of one call is an argument.
\<close>

section \<open>The prefix of an event\<close>

definition event_type_kSwitchPositionChanged :: u8 where "event_type_kSwitchPositionChanged = 0x01"
definition event_type_kSignalAspectChanged :: u8 where "event_type_kSignalAspectChanged = 0x03"
definition event_type_kTrackSectionOccupancyChanged :: u8 where "event_type_kTrackSectionOccupancyChanged = 0x04"
definition event_type_kDerailerPositionChanged :: u8 where "event_type_kDerailerPositionChanged = 0x05"
definition event_type_kBlockSectionStateChanged :: u8 where "event_type_kBlockSectionStateChanged = 0x06"
definition event_type_kRouteSet :: u8 where "event_type_kRouteSet = 0x07"
definition event_type_kRouteReleased :: u8 where "event_type_kRouteReleased = 0x08"
definition event_type_kAlarmRaised :: u8 where "event_type_kAlarmRaised = 0x0A"
definition event_type_kAlarmCleared :: u8 where "event_type_kAlarmCleared = 0x0B"
definition event_type_kBlockDirectionStateChanged :: u8 where "event_type_kBlockDirectionStateChanged = 0x10"
definition event_type_kOperatorCommandStateChanged :: u8 where "event_type_kOperatorCommandStateChanged = 0x11"
definition event_type_kMl8CommandStateChanged :: u8 where "event_type_kMl8CommandStateChanged = 0x12"

lemmas event_type_defs = event_type_kSwitchPositionChanged_def event_type_kSignalAspectChanged_def
  event_type_kTrackSectionOccupancyChanged_def event_type_kDerailerPositionChanged_def
  event_type_kBlockSectionStateChanged_def event_type_kRouteSet_def event_type_kRouteReleased_def
  event_type_kAlarmRaised_def event_type_kAlarmCleared_def event_type_kBlockDirectionStateChanged_def
  event_type_kOperatorCommandStateChanged_def event_type_kMl8CommandStateChanged_def

definition write_u32_le :: "u32 \<Rightarrow> u8 list" where
  "write_u32_le v =
     [ucast (v AND 0xFF), ucast (drop_bit 8 v AND 0xFF), ucast (drop_bit 16 v AND 0xFF),
      ucast (drop_bit 24 v AND 0xFF)]"

definition write_u64_le :: "u64 \<Rightarrow> u8 list" where
  "write_u64_le v = map (\<lambda>i. ucast (drop_bit (8 * i) v AND 0xFF)) [0..<8]"

definition build_event_prefix :: "u8 \<Rightarrow> u32 \<Rightarrow> u64 \<Rightarrow> u8 list" where
  "build_event_prefix event_type event_id timestamp_us =
     event_type # write_u32_le event_id @ write_u64_le timestamp_us"

section \<open>Conversions\<close>

definition to_proto_derailer :: "DerailerState \<Rightarrow> i8" where
  "to_proto_derailer s = (if s = LOCKED then DerailerPosition_LOCKED else DerailerPosition_UNLOCKED)"

definition to_proto_block_section :: "BlockSectionState \<Rightarrow> i8" where
  "to_proto_block_section s = (if s = BS_CLOSED then BlockSectionState_CLOSED else BlockSectionState_OPEN)"

definition to_proto_direction :: "BlockDirectionState \<Rightarrow> i8" where
  "to_proto_direction s = enum_code BlockDirectionState_values s"

definition to_proto_cause :: "ChangeCause \<Rightarrow> i8" where
  "to_proto_cause c = enum_code ChangeCause_values c"

definition to_proto_release_reason :: "string \<Rightarrow> i8" where
  "to_proto_release_reason reason =
     (if reason = ''OPERATOR_CANCEL'' then RouteReleaseReason_OPERATOR_CANCEL
      else if reason = ''TIMEOUT'' then RouteReleaseReason_TIMEOUT
      else if reason = ''CONFLICT'' then RouteReleaseReason_CONFLICT
      else RouteReleaseReason_TRAIN_CLEARED)"

definition event_alarm_type :: "string \<Rightarrow> i8" where
  "event_alarm_type kind =
     (if kind = ''SWITCH_FAILURE'' then AlarmType_SWITCH_POSITION_MISMATCH
      else if kind = ''SIGNAL_FAILURE'' then AlarmType_SIGNAL_OVERRUN
      else if kind = ''DERAILER_CONFLICT'' then AlarmType_DERAILER_CONFLICT
      else if kind = ''COMMS_FAILURE'' then AlarmType_COMMS_FAILURE
      else if kind = ''ENGINE_FAULT'' then AlarmType_ENGINE_FAULT
      else AlarmType_TRACK_OCCUPIED_UNEXPECTEDLY)"

section \<open>The frame of an event\<close>

text \<open>The event type and the table of a change; the changes without an event type have none.\<close>

fun event_body :: "'t FlatBuffers \<Rightarrow> DeviceStateChange \<Rightarrow> (u8 \<times> 't) option" where
  "event_body fb (SignalAspectChange uid new_aspect cause route_uid) =
     Some (event_type_kSignalAspectChanged,
       CreateSignalAspectChanged fb uid (enum_code SignalAspect_values new_aspect) (to_proto_cause cause))"
| "event_body fb (SwitchPositionChange uid new_position cause moving_ticks) =
     Some (event_type_kSwitchPositionChanged,
       CreateSwitchPositionChanged fb uid (enum_code SwitchPosition_values new_position) (to_proto_cause cause))"
| "event_body fb (SwitchLocked switch_uid route_uid) =
     Some (event_type_kSwitchPositionChanged,
       CreateSwitchPositionChanged fb switch_uid SwitchPosition_STRAIGHT ChangeCause_AUTO)"
| "event_body fb (SwitchUnlocked switch_uid route_uid) =
     Some (event_type_kSwitchPositionChanged,
       CreateSwitchPositionChanged fb switch_uid SwitchPosition_STRAIGHT ChangeCause_AUTO)"
| "event_body fb (DerailerStateChange uid new_state cause route_uid) =
     Some (event_type_kDerailerPositionChanged,
       CreateDerailerPositionChanged fb uid (to_proto_derailer new_state) (to_proto_cause cause))"
| "event_body fb (TrackSectionOccupancyChange uid occ axle_count train_uid) =
     Some (event_type_kTrackSectionOccupancyChanged,
       CreateTrackSectionOccupancyChanged fb uid (occ = OCCUPIED) (word_of_int axle_count) train_uid)"
| "event_body fb (BlockSectionStateChange uid new_state) =
     Some (event_type_kBlockSectionStateChanged,
       CreateBlockSectionStateChanged fb uid (to_proto_block_section new_state))"
| "event_body fb (BlockDirectionChange uid new_direction confirm) =
     Some (event_type_kBlockDirectionStateChanged,
       CreateBlockDirectionStateChanged fb uid (to_proto_direction new_direction) ChangeCause_COMMAND)"
| "event_body fb (OperatorCommandStateChange uid kind code active) =
     Some (event_type_kOperatorCommandStateChanged,
       CreateOperatorCommandStateChanged fb uid (enum_code OperatorTargetKind_values kind)
         (enum_code OperatorCommandCode_values code) active)"
| "event_body fb (Ml8CommandStateChange uid kind code active) =
     Some (event_type_kMl8CommandStateChanged,
       CreateMl8CommandStateChanged fb uid (enum_code OperatorTargetKind_values kind)
         (enum_code Ml8CommandCode_values code) active)"
| "event_body fb (RouteAdded route) =
     Some (event_type_kRouteSet,
       CreateRouteSet fb (rt_uid route) (rt_from_signal_uid route) (rt_to_signal_uid route)
         (Some (fb_CreateVector_u64 fb (rt_section_uids route))))"
| "event_body fb (RouteRemoved route_uid reason) =
     Some (event_type_kRouteReleased, CreateRouteReleased fb route_uid (to_proto_release_reason reason))"
| "event_body fb (AlarmRaised a) =
     Some (event_type_kAlarmRaised,
       CreateAlarmRaised fb (al_uid a) (event_alarm_type (al_kind a)) (al_object_uid a)
         (Some (fb_CreateString fb (al_message a))))"
| "event_body fb (AlarmCleared alarm_uid) = Some (event_type_kAlarmCleared, CreateAlarmCleared fb alarm_uid)"
| "event_body fb (AxleCounterResetChange _ _) = None"
| "event_body fb (RouteOverlapTimerStarted _ _) = None"
| "event_body fb (EmergencyRouteReleaseExecuted _) = None"
| "event_body fb (LevelCrossingStateChange _ _) = None"
| "event_body fb (SwitchControlStateChange _ _) = None"

record 'd DispatchBus =
  bus_gateway :: "'d TransportGateway"
  bus_db_writer :: NullDbWriter
  bus_next_event_id :: u32
  bus_tx_seq :: u32

definition make_event_frame ::
    "'t FlatBuffers \<Rightarrow> DeviceStateChange \<Rightarrow> u64 \<Rightarrow> 'd DispatchBus \<Rightarrow> u8 list option \<times> 'd DispatchBus" where
  "make_event_frame fb change timestamp_us bus =
    (let eid = bus_next_event_id bus; bus = bus\<lparr>bus_next_event_id := eid + 1\<rparr>
     in case event_body fb change of
          None \<Rightarrow> (None, bus)
        | Some (et, table) \<Rightarrow>
            (let payload = build_event_prefix et eid timestamp_us @ fb_Finish fb table; sn = bus_tx_seq bus
             in (Some (encode_frame msg_type_kDomainEvent 0 sn payload), bus\<lparr>bus_tx_seq := sn + 1\<rparr>)))"

section \<open>Broadcast and storage\<close>

fun object_uid_from_change :: "DeviceStateChange \<Rightarrow> u64 option" where
  "object_uid_from_change (SignalAspectChange uid _ _ _) = Some uid"
| "object_uid_from_change (SwitchPositionChange uid _ _ _) = Some uid"
| "object_uid_from_change (SwitchLocked switch_uid _) = Some switch_uid"
| "object_uid_from_change (SwitchUnlocked switch_uid _) = Some switch_uid"
| "object_uid_from_change (DerailerStateChange uid _ _ _) = Some uid"
| "object_uid_from_change (BlockSectionStateChange uid _) = Some uid"
| "object_uid_from_change (TrackSectionOccupancyChange uid _ _ _) = Some uid"
| "object_uid_from_change (BlockDirectionChange uid _ _) = Some uid"
| "object_uid_from_change (AxleCounterResetChange uid _) = Some uid"
| "object_uid_from_change (OperatorCommandStateChange uid _ _ _) = Some uid"
| "object_uid_from_change (Ml8CommandStateChange uid _ _ _) = Some uid"
| "object_uid_from_change (RouteAdded route) = Some (rt_uid route)"
| "object_uid_from_change (RouteRemoved route_uid _) = Some route_uid"
| "object_uid_from_change (AlarmRaised a) = Some (al_object_uid a)"
| "object_uid_from_change (AlarmCleared alarm_uid) = Some alarm_uid"
| "object_uid_from_change (RouteOverlapTimerStarted _ _) = None"
| "object_uid_from_change (EmergencyRouteReleaseExecuted _) = None"
| "object_uid_from_change (LevelCrossingStateChange _ _) = None"
| "object_uid_from_change (SwitchControlStateChange switch_uid _) = Some switch_uid"

definition event_row :: "u8 list \<Rightarrow> DeviceStateChange \<Rightarrow> DomainEventRow" where
  "event_row frame change =
     \<lparr>der_event_type = frame ! 16,
      der_event_id = ucast (frame ! 17) OR push_bit 8 (ucast (frame ! 18)) OR push_bit 16 (ucast (frame ! 19)) OR
        push_bit 24 (ucast (frame ! 20)),
      der_timestamp_us = fold (\<lambda>i t. t OR push_bit (8 * i) (ucast (frame ! (21 + i)))) [0..<8] 0,
      der_object_uid = object_uid_from_change change,
      der_payload = drop 29 frame\<rparr>"

definition publish_change :: "'t FlatBuffers \<Rightarrow> u64 \<Rightarrow> DeviceStateChange \<Rightarrow> 'd DispatchBus \<Rightarrow> 'd DispatchBus" where
  "publish_change fb ts change bus =
    (case make_event_frame fb change ts bus of
       (None, bus) \<Rightarrow> bus
     | (Some frame, bus) \<Rightarrow>
         (let bus = bus\<lparr>bus_gateway := broadcast frame (bus_gateway bus)\<rparr>
          in if 29 < length frame
             then bus\<lparr>bus_db_writer := write_domain_event (event_row frame change) (bus_db_writer bus)\<rparr>
             else bus))"

definition on_state_changes ::
    "'t FlatBuffers \<Rightarrow> u64 \<Rightarrow> DeviceStateChange list \<Rightarrow> 'd DispatchBus \<Rightarrow> 'd DispatchBus" where
  "on_state_changes fb ts changes bus = fold (publish_change fb ts) changes bus"

section \<open>The client's reading\<close>

datatype (plugins only: size code) ClientEvent =
    ClientSwitch UID "SwitchPosition option" "ChangeCause option"
  | ClientSignal UID "SignalAspect option" "ChangeCause option"
  | ClientSection UID bool i32 UID
  | ClientDerailer UID "DerailerState option" "ChangeCause option"
  | ClientBlockSection UID bool
  | ClientDirection UID "BlockDirectionState option" "ChangeCause option"
  | ClientOperator UID "OperatorTargetKind option" "OperatorCommandCode option" bool
  | ClientMl8 UID "OperatorTargetKind option" "Ml8CommandCode option" bool
  | ClientRouteSet UID UID UID "UID list"
  | ClientRouteReleased UID i8
  | ClientAlarm UID i8 UID string
  | ClientAlarmCleared UID

abbreviation cause_of :: "i8 \<Rightarrow> ChangeCause option" where
  "cause_of \<equiv> enum_of_code ChangeCause_values"

definition client_event :: "'t FlatBuffers \<Rightarrow> u8 \<Rightarrow> 't \<Rightarrow> ClientEvent option" where
  "client_event fb et r =
    (if et = 0x01 then Some (ClientSwitch (SwitchPositionChanged_uid fb r)
       (enum_of_code SwitchPosition_values (SwitchPositionChanged_new_position fb r))
       (cause_of (SwitchPositionChanged_cause fb r)))
     else if et = 0x03 then Some (ClientSignal (SignalAspectChanged_uid fb r)
       (enum_of_code SignalAspect_values (SignalAspectChanged_new_aspect fb r)) (cause_of (SignalAspectChanged_cause fb r)))
     else if et = 0x04 then Some (ClientSection (TrackSectionOccupancyChanged_uid fb r)
       (TrackSectionOccupancyChanged_occupied fb r) (TrackSectionOccupancyChanged_axle_count fb r)
       (TrackSectionOccupancyChanged_train_uid fb r))
     else if et = 0x05 then Some (ClientDerailer (DerailerPositionChanged_uid fb r)
       (enum_of_code DerailerState_values (DerailerPositionChanged_new_position fb r))
       (cause_of (DerailerPositionChanged_cause fb r)))
     else if et = 0x06 then Some (ClientBlockSection (BlockSectionStateChanged_uid fb r)
       (BlockSectionStateChanged_new_state fb r = BlockSectionState_OPEN))
     else if et = 0x07 then Some (ClientRouteSet (RouteSet_uid fb r) (RouteSet_from_signal_uid fb r)
       (RouteSet_to_signal_uid fb r) (case RouteSet_section_uids fb r of None \<Rightarrow> [] | Some v \<Rightarrow> fb_vec_u64 fb v))
     else if et = 0x08 then Some (ClientRouteReleased (RouteReleased_route_uid fb r) (RouteReleased_reason fb r))
     else if et = 0x0A then Some (ClientAlarm (AlarmRaised_alarm_uid fb r) (AlarmRaised_alarm_type fb r)
       (AlarmRaised_object_uid fb r) (case AlarmRaised_message fb r of None \<Rightarrow> [] | Some v \<Rightarrow> fb_str fb v))
     else if et = 0x0B then Some (ClientAlarmCleared (AlarmCleared_alarm_uid fb r))
     else if et = 0x10 then Some (ClientDirection (BlockDirectionStateChanged_uid fb r)
       (enum_of_code BlockDirectionState_values (BlockDirectionStateChanged_new_direction fb r))
       (cause_of (BlockDirectionStateChanged_cause fb r)))
     else if et = 0x11 then Some (ClientOperator (OperatorCommandStateChanged_uid fb r)
       (enum_of_code OperatorTargetKind_values (OperatorCommandStateChanged_target_kind fb r))
       (enum_of_code OperatorCommandCode_values (OperatorCommandStateChanged_command_code fb r))
       (OperatorCommandStateChanged_active fb r))
     else if et = 0x12 then Some (ClientMl8 (Ml8CommandStateChanged_uid fb r)
       (enum_of_code OperatorTargetKind_values (Ml8CommandStateChanged_target_kind fb r))
       (enum_of_code Ml8CommandCode_values (Ml8CommandStateChanged_command_code fb r))
       (Ml8CommandStateChanged_active fb r))
     else None)"

text \<open>What a client is told of a change, as the code decides it.\<close>

fun told_of_change :: "DeviceStateChange \<Rightarrow> ClientEvent option" where
  "told_of_change (SignalAspectChange uid a cause _) = Some (ClientSignal uid (Some a) (Some cause))"
| "told_of_change (SwitchPositionChange uid p cause _) = Some (ClientSwitch uid (Some p) (Some cause))"
| "told_of_change (SwitchLocked uid _) = Some (ClientSwitch uid (Some STRAIGHT) (Some CAUSE_AUTO))"
| "told_of_change (SwitchUnlocked uid _) = Some (ClientSwitch uid (Some STRAIGHT) (Some CAUSE_AUTO))"
| "told_of_change (DerailerStateChange uid st cause _) = Some (ClientDerailer uid (Some st) (Some cause))"
| "told_of_change (TrackSectionOccupancyChange uid occ axles train) =
     Some (ClientSection uid (occ = OCCUPIED) (word_of_int axles) train)"
| "told_of_change (BlockSectionStateChange uid st) = Some (ClientBlockSection uid (st = BS_OPEN))"
| "told_of_change (BlockDirectionChange uid dir _) = Some (ClientDirection uid (Some dir) (Some CAUSE_COMMAND))"
| "told_of_change (OperatorCommandStateChange uid kind code active) =
     Some (ClientOperator uid (Some kind) (Some code) active)"
| "told_of_change (Ml8CommandStateChange uid kind code active) = Some (ClientMl8 uid (Some kind) (Some code) active)"
| "told_of_change (RouteAdded r) =
     Some (ClientRouteSet (rt_uid r) (rt_from_signal_uid r) (rt_to_signal_uid r) (rt_section_uids r))"
| "told_of_change (RouteRemoved uid reason) = Some (ClientRouteReleased uid (to_proto_release_reason reason))"
| "told_of_change (AlarmRaised a) =
     Some (ClientAlarm (al_uid a) (event_alarm_type (al_kind a)) (al_object_uid a) (al_message a))"
| "told_of_change (AlarmCleared uid) = Some (ClientAlarmCleared uid)"
| "told_of_change (AxleCounterResetChange _ _) = None"
| "told_of_change (RouteOverlapTimerStarted _ _) = None"
| "told_of_change (EmergencyRouteReleaseExecuted _) = None"
| "told_of_change (LevelCrossingStateChange _ _) = None"
| "told_of_change (SwitchControlStateChange _ _) = None"

lemmas event_tables = SwitchPositionChanged_defs SignalAspectChanged_defs TrackSectionOccupancyChanged_defs
  DerailerPositionChanged_defs BlockSectionStateChanged_defs RouteSet_defs RouteReleased_defs AlarmRaised_defs
  AlarmCleared_defs BlockDirectionStateChanged_defs OperatorCommandStateChanged_defs Ml8CommandStateChanged_defs

lemma event_codes [simp]:
  "enum_of_code SwitchPosition_values (enum_code SwitchPosition_values p) = Some p"
  "enum_of_code SignalAspect_values (enum_code SignalAspect_values a) = Some a"
  "enum_of_code OperatorTargetKind_values (enum_code OperatorTargetKind_values k) = Some k"
  "enum_of_code OperatorCommandCode_values (enum_code OperatorCommandCode_values oc) = Some oc"
  "enum_of_code Ml8CommandCode_values (enum_code Ml8CommandCode_values mc) = Some mc"
  by (rule enum_of_enum_code, rule enumerators_complete,
    simp add: SwitchPosition_values_def SignalAspect_values_def OperatorTargetKind_values_def
      OperatorCommandCode_values_def Ml8CommandCode_values_def)+

lemma event_conversions [simp]:
  "enum_of_code DerailerState_values (to_proto_derailer d) = Some d"
  "enum_of_code BlockDirectionState_values (to_proto_direction b) = Some b"
  "enum_of_code ChangeCause_values (to_proto_cause c) = Some c"
  "enum_of_code ChangeCause_values ChangeCause_AUTO = Some CAUSE_AUTO"
  "enum_of_code ChangeCause_values ChangeCause_COMMAND = Some CAUSE_COMMAND"
  "enum_of_code SwitchPosition_values SwitchPosition_STRAIGHT = Some STRAIGHT"
  "(to_proto_block_section st = BlockSectionState_OPEN) = (st = BS_OPEN)"
  subgoal by (cases d) (simp_all add: to_proto_derailer_def DerailerPosition_LOCKED_def DerailerPosition_UNLOCKED_def
        DerailerState_values_def enum_of_code_def)
  subgoal by (cases b) (simp_all add: to_proto_direction_def BlockDirectionState_values_def enum_code_def enum_of_code_def)
  subgoal by (cases c) (simp_all add: to_proto_cause_def ChangeCause_values_def enum_code_def enum_of_code_def)
  subgoal by (simp add: ChangeCause_AUTO_def ChangeCause_values_def enum_of_code_def)
  subgoal by (simp add: ChangeCause_COMMAND_def ChangeCause_values_def enum_of_code_def)
  subgoal by (simp add: SwitchPosition_STRAIGHT_def SwitchPosition_values_def enum_of_code_def)
  subgoal by (cases st) (simp_all add: to_proto_block_section_def BlockSectionState_OPEN_def BlockSectionState_CLOSED_def)
  done

lemma told_none: "told_of_change c = None \<longleftrightarrow> event_body fb c = None"
  by (cases c) simp_all

lemma read_event:
  assumes "fb_reads_back fb" and "event_body fb c = Some (et, t)"
  shows "client_event fb et t = told_of_change c"
proof -
  note rb = fb_reads_backD [OF assms(1)]
  show ?thesis using assms(2)
    by (cases c) (auto simp: client_event_def event_type_defs event_tables rb split: if_splits)
qed

section \<open>The bytes of an event\<close>

lemma collect_bytes:
  "fold (\<lambda>i t. t OR push_bit (8 * i) (ucast (ucast (drop_bit (8 * i) v AND 0xFF) :: u8))) [0..<n] 0 =
   take_bit (8 * n) (v :: u64)"
proof (induction n)
  case (Suc n)
  have "(0xFF :: u64) = mask 8" by (simp add: mask_eq_exp_minus_1)
  then have "take_bit (8 * n) v OR push_bit (8 * n) (ucast (ucast (drop_bit (8 * n) v AND 0xFF) :: u8)) =
      take_bit (8 * Suc n) v"
    by (intro bit_word_eqI) (auto simp: bit_simps)
  with Suc show ?case by simp
qed simp

lemma timestamp_of_bytes:
  "fold (\<lambda>i t. t OR push_bit (8 * i) (ucast ((xs @ write_u64_le v @ ys) ! (length xs + i)))) [0..<8] 0 = v"
proof -
  have "(xs @ write_u64_le v @ ys) ! (length xs + i) = ucast (drop_bit (8 * i) v AND 0xFF)" if "i < 8" for i
    using that by (simp add: write_u64_le_def nth_append)
  then have "fold (\<lambda>i t. t OR push_bit (8 * i) (ucast ((xs @ write_u64_le v @ ys) ! (length xs + i)))) [0..<8] 0 =
      fold (\<lambda>i t. t OR push_bit (8 * i) (ucast (ucast (drop_bit (8 * i) v AND 0xFF) :: u8))) [0..<8] 0"
    by (intro fold_cong) simp_all
  also have "\<dots> = take_bit 64 v" using collect_bytes [of v 8] by simp
  finally show ?thesis by (simp add: take_bit_word_eq_self)
qed

lemma write_u32_le_is_le32: "write_u32_le = le32"
  by (rule ext) (simp add: write_u32_le_def le32_def)

lemma length_event_prefix [simp]: "length (build_event_prefix et eid ts) = 13"
  by (simp add: build_event_prefix_def write_u32_le_def write_u64_le_def)

lemma row_of_frame:
  assumes "length body + 13 < 2 ^ 32"
  shows "event_row (encode_frame mt fl sn (build_event_prefix et eid ts @ body)) c =
    \<lparr>der_event_type = et, der_event_id = eid, der_timestamp_us = ts, der_object_uid = object_uid_from_change c,
     der_payload = body\<rparr>"
proof -
  let ?p = "build_event_prefix et eid ts @ body"
  define h where "h = frame_header mt fl sn (length ?p) @ le32 (frame_crc (frame_header mt fl sn (length ?p)) ?p)"
  have frame: "encode_frame mt fl sn ?p = h @ ?p" using assms by (simp only: encode_frame_eq h_def length_append
        length_event_prefix append_assoc add.commute)
  have len: "length h = 16" using encode_frame_length [of ?p mt fl sn] assms unfolding frame by simp
  let ?f = "h @ build_event_prefix et eid ts @ body"
  have f: "?f = (h @ [et]) @ le32 eid @ write_u64_le ts @ body" "?f = (h @ et # le32 eid) @ write_u64_le ts @ body"
    by (simp_all add: build_event_prefix_def write_u32_le_is_le32)
  have type: "?f ! 16 = et" unfolding f(1) using len by (simp add: nth_append)
  have "read_le32 ?f 17 = eid" unfolding f(1) using read_le32_le32 [of "h @ [et]"] len by simp
  then have id: "ucast (?f ! 17) OR push_bit 8 (ucast (?f ! 18)) OR push_bit 16 (ucast (?f ! 19)) OR
      push_bit 24 (ucast (?f ! 20)) = eid"
    by (simp only: read_le32_def numeral_plus_numeral) simp
  have ts: "fold (\<lambda>i t. t OR push_bit (8 * i) (ucast (?f ! (21 + i)))) [0..<8] 0 = ts"
    unfolding f(2) using timestamp_of_bytes [of "h @ et # le32 eid" ts body] len by simp
  have rest: "drop 29 ?f = body" using len by simp
  show ?thesis unfolding event_row_def frame type id ts rest ..
qed

section \<open>What the clients and the database get\<close>

text \<open>The rows of a list of changes, numbered by their position in it.\<close>

fun event_rows :: "'t FlatBuffers \<Rightarrow> u64 \<Rightarrow> u32 \<Rightarrow> DeviceStateChange list \<Rightarrow> DomainEventRow list" where
  "event_rows fb ts eid [] = []"
| "event_rows fb ts eid (c # cs) =
    (case event_body fb c of
       None \<Rightarrow> event_rows fb ts (eid + 1) cs
     | Some (et, t) \<Rightarrow>
         \<lparr>der_event_type = et, der_event_id = eid, der_timestamp_us = ts, der_object_uid = object_uid_from_change c,
          der_payload = fb_Finish fb t\<rparr> # event_rows fb ts (eid + 1) cs)"

definition row_frame :: "u32 \<Rightarrow> DomainEventRow \<Rightarrow> u8 list" where
  "row_frame sn row = encode_frame msg_type_kDomainEvent 0 sn
     (build_event_prefix (der_event_type row) (der_event_id row) (der_timestamp_us row) @ der_payload row)"

fun row_frames :: "u32 \<Rightarrow> DomainEventRow list \<Rightarrow> u8 list list" where
  "row_frames sn [] = []"
| "row_frames sn (r # rs) = row_frame sn r # row_frames (sn + 1) rs"

text \<open>A finished buffer is never empty, and with its prefix it fits one frame.\<close>

definition bodies_fit :: "'t FlatBuffers \<Rightarrow> DeviceStateChange list \<Rightarrow> bool" where
  "bodies_fit fb cs \<longleftrightarrow> (\<forall>c \<in> set cs. case event_body fb c of None \<Rightarrow> True
     | Some (et, t) \<Rightarrow> fb_Finish fb t \<noteq> [] \<and> length (fb_Finish fb t) + 13 \<le> 65535)"

lemma publish_unnamed:
  "event_body fb c = None \<Longrightarrow>
     publish_change fb ts c bus = bus\<lparr>bus_next_event_id := bus_next_event_id bus + 1\<rparr>"
  by (simp add: publish_change_def make_event_frame_def Let_def)

lemma publish_named:
  assumes "event_body fb c = Some (et, t)" and "fb_Finish fb t \<noteq> []" and "length (fb_Finish fb t) + 13 \<le> 65535"
    and "r = \<lparr>der_event_type = et, der_event_id = bus_next_event_id bus, der_timestamp_us = ts,
            der_object_uid = object_uid_from_change c, der_payload = fb_Finish fb t\<rparr>"
  shows "publish_change fb ts c bus =
    bus\<lparr>bus_gateway := broadcast (row_frame (bus_tx_seq bus) r) (bus_gateway bus),
        bus_db_writer := write_domain_event r (bus_db_writer bus),
        bus_next_event_id := bus_next_event_id bus + 1, bus_tx_seq := bus_tx_seq bus + 1\<rparr>"
proof -
  have len: "length (encode_frame msg_type_kDomainEvent 0 (bus_tx_seq bus)
      (build_event_prefix et (bus_next_event_id bus) ts @ fb_Finish fb t)) = 29 + length (fb_Finish fb t)"
    using assms(3) by (simp add: encode_frame_length)
  have "length (fb_Finish fb t) + 13 < 2 ^ 32" using assms(3) by simp
  note row = row_of_frame [OF this]
  show ?thesis using assms(1,2,4)
    by (simp add: publish_change_def make_event_frame_def Let_def len row row_frame_def)
qed

lemma publish_all:
  assumes "bodies_fit fb cs" and "rows = event_rows fb ts (bus_next_event_id bus) cs"
    and "bus' = on_state_changes fb ts cs bus"
  shows "gw_tasks (bus_gateway bus') = gw_tasks (bus_gateway bus) @ map BroadcastFrame (row_frames (bus_tx_seq bus) rows) \<and>
    written_events (bus_db_writer bus') = written_events (bus_db_writer bus) @ rows \<and>
    bus_next_event_id bus' = bus_next_event_id bus + word_of_nat (length cs)"
  using assms
proof (induction cs arbitrary: bus rows bus')
  case Nil
  then show ?case by (simp add: on_state_changes_def)
next
  case (Cons c cs)
  define mid where "mid = publish_change fb ts c bus"
  have fit: "bodies_fit fb cs" using Cons.prems(1) by (simp add: bodies_fit_def)
  have rest: "bus' = on_state_changes fb ts cs mid" using Cons.prems(3) by (simp add: on_state_changes_def mid_def)
  note IH = Cons.IH [OF fit refl rest]
  show ?case
  proof (cases "event_body fb c")
    case None
    then show ?thesis using IH Cons.prems(2) by (simp add: mid_def publish_unnamed add.assoc)
  next
    case (Some p)
    obtain et t where p: "event_body fb c = Some (et, t)" using Some by (cases p) simp
    have "fb_Finish fb t \<noteq> []" "length (fb_Finish fb t) + 13 \<le> 65535"
      using Cons.prems(1) p by (simp_all add: bodies_fit_def)
    then show ?thesis using IH Cons.prems(2) p
      by (simp add: mid_def publish_named [OF p _ _ refl] broadcast_def write_domain_event_def add.assoc)
  qed
qed

lemma row_frame_carries:
  assumes "length (der_payload r) + 13 \<le> 65535"
  shows "fdr_status (decode_frame (row_frame sn r)) = kOk \<and>
    fdr_frame (decode_frame (row_frame sn r)) =
      \<lparr>df_msg_type = msg_type_kDomainEvent, df_flags = 0, df_seq_id = sn, df_payload =
         build_event_prefix (der_event_type r) (der_event_id r) (der_timestamp_us r) @ der_payload r\<rparr>"
proof -
  let ?p = "build_event_prefix (der_event_type r) (der_event_id r) (der_timestamp_us r) @ der_payload r"
  have le: "length ?p \<le> 65535" using assms by simp
  show ?thesis using le decode_framed [OF le, of msg_type_kDomainEvent 0 sn _ ?p]
    by (simp add: row_frame_def encode_frame_eq del: append_assoc)
qed

lemma event_rows_fit:
  "bodies_fit fb cs \<Longrightarrow> \<forall>r \<in> set (event_rows fb ts eid cs). length (der_payload r) + 13 \<le> 65535"
  by (induction cs arbitrary: eid) (auto simp: bodies_fit_def split: option.splits)

lemma row_frames_carry:
  assumes "\<forall>r \<in> set rows. length (der_payload r) + 13 \<le> 65535"
  shows "list_all2 (\<lambda>frame r. fdr_status (decode_frame frame) = kOk \<and>
      df_msg_type (fdr_frame (decode_frame frame)) = msg_type_kDomainEvent \<and>
      df_payload (fdr_frame (decode_frame frame)) =
        build_event_prefix (der_event_type r) (der_event_id r) (der_timestamp_us r) @ der_payload r)
    (row_frames sn rows) rows"
  using assms by (induction rows arbitrary: sn) (simp_all add: row_frame_carries)

lemma event_row_ids:
  "map der_event_id (event_rows fb ts eid cs) =
   map (\<lambda>i. eid + word_of_nat i) (filter (\<lambda>i. event_body fb (cs ! i) \<noteq> None) [0..<length cs])"
proof (induction cs arbitrary: eid)
  case (Cons c cs)
  have "[0..<length (c # cs)] = 0 # map Suc [0..<length cs]" by (simp add: map_Suc_upt upt_conv_Cons del: upt_Suc)
  then show ?case
    by (cases "event_body fb c") (simp_all add: Cons.IH filter_map comp_def add.assoc split: prod.split)
qed simp

lemma event_rows_read:
  assumes "fb_reads_back fb" and "\<forall>c \<in> set cs. \<forall>et t. event_body fb c = Some (et, t) \<longrightarrow> fb_GetRoot fb (fb_Finish fb t) = t"
  shows "map (\<lambda>r. client_event fb (der_event_type r) (fb_GetRoot fb (der_payload r))) (event_rows fb ts eid cs) =
    map told_of_change (filter (\<lambda>c. told_of_change c \<noteq> None) cs)"
  using assms(2)
proof (induction cs arbitrary: eid)
  case (Cons c cs)
  then show ?case using read_event [OF assms(1), of c] told_none [of c fb]
    by (cases "event_body fb c") (auto split: prod.split)
qed simp

section \<open>Properties\<close>

text \<open>
  C19.  The database holds what the clients were sent: for a list of changes the frames broadcast and
  the rows stored correspond one to one, in order; every frame decodes to a DOMAIN_EVENT whose
  payload is type, number, time and body of its row, and the numbers are those of the changes'
  positions, so that changes without an event leave a gap.
\<close>

theorem events_are_stored_as_sent:
  assumes "bodies_fit fb cs" and "bus' = on_state_changes fb ts cs bus"
  shows "\<exists>frames rows. gw_tasks (bus_gateway bus') = gw_tasks (bus_gateway bus) @ map BroadcastFrame frames \<and>
    written_events (bus_db_writer bus') = written_events (bus_db_writer bus) @ rows \<and>
    list_all2 (\<lambda>frame r. fdr_status (decode_frame frame) = kOk \<and>
        df_msg_type (fdr_frame (decode_frame frame)) = msg_type_kDomainEvent \<and>
        df_payload (fdr_frame (decode_frame frame)) =
          build_event_prefix (der_event_type r) (der_event_id r) (der_timestamp_us r) @ der_payload r) frames rows \<and>
    map der_event_id rows = map (\<lambda>i. bus_next_event_id bus + word_of_nat i)
      (filter (\<lambda>i. event_body fb (cs ! i) \<noteq> None) [0..<length cs])"
  using publish_all [OF assms(1) refl assms(2)] row_frames_carry [OF event_rows_fit [OF assms(1)]] event_row_ids
  by blast

definition sample_runtime :: "FbTree \<Rightarrow> FbTree FlatBuffers" where
  "sample_runtime rt = (tree_runtime (\<lambda>_. rt))\<lparr>fb_Finish := (\<lambda>_. [7])\<rparr>"

definition sample_bus :: "unit DispatchBus" where
  "sample_bus = \<lparr>bus_gateway = idle_gateway, bus_db_writer = new_db_writer, bus_next_event_id = 1, bus_tx_seq = 0\<rparr>"

theorem events_are_stored_as_sent_witness:
  "map der_event_id (written_events (bus_db_writer (on_state_changes (sample_runtime (TreeString [])) 99
     [SwitchLocked 10 77, AxleCounterResetChange 5 TK_STATION, AlarmCleared 3] sample_bus))) = [1, 3]"
proof -
  have "bodies_fit (sample_runtime (TreeString [])) [SwitchLocked 10 77, AxleCounterResetChange 5 TK_STATION, AlarmCleared 3]"
    by (simp add: bodies_fit_def sample_runtime_def)
  from events_are_stored_as_sent [OF this refl, of 99 sample_bus] show ?thesis
    by (auto simp: sample_bus_def new_db_writer_def)
qed

text \<open>
  A client that reads the event bodies through the generated accessors learns, in order, each
  published change: the device, its new state and the cause, the route with its sections.
\<close>

theorem clients_read_the_changes:
  assumes "fb_reads_back fb" and "bodies_fit fb cs"
    and "\<forall>c \<in> set cs. \<forall>et t. event_body fb c = Some (et, t) \<longrightarrow> fb_GetRoot fb (fb_Finish fb t) = t"
    and "written_events (bus_db_writer (on_state_changes fb ts cs bus)) = written_events (bus_db_writer bus) @ rows"
  shows "map (\<lambda>r. client_event fb (der_event_type r) (fb_GetRoot fb (der_payload r))) rows =
    map told_of_change (filter (\<lambda>c. told_of_change c \<noteq> None) cs)"
  using event_rows_read [OF assms(1,3)] publish_all [OF assms(2) refl refl, of ts bus] assms(4) by auto

theorem clients_read_the_changes_witness:
  "map (\<lambda>r. client_event (sample_runtime (CreateSignalAspectChanged (sample_runtime (TreeString [])) 7 1 0))
      (der_event_type r) (fb_GetRoot (sample_runtime (CreateSignalAspectChanged (sample_runtime (TreeString [])) 7 1 0))
        (der_payload r)))
    (written_events (bus_db_writer (on_state_changes
      (sample_runtime (CreateSignalAspectChanged (sample_runtime (TreeString [])) 7 1 0)) 99
      [SignalAspectChange 7 S2_PROCEED CAUSE_COMMAND None] sample_bus))) =
   [Some (ClientSignal 7 (Some S2_PROCEED) (Some CAUSE_COMMAND))]"
proof -
  let ?fb = "sample_runtime (CreateSignalAspectChanged (sample_runtime (TreeString [])) 7 1 0)"
  have "fb_reads_back ?fb" by (simp add: fb_reads_back_def sample_runtime_def tree_runtime_def)
  moreover have "bodies_fit ?fb [SignalAspectChange 7 S2_PROCEED CAUSE_COMMAND None]"
    by (simp add: bodies_fit_def sample_runtime_def)
  moreover have "\<forall>c \<in> set [SignalAspectChange 7 S2_PROCEED CAUSE_COMMAND None]. \<forall>et t.
      event_body ?fb c = Some (et, t) \<longrightarrow> fb_GetRoot ?fb (fb_Finish ?fb t) = t"
    by (simp add: sample_runtime_def tree_runtime_def CreateSignalAspectChanged_def enum_code_def
        SignalAspect_values_def to_proto_cause_def ChangeCause_values_def)
  ultimately show ?thesis using clients_read_the_changes [of ?fb _ 99 sample_bus]
    by (fastforce simp: sample_bus_def new_db_writer_def)
qed

text \<open>A client that keeps the last position it was told for every switch.\<close>

definition client_of_change :: "'t FlatBuffers \<Rightarrow> DeviceStateChange \<Rightarrow> ClientEvent option" where
  "client_of_change fb c = (case event_body fb c of None \<Rightarrow> None | Some (et, t) \<Rightarrow> client_event fb et t)"

fun follow_switches :: "ClientEvent option \<Rightarrow> (UID \<rightharpoonup> SwitchPosition) \<Rightarrow> (UID \<rightharpoonup> SwitchPosition)" where
  "follow_switches (Some (ClientSwitch u p c)) m = m(u := p)"
| "follow_switches _ m = m"

lemma client_of_change_told:
  assumes "fb_reads_back fb"
  shows "client_of_change fb c = told_of_change c"
proof (cases "event_body fb c")
  case None
  then show ?thesis using told_none [of c fb] by (simp add: client_of_change_def)
next
  case (Some p)
  then show ?thesis using read_event [OF assms, of c] by (cases p) (simp add: client_of_change_def)
qed

text \<open>
  A switch that a route sets to DIVERGENT is DIVERGENT in the engine, and STRAIGHT for every
  client: the lock of the switch is published as a position change to STRAIGHT, after the real one,
  and nothing follows it.
\<close>

theorem route_switch_reported_straight:
  assumes "fb_reads_back fb" and "find_switch s (node_uid node) = Some sw"
    and "node_required_position node = DIVERGENT"
    and "cs = set_route_switch s r node"
  shows "map_option sw_position (find_switch (apply_all s cs) (node_uid node)) = Some DIVERGENT \<and>
    fold (\<lambda>c. follow_switches (client_of_change fb c)) cs view (node_uid node) = Some STRAIGHT"
  using assms(2,3)
  by (auto simp: assms(4) set_route_switch_def client_of_change_told [OF assms(1)] apply_all_def apply_switch_position_def
      apply_switch_lock_def engine_simps)

theorem route_switch_reported_straight_witness:
  "fold (\<lambda>c. follow_switches (client_of_change (tree_runtime (\<lambda>_. TreeString [])) c))
     (set_route_switch sample_station 77 \<lparr>node_kind = NODE_SWITCH, node_uid = 10, node_required_position = DIVERGENT\<rparr>)
     Map.empty 10 = Some STRAIGHT"
  using route_switch_reported_straight [OF tree_runtime_reads_back [where rt = "\<lambda>_. TreeString []"] _ _ refl, where s = sample_station
      and node = "\<lparr>node_kind = NODE_SWITCH, node_uid = 10, node_required_position = DIVERGENT\<rparr>"
      and sw = "sample_switch 10 1 2 3" and view = Map.empty and r = 77]
  by (simp add: sample_find_switch)

end
