(* ===== verification/Session_Server.thy ===== *)
theory Session_Server
  imports Terminal_Properties Topology_Properties Dispatch_Bus
begin

text \<open>
  The composition root, \<^verbatim>\<open>server/src/session_server.cpp\<close>: the command line, the start that
  loads the world and the fleet and creates the interlocking, the callbacks the engine gets, and the
  runs of the server.  The database is the in-memory writer, as without a connection string; sockets,
  threads and signals are not modelled.  \<open>server_run\<close> is the inductive set of states a started server
  can reach by engine ticks, commands from the network and lines typed at the terminal.
\<close>

section \<open>The command line\<close>

record SessionConfig =
  cfg_scenario_dirs :: "path list"
  cfg_data_dir :: path
  cfg_port :: u16
  cfg_db_connection_string :: string

definition default_config :: "path \<Rightarrow> SessionConfig" where
  "default_config current_path =
     \<lparr>cfg_scenario_dirs = [], cfg_data_dir = current_path @ [''data''], cfg_port = 9420, cfg_db_connection_string = []\<rparr>"

definition stoi :: "string \<Rightarrow> stoull_error + int" where
  "stoi str =
    (let s = dropWhile is_space str;
         neg = (s \<noteq> [] \<and> hd s = CHR ''-'');
         t = (if s \<noteq> [] \<and> (hd s = CHR ''-'' \<or> hd s = CHR ''+'') then tl s else s);
         ds = takeWhile is_digit t;
         v = (if neg then - int (decimal_value ds) else int (decimal_value ds))
     in if ds = [] then Inl Dispatch_Coordinator.InvalidArgument
        else if v < - (2 ^ 31) \<or> 2 ^ 31 \<le> v then Inl Dispatch_Coordinator.OutOfRange else Inr v)"

datatype args_result = ParsedArgs SessionConfig | ExitProcess int | ArgsException stoull_error

fun parse_args :: "string list \<Rightarrow> SessionConfig \<Rightarrow> args_result" where
  "parse_args [] cfg = ParsedArgs cfg"
| "parse_args [arg] cfg = (if arg = ''--help'' \<or> arg = ''-h'' then ExitProcess 0 else ParsedArgs cfg)"
| "parse_args (arg # val # rest) cfg =
    (if arg = ''--scenario'' \<or> arg = ''-s'' then parse_args rest (cfg\<lparr>cfg_scenario_dirs := cfg_scenario_dirs cfg @ [[val]]\<rparr>)
     else if arg = ''--data'' \<or> arg = ''-d'' then parse_args rest (cfg\<lparr>cfg_data_dir := [val]\<rparr>)
     else if arg = ''--port'' \<or> arg = ''-p'' then
       (case stoi val of Inl e \<Rightarrow> ArgsException e | Inr n \<Rightarrow> parse_args rest (cfg\<lparr>cfg_port := word_of_int n\<rparr>))
     else if arg = ''--db'' then parse_args rest (cfg\<lparr>cfg_db_connection_string := val\<rparr>)
     else if arg = ''--help'' \<or> arg = ''-h'' then ExitProcess 0
     else parse_args (val # rest) cfg)"

definition connection_from_env :: "(string \<Rightarrow> string option) \<Rightarrow> string" where
  "connection_from_env getenv =
    (case (getenv ''DB_HOST'', getenv ''DB_USER'', getenv ''DB_PASSWORD'', getenv ''DB_NAME'') of
       (Some host, Some user, Some pass, Some name) \<Rightarrow>
         ''host='' @ host @ '' port='' @ (case getenv ''DB_PORT'' of Some port \<Rightarrow> port | None \<Rightarrow> ''5432'') @
         '' dbname='' @ name @ '' user='' @ user @ '' password='' @ pass
     | _ \<Rightarrow> [])"

definition from_args :: "path \<Rightarrow> (string \<Rightarrow> string option) \<Rightarrow> string list \<Rightarrow> args_result" where
  "from_args current_path getenv argv =
    (case parse_args argv (default_config current_path) of
       ParsedArgs cfg \<Rightarrow>
         if cfg_scenario_dirs cfg = [] then ExitProcess 1
         else ParsedArgs
           (if cfg_db_connection_string cfg = [] then cfg\<lparr>cfg_db_connection_string := connection_from_env getenv\<rparr>
            else cfg)
     | other \<Rightarrow> other)"

text \<open>An argument the parser does not know is passed over, and a port is cut to 16 bits.\<close>

lemma unknown_arguments_are_ignored: "parse_args [''--bogus'', ''-q''] cfg = ParsedArgs cfg"
  by simp

lemma port_is_cut: "parse_args [''--port'', ''70000''] cfg = ParsedArgs (cfg\<lparr>cfg_port := 4464\<rparr>)"
  by (simp add: stoi_def is_space_def is_digit_def decimal_value_def)

section \<open>The server\<close>

record ('sys, 'd) SessionServer =
  srv_config :: SessionConfig
  srv_session_uuid :: string
  srv_metas :: "ScenarioMeta list"
  srv_control :: "'sys IControlSystem"
  srv_loop :: "'sys EngineLoop"
  srv_fleet :: FleetRegistry
  srv_bus :: "'d DispatchBus"
  srv_users :: IUserStore
  srv_commands :: "'sys EngineLoop CommandRegistry"
  srv_user :: "UserAccount option"

datatype start_error = StartLoader loader_error | StartFleet load_error | StartRegistry registry_error
  | StartRuntime string | StartInvalid string

definition new_gateway :: "'d \<Rightarrow> 'd TransportGateway" where
  "new_gateway dispatch =
     \<lparr>gw_cmd_queue = pq_new, gw_snapshot = None, gw_objects = [], gw_sessions = [], gw_tasks = [],
      gw_dispatch = dispatch, gw_running = False, gw_acceptor_open = False, gw_mutex_held = False,
      gw_blocked = False, gw_terminated = False, gw_clock_reads = 0\<rparr>"

definition new_bus :: "'d TransportGateway \<Rightarrow> NullDbWriter \<Rightarrow> 'd DispatchBus" where
  "new_bus gw db = \<lparr>bus_gateway = gw, bus_db_writer = db, bus_next_event_id = 1, bus_tx_seq = 0\<rparr>"

definition new_loop :: "EngineState \<Rightarrow> 'sys \<Rightarrow> 'sys EngineLoop" where
  "new_loop s sys =
     \<lparr>el_state = s, el_control = sys, el_queue = pq_new, el_snapshot = None, el_train_fleet = [],
      el_fleet_commands = eq_new\<rparr>"

text \<open>A factory of the registry creates the interface and the object behind it.\<close>

type_synonym 'sys factories = "(string, unit \<Rightarrow> 'sys IControlSystem \<times> 'sys) umap"

definition server_start ::
    "'j Json \<Rightarrow> 'j Files \<Rightarrow> 'sys factories \<Rightarrow> int \<Rightarrow> 'd \<Rightarrow> SessionConfig \<Rightarrow> start_error + ('sys, 'd) SessionServer" where
  "server_start js fs factories iso_weekday dispatch cfg =
     and_then (map_error StartLoader (load_world js fs (cfg_scenario_dirs cfg) empty_state)) (\<lambda>(world, metas).
     let meta = hd metas; state = set_session_id (sm_station_sid meta) world;
         (session_uuid, db0) = init_session (sm_station_sid meta) 1 new_db_writer;
         (seeded_rows, db) = seed_edr_entries_for_operating_day iso_weekday db0 in
     and_then (map_error StartFleet (load_fleet js fs (cfg_data_dir cfg))) (\<lambda>fleet.
       if \<not> has_system (sm_control_system_id meta) factories
       then Inl (StartRuntime (''[server] Unknown control_system: '' @ sm_control_system_id meta))
       else
     and_then (map_error StartRegistry (create_system (sm_control_system_id meta) factories)) (\<lambda>(control, sys).
     and_then (map_error StartInvalid (server_registry fleet)) (\<lambda>commands.
       Inr \<lparr>srv_config = cfg, srv_session_uuid = session_uuid, srv_metas = metas, srv_control = control,
            srv_loop = new_loop state sys, srv_fleet = fleet,
            srv_bus = new_bus (gateway_start (new_gateway dispatch)) db,
            srv_users = authenticate with_default_admin, srv_commands = commands, srv_user = None\<rparr>))))"

section \<open>The callbacks of the engine\<close>

definition make_nak_frame :: "'t FlatBuffers \<Rightarrow> u32 \<Rightarrow> InterlockingViolation \<Rightarrow> u8 list" where
  "make_nak_frame fb seq_id v =
     encode_frame msg_type_kCommandNak 0 0
       (fb_Finish fb (CreateCommandNak fb seq_id (ucast (viol_reason_code v))
         (Some (fb_CreateString fb (viol_reason_text v)))))"

definition nak_cb :: "'t FlatBuffers \<Rightarrow> EnvelopedCommand \<times> InterlockingViolation \<Rightarrow> 'd DispatchBus \<Rightarrow> 'd DispatchBus" where
  "nak_cb fb nak bus =
     bus\<lparr>bus_gateway := broadcast (make_nak_frame fb (meta_seq_id (env_meta (fst nak))) (snd nak)) (bus_gateway bus)\<rparr>"

definition pip_cb :: "(JsonValue \<Rightarrow> string) \<Rightarrow> PipEvent list \<Rightarrow> 'd DispatchBus \<Rightarrow> 'd DispatchBus" where
  "pip_cb dump events bus = bus\<lparr>bus_db_writer := on_pip_events dump events (bus_db_writer bus)\<rparr>"

text \<open>A tick with its callbacks, in the order in which the tick calls them; the gateway reads the published snapshot.\<close>

definition server_tick ::
    "'t FlatBuffers \<Rightarrow> (JsonValue \<Rightarrow> string) \<Rightarrow> u64 \<Rightarrow> ('sys, 'd) SessionServer \<Rightarrow> ('sys, 'd) SessionServer" where
  "server_tick fb dump timestamp_us srv =
    (let (lp, out) = do_tick (srv_control srv) (srv_loop srv);
         bus = fold (nak_cb fb) (out_naks out) (srv_bus srv);
         bus = fold (pip_cb dump) (out_pip_events out) bus;
         bus = bus\<lparr>bus_gateway := (bus_gateway bus)\<lparr>gw_snapshot := el_snapshot lp\<rparr>\<rparr>;
         bus = (case out_changes out of None \<Rightarrow> bus | Some changes \<Rightarrow> on_state_changes fb timestamp_us changes bus)
     in srv\<lparr>srv_loop := lp, srv_bus := bus\<rparr>)"

text \<open>A command from the network, pushed with its priority, and a line at the terminal.\<close>

definition server_push :: "EnvelopedCommand \<Rightarrow> CommandPriority \<Rightarrow> ('sys, 'd) SessionServer \<Rightarrow> ('sys, 'd) SessionServer" where
  "server_push cmd prio srv =
    (case pq_push cmd prio (el_queue (srv_loop srv)) of
       Inl e \<Rightarrow> srv
     | Inr q \<Rightarrow> srv\<lparr>srv_loop := (srv_loop srv)\<lparr>el_queue := q\<rparr>\<rparr>)"

definition server_line :: "string \<Rightarrow> ('sys, 'd) SessionServer \<Rightarrow> (string + string) \<times> ('sys, 'd) SessionServer" where
  "server_line line srv =
    (let (out, (user, lp)) = process_line (srv_commands srv) (srv_users srv) line (srv_user srv, srv_loop srv)
     in (out, srv\<lparr>srv_user := user, srv_loop := lp\<rparr>))"

inductive server_run :: "'t FlatBuffers \<Rightarrow> ('sys, 'd) SessionServer \<Rightarrow> ('sys, 'd) SessionServer \<Rightarrow> bool" for fb srv where
  run_start: "server_run fb srv srv"
| run_tick: "server_run fb srv s \<Longrightarrow> server_run fb srv (server_tick fb dump timestamp_us s)"
| run_push: "server_run fb srv s \<Longrightarrow> server_run fb srv (server_push cmd prio s)"
| run_line: "server_run fb srv s \<Longrightarrow> server_run fb srv (snd (server_line line s))"

end
