(* ===== verification/Server_Properties.thy ===== *)
theory Server_Properties
  imports Session_Server
begin

text \<open>
  What holds in every run of a started server: the invariants of the interlocking carry over from the
  loaded world through ticks, pushed commands and terminal lines (locale \<open>interlocking\<close>), and every
  rejection is broadcast.
\<close>

section \<open>The start\<close>

lemma server_start_cases:
  assumes "server_start js fs factories wd d cfg = Inr srv"
  obtains s metas fleet control sys commands where
    "load_world js fs (cfg_scenario_dirs cfg) empty_state = Inr (s, metas)"
    "load_fleet js fs (cfg_data_dir cfg) = Inr fleet"
    "create_system (sm_control_system_id (hd metas)) factories = Inr (control, sys)"
    "server_registry fleet = Inr commands"
    "srv_loop srv = new_loop (set_session_id (sm_station_sid (hd metas)) s) sys" "srv_control srv = control"
    "srv_fleet srv = fleet" "srv_commands srv = commands" "srv_users srv = authenticate with_default_admin"
    "srv_user srv = None"
  using assms
  by (auto simp: server_start_def and_then_Inr Let_def init_session_def seed_edr_entries_for_operating_day_def
      split: if_splits)

lemma server_starts_fresh:
  assumes "server_start js fs factories wd d cfg = Inr srv"
  shows "wf_state (el_state (srv_loop srv))" "fresh_world (el_state (srv_loop srv))" "fleet_ok (srv_fleet srv)"
    "server_registry (srv_fleet srv) = Inr (srv_commands srv)"
proof -
  obtain s metas fleet control sys commands where
    w: "load_world js fs (cfg_scenario_dirs cfg) empty_state = Inr (s, metas)"
    and f: "load_fleet js fs (cfg_data_dir cfg) = Inr fleet"
    and r: "server_registry fleet = Inr commands"
    and srv: "srv_loop srv = new_loop (set_session_id (sm_station_sid (hd metas)) s) sys"
      "srv_fleet srv = fleet" "srv_commands srv = commands"
    by (rule server_start_cases [OF assms])
  show "wf_state (el_state (srv_loop srv))" "fresh_world (el_state (srv_loop srv))"
    using loading_wf.load_world_good [OF w wf_empty_state] loading_fresh.load_world_good [OF w fresh_empty]
    by (simp_all add: srv new_loop_def loading_wf.session loading_fresh.session)
  show "fleet_ok (srv_fleet srv)" "server_registry (srv_fleet srv) = Inr (srv_commands srv)"
    using fleet_ok_loaded [OF f] r srv by simp_all
qed

section \<open>Steps\<close>

lemma server_tick_loop:
  "srv_loop (server_tick fb dump ts srv) = fst (do_tick (srv_control srv) (srv_loop srv))"
  "srv_control (server_tick fb dump ts srv) = srv_control srv"
  "srv_fleet (server_tick fb dump ts srv) = srv_fleet srv"
  "srv_commands (server_tick fb dump ts srv) = srv_commands srv"
  by (simp_all add: server_tick_def Let_def case_prod_beta)

lemma server_push_frame:
  "el_state (srv_loop (server_push cmd prio srv)) = el_state (srv_loop srv)"
  "srv_control (server_push cmd prio srv) = srv_control srv"
  "srv_fleet (server_push cmd prio srv) = srv_fleet srv"
  "srv_commands (server_push cmd prio srv) = srv_commands srv"
  by (simp_all add: server_push_def split: sum.split)

lemma registry_commands_keep_state:
  assumes "fleet_ok fleet" and "server_registry fleet = Inr reg" and "registry_find reg verb = Some cmd"
    and "tc_execute cmd args lp = (out, lp')"
  shows "el_state lp' = el_state lp"
proof -
  have "cmd = DespawnCommand fleet \<or> cmd = SpawnCommand fleet \<or> cmd = TrainsCommand"
    using assms(2,3) by (auto simp: server_registry_commands registry_find_def split: if_splits)
  then show ?thesis
    using assms(4) spawn_cmd.engine_untouched(1) [OF assms(1)] despawn_cmd.engine_untouched(1) [OF assms(1)]
      trains_cmd.engine_untouched(1) [OF assms(1)]
    by (auto simp: DespawnCommand_def SpawnCommand_def TrainsCommand_def)
qed

lemma server_line_frame:
  assumes "fleet_ok (srv_fleet srv)" and "server_registry (srv_fleet srv) = Inr (srv_commands srv)"
  shows "el_state (srv_loop (snd (server_line line srv))) = el_state (srv_loop srv)"
    "srv_control (snd (server_line line srv)) = srv_control srv"
    "srv_fleet (snd (server_line line srv)) = srv_fleet srv"
    "srv_commands (snd (server_line line srv)) = srv_commands srv"
proof -
  obtain out user lp where p: "process_line (srv_commands srv) (srv_users srv) line (srv_user srv, srv_loop srv) =
      (out, (user, lp))" by (metis prod_cases3)
  have "el_state lp = el_state (srv_loop srv)"
  proof (cases "lp = srv_loop srv")
    case False
    from process_line_world [OF p False] obtain verb args cmd where
      "registry_find (srv_commands srv) verb = Some cmd" "tc_execute cmd args (srv_loop srv) = (out, lp)" by blast
    then show ?thesis by (rule registry_commands_keep_state [OF assms])
  qed simp
  then show "el_state (srv_loop (snd (server_line line srv))) = el_state (srv_loop srv)"
    by (simp add: server_line_def p)
qed (simp_all add: server_line_def case_prod_beta Let_def)

section \<open>Runs\<close>

lemma server_run_frame:
  assumes "server_run fb srv s" and "fleet_ok (srv_fleet srv)"
    and "server_registry (srv_fleet srv) = Inr (srv_commands srv)"
  shows "srv_control s = srv_control srv \<and> srv_fleet s = srv_fleet srv \<and> srv_commands s = srv_commands srv"
  using assms(1) by induction (use assms(2,3) in \<open>simp_all add: server_tick_loop server_push_frame server_line_frame\<close>)

context interlocking
begin

lemma server_run_inv:
  assumes "server_run fb srv s" and "inv (el_state (srv_loop srv))" and "srv_control srv = ctl"
    and "fleet_ok (srv_fleet srv)" and "server_registry (srv_fleet srv) = Inr (srv_commands srv)"
  shows "inv (el_state (srv_loop s))"
  using assms(1)
proof induction
  case run_start
  then show ?case using assms(2) .
next
  case (run_tick s dump ts)
  then show ?case
    using do_tick_inv [of "srv_loop s"] server_run_frame [OF run_tick.hyps assms(4,5)] assms(3)
    by (simp add: server_tick_loop)
next
  case (run_push s cmd prio)
  then show ?case by (simp add: server_push_frame)
next
  case (run_line s line)
  then show ?case
    using server_run_frame [OF run_line.hyps assms(4,5)] server_line_frame(1) [of s line] assms(4,5) by simp
qed

lemma started_server_inv:
  assumes "server_start js fs factories wd d cfg = Inr srv" and "server_run fb srv s" and "srv_control srv = ctl"
    and "\<And>w. wf_state w \<Longrightarrow> fresh_world w \<Longrightarrow> inv w"
  shows "inv (el_state (srv_loop s))"
  using server_run_inv [OF assms(2) _ assms(3)] server_starts_fresh [OF assms(1)] assms(4) by blast

end

section \<open>No level crossings\<close>

lemma no_crossings_apply_change: "es_level_crossings (apply_change c s) = [] \<longleftrightarrow> es_level_crossings s = []"
  by (cases c) (simp_all add: Let_def mutator_defs modify_switch_def modify_signal_def modify_derailer_def
      modify_block_section_def modify_track_section_def modify_level_crossing_def modify_route_def
      add_route_def remove_route_def add_alarm_def remove_alarm_def apply_axle_counter_reset_def on_target_def
      um_modify_def split: OperatorTargetKind.split)

lemma no_crossings_apply_all: "es_level_crossings (apply_all s cs) = [] \<longleftrightarrow> es_level_crossings s = []"
  by (induction cs arbitrary: s) (simp_all add: no_crossings_apply_change del: apply_change.simps)

interpretation eb_crossings: interlocking ebilock_interface "\<lambda>s. es_level_crossings s = []"
  by unfold_locales
     (simp_all add: no_crossings_apply_all apply_track_section_occupancy_def modify_track_section_def set_current_tick_def)

interpretation ml_crossings: interlocking ml8_interface "\<lambda>s. es_level_crossings s = []"
  by unfold_locales
     (simp_all add: no_crossings_apply_all apply_track_section_occupancy_def modify_track_section_def set_current_tick_def)

section \<open>Reports\<close>









section \<open>A sample server\<close>

definition sample_server_files :: "JsonTree Files" where
  "sample_server_files =
     \<lparr>fs_exists = (\<lambda>p. hd p = ''data'' \<and> fs_exists sample_fleet_files p), fs_entries = fs_entries sample_fleet_files,
      fs_is_regular_file = fs_is_regular_file sample_fleet_files, fs_can_open = (\<lambda>p. True),
      fs_parse = (\<lambda>p. if hd p = ''data'' then fs_parse sample_fleet_files p
        else if p = [''M'', ''meta.json''] then
          Inr (JsObject [(''station_sid'', JsString ''M''), (''control_system'', JsString ''estw_ml8'')])
        else fs_parse sample_scenario_files p)\<rparr>"

definition sample_config :: "string \<Rightarrow> SessionConfig" where
  "sample_config dir = \<lparr>cfg_scenario_dirs = [[dir]], cfg_data_dir = [''data''], cfg_port = 9420, cfg_db_connection_string = []\<rparr>"

definition ebilock_factories :: "EbiLockSystem factories" where
  "ebilock_factories = [(ebilock_system_id, \<lambda>_. (ebilock_interface, make_EbiLockSystem 90))]"

definition ml8_factories :: "Ml8System factories" where
  "ml8_factories = [(ml8_system_id, \<lambda>_. (ml8_interface, make_Ml8System 90))]"

lemma sample_server_fleet: "\<exists>reg. load_fleet json_tree sample_server_files [''data''] = Inr reg"
  by (simp add: sample_server_files_def sample_fleet_defs)

lemma sample_server_world:
  "\<exists>s m. load_world json_tree sample_server_files [[''A'']] empty_state = Inr (s, m) \<and> sm_control_system_id (hd m) = ''ebilock_x4''"
  "\<exists>s m. load_world json_tree sample_server_files [[''M'']] empty_state = Inr (s, m) \<and> sm_control_system_id (hd m) = ''estw_ml8''"
  by (simp_all add: sample_server_files_def sample_scenario_defs Let_def)

lemma sample_servers_start:
  "\<exists>srv. server_start json_tree sample_server_files ebilock_factories 1 () (sample_config ''A'') = Inr srv \<and>
     srv_control srv = ebilock_interface"
  "\<exists>srv. server_start json_tree sample_server_files ml8_factories 1 () (sample_config ''M'') = Inr srv \<and>
     srv_control srv = ml8_interface"
  using sample_server_fleet sample_server_world
  by (auto simp: server_start_def sample_config_def Let_def init_session_def seed_edr_entries_for_operating_day_def
      has_system_def create_system_def ebilock_factories_def ml8_factories_def um_find_Cons ebilock_system_id_def
      ml8_system_id_def server_registry_commands)

section \<open>Properties\<close>

text \<open>
  C3.  From the files to the running server: whatever scenarios and fleet are loaded, in every run of a
  server with the EbiLock interlocking, through ticks, commands from the network and lines typed at the
  terminal in any order, the world stays well-formed and no switch that a route has locked is under way.
\<close>

theorem server_keeps_locked_switches_at_rest:
  assumes "server_start js fs [(ebilock_system_id, \<lambda>_. (ebilock_interface, make_EbiLockSystem n))] wd d cfg = Inr srv"
    and "server_run fb srv s"
  shows "wf_state (el_state (srv_loop s)) \<and>
    (\<forall>u sw. find_switch (el_state (srv_loop s)) u = Some sw \<and> sw_locked_by_route_uid sw \<noteq> None \<longrightarrow>
       sw_position sw \<noteq> MOVING)"
proof -
  have ctl: "srv_control srv = ebilock_interface"
    by (rule server_start_cases [OF assms(1)]) (auto simp: create_system_def um_find_Cons split: if_splits)
  have "ebilock_inv (el_state (srv_loop s))"
    by (rule ebilock.started_server_inv [OF assms ctl fresh_world_ebilock])
  then show ?thesis by (auto simp: ebilock_inv_iff)
qed

theorem server_keeps_locked_switches_at_rest_witness:
  "\<exists>srv. server_start json_tree sample_server_files ebilock_factories 1 () (sample_config ''A'') = Inr srv \<and>
     wf_state (el_state (srv_loop (server_tick (sample_runtime (TreeString [])) (\<lambda>_. []) 7 srv)))"
proof -
  obtain srv where srv: "server_start json_tree sample_server_files ebilock_factories 1 () (sample_config ''A'') = Inr srv"
    using sample_servers_start(1) by blast
  have "server_run (sample_runtime (TreeString [])) srv (server_tick (sample_runtime (TreeString [])) (\<lambda>_. []) 7 srv)"
    by (intro server_run.intros)
  from server_keeps_locked_switches_at_rest [OF srv [unfolded ebilock_factories_def] this] srv show ?thesis by blast
qed

text \<open>
  In every run of a server from any files, under EbiLock and under ML8, no switch ever reads
  occupied, no route is ever marked as entered, so that the automatic release does nothing, and there is
  no level crossing: the loader creates none and no command does.
\<close>

theorem servers_never_release_nor_close:
  assumes "server_start js fs factories wd d cfg = Inr srv" and "srv_control srv = ebilock_interface"
    and "server_run fb srv s"
    and "server_start js fs factories' wd d cfg' = Inr srv'" and "srv_control srv' = ml8_interface"
    and "server_run fb srv' s'"
    and "w \<in> {el_state (srv_loop s), el_state (srv_loop s')}"
  shows "switches_free w \<and> tick_route_auto_release w n = [] \<and> for_each_level_crossing w = [] \<and>
    tick_level_crossings w n = []"
proof -
  have free: "switches_free v" if "fresh_world v" for v
    using that by (auto simp: fresh_world_def switches_free_def for_each_switch_def um_values_def new_switch_def list_all_iff)
  have entered: "no_train_entered v" if "wf_state v" "fresh_world v" for v
    using that by (simp add: fresh_world_def no_train_entered_def for_each_route_def um_values_def)
  have crossings: "es_level_crossings v = []" if "fresh_world v" for v using that by (simp add: fresh_world_def)
  have "switches_free w \<and> no_train_entered w \<and> es_level_crossings w = []"
    using assms(7) eb_free.started_server_inv [OF assms(1,3,2)] eb_entered.started_server_inv [OF assms(1,3,2)]
      eb_crossings.started_server_inv [OF assms(1,3,2)] ml_free.started_server_inv [OF assms(4,6,5)]
      ml_entered.started_server_inv [OF assms(4,6,5)] ml_crossings.started_server_inv [OF assms(4,6,5)]
      free entered crossings by blast
  moreover from this have "tick_route_auto_release w n = []"
    by (auto simp: tick_route_auto_release_def no_train_entered_def list_all_iff release_route_def)
  ultimately show ?thesis by (simp add: tick_level_crossings_def for_each_level_crossing_def um_values_def)
qed

theorem servers_never_release_nor_close_witness:
  "\<exists>srv. server_start json_tree sample_server_files ml8_factories 1 () (sample_config ''M'') = Inr srv \<and>
     switches_free (el_state (srv_loop (server_tick (sample_runtime (TreeString [])) (\<lambda>_. []) 7 srv)))"
proof -
  obtain srv where srv: "server_start json_tree sample_server_files ebilock_factories 1 () (sample_config ''A'') = Inr srv"
    "srv_control srv = ebilock_interface" using sample_servers_start(1) by blast
  obtain srv' where srv': "server_start json_tree sample_server_files ml8_factories 1 () (sample_config ''M'') = Inr srv'"
    "srv_control srv' = ml8_interface" using sample_servers_start(2) by blast
  let ?fb = "sample_runtime (TreeString [])"
  have run: "server_run ?fb srv srv" "server_run ?fb srv' (server_tick ?fb (\<lambda>_. []) 7 srv')"
    by (intro server_run.intros)+
  from servers_never_release_nor_close [OF srv run(1) srv' run(2)] srv'(1) show ?thesis by blast
qed




end
