(* ===== verification/Event_Dispatcher.thy ===== *)
theory Event_Dispatcher
  imports Types
begin

text \<open>
  The event dispatcher, \<^verbatim>\<open>engine/include/engine/core/event_dispatcher.hpp\<close>.  A handler is a value
  of a type \<open>'h\<close>; what it does when it is called is the parameter \<open>run\<close>, which changes a world
  \<open>'w\<close> and, as a handler may subscribe and unsubscribe, the dispatcher itself.  Every operation
  holds the mutex while it touches the list of subscriptions and is one step.
\<close>

type_synonym SubscriptionToken = u64

record 'h EventDispatcher =
  ed_subscriptions :: "(SubscriptionToken \<times> 'h) list"
  ed_next_token :: SubscriptionToken

definition empty_dispatcher :: "'h EventDispatcher" where
  "empty_dispatcher = \<lparr>ed_subscriptions = [], ed_next_token = 0\<rparr>"

definition subscribe :: "'h \<Rightarrow> 'h EventDispatcher \<Rightarrow> SubscriptionToken \<times> 'h EventDispatcher" where
  "subscribe handler d =
    (let token = ed_next_token d
     in (token, d\<lparr>ed_subscriptions := ed_subscriptions d @ [(token, handler)], ed_next_token := token + 1\<rparr>))"

definition unsubscribe :: "SubscriptionToken \<Rightarrow> 'h EventDispatcher \<Rightarrow> 'h EventDispatcher" where
  "unsubscribe token d = d\<lparr>ed_subscriptions := filter (\<lambda>s. fst s \<noteq> token) (ed_subscriptions d)\<rparr>"

definition subscriber_count :: "'h EventDispatcher \<Rightarrow> nat" where
  "subscriber_count d = length (ed_subscriptions d)"

type_synonym ('h, 'e, 'w) handler_run = "'h \<Rightarrow> 'e \<Rightarrow> 'w \<times> 'h EventDispatcher \<Rightarrow> 'w \<times> 'h EventDispatcher"

definition publish :: "('h, 'e, 'w) handler_run \<Rightarrow> 'e \<Rightarrow> 'w \<times> 'h EventDispatcher \<Rightarrow> 'w \<times> 'h EventDispatcher" where
  "publish run event wd =
    (let snapshot = ed_subscriptions (snd wd) in fold (\<lambda>s. run (snd s) event) snapshot wd)"

section \<open>Tokens\<close>

text \<open>
  Until the counter has run through all 64-bit numbers, the tokens in use are below it, in the order
  of their subscriptions and hence distinct.
\<close>

definition tokens_ordered :: "'h EventDispatcher \<Rightarrow> bool" where
  "tokens_ordered d \<longleftrightarrow>
     sorted_wrt (<) (map fst (ed_subscriptions d)) \<and> (\<forall>t \<in> set (map fst (ed_subscriptions d)). t < ed_next_token d)"

lemma tokens_ordered_empty: "tokens_ordered empty_dispatcher"
  by (simp add: tokens_ordered_def empty_dispatcher_def)

lemma tokens_ordered_subscribe:
  assumes "tokens_ordered d" and "ed_next_token d \<noteq> - 1"
  shows "tokens_ordered (snd (subscribe h d))"
proof -
  have "ed_next_token d < ed_next_token d + 1"
  proof -
    have "ed_next_token d + 1 \<noteq> 0" using assms(2) by (metis add_eq_0_iff2)
    then have "unat (ed_next_token d + 1) = unat (ed_next_token d) + 1"
      using unatSuc [of "ed_next_token d"] by (simp add: add.commute)
    then show ?thesis by (simp add: word_less_nat_alt)
  qed
  with assms(1) show ?thesis
    by (auto simp: tokens_ordered_def subscribe_def Let_def sorted_wrt_append intro: less_trans)
qed

lemma tokens_ordered_unsubscribe: "tokens_ordered d \<Longrightarrow> tokens_ordered (unsubscribe t d)"
  by (auto simp: tokens_ordered_def unsubscribe_def sorted_wrt_map sorted_wrt_filter)

lemma length_filter_key:
  "distinct (map fst xs) \<Longrightarrow> (k, v) \<in> set xs \<Longrightarrow> length (filter (\<lambda>x. fst x \<noteq> k) xs) = length xs - 1"
proof (induction xs)
  case (Cons x xs)
  show ?case
  proof (cases "fst x = k")
    case True
    with Cons.prems(1) have "\<forall>y \<in> set xs. fst y \<noteq> k" by (metis distinct.simps(2) image_eqI list.set_map list.simps(9))
    then have "filter (\<lambda>x. fst x \<noteq> k) xs = xs" by (simp add: filter_id_conv)
    with True show ?thesis by simp
  next
    case False
    with Cons show ?thesis by (cases xs) auto
  qed
qed simp

text \<open>Giving back a token removes the one subscription it was issued for.\<close>

lemma unsubscribe_removes_one:
  assumes "tokens_ordered d" and "(t, h) \<in> set (ed_subscriptions d)"
  shows "subscriber_count (unsubscribe t d) = subscriber_count d - 1"
proof -
  have "distinct (map fst (ed_subscriptions d))"
    using assms(1) strict_sorted_iff by (auto simp: tokens_ordered_def)
  with assms(2) show ?thesis
    by (simp add: subscriber_count_def unsubscribe_def length_filter_key)
qed

section \<open>Programs of subscriptions\<close>

datatype 'h subscription_op = Subscribe 'h | Unsubscribe SubscriptionToken

fun apply_op :: "'h subscription_op \<Rightarrow> 'h EventDispatcher \<Rightarrow> 'h EventDispatcher" where
  "apply_op (Subscribe h) d = snd (subscribe h d)"
| "apply_op (Unsubscribe t) d = unsubscribe t d"

fun subscriptions_made :: "'h subscription_op list \<Rightarrow> nat" where
  "subscriptions_made [] = 0"
| "subscriptions_made (Subscribe h # ops) = Suc (subscriptions_made ops)"
| "subscriptions_made (Unsubscribe t # ops) = subscriptions_made ops"

text \<open>
  What a history of subscriptions promises: the handlers that subscribed and whose token has not
  been given back since, oldest first.  The token of a subscription is its number.
\<close>

fun promised :: "nat \<Rightarrow> 'h subscription_op list \<Rightarrow> 'h list" where
  "promised n [] = []"
| "promised n (Subscribe h # ops) =
     (if Unsubscribe (of_nat n) \<in> set ops then promised (Suc n) ops else h # promised (Suc n) ops)"
| "promised n (Unsubscribe t # ops) = promised n ops"

lemma subscriptions_promised:
  assumes "ed_next_token d = of_nat n"
  shows "map snd (ed_subscriptions (fold apply_op ops d)) =
    map snd (filter (\<lambda>s. Unsubscribe (fst s) \<notin> set ops) (ed_subscriptions d)) @ promised n ops"
  using assms
proof (induction n ops arbitrary: d rule: promised.induct)
  case (2 n h ops)
  then have "ed_next_token (snd (subscribe h d)) = of_nat (Suc n)" by (simp add: subscribe_def Let_def)
  with 2 show ?case by (auto simp: subscribe_def Let_def)
next
  case (3 n t ops)
  then show ?case by (auto simp: unsubscribe_def intro!: arg_cong [where f = "map snd"] filter_cong)
qed simp

lemma fold_calls:
  assumes "\<And>h wd. calls (fst (run h event wd)) = calls (fst wd) @ [h]"
  shows "calls (fst (fold (\<lambda>s. run (snd s) event) ss wd)) = calls (fst wd) @ map snd ss"
  by (induction ss arbitrary: wd) (simp_all add: assms)

text \<open>
  An event is delivered to the handlers that are subscribed when it is published, each once and in
  the order of their subscription, whatever the handlers themselves do to the dispatcher meanwhile.  After
  any history of subscriptions these are the handlers whose token has not been given back.
\<close>

theorem publish_reaches_subscribers:
  assumes "\<And>h wd. calls (fst (run h event wd)) = calls (fst wd) @ [h]"
  shows "calls (fst (publish run event (w, fold apply_op ops empty_dispatcher))) = calls w @ promised 0 ops"
proof -
  have "map snd (ed_subscriptions (fold apply_op ops empty_dispatcher)) = promised 0 ops"
    using subscriptions_promised [of empty_dispatcher 0 ops] by (simp add: empty_dispatcher_def)
  then show ?thesis
    by (simp add: publish_def fold_calls [where calls = calls and run = run and event = event, OF assms])
qed

text \<open>Handlers that cancel every subscription below 8 and subscribe again do not disturb the delivery.\<close>

definition meddling_run :: "(nat, string, nat list) handler_run" where
  "meddling_run h event wd =
     (fst wd @ [h], snd (subscribe (h + 100) (fold unsubscribe [0, 1, 2, 3, 4, 5, 6, 7] (snd wd))))"

theorem publish_reaches_subscribers_witness:
  "fst (publish meddling_run ''e'' ([], fold apply_op [Subscribe 7, Subscribe 8, Unsubscribe 0, Subscribe 9] empty_dispatcher))
     = [8, 9]"
proof -
  have "(fst (meddling_run h ''e'' wd)) = fst wd @ [h]" for h wd by (simp add: meddling_run_def)
  from publish_reaches_subscribers [where calls = "\<lambda>w. w" and run = meddling_run and event = "''e''" and w = "[]",
      OF this, of "[Subscribe 7, Subscribe 8, Unsubscribe 0, Subscribe 9]"]
  show ?thesis by simp
qed

end
