(* ===== verification/Timetable.thy ===== *)
theory Timetable
  imports Fleet_Registry
begin

text \<open>
  The timetable catalogue, \<^verbatim>\<open>engine/include/engine/timetable/timetable_catalog.hpp\<close>, and its
  loader, \<^verbatim>\<open>engine/src/timetable/timetable_catalog_loader.cpp\<close>.  The loader reports on the error
  stream every file it cannot read and goes on; that output is not represented.  \<open>dir_error\<close> says
  of which directories the iterator reports an error, which leaves nothing to iterate over.
\<close>

section \<open>The catalogue\<close>

datatype TimetablePointType =
  PT_STATION | PASSENGER_STOP | JUNCTION_POST | SIDING_POST | LOADING_POINT | PASSING_LOOP | BORDER_POINT
  | TECHNICAL_POINT | PT_OTHER

record TimetablePoint =
  tp_uid :: UID
  tp_name :: string
  tp_point_type :: TimetablePointType
  tp_short_name :: "string option"
  tp_abbreviation :: "string option"
  tp_aliases :: "string list"
  tp_external_ids :: "(string, string) umap"
  tp_railway_lines :: "string list"
  tp_kilometer :: "float32 option"

record TimetableConnection =
  tc_uid :: UID
  tc_from_uid :: UID
  tc_to_uid :: UID
  tc_lines :: "string list"

record TimetableCatalog =
  tcat_points :: "(UID, TimetablePoint) umap"
  tcat_connections :: "(UID, TimetableConnection) umap"
  tcat_adjacency_list :: "(UID, UID list) umap"

definition empty_catalog :: TimetableCatalog where
  "empty_catalog = \<lparr>tcat_points = [], tcat_connections = [], tcat_adjacency_list = []\<rparr>"

definition add_point :: "TimetablePoint \<Rightarrow> TimetableCatalog \<Rightarrow> TimetableCatalog" where
  "add_point point cat = cat\<lparr>tcat_points := um_assign (tp_uid point) point (tcat_points cat)\<rparr>"

text \<open>\<^verbatim>\<open>adjacency_list_[from].push_back(to)\<close>: a list that is not there yet is created empty.\<close>

definition add_connection :: "TimetableConnection \<Rightarrow> TimetableCatalog \<Rightarrow> TimetableCatalog" where
  "add_connection conn cat =
     cat\<lparr>tcat_connections := um_assign (tc_uid conn) conn (tcat_connections cat),
         tcat_adjacency_list :=
           um_modify (tc_from_uid conn) (\<lambda>tos. tos @ [tc_to_uid conn])
             (um_emplace (tc_from_uid conn) [] (tcat_adjacency_list cat))\<rparr>"

definition contains_point :: "TimetableCatalog \<Rightarrow> UID \<Rightarrow> bool" where
  "contains_point cat uid \<longleftrightarrow> um_find (tcat_points cat) uid \<noteq> None"

definition find_point :: "TimetableCatalog \<Rightarrow> UID \<Rightarrow> TimetablePoint option" where
  "find_point cat uid = um_find (tcat_points cat) uid"

definition find_point_by_name :: "TimetableCatalog \<Rightarrow> string \<Rightarrow> TimetablePoint option" where
  "find_point_by_name cat name =
     first_some (\<lambda>pt. if tp_name pt = name then Some pt else None) (um_values (tcat_points cat))"

definition are_connected :: "TimetableCatalog \<Rightarrow> UID \<Rightarrow> UID \<Rightarrow> bool" where
  "are_connected cat from_uid to_uid =
    (case um_find (tcat_adjacency_list cat) from_uid of
       Some neighbors \<Rightarrow> list_ex (\<lambda>neighbor. neighbor = to_uid) neighbors
     | None \<Rightarrow> False)"

definition has_connections :: "TimetableCatalog \<Rightarrow> bool" where
  "has_connections cat \<longleftrightarrow> tcat_connections cat \<noteq> []"

definition get_all_points :: "TimetableCatalog \<Rightarrow> (UID, TimetablePoint) umap" where
  "get_all_points cat = tcat_points cat"

section \<open>The loader\<close>

definition parse_point_type :: "string \<Rightarrow> TimetablePointType" where
  "parse_point_type type_str =
    (if type_str = ''STATION'' then PT_STATION
     else if type_str = ''PASSENGER_STOP'' then PASSENGER_STOP
     else if type_str = ''JUNCTION_POST'' then JUNCTION_POST
     else if type_str = ''SIDING_POST'' then SIDING_POST
     else if type_str = ''LOADING_POINT'' then LOADING_POINT
     else if type_str = ''PASSING_LOOP'' then PASSING_LOOP
     else if type_str = ''BORDER_POINT'' then BORDER_POINT
     else if type_str = ''TECHNICAL_POINT'' then TECHNICAL_POINT
     else PT_OTHER)"

text \<open>\<^verbatim>\<open>if (j.contains(k)) x = j[k].get<T>()\<close>\<close>

definition if_member :: "'j Json \<Rightarrow> ('j \<Rightarrow> string + 'a) \<Rightarrow> 'j \<Rightarrow> string \<Rightarrow> 'a \<Rightarrow> string + 'a" where
  "if_member js get j k d = (if j_contains js j k then and_then (j_at js j k) get else Inr d)"

definition string_list :: "'j Json \<Rightarrow> 'j \<Rightarrow> string + string list" where
  "string_list js v = map_result (j_get_string js) (j_elements js v)"

definition string_map :: "'j Json \<Rightarrow> 'j \<Rightarrow> string + (string, string) umap" where
  "string_map js v =
     and_then (j_items js v) (\<lambda>items.
       fold_result (\<lambda>(k, x) m. map_sum id (\<lambda>s. um_assign k s m) (j_get_string js x)) items [])"

definition read_timetable_point :: "'j Json \<Rightarrow> 'j \<Rightarrow> string + TimetablePoint" where
  "read_timetable_point js j =
     and_then (j_value js (j_get_u64 js) j ''uid'' 0) (\<lambda>uid.
     and_then (j_value js (j_get_string js) j ''name'' []) (\<lambda>name.
     and_then (j_value js (j_get_string js) j ''point_type'' ''OTHER'') (\<lambda>pt_type.
     and_then (if_member js (\<lambda>v. map_sum id Some (j_get_string js v)) j ''short_name'' None) (\<lambda>short_name.
     and_then (if_member js (\<lambda>v. map_sum id Some (j_get_string js v)) j ''abbreviation'' None) (\<lambda>abbreviation.
     and_then (if_member js (string_list js) j ''aliases'' []) (\<lambda>aliases.
     and_then (if_member js (string_map js) j ''external_ids'' []) (\<lambda>external_ids.
     and_then (if_member js (string_list js) j ''railway_lines'' []) (\<lambda>railway_lines.
     and_then (if_member js (\<lambda>v. map_sum id Some (j_get_float js v)) j ''kilometer'' None) (\<lambda>kilometer.
       Inr \<lparr>tp_uid = uid, tp_name = name, tp_point_type = parse_point_type pt_type, tp_short_name = short_name,
            tp_abbreviation = abbreviation, tp_aliases = aliases, tp_external_ids = external_ids,
            tp_railway_lines = railway_lines, tp_kilometer = kilometer\<rparr>)))))))))"

definition read_timetable_connection :: "'j Json \<Rightarrow> 'j \<Rightarrow> string + TimetableConnection" where
  "read_timetable_connection js j =
     and_then (j_value js (j_get_u64 js) j ''uid'' 0) (\<lambda>uid.
     and_then (j_value js (j_get_u64 js) j ''from_uid'' 0) (\<lambda>from_uid.
     and_then (j_value js (j_get_u64 js) j ''to_uid'' 0) (\<lambda>to_uid.
     and_then (if_member js (string_list js) j ''lines'' []) (\<lambda>lines.
       Inr \<lparr>tc_uid = uid, tc_from_uid = from_uid, tc_to_uid = to_uid, tc_lines = lines\<rparr>))))"

text \<open>One file of a directory: skipped when it cannot be opened, parsed or read.\<close>

definition read_catalog_file :: "'j Files \<Rightarrow> ('j \<Rightarrow> string + 'a) \<Rightarrow> path \<Rightarrow> 'a option" where
  "read_catalog_file fs reader p =
    (if \<not> is_json_file fs p \<or> \<not> fs_can_open fs p then None
     else case and_then (fs_parse fs p) reader of Inr x \<Rightarrow> Some x | Inl _ \<Rightarrow> None)"

definition load_catalog_dir ::
    "'j Files \<Rightarrow> (path \<Rightarrow> bool) \<Rightarrow> ('j \<Rightarrow> string + 'a) \<Rightarrow> ('a \<Rightarrow> 'c \<Rightarrow> 'c) \<Rightarrow> path \<Rightarrow> 'c \<times> bool \<Rightarrow> 'c \<times> bool" where
  "load_catalog_dir fs dir_error reader add dir st =
    (if \<not> fs_exists fs dir then st
     else if dir_error dir then (fst st, True)
     else (fold (\<lambda>p cat. case read_catalog_file fs reader p of Some x \<Rightarrow> add x cat | None \<Rightarrow> cat)
             (fs_entries fs dir) (fst st), False))"

definition load_catalog :: "'j Json \<Rightarrow> 'j Files \<Rightarrow> (path \<Rightarrow> bool) \<Rightarrow> path \<Rightarrow> TimetableCatalog \<times> bool" where
  "load_catalog js fs dir_error data_root =
     load_catalog_dir fs dir_error (read_timetable_connection js) add_connection
       (data_root @ [''data'', ''timetable_connections''])
       (load_catalog_dir fs dir_error (read_timetable_point js) add_point
         (data_root @ [''data'', ''timetable_points'']) (empty_catalog, False))"

section \<open>The catalogue as a graph\<close>

named_theorems timetable_simps \<open>queries after an addition to the catalogue\<close>

lemma are_connected_add_connection [timetable_simps]:
  "are_connected (add_connection c cat) f t \<longleftrightarrow> are_connected cat f t \<or> (tc_from_uid c = f \<and> tc_to_uid c = t)"
  by (auto simp: are_connected_def add_connection_def um_simps list_ex_iff split: option.splits)

lemma add_point_queries [timetable_simps]:
  "are_connected (add_point pt cat) = are_connected cat"
  "find_point (add_point pt cat) u = (if u = tp_uid pt then Some pt else find_point cat u)"
  "find_point (add_connection c cat) u = find_point cat u"
  by (auto simp: are_connected_def add_point_def find_point_def add_connection_def um_simps intro!: ext)

lemma empty_catalog_queries [timetable_simps]:
  "are_connected empty_catalog f t = False" "find_point empty_catalog u = None"
  by (simp_all add: are_connected_def empty_catalog_def find_point_def)

lemma find_point_by_name_sound:
  "find_point_by_name cat name = Some pt \<Longrightarrow> pt \<in> set (um_values (tcat_points cat)) \<and> tp_name pt = name"
  unfolding find_point_by_name_def by (auto dest!: first_some_Some split: if_splits)

lemma find_point_by_name_complete:
  "find_point_by_name cat name = None \<longleftrightarrow> (\<forall>pt \<in> set (um_values (tcat_points cat)). tp_name pt \<noteq> name)"
  by (auto simp: find_point_by_name_def first_some_None split: if_splits)

text \<open>The contents of the readable files of a directory, in the order of the iteration.\<close>

definition catalog_items :: "'j Files \<Rightarrow> ('j \<Rightarrow> string + 'a) \<Rightarrow> path \<Rightarrow> 'a list" where
  "catalog_items fs reader dir = List.map_filter (read_catalog_file fs reader) (fs_entries fs dir)"

lemma fold_map_filter:
  "fold (\<lambda>p c. case g p of Some x \<Rightarrow> add x c | None \<Rightarrow> c) ps c = fold add (List.map_filter g ps) c"
  by (induction ps arbitrary: c) (simp_all split: option.splits)

lemma load_catalog_dir_items:
  "fs_exists fs dir \<Longrightarrow> \<not> dir_error dir \<Longrightarrow>
    load_catalog_dir fs dir_error reader add dir st = (fold add (catalog_items fs reader dir) (fst st), False)"
  by (simp add: load_catalog_dir_def catalog_items_def fold_map_filter)

lemma are_connected_fold:
  "are_connected (fold add_connection cs cat) f t \<longleftrightarrow>
    are_connected cat f t \<or> (\<exists>c \<in> set cs. tc_from_uid c = f \<and> tc_to_uid c = t)"
  by (induction cs arbitrary: cat) (auto simp: timetable_simps)

lemma find_point_fold:
  "find_point (fold add_point pts cat) u =
    (case filter (\<lambda>pt. tp_uid pt = u) pts of [] \<Rightarrow> find_point cat u | xs \<Rightarrow> Some (last xs))"
proof (induction pts arbitrary: cat)
  case (Cons pt pts)
  then show ?case by (auto simp: timetable_simps split: list.splits)
qed simp

lemma catalog_frame:
  "find_point (fold add_connection cs cat) u = find_point cat u"
  "are_connected (fold add_point pts cat) = are_connected cat"
  by (induction cs arbitrary: cat) (simp_all add: timetable_simps, induction pts arbitrary: cat, simp_all add: timetable_simps)

text \<open>
  The loaded catalogue is what the readable files say.  A point is found under its UID as the last
  file with this UID describes it, and two points are connected exactly when a connection file leads
  from the first to the second; files that are broken have no effect on the others.
\<close>

theorem loaded_catalog_answers_from_files:
  assumes "\<And>dir. \<not> dir_error dir"
    and "fs_exists fs (data_root @ [''data'', ''timetable_points''])"
    and "fs_exists fs (data_root @ [''data'', ''timetable_connections''])"
    and points_def: "points = catalog_items fs (read_timetable_point js) (data_root @ [''data'', ''timetable_points''])"
    and connections_def: "connections =
      catalog_items fs (read_timetable_connection js) (data_root @ [''data'', ''timetable_connections''])"
  shows "\<exists>cat. load_catalog js fs dir_error data_root = (cat, False) \<and>
    (\<forall>u. find_point cat u =
       (case filter (\<lambda>pt. tp_uid pt = u) points of [] \<Rightarrow> None | xs \<Rightarrow> Some (last xs))) \<and>
    (\<forall>f t. are_connected cat f t \<longleftrightarrow> (f, t) \<in> set (map (\<lambda>c. (tc_from_uid c, tc_to_uid c)) connections))"
proof -
  let ?cat = "fold add_connection connections (fold add_point points empty_catalog)"
  have "load_catalog js fs dir_error data_root = (?cat, False)"
    using assms(1-3) by (simp add: load_catalog_def load_catalog_dir_items points_def connections_def)
  moreover have "find_point ?cat u =
      (case filter (\<lambda>pt. tp_uid pt = u) points of [] \<Rightarrow> None | xs \<Rightarrow> Some (last xs))" for u
    by (simp add: catalog_frame find_point_fold timetable_simps split: list.split)
  moreover have "are_connected ?cat f t \<longleftrightarrow> (f, t) \<in> set (map (\<lambda>c. (tc_from_uid c, tc_to_uid c)) connections)" for f t
    by (force simp: are_connected_fold catalog_frame timetable_simps)
  ultimately show ?thesis by blast
qed

section \<open>A small data directory\<close>

definition timetable_dir :: "string \<Rightarrow> path" where
  "timetable_dir name = [''root'', ''data'', name]"

definition timetable_docs :: "(path \<times> JsonTree) list" where
  "timetable_docs =
     [(timetable_dir ''timetable_points'' @ [''a.json''], JsObject [(''uid'', JsUnsigned 1), (''name'', JsString ''A'')]),
      (timetable_dir ''timetable_points'' @ [''b.json''], JsObject [(''uid'', JsString ''2'')]),
      (timetable_dir ''timetable_connections'' @ [''c.json''],
        JsObject [(''uid'', JsUnsigned 9), (''from_uid'', JsUnsigned 1), (''to_uid'', JsUnsigned 2)]),
      (timetable_dir ''timetable_connections'' @ [''d.json''],
        JsObject [(''uid'', JsUnsigned 9), (''from_uid'', JsUnsigned 1), (''to_uid'', JsUnsigned 3)])]"

definition timetable_files :: "JsonTree Files" where
  "timetable_files =
     \<lparr>fs_exists = (\<lambda>p. True),
      fs_entries = (\<lambda>p. filter (\<lambda>q. take (length p) q = p) (map fst timetable_docs)),
      fs_is_regular_file = (\<lambda>p. map_of timetable_docs p \<noteq> None), fs_can_open = (\<lambda>p. True),
      fs_parse = (\<lambda>p. case map_of timetable_docs p of Some j \<Rightarrow> Inr j | None \<Rightarrow> Inl ''parse error'')\<rparr>"

lemma timetable_sample_items:
  "catalog_items timetable_files (read_timetable_point json_tree) [''root'', ''data'', ''timetable_points''] =
    [\<lparr>tp_uid = 1, tp_name = ''A'', tp_point_type = PT_OTHER, tp_short_name = None, tp_abbreviation = None,
      tp_aliases = [], tp_external_ids = [], tp_railway_lines = [], tp_kilometer = None\<rparr>]"
  "catalog_items timetable_files (read_timetable_connection json_tree) [''root'', ''data'', ''timetable_connections''] =
    [\<lparr>tc_uid = 9, tc_from_uid = 1, tc_to_uid = 2, tc_lines = []\<rparr>,
     \<lparr>tc_uid = 9, tc_from_uid = 1, tc_to_uid = 3, tc_lines = []\<rparr>]"
  by code_simp+

theorem loaded_catalog_answers_from_files_witness:
  "\<exists>cat. load_catalog json_tree timetable_files (\<lambda>_. False) [''root''] = (cat, False) \<and>
     map_option tp_name (find_point cat 1) = Some ''A'' \<and> find_point cat 2 = None \<and>
     are_connected cat 1 2 \<and> \<not> are_connected cat 2 1"
proof -
  have "fs_exists timetable_files p" for p by (simp add: timetable_files_def)
  then show ?thesis
    using loaded_catalog_answers_from_files [of "\<lambda>_. False" timetable_files "[''root'']" _ json_tree, OF _ _ _ refl refl]
    by (auto simp: timetable_sample_items)
qed

text \<open>
  A connection that a later file of the same UID replaces stays in the adjacency list: the points of the
  old one remain connected although no connection of the catalogue joins them.
\<close>

theorem replaced_connection_stays_connected:
  "let cat = fst (load_catalog json_tree timetable_files (\<lambda>_. False) [''root''])
   in are_connected cat 1 2 \<and> map tc_to_uid (um_values (tcat_connections cat)) = [3]"
  by code_simp

text \<open>An error that the iteration over the points reports is overwritten by the one over the connections.\<close>

theorem points_error_is_lost:
  assumes "dir_error (data_root @ [''data'', ''timetable_points''])"
    and "fs_exists fs (data_root @ [''data'', ''timetable_connections''])"
    and "\<not> dir_error (data_root @ [''data'', ''timetable_connections''])"
  shows "snd (load_catalog js fs dir_error data_root) = False"
  using assms by (simp add: load_catalog_def load_catalog_dir_items)

end
