(* ===== verification/Scenario_Validation.thy ===== *)
theory Scenario_Validation
  imports Topology_Properties
begin

text \<open>
  The scenario validators, \<^verbatim>\<open>libscenario_validation\<close>: \<^verbatim>\<open>validation_result.cpp\<close>,
  \<^verbatim>\<open>layer1_validator.cpp\<close> (fields and references of the two documents),
  \<^verbatim>\<open>layer2_validator.cpp\<close> (consistency of UIDs) and the stub \<^verbatim>\<open>layer3_validator.cpp\<close>.
  The conversions of the JSON library may throw on values of a wrong type, and the validators do not catch
  that, so a validator returns the text of an exception or the list of issues.
\<close>

section \<open>Results\<close>

datatype Severity = WARNING | ERROR

record ValidationIssue =
  vi_severity :: Severity
  vi_code :: string
  vi_message :: string
  vi_gid :: "string option"

type_synonym ValidationResult = "ValidationIssue list"

definition validation_ok :: "ValidationResult \<Rightarrow> bool" where
  "validation_ok issues \<longleftrightarrow> \<not> list_ex (\<lambda>i. vi_severity i = ERROR) issues"

definition error_count :: "ValidationResult \<Rightarrow> int" where
  "error_count issues = sint (of_nat (length (filter (\<lambda>i. vi_severity i = ERROR) issues)) :: 32 word)"

definition merge_results :: "ValidationResult \<Rightarrow> ValidationResult \<Rightarrow> ValidationResult" where
  "merge_results issues other = issues @ other"

definition issue :: "string \<Rightarrow> string \<Rightarrow> ValidationIssue" where
  "issue code message = \<lparr>vi_severity = ERROR, vi_code = code, vi_message = message, vi_gid = None\<rparr>"

definition issue_if :: "bool \<Rightarrow> string \<Rightarrow> string \<Rightarrow> ValidationResult" where
  "issue_if bad code message = (if bad then [issue code message] else [])"

section \<open>Access to the documents\<close>

text \<open>\<^verbatim>\<open>doc.value(key, json::array())\<close>, as a range\<close>

definition array_member :: "'j Json \<Rightarrow> 'j \<Rightarrow> string \<Rightarrow> string + 'j list" where
  "array_member js doc key = j_value js (\<lambda>v. Inr (j_elements js v)) doc key []"

text \<open>\<^verbatim>\<open>obj.contains(k) && obj[k].is_number_unsigned()\<close>, and then the number\<close>

definition unsigned_member :: "'j Json \<Rightarrow> 'j \<Rightarrow> string \<Rightarrow> string + u64 option" where
  "unsigned_member js obj k =
    (if has_member js (j_is_number_unsigned js) obj k
     then and_then (j_at js obj k) (\<lambda>v. map_sum id Some (j_get_u64 js v)) else Inr None)"

definition value_or_zero :: "u64 option \<Rightarrow> u64" where
  "value_or_zero v = (case v of Some u \<Rightarrow> u | None \<Rightarrow> 0)"

text \<open>A loop over the elements of a range, each of which gives a list of results\<close>

definition concat_result :: "('a \<Rightarrow> 'e + 'b list) \<Rightarrow> 'a list \<Rightarrow> 'e + 'b list" where
  "concat_result f xs = map_sum id concat (map_result f xs)"

section \<open>Layer 1\<close>

definition MAX_SAFE_JSON_INT :: u64 where
  "MAX_SAFE_JSON_INT = push_bit 53 1 - 1"

definition check_required_fields :: "'j Json \<Rightarrow> 'j \<Rightarrow> string \<Rightarrow> string + ValidationResult" where
  "check_required_fields js obj ctx =
     and_then (unsigned_member js obj ''uid'') (\<lambda>uid.
     and_then
      (if has_member js (j_is_string js) obj ''pID''
       then and_then (j_at js obj ''pID'') (\<lambda>v. map_sum id (\<lambda>s. s = []) (j_get_string js v)) else Inr True) (\<lambda>bad_pid.
       Inr (issue_if (case uid of None \<Rightarrow> True | Some u \<Rightarrow> u = 0 \<or> u > MAX_SAFE_JSON_INT) ''L1-001''
              (ctx @ '': required field '' @ quoted ''uid'' @ '' is missing, zero, or exceeds 2^53-1'') @
            issue_if bad_pid ''L1-001'' (ctx @ '': required field '' @ quoted ''pID'' @ '' is missing or empty''))))"

fun check_duplicate_uids :: "u64 set \<Rightarrow> u64 list \<Rightarrow> ValidationResult" where
  "check_duplicate_uids seen [] = []"
| "check_duplicate_uids seen (uid # uids) =
    (if uid = 0 then check_duplicate_uids seen uids
     else if uid \<in> seen then issue ''L1-002'' (''Duplicate UID: '' @ u64_to_string uid) # check_duplicate_uids seen uids
     else check_duplicate_uids (insert uid seen) uids)"

definition switch_legs :: "string list" where
  "switch_legs = [''trunk'', ''straight'', ''divergent'']"

definition leg_iz_uid_field :: "'j Json \<Rightarrow> 'j \<Rightarrow> string \<Rightarrow> string + u64 list" where
  "leg_iz_uid_field js sw leg =
    (if j_contains js sw leg then
       and_then (j_at js sw leg) (\<lambda>l.
         if j_contains js l ''izUID'' then
           and_then (j_at js l ''izUID'') (\<lambda>v. map_sum id (\<lambda>iz. if iz \<noteq> 0 then [iz] else []) (j_get_u64 js v))
         else Inr [])
     else Inr [])"

definition collect_switch_iz_uids :: "'j Json \<Rightarrow> 'j \<Rightarrow> string + u64 list" where
  "collect_switch_iz_uids js topo =
     and_then (array_member js topo ''switches'') (\<lambda>sws.
       concat_result (\<lambda>sw. concat_result (leg_iz_uid_field js sw) switch_legs) sws)"

text \<open>\<^verbatim>\<open>collect_section_uids\<close>, \<^verbatim>\<open>collect_signal_uids\<close> and \<^verbatim>\<open>collect_uids\<close> of layer 2\<close>

definition collect_uids :: "'j Json \<Rightarrow> 'j list \<Rightarrow> string + u64 list" where
  "collect_uids js arr =
     concat_result (\<lambda>obj. map_sum id (\<lambda>uid. case uid of Some u \<Rightarrow> [u] | None \<Rightarrow> []) (unsigned_member js obj ''uid'')) arr"

definition collect_uids_of :: "'j Json \<Rightarrow> 'j \<Rightarrow> string \<Rightarrow> string + u64 list" where
  "collect_uids_of js doc key = and_then (array_member js doc key) (collect_uids js)"

definition kValidAspects :: "string list" where
  "kValidAspects =
     [''STOP'', ''S1_STOP'', ''CAUTION'', ''PROCEED'', ''CLEAR'', ''CAUTION_THEN_STOP'', ''SHUNTING'', ''REPEAT'',
      ''S2_PROCEED'', ''S3_PROCEED_40'', ''MS1_STOP'', ''MS2_SHUNTING_ALLOWED'']"

definition track_sides :: "string list" where
  "track_sides = [''sideA'', ''sideB'']"

definition check_signal_ref ::
    "'j Json \<Rightarrow> u64 list \<Rightarrow> u64 \<Rightarrow> string \<Rightarrow> 'j \<Rightarrow> string + ValidationResult" where
  "check_signal_ref js sig_uids uid side v =
    (if \<not> j_is_number_unsigned js v then Inr []
     else map_sum id (\<lambda>sig_uid. issue_if (sig_uid \<noteq> 0 \<and> sig_uid \<notin> set sig_uids) ''L1-004''
            (''TrackSection uid='' @ u64_to_string uid @ '' '' @ side @ ''.signalUIDs[] references unknown signal uid='' @
             u64_to_string sig_uid)) (j_get_u64 js v))"

definition check_track_side ::
    "'j Json \<Rightarrow> u64 list \<Rightarrow> u64 list \<Rightarrow> u64 \<Rightarrow> 'j \<Rightarrow> string \<Rightarrow> string + ValidationResult" where
  "check_track_side js switch_iz_uids sig_uids uid ot side =
    (if \<not> j_contains js ot side then Inr [] else
     and_then (j_at js ot side) (\<lambda>s.
     and_then (unsigned_member js s ''izUID'') (\<lambda>iz_field.
     let iz = value_or_zero iz_field;
         iz_issues = issue_if (iz \<noteq> 0 \<and> iz \<notin> set switch_iz_uids) ''L1-003''
           (''TrackSection uid='' @ u64_to_string uid @ '' '' @ side @ ''.izUID='' @ u64_to_string iz @
            '' does not match any switch leg Iz counter'') in
     and_then
      (if j_contains js s ''signalUIDs''
       then and_then (j_at js s ''signalUIDs'') (\<lambda>vs.
              concat_result (check_signal_ref js sig_uids uid side) (j_elements js vs))
       else Inr []) (\<lambda>sig_issues.
       Inr (iz_issues @ sig_issues)))))"

text \<open>The checks of one object, with the UIDs it adds to the list of all UIDs\<close>

type_synonym object_check = "ValidationResult \<times> u64 list"

definition check_plain_object :: "'j Json \<Rightarrow> string \<Rightarrow> 'j \<Rightarrow> string + object_check" where
  "check_plain_object js ctx obj =
     and_then (check_required_fields js obj ctx) (\<lambda>issues.
     and_then (unsigned_member js obj ''uid'') (\<lambda>uid.
       Inr (issues, case uid of Some u \<Rightarrow> [u] | None \<Rightarrow> [])))"

definition check_track_section :: "'j Json \<Rightarrow> u64 list \<Rightarrow> u64 list \<Rightarrow> 'j \<Rightarrow> string + object_check" where
  "check_track_section js switch_iz_uids sig_uids ot =
     and_then (check_required_fields js ot ''track_section'') (\<lambda>issues.
     and_then (unsigned_member js ot ''uid'') (\<lambda>uid_field.
     let uid = value_or_zero uid_field in
     and_then (concat_result (check_track_side js switch_iz_uids sig_uids uid ot) track_sides) (\<lambda>side_issues.
       Inr (issues @ side_issues, [uid]))))"

definition check_governs_section :: "'j Json \<Rightarrow> u64 list \<Rightarrow> u64 \<Rightarrow> 'j \<Rightarrow> string + ValidationResult" where
  "check_governs_section js section_uids uid sig =
    (if \<not> j_contains js sig ''governs_section'' then Inr []
     else and_then (j_at js sig ''governs_section'') (\<lambda>v.
       map_sum id (\<lambda>ot_uid. issue_if (ot_uid \<noteq> 0 \<and> ot_uid \<notin> set section_uids) ''L1-005''
         (''Signal uid='' @ u64_to_string uid @ '' governs_section='' @ u64_to_string ot_uid @
          '' does not reference a known track_section'')) (j_get_u64 js v)))"

definition check_initial_aspect :: "'j Json \<Rightarrow> u64 \<Rightarrow> 'j \<Rightarrow> string + ValidationResult" where
  "check_initial_aspect js uid sig =
    (if \<not> j_contains js sig ''initial_aspect'' then Inr []
     else and_then (j_at js sig ''initial_aspect'') (\<lambda>v.
       map_sum id (\<lambda>aspect. issue_if (aspect \<notin> set kValidAspects) ''L1-006''
         (''Signal uid='' @ u64_to_string uid @ '' has invalid initial_aspect '' @ quoted aspect)) (j_get_string js v)))"

definition check_signal :: "'j Json \<Rightarrow> u64 list \<Rightarrow> 'j \<Rightarrow> string + object_check" where
  "check_signal js section_uids sig =
     and_then (check_required_fields js sig ''signal'') (\<lambda>issues.
     and_then (unsigned_member js sig ''uid'') (\<lambda>uid_field.
     let uid = value_or_zero uid_field in
     and_then (check_governs_section js section_uids uid sig) (\<lambda>section_issues.
     and_then (check_initial_aspect js uid sig) (\<lambda>aspect_issues.
       Inr (issues @ section_issues @ aspect_issues, [uid])))))"

definition check_objects ::
    "'j Json \<Rightarrow> 'j \<Rightarrow> string \<Rightarrow> ('j \<Rightarrow> string + object_check) \<Rightarrow> string + object_check" where
  "check_objects js doc key check =
     and_then (array_member js doc key) (\<lambda>objs.
       map_sum id (\<lambda>rs. (concat (map fst rs), concat (map snd rs))) (map_result check objs))"

definition layer1_validate :: "'j Json \<Rightarrow> 'j \<Rightarrow> 'j \<Rightarrow> string + ValidationResult" where
  "layer1_validate js topo objects =
     and_then (check_objects js topo ''boundary_nodes'' (check_plain_object js ''boundary_node'')) (\<lambda>(i1, u1).
     and_then (collect_switch_iz_uids js topo) (\<lambda>switch_iz_uids.
     and_then (collect_uids_of js objects ''signals'') (\<lambda>sig_uids.
     and_then (check_objects js topo ''track_sections'' (check_track_section js switch_iz_uids sig_uids)) (\<lambda>(i2, u2).
     and_then (check_objects js topo ''switches'' (check_plain_object js ''switch'')) (\<lambda>(i3, u3).
     and_then (collect_uids_of js topo ''track_sections'') (\<lambda>section_uids.
     and_then (check_objects js objects ''signals'' (check_signal js section_uids)) (\<lambda>(i4, u4).
       Inr (i1 @ i2 @ i3 @ i4 @ check_duplicate_uids {} (u1 @ u2 @ u3 @ u4)))))))))"

section \<open>Layer 2\<close>

definition check_scope :: "'j Json \<Rightarrow> int \<Rightarrow> string \<Rightarrow> 'j \<Rightarrow> string + ValidationResult" where
  "check_scope js station_instance kind obj =
     map_sum id (\<lambda>uid_field. case uid_field of
         None \<Rightarrow> []
       | Some uid \<Rightarrow>
           let scope = uint (uid_scope uid)
           in issue_if (scope \<noteq> station_instance) ''L2-001''
                (kind @ '' uid='' @ u64_to_string uid @ '' has SCOPE='' @ int_to_string scope @
                 '' but expected station_instance='' @ int_to_string station_instance))
       (unsigned_member js obj ''uid'')"

definition check_scopes :: "'j Json \<Rightarrow> int \<Rightarrow> 'j \<Rightarrow> string \<Rightarrow> string \<Rightarrow> string + ValidationResult" where
  "check_scopes js station_instance doc key kind =
     and_then (array_member js doc key) (concat_result (check_scope js station_instance kind))"

text \<open>\<^verbatim>\<open>obj.contains("uid") ? obj["uid"].get<uint64_t>() : 0\<close>\<close>

definition uid_or_zero :: "'j Json \<Rightarrow> 'j \<Rightarrow> string + u64" where
  "uid_or_zero js obj =
    (if j_contains js obj ''uid'' then and_then (j_at js obj ''uid'') (j_get_u64 js) else Inr 0)"

text \<open>The neighbour a side or a leg names: an unsigned number that is not 0\<close>

definition neighbor_field :: "'j Json \<Rightarrow> 'j \<Rightarrow> string \<Rightarrow> string + u64 option" where
  "neighbor_field js obj part =
    (if \<not> j_contains js obj part then Inr None
     else and_then (j_at js obj part) (\<lambda>s.
       map_sum id (\<lambda>u. if value_or_zero u = 0 then None else u) (unsigned_member js s ''neighborUID'')))"

definition check_section_neighbor ::
    "'j Json \<Rightarrow> u64 list \<Rightarrow> u64 list \<Rightarrow> u64 \<Rightarrow> 'j \<Rightarrow> string \<Rightarrow> string + ValidationResult" where
  "check_section_neighbor js zwr_uids bnd_uids uid ot side =
     map_sum id (\<lambda>nb. case nb of
         None \<Rightarrow> []
       | Some neighbor \<Rightarrow>
           let what = ''track_section uid='' @ u64_to_string uid @ '' '' @ side @ ''.neighborUID='' @
                 u64_to_string neighbor @ '' references unknown ''
           in if uid_kind neighbor = 0x14 then issue_if (neighbor \<notin> set zwr_uids) ''L2-002'' (what @ ''switch'')
              else if uid_kind neighbor = 0x18
              then issue_if (neighbor \<notin> set bnd_uids) ''L2-003'' (what @ ''boundary_node'')
              else [])
       (neighbor_field js ot side)"

definition check_section_neighbors ::
    "'j Json \<Rightarrow> u64 list \<Rightarrow> u64 list \<Rightarrow> 'j \<Rightarrow> string + ValidationResult" where
  "check_section_neighbors js zwr_uids bnd_uids ot =
     and_then (uid_or_zero js ot) (\<lambda>uid.
       concat_result (check_section_neighbor js zwr_uids bnd_uids uid ot) track_sides)"

definition check_leg_neighbor ::
    "'j Json \<Rightarrow> u64 list \<Rightarrow> u64 list \<Rightarrow> u64 \<Rightarrow> 'j \<Rightarrow> string \<Rightarrow> string + ValidationResult" where
  "check_leg_neighbor js ot_uids bnd_uids uid sw leg =
     map_sum id (\<lambda>nb. case nb of
         None \<Rightarrow> []
       | Some neighbor \<Rightarrow>
           issue_if (neighbor \<notin> set ot_uids \<and> neighbor \<notin> set bnd_uids) ''L2-004''
             (''switch uid='' @ u64_to_string uid @ '' '' @ leg @ ''.neighborUID='' @ u64_to_string neighbor @
              '' references unknown track_section or boundary_node''))
       (neighbor_field js sw leg)"

definition check_switch_neighbors ::
    "'j Json \<Rightarrow> u64 list \<Rightarrow> u64 list \<Rightarrow> 'j \<Rightarrow> string + ValidationResult" where
  "check_switch_neighbors js ot_uids bnd_uids sw =
     and_then (uid_or_zero js sw) (\<lambda>uid.
       concat_result (check_leg_neighbor js ot_uids bnd_uids uid sw) switch_legs)"

definition check_signal_section :: "'j Json \<Rightarrow> u64 list \<Rightarrow> 'j \<Rightarrow> string + ValidationResult" where
  "check_signal_section js ot_uids sig =
     and_then (uid_or_zero js sig) (\<lambda>uid.
     map_sum id (\<lambda>f. let ot_uid = value_or_zero f
         in issue_if (ot_uid \<noteq> 0 \<and> ot_uid \<notin> set ot_uids) ''L2-005''
              (''signal uid='' @ u64_to_string uid @ '' governs_section='' @ u64_to_string ot_uid @
               '' references unknown track_section''))
       (unsigned_member js sig ''governs_section''))"

definition check_each :: "'j Json \<Rightarrow> 'j \<Rightarrow> string \<Rightarrow> ('j \<Rightarrow> string + ValidationResult) \<Rightarrow> string + ValidationResult" where
  "check_each js doc key check = and_then (array_member js doc key) (concat_result check)"

definition layer2_validate :: "'j Json \<Rightarrow> int \<Rightarrow> 'j \<Rightarrow> 'j \<Rightarrow> string + ValidationResult" where
  "layer2_validate js station_instance topo objects =
     and_then (collect_uids_of js topo ''track_sections'') (\<lambda>ot_uids.
     and_then (collect_uids_of js topo ''boundary_nodes'') (\<lambda>bnd_uids.
     and_then (collect_uids_of js topo ''switches'') (\<lambda>zwr_uids.
     and_then (check_scopes js station_instance topo ''boundary_nodes'' ''boundary_node'') (\<lambda>i1.
     and_then (check_scopes js station_instance topo ''track_sections'' ''track_section'') (\<lambda>i2.
     and_then (check_scopes js station_instance topo ''switches'' ''switch'') (\<lambda>i3.
     and_then (check_scopes js station_instance objects ''signals'' ''signal'') (\<lambda>i4.
     and_then (check_each js topo ''track_sections'' (check_section_neighbors js zwr_uids bnd_uids)) (\<lambda>i5.
     and_then (check_each js topo ''switches'' (check_switch_neighbors js ot_uids bnd_uids)) (\<lambda>i6.
     and_then (check_each js objects ''signals'' (check_signal_section js ot_uids)) (\<lambda>i7.
       Inr (i1 @ i2 @ i3 @ i4 @ i5 @ i6 @ i7)))))))))))"

section \<open>Layer 3\<close>

definition layer3_validate :: "'j \<Rightarrow> 'j \<Rightarrow> ValidationResult" where
  "layer3_validate topo objects =
     [\<lparr>vi_severity = WARNING, vi_code = ''L3-000'',
       vi_message = ''Layer 3 (route completeness + signal coverage) is not yet implemented'', vi_gid = None\<rparr>]"

end
