(* ===== verification/Validation_Properties.thy ===== *)
theory Validation_Properties
  imports Scenario_Validation
begin

text \<open>
  What the validators guarantee about a scenario that is then loaded: the references of layer 2 are
  resolved in the engine state the loader builds.
\<close>

section \<open>Checks that report nothing\<close>

lemma map_result_Inr:
  "map_result f xs = Inr ys \<longleftrightarrow> length ys = length xs \<and> (\<forall>i < length xs. f (xs ! i) = Inr (ys ! i))"
proof (induction xs arbitrary: ys)
  case (Cons x xs)
  show ?case
  proof
    assume "map_result f (x # xs) = Inr ys"
    then obtain y zs where "f x = Inr y" "map_result f xs = Inr zs" "ys = y # zs" by (auto simp: and_then_Inr)
    then show "length ys = length (x # xs) \<and> (\<forall>i < length (x # xs). f ((x # xs) ! i) = Inr (ys ! i))"
      using Cons.IH by (auto simp: nth_Cons split: nat.splits)
  next
    assume *: "length ys = length (x # xs) \<and> (\<forall>i < length (x # xs). f ((x # xs) ! i) = Inr (ys ! i))"
    then obtain y zs where ys: "ys = y # zs" by (cases ys) auto
    with * have "f x = Inr y" "map_result f xs = Inr zs"
      by (force, auto simp: Cons.IH dest: spec [of _ "Suc _"])
    with ys show "map_result f (x # xs) = Inr ys" by simp
  qed
qed auto

lemma concat_result_set:
  assumes "concat_result f xs = Inr ys"
  shows "y \<in> set ys \<longleftrightarrow> (\<exists>x \<in> set xs. \<exists>zs. f x = Inr zs \<and> y \<in> set zs)"
proof -
  obtain zss where zss: "map_result f xs = Inr zss" "ys = concat zss"
    using assms by (auto simp: concat_result_def map_sum_Inr)
  then have "length zss = length xs" "\<And>i. i < length xs \<Longrightarrow> f (xs ! i) = Inr (zss ! i)" by (auto simp: map_result_Inr)
  then show ?thesis unfolding zss(2) by (fastforce simp: in_set_conv_nth)
qed

lemma concat_result_ok: "concat_result f xs = Inr ys \<Longrightarrow> x \<in> set xs \<Longrightarrow> \<exists>zs. f x = Inr zs"
  by (force simp: concat_result_def map_sum_Inr map_result_Inr in_set_conv_nth)

lemma concat_result_empty: "concat_result f xs = Inr [] \<Longrightarrow> x \<in> set xs \<Longrightarrow> f x = Inr []"
  using concat_result_set [of f xs "[]"] concat_result_ok [of f xs "[]" x] by (metis empty_iff equals0I list.set(1) set_empty)

lemma issue_if_empty [simp]: "issue_if b c m = [] \<longleftrightarrow> \<not> b" "[] = issue_if b c m \<longleftrightarrow> \<not> b"
  by (simp_all add: issue_if_def)

lemma collect_uids_of_set:
  assumes "collect_uids_of js doc key = Inr uids" and "array_member js doc key = Inr objs"
  shows "u \<in> set uids \<longleftrightarrow> (\<exists>obj \<in> set objs. unsigned_member js obj ''uid'' = Inr (Some u))"
proof -
  have c: "collect_uids js objs = Inr uids" using assms by (simp add: collect_uids_of_def)
  show ?thesis
    unfolding concat_result_set [OF c [unfolded collect_uids_def]]
    by (fastforce simp: map_sum_Inr split: option.splits)
qed

section \<open>From the fields of a document to the loaded objects\<close>

lemma require_uid_field_unsigned:
  "require_uid_field js j k p = Inr u \<Longrightarrow> unsigned_member js j k = Inr (Some u)"
  by (auto simp: require_uid_field_def unsigned_member_def lib_def and_then_Inr map_sum_Inr split: if_splits)

lemma lib_Inr [simp]: "lib m = Inr x \<longleftrightarrow> m = Inr x"
  by (simp add: lib_def)

lemma keeps_trans: "keeps a b \<Longrightarrow> keeps b c \<Longrightarrow> keeps a c"
  by (simp add: keeps_def)

lemma fold_result_each:
  assumes "fold_result f xs s = Inr s'" and "x \<in> set xs" and "\<And>x s t. f x s = Inr t \<Longrightarrow> keeps s t"
  shows "\<exists>a b. f x a = Inr b \<and> keeps b s'"
  using assms(1,2)
proof (induction xs arbitrary: s)
  case (Cons y xs)
  obtain t where t: "f y s = Inr t" "fold_result f xs t = Inr s'" using Cons.prems(1) by (auto simp: and_then_Inr)
  have "keeps t s'" by (rule fold_result_invariant [OF t(2)]) (auto intro: keeps_trans assms(3))
  then show ?case using Cons.IH [OF t(2)] Cons.prems(2) t(1) by auto
qed simp

lemmas loader_keeps =
  loading_keeps.load_boundary_node_good [of _ _ _ s _ s for s, simplified]
  loading_keeps.load_track_section_good [of _ _ _ s _ s for s, simplified]
  loading_keeps.load_switch_good [of _ _ _ s _ s for s, simplified]
  loading_keeps.load_block_section_good [of _ _ _ s _ s for s, simplified]
  loading_keeps.load_signal_good [of _ _ _ s _ s for s, simplified]
  loading_keeps.load_derailer_good [of _ _ _ s _ s for s, simplified]

lemmas found_defs = find_boundary_node_def find_track_section_def find_switch_def find_signal_def

text \<open>Every object that is read can be found afterwards.\<close>

lemma load_boundary_node_finds:
  "load_boundary_node js p j s = Inr s' \<Longrightarrow> \<exists>u. unsigned_member js j ''uid'' = Inr (Some u) \<and> find_boundary_node s' u \<noteq> None"
  by (auto simp: load_boundary_node_def and_then_Inr insert_defs found_defs um_find_emplace dest!: require_uid_field_unsigned)

lemma load_track_section_finds:
  "load_track_section js p j s = Inr s' \<Longrightarrow> \<exists>u. unsigned_member js j ''uid'' = Inr (Some u) \<and> find_track_section s' u \<noteq> None"
  by (auto simp: load_track_section_def and_then_Inr insert_defs found_defs um_find_emplace dest!: require_uid_field_unsigned)

lemma load_switch_finds:
  "load_switch js p j s = Inr s' \<Longrightarrow> \<exists>u. unsigned_member js j ''uid'' = Inr (Some u) \<and> find_switch s' u \<noteq> None"
  by (auto simp: load_switch_def and_then_Inr insert_defs found_defs um_find_emplace dest!: require_uid_field_unsigned)

text \<open>What a loaded object has from its entry in the document.\<close>

definition port_from :: "'j Json \<Rightarrow> 'j \<Rightarrow> string \<Rightarrow> UID \<Rightarrow> bool" where
  "port_from js j part u \<longleftrightarrow> (\<exists>l. j_at js j part = Inr l \<and> unsigned_member js l ''neighborUID'' = Inr (Some u))"

definition section_from :: "'j Json \<Rightarrow> 'j \<Rightarrow> TrackSection \<Rightarrow> bool" where
  "section_from js j t \<longleftrightarrow> unsigned_member js j ''uid'' = Inr (Some (ts_uid t)) \<and>
     port_from js j ''sideA'' (port_neighbor_uid (ts_side_a t)) \<and> port_from js j ''sideB'' (port_neighbor_uid (ts_side_b t))"

definition switch_from :: "'j Json \<Rightarrow> 'j \<Rightarrow> Switch \<Rightarrow> bool" where
  "switch_from js j sw \<longleftrightarrow> unsigned_member js j ''uid'' = Inr (Some (sw_uid sw)) \<and>
     port_from js j ''trunk'' (leg_neighbor_uid (sw_trunk sw)) \<and>
     port_from js j ''straight'' (leg_neighbor_uid (sw_straight sw)) \<and>
     port_from js j ''divergent'' (leg_neighbor_uid (sw_divergent sw))"

definition signal_from :: "'j Json \<Rightarrow> 'j \<Rightarrow> Signal \<Rightarrow> bool" where
  "signal_from js j sig \<longleftrightarrow> unsigned_member js j ''uid'' = Inr (Some (sig_uid sig)) \<and>
     unsigned_member js j ''governs_section'' = Inr (Some (sig_governs_section_uid sig))"

lemma parse_track_port_from:
  "j_at js j part = Inr l \<Longrightarrow> parse_track_port js l p = Inr port \<Longrightarrow> port_from js j part (port_neighbor_uid port)"
  by (auto simp: port_from_def parse_track_port_def and_then_Inr dest!: require_uid_field_unsigned)

lemma parse_switch_leg_from:
  "j_at js j part = Inr l \<Longrightarrow> parse_switch_leg js l p = Inr leg \<Longrightarrow> port_from js j part (leg_neighbor_uid leg)"
  by (auto simp: port_from_def parse_switch_leg_def and_then_Inr dest!: require_uid_field_unsigned)

text \<open>
  A loader adds at most the object its entry describes to the map of its kind and leaves the other
  maps alone.
\<close>

definition adds_only :: "(EngineState \<Rightarrow> 'a set) \<Rightarrow> ('a \<Rightarrow> bool) \<Rightarrow> EngineState \<Rightarrow> EngineState \<Rightarrow> bool" where
  "adds_only objs described s s' \<longleftrightarrow> (\<forall>x \<in> objs s'. x \<in> objs s \<or> described x)"

definition sections_of :: "EngineState \<Rightarrow> TrackSection set" where
  "sections_of s = set (for_each_track_section s)"

definition switches_of :: "EngineState \<Rightarrow> Switch set" where
  "switches_of s = set (for_each_switch s)"

definition signals_of :: "EngineState \<Rightarrow> Signal set" where
  "signals_of s = set (for_each_signal s)"

lemmas objects_of_defs = sections_of_def switches_of_def signals_of_def for_each_defs

lemma load_boundary_node_frame:
  "load_boundary_node js p j s = Inr s' \<Longrightarrow>
    sections_of s' = sections_of s \<and> switches_of s' = switches_of s \<and> signals_of s' = signals_of s"
  by (auto simp: load_boundary_node_def and_then_Inr insert_defs objects_of_defs)

lemma load_block_section_frame:
  "load_block_section js p j s = Inr s' \<Longrightarrow>
    sections_of s' = sections_of s \<and> switches_of s' = switches_of s \<and> signals_of s' = signals_of s"
  by (auto simp: load_block_section_def and_then_Inr insert_defs objects_of_defs)

lemma load_derailer_frame:
  "load_derailer js p j s = Inr s' \<Longrightarrow>
    sections_of s' = sections_of s \<and> switches_of s' = switches_of s \<and> signals_of s' = signals_of s"
  by (auto simp: load_derailer_def and_then_Inr insert_defs objects_of_defs)

lemma load_track_section_frame:
  assumes "load_track_section js p j s = Inr s'"
  shows "switches_of s' = switches_of s \<and> signals_of s' = signals_of s \<and> adds_only sections_of (section_from js j) s s'"
proof -
  obtain t where t: "s' = insert_track_section t s" "section_from js j t"
    using assms unfolding load_track_section_def and_then_Inr lib_Inr
    by (fastforce simp: section_from_def dest: require_uid_field_unsigned parse_track_port_from)
  then show ?thesis by (auto simp: insert_defs objects_of_defs adds_only_def dest!: um_values_emplace)
qed

lemma load_switch_frame:
  assumes "load_switch js p j s = Inr s'"
  shows "sections_of s' = sections_of s \<and> signals_of s' = signals_of s \<and> adds_only switches_of (switch_from js j) s s'"
proof -
  obtain sw where sw: "s' = insert_switch sw s" "switch_from js j sw"
    using assms unfolding load_switch_def and_then_Inr lib_Inr
    by (fastforce simp: switch_from_def dest: require_uid_field_unsigned parse_switch_leg_from)
  then show ?thesis by (auto simp: insert_defs objects_of_defs adds_only_def dest!: um_values_emplace)
qed

lemma load_signal_frame:
  assumes "load_signal js p j s = Inr s'"
  shows "sections_of s' = sections_of s \<and> switches_of s' = switches_of s \<and> adds_only signals_of (signal_from js j) s s'"
proof -
  obtain sig where sig: "s' = insert_signal sig s" "signal_from js j sig"
    using assms unfolding load_signal_def and_then_Inr lib_Inr
    by (fastforce simp: signal_from_def dest: require_uid_field_unsigned)
  then show ?thesis by (auto simp: insert_defs objects_of_defs adds_only_def dest!: um_values_emplace)
qed

lemma load_object_array_Inr:
  "load_object_array js doc p (key, loader) s = Inr s' \<longleftrightarrow>
    (\<exists>items. array_member js doc key = Inr items \<and> fold_result (loader p) items s = Inr s')"
  by (auto simp: load_object_array_def array_member_def and_then_Inr)

lemma fold_result_frame:
  "fold_result f xs s = Inr s' \<Longrightarrow> (\<And>x a b. f x a = Inr b \<Longrightarrow> g b = g a) \<Longrightarrow> g s' = g s"
  by (erule fold_result_invariant [where P = "\<lambda>t. g t = g s"]) auto

lemma fold_result_adds:
  assumes "fold_result f xs s = Inr s'" and "\<And>x a b. f x a = Inr b \<Longrightarrow> adds_only objs (described x) a b" and "objs s = {}"
  shows "\<forall>y \<in> objs s'. \<exists>x \<in> set xs. described x y"
  using assms(1)
  by (rule fold_result_invariant [where P = "\<lambda>t. \<forall>y \<in> objs t. \<exists>x \<in> set xs. described x y"])
     (use assms(3) in simp, meson adds_only_def assms(2))

definition all_found :: "'j Json \<Rightarrow> 'j list \<Rightarrow> (UID \<Rightarrow> 'o option) \<Rightarrow> bool" where
  "all_found js items lookup \<longleftrightarrow> (\<forall>j \<in> set items. \<exists>u. unsigned_member js j ''uid'' = Inr (Some u) \<and> lookup u \<noteq> None)"

lemma all_foundD: "all_found js items lookup \<Longrightarrow> j \<in> set items \<Longrightarrow> unsigned_member js j ''uid'' = Inr (Some u) \<Longrightarrow> lookup u \<noteq> None"
  by (force simp: all_found_def)

lemma keeps_found:
  "keeps s s' \<Longrightarrow> find_boundary_node s u \<noteq> None \<Longrightarrow> find_boundary_node s' u \<noteq> None"
  "keeps s s' \<Longrightarrow> find_track_section s u \<noteq> None \<Longrightarrow> find_track_section s' u \<noteq> None"
  "keeps s s' \<Longrightarrow> find_switch s u \<noteq> None \<Longrightarrow> find_switch s' u \<noteq> None"
  by (auto simp: keeps_def)

lemma fold_result_all_found:
  assumes "fold_result f xs s = Inr s'" and "\<And>x a b. f x a = Inr b \<Longrightarrow> keeps a b"
    and "\<And>x a b. f x a = Inr b \<Longrightarrow> \<exists>u. unsigned_member js x ''uid'' = Inr (Some u) \<and> lookup b u \<noteq> None"
    and "\<And>b u. keeps b s' \<Longrightarrow> lookup b u \<noteq> None \<Longrightarrow> lookup s' u \<noteq> None"
  shows "all_found js xs (lookup s')"
  unfolding all_found_def
proof
  fix j
  assume "j \<in> set xs"
  then obtain a b where "f j a = Inr b" "keeps b s'" using fold_result_each [OF assms(1)] assms(2) by blast
  with assms(3) [of j a b] assms(4) [of b]
  show "\<exists>u. unsigned_member js j ''uid'' = Inr (Some u) \<and> lookup s' u \<noteq> None" by blast
qed

lemma all_found_keeps:
  "all_found js xs look \<Longrightarrow> (\<And>u. look u \<noteq> None \<Longrightarrow> look' u \<noteq> None) \<Longrightarrow> all_found js xs look'"
  by (force simp: all_found_def)

lemma fold_result_keeps: "fold_result f xs s = Inr s' \<Longrightarrow> (\<And>x a b. f x a = Inr b \<Longrightarrow> keeps a b) \<Longrightarrow> keeps s s'"
  by (erule fold_result_invariant [where P = "keeps s"]) (auto intro: keeps_trans)

lemma loaded_topology:
  assumes "load_object_arrays js topo p (kTopologyKinds js) s = Inr s'" and "sections_of s = {}" and "switches_of s = {}"
  obtains bnds ots sws where "array_member js topo ''boundary_nodes'' = Inr bnds"
    "array_member js topo ''track_sections'' = Inr ots" "array_member js topo ''switches'' = Inr sws"
    "\<forall>t \<in> sections_of s'. \<exists>j \<in> set ots. section_from js j t"
    "\<forall>sw \<in> switches_of s'. \<exists>j \<in> set sws. switch_from js j sw"
    "all_found js bnds (find_boundary_node s')" "all_found js ots (find_track_section s')"
    "all_found js sws (find_switch s')" "signals_of s' = signals_of s"
proof -
  obtain bnds ots sws blocks a b c where arrays: "array_member js topo ''boundary_nodes'' = Inr bnds"
      "array_member js topo ''track_sections'' = Inr ots" "array_member js topo ''switches'' = Inr sws"
    and folds: "fold_result (load_boundary_node js p) bnds s = Inr a" "fold_result (load_track_section js p) ots a = Inr b"
      "fold_result (load_switch js p) sws b = Inr c" "fold_result (load_block_section js p) blocks c = Inr s'"
    using assms(1) by (auto simp: load_object_arrays_def kTopologyKinds_def and_then_Inr load_object_array_Inr)
  have a: "sections_of a = sections_of s" "switches_of a = switches_of s" "signals_of a = signals_of s"
    by (rule fold_result_frame [OF folds(1)], simp add: load_boundary_node_frame)+
  have b: "switches_of b = switches_of a" "signals_of b = signals_of a"
    by (rule fold_result_frame [OF folds(2)], simp add: load_track_section_frame)+
  have c: "sections_of c = sections_of b" "signals_of c = signals_of b"
    by (rule fold_result_frame [OF folds(3)], simp add: load_switch_frame)+
  have d: "sections_of s' = sections_of c" "switches_of s' = switches_of c" "signals_of s' = signals_of c"
    by (rule fold_result_frame [OF folds(4)], simp add: load_block_section_frame)+
  have ots: "\<forall>t \<in> sections_of s'. \<exists>j \<in> set ots. section_from js j t"
    unfolding c d by (rule fold_result_adds [OF folds(2)]) (simp_all add: load_track_section_frame a assms(2))
  have sws: "\<forall>sw \<in> switches_of s'. \<exists>j \<in> set sws. switch_from js j sw"
    unfolding d by (rule fold_result_adds [OF folds(3)]) (simp_all add: load_switch_frame a b assms(3))
  have k: "keeps a b" "keeps b c" "keeps c s'"
    by (rule fold_result_keeps [OF folds(2)] fold_result_keeps [OF folds(3)] fold_result_keeps [OF folds(4)],
        erule loader_keeps)+
  have found: "all_found js bnds (find_boundary_node a)" "all_found js ots (find_track_section b)"
      "all_found js sws (find_switch c)"
    by (rule fold_result_all_found [OF folds(1)] fold_result_all_found [OF folds(2)] fold_result_all_found [OF folds(3)],
        erule loader_keeps, erule load_boundary_node_finds load_track_section_finds load_switch_finds,
        erule (1) keeps_found)+
  have "all_found js bnds (find_boundary_node s')"
    by (rule all_found_keeps [OF found(1)]) (erule keeps_found(1) [OF keeps_trans [OF k(1) keeps_trans [OF k(2,3)]]])
  moreover have "all_found js ots (find_track_section s')"
    by (rule all_found_keeps [OF found(2)]) (erule keeps_found(2) [OF keeps_trans [OF k(2,3)]])
  moreover have "all_found js sws (find_switch s')"
    by (rule all_found_keeps [OF found(3)]) (erule keeps_found(3) [OF k(3)])
  ultimately show thesis using arrays ots sws a b c d by (intro that) simp_all
qed

lemma loaded_objects:
  assumes "load_object_arrays js objs p (kObjectsKinds js) s = Inr s'" and "signals_of s = {}"
  obtains sigs where "array_member js objs ''signals'' = Inr sigs"
    "\<forall>sig \<in> signals_of s'. \<exists>j \<in> set sigs. signal_from js j sig"
    "sections_of s' = sections_of s" "switches_of s' = switches_of s" "keeps s s'"
proof -
  obtain sigs drs a where arr: "array_member js objs ''signals'' = Inr sigs"
    and folds: "fold_result (load_signal js p) sigs s = Inr a" "fold_result (load_derailer js p) drs a = Inr s'"
    using assms(1) by (auto simp: load_object_arrays_def kObjectsKinds_def and_then_Inr load_object_array_Inr)
  have a: "sections_of a = sections_of s" "switches_of a = switches_of s"
    by (rule fold_result_frame [OF folds(1)], simp add: load_signal_frame)+
  have s': "sections_of s' = sections_of a" "switches_of s' = switches_of a" "signals_of s' = signals_of a"
    by (rule fold_result_frame [OF folds(2)], simp add: load_derailer_frame)+
  have "\<forall>sig \<in> signals_of s'. \<exists>j \<in> set sigs. signal_from js j sig"
    unfolding s' by (rule fold_result_adds [OF folds(1)]) (simp_all add: assms(2) load_signal_frame)
  moreover have "keeps s s'"
    by (rule keeps_trans [OF fold_result_keeps [OF folds(1)] fold_result_keeps [OF folds(2)]]; erule loader_keeps)
  ultimately show thesis using arr a s' by (intro that) simp_all
qed

section \<open>A validated scenario\<close>

definition section_linked :: "int \<Rightarrow> EngineState \<Rightarrow> TrackSection \<Rightarrow> bool" where
  "section_linked station s t \<longleftrightarrow> uint (uid_scope (ts_uid t)) = station \<and>
     (\<forall>u \<in> {port_neighbor_uid (ts_side_a t), port_neighbor_uid (ts_side_b t)}.
        (uid_kind u = kind_code SWITCH \<longrightarrow> find_switch s u \<noteq> None) \<and>
        (uid_kind u = kind_code BOUNDARY_NODE \<longrightarrow> find_boundary_node s u \<noteq> None))"

definition switch_linked :: "int \<Rightarrow> EngineState \<Rightarrow> Switch \<Rightarrow> bool" where
  "switch_linked station s sw \<longleftrightarrow> uint (uid_scope (sw_uid sw)) = station \<and>
     (\<forall>u \<in> {leg_neighbor_uid (sw_trunk sw), leg_neighbor_uid (sw_straight sw), leg_neighbor_uid (sw_divergent sw)}.
        u = 0 \<or> find_track_section s u \<noteq> None \<or> find_boundary_node s u \<noteq> None)"

definition signal_linked :: "int \<Rightarrow> EngineState \<Rightarrow> Signal \<Rightarrow> bool" where
  "signal_linked station s sig \<longleftrightarrow> uint (uid_scope (sig_uid sig)) = station \<and>
     (sig_governs_section_uid sig = 0 \<or> find_track_section s (sig_governs_section_uid sig) \<noteq> None)"

definition scenario_linked :: "int \<Rightarrow> EngineState \<Rightarrow> bool" where
  "scenario_linked station s \<longleftrightarrow>
     (\<forall>t \<in> set (for_each_track_section s). section_linked station s t) \<and>
     (\<forall>sw \<in> set (for_each_switch s). switch_linked station s sw) \<and>
     (\<forall>sig \<in> set (for_each_signal s). signal_linked station s sig)"

lemma neighbor_field_from:
  "json_laws js \<Longrightarrow> port_from js j part u \<Longrightarrow> neighbor_field js j part = Inr (if u = 0 then None else Some u)"
  by (auto simp: port_from_def neighbor_field_def value_or_zero_def dest: json_lawsD(9))

lemma check_scopes_empty:
  assumes "check_scopes js n doc key kind = Inr []" and "array_member js doc key = Inr objs" and "j \<in> set objs"
    and "unsigned_member js j ''uid'' = Inr (Some u)"
  shows "uint (uid_scope u) = n"
  using concat_result_empty [of "check_scope js n kind" objs j] assms
  by (auto simp: check_scopes_def check_scope_def map_sum_Inr Let_def)

lemma uid_kind_zero: "uid_kind 0 = 0"
  by (simp add: uid_kind_def)

lemma layer2_sections:
  assumes "json_laws js" and "check_each js topo ''track_sections'' (check_section_neighbors js zwrs bnds) = Inr []"
    and "array_member js topo ''track_sections'' = Inr ots" and "j \<in> set ots" and "part \<in> set track_sides"
    and "port_from js j part u"
  shows "(uid_kind u = kind_code SWITCH \<longrightarrow> u \<in> set zwrs) \<and> (uid_kind u = kind_code BOUNDARY_NODE \<longrightarrow> u \<in> set bnds)"
proof -
  have "check_section_neighbors js zwrs bnds j = Inr []"
    using concat_result_empty [of "check_section_neighbors js zwrs bnds" ots j] assms by (simp add: check_each_def)
  then obtain uid where "concat_result (check_section_neighbor js zwrs bnds uid j) track_sides = Inr []"
    by (auto simp: check_section_neighbors_def and_then_Inr)
  from concat_result_empty [OF this assms(5)] show ?thesis
    using neighbor_field_from [OF assms(1,6)]
    by (auto simp: check_section_neighbor_def Let_def uid_kind_zero split: if_splits)
qed

text \<open>The neighbour of a section is looked up only when it is a switch or a boundary node by its UID.\<close>

lemma other_section_neighbors_pass:
  assumes "neighbor_field js ot side = Inr (Some u)" and "uid_kind u \<notin> {kind_code SWITCH, kind_code BOUNDARY_NODE}"
  shows "check_section_neighbor js zwrs bnds uid ot side = Inr []"
  using assms by (simp add: check_section_neighbor_def Let_def)

lemma layer2_switches:
  assumes "json_laws js" and "check_each js topo ''switches'' (check_switch_neighbors js ots bnds) = Inr []"
    and "array_member js topo ''switches'' = Inr sws" and "j \<in> set sws" and "part \<in> set switch_legs"
    and "port_from js j part u"
  shows "u = 0 \<or> u \<in> set ots \<or> u \<in> set bnds"
proof -
  have "check_switch_neighbors js ots bnds j = Inr []"
    using concat_result_empty [of "check_switch_neighbors js ots bnds" sws j] assms by (simp add: check_each_def)
  then obtain uid where "concat_result (check_leg_neighbor js ots bnds uid j) switch_legs = Inr []"
    by (auto simp: check_switch_neighbors_def and_then_Inr)
  from concat_result_empty [OF this assms(5)] show ?thesis
    using neighbor_field_from [OF assms(1,6)] by (auto simp: check_leg_neighbor_def split: if_splits)
qed

lemma layer2_signals:
  assumes "check_each js objs ''signals'' (check_signal_section js ots) = Inr []"
    and "array_member js objs ''signals'' = Inr sigs" and "j \<in> set sigs"
    and "unsigned_member js j ''governs_section'' = Inr (Some u)"
  shows "u = 0 \<or> u \<in> set ots"
  using concat_result_empty [of "check_signal_section js ots" sigs j] assms
  by (auto simp: check_each_def check_signal_section_def and_then_Inr map_sum_Inr Let_def value_or_zero_def)

lemma section_linkedI:
  assumes "json_laws js" and "check_scopes js station topo ''track_sections'' kind = Inr []"
    and "check_each js topo ''track_sections'' (check_section_neighbors js zwrs bnds) = Inr []"
    and "array_member js topo ''track_sections'' = Inr ots"
    and "\<And>u. u \<in> set bnds \<Longrightarrow> find_boundary_node s u \<noteq> None" and "\<And>u. u \<in> set zwrs \<Longrightarrow> find_switch s u \<noteq> None"
    and "j \<in> set ots" and "section_from js j t"
  shows "section_linked station s t"
proof -
  note from_doc = assms(8) [unfolded section_from_def]
  have "uint (uid_scope (ts_uid t)) = station" using check_scopes_empty [OF assms(2,4,7)] from_doc by blast
  moreover have "(uid_kind u = kind_code SWITCH \<longrightarrow> find_switch s u \<noteq> None) \<and>
      (uid_kind u = kind_code BOUNDARY_NODE \<longrightarrow> find_boundary_node s u \<noteq> None)"
    if "part \<in> set track_sides" "port_from js j part u" for part u
    using layer2_sections [OF assms(1,3,4,7) that] assms(5,6) by blast
  ultimately show ?thesis using from_doc unfolding section_linked_def track_sides_def by auto
qed

lemma switch_linkedI:
  assumes "json_laws js" and "check_scopes js station topo ''switches'' kind = Inr []"
    and "check_each js topo ''switches'' (check_switch_neighbors js otus bnds) = Inr []"
    and "array_member js topo ''switches'' = Inr sws"
    and "\<And>u. u \<in> set otus \<Longrightarrow> find_track_section s u \<noteq> None" and "\<And>u. u \<in> set bnds \<Longrightarrow> find_boundary_node s u \<noteq> None"
    and "j \<in> set sws" and "switch_from js j sw"
  shows "switch_linked station s sw"
proof -
  note from_doc = assms(8) [unfolded switch_from_def]
  have "uint (uid_scope (sw_uid sw)) = station" using check_scopes_empty [OF assms(2,4,7)] from_doc by blast
  moreover have "u = 0 \<or> find_track_section s u \<noteq> None \<or> find_boundary_node s u \<noteq> None"
    if "part \<in> set switch_legs" "port_from js j part u" for part u
    using layer2_switches [OF assms(1,3,4,7) that] assms(5,6) by blast
  ultimately show ?thesis using from_doc unfolding switch_linked_def switch_legs_def by auto
qed

lemma signal_linkedI:
  assumes "check_scopes js station objs ''signals'' kind = Inr []"
    and "check_each js objs ''signals'' (check_signal_section js otus) = Inr []"
    and "array_member js objs ''signals'' = Inr sigs" and "\<And>u. u \<in> set otus \<Longrightarrow> find_track_section s u \<noteq> None"
    and "j \<in> set sigs" and "signal_from js j sig"
  shows "signal_linked station s sig"
  using check_scopes_empty [OF assms(1,3,5)] layer2_signals [OF assms(2,3,5)] assms(4,6)
  by (auto simp: signal_linked_def signal_from_def)

text \<open>Layer 2 reports errors only, so that a result without errors is empty.\<close>

definition all_errors :: "string + ValidationResult \<Rightarrow> bool" where
  "all_errors r \<longleftrightarrow> (\<forall>is. r = Inr is \<longrightarrow> (\<forall>i \<in> set is. vi_severity i = ERROR))"

lemma all_errors_intros:
  "all_errors (Inr [])"
  "(\<And>x. m = Inr x \<Longrightarrow> all_errors (f x)) \<Longrightarrow> all_errors (and_then m f)"
  "(\<And>x. x \<in> set xs \<Longrightarrow> all_errors (g x)) \<Longrightarrow> all_errors (concat_result g xs)"
  "(\<And>x. \<forall>i \<in> set (h x). vi_severity i = ERROR) \<Longrightarrow> all_errors (map_sum id h n)"
  by (auto simp: all_errors_def and_then_Inr map_sum_Inr concat_result_set)

lemma issue_if_errors: "\<forall>i \<in> set (issue_if b c m). vi_severity i = ERROR"
  by (simp add: issue_if_def issue_def)

lemma layer2_errors:
  "all_errors (check_scopes js n doc key kind)"
  "all_errors (check_each js doc key (check_section_neighbors js zwrs bnds))"
  "all_errors (check_each js doc key (check_switch_neighbors js ots bnds))"
  "all_errors (check_each js doc key (check_signal_section js ots))"
  unfolding check_scopes_def check_each_def check_scope_def check_section_neighbors_def check_section_neighbor_def
    check_switch_neighbors_def check_leg_neighbor_def check_signal_section_def
  by (intro all_errors_intros; auto simp: Let_def issue_if_errors split: option.splits)+

lemma layer2_Inr:
  assumes "layer2_validate js n topo objs = Inr issues" and "validation_ok issues"
  obtains otus bndus zwrus where "collect_uids_of js topo ''track_sections'' = Inr otus"
    "collect_uids_of js topo ''boundary_nodes'' = Inr bndus" "collect_uids_of js topo ''switches'' = Inr zwrus"
    "check_scopes js n topo ''track_sections'' ''track_section'' = Inr []"
    "check_scopes js n topo ''switches'' ''switch'' = Inr []" "check_scopes js n objs ''signals'' ''signal'' = Inr []"
    "check_each js topo ''track_sections'' (check_section_neighbors js zwrus bndus) = Inr []"
    "check_each js topo ''switches'' (check_switch_neighbors js otus bndus) = Inr []"
    "check_each js objs ''signals'' (check_signal_section js otus) = Inr []"
proof -
  have empty: "is = []" if "all_errors (Inr is)" "set is \<subseteq> set issues" for "is"
    using that assms(2) by (cases "is") (auto simp: all_errors_def validation_ok_def list_ex_iff)
  obtain otus bndus zwrus i1 i2 i3 i4 i5 i6 i7 where r: "collect_uids_of js topo ''track_sections'' = Inr otus"
    "collect_uids_of js topo ''boundary_nodes'' = Inr bndus" "collect_uids_of js topo ''switches'' = Inr zwrus"
    "check_scopes js n topo ''track_sections'' ''track_section'' = Inr i2"
    "check_scopes js n topo ''switches'' ''switch'' = Inr i3" "check_scopes js n objs ''signals'' ''signal'' = Inr i4"
    "check_each js topo ''track_sections'' (check_section_neighbors js zwrus bndus) = Inr i5"
    "check_each js topo ''switches'' (check_switch_neighbors js otus bndus) = Inr i6"
    "check_each js objs ''signals'' (check_signal_section js otus) = Inr i7" "issues = i1 @ i2 @ i3 @ i4 @ i5 @ i6 @ i7"
    using assms(1) by (auto simp: layer2_validate_def and_then_Inr)
  have "all_errors (Inr i2)" "all_errors (Inr i3)" "all_errors (Inr i4)" "all_errors (Inr i5)" "all_errors (Inr i6)"
    "all_errors (Inr i7)" using r(4-9) layer2_errors by metis+
  then have "i2 = []" "i3 = []" "i4 = []" "i5 = []" "i6 = []" "i7 = []" using r(10) by (auto intro!: empty)
  with r(1-9) show thesis by (intro that) simp_all
qed

text \<open>
  C14.  A scenario that layer 2 accepts for a station and that loads is linked.  Every section, switch and
  signal of the engine state has the scope of the station, the switches and boundary nodes at the ends of
  its sections exist, every leg of a switch ends at a section or a boundary node that exists, and every
  signal governs a section that exists; a UID 0 stands for no neighbour.  Nothing is said of a section
  that borders directly on another section: layer 2 does not look such a neighbour up.
\<close>

theorem validated_scenario_is_linked:
  assumes js: "json_laws js"
    and load: "load_scenario js fs dir empty_state = Inr (s, meta)"
    and files: "fs_parse fs (dir @ [''topology.json'']) = Inr topo" "fs_exists fs (dir @ [''objects.json''])"
      "fs_parse fs (dir @ [''objects.json'']) = Inr objs"
    and valid: "layer2_validate js station topo objs = Inr issues" "validation_ok issues"
  shows "scenario_linked station s"
proof -
  obtain sid s1 where
    s1: "load_object_arrays js topo (dir @ [''topology.json'']) (kTopologyKinds js) (set_session_id sid empty_state) = Inr s1"
    and s: "load_object_arrays js objs (dir @ [''objects.json'']) (kObjectsKinds js) s1 = Inr s"
    using load files by (auto simp: load_scenario_def read_json_def and_then_Inr Let_def split: if_splits)
  have e: "sections_of (set_session_id sid empty_state) = {}" "switches_of (set_session_id sid empty_state) = {}"
      "signals_of (set_session_id sid empty_state) = {}"
    by (simp_all add: objects_of_defs set_session_id_def empty_state_def um_values_def)
  obtain bnds ots sws where topo: "array_member js topo ''boundary_nodes'' = Inr bnds"
      "array_member js topo ''track_sections'' = Inr ots" "array_member js topo ''switches'' = Inr sws"
    and orig: "\<forall>t \<in> sections_of s1. \<exists>j \<in> set ots. section_from js j t" "\<forall>sw \<in> switches_of s1. \<exists>j \<in> set sws. switch_from js j sw"
    and found: "all_found js bnds (find_boundary_node s1)" "all_found js ots (find_track_section s1)"
      "all_found js sws (find_switch s1)" and sig1: "signals_of s1 = {}"
    using loaded_topology [OF s1 e(1,2)] e(3) by metis
  obtain sigs where sigs: "array_member js objs ''signals'' = Inr sigs"
    "\<forall>sig \<in> signals_of s. \<exists>j \<in> set sigs. signal_from js j sig" and same: "sections_of s = sections_of s1"
    "switches_of s = switches_of s1" "keeps s1 s"
    using loaded_objects [OF s sig1] by metis
  obtain otus bndus zwrus where uids: "collect_uids_of js topo ''track_sections'' = Inr otus"
      "collect_uids_of js topo ''boundary_nodes'' = Inr bndus" "collect_uids_of js topo ''switches'' = Inr zwrus"
    and scopes: "check_scopes js station topo ''track_sections'' ''track_section'' = Inr []"
      "check_scopes js station topo ''switches'' ''switch'' = Inr []" "check_scopes js station objs ''signals'' ''signal'' = Inr []"
    and checks: "check_each js topo ''track_sections'' (check_section_neighbors js zwrus bndus) = Inr []"
      "check_each js topo ''switches'' (check_switch_neighbors js otus bndus) = Inr []"
      "check_each js objs ''signals'' (check_signal_section js otus) = Inr []"
    using layer2_Inr [OF valid] by metis
  have known: "find_track_section s u \<noteq> None" if "u \<in> set otus" for u
    using that collect_uids_of_set [OF uids(1) topo(2)] all_foundD [OF found(2)] keeps_found(2) [OF same(3)] by blast
  have known_bnd: "find_boundary_node s u \<noteq> None" if "u \<in> set bndus" for u
    using that collect_uids_of_set [OF uids(2) topo(1)] all_foundD [OF found(1)] keeps_found(1) [OF same(3)] by blast
  have known_sw: "find_switch s u \<noteq> None" if "u \<in> set zwrus" for u
    using that collect_uids_of_set [OF uids(3) topo(3)] all_foundD [OF found(3)] keeps_found(3) [OF same(3)] by blast
  have "section_linked station s t" if "t \<in> sections_of s" for t
    using orig(1) same(1) that section_linkedI [OF js scopes(1) checks(1) topo(2) known_bnd known_sw] by blast
  moreover have "switch_linked station s sw" if "sw \<in> switches_of s" for sw
    using orig(2) same(2) that switch_linkedI [OF js scopes(2) checks(2) topo(3) known known_bnd] by blast
  moreover have "signal_linked station s sig" if "sig \<in> signals_of s" for sig
    using sigs(2) that signal_linkedI [OF scopes(3) checks(3) sigs(1) known] by blast
  ultimately show ?thesis unfolding scenario_linked_def sections_of_def switches_of_def signals_of_def by blast
qed

section \<open>A sample scenario\<close>

definition doc_leg :: "u64 \<Rightarrow> JsonTree" where
  "doc_leg u = JsObject [(''neighborUID'', JsUnsigned u)]"

definition valid_topology :: JsonTree where
  "valid_topology = JsObject
     [(''boundary_nodes'', JsArray [JsObject [(''uid'', JsUnsigned 0x021800010001), (''pID'', JsString ''W'')],
                                  JsObject [(''uid'', JsUnsigned 0x021800010002), (''pID'', JsString ''E'')]]),
      (''track_sections'', JsArray [JsObject [(''uid'', JsUnsigned 0x021300010001), (''pID'', JsString ''T1''),
         (''sideA'', doc_leg 0x021800010001), (''sideB'', doc_leg 0x021400010001)]]),
      (''switches'', JsArray [JsObject [(''uid'', JsUnsigned 0x021400010001), (''pID'', JsString ''1''),
         (''trunk'', doc_leg 0x021300010001), (''straight'', doc_leg 0x021800010002), (''divergent'', doc_leg 0)]])]"

definition valid_objects :: "string \<Rightarrow> JsonTree" where
  "valid_objects aspect = JsObject
     [(''signals'', JsArray [JsObject [(''uid'', JsUnsigned 0x021500010001), (''pID'', JsString ''A''), (''type'', JsString ''ENTRY''),
         (''governs_section'', JsUnsigned 0x021300010001), (''initial_aspect'', JsString aspect)]])]"

definition valid_files :: "string \<Rightarrow> JsonTree Files" where
  "valid_files aspect =
     \<lparr>fs_exists = (\<lambda>p. True), fs_entries = (\<lambda>p. []), fs_is_regular_file = (\<lambda>p. True), fs_can_open = (\<lambda>p. True),
      fs_parse = (\<lambda>p. Inr (if last p = ''meta.json'' then sample_meta ''GOr''
                        else if last p = ''topology.json'' then valid_topology else valid_objects aspect))\<rparr>"

lemmas valid_sample_defs = valid_topology_def valid_objects_def doc_leg_def json_tree_def

lemmas layer1_defs = layer1_validate_def check_objects_def check_plain_object_def check_required_fields_def
  check_track_section_def check_track_side_def check_signal_def check_governs_section_def check_initial_aspect_def
  collect_switch_iz_uids_def leg_iz_uid_field_def collect_uids_of_def collect_uids_def concat_result_def
  unsigned_member_def array_member_def has_member_def j_value_def value_or_zero_def issue_if_def switch_legs_def
  track_sides_def kValidAspects_def MAX_SAFE_JSON_INT_def

lemmas layer2_defs = layer2_validate_def check_scopes_def check_scope_def check_each_def check_section_neighbors_def
  check_section_neighbor_def check_switch_neighbors_def check_leg_neighbor_def check_signal_section_def
  neighbor_field_def uid_or_zero_def uid_scope_def uid_kind_def

lemmas loader_defs = load_scenario_def read_json_def lib_def valid_files_def sample_meta_def load_object_arrays_def
  load_object_array_def kTopologyKinds_def kObjectsKinds_def load_boundary_node_def load_track_section_def load_switch_def
  load_signal_def require_uid_field_def pid_field_def parse_track_port_def parse_switch_leg_def signal_uids_field_def
  parse_signal_type_def parse_initial_aspect_def

lemma sample_layer1: "layer1_validate json_tree valid_topology (valid_objects ''STOP'') = Inr []"
  by (simp add: layer1_defs valid_sample_defs Let_def)

lemma sample_layer2: "layer2_validate json_tree 1 valid_topology (valid_objects ''STOP'') = Inr []"
  by (simp add: layer1_defs layer2_defs valid_sample_defs Let_def)

lemma sample_loads: "\<exists>s meta. load_scenario json_tree (valid_files ''STOP'') [''GOr''] empty_state = Inr (s, meta) \<and>
    map sw_uid (for_each_switch s) = [0x021400010001]"
  by (simp add: loader_defs layer1_defs valid_sample_defs Let_def insert_defs for_each_switch_def um_values_def
      um_emplace_def empty_state_def)

theorem validated_scenario_is_linked_witness:
  "\<exists>s meta. load_scenario json_tree (valid_files ''STOP'') [''GOr''] empty_state = Inr (s, meta) \<and>
     map sw_uid (for_each_switch s) = [0x021400010001] \<and> scenario_linked 1 s"
proof -
  obtain s meta where s: "load_scenario json_tree (valid_files ''STOP'') [''GOr''] empty_state = Inr (s, meta)"
    "map sw_uid (for_each_switch s) = [0x021400010001]"
    using sample_loads by (elim exE conjE) (rule that)
  have "scenario_linked 1 s"
    by (rule validated_scenario_is_linked [OF json_tree_laws s(1) _ _ _ sample_layer2])
       (simp_all add: valid_files_def validation_ok_def)
  with s show ?thesis by (intro exI conjI)
qed

text \<open>
  Layer 1 accepts names of signal aspects that the loader does not know: such a scenario validates and
  cannot be loaded.
\<close>

theorem accepted_aspect_is_not_loaded:
  "layer1_validate json_tree valid_topology (valid_objects ''PROCEED'') = Inr [] \<and>
   layer2_validate json_tree 1 valid_topology (valid_objects ''PROCEED'') = Inr [] \<and>
   (\<exists>e. load_scenario json_tree (valid_files ''PROCEED'') [''GOr''] empty_state = Inl (RuntimeError e))"
  by (intro conjI) (simp_all add: loader_defs layer1_defs layer2_defs valid_sample_defs Let_def)

end
