(* ===== verification/Validation_Completeness.thy ===== *)
theory Validation_Completeness
  imports Validation_Properties
begin

text \<open>
  The loader ignores an object whose UID is taken.  In a scenario that layer 1 accepts no UID occurs
  twice, so that every entry of the documents becomes an object of the engine state.
\<close>

section \<open>Entries and their UIDs\<close>

definition entries :: "'j Json \<Rightarrow> 'j \<Rightarrow> string \<Rightarrow> 'j list" where
  "entries js doc key = (case array_member js doc key of Inr xs \<Rightarrow> xs | Inl _ \<Rightarrow> [])"

definition has_uid :: "'j Json \<Rightarrow> 'j \<Rightarrow> u64 \<Rightarrow> bool" where
  "has_uid js j u \<longleftrightarrow> unsigned_member js j ''uid'' = Inr (Some u)"

lemma check_duplicate_uids_empty:
  "check_duplicate_uids seen us = [] \<longleftrightarrow> distinct (filter (\<lambda>u. u \<noteq> 0) us) \<and> set (filter (\<lambda>u. u \<noteq> 0) us) \<inter> seen = {}"
  by (induction seen us rule: check_duplicate_uids.induct) auto

lemma check_required_fields_empty:
  "check_required_fields js obj c = Inr [] \<Longrightarrow> \<exists>u. has_uid js obj u \<and> u \<noteq> 0"
  by (auto simp: check_required_fields_def has_uid_def and_then_Inr issue_if_def split: if_splits option.splits)

text \<open>Objects that were checked without an issue contribute their UIDs.\<close>

lemma map_result_uids:
  assumes "map_result check xs = Inr rs" and "concat (map fst rs) = []"
    and "\<And>x us. check x = Inr ([], us) \<Longrightarrow> \<exists>u. us = [u] \<and> has_uid js x u \<and> u \<noteq> 0"
  shows "list_all2 (has_uid js) xs (concat (map snd rs)) \<and> 0 \<notin> set (concat (map snd rs))"
  using assms(1,2)
proof (induction xs arbitrary: rs)
  case (Cons x xs)
  obtain r rs' where r: "check x = Inr r" "map_result check xs = Inr rs'" "rs = r # rs'"
    using Cons.prems(1) by (auto simp: and_then_Inr)
  with Cons.prems(2) have "check x = Inr ([], snd r)" "concat (map fst rs') = []" by (cases r; simp)+
  with Cons.IH [OF r(2)] assms(3) r(3) show ?case by fastforce
qed simp

lemma check_objects_uids:
  assumes "check_objects js doc key check = Inr ([], us)"
    and "\<And>x us. check x = Inr ([], us) \<Longrightarrow> \<exists>u. us = [u] \<and> has_uid js x u \<and> u \<noteq> 0"
  shows "list_all2 (has_uid js) (entries js doc key) us \<and> 0 \<notin> set us"
proof -
  obtain xs rs where "array_member js doc key = Inr xs" "map_result check xs = Inr rs" "concat (map fst rs) = []"
    "us = concat (map snd rs)" using assms(1) unfolding check_objects_def and_then_Inr map_sum_Inr by (metis Pair_inject)
  then show ?thesis using map_result_uids [of check xs rs js] assms(2) by (simp add: entries_def)
qed

lemma object_check_uid:
  "check_plain_object js c x = Inr ([], us) \<Longrightarrow> \<exists>u. us = [u] \<and> has_uid js x u \<and> u \<noteq> 0"
  "check_track_section js izs sigs x = Inr ([], us) \<Longrightarrow> \<exists>u. us = [u] \<and> has_uid js x u \<and> u \<noteq> 0"
  "check_signal js secs x = Inr ([], us) \<Longrightarrow> \<exists>u. us = [u] \<and> has_uid js x u \<and> u \<noteq> 0"
  by (auto simp: check_plain_object_def check_track_section_def check_signal_def and_then_Inr has_uid_def Let_def
      value_or_zero_def dest!: check_required_fields_empty split: option.splits)

lemma layer1_uids:
  assumes "layer1_validate js topo objs = Inr []"
  obtains u1 u2 u3 u4 where "list_all2 (has_uid js) (entries js topo ''boundary_nodes'') u1"
    "list_all2 (has_uid js) (entries js topo ''track_sections'') u2"
    "list_all2 (has_uid js) (entries js topo ''switches'') u3" "list_all2 (has_uid js) (entries js objs ''signals'') u4"
    "distinct u1" "distinct u2" "distinct u3" "distinct u4"
proof -
  obtain u1 u2 u3 u4 izs sigs secs where
    c: "check_objects js topo ''boundary_nodes'' (check_plain_object js ''boundary_node'') = Inr ([], u1)"
      "check_objects js topo ''track_sections'' (check_track_section js izs sigs) = Inr ([], u2)"
      "check_objects js topo ''switches'' (check_plain_object js ''switch'') = Inr ([], u3)"
      "check_objects js objs ''signals'' (check_signal js secs) = Inr ([], u4)"
    and dup: "check_duplicate_uids {} (u1 @ u2 @ u3 @ u4) = []"
    using assms by (auto simp: layer1_validate_def and_then_Inr)
  have us: "list_all2 (has_uid js) (entries js topo ''boundary_nodes'') u1 \<and> 0 \<notin> set u1"
    "list_all2 (has_uid js) (entries js topo ''track_sections'') u2 \<and> 0 \<notin> set u2"
    "list_all2 (has_uid js) (entries js topo ''switches'') u3 \<and> 0 \<notin> set u3"
    "list_all2 (has_uid js) (entries js objs ''signals'') u4 \<and> 0 \<notin> set u4"
    by (rule check_objects_uids [OF c(1)] check_objects_uids [OF c(2)] check_objects_uids [OF c(3)]
        check_objects_uids [OF c(4)], erule object_check_uid)+
  have "filter (\<lambda>u. u \<noteq> 0) (u1 @ u2 @ u3 @ u4) = u1 @ u2 @ u3 @ u4"
    using us by (subst filter_id_conv) auto
  with dup have "distinct (u1 @ u2 @ u3 @ u4)" by (metis check_duplicate_uids_empty)
  with us show thesis by (intro that [of u1 u2 u3 u4]) simp_all
qed

section \<open>What a loader adds\<close>

definition extends_keys :: "'j Json \<Rightarrow> 'j \<Rightarrow> UID list \<Rightarrow> UID list \<Rightarrow> bool" where
  "extends_keys js j ks ks' \<longleftrightarrow> (\<exists>u. has_uid js j u \<and> ks' = (if u \<in> set ks then ks else ks @ [u]))"

lemma um_keys_emplace: "um_keys (um_emplace k v m) = (if k \<in> set (um_keys m) then um_keys m else um_keys m @ [k])"
  using um_find_None_iff [of m k] by (auto simp: um_emplace_def um_keys_def)

lemma um_keys_Nil [simp]: "um_keys [] = []"
  by (simp add: um_keys_def)

lemma fold_result_keys:
  assumes "fold_result f xs s = Inr s'" and "\<And>x a b. f x a = Inr b \<Longrightarrow> extends_keys js x (keys a) (keys b)"
    and "list_all2 (has_uid js) xs us" and "distinct (keys s @ us)"
  shows "keys s' = keys s @ us"
  using assms(1,3,4)
proof (induction xs arbitrary: s us)
  case (Cons x xs)
  obtain t where t: "f x s = Inr t" "fold_result f xs t = Inr s'" using Cons.prems(1) by (auto simp: and_then_Inr)
  obtain u us' where us: "us = u # us'" "has_uid js x u" "list_all2 (has_uid js) xs us'"
    using Cons.prems(2) by (auto simp: list_all2_Cons1)
  have "keys t = keys s @ [u]"
    using assms(2) [OF t(1)] us(1,2) Cons.prems(3) by (auto simp: extends_keys_def has_uid_def split: if_splits)
  with Cons.IH [OF t(2) us(3)] us(1) Cons.prems(3) show ?case by simp
qed simp

lemma load_boundary_node_keys:
  "load_boundary_node js p j s = Inr s' \<Longrightarrow> extends_keys js j (um_keys (es_boundary_nodes s)) (um_keys (es_boundary_nodes s')) \<and>
    es_track_sections s' = es_track_sections s \<and> es_switches s' = es_switches s \<and> es_signals s' = es_signals s"
  by (auto simp: load_boundary_node_def and_then_Inr insert_defs extends_keys_def has_uid_def um_keys_emplace
      dest!: require_uid_field_unsigned)

lemma load_track_section_keys:
  "load_track_section js p j s = Inr s' \<Longrightarrow> extends_keys js j (um_keys (es_track_sections s)) (um_keys (es_track_sections s')) \<and>
    es_boundary_nodes s' = es_boundary_nodes s \<and> es_switches s' = es_switches s \<and> es_signals s' = es_signals s"
  by (auto simp: load_track_section_def and_then_Inr insert_defs extends_keys_def has_uid_def um_keys_emplace
      dest!: require_uid_field_unsigned)

lemma load_switch_keys:
  "load_switch js p j s = Inr s' \<Longrightarrow> extends_keys js j (um_keys (es_switches s)) (um_keys (es_switches s')) \<and>
    es_boundary_nodes s' = es_boundary_nodes s \<and> es_track_sections s' = es_track_sections s \<and> es_signals s' = es_signals s"
  by (auto simp: load_switch_def and_then_Inr insert_defs extends_keys_def has_uid_def um_keys_emplace
      dest!: require_uid_field_unsigned)

lemma load_signal_keys:
  "load_signal js p j s = Inr s' \<Longrightarrow> extends_keys js j (um_keys (es_signals s)) (um_keys (es_signals s')) \<and>
    es_boundary_nodes s' = es_boundary_nodes s \<and> es_track_sections s' = es_track_sections s \<and> es_switches s' = es_switches s"
  by (auto simp: load_signal_def and_then_Inr insert_defs extends_keys_def has_uid_def um_keys_emplace
      dest!: require_uid_field_unsigned)

lemma load_block_section_maps:
  "load_block_section js p j s = Inr s' \<Longrightarrow> es_boundary_nodes s' = es_boundary_nodes s \<and>
    es_track_sections s' = es_track_sections s \<and> es_switches s' = es_switches s \<and> es_signals s' = es_signals s"
  by (auto simp: load_block_section_def and_then_Inr insert_defs)

lemma load_derailer_maps:
  "load_derailer js p j s = Inr s' \<Longrightarrow> es_boundary_nodes s' = es_boundary_nodes s \<and>
    es_track_sections s' = es_track_sections s \<and> es_switches s' = es_switches s \<and> es_signals s' = es_signals s"
  by (auto simp: load_derailer_def and_then_Inr insert_defs)

lemma topology_keys:
  assumes "load_object_arrays js topo p (kTopologyKinds js) s = Inr s'"
    and "es_boundary_nodes s = []" "es_track_sections s = []" "es_switches s = []"
    and "list_all2 (has_uid js) (entries js topo ''boundary_nodes'') u1"
      "list_all2 (has_uid js) (entries js topo ''track_sections'') u2" "list_all2 (has_uid js) (entries js topo ''switches'') u3"
    and "distinct u1" "distinct u2" "distinct u3"
  shows "um_keys (es_boundary_nodes s') = u1 \<and> um_keys (es_track_sections s') = u2 \<and> um_keys (es_switches s') = u3 \<and>
    es_signals s' = es_signals s"
proof -
  obtain blocks a b c where
    folds: "fold_result (load_boundary_node js p) (entries js topo ''boundary_nodes'') s = Inr a"
      "fold_result (load_track_section js p) (entries js topo ''track_sections'') a = Inr b"
      "fold_result (load_switch js p) (entries js topo ''switches'') b = Inr c"
      "fold_result (load_block_section js p) blocks c = Inr s'"
    using assms(1) by (auto simp: load_object_arrays_def kTopologyKinds_def and_then_Inr load_object_array_Inr entries_def)
  have a: "es_track_sections a = es_track_sections s" "es_switches a = es_switches s" "es_signals a = es_signals s"
    by (rule fold_result_frame [OF folds(1)], simp add: load_boundary_node_keys)+
  have b: "es_boundary_nodes b = es_boundary_nodes a" "es_switches b = es_switches a" "es_signals b = es_signals a"
    by (rule fold_result_frame [OF folds(2)], simp add: load_track_section_keys)+
  have c: "es_boundary_nodes c = es_boundary_nodes b" "es_track_sections c = es_track_sections b" "es_signals c = es_signals b"
    by (rule fold_result_frame [OF folds(3)], simp add: load_switch_keys)+
  have d: "es_boundary_nodes s' = es_boundary_nodes c" "es_track_sections s' = es_track_sections c"
    "es_switches s' = es_switches c" "es_signals s' = es_signals c"
    by (rule fold_result_frame [OF folds(4)], simp add: load_block_section_maps)+
  have "um_keys (es_boundary_nodes a) = um_keys (es_boundary_nodes s) @ u1"
    by (rule fold_result_keys [OF folds(1) _ assms(5)]) (simp_all add: load_boundary_node_keys assms(2,8))
  moreover have "um_keys (es_track_sections b) = um_keys (es_track_sections a) @ u2"
    by (rule fold_result_keys [OF folds(2) _ assms(6)]) (simp_all add: load_track_section_keys a assms(3,9))
  moreover have "um_keys (es_switches c) = um_keys (es_switches b) @ u3"
    by (rule fold_result_keys [OF folds(3) _ assms(7)]) (simp_all add: load_switch_keys a b assms(4,10))
  ultimately show ?thesis using a b c d assms(2-4) by simp
qed

lemma objects_keys:
  assumes "load_object_arrays js objs p (kObjectsKinds js) s = Inr s'" and "es_signals s = []"
    and "list_all2 (has_uid js) (entries js objs ''signals'') u4" and "distinct u4"
  shows "um_keys (es_signals s') = u4 \<and> es_boundary_nodes s' = es_boundary_nodes s \<and>
    es_track_sections s' = es_track_sections s \<and> es_switches s' = es_switches s"
proof -
  obtain drs a where folds: "fold_result (load_signal js p) (entries js objs ''signals'') s = Inr a"
      "fold_result (load_derailer js p) drs a = Inr s'"
    using assms(1) by (auto simp: load_object_arrays_def kObjectsKinds_def and_then_Inr load_object_array_Inr entries_def)
  have a: "es_boundary_nodes a = es_boundary_nodes s" "es_track_sections a = es_track_sections s" "es_switches a = es_switches s"
    by (rule fold_result_frame [OF folds(1)], simp add: load_signal_keys)+
  have d: "es_boundary_nodes s' = es_boundary_nodes a" "es_track_sections s' = es_track_sections a"
    "es_switches s' = es_switches a" "es_signals s' = es_signals a"
    by (rule fold_result_frame [OF folds(2)], simp add: load_derailer_maps)+
  have "um_keys (es_signals a) = um_keys (es_signals s) @ u4"
    by (rule fold_result_keys [OF folds(1) _ assms(3)]) (simp_all add: load_signal_keys assms(2,4))
  with a d assms(2) show ?thesis by simp
qed

section \<open>Every entry becomes an object\<close>

text \<open>
  C15.  When layer 1 reports nothing, loading the scenario loses nothing: the engine state has as many
  boundary nodes, track sections, switches and signals as the documents have entries for them.
\<close>

theorem validated_scenario_loses_nothing:
  assumes "load_scenario js fs dir empty_state = Inr (s, meta)"
    and "fs_parse fs (dir @ [''topology.json'']) = Inr topo" and "fs_exists fs (dir @ [''objects.json''])"
    and "fs_parse fs (dir @ [''objects.json'']) = Inr objs"
    and "layer1_validate js topo objs = Inr []"
  shows "length (for_each_boundary_node s) = length (entries js topo ''boundary_nodes'') \<and>
    length (for_each_track_section s) = length (entries js topo ''track_sections'') \<and>
    length (for_each_switch s) = length (entries js topo ''switches'') \<and>
    length (for_each_signal s) = length (entries js objs ''signals'')"
proof -
  obtain sid s1 where
    s1: "load_object_arrays js topo (dir @ [''topology.json'']) (kTopologyKinds js) (set_session_id sid empty_state) = Inr s1"
    and s: "load_object_arrays js objs (dir @ [''objects.json'']) (kObjectsKinds js) s1 = Inr s"
    using assms(1-4) by (auto simp: load_scenario_def read_json_def and_then_Inr Let_def split: if_splits)
  obtain u1 u2 u3 u4 where us: "list_all2 (has_uid js) (entries js topo ''boundary_nodes'') u1"
    "list_all2 (has_uid js) (entries js topo ''track_sections'') u2"
    "list_all2 (has_uid js) (entries js topo ''switches'') u3" "list_all2 (has_uid js) (entries js objs ''signals'') u4"
    "distinct u1" "distinct u2" "distinct u3" "distinct u4" by (rule layer1_uids [OF assms(5)])
  have k: "um_keys (es_boundary_nodes s1) = u1 \<and> um_keys (es_track_sections s1) = u2 \<and> um_keys (es_switches s1) = u3 \<and>
      es_signals s1 = es_signals (set_session_id sid empty_state)"
    by (rule topology_keys [OF s1 _ _ _ us(1-3,5-7)]) (simp_all add: set_session_id_def empty_state_def)
  then have "es_signals s1 = []" by (simp add: set_session_id_def empty_state_def)
  from objects_keys [OF s this us(4,8)] k us(1-4)[THEN list_all2_lengthD] show ?thesis
    by (auto simp: for_each_defs for_each_boundary_node_def um_values_def um_keys_def)
qed

theorem validated_scenario_loses_nothing_witness:
  "\<exists>s meta. load_scenario json_tree (valid_files ''STOP'') [''GOr''] empty_state = Inr (s, meta) \<and>
     length (for_each_boundary_node s) = 2 \<and> length (for_each_signal s) = 1"
proof -
  obtain s meta where s: "load_scenario json_tree (valid_files ''STOP'') [''GOr''] empty_state = Inr (s, meta)"
    using sample_loads by (elim exE conjE) (rule that)
  have e: "length (entries json_tree valid_topology ''boundary_nodes'') = 2"
    "length (entries json_tree (valid_objects ''STOP'') ''signals'') = 1"
    by (simp_all add: entries_def layer1_defs valid_sample_defs)
  from validated_scenario_loses_nothing [OF s _ _ _ sample_layer1]
  have "length (for_each_boundary_node s) = 2 \<and> length (for_each_signal s) = 1"
    by (simp add: valid_files_def e)
  with s show ?thesis by blast
qed

end
