(* ===== verification/Track_Layout.thy ===== *)
theory Track_Layout
  imports Topology_Loader
begin

text \<open>
  Layouts of the track panel: the data of \<^verbatim>\<open>libtrackview/include/trackview/core/layout.hpp\<close> and the
  reader \<^verbatim>\<open>libtrackview/src/json_layout_reader.cpp\<close>.  Coordinates are values of type \<open>double\<close>
  with infinities and NaN.
\<close>

section \<open>Geometry\<close>

type_synonym InfrastructureId = u64

record Point =
  pt_x :: double
  pt_y :: double

type_synonym Path = "Point list"

record Canvas =
  cv_width :: double
  cv_height :: double

record TrackSectionGeometry =
  tsg_topology_id :: InfrastructureId
  tsg_path :: Path

record SwitchPorts =
  spt_trunk :: Point
  spt_straight :: Point
  spt_divergent :: Point

record SwitchGeometry =
  swg_topology_id :: InfrastructureId
  swg_ports :: SwitchPorts

datatype TrackSide = SIDE_A | SIDE_B

datatype FacingDirection = TowardsA | TowardsB

record TrackAttachment =
  att_track_id :: InfrastructureId
  att_reference_side :: TrackSide
  att_offset :: double
  att_lateral :: double

record SignalGeometry =
  sgg_object_id :: InfrastructureId
  sgg_attachment :: TrackAttachment
  sgg_facing :: FacingDirection

record LabelGeometry =
  lbl_text :: string
  lbl_anchor :: Point

datatype TrackLayoutElement =
  TrackElement TrackSectionGeometry | SwitchElement SwitchGeometry | SignalElement SignalGeometry

record TrackLayout =
  lay_schema_version :: int
  lay_layout_id :: string
  lay_station_sid :: string
  lay_style_hint :: string
  lay_canvas :: Canvas
  lay_elements :: "TrackLayoutElement list"
  lay_labels :: "LabelGeometry list"

section \<open>The reader\<close>

text \<open>
  \<open>RuntimeError\<close> is an exception of the reader itself, \<open>LibraryError\<close> one of the JSON
  library, which \<open>read_layout\<close> catches and turns into the former.
\<close>

definition at_get :: "'j Json \<Rightarrow> ('j \<Rightarrow> string + 'a) \<Rightarrow> 'j \<Rightarrow> string \<Rightarrow> loader_error + 'a" where
  "at_get js get j k = lib (and_then (j_at js j k) get)"

definition read_point :: "'j Json \<Rightarrow> 'j \<Rightarrow> loader_error + Point" where
  "read_point js v =
     and_then (at_get js (j_get_double js) v ''x'') (\<lambda>x.
     and_then (at_get js (j_get_double js) v ''y'') (\<lambda>y. Inr \<lparr>pt_x = x, pt_y = y\<rparr>))"

definition read_id :: "'j Json \<Rightarrow> 'j \<Rightarrow> string \<Rightarrow> loader_error + InfrastructureId" where
  "read_id js v field = at_get js (j_get_u64 js) v field"

definition read_side :: "string \<Rightarrow> loader_error + TrackSide" where
  "read_side side =
    (if side = ''A'' then Inr SIDE_A else if side = ''B'' then Inr SIDE_B
     else Inl (RuntimeError ''layout_reader: signal side must be A or B''))"

definition read_facing :: "string \<Rightarrow> loader_error + FacingDirection" where
  "read_facing facing =
    (if facing = ''towards_A'' then Inr TowardsA else if facing = ''towards_B'' then Inr TowardsB
     else Inl (RuntimeError ''layout_reader: signal facing must be towards_A or towards_B''))"

definition read_track_element :: "'j Json \<Rightarrow> 'j \<Rightarrow> loader_error + TrackLayoutElement" where
  "read_track_element js element =
     and_then (read_id js element ''topology_uid'') (\<lambda>uid.
     and_then (lib (j_at js element ''path'')) (\<lambda>points.
     and_then (map_result (read_point js) (j_elements js points)) (\<lambda>path.
       Inr (TrackElement \<lparr>tsg_topology_id = uid, tsg_path = path\<rparr>))))"

definition read_switch_element :: "'j Json \<Rightarrow> 'j \<Rightarrow> loader_error + TrackLayoutElement" where
  "read_switch_element js element =
     and_then (lib (j_at js element ''ports'')) (\<lambda>ports.
     and_then (read_id js element ''topology_uid'') (\<lambda>uid.
     and_then (lib (j_at js ports ''trunk'')) (\<lambda>t. and_then (read_point js t) (\<lambda>trunk.
     and_then (lib (j_at js ports ''straight'')) (\<lambda>s. and_then (read_point js s) (\<lambda>straight.
     and_then (lib (j_at js ports ''divergent'')) (\<lambda>d. and_then (read_point js d) (\<lambda>divergent.
       Inr (SwitchElement \<lparr>swg_topology_id = uid,
         swg_ports = \<lparr>spt_trunk = trunk, spt_straight = straight, spt_divergent = divergent\<rparr>\<rparr>)))))))))"

definition read_signal_element :: "'j Json \<Rightarrow> 'j \<Rightarrow> loader_error + TrackLayoutElement" where
  "read_signal_element js element =
     and_then (lib (j_at js element ''attachment'')) (\<lambda>attachment.
     and_then (read_id js element ''object_uid'') (\<lambda>uid.
     and_then (read_id js attachment ''topology_uid'') (\<lambda>track_id.
     and_then (at_get js (j_get_string js) attachment ''side'') (\<lambda>side_name.
     and_then (read_side side_name) (\<lambda>side.
     and_then (at_get js (j_get_double js) attachment ''offset'') (\<lambda>off.
     and_then (lib (j_value js (j_get_double js) attachment ''lateral'' (Fin 0))) (\<lambda>lateral.
     and_then (at_get js (j_get_string js) element ''facing'') (\<lambda>facing_name.
     and_then (read_facing facing_name) (\<lambda>facing.
       Inr (SignalElement \<lparr>sgg_object_id = uid,
         sgg_attachment = \<lparr>att_track_id = track_id, att_reference_side = side, att_offset = off, att_lateral = lateral\<rparr>,
         sgg_facing = facing\<rparr>))))))))))"

definition read_element :: "'j Json \<Rightarrow> 'j \<Rightarrow> loader_error + TrackLayoutElement" where
  "read_element js element =
     and_then (at_get js (j_get_string js) element ''kind'') (\<lambda>kind.
       if kind = ''track_section'' then read_track_element js element
       else if kind = ''switch'' then read_switch_element js element
       else if kind = ''signal'' then read_signal_element js element
       else Inl (RuntimeError (''layout_reader: unsupported element kind '' @ quoted kind)))"

definition read_label :: "'j Json \<Rightarrow> 'j \<Rightarrow> loader_error + LabelGeometry" where
  "read_label js label =
     and_then (at_get js (j_get_string js) label ''text'') (\<lambda>txt.
     and_then (lib (j_at js label ''anchor'')) (\<lambda>a.
     and_then (read_point js a) (\<lambda>anchor. Inr \<lparr>lbl_text = txt, lbl_anchor = anchor\<rparr>)))"

definition read_layout_document :: "'j Json \<Rightarrow> 'j \<Rightarrow> loader_error + TrackLayout" where
  "read_layout_document js doc =
     and_then (at_get js (j_get_int js) doc ''schema_version'') (\<lambda>version.
       if version \<noteq> 1 then Inl (RuntimeError (''layout_reader: unsupported schema_version '' @ int_to_string version)) else
     and_then (at_get js (j_get_string js) doc ''kind'') (\<lambda>kind.
       if kind \<noteq> ''track_schematic'' then Inl (RuntimeError ''layout_reader: kind must be track_schematic'') else
     and_then (at_get js (j_get_string js) doc ''layout_id'') (\<lambda>layout_id.
     and_then (at_get js (j_get_string js) doc ''station_sid'') (\<lambda>station_sid.
     and_then (lib (j_value js (j_get_string js) doc ''style_hint'' ''ebiscreen'')) (\<lambda>style_hint.
     and_then (lib (j_at js doc ''canvas'')) (\<lambda>canvas.
     and_then (at_get js (j_get_double js) canvas ''width'') (\<lambda>width.
     and_then (at_get js (j_get_double js) canvas ''height'') (\<lambda>height.
     and_then (lib (j_at js doc ''elements'')) (\<lambda>items.
     and_then (map_result (read_element js) (j_elements js items)) (\<lambda>elements.
     and_then (lib (j_value js (\<lambda>v. Inr (j_elements js v)) doc ''labels'' [])) (\<lambda>label_items.
     and_then (map_result (read_label js) label_items) (\<lambda>labels.
       Inr \<lparr>lay_schema_version = version, lay_layout_id = layout_id, lay_station_sid = station_sid,
            lay_style_hint = style_hint, lay_canvas = \<lparr>cv_width = width, cv_height = height\<rparr>,
            lay_elements = elements, lay_labels = labels\<rparr>))))))))))))"

definition layout_error :: "path \<Rightarrow> loader_error \<Rightarrow> string" where
  "layout_error p e =
    (case e of RuntimeError what \<Rightarrow> what
     | LibraryError what \<Rightarrow> ''layout_reader: invalid layout in '' @ quoted (path_string p) @ '': '' @ what)"

definition read_layout :: "'j Json \<Rightarrow> 'j Files \<Rightarrow> path \<Rightarrow> string + TrackLayout" where
  "read_layout js fs p =
    (if \<not> fs_can_open fs p then Inl (''layout_reader: cannot open '' @ quoted (path_string p))
     else map_error (layout_error p) (and_then (lib (fs_parse fs p)) (read_layout_document js)))"

lemma read_layout_version: "read_layout js fs p = Inr layout \<Longrightarrow> lay_schema_version layout = 1"
  by (auto simp: read_layout_def read_layout_document_def and_then_Inr split: if_splits)

end
