(* ===== verification/Track_Panel.thy ===== *)
theory Track_Panel
  imports Track_Layout Snapshot_View
begin

text \<open>
  The panel of \<^verbatim>\<open>libtrackview\<close>: \<^verbatim>\<open>layout_validator.cpp\<close>,
  \<^verbatim>\<open>path_attachment_resolver.cpp\<close>, \<^verbatim>\<open>render_model_builder.cpp\<close>, the adapters of
  \<^verbatim>\<open>engine_track_state_adapter.cpp\<close>, \<^verbatim>\<open>ebiscreen_theme.cpp\<close> and the drawing of
  \<^verbatim>\<open>qt_scene_renderer.cpp\<close>.  The two interfaces through which the panel sees the engine are records
  of their methods.  A scene of Qt is the list of the items that were added to it since it was cleared;
  how Qt paints them is not modelled.
\<close>

section \<open>Interfaces to the engine\<close>

record IInfrastructureCatalog =
  contains_track :: "InfrastructureId \<Rightarrow> bool"
  contains_switch :: "InfrastructureId \<Rightarrow> bool"
  contains_signal :: "InfrastructureId \<Rightarrow> bool"
  signal_governs_track :: "InfrastructureId \<Rightarrow> InfrastructureId \<Rightarrow> bool"

datatype OccupancyState = Free | Occupied

datatype SwitchPositionState = Straight | Divergent | Moving

datatype SignalIndicationState = Stop | Proceed

record SwitchRuntimeState =
  srs_occupancy :: OccupancyState
  srs_position :: SwitchPositionState

record ITrackRuntimeState =
  track_state :: "InfrastructureId \<Rightarrow> OccupancyState option"
  switch_state :: "InfrastructureId \<Rightarrow> SwitchRuntimeState option"
  signal_state :: "InfrastructureId \<Rightarrow> SignalIndicationState option"

fun map_occupancy :: "TrackOccupancy \<Rightarrow> OccupancyState" where
  "map_occupancy OCCUPIED = Occupied"
| "map_occupancy _ = Free"

fun map_position :: "SwitchPosition \<Rightarrow> SwitchPositionState" where
  "map_position STRAIGHT = Straight"
| "map_position DIVERGENT = Divergent"
| "map_position MOVING = Moving"
| "map_position TRAILED_DAMAGED = Moving"

definition map_indication :: "SignalAspect \<Rightarrow> SignalIndicationState" where
  "map_indication aspect = (if aspect = S1_STOP \<or> aspect = MS1_STOP then Stop else Proceed)"

definition engine_catalog :: "IStateView \<Rightarrow> IInfrastructureCatalog" where
  "engine_catalog source =
     \<lparr>contains_track = (\<lambda>id. view_find_track_section source id \<noteq> None),
      contains_switch = (\<lambda>id. view_find_switch source id \<noteq> None),
      contains_signal = (\<lambda>id. view_find_signal source id \<noteq> None),
      signal_governs_track = (\<lambda>signal_id track_id.
        case view_find_signal source signal_id of Some sig \<Rightarrow> sig_governs_section_uid sig = track_id | None \<Rightarrow> False)\<rparr>"

definition engine_runtime :: "IStateView \<Rightarrow> ITrackRuntimeState" where
  "engine_runtime source =
     \<lparr>track_state = (\<lambda>id. map_option (\<lambda>t. map_occupancy (ts_occupancy t)) (view_find_track_section source id)),
      switch_state = (\<lambda>id. map_option (\<lambda>sw. \<lparr>srs_occupancy = map_occupancy (sw_occupancy sw),
         srs_position = map_position (sw_position sw)\<rparr>) (view_find_switch source id)),
      signal_state = (\<lambda>id. map_option (\<lambda>sig. map_indication (sig_current_aspect sig)) (view_find_signal source id))\<rparr>"

section \<open>The validator\<close>

datatype DiagnosticSeverity = DiagError | DiagWarning

record LayoutDiagnostic =
  ld_severity :: DiagnosticSeverity
  ld_rule_id :: string
  ld_infrastructure_id :: "InfrastructureId option"
  ld_message :: string

definition is_finite_point :: "Point \<Rightarrow> bool" where
  "is_finite_point p \<longleftrightarrow> isfinite (pt_x p) \<and> isfinite (pt_y p)"

definition diagnostic_if :: "bool \<Rightarrow> string \<Rightarrow> InfrastructureId option \<Rightarrow> string \<Rightarrow> LayoutDiagnostic list" where
  "diagnostic_if bad rule uid message =
    (if bad then [\<lparr>ld_severity = DiagError, ld_rule_id = rule, ld_infrastructure_id = uid, ld_message = message\<rparr>] else [])"

definition layout_header_diagnostics :: "TrackLayout \<Rightarrow> LayoutDiagnostic list" where
  "layout_header_diagnostics layout =
     diagnostic_if (lay_schema_version layout \<noteq> 1) ''LAY-001'' None ''Unsupported layout schema version'' @
     diagnostic_if (lay_layout_id layout = [] \<or> lay_station_sid layout = []) ''LAY-002'' None
       ''Layout and station identifiers must not be empty'' @
     diagnostic_if
       (\<not> d_less (Fin 0) (cv_width (lay_canvas layout)) \<or> \<not> d_less (Fin 0) (cv_height (lay_canvas layout)) \<or>
        \<not> isfinite (cv_width (lay_canvas layout)) \<or> \<not> isfinite (cv_height (lay_canvas layout)))
       ''LAY-003'' None ''Canvas dimensions must be finite and positive''"

definition track_diagnostics ::
    "IInfrastructureCatalog \<Rightarrow> InfrastructureId set \<Rightarrow> TrackSectionGeometry \<Rightarrow> LayoutDiagnostic list" where
  "track_diagnostics catalog topology_geometries item =
    (let uid = tsg_topology_id item
     in diagnostic_if (\<not> contains_track catalog uid) ''LAY-101'' (Some uid) ''Unknown track section identifier'' @
        diagnostic_if (length (tsg_path item) < 2) ''LAY-102'' (Some uid) ''Track path requires at least two points'' @
        concat (map (\<lambda>p. diagnostic_if (\<not> is_finite_point p) ''LAY-103'' (Some uid)
          ''Track path contains a non-finite coordinate'') (tsg_path item)) @
        diagnostic_if (uid \<in> topology_geometries) ''LAY-104'' (Some uid) ''Duplicate topology geometry'')"

definition switch_diagnostics ::
    "IInfrastructureCatalog \<Rightarrow> InfrastructureId set \<Rightarrow> SwitchGeometry \<Rightarrow> LayoutDiagnostic list" where
  "switch_diagnostics catalog topology_geometries item =
    (let uid = swg_topology_id item; ports = swg_ports item
     in diagnostic_if (\<not> contains_switch catalog uid) ''LAY-201'' (Some uid) ''Unknown switch identifier'' @
        diagnostic_if (\<not> is_finite_point (spt_trunk ports) \<or> \<not> is_finite_point (spt_straight ports) \<or>
          \<not> is_finite_point (spt_divergent ports)) ''LAY-202'' (Some uid) ''Switch contains a non-finite port coordinate'' @
        diagnostic_if (uid \<in> topology_geometries) ''LAY-104'' (Some uid) ''Duplicate topology geometry'')"

definition signal_diagnostics ::
    "IInfrastructureCatalog \<Rightarrow> InfrastructureId set \<Rightarrow> InfrastructureId set \<Rightarrow> SignalGeometry \<Rightarrow> LayoutDiagnostic list" where
  "signal_diagnostics catalog track_geometries object_geometries item =
    (let uid = sgg_object_id item; att = sgg_attachment item
     in diagnostic_if (\<not> contains_signal catalog uid) ''LAY-301'' (Some uid) ''Unknown signal identifier'' @
        (if \<not> contains_track catalog (att_track_id att)
         then diagnostic_if True ''LAY-302'' (Some (att_track_id att)) ''Signal is attached to an unknown track section''
         else diagnostic_if (contains_signal catalog uid \<and> \<not> signal_governs_track catalog uid (att_track_id att))
           ''LAY-303'' (Some uid) ''Signal is attached to a track it does not govern'') @
        diagnostic_if (\<not> isfinite (att_offset att) \<or> d_less (att_offset att) (Fin 0) \<or> d_less (Fin 1) (att_offset att))
          ''LAY-304'' (Some uid) ''Signal attachment offset must be in range 0..1'' @
        diagnostic_if (\<not> isfinite (att_lateral att)) ''LAY-305'' (Some uid) ''Signal lateral offset must be finite'' @
        diagnostic_if (uid \<in> object_geometries) ''LAY-306'' (Some uid) ''Duplicate signal geometry'' @
        diagnostic_if (att_track_id att \<notin> track_geometries) ''LAY-307'' (Some uid)
          ''Signal attachment requires track geometry in this layout'')"

fun element_diagnostics ::
    "IInfrastructureCatalog \<Rightarrow> InfrastructureId set \<Rightarrow> InfrastructureId set \<Rightarrow> InfrastructureId set \<Rightarrow>
     TrackLayoutElement list \<Rightarrow> LayoutDiagnostic list" where
  "element_diagnostics catalog tracks topo objs [] = []"
| "element_diagnostics catalog tracks topo objs (TrackElement item # els) =
     track_diagnostics catalog topo item @
     element_diagnostics catalog tracks (insert (tsg_topology_id item) topo) objs els"
| "element_diagnostics catalog tracks topo objs (SwitchElement item # els) =
     switch_diagnostics catalog topo item @
     element_diagnostics catalog tracks (insert (swg_topology_id item) topo) objs els"
| "element_diagnostics catalog tracks topo objs (SignalElement item # els) =
     signal_diagnostics catalog tracks objs item @
     element_diagnostics catalog tracks topo (insert (sgg_object_id item) objs) els"

fun track_item :: "TrackLayoutElement \<Rightarrow> TrackSectionGeometry option" where
  "track_item (TrackElement item) = Some item"
| "track_item _ = None"

definition track_items :: "TrackLayout \<Rightarrow> TrackSectionGeometry list" where
  "track_items layout = List.map_filter track_item (lay_elements layout)"

definition label_diagnostics :: "TrackLayout \<Rightarrow> LayoutDiagnostic list" where
  "label_diagnostics layout =
     concat (map (\<lambda>label. diagnostic_if (lbl_text label = [] \<or> \<not> is_finite_point (lbl_anchor label)) ''LAY-401'' None
       ''Labels require non-empty text and finite coordinates'') (lay_labels layout))"

definition validate_layout :: "IInfrastructureCatalog \<Rightarrow> TrackLayout \<Rightarrow> LayoutDiagnostic list" where
  "validate_layout catalog layout =
     layout_header_diagnostics layout @
     element_diagnostics catalog (set (map tsg_topology_id (track_items layout))) {} {} (lay_elements layout) @
     label_diagnostics layout"

section \<open>Attachment to a path\<close>

datatype render_error = RenderError string | InvalidArgument string | LogicError string

definition segment_length :: "Point \<Rightarrow> Point \<Rightarrow> double" where
  "segment_length a b = d_hypot (d_sub (pt_x b) (pt_x a)) (d_sub (pt_y b) (pt_y a))"

fun path_segments :: "Path \<Rightarrow> (Point \<times> Point \<times> double) list" where
  "path_segments (a # b # rest) = (a, b, segment_length a b) # path_segments (b # rest)"
| "path_segments _ = []"

definition point_on_segment :: "double \<Rightarrow> double \<Rightarrow> Point \<Rightarrow> Point \<Rightarrow> double \<Rightarrow> Point" where
  "point_on_segment lateral remaining a b len =
    (let ratio = d_clamp (d_div remaining len) (Fin 0) (Fin 1); dx = d_sub (pt_x b) (pt_x a); dy = d_sub (pt_y b) (pt_y a)
     in \<lparr>pt_x = d_sub (d_add (pt_x a) (d_mul ratio dx)) (d_div (d_mul lateral dy) len),
         pt_y = d_add (d_add (pt_y a) (d_mul ratio dy)) (d_div (d_mul lateral dx) len)\<rparr>)"

fun resolve_segments :: "double \<Rightarrow> double \<Rightarrow> (Point \<times> Point \<times> double) list \<Rightarrow> render_error + Point" where
  "resolve_segments lateral remaining [] = Inl (LogicError ''attachment_resolver: could not resolve path position'')"
| "resolve_segments lateral remaining ((a, b, len) # segs) =
    (if d_le remaining len \<or> segs = [] then
       (if d_le len (Fin 0) then resolve_segments lateral remaining segs
        else Inr (point_on_segment lateral remaining a b len))
     else resolve_segments lateral (d_sub remaining len) segs)"

definition total_length :: "(Point \<times> Point \<times> double) list \<Rightarrow> double" where
  "total_length segs = fold (\<lambda>seg total. d_add total (snd (snd seg))) segs (Fin 0)"

definition resolve_attachment :: "Path \<Rightarrow> TrackAttachment \<Rightarrow> render_error + Point" where
  "resolve_attachment path att =
    (if length path < 2 then Inl (InvalidArgument ''attachment_resolver: path needs at least two points'')
     else if \<not> isfinite (att_offset att) \<or> d_less (att_offset att) (Fin 0) \<or> d_less (Fin 1) (att_offset att) \<or>
       \<not> isfinite (att_lateral att) then Inl (InvalidArgument ''attachment_resolver: invalid attachment values'')
     else
       let segs = path_segments path; total = total_length segs
       in if d_le total (Fin 0) then Inl (InvalidArgument ''attachment_resolver: path has zero length'')
          else let fraction = (if att_reference_side att = SIDE_A then att_offset att else d_sub (Fin 1) (att_offset att))
               in resolve_segments (att_lateral att) (d_mul fraction total) segs)"

section \<open>The render model\<close>

record RenderTrack =
  rt_id :: InfrastructureId
  rt_path :: Path
  rt_state :: OccupancyState

record RenderSwitch =
  rs_id :: InfrastructureId
  rs_ports :: SwitchPorts
  rs_state :: SwitchRuntimeState

record RenderSignal =
  rg_id :: InfrastructureId
  rg_position :: Point
  rg_facing :: FacingDirection
  rg_state :: SignalIndicationState

record RenderModel =
  rm_canvas :: Canvas
  rm_tracks :: "RenderTrack list"
  rm_switches :: "RenderSwitch list"
  rm_signal_items :: "RenderSignal list"
  rm_labels :: "LabelGeometry list"

definition track_paths :: "TrackLayout \<Rightarrow> (InfrastructureId, Path) umap" where
  "track_paths layout = fold (\<lambda>t. um_emplace (tsg_topology_id t) (tsg_path t)) (track_items layout) []"

fun build_element ::
    "ITrackRuntimeState \<Rightarrow> (InfrastructureId, Path) umap \<Rightarrow> TrackLayoutElement \<Rightarrow> RenderModel \<Rightarrow> render_error + RenderModel" where
  "build_element state paths (TrackElement item) model =
    (case track_state state (tsg_topology_id item) of
       None \<Rightarrow> Inl (RenderError (''render_model_builder: missing track state '' @ u64_to_string (tsg_topology_id item)))
     | Some runtime \<Rightarrow>
         Inr (model\<lparr>rm_tracks := rm_tracks model @
           [\<lparr>rt_id = tsg_topology_id item, rt_path = tsg_path item, rt_state = runtime\<rparr>]\<rparr>))"
| "build_element state paths (SwitchElement item) model =
    (case switch_state state (swg_topology_id item) of
       None \<Rightarrow> Inl (RenderError (''render_model_builder: missing switch state '' @ u64_to_string (swg_topology_id item)))
     | Some runtime \<Rightarrow>
         Inr (model\<lparr>rm_switches := rm_switches model @
           [\<lparr>rs_id = swg_topology_id item, rs_ports = swg_ports item, rs_state = runtime\<rparr>]\<rparr>))"
| "build_element state paths (SignalElement item) model =
    (case signal_state state (sgg_object_id item) of
       None \<Rightarrow> Inl (RenderError (''render_model_builder: missing signal state '' @ u64_to_string (sgg_object_id item)))
     | Some runtime \<Rightarrow>
         (case um_find paths (att_track_id (sgg_attachment item)) of
            None \<Rightarrow> Inl (RenderError ''render_model_builder: signal track geometry is missing'')
          | Some path \<Rightarrow>
              and_then (resolve_attachment path (sgg_attachment item)) (\<lambda>position.
                Inr (model\<lparr>rm_signal_items := rm_signal_items model @
                  [\<lparr>rg_id = sgg_object_id item, rg_position = position, rg_facing = sgg_facing item,
                    rg_state = runtime\<rparr>]\<rparr>))))"

definition build_model :: "ITrackRuntimeState \<Rightarrow> TrackLayout \<Rightarrow> render_error + RenderModel" where
  "build_model state layout =
     fold_result (build_element state (track_paths layout)) (lay_elements layout)
       \<lparr>rm_canvas = lay_canvas layout, rm_tracks = [], rm_switches = [], rm_signal_items = [],
        rm_labels = lay_labels layout\<rparr>"

section \<open>Drawing\<close>

datatype QColor = QColor nat nat nat

record QPen =
  pen_colour :: QColor
  pen_width :: real
  pen_round_join :: bool

record ITrackTheme =
  background :: QColor
  track_pen :: "OccupancyState \<Rightarrow> QPen"
  switch_pen :: "OccupancyState \<Rightarrow> bool \<Rightarrow> QPen"
  signal_brush :: "SignalIndicationState \<Rightarrow> QColor"
  label_colour :: QColor

definition occupancy_colour :: "OccupancyState \<Rightarrow> QColor" where
  "occupancy_colour occupancy = (if occupancy = Occupied then QColor 220 45 45 else QColor 220 220 220)"

definition EbiScreenTheme :: ITrackTheme where
  "EbiScreenTheme =
     \<lparr>background = QColor 20 24 28,
      track_pen = (\<lambda>occupancy. \<lparr>pen_colour = occupancy_colour occupancy, pen_width = 1.2, pen_round_join = True\<rparr>),
      switch_pen = (\<lambda>occupancy active.
        if \<not> active then \<lparr>pen_colour = QColor 95 105 110, pen_width = 0.8, pen_round_join = False\<rparr>
        else \<lparr>pen_colour = occupancy_colour occupancy, pen_width = 1.3, pen_round_join = False\<rparr>),
      signal_brush = (\<lambda>indication. if indication = Stop then QColor 230 35 35 else QColor 40 220 70),
      label_colour = QColor 210 210 210\<rparr>"

datatype SceneItem =
    PathItem InfrastructureId Path QPen bool
  | LineItem InfrastructureId Point Point QPen bool
  | EllipseItem InfrastructureId Point QColor bool
  | TextItem string Point QColor

record QGraphicsScene =
  sc_width :: double
  sc_height :: double
  sc_background :: QColor
  sc_items :: "SceneItem list"

definition switch_items :: "ITrackTheme \<Rightarrow> bool \<Rightarrow> RenderSwitch \<Rightarrow> SceneItem list" where
  "switch_items theme interactive sw =
    (let st = rs_state sw; ports = rs_ports sw
     in [LineItem (rs_id sw) (spt_trunk ports) (spt_straight ports)
           (switch_pen theme (srs_occupancy st) (srs_position st = Straight)) interactive,
         LineItem (rs_id sw) (spt_trunk ports) (spt_divergent ports)
           (switch_pen theme (srs_occupancy st) (srs_position st = Divergent)) interactive])"

text \<open>An ellipse is the circle of diameter 2.2 whose centre is the position of the signal.\<close>

definition render_scene :: "ITrackTheme \<Rightarrow> bool \<Rightarrow> RenderModel \<Rightarrow> QGraphicsScene" where
  "render_scene theme interactive model =
     \<lparr>sc_width = cv_width (rm_canvas model), sc_height = cv_height (rm_canvas model), sc_background = background theme,
      sc_items =
        map (\<lambda>t. PathItem (rt_id t) (rt_path t) (track_pen theme (rt_state t)) interactive) (rm_tracks model) @
        concat (map (switch_items theme interactive) (rm_switches model)) @
        map (\<lambda>g. EllipseItem (rg_id g) (rg_position g) (signal_brush theme (rg_state g)) interactive) (rm_signal_items model) @
        map (\<lambda>l. TextItem (lbl_text l) (lbl_anchor l) (label_colour theme)) (rm_labels model)\<rparr>"

section \<open>The picture\<close>

datatype image_error = ImageInvalidArgument string | ImageUndefined

record QImage =
  im_width :: int
  im_height :: int
  im_fill :: QColor
  im_scene :: QGraphicsScene

text \<open>\<^verbatim>\<open>std::max(1, static_cast<int>(std::ceil(extent * scale)))\<close>; the conversion of a value that is
  no \<^verbatim>\<open>int\<close> is undefined.\<close>

definition image_extent :: "double \<Rightarrow> double \<Rightarrow> image_error + int" where
  "image_extent extent scale =
    (case d_mul extent scale of
       Fin x \<Rightarrow> if - (2 ^ 31) \<le> \<lceil>x\<rceil> \<and> \<lceil>x\<rceil> < 2 ^ 31 then Inr (max 1 \<lceil>x\<rceil>) else Inl ImageUndefined
     | _ \<Rightarrow> Inl ImageUndefined)"

text \<open>What Qt paints is the scene, stretched over the picture.\<close>

definition render_image :: "ITrackTheme \<Rightarrow> RenderModel \<Rightarrow> double \<Rightarrow> image_error + QImage" where
  "render_image theme model scale =
    (if \<not> isfinite scale \<or> d_le scale (Fin 0)
     then Inl (ImageInvalidArgument ''image_renderer: scale must be finite and positive'')
     else let scene = render_scene theme True model
          in and_then (image_extent (cv_width (rm_canvas model)) scale) (\<lambda>width.
             and_then (image_extent (cv_height (rm_canvas model)) scale) (\<lambda>height.
               Inr \<lparr>im_width = width, im_height = height, im_fill = sc_background scene, im_scene = scene\<rparr>)))"

end
