(* ===== verification/Panel_Properties.thy ===== *)
theory Panel_Properties
  imports Track_Panel Sample_Station
begin

text \<open>
  The panel: a validated layout of the infrastructure of an engine state can always be drawn, and what is
  drawn shows the state.
\<close>

section \<open>Layouts without diagnostics\<close>

lemma diagnostic_if_empty [simp]: "diagnostic_if b r u m = [] \<longleftrightarrow> \<not> b"
  by (simp add: diagnostic_if_def)

fun element_ok :: "IInfrastructureCatalog \<Rightarrow> InfrastructureId set \<Rightarrow> TrackLayoutElement \<Rightarrow> bool" where
  "element_ok catalog tracks (TrackElement g) \<longleftrightarrow>
     contains_track catalog (tsg_topology_id g) \<and> 2 \<le> length (tsg_path g) \<and> list_all is_finite_point (tsg_path g)"
| "element_ok catalog tracks (SwitchElement g) \<longleftrightarrow> contains_switch catalog (swg_topology_id g)"
| "element_ok catalog tracks (SignalElement g) \<longleftrightarrow>
     contains_signal catalog (sgg_object_id g) \<and> att_track_id (sgg_attachment g) \<in> tracks \<and>
     isfinite (att_offset (sgg_attachment g)) \<and> \<not> d_less (att_offset (sgg_attachment g)) (Fin 0) \<and>
     \<not> d_less (Fin 1) (att_offset (sgg_attachment g)) \<and> isfinite (att_lateral (sgg_attachment g)) \<and>
     signal_governs_track catalog (sgg_object_id g) (att_track_id (sgg_attachment g))"

lemma element_diagnostics_ok:
  "element_diagnostics catalog tracks topo objs els = [] \<Longrightarrow> el \<in> set els \<Longrightarrow> element_ok catalog tracks el"
  by (induction catalog tracks topo objs els rule: element_diagnostics.induct)
     (auto simp: track_diagnostics_def switch_diagnostics_def signal_diagnostics_def Let_def list_all_iff split: if_splits)

lemma element_diagnostics_distinct:
  "element_diagnostics catalog tracks topo objs els = [] \<Longrightarrow>
    distinct (map tsg_topology_id (List.map_filter track_item els)) \<and>
    set (map tsg_topology_id (List.map_filter track_item els)) \<inter> topo = {}"
proof (induction catalog tracks topo objs els rule: element_diagnostics.induct)
  case (2 catalog tracks topo objs item els)
  then show ?case by (auto simp: track_diagnostics_def Let_def)
qed auto

lemma validate_layout_element:
  "validate_layout catalog layout = [] \<Longrightarrow> el \<in> set (lay_elements layout) \<Longrightarrow>
    element_ok catalog (set (map tsg_topology_id (track_items layout))) el"
  by (rule element_diagnostics_ok [where topo = "{}" and objs = "{}"]) (simp_all add: validate_layout_def)

section \<open>Paths of the tracks\<close>

lemma fold_emplace_find:
  "um_find (fold (\<lambda>t. um_emplace (key t) (val t)) ts m) k =
    (case um_find m k of Some v \<Rightarrow> Some v | None \<Rightarrow> map_option val (find (\<lambda>t. key t = k) ts))"
  by (induction ts arbitrary: m) (auto simp: um_find_emplace split: option.splits)

lemma track_paths_find:
  "um_find (track_paths layout) u = map_option tsg_path (find (\<lambda>t. tsg_topology_id t = u) (track_items layout))"
  by (simp add: track_paths_def fold_emplace_find)

lemma track_paths_known:
  assumes "u \<in> set (map tsg_topology_id (track_items layout))"
  obtains t where "t \<in> set (track_items layout)" "um_find (track_paths layout) u = Some (tsg_path t)"
proof -
  from assms obtain t where "find (\<lambda>t. tsg_topology_id t = u) (track_items layout) = Some t"
    by (cases "find (\<lambda>t. tsg_topology_id t = u) (track_items layout)") (auto simp: find_None_iff)
  with that show thesis by (force simp: track_paths_find find_Some_iff)
qed

lemma track_items_in: "t \<in> set (track_items layout) \<longleftrightarrow> TrackElement t \<in> set (lay_elements layout)"
proof -
  have "t \<in> set (List.map_filter track_item els) \<longleftrightarrow> TrackElement t \<in> set els" for els
    by (induction els) (auto split: option.splits elim!: track_item.elims)
  then show ?thesis by (simp add: track_items_def)
qed

section \<open>Resolving an attachment\<close>

definition last_segment_positive :: "Path \<Rightarrow> bool" where
  "last_segment_positive path \<longleftrightarrow>
     2 \<le> length path \<and> d_less (Fin 0) (segment_length (path ! (length path - 2)) (path ! (length path - 1)))"

lemma d_sub_not_nan: "isfinite x \<Longrightarrow> isfinite y \<Longrightarrow> d_sub x y \<noteq> NaN"
  by (cases x; cases y) (simp_all add: isfinite_def d_sub_def to_double_def Let_def)

lemma d_hypot_not_nan: "x \<noteq> NaN \<Longrightarrow> y \<noteq> NaN \<Longrightarrow> d_length (d_hypot x y)"
  using d_hypot_length [of x y] by (cases x; cases y) (simp_all add: d_hypot_def isfinite_def d_length_def)

lemma segment_length_length: "is_finite_point a \<Longrightarrow> is_finite_point b \<Longrightarrow> d_length (segment_length a b)"
  by (simp add: segment_length_def is_finite_point_def d_hypot_not_nan d_sub_not_nan)

lemma path_segments_lengths:
  "list_all is_finite_point path \<Longrightarrow> seg \<in> set (path_segments path) \<Longrightarrow> d_length (snd (snd seg))"
  by (induction path rule: path_segments.induct) (auto simp: segment_length_length)

lemma path_segments_last:
  assumes "2 \<le> length path"
  shows "path_segments path \<noteq> []"
    "snd (snd (last (path_segments path))) = segment_length (path ! (length path - 2)) (path ! (length path - 1))"
proof -
  have "path_segments path \<noteq> [] \<and>
    snd (snd (last (path_segments path))) = segment_length (path ! (length path - 2)) (path ! (length path - 1))"
    using assms
  proof (induction path rule: path_segments.induct)
    case (1 a b rest)
    show ?case
    proof (cases rest)
      case (Cons c cs)
      with 1 show ?thesis by (simp add: nth_Cons')
    qed simp
  qed simp_all
  then show "path_segments path \<noteq> []"
    "snd (snd (last (path_segments path))) = segment_length (path ! (length path - 2)) (path ! (length path - 1))" by auto
qed

lemma d_less_le_zero: "d_less (Fin 0) x \<Longrightarrow> \<not> d_le x (Fin 0)"
  by (cases x) (auto simp: d_le_def)

lemma resolve_segments_total:
  "segs \<noteq> [] \<Longrightarrow> d_less (Fin 0) (snd (snd (last segs))) \<Longrightarrow> \<exists>pt. resolve_segments lateral remaining segs = Inr pt"
  by (induction lateral remaining segs rule: resolve_segments.induct) (auto simp: d_less_le_zero split: if_splits)

lemma total_length_positive:
  assumes "\<And>seg. seg \<in> set segs \<Longrightarrow> d_length (snd (snd seg))" and "segs \<noteq> []"
    and "d_less (Fin 0) (snd (snd (last segs)))"
  shows "d_less (Fin 0) (total_length segs)"
proof -
  have "d_length (fold (\<lambda>seg total. d_add total (snd (snd seg))) ss t)"
    if "d_length t" "\<forall>seg \<in> set ss. d_length (snd (snd seg))" for ss t
    using that by (induction ss arbitrary: t) (auto intro: d_add_length)
  moreover have "d_length (Fin 0)" by (simp add: d_length_def f64.rnd_zero)
  ultimately have "d_length (fold (\<lambda>seg total. d_add total (snd (snd seg))) (butlast segs) (Fin 0))"
    by (auto dest: in_set_butlastD intro: assms(1))
  then have "d_less (Fin 0) (d_add (fold (\<lambda>seg total. d_add total (snd (snd seg))) (butlast segs) (Fin 0)) (snd (snd (last segs))))"
    using assms by (intro d_add_positive) auto
  moreover have "total_length segs = d_add (fold (\<lambda>seg total. d_add total (snd (snd seg))) (butlast segs) (Fin 0)) (snd (snd (last segs)))"
    using assms(2) by (cases segs rule: rev_cases) (simp_all add: total_length_def)
  ultimately show ?thesis by simp
qed

lemma resolve_attachment_total:
  assumes "list_all is_finite_point path" and "last_segment_positive path" and "isfinite (att_offset att)"
    and "\<not> d_less (att_offset att) (Fin 0)" and "\<not> d_less (Fin 1) (att_offset att)" and "isfinite (att_lateral att)"
  shows "\<exists>pt. resolve_attachment path att = Inr pt"
proof -
  have len: "2 \<le> length path" and pos: "d_less (Fin 0) (snd (snd (last (path_segments path))))"
    using assms(2) path_segments_last(2) [of path] by (simp_all add: last_segment_positive_def)
  then have ne: "path_segments path \<noteq> []" by (simp add: path_segments_last)
  have "d_less (Fin 0) (total_length (path_segments path))"
    by (rule total_length_positive [OF path_segments_lengths [OF assms(1)] ne pos])
  then have "\<not> d_le (total_length (path_segments path)) (Fin 0)" by (rule d_less_le_zero)
  then show ?thesis
    using assms(3-6) len resolve_segments_total [OF ne pos] by (simp add: resolve_attachment_def Let_def)
qed

section \<open>The render model\<close>

fun switch_item :: "TrackLayoutElement \<Rightarrow> SwitchGeometry option" where
  "switch_item (SwitchElement item) = Some item"
| "switch_item _ = None"

fun signal_item :: "TrackLayoutElement \<Rightarrow> SignalGeometry option" where
  "signal_item (SignalElement item) = Some item"
| "signal_item _ = None"

text \<open>What is drawn for an element: its geometry and the state at this moment.\<close>

definition shows_track :: "ITrackRuntimeState \<Rightarrow> TrackSectionGeometry \<Rightarrow> RenderTrack \<Rightarrow> bool" where
  "shows_track state g r \<longleftrightarrow> rt_id r = tsg_topology_id g \<and> rt_path r = tsg_path g \<and> track_state state (rt_id r) = Some (rt_state r)"

definition shows_switch :: "ITrackRuntimeState \<Rightarrow> SwitchGeometry \<Rightarrow> RenderSwitch \<Rightarrow> bool" where
  "shows_switch state g r \<longleftrightarrow> rs_id r = swg_topology_id g \<and> rs_ports r = swg_ports g \<and> switch_state state (rs_id r) = Some (rs_state r)"

definition shows_signal ::
    "ITrackRuntimeState \<Rightarrow> (InfrastructureId, Path) umap \<Rightarrow> SignalGeometry \<Rightarrow> RenderSignal \<Rightarrow> bool" where
  "shows_signal state paths g r \<longleftrightarrow> rg_id r = sgg_object_id g \<and> rg_facing r = sgg_facing g \<and>
     signal_state state (rg_id r) = Some (rg_state r) \<and>
     (\<exists>path. um_find paths (att_track_id (sgg_attachment g)) = Some path \<and>
        resolve_attachment path (sgg_attachment g) = Inr (rg_position r))"

lemma list_all2_snoc: "list_all2 P xs ys \<Longrightarrow> P x y \<Longrightarrow> list_all2 P (xs @ [x]) (ys @ [y])"
  by (simp add: list_all2_appendI)

lemma build_elements_spec:
  assumes "fold_result (build_element state paths) els m = Inr m'"
    and "list_all2 (shows_track state) ts (rm_tracks m)" and "list_all2 (shows_switch state) sws (rm_switches m)"
    and "list_all2 (shows_signal state paths) sigs (rm_signal_items m)"
  shows "list_all2 (shows_track state) (ts @ List.map_filter track_item els) (rm_tracks m') \<and>
    list_all2 (shows_switch state) (sws @ List.map_filter switch_item els) (rm_switches m') \<and>
    list_all2 (shows_signal state paths) (sigs @ List.map_filter signal_item els) (rm_signal_items m') \<and>
    rm_canvas m' = rm_canvas m \<and> rm_labels m' = rm_labels m"
  using assms
proof (induction els arbitrary: m ts sws sigs)
  case (Cons el els)
  obtain m1 where m1: "build_element state paths el m = Inr m1" "fold_result (build_element state paths) els m1 = Inr m'"
    using Cons.prems(1) by (auto simp: and_then_Inr)
  show ?case
  proof (cases el)
    case (TrackElement g)
    with m1(1) obtain r where r: "m1 = m\<lparr>rm_tracks := rm_tracks m @ [r]\<rparr>" "shows_track state g r"
      by (auto simp: shows_track_def split: option.splits)
    from Cons.IH [OF m1(2), of "ts @ [g]" sws sigs] Cons.prems(2-4) r TrackElement show ?thesis
      by (simp add: list_all2_snoc)
  next
    case (SwitchElement g)
    with m1(1) obtain r where r: "m1 = m\<lparr>rm_switches := rm_switches m @ [r]\<rparr>" "shows_switch state g r"
      by (auto simp: shows_switch_def split: option.splits)
    from Cons.IH [OF m1(2), of ts "sws @ [g]" sigs] Cons.prems(2-4) r SwitchElement show ?thesis
      by (simp add: list_all2_snoc)
  next
    case (SignalElement g)
    with m1(1) obtain st path pos where *: "signal_state state (sgg_object_id g) = Some st"
      "um_find paths (att_track_id (sgg_attachment g)) = Some path" "resolve_attachment path (sgg_attachment g) = Inr pos"
      by (auto simp: and_then_Inr split: option.splits)
    define r where "r = \<lparr>rg_id = sgg_object_id g, rg_position = pos, rg_facing = sgg_facing g, rg_state = st\<rparr>"
    have r: "m1 = m\<lparr>rm_signal_items := rm_signal_items m @ [r]\<rparr>" "shows_signal state paths g r"
      using m1(1) SignalElement * by (simp_all add: r_def shows_signal_def)
    from Cons.IH [OF m1(2), of ts sws "sigs @ [g]"] Cons.prems(2-4) r SignalElement show ?thesis
      by (simp add: list_all2_snoc)
  qed
qed simp

lemma build_model_spec:
  assumes "build_model state layout = Inr m"
  shows "list_all2 (shows_track state) (track_items layout) (rm_tracks m)"
    "list_all2 (shows_switch state) (List.map_filter switch_item (lay_elements layout)) (rm_switches m)"
    "list_all2 (shows_signal state (track_paths layout)) (List.map_filter signal_item (lay_elements layout)) (rm_signal_items m)"
    "rm_canvas m = lay_canvas layout" "rm_labels m = lay_labels layout"
  using build_elements_spec [OF assms [unfolded build_model_def], of "[]" "[]" "[]"] by (simp_all add: track_items_def)

section \<open>Validated layouts render\<close>

lemma build_element_total:
  assumes "validate_layout (engine_catalog v) layout = []" and "el \<in> set (lay_elements layout)"
    and "\<And>t. t \<in> set (track_items layout) \<Longrightarrow> last_segment_positive (tsg_path t)"
  shows "\<exists>m'. build_element (engine_runtime v) (track_paths layout) el m = Inr m'"
proof (cases el)
  case (SignalElement g)
  let ?att = "sgg_attachment g"
  note ok = validate_layout_element [OF assms(1,2), unfolded SignalElement, simplified]
  then obtain t where t: "t \<in> set (track_items layout)" "um_find (track_paths layout) (att_track_id ?att) = Some (tsg_path t)"
    using track_paths_known [of "att_track_id ?att" layout] by auto
  have "list_all is_finite_point (tsg_path t)"
    using validate_layout_element [OF assms(1), of "TrackElement t"] t(1) by (simp add: track_items_in)
  from resolve_attachment_total [OF this assms(3) [OF t(1)]] ok
  obtain pt where "resolve_attachment (tsg_path t) ?att = Inr pt" by blast
  with ok t(2) SignalElement show ?thesis by (auto simp: engine_catalog_def engine_runtime_def)
qed (use validate_layout_element [OF assms(1,2)] in \<open>auto simp: engine_catalog_def engine_runtime_def\<close>)

lemma fold_result_total:
  "(\<And>x s. x \<in> set xs \<Longrightarrow> \<exists>s'. f x s = Inr s') \<Longrightarrow> \<exists>s'. fold_result f xs s = Inr s'"
proof (induction xs arbitrary: s)
  case (Cons x xs)
  obtain t where "f x s = Inr t" using Cons.prems [of x s] by auto
  moreover obtain s' where "fold_result f xs t = Inr s'" using Cons.IH [of t] Cons.prems by auto
  ultimately show ?case by simp
qed simp

text \<open>
  C23.  A layout that the validator accepts for the infrastructure of an engine state is drawn without an
  exception, provided that no track path ends in a segment of length 0, which the validator does not test.
  The render model then has one entry per element, in the order of the layout, each with the state the engine has.
\<close>

theorem validated_layout_renders:
  assumes "validate_layout (engine_catalog v) layout = []"
    and "\<And>t. t \<in> set (track_items layout) \<Longrightarrow> last_segment_positive (tsg_path t)"
  shows "\<exists>m. build_model (engine_runtime v) layout = Inr m \<and>
    list_all2 (shows_track (engine_runtime v)) (track_items layout) (rm_tracks m) \<and>
    list_all2 (shows_switch (engine_runtime v)) (List.map_filter switch_item (lay_elements layout)) (rm_switches m) \<and>
    list_all2 (shows_signal (engine_runtime v) (track_paths layout))
      (List.map_filter signal_item (lay_elements layout)) (rm_signal_items m)"
proof -
  have "\<exists>m. build_model (engine_runtime v) layout = Inr m"
    unfolding build_model_def by (intro fold_result_total build_element_total assms)
  then show ?thesis using build_model_spec by blast
qed

section \<open>The picture\<close>

text \<open>The colours of the theme: red for an occupied track and for a signal at stop.\<close>

abbreviation track_red :: QColor where
  "track_red \<equiv> QColor 220 45 45"

abbreviation signal_red :: QColor where
  "signal_red \<equiv> QColor 230 35 35"

fun item_shows :: "IStateView \<Rightarrow> TrackLayout \<Rightarrow> SceneItem \<Rightarrow> bool" where
  "item_shows v layout (PathItem u path pen interactive) \<longleftrightarrow>
     (\<exists>t. view_find_track_section v u = Some t \<and> (pen_colour pen = track_red \<longleftrightarrow> ts_occupancy t = OCCUPIED))"
| "item_shows v layout (LineItem u a b pen interactive) \<longleftrightarrow>
     (\<exists>sw g. view_find_switch v u = Some sw \<and> SwitchElement g \<in> set (lay_elements layout) \<and> swg_topology_id g = u \<and>
        a = spt_trunk (swg_ports g) \<and>
        ((b = spt_straight (swg_ports g) \<and> (pen_width pen = 1.3 \<longleftrightarrow> sw_position sw = STRAIGHT)) \<or>
         (b = spt_divergent (swg_ports g) \<and> (pen_width pen = 1.3 \<longleftrightarrow> sw_position sw = DIVERGENT))))"
| "item_shows v layout (EllipseItem u pos colour interactive) \<longleftrightarrow>
     (\<exists>sig. view_find_signal v u = Some sig \<and> (colour = signal_red \<longleftrightarrow> sig_current_aspect sig \<in> {S1_STOP, MS1_STOP}))"
| "item_shows v layout (TextItem txt pos colour) \<longleftrightarrow> (\<exists>l. l \<in> set (lay_labels layout) \<and> lbl_text l = txt)"

lemma map_occupancy_Occupied: "map_occupancy x = Occupied \<longleftrightarrow> x = OCCUPIED"
  by (cases x) simp_all

lemma map_position_iff: "map_position x = Straight \<longleftrightarrow> x = STRAIGHT" "map_position x = Divergent \<longleftrightarrow> x = DIVERGENT"
  by (cases x; simp)+

lemma list_all2_right: "list_all2 P xs ys \<Longrightarrow> y \<in> set ys \<Longrightarrow> \<exists>x \<in> set xs. P x y"
  by (induction rule: list_all2_induct) auto

lemma switch_item_in: "g \<in> set (List.map_filter switch_item els) \<Longrightarrow> SwitchElement g \<in> set els"
  by (induction els) (auto split: option.splits elim!: switch_item.elims)

lemma switch_items_show:
  assumes "shows_switch (engine_runtime v) g r" and "SwitchElement g \<in> set (lay_elements layout)"
    and "item \<in> set (switch_items EbiScreenTheme interactive r)"
  shows "item_shows v layout item"
proof -
  obtain sw where sw: "view_find_switch v (swg_topology_id g) = Some sw" "rs_id r = swg_topology_id g" "rs_ports r = swg_ports g"
    "rs_state r = \<lparr>srs_occupancy = map_occupancy (sw_occupancy sw), srs_position = map_position (sw_position sw)\<rparr>"
    using assms(1) by (auto simp: shows_switch_def engine_runtime_def)
  then show ?thesis using assms(2,3)
    by (auto simp: switch_items_def Let_def EbiScreenTheme_def map_position_iff)
qed

text \<open>
  C22.  The picture shows the state.  Whatever layout is drawn, every track path of the scene belongs to a
  section of the engine and is red exactly when the section is occupied; of the two lines of a switch the
  one to the straight end is the thick one exactly when the switch lies straight and the one to the
  divergent end exactly when it lies divergent, so that a switch that moves or is trailed has none; a
  signal is red exactly when its aspect is one of the two stop aspects.
\<close>

theorem picture_shows_engine_state:
  assumes "build_model (engine_runtime v) layout = Inr m"
    and "item \<in> set (sc_items (render_scene EbiScreenTheme interactive m))"
  shows "item_shows v layout item"
proof -
  note spec = build_model_spec [OF assms(1)]
  consider (track) r where "r \<in> set (rm_tracks m)"
      "item = PathItem (rt_id r) (rt_path r) (track_pen EbiScreenTheme (rt_state r)) interactive"
    | (switch) r where "r \<in> set (rm_switches m)" "item \<in> set (switch_items EbiScreenTheme interactive r)"
    | (signal) r where "r \<in> set (rm_signal_items m)"
      "item = EllipseItem (rg_id r) (rg_position r) (signal_brush EbiScreenTheme (rg_state r)) interactive"
    | (label) l where "l \<in> set (rm_labels m)" "item = TextItem (lbl_text l) (lbl_anchor l) (label_colour EbiScreenTheme)"
    using assms(2) by (auto simp: render_scene_def)
  then show ?thesis
  proof cases
    case track
    from list_all2_right [OF spec(1) track(1)] track(2) show ?thesis
      by (auto simp: shows_track_def engine_runtime_def EbiScreenTheme_def occupancy_colour_def map_occupancy_Occupied)
  next
    case switch
    from list_all2_right [OF spec(2) switch(1)] switch(2) show ?thesis by (auto intro: switch_items_show dest: switch_item_in)
  next
    case signal
    from list_all2_right [OF spec(3) signal(1)] signal(2) show ?thesis
      by (auto simp: shows_signal_def engine_runtime_def EbiScreenTheme_def map_indication_def split: if_splits)
  next
    case label
    then show ?thesis by (auto simp: spec(5))
  qed
qed

section \<open>Samples\<close>

definition at_point :: "real \<Rightarrow> real \<Rightarrow> Point" where
  "at_point x y = \<lparr>pt_x = Fin x, pt_y = Fin y\<rparr>"

definition sample_layout :: "Path \<Rightarrow> TrackLayout" where
  "sample_layout path =
     \<lparr>lay_schema_version = 1, lay_layout_id = ''L'', lay_station_sid = ''S'', lay_style_hint = ''ebiscreen'',
      lay_canvas = \<lparr>cv_width = Fin 10, cv_height = Fin 10\<rparr>,
      lay_elements =
        [TrackElement \<lparr>tsg_topology_id = 1, tsg_path = path\<rparr>,
         SwitchElement \<lparr>swg_topology_id = 10,
           swg_ports = \<lparr>spt_trunk = at_point 1 0, spt_straight = at_point 2 0, spt_divergent = at_point 2 1\<rparr>\<rparr>,
         SignalElement \<lparr>sgg_object_id = 21,
           sgg_attachment = \<lparr>att_track_id = 1, att_reference_side = SIDE_A, att_offset = Fin 1, att_lateral = Fin 0\<rparr>,
           sgg_facing = TowardsB\<rparr>],
      lay_labels = []\<rparr>"

lemma f64_int [simp]: "f64 0 = 0" "f64 1 = 1"
  using double.fp_of_int [of 1] f64.rnd_zero by (simp_all add: f64_fp)

lemma sample_layout_valid:
  "2 \<le> length path \<Longrightarrow> list_all is_finite_point path \<Longrightarrow>
    validate_layout (engine_catalog (engine_view sample_station)) (sample_layout path) = []"
  by (simp add: validate_layout_def layout_header_diagnostics_def sample_layout_def label_diagnostics_def track_items_def
      track_diagnostics_def switch_diagnostics_def signal_diagnostics_def engine_catalog_def engine_view_def sample_finds
      sample_signal_def isfinite_def is_finite_point_def at_point_def list_all_iff Let_def)

lemma sample_track_items: "track_items (sample_layout path) = [\<lparr>tsg_topology_id = 1, tsg_path = path\<rparr>]"
  by (simp add: track_items_def sample_layout_def)

lemma unit_segment: "segment_length (at_point 0 0) (at_point 1 0) = Fin 1"
  by (simp add: segment_length_def at_point_def d_sub_def to_double_def d_hypot_def Let_def)

lemma sample_path_positive: "last_segment_positive [at_point 0 0, at_point 1 0]"
  by (simp add: last_segment_positive_def unit_segment)

theorem validated_layout_renders_witness:
  "\<exists>m. build_model (engine_runtime (engine_view sample_station)) (sample_layout [at_point 0 0, at_point 1 0]) = Inr m \<and>
     map rt_id (rm_tracks m) = [1]"
proof -
  have "validate_layout (engine_catalog (engine_view sample_station)) (sample_layout [at_point 0 0, at_point 1 0]) = []"
    by (rule sample_layout_valid) (simp_all add: is_finite_point_def at_point_def isfinite_def)
  from validated_layout_renders [OF this]
  obtain m where "build_model (engine_runtime (engine_view sample_station)) (sample_layout [at_point 0 0, at_point 1 0]) = Inr m"
    "list_all2 (shows_track (engine_runtime (engine_view sample_station)))
       (track_items (sample_layout [at_point 0 0, at_point 1 0])) (rm_tracks m)"
    by (auto simp: sample_track_items sample_path_positive)
  then show ?thesis by (auto simp: sample_track_items list_all2_Cons1 shows_track_def)
qed

lemma sample_builds:
  "\<exists>m. build_model (engine_runtime (engine_view sample_station)) (sample_layout [at_point 0 0, at_point 1 0]) = Inr m \<and>
     PathItem 1 [at_point 0 0, at_point 1 0] (track_pen EbiScreenTheme Free) True
       \<in> set (sc_items (render_scene EbiScreenTheme True m))"
  by (simp add: build_model_def sample_layout_def engine_runtime_def engine_view_def sample_finds sample_section_def
      sample_switch_def sample_signal_def track_paths_def track_items_def um_emplace_def um_find_Cons resolve_attachment_def
      isfinite_def total_length_def unit_segment Let_def to_double_def d_le_def d_mul_def render_scene_def)

theorem picture_shows_engine_state_witness:
  "\<exists>m. build_model (engine_runtime (engine_view sample_station)) (sample_layout [at_point 0 0, at_point 1 0]) = Inr m \<and>
     item_shows (engine_view sample_station) (sample_layout [at_point 0 0, at_point 1 0])
       (PathItem 1 [at_point 0 0, at_point 1 0] (track_pen EbiScreenTheme Free) True)"
  using sample_builds picture_shows_engine_state by blast

text \<open>A path of length 0 passes the validation; drawing the signal attached to it throws.\<close>

theorem zero_length_path_is_not_rejected:
  "validate_layout (engine_catalog (engine_view sample_station)) (sample_layout [at_point 1 1, at_point 1 1]) = [] \<and>
   build_model (engine_runtime (engine_view sample_station)) (sample_layout [at_point 1 1, at_point 1 1]) =
     Inl (InvalidArgument ''attachment_resolver: path has zero length'')"
proof
  show "validate_layout (engine_catalog (engine_view sample_station)) (sample_layout [at_point 1 1, at_point 1 1]) = []"
    by (rule sample_layout_valid) (simp_all add: is_finite_point_def at_point_def isfinite_def)
  have "segment_length (at_point 1 1) (at_point 1 1) = Fin 0"
    by (simp add: segment_length_def at_point_def d_sub_def to_double_def d_hypot_def Let_def)
  then show "build_model (engine_runtime (engine_view sample_station)) (sample_layout [at_point 1 1, at_point 1 1]) =
     Inl (InvalidArgument ''attachment_resolver: path has zero length'')"
    by (simp add: build_model_def sample_layout_def engine_runtime_def engine_view_def sample_finds sample_section_def
      sample_switch_def sample_signal_def track_paths_def track_items_def um_emplace_def um_find_Cons resolve_attachment_def
      isfinite_def total_length_def Let_def to_double_def d_le_def d_mul_def)
qed

text \<open>
  A path whose last point is repeated: by rounding, the distance that remains after the first segments
  can exceed the last segment that has a length, and the loop ends without a result.
\<close>

definition ulp :: real where
  "ulp = 2 powi (-52)"

definition tiny :: real where
  "tiny = 3 * 2 powi (-54)"

definition repeated_end :: Path where
  "repeated_end = [at_point 0 0, at_point 1 0, at_point 1 tiny, at_point 1 tiny]"

lemma tiny_bounds: "0 < tiny" "tiny < ulp" "0 < ulp" "ulp < 1"
  by (simp_all add: ulp_def tiny_def power_int_def power_one_over)

lemma double_range: "x < 2 \<Longrightarrow> x < (2 :: real) ^ 1024"
  by (rule less_trans [of _ 2]) simp_all

lemma tiny_rounding: "f64 tiny = tiny" "f64 (1 + tiny) = 1 + ulp" "f64 (1 + ulp) = 1 + ulp" "f64 ulp = ulp"
proof -
  show "f64 tiny = tiny" using double.fp_representable [of 3 "-54"] by (simp add: f64_fp tiny_def)
  show "f64 ulp = ulp" using double.fp_representable [of 1 "-52"] by (simp add: f64_fp ulp_def)
  have r: "round_half_even (2 ^ 52 + 3 / 4) = 2 ^ 52 + 1"
  proof -
    have "\<lfloor>(2 ^ 52 + 3 / 4 :: real)\<rfloor> = 2 ^ 52" by (simp add: floor_eq_iff)
    then show ?thesis by (simp add: round_half_even_def)
  qed
  have "f64 (1 + tiny) = f64 ((2 ^ 52 + 3 / 4) * 2 powi (-52))" by (simp add: tiny_def power_int_def power_one_over)
  also have "\<dots> = of_int (2 ^ 52 + 1) * ulp"
    unfolding f64_fp ulp_def using double.fp_normal [of "2 ^ 52 + 3 / 4" "-52"] r by simp
  also have "\<dots> = 1 + ulp" by (simp add: ulp_def power_int_def power_one_over)
  finally show sum: "f64 (1 + tiny) = 1 + ulp" .
  show "f64 (1 + ulp) = 1 + ulp" using f64.rnd_idem [of "1 + tiny"] unfolding sum .
qed

lemma small_to_double: "f64 x = y \<Longrightarrow> 0 \<le> y \<Longrightarrow> y < 2 \<Longrightarrow> to_double x = Fin y"
  using double_range [of y] by (auto simp: to_double_def Let_def not_le intro: less_le_trans [of _ 0])

lemma repeated_end_segments:
  "path_segments repeated_end =
    [(at_point 0 0, at_point 1 0, Fin 1), (at_point 1 0, at_point 1 tiny, Fin tiny), (at_point 1 tiny, at_point 1 tiny, Fin 0)]"
proof -
  have "to_double tiny = Fin tiny" using tiny_bounds by (intro small_to_double tiny_rounding) linarith+
  moreover have "sqrt (tiny * tiny) = tiny" using tiny_bounds(1) by simp
  ultimately have "segment_length (at_point 1 0) (at_point 1 tiny) = Fin tiny"
    by (simp add: segment_length_def at_point_def d_sub_def d_hypot_def small_to_double)
  then show ?thesis
    by (simp add: repeated_end_def unit_segment)
       (simp add: segment_length_def at_point_def d_sub_def d_hypot_def small_to_double)
qed

theorem repeated_end_is_not_resolved:
  "resolve_attachment repeated_end \<lparr>att_track_id = 1, att_reference_side = SIDE_A, att_offset = Fin 1, att_lateral = Fin 0\<rparr> =
     Inl (LogicError ''attachment_resolver: could not resolve path position'')"
proof -
  have sums: "to_double 1 = Fin 1" "to_double (1 + tiny) = Fin (1 + ulp)" "to_double (1 + ulp) = Fin (1 + ulp)"
    "to_double ulp = Fin ulp"
    using tiny_bounds by (intro small_to_double; simp add: tiny_rounding)+
  then have "total_length (path_segments repeated_end) = Fin (1 + ulp)"
    by (simp add: repeated_end_segments total_length_def)
  moreover have "d_sub (Fin (1 + ulp)) (Fin 1) = Fin ulp" using sums by (simp add: d_sub_def)
  moreover have "d_mul (Fin 1) (Fin (1 + ulp)) = Fin (1 + ulp)" using sums by (simp add: d_mul_def)
  ultimately show ?thesis using tiny_bounds
    by (simp add: resolve_attachment_def repeated_end_segments Let_def isfinite_def d_le_def)
       (simp add: repeated_end_def)
qed

section \<open>The size of a picture\<close>

text \<open>The picture of a finite canvas covers the scaled canvas, is less than a pixel larger than it, and is
  never empty; a scaled canvas that no \<^verbatim>\<open>int\<close> can measure is undefined.\<close>

lemma image_covers_canvas:
  assumes "render_image theme model (Fin s) = Inr im" and "rm_canvas model = \<lparr>cv_width = Fin w, cv_height = Fin h\<rparr>"
  shows "0 < s" "f64 (w * s) \<le> im_width im" "f64 (h * s) \<le> im_height im" "1 \<le> im_width im" "1 \<le> im_height im"
    "im_width im = 1 \<or> im_width im < f64 (w * s) + 1" "im_height im = 1 \<or> im_height im < f64 (h * s) + 1"
proof -
  have fin: "v = max 1 \<lceil>f64 (a * s)\<rceil>" if "image_extent (Fin a) (Fin s) = Inr v" for a v
    using that by (auto simp: image_extent_def d_mul_def to_double_def Let_def split: if_splits)
  obtain "0 < s" and "im_width im = max 1 \<lceil>f64 (w * s)\<rceil>" "im_height im = max 1 \<lceil>f64 (h * s)\<rceil>"
    using assms by (auto simp: render_image_def and_then_Inr d_le_def Let_def dest!: fin split: if_splits)
  then show "0 < s" "f64 (w * s) \<le> im_width im" "f64 (h * s) \<le> im_height im" "1 \<le> im_width im" "1 \<le> im_height im"
    "im_width im = 1 \<or> im_width im < f64 (w * s) + 1" "im_height im = 1 \<or> im_height im < f64 (h * s) + 1"
    by (auto simp: max_def; linarith)+
qed

lemma huge_picture_is_undefined:
  assumes "rm_canvas model = \<lparr>cv_width = Fin w, cv_height = Fin h\<rparr>" and "0 < s" and "2 ^ 31 \<le> f64 (w * s)"
  shows "render_image theme model (Fin s) = Inl ImageUndefined"
proof -
  have "2 ^ 31 \<le> \<lceil>f64 (w * s)\<rceil>" using assms(3) by (simp add: le_ceiling_iff)
  then have "image_extent (Fin w) (Fin s) = Inl ImageUndefined"
    by (auto simp: image_extent_def d_mul_def to_double_def Let_def)
  then show ?thesis using assms by (simp add: render_image_def d_le_def isfinite_def Let_def and_then_def)
qed

end
