(* ===== verification/Uid_Tools.thy ===== *)
theory Uid_Tools
  imports Json_Library
begin

text \<open>
  The UID services of the editors: \<^verbatim>\<open>tools/shared/registry/uid_registry.cpp\<close>,
  \<^verbatim>\<open>tools/shared/registry/uid_validator.cpp\<close>,
  \<^verbatim>\<open>tools/shared/services/uid_generator_service.cpp\<close> and the table of
  \<^verbatim>\<open>tools/shared/domain/uid_legend_table.hpp\<close>.  The registry is a \<^verbatim>\<open>std::map\<close>, here the list
  of its entries in the order of their keys.
\<close>

section \<open>The registry\<close>

type_synonym UidRegistry = "(UID \<times> path) list"

definition registry_contains :: "UidRegistry \<Rightarrow> UID \<Rightarrow> bool" where
  "registry_contains reg uid \<longleftrightarrow> map_of reg uid \<noteq> None"

definition registry_insert :: "UID \<Rightarrow> path \<Rightarrow> UidRegistry \<Rightarrow> bool \<times> UidRegistry" where
  "registry_insert uid source_file reg =
    (if registry_contains reg uid then (False, reg) else (True, insort_key fst (uid, source_file) reg))"

definition source_file :: "UidRegistry \<Rightarrow> UID \<Rightarrow> path option" where
  "source_file reg uid = map_of reg uid"

definition registry_entries :: "UidRegistry \<Rightarrow> (UID \<times> path) list" where
  "registry_entries reg = reg"

definition registry_size :: "UidRegistry \<Rightarrow> nat" where
  "registry_size reg = length reg"

definition registry_empty :: "UidRegistry \<Rightarrow> bool" where
  "registry_empty reg \<longleftrightarrow> reg = []"

definition registry_clear :: "UidRegistry \<Rightarrow> UidRegistry" where
  "registry_clear reg = []"

definition isAvailable :: "UidRegistry \<Rightarrow> UID \<Rightarrow> bool" where
  "isAvailable reg uid \<longleftrightarrow> \<not> registry_contains reg uid"

section \<open>The generator\<close>

datatype generator_error = InvalidInstance | UidExhausted

definition instance_count :: u32 where
  "instance_count = 65535"

definition candidate_instance :: "u16 \<Rightarrow> nat \<Rightarrow> u16" where
  "candidate_instance first_instance i = ucast ((ucast first_instance - 1 + of_nat i) mod instance_count + 1 :: u32)"

definition generate :: "UidRegistry \<Rightarrow> UIDDomain \<Rightarrow> UIDKind \<Rightarrow> u16 \<Rightarrow> u16 \<Rightarrow> generator_error + UID" where
  "generate reg domain kind scope first_instance =
    (if first_instance = 0 then Inl InvalidInstance
     else case first_some (\<lambda>i.
            let candidate = make_uid domain kind scope (candidate_instance first_instance i)
            in if uid_is_safe_json_integer candidate \<and> isAvailable reg candidate then Some candidate else None)
          [0 ..< unat instance_count]
       of Some uid \<Rightarrow> Inr uid | None \<Rightarrow> Inl UidExhausted)"

section \<open>The legend\<close>

record UidLegendEntry =
  leg_domain :: UIDDomain
  leg_domain_name :: string
  leg_kind :: UIDKind
  leg_kind_name :: string

definition kKnownUidDomains :: "UIDDomain list" where
  "kKnownUidDomains = [ROLLING_STOCK, INFRASTRUCTURE, OPERATIONS]"

definition kKnownUidKinds :: "UIDKind list" where
  "kKnownUidKinds =
     [VEHICLE_TYPE, VEHICLE, TRAIN_CONSIST, CARRIER, STATION, DISPATCH_AREA, TRACK_SECTION, SWITCH, SIGNAL, DERAILER,
      BLOCK_SECTION, BOUNDARY_NODE, LEVEL_CROSSING, AXLE_COUNTER, INTERLOCKING, POWER_SUPPLY, ROUTE, ALARM,
      DISPATCH_EXCHANGE]"

definition legend_entry :: "UIDDomain \<Rightarrow> string \<Rightarrow> UIDKind \<times> string \<Rightarrow> UidLegendEntry" where
  "legend_entry d name k = \<lparr>leg_domain = d, leg_domain_name = name, leg_kind = fst k, leg_kind_name = snd k\<rparr>"

definition kUidLegendEntries :: "UidLegendEntry list" where
  "kUidLegendEntries =
     map (legend_entry ROLLING_STOCK ''ROLLING_STOCK'')
       [(VEHICLE_TYPE, ''VEHICLE_TYPE''), (VEHICLE, ''VEHICLE''), (TRAIN_CONSIST, ''TRAIN_CONSIST''), (CARRIER, ''CARRIER'')] @
     map (legend_entry INFRASTRUCTURE ''INFRASTRUCTURE'')
       [(STATION, ''STATION''), (DISPATCH_AREA, ''DISPATCH_AREA''), (TRACK_SECTION, ''TRACK_SECTION''), (SWITCH, ''SWITCH''),
        (SIGNAL, ''SIGNAL''), (DERAILER, ''DERAILER''), (BLOCK_SECTION, ''BLOCK_SECTION''), (BOUNDARY_NODE, ''BOUNDARY_NODE''),
        (LEVEL_CROSSING, ''LEVEL_CROSSING''), (AXLE_COUNTER, ''AXLE_COUNTER''), (INTERLOCKING, ''INTERLOCKING''),
        (POWER_SUPPLY, ''POWER_SUPPLY'')] @
     map (legend_entry OPERATIONS ''OPERATIONS'')
       [(ROUTE, ''ROUTE''), (ALARM, ''ALARM''), (DISPATCH_EXCHANGE, ''DISPATCH_EXCHANGE'')]"

definition uidLegendIsComplete :: bool where
  "uidLegendIsComplete \<longleftrightarrow>
     length kUidLegendEntries = length kKnownUidKinds \<and>
     list_all (\<lambda>d. list_ex (\<lambda>e. leg_domain e = d) kUidLegendEntries) kKnownUidDomains \<and>
     list_all (\<lambda>k. length (filter (\<lambda>e. leg_kind e = k) kUidLegendEntries) = 1) kKnownUidKinds"

lemma legend_static_assert: "uidLegendIsComplete"
  by code_simp

text \<open>The legend calls itself complete but has no entry for the two kinds of the timetable.\<close>

lemma legend_misses_timetable_kinds:
  "TIMETABLE_POINT \<notin> set (map leg_kind kUidLegendEntries) \<and> TIMETABLE_CONNECTION \<notin> set (map leg_kind kUidLegendEntries)"
  by code_simp

section \<open>The registry as a map\<close>

definition registry_wf :: "UidRegistry \<Rightarrow> bool" where
  "registry_wf reg \<longleftrightarrow> sorted_wrt (<) (map fst reg)"

lemma sorted_insort_key_strict:
  assumes "sorted_wrt (<) (map fst reg)" and "u \<notin> fst ` set reg"
  shows "sorted_wrt (<) (map fst (insort_key fst (u :: 'a :: linorder, p) reg))"
proof -
  have "sorted (map fst (insort_key fst (u, p) reg))"
    using assms(1) by (simp add: sorted_insort_key strict_sorted_imp_sorted)
  moreover have "distinct (map fst (insort_key fst (u, p) reg))"
    using assms strict_sorted_iff by (auto simp: distinct_insort_key)
  ultimately show ?thesis by (simp add: strict_sorted_iff)
qed

lemma registry_insert_wf: "registry_wf reg \<Longrightarrow> registry_wf (snd (registry_insert u p reg))"
  by (auto simp: registry_wf_def registry_insert_def registry_contains_def map_of_eq_None_iff sorted_insort_key_strict)

lemma map_of_insort_key:
  "u \<notin> fst ` set reg \<Longrightarrow> map_of (insort_key fst (u, p) reg) v = (if v = u then Some p else map_of reg v)"
  by (induction reg) auto

lemma source_file_insert:
  "source_file (snd (registry_insert u p reg)) v =
    (if v = u \<and> source_file reg u = None then Some p else source_file reg v)"
  by (auto simp: source_file_def registry_insert_def registry_contains_def map_of_insort_key map_of_eq_None_iff)

lemma contains_insert: "registry_contains (snd (registry_insert u p reg)) v \<longleftrightarrow> v = u \<or> registry_contains reg v"
  using source_file_insert [of u p reg v] by (auto simp: source_file_def registry_contains_def split: if_splits)

section \<open>Instances in cyclic order\<close>

lemma candidate_instance_unat:
  assumes "first \<noteq> 0" and "i < 65535"
  shows "unat (candidate_instance first i) = (unat first - 1 + i) mod 65535 + 1"
proof -
  have f: "1 \<le> unat first" "unat first < 65536"
    using assms(1) unsigned_less [of first, where ?'a = nat] by (simp_all add: Suc_le_eq unat_gt_0)
  let ?w = "ucast first - 1 + of_nat i :: u32"
  have "?w = of_nat (unat first - 1 + i)"
    using f(1) by (simp add: of_nat_diff)
  moreover have n: "unat (of_nat (unat first - 1 + i) :: u32) = unat first - 1 + i"
    using f assms(2) by (simp only: unat_of_nat) simp
  ultimately have w: "unat ?w = unat first - 1 + i" by (simp only:)
  have r: "unat (?w mod instance_count) = (unat first - 1 + i) mod 65535"
    by (simp only: unat_mod w instance_count_def) simp
  have lt: "(unat first - 1 + i) mod 65535 < 65535" by simp
  then have "unat (?w mod instance_count + 1) = (unat first - 1 + i) mod 65535 + 1"
    using r by (simp only: unat_word_ariths) simp
  then show ?thesis
    using lt by (simp only: candidate_instance_def unsigned_ucast_eq take_bit_eq_mod) simp
qed

lemma candidate_instance_nonzero: "first \<noteq> 0 \<Longrightarrow> i < 65535 \<Longrightarrow> candidate_instance first i \<noteq> 0"
  using candidate_instance_unat [of first i] by (metis Suc_eq_plus1 nat.distinct(1) unsigned_0)

lemma candidate_instance_first: "first \<noteq> 0 \<Longrightarrow> candidate_instance first 0 = first"
proof -
  assume f: "first \<noteq> 0"
  have "1 \<le> unat first" "unat first < 65536"
    using f unsigned_less [of first, where ?'a = nat] by (simp_all add: Suc_le_eq unat_gt_0)
  then have "unat (candidate_instance first 0) = unat first" using candidate_instance_unat [OF f, of 0] by simp
  then show ?thesis by (simp add: word_unat_eq_iff)
qed

lemma candidate_instance_onto:
  assumes "first \<noteq> 0" and "n \<noteq> 0"
  obtains i where "i < 65535" "candidate_instance first i = n"
proof -
  have f: "1 \<le> unat first" "unat first < 65536" and n: "1 \<le> unat n" "unat n < 65536"
    using assms unsigned_less [of first, where ?'a = nat] unsigned_less [of n, where ?'a = nat]
    by (simp_all add: Suc_le_eq unat_gt_0)
  define i where "i = (unat n + 65535 - unat first) mod 65535"
  have i: "i < 65535" by (simp add: i_def)
  have "(unat first - 1 + i) mod 65535 = (unat first - 1 + (unat n + 65535 - unat first)) mod 65535"
    by (simp add: i_def mod_add_right_eq)
  also have "unat first - 1 + (unat n + 65535 - unat first) = (unat n - 1) + 65535" using f n by simp
  also have "\<dots> mod 65535 = (unat n - 1) mod 65535" by (rule mod_add_self2)
  also have "\<dots> = unat n - 1" using n by (intro mod_less) linarith
  finally have "unat (candidate_instance first i) = unat n" using candidate_instance_unat [OF assms(1) i] n(1) by simp
  then show thesis using that [OF i] by (simp add: word_unat_eq_iff)
qed

section \<open>Fresh UIDs\<close>

lemma instance_range: "unat instance_count = 65535"
  by (simp add: instance_count_def)

lemma generate_Inr:
  assumes "generate reg d k s first = Inr u"
  obtains i where "first \<noteq> 0" "i < 65535" "u = make_uid d k s (candidate_instance first i)" "isAvailable reg u"
  using assms by (auto simp: generate_def instance_range Let_def split: if_splits option.splits dest!: first_some_Some)

lemma generate_exhausted:
  "generate reg d k s first = Inl UidExhausted \<longleftrightarrow>
    first \<noteq> 0 \<and> (\<forall>i < 65535. registry_contains reg (make_uid d k s (candidate_instance first i)))"
  by (auto simp: generate_def instance_range Let_def first_some_None isAvailable_def
      split: option.splits if_splits dest!: first_some_Some)

lemma first_some_upt: "0 < n \<Longrightarrow> f 0 = Some y \<Longrightarrow> first_some f [0 ..< n] = Some y"
  by (simp add: upt_conv_Cons)

text \<open>
  C36.  The generator returns a UID that is not in the registry, of the domain, kind and scope asked for,
  with an instance that is not 0; it returns the instance it was asked to start with when that is free, and
  it reports exhaustion only when all 65535 instances of the scope are taken.
\<close>

theorem generator_finds_free_uid:
  assumes "first \<noteq> 0"
  shows "(\<forall>u. generate reg d k s first = Inr u \<longrightarrow>
       \<not> registry_contains reg u \<and> uid_has_kind u d k \<and> uid_scope u = s \<and> uid_instance u \<noteq> 0) \<and>
    (isAvailable reg (make_uid d k s first) \<longrightarrow> generate reg d k s first = Inr (make_uid d k s first)) \<and>
    ((\<exists>n. n \<noteq> 0 \<and> isAvailable reg (make_uid d k s n)) \<longrightarrow> (\<exists>u. generate reg d k s first = Inr u))"
proof (intro conjI allI impI)
  fix u
  assume "generate reg d k s first = Inr u"
  then obtain i where i: "i < 65535" "u = make_uid d k s (candidate_instance first i)" "isAvailable reg u"
    by (rule generate_Inr)
  show "\<not> registry_contains reg u" using i(3) by (simp add: isAvailable_def)
  show "uid_has_kind u d k" "uid_scope u = s" by (simp_all add: i(2) uid_has_kind_def)
  show "uid_instance u \<noteq> 0" using candidate_instance_nonzero [OF assms i(1)] by (simp add: i(2))
next
  assume free: "isAvailable reg (make_uid d k s first)"
  have "0 < unat instance_count" by (simp add: instance_range)
  then have "first_some (\<lambda>i. let candidate = make_uid d k s (candidate_instance first i)
        in if uid_is_safe_json_integer candidate \<and> isAvailable reg candidate then Some candidate else None)
      [0 ..< unat instance_count] = Some (make_uid d k s first)"
    by (rule first_some_upt) (simp add: candidate_instance_first [OF assms] free)
  with assms show "generate reg d k s first = Inr (make_uid d k s first)" unfolding generate_def by simp
next
  assume "\<exists>n. n \<noteq> 0 \<and> isAvailable reg (make_uid d k s n)"
  then obtain n where n: "n \<noteq> 0" "isAvailable reg (make_uid d k s n)" by blast
  obtain i where "i < 65535" "candidate_instance first i = n" by (rule candidate_instance_onto [OF assms n(1)])
  with n have "generate reg d k s first \<noteq> Inl UidExhausted" by (auto simp: generate_exhausted isAvailable_def)
  moreover have "generate reg d k s first \<noteq> Inl InvalidInstance" using assms by (simp add: generate_def split: option.splits)
  ultimately show "\<exists>u. generate reg d k s first = Inr u"
    by (cases "generate reg d k s first") (auto, metis generator_error.exhaust)
qed

theorem generator_finds_free_uid_witness:
  "\<exists>u. generate [(make_uid ROLLING_STOCK VEHICLE 7 1, [])] ROLLING_STOCK VEHICLE 7 1 = Inr u \<and>
     u \<noteq> make_uid ROLLING_STOCK VEHICLE 7 1 \<and> uid_scope u = 7"
proof -
  let ?reg = "[(make_uid ROLLING_STOCK VEHICLE 7 1, [])] :: UidRegistry"
  have "uid_instance (make_uid ROLLING_STOCK VEHICLE 7 2) \<noteq> uid_instance (make_uid ROLLING_STOCK VEHICLE 7 1)" by simp
  then have "make_uid ROLLING_STOCK VEHICLE 7 2 \<noteq> make_uid ROLLING_STOCK VEHICLE 7 1" by metis
  then have "isAvailable ?reg (make_uid ROLLING_STOCK VEHICLE 7 2)"
    by (simp add: isAvailable_def registry_contains_def)
  then have free: "\<exists>n. n \<noteq> 0 \<and> isAvailable ?reg (make_uid ROLLING_STOCK VEHICLE 7 n)" by (intro exI [of _ 2]) simp
  have "(1 :: u16) \<noteq> 0" by simp
  note found = generator_finds_free_uid [OF this, of ?reg ROLLING_STOCK VEHICLE 7]
  obtain u where u: "generate ?reg ROLLING_STOCK VEHICLE 7 1 = Inr u" using found free by blast
  then have "\<not> registry_contains ?reg u" "uid_scope u = 7" using found by blast+
  with u show ?thesis by (auto simp: registry_contains_def)
qed

end
