(* ===== verification/Fleet_Editor.thy ===== *)
theory Fleet_Editor
  imports Uid_Tools Fleet_Registry
begin

text \<open>
  The data layer of the fleet editors: \<^verbatim>\<open>tools/shared/data/json_loader.cpp\<close>, the two sources
  \<^verbatim>\<open>packages_data_source.cpp\<close> and \<^verbatim>\<open>directory_data_source.cpp\<close>, and of the vehicle browser
  \<^verbatim>\<open>browser_data_controller.cpp\<close> and \<^verbatim>\<open>editor_persistence_service.cpp\<close>.  The records of the
  editors keep absent fields apart from empty ones, unlike those of the engine, and carry a prefix here.
  A disk is a list of files with their contents; the loaders see it through \<open>disk_files\<close>.  The type
  \<open>'t\<close> is that of the text of a file, \<open>JsonText\<close> the printing and parsing of the JSON library.
\<close>

section \<open>Records\<close>

record ToolVehicleType =
  tvt_uid :: UID
  tvt_type_name :: string
  tvt_pkp_series :: "string option"
  tvt_family :: "string option"
  tvt_vehicle_type :: string
  tvt_vehicle_subtype :: "string option"
  tvt_length_m :: double
  tvt_axle_count :: int
  tvt_mass_empty_t :: double
  tvt_mass_gross_t :: "double option"
  tvt_max_speed_kmh :: int
  tvt_braking_lambda_pct :: int
  tvt_power_kw :: "double option"
  tvt_traction_force_kn :: "double option"
  tvt_multiple_coupling_capable :: "bool option"
  tvt_davis_a :: "double option"
  tvt_davis_b :: "double option"
  tvt_davis_c :: "double option"
  tvt_source_file :: path

record ToolVehicle =
  tv_uid :: UID
  tv_type_uid :: UID
  tv_pid :: string
  tv_display_name :: string
  tv_vehicle_type :: "string option"
  tv_vehicle_subtype :: "string option"
  tv_length_m :: "double option"
  tv_axle_count :: "int option"
  tv_mass_empty_t :: "double option"
  tv_mass_gross_t :: "double option"
  tv_max_speed_kmh :: "int option"
  tv_braking_lambda_pct :: "int option"
  tv_power_kw :: "double option"
  tv_traction_force_kn :: "double option"
  tv_davis_a :: "double option"
  tv_davis_b :: "double option"
  tv_davis_c :: "double option"
  tv_traction_status :: "string option"
  tv_carrier_id :: "UID option"
  tv_inventory_number :: "string option"
  tv_notes :: "string option"
  tv_source_file :: path

record ToolTrain =
  tt_uid :: UID
  tt_pid :: string
  tt_display_name :: string
  tt_train_category :: string
  tt_carrier_id :: "UID option"
  tt_vehicle_uids :: "UID list"
  tt_source_file :: path

section \<open>Fields\<close>

datatype tool_error = JsonLoadError string | ToolJsonException string

definition in_file :: "string \<Rightarrow> string \<Rightarrow> path \<Rightarrow> tool_error" where
  "in_file what key p = JsonLoadError (what @ '' field '' @ quoted key @ '' in '' @ path_string p)"

definition tool_get :: "'j Json \<Rightarrow> ('j \<Rightarrow> string + 'a) \<Rightarrow> 'j \<Rightarrow> string \<Rightarrow> tool_error + 'a" where
  "tool_get js get j key = map_error ToolJsonException (and_then (j_at js j key) get)"

definition parseJsonFile :: "'j Json \<Rightarrow> 'j Files \<Rightarrow> path \<Rightarrow> tool_error + 'j" where
  "parseJsonFile js fs p =
    (if \<not> fs_can_open fs p then Inl (JsonLoadError (''Cannot open JSON file: '' @ path_string p))
     else case fs_parse fs p of
            Inl what \<Rightarrow> Inl (JsonLoadError (''Cannot parse JSON file '' @ path_string p @ '': '' @ what))
          | Inr j \<Rightarrow> if \<not> j_is_object js j then Inl (JsonLoadError (''JSON root must be an object: '' @ path_string p))
                     else Inr j)"

definition require_with ::
    "'j Json \<Rightarrow> ('j \<Rightarrow> bool) \<Rightarrow> ('j \<Rightarrow> string + 'a) \<Rightarrow> string \<Rightarrow> path \<Rightarrow> 'j \<Rightarrow> string \<Rightarrow> tool_error + 'a" where
  "require_with js ok get what p j key =
    (if \<not> has_member js ok j key then Inl (in_file (''Missing or invalid '' @ what) key p) else tool_get js get j key)"

definition member_absent :: "'j Json \<Rightarrow> 'j \<Rightarrow> string \<Rightarrow> bool" where
  "member_absent js j key \<longleftrightarrow> \<not> j_contains js j key \<or> has_member js (j_is_null js) j key"

definition optional_with ::
    "'j Json \<Rightarrow> ('j \<Rightarrow> bool) \<Rightarrow> ('j \<Rightarrow> string + 'a) \<Rightarrow> string \<Rightarrow> path \<Rightarrow> 'j \<Rightarrow> string \<Rightarrow> tool_error + 'a option" where
  "optional_with js ok get what p j key =
    (if member_absent js j key then Inr None
     else if \<not> has_member js ok j key then Inl (in_file (''Invalid '' @ what) key p)
     else map_sum id Some (tool_get js get j key))"

definition requireString :: "'j Json \<Rightarrow> path \<Rightarrow> 'j \<Rightarrow> string \<Rightarrow> tool_error + string" where
  "requireString js = require_with js (j_is_string js) (j_get_string js) ''string''"

definition optionalString :: "'j Json \<Rightarrow> path \<Rightarrow> 'j \<Rightarrow> string \<Rightarrow> tool_error + string option" where
  "optionalString js = optional_with js (j_is_string js) (j_get_string js) ''string''"

definition requireDouble :: "'j Json \<Rightarrow> path \<Rightarrow> 'j \<Rightarrow> string \<Rightarrow> tool_error + double" where
  "requireDouble js = require_with js (j_is_number js) (j_get_double js) ''numeric''"

definition optionalDouble :: "'j Json \<Rightarrow> path \<Rightarrow> 'j \<Rightarrow> string \<Rightarrow> tool_error + double option" where
  "optionalDouble js = optional_with js (j_is_number js) (j_get_double js) ''numeric''"

definition requireInt :: "'j Json \<Rightarrow> path \<Rightarrow> 'j \<Rightarrow> string \<Rightarrow> tool_error + int" where
  "requireInt js p j key =
     and_then (require_with js (j_is_number_integer js) (j_get_i64 js) ''integer'' p j key) (\<lambda>n.
       if n < - (2 ^ 31) \<or> n > 2 ^ 31 - 1
       then Inl (JsonLoadError (''Integer field '' @ quoted key @ '' is out of range in '' @ path_string p)) else Inr n)"

definition optionalInt :: "'j Json \<Rightarrow> path \<Rightarrow> 'j \<Rightarrow> string \<Rightarrow> tool_error + int option" where
  "optionalInt js p j key = (if member_absent js j key then Inr None else map_sum id Some (requireInt js p j key))"

definition optionalBool :: "'j Json \<Rightarrow> path \<Rightarrow> 'j \<Rightarrow> string \<Rightarrow> tool_error + bool option" where
  "optionalBool js = optional_with js (j_is_boolean js) (j_get_bool js) ''boolean''"

definition json_safe_uid :: "UID \<Rightarrow> bool" where
  "json_safe_uid uid \<longleftrightarrow> uid \<noteq> 0 \<and> uid_is_safe_json_integer uid"

definition requireUid :: "'j Json \<Rightarrow> path \<Rightarrow> 'j \<Rightarrow> string \<Rightarrow> tool_error + UID" where
  "requireUid js p j key =
     and_then (require_with js (j_is_number_unsigned js) (j_get_u64 js) ''UID'' p j key) (\<lambda>uid.
       if \<not> json_safe_uid uid
       then Inl (JsonLoadError (''UID field '' @ quoted key @ '' is outside the supported JSON-safe range in '' @ path_string p))
       else Inr uid)"

definition optionalUid :: "'j Json \<Rightarrow> path \<Rightarrow> 'j \<Rightarrow> string \<Rightarrow> tool_error + UID option" where
  "optionalUid js p j key = (if member_absent js j key then Inr None else map_sum id Some (requireUid js p j key))"

section \<open>Documents\<close>

definition parseVehicleType :: "'j Json \<Rightarrow> path \<Rightarrow> 'j \<Rightarrow> tool_error + ToolVehicleType" where
  "parseVehicleType js p j =
     and_then (requireUid js p j ''uid'') (\<lambda>uid.
     and_then (requireString js p j ''typeName'') (\<lambda>type_name.
     and_then (optionalString js p j ''pkpSeries'') (\<lambda>pkp_series.
     and_then (optionalString js p j ''family'') (\<lambda>family.
     and_then (requireString js p j ''vehicleType'') (\<lambda>vehicle_type.
     and_then (optionalString js p j ''vehicleSubtype'') (\<lambda>vehicle_subtype.
     and_then (requireDouble js p j ''lengthM'') (\<lambda>length_m.
     and_then (requireInt js p j ''axleCount'') (\<lambda>axle_count.
     and_then (requireDouble js p j ''massEmptyT'') (\<lambda>mass_empty_t.
     and_then (optionalDouble js p j ''massGrossT'') (\<lambda>mass_gross_t.
     and_then (requireInt js p j ''maxSpeedKmh'') (\<lambda>max_speed_kmh.
     and_then (requireInt js p j ''brakingLambdaPct'') (\<lambda>braking_lambda_pct.
     and_then (optionalDouble js p j ''powerKW'') (\<lambda>power_kw.
     and_then (optionalDouble js p j ''tractionForceKN'') (\<lambda>traction_force_kn.
     and_then (optionalBool js p j ''multipleCouplingCapable'') (\<lambda>coupling.
     and_then (optionalDouble js p j ''davisA'') (\<lambda>da.
     and_then (optionalDouble js p j ''davisB'') (\<lambda>db.
     and_then (optionalDouble js p j ''davisC'') (\<lambda>dc.
       Inr \<lparr>tvt_uid = uid, tvt_type_name = type_name, tvt_pkp_series = pkp_series, tvt_family = family,
            tvt_vehicle_type = vehicle_type, tvt_vehicle_subtype = vehicle_subtype, tvt_length_m = length_m,
            tvt_axle_count = axle_count, tvt_mass_empty_t = mass_empty_t, tvt_mass_gross_t = mass_gross_t,
            tvt_max_speed_kmh = max_speed_kmh, tvt_braking_lambda_pct = braking_lambda_pct, tvt_power_kw = power_kw,
            tvt_traction_force_kn = traction_force_kn, tvt_multiple_coupling_capable = coupling, tvt_davis_a = da,
            tvt_davis_b = db, tvt_davis_c = dc, tvt_source_file = p\<rparr>))))))))))))))))))"

definition parseVehicle :: "'j Json \<Rightarrow> path \<Rightarrow> 'j \<Rightarrow> tool_error + ToolVehicle" where
  "parseVehicle js p j =
     and_then (requireUid js p j ''uid'') (\<lambda>uid.
     and_then (requireUid js p j ''type_uid'') (\<lambda>type_uid.
     and_then (requireString js p j ''pID'') (\<lambda>pid.
     and_then (requireString js p j ''displayName'') (\<lambda>display_name.
     and_then (optionalString js p j ''vehicleType'') (\<lambda>vehicle_type.
     and_then (optionalString js p j ''vehicleSubtype'') (\<lambda>vehicle_subtype.
     and_then (optionalDouble js p j ''lengthM'') (\<lambda>length_m.
     and_then (optionalInt js p j ''axleCount'') (\<lambda>axle_count.
     and_then (optionalDouble js p j ''massEmptyT'') (\<lambda>mass_empty_t.
     and_then (optionalDouble js p j ''massGrossT'') (\<lambda>mass_gross_t.
     and_then (optionalInt js p j ''maxSpeedKmh'') (\<lambda>max_speed_kmh.
     and_then (optionalInt js p j ''brakingLambdaPct'') (\<lambda>braking_lambda_pct.
     and_then (optionalDouble js p j ''powerKW'') (\<lambda>power_kw.
     and_then (optionalDouble js p j ''tractionForceKN'') (\<lambda>traction_force_kn.
     and_then (optionalDouble js p j ''davisA'') (\<lambda>da.
     and_then (optionalDouble js p j ''davisB'') (\<lambda>db.
     and_then (optionalDouble js p j ''davisC'') (\<lambda>dc.
     and_then (optionalString js p j ''tractionStatus'') (\<lambda>traction_status.
     and_then (optionalUid js p j ''carrierId'') (\<lambda>carrier_id.
     and_then (optionalString js p j ''inventoryNumber'') (\<lambda>inventory_number.
     and_then (optionalString js p j ''notes'') (\<lambda>notes.
       Inr \<lparr>tv_uid = uid, tv_type_uid = type_uid, tv_pid = pid, tv_display_name = display_name,
            tv_vehicle_type = vehicle_type, tv_vehicle_subtype = vehicle_subtype, tv_length_m = length_m,
            tv_axle_count = axle_count, tv_mass_empty_t = mass_empty_t, tv_mass_gross_t = mass_gross_t,
            tv_max_speed_kmh = max_speed_kmh, tv_braking_lambda_pct = braking_lambda_pct, tv_power_kw = power_kw,
            tv_traction_force_kn = traction_force_kn, tv_davis_a = da, tv_davis_b = db, tv_davis_c = dc,
            tv_traction_status = traction_status, tv_carrier_id = carrier_id,
            tv_inventory_number = inventory_number, tv_notes = notes, tv_source_file = p\<rparr>)))))))))))))))))))))"

definition parse_vehicle_uid :: "'j Json \<Rightarrow> path \<Rightarrow> nat \<times> 'j \<Rightarrow> tool_error + UID" where
  "parse_vehicle_uid js p item =
    (if \<not> j_is_number_unsigned js (snd item)
     then Inl (JsonLoadError (''Invalid vehicle UID at index '' @ nat_to_string (fst item) @ '' in '' @ path_string p))
     else and_then (map_error ToolJsonException (j_get_u64 js (snd item))) (\<lambda>uid.
       if \<not> json_safe_uid uid
       then Inl (JsonLoadError (''Vehicle UID at index '' @ nat_to_string (fst item) @
              '' is outside the supported JSON-safe range in '' @ path_string p))
       else Inr uid))"

definition parseTrain :: "'j Json \<Rightarrow> path \<Rightarrow> 'j \<Rightarrow> tool_error + ToolTrain" where
  "parseTrain js p j =
     and_then (requireUid js p j ''uid'') (\<lambda>uid.
     and_then (requireString js p j ''pID'') (\<lambda>pid.
     and_then (requireString js p j ''displayName'') (\<lambda>display_name.
     and_then (requireString js p j ''trainCategory'') (\<lambda>train_category.
     and_then (optionalUid js p j ''carrierId'') (\<lambda>carrier_id.
       if \<not> has_member js (j_is_array js) j ''vehicle_uids''
       then Inl (in_file ''Missing or invalid UID array'' ''vehicle_uids'' p)
       else
     and_then (tool_get js Inr j ''vehicle_uids'') (\<lambda>items.
     and_then (map_result (parse_vehicle_uid js p) (enumerate 0 (j_elements js items))) (\<lambda>uids.
       Inr \<lparr>tt_uid = uid, tt_pid = pid, tt_display_name = display_name, tt_train_category = train_category,
            tt_carrier_id = carrier_id, tt_vehicle_uids = uids, tt_source_file = p\<rparr>)))))))"

datatype JsonDocumentType = UNKNOWN_DOCUMENT | VEHICLE_TYPE_DOCUMENT | VEHICLE_DOCUMENT | TRAIN_DOCUMENT

definition detectDocumentType :: "'j Json \<Rightarrow> 'j Files \<Rightarrow> path \<Rightarrow> tool_error + JsonDocumentType" where
  "detectDocumentType js fs p =
     and_then (parseJsonFile js fs p) (\<lambda>j.
       Inr (if j_contains js j ''vehicle_uids'' \<and> j_contains js j ''trainCategory'' then TRAIN_DOCUMENT
            else if j_contains js j ''type_uid'' \<and> j_contains js j ''pID'' then VEHICLE_DOCUMENT
            else if j_contains js j ''typeName'' \<and> j_contains js j ''vehicleType'' then VEHICLE_TYPE_DOCUMENT
            else UNKNOWN_DOCUMENT))"

definition loadVehicleType :: "'j Json \<Rightarrow> 'j Files \<Rightarrow> path \<Rightarrow> tool_error + ToolVehicleType" where
  "loadVehicleType js fs p = and_then (parseJsonFile js fs p) (parseVehicleType js p)"

definition loadVehicle :: "'j Json \<Rightarrow> 'j Files \<Rightarrow> path \<Rightarrow> tool_error + ToolVehicle" where
  "loadVehicle js fs p = and_then (parseJsonFile js fs p) (parseVehicle js p)"

definition loadTrain :: "'j Json \<Rightarrow> 'j Files \<Rightarrow> path \<Rightarrow> tool_error + ToolTrain" where
  "loadTrain js fs p = and_then (parseJsonFile js fs p) (parseTrain js p)"

section \<open>Data sources\<close>

datatype source_error = DataSourceError string | LoaderException tool_error

record 'j ToolFs =
  tfs_files :: "'j Files"
  tfs_is_directory :: "path \<Rightarrow> bool"

record IDataSource =
  ds_validate :: "source_error + unit"
  ds_loadVehicleTypes :: "source_error + ToolVehicleType list"
  ds_loadVehicles :: "source_error + ToolVehicle list"
  ds_loadTrains :: "source_error + ToolTrain list"

definition ensureDirectory :: "'j ToolFs \<Rightarrow> string \<Rightarrow> string \<Rightarrow> path \<Rightarrow> source_error + unit" where
  "ensureDirectory tfs missing_label kind_label p =
    (if \<not> fs_exists (tfs_files tfs) p then Inl (DataSourceError (missing_label @ '' does not exist: '' @ path_string p))
     else if \<not> tfs_is_directory tfs p then Inl (DataSourceError (kind_label @ '' is not a directory: '' @ path_string p))
     else Inr ())"

text \<open>The loop over the files of a source: a \<^verbatim>\<open>JsonLoadError\<close> skips the file, another exception passes.\<close>

fun load_skipping :: "(path \<Rightarrow> tool_error + 'r option) \<Rightarrow> path list \<Rightarrow> source_error + 'r list" where
  "load_skipping loader [] = Inr []"
| "load_skipping loader (p # ps) =
    (case loader p of
       Inl (JsonLoadError _) \<Rightarrow> load_skipping loader ps
     | Inl e \<Rightarrow> Inl (LoaderException e)
     | Inr None \<Rightarrow> load_skipping loader ps
     | Inr (Some r) \<Rightarrow> map_sum id (Cons r) (load_skipping loader ps))"

definition ensurePackageStructure :: "'j ToolFs \<Rightarrow> path \<Rightarrow> source_error + unit" where
  "ensurePackageStructure tfs rt =
     and_then (ensureDirectory tfs ''Packages directory'' ''Packages directory'' rt) (\<lambda>_.
       fold_result (\<lambda>d _. ensureDirectory tfs ''Required packages subdirectory'' ''Required packages subdirectory'' (rt @ [d]))
         [''vehicle-types'', ''vehicles'', ''trains''] ())"

definition collectFiles :: "'j ToolFs \<Rightarrow> path \<Rightarrow> bool \<Rightarrow> source_error + path list" where
  "collectFiles tfs rt vehicle_files_only =
     and_then (ensureDirectory tfs ''Packages data directory'' ''Packages data directory'' rt) (\<lambda>_.
       Inr (sort (filter (\<lambda>p. fs_is_regular_file (tfs_files tfs) p \<and>
           (if vehicle_files_only then path_filename p = ''vehicle.json'' else path_extension p = ''.json''))
         (fs_entries (tfs_files tfs) rt))))"

definition load_package_files ::
    "'j ToolFs \<Rightarrow> path \<Rightarrow> string \<Rightarrow> bool \<Rightarrow> (path \<Rightarrow> tool_error + 'r) \<Rightarrow> source_error + 'r list" where
  "load_package_files tfs rt dir vehicle_files_only loader =
     and_then (ensurePackageStructure tfs rt) (\<lambda>_.
     and_then (collectFiles tfs (rt @ [dir]) vehicle_files_only) (load_skipping (\<lambda>p. map_sum id Some (loader p))))"

definition PackagesDataSource :: "'j Json \<Rightarrow> 'j ToolFs \<Rightarrow> path \<Rightarrow> IDataSource" where
  "PackagesDataSource js tfs rt =
     \<lparr>ds_validate = ensurePackageStructure tfs rt,
      ds_loadVehicleTypes = load_package_files tfs rt ''vehicle-types'' False (loadVehicleType js (tfs_files tfs)),
      ds_loadVehicles = load_package_files tfs rt ''vehicles'' True (loadVehicle js (tfs_files tfs)),
      ds_loadTrains = load_package_files tfs rt ''trains'' False (loadTrain js (tfs_files tfs))\<rparr>"

definition ensure_source_directory :: "'j ToolFs \<Rightarrow> path \<Rightarrow> source_error + unit" where
  "ensure_source_directory tfs rt = ensureDirectory tfs ''Data source directory'' ''Data source path'' rt"

definition collectJsonFiles :: "'j ToolFs \<Rightarrow> path \<Rightarrow> source_error + path list" where
  "collectJsonFiles tfs rt =
     and_then (ensure_source_directory tfs rt) (\<lambda>_.
       Inr (sort (filter (is_json_file (tfs_files tfs)) (fs_entries (tfs_files tfs) rt))))"

definition loadRecognizedFiles ::
    "'j Json \<Rightarrow> 'j ToolFs \<Rightarrow> path \<Rightarrow> JsonDocumentType \<Rightarrow> (path \<Rightarrow> tool_error + 'r) \<Rightarrow> source_error + 'r list" where
  "loadRecognizedFiles js tfs rt expected_type loader =
     and_then (collectJsonFiles tfs rt) (load_skipping (\<lambda>p.
       and_then (detectDocumentType js (tfs_files tfs) p) (\<lambda>type.
         if type = expected_type then map_sum id Some (loader p) else Inr None)))"

definition DirectoryDataSource :: "'j Json \<Rightarrow> 'j ToolFs \<Rightarrow> path \<Rightarrow> IDataSource" where
  "DirectoryDataSource js tfs rt =
     \<lparr>ds_validate = ensure_source_directory tfs rt,
      ds_loadVehicleTypes =
        loadRecognizedFiles js tfs rt VEHICLE_TYPE_DOCUMENT (loadVehicleType js (tfs_files tfs)),
      ds_loadVehicles = loadRecognizedFiles js tfs rt VEHICLE_DOCUMENT (loadVehicle js (tfs_files tfs)),
      ds_loadTrains = loadRecognizedFiles js tfs rt TRAIN_DOCUMENT (loadTrain js (tfs_files tfs))\<rparr>"

section \<open>The controller of the browser\<close>

record BrowserDataSet =
  bd_vehicle_types :: "ToolVehicleType list"
  bd_vehicles :: "ToolVehicle list"
  bd_trains :: "ToolTrain list"

text \<open>The UIDs a record mentions, in the order in which they are registered\<close>

definition type_uids :: "ToolVehicleType \<Rightarrow> (UID \<times> path) list" where
  "type_uids t = [(tvt_uid t, tvt_source_file t)]"

definition vehicle_uids :: "ToolVehicle \<Rightarrow> (UID \<times> path) list" where
  "vehicle_uids v =
     map (\<lambda>u. (u, tv_source_file v))
       ([tv_uid v, tv_type_uid v] @ (case tv_carrier_id v of Some c \<Rightarrow> [c] | None \<Rightarrow> []))"

definition train_uids :: "ToolTrain \<Rightarrow> (UID \<times> path) list" where
  "train_uids t =
     map (\<lambda>u. (u, tt_source_file t))
       ([tt_uid t] @ (case tt_carrier_id t of Some c \<Rightarrow> [c] | None \<Rightarrow> []) @ tt_vehicle_uids t)"

definition register_all :: "(UID \<times> path) list \<Rightarrow> UidRegistry \<Rightarrow> UidRegistry" where
  "register_all us reg = fold (\<lambda>(u, p) r. snd (registry_insert u p r)) us reg"

definition loadSource :: "IDataSource \<Rightarrow> source_error + BrowserDataSet \<times> UidRegistry" where
  "loadSource source =
     and_then (ds_validate source) (\<lambda>_.
     and_then (ds_loadVehicleTypes source) (\<lambda>types.
     and_then (ds_loadVehicles source) (\<lambda>vehicles.
     and_then (ds_loadTrains source) (\<lambda>trains.
       Inr (\<lparr>bd_vehicle_types = types, bd_vehicles = vehicles, bd_trains = trains\<rparr>,
            register_all (concat (map type_uids types) @ concat (map vehicle_uids vehicles) @ concat (map train_uids trains)) [])))))"

definition loadPackages :: "'j Json \<Rightarrow> 'j ToolFs \<Rightarrow> path \<Rightarrow> source_error + BrowserDataSet \<times> UidRegistry" where
  "loadPackages js tfs rt = loadSource (PackagesDataSource js tfs rt)"

definition loadDirectory :: "'j Json \<Rightarrow> 'j ToolFs \<Rightarrow> path \<Rightarrow> source_error + BrowserDataSet \<times> UidRegistry" where
  "loadDirectory js tfs rt = loadSource (DirectoryDataSource js tfs rt)"

section \<open>The disk\<close>

record ('j, 't) JsonText =
  jt_dump :: "'j \<Rightarrow> string + 't"
  jt_parse :: "'t \<Rightarrow> string + 'j"
  jt_empty :: 't

record 'j JsonEdit =
  je_object :: 'j
  je_set :: "string \<Rightarrow> 'j \<Rightarrow> 'j \<Rightarrow> 'j"
  je_erase :: "string \<Rightarrow> 'j \<Rightarrow> 'j"
  je_string :: "string \<Rightarrow> 'j"
  je_unsigned :: "u64 \<Rightarrow> 'j"
  je_array :: "'j list \<Rightarrow> 'j"

record 't Disk =
  dk_files :: "(path, 't) umap"
  dk_unreadable :: "path \<Rightarrow> bool"
  dk_unwritable :: "path \<Rightarrow> bool"
  dk_no_directory :: "path \<Rightarrow> bool"

definition disk_files :: "('j, 't) JsonText \<Rightarrow> 't Disk \<Rightarrow> 'j Files" where
  "disk_files jt disk =
     \<lparr>fs_exists = (\<lambda>p. um_find (dk_files disk) p \<noteq> None),
      fs_entries = (\<lambda>d. filter (\<lambda>p. length d < length p \<and> take (length d) p = d) (um_keys (dk_files disk))),
      fs_is_regular_file = (\<lambda>p. um_find (dk_files disk) p \<noteq> None),
      fs_can_open = (\<lambda>p. um_find (dk_files disk) p \<noteq> None \<and> \<not> dk_unreadable disk p),
      fs_parse = (\<lambda>p. case um_find (dk_files disk) p of
          Some t \<Rightarrow> jt_parse jt t | None \<Rightarrow> Inl ''[json.exception.parse_error.101]'')\<rparr>"

section \<open>Saving\<close>

record VehicleSaveRequest =
  vsr_file :: path
  vsr_preserve_existing_fields :: bool
  vsr_uid :: UID
  vsr_type_uid :: UID
  vsr_pid :: string
  vsr_display_name :: string
  vsr_carrier_id :: "UID option"
  vsr_inventory_number :: "string option"
  vsr_notes :: "string option"

record TrainSaveRequest =
  tsr_file :: path
  tsr_preserve_existing_fields :: bool
  tsr_uid :: UID
  tsr_pid :: string
  tsr_display_name :: string
  tsr_train_category :: string
  tsr_carrier_id :: "UID option"
  tsr_vehicle_uids :: "UID list"

datatype save_error = SaveRuntimeError string | SaveInvalidArgument string | SaveJsonException string | FilesystemError string

definition loadBaseDocument ::
    "'j Json \<Rightarrow> 'j JsonEdit \<Rightarrow> 'j Files \<Rightarrow> path \<Rightarrow> bool \<Rightarrow> save_error + 'j" where
  "loadBaseDocument js je fs file preserve_existing =
    (if \<not> preserve_existing \<or> \<not> fs_exists fs file then Inr (je_object je)
     else if \<not> fs_can_open fs file then Inl (SaveRuntimeError (''Cannot open existing JSON file: '' @ path_string file))
     else case fs_parse fs file of
            Inl what \<Rightarrow> Inl (SaveRuntimeError (''Cannot parse existing JSON file '' @ path_string file @ '': '' @ what))
          | Inr j \<Rightarrow>
              if \<not> j_is_object js j
              then Inl (SaveRuntimeError (''Existing JSON root must be an object: '' @ path_string file)) else Inr j)"

text \<open>
  The file is created, or cut to nothing, before the document is printed: a document that cannot be
  printed leaves an empty file behind.
\<close>

definition writeDocument ::
    "('j, 't) JsonText \<Rightarrow> path \<Rightarrow> 'j \<Rightarrow> string \<Rightarrow> 't Disk \<Rightarrow> 't Disk \<times> (save_error + unit)" where
  "writeDocument jt file doc label disk =
    (if dk_no_directory disk (butlast file) then (disk, Inl (FilesystemError (path_string (butlast file))))
     else if dk_unwritable disk file
     then (disk, Inl (SaveRuntimeError (''Cannot create '' @ label @ '' JSON file: '' @ path_string file)))
     else case jt_dump jt doc of
            Inl what \<Rightarrow> (disk\<lparr>dk_files := um_assign file (jt_empty jt) (dk_files disk)\<rparr>, Inl (SaveJsonException what))
          | Inr t \<Rightarrow> (disk\<lparr>dk_files := um_assign file t (dk_files disk)\<rparr>, Inr ()))"

definition ensureNonEmpty :: "string \<Rightarrow> string \<Rightarrow> save_error + unit" where
  "ensureNonEmpty v label = (if v = [] then Inl (SaveInvalidArgument (label @ '' is required'')) else Inr ())"

definition ensurePersistableUid :: "UID \<Rightarrow> string \<Rightarrow> save_error + unit" where
  "ensurePersistableUid uid label =
    (if \<not> json_safe_uid uid then Inl (SaveInvalidArgument (label @ '' must be a non-zero JSON-safe UID'')) else Inr ())"

definition setOptionalString :: "'j JsonEdit \<Rightarrow> string \<Rightarrow> string option \<Rightarrow> 'j \<Rightarrow> 'j" where
  "setOptionalString je key v doc =
    (case v of Some s \<Rightarrow> if s \<noteq> [] then je_set je key (je_string je s) doc else je_erase je key doc
     | None \<Rightarrow> je_erase je key doc)"

definition setOptionalUid :: "'j JsonEdit \<Rightarrow> string \<Rightarrow> UID option \<Rightarrow> 'j \<Rightarrow> save_error + 'j" where
  "setOptionalUid je key v doc =
    (case v of Some u \<Rightarrow> and_then (ensurePersistableUid u key) (\<lambda>_. Inr (je_set je key (je_unsigned je u) doc))
     | None \<Rightarrow> Inr (je_erase je key doc))"

definition vehicle_document ::
    "'j Json \<Rightarrow> 'j JsonEdit \<Rightarrow> 'j Files \<Rightarrow> VehicleSaveRequest \<Rightarrow> save_error + 'j" where
  "vehicle_document js je fs r =
     and_then (ensurePersistableUid (vsr_uid r) ''Vehicle UID'') (\<lambda>_.
     and_then (ensurePersistableUid (vsr_type_uid r) ''Vehicle type UID'') (\<lambda>_.
     and_then (ensureNonEmpty (vsr_pid r) ''Vehicle pID'') (\<lambda>_.
     and_then (loadBaseDocument js je fs (vsr_file r) (vsr_preserve_existing_fields r)) (\<lambda>d0.
     let d1 = je_set je ''uid'' (je_unsigned je (vsr_uid r)) d0;
         d2 = je_set je ''type_uid'' (je_unsigned je (vsr_type_uid r)) d1;
         d3 = je_set je ''pID'' (je_string je (vsr_pid r)) d2;
         d4 = je_set je ''displayName''
                (je_string je (if vsr_display_name r = [] then vsr_pid r else vsr_display_name r)) d3 in
     and_then (setOptionalUid je ''carrierId'' (vsr_carrier_id r) d4) (\<lambda>d5.
       Inr (setOptionalString je ''notes'' (vsr_notes r)
             (setOptionalString je ''inventoryNumber'' (vsr_inventory_number r) d5)))))))"

definition saveVehicle ::
    "'j Json \<Rightarrow> 'j JsonEdit \<Rightarrow> ('j, 't) JsonText \<Rightarrow> VehicleSaveRequest \<Rightarrow> 't Disk \<Rightarrow> 't Disk \<times> (save_error + path)" where
  "saveVehicle js je jt r disk =
    (case vehicle_document js je (disk_files jt disk) r of
       Inl e \<Rightarrow> (disk, Inl e)
     | Inr doc \<Rightarrow>
         let (disk', res) = writeDocument jt (vsr_file r) doc ''vehicle'' disk in (disk', and_then res (\<lambda>_. Inr (vsr_file r))))"

definition train_document ::
    "'j Json \<Rightarrow> 'j JsonEdit \<Rightarrow> 'j Files \<Rightarrow> TrainSaveRequest \<Rightarrow> save_error + 'j" where
  "train_document js je fs r =
     and_then (ensurePersistableUid (tsr_uid r) ''Train UID'') (\<lambda>_.
     and_then (ensureNonEmpty (tsr_pid r) ''Train pID'') (\<lambda>_.
     and_then (ensureNonEmpty (tsr_train_category r) ''Train category'') (\<lambda>_.
       if tsr_vehicle_uids r = [] then Inl (SaveRuntimeError ''Cannot save an empty train consist'') else
     and_then (loadBaseDocument js je fs (tsr_file r) (tsr_preserve_existing_fields r)) (\<lambda>d0.
     let d1 = je_set je ''uid'' (je_unsigned je (tsr_uid r)) d0;
         d2 = je_set je ''pID'' (je_string je (tsr_pid r)) d1;
         d3 = je_set je ''displayName''
                (je_string je (if tsr_display_name r = [] then tsr_pid r else tsr_display_name r)) d2;
         d4 = je_set je ''trainCategory'' (je_string je (tsr_train_category r)) d3 in
     and_then (setOptionalUid je ''carrierId'' (tsr_carrier_id r) d4) (\<lambda>d5.
     and_then (map_result (\<lambda>u. and_then (ensurePersistableUid u ''Train vehicle UID'') (\<lambda>_. Inr (je_unsigned je u)))
       (tsr_vehicle_uids r)) (\<lambda>items.
       Inr (je_set je ''vehicle_uids'' (je_array je items) d5)))))))"

definition saveTrain ::
    "'j Json \<Rightarrow> 'j JsonEdit \<Rightarrow> ('j, 't) JsonText \<Rightarrow> TrainSaveRequest \<Rightarrow> 't Disk \<Rightarrow> 't Disk \<times> (save_error + UID)" where
  "saveTrain js je jt r disk =
    (case train_document js je (disk_files jt disk) r of
       Inl e \<Rightarrow> (disk, Inl e)
     | Inr doc \<Rightarrow>
         let (disk', res) = writeDocument jt (tsr_file r) doc ''train'' disk in (disk', and_then res (\<lambda>_. Inr (tsr_uid r))))"

end
