(* ===== verification/Editor_Panels.thy ===== *)
theory Editor_Panels
  imports Fleet_Editor
begin

text \<open>
  The models and the panels of the vehicle browser: \<^verbatim>\<open>models/train_model.cpp\<close>,
  \<^verbatim>\<open>models/vehicle_model.cpp\<close>, \<^verbatim>\<open>models/vehicle_type_model.cpp\<close>,
  \<^verbatim>\<open>ui/train_builder_panel.cpp\<close>, \<^verbatim>\<open>ui/vehicle_edit_dialog.cpp\<close> and the data side of
  \<^verbatim>\<open>ui/main_window.cpp\<close>.  Widgets are the texts they show; what the user picks in a dialog is an
  argument.  The text functions of Qt are a parameter, \<open>QtText\<close>.  An index of a Qt model is its row and
  column, \<open>None\<close> for the invalid one.
\<close>

section \<open>Models\<close>

datatype ItemRole = DisplayRole | EditRole | UserRole | OtherRole

datatype QVariant = QInvalid | QUnsigned u64 | QText string | QDouble double

type_synonym model_index = "(int \<times> int) option"

definition row_at :: "'a list \<Rightarrow> int \<Rightarrow> 'a option" where
  "row_at xs row = (if row < 0 \<or> row \<ge> int (length xs) then None else Some (xs ! nat row))"

subsection \<open>The consist\<close>

type_synonym TrainModel = "ToolVehicle list"

definition train_rowCount :: "TrainModel \<Rightarrow> model_index \<Rightarrow> nat" where
  "train_rowCount m parent = (if parent \<noteq> None then 0 else length m)"

definition train_data :: "TrainModel \<Rightarrow> model_index \<Rightarrow> ItemRole \<Rightarrow> QVariant" where
  "train_data m index role =
    (case index of
       None \<Rightarrow> QInvalid
     | Some (row, _) \<Rightarrow>
         (case row_at m row of
            None \<Rightarrow> QInvalid
          | Some v \<Rightarrow>
              if role = UserRole then QUnsigned (tv_uid v)
              else if role = DisplayRole then QText (tv_pid v @ '' - '' @ tv_display_name v) else QInvalid))"

text \<open>\<open>begin_move\<close> is the answer of \<^verbatim>\<open>beginMoveRows\<close>.\<close>

definition moveRows ::
    "(int \<Rightarrow> int \<Rightarrow> bool) \<Rightarrow> model_index \<Rightarrow> int \<Rightarrow> int \<Rightarrow> model_index \<Rightarrow> int \<Rightarrow> TrainModel \<Rightarrow> bool \<times> TrainModel" where
  "moveRows begin_move source_parent source_row count destination_parent destination_child m =
    (if source_parent \<noteq> None \<or> destination_parent \<noteq> None \<or> count \<noteq> 1 \<or>
        source_row < 0 \<or> source_row \<ge> int (length m) \<or>
        destination_child < 0 \<or> destination_child > int (length m) \<or>
        destination_child = source_row \<or> destination_child = source_row + 1
     then (False, m)
     else if \<not> begin_move source_row destination_child then (False, m)
     else
       let moved = m ! nat source_row;
           rest = take (nat source_row) m @ drop (Suc (nat source_row)) m;
           adjusted_destination = nat (if destination_child > source_row then destination_child - 1 else destination_child)
       in (True, take adjusted_destination rest @ moved # drop adjusted_destination rest))"

definition appendVehicle :: "ToolVehicle \<Rightarrow> TrainModel \<Rightarrow> TrainModel" where
  "appendVehicle v m = m @ [v]"

definition train_setVehicles :: "ToolVehicle list \<Rightarrow> TrainModel \<Rightarrow> TrainModel" where
  "train_setVehicles vs m = vs"

definition removeVehicle :: "int \<Rightarrow> TrainModel \<Rightarrow> bool \<times> TrainModel" where
  "removeVehicle row m =
    (if row < 0 \<or> row \<ge> int (length m) then (False, m) else (True, take (nat row) m @ drop (Suc (nat row)) m))"

definition train_clear :: "TrainModel \<Rightarrow> TrainModel" where
  "train_clear m = []"

subsection \<open>The vehicles\<close>

record VehicleModel =
  vm_vehicles :: "ToolVehicle list"
  vm_visible_rows :: "nat list"
  vm_filter_type_uid :: "UID option"

definition empty_vehicle_model :: VehicleModel where
  "empty_vehicle_model = \<lparr>vm_vehicles = [], vm_visible_rows = [], vm_filter_type_uid = None\<rparr>"

definition rebuildVisibleRows :: "VehicleModel \<Rightarrow> VehicleModel" where
  "rebuildVisibleRows m = m\<lparr>vm_visible_rows := filter (\<lambda>i.
     vm_filter_type_uid m = None \<or> vm_filter_type_uid m = Some (tv_type_uid (vm_vehicles m ! i))) [0 ..< length (vm_vehicles m)]\<rparr>"

definition vehicle_rowCount :: "VehicleModel \<Rightarrow> model_index \<Rightarrow> nat" where
  "vehicle_rowCount m parent = (if parent \<noteq> None then 0 else length (vm_visible_rows m))"

definition vehicleAt :: "VehicleModel \<Rightarrow> int \<Rightarrow> ToolVehicle option" where
  "vehicleAt m row =
    (if row < 0 \<or> row \<ge> int (length (vm_visible_rows m)) then None
     else Some (vm_vehicles m ! (vm_visible_rows m ! nat row)))"

definition vehicle_data :: "VehicleModel \<Rightarrow> model_index \<Rightarrow> ItemRole \<Rightarrow> QVariant" where
  "vehicle_data m index role =
    (case index of
       None \<Rightarrow> QInvalid
     | Some (row, column) \<Rightarrow>
         (case vehicleAt m row of
            None \<Rightarrow> QInvalid
          | Some v \<Rightarrow>
              if role = UserRole then QUnsigned (tv_uid v)
              else if role \<noteq> DisplayRole \<and> role \<noteq> EditRole then QInvalid
              else if column = 0 then QUnsigned (tv_uid v)
              else if column = 1 then QUnsigned (tv_type_uid v)
              else if column = 2 then QText (tv_pid v)
              else if column = 3 then QText (tv_display_name v)
              else if column = 4 then (case tv_carrier_id v of Some c \<Rightarrow> QUnsigned c | None \<Rightarrow> QInvalid)
              else QInvalid))"

definition setVehicles :: "ToolVehicle list \<Rightarrow> VehicleModel \<Rightarrow> VehicleModel" where
  "setVehicles vs m = rebuildVisibleRows (m\<lparr>vm_vehicles := vs\<rparr>)"

definition setFilterVehicleType :: "UID option \<Rightarrow> VehicleModel \<Rightarrow> VehicleModel" where
  "setFilterVehicleType type_uid m = rebuildVisibleRows (m\<lparr>vm_filter_type_uid := type_uid\<rparr>)"

subsection \<open>The vehicle types\<close>

type_synonym VehicleTypeModel = "ToolVehicleType list"

definition type_rowCount :: "VehicleTypeModel \<Rightarrow> model_index \<Rightarrow> nat" where
  "type_rowCount m parent = (if parent \<noteq> None then 0 else length m)"

definition vehicleTypeAt :: "VehicleTypeModel \<Rightarrow> int \<Rightarrow> ToolVehicleType option" where
  "vehicleTypeAt m row = row_at m row"

definition text_or_empty :: "string option \<Rightarrow> QVariant" where
  "text_or_empty s = QText (case s of Some x \<Rightarrow> x | None \<Rightarrow> [])"

definition type_data :: "VehicleTypeModel \<Rightarrow> model_index \<Rightarrow> ItemRole \<Rightarrow> QVariant" where
  "type_data m index role =
    (case index of
       None \<Rightarrow> QInvalid
     | Some (row, column) \<Rightarrow>
         (case row_at m row of
            None \<Rightarrow> QInvalid
          | Some t \<Rightarrow>
              if role = UserRole then QUnsigned (tvt_uid t)
              else if role \<noteq> DisplayRole \<and> role \<noteq> EditRole then QInvalid
              else if column = 0 then QUnsigned (tvt_uid t)
              else if column = 1 then QText (tvt_type_name t)
              else if column = 2 then text_or_empty (tvt_family t)
              else if column = 3 then QText (tvt_vehicle_type t)
              else if column = 4 then text_or_empty (tvt_vehicle_subtype t)
              else if column = 5 then QDouble (case tvt_mass_gross_t t of Some g \<Rightarrow> g | None \<Rightarrow> tvt_mass_empty_t t)
              else if column = 6 then QDouble (tvt_length_m t)
              else QInvalid))"

definition setVehicleTypes :: "ToolVehicleType list \<Rightarrow> VehicleTypeModel \<Rightarrow> VehicleTypeModel" where
  "setVehicleTypes ts m = ts"

section \<open>The train builder\<close>

record QtText =
  qt_trimmed :: "string \<Rightarrow> string"
  qt_upper :: "string \<Rightarrow> string"
  qt_lower :: "string \<Rightarrow> string"
  qt_number :: "u64 \<Rightarrow> string"
  qt_to_ulonglong :: "string \<Rightarrow> u64 option"

record TrainBuilderPanel =
  tb_model :: TrainModel
  tb_trains :: "ToolTrain list"
  tb_vehicles :: "ToolVehicle list"
  tb_default_output_directory :: path
  tb_current_train_index :: "nat option"
  tb_missing_vehicle_count :: nat
  tb_train_selector :: int
  tb_uid_field :: string
  tb_pid_field :: string
  tb_display_name_field :: string
  tb_category_field :: string
  tb_carrier_uid_field :: string

datatype panel_error =
    EmptyConsist
  | TrainNumberRequired
  | MissingVehicles
  | InvalidCarrierUid
  | SideNumberRequired
  | GeneratorError generator_error
  | SaveError save_error

definition category_items :: "string list" where
  "category_items = [''PASSENGER'', ''FREIGHT'', ''MAINTENANCE'']"

text \<open>\<^verbatim>\<open>setCurrentText\<close> on a combo box that is not editable: a text that is not an item is ignored.\<close>

definition set_category :: "string \<Rightarrow> TrainBuilderPanel \<Rightarrow> TrainBuilderPanel" where
  "set_category category panel = (if category \<in> set category_items then panel\<lparr>tb_category_field := category\<rparr> else panel)"

definition findVehicle :: "ToolVehicle list \<Rightarrow> UID \<Rightarrow> ToolVehicle option" where
  "findVehicle vehicles uid = find (\<lambda>v. tv_uid v = uid) vehicles"

definition selectTrain :: "QtText \<Rightarrow> int \<Rightarrow> TrainBuilderPanel \<Rightarrow> TrainBuilderPanel" where
  "selectTrain qt index panel =
    (let panel = set_category ''PASSENGER'' (panel\<lparr>tb_model := train_clear (tb_model panel),
           tb_current_train_index := None, tb_uid_field := [], tb_pid_field := [], tb_display_name_field := [],
           tb_carrier_uid_field := [], tb_missing_vehicle_count := 0\<rparr>)
     in if index \<le> 0 \<or> index > int (length (tb_trains panel)) then panel
        else
          let i = nat (index - 1);
              train = tb_trains panel ! i;
              found = map (findVehicle (tb_vehicles panel)) (tt_vehicle_uids train);
              panel = panel\<lparr>tb_current_train_index := Some i, tb_uid_field := qt_number qt (tt_uid train),
                 tb_pid_field := tt_pid train, tb_display_name_field := tt_display_name train\<rparr>;
              panel = set_category (qt_upper qt (tt_train_category train)) panel;
              panel = (case tt_carrier_id train of
                         Some c \<Rightarrow> panel\<lparr>tb_carrier_uid_field := qt_number qt c\<rparr> | None \<Rightarrow> panel)
          in panel\<lparr>tb_missing_vehicle_count := length (filter (\<lambda>v. v = None) found),
                tb_model := train_setVehicles (map the (filter (\<lambda>v. v \<noteq> None) found)) (tb_model panel)\<rparr>)"

definition setAvailableData ::
    "QtText \<Rightarrow> ToolTrain list \<Rightarrow> ToolVehicle list \<Rightarrow> path \<Rightarrow> TrainBuilderPanel \<Rightarrow> TrainBuilderPanel" where
  "setAvailableData qt trains vehicles dir panel =
    (let selected_uid = (case tb_current_train_index panel of
           Some i \<Rightarrow> if i < length (tb_trains panel) then Some (tt_uid (tb_trains panel ! i)) else None
         | None \<Rightarrow> None);
         selected_index = fold (\<lambda>(i, train) s. if selected_uid = Some (tt_uid train) then int i + 1 else s)
           (enumerate 0 trains) 0
     in selectTrain qt selected_index (panel\<lparr>tb_trains := trains, tb_vehicles := vehicles,
          tb_default_output_directory := dir, tb_train_selector := selected_index\<rparr>))"

text \<open>Another index of the selector selects the train; the index it already has raises no signal.\<close>

definition change_selector :: "QtText \<Rightarrow> int \<Rightarrow> TrainBuilderPanel \<Rightarrow> TrainBuilderPanel" where
  "change_selector qt index panel =
    (if index = tb_train_selector panel then panel else selectTrain qt index (panel\<lparr>tb_train_selector := index\<rparr>))"

definition newTrain :: "QtText \<Rightarrow> TrainBuilderPanel \<Rightarrow> TrainBuilderPanel" where
  "newTrain qt panel = change_selector qt 0 panel"

definition removeSelected :: "int \<Rightarrow> TrainBuilderPanel \<Rightarrow> TrainBuilderPanel" where
  "removeSelected row panel = panel\<lparr>tb_model := snd (removeVehicle row (tb_model panel))\<rparr>"

definition updateActionState :: "QtText \<Rightarrow> bool \<Rightarrow> TrainBuilderPanel \<Rightarrow> bool \<times> bool \<times> bool" where
  "updateActionState qt row_selected panel =
    (let has_rows = (tb_model panel \<noteq> []); has_pid = (qt_trimmed qt (tb_pid_field panel) \<noteq> []);
         data_complete = (tb_missing_vehicle_count panel = 0)
     in (row_selected, has_rows \<and> has_pid \<and> data_complete, has_rows \<and> has_pid \<and> data_complete))"

definition parsedCarrierUid :: "QtText \<Rightarrow> string \<Rightarrow> panel_error + UID option" where
  "parsedCarrierUid qt field =
    (let text = qt_trimmed qt field
     in if text = [] then Inr None
        else case qt_to_ulonglong qt text of
               Some v \<Rightarrow> if v = 0 then Inl InvalidCarrierUid else Inr (Some v)
             | None \<Rightarrow> Inl InvalidCarrierUid)"

definition train_request ::
    "QtText \<Rightarrow> TrainModel \<Rightarrow> path \<Rightarrow> string \<Rightarrow> string \<Rightarrow> string \<Rightarrow> UID \<Rightarrow> bool \<Rightarrow> UID option \<Rightarrow> TrainSaveRequest" where
  "train_request qt m p pid display_name category uid preserve carrier_id =
     \<lparr>tsr_file = p, tsr_preserve_existing_fields = preserve, tsr_uid = uid, tsr_pid = qt_trimmed qt pid,
      tsr_display_name = qt_trimmed qt display_name, tsr_train_category = qt_upper qt category,
      tsr_carrier_id = carrier_id, tsr_vehicle_uids = map tv_uid m\<rparr>"

definition saveTrainTo ::
    "'j Json \<Rightarrow> 'j JsonEdit \<Rightarrow> ('j, 't) JsonText \<Rightarrow> QtText \<Rightarrow> TrainModel \<Rightarrow> path \<Rightarrow> string \<Rightarrow> string \<Rightarrow> string \<Rightarrow> u16 \<Rightarrow>
      UID option \<Rightarrow> UID option \<Rightarrow> UidRegistry \<times> 't Disk \<Rightarrow> (UidRegistry \<times> 't Disk) \<times> (panel_error + UID)" where
  "saveTrainTo js je jt qt m p pid display_name category first_instance existing_uid carrier_id st =
    (let (reg, disk) = st in
     if m = [] then (st, Inl EmptyConsist)
     else if qt_trimmed qt pid = [] then (st, Inl TrainNumberRequired)
     else
       case (case existing_uid of
               Some u \<Rightarrow> Inr u
             | None \<Rightarrow> map_error GeneratorError (generate reg ROLLING_STOCK TRAIN_CONSIST 0 first_instance)) of
         Inl e \<Rightarrow> (st, Inl e)
       | Inr uid \<Rightarrow>
           (let (disk', res) = saveTrain js je jt
                  (train_request qt m p pid display_name category uid (existing_uid \<noteq> None) carrier_id) disk
            in case res of
                 Inl e \<Rightarrow> ((reg, disk'), Inl (SaveError e))
               | Inr _ \<Rightarrow> ((if existing_uid = None then snd (registry_insert uid p reg) else reg, disk'), Inr uid)))"

datatype save_outcome = Saved UID path | Cancelled | Refused panel_error

text \<open>\<open>chosen\<close> is the file picked in the dialog, \<open>None\<close> when it was closed.\<close>

definition saveCurrent ::
    "'j Json \<Rightarrow> 'j JsonEdit \<Rightarrow> ('j, 't) JsonText \<Rightarrow> QtText \<Rightarrow> bool \<Rightarrow> path option \<Rightarrow> TrainBuilderPanel \<Rightarrow>
      UidRegistry \<times> 't Disk \<Rightarrow> (UidRegistry \<times> 't Disk) \<times> save_outcome" where
  "saveCurrent js je jt qt save_as chosen panel st =
    (if tb_missing_vehicle_count panel > 0 then (st, Refused MissingVehicles)
     else case parsedCarrierUid qt (tb_carrier_uid_field panel) of
       Inl e \<Rightarrow> (st, Refused e)
     | Inr carrier_id \<Rightarrow>
         (let current = (if save_as then None
                         else map_option (\<lambda>i. tb_trains panel ! i) (tb_current_train_index panel));
              target = (case current of Some train \<Rightarrow> Some (tt_source_file train) | None \<Rightarrow> chosen)
          in case target of
               None \<Rightarrow> (st, Cancelled)
             | Some p \<Rightarrow>
                 (let (st', res) = saveTrainTo js je jt qt (tb_model panel) p (tb_pid_field panel)
                        (tb_display_name_field panel) (tb_category_field panel) 1 (map_option tt_uid current) carrier_id st
                  in (st', case res of Inl e \<Rightarrow> Refused e | Inr uid \<Rightarrow> Saved uid p))))"

section \<open>The vehicle dialog\<close>

record VehicleEditDialog =
  vd_type :: ToolVehicleType
  vd_original_vehicle :: "ToolVehicle option"
  vd_default_output_directory :: path
  vd_proposed_uid :: UID
  vd_side_number_field :: string
  vd_display_name_field :: string
  vd_carrier_uid_field :: string
  vd_inventory_number_field :: string
  vd_notes_field :: string
  vd_save_enabled :: bool
  vd_saved_file :: path

definition is_directory_char :: "char \<Rightarrow> bool" where
  "is_directory_char c \<longleftrightarrow>
     (CHR ''0'' \<le> c \<and> c \<le> CHR ''9'') \<or> (CHR ''A'' \<le> c \<and> c \<le> CHR ''Z'') \<or> (CHR ''a'' \<le> c \<and> c \<le> CHR ''z'') \<or>
     c = CHR ''-'' \<or> c = CHR ''_''"

definition safeDirectoryName :: "QtText \<Rightarrow> string \<Rightarrow> string" where
  "safeDirectoryName qt v = map (\<lambda>c. if is_directory_char c then c else CHR ''_'') (qt_lower qt (qt_trimmed qt v))"

definition dialog_optionalString :: "QtText \<Rightarrow> string \<Rightarrow> string option" where
  "dialog_optionalString qt v = (if qt_trimmed qt v = [] then None else Some (qt_trimmed qt v))"

definition proposedUidIsAvailable :: "UidRegistry \<Rightarrow> VehicleEditDialog \<Rightarrow> bool" where
  "proposedUidIsAvailable reg d \<longleftrightarrow>
    (if map_option tv_uid (vd_original_vehicle d) = Some (vd_proposed_uid d) then True else isAvailable reg (vd_proposed_uid d))"

definition propose_uid :: "UidRegistry \<Rightarrow> VehicleEditDialog \<Rightarrow> generator_error + VehicleEditDialog" where
  "propose_uid reg d =
    (if proposedUidIsAvailable reg d then Inr d
     else map_sum id (\<lambda>u. d\<lparr>vd_proposed_uid := u\<rparr>)
       (generate reg ROLLING_STOCK VEHICLE (uid_scope (tvt_uid (vd_type d))) (uid_instance (vd_proposed_uid d))))"

text \<open>
  The constructor calls it while the texts are still empty, and every change of the side number or of the
  display name calls it again.  The generator can also fail with an invalid instance; that exception passes.
\<close>

definition updateSaveState :: "QtText \<Rightarrow> UidRegistry \<Rightarrow> VehicleEditDialog \<Rightarrow> generator_error + VehicleEditDialog" where
  "updateSaveState qt reg d =
    (case propose_uid reg d of
       Inl UidExhausted \<Rightarrow> Inr (d\<lparr>vd_save_enabled := False\<rparr>)
     | Inl e \<Rightarrow> Inl e
     | Inr d' \<Rightarrow> Inr (d'\<lparr>vd_save_enabled := (qt_trimmed qt (vd_side_number_field d') \<noteq> [])\<rparr>))"

definition blank_dialog :: "ToolVehicleType \<Rightarrow> ToolVehicle option \<Rightarrow> path \<Rightarrow> UID \<Rightarrow> VehicleEditDialog" where
  "blank_dialog type original dir uid =
     \<lparr>vd_type = type, vd_original_vehicle = original, vd_default_output_directory = dir, vd_proposed_uid = uid,
      vd_side_number_field = [], vd_display_name_field = [], vd_carrier_uid_field = [], vd_inventory_number_field = [],
      vd_notes_field = [], vd_save_enabled = False, vd_saved_file = []\<rparr>"

definition new_vehicle_dialog ::
    "QtText \<Rightarrow> UidRegistry \<Rightarrow> ToolVehicleType \<Rightarrow> path \<Rightarrow> generator_error + VehicleEditDialog" where
  "new_vehicle_dialog qt reg type dir =
     and_then (generate reg ROLLING_STOCK VEHICLE (uid_scope (tvt_uid type)) 1) (\<lambda>uid.
       updateSaveState qt reg (blank_dialog type None dir uid))"

definition edit_vehicle_dialog ::
    "QtText \<Rightarrow> UidRegistry \<Rightarrow> ToolVehicle \<Rightarrow> ToolVehicleType \<Rightarrow> generator_error + VehicleEditDialog" where
  "edit_vehicle_dialog qt reg v type =
     updateSaveState qt reg ((blank_dialog type (Some v) (butlast (tv_source_file v)) (tv_uid v))
       \<lparr>vd_side_number_field := tv_pid v, vd_display_name_field := tv_display_name v,
        vd_carrier_uid_field := (case tv_carrier_id v of Some c \<Rightarrow> qt_number qt c | None \<Rightarrow> []),
        vd_inventory_number_field := (case tv_inventory_number v of Some i \<Rightarrow> i | None \<Rightarrow> []),
        vd_notes_field := (case tv_notes v of Some n \<Rightarrow> n | None \<Rightarrow> [])\<rparr>)"

text \<open>The number of the carrier is read from the text as it stands, not from the trimmed one.\<close>

definition dialog_carrier :: "QtText \<Rightarrow> string \<Rightarrow> panel_error + UID option" where
  "dialog_carrier qt field =
    (if qt_trimmed qt field = [] then Inr None
     else case qt_to_ulonglong qt field of
            Some v \<Rightarrow> if v = 0 then Inl InvalidCarrierUid else Inr (Some v)
          | None \<Rightarrow> Inl InvalidCarrierUid)"

definition vehicle_request :: "QtText \<Rightarrow> VehicleEditDialog \<Rightarrow> path \<Rightarrow> UID option \<Rightarrow> VehicleSaveRequest" where
  "vehicle_request qt d p carrier =
    (let side_number = qt_trimmed qt (vd_side_number_field d); name = qt_trimmed qt (vd_display_name_field d)
     in \<lparr>vsr_file = p, vsr_preserve_existing_fields = (vd_original_vehicle d \<noteq> None), vsr_uid = vd_proposed_uid d,
         vsr_type_uid = tvt_uid (vd_type d), vsr_pid = side_number,
         vsr_display_name = (if name = [] then side_number else name), vsr_carrier_id = carrier,
         vsr_inventory_number = dialog_optionalString qt (vd_inventory_number_field d),
         vsr_notes = dialog_optionalString qt (vd_notes_field d)\<rparr>)"

definition saveToFile ::
    "'j Json \<Rightarrow> 'j JsonEdit \<Rightarrow> ('j, 't) JsonText \<Rightarrow> QtText \<Rightarrow> path \<Rightarrow> VehicleEditDialog \<Rightarrow> UidRegistry \<times> 't Disk \<Rightarrow>
      VehicleEditDialog \<times> (UidRegistry \<times> 't Disk) \<times> (panel_error + path)" where
  "saveToFile js je jt qt p d st =
    (let (reg, disk) = st in
     if qt_trimmed qt (vd_side_number_field d) = [] then (d, st, Inl SideNumberRequired)
     else case propose_uid reg d of
       Inl e \<Rightarrow> (d, st, Inl (GeneratorError e))
     | Inr d1 \<Rightarrow>
         (case dialog_carrier qt (vd_carrier_uid_field d1) of
            Inl e \<Rightarrow> (d1, st, Inl e)
          | Inr carrier \<Rightarrow>
              (let (disk', res) = saveVehicle js je jt (vehicle_request qt d1 p carrier) disk
               in case res of
                    Inl e \<Rightarrow> (d1, (reg, disk'), Inl (SaveError e))
                  | Inr saved \<Rightarrow>
                      (d1\<lparr>vd_saved_file := saved\<rparr>,
                       (if vd_original_vehicle d1 = None then snd (registry_insert (vd_proposed_uid d1) saved reg) else reg,
                        disk'), Inr saved))))"

definition saveToDirectory ::
    "'j Json \<Rightarrow> 'j JsonEdit \<Rightarrow> ('j, 't) JsonText \<Rightarrow> QtText \<Rightarrow> path \<Rightarrow> VehicleEditDialog \<Rightarrow> UidRegistry \<times> 't Disk \<Rightarrow>
      VehicleEditDialog \<times> (UidRegistry \<times> 't Disk) \<times> (panel_error + path)" where
  "saveToDirectory js je jt qt directory d st =
     saveToFile js je jt qt (directory @ [safeDirectoryName qt (vd_side_number_field d), ''vehicle.json'']) d st"

definition setSideNumber ::
    "QtText \<Rightarrow> UidRegistry \<Rightarrow> string \<Rightarrow> VehicleEditDialog \<Rightarrow> generator_error + VehicleEditDialog" where
  "setSideNumber qt reg side_number d =
    (if side_number = vd_side_number_field d then Inr d
     else updateSaveState qt reg (d\<lparr>vd_side_number_field := side_number\<rparr>))"

text \<open>\<open>chosen\<close> is the directory picked for a new vehicle.\<close>

definition dialog_save ::
    "'j Json \<Rightarrow> 'j JsonEdit \<Rightarrow> ('j, 't) JsonText \<Rightarrow> QtText \<Rightarrow> path option \<Rightarrow> VehicleEditDialog \<Rightarrow> UidRegistry \<times> 't Disk \<Rightarrow>
      VehicleEditDialog \<times> (UidRegistry \<times> 't Disk) \<times> save_outcome" where
  "dialog_save js je jt qt chosen d st =
    (let target = (case vd_original_vehicle d of
           Some v \<Rightarrow> Some (tv_source_file v)
         | None \<Rightarrow> map_option (\<lambda>dir. dir @ [safeDirectoryName qt (vd_side_number_field d), ''vehicle.json'']) chosen)
     in case target of
          None \<Rightarrow> (d, st, Cancelled)
        | Some p \<Rightarrow>
            (let (d', st', res) = saveToFile js je jt qt p d st
             in (d', st', case res of Inl e \<Rightarrow> Refused e | Inr saved \<Rightarrow> Saved (vd_proposed_uid d') saved)))"

section \<open>The main window\<close>

record MainWindow =
  mw_data :: BrowserDataSet
  mw_vehicle_type_model :: VehicleTypeModel
  mw_vehicle_model :: VehicleModel
  mw_train_builder :: TrainBuilderPanel
  mw_registry :: UidRegistry
  mw_active_source_root :: path
  mw_packages_mode :: bool

definition applyData :: "QtText \<Rightarrow> BrowserDataSet \<Rightarrow> MainWindow \<Rightarrow> MainWindow" where
  "applyData qt data w =
     w\<lparr>mw_data := data, mw_vehicle_type_model := setVehicleTypes (bd_vehicle_types data) (mw_vehicle_type_model w),
       mw_vehicle_model := setVehicles (bd_vehicles data) (mw_vehicle_model w),
       mw_train_builder := setAvailableData qt (bd_trains data) (bd_vehicles data)
         (mw_active_source_root w @ [''trains'']) (mw_train_builder w)\<rparr>"

definition addSelectedVehicleToTrain :: "UID \<Rightarrow> MainWindow \<Rightarrow> MainWindow" where
  "addSelectedVehicleToTrain vehicle_uid w =
    (case findVehicle (bd_vehicles (mw_data w)) vehicle_uid of
       Some v \<Rightarrow> w\<lparr>mw_train_builder := (mw_train_builder w)\<lparr>tb_model := appendVehicle v (tb_model (mw_train_builder w))\<rparr>\<rparr>
     | None \<Rightarrow> w)"

definition window_loadPackages :: "QtText \<Rightarrow> 'j Json \<Rightarrow> 'j ToolFs \<Rightarrow> path \<Rightarrow> MainWindow \<Rightarrow> MainWindow" where
  "window_loadPackages qt js tfs current_path w =
    (let root = current_path @ [''packages'']; w = w\<lparr>mw_packages_mode := True, mw_active_source_root := root\<rparr>
     in case loadPackages js tfs root of
          Inr (data, reg) \<Rightarrow> applyData qt data (w\<lparr>mw_registry := reg\<rparr>)
        | Inl _ \<Rightarrow> w)"

definition window_loadDirectory :: "QtText \<Rightarrow> 'j Json \<Rightarrow> 'j ToolFs \<Rightarrow> path \<Rightarrow> MainWindow \<Rightarrow> MainWindow" where
  "window_loadDirectory qt js tfs directory w =
    (let w = w\<lparr>mw_packages_mode := False, mw_active_source_root := directory\<rparr>
     in case loadDirectory js tfs directory of
          Inr (data, reg) \<Rightarrow> applyData qt data (w\<lparr>mw_registry := reg\<rparr>)
        | Inl _ \<Rightarrow> w)"

definition reloadActiveSource :: "QtText \<Rightarrow> 'j Json \<Rightarrow> 'j ToolFs \<Rightarrow> path \<Rightarrow> MainWindow \<Rightarrow> MainWindow" where
  "reloadActiveSource qt js tfs current_path w =
    (if mw_packages_mode w then window_loadPackages qt js tfs current_path w
     else window_loadDirectory qt js tfs (mw_active_source_root w) w)"

end
