(* ===== verification/Fleet_Editor_Properties.thy ===== *)
theory Fleet_Editor_Properties
  imports Fleet_Editor "HOL-Library.AList"
begin

text \<open>
  What the fleet editors may rely on: a train or a vehicle that was saved is read back as it was entered,
  the members of a document the editor does not know survive, a save that fails leaves the disk alone, and
  the UIDs of everything that was loaded are taken.  \<open>edit_laws\<close> states the documented behaviour of
  the JSON library that saving relies on; \<open>json_tree_edit\<close> is an instance of it.
\<close>

section \<open>Laws\<close>

text \<open>
  \<open>plain\<close> marks the documents that are made of what was parsed and of the values the editor sets.
  Printing and parsing such a document gives the same document; it need not for a document with, say, a
  number that is not finite.
\<close>

definition edit_laws :: "('j \<Rightarrow> bool) \<Rightarrow> 'j Json \<Rightarrow> 'j JsonEdit \<Rightarrow> ('j, 't) JsonText \<Rightarrow> bool" where
  "edit_laws plain js je jt \<longleftrightarrow> json_laws js \<and>
     j_is_object js (je_object je) \<and> (\<forall>k. \<not> j_contains js (je_object je) k) \<and> plain (je_object je) \<and>
     (\<forall>k v d. j_is_object js d \<longrightarrow> j_is_object js (je_set je k v d) \<and>
        (\<forall>k'. j_at js (je_set je k v d) k' = (if k' = k then Inr v else j_at js d k')) \<and>
        (plain v \<and> plain d \<longrightarrow> plain (je_set je k v d))) \<and>
     (\<forall>k d. j_is_object js d \<longrightarrow> j_is_object js (je_erase je k d) \<and> \<not> j_contains js (je_erase je k d) k \<and>
        (\<forall>k'. k' \<noteq> k \<longrightarrow> j_at js (je_erase je k d) k' = j_at js d k') \<and> (plain d \<longrightarrow> plain (je_erase je k d))) \<and>
     (\<forall>s. j_is_string js (je_string je s) \<and> j_get_string js (je_string je s) = Inr s \<and>
        \<not> j_is_null js (je_string je s) \<and> plain (je_string je s)) \<and>
     (\<forall>u. j_is_number_unsigned js (je_unsigned je u) \<and> j_get_u64 js (je_unsigned je u) = Inr u \<and>
        \<not> j_is_null js (je_unsigned je u) \<and> plain (je_unsigned je u)) \<and>
     (\<forall>vs. j_is_array js (je_array je vs) \<and> j_elements js (je_array je vs) = vs \<and>
        (list_all plain vs \<longrightarrow> plain (je_array je vs))) \<and>
     (\<forall>t d. jt_parse jt t = Inr d \<longrightarrow> plain d) \<and>
     (\<forall>d t. plain d \<longrightarrow> jt_dump jt d = Inr t \<longrightarrow> jt_parse jt t = Inr d)"

lemma edit_lawsD:
  assumes "edit_laws plain js je jt"
  shows edit_json: "json_laws js"
    and edit_object: "j_is_object js (je_object je)" "plain (je_object je)" "\<not> j_contains js (je_object je) k"
    and edit_set: "j_is_object js d \<Longrightarrow> j_is_object js (je_set je k v d)"
      "j_is_object js d \<Longrightarrow> j_at js (je_set je k v d) k' = (if k' = k then Inr v else j_at js d k')"
      "j_is_object js d \<Longrightarrow> plain v \<Longrightarrow> plain d \<Longrightarrow> plain (je_set je k v d)"
    and edit_erase: "j_is_object js d \<Longrightarrow> j_is_object js (je_erase je k d)"
      "j_is_object js d \<Longrightarrow> \<not> j_contains js (je_erase je k d) k"
      "j_is_object js d \<Longrightarrow> k' \<noteq> k \<Longrightarrow> j_at js (je_erase je k d) k' = j_at js d k'"
      "j_is_object js d \<Longrightarrow> plain d \<Longrightarrow> plain (je_erase je k d)"
    and edit_string: "j_is_string js (je_string je s)" "j_get_string js (je_string je s) = Inr s"
      "\<not> j_is_null js (je_string je s)" "plain (je_string je s)"
    and edit_unsigned: "j_is_number_unsigned js (je_unsigned je u)" "j_get_u64 js (je_unsigned je u) = Inr u"
      "\<not> j_is_null js (je_unsigned je u)" "plain (je_unsigned je u)"
    and edit_array: "j_is_array js (je_array je vs)" "j_elements js (je_array je vs) = vs"
      "list_all plain vs \<Longrightarrow> plain (je_array je vs)"
    and edit_text: "jt_parse jt t = Inr d \<Longrightarrow> plain d"
      "plain d \<Longrightarrow> jt_dump jt d = Inr t \<Longrightarrow> jt_parse jt t = Inr d"
  using assms unfolding edit_laws_def by metis+

lemma contains_at: "json_laws js \<Longrightarrow> j_contains js d k \<longleftrightarrow> (\<exists>v. j_at js d k = Inr v)"
  by (auto dest: json_lawsD)

text \<open>Trees\<close>

definition tree_erase :: "string \<Rightarrow> JsonTree \<Rightarrow> JsonTree" where
  "tree_erase k d = (case d of JsObject ms \<Rightarrow> JsObject (filter (\<lambda>m. fst m \<noteq> k) ms) | _ \<Rightarrow> d)"

definition tree_set :: "string \<Rightarrow> JsonTree \<Rightarrow> JsonTree \<Rightarrow> JsonTree" where
  "tree_set k v d = (case d of JsObject ms \<Rightarrow> JsObject (AList.update k v ms) | _ \<Rightarrow> JsObject [(k, v)])"

definition json_tree_edit :: "JsonTree JsonEdit" where
  "json_tree_edit = \<lparr>je_object = JsObject [], je_set = tree_set, je_erase = tree_erase, je_string = JsString,
     je_unsigned = JsUnsigned, je_array = JsArray\<rparr>"

definition json_tree_text :: "(JsonTree, JsonTree) JsonText" where
  "json_tree_text = \<lparr>jt_dump = Inr, jt_parse = Inr, jt_empty = JsNull\<rparr>"

lemma map_of_filter_key: "k' \<noteq> k \<Longrightarrow> map_of (filter (\<lambda>m. fst m \<noteq> k) ms) k' = map_of ms k'"
  by (induction ms) auto

lemma map_of_filter_same: "map_of (filter (\<lambda>m. fst m \<noteq> k) ms) k = None"
  by (induction ms) auto

lemma json_tree_edit_laws: "edit_laws (\<lambda>_. True) json_tree json_tree_edit json_tree_text"
  unfolding edit_laws_def
  by (intro conjI allI impI json_tree_laws)
    (auto simp: json_tree_def json_tree_edit_def json_tree_text_def tree_set_def tree_erase_def update_conv'
      map_of_filter_key map_of_filter_same split: JsonTree.splits option.splits)


section \<open>Reading what was written\<close>

lemma has_member_at:
  assumes "json_laws js"
  shows "has_member js p d k \<longleftrightarrow> (\<exists>v. j_at js d k = Inr v \<and> p v)"
  using assms by (auto simp: has_member_def contains_at split: sum.splits)

lemma absent_at:
  assumes "json_laws js"
  shows "member_absent js d k \<longleftrightarrow> (\<forall>v. j_at js d k = Inr v \<longrightarrow> j_is_null js v)"
  using assms by (auto simp: member_absent_def has_member_at contains_at)

text \<open>A field reader looks at nothing but the member it names.\<close>

lemma readers_cong:
  assumes "json_laws js" and "j_at js d' k = j_at js d k"
  shows "optional_with js ok get what p d' k = optional_with js ok get what p d k"
    and "require_with js ok get what p d' k = require_with js ok get what p d k"
    and "optionalInt js p d' k = optionalInt js p d k"
    and "optionalUid js p d' k = optionalUid js p d k"
proof -
  have "has_member js q d' k = has_member js q d k" for q using assms by (simp add: has_member_at)
  moreover have "member_absent js d' k = member_absent js d k" using assms by (simp add: absent_at)
  ultimately show "optional_with js ok get what p d' k = optional_with js ok get what p d k"
    "require_with js ok get what p d' k = require_with js ok get what p d k"
    "optionalInt js p d' k = optionalInt js p d k" "optionalUid js p d' k = optionalUid js p d k"
    using assms(2)
    by (simp_all add: optional_with_def require_with_def optionalInt_def optionalUid_def requireInt_def requireUid_def
        tool_get_def)
qed

lemma readers_absent:
  assumes "member_absent js d k"
  shows "optional_with js ok get what p d k = Inr None" "optionalInt js p d k = Inr None" "optionalUid js p d k = Inr None"
  using assms by (simp_all add: optional_with_def optionalInt_def optionalUid_def)

lemma read_uid_at:
  assumes "json_laws js" and "j_at js d k = Inr v" and "j_is_number_unsigned js v" and "j_get_u64 js v = Inr u"
    and "json_safe_uid u"
  shows "requireUid js p d k = Inr u"
  using assms by (simp add: requireUid_def require_with_def has_member_at tool_get_def)

lemma read_string_at:
  assumes "json_laws js" and "j_at js d k = Inr v" and "j_is_string js v" and "j_get_string js v = Inr s"
  shows "requireString js p d k = Inr s"
  using assms by (simp add: requireString_def require_with_def has_member_at tool_get_def)

lemma persistable: "ensurePersistableUid u label = Inr () \<longleftrightarrow> json_safe_uid u"
  by (simp add: ensurePersistableUid_def)

lemma nonempty_label: "ensureNonEmpty s label = Inr () \<longleftrightarrow> s \<noteq> []"
  by (simp add: ensureNonEmpty_def)

lemma set_unsigned_reads:
  assumes "edit_laws plain js je jt" and "j_is_object js d" and "json_safe_uid u"
  shows "requireUid js p (je_set je k (je_unsigned je u) d) k = Inr u"
  using assms by (intro read_uid_at) (auto simp: edit_json edit_set edit_unsigned)

lemma set_string_reads:
  assumes "edit_laws plain js je jt" and "j_is_object js d"
  shows "requireString js p (je_set je k (je_string je s) d) k = Inr s"
  using assms by (intro read_string_at) (auto simp: edit_json edit_set edit_string)

lemma optional_uid_reads:
  assumes laws: "edit_laws plain js je jt" and d: "j_is_object js d" and set: "setOptionalUid je k c d = Inr d'"
  shows "optionalUid js p d' k = Inr c" and "j_is_object js d'" and "plain d \<Longrightarrow> plain d'"
    and "k' \<noteq> k \<Longrightarrow> j_at js d' k' = j_at js d k'"
proof -
  have js: "json_laws js" using laws by (rule edit_json)
  have "optionalUid js p d' k = Inr c \<and> j_is_object js d' \<and> (plain d \<longrightarrow> plain d') \<and> (k' \<noteq> k \<longrightarrow> j_at js d' k' = j_at js d k')"
  proof (cases c)
    case None
    then have d': "d' = je_erase je k d" using set by (simp add: setOptionalUid_def)
    have "member_absent js d' k" using edit_erase(2) [OF laws d] by (simp add: member_absent_def d')
    then show ?thesis using None d laws by (auto simp: readers_absent d' edit_erase)
  next
    case (Some u)
    then have d': "d' = je_set je k (je_unsigned je u) d" "json_safe_uid u"
      using set by (auto simp: setOptionalUid_def and_then_Inr persistable)
    then have "requireUid js p d' k = Inr u" using set_unsigned_reads [OF laws d] by simp
    moreover have "\<not> member_absent js d' k" using laws d by (simp add: absent_at [OF js] d' edit_set edit_unsigned)
    ultimately show ?thesis using Some d laws by (auto simp: optionalUid_def d' edit_set edit_unsigned)
  qed
  then show "optionalUid js p d' k = Inr c" "j_is_object js d'" "plain d \<Longrightarrow> plain d'"
    "k' \<noteq> k \<Longrightarrow> j_at js d' k' = j_at js d k'" by blast+
qed

definition entered_string :: "string option \<Rightarrow> string option" where
  "entered_string s = (if s = Some [] then None else s)"

lemma optional_string_reads:
  assumes laws: "edit_laws plain js je jt" and d: "j_is_object js d" and set: "d' = setOptionalString je k s d"
  shows "optionalString js p d' k = Inr (entered_string s)" and "j_is_object js d'" and "plain d \<Longrightarrow> plain d'"
    and "k' \<noteq> k \<Longrightarrow> j_at js d' k' = j_at js d k'"
proof -
  have js: "json_laws js" using laws by (rule edit_json)
  have "optionalString js p d' k = Inr (entered_string s) \<and> j_is_object js d' \<and> (plain d \<longrightarrow> plain d') \<and>
    (k' \<noteq> k \<longrightarrow> j_at js d' k' = j_at js d k')"
  proof (cases "entered_string s")
    case None
    then have d': "d' = je_erase je k d"
      by (auto simp: set setOptionalString_def entered_string_def split: option.splits if_splits)
    have "member_absent js d' k" using edit_erase(2) [OF laws d] by (simp add: member_absent_def d')
    then show ?thesis using None d laws by (auto simp: optionalString_def readers_absent d' edit_erase)
  next
    case (Some v)
    then have d': "d' = je_set je k (je_string je v) d"
      by (auto simp: set setOptionalString_def entered_string_def split: option.splits if_splits)
    have "\<not> member_absent js d' k" using laws d by (simp add: absent_at [OF js] d' edit_set edit_string)
    then show ?thesis using Some d laws
      by (auto simp: optionalString_def optional_with_def has_member_at [OF js] tool_get_def d' edit_set edit_string)
  qed
  then show "optionalString js p d' k = Inr (entered_string s)" "j_is_object js d'" "plain d \<Longrightarrow> plain d'"
    "k' \<noteq> k \<Longrightarrow> j_at js d' k' = j_at js d k'" by blast+
qed


section \<open>The disk\<close>

lemma base_document:
  assumes "edit_laws plain js je jt" and "loadBaseDocument js je (disk_files jt disk) file preserve = Inr d"
  shows "j_is_object js d" "plain d"
  using assms
  by (auto simp: loadBaseDocument_def disk_files_def edit_object split: if_splits sum.splits option.splits dest: edit_text(1))

lemma base_document_kept:
  assumes "parseJsonFile js (disk_files jt disk) p = Inr old"
  shows "loadBaseDocument js je (disk_files jt disk) p preserve = Inr (if preserve then old else je_object je)"
  using assms by (auto simp: loadBaseDocument_def parseJsonFile_def disk_files_def split: if_splits sum.splits option.splits)

lemma base_document_new:
  assumes "loadBaseDocument js je (disk_files jt disk) file preserve = Inr d"
    and "\<not> preserve \<or> um_find (dk_files disk) file = None"
  shows "d = je_object je"
  using assms by (auto simp: loadBaseDocument_def disk_files_def split: if_splits sum.splits option.splits)

lemma document_written:
  assumes laws: "edit_laws plain js je jt" and "plain doc"
    and "writeDocument jt file doc label disk = (disk', Inr ())"
  shows "\<exists>t. um_find (dk_files disk') file = Some t \<and> jt_parse jt t = Inr doc"
    and "q \<noteq> file \<Longrightarrow> um_find (dk_files disk') q = um_find (dk_files disk) q"
    and "dk_unreadable disk' = dk_unreadable disk"
  using assms by (auto simp: writeDocument_def um_find_assign split: if_splits sum.splits dest: edit_text(2) [OF laws])

lemma written_file_parses:
  assumes "um_find (dk_files disk) file = Some t" and "jt_parse jt t = Inr doc" and "j_is_object js doc"
    and "\<not> dk_unreadable disk file"
  shows "parseJsonFile js (disk_files jt disk) file = Inr doc"
  using assms by (simp add: parseJsonFile_def disk_files_def)

text \<open>A save that fails leaves the disk as it was, unless the document cannot be printed.\<close>

lemma write_error:
  assumes "writeDocument jt file doc label disk = (disk', Inl e)"
  shows "disk' = disk \<or> (\<exists>what. e = SaveJsonException what \<and> um_find (dk_files disk') file = Some (jt_empty jt))"
  using assms by (auto simp: writeDocument_def um_find_assign split: if_splits sum.splits)

section \<open>Trains\<close>

lemma vehicle_items:
  assumes "map_result (\<lambda>u. and_then (ensurePersistableUid u l) (\<lambda>_. Inr (je_unsigned je u))) us = Inr items"
  shows "items = map (je_unsigned je) us" "list_all json_safe_uid us"
  using assms by (induction us arbitrary: items) (auto simp: and_then_Inr persistable)

lemma vehicle_uids_read:
  assumes "edit_laws plain js je jt" and "list_all json_safe_uid us"
  shows "map_result (parse_vehicle_uid js p) (enumerate n (map (je_unsigned je) us)) = Inr us"
  using assms(2) by (induction us arbitrary: n) (auto simp: parse_vehicle_uid_def edit_unsigned [OF assms(1)])

definition entered_name :: "string \<Rightarrow> string \<Rightarrow> string" where
  "entered_name pid name = (if name = [] then pid else name)"

definition saved_train :: "TrainSaveRequest \<Rightarrow> ToolTrain" where
  "saved_train r = \<lparr>tt_uid = tsr_uid r, tt_pid = tsr_pid r,
     tt_display_name = entered_name (tsr_pid r) (tsr_display_name r),
     tt_train_category = tsr_train_category r, tt_carrier_id = tsr_carrier_id r,
     tt_vehicle_uids = tsr_vehicle_uids r, tt_source_file = tsr_file r\<rparr>"

definition train_members :: "string set" where
  "train_members = {''uid'', ''pID'', ''displayName'', ''trainCategory'', ''carrierId'', ''vehicle_uids''}"

text \<open>The members that are always set, before the carrier and the vehicles.\<close>

definition train_fields :: "'j JsonEdit \<Rightarrow> TrainSaveRequest \<Rightarrow> 'j \<Rightarrow> 'j" where
  "train_fields je r base =
     je_set je ''trainCategory'' (je_string je (tsr_train_category r))
       (je_set je ''displayName'' (je_string je (entered_name (tsr_pid r) (tsr_display_name r)))
         (je_set je ''pID'' (je_string je (tsr_pid r)) (je_set je ''uid'' (je_unsigned je (tsr_uid r)) base)))"

lemma train_document_Inr:
  assumes "train_document js je fs r = Inr doc"
  obtains base d where "loadBaseDocument js je fs (tsr_file r) (tsr_preserve_existing_fields r) = Inr base"
    "setOptionalUid je ''carrierId'' (tsr_carrier_id r) (train_fields je r base) = Inr d"
    "doc = je_set je ''vehicle_uids'' (je_array je (map (je_unsigned je) (tsr_vehicle_uids r))) d"
    "json_safe_uid (tsr_uid r)" "list_all json_safe_uid (tsr_vehicle_uids r)" "tsr_vehicle_uids r \<noteq> []"
  using assms unfolding train_document_def train_fields_def [symmetric] entered_name_def [symmetric] Let_def
  by (auto simp: and_then_Inr persistable split: if_splits dest: vehicle_items)

lemma train_fields_object:
  assumes "edit_laws plain js je jt" and "j_is_object js base"
  shows "j_is_object js (train_fields je r base)" and "plain base \<Longrightarrow> plain (train_fields je r base)"
  using assms(2)
  by (simp_all add: train_fields_def edit_set [OF assms(1)] edit_string [OF assms(1)] edit_unsigned [OF assms(1)])

lemma train_fields_at:
  assumes "edit_laws plain js je jt" and "j_is_object js base"
  shows "j_at js (train_fields je r base) ''uid'' = Inr (je_unsigned je (tsr_uid r))"
    "j_at js (train_fields je r base) ''pID'' = Inr (je_string je (tsr_pid r))"
    "j_at js (train_fields je r base) ''displayName'' =
       Inr (je_string je (entered_name (tsr_pid r) (tsr_display_name r)))"
    "j_at js (train_fields je r base) ''trainCategory'' = Inr (je_string je (tsr_train_category r))"
    "k \<notin> train_members \<Longrightarrow> j_at js (train_fields je r base) k = j_at js base k"
proof -
  note set = edit_set(1,2) [OF assms(1)]
  show "j_at js (train_fields je r base) ''uid'' = Inr (je_unsigned je (tsr_uid r))"
    "j_at js (train_fields je r base) ''pID'' = Inr (je_string je (tsr_pid r))"
    "j_at js (train_fields je r base) ''displayName'' =
       Inr (je_string je (entered_name (tsr_pid r) (tsr_display_name r)))"
    "j_at js (train_fields je r base) ''trainCategory'' = Inr (je_string je (tsr_train_category r))"
    unfolding train_fields_def by (simp_all add: set assms(2))
  assume "k \<notin> train_members"
  then have "k \<noteq> ''trainCategory''" "k \<noteq> ''displayName''" "k \<noteq> ''pID''" "k \<noteq> ''uid''" by (auto simp: train_members_def)
  then show "j_at js (train_fields je r base) k = j_at js base k" unfolding train_fields_def by (simp only: set assms(2) if_False)
qed

lemma train_document_reads:
  assumes laws: "edit_laws plain js je jt" and doc: "train_document js je (disk_files jt disk) r = Inr doc"
  shows "\<exists>base. loadBaseDocument js je (disk_files jt disk) (tsr_file r) (tsr_preserve_existing_fields r) = Inr base \<and>
    j_is_object js doc \<and> plain doc \<and> parseTrain js (tsr_file r) doc = Inr (saved_train r) \<and>
    (\<forall>k. k \<notin> train_members \<longrightarrow> j_at js doc k = j_at js base k)"
proof -
  have js: "json_laws js" using laws by (rule edit_json)
  let ?items = "map (je_unsigned je) (tsr_vehicle_uids r)"
  obtain base d where
    base: "loadBaseDocument js je (disk_files jt disk) (tsr_file r) (tsr_preserve_existing_fields r) = Inr base"
    and carrier: "setOptionalUid je ''carrierId'' (tsr_carrier_id r) (train_fields je r base) = Inr d"
    and doc': "doc = je_set je ''vehicle_uids'' (je_array je ?items) d"
    and safe: "json_safe_uid (tsr_uid r)" "list_all json_safe_uid (tsr_vehicle_uids r)"
    using doc by (rule train_document_Inr)
  note object = train_fields_object [OF laws base_document(1) [OF laws base], of r]
  note fields = train_fields_at [OF laws base_document(1) [OF laws base]]
  note d = optional_uid_reads [OF laws object(1) carrier]
  have at: "j_at js doc k = (if k = ''vehicle_uids'' then Inr (je_array je ?items) else j_at js d k)" for k
    using edit_set(2) [OF laws d(2)] by (simp add: doc')
  have strings: "requireString js p doc ''pID'' = Inr (tsr_pid r)"
    "requireString js p doc ''displayName'' = Inr (entered_name (tsr_pid r) (tsr_display_name r))"
    "requireString js p doc ''trainCategory'' = Inr (tsr_train_category r)" for p
    by (rule read_string_at [OF js _ edit_string(1,2) [OF laws]]; simp add: at d(4) fields)+
  have uid: "requireUid js p doc ''uid'' = Inr (tsr_uid r)" for p
    by (rule read_uid_at [OF js _ edit_unsigned(1,2) [OF laws] safe(1)]) (simp add: at d(4) fields)
  have "optionalUid js p doc ''carrierId'' = Inr (tsr_carrier_id r)" for p
    using readers_cong(4) [OF js, of doc "''carrierId''" d] d(1) by (simp add: at)
  then have "parseTrain js (tsr_file r) doc = Inr (saved_train r)"
    by (simp add: parseTrain_def uid strings has_member_at [OF js] tool_get_def at edit_array [OF laws] saved_train_def
        vehicle_uids_read [OF laws safe(2)])
  moreover have "j_at js doc k = j_at js base k" if "k \<notin> train_members" for k
    using that fields(5) [OF that] d(4) [of k] by (auto simp: at train_members_def)
  moreover have "plain (je_array je ?items)" by (rule edit_array(3) [OF laws]) (simp add: list_all_iff edit_unsigned [OF laws])
  then have "j_is_object js doc" "plain doc"
    using d(2,3) object(2) base_document(2) [OF laws base] by (auto simp: doc' edit_set [OF laws])
  ultimately show ?thesis using base by blast
qed


lemma saved_train_on_disk:
  assumes laws: "edit_laws plain js je jt" and saved: "saveTrain js je jt r disk = (disk', Inr uid)"
  shows "\<exists>base doc t. uid = tsr_uid r \<and>
    loadBaseDocument js je (disk_files jt disk) (tsr_file r) (tsr_preserve_existing_fields r) = Inr base \<and>
    train_document js je (disk_files jt disk) r = Inr doc \<and> j_is_object js doc \<and>
    um_find (dk_files disk') (tsr_file r) = Some t \<and> jt_parse jt t = Inr doc \<and>
    parseTrain js (tsr_file r) doc = Inr (saved_train r) \<and>
    (\<forall>k. k \<notin> train_members \<longrightarrow> j_at js doc k = j_at js base k)"
    and "q \<noteq> tsr_file r \<Longrightarrow> um_find (dk_files disk') q = um_find (dk_files disk) q"
    and "dk_unreadable disk' = dk_unreadable disk"
proof -
  obtain doc where doc: "train_document js je (disk_files jt disk) r = Inr doc"
    and w: "writeDocument jt (tsr_file r) doc ''train'' disk = (disk', Inr ())" and uid: "uid = tsr_uid r"
    using saved by (auto simp: saveTrain_def and_then_Inr split: sum.splits prod.splits)
  obtain base where base: "loadBaseDocument js je (disk_files jt disk) (tsr_file r) (tsr_preserve_existing_fields r) = Inr base"
    "j_is_object js doc" "plain doc" "parseTrain js (tsr_file r) doc = Inr (saved_train r)"
    "\<forall>k. k \<notin> train_members \<longrightarrow> j_at js doc k = j_at js base k"
    using train_document_reads [OF laws doc] by blast
  note written = document_written [OF laws base(3) w]
  show "\<exists>base doc t. uid = tsr_uid r \<and>
    loadBaseDocument js je (disk_files jt disk) (tsr_file r) (tsr_preserve_existing_fields r) = Inr base \<and>
    train_document js je (disk_files jt disk) r = Inr doc \<and> j_is_object js doc \<and>
    um_find (dk_files disk') (tsr_file r) = Some t \<and> jt_parse jt t = Inr doc \<and>
    parseTrain js (tsr_file r) doc = Inr (saved_train r) \<and>
    (\<forall>k. k \<notin> train_members \<longrightarrow> j_at js doc k = j_at js base k)"
    using uid base doc written(1) by blast
  show "q \<noteq> tsr_file r \<Longrightarrow> um_find (dk_files disk') q = um_find (dk_files disk) q"
    "dk_unreadable disk' = dk_unreadable disk" using written(2,3) by blast+
qed

text \<open>
  A train that was saved is read back with the number, name, category, carrier and vehicles that were
  entered, in their order; no other file changes, and when an existing file was edited, its members the
  editor does not know are kept.
\<close>

theorem saved_train_loads_back:
  assumes laws: "edit_laws plain js je jt" and saved: "saveTrain js je jt r disk = (disk', Inr uid)"
    and readable: "\<not> dk_unreadable disk (tsr_file r)"
  shows "uid = tsr_uid r \<and> loadTrain js (disk_files jt disk') (tsr_file r) = Inr (saved_train r) \<and>
    (\<forall>q. q \<noteq> tsr_file r \<longrightarrow> um_find (dk_files disk') q = um_find (dk_files disk) q) \<and>
    (\<forall>old. tsr_preserve_existing_fields r \<longrightarrow> parseJsonFile js (disk_files jt disk) (tsr_file r) = Inr old \<longrightarrow>
      (\<exists>doc. parseJsonFile js (disk_files jt disk') (tsr_file r) = Inr doc \<and>
        (\<forall>k. k \<notin> train_members \<longrightarrow> j_at js doc k = j_at js old k)))"
proof -
  obtain base doc t where uid: "uid = tsr_uid r"
    and base: "loadBaseDocument js je (disk_files jt disk) (tsr_file r) (tsr_preserve_existing_fields r) = Inr base"
    and doc: "j_is_object js doc" "um_find (dk_files disk') (tsr_file r) = Some t" "jt_parse jt t = Inr doc"
      "parseTrain js (tsr_file r) doc = Inr (saved_train r)" "\<forall>k. k \<notin> train_members \<longrightarrow> j_at js doc k = j_at js base k"
    using saved_train_on_disk(1) [OF laws saved] by blast
  have parsed: "parseJsonFile js (disk_files jt disk') (tsr_file r) = Inr doc"
    using written_file_parses [OF doc(2,3,1)] readable saved_train_on_disk(3) [OF laws saved] by simp
  have "base = old" if "tsr_preserve_existing_fields r" and "parseJsonFile js (disk_files jt disk) (tsr_file r) = Inr old" for old
    using base base_document_kept [OF that(2)] that(1) by simp
  then show ?thesis
    using uid parsed doc(4,5) saved_train_on_disk(2) [OF laws saved] by (auto simp: loadTrain_def)
qed

definition sample_train_request :: TrainSaveRequest where
  "sample_train_request = \<lparr>tsr_file = [''data'', ''trains'', ''t.json''], tsr_preserve_existing_fields = True,
     tsr_uid = 0x010300010001, tsr_pid = ''T1'', tsr_display_name = [], tsr_train_category = ''FREIGHT'',
     tsr_carrier_id = None, tsr_vehicle_uids = [0x010200010001]\<rparr>"

definition sample_disk :: "JsonTree Disk" where
  "sample_disk = \<lparr>dk_files = [([''data'', ''trains'', ''t.json''],
       JsObject [(''uid'', JsUnsigned 0x010300010001), (''maker'', JsString ''PaFaWag''), (''carrierId'', JsUnsigned 9)])],
     dk_unreadable = (\<lambda>_. False), dk_unwritable = (\<lambda>_. False), dk_no_directory = (\<lambda>_. False)\<rparr>"

lemma sample_train_saved:
  "\<exists>disk'. saveTrain json_tree json_tree_edit json_tree_text sample_train_request sample_disk = (disk', Inr 0x010300010001)"
  by (simp add: saveTrain_def train_document_def sample_train_request_def sample_disk_def ensurePersistableUid_def
      json_safe_uid_def uid_is_safe_json_integer_def UID_MAX_SAFE_JSON_INTEGER_def ensureNonEmpty_def loadBaseDocument_def
      disk_files_def um_find_Cons json_tree_def json_tree_text_def setOptionalUid_def writeDocument_def Let_def)

theorem saved_train_loads_back_witness:
  "\<exists>disk'. saveTrain json_tree json_tree_edit json_tree_text sample_train_request sample_disk = (disk', Inr 0x010300010001) \<and>
     loadTrain json_tree (disk_files json_tree_text disk') [''data'', ''trains'', ''t.json''] =
       Inr (saved_train sample_train_request)"
proof -
  obtain disk' where d: "saveTrain json_tree json_tree_edit json_tree_text sample_train_request sample_disk =
      (disk', Inr 0x010300010001)" using sample_train_saved by blast
  have "tsr_file sample_train_request = [''data'', ''trains'', ''t.json'']"
    "\<not> dk_unreadable sample_disk (tsr_file sample_train_request)"
    by (simp_all add: sample_disk_def sample_train_request_def)
  then show ?thesis using saved_train_loads_back [OF json_tree_edit_laws d] d by (intro exI [of _ disk']) simp
qed


section \<open>Vehicles\<close>

definition vehicle_members :: "string set" where
  "vehicle_members = {''uid'', ''type_uid'', ''pID'', ''displayName'', ''carrierId'', ''inventoryNumber'', ''notes''}"

definition edited_vehicle :: "VehicleSaveRequest \<Rightarrow> ToolVehicle \<Rightarrow> ToolVehicle" where
  "edited_vehicle r v = v\<lparr>tv_uid := vsr_uid r, tv_type_uid := vsr_type_uid r, tv_pid := vsr_pid r,
     tv_display_name := entered_name (vsr_pid r) (vsr_display_name r), tv_carrier_id := vsr_carrier_id r,
     tv_inventory_number := entered_string (vsr_inventory_number r), tv_notes := entered_string (vsr_notes r)\<rparr>"

definition vehicle_fields :: "'j JsonEdit \<Rightarrow> VehicleSaveRequest \<Rightarrow> 'j \<Rightarrow> 'j" where
  "vehicle_fields je r base =
     je_set je ''displayName'' (je_string je (entered_name (vsr_pid r) (vsr_display_name r)))
       (je_set je ''pID'' (je_string je (vsr_pid r))
         (je_set je ''type_uid'' (je_unsigned je (vsr_type_uid r)) (je_set je ''uid'' (je_unsigned je (vsr_uid r)) base)))"

lemma vehicle_document_Inr:
  assumes "vehicle_document js je fs r = Inr doc"
  obtains base d where "loadBaseDocument js je fs (vsr_file r) (vsr_preserve_existing_fields r) = Inr base"
    "setOptionalUid je ''carrierId'' (vsr_carrier_id r) (vehicle_fields je r base) = Inr d"
    "doc = setOptionalString je ''notes'' (vsr_notes r) (setOptionalString je ''inventoryNumber'' (vsr_inventory_number r) d)"
    "json_safe_uid (vsr_uid r)" "json_safe_uid (vsr_type_uid r)"
  using assms unfolding vehicle_document_def vehicle_fields_def [symmetric] entered_name_def [symmetric] Let_def
  by (auto simp: and_then_Inr persistable)

lemma vehicle_fields_object:
  assumes "edit_laws plain js je jt" and "j_is_object js base"
  shows "j_is_object js (vehicle_fields je r base)" and "plain base \<Longrightarrow> plain (vehicle_fields je r base)"
  using assms(2)
  by (simp_all add: vehicle_fields_def edit_set [OF assms(1)] edit_string [OF assms(1)] edit_unsigned [OF assms(1)])

lemma vehicle_fields_at:
  assumes "edit_laws plain js je jt" and "j_is_object js base"
  shows "j_at js (vehicle_fields je r base) ''uid'' = Inr (je_unsigned je (vsr_uid r))"
    "j_at js (vehicle_fields je r base) ''type_uid'' = Inr (je_unsigned je (vsr_type_uid r))"
    "j_at js (vehicle_fields je r base) ''pID'' = Inr (je_string je (vsr_pid r))"
    "j_at js (vehicle_fields je r base) ''displayName'' =
       Inr (je_string je (entered_name (vsr_pid r) (vsr_display_name r)))"
    "k \<notin> vehicle_members \<Longrightarrow> j_at js (vehicle_fields je r base) k = j_at js base k"
proof -
  note set = edit_set(1,2) [OF assms(1)]
  show "j_at js (vehicle_fields je r base) ''uid'' = Inr (je_unsigned je (vsr_uid r))"
    "j_at js (vehicle_fields je r base) ''type_uid'' = Inr (je_unsigned je (vsr_type_uid r))"
    "j_at js (vehicle_fields je r base) ''pID'' = Inr (je_string je (vsr_pid r))"
    "j_at js (vehicle_fields je r base) ''displayName'' =
       Inr (je_string je (entered_name (vsr_pid r) (vsr_display_name r)))"
    unfolding vehicle_fields_def by (simp_all add: set assms(2))
  assume "k \<notin> vehicle_members"
  then have "k \<noteq> ''displayName''" "k \<noteq> ''pID''" "k \<noteq> ''type_uid''" "k \<noteq> ''uid''" by (auto simp: vehicle_members_def)
  then show "j_at js (vehicle_fields je r base) k = j_at js base k"
    unfolding vehicle_fields_def by (simp only: set assms(2) if_False)
qed

lemma vehicle_document_members:
  assumes laws: "edit_laws plain js je jt" and doc: "vehicle_document js je (disk_files jt disk) r = Inr doc"
  obtains base where
    "loadBaseDocument js je (disk_files jt disk) (vsr_file r) (vsr_preserve_existing_fields r) = Inr base"
    "j_is_object js doc" "plain doc" "\<And>k. k \<notin> vehicle_members \<Longrightarrow> j_at js doc k = j_at js base k"
    "\<And>p. requireUid js p doc ''uid'' = Inr (vsr_uid r)" "\<And>p. requireUid js p doc ''type_uid'' = Inr (vsr_type_uid r)"
    "\<And>p. requireString js p doc ''pID'' = Inr (vsr_pid r)"
    "\<And>p. requireString js p doc ''displayName'' = Inr (entered_name (vsr_pid r) (vsr_display_name r))"
    "\<And>p. optionalUid js p doc ''carrierId'' = Inr (vsr_carrier_id r)"
    "\<And>p. optionalString js p doc ''inventoryNumber'' = Inr (entered_string (vsr_inventory_number r))"
    "\<And>p. optionalString js p doc ''notes'' = Inr (entered_string (vsr_notes r))"
proof -
  have js: "json_laws js" using laws by (rule edit_json)
  obtain base d where
    base: "loadBaseDocument js je (disk_files jt disk) (vsr_file r) (vsr_preserve_existing_fields r) = Inr base"
    and carrier: "setOptionalUid je ''carrierId'' (vsr_carrier_id r) (vehicle_fields je r base) = Inr d"
    and doc': "doc = setOptionalString je ''notes'' (vsr_notes r)
      (setOptionalString je ''inventoryNumber'' (vsr_inventory_number r) d)"
    and safe: "json_safe_uid (vsr_uid r)" "json_safe_uid (vsr_type_uid r)"
    using doc by (rule vehicle_document_Inr)
  note object = vehicle_fields_object [OF laws base_document(1) [OF laws base], of r]
  note fields = vehicle_fields_at [OF laws base_document(1) [OF laws base]]
  note d = optional_uid_reads [OF laws object(1) carrier]
  note i = optional_string_reads [OF laws d(2) refl, where k = "''inventoryNumber''" and s = "vsr_inventory_number r"]
  note n = optional_string_reads [OF laws i(2) doc']
  note at = n(4) i(4) d(4)
  have uids: "requireUid js p doc ''uid'' = Inr (vsr_uid r)" "requireUid js p doc ''type_uid'' = Inr (vsr_type_uid r)" for p
    by (rule read_uid_at [OF js _ edit_unsigned(1,2) [OF laws]]; simp add: at fields safe)+
  have strings: "requireString js p doc ''pID'' = Inr (vsr_pid r)"
    "requireString js p doc ''displayName'' = Inr (entered_name (vsr_pid r) (vsr_display_name r))" for p
    by (rule read_string_at [OF js _ edit_string(1,2) [OF laws]]; simp add: at fields)+
  let ?i = "setOptionalString je ''inventoryNumber'' (vsr_inventory_number r) d"
  have "j_at js doc ''inventoryNumber'' = j_at js ?i ''inventoryNumber''" by (simp add: n(4))
  then have optional: "optionalUid js p doc ''carrierId'' = Inr (vsr_carrier_id r)"
    "optionalString js p doc ''inventoryNumber'' = Inr (entered_string (vsr_inventory_number r))" for p
    using readers_cong(4) [OF js, of doc "''carrierId''" d] d(1)
      readers_cong(1) [OF js, of doc "''inventoryNumber''" ?i "j_is_string js" "j_get_string js"] i(1) by (simp_all add: at optionalString_def)
  have rest: "j_at js doc k = j_at js base k" if "k \<notin> vehicle_members" for k
    using that fields(5) [OF that] at [of k] by (simp add: vehicle_members_def)
  have "plain doc" using n(3) i(3) d(3) object(2) base_document(2) [OF laws base] by blast
  then show thesis using that [OF base n(2) _ rest uids strings optional n(1)] by blast
qed


definition new_vehicle :: "path \<Rightarrow> ToolVehicle" where
  "new_vehicle p = \<lparr>tv_uid = 0, tv_type_uid = 0, tv_pid = [], tv_display_name = [], tv_vehicle_type = None,
     tv_vehicle_subtype = None, tv_length_m = None, tv_axle_count = None, tv_mass_empty_t = None, tv_mass_gross_t = None,
     tv_max_speed_kmh = None, tv_braking_lambda_pct = None, tv_power_kw = None, tv_traction_force_kn = None,
     tv_davis_a = None, tv_davis_b = None, tv_davis_c = None, tv_traction_status = None, tv_carrier_id = None,
     tv_inventory_number = None, tv_notes = None, tv_source_file = p\<rparr>"

lemma edited_vehicle_reads:
  assumes js: "json_laws js"
    and rest: "\<And>k. k \<notin> vehicle_members \<Longrightarrow> j_at js doc k = j_at js base k"
    and doc: "requireUid js p doc ''uid'' = Inr (vsr_uid r)" "requireUid js p doc ''type_uid'' = Inr (vsr_type_uid r)"
      "requireString js p doc ''pID'' = Inr (vsr_pid r)"
      "requireString js p doc ''displayName'' = Inr (entered_name (vsr_pid r) (vsr_display_name r))"
      "optionalUid js p doc ''carrierId'' = Inr (vsr_carrier_id r)"
      "optionalString js p doc ''inventoryNumber'' = Inr (entered_string (vsr_inventory_number r))"
      "optionalString js p doc ''notes'' = Inr (entered_string (vsr_notes r))"
  shows "parseVehicle js p base = Inr v \<Longrightarrow> parseVehicle js p doc = Inr (edited_vehicle r v)"
    and "(\<And>k. \<not> j_contains js base k) \<Longrightarrow> parseVehicle js p doc = Inr (edited_vehicle r (new_vehicle p))"
proof -
  have keys: "''vehicleType'' \<notin> vehicle_members" "''vehicleSubtype'' \<notin> vehicle_members" "''lengthM'' \<notin> vehicle_members"
    "''axleCount'' \<notin> vehicle_members" "''massEmptyT'' \<notin> vehicle_members" "''massGrossT'' \<notin> vehicle_members"
    "''maxSpeedKmh'' \<notin> vehicle_members" "''brakingLambdaPct'' \<notin> vehicle_members" "''powerKW'' \<notin> vehicle_members"
    "''tractionForceKN'' \<notin> vehicle_members" "''davisA'' \<notin> vehicle_members" "''davisB'' \<notin> vehicle_members"
    "''davisC'' \<notin> vehicle_members" "''tractionStatus'' \<notin> vehicle_members"
    by (simp_all add: vehicle_members_def)
  have cong: "optionalString js p doc k = optionalString js p base k" "optionalDouble js p doc k = optionalDouble js p base k"
    "optionalInt js p doc k = optionalInt js p base k" if "k \<notin> vehicle_members" for k
    using readers_cong [OF js rest [OF that]] by (simp_all add: optionalString_def optionalDouble_def)
  show "parseVehicle js p doc = Inr (edited_vehicle r v)" if "parseVehicle js p base = Inr v"
    using that unfolding parseVehicle_def
    by (elim and_then_Inr [THEN iffD1, elim_format] exE conjE)
      (auto simp: doc cong keys edited_vehicle_def)
  show "parseVehicle js p doc = Inr (edited_vehicle r (new_vehicle p))" if none: "\<And>k. \<not> j_contains js base k"
  proof -
    have "member_absent js base k" for k using none by (simp add: member_absent_def)
    then have "optionalString js p base k = Inr None" "optionalDouble js p base k = Inr None"
      "optionalInt js p base k = Inr None" for k
      by (simp_all add: readers_absent optionalString_def optionalDouble_def)
    then show ?thesis unfolding parseVehicle_def by (simp add: doc cong keys edited_vehicle_def new_vehicle_def)
  qed
qed


lemma saved_vehicle_reads:
  assumes laws: "edit_laws plain js je jt" and saved: "saveVehicle js je jt r disk = (disk', Inr file)"
  shows "file = vsr_file r" "\<not> dk_unreadable disk file \<Longrightarrow> \<not> vsr_preserve_existing_fields r \<or> um_find (dk_files disk) file = None \<Longrightarrow>
      loadVehicle js (disk_files jt disk') file = Inr (edited_vehicle r (new_vehicle file))"
    "\<not> dk_unreadable disk file \<Longrightarrow> vsr_preserve_existing_fields r \<Longrightarrow> loadVehicle js (disk_files jt disk) file = Inr v \<Longrightarrow>
      loadVehicle js (disk_files jt disk') file = Inr (edited_vehicle r v)"
    "q \<noteq> file \<Longrightarrow> um_find (dk_files disk') q = um_find (dk_files disk) q"
proof -
  have js: "json_laws js" using laws by (rule edit_json)
  obtain doc where doc: "vehicle_document js je (disk_files jt disk) r = Inr doc"
    and w: "writeDocument jt (vsr_file r) doc ''vehicle'' disk = (disk', Inr ())" and name: "file = vsr_file r"
    using saved by (auto simp: saveVehicle_def and_then_Inr split: sum.splits prod.splits)
  show "file = vsr_file r" by (rule name)
  obtain base where
    base: "loadBaseDocument js je (disk_files jt disk) (vsr_file r) (vsr_preserve_existing_fields r) = Inr base"
    and d: "j_is_object js doc" "plain doc"
    and reads: "parseVehicle js file base = Inr v \<Longrightarrow> parseVehicle js file doc = Inr (edited_vehicle r v)"
      "(\<And>k. \<not> j_contains js base k) \<Longrightarrow> parseVehicle js file doc = Inr (edited_vehicle r (new_vehicle file))" for v
    by (rule vehicle_document_members [OF laws doc], rule that) (assumption | rule edited_vehicle_reads [OF js])+
  note written = document_written [OF laws d(2) w]
  obtain t where t: "um_find (dk_files disk') file = Some t" "jt_parse jt t = Inr doc" using written(1) name by blast
  have load: "loadVehicle js (disk_files jt disk') file = parseVehicle js file doc" if "\<not> dk_unreadable disk file"
    using written_file_parses [OF t d(1)] that written(3) name by (simp add: loadVehicle_def)
  show "loadVehicle js (disk_files jt disk') file = Inr (edited_vehicle r (new_vehicle file))"
    if "\<not> dk_unreadable disk file" "\<not> vsr_preserve_existing_fields r \<or> um_find (dk_files disk) file = None"
    using base_document_new [OF base] that edit_object(3) [OF laws] reads(2) by (simp add: load name [symmetric])
  show "loadVehicle js (disk_files jt disk') file = Inr (edited_vehicle r v)"
    if "\<not> dk_unreadable disk file" "vsr_preserve_existing_fields r" "loadVehicle js (disk_files jt disk) file = Inr v"
  proof -
    have "parseVehicle js file base = Inr v"
      using base that(2,3) name base_document_kept [where je = je and preserve = True] by (fastforce simp: loadVehicle_def and_then_Inr)
    then show ?thesis using reads(1) that(1) by (simp add: load)
  qed
  show "q \<noteq> file \<Longrightarrow> um_find (dk_files disk') q = um_find (dk_files disk) q" using name written(2) by blast
qed

text \<open>
  A vehicle that was saved is read back as it was entered.  Saving over a vehicle changes the
  edited fields and nothing else of it; an empty inventory number or note is an absent one.
\<close>

theorem saved_vehicle_loads_back:
  assumes laws: "edit_laws plain js je jt" and saved: "saveVehicle js je jt r disk = (disk', Inr file)"
    and readable: "\<not> dk_unreadable disk (vsr_file r)"
  shows "file = vsr_file r \<and>
    (\<forall>q. q \<noteq> file \<longrightarrow> um_find (dk_files disk') q = um_find (dk_files disk) q) \<and>
    (\<not> vsr_preserve_existing_fields r \<or> um_find (dk_files disk) file = None \<longrightarrow>
      loadVehicle js (disk_files jt disk') file = Inr (edited_vehicle r (new_vehicle file))) \<and>
    (\<forall>v. vsr_preserve_existing_fields r \<longrightarrow> loadVehicle js (disk_files jt disk) file = Inr v \<longrightarrow>
      loadVehicle js (disk_files jt disk') file = Inr (edited_vehicle r v))"
  using saved_vehicle_reads [OF laws saved] readable by blast

section \<open>Failures\<close>

text \<open>
  A save that fails leaves the disk as it was unless the document could not be printed; in that case the
  file has been emptied.
\<close>

theorem failed_save_keeps_disk:
  assumes "saveTrain js je jt r disk = (disk', Inl e)"
  shows "disk' = disk \<or>
    (\<exists>what. e = SaveJsonException what \<and> um_find (dk_files disk') (tsr_file r) = Some (jt_empty jt))"
  using assms
  by (auto simp: saveTrain_def and_then_Inl split: sum.splits prod.splits dest: write_error)

definition load_error_only :: "tool_error + 'a \<Rightarrow> bool" where
  "load_error_only m \<longleftrightarrow> (\<forall>e. m = Inl e \<longrightarrow> (\<exists>what. e = JsonLoadError what))"

named_theorems load_only \<open>computations that fail with a load error only\<close>

lemma load_only_basic [load_only]:
  "load_error_only (Inr x)" "load_error_only (Inl (JsonLoadError m))" "load_error_only (Inl (in_file a b p))"
  by (simp_all add: load_error_only_def in_file_def)

lemma load_only_and_then [load_only]:
  "load_error_only m \<Longrightarrow> (\<And>x. m = Inr x \<Longrightarrow> load_error_only (f x)) \<Longrightarrow> load_error_only (and_then m f)"
  by (auto simp: load_error_only_def and_then_Inl)

lemma load_only_if [load_only]:
  "(b \<Longrightarrow> load_error_only m) \<Longrightarrow> (\<not> b \<Longrightarrow> load_error_only n) \<Longrightarrow> load_error_only (if b then m else n)"
  by simp

lemma load_only_map_sum [load_only]: "load_error_only m \<Longrightarrow> load_error_only (map_sum id g m)"
  by (cases m) (auto simp: load_error_only_def)

lemma load_only_map_result [load_only]:
  "(\<And>x. x \<in> set xs \<Longrightarrow> load_error_only (f x)) \<Longrightarrow> load_error_only (map_result f xs)"
  by (induction xs) (auto intro!: load_only)

lemma load_only_get:
  assumes "json_laws js" and "has_member js ok j key" and "\<And>v. ok v \<Longrightarrow> \<exists>x. get v = Inr x"
  shows "load_error_only (tool_get js get j key)"
proof -
  obtain v where v: "j_at js j key = Inr v" "ok v" using assms(2) by (auto simp: has_member_def split: sum.splits)
  obtain x where "get v = Inr x" using assms(3) v(2) by blast
  with v show ?thesis by (simp add: tool_get_def load_error_only_def)
qed

lemma load_only_with:
  assumes "json_laws js" and "\<And>v. ok v \<Longrightarrow> \<exists>x. get v = Inr x"
  shows "load_error_only (require_with js ok get what p j key)" "load_error_only (optional_with js ok get what p j key)"
  using load_only_get [OF assms(1) _ assms(2)]
  by (auto simp: require_with_def optional_with_def intro!: load_only)

lemma load_only_fields:
  assumes "json_laws js"
  shows "load_error_only (requireString js p j key)" "load_error_only (optionalString js p j key)"
    "load_error_only (requireDouble js p j key)" "load_error_only (optionalDouble js p j key)"
    "load_error_only (requireInt js p j key)" "load_error_only (optionalInt js p j key)"
    "load_error_only (optionalBool js p j key)" "load_error_only (requireUid js p j key)"
    "load_error_only (optionalUid js p j key)"
  unfolding requireString_def optionalString_def requireDouble_def optionalDouble_def requireInt_def optionalInt_def
    optionalBool_def requireUid_def optionalUid_def
  by (intro load_only load_only_with [OF assms] json_lawsD(2,3,6,7,8) [OF assms]; assumption)+

lemma load_only_documents:
  assumes "json_laws js"
  shows "load_error_only (parseJsonFile js fs p)" "load_error_only (loadVehicleType js fs p)"
    "load_error_only (loadVehicle js fs p)" "load_error_only (loadTrain js fs p)"
    "load_error_only (detectDocumentType js fs p)"
proof -
  show parsed: "load_error_only (parseJsonFile js fs p)"
    by (auto simp: parseJsonFile_def load_error_only_def split: sum.splits if_splits)
  note fields = load_only_fields [OF assms]
  show "load_error_only (loadVehicleType js fs p)" unfolding loadVehicleType_def parseVehicleType_def
    by (intro load_only parsed fields)
  show "load_error_only (loadVehicle js fs p)" unfolding loadVehicle_def parseVehicle_def
    by (intro load_only parsed fields)
  have "load_error_only (parse_vehicle_uid js q i)" for q i
    using json_lawsD(6) [OF assms, of "snd i"] by (auto simp: parse_vehicle_uid_def intro!: load_only)
  moreover have "load_error_only (tool_get js Inr j k)" if "has_member js (j_is_array js) j k" for j k
    by (rule load_only_get [OF assms that]) blast
  ultimately show "load_error_only (loadTrain js fs p)" unfolding loadTrain_def parseTrain_def
    by (intro load_only parsed fields) blast+
  show "load_error_only (detectDocumentType js fs p)" unfolding detectDocumentType_def by (intro load_only parsed)
qed


section \<open>What was loaded\<close>

lemma load_skipping_error:
  assumes "\<And>p. load_error_only (loader p)" and "load_skipping loader ps = Inl e"
  shows False
  using assms(2)
proof (induction ps)
  case (Cons p ps)
  show ?case
  proof (cases "loader p")
    case (Inl err)
    then obtain what where "loader p = Inl (JsonLoadError what)" using assms(1) [of p] by (auto simp: load_error_only_def)
    then show ?thesis using Cons by simp
  next
    case (Inr r)
    then show ?thesis using Cons by (cases r; cases "load_skipping loader ps") auto
  qed
qed simp

definition source_error_only :: "source_error + 'a \<Rightarrow> bool" where
  "source_error_only m \<longleftrightarrow> (\<forall>e. m = Inl e \<longrightarrow> (\<exists>what. e = DataSourceError what))"

lemma source_only_and_then:
  "source_error_only m \<Longrightarrow> (\<And>x. source_error_only (f x)) \<Longrightarrow> source_error_only (and_then m f)"
  by (auto simp: source_error_only_def and_then_Inl)

lemma source_only_Inr: "source_error_only (Inr x)"
  by (simp add: source_error_only_def)

lemma source_only_skipping: "(\<And>p. load_error_only (loader p)) \<Longrightarrow> source_error_only (load_skipping loader ps)"
  using load_skipping_error [of loader ps] by (auto simp: source_error_only_def)

lemma source_only_directory:
  "source_error_only (ensureDirectory tfs a b p)" "source_error_only (ensure_source_directory tfs p)"
  "source_error_only (ensurePackageStructure tfs p)"
  by (auto simp: source_error_only_def ensureDirectory_def ensure_source_directory_def ensurePackageStructure_def
      and_then_Inl split: if_splits)

lemmas source_only = source_only_and_then source_only_Inr source_only_skipping source_only_directory

text \<open>
  Loading a fleet into the browser, from a package directory or from any directory, ends with the
  data or with a \<^verbatim>\<open>DataSourceError\<close> about a directory: a file the loader cannot use is skipped, and no
  exception of the JSON library escapes.
\<close>

theorem browser_load_skips_bad_files:
  assumes laws: "json_laws js"
  shows "(\<forall>e. loadPackages js tfs rt = Inl e \<longrightarrow> (\<exists>what. e = DataSourceError what)) \<and>
    (\<forall>e. loadDirectory js tfs rt = Inl e \<longrightarrow> (\<exists>what. e = DataSourceError what))"
proof -
  note documents = load_only_documents [OF laws]
  have "source_error_only (loadPackages js tfs rt)"
    unfolding loadPackages_def loadSource_def PackagesDataSource_def load_package_files_def collectFiles_def
    by (simp, intro source_only load_only documents)
  moreover have "source_error_only (loadDirectory js tfs rt)"
    unfolding loadDirectory_def loadSource_def DirectoryDataSource_def loadRecognizedFiles_def collectJsonFiles_def
    by (simp, intro source_only load_only documents)
  ultimately show ?thesis by (simp add: source_error_only_def)
qed

lemma register_all_contains:
  "registry_contains (register_all us reg) u \<longleftrightarrow> u \<in> fst ` set us \<or> registry_contains reg u"
proof (induction us arbitrary: reg)
  case (Cons x us)
  then show ?case by (cases x) (auto simp: register_all_def contains_insert)
qed (simp add: register_all_def)

definition mentioned_uids :: "BrowserDataSet \<Rightarrow> UID set" where
  "mentioned_uids data = tvt_uid ` set (bd_vehicle_types data) \<union>
     (\<Union>v \<in> set (bd_vehicles data). {tv_uid v, tv_type_uid v} \<union> set_option (tv_carrier_id v)) \<union>
     (\<Union>t \<in> set (bd_trains data). {tt_uid t} \<union> set_option (tt_carrier_id t) \<union> set (tt_vehicle_uids t))"

lemma record_uids:
  "fst ` set (type_uids t) = {tvt_uid t}"
  "fst ` set (vehicle_uids v) = {tv_uid v, tv_type_uid v} \<union> set_option (tv_carrier_id v)"
  "fst ` set (train_uids tr) = {tt_uid tr} \<union> set_option (tt_carrier_id tr) \<union> set (tt_vehicle_uids tr)"
  by (auto simp: type_uids_def vehicle_uids_def train_uids_def image_Un image_image split: option.splits)

lemma loaded_uids:
  "fst ` set (concat (map type_uids types) @ concat (map vehicle_uids vehicles) @ concat (map train_uids trains)) =
     mentioned_uids \<lparr>bd_vehicle_types = types, bd_vehicles = vehicles, bd_trains = trains\<rparr>"
  by (simp add: mentioned_uids_def image_Un image_UN record_uids Un_assoc) blast

text \<open>
  After a load, a UID the generator hands out occurs nowhere in what was loaded: not as a type, vehicle or train,
  and not as a reference to a type, a carrier or a vehicle that is itself missing.
\<close>

theorem generated_uid_clashes_with_nothing:
  assumes "loadSource source = Inr (data, reg)" and "generate reg d k s first = Inr u"
  shows "u \<notin> mentioned_uids data"
proof -
  obtain types vehicles trains where "data = \<lparr>bd_vehicle_types = types, bd_vehicles = vehicles, bd_trains = trains\<rparr>"
    "reg = register_all (concat (map type_uids types) @ concat (map vehicle_uids vehicles) @ concat (map train_uids trains)) []"
    using assms(1) by (auto simp: loadSource_def and_then_Inr)
  then have "registry_contains reg v" if "v \<in> mentioned_uids data" for v
    using that by (simp only: register_all_contains loaded_uids simp_thms)
  then show ?thesis using assms(2) by (auto elim!: generate_Inr simp: isAvailable_def)
qed

end
