(* ===== verification/Editor_Properties.thy ===== *)
theory Editor_Properties
  imports Editor_Panels Fleet_Editor_Properties Fleet_Loading Dispatch_Coordinator
begin

text \<open>
  What the panels of the vehicle browser give their user: the table shows exactly the vehicles of the
  selected type, dragging a vehicle permutes the consist, a train that is opened and saved again is
  the same train up to blanks and its category, and a consist that was built and saved is one the engine loads.
\<close>

section \<open>Tables\<close>

definition visible_vehicle :: "UID option \<Rightarrow> ToolVehicle \<Rightarrow> bool" where
  "visible_vehicle type v \<longleftrightarrow> type = None \<or> type = Some (tv_type_uid v)"

definition rows_ok :: "VehicleModel \<Rightarrow> bool" where
  "rows_ok m \<longleftrightarrow> map (\<lambda>i. vm_vehicles m ! i) (vm_visible_rows m) = filter (visible_vehicle (vm_filter_type_uid m)) (vm_vehicles m)"

lemma map_nth_filter: "map ((!) xs) (filter (\<lambda>i. p (xs ! i)) [0 ..< length xs]) = filter p xs"
proof -
  have "filter p xs = filter p (map ((!) xs) [0 ..< length xs])" by (simp add: map_nth)
  then show ?thesis by (simp add: filter_map comp_def)
qed

lemma rebuild_rows_ok: "rows_ok (rebuildVisibleRows m)"
  using map_nth_filter [where p = "visible_vehicle (vm_filter_type_uid m)" and xs = "vm_vehicles m"]
  by (simp add: rows_ok_def rebuildVisibleRows_def visible_vehicle_def)

inductive vehicle_model_reached :: "VehicleModel \<Rightarrow> bool" where
  start: "vehicle_model_reached empty_vehicle_model"
| vehicles: "vehicle_model_reached m \<Longrightarrow> vehicle_model_reached (setVehicles vs m)"
| filtered: "vehicle_model_reached m \<Longrightarrow> vehicle_model_reached (setFilterVehicleType t m)"

lemma reached_rows_ok: "vehicle_model_reached m \<Longrightarrow> rows_ok m"
  by (induction rule: vehicle_model_reached.induct)
    (simp_all add: setVehicles_def setFilterVehicleType_def rebuild_rows_ok, simp add: rows_ok_def empty_vehicle_model_def)

text \<open>
  The rows of the vehicle table are the vehicles of the selected type, all of them, in the order in
  which they were loaded, whatever sequence of loads and selections came before.
\<close>

theorem table_shows_selected_type:
  assumes "vehicle_model_reached m"
  shows "vehicle_rowCount m None = length (filter (visible_vehicle (vm_filter_type_uid m)) (vm_vehicles m)) \<and>
    (\<forall>row. vehicleAt m row = row_at (filter (visible_vehicle (vm_filter_type_uid m)) (vm_vehicles m)) row)"
proof -
  have rows: "map (\<lambda>i. vm_vehicles m ! i) (vm_visible_rows m) = filter (visible_vehicle (vm_filter_type_uid m)) (vm_vehicles m)"
    using reached_rows_ok [OF assms] by (simp add: rows_ok_def)
  then have "length (vm_visible_rows m) = length (filter (visible_vehicle (vm_filter_type_uid m)) (vm_vehicles m))"
    by (metis length_map)
  then show ?thesis by (auto simp: vehicle_rowCount_def vehicleAt_def row_at_def rows [symmetric])
qed

definition without_row :: "nat \<Rightarrow> 'a list \<Rightarrow> 'a list" where
  "without_row i xs = take i xs @ drop (Suc i) xs"

lemma without_row_insert: "i \<le> length xs \<Longrightarrow> without_row i (take i xs @ x # drop i xs) = xs"
  by (simp add: without_row_def)

text \<open>
  A move that is accepted takes the vehicle out of its row and puts it where it was dropped; the
  others keep their order.  A move that is refused changes nothing.
\<close>

theorem moved_vehicle_lands_where_dropped:
  assumes "moveRows begin_move None src 1 None dest m = (ok, m')"
  shows "(\<not> ok \<longrightarrow> m' = m) \<and>
    (ok \<longrightarrow> (let to = nat (if dest > src then dest - 1 else dest) in
       to < length m' \<and> m' ! to = m ! nat src \<and> without_row to m' = without_row (nat src) m))"
proof (cases ok)
  case True
  define rest where "rest = without_row (nat src) m"
  define to where "to = nat (if dest > src then dest - 1 else dest)"
  have bounds: "0 \<le> src" "src < int (length m)" "0 \<le> dest" "dest \<le> int (length m)" and
    m': "m' = take to rest @ m ! nat src # drop to rest"
    using assms True by (auto simp: moveRows_def rest_def to_def without_row_def Let_def split: if_splits)
  have "length rest = length m - 1" using bounds by (simp add: rest_def without_row_def)
  then have le: "to \<le> length rest" using bounds by (auto simp: to_def)
  then have "without_row to m' = rest" "m' ! to = m ! nat src" "to < length m'"
    unfolding m' by (rule without_row_insert, simp_all add: nth_append)
  then show ?thesis using True by (simp add: to_def rest_def Let_def)
qed (use assms in \<open>auto simp: moveRows_def Let_def split: if_splits\<close>)


section \<open>Opening and saving a train\<close>

text \<open>What the panel relies on of the text functions of Qt.\<close>

definition qt_laws :: "QtText \<Rightarrow> bool" where
  "qt_laws qt \<longleftrightarrow>
     (\<forall>n. qt_number qt n \<noteq> [] \<and> qt_trimmed qt (qt_number qt n) = qt_number qt n \<and> qt_to_ulonglong qt (qt_number qt n) = Some n) \<and>
     list_all (\<lambda>c. qt_upper qt c = c) category_items \<and> qt_trimmed qt [] = []"

definition disk_ready :: "('j, 't) JsonText \<Rightarrow> 't Disk \<Rightarrow> path \<Rightarrow> bool" where
  "disk_ready jt disk p \<longleftrightarrow> \<not> dk_no_directory disk (butlast p) \<and> \<not> dk_unwritable disk p \<and> \<not> dk_unreadable disk p \<and>
     (\<forall>d. \<exists>t. jt_dump jt d = Inr t)"

lemma vehicle_items_safe:
  "list_all json_safe_uid us \<Longrightarrow>
    map_result (\<lambda>u. and_then (ensurePersistableUid u l) (\<lambda>_. Inr (je_unsigned je u))) us = Inr (map (je_unsigned je) us)"
  by (induction us) (auto simp: ensurePersistableUid_def)

lemma saveTrain_succeeds:
  assumes "json_safe_uid (tsr_uid r)" and "tsr_pid r \<noteq> []" and "tsr_train_category r \<noteq> []" and "tsr_vehicle_uids r \<noteq> []"
    and "list_all json_safe_uid (tsr_vehicle_uids r)" and "\<And>c. tsr_carrier_id r = Some c \<Longrightarrow> json_safe_uid c"
    and "loadBaseDocument js je (disk_files jt disk) (tsr_file r) (tsr_preserve_existing_fields r) = Inr base"
    and "disk_ready jt disk (tsr_file r)"
  shows "\<exists>disk'. saveTrain js je jt r disk = (disk', Inr (tsr_uid r))"
proof -
  have "\<exists>d. setOptionalUid je ''carrierId'' (tsr_carrier_id r) (train_fields je r base) = Inr d"
    using assms(6) by (auto simp: setOptionalUid_def ensurePersistableUid_def split: option.splits)
  then have "\<exists>doc. train_document js je (disk_files jt disk) r = Inr doc"
    using assms(1-5,7) unfolding train_document_def train_fields_def [symmetric] entered_name_def [symmetric] Let_def
    by (auto simp: ensurePersistableUid_def ensureNonEmpty_def vehicle_items_safe [unfolded ensurePersistableUid_def])
  then obtain doc where doc: "train_document js je (disk_files jt disk) r = Inr doc" by blast
  obtain t where "jt_dump jt doc = Inr t" using assms(8) unfolding disk_ready_def by blast
  with doc assms(8) show ?thesis by (simp add: saveTrain_def writeDocument_def disk_ready_def)
qed

lemma requireUid_safe: "requireUid js p j k = Inr u \<Longrightarrow> json_safe_uid u"
  by (auto simp: requireUid_def and_then_Inr split: if_splits)

lemma map_result_list_all:
  assumes "map_result f xs = Inr ys" and "\<And>x y. f x = Inr y \<Longrightarrow> p y"
  shows "list_all p ys"
  using assms(1) by (induction xs arbitrary: ys) (auto simp: and_then_Inr dest: assms(2))

lemma loaded_train_safe:
  assumes "loadTrain js fs p = Inr t"
  shows "json_safe_uid (tt_uid t)" "list_all json_safe_uid (tt_vehicle_uids t)"
    "tt_carrier_id t = Some c \<Longrightarrow> json_safe_uid c" "tt_source_file t = p" "\<exists>j. parseJsonFile js fs p = Inr j"
proof -
  obtain j uid carrier us items where t: "tt_uid t = uid" "tt_carrier_id t = carrier" "tt_vehicle_uids t = us" "tt_source_file t = p"
    and reads: "parseJsonFile js fs p = Inr j" "requireUid js p j ''uid'' = Inr uid" "optionalUid js p j ''carrierId'' = Inr carrier"
      "map_result (parse_vehicle_uid js p) items = Inr us"
    using assms by (auto simp: loadTrain_def parseTrain_def and_then_Inr split: if_splits)
  have "json_safe_uid u" if "parse_vehicle_uid js p i = Inr u" for i u
    using that by (auto simp: parse_vehicle_uid_def and_then_Inr split: if_splits)
  then show "list_all json_safe_uid (tt_vehicle_uids t)" using map_result_list_all [OF reads(4)] t(3) by blast
  show "json_safe_uid (tt_uid t)" "tt_source_file t = p" "\<exists>j. parseJsonFile js fs p = Inr j"
    using t reads requireUid_safe [OF reads(2)] by auto
  show "json_safe_uid c" if "tt_carrier_id t = Some c"
  proof -
    have "requireUid js p j ''carrierId'' = Inr c"
      using reads(3) t(2) that by (cases "requireUid js p j ''carrierId''") (auto simp: optionalUid_def split: if_splits)
    then show ?thesis by (rule requireUid_safe)
  qed
qed

text \<open>The train the panel makes of the one it shows, and the trains it leaves as they are.\<close>

definition shown_category :: "QtText \<Rightarrow> string \<Rightarrow> string" where
  "shown_category qt c = (if qt_upper qt c \<in> set category_items then qt_upper qt c else ''PASSENGER'')"

definition tidied :: "QtText \<Rightarrow> ToolTrain \<Rightarrow> ToolTrain" where
  "tidied qt t = t\<lparr>tt_pid := qt_trimmed qt (tt_pid t),
     tt_display_name := entered_name (qt_trimmed qt (tt_pid t)) (qt_trimmed qt (tt_display_name t)),
     tt_train_category := shown_category qt (tt_train_category t)\<rparr>"

definition shown_cleanly :: "QtText \<Rightarrow> ToolTrain \<Rightarrow> bool" where
  "shown_cleanly qt t \<longleftrightarrow> qt_trimmed qt (tt_pid t) = tt_pid t \<and> tt_display_name t \<noteq> [] \<and>
     qt_trimmed qt (tt_display_name t) = tt_display_name t \<and> tt_train_category t \<in> set category_items"

lemma category_shown:
  assumes "qt_laws qt"
  shows "shown_category qt c \<in> set category_items" "qt_upper qt (shown_category qt c) = shown_category qt c"
    "shown_category qt c \<noteq> []" "shown_category qt c = c \<longleftrightarrow> c \<in> set category_items"
  using assms by (auto simp: shown_category_def qt_laws_def list_all_iff category_items_def)

lemma tidied_same:
  assumes "qt_laws qt" and "qt_trimmed qt (tt_pid t) \<noteq> []"
  shows "tidied qt t = t \<longleftrightarrow> shown_cleanly qt t"
proof -
  have "tidied qt t = t \<longleftrightarrow> qt_trimmed qt (tt_pid t) = tt_pid t \<and>
      entered_name (qt_trimmed qt (tt_pid t)) (qt_trimmed qt (tt_display_name t)) = tt_display_name t \<and>
      shown_category qt (tt_train_category t) = tt_train_category t"
    by (cases t) (simp add: tidied_def)
  then show ?thesis using assms(2) category_shown(4) [OF assms(1)]
    by (auto simp: shown_cleanly_def entered_name_def split: if_splits)
qed

lemma found_vehicles:
  assumes "\<forall>u \<in> set us. findVehicle vs u \<noteq> None"
  shows "map tv_uid (map the (filter (\<lambda>v. v \<noteq> None) (map (findVehicle vs) us))) = us"
    and "filter (\<lambda>v. v = None) (map (findVehicle vs) us) = []"
proof -
  have "tv_uid v = u" if "findVehicle vs u = Some v" for u v using that by (auto simp: findVehicle_def find_Some_iff)
  then show "map tv_uid (map the (filter (\<lambda>v. v \<noteq> None) (map (findVehicle vs) us))) = us"
    using assms by (induction us) (auto simp: comp_assoc)
  show "filter (\<lambda>v. v = None) (map (findVehicle vs) us) = []" using assms by (induction us) auto
qed

lemma selected_train_fields:
  assumes qt: "qt_laws qt" and i: "i < length (tb_trains panel)" and train: "tb_trains panel ! i = t"
  defines "shown \<equiv> selectTrain qt (int i + 1) panel"
  shows "tb_current_train_index shown = Some i" "tb_trains shown = tb_trains panel" "tb_pid_field shown = tt_pid t"
    "tb_display_name_field shown = tt_display_name t" "tb_category_field shown = shown_category qt (tt_train_category t)"
    "tb_carrier_uid_field shown = (case tt_carrier_id t of Some c \<Rightarrow> qt_number qt c | None \<Rightarrow> [])"
    "tb_missing_vehicle_count shown = length (filter (\<lambda>v. v = None) (map (findVehicle (tb_vehicles panel)) (tt_vehicle_uids t)))"
    "tb_model shown = map the (filter (\<lambda>v. v \<noteq> None) (map (findVehicle (tb_vehicles panel)) (tt_vehicle_uids t)))"
proof -
  have "''PASSENGER'' \<in> set category_items" by (simp add: category_items_def)
  moreover have "\<not> (int i + 1 \<le> 0 \<or> int i + 1 > int (length (tb_trains panel)))" "nat (int i + 1 - 1) = i" using i by auto
  ultimately show "tb_current_train_index shown = Some i" "tb_trains shown = tb_trains panel" "tb_pid_field shown = tt_pid t"
    "tb_display_name_field shown = tt_display_name t" "tb_category_field shown = shown_category qt (tt_train_category t)"
    "tb_carrier_uid_field shown = (case tt_carrier_id t of Some c \<Rightarrow> qt_number qt c | None \<Rightarrow> [])"
    "tb_missing_vehicle_count shown = length (filter (\<lambda>v. v = None) (map (findVehicle (tb_vehicles panel)) (tt_vehicle_uids t)))"
    "tb_model shown = map the (filter (\<lambda>v. v \<noteq> None) (map (findVehicle (tb_vehicles panel)) (tt_vehicle_uids t)))"
    by (simp_all add: shown_def selectTrain_def set_category_def shown_category_def Let_def train train_setVehicles_def
        split: option.splits)
qed


lemma shown_carrier:
  assumes "qt_laws qt" and "\<And>c. carrier = Some c \<Longrightarrow> json_safe_uid c"
  shows "parsedCarrierUid qt (case carrier of Some c \<Rightarrow> qt_number qt c | None \<Rightarrow> []) = Inr carrier"
  using assms by (auto simp: parsedCarrierUid_def qt_laws_def json_safe_uid_def split: option.splits)

text \<open>A train that is opened and saved again without an edit.\<close>

lemma reopened_train_saved:
  assumes laws: "edit_laws plain js je jt" and qt: "qt_laws qt"
    and i: "i < length (tb_trains panel)" and train: "tb_trains panel ! i = t"
    and loaded: "loadTrain js (disk_files jt disk) (tt_source_file t) = Inr t"
    and pid: "qt_trimmed qt (tt_pid t) \<noteq> []" and some: "tt_vehicle_uids t \<noteq> []"
    and ready: "disk_ready jt disk (tt_source_file t)"
    and known: "\<forall>u \<in> set (tt_vehicle_uids t). findVehicle (tb_vehicles panel) u \<noteq> None"
  shows "\<exists>disk'. saveCurrent js je jt qt False chosen (selectTrain qt (int i + 1) panel) (reg, disk) =
      ((reg, disk'), Saved (tt_uid t) (tt_source_file t)) \<and>
    loadTrain js (disk_files jt disk') (tt_source_file t) = Inr (tidied qt t)"
proof -
  let ?shown = "selectTrain qt (int i + 1) panel"
  note fields = selected_train_fields [OF qt i train]
  note safe = loaded_train_safe [OF loaded]
  note found = found_vehicles [OF known]
  note category = category_shown [OF qt, of "tt_train_category t"]
  define r where "r = train_request qt (tb_model ?shown) (tt_source_file t) (tt_pid t) (tt_display_name t)
    (shown_category qt (tt_train_category t)) (tt_uid t) True (tt_carrier_id t)"
  have uids: "map tv_uid (tb_model ?shown) = tt_vehicle_uids t" using found(1) by (simp only: fields(8))
  have r: "tsr_uid r = tt_uid t" "tsr_file r = tt_source_file t" "tsr_vehicle_uids r = tt_vehicle_uids t" "saved_train r = tidied qt t"
    "tsr_carrier_id r = tt_carrier_id t" "tsr_pid r = qt_trimmed qt (tt_pid t)"
    "tsr_train_category r = shown_category qt (tt_train_category t)" "tsr_preserve_existing_fields r"
    using category uids by (simp_all add: r_def train_request_def saved_train_def tidied_def)
  obtain base where "loadBaseDocument js je (disk_files jt disk) (tsr_file r) (tsr_preserve_existing_fields r) = Inr base"
    using safe(5) r(2) base_document_kept by metis
  then obtain disk' where saved: "saveTrain js je jt r disk = (disk', Inr (tsr_uid r))"
    using saveTrain_succeeds [of r js je jt disk base] safe(1,2,3) some pid category(3) ready by (auto simp: r)
  obtain doc tx where "j_is_object js doc" "um_find (dk_files disk') (tsr_file r) = Some tx" "jt_parse jt tx = Inr doc"
    "parseTrain js (tsr_file r) doc = Inr (saved_train r)" "dk_unreadable disk' = dk_unreadable disk"
    using saved_train_on_disk(1,3) [OF laws saved] by blast
  then have "loadTrain js (disk_files jt disk') (tt_source_file t) = Inr (tidied qt t)"
    using written_file_parses [of disk' "tsr_file r" tx jt doc js] ready r(2,4) by (simp add: loadTrain_def disk_ready_def)
  moreover have "tb_model ?shown \<noteq> []" using uids some by auto
  then have "saveCurrent js je jt qt False chosen ?shown (reg, disk) = ((reg, disk'), Saved (tt_uid t) (tt_source_file t))"
    using saved pid shown_carrier [OF qt, of "tt_carrier_id t"] safe(3) found(2)
    by (simp add: saveCurrent_def saveTrainTo_def fields(1-7) train r_def [symmetric] r(1))
  ultimately show ?thesis by blast
qed

text \<open>
  C35.  What saving does to a train that was opened in the builder and not edited.  With all its vehicles
  loaded and a number that is not blank, the save succeeds and the file then holds the train with its number
  and name trimmed, a blank name replaced by the number, and its category in upper case, or PASSENGER if it is
  not one of the three of the list; everything else is as it was.  So the train is unchanged exactly if its
  number and name have no blanks around them, the name is not empty and the category is one of the list.  With
  a vehicle missing or a blank number nothing is written.
\<close>

theorem reopened_train_is_tidied:
  assumes laws: "edit_laws plain js je jt" and qt: "qt_laws qt"
    and i: "i < length (tb_trains panel)" and train: "tb_trains panel ! i = t"
    and loaded: "loadTrain js (disk_files jt disk) (tt_source_file t) = Inr t"
    and some: "tt_vehicle_uids t \<noteq> []" and ready: "disk_ready jt disk (tt_source_file t)"
  shows "((\<forall>u \<in> set (tt_vehicle_uids t). findVehicle (tb_vehicles panel) u \<noteq> None) \<and> qt_trimmed qt (tt_pid t) \<noteq> [] \<longrightarrow>
      (\<exists>disk'. saveCurrent js je jt qt False chosen (selectTrain qt (int i + 1) panel) (reg, disk) =
          ((reg, disk'), Saved (tt_uid t) (tt_source_file t)) \<and>
        loadTrain js (disk_files jt disk') (tt_source_file t) = Inr (tidied qt t)) \<and>
      (tidied qt t = t \<longleftrightarrow> shown_cleanly qt t)) \<and>
    ((\<forall>u \<in> set (tt_vehicle_uids t). findVehicle (tb_vehicles panel) u \<noteq> None) \<and> qt_trimmed qt (tt_pid t) = [] \<longrightarrow>
      saveCurrent js je jt qt False chosen (selectTrain qt (int i + 1) panel) (reg, disk) = ((reg, disk), Refused TrainNumberRequired)) \<and>
    ((\<exists>u \<in> set (tt_vehicle_uids t). findVehicle (tb_vehicles panel) u = None) \<longrightarrow>
      saveCurrent js je jt qt False chosen (selectTrain qt (int i + 1) panel) (reg, disk) = ((reg, disk), Refused MissingVehicles))"
proof -
  let ?shown = "selectTrain qt (int i + 1) panel"
  let ?known = "\<forall>u \<in> set (tt_vehicle_uids t). findVehicle (tb_vehicles panel) u \<noteq> None"
  note fields = selected_train_fields [OF qt i train]
  have "saveCurrent js je jt qt False chosen ?shown (reg, disk) = ((reg, disk), Refused TrainNumberRequired)"
    if known: ?known and blank: "qt_trimmed qt (tt_pid t) = []"
  proof -
    note found = found_vehicles [OF known]
    have "map tv_uid (tb_model ?shown) = tt_vehicle_uids t" using found(1) by (simp only: fields(8))
    then have "tb_model ?shown \<noteq> []" using some by auto
    then show ?thesis
      using blank found(2) shown_carrier [OF qt, of "tt_carrier_id t"] loaded_train_safe(3) [OF loaded]
      by (simp add: saveCurrent_def saveTrainTo_def fields(1-7) train)
  qed
  moreover have "saveCurrent js je jt qt False chosen ?shown (reg, disk) = ((reg, disk), Refused MissingVehicles)" if "\<not> ?known"
  proof -
    have "filter (\<lambda>v. v = None) (map (findVehicle (tb_vehicles panel)) (tt_vehicle_uids t)) \<noteq> []"
      using that by (auto simp: filter_empty_conv)
    then have "0 < tb_missing_vehicle_count ?shown"
      by (simp only: fields(7) length_greater_0_conv simp_thms)
    then show ?thesis by (simp add: saveCurrent_def)
  qed
  moreover note reopened_train_saved [OF laws qt i train loaded _ some ready] tidied_same [OF qt, of t]
  ultimately show ?thesis by blast
qed

definition plain_qt :: QtText where
  "plain_qt = \<lparr>qt_trimmed = id, qt_upper = to_upper, qt_lower = id, qt_number = u64_to_string,
     qt_to_ulonglong = (\<lambda>s. case stoull s of Inr u \<Rightarrow> Some u | Inl _ \<Rightarrow> None)\<rparr>"

lemma plain_qt_laws: "qt_laws plain_qt"
proof -
  have "list_all (\<lambda>c. to_upper c = c) category_items" by code_simp
  then show ?thesis by (simp add: qt_laws_def plain_qt_def u64_to_string_def nat_to_string_nonempty)
      (simp add: u64_to_string_def [symmetric])
qed

definition stored_train :: ToolTrain where
  "stored_train = \<lparr>tt_uid = 0x010300010001, tt_pid = ''T1'', tt_display_name = ''Train'', tt_train_category = ''FREIGHT'',
     tt_carrier_id = None, tt_vehicle_uids = [0x010200010001], tt_source_file = [''data'', ''t.json'']\<rparr>"

definition stored_disk :: "JsonTree Disk" where
  "stored_disk = \<lparr>dk_files = [([''data'', ''t.json''], sample_consist)],
     dk_unreadable = (\<lambda>_. False), dk_unwritable = (\<lambda>_. False), dk_no_directory = (\<lambda>_. False)\<rparr>"

definition open_panel :: TrainBuilderPanel where
  "open_panel = \<lparr>tb_model = [], tb_trains = [stored_train], tb_vehicles = [(new_vehicle [])\<lparr>tv_uid := 0x010200010001\<rparr>],
     tb_default_output_directory = [], tb_current_train_index = None, tb_missing_vehicle_count = 0, tb_train_selector = 0,
     tb_uid_field = [], tb_pid_field = [], tb_display_name_field = [], tb_category_field = ''PASSENGER'', tb_carrier_uid_field = []\<rparr>"

lemma stored_train_loads: "loadTrain json_tree (disk_files json_tree_text stored_disk) [''data'', ''t.json''] = Inr stored_train"
  by (simp add: loadTrain_def parseJsonFile_def disk_files_def stored_disk_def um_find_Cons json_tree_text_def json_tree_def
      sample_consist_def parseTrain_def requireUid_def requireString_def require_with_def has_member_def tool_get_def json_safe_uid_def
      uid_is_safe_json_integer_def UID_MAX_SAFE_JSON_INTEGER_def optionalUid_def member_absent_def parse_vehicle_uid_def stored_train_def)

theorem reopened_train_is_tidied_witness:
  "\<exists>disk'. saveCurrent json_tree json_tree_edit json_tree_text plain_qt False None (selectTrain plain_qt 1 open_panel) ([], stored_disk) =
      (([], disk'), Saved 0x010300010001 [''data'', ''t.json'']) \<and>
    loadTrain json_tree (disk_files json_tree_text disk') [''data'', ''t.json''] = Inr stored_train"
proof -
  have "shown_cleanly plain_qt stored_train" "qt_trimmed plain_qt (tt_pid stored_train) \<noteq> []"
    by (simp_all add: shown_cleanly_def stored_train_def plain_qt_def category_items_def)
  moreover have "disk_ready json_tree_text stored_disk (tt_source_file stored_train)"
    by (simp add: disk_ready_def stored_disk_def json_tree_text_def)
  moreover have "tt_source_file stored_train = [''data'', ''t.json'']" "tt_uid stored_train = 0x010300010001"
    "tt_vehicle_uids stored_train = [0x010200010001]" by (simp_all add: stored_train_def)
  moreover have "tb_trains open_panel = [stored_train]" "findVehicle (tb_vehicles open_panel) 0x010200010001 \<noteq> None"
    by (simp_all add: open_panel_def findVehicle_def)
  ultimately show ?thesis
    using reopened_train_is_tidied [OF json_tree_edit_laws plain_qt_laws, of 0 open_panel stored_train stored_disk None "[]"]
      stored_train_loads by auto
qed

text \<open>A category the list does not have is replaced without a word.\<close>

lemma unknown_category_becomes_passenger:
  "qt_laws qt \<Longrightarrow> qt_upper qt (tt_train_category t) \<notin> set category_items \<Longrightarrow> tt_train_category (tidied qt t) = ''PASSENGER''"
  by (simp add: tidied_def shown_category_def)

section \<open>A saved consist in the engine\<close>

lemma consist_items_known:
  assumes read: "map_result (parse_vehicle_uid js p) (enumerate n items) = Inr us"
    and known: "\<forall>u \<in> set us. um_find vehicles u \<noteq> None"
  shows "\<exists>acc'. fold_result (add_consist_item js vehicles p) items acc = Inr acc' \<and>
    sm_vehicle_uids acc' = sm_vehicle_uids acc @ us"
  using read known
proof (induction items arbitrary: n us acc)
  case (Cons i items)
  obtain u us' where us: "us = u # us'" and u: "parse_vehicle_uid js p (n, i) = Inr u"
    and rest: "map_result (parse_vehicle_uid js p) (enumerate (Suc n) items) = Inr us'"
    using Cons.prems(1) by (auto simp: and_then_Inr)
  obtain v where v: "um_find vehicles u = Some v" using Cons.prems(2) us by auto
  let ?acc = "add_consist_vehicle v (acc\<lparr>sm_vehicle_uids := sm_vehicle_uids acc @ [u]\<rparr>)"
  have "add_consist_item js vehicles p i acc = Inr ?acc"
    using u v by (auto simp: add_consist_item_def parse_vehicle_uid_def and_then_Inr split: if_splits)
  then show ?case using Cons.IH [OF rest, of ?acc] Cons.prems(2) us by (auto simp: add_consist_vehicle_uids)
qed simp

text \<open>A field the editor reads is one the engine reads.\<close>

lemma engine_reads:
  assumes js: "json_laws js"
  shows "requireString js p j k = Inr s \<Longrightarrow> require_string js j k p = Inr s"
    "requireUid js p j k = Inr u \<Longrightarrow> require_uid js j k p = Inr u"
  by (auto simp: requireString_def requireUid_def require_with_def require_string_def require_uid_def require_field_def
      tool_get_def member_of_def json_safe_uid_def and_then_Inr split: if_splits)

definition carrier_known :: "FleetRegistry \<Rightarrow> UID option \<Rightarrow> bool" where
  "carrier_known reg carrier \<longleftrightarrow>
    (case carrier of None \<Rightarrow> True | Some c \<Rightarrow> uid_has_kind c ROLLING_STOCK CARRIER \<and> um_find (fr_carriers reg) c \<noteq> None)"

lemma engine_reads_carrier:
  assumes js: "json_laws js" and "optionalUid js p j ''carrierId'' = Inr carrier" and "carrier_known reg carrier"
    and "member_absent js j ''carrier''"
  shows "read_carrier_id js (fr_carriers reg) p j = Inr carrier"
proof (cases carrier)
  case None
  then have "member_absent js j ''carrierId''"
    using assms(2) by (cases "requireUid js p j ''carrierId''") (auto simp: optionalUid_def split: if_splits)
  then show ?thesis using assms(4) None by (auto simp: read_carrier_id_def member_absent_def)
next
  case (Some c)
  then have present: "\<not> member_absent js j ''carrierId''" and c: "requireUid js p j ''carrierId'' = Inr c"
    using assms(2) by (cases "requireUid js p j ''carrierId''"; auto simp: optionalUid_def split: if_splits)+
  have "require_uid js j ''carrierId'' p = Inr c" using engine_reads(2) [OF js c] .
  then show ?thesis using assms(3,4) present Some
    by (auto simp: read_carrier_id_def member_absent_def carrier_known_def)
qed


lemma engine_reads_train:
  assumes js: "json_laws js" and parsed: "parseTrain js p j = Inr t"
    and category: "parse_train_category (tt_train_category t) p = Inr cat" "category_from_folder p dir \<in> {None, Some cat}"
    and vehicles: "\<forall>u \<in> set (tt_vehicle_uids t). um_find (fr_vehicles reg) u \<noteq> None" "tt_vehicle_uids t \<noteq> []"
    and carrier: "carrier_known reg (tt_carrier_id t)" "member_absent js j ''carrier''"
  shows "\<exists>c. read_consist js reg dir p j = Inr c \<and> con_uid c = tt_uid t \<and> con_pid c = tt_pid t \<and>
    con_train_category c = cat \<and> con_carrier_id c = tt_carrier_id t \<and> con_vehicle_uids c = tt_vehicle_uids t"
proof -
  obtain items where array: "has_member js (j_is_array js) j ''vehicle_uids''" "j_at js j ''vehicle_uids'' = Inr items"
    and uids: "map_result (parse_vehicle_uid js p) (enumerate 0 (j_elements js items)) = Inr (tt_vehicle_uids t)"
    and fields: "requireUid js p j ''uid'' = Inr (tt_uid t)" "requireString js p j ''pID'' = Inr (tt_pid t)"
      "requireString js p j ''displayName'' = Inr (tt_display_name t)"
      "requireString js p j ''trainCategory'' = Inr (tt_train_category t)"
      "optionalUid js p j ''carrierId'' = Inr (tt_carrier_id t)"
    using parsed by (auto simp: parseTrain_def and_then_Inr tool_get_def split: if_splits)
  note reads = engine_reads(2) [OF js fields(1)] engine_reads(1) [OF js fields(2)] engine_reads(1) [OF js fields(3)]
    engine_reads(1) [OF js fields(4)] engine_reads_carrier [OF js fields(5) carrier]
  obtain acc where acc: "fold_result (add_consist_item js (fr_vehicles reg) p) (j_elements js items) no_sums = Inr acc"
    and us: "sm_vehicle_uids acc = tt_vehicle_uids t"
    using consist_items_known [OF uids vehicles(1), of no_sums] by (auto simp: no_sums_def)
  show ?thesis using category vehicles(2) us
    by (auto simp: read_consist_def reads array member_of_def acc Let_def)
qed

lemma base_has_no_carrier:
  assumes laws: "edit_laws plain js je jt" and base: "loadBaseDocument js je (disk_files jt disk) p preserve = Inr base"
    and "\<not> dk_unreadable disk p"
    and "preserve \<longrightarrow> (\<forall>old. parseJsonFile js (disk_files jt disk) p = Inr old \<longrightarrow> member_absent js old ''carrier'')"
  shows "member_absent js base ''carrier''"
proof (cases "preserve \<and> um_find (dk_files disk) p \<noteq> None")
  case True
  then have "parseJsonFile js (disk_files jt disk) p = Inr base"
    using base assms(3) by (auto simp: loadBaseDocument_def parseJsonFile_def disk_files_def split: if_splits sum.splits option.splits)
  then show ?thesis using assms(4) True by blast
next
  case False
  then have "base = je_object je" using base_document_new [OF base] by blast
  then show ?thesis using edit_object(3) [OF laws] by (simp add: member_absent_def)
qed

text \<open>What the engine demands beyond what the editor does: a train that it loads meets all the conditions.\<close>

lemma consist_items_needed:
  assumes "map_result (parse_vehicle_uid js p) (enumerate n items) = Inr us"
    and "fold_result (add_consist_item js vehicles p) items acc = Inr acc'"
  shows "\<forall>u \<in> set us. um_find vehicles u \<noteq> None"
  using assms
proof (induction items arbitrary: n us acc)
  case (Cons i items)
  obtain u us' where us: "us = u # us'" and u: "parse_vehicle_uid js p (n, i) = Inr u"
    and rest: "map_result (parse_vehicle_uid js p) (enumerate (Suc n) items) = Inr us'"
    using Cons.prems(1) by (auto simp: and_then_Inr)
  obtain acc1 where "add_consist_item js vehicles p i acc = Inr acc1"
    and fold: "fold_result (add_consist_item js vehicles p) items acc1 = Inr acc'"
    using Cons.prems(2) by (auto simp: and_then_Inr)
  then have "um_find vehicles u \<noteq> None"
    using u by (auto simp: add_consist_item_def parse_vehicle_uid_def and_then_Inr split: if_splits option.splits)
  with Cons.IH [OF rest fold] us show ?case by simp
qed simp

definition engine_category :: "path \<Rightarrow> string \<Rightarrow> path \<Rightarrow> bool" where
  "engine_category p category dir \<longleftrightarrow>
     (\<exists>cat. parse_train_category category p = Inr cat \<and> category_from_folder p dir \<in> {None, Some cat})"

lemma engine_needs:
  assumes js: "json_laws js" and parsed: "parseTrain js p j = Inr t" and read: "read_consist js reg dir p j = Inr c"
  shows "engine_category p (tt_train_category t) dir" "\<forall>u \<in> set (tt_vehicle_uids t). um_find (fr_vehicles reg) u \<noteq> None"
    "carrier_known reg (tt_carrier_id t)" "member_absent js j ''carrier''"
proof -
  obtain items where array: "j_at js j ''vehicle_uids'' = Inr items"
    and uids: "map_result (parse_vehicle_uid js p) (enumerate 0 (j_elements js items)) = Inr (tt_vehicle_uids t)"
    and fields: "requireString js p j ''trainCategory'' = Inr (tt_train_category t)"
      "optionalUid js p j ''carrierId'' = Inr (tt_carrier_id t)"
    using parsed by (auto simp: parseTrain_def and_then_Inr tool_get_def split: if_splits)
  obtain category cat carrier items' acc where reads: "require_string js j ''trainCategory'' p = Inr category"
      "parse_train_category category p = Inr cat" "read_carrier_id js (fr_carriers reg) p j = Inr carrier"
      "category_from_folder p dir \<in> {None, Some cat}" "member_of js j ''vehicle_uids'' = Inr items'"
      "fold_result (add_consist_item js (fr_vehicles reg) p) (j_elements js items') no_sums = Inr acc"
    using read by (auto simp: read_consist_def and_then_Inr split: if_splits)
  show "engine_category p (tt_train_category t) dir"
    using reads(1,2,4) engine_reads(1) [OF js fields(1)] by (auto simp: engine_category_def)
  have "items' = items" using reads(5) array by (simp add: member_of_def)
  with consist_items_needed [OF uids] reads(6)
  show "\<forall>u \<in> set (tt_vehicle_uids t). um_find (fr_vehicles reg) u \<noteq> None" by blast
  show absent: "member_absent js j ''carrier''" using reads(3) by (auto simp: read_carrier_id_def member_absent_def split: if_splits)
  show "carrier_known reg (tt_carrier_id t)"
  proof (cases "tt_carrier_id t")
    case (Some k)
    then have "\<not> member_absent js j ''carrierId''" "requireUid js p j ''carrierId'' = Inr k"
      using fields(2) by (cases "requireUid js p j ''carrierId''"; auto simp: optionalUid_def split: if_splits)+
    with engine_reads(2) [OF js this(2)] reads(3) Some absent show ?thesis
      by (auto simp: carrier_known_def read_carrier_id_def member_absent_def and_then_Inr split: if_splits)
  qed (simp add: carrier_known_def)
qed

lemma read_consist_uid:
  assumes js: "json_laws js" and "parseTrain js p j = Inr t" and "read_consist js reg dir p j = Inr c"
  shows "con_uid c = tt_uid t"
proof -
  have "requireUid js p j ''uid'' = Inr (tt_uid t)"
    using assms(2) by (auto simp: parseTrain_def and_then_Inr split: if_splits)
  from engine_reads(2) [OF js this] assms(3) show ?thesis
    by (auto simp: read_consist_def Let_def and_then_Inr split: if_splits)
qed

text \<open>A save that keeps the other members of the file keeps the deprecated member \<^verbatim>\<open>carrier\<close> too.\<close>

definition keeps_carrier :: "'j Json \<Rightarrow> ('j, 't) JsonText \<Rightarrow> 't Disk \<Rightarrow> TrainSaveRequest \<Rightarrow> bool" where
  "keeps_carrier js jt disk r \<longleftrightarrow> tsr_preserve_existing_fields r \<and>
     (\<exists>old. parseJsonFile js (disk_files jt disk) (tsr_file r) = Inr old \<and> \<not> member_absent js old ''carrier'')"

definition loadable :: "FleetRegistry \<Rightarrow> path \<Rightarrow> TrainSaveRequest \<Rightarrow> bool" where
  "loadable reg dir r \<longleftrightarrow> engine_category (tsr_file r) (tsr_train_category r) dir \<and>
     (\<forall>u \<in> set (tsr_vehicle_uids r). um_find (fr_vehicles reg) u \<noteq> None) \<and>
     carrier_known reg (tsr_carrier_id r) \<and> um_find (fr_consists reg) (tsr_uid r) = None"

lemma saved_document:
  assumes laws: "edit_laws plain js je jt" and saved: "saveTrain js je jt r disk = (disk', Inr uid)"
    and readable: "\<not> dk_unreadable disk (tsr_file r)"
  obtains doc where "parse_json_file (disk_files jt disk') (tsr_file r) = Inr doc" "parseTrain js (tsr_file r) doc = Inr (saved_train r)"
    "member_absent js doc ''carrier'' \<longleftrightarrow> \<not> keeps_carrier js jt disk r" "tsr_vehicle_uids r \<noteq> []"
proof -
  obtain base doc t where
    base: "loadBaseDocument js je (disk_files jt disk) (tsr_file r) (tsr_preserve_existing_fields r) = Inr base"
    and doc: "um_find (dk_files disk') (tsr_file r) = Some t" "jt_parse jt t = Inr doc"
    and parsed: "parseTrain js (tsr_file r) doc = Inr (saved_train r)"
    and kept: "\<forall>k. k \<notin> train_members \<longrightarrow> j_at js doc k = j_at js base k" and some: "tsr_vehicle_uids r \<noteq> []"
    using saved_train_on_disk(1) [OF laws saved] by (auto elim!: train_document_Inr)
  have "j_at js doc ''carrier'' = j_at js base ''carrier''" using kept by (simp add: train_members_def)
  then have "member_absent js doc ''carrier'' \<longleftrightarrow> member_absent js base ''carrier''"
    by (simp add: absent_at [OF edit_json [OF laws]])
  moreover have "member_absent js base ''carrier''" if "\<not> keeps_carrier js jt disk r"
    using base_has_no_carrier [OF laws base readable] that unfolding keeps_carrier_def by blast
  moreover have "\<not> member_absent js base ''carrier''" if keeps: "keeps_carrier js jt disk r"
  proof -
    from keeps obtain old where old: "parseJsonFile js (disk_files jt disk) (tsr_file r) = Inr old" "\<not> member_absent js old ''carrier''"
      and preserve: "tsr_preserve_existing_fields r" by (auto simp: keeps_carrier_def)
    with base base_document_kept [OF old(1), of je True] show ?thesis by simp
  qed
  moreover have "parse_json_file (disk_files jt disk') (tsr_file r) = Inr doc"
    using doc readable saved_train_on_disk(3) [OF laws saved] by (simp add: parse_json_file_def disk_files_def)
  ultimately show thesis using that parsed some by blast
qed

text \<open>
  C34.  A consist that was saved by the editor is loaded by the engine exactly when its category is one the
  engine knows and fits the folder of the file, its vehicles and carrier are known to the engine, no consist of
  that UID is loaded yet, and the file did not have the deprecated member \<^verbatim>\<open>carrier\<close>, which a save
  that preserves existing fields keeps.  The engine then has, beside the others, a consist with the UID, number,
  category, carrier and vehicles that were entered, in their order.
\<close>

theorem saved_consist_is_loaded_by_engine:
  assumes laws: "edit_laws plain js je jt" and saved: "saveTrain js je jt r disk = (disk', Inr uid)"
    and readable: "\<not> dk_unreadable disk (tsr_file r)"
  shows "((\<exists>reg'. load_consist js (disk_files jt disk') dir (tsr_file r) reg = Inr reg') \<longleftrightarrow>
      loadable reg dir r \<and> \<not> keeps_carrier js jt disk r) \<and>
    (loadable reg dir r \<and> \<not> keeps_carrier js jt disk r \<longrightarrow>
      (\<exists>c. load_consist js (disk_files jt disk') dir (tsr_file r) reg =
          Inr (reg\<lparr>fr_consists := um_emplace (tsr_uid r) c (fr_consists reg)\<rparr>) \<and>
        con_uid c = tsr_uid r \<and> con_pid c = tsr_pid r \<and>
        parse_train_category (tsr_train_category r) (tsr_file r) = Inr (con_train_category c) \<and>
        con_carrier_id c = tsr_carrier_id r \<and> con_vehicle_uids c = tsr_vehicle_uids r))"
proof -
  have js: "json_laws js" using laws by (rule edit_json)
  obtain doc where doc: "parse_json_file (disk_files jt disk') (tsr_file r) = Inr doc"
    and parsed: "parseTrain js (tsr_file r) doc = Inr (saved_train r)"
    and carrier: "member_absent js doc ''carrier'' \<longleftrightarrow> \<not> keeps_carrier js jt disk r" and some: "tsr_vehicle_uids r \<noteq> []"
    by (rule saved_document [OF laws saved readable])
  have fields: "tt_train_category (saved_train r) = tsr_train_category r" "tt_vehicle_uids (saved_train r) = tsr_vehicle_uids r"
    "tt_carrier_id (saved_train r) = tsr_carrier_id r" "tt_uid (saved_train r) = tsr_uid r" "tt_pid (saved_train r) = tsr_pid r"
    by (simp_all add: saved_train_def)
  have loads: "\<exists>c. load_consist js (disk_files jt disk') dir (tsr_file r) reg =
          Inr (reg\<lparr>fr_consists := um_emplace (tsr_uid r) c (fr_consists reg)\<rparr>) \<and>
        con_uid c = tsr_uid r \<and> con_pid c = tsr_pid r \<and>
        parse_train_category (tsr_train_category r) (tsr_file r) = Inr (con_train_category c) \<and>
        con_carrier_id c = tsr_carrier_id r \<and> con_vehicle_uids c = tsr_vehicle_uids r"
    if ok: "loadable reg dir r" "\<not> keeps_carrier js jt disk r"
  proof -
    obtain cat where cat: "parse_train_category (tsr_train_category r) (tsr_file r) = Inr cat"
      "category_from_folder (tsr_file r) dir \<in> {None, Some cat}"
      using ok(1) by (auto simp: loadable_def engine_category_def)
    with engine_reads_train [OF js parsed, of cat dir reg] ok carrier some obtain c where
      "read_consist js reg dir (tsr_file r) doc = Inr c" "con_uid c = tsr_uid r" "con_pid c = tsr_pid r"
      "con_train_category c = cat" "con_carrier_id c = tsr_carrier_id r" "con_vehicle_uids c = tsr_vehicle_uids r"
      by (auto simp: fields loadable_def)
    then show ?thesis using ok(1) doc cat by (intro exI [of _ c]) (simp add: load_consist_def loadable_def)
  qed
  have "loadable reg dir r \<and> \<not> keeps_carrier js jt disk r" if "load_consist js (disk_files jt disk') dir (tsr_file r) reg = Inr reg'" for reg'
  proof -
    from that obtain c where read: "read_consist js reg dir (tsr_file r) doc = Inr c" and new: "um_find (fr_consists reg) (con_uid c) = None"
      by (auto simp: load_consist_def doc and_then_Inr split: if_splits)
    have "con_uid c = tsr_uid r" using read_consist_uid [OF js parsed read] by (simp add: fields)
    with engine_needs [OF js parsed read] new carrier show ?thesis by (simp add: fields loadable_def)
  qed
  with loads show ?thesis by blast
qed

definition sample_unit_vehicle :: Vehicle where
  "sample_unit_vehicle = \<lparr>veh_uid = 0x010200010001, veh_pid = ''ET22'', veh_type_uid = 0x010100010001, veh_display_name = ''ET22'',
     veh_vehicle_type = ''LOCOMOTIVE'', veh_vehicle_subtype = ''ELECTRIC'', veh_length_m = 19, veh_axle_count = 6,
     veh_mass_empty_t = 120, veh_effective_mass_t = 120, veh_max_speed_kmh = 125, veh_braking_lambda_pct = 70,
     veh_power_kw = None, veh_traction_force_kn = None, veh_traction_capable = True, veh_traction_status = None,
     veh_multiple_coupling_capable = None, veh_davis = davis 0 0 0\<rparr>"

theorem saved_consist_is_loaded_by_engine_witness:
  "\<exists>disk' c. saveTrain json_tree json_tree_edit json_tree_text sample_train_request sample_disk = (disk', Inr 0x010300010001) \<and>
     load_consist json_tree (disk_files json_tree_text disk') [''data'', ''trains''] [''data'', ''trains'', ''t.json'']
         (empty_registry\<lparr>fr_vehicles := [(0x010200010001, sample_unit_vehicle)]\<rparr>) =
       Inr (empty_registry\<lparr>fr_vehicles := [(0x010200010001, sample_unit_vehicle)], fr_consists := [(0x010300010001, c)]\<rparr>) \<and>
     con_vehicle_uids c = [0x010200010001]"
proof -
  let ?reg = "empty_registry\<lparr>fr_vehicles := [(0x010200010001, sample_unit_vehicle)]\<rparr>"
  obtain disk' where d: "saveTrain json_tree json_tree_edit json_tree_text sample_train_request sample_disk =
      (disk', Inr 0x010300010001)" using sample_train_saved by blast
  have r: "tsr_file sample_train_request = [''data'', ''trains'', ''t.json'']" "tsr_uid sample_train_request = 0x010300010001"
    "tsr_train_category sample_train_request = ''FREIGHT''" "tsr_vehicle_uids sample_train_request = [0x010200010001]"
    "tsr_carrier_id sample_train_request = None"
    by (simp_all add: sample_train_request_def)
  have old: "member_absent json_tree old ''carrier''"
    if "parseJsonFile json_tree (disk_files json_tree_text sample_disk) (tsr_file sample_train_request) = Inr old" for old
    using that by (auto simp: r parseJsonFile_def disk_files_def sample_disk_def um_find_Cons json_tree_text_def json_tree_def
        member_absent_def split: if_splits)
  have "category_from_folder (tsr_file sample_train_request) [''data'', ''trains''] = None"
    "parse_train_category (tsr_train_category sample_train_request) (tsr_file sample_train_request) = Inr FREIGHT"
    unfolding r by (simp_all add: parse_train_category_def) code_simp
  then have "engine_category (tsr_file sample_train_request) (tsr_train_category sample_train_request) [''data'', ''trains'']"
    by (simp add: engine_category_def)
  then have "loadable ?reg [''data'', ''trains''] sample_train_request"
    by (simp add: loadable_def r carrier_known_def um_find_Cons empty_registry_def)
  moreover have "\<not> keeps_carrier json_tree json_tree_text sample_disk sample_train_request"
    using old by (auto simp: keeps_carrier_def)
  ultimately have "loadable ?reg [''data'', ''trains''] sample_train_request \<and>
      \<not> keeps_carrier json_tree json_tree_text sample_disk sample_train_request" by blast
  with saved_consist_is_loaded_by_engine [OF json_tree_edit_laws d, of "[''data'', ''trains'']" ?reg]
  obtain c where c: "load_consist json_tree (disk_files json_tree_text disk') [''data'', ''trains''] (tsr_file sample_train_request) ?reg =
      Inr (?reg\<lparr>fr_consists := um_emplace (tsr_uid sample_train_request) c (fr_consists ?reg)\<rparr>)"
    "con_vehicle_uids c = tsr_vehicle_uids sample_train_request"
    by (auto simp: r sample_disk_def carrier_known_def um_find_Cons empty_registry_def)
  then show ?thesis using d by (intro exI [of _ disk'] exI [of _ c]) (simp add: r um_emplace_def empty_registry_def)
qed

section \<open>A new vehicle in the place of another\<close>

text \<open>
  The folder of a new vehicle is made from its side number, in lower case and with \<^verbatim>\<open>_\<close> for every other
  character.  When the folder of another vehicle has that name, the file of that vehicle is replaced: nothing
  asks whether it exists, and none of its members are kept.
\<close>

theorem new_vehicle_replaces_other:
  assumes laws: "edit_laws plain js je jt" and new: "vd_original_vehicle d = None"
    and saved: "saveToDirectory js je jt qt dir d (reg, disk) = (d', (reg', disk'), Inr p)"
    and readable: "\<not> dk_unreadable disk p"
  shows "p = dir @ [safeDirectoryName qt (vd_side_number_field d), ''vehicle.json''] \<and>
    (\<exists>v. loadVehicle js (disk_files jt disk') p = Inr v \<and> tv_pid v = qt_trimmed qt (vd_side_number_field d) \<and>
       tv_uid v = vd_proposed_uid d' \<and> tv_length_m v = None \<and> tv_max_speed_kmh v = None)"
proof -
  let ?p = "dir @ [safeDirectoryName qt (vd_side_number_field d), ''vehicle.json'']"
  obtain d1 carrier where d1: "propose_uid reg d = Inr d1" and p: "p = ?p" and d': "d' = d1\<lparr>vd_saved_file := ?p\<rparr>"
    and v: "saveVehicle js je jt (vehicle_request qt d1 ?p carrier) disk = (disk', Inr ?p)"
  proof -
    have "\<exists>d1 carrier saved. propose_uid reg d = Inr d1 \<and> p = saved \<and> d' = d1\<lparr>vd_saved_file := saved\<rparr> \<and>
      saveVehicle js je jt (vehicle_request qt d1 ?p carrier) disk = (disk', Inr saved)"
      using saved by (auto simp: saveToDirectory_def saveToFile_def split: if_splits sum.splits prod.splits)
    moreover have "saved = ?p" if "saveVehicle js je jt (vehicle_request qt d1 ?p carrier) disk = (disk', Inr saved)" for d1 carrier saved
      using that by (auto simp: saveVehicle_def vehicle_request_def Let_def and_then_Inr split: sum.splits prod.splits)
    ultimately show thesis using that by blast
  qed
  have same: "vd_side_number_field d1 = vd_side_number_field d" "vd_original_vehicle d1 = None"
    using d1 new by (cases "generate reg ROLLING_STOCK VEHICLE (uid_scope (tvt_uid (vd_type d))) (uid_instance (vd_proposed_uid d))";
        auto simp: propose_uid_def split: if_splits)+
  let ?r = "vehicle_request qt d1 ?p carrier"
  have r: "vsr_file ?r = ?p" "\<not> vsr_preserve_existing_fields ?r" "vsr_uid ?r = vd_proposed_uid d1"
    "vsr_pid ?r = qt_trimmed qt (vd_side_number_field d)"
    by (simp_all add: vehicle_request_def Let_def same)
  have "loadVehicle js (disk_files jt disk') ?p = Inr (edited_vehicle ?r (new_vehicle ?p))"
    using saved_vehicle_reads(2) [OF laws v] readable p by (simp add: r)
  then show ?thesis using p by (intro conjI exI [of _ "edited_vehicle ?r (new_vehicle ?p)"])
      (simp_all add: edited_vehicle_def new_vehicle_def r d')
qed

end
