(* ===== verification/Editor_Window.thy ===== *)
theory Editor_Window
  imports Editor_Properties
begin

text \<open>
  The window of the vehicle browser with its tables: \<^verbatim>\<open>vehicle_type_panel.cpp\<close>,
  \<^verbatim>\<open>vehicle_panel.cpp\<close> and \<^verbatim>\<open>main_window.cpp\<close> of
  \<^verbatim>\<open>tools/vehicle-browser/ui/\<close>, and the vehicle dialog as the window runs it.  A table is the row of
  its model that is current.  Which row that becomes when the user clicks, sorts or types a filter is
  decided by Qt and is an argument here.  Resetting a model leaves its table without a current row, and
  the selection model of Qt emits no signal then.
\<close>

section \<open>The dialog while it is open\<close>

datatype DialogEdit =
    EditSideNumber string
  | EditDisplayName string
  | EditCarrier string
  | EditInventory string
  | EditNotes string
  | PressSave "path option"

text \<open>What the window gets from outside: the JSON library, the text functions of Qt, the directories of
  a disk, and the working directory.\<close>

record ('j, 't) BrowserEnv =
  be_json :: "'j Json"
  be_edit :: "'j JsonEdit"
  be_text :: "('j, 't) JsonText"
  be_qt :: QtText
  be_tfs :: "'t Disk \<Rightarrow> 'j ToolFs"
  be_current_path :: path

definition setDisplayName ::
    "QtText \<Rightarrow> UidRegistry \<Rightarrow> string \<Rightarrow> VehicleEditDialog \<Rightarrow> generator_error + VehicleEditDialog" where
  "setDisplayName qt reg text d =
    (if text = vd_display_name_field d then Inr d
     else updateSaveState qt reg (d\<lparr>vd_display_name_field := text\<rparr>))"

text \<open>\<^verbatim>\<open>QDialog::exec\<close>: the user's edits until the dialog is accepted or, at the end of the list,
  dismissed.  A slot may throw what the generator throws.\<close>

fun dialog_exec ::
    "('j, 't) BrowserEnv \<Rightarrow> DialogEdit list \<Rightarrow> VehicleEditDialog \<Rightarrow> UidRegistry \<times> 't Disk \<Rightarrow>
      generator_error + VehicleEditDialog \<times> (UidRegistry \<times> 't Disk) \<times> bool" where
  "dialog_exec env [] d st = Inr (d, st, False)"
| "dialog_exec env (EditSideNumber s # es) d st =
     and_then (setSideNumber (be_qt env) (fst st) s d) (\<lambda>d'. dialog_exec env es d' st)"
| "dialog_exec env (EditDisplayName s # es) d st =
     and_then (setDisplayName (be_qt env) (fst st) s d) (\<lambda>d'. dialog_exec env es d' st)"
| "dialog_exec env (EditCarrier s # es) d st = dialog_exec env es (d\<lparr>vd_carrier_uid_field := s\<rparr>) st"
| "dialog_exec env (EditInventory s # es) d st = dialog_exec env es (d\<lparr>vd_inventory_number_field := s\<rparr>) st"
| "dialog_exec env (EditNotes s # es) d st = dialog_exec env es (d\<lparr>vd_notes_field := s\<rparr>) st"
| "dialog_exec env (PressSave chosen # es) d st =
     (if \<not> vd_save_enabled d then dialog_exec env es d st
      else case dialog_save (be_json env) (be_edit env) (be_text env) (be_qt env) chosen d st of
             (d', st', Saved _ _) \<Rightarrow> Inr (d', st', True)
           | (d', st', _) \<Rightarrow> dialog_exec env es d' st')"

section \<open>The window\<close>

datatype BrowserNotice =
    SelectTypeFirst
  | VehicleNotFound
  | VehicleTypeMissing
  | VehicleCreated path
  | VehicleChanged path

record 't BrowserWindow =
  bw_main :: MainWindow
  bw_type_row :: "int option"
  bw_vehicle_row :: "int option"
  bw_new_enabled :: bool
  bw_edit_enabled :: bool
  bw_add_enabled :: bool
  bw_notices :: "BrowserNotice list"
  bw_disk :: "'t Disk"

definition selectedVehicleType :: "'t BrowserWindow \<Rightarrow> ToolVehicleType option" where
  "selectedVehicleType w =
     (case bw_type_row w of None \<Rightarrow> None | Some r \<Rightarrow> vehicleTypeAt (mw_vehicle_type_model (bw_main w)) r)"

definition selectedVehicle :: "'t BrowserWindow \<Rightarrow> ToolVehicle option" where
  "selectedVehicle w =
     (case bw_vehicle_row w of None \<Rightarrow> None | Some r \<Rightarrow> vehicleAt (mw_vehicle_model (bw_main w)) r)"

definition vehicle_updateActionState :: "'t BrowserWindow \<Rightarrow> 't BrowserWindow" where
  "vehicle_updateActionState w =
    (let has_selection = selectedVehicle w \<noteq> None
     in w\<lparr>bw_edit_enabled := has_selection, bw_add_enabled := has_selection\<rparr>)"

text \<open>\<open>set_filter\<close> resets the model of the vehicles.\<close>

definition set_filter :: "UID option \<Rightarrow> 't BrowserWindow \<Rightarrow> 't BrowserWindow" where
  "set_filter type_uid w =
     vehicle_updateActionState
       (w\<lparr>bw_main := (bw_main w)\<lparr>mw_vehicle_model := setFilterVehicleType type_uid (mw_vehicle_model (bw_main w))\<rparr>,
          bw_vehicle_row := None\<rparr>)"

definition filterByVehicleType :: "UID \<Rightarrow> 't BrowserWindow \<Rightarrow> 't BrowserWindow" where
  "filterByVehicleType type_uid w = set_filter (Some type_uid) w"

definition clearVehicleTypeFilter :: "'t BrowserWindow \<Rightarrow> 't BrowserWindow" where
  "clearVehicleTypeFilter w = set_filter None w"

definition setCanCreateVehicle :: "bool \<Rightarrow> 't BrowserWindow \<Rightarrow> 't BrowserWindow" where
  "setCanCreateVehicle enabled w = w\<lparr>bw_new_enabled := enabled\<rparr>"

definition emitSelection :: "'t BrowserWindow \<Rightarrow> 't BrowserWindow" where
  "emitSelection w =
    (case selectedVehicleType w of
       None \<Rightarrow> setCanCreateVehicle False (clearVehicleTypeFilter w)
     | Some type \<Rightarrow> setCanCreateVehicle True (filterByVehicleType (tvt_uid type) w))"

text \<open>The selection of a table changes, with the row that is current then.\<close>

definition type_selection_changed :: "int option \<Rightarrow> 't BrowserWindow \<Rightarrow> 't BrowserWindow" where
  "type_selection_changed row w = emitSelection (w\<lparr>bw_type_row := row\<rparr>)"

definition vehicle_selection_changed :: "int option \<Rightarrow> 't BrowserWindow \<Rightarrow> 't BrowserWindow" where
  "vehicle_selection_changed row w = vehicle_updateActionState (w\<lparr>bw_vehicle_row := row\<rparr>)"

definition notify :: "BrowserNotice \<Rightarrow> 't BrowserWindow \<Rightarrow> 't BrowserWindow" where
  "notify n w = w\<lparr>bw_notices := bw_notices w @ [n]\<rparr>"

subsection \<open>Loading\<close>

text \<open>When the data has been loaded, both models are reset.\<close>

definition models_reset :: "bool \<Rightarrow> 't BrowserWindow \<Rightarrow> 't BrowserWindow" where
  "models_reset loaded w =
    (if loaded then vehicle_updateActionState (w\<lparr>bw_type_row := None, bw_vehicle_row := None\<rparr>) else w)"

definition browser_loadPackages :: "('j, 't) BrowserEnv \<Rightarrow> 't BrowserWindow \<Rightarrow> 't BrowserWindow" where
  "browser_loadPackages env w =
    (let tfs = be_tfs env (bw_disk w)
     in models_reset (\<not> isl (loadPackages (be_json env) tfs (be_current_path env @ [''packages''])))
          (w\<lparr>bw_main := window_loadPackages (be_qt env) (be_json env) tfs (be_current_path env) (bw_main w)\<rparr>))"

definition browser_loadDirectory :: "('j, 't) BrowserEnv \<Rightarrow> path \<Rightarrow> 't BrowserWindow \<Rightarrow> 't BrowserWindow" where
  "browser_loadDirectory env directory w =
    (let tfs = be_tfs env (bw_disk w)
     in models_reset (\<not> isl (loadDirectory (be_json env) tfs directory))
          (w\<lparr>bw_main := window_loadDirectory (be_qt env) (be_json env) tfs directory (bw_main w)\<rparr>))"

definition browser_reload :: "('j, 't) BrowserEnv \<Rightarrow> 't BrowserWindow \<Rightarrow> 't BrowserWindow" where
  "browser_reload env w =
    (if mw_packages_mode (bw_main w) then browser_loadPackages env w
     else browser_loadDirectory env (mw_active_source_root (bw_main w)) w)"

subsection \<open>The dialogs\<close>

text \<open>An exception that leaves a slot ends the program: the left side.\<close>

definition window_dialog ::
    "('j, 't) BrowserEnv \<Rightarrow> DialogEdit list \<Rightarrow> (path \<Rightarrow> BrowserNotice) \<Rightarrow> VehicleEditDialog \<Rightarrow> 't BrowserWindow \<Rightarrow>
      generator_error + 't BrowserWindow" where
  "window_dialog env edits notice d w =
     map_sum id (\<lambda>(d', (reg', disk'), accepted).
         let w' = w\<lparr>bw_main := (bw_main w)\<lparr>mw_registry := reg'\<rparr>, bw_disk := disk'\<rparr>
         in if accepted then notify (notice (vd_saved_file d')) (browser_reload env w') else w')
       (dialog_exec env edits d (mw_registry (bw_main w), bw_disk w))"

definition createVehicle ::
    "('j, 't) BrowserEnv \<Rightarrow> DialogEdit list \<Rightarrow> 't BrowserWindow \<Rightarrow> generator_error + 't BrowserWindow" where
  "createVehicle env edits w =
    (case selectedVehicleType w of
       None \<Rightarrow> Inr (notify SelectTypeFirst w)
     | Some type \<Rightarrow>
         and_then (new_vehicle_dialog (be_qt env) (mw_registry (bw_main w)) type
             (mw_active_source_root (bw_main w) @ [''vehicles'']))
           (\<lambda>d. window_dialog env edits VehicleCreated d w))"

definition findVehicleType :: "ToolVehicleType list \<Rightarrow> UID \<Rightarrow> ToolVehicleType option" where
  "findVehicleType types uid = find (\<lambda>t. tvt_uid t = uid) types"

definition editVehicle ::
    "('j, 't) BrowserEnv \<Rightarrow> UID \<Rightarrow> DialogEdit list \<Rightarrow> 't BrowserWindow \<Rightarrow> generator_error + 't BrowserWindow" where
  "editVehicle env vehicle_uid edits w =
    (case findVehicle (bd_vehicles (mw_data (bw_main w))) vehicle_uid of
       None \<Rightarrow> Inr (notify VehicleNotFound w)
     | Some v \<Rightarrow>
         (case findVehicleType (bd_vehicle_types (mw_data (bw_main w))) (tv_type_uid v) of
            None \<Rightarrow> Inr (notify VehicleTypeMissing w)
          | Some type \<Rightarrow>
              and_then (edit_vehicle_dialog (be_qt env) (mw_registry (bw_main w)) v type)
                (\<lambda>d. window_dialog env edits VehicleChanged d w)))"

text \<open>The buttons of the panel; a double click on a row reaches \<^verbatim>\<open>editSelectedVehicle\<close>, too, and the
  toolbar reaches \<^verbatim>\<open>createVehicle\<close> without the button.\<close>

definition addSelectedVehicle :: "'t BrowserWindow \<Rightarrow> 't BrowserWindow" where
  "addSelectedVehicle w =
    (case selectedVehicle w of
       None \<Rightarrow> w
     | Some v \<Rightarrow> w\<lparr>bw_main := addSelectedVehicleToTrain (tv_uid v) (bw_main w)\<rparr>)"

definition editSelectedVehicle ::
    "('j, 't) BrowserEnv \<Rightarrow> DialogEdit list \<Rightarrow> 't BrowserWindow \<Rightarrow> generator_error + 't BrowserWindow" where
  "editSelectedVehicle env edits w =
    (case selectedVehicle w of None \<Rightarrow> Inr w | Some v \<Rightarrow> editVehicle env (tv_uid v) edits w)"

text \<open>The train builder saves into the registry and the disk of the window, and a saved train reloads the data.\<close>

definition builder_save ::
    "('j, 't) BrowserEnv \<Rightarrow> bool \<Rightarrow> path option \<Rightarrow> 't BrowserWindow \<Rightarrow> 't BrowserWindow" where
  "builder_save env save_as chosen w =
    (case saveCurrent (be_json env) (be_edit env) (be_text env) (be_qt env) save_as chosen (mw_train_builder (bw_main w))
            (mw_registry (bw_main w), bw_disk w) of
       ((reg', disk'), res) \<Rightarrow>
         (let w' = w\<lparr>bw_main := (bw_main w)\<lparr>mw_registry := reg'\<rparr>, bw_disk := disk'\<rparr>
          in case res of Saved _ _ \<Rightarrow> browser_reload env w' | _ \<Rightarrow> w'))"

section \<open>Runs of the window\<close>

definition new_browser_window ::
    "('j, 't) BrowserEnv \<Rightarrow> path option \<Rightarrow> TrainBuilderPanel \<Rightarrow> 't Disk \<Rightarrow> 't BrowserWindow" where
  "new_browser_window env data_directory builder disk =
    (let w = \<lparr>bw_main = \<lparr>mw_data = \<lparr>bd_vehicle_types = [], bd_vehicles = [], bd_trains = []\<rparr>, mw_vehicle_type_model = [],
                mw_vehicle_model = empty_vehicle_model, mw_train_builder = builder, mw_registry = [],
                mw_active_source_root = [], mw_packages_mode = True\<rparr>,
              bw_type_row = None, bw_vehicle_row = None, bw_new_enabled = False, bw_edit_enabled = False,
              bw_add_enabled = False, bw_notices = [], bw_disk = disk\<rparr>
     in case data_directory of
          Some d \<Rightarrow> browser_loadDirectory env d w
        | None \<Rightarrow> browser_loadPackages env w)"

text \<open>Everything the user can do; what the train builder does inside is left open, and other programs
  may write the disk.\<close>

inductive browser_run :: "('j, 't) BrowserEnv \<Rightarrow> 't BrowserWindow \<Rightarrow> bool" for env where
  br_open: "browser_run env (new_browser_window env data_directory builder disk)"
| br_type: "browser_run env w \<Longrightarrow> browser_run env (type_selection_changed row w)"
| br_vehicle: "browser_run env w \<Longrightarrow> browser_run env (vehicle_selection_changed row w)"
| br_add: "browser_run env w \<Longrightarrow> browser_run env (addSelectedVehicle w)"
| br_edit: "browser_run env w \<Longrightarrow> editSelectedVehicle env edits w = Inr w' \<Longrightarrow> browser_run env w'"
| br_create: "browser_run env w \<Longrightarrow> createVehicle env edits w = Inr w' \<Longrightarrow> browser_run env w'"
| br_directory: "browser_run env w \<Longrightarrow> browser_run env (browser_loadDirectory env d w)"
| br_reload: "browser_run env w \<Longrightarrow> browser_run env (browser_reload env w)"
| br_save: "browser_run env w \<Longrightarrow> browser_run env (builder_save env save_as chosen w)"
| br_builder: "browser_run env w \<Longrightarrow> browser_run env (w\<lparr>bw_main := (bw_main w)\<lparr>mw_train_builder := builder\<rparr>\<rparr>)"
| br_disk: "browser_run env w \<Longrightarrow> browser_run env (w\<lparr>bw_disk := disk\<rparr>)"

text \<open>The models hold the loaded data, the rows of the vehicles are those of the filter, and the two
  buttons are enabled when a vehicle is selected.\<close>

definition browser_ok :: "'t BrowserWindow \<Rightarrow> bool" where
  "browser_ok w \<longleftrightarrow>
     rebuildVisibleRows (mw_vehicle_model (bw_main w)) = mw_vehicle_model (bw_main w) \<and>
     vm_vehicles (mw_vehicle_model (bw_main w)) = bd_vehicles (mw_data (bw_main w)) \<and>
     mw_vehicle_type_model (bw_main w) = bd_vehicle_types (mw_data (bw_main w)) \<and>
     (bw_edit_enabled w \<longleftrightarrow> selectedVehicle w \<noteq> None) \<and> (bw_add_enabled w \<longleftrightarrow> selectedVehicle w \<noteq> None)"

lemma rebuild_rows_again [simp]: "rebuildVisibleRows (rebuildVisibleRows m) = rebuildVisibleRows m"
  by (simp add: rebuildVisibleRows_def)

lemma rebuild_vehicles [simp]: "vm_vehicles (rebuildVisibleRows m) = vm_vehicles m"
  by (simp add: rebuildVisibleRows_def)

lemma selected_action_state [simp]: "selectedVehicle (vehicle_updateActionState w) = selectedVehicle w"
  by (simp add: selectedVehicle_def vehicle_updateActionState_def Let_def cong: option.case_cong)

lemma action_state_ok:
  "browser_ok (vehicle_updateActionState w) \<longleftrightarrow>
     rebuildVisibleRows (mw_vehicle_model (bw_main w)) = mw_vehicle_model (bw_main w) \<and>
     vm_vehicles (mw_vehicle_model (bw_main w)) = bd_vehicles (mw_data (bw_main w)) \<and>
     mw_vehicle_type_model (bw_main w) = bd_vehicle_types (mw_data (bw_main w))"
proof -
  have "bw_main (vehicle_updateActionState w) = bw_main w"
    "bw_edit_enabled (vehicle_updateActionState w) \<longleftrightarrow> selectedVehicle w \<noteq> None"
    "bw_add_enabled (vehicle_updateActionState w) \<longleftrightarrow> selectedVehicle w \<noteq> None"
    by (simp_all add: vehicle_updateActionState_def Let_def)
  then show ?thesis by (simp add: browser_ok_def)
qed

lemma browser_ok_frame:
  assumes "browser_ok w" and "mw_data (bw_main w') = mw_data (bw_main w)"
    and "mw_vehicle_model (bw_main w') = mw_vehicle_model (bw_main w)"
    and "mw_vehicle_type_model (bw_main w') = mw_vehicle_type_model (bw_main w)"
    and "bw_vehicle_row w' = bw_vehicle_row w" and "bw_edit_enabled w' = bw_edit_enabled w"
    and "bw_add_enabled w' = bw_add_enabled w"
  shows "browser_ok w'"
  using assms by (simp add: browser_ok_def selectedVehicle_def cong: option.case_cong)

lemma set_filter_ok: "browser_ok w \<Longrightarrow> browser_ok (set_filter t w)"
  by (simp add: set_filter_def action_state_ok setFilterVehicleType_def)
    (simp add: browser_ok_def)

lemma can_create_ok [simp]: "browser_ok (setCanCreateVehicle b w) = browser_ok w"
  by (simp add: browser_ok_def setCanCreateVehicle_def selectedVehicle_def cong: option.case_cong)

lemma notify_ok [simp]: "browser_ok (notify n w) = browser_ok w"
  by (simp add: browser_ok_def notify_def selectedVehicle_def cong: option.case_cong)

lemma type_selection_ok: "browser_ok w \<Longrightarrow> browser_ok (type_selection_changed row w)"
  using browser_ok_frame [of w "w\<lparr>bw_type_row := row\<rparr>"]
  by (simp add: type_selection_changed_def emitSelection_def clearVehicleTypeFilter_def filterByVehicleType_def set_filter_ok
      split: option.split)

lemma applied_ok:
  "browser_ok (vehicle_updateActionState (w\<lparr>bw_main := applyData qt data m, bw_type_row := None, bw_vehicle_row := None\<rparr>))"
  by (simp add: action_state_ok applyData_def setVehicles_def setVehicleTypes_def)

lemma browser_load_ok:
  assumes "browser_ok w"
  shows "browser_ok (browser_loadDirectory env d w)" "browser_ok (browser_loadPackages env w)" "browser_ok (browser_reload env w)"
proof -
  show dir: "browser_ok (browser_loadDirectory env d w)" for d
    using assms applied_ok
    by (auto simp: browser_loadDirectory_def window_loadDirectory_def models_reset_def Let_def
        intro: browser_ok_frame split: sum.split)
  show pkg: "browser_ok (browser_loadPackages env w)"
    using assms applied_ok
    by (auto simp: browser_loadPackages_def window_loadPackages_def models_reset_def Let_def
        intro: browser_ok_frame split: sum.split)
  show "browser_ok (browser_reload env w)" by (simp add: browser_reload_def dir pkg)
qed

lemma saved_state_ok:
  "browser_ok w \<Longrightarrow> browser_ok (w\<lparr>bw_main := (bw_main w)\<lparr>mw_registry := reg\<rparr>, bw_disk := disk\<rparr>)"
  by (rule browser_ok_frame) simp_all

lemma window_dialog_ok:
  assumes "browser_ok w" and "window_dialog env edits notice d w = Inr w'"
  shows "browser_ok w'"
  using assms by (auto simp: window_dialog_def Let_def map_sum_Inr browser_load_ok saved_state_ok split: if_splits)

lemma editor_dialogs_ok:
  assumes "browser_ok w"
  shows "createVehicle env edits w = Inr w' \<Longrightarrow> browser_ok w'" "editVehicle env u edits w = Inr w' \<Longrightarrow> browser_ok w'"
  using assms by (auto simp: createVehicle_def editVehicle_def and_then_Inr window_dialog_ok split: option.splits)

lemma addSelectedVehicle_ok: "browser_ok w \<Longrightarrow> browser_ok (addSelectedVehicle w)"
  by (auto simp: addSelectedVehicle_def addSelectedVehicleToTrain_def intro: browser_ok_frame split: option.split)

lemma builder_save_ok: "browser_ok w \<Longrightarrow> browser_ok (builder_save env save_as chosen w)"
  by (auto simp: builder_save_def Let_def browser_load_ok saved_state_ok split: prod.split save_outcome.split)

lemma new_browser_ok: "browser_ok (new_browser_window env data_directory builder disk)"
proof -
  have "rebuildVisibleRows empty_vehicle_model = empty_vehicle_model"
    by (simp add: rebuildVisibleRows_def empty_vehicle_model_def)
  then show ?thesis
    by (auto simp: new_browser_window_def Let_def intro!: browser_load_ok split: option.split)
      (simp_all add: browser_ok_def selectedVehicle_def empty_vehicle_model_def)
qed

text \<open>
  Whatever the user does, the tables show the loaded data under the filter, and the buttons for a vehicle
  are enabled exactly when a vehicle is selected.\<close>

lemma browser_stays_ok:
  assumes "browser_run env w"
  shows "browser_ok w"
  using assms
proof (induction rule: browser_run.induct)
  case (br_edit w edits w')
  then show ?case
    by (cases "selectedVehicle w") (simp_all add: editSelectedVehicle_def editor_dialogs_ok(2) [OF br_edit.IH])
next
  case (br_create w edits w')
  from br_create.IH br_create.hyps(2) show ?case by (rule editor_dialogs_ok(1))
next
  case (br_builder w builder)
  from br_builder.IH show ?case by (rule browser_ok_frame) simp_all
next
  case (br_disk w disk)
  from br_disk.IH show ?case by (rule browser_ok_frame) simp_all
next
  case (br_vehicle w row)
  then show ?case by (simp add: vehicle_selection_changed_def action_state_ok) (simp add: browser_ok_def)
qed (simp_all add: new_browser_ok type_selection_ok addSelectedVehicle_ok browser_load_ok builder_save_ok)

section \<open>Selected vehicles\<close>

text \<open>
  A vehicle that is selected is one of the loaded data and of the type in the filter; a click on
  \<^verbatim>\<open>Dodaj do skladu\<close> appends a vehicle with its UID to the consist, and that very vehicle when
  no other record has the UID.\<close>

lemma vehicleAt_visible:
  assumes "rebuildVisibleRows m = m" and "vehicleAt m r = Some v"
  shows "v \<in> set (vm_vehicles m)" "visible_vehicle (vm_filter_type_uid m) v"
proof -
  from assms(2) have r: "0 \<le> r" "r < int (length (vm_visible_rows m))" "v = vm_vehicles m ! (vm_visible_rows m ! nat r)"
    by (auto simp: vehicleAt_def split: if_splits)
  have rows: "vm_visible_rows m = vm_visible_rows (rebuildVisibleRows m)" using assms(1) by simp
  have "vm_visible_rows m ! nat r \<in> set (vm_visible_rows m)" using r by (intro nth_mem) linarith
  then have "vm_visible_rows m ! nat r < length (vm_vehicles m)"
    and "visible_vehicle (vm_filter_type_uid m) (vm_vehicles m ! (vm_visible_rows m ! nat r))"
    by (subst (asm) (2) rows, simp add: rebuildVisibleRows_def visible_vehicle_def)+
  then show "v \<in> set (vm_vehicles m)" "visible_vehicle (vm_filter_type_uid m) v" using r(3) by auto
qed

lemma add_appends_selected:
  assumes run: "browser_run env w" and enabled: "bw_add_enabled w"
  shows "\<exists>s v. selectedVehicle w = Some s \<and> visible_vehicle (vm_filter_type_uid (mw_vehicle_model (bw_main w))) s \<and>
    tb_model (mw_train_builder (bw_main (addSelectedVehicle w))) = tb_model (mw_train_builder (bw_main w)) @ [v] \<and>
    tv_uid v = tv_uid s \<and> (distinct (map tv_uid (bd_vehicles (mw_data (bw_main w)))) \<longrightarrow> v = s)"
proof -
  have ok: "browser_ok w" using run by (rule browser_stays_ok)
  then obtain s where s: "selectedVehicle w = Some s" using enabled by (auto simp: browser_ok_def)
  then obtain r where r: "vehicleAt (mw_vehicle_model (bw_main w)) r = Some s"
    by (auto simp: selectedVehicle_def split: option.splits)
  have m: "s \<in> set (bd_vehicles (mw_data (bw_main w)))"
    "visible_vehicle (vm_filter_type_uid (mw_vehicle_model (bw_main w))) s"
    using vehicleAt_visible [OF _ r] ok by (auto simp: browser_ok_def)
  obtain v where v: "findVehicle (bd_vehicles (mw_data (bw_main w))) (tv_uid s) = Some v"
    using m(1) by (cases "findVehicle (bd_vehicles (mw_data (bw_main w))) (tv_uid s)")
      (auto simp: findVehicle_def find_None_iff)
  have v': "v \<in> set (bd_vehicles (mw_data (bw_main w)))" "tv_uid v = tv_uid s"
    using v by (auto simp: findVehicle_def find_Some_iff)
  have "distinct (map tv_uid (bd_vehicles (mw_data (bw_main w)))) \<longrightarrow> v = s"
    using v' m(1) by (auto simp: distinct_map inj_on_def)
  with s m v v' show ?thesis
    by (simp add: addSelectedVehicle_def addSelectedVehicleToTrain_def appendVehicle_def)
qed

section \<open>The dialog saves what it shows\<close>

text \<open>A new vehicle has a UID of its type's scope; an edited one keeps its UID.\<close>

definition dialog_uid_ok :: "VehicleEditDialog \<Rightarrow> bool" where
  "dialog_uid_ok d \<longleftrightarrow>
     (case vd_original_vehicle d of
        Some v \<Rightarrow> vd_proposed_uid d = tv_uid v
      | None \<Rightarrow> uid_has_kind (vd_proposed_uid d) ROLLING_STOCK VEHICLE \<and>
          uid_scope (vd_proposed_uid d) = uid_scope (tvt_uid (vd_type d)))"

text \<open>What stays as it was while the dialog is open.\<close>

definition same_vehicle :: "VehicleEditDialog \<Rightarrow> VehicleEditDialog \<Rightarrow> bool" where
  "same_vehicle d d' \<longleftrightarrow>
     vd_type d' = vd_type d \<and> vd_original_vehicle d' = vd_original_vehicle d \<and> (dialog_uid_ok d \<longrightarrow> dialog_uid_ok d')"

lemma same_vehicle_refl [simp]: "same_vehicle d d"
  by (simp add: same_vehicle_def)

lemma same_vehicle_trans: "same_vehicle d d' \<Longrightarrow> same_vehicle d' d'' \<Longrightarrow> same_vehicle d d''"
  by (simp add: same_vehicle_def)

lemma same_vehicle_fields [simp]:
  "same_vehicle d (d\<lparr>vd_side_number_field := t\<rparr>)" "same_vehicle d (d\<lparr>vd_display_name_field := t\<rparr>)"
  "same_vehicle d (d\<lparr>vd_carrier_uid_field := t\<rparr>)" "same_vehicle d (d\<lparr>vd_inventory_number_field := t\<rparr>)"
  "same_vehicle d (d\<lparr>vd_notes_field := t\<rparr>)" "same_vehicle d (d\<lparr>vd_save_enabled := b\<rparr>)"
  "same_vehicle d (d\<lparr>vd_saved_file := p\<rparr>)"
  by (simp_all add: same_vehicle_def dialog_uid_ok_def cong: option.case_cong)

lemma propose_uid_same:
  assumes "propose_uid reg d = Inr d'"
  shows "same_vehicle d d'"
    "vd_original_vehicle d' = None \<Longrightarrow> \<not> registry_contains reg (vd_proposed_uid d')"
proof -
  show same: "same_vehicle d d'"
    using assms by (auto simp: propose_uid_def same_vehicle_def dialog_uid_ok_def map_sum_Inr uid_has_kind_def
        proposedUidIsAvailable_def split: if_splits option.splits elim!: generate_Inr)
  show "vd_original_vehicle d' = None \<Longrightarrow> \<not> registry_contains reg (vd_proposed_uid d')"
    using assms same by (auto simp: propose_uid_def same_vehicle_def map_sum_Inr isAvailable_def proposedUidIsAvailable_def
        split: if_splits elim!: generate_Inr)
qed

lemma updateSaveState_same: "updateSaveState qt reg d = Inr d' \<Longrightarrow> same_vehicle d d'"
  by (auto simp: updateSaveState_def intro: same_vehicle_trans [OF propose_uid_same(1)]
      split: sum.splits generator_error.splits)

lemma text_edits_same:
  "setSideNumber qt reg t d = Inr d' \<Longrightarrow> same_vehicle d d'" "setDisplayName qt reg t d = Inr d' \<Longrightarrow> same_vehicle d d'"
  by (auto simp: setSideNumber_def setDisplayName_def split: if_splits
      dest!: updateSaveState_same intro: same_vehicle_trans [OF same_vehicle_fields(1)] same_vehicle_trans [OF same_vehicle_fields(2)])

text \<open>What a dialog that ended with a saved file has done.\<close>

definition saved_dialog ::
    "('j, 't) BrowserEnv \<Rightarrow> UidRegistry \<Rightarrow> 't Disk \<Rightarrow> VehicleEditDialog \<Rightarrow> UidRegistry \<Rightarrow> 't Disk \<Rightarrow> bool" where
  "saved_dialog env reg disk d reg' disk' \<longleftrightarrow>
     (vd_original_vehicle d = None \<longrightarrow> \<not> registry_contains reg (vd_proposed_uid d) \<and>
        reg' = snd (registry_insert (vd_proposed_uid d) (vd_saved_file d) reg)) \<and>
     (vd_original_vehicle d \<noteq> None \<longrightarrow> reg' = reg) \<and>
     (\<exists>r. saveVehicle (be_json env) (be_edit env) (be_text env) r disk = (disk', Inr (vd_saved_file d)) \<and>
        vsr_uid r = vd_proposed_uid d \<and> vsr_type_uid r = tvt_uid (vd_type d) \<and>
        (vsr_preserve_existing_fields r \<longleftrightarrow> vd_original_vehicle d \<noteq> None))"

lemma saveToFile_result:
  assumes "saveToFile (be_json env) (be_edit env) (be_text env) qt p d (reg, disk) = (d', (reg', disk'), res)"
  shows "same_vehicle d d'" "\<exists>e. res = Inl e \<Longrightarrow> reg' = reg"
    "res = Inr q \<Longrightarrow> saved_dialog env reg disk d' reg' disk'"
  using assms
  by (auto simp: saveToFile_def saved_dialog_def vehicle_request_def Let_def
      dest: propose_uid_same intro: same_vehicle_trans [OF propose_uid_same(1)]
      split: if_splits sum.splits prod.splits)

lemma dialog_save_result:
  assumes "dialog_save (be_json env) (be_edit env) (be_text env) qt chosen d (reg, disk) = (d', (reg', disk'), res)"
  shows "same_vehicle d d'" "\<nexists>u q. res = Saved u q \<Longrightarrow> reg' = reg"
    "res = Saved u q \<Longrightarrow> saved_dialog env reg disk d' reg' disk'"
  using assms
  by (auto simp: dialog_save_def Let_def dest: saveToFile_result
      split: option.splits sum.splits prod.splits)

text \<open>
  A dialog that is accepted has saved a vehicle of its type.  A new vehicle has a UID of the kind and
  scope of its type that no loaded file mentions, and an edited one keeps the UID it had, whatever was
  typed and however often saving failed before.\<close>

lemma accepted_dialog_saved:
  assumes "dialog_exec env edits d (reg, disk) = Inr (d', (reg', disk'), True)"
  shows "same_vehicle d d' \<and> (\<exists>disk1. saved_dialog env reg disk1 d' reg' disk')"
  using assms
proof (induction edits arbitrary: d disk)
  case (Cons e es)
  show ?case
  proof (cases e)
    case (PressSave chosen)
    obtain d1 reg1 disk1 res where save: "dialog_save (be_json env) (be_edit env) (be_text env) (be_qt env) chosen d (reg, disk) =
      (d1, (reg1, disk1), res)" by (metis prod.exhaust)
    note r = dialog_save_result [OF save]
    show ?thesis
    proof (cases "vd_save_enabled d \<and> (\<exists>u q. res = Saved u q)")
      case True
      then show ?thesis using Cons.prems PressSave save r by auto
    next
      case False
      then show ?thesis
        using Cons.prems PressSave save r(1,2) Cons.IH [of d disk] Cons.IH [of d1 disk1]
        by (auto split: if_splits save_outcome.splits intro: same_vehicle_trans)
    qed
  qed (use Cons in \<open>auto simp: and_then_Inr intro: same_vehicle_trans [OF text_edits_same(1)]
        same_vehicle_trans [OF text_edits_same(2)] same_vehicle_trans [OF same_vehicle_fields(3)]
        same_vehicle_trans [OF same_vehicle_fields(4)] same_vehicle_trans [OF same_vehicle_fields(5)]\<close>)
qed simp

section \<open>Creating vehicles\<close>

lemma new_dialog_ok:
  assumes "new_vehicle_dialog qt reg type dir = Inr d"
  shows "dialog_uid_ok d" "vd_original_vehicle d = None" "vd_type d = type"
proof -
  obtain uid where uid: "generate reg ROLLING_STOCK VEHICLE (uid_scope (tvt_uid type)) 1 = Inr uid"
    and d: "updateSaveState qt reg (blank_dialog type None dir uid) = Inr d"
    using assms by (auto simp: new_vehicle_dialog_def and_then_Inr)
  have "dialog_uid_ok (blank_dialog type None dir uid)"
    by (rule generate_Inr [OF uid]) (simp add: dialog_uid_ok_def blank_dialog_def uid_has_kind_def)
  then show "dialog_uid_ok d" "vd_original_vehicle d = None" "vd_type d = type"
    using updateSaveState_same [OF d] by (auto simp: same_vehicle_def blank_dialog_def)
qed

lemma load_frame [simp]:
  "bw_notices (browser_loadDirectory env d w) = bw_notices w" "bw_disk (browser_loadDirectory env d w) = bw_disk w"
  "bw_notices (browser_loadPackages env w) = bw_notices w" "bw_disk (browser_loadPackages env w) = bw_disk w"
  "bw_notices (browser_reload env w) = bw_notices w" "bw_disk (browser_reload env w) = bw_disk w"
  by (simp_all add: browser_reload_def browser_loadDirectory_def browser_loadPackages_def models_reset_def
      vehicle_updateActionState_def Let_def)

lemma window_dialog_saved:
  assumes "window_dialog env edits notice d w = Inr w'" and "bw_notices w' \<noteq> bw_notices w"
  obtains d' reg' where "dialog_exec env edits d (mw_registry (bw_main w), bw_disk w) = Inr (d', (reg', bw_disk w'), True)"
    and "bw_notices w' = bw_notices w @ [notice (vd_saved_file d')]"
  using assms by (auto simp: window_dialog_def map_sum_Inr Let_def notify_def split: if_splits)

lemma saved_dialog_reads:
  assumes laws: "edit_laws plain (be_json env) (be_edit env) (be_text env)" and saved: "saved_dialog env reg disk d reg' disk'"
    and new: "vd_original_vehicle d = None" and readable: "\<not> dk_unreadable disk' (vd_saved_file d)"
  shows "\<exists>v. loadVehicle (be_json env) (disk_files (be_text env) disk') (vd_saved_file d) = Inr v \<and>
    tv_uid v = vd_proposed_uid d \<and> tv_type_uid v = tvt_uid (vd_type d)"
proof -
  obtain r where r: "saveVehicle (be_json env) (be_edit env) (be_text env) r disk = (disk', Inr (vd_saved_file d))"
    "vsr_uid r = vd_proposed_uid d" "vsr_type_uid r = tvt_uid (vd_type d)" "\<not> vsr_preserve_existing_fields r"
    using saved new by (auto simp: saved_dialog_def)
  have "dk_unreadable disk' = dk_unreadable disk"
    using r(1) by (auto simp: saveVehicle_def writeDocument_def Let_def split: sum.splits prod.splits if_splits)
  then show ?thesis using saved_vehicle_reads(2) [OF laws r(1)] readable r by (simp add: edited_vehicle_def)
qed

text \<open>
  A new vehicle that the window reports as saved stands in its file, has the selected type, and a UID of
  that type's scope that nothing in the loaded data mentions.\<close>

lemma created_vehicle_is_new:
  assumes laws: "edit_laws plain (be_json env) (be_edit env) (be_text env)"
    and created: "createVehicle env edits w = Inr w'" "bw_notices w' = bw_notices w @ [VehicleCreated p]"
    and readable: "\<not> dk_unreadable (bw_disk w') p"
  shows "\<exists>type v. selectedVehicleType w = Some type \<and>
    loadVehicle (be_json env) (disk_files (be_text env) (bw_disk w')) p = Inr v \<and> tv_type_uid v = tvt_uid type \<and>
    \<not> registry_contains (mw_registry (bw_main w)) (tv_uid v) \<and>
    uid_has_kind (tv_uid v) ROLLING_STOCK VEHICLE \<and> uid_scope (tv_uid v) = uid_scope (tvt_uid type)"
proof -
  obtain type d where type: "selectedVehicleType w = Some type"
    and d: "new_vehicle_dialog (be_qt env) (mw_registry (bw_main w)) type (mw_active_source_root (bw_main w) @ [''vehicles'']) = Inr d"
    and w': "window_dialog env edits VehicleCreated d w = Inr w'"
    using created by (auto simp: createVehicle_def notify_def and_then_Inr split: option.splits)
  obtain d' reg' where run: "dialog_exec env edits d (mw_registry (bw_main w), bw_disk w) = Inr (d', (reg', bw_disk w'), True)"
    and p: "p = vd_saved_file d'"
    by (rule window_dialog_saved [OF w']) (use created(2) in auto)
  from accepted_dialog_saved [OF run] obtain disk1 where same: "same_vehicle d d'"
    and saved: "saved_dialog env (mw_registry (bw_main w)) disk1 d' reg' (bw_disk w')" by blast
  have new: "vd_original_vehicle d' = None" "vd_type d' = type" "dialog_uid_ok d'"
    using same new_dialog_ok [OF d] by (auto simp: same_vehicle_def)
  then have "\<not> registry_contains (mw_registry (bw_main w)) (vd_proposed_uid d')"
    using saved by (simp add: saved_dialog_def)
  moreover have "uid_has_kind (vd_proposed_uid d') ROLLING_STOCK VEHICLE"
    "uid_scope (vd_proposed_uid d') = uid_scope (tvt_uid type)"
    using new by (simp_all add: dialog_uid_ok_def)
  moreover obtain v where "loadVehicle (be_json env) (disk_files (be_text env) (bw_disk w')) p = Inr v"
    "tv_uid v = vd_proposed_uid d'" "tv_type_uid v = tvt_uid type"
    using saved_dialog_reads [OF laws saved new(1)] readable new(2) p by auto
  ultimately show ?thesis using type by auto
qed

section \<open>What the window forgets\<close>

text \<open>
  When the data is loaded again, no type is selected any more, but the vehicles are still filtered by the type
  that was selected before, and the button for a new vehicle is still enabled, though a click only asks for a
  type: resetting the models emits no signal, and only the vehicle panel listens for the reset.\<close>

lemma reload_keeps_filter:
  assumes "selectedVehicleType (w\<lparr>bw_type_row := row\<rparr>) = Some type"
    and "loadDirectory (be_json env) (be_tfs env (bw_disk w)) d = Inr (data, reg)"
  shows "let w' = browser_loadDirectory env d (type_selection_changed row w)
    in selectedVehicleType w' = None \<and> bw_new_enabled w' \<and>
       vm_filter_type_uid (mw_vehicle_model (bw_main w')) = Some (tvt_uid type) \<and>
       createVehicle env edits w' = Inr (notify SelectTypeFirst w')"
proof -
  let ?w = "type_selection_changed row w"
  have sel: "?w = setCanCreateVehicle True (filterByVehicleType (tvt_uid type) (w\<lparr>bw_type_row := row\<rparr>))"
    using assms(1) by (simp add: type_selection_changed_def emitSelection_def)
  have disk: "bw_disk ?w = bw_disk w" and new: "bw_new_enabled ?w"
    and filtered: "vm_filter_type_uid (mw_vehicle_model (bw_main ?w)) = Some (tvt_uid type)"
    unfolding sel by (simp_all add: setCanCreateVehicle_def filterByVehicleType_def set_filter_def
        vehicle_updateActionState_def Let_def setFilterVehicleType_def rebuildVisibleRows_def)
  let ?w' = "browser_loadDirectory env d ?w"
  have "bw_type_row ?w' = None" "bw_new_enabled ?w'"
    "vm_filter_type_uid (mw_vehicle_model (bw_main ?w')) = Some (tvt_uid type)"
    using assms(2) new filtered
    by (simp_all add: browser_loadDirectory_def Let_def disk models_reset_def vehicle_updateActionState_def
        window_loadDirectory_def applyData_def setVehicles_def rebuildVisibleRows_def)
  then show ?thesis by (simp add: selectedVehicleType_def createVehicle_def Let_def)
qed

text \<open>When every number of the type's scope is taken, a click on the button ends the program: the
  constructor of the dialog throws in the slot, and nothing catches it.\<close>

lemma new_vehicle_in_full_scope:
  assumes "selectedVehicleType w = Some type"
    and "\<forall>i < 65535. registry_contains (mw_registry (bw_main w))
      (make_uid ROLLING_STOCK VEHICLE (uid_scope (tvt_uid type)) (candidate_instance 1 i))"
  shows "createVehicle env edits w = Inl UidExhausted"
proof -
  have "generate (mw_registry (bw_main w)) ROLLING_STOCK VEHICLE (uid_scope (tvt_uid type)) 1 = Inl UidExhausted"
    using assms(2) by (simp add: generate_exhausted)
  then show ?thesis using assms(1) by (simp add: createVehicle_def new_vehicle_dialog_def)
qed

end
