(* ===== verification/Uid_Window.thy ===== *)
theory Uid_Window
  imports Fleet_Editor
begin

text \<open>
  The window of the UID generator: the form \<^verbatim>\<open>tools/uid-generator/ui/uid_form.cpp\<close>, the result
  \<^verbatim>\<open>uid_result_view.cpp\<close>, the table \<^verbatim>\<open>uid_registry_view.cpp\<close>, the window
  \<^verbatim>\<open>main_window.cpp\<close>, and of \<^verbatim>\<open>tools/shared/\<close> the legend panel and the clipboard service.
  Widgets are the texts and values they show.  Qt delivers a change of a combo box or spin box to its
  slots in the order of the \<^verbatim>\<open>connect\<close> calls, and only when the value changes; clearing a combo
  box and adding the first item to it are such changes.  Layout, the menu and the smoke test are left out.
\<close>

section \<open>Texts\<close>

fun hex_string :: "nat \<Rightarrow> string" where
  "hex_string n = (if n < 16 then [] else hex_string (n div 16)) @
     [if n mod 16 < 10 then char_of (48 + n mod 16) else char_of (87 + n mod 16)]"

declare hex_string.simps [simp del]

definition ascii_upper :: "char \<Rightarrow> char" where
  "ascii_upper c = (if 97 \<le> (of_char c :: nat) \<and> (of_char c :: nat) \<le> 122 then char_of ((of_char c :: nat) - 32) else c)"

text \<open>\<^verbatim>\<open>QStringLiteral("0x%1").arg(value, width, 16, '0').toUpper()\<close>: the prefix is capitalised, too.\<close>

definition hex_text :: "nat \<Rightarrow> nat \<Rightarrow> string" where
  "hex_text width n =
     map ascii_upper (''0x'' @ replicate (width - length (hex_string n)) (CHR ''0'') @ hex_string n)"

section \<open>The form\<close>

record UidForm =
  uf_domain :: UIDDomain
  uf_kinds :: "UIDKind list"
  uf_kind :: "UIDKind option"
  uf_scope :: u16
  uf_instance :: u16
  uf_advisory :: string
  uf_error :: string
  uf_enabled :: bool
  uf_generation_blocked :: bool
  uf_blocked_domain :: "int option"
  uf_blocked_kind :: "int option"
  uf_blocked_scope :: "int option"

text \<open>\<^verbatim>\<open>currentData().toInt()\<close>; it is 0 for a combo box without a current item.\<close>

definition domain_data :: "UidForm \<Rightarrow> int" where
  "domain_data f = uint (domain_code (uf_domain f))"

definition kind_data :: "UidForm \<Rightarrow> int" where
  "kind_data f = (case uf_kind f of None \<Rightarrow> 0 | Some k \<Rightarrow> uint (kind_code k))"

definition updateValidation :: "UidForm \<Rightarrow> UidForm" where
  "updateValidation f =
    (let same_exhausted_bucket = uf_blocked_domain f = Some (domain_data f) \<and>
           uf_blocked_kind f = Some (kind_data f) \<and> uf_blocked_scope f = Some (uint (uf_scope f));
         f = f\<lparr>uf_generation_blocked := same_exhausted_bucket\<rparr>;
         f = (if same_exhausted_bucket then f
              else f\<lparr>uf_error := [], uf_blocked_domain := None, uf_blocked_kind := None, uf_blocked_scope := None\<rparr>);
         f = (if uf_instance f = 0 then f\<lparr>uf_error := ''INSTANCE must be in range 0x0001-0xFFFF''\<rparr> else f);
         f = f\<lparr>uf_advisory := (if uf_domain f = ROLLING_STOCK \<and> uf_scope f = 0
                then ''SCOPE=0 means global - ensure this is intentional'' else [])\<rparr>
     in f\<lparr>uf_enabled := uf_instance f \<noteq> 0 \<and> \<not> uf_generation_blocked f\<rparr>)"

definition legend_kinds :: "UIDDomain \<Rightarrow> UIDKind list" where
  "legend_kinds d = map leg_kind (filter (\<lambda>e. leg_domain e = d) kUidLegendEntries)"

definition updateKinds :: "UidForm \<Rightarrow> UidForm" where
  "updateKinds f =
    (let cleared = f\<lparr>uf_kinds := [], uf_kind := None\<rparr>;
         f = (if uf_kind f = None then cleared else updateValidation cleared)
     in case legend_kinds (uf_domain f) of
          [] \<Rightarrow> f
        | k # ks \<Rightarrow> updateValidation (f\<lparr>uf_kinds := k # ks, uf_kind := Some k\<rparr>))"

definition new_uid_form :: UidForm where
  "new_uid_form =
     updateValidation (updateKinds
       \<lparr>uf_domain = hd kKnownUidDomains, uf_kinds = [], uf_kind = None, uf_scope = 0, uf_instance = 1,
        uf_advisory = [], uf_error = [], uf_enabled = True, uf_generation_blocked = False,
        uf_blocked_domain = None, uf_blocked_kind = None, uf_blocked_scope = None\<rparr>)"

text \<open>What the user changes, with the slots that are connected to it.\<close>

definition select_domain :: "UIDDomain \<Rightarrow> UidForm \<Rightarrow> UidForm" where
  "select_domain d f =
     (if d = uf_domain f then f else updateValidation (updateKinds (f\<lparr>uf_domain := d\<rparr>)))"

definition select_kind :: "UIDKind \<Rightarrow> UidForm \<Rightarrow> UidForm" where
  "select_kind k f =
     (if k \<notin> set (uf_kinds f) \<or> uf_kind f = Some k then f else updateValidation (f\<lparr>uf_kind := Some k\<rparr>))"

definition set_scope :: "u16 \<Rightarrow> UidForm \<Rightarrow> UidForm" where
  "set_scope s f = (if s = uf_scope f then f else updateValidation (f\<lparr>uf_scope := s\<rparr>))"

definition set_instance :: "u16 \<Rightarrow> UidForm \<Rightarrow> UidForm" where
  "set_instance i f = (if i = uf_instance f then f else updateValidation (f\<lparr>uf_instance := i\<rparr>))"

definition showError :: "string \<Rightarrow> bool \<Rightarrow> UidForm \<Rightarrow> UidForm" where
  "showError message block_generation f =
    (let f = f\<lparr>uf_error := message, uf_generation_blocked := block_generation\<rparr>;
         f = (if block_generation
              then f\<lparr>uf_blocked_domain := Some (domain_data f), uf_blocked_kind := Some (kind_data f),
                     uf_blocked_scope := Some (uint (uf_scope f))\<rparr> else f)
     in f\<lparr>uf_enabled := \<not> block_generation \<and> uf_instance f \<noteq> 0\<rparr>)"

definition clearError :: "UidForm \<Rightarrow> UidForm" where
  "clearError f =
     updateValidation (f\<lparr>uf_error := [], uf_generation_blocked := False, uf_blocked_domain := None,
       uf_blocked_kind := None, uf_blocked_scope := None\<rparr>)"

section \<open>The result, the table and the legend\<close>

record UidResultView =
  rv_uid :: UID
  rv_decimal_value :: string
  rv_hex_value :: string
  rv_copy_enabled :: bool

definition new_result_view :: UidResultView where
  "new_result_view = \<lparr>rv_uid = 0, rv_decimal_value = ''No UID generated'', rv_hex_value = ''-'', rv_copy_enabled = False\<rparr>"

definition showUid :: "UID \<Rightarrow> UidResultView \<Rightarrow> UidResultView" where
  "showUid uid v =
     v\<lparr>rv_uid := uid, rv_decimal_value := u64_to_string uid, rv_hex_value := hex_text 12 (unat uid), rv_copy_enabled := True\<rparr>"

definition registry_row :: "UID \<times> path \<Rightarrow> string list" where
  "registry_row e =
     [hex_text 12 (unat (fst e)), nat_to_string (unat (uid_domain (fst e))), nat_to_string (unat (uid_kind (fst e))),
      nat_to_string (unat (uid_scope (fst e))), nat_to_string (unat (uid_instance (fst e))), path_string (snd e)]"

definition setRegistry :: "UidRegistry \<Rightarrow> string list list" where
  "setRegistry reg = map registry_row (registry_entries reg)"

text \<open>The row of a legend entry without its last column, the meaning of the scope.\<close>

definition legend_row :: "UidLegendEntry \<Rightarrow> string list" where
  "legend_row e =
     [leg_domain_name e, hex_text 2 (unat (domain_code (leg_domain e))), leg_kind_name e,
      hex_text 2 (unat (kind_code (leg_kind e)))]"

section \<open>The window\<close>

record UidMainWindow =
  uw_registry :: UidRegistry
  uw_form :: UidForm
  uw_result_view :: UidResultView
  uw_registry_view :: "string list list"
  uw_status :: string
  uw_messages :: "string list"
  uw_clipboard :: string

definition generator_error_text :: "generator_error \<Rightarrow> string" where
  "generator_error_text e =
     (case e of InvalidInstance \<Rightarrow> ''INSTANCE must be in range 0x0001-0xFFFF''
      | UidExhausted \<Rightarrow> ''No available INSTANCE in this SCOPE - all 65534 slots are taken'')"

definition generateUid :: "UIDDomain \<Rightarrow> UIDKind \<Rightarrow> u16 \<Rightarrow> u16 \<Rightarrow> UidMainWindow \<Rightarrow> UidMainWindow" where
  "generateUid domain kind scope instance_no w =
     (case generate (uw_registry w) domain kind scope instance_no of
        Inr uid \<Rightarrow> w\<lparr>uw_result_view := showUid uid (uw_result_view w), uw_form := clearError (uw_form w)\<rparr>
      | Inl e \<Rightarrow> w\<lparr>uw_form := showError (generator_error_text e) (e = UidExhausted) (uw_form w)\<rparr>)"

text \<open>A click on the button; a disabled button emits nothing.  The kind is always set
  (\<open>form_has_kind\<close> below).\<close>

definition requestGeneration :: "UidMainWindow \<Rightarrow> UidMainWindow" where
  "requestGeneration w =
    (let f = uw_form w
     in if \<not> uf_enabled f then w
        else case uf_kind f of
               None \<Rightarrow> w
             | Some k \<Rightarrow> generateUid (uf_domain f) k (uf_scope f) (uf_instance f) w)"

definition edit_form :: "(UidForm \<Rightarrow> UidForm) \<Rightarrow> UidMainWindow \<Rightarrow> UidMainWindow" where
  "edit_form f w = w\<lparr>uw_form := f (uw_form w)\<rparr>"

definition copyUid :: "UidMainWindow \<Rightarrow> UidMainWindow" where
  "copyUid w =
     (if rv_copy_enabled (uw_result_view w) \<and> rv_uid (uw_result_view w) \<noteq> 0
      then w\<lparr>uw_clipboard := u64_to_string (rv_uid (uw_result_view w))\<rparr> else w)"

definition source_error_text :: "source_error \<Rightarrow> string" where
  "source_error_text e =
     (case e of DataSourceError s \<Rightarrow> s | LoaderException (JsonLoadError s) \<Rightarrow> s | LoaderException (ToolJsonException s) \<Rightarrow> s)"

definition populateRegistry :: "IDataSource \<Rightarrow> UidMainWindow \<Rightarrow> source_error + UidMainWindow" where
  "populateRegistry source w =
     and_then (ds_loadVehicleTypes source) (\<lambda>types.
     and_then (ds_loadVehicles source) (\<lambda>vehicles.
     and_then (ds_loadTrains source) (\<lambda>trains.
       let replacement = register_all (concat (map type_uids types) @ concat (map vehicle_uids vehicles) @
             concat (map train_uids trains)) []
       in Inr (w\<lparr>uw_registry := replacement, uw_registry_view := setRegistry replacement\<rparr>))))"

definition loadDefaultPackages :: "'j Json \<Rightarrow> 'j ToolFs \<Rightarrow> path \<Rightarrow> UidMainWindow \<Rightarrow> UidMainWindow" where
  "loadDefaultPackages js tfs rt w =
     (case populateRegistry (PackagesDataSource js tfs rt) w of
        Inr w' \<Rightarrow> w'\<lparr>uw_status := ''Loaded '' @ nat_to_string (registry_size (uw_registry w')) @ '' UIDs from packages''\<rparr>
      | Inl e \<Rightarrow> w\<lparr>uw_status := ''No default data loaded: '' @ source_error_text e\<rparr>)"

definition uid_loadDirectory :: "'j Json \<Rightarrow> 'j ToolFs \<Rightarrow> path \<Rightarrow> UidMainWindow \<Rightarrow> UidMainWindow" where
  "uid_loadDirectory js tfs directory w =
     (case populateRegistry (DirectoryDataSource js tfs directory) w of
        Inr w' \<Rightarrow> w'\<lparr>uw_status := ''Loaded '' @ nat_to_string (registry_size (uw_registry w')) @ '' UIDs from '' @
                      path_string directory\<rparr>
      | Inl e \<Rightarrow> w\<lparr>uw_messages := uw_messages w @ [source_error_text e]\<rparr>)"

definition new_uid_window :: "'j Json \<Rightarrow> 'j ToolFs \<Rightarrow> path \<Rightarrow> path option \<Rightarrow> UidMainWindow" where
  "new_uid_window js tfs packages data_directory =
    (let w = \<lparr>uw_registry = [], uw_form = new_uid_form, uw_result_view = new_result_view, uw_registry_view = [],
              uw_status = [], uw_messages = [], uw_clipboard = []\<rparr>
     in case data_directory of
          Some d \<Rightarrow> uid_loadDirectory js tfs d w
        | None \<Rightarrow> loadDefaultPackages js tfs packages w)"

text \<open>Everything the user can do.\<close>

inductive uid_window_run :: "'j Json \<Rightarrow> 'j ToolFs \<Rightarrow> path \<Rightarrow> path option \<Rightarrow> UidMainWindow \<Rightarrow> bool"
  for js tfs packages data_directory where
  uw_open: "uid_window_run js tfs packages data_directory (new_uid_window js tfs packages data_directory)"
| uw_domain: "uid_window_run js tfs packages data_directory w \<Longrightarrow>
    uid_window_run js tfs packages data_directory (edit_form (select_domain d) w)"
| uw_kind: "uid_window_run js tfs packages data_directory w \<Longrightarrow>
    uid_window_run js tfs packages data_directory (edit_form (select_kind k) w)"
| uw_scope: "uid_window_run js tfs packages data_directory w \<Longrightarrow>
    uid_window_run js tfs packages data_directory (edit_form (set_scope s) w)"
| uw_instance: "uid_window_run js tfs packages data_directory w \<Longrightarrow>
    uid_window_run js tfs packages data_directory (edit_form (set_instance i) w)"
| uw_generate: "uid_window_run js tfs packages data_directory w \<Longrightarrow>
    uid_window_run js tfs packages data_directory (requestGeneration w)"
| uw_copy: "uid_window_run js tfs packages data_directory w \<Longrightarrow>
    uid_window_run js tfs packages data_directory (copyUid w)"
| uw_open_directory: "uid_window_run js tfs packages data_directory w \<Longrightarrow>
    uid_window_run js tfs packages data_directory (uid_loadDirectory js tfs d w)"

section \<open>The form is consistent\<close>

definition form_ok :: "UidForm \<Rightarrow> bool" where
  "form_ok f \<longleftrightarrow> uf_kinds f = legend_kinds (uf_domain f) \<and>
     (\<exists>k. uf_kind f = Some k \<and> k \<in> set (legend_kinds (uf_domain f))) \<and>
     (uf_enabled f \<longleftrightarrow> uf_instance f \<noteq> 0 \<and> \<not> uf_generation_blocked f) \<and>
     (uf_instance f = 0 \<longrightarrow> uf_error f \<noteq> [])"

lemma legend_kinds_nonempty: "legend_kinds d \<noteq> []"
  by (cases d) (simp_all add: legend_kinds_def kUidLegendEntries_def legend_entry_def)

lemma updateValidation_simps [simp]:
  "uf_domain (updateValidation f) = uf_domain f" "uf_kinds (updateValidation f) = uf_kinds f"
  "uf_kind (updateValidation f) = uf_kind f" "uf_scope (updateValidation f) = uf_scope f"
  "uf_instance (updateValidation f) = uf_instance f"
  "uf_enabled (updateValidation f) \<longleftrightarrow> uf_instance f \<noteq> 0 \<and> \<not> uf_generation_blocked (updateValidation f)"
  "uf_instance f = 0 \<Longrightarrow> uf_error (updateValidation f) \<noteq> []"
  by (simp_all add: updateValidation_def Let_def)

lemma updateValidation_ok:
  assumes "uf_kinds f = legend_kinds (uf_domain f)" and "uf_kind f = Some k" and "k \<in> set (uf_kinds f)"
  shows "form_ok (updateValidation f)"
  using assms by (simp add: form_ok_def)

lemma updateKinds_frame:
  "uf_kinds (updateKinds f) = legend_kinds (uf_domain f)" "uf_domain (updateKinds f) = uf_domain f"
  "uf_kind (updateKinds f) = Some (hd (legend_kinds (uf_domain f)))"
  using legend_kinds_nonempty [of "uf_domain f"]
  by (auto simp: updateKinds_def Let_def split: list.splits)

lemma updateKinds_ok: "form_ok (updateValidation (updateKinds f))"
  by (rule updateValidation_ok [where k = "hd (legend_kinds (uf_domain f))"])
    (simp_all add: updateKinds_frame hd_in_set [OF legend_kinds_nonempty])

lemma form_edits_ok:
  assumes "form_ok f"
  shows "form_ok (select_domain d f)" "form_ok (select_kind k f)" "form_ok (set_scope s f)" "form_ok (set_instance i f)"
    "form_ok (clearError f)" "m \<noteq> [] \<Longrightarrow> form_ok (showError m b f)"
proof -
  from assms obtain k' where k': "uf_kinds f = legend_kinds (uf_domain f)" "uf_kind f = Some k'" "k' \<in> set (uf_kinds f)"
    by (auto simp: form_ok_def)
  show "form_ok (select_domain d f)" using assms by (simp add: select_domain_def updateKinds_ok)
  show "form_ok (select_kind k f)" using assms k' by (auto simp: select_kind_def intro!: updateValidation_ok)
  show "form_ok (set_scope s f)" "form_ok (set_instance i f)" "form_ok (clearError f)"
    using assms k' by (auto simp: set_scope_def set_instance_def clearError_def intro!: updateValidation_ok)
  show "form_ok (showError m b f)" if "m \<noteq> []"
    using assms that by (auto simp: form_ok_def showError_def Let_def)
qed

lemma populateRegistry_form: "populateRegistry src w = Inr w' \<Longrightarrow> uw_form w' = uw_form w"
  by (auto simp: populateRegistry_def and_then_Inr Let_def)

lemma load_form [simp]:
  "uw_form (uid_loadDirectory js tfs d w) = uw_form w" "uw_form (loadDefaultPackages js tfs p w) = uw_form w"
  by (auto simp: uid_loadDirectory_def loadDefaultPackages_def populateRegistry_form split: sum.split)

lemma form_has_kind:
  assumes "uid_window_run js tfs packages dir w"
  shows "form_ok (uw_form w)"
  using assms
proof (induction rule: uid_window_run.induct)
  case uw_open
  show ?case by (simp add: new_uid_window_def Let_def new_uid_form_def updateKinds_ok split: option.split)
next
  case (uw_generate w)
  then show ?case
    by (auto simp: requestGeneration_def generateUid_def Let_def generator_error_text_def form_edits_ok
        split: option.split sum.split generator_error.split)
qed (simp_all add: edit_form_def form_edits_ok copyUid_def)

text \<open>
  In every state the window can reach, a click on the enabled button asks for a kind of the chosen
  domain with an instance that is not 0: it shows a UID that no loaded file mentions and that has the
  chosen domain, kind and scope, or reports that the scope is exhausted and disables the button.\<close>

theorem click_shows_free_uid:
  assumes "uid_window_run js tfs packages dir w" and "uf_enabled (uw_form w)"
  shows "\<exists>k. uf_kind (uw_form w) = Some k \<and> k \<in> set (legend_kinds (uf_domain (uw_form w))) \<and>
    (case generate (uw_registry w) (uf_domain (uw_form w)) k (uf_scope (uw_form w)) (uf_instance (uw_form w)) of
       Inr u \<Rightarrow> rv_uid (uw_result_view (requestGeneration w)) = u \<and> \<not> registry_contains (uw_registry w) u \<and>
         uid_has_kind u (uf_domain (uw_form w)) k \<and> uid_scope u = uf_scope (uw_form w)
     | Inl e \<Rightarrow> e = UidExhausted \<and> uw_result_view (requestGeneration w) = uw_result_view w \<and>
         \<not> uf_enabled (uw_form (requestGeneration w)))"
proof -
  from form_has_kind [OF assms(1)] assms(2) obtain k where k: "uf_kind (uw_form w) = Some k"
    "k \<in> set (legend_kinds (uf_domain (uw_form w)))" "uf_instance (uw_form w) \<noteq> 0"
    by (auto simp: form_ok_def)
  let ?g = "generate (uw_registry w) (uf_domain (uw_form w)) k (uf_scope (uw_form w)) (uf_instance (uw_form w))"
  have click: "requestGeneration w = generateUid (uf_domain (uw_form w)) k (uf_scope (uw_form w)) (uf_instance (uw_form w)) w"
    using assms(2) k(1) by (simp add: requestGeneration_def Let_def)
  show ?thesis
  proof (cases ?g)
    case (Inl e)
    then have "e = UidExhausted" using k(3) by (cases e) (auto simp: generate_def split: if_splits option.splits)
    with Inl k click show ?thesis by (simp add: generateUid_def showError_def Let_def)
  next
    case (Inr u)
    then obtain i where "u = make_uid (uf_domain (uw_form w)) k (uf_scope (uw_form w)) i" "isAvailable (uw_registry w) u"
      by (rule generate_Inr)
    with Inr k click show ?thesis
      by (simp add: generateUid_def showUid_def isAvailable_def uid_has_kind_def)
  qed
qed

text \<open>A directory that cannot be loaded leaves the registry and its table as they were.\<close>

lemma failed_load_keeps_registry:
  assumes "populateRegistry (DirectoryDataSource js tfs d) w = Inl e"
  shows "uid_loadDirectory js tfs d w = w\<lparr>uw_messages := uw_messages w @ [source_error_text e]\<rparr>"
  using assms by (simp add: uid_loadDirectory_def)

text \<open>When the scope is exhausted and the instance is set to 0 and back, the message about the
  instance stays although the instance is in range again: nothing writes the message about the scope again.\<close>

lemma stale_instance_message:
  assumes "uf_kind f = Some k" and "i \<noteq> 0" and "uf_instance f = i"
  shows "uf_error (set_instance i (set_instance 0 (showError m True f))) = ''INSTANCE must be in range 0x0001-0xFFFF''"
  using assms by (simp add: set_instance_def showError_def updateValidation_def Let_def domain_data_def kind_data_def)

text \<open>The hexadecimal texts begin with a capital X.\<close>

lemma hex_prefix_is_capital: "take 2 (hex_text n v) = ''0X''"
  by (simp add: hex_text_def ascii_upper_def char_of_def bit_simps)

end
