(* ===== verification/Proto_Ownership.thy ===== *)
theory Proto_Ownership
  imports Proto_Common
begin

text \<open>
  The ownership transfer tables of the wire protocol, \<^verbatim>\<open>autogens/proto/ownership_generated.h\<close>:
  per table its accessors, its verifier, the setters of its builder and its create function, over
  the FlatBuffers runtime of theory \<open>Proto_Library\<close>.  The message types are reserved; no code of
  the server reads or writes them yet.
\<close>

section \<open>table \<^verbatim>\<open>TakeoverRequest\<close>\<close>

definition TakeoverRequest_dispatch_area_uid :: "'t FlatBuffers \<Rightarrow> 't \<Rightarrow> u64" where
  "TakeoverRequest_dispatch_area_uid fb t = fb_GetField_u64 fb t 4 0"

definition TakeoverRequest_station_uid :: "'t FlatBuffers \<Rightarrow> 't \<Rightarrow> u64" where
  "TakeoverRequest_station_uid fb t = fb_GetField_u64 fb t 6 0"

definition TakeoverRequest_release :: "'t FlatBuffers \<Rightarrow> 't \<Rightarrow> bool" where
  "TakeoverRequest_release fb t \<longleftrightarrow> fb_GetField_u8 fb t 8 0 \<noteq> 0"

definition TakeoverRequest_reason_text :: "'t FlatBuffers \<Rightarrow> 't \<Rightarrow> 't option" where
  "TakeoverRequest_reason_text fb t = fb_GetPointer fb t 10"

definition TakeoverRequest_Verify :: "'t FlatBuffers \<Rightarrow> 't \<Rightarrow> bool" where
  "TakeoverRequest_Verify fb t \<longleftrightarrow>
     fb_VerifyTableStart fb t \<and>
     fb_VerifyField fb t 4 8 \<and>
     fb_VerifyField fb t 6 8 \<and>
     fb_VerifyField fb t 8 1 \<and>
     fb_VerifyOffset fb t 10 \<and>
     fb_VerifyString fb (TakeoverRequest_reason_text fb t) \<and>
     fb_EndTable fb t"

definition TakeoverRequest_add_dispatch_area_uid :: "u64 \<Rightarrow> 't FbElem" where
  "TakeoverRequest_add_dispatch_area_uid dispatch_area_uid = AddElement_u64 4 dispatch_area_uid 0"

definition TakeoverRequest_add_station_uid :: "u64 \<Rightarrow> 't FbElem" where
  "TakeoverRequest_add_station_uid station_uid = AddElement_u64 6 station_uid 0"

definition TakeoverRequest_add_release :: "bool \<Rightarrow> 't FbElem" where
  "TakeoverRequest_add_release release = AddElement_u8 8 (if release then 1 else 0) 0"

definition TakeoverRequest_add_reason_text :: "'t option \<Rightarrow> 't FbElem" where
  "TakeoverRequest_add_reason_text reason_text = AddOffset 10 reason_text"

definition CreateTakeoverRequest :: "'t FlatBuffers \<Rightarrow> u64 \<Rightarrow> u64 \<Rightarrow> bool \<Rightarrow> 't option \<Rightarrow> 't" where
  "CreateTakeoverRequest fb dispatch_area_uid station_uid release reason_text =
     fb_Table fb [TakeoverRequest_add_station_uid station_uid,
        TakeoverRequest_add_dispatch_area_uid dispatch_area_uid,
        TakeoverRequest_add_reason_text reason_text, TakeoverRequest_add_release release]"

lemmas TakeoverRequest_defs = TakeoverRequest_dispatch_area_uid_def
 TakeoverRequest_station_uid_def TakeoverRequest_release_def
 TakeoverRequest_reason_text_def TakeoverRequest_Verify_def
 TakeoverRequest_add_dispatch_area_uid_def TakeoverRequest_add_station_uid_def
 TakeoverRequest_add_release_def TakeoverRequest_add_reason_text_def
 CreateTakeoverRequest_def

section \<open>table \<^verbatim>\<open>TakeoverResponse\<close>\<close>

definition TakeoverResponse_granted :: "'t FlatBuffers \<Rightarrow> 't \<Rightarrow> bool" where
  "TakeoverResponse_granted fb t \<longleftrightarrow> fb_GetField_u8 fb t 4 0 \<noteq> 0"

definition TakeoverResponse_dispatch_area_uid :: "'t FlatBuffers \<Rightarrow> 't \<Rightarrow> u64" where
  "TakeoverResponse_dispatch_area_uid fb t = fb_GetField_u64 fb t 6 0"

definition TakeoverResponse_station_uid :: "'t FlatBuffers \<Rightarrow> 't \<Rightarrow> u64" where
  "TakeoverResponse_station_uid fb t = fb_GetField_u64 fb t 8 0"

definition TakeoverResponse_reject_reason :: "'t FlatBuffers \<Rightarrow> 't \<Rightarrow> 't option" where
  "TakeoverResponse_reject_reason fb t = fb_GetPointer fb t 10"

definition TakeoverResponse_Verify :: "'t FlatBuffers \<Rightarrow> 't \<Rightarrow> bool" where
  "TakeoverResponse_Verify fb t \<longleftrightarrow>
     fb_VerifyTableStart fb t \<and>
     fb_VerifyField fb t 4 1 \<and>
     fb_VerifyField fb t 6 8 \<and>
     fb_VerifyField fb t 8 8 \<and>
     fb_VerifyOffset fb t 10 \<and>
     fb_VerifyString fb (TakeoverResponse_reject_reason fb t) \<and>
     fb_EndTable fb t"

definition TakeoverResponse_add_granted :: "bool \<Rightarrow> 't FbElem" where
  "TakeoverResponse_add_granted granted = AddElement_u8 4 (if granted then 1 else 0) 0"

definition TakeoverResponse_add_dispatch_area_uid :: "u64 \<Rightarrow> 't FbElem" where
  "TakeoverResponse_add_dispatch_area_uid dispatch_area_uid = AddElement_u64 6 dispatch_area_uid 0"

definition TakeoverResponse_add_station_uid :: "u64 \<Rightarrow> 't FbElem" where
  "TakeoverResponse_add_station_uid station_uid = AddElement_u64 8 station_uid 0"

definition TakeoverResponse_add_reject_reason :: "'t option \<Rightarrow> 't FbElem" where
  "TakeoverResponse_add_reject_reason reject_reason = AddOffset 10 reject_reason"

definition CreateTakeoverResponse :: "'t FlatBuffers \<Rightarrow> bool \<Rightarrow> u64 \<Rightarrow> u64 \<Rightarrow> 't option \<Rightarrow> 't" where
  "CreateTakeoverResponse fb granted dispatch_area_uid station_uid reject_reason =
     fb_Table fb [TakeoverResponse_add_station_uid station_uid,
        TakeoverResponse_add_dispatch_area_uid dispatch_area_uid,
        TakeoverResponse_add_reject_reason reject_reason,
        TakeoverResponse_add_granted granted]"

lemmas TakeoverResponse_defs = TakeoverResponse_granted_def
 TakeoverResponse_dispatch_area_uid_def TakeoverResponse_station_uid_def
 TakeoverResponse_reject_reason_def TakeoverResponse_Verify_def
 TakeoverResponse_add_granted_def TakeoverResponse_add_dispatch_area_uid_def
 TakeoverResponse_add_station_uid_def TakeoverResponse_add_reject_reason_def
 CreateTakeoverResponse_def

end
