(* ===== verification/Proto_Chat.thy ===== *)
theory Proto_Chat
  imports Proto_Common
begin

text \<open>
  The chat tables of the wire protocol, \<^verbatim>\<open>autogens/proto/chat_generated.h\<close>:
  per table its accessors, its verifier, the setters of its builder and its create function, over
  the FlatBuffers runtime of theory \<open>Proto_Library\<close>.  The message types are reserved; no code of
  the server reads or writes them yet.
\<close>

section \<open>enum \<^verbatim>\<open>ChatTarget\<close>\<close>

definition EnumValuesChatTarget :: "i8 list" where
  "EnumValuesChatTarget = [0, 1, 2]"

definition EnumNamesChatTarget :: "string list" where
  "EnumNamesChatTarget = [''BROADCAST'', ''STATION'', ''PLAYER'']"

definition EnumNameChatTarget :: "i8 \<Rightarrow> string" where
  "EnumNameChatTarget e = (if sint e < 0 \<or> 2 < sint e then [] else EnumNamesChatTarget ! unat e)"

section \<open>table \<^verbatim>\<open>ChatMessage\<close>\<close>

definition ChatMessage_target :: "'t FlatBuffers \<Rightarrow> 't \<Rightarrow> i8" where
  "ChatMessage_target fb t = fb_GetField_i8 fb t 4 0"

definition ChatMessage_target_id :: "'t FlatBuffers \<Rightarrow> 't \<Rightarrow> 't option" where
  "ChatMessage_target_id fb t = fb_GetPointer fb t 6"

definition ChatMessage_text :: "'t FlatBuffers \<Rightarrow> 't \<Rightarrow> 't option" where
  "ChatMessage_text fb t = fb_GetPointer fb t 8"

definition ChatMessage_sender_id :: "'t FlatBuffers \<Rightarrow> 't \<Rightarrow> 't option" where
  "ChatMessage_sender_id fb t = fb_GetPointer fb t 10"

definition ChatMessage_timestamp_us :: "'t FlatBuffers \<Rightarrow> 't \<Rightarrow> u64" where
  "ChatMessage_timestamp_us fb t = fb_GetField_u64 fb t 12 0"

definition ChatMessage_Verify :: "'t FlatBuffers \<Rightarrow> 't \<Rightarrow> bool" where
  "ChatMessage_Verify fb t \<longleftrightarrow>
     fb_VerifyTableStart fb t \<and>
     fb_VerifyField fb t 4 1 \<and>
     fb_VerifyOffset fb t 6 \<and>
     fb_VerifyString fb (ChatMessage_target_id fb t) \<and>
     fb_VerifyOffsetRequired fb t 8 \<and>
     fb_VerifyString fb (ChatMessage_text fb t) \<and>
     fb_VerifyOffset fb t 10 \<and>
     fb_VerifyString fb (ChatMessage_sender_id fb t) \<and>
     fb_VerifyField fb t 12 8 \<and>
     fb_EndTable fb t"

definition ChatMessage_add_target :: "i8 \<Rightarrow> 't FbElem" where
  "ChatMessage_add_target target = AddElement_i8 4 target 0"

definition ChatMessage_add_target_id :: "'t option \<Rightarrow> 't FbElem" where
  "ChatMessage_add_target_id target_id = AddOffset 6 target_id"

definition ChatMessage_add_text :: "'t option \<Rightarrow> 't FbElem" where
  "ChatMessage_add_text text0 = AddOffset 8 text0"

definition ChatMessage_add_sender_id :: "'t option \<Rightarrow> 't FbElem" where
  "ChatMessage_add_sender_id sender_id = AddOffset 10 sender_id"

definition ChatMessage_add_timestamp_us :: "u64 \<Rightarrow> 't FbElem" where
  "ChatMessage_add_timestamp_us timestamp_us = AddElement_u64 12 timestamp_us 0"

definition CreateChatMessage :: "'t FlatBuffers \<Rightarrow> i8 \<Rightarrow> 't option \<Rightarrow> 't option \<Rightarrow> 't option \<Rightarrow> u64 \<Rightarrow> 't" where
  "CreateChatMessage fb target target_id text0 sender_id timestamp_us =
     fb_Table fb [ChatMessage_add_timestamp_us timestamp_us, ChatMessage_add_sender_id sender_id,
        ChatMessage_add_text text0, ChatMessage_add_target_id target_id,
        ChatMessage_add_target target]"

lemmas ChatMessage_defs = ChatMessage_target_def ChatMessage_target_id_def
 ChatMessage_text_def ChatMessage_sender_id_def ChatMessage_timestamp_us_def
 ChatMessage_Verify_def ChatMessage_add_target_def ChatMessage_add_target_id_def
 ChatMessage_add_text_def ChatMessage_add_sender_id_def ChatMessage_add_timestamp_us_def
 CreateChatMessage_def

end
