(* ===== verification/Proto_Voice.thy ===== *)
theory Proto_Voice
  imports Proto_Common
begin

text \<open>
  The voice channel tables of the wire protocol, \<^verbatim>\<open>autogens/proto/voice_generated.h\<close>:
  per table its accessors, its verifier, the setters of its builder and its create function, over
  the FlatBuffers runtime of theory \<open>Proto_Library\<close>.  The message types are reserved; no code of
  the server reads or writes them yet.
\<close>

section \<open>table \<^verbatim>\<open>VoiceChanJoin\<close>\<close>

definition VoiceChanJoin_channel_id :: "'t FlatBuffers \<Rightarrow> 't \<Rightarrow> 't option" where
  "VoiceChanJoin_channel_id fb t = fb_GetPointer fb t 4"

definition VoiceChanJoin_Verify :: "'t FlatBuffers \<Rightarrow> 't \<Rightarrow> bool" where
  "VoiceChanJoin_Verify fb t \<longleftrightarrow>
     fb_VerifyTableStart fb t \<and>
     fb_VerifyOffsetRequired fb t 4 \<and>
     fb_VerifyString fb (VoiceChanJoin_channel_id fb t) \<and>
     fb_EndTable fb t"

definition VoiceChanJoin_add_channel_id :: "'t option \<Rightarrow> 't FbElem" where
  "VoiceChanJoin_add_channel_id channel_id = AddOffset 4 channel_id"

definition CreateVoiceChanJoin :: "'t FlatBuffers \<Rightarrow> 't option \<Rightarrow> 't" where
  "CreateVoiceChanJoin fb channel_id =
     fb_Table fb [VoiceChanJoin_add_channel_id channel_id]"

lemmas VoiceChanJoin_defs = VoiceChanJoin_channel_id_def VoiceChanJoin_Verify_def
 VoiceChanJoin_add_channel_id_def CreateVoiceChanJoin_def

section \<open>table \<^verbatim>\<open>VoiceChanLeave\<close>\<close>

definition VoiceChanLeave_channel_id :: "'t FlatBuffers \<Rightarrow> 't \<Rightarrow> 't option" where
  "VoiceChanLeave_channel_id fb t = fb_GetPointer fb t 4"

definition VoiceChanLeave_Verify :: "'t FlatBuffers \<Rightarrow> 't \<Rightarrow> bool" where
  "VoiceChanLeave_Verify fb t \<longleftrightarrow>
     fb_VerifyTableStart fb t \<and>
     fb_VerifyOffsetRequired fb t 4 \<and>
     fb_VerifyString fb (VoiceChanLeave_channel_id fb t) \<and>
     fb_EndTable fb t"

definition VoiceChanLeave_add_channel_id :: "'t option \<Rightarrow> 't FbElem" where
  "VoiceChanLeave_add_channel_id channel_id = AddOffset 4 channel_id"

definition CreateVoiceChanLeave :: "'t FlatBuffers \<Rightarrow> 't option \<Rightarrow> 't" where
  "CreateVoiceChanLeave fb channel_id =
     fb_Table fb [VoiceChanLeave_add_channel_id channel_id]"

lemmas VoiceChanLeave_defs = VoiceChanLeave_channel_id_def VoiceChanLeave_Verify_def
 VoiceChanLeave_add_channel_id_def CreateVoiceChanLeave_def

section \<open>table \<^verbatim>\<open>VoiceParticipant\<close>\<close>

definition VoiceParticipant_client_id :: "'t FlatBuffers \<Rightarrow> 't \<Rightarrow> 't option" where
  "VoiceParticipant_client_id fb t = fb_GetPointer fb t 4"

definition VoiceParticipant_muted :: "'t FlatBuffers \<Rightarrow> 't \<Rightarrow> bool" where
  "VoiceParticipant_muted fb t \<longleftrightarrow> fb_GetField_u8 fb t 6 0 \<noteq> 0"

definition VoiceParticipant_deafened :: "'t FlatBuffers \<Rightarrow> 't \<Rightarrow> bool" where
  "VoiceParticipant_deafened fb t \<longleftrightarrow> fb_GetField_u8 fb t 8 0 \<noteq> 0"

definition VoiceParticipant_Verify :: "'t FlatBuffers \<Rightarrow> 't \<Rightarrow> bool" where
  "VoiceParticipant_Verify fb t \<longleftrightarrow>
     fb_VerifyTableStart fb t \<and>
     fb_VerifyOffsetRequired fb t 4 \<and>
     fb_VerifyString fb (VoiceParticipant_client_id fb t) \<and>
     fb_VerifyField fb t 6 1 \<and>
     fb_VerifyField fb t 8 1 \<and>
     fb_EndTable fb t"

definition VoiceParticipant_add_client_id :: "'t option \<Rightarrow> 't FbElem" where
  "VoiceParticipant_add_client_id client_id = AddOffset 4 client_id"

definition VoiceParticipant_add_muted :: "bool \<Rightarrow> 't FbElem" where
  "VoiceParticipant_add_muted muted = AddElement_u8 6 (if muted then 1 else 0) 0"

definition VoiceParticipant_add_deafened :: "bool \<Rightarrow> 't FbElem" where
  "VoiceParticipant_add_deafened deafened = AddElement_u8 8 (if deafened then 1 else 0) 0"

definition CreateVoiceParticipant :: "'t FlatBuffers \<Rightarrow> 't option \<Rightarrow> bool \<Rightarrow> bool \<Rightarrow> 't" where
  "CreateVoiceParticipant fb client_id muted deafened =
     fb_Table fb [VoiceParticipant_add_client_id client_id, VoiceParticipant_add_deafened deafened,
        VoiceParticipant_add_muted muted]"

lemmas VoiceParticipant_defs = VoiceParticipant_client_id_def VoiceParticipant_muted_def
 VoiceParticipant_deafened_def VoiceParticipant_Verify_def
 VoiceParticipant_add_client_id_def VoiceParticipant_add_muted_def
 VoiceParticipant_add_deafened_def CreateVoiceParticipant_def

section \<open>table \<^verbatim>\<open>VoiceChanState\<close>\<close>

definition VoiceChanState_channel_id :: "'t FlatBuffers \<Rightarrow> 't \<Rightarrow> 't option" where
  "VoiceChanState_channel_id fb t = fb_GetPointer fb t 4"

definition VoiceChanState_participants :: "'t FlatBuffers \<Rightarrow> 't \<Rightarrow> 't option" where
  "VoiceChanState_participants fb t = fb_GetPointer fb t 6"

definition VoiceChanState_Verify :: "'t FlatBuffers \<Rightarrow> 't \<Rightarrow> bool" where
  "VoiceChanState_Verify fb t \<longleftrightarrow>
     fb_VerifyTableStart fb t \<and>
     fb_VerifyOffsetRequired fb t 4 \<and>
     fb_VerifyString fb (VoiceChanState_channel_id fb t) \<and>
     fb_VerifyOffset fb t 6 \<and>
     fb_VerifyVector fb (VoiceChanState_participants fb t) \<and>
     fb_VerifyVectorOfTables fb (VoiceParticipant_Verify fb) (VoiceChanState_participants fb t) \<and>
     fb_EndTable fb t"

definition VoiceChanState_add_channel_id :: "'t option \<Rightarrow> 't FbElem" where
  "VoiceChanState_add_channel_id channel_id = AddOffset 4 channel_id"

definition VoiceChanState_add_participants :: "'t option \<Rightarrow> 't FbElem" where
  "VoiceChanState_add_participants participants = AddOffset 6 participants"

definition CreateVoiceChanState :: "'t FlatBuffers \<Rightarrow> 't option \<Rightarrow> 't option \<Rightarrow> 't" where
  "CreateVoiceChanState fb channel_id participants =
     fb_Table fb [VoiceChanState_add_participants participants, VoiceChanState_add_channel_id channel_id]"

lemmas VoiceChanState_defs = VoiceChanState_channel_id_def VoiceChanState_participants_def
 VoiceChanState_Verify_def VoiceChanState_add_channel_id_def
 VoiceChanState_add_participants_def CreateVoiceChanState_def

end
