(* ===== verification/Reserved_Messages.thy ===== *)
theory Reserved_Messages
  imports Proto_Ownership Proto_Chat Proto_Voice
begin

text \<open>
  The reserved messages of the protocol, ownership transfer, chat and voice: what a reader of the
  generated tables finds in a message that was built with them.
\<close>

lemma takeover_reads_back:
  assumes "fb_reads_back fb"
  shows "TakeoverRequest_dispatch_area_uid fb (CreateTakeoverRequest fb a s r t) = a"
    "TakeoverRequest_station_uid fb (CreateTakeoverRequest fb a s r t) = s"
    "TakeoverRequest_release fb (CreateTakeoverRequest fb a s r t) = r"
    "TakeoverRequest_reason_text fb (CreateTakeoverRequest fb a s r t) = t"
    "TakeoverResponse_granted fb (CreateTakeoverResponse fb g a s t) = g"
    "TakeoverResponse_dispatch_area_uid fb (CreateTakeoverResponse fb g a s t) = a"
    "TakeoverResponse_station_uid fb (CreateTakeoverResponse fb g a s t) = s"
    "TakeoverResponse_reject_reason fb (CreateTakeoverResponse fb g a s t) = t"
  by (simp_all add: TakeoverRequest_defs TakeoverResponse_defs fb_reads_backD [OF assms])

lemma chat_reads_back:
  assumes "fb_reads_back fb"
  shows "ChatMessage_target fb (CreateChatMessage fb k i t n u) = k"
    "ChatMessage_target_id fb (CreateChatMessage fb k i t n u) = i"
    "ChatMessage_text fb (CreateChatMessage fb k i t n u) = t"
    "ChatMessage_sender_id fb (CreateChatMessage fb k i t n u) = n"
    "ChatMessage_timestamp_us fb (CreateChatMessage fb k i t n u) = u"
  by (simp_all add: ChatMessage_defs fb_reads_backD [OF assms])

lemma voice_reads_back:
  assumes "fb_reads_back fb"
  shows "VoiceChanJoin_channel_id fb (CreateVoiceChanJoin fb c) = c"
    "VoiceChanLeave_channel_id fb (CreateVoiceChanLeave fb c) = c"
    "VoiceParticipant_client_id fb (CreateVoiceParticipant fb i m d) = i"
    "VoiceParticipant_muted fb (CreateVoiceParticipant fb i m d) = m"
    "VoiceParticipant_deafened fb (CreateVoiceParticipant fb i m d) = d"
    "VoiceChanState_channel_id fb (CreateVoiceChanState fb c ps) = c"
    "VoiceChanState_participants fb (CreateVoiceChanState fb c ps) = ps"
  by (simp_all add: VoiceChanJoin_defs VoiceChanLeave_defs VoiceParticipant_defs VoiceChanState_defs
      fb_reads_backD [OF assms])

end
