(* ===== verification/Pg_Writer.thy ===== *)
theory Pg_Writer
  imports Dispatch_Coordinator Floats Json_Library "HOL-Library.Signed_Division"
begin

text \<open>
  The PostgreSQL writer, \<^verbatim>\<open>server/src/pg_db_writer.cpp\<close>, over the tables of
  \<^verbatim>\<open>docker/init.sql\<close>.

  A table is the list of its rows, each with the number its \<^verbatim>\<open>BIGSERIAL\<close> column drew; a row is a
  record with the columns of the schema, a \<^verbatim>\<open>NULL\<close> is \<open>None\<close>, a \<^verbatim>\<open>BIGINT\<close> is the signed
  reading of the program's unsigned number and an \<^verbatim>\<open>INTERVAL\<close> its microseconds.  Every method of
  the class is one function: it checks its arguments as the code does, then runs its statement as a
  transaction, so that an error (a lost connection, a failed cast, a violated constraint) leaves the
  tables as they were.  The methods return \<open>Inl\<close> where the code throws.

  What the server itself computes is the record \<open>PgEnv\<close>: the clock, the numbers drawn from the
  sequences, \<^verbatim>\<open>gen_random_uuid()\<close>, the casts of texts to numbers and to JSON, and
  \<^verbatim>\<open>make_interval\<close>; the digest of OpenSSL is a parameter in the same record.  A commit that is
  acknowledged neither way (\<^verbatim>\<open>in_doubt_error\<close>) is not modelled.
\<close>

section \<open>The database server\<close>

record PgEnv =
  pg_up :: bool
  pg_now :: int
  pg_uuid :: string
  pg_nextval :: "nat \<Rightarrow> int"
  pg_text_to_double :: "string \<Rightarrow> double option"
  pg_make_interval :: "double \<Rightarrow> int option"
  pg_jsonb :: "string \<Rightarrow> string option"
  pg_sha256 :: "u8 list \<Rightarrow> u8 list option"

type_synonym 'r pg_table = "(int \<times> 'r) list"

definition required :: "string \<Rightarrow> 'a option \<Rightarrow> pg_error + 'a" where
  "required e x = (case x of None \<Rightarrow> Inl (PgError e) | Some y \<Rightarrow> Inr y)"

definition fresh_in :: "int \<Rightarrow> 'r pg_table \<Rightarrow> bool" where
  "fresh_in i tbl \<longleftrightarrow> i \<notin> fst ` set tbl"

text \<open>\<^verbatim>\<open>INSERT ... RETURNING id\<close>: each row draws its number; a number in use violates the key.\<close>

definition insert_rows :: "PgEnv \<Rightarrow> 'r list \<Rightarrow> 'r pg_table \<Rightarrow> pg_error + int list \<times> 'r pg_table" where
  "insert_rows env rows tbl =
     (let ids = map (pg_nextval env) [0..<length rows]
      in if distinct ids \<and> list_all (\<lambda>i. fresh_in i tbl) ids then Inr (ids, tbl @ zip ids rows)
         else Inl (PgError ''duplicate key''))"

text \<open>\<^verbatim>\<open>UPDATE ... WHERE\<close>\<close>

definition update_where :: "(int \<Rightarrow> 'r \<Rightarrow> bool) \<Rightarrow> ('r \<Rightarrow> 'r) \<Rightarrow> 'r pg_table \<Rightarrow> 'r pg_table" where
  "update_where p f tbl = map (\<lambda>(i, r). (i, if p i r then f r else r)) tbl"

section \<open>The tables\<close>

record PgSession =
  ps_display_name :: string
  ps_status :: string
  ps_schema_version :: int
  ps_started_at :: "int option"

record PgEvent =
  pe_session_id :: string
  pe_event_type :: int
  pe_event_id :: int
  pe_timestamp_us :: int
  pe_object_uid :: "int option"
  pe_payload :: "u8 list"
  pe_audit_hash :: string

record PgTelegram =
  pt_session_id :: string
  pt_form_type :: string
  pt_exchange_uid :: string
  pt_train_number :: string
  pt_from_uid :: int
  pt_to_uid :: int
  pt_direction :: string
  pt_status :: string
  pt_track_number :: "string option"
  pt_km_markers :: "string list"
  pt_body :: string
  pt_timestamp_us :: int

record PgEdrEntry =
  edr_session_id :: string
  edr_train_number :: string
  edr_station_uid :: int
  edr_operating_point_id :: "string option"
  edr_scheduled_arrival :: "int option"
  edr_actual_arrival :: "int option"
  edr_scheduled_departure :: int
  edr_actual_departure :: "int option"
  edr_track_number :: "string option"
  edr_track_clear_time :: "int option"
  edr_stop_type :: string
  edr_status :: string
  edr_updated_at :: int

record PgJournalEntry =
  pj_session_id :: string
  pj_operating_point_id :: string
  pj_station_uid :: int
  pj_journal_page :: string
  pj_entry_type :: string
  pj_train_number :: "string option"
  pj_direction :: "string option"
  pj_track_number :: "string option"
  pj_scheduled_arrival :: "int option"
  pj_scheduled_departure :: "int option"
  pj_actual_arrival :: "int option"
  pj_actual_departure :: "int option"
  pj_body :: string
  pj_notes :: "string option"
  pj_status :: string
  pj_timestamp_us :: int
  pj_updated_at :: int

record PgTrackState =
  pk_session_id :: string
  pk_section_uid :: int
  pk_trains :: string
  pk_updated_at :: int

record PgSnapshot =
  pn_session_id :: string
  pn_seq_cursor :: int
  pn_timestamp_us :: int
  pn_payload :: "u8 list"

record PgChat =
  pc_session_id :: string
  pc_sender_id :: string
  pc_target_type :: string
  pc_target_id :: "string option"
  pc_body :: string
  pc_timestamp_us :: int

record PgAssignment =
  pa_session_id :: string
  pa_operating_point_id :: string
  pa_station_sid :: string
  pa_client_id :: string
  pa_assigned_at :: int
  pa_released_at :: "int option"

record PgTemplate =
  pm_train_number :: string
  pm_station_uid :: int
  pm_operating_point_id :: "string option"
  pm_scheduled_arrival :: "int option"
  pm_scheduled_departure :: int
  pm_track_number :: "string option"
  pm_stop_type :: string
  pm_operating_days :: "int list"

record PgDatabase =
  db_sessions :: "(string \<times> PgSession) list"
  db_events :: "PgEvent pg_table"
  db_telegrams :: "PgTelegram pg_table"
  db_edr_entries :: "PgEdrEntry pg_table"
  db_journal :: "PgJournalEntry pg_table"
  db_track_state :: "PgTrackState list"
  db_snapshots :: "PgSnapshot pg_table"
  db_chat :: "PgChat pg_table"
  db_assignments :: "PgAssignment pg_table"
  db_templates :: "PgTemplate pg_table"

record PgDbWriter =
  conn :: PgDatabase
  session_uuid :: string

definition new_pg_writer :: "PgDatabase \<Rightarrow> PgDbWriter" where
  "new_pg_writer db = \<lparr>conn = db, session_uuid = []\<rparr>"

section \<open>Values of the statements\<close>

definition kUsPerDay :: int where
  "kUsPerDay = 86400000000"

text \<open>\<^verbatim>\<open>static_cast<int64_t>\<close> of an unsigned number.\<close>

definition int64 :: "u64 \<Rightarrow> int" where
  "int64 w = sint w"

text \<open>\<^verbatim>\<open>make_interval(secs => ($4::bigint % $5::bigint)::double precision / 1000000.0)\<close>: the
  remainder of SQL takes the sign of the dividend.\<close>

definition time_of_day_secs :: "u64 \<Rightarrow> double" where
  "time_of_day_secs timestamp_us = d_div (to_double (of_int (int64 timestamp_us smod kUsPerDay))) (Fin 1000000)"

definition time_of_day :: "PgEnv \<Rightarrow> u64 \<Rightarrow> pg_error + int" where
  "time_of_day env timestamp_us =
     required ''interval out of range'' (pg_make_interval env (time_of_day_secs timestamp_us))"

text \<open>\<^verbatim>\<open>make_interval(secs => $5::double precision)\<close>, and the same under
  \<^verbatim>\<open>CASE WHEN $4::text IS NULL\<close>\<close>

definition secs_interval :: "PgEnv \<Rightarrow> string \<Rightarrow> pg_error + int" where
  "secs_interval env secs =
     and_then (required ''invalid input syntax for type double precision'' (pg_text_to_double env secs)) (\<lambda>x.
       required ''interval out of range'' (pg_make_interval env x))"

definition optional_interval :: "PgEnv \<Rightarrow> string option \<Rightarrow> pg_error + int option" where
  "optional_interval env secs =
     (case secs of None \<Rightarrow> Inr None | Some s \<Rightarrow> map_sum id Some (secs_interval env s))"

text \<open>The array literals the casts \<^verbatim>\<open>$10::text[]\<close> and \<^verbatim>\<open>$8::smallint[]\<close> read: elements in
  quotes with backslash escapes, and decimal numbers.\<close>

definition unbrace :: "string \<Rightarrow> string option" where
  "unbrace s =
     (case s of [] \<Rightarrow> None
      | c # t \<Rightarrow> if c = CHR ''{'' \<and> t \<noteq> [] \<and> last t = CHR ''}'' then Some (butlast t) else None)"

lemma km_unescape_shorter: "length (snd (km_unescape s)) \<le> length s"
proof (induction s rule: km_unescape.induct)
  case (1 c s)
  then show ?case by (cases "c = CHR ''\"''"; cases "c = CHR 0x5C"; cases s) (simp_all add: le_SucI)
qed simp

function quoted_items :: "string \<Rightarrow> string list option" where
  "quoted_items s =
     (if s = [] \<or> hd s \<noteq> CHR ''\"'' then None
      else (case km_unescape (tl s) of (e, rest) \<Rightarrow>
        if rest = [] then Some [e]
        else if hd rest = CHR '','' then map_option ((#) e) (quoted_items (tl rest))
        else None))"
  by pat_completeness auto
termination
proof (relation "measure length", goal_cases)
  case (2 s e rest)
  have "length rest \<le> length (tl s)"
    using km_unescape_shorter [of "tl s"] 2(2) by (metis snd_conv)
  with 2(1,3) show ?case by (cases s; cases rest) auto
qed simp

declare quoted_items.simps [simp del]

definition text_array :: "string \<Rightarrow> string list option" where
  "text_array s =
     (case unbrace s of None \<Rightarrow> None | Some t \<Rightarrow> if t = [] then Some [] else quoted_items t)"

fun split_commas :: "string \<Rightarrow> string list" where
  "split_commas [] = [[]]"
| "split_commas (c # s) =
     (if c = CHR '','' then [] # split_commas s
      else (case split_commas s of [] \<Rightarrow> [[c]] | x # xs \<Rightarrow> (c # x) # xs))"

definition smallint_of :: "string \<Rightarrow> int option" where
  "smallint_of s =
     (let neg = s \<noteq> [] \<and> hd s = CHR ''-''; digits = (if neg then tl s else s);
          n = (if neg then - int (decimal_value digits) else int (decimal_value digits))
      in if digits = [] \<or> \<not> list_all is_digit digits \<or> n < - 32768 \<or> 32767 < n then None else Some n)"

definition smallint_array :: "string \<Rightarrow> int list option" where
  "smallint_array s =
     (case unbrace s of None \<Rightarrow> None
      | Some t \<Rightarrow> if t = [] then Some [] else those (map smallint_of (split_commas t)))"

text \<open>\<^verbatim>\<open>sha256_hex\<close>: two lowercase digits per byte of the digest.\<close>

definition hex_digit :: "nat \<Rightarrow> char" where
  "hex_digit d = (if d < 10 then char_of (48 + d) else char_of (87 + d))"

definition hex_byte :: "u8 \<Rightarrow> string" where
  "hex_byte b = [hex_digit (unat b div 16), hex_digit (unat b mod 16)]"

definition sha256_hex :: "PgEnv \<Rightarrow> string \<Rightarrow> int \<Rightarrow> int \<Rightarrow> u8 list \<Rightarrow> pg_error + string" where
  "sha256_hex env session_id event_id timestamp_us payload =
     map_sum id (\<lambda>digest. concat (map hex_byte digest))
       (required ''[PgDbWriter] EVP_DigestFinal_ex failed''
          (pg_sha256 env (audit_input session_id event_id timestamp_us payload)))"

section \<open>Transactions\<close>

definition has_session :: "string \<Rightarrow> PgDatabase \<Rightarrow> bool" where
  "has_session sid db \<longleftrightarrow> sid \<in> fst ` set (db_sessions db)"

definition transaction ::
    "PgEnv \<Rightarrow> (PgDatabase \<Rightarrow> pg_error + 'a \<times> PgDatabase) \<Rightarrow> PgDbWriter \<Rightarrow> pg_error + 'a \<times> PgDbWriter" where
  "transaction env statement w =
     (if \<not> pg_up env then Inl (PgError ''connection to server lost'')
      else and_then (statement (conn w)) (\<lambda>(x, db). Inr (x, w\<lparr>conn := db\<rparr>)))"

text \<open>\<^verbatim>\<open>$1::uuid\<close>; before \<^verbatim>\<open>init_session\<close> the text is empty.\<close>

definition uuid_cast :: "string \<Rightarrow> pg_error + unit" where
  "uuid_cast sid = (if sid = [] then Inl (PgError ''invalid input syntax for type uuid'') else Inr ())"

text \<open>Insertion into a table whose \<^verbatim>\<open>session_id\<close> references \<^verbatim>\<open>session.sessions\<close>.\<close>

definition insert_for_session ::
    "PgEnv \<Rightarrow> string \<Rightarrow> PgDatabase \<Rightarrow> 'r list \<Rightarrow> 'r pg_table \<Rightarrow> pg_error + int list \<times> 'r pg_table" where
  "insert_for_session env sid db rows tbl =
     and_then (uuid_cast sid) (\<lambda>_. and_then (insert_rows env rows tbl) (\<lambda>r.
       if rows = [] \<or> has_session sid db then Inr r
       else Inl (PgError ''violates foreign key constraint'')))"

section \<open>The methods\<close>

definition pg_init_session :: "PgEnv \<Rightarrow> string \<Rightarrow> int \<Rightarrow> PgDbWriter \<Rightarrow> pg_error + string \<times> PgDbWriter" where
  "pg_init_session env display_name schema_version w =
     map_sum id (\<lambda>(uuid, w'). (uuid, w'\<lparr>session_uuid := uuid\<rparr>))
       (transaction env (\<lambda>db.
          if has_session (pg_uuid env) db then Inl (PgError ''duplicate key'')
          else Inr (pg_uuid env, db\<lparr>db_sessions := db_sessions db @
                 [(pg_uuid env, \<lparr>ps_display_name = display_name, ps_status = ''STARTED'',
                    ps_schema_version = schema_version, ps_started_at = Some (pg_now env)\<rparr>)]\<rparr>)) w)"

text \<open>The rows \<^verbatim>\<open>SELECT ... FROM fleet.timetable_templates WHERE $2::smallint = ANY(operating_days)\<close>
  yields.\<close>

definition seeded_entry :: "PgEnv \<Rightarrow> string \<Rightarrow> PgTemplate \<Rightarrow> PgEdrEntry" where
  "seeded_entry env sid t =
     \<lparr>edr_session_id = sid, edr_train_number = pm_train_number t, edr_station_uid = pm_station_uid t,
      edr_operating_point_id = pm_operating_point_id t, edr_scheduled_arrival = pm_scheduled_arrival t,
      edr_actual_arrival = None, edr_scheduled_departure = pm_scheduled_departure t,
      edr_actual_departure = None, edr_track_number = pm_track_number t, edr_track_clear_time = None,
      edr_stop_type = pm_stop_type t, edr_status = ''PENDING'', edr_updated_at = pg_now env\<rparr>"

definition templates_on :: "int \<Rightarrow> PgDatabase \<Rightarrow> PgTemplate list" where
  "templates_on iso_weekday db =
     filter (\<lambda>t. iso_weekday \<in> set (pm_operating_days t)) (map snd (db_templates db))"

definition pg_seed_edr_entries_for_operating_day ::
    "PgEnv \<Rightarrow> int \<Rightarrow> PgDbWriter \<Rightarrow> pg_error + int \<times> PgDbWriter" where
  "pg_seed_edr_entries_for_operating_day env iso_weekday w =
     and_then (check_iso_weekday iso_weekday) (\<lambda>_. transaction env (\<lambda>db.
       map_sum id (\<lambda>(ids, t). (int (length ids), db\<lparr>db_edr_entries := t\<rparr>))
         (insert_for_session env (session_uuid w) db
            (map (seeded_entry env (session_uuid w)) (templates_on iso_weekday db)) (db_edr_entries db))) w)"

definition pg_write_domain_event :: "PgEnv \<Rightarrow> DomainEventRow \<Rightarrow> PgDbWriter \<Rightarrow> pg_error + unit \<times> PgDbWriter" where
  "pg_write_domain_event env row w =
     and_then (sha256_hex env (session_uuid w) (uint (der_event_id row)) (int64 (der_timestamp_us row))
                 (der_payload row)) (\<lambda>audit_hash. transaction env (\<lambda>db.
       map_sum id (\<lambda>(_, t). ((), db\<lparr>db_events := t\<rparr>))
         (insert_for_session env (session_uuid w) db
            [\<lparr>pe_session_id = session_uuid w, pe_event_type = uint (der_event_type row),
              pe_event_id = uint (der_event_id row), pe_timestamp_us = int64 (der_timestamp_us row),
              pe_object_uid = map_option int64 (der_object_uid row), pe_payload = der_payload row,
              pe_audit_hash = audit_hash\<rparr>] (db_events db))) w)"

definition pg_write_dispatch_telegram ::
    "PgEnv \<Rightarrow> TelegramRow \<Rightarrow> PgDbWriter \<Rightarrow> pg_error + unit \<times> PgDbWriter" where
  "pg_write_dispatch_telegram env row w =
     transaction env (\<lambda>db.
       and_then (required ''malformed array literal'' (text_array (km_array_literal (tr_km_markers row)))) (\<lambda>km.
       map_sum id (\<lambda>(_, t). ((), db\<lparr>db_telegrams := t\<rparr>))
         (insert_for_session env (session_uuid w) db
            [\<lparr>pt_session_id = session_uuid w, pt_form_type = tr_form_type row,
              pt_exchange_uid = tr_exchange_id row, pt_train_number = tr_train_number row,
              pt_from_uid = int64 (tr_from_uid row), pt_to_uid = int64 (tr_to_uid row),
              pt_direction = tr_direction row, pt_status = tr_status row,
              pt_track_number = tr_track_number row, pt_km_markers = km, pt_body = tr_body row,
              pt_timestamp_us = int64 (tr_timestamp_us row)\<rparr>] (db_telegrams db)))) w"

text \<open>The common \<^verbatim>\<open>WHERE\<close> of the three updates of an EDR entry.\<close>

definition edr_row :: "string \<Rightarrow> string \<Rightarrow> u64 \<Rightarrow> PgEdrEntry \<Rightarrow> bool" where
  "edr_row sid train_number station_uid r \<longleftrightarrow>
     edr_session_id r = sid \<and> edr_train_number r = train_number \<and> edr_station_uid r = int64 station_uid"

definition update_edr ::
    "PgEnv \<Rightarrow> (PgEdrEntry \<Rightarrow> bool) \<Rightarrow> (int \<Rightarrow> PgEdrEntry \<Rightarrow> PgEdrEntry) \<Rightarrow> string \<Rightarrow> u64 \<Rightarrow> u64 \<Rightarrow> PgDbWriter \<Rightarrow>
     pg_error + unit \<times> PgDbWriter" where
  "update_edr env guard set_columns train_number station_uid timestamp_us w =
     transaction env (\<lambda>db.
       and_then (uuid_cast (session_uuid w)) (\<lambda>_. and_then (time_of_day env timestamp_us) (\<lambda>tod.
         Inr ((), db\<lparr>db_edr_entries :=
           update_where (\<lambda>_ r. edr_row (session_uuid w) train_number station_uid r \<and> guard r)
             (\<lambda>r. (set_columns tod r)\<lparr>edr_updated_at := pg_now env\<rparr>) (db_edr_entries db)\<rparr>)))) w"

definition pg_update_edr_track_clear_time ::
    "PgEnv \<Rightarrow> string \<Rightarrow> u64 \<Rightarrow> u64 \<Rightarrow> PgDbWriter \<Rightarrow> pg_error + unit \<times> PgDbWriter" where
  "pg_update_edr_track_clear_time env =
     update_edr env (\<lambda>_. True) (\<lambda>tod r. r\<lparr>edr_track_clear_time := Some tod\<rparr>)"

definition pg_update_edr_departure ::
    "PgEnv \<Rightarrow> string \<Rightarrow> u64 \<Rightarrow> u64 \<Rightarrow> PgDbWriter \<Rightarrow> pg_error + unit \<times> PgDbWriter" where
  "pg_update_edr_departure env =
     update_edr env (\<lambda>r. edr_status r \<noteq> ''DEPARTED'')
       (\<lambda>tod r. r\<lparr>edr_actual_departure := Some tod, edr_status := ''DEPARTED''\<rparr>)"

definition pg_update_edr_arrival ::
    "PgEnv \<Rightarrow> string \<Rightarrow> u64 \<Rightarrow> u64 \<Rightarrow> PgDbWriter \<Rightarrow> pg_error + unit \<times> PgDbWriter" where
  "pg_update_edr_arrival env =
     update_edr env (\<lambda>r. edr_status r \<notin> {''ARRIVED'', ''DEPARTED''})
       (\<lambda>tod r. r\<lparr>edr_actual_arrival := Some tod, edr_status := ''ARRIVED''\<rparr>)"

definition journal_entry_types :: "string list" where
  "journal_entry_types = [''TRAIN'', ''TELEGRAM'', ''NOTE'', ''TRACK_OCCUPANCY'', ''CROSSING_NOTICE'']"

definition journal_statuses :: "string list" where
  "journal_statuses = [''ACTIVE'', ''CROSSED_OUT'', ''CORRECTED'', ''CANCELLED'']"

text \<open>\<^verbatim>\<open>ck_edr_journal_entry_type\<close> and \<^verbatim>\<open>ck_edr_journal_status\<close>\<close>

definition journal_checks :: "PgJournalEntry \<Rightarrow> bool" where
  "journal_checks r \<longleftrightarrow> pj_entry_type r \<in> set journal_entry_types \<and> pj_status r \<in> set journal_statuses"

definition pg_append_edr_journal_entry ::
    "PgEnv \<Rightarrow> EdrJournalEntryRow \<Rightarrow> PgDbWriter \<Rightarrow> pg_error + int \<times> PgDbWriter" where
  "pg_append_edr_journal_entry env row w =
     transaction env (\<lambda>db.
       and_then (optional_interval env (ej_scheduled_arrival_secs row)) (\<lambda>scheduled_arrival.
       and_then (optional_interval env (ej_scheduled_departure_secs row)) (\<lambda>scheduled_departure.
       and_then (optional_interval env (ej_actual_arrival_secs row)) (\<lambda>actual_arrival.
       and_then (optional_interval env (ej_actual_departure_secs row)) (\<lambda>actual_departure.
       let r = \<lparr>pj_session_id = session_uuid w, pj_operating_point_id = ej_operating_point_id row,
                pj_station_uid = int64 (ej_station_uid row), pj_journal_page = ej_journal_page row,
                pj_entry_type = ej_entry_type row, pj_train_number = ej_train_number row,
                pj_direction = ej_direction row, pj_track_number = ej_track_number row,
                pj_scheduled_arrival = scheduled_arrival, pj_scheduled_departure = scheduled_departure,
                pj_actual_arrival = actual_arrival, pj_actual_departure = actual_departure,
                pj_body = ej_body row, pj_notes = ej_notes row, pj_status = ''ACTIVE'',
                pj_timestamp_us = int64 (ej_timestamp_us row), pj_updated_at = pg_now env\<rparr>
       in if \<not> journal_checks r then Inl (PgError ''violates check constraint'')
          else map_sum id (\<lambda>(ids, t). (hd ids, db\<lparr>db_journal := t\<rparr>))
                 (insert_for_session env (session_uuid w) db [r] (db_journal db))))))) w"

text \<open>\<^verbatim>\<open>SET status = $3, notes = COALESCE($4::text, notes)\<close>: the check is made of each changed row.\<close>

definition pg_update_edr_journal_entry_status ::
    "PgEnv \<Rightarrow> int \<Rightarrow> string \<Rightarrow> string option \<Rightarrow> PgDbWriter \<Rightarrow> pg_error + unit \<times> PgDbWriter" where
  "pg_update_edr_journal_entry_status env entry_id status notes w =
     transaction env (\<lambda>db.
       and_then (uuid_cast (session_uuid w)) (\<lambda>_.
       let hit = (\<lambda>i r. pj_session_id r = session_uuid w \<and> i = entry_id);
           change = (\<lambda>r. r\<lparr>pj_status := status,
                            pj_notes := (case notes of None \<Rightarrow> pj_notes r | Some n \<Rightarrow> Some n),
                            pj_updated_at := pg_now env\<rparr>)
       in if list_ex (\<lambda>(i, r). hit i r \<and> \<not> journal_checks (change r)) (db_journal db)
          then Inl (PgError ''violates check constraint'')
          else Inr ((), db\<lparr>db_journal := update_where hit change (db_journal db)\<rparr>))) w"

definition track_key :: "PgTrackState \<Rightarrow> string \<times> int" where
  "track_key r = (pk_session_id r, pk_section_uid r)"

text \<open>\<^verbatim>\<open>ON CONFLICT (session_id, section_uid) DO UPDATE\<close>\<close>

definition upsert_track_state :: "PgTrackState \<Rightarrow> PgTrackState list \<Rightarrow> PgTrackState list" where
  "upsert_track_state k ks =
     (if track_key k \<in> track_key ` set ks
      then map (\<lambda>r. if track_key r = track_key k
             then r\<lparr>pk_trains := pk_trains k, pk_updated_at := pk_updated_at k\<rparr> else r) ks
      else ks @ [k])"

text \<open>The foreign key is checked of a new row; a row in conflict has satisfied it before.\<close>

definition pg_upsert_pip_track_state ::
    "PgEnv \<Rightarrow> u64 \<Rightarrow> string \<Rightarrow> PgDbWriter \<Rightarrow> pg_error + unit \<times> PgDbWriter" where
  "pg_upsert_pip_track_state env section_uid trains_json w =
     transaction env (\<lambda>db.
       and_then (uuid_cast (session_uuid w)) (\<lambda>_.
       and_then (required ''invalid input syntax for type json'' (pg_jsonb env trains_json)) (\<lambda>trains.
       let k = \<lparr>pk_session_id = session_uuid w, pk_section_uid = int64 section_uid, pk_trains = trains,
                pk_updated_at = pg_now env\<rparr>
       in if has_session (session_uuid w) db
          then Inr ((), db\<lparr>db_track_state := upsert_track_state k (db_track_state db)\<rparr>)
          else Inl (PgError ''violates foreign key constraint'')))) w"

definition pg_save_snapshot ::
    "PgEnv \<Rightarrow> int \<Rightarrow> int \<Rightarrow> u8 list \<Rightarrow> PgDbWriter \<Rightarrow> pg_error + unit \<times> PgDbWriter" where
  "pg_save_snapshot env seq_cursor timestamp_us payload w =
     transaction env (\<lambda>db.
       map_sum id (\<lambda>(_, t). ((), db\<lparr>db_snapshots := t\<rparr>))
         (insert_for_session env (session_uuid w) db
            [\<lparr>pn_session_id = session_uuid w, pn_seq_cursor = seq_cursor, pn_timestamp_us = timestamp_us,
              pn_payload = payload\<rparr>] (db_snapshots db))) w"

definition pg_append_chat_message ::
    "PgEnv \<Rightarrow> string \<Rightarrow> string \<Rightarrow> string option \<Rightarrow> string \<Rightarrow> int \<Rightarrow> PgDbWriter \<Rightarrow> pg_error + unit \<times> PgDbWriter" where
  "pg_append_chat_message env sender_id target_type target_id body timestamp_us w =
     transaction env (\<lambda>db.
       map_sum id (\<lambda>(_, t). ((), db\<lparr>db_chat := t\<rparr>))
         (insert_for_session env (session_uuid w) db
            [\<lparr>pc_session_id = session_uuid w, pc_sender_id = sender_id, pc_target_type = target_type,
              pc_target_id = target_id, pc_body = body, pc_timestamp_us = timestamp_us\<rparr>] (db_chat db))) w"

definition pg_assign_operating_point ::
    "PgEnv \<Rightarrow> string \<Rightarrow> string \<Rightarrow> string \<Rightarrow> PgDbWriter \<Rightarrow> pg_error + int \<times> PgDbWriter" where
  "pg_assign_operating_point env operating_point_id station_sid client_id w =
     transaction env (\<lambda>db.
       map_sum id (\<lambda>(ids, t). (hd ids, db\<lparr>db_assignments := t\<rparr>))
         (insert_for_session env (session_uuid w) db
            [\<lparr>pa_session_id = session_uuid w, pa_operating_point_id = operating_point_id,
              pa_station_sid = station_sid, pa_client_id = client_id, pa_assigned_at = pg_now env,
              pa_released_at = None\<rparr>] (db_assignments db))) w"

definition pg_release_operating_point ::
    "PgEnv \<Rightarrow> string \<Rightarrow> string \<Rightarrow> PgDbWriter \<Rightarrow> pg_error + unit \<times> PgDbWriter" where
  "pg_release_operating_point env operating_point_id client_id w =
     transaction env (\<lambda>db.
       and_then (uuid_cast (session_uuid w)) (\<lambda>_.
         Inr ((), db\<lparr>db_assignments :=
           update_where (\<lambda>_ r. pa_session_id r = session_uuid w \<and>
                pa_operating_point_id r = operating_point_id \<and> pa_client_id r = client_id \<and>
                pa_released_at r = None)
             (\<lambda>r. r\<lparr>pa_released_at := Some (pg_now env)\<rparr>) (db_assignments db)\<rparr>))) w"

text \<open>\<^verbatim>\<open>ck_timetable_operating_days_valid\<close>\<close>

definition operating_days_check :: "int list \<Rightarrow> bool" where
  "operating_days_check days \<longleftrightarrow> days \<noteq> [] \<and> list_all (\<lambda>d. 1 \<le> d \<and> d \<le> 7) days"

definition template_key :: "PgTemplate \<Rightarrow> string \<times> int" where
  "template_key t = (pm_train_number t, pm_station_uid t)"

text \<open>\<^verbatim>\<open>ON CONFLICT (train_number, station_uid) DO UPDATE SET ... = EXCLUDED. ...\<close>: every column but
  the key is replaced.\<close>

definition upsert_template :: "PgEnv \<Rightarrow> PgTemplate \<Rightarrow> PgTemplate pg_table \<Rightarrow> pg_error + PgTemplate pg_table" where
  "upsert_template env t tbl =
     (if template_key t \<in> template_key ` snd ` set tbl
      then Inr (update_where (\<lambda>_ r. template_key r = template_key t) (\<lambda>_. t) tbl)
      else map_sum id snd (insert_rows env [t] tbl))"

definition pg_upsert_timetable_template ::
    "PgEnv \<Rightarrow> TimetableUpsert \<Rightarrow> PgDbWriter \<Rightarrow> pg_error + unit \<times> PgDbWriter" where
  "pg_upsert_timetable_template env u w =
     and_then (check_operating_days (tu_operating_days u)) (\<lambda>_. transaction env (\<lambda>db.
       and_then (optional_interval env (tu_scheduled_arrival_secs u)) (\<lambda>scheduled_arrival.
       and_then (secs_interval env (tu_scheduled_departure_secs u)) (\<lambda>scheduled_departure.
       and_then (required ''malformed array literal''
                   (smallint_array (pg_smallint_array_literal (tu_operating_days u)))) (\<lambda>days.
       if \<not> operating_days_check days then Inl (PgError ''violates check constraint'')
       else map_sum id (\<lambda>t. ((), db\<lparr>db_templates := t\<rparr>))
         (upsert_template env
            \<lparr>pm_train_number = tu_train_number u, pm_station_uid = int64 (tu_station_uid u),
             pm_operating_point_id = tu_operating_point_id u, pm_scheduled_arrival = scheduled_arrival,
             pm_scheduled_departure = scheduled_departure, pm_track_number = tu_track_number u,
             pm_stop_type = tu_stop_type u, pm_operating_days = days\<rparr> (db_templates db)))))) w)"

section \<open>Calls\<close>

text \<open>A call of the writer interface \<^verbatim>\<open>IDbWriter\<close> and what the two writers do with it.  The mutex
  makes the calls of \<^verbatim>\<open>PgDbWriter\<close> one sequence; a call that throws leaves the writer as it was.\<close>

datatype DbCall =
    InitSession string int
  | SeedOperatingDay int
  | WriteEvent DomainEventRow
  | WriteTelegram TelegramRow
  | TrackClear string u64 u64
  | Departure string u64 u64
  | Arrival string u64 u64
  | AppendJournal EdrJournalEntryRow
  | JournalStatus int string "string option"
  | UpsertPip u64 string
  | SaveSnapshot int int "u8 list"
  | AppendChat string string "string option" string int
  | AssignPoint string string string
  | ReleasePoint string string
  | UpsertTemplate TimetableUpsert

definition outcome :: "PgDbWriter \<Rightarrow> pg_error + 'a \<times> PgDbWriter \<Rightarrow> bool \<times> PgDbWriter" where
  "outcome w r = (case r of Inl _ \<Rightarrow> (False, w) | Inr (_, w') \<Rightarrow> (True, w'))"

fun pg_call :: "PgEnv \<Rightarrow> DbCall \<Rightarrow> PgDbWriter \<Rightarrow> bool \<times> PgDbWriter" where
  "pg_call env (InitSession n v) w = outcome w (pg_init_session env n v w)"
| "pg_call env (SeedOperatingDay d) w = outcome w (pg_seed_edr_entries_for_operating_day env d w)"
| "pg_call env (WriteEvent r) w = outcome w (pg_write_domain_event env r w)"
| "pg_call env (WriteTelegram r) w = outcome w (pg_write_dispatch_telegram env r w)"
| "pg_call env (TrackClear n s t) w = outcome w (pg_update_edr_track_clear_time env n s t w)"
| "pg_call env (Departure n s t) w = outcome w (pg_update_edr_departure env n s t w)"
| "pg_call env (Arrival n s t) w = outcome w (pg_update_edr_arrival env n s t w)"
| "pg_call env (AppendJournal r) w = outcome w (pg_append_edr_journal_entry env r w)"
| "pg_call env (JournalStatus i s n) w = outcome w (pg_update_edr_journal_entry_status env i s n w)"
| "pg_call env (UpsertPip u j) w = outcome w (pg_upsert_pip_track_state env u j w)"
| "pg_call env (SaveSnapshot c t p) w = outcome w (pg_save_snapshot env c t p w)"
| "pg_call env (AppendChat a b c d t) w = outcome w (pg_append_chat_message env a b c d t w)"
| "pg_call env (AssignPoint a b c) w = outcome w (pg_assign_operating_point env a b c w)"
| "pg_call env (ReleasePoint a c) w = outcome w (pg_release_operating_point env a c w)"
| "pg_call env (UpsertTemplate u) w = outcome w (pg_upsert_timetable_template env u w)"

fun null_call :: "DbCall \<Rightarrow> NullDbWriter \<Rightarrow> NullDbWriter" where
  "null_call (InitSession n v) db = snd (init_session n v db)"
| "null_call (SeedOperatingDay d) db = snd (seed_edr_entries_for_operating_day d db)"
| "null_call (WriteEvent r) db = write_domain_event r db"
| "null_call (WriteTelegram r) db = write_dispatch_telegram r db"
| "null_call (TrackClear n s t) db = update_edr_track_clear_time n s t db"
| "null_call (Departure n s t) db = update_edr_departure n s t db"
| "null_call (Arrival n s t) db = update_edr_arrival n s t db"
| "null_call (AppendJournal r) db = snd (append_edr_journal_entry r db)"
| "null_call (JournalStatus i s n) db = update_edr_journal_entry_status i s n db"
| "null_call (UpsertPip u j) db = upsert_pip_track_state u j db"
| "null_call (SaveSnapshot c t p) db = save_snapshot c t p db"
| "null_call (AppendChat a b c d t) db = append_chat_message a b c d t db"
| "null_call (AssignPoint a b c) db = snd (assign_operating_point a b c db)"
| "null_call (ReleasePoint a c) db = release_operating_point a c db"
| "null_call (UpsertTemplate u) db = upsert_timetable_template u db"

definition pg_run :: "(PgEnv \<times> DbCall) list \<Rightarrow> PgDbWriter \<Rightarrow> PgDbWriter" where
  "pg_run calls w = fold (\<lambda>(env, c) w. snd (pg_call env c w)) calls w"

end
