(* ===== verification/Pg_Properties.thy ===== *)
theory Pg_Properties
  imports Pg_Writer "HOL-Library.Sublist"
begin

text \<open>
  What the PostgreSQL writer promises.  The step relation \<open>pg_step\<close> is the abstract specification
  of the database during a session: rows are added for the running session only, an EDR entry only
  advances, keys stay unique.  Every call of the writer interface is a step of it or leaves the
  tables as they were (\<open>pg_call_step\<close>); what holds of every run follows from the steps through the
  locale \<open>run_order\<close>.  The last part compares the tables with the log of the in-memory writer.
\<close>

section \<open>Statements that return\<close>

lemma required_Inr [simp]: "required e x = Inr y \<longleftrightarrow> x = Some y"
  by (simp add: required_def split: option.split)

declare map_sum_Inr [simp]

lemma uuid_cast_Inr [simp]: "uuid_cast sid = Inr u \<longleftrightarrow> sid \<noteq> []"
  by (simp add: uuid_cast_def)

lemma transaction_Inr [simp]:
  "transaction env st w = Inr (x, w') \<longleftrightarrow>
     pg_up env \<and> (\<exists>db. st (conn w) = Inr (x, db) \<and> w' = w\<lparr>conn := db\<rparr>)"
  by (auto simp: transaction_def and_then_Inr)

lemma insert_rows_Inr:
  "insert_rows env rows tbl = Inr (ids, t) \<longleftrightarrow>
     ids = map (pg_nextval env) [0..<length rows] \<and> distinct ids \<and> (\<forall>i\<in>set ids. fresh_in i tbl) \<and>
     t = tbl @ zip ids rows"
  by (simp add: insert_rows_def Let_def list_all_iff) auto

lemma insert_one_Inr [simp]:
  "insert_rows env [r] tbl = Inr (ids, t) \<longleftrightarrow>
     ids = [pg_nextval env 0] \<and> fresh_in (pg_nextval env 0) tbl \<and> t = tbl @ [(pg_nextval env 0, r)]"
  by (auto simp: insert_rows_Inr)

lemma insert_for_session_Inr:
  "insert_for_session env sid db rows tbl = Inr (ids, t) \<longleftrightarrow>
     sid \<noteq> [] \<and> insert_rows env rows tbl = Inr (ids, t) \<and> (rows = [] \<or> has_session sid db)"
  by (auto simp: insert_for_session_def and_then_Inr split: if_splits)

lemma insert_one_for_session_Inr [simp]:
  "insert_for_session env sid db [r] tbl = Inr (ids, t) \<longleftrightarrow>
     sid \<noteq> [] \<and> has_session sid db \<and> ids = [pg_nextval env 0] \<and>
     fresh_in (pg_nextval env 0) tbl \<and> t = tbl @ [(pg_nextval env 0, r)]"
  by (auto simp: insert_for_session_Inr)

section \<open>The specification\<close>

definition edr_rank :: "PgEdrEntry \<Rightarrow> nat" where
  "edr_rank r = (if edr_status r = ''DEPARTED'' then 2 else if edr_status r = ''ARRIVED'' then 1 else 0)"

text \<open>The columns no update touches.\<close>

definition edr_plan where
  "edr_plan r = (edr_session_id r, edr_train_number r, edr_station_uid r, edr_operating_point_id r,
     edr_scheduled_arrival r, edr_scheduled_departure r, edr_track_number r, edr_stop_type r)"

definition edr_advances :: "PgEdrEntry \<Rightarrow> PgEdrEntry \<Rightarrow> bool" where
  "edr_advances r r' \<longleftrightarrow> edr_plan r' = edr_plan r \<and> edr_rank r \<le> edr_rank r' \<and>
     (1 \<le> edr_rank r \<longrightarrow> edr_actual_arrival r' = edr_actual_arrival r) \<and>
     (edr_rank r = 2 \<longrightarrow> edr_actual_departure r' = edr_actual_departure r)"

definition edr_seeded :: "string \<Rightarrow> PgEdrEntry \<Rightarrow> bool" where
  "edr_seeded sid r \<longleftrightarrow> edr_session_id r = sid \<and> edr_status r = ''PENDING'' \<and>
     edr_actual_arrival r = None \<and> edr_actual_departure r = None \<and> edr_track_clear_time r = None"

definition opened :: "PgDbWriter \<Rightarrow> bool" where
  "opened w \<longleftrightarrow> has_session (session_uuid w) (conn w)"

definition template_ok :: "PgTemplate \<Rightarrow> bool" where
  "template_ok t \<longleftrightarrow> operating_days_check (pm_operating_days t)"

inductive pg_step :: "PgDbWriter \<Rightarrow> PgDbWriter \<Rightarrow> bool" where
  NewSession: "\<not> has_session uuid (conn w) \<Longrightarrow>
    pg_step w (w\<lparr>conn := (conn w)\<lparr>db_sessions := db_sessions (conn w) @ [(uuid, s)]\<rparr>, session_uuid := uuid\<rparr>)"
| NewEvent: "opened w \<Longrightarrow> pe_session_id e = session_uuid w \<Longrightarrow> fresh_in i (db_events (conn w)) \<Longrightarrow>
    pg_step w (w\<lparr>conn := (conn w)\<lparr>db_events := db_events (conn w) @ [(i, e)]\<rparr>\<rparr>)"
| NewTelegram: "opened w \<Longrightarrow> pt_session_id m = session_uuid w \<Longrightarrow> fresh_in i (db_telegrams (conn w)) \<Longrightarrow>
    pg_step w (w\<lparr>conn := (conn w)\<lparr>db_telegrams := db_telegrams (conn w) @ [(i, m)]\<rparr>\<rparr>)"
| NewSnapshot: "opened w \<Longrightarrow> pn_session_id n = session_uuid w \<Longrightarrow> fresh_in i (db_snapshots (conn w)) \<Longrightarrow>
    pg_step w (w\<lparr>conn := (conn w)\<lparr>db_snapshots := db_snapshots (conn w) @ [(i, n)]\<rparr>\<rparr>)"
| NewChat: "opened w \<Longrightarrow> pc_session_id c = session_uuid w \<Longrightarrow> fresh_in i (db_chat (conn w)) \<Longrightarrow>
    pg_step w (w\<lparr>conn := (conn w)\<lparr>db_chat := db_chat (conn w) @ [(i, c)]\<rparr>\<rparr>)"
| NewAssignment: "opened w \<Longrightarrow> pa_session_id a = session_uuid w \<Longrightarrow> pa_released_at a = None \<Longrightarrow>
    fresh_in i (db_assignments (conn w)) \<Longrightarrow>
    pg_step w (w\<lparr>conn := (conn w)\<lparr>db_assignments := db_assignments (conn w) @ [(i, a)]\<rparr>\<rparr>)"
| Release: "(\<And>i a. p i a \<Longrightarrow> pa_session_id a = session_uuid w \<and> pa_released_at a = None) \<Longrightarrow>
    pg_step w (w\<lparr>conn := (conn w)\<lparr>db_assignments :=
      update_where p (\<lambda>a. a\<lparr>pa_released_at := Some t\<rparr>) (db_assignments (conn w))\<rparr>\<rparr>)"
| NewJournal: "opened w \<Longrightarrow> pj_session_id j = session_uuid w \<Longrightarrow> journal_checks j \<Longrightarrow> pj_status j = ''ACTIVE'' \<Longrightarrow>
    fresh_in i (db_journal (conn w)) \<Longrightarrow>
    pg_step w (w\<lparr>conn := (conn w)\<lparr>db_journal := db_journal (conn w) @ [(i, j)]\<rparr>\<rparr>)"
| MarkJournal: "(\<And>i j. p i j \<Longrightarrow> pj_session_id j = session_uuid w) \<Longrightarrow>
    (\<And>i j. (i, j) \<in> set (db_journal (conn w)) \<Longrightarrow> p i j \<Longrightarrow> journal_checks (f j)) \<Longrightarrow>
    (\<And>j. \<exists>s n t. f j = j\<lparr>pj_status := s, pj_notes := n, pj_updated_at := t\<rparr>) \<Longrightarrow>
    pg_step w (w\<lparr>conn := (conn w)\<lparr>db_journal := update_where p f (db_journal (conn w))\<rparr>\<rparr>)"
| Seed: "opened w \<or> rows = [] \<Longrightarrow> length ids = length rows \<Longrightarrow> distinct ids \<Longrightarrow>
    \<forall>i\<in>set ids. fresh_in i (db_edr_entries (conn w)) \<Longrightarrow> \<forall>r\<in>set rows. edr_seeded (session_uuid w) r \<Longrightarrow>
    pg_step w (w\<lparr>conn := (conn w)\<lparr>db_edr_entries := db_edr_entries (conn w) @ zip ids rows\<rparr>\<rparr>)"
| Advance: "(\<And>i r. p i r \<Longrightarrow> edr_session_id r = session_uuid w \<and> edr_advances r (f r)) \<Longrightarrow>
    pg_step w (w\<lparr>conn := (conn w)\<lparr>db_edr_entries := update_where p f (db_edr_entries (conn w))\<rparr>\<rparr>)"
| NewTrackState: "opened w \<Longrightarrow> pk_session_id k = session_uuid w \<Longrightarrow>
    track_key k \<notin> track_key ` set (db_track_state (conn w)) \<Longrightarrow>
    pg_step w (w\<lparr>conn := (conn w)\<lparr>db_track_state := db_track_state (conn w) @ [k]\<rparr>\<rparr>)"
| SetTrackState: "(\<And>k. p k \<Longrightarrow> pk_session_id k = session_uuid w) \<Longrightarrow>
    pg_step w (w\<lparr>conn := (conn w)\<lparr>db_track_state := map (\<lambda>k. if p k
      then k\<lparr>pk_trains := v, pk_updated_at := t\<rparr> else k) (db_track_state (conn w))\<rparr>\<rparr>)"
| NewTemplate: "template_ok m \<Longrightarrow> template_key m \<notin> template_key ` snd ` set (db_templates (conn w)) \<Longrightarrow>
    fresh_in i (db_templates (conn w)) \<Longrightarrow>
    pg_step w (w\<lparr>conn := (conn w)\<lparr>db_templates := db_templates (conn w) @ [(i, m)]\<rparr>\<rparr>)"
| SetTemplate: "template_ok m \<Longrightarrow>
    pg_step w (w\<lparr>conn := (conn w)\<lparr>db_templates :=
      update_where (\<lambda>_ r. template_key r = template_key m) (\<lambda>_. m) (db_templates (conn w))\<rparr>\<rparr>)"

lemma outcome_step:
  assumes "\<And>x w'. r = Inr (x, w') \<Longrightarrow> pg_step w w'"
  shows "snd (outcome w r) = w \<or> pg_step w (snd (outcome w r))"
  using assms by (auto simp: outcome_def split: sum.split prod.split)

lemma edr_update_advances:
  "edr_status r \<noteq> ''DEPARTED'' \<Longrightarrow>
     edr_advances r (r\<lparr>edr_actual_departure := d, edr_status := ''DEPARTED'', edr_updated_at := t\<rparr>)"
  "edr_status r \<noteq> ''ARRIVED'' \<Longrightarrow> edr_status r \<noteq> ''DEPARTED'' \<Longrightarrow>
     edr_advances r (r\<lparr>edr_actual_arrival := d, edr_status := ''ARRIVED'', edr_updated_at := t\<rparr>)"
  "edr_advances r (r\<lparr>edr_track_clear_time := d, edr_updated_at := t\<rparr>)"
  by (simp_all add: edr_advances_def edr_plan_def edr_rank_def)

lemma update_edr_step:
  assumes "update_edr env g f n s t w = Inr (x, w')"
    and "\<And>d r. g r \<Longrightarrow> edr_advances r ((f d r)\<lparr>edr_updated_at := pg_now env\<rparr>)"
  shows "pg_step w w'"
  using assms by (auto simp: update_edr_def and_then_Inr edr_row_def intro!: Advance)

lemma pg_call_step: "snd (pg_call env c w) = w \<or> pg_step w (snd (pg_call env c w))"
proof (cases c)
  case (InitSession n v)
  show ?thesis unfolding InitSession pg_call.simps
    by (rule outcome_step) (auto simp: pg_init_session_def split: if_splits intro: NewSession)
next
  case (SeedOperatingDay d)
  show ?thesis unfolding SeedOperatingDay pg_call.simps
    by (rule outcome_step) (auto simp: pg_seed_edr_entries_for_operating_day_def and_then_Inr
        insert_for_session_Inr insert_rows_Inr opened_def edr_seeded_def seeded_entry_def
        intro!: Seed)
next
  case (WriteEvent r)
  show ?thesis unfolding WriteEvent pg_call.simps
    by (rule outcome_step) (auto simp: pg_write_domain_event_def and_then_Inr opened_def
        intro!: NewEvent)
next
  case (WriteTelegram r)
  show ?thesis unfolding WriteTelegram pg_call.simps
    by (rule outcome_step) (auto simp: pg_write_dispatch_telegram_def and_then_Inr opened_def
        intro!: NewTelegram)
next
  case (TrackClear n s t)
  show ?thesis unfolding TrackClear pg_call.simps pg_update_edr_track_clear_time_def
    by (rule outcome_step, erule update_edr_step) (simp add: edr_update_advances)
next
  case (Departure n s t)
  show ?thesis unfolding Departure pg_call.simps pg_update_edr_departure_def
    by (rule outcome_step, erule update_edr_step) (simp add: edr_update_advances)
next
  case (Arrival n s t)
  show ?thesis unfolding Arrival pg_call.simps pg_update_edr_arrival_def
    by (rule outcome_step, erule update_edr_step) (simp add: edr_update_advances)
next
  case (AppendJournal r)
  show ?thesis unfolding AppendJournal pg_call.simps
    by (rule outcome_step) (auto simp: pg_append_edr_journal_entry_def and_then_Inr Let_def opened_def
        split: if_splits intro!: NewJournal)
next
  case (JournalStatus i s n)
  show ?thesis unfolding JournalStatus pg_call.simps
    by (rule outcome_step) (auto simp: pg_update_edr_journal_entry_status_def and_then_Inr Let_def
        list_ex_iff split: if_splits intro!: MarkJournal)
next
  case (UpsertPip u j)
  show ?thesis unfolding UpsertPip pg_call.simps
    by (rule outcome_step) (auto simp: pg_upsert_pip_track_state_def and_then_Inr Let_def opened_def
        upsert_track_state_def track_key_def split: if_splits intro!: NewTrackState SetTrackState)
next
  case (SaveSnapshot k t p)
  show ?thesis unfolding SaveSnapshot pg_call.simps
    by (rule outcome_step) (auto simp: pg_save_snapshot_def opened_def intro!: NewSnapshot)
next
  case (AppendChat a b k d t)
  show ?thesis unfolding AppendChat pg_call.simps
    by (rule outcome_step) (auto simp: pg_append_chat_message_def opened_def intro!: NewChat)
next
  case (AssignPoint a b k)
  show ?thesis unfolding AssignPoint pg_call.simps
    by (rule outcome_step) (auto simp: pg_assign_operating_point_def opened_def
        intro!: NewAssignment)
next
  case (ReleasePoint a k)
  show ?thesis unfolding ReleasePoint pg_call.simps
    by (rule outcome_step) (auto simp: pg_release_operating_point_def and_then_Inr intro!: Release)
next
  case (UpsertTemplate u)
  show ?thesis unfolding UpsertTemplate pg_call.simps
    by (rule outcome_step) (auto simp: pg_upsert_timetable_template_def upsert_template_def and_then_Inr
        template_ok_def split: if_splits intro!: NewTemplate SetTemplate)
qed

section \<open>Runs\<close>

text \<open>What every step keeps or only lets grow holds between the start and the end of every run.\<close>

locale run_order =
  fixes step :: "'c \<Rightarrow> 's \<Rightarrow> 's" and rel :: "'s \<Rightarrow> 's \<Rightarrow> bool"
  assumes rel_refl: "rel s s"
    and rel_trans: "rel s t \<Longrightarrow> rel t u \<Longrightarrow> rel s u"
    and step_rel: "rel s (step c s)"
begin

lemma fold_rel: "rel s (fold step cs s)"
  by (induction cs arbitrary: s) (auto intro: rel_refl rel_trans step_rel)

end

locale pg_order =
  fixes rel :: "PgDbWriter \<Rightarrow> PgDbWriter \<Rightarrow> bool"
  assumes pg_refl: "rel w w"
    and pg_trans: "rel w w1 \<Longrightarrow> rel w1 w2 \<Longrightarrow> rel w w2"
    and pg_step_rel: "pg_step w w' \<Longrightarrow> rel w w'"

sublocale pg_order \<subseteq> run_order "\<lambda>(env, c) w. snd (pg_call env c w)" rel
proof unfold_locales
  show "rel w ((\<lambda>(env, c) w. snd (pg_call env c w)) x w)" for x w
    using pg_call_step [of "fst x" "snd x" w] by (auto simp: case_prod_beta intro: pg_refl pg_step_rel)
qed (fact pg_refl, fact pg_trans)

context pg_order
begin

lemma pg_run_rel: "rel w (pg_run calls w)"
  unfolding pg_run_def by (rule fold_rel)

end

subsection \<open>The EDR\<close>

lemma map_of_update_where:
  "map_of (update_where p f t) i = map_option (\<lambda>r. if p i r then f r else r) (map_of t i)"
  by (induction t) (auto simp: update_where_def)

lemma edr_advances_refl: "edr_advances r r"
  by (simp add: edr_advances_def)

lemma edr_advances_trans: "edr_advances r r1 \<Longrightarrow> edr_advances r1 r2 \<Longrightarrow> edr_advances r r2"
  by (auto simp: edr_advances_def edr_rank_def split: if_splits)

definition edr_progress :: "PgDbWriter \<Rightarrow> PgDbWriter \<Rightarrow> bool" where
  "edr_progress w w' \<longleftrightarrow>
     (\<forall>i r. map_of (db_edr_entries (conn w)) i = Some r \<longrightarrow>
        (\<exists>r'. map_of (db_edr_entries (conn w')) i = Some r' \<and> edr_advances r r'))"

lemma edr_progress_same: "db_edr_entries (conn w') = db_edr_entries (conn w) \<Longrightarrow> edr_progress w w'"
  by (simp add: edr_progress_def edr_advances_refl)

lemma edr_progress_step: "pg_step w w' \<Longrightarrow> edr_progress w w'"
proof (induction rule: pg_step.induct)
  case (Seed w rows ids)
  then show ?case by (simp add: edr_progress_def map_add_def edr_advances_refl del: map_of_zip_map)
next
  case (Advance p w f)
  then show ?case by (auto simp: edr_progress_def map_of_update_where edr_advances_refl)
qed (rule edr_progress_same, simp)+

interpretation edr: pg_order edr_progress
proof unfold_locales
  show "edr_progress w w2" if "edr_progress w w1" "edr_progress w1 w2" for w w1 w2
    using that unfolding edr_progress_def by (meson edr_advances_trans)
qed (simp_all add: edr_progress_same edr_progress_step)

subsection \<open>The logs\<close>

definition logs_grow :: "PgDbWriter \<Rightarrow> PgDbWriter \<Rightarrow> bool" where
  "logs_grow w w' \<longleftrightarrow>
     prefix (db_events (conn w)) (db_events (conn w')) \<and>
     prefix (db_telegrams (conn w)) (db_telegrams (conn w')) \<and>
     prefix (db_snapshots (conn w)) (db_snapshots (conn w')) \<and>
     prefix (db_chat (conn w)) (db_chat (conn w')) \<and>
     prefix (db_sessions (conn w)) (db_sessions (conn w'))"

lemma logs_grow_step: "pg_step w w' \<Longrightarrow> logs_grow w w'"
  by (induction rule: pg_step.induct) (simp_all add: logs_grow_def)

interpretation logs: pg_order logs_grow
proof unfold_locales
  show "logs_grow w w2" if "logs_grow w w1" "logs_grow w1 w2" for w w1 w2
    using that unfolding logs_grow_def by (meson prefix_order.trans)
qed (simp_all add: logs_grow_step, simp add: logs_grow_def)

subsection \<open>The other sessions\<close>

definition session_rows where
  "session_rows sid w =
     (case conn w of db \<Rightarrow>
         (filter (\<lambda>(_, r). pe_session_id r = sid) (db_events db),
          filter (\<lambda>(_, r). pt_session_id r = sid) (db_telegrams db),
          filter (\<lambda>(_, r). edr_session_id r = sid) (db_edr_entries db),
          filter (\<lambda>(_, r). pj_session_id r = sid) (db_journal db),
          filter (\<lambda>r. pk_session_id r = sid) (db_track_state db),
          filter (\<lambda>(_, r). pn_session_id r = sid) (db_snapshots db),
          filter (\<lambda>(_, r). pc_session_id r = sid) (db_chat db),
          filter (\<lambda>(_, r). pa_session_id r = sid) (db_assignments db)))"

definition others_kept :: "PgDbWriter \<Rightarrow> PgDbWriter \<Rightarrow> bool" where
  "others_kept w w' \<longleftrightarrow>
     (\<forall>sid. has_session sid (conn w) \<and> sid \<noteq> session_uuid w \<longrightarrow>
        has_session sid (conn w') \<and> sid \<noteq> session_uuid w' \<and> session_rows sid w' = session_rows sid w)"

lemma filter_update_where:
  assumes "\<And>i r. p i r \<Longrightarrow> s r = sid' \<and> s (f r) = sid'" and "sid \<noteq> sid'"
  shows "filter (\<lambda>(_, r). s r = sid) (update_where p f t) = filter (\<lambda>(_, r). s r = sid) t"
  using assms by (induction t) (fastforce simp: update_where_def)+

lemma others_kept_step: "pg_step w w' \<Longrightarrow> others_kept w w'"
proof (induction rule: pg_step.induct)
  case (Release p w t)
  then show ?case
    by (auto simp: others_kept_def session_rows_def has_session_def intro!: filter_update_where [where sid' = "session_uuid w"])
next
  case (MarkJournal p w f)
  have "pj_session_id (f j) = pj_session_id j" for j using MarkJournal(3) [of j] by auto
  with MarkJournal(1) show ?case
    by (auto simp: others_kept_def session_rows_def has_session_def intro!: filter_update_where [where sid' = "session_uuid w"])
next
  case (Advance p w f)
  then have "edr_session_id (f r) = session_uuid w" if "p i r" for i r
    using that by (fastforce simp: edr_advances_def edr_plan_def)
  with Advance show ?case
    by (auto simp: others_kept_def session_rows_def has_session_def intro!: filter_update_where [where sid' = "session_uuid w"])
next
  case (SetTrackState p w t v)
  have "filter (\<lambda>r. pk_session_id r = sid) (map (\<lambda>k. if p k then k\<lparr>pk_trains := v, pk_updated_at := t\<rparr> else k) ks) =
      filter (\<lambda>r. pk_session_id r = sid) ks" if "sid \<noteq> session_uuid w" for sid ks
    using SetTrackState that by (induction ks) auto
  then show ?case by (auto simp: others_kept_def session_rows_def has_session_def)
next
  case (Seed w rows ids)
  have "filter (\<lambda>(_, r). edr_session_id r = sid) (zip ids rows) = []" if "sid \<noteq> session_uuid w" for sid
    using Seed(5) that by (auto simp: filter_empty_conv edr_seeded_def dest!: set_zip_rightD)
  then show ?case by (auto simp: others_kept_def session_rows_def has_session_def)
qed (auto simp: others_kept_def session_rows_def has_session_def)

interpretation others: pg_order others_kept
proof unfold_locales
  show "others_kept w w2" if "others_kept w w1" "others_kept w1 w2" for w w1 w2
    using that unfolding others_kept_def by simp
qed (simp_all add: others_kept_step, simp add: others_kept_def)

subsection \<open>The constraints of the schema\<close>

definition keyed :: "(int \<times> 'r) list \<Rightarrow> bool" where
  "keyed t \<longleftrightarrow> distinct (map fst t)"

definition in_sessions :: "PgDatabase \<Rightarrow> ('r \<Rightarrow> string) \<Rightarrow> 'r list \<Rightarrow> bool" where
  "in_sessions db s rows \<longleftrightarrow> (\<forall>r\<in>set rows. has_session (s r) db)"

text \<open>Primary keys, unique indexes, foreign keys and checks of \<^verbatim>\<open>docker/init.sql\<close>.\<close>

definition pg_wf :: "PgDatabase \<Rightarrow> bool" where
  "pg_wf db \<longleftrightarrow> distinct (map fst (db_sessions db)) \<and>
     keyed (db_events db) \<and> in_sessions db pe_session_id (map snd (db_events db)) \<and>
     keyed (db_telegrams db) \<and> in_sessions db pt_session_id (map snd (db_telegrams db)) \<and>
     keyed (db_edr_entries db) \<and> in_sessions db edr_session_id (map snd (db_edr_entries db)) \<and>
     keyed (db_journal db) \<and> in_sessions db pj_session_id (map snd (db_journal db)) \<and>
     list_all journal_checks (map snd (db_journal db)) \<and>
     distinct (map track_key (db_track_state db)) \<and> in_sessions db pk_session_id (db_track_state db) \<and>
     keyed (db_snapshots db) \<and> in_sessions db pn_session_id (map snd (db_snapshots db)) \<and>
     keyed (db_chat db) \<and> in_sessions db pc_session_id (map snd (db_chat db)) \<and>
     keyed (db_assignments db) \<and> in_sessions db pa_session_id (map snd (db_assignments db)) \<and>
     keyed (db_templates db) \<and> distinct (map template_key (map snd (db_templates db))) \<and>
     list_all template_ok (map snd (db_templates db))"

lemma keyed_append: "fresh_in i t \<Longrightarrow> keyed t \<Longrightarrow> keyed (t @ [(i, r)])"
  by (simp add: keyed_def fresh_in_def)

lemma keyed_update [simp]: "keyed (update_where p f t) = keyed t"
  by (simp add: keyed_def update_where_def comp_def case_prod_beta)

lemma keyed_seed:
  "keyed t \<Longrightarrow> distinct ids \<Longrightarrow> length ids = length rows \<Longrightarrow> \<forall>i\<in>set ids. fresh_in i t \<Longrightarrow>
   keyed (t @ zip ids rows)"
  by (auto simp: keyed_def fresh_in_def)

lemma snd_update_where: "set (map snd (update_where p f t)) = (\<lambda>(i, r). if p i r then f r else r) ` set t"
  by (force simp: update_where_def)

lemma in_sessions_update:
  assumes "in_sessions db s (map snd t)" and "\<And>i r. p i r \<Longrightarrow> s (f r) = s r"
  shows "in_sessions db s (map snd (update_where p f t))"
  using assms unfolding in_sessions_def snd_update_where by (auto simp: image_iff split: if_splits)

lemma has_session_frame [simp]:
  "has_session sid (db\<lparr>db_events := x0\<rparr>) = has_session sid db"
  "has_session sid (db\<lparr>db_telegrams := x1\<rparr>) = has_session sid db"
  "has_session sid (db\<lparr>db_edr_entries := x2\<rparr>) = has_session sid db"
  "has_session sid (db\<lparr>db_journal := x3\<rparr>) = has_session sid db"
  "has_session sid (db\<lparr>db_track_state := x4\<rparr>) = has_session sid db"
  "has_session sid (db\<lparr>db_snapshots := x5\<rparr>) = has_session sid db"
  "has_session sid (db\<lparr>db_chat := x6\<rparr>) = has_session sid db"
  "has_session sid (db\<lparr>db_assignments := x7\<rparr>) = has_session sid db"
  "has_session sid (db\<lparr>db_templates := x8\<rparr>) = has_session sid db"
  by (simp_all add: has_session_def)

lemma in_sessions_frame [simp]:
  "in_sessions (db\<lparr>db_events := x0\<rparr>) s rows = in_sessions db s rows"
  "in_sessions (db\<lparr>db_telegrams := x1\<rparr>) s rows = in_sessions db s rows"
  "in_sessions (db\<lparr>db_edr_entries := x2\<rparr>) s rows = in_sessions db s rows"
  "in_sessions (db\<lparr>db_journal := x3\<rparr>) s rows = in_sessions db s rows"
  "in_sessions (db\<lparr>db_track_state := x4\<rparr>) s rows = in_sessions db s rows"
  "in_sessions (db\<lparr>db_snapshots := x5\<rparr>) s rows = in_sessions db s rows"
  "in_sessions (db\<lparr>db_chat := x6\<rparr>) s rows = in_sessions db s rows"
  "in_sessions (db\<lparr>db_assignments := x7\<rparr>) s rows = in_sessions db s rows"
  "in_sessions (db\<lparr>db_templates := x8\<rparr>) s rows = in_sessions db s rows"
  by (simp_all add: in_sessions_def)

lemma in_sessions_append [simp]:
  "in_sessions db s (xs @ ys) \<longleftrightarrow> in_sessions db s xs \<and> in_sessions db s ys"
  "in_sessions db s [r] \<longleftrightarrow> has_session (s r) db"
  by (auto simp: in_sessions_def)

lemma in_sessions_more:
  "in_sessions db s rows \<Longrightarrow> in_sessions (db\<lparr>db_sessions := db_sessions db @ xs\<rparr>) s rows"
  by (auto simp: in_sessions_def has_session_def)

lemma template_keys_update:
  "map (template_key \<circ> snd) (update_where (\<lambda>_ r. template_key r = template_key m) (\<lambda>_. m) t) =
     map (template_key \<circ> snd) t"
  by (induction t) (auto simp: update_where_def)

lemma track_keys_update:
  "map track_key (map (\<lambda>k. if p k then k\<lparr>pk_trains := v, pk_updated_at := t\<rparr> else k) ks) = map track_key ks"
  by (induction ks) (auto simp: track_key_def)

lemma pg_wf_step: "pg_step w w' \<Longrightarrow> pg_wf (conn w) \<Longrightarrow> pg_wf (conn w')"
proof (induction rule: pg_step.induct)
  case (NewSession uuid w s)
  then show ?case by (simp add: pg_wf_def in_sessions_more) (simp add: has_session_def)
next
  case (Release p w t)
  then show ?case by (simp add: pg_wf_def in_sessions_update)
next
  case (MarkJournal p w f)
  have "pj_session_id (f j) = pj_session_id j" for j using MarkJournal(3) [of j] by auto
  moreover have "list_all journal_checks (map snd (update_where p f (db_journal (conn w))))"
    using MarkJournal(2,4) unfolding list_all_iff snd_update_where
    by (auto simp: pg_wf_def list_all_iff)
  ultimately show ?case using MarkJournal(4)
    by (simp add: pg_wf_def in_sessions_update)
next
  case (Seed w rows ids)
  have "in_sessions (conn w) edr_session_id rows"
    using Seed(1,5) by (auto simp: in_sessions_def edr_seeded_def opened_def)
  with Seed show ?case
    by (simp add: pg_wf_def keyed_seed)
next
  case (Advance p w f)
  then have "edr_session_id (f r) = edr_session_id r" if "p i r" for i r
    using that by (fastforce simp: edr_advances_def edr_plan_def)
  with Advance show ?case by (simp add: pg_wf_def in_sessions_update)
next
  case (SetTrackState p w t v)
  then have "in_sessions (conn w) pk_session_id
      (map (\<lambda>k. if p k then k\<lparr>pk_trains := v, pk_updated_at := t\<rparr> else k) (db_track_state (conn w)))"
    by (auto simp: pg_wf_def in_sessions_def)
  with SetTrackState show ?case
    by (simp add: pg_wf_def track_keys_update del: map_map)
next
  case (SetTemplate m w)
  have "list_all template_ok (map snd (update_where (\<lambda>_ r. template_key r = template_key m) (\<lambda>_. m)
      (db_templates (conn w))))"
    using SetTemplate unfolding list_all_iff snd_update_where by (auto simp: pg_wf_def list_all_iff)
  with SetTemplate show ?case
    by (simp add: pg_wf_def template_keys_update)
qed (simp_all add: pg_wf_def opened_def keyed_append image_image)

interpretation wf: pg_order "\<lambda>w w'. pg_wf (conn w) \<longrightarrow> pg_wf (conn w')"
  by unfold_locales (auto simp: pg_wf_step)

end
