(* ===== verification/Pg_Storage.thy ===== *)
theory Pg_Storage
  imports Pg_Properties
begin

text \<open>
  What the tables hold after the calls of a session: the array literals the writer builds are read
  back as the values they were built of, the audit text determines the event it was made of, and the
  rows of the running session are those the in-memory writer logs for the same calls.
\<close>

section \<open>Array literals\<close>

lemma unbrace_braces [simp]: "unbrace (CHR ''{'' # t @ [CHR ''}'']) = Some t"
  by (simp add: unbrace_def)

lemma quoted_items_literal:
  "quoted_items (join_with (CHR '','') (map (\<lambda>s. CHR ''\"'' # km_escape s @ [CHR ''\"'']) (m # ms))) = Some (m # ms)"
proof (induction ms arbitrary: m)
  case Nil
  show ?case by (subst quoted_items.simps) (simp add: km_unescape_escape)
next
  case (Cons m' ms)
  have "km_unescape (km_escape m @ CHR ''\"'' # CHR '','' # t) = (m, CHR '','' # t)" for t
    by (rule km_unescape_escape)
  with Cons show ?case by (subst quoted_items.simps) simp
qed

lemma join_with_nonempty: "list_all (\<lambda>s. s \<noteq> []) xs \<Longrightarrow> join_with c xs = [] \<longleftrightarrow> xs = []"
  by (cases "(c, xs)" rule: join_with.cases) auto

lemma text_array_literal [simp]: "text_array (km_array_literal ms) = Some ms"
proof (cases ms)
  case Nil
  then show ?thesis by (simp add: text_array_def km_array_literal_def unbrace_def)
next
  case (Cons m ms')
  have "join_with (CHR '','') (map (\<lambda>s. CHR ''\"'' # km_escape s @ [CHR ''\"'']) ms) \<noteq> []"
    using Cons by (subst join_with_nonempty) (auto simp: list_all_iff)
  then show ?thesis using quoted_items_literal [of m ms'] Cons by (simp add: text_array_def km_array_literal_def)
qed

lemma split_commas_plain: "CHR '','' \<notin> set s \<Longrightarrow> split_commas s = [s]"
  by (induction s) auto

lemma split_commas_append:
  "CHR '','' \<notin> set s \<Longrightarrow> split_commas (s @ CHR '','' # t) = s # split_commas t"
  by (induction s) auto

lemma split_join:
  "list_all (\<lambda>s. CHR '','' \<notin> set s) (x # xs) \<Longrightarrow> split_commas (join_with (CHR '','') (x # xs)) = x # xs"
  by (induction xs arbitrary: x) (simp_all add: split_commas_plain split_commas_append)

lemma int_to_string_chars: "c \<in> set (int_to_string i) \<Longrightarrow> is_digit c \<or> c = CHR ''-''"
  using nat_to_string_digits by (auto simp: int_to_string_def list_all_iff split: if_splits)

lemma int_to_string_plain:
  "CHR '','' \<notin> set (int_to_string i)" "CHR ''|'' \<notin> set (int_to_string i)" "int_to_string i \<noteq> []"
  using int_to_string_chars [of _ i]
  by (fastforce simp: is_digit_def, fastforce simp: is_digit_def)
    (simp add: int_to_string_def nat_to_string_nonempty)

lemma hd_nat_to_string: "hd (nat_to_string n) \<noteq> CHR ''-''"
  using nat_to_string_digits [of n] nat_to_string_nonempty(1) [of n]
  by (cases "nat_to_string n") (auto simp: is_digit_def)

lemma int_to_string_inj [simp]: "int_to_string i = int_to_string j \<longleftrightarrow> i = j"
proof
  assume eq: "int_to_string i = int_to_string j"
  then have "hd (int_to_string i) = hd (int_to_string j)" by simp
  then have "i < 0 \<longleftrightarrow> j < 0"
    using hd_nat_to_string [of "nat i"] hd_nat_to_string [of "nat j"] by (auto simp: int_to_string_def split: if_splits)
  with eq show "i = j" by (auto simp: int_to_string_def nat_to_string_inj split: if_splits)
qed simp

lemma smallint_of_int: "- 32768 \<le> i \<Longrightarrow> i \<le> 32767 \<Longrightarrow> smallint_of (int_to_string i) = Some i"
  by (simp add: smallint_of_def int_to_string_def Let_def decimal_value_nat nat_to_string_digits
      nat_to_string_nonempty hd_nat_to_string) linarith

lemma smallint_array_literal:
  assumes "list_all (\<lambda>i. - 32768 \<le> i \<and> i \<le> 32767) days"
  shows "smallint_array (pg_smallint_array_literal days) = Some days"
proof (cases days)
  case Nil
  then show ?thesis by (simp add: smallint_array_def pg_smallint_array_literal_def unbrace_def)
next
  case (Cons d ds)
  have "join_with (CHR '','') (map int_to_string days) \<noteq> []"
    using Cons by (subst join_with_nonempty) (auto simp: list_all_iff int_to_string_plain)
  moreover have "split_commas (join_with (CHR '','') (map int_to_string days)) = map int_to_string days"
    using split_join [of "int_to_string d" "map int_to_string ds"] Cons
    by (simp add: list_all_iff int_to_string_plain)
  moreover have "those (map smallint_of (map int_to_string days)) = Some days"
    using assms by (induction days) (simp_all add: smallint_of_int)
  ultimately show ?thesis by (simp add: smallint_array_def pg_smallint_array_literal_def)
qed

section \<open>The audit text\<close>

lemma split_first:
  assumes "c \<notin> set xs" "c \<notin> set ys" "xs @ c # as = ys @ c # bs"
  shows "xs = ys \<and> as = bs"
  using assms by (induction xs arbitrary: ys) (case_tac ys; auto)+

lemma of_char_u8_inj [simp]: "(of_char c :: u8) = of_char d \<longleftrightarrow> c = d"
proof
  assume "(of_char c :: u8) = of_char d"
  then have "unat (of_nat (of_char c) :: u8) = unat (of_nat (of_char d) :: u8)" by (simp add: of_nat_of_char)
  then have "(of_char c :: nat) = of_char d" by (simp add: unat_of_nat take_bit_eq_mod)
  then show "c = d" by simp
qed simp

lemma bytes_of_string_inj [simp]: "bytes_of_string s = bytes_of_string t \<longleftrightarrow> s = t"
  by (simp add: bytes_of_string_def inj_map_eq_map inj_def)

lemma bar_byte: "CHR ''|'' \<notin> set s \<Longrightarrow> (of_char (CHR ''|'') :: u8) \<notin> set (bytes_of_string s)"
  unfolding bytes_of_string_def set_map using inj_image_mem_iff [of "of_char :: char \<Rightarrow> u8"]
  by (metis injI of_char_u8_inj)

text \<open>Two events of sessions with proper identifiers have the same audit text only if they agree in
  session, number, time and payload.\<close>

lemma audit_input_inj:
  assumes "audit_input sid e t p = audit_input sid' e' t' p'"
    and "CHR ''|'' \<notin> set sid" "CHR ''|'' \<notin> set sid'"
  shows "sid = sid' \<and> e = e' \<and> t = t' \<and> p = p'"
proof -
  let ?b = "of_char (CHR ''|'') :: u8"
  have form: "audit_input s i j q = bytes_of_string s @ ?b # bytes_of_string (int_to_string i) @ ?b #
      bytes_of_string (int_to_string j) @ ?b # q" for s i j q
    by (simp add: audit_input_def bytes_of_string_def)
  have plain: "?b \<notin> set (bytes_of_string (int_to_string i))" for i
    by (rule bar_byte) (rule int_to_string_plain)
  note 1 = split_first [OF bar_byte [OF assms(2)] bar_byte [OF assms(3)] assms(1) [unfolded form]]
  note 2 = split_first [OF plain plain conjunct2 [OF 1]]
  note 3 = split_first [OF plain plain conjunct2 [OF 2]]
  from 1 2 3 show ?thesis by simp
qed

section \<open>The tables and the log of the in-memory writer\<close>

definition mine :: "('r \<Rightarrow> string) \<Rightarrow> string \<Rightarrow> 'r pg_table \<Rightarrow> 'r list" where
  "mine s sid t = filter (\<lambda>r. s r = sid) (map snd t)"

definition event_columns where
  "event_columns r = (pe_event_type r, pe_event_id r, pe_timestamp_us r, pe_object_uid r, pe_payload r)"

definition logged_event where
  "logged_event e = (uint (der_event_type e), uint (der_event_id e), int64 (der_timestamp_us e),
     map_option int64 (der_object_uid e), der_payload e)"

definition telegram_columns where
  "telegram_columns r = (pt_form_type r, pt_exchange_uid r, pt_train_number r, pt_from_uid r, pt_to_uid r,
     pt_direction r, pt_status r, pt_track_number r, pt_km_markers r, pt_body r, pt_timestamp_us r)"

definition logged_telegram where
  "logged_telegram r = (tr_form_type r, tr_exchange_id r, tr_train_number r, int64 (tr_from_uid r),
     int64 (tr_to_uid r), tr_direction r, tr_status r, tr_track_number r, tr_km_markers r, tr_body r,
     int64 (tr_timestamp_us r))"

definition journal_columns where
  "journal_columns r = (pj_operating_point_id r, pj_station_uid r, pj_journal_page r, pj_entry_type r,
     pj_train_number r, pj_direction r, pj_track_number r, pj_body r, pj_timestamp_us r)"

definition logged_journal where
  "logged_journal r = (ej_operating_point_id r, int64 (ej_station_uid r), ej_journal_page r, ej_entry_type r,
     ej_train_number r, ej_direction r, ej_track_number r, ej_body r, int64 (ej_timestamp_us r))"

definition chat_columns where
  "chat_columns r = (pc_sender_id r, pc_target_type r, pc_target_id r, pc_body r, pc_timestamp_us r)"

definition logged_chat where
  "logged_chat c = (cm_sender_id c, cm_target_type c, cm_target_id c, cm_body c, cm_timestamp_us c)"

definition panel_value :: "PgDbWriter \<Rightarrow> u64 \<Rightarrow> string option" where
  "panel_value w u =
     map_option pk_trains (List.find (\<lambda>r. track_key r = (session_uuid w, int64 u)) (db_track_state (conn w)))"

definition stored :: "(string \<Rightarrow> string option) \<Rightarrow> PgDbWriter \<Rightarrow> NullDbWriter \<Rightarrow> bool" where
  "stored jsonb w db \<longleftrightarrow>
     map event_columns (mine pe_session_id (session_uuid w) (db_events (conn w))) =
       map logged_event (written_events db) \<and>
     map telegram_columns (mine pt_session_id (session_uuid w) (db_telegrams (conn w))) =
       map logged_telegram (written_telegrams db) \<and>
     map journal_columns (mine pj_session_id (session_uuid w) (db_journal (conn w))) =
       map logged_journal (edr_journal_entries db) \<and>
     map (\<lambda>r. (pn_seq_cursor r, pn_timestamp_us r, pn_payload r))
         (mine pn_session_id (session_uuid w) (db_snapshots (conn w))) = saved_snapshots db \<and>
     map chat_columns (mine pc_session_id (session_uuid w) (db_chat (conn w))) =
       map logged_chat (chat_messages db) \<and>
     map (\<lambda>r. (pa_operating_point_id r, pa_station_sid r, pa_client_id r))
         (mine pa_session_id (session_uuid w) (db_assignments (conn w))) = op_assignments db \<and>
     panel_value w = (\<lambda>u. Option.bind (pip_table db u) jsonb)"

lemmas column_defs = event_columns_def logged_event_def telegram_columns_def logged_telegram_def
  journal_columns_def logged_journal_def chat_columns_def logged_chat_def

text \<open>The calls that returned, and what the in-memory writer logs of them.\<close>

fun returned_calls :: "(PgEnv \<times> DbCall) list \<Rightarrow> PgDbWriter \<Rightarrow> (PgEnv \<times> DbCall) list" where
  "returned_calls [] w = []"
| "returned_calls ((env, c) # calls) w =
     (case pg_call env c w of (returned, w') \<Rightarrow>
        (if returned then [(env, c)] else []) @ returned_calls calls w')"

definition pg_log :: "(PgEnv \<times> DbCall) list \<Rightarrow> PgDbWriter \<Rightarrow> NullDbWriter" where
  "pg_log calls w = fold (\<lambda>(env, c). null_call c) (returned_calls calls w) new_db_writer"

lemma mine_simps [simp]:
  "mine s sid [] = []" "mine s sid (t @ [(i, r)]) = mine s sid t @ (if s r = sid then [r] else [])"
  by (simp_all add: mine_def)

lemma mine_update_where:
  assumes "\<And>r. s (f r) = s r" "\<And>r. g (f r) = g r"
  shows "map g (mine s sid (update_where p f t)) = map g (mine s sid t)"
  unfolding mine_def update_where_def by (induction t) (simp_all add: assms case_prod_beta)

lemma int64_inj [simp]: "int64 u = int64 v \<longleftrightarrow> u = v"
  unfolding int64_def by (rule word_eq_iff_signed [symmetric])

lemma find_append: "List.find p (xs @ ys) = (case List.find p xs of None \<Rightarrow> List.find p ys | Some x \<Rightarrow> Some x)"
  by (induction xs) auto

lemma outcome_returned:
  assumes "fst (outcome w r)"
  obtains x w' where "r = Inr (x, w')" "snd (outcome w r) = w'"
  using assms by (auto simp: outcome_def split: sum.splits prod.splits)

lemma panel_value_frame [simp]:
  "panel_value (w\<lparr>conn := (conn w)\<lparr>db_events := x0\<rparr>\<rparr>) = panel_value w"
  "panel_value (w\<lparr>conn := (conn w)\<lparr>db_telegrams := x1\<rparr>\<rparr>) = panel_value w"
  "panel_value (w\<lparr>conn := (conn w)\<lparr>db_edr_entries := x2\<rparr>\<rparr>) = panel_value w"
  "panel_value (w\<lparr>conn := (conn w)\<lparr>db_journal := x3\<rparr>\<rparr>) = panel_value w"
  "panel_value (w\<lparr>conn := (conn w)\<lparr>db_snapshots := x4\<rparr>\<rparr>) = panel_value w"
  "panel_value (w\<lparr>conn := (conn w)\<lparr>db_chat := x5\<rparr>\<rparr>) = panel_value w"
  "panel_value (w\<lparr>conn := (conn w)\<lparr>db_assignments := x6\<rparr>\<rparr>) = panel_value w"
  "panel_value (w\<lparr>conn := (conn w)\<lparr>db_templates := x7\<rparr>\<rparr>) = panel_value w"
  by (simp_all add: panel_value_def fun_eq_iff)

lemma stored_track_state:
  assumes "stored jsonb w db"
    and "panel_value (w\<lparr>conn := (conn w)\<lparr>db_track_state := x\<rparr>\<rparr>) = (\<lambda>v. if v = u then jsonb j else panel_value w v)"
  shows "stored jsonb (w\<lparr>conn := (conn w)\<lparr>db_track_state := x\<rparr>\<rparr>) (upsert_pip_track_state u j db)"
  using assms by (auto simp: stored_def upsert_pip_track_state_def pip_table_def fun_eq_iff)

lemma find_upsert_track_state:
  "map_option pk_trains (List.find (\<lambda>r. track_key r = key) (upsert_track_state k ks)) =
     (if key = track_key k then Some (pk_trains k)
      else map_option pk_trains (List.find (\<lambda>r. track_key r = key) ks))"
proof (cases "track_key k \<in> track_key ` set ks")
  case True
  let ?f = "\<lambda>r. if track_key r = track_key k then r\<lparr>pk_trains := pk_trains k, pk_updated_at := pk_updated_at k\<rparr> else r"
  have "track_key (?f r) = track_key r" for r by (simp add: track_key_def)
  then have "map_option pk_trains (List.find (\<lambda>r. track_key r = key) (map ?f xs)) =
      (if key = track_key k \<and> key \<in> track_key ` set xs then Some (pk_trains k)
       else map_option pk_trains (List.find (\<lambda>r. track_key r = key) xs))" for xs
    by (induction xs) auto
  with True show ?thesis by (auto simp: upsert_track_state_def)
next
  case False
  have "List.find (\<lambda>r. track_key r = track_key k) ks = None"
    using False unfolding find_None_iff by (metis imageI)
  with False show ?thesis by (auto simp: upsert_track_state_def find_append split: option.split)
qed

lemma upsert_pip_stored:
  assumes "stored jsonb w db" and "pg_upsert_pip_track_state env u j w = Inr (x, w')" and "pg_jsonb env = jsonb"
  shows "stored jsonb w' (upsert_pip_track_state u j db)"
proof -
  let ?k = "\<lambda>v. \<lparr>pk_session_id = session_uuid w, pk_section_uid = int64 u, pk_trains = v, pk_updated_at = pg_now env\<rparr>"
  from assms(2,3) obtain v where "jsonb j = Some v"
    "w' = w\<lparr>conn := (conn w)\<lparr>db_track_state := upsert_track_state (?k v) (db_track_state (conn w))\<rparr>\<rparr>"
    by (auto simp: pg_upsert_pip_track_state_def and_then_Inr Let_def split: if_splits)
  moreover have "track_key (?k v) = (session_uuid w, int64 u)" by (simp add: track_key_def)
  ultimately show ?thesis
    by (auto simp: panel_value_def fun_eq_iff find_upsert_track_state intro!: stored_track_state [OF assms(1)])
qed

lemma stored_call:
  assumes "stored jsonb w db" and "fst (pg_call env c w)" and "pg_jsonb env = jsonb"
    and "\<And>n v. c \<noteq> InitSession n v"
  shows "stored jsonb (snd (pg_call env c w)) (null_call c db)"
proof (cases c)
  case (InitSession n v)
  with assms(4) show ?thesis by blast
next
  case (UpsertPip u j)
  with assms show ?thesis by (auto elim!: outcome_returned intro: upsert_pip_stored)
next
  case (JournalStatus i s n)
  with assms show ?thesis
    by (auto elim!: outcome_returned split: if_splits
        simp: stored_def pg_update_edr_journal_entry_status_def update_edr_journal_entry_status_def
          and_then_Inr Let_def pip_table_def mine_update_where journal_columns_def)
next
  case (ReleasePoint a k)
  with assms show ?thesis
    by (auto elim!: outcome_returned simp: stored_def pg_release_operating_point_def
        release_operating_point_def and_then_Inr pip_table_def mine_update_where)
qed (use assms in \<open>auto elim!: outcome_returned split: if_splits
  simp: stored_def column_defs and_then_Inr Let_def pip_table_def
    pg_write_domain_event_def write_domain_event_def
    pg_write_dispatch_telegram_def write_dispatch_telegram_def
    pg_append_edr_journal_entry_def append_edr_journal_entry_def
    pg_save_snapshot_def save_snapshot_def pg_append_chat_message_def append_chat_message_def
    pg_assign_operating_point_def assign_operating_point_def
    pg_seed_edr_entries_for_operating_day_def seed_edr_entries_for_operating_day_def
    update_edr_def pg_update_edr_track_clear_time_def update_edr_track_clear_time_def
    pg_update_edr_departure_def update_edr_departure_def pg_update_edr_arrival_def update_edr_arrival_def
    pg_upsert_timetable_template_def upsert_timetable_template_def\<close>)

lemma failed_call: "\<not> fst (pg_call env c w) \<Longrightarrow> snd (pg_call env c w) = w"
  by (cases c) (auto simp: outcome_def split: sum.splits prod.splits)

lemma stored_run:
  assumes "stored jsonb w db"
    and "\<And>env c. (env, c) \<in> set calls \<Longrightarrow> pg_jsonb env = jsonb \<and> (\<forall>n v. c \<noteq> InitSession n v)"
  shows "stored jsonb (pg_run calls w) (fold (\<lambda>(env, c). null_call c) (returned_calls calls w) db)"
  using assms
proof (induction calls arbitrary: w db)
  case Nil
  then show ?case by (simp add: pg_run_def)
next
  case (Cons x calls)
  obtain env c returned w' where x: "x = (env, c)" and call: "pg_call env c w = (returned, w')"
    by (metis surj_pair)
  have same: "w' = w" if "\<not> returned" using failed_call [of env c w] call that by simp
  have "stored jsonb w' (if returned then null_call c db else db)"
    using Cons.prems(2) [of env c] x call same stored_call [OF Cons.prems(1), of env c] Cons.prems(1) by auto
  then have "stored jsonb (pg_run calls w')
      (fold (\<lambda>(env, c). null_call c) (returned_calls calls w') (if returned then null_call c db else db))"
    by (rule Cons.IH) (rule Cons.prems(2), simp)
  then show ?case using x call by (cases returned) (simp_all add: pg_run_def)
qed

lemma mine_empty: "in_sessions db s (map snd t) \<Longrightarrow> \<not> has_session sid db \<Longrightarrow> mine s sid t = []"
  by (auto simp: in_sessions_def mine_def filter_empty_conv)

lemma init_session_stored:
  assumes "pg_wf (conn w)" and "pg_init_session env n v w = Inr (sid, w')"
  shows "stored jsonb w' new_db_writer"
proof -
  from assms(2) have w': "\<not> has_session sid (conn w)" "session_uuid w' = sid"
    "\<exists>s. conn w' = (conn w)\<lparr>db_sessions := s\<rparr>"
    by (auto simp: pg_init_session_def split: if_splits)
  have "List.find (\<lambda>r. track_key r = (sid, u)) (db_track_state (conn w)) = None" for u
    using assms(1) w'(1) by (auto simp: find_None_iff pg_wf_def in_sessions_def track_key_def)
  with w' assms(1) show ?thesis
    by (auto simp: stored_def new_db_writer_def panel_value_def pip_table_def pg_wf_def mine_empty fun_eq_iff)
qed

section \<open>Tables as replays of the calls\<close>

text \<open>
  What the log does not keep: the number, the audit hash and the times the database computes for a row, and
  the changes of rows written before.  The tables of events, journal rows and assignments are those that
  carrying out the returned calls one after the other makes of empty ones.
\<close>

definition events_view where
  "events_view sid db =
     map (\<lambda>(i, r). (i, event_columns r, Inr (pe_audit_hash r) :: pg_error + string))
       (filter (\<lambda>(i, r). pe_session_id r = sid) (db_events db))"

fun replay_events where
  "replay_events sid (env, WriteEvent e) t =
     t @ [(pg_nextval env 0, logged_event e,
           sha256_hex env sid (uint (der_event_id e)) (int64 (der_timestamp_us e)) (der_payload e))]"
| "replay_events sid (env, c) t = t"

text \<open>A row of the journal: the columns of the log, the four times, the notes and the status.\<close>

definition journal_times :: "PgJournalEntry \<Rightarrow> (pg_error + int option) list" where
  "journal_times r = map Inr [pj_scheduled_arrival r, pj_scheduled_departure r, pj_actual_arrival r, pj_actual_departure r]"

definition logged_times :: "PgEnv \<Rightarrow> EdrJournalEntryRow \<Rightarrow> (pg_error + int option) list" where
  "logged_times env e = map (optional_interval env)
     [ej_scheduled_arrival_secs e, ej_scheduled_departure_secs e, ej_actual_arrival_secs e, ej_actual_departure_secs e]"

definition journal_view where
  "journal_view sid db =
     map (\<lambda>(i, r). (i, journal_columns r, journal_times r, pj_notes r, pj_status r))
       (filter (\<lambda>(i, r). pj_session_id r = sid) (db_journal db))"

fun replay_journal where
  "replay_journal (env, AppendJournal e) t =
     t @ [(pg_nextval env 0, logged_journal e, logged_times env e, ej_notes e, ''ACTIVE'')]"
| "replay_journal (env, JournalStatus k status notes) t =
     map (\<lambda>(i, cols, times, old, st). if i = k then (i, cols, times, if notes = None then old else notes, status)
            else (i, cols, times, old, st)) t"
| "replay_journal (env, c) t = t"

definition points_view where
  "points_view sid db =
     map (\<lambda>(i, r). (i, pa_operating_point_id r, pa_station_sid r, pa_client_id r, pa_assigned_at r, pa_released_at r))
       (filter (\<lambda>(i, r). pa_session_id r = sid) (db_assignments db))"

fun replay_points where
  "replay_points (env, AssignPoint p station client) t = t @ [(pg_nextval env 0, p, station, client, pg_now env, None)]"
| "replay_points (env, ReleasePoint p client) t =
     map (\<lambda>(i, q, station, k, since, ended).
       (i, q, station, k, since, if q = p \<and> k = client \<and> ended = None then Some (pg_now env) else ended)) t"
| "replay_points (env, c) t = t"

lemmas pg_calls = pg_write_domain_event_def pg_write_dispatch_telegram_def pg_append_edr_journal_entry_def
  pg_update_edr_journal_entry_status_def pg_upsert_pip_track_state_def
  pg_save_snapshot_def pg_append_chat_message_def pg_assign_operating_point_def
  pg_release_operating_point_def pg_seed_edr_entries_for_operating_day_def update_edr_def
  pg_update_edr_track_clear_time_def pg_update_edr_departure_def pg_update_edr_arrival_def
  pg_upsert_timetable_template_def

lemma session_uuid_call:
  assumes "\<And>n v. c \<noteq> InitSession n v"
  shows "session_uuid (snd (pg_call env c w)) = session_uuid w"
  using assms
  by (cases c) (auto simp: outcome_def pg_calls and_then_Inr Let_def transaction_def split: sum.splits prod.splits)

text \<open>A view of the tables that each returned call changes by a step of its own.\<close>

locale replayed =
  fixes view :: "string \<Rightarrow> PgDatabase \<Rightarrow> 'v" and step :: "string \<Rightarrow> PgEnv \<times> DbCall \<Rightarrow> 'v \<Rightarrow> 'v"
  assumes call_step: "fst (pg_call env c w) \<Longrightarrow> (\<And>n v. c \<noteq> InitSession n v) \<Longrightarrow>
    view (session_uuid w) (conn (snd (pg_call env c w))) = step (session_uuid w) (env, c) (view (session_uuid w) (conn w))"
begin

lemma run:
  assumes "\<And>env c n v. (env, c) \<in> set calls \<Longrightarrow> c \<noteq> InitSession n v"
  shows "view (session_uuid w) (conn (pg_run calls w)) =
    fold (step (session_uuid w)) (returned_calls calls w) (view (session_uuid w) (conn w))"
  using assms
proof (induction calls arbitrary: w)
  case Nil
  then show ?case by (simp add: pg_run_def)
next
  case (Cons x calls)
  obtain env c returned w' where x: "x = (env, c)" and call: "pg_call env c w = (returned, w')"
    by (metis surj_pair)
  have no_init: "c \<noteq> InitSession n v" for n v by (rule Cons.prems [of env]) (simp add: x)
  have sid: "session_uuid w' = session_uuid w" using session_uuid_call [OF no_init, of env w] call by simp
  have "view (session_uuid w) (conn w') =
      (if returned then step (session_uuid w) (env, c) (view (session_uuid w) (conn w)) else view (session_uuid w) (conn w))"
    using call_step [OF _ no_init, of env w] failed_call [of env c w] call by auto
  moreover have "view (session_uuid w') (conn (pg_run calls w')) =
      fold (step (session_uuid w')) (returned_calls calls w') (view (session_uuid w') (conn w'))"
    proof (rule Cons.IH)
    show "c' \<noteq> InitSession n v" if "(e, c') \<in> set calls" for e c' n v
      using that by (intro Cons.prems [of e]) simp
  qed
  ultimately show ?case using x call sid by (cases returned) (simp_all add: pg_run_def)
qed

end

interpretation events: replayed events_view replay_events
proof
  fix env c w
  assume "fst (pg_call env c w)" "\<And>n v. c \<noteq> InitSession n v"
  then show "events_view (session_uuid w) (conn (snd (pg_call env c w))) =
      replay_events (session_uuid w) (env, c) (events_view (session_uuid w) (conn w))"
    by (cases c) (auto elim!: outcome_returned split: if_splits
      simp: pg_calls events_view_def column_defs and_then_Inr Let_def)
qed

text \<open>The two updates of rows written before.\<close>

lemma journal_marked:
  "journal_view sid (db\<lparr>db_journal := update_where (\<lambda>i r. pj_session_id r = sid \<and> i = k)
     (\<lambda>r. r\<lparr>pj_status := status, pj_notes := (case notes of None \<Rightarrow> pj_notes r | Some n \<Rightarrow> Some n),
            pj_updated_at := pg_now env\<rparr>) (db_journal db)\<rparr>) =
   replay_journal (env, JournalStatus k status notes) (journal_view sid db)"
proof -
  let ?row = "\<lambda>(i, r). (i, journal_columns r, journal_times r, pj_notes r, pj_status r)"
  have "map ?row (filter (\<lambda>(i, r). pj_session_id r = sid) (update_where (\<lambda>i r. pj_session_id r = sid \<and> i = k)
       (\<lambda>r. r\<lparr>pj_status := status, pj_notes := (case notes of None \<Rightarrow> pj_notes r | Some n \<Rightarrow> Some n),
              pj_updated_at := pg_now env\<rparr>) t)) =
    replay_journal (env, JournalStatus k status notes) (map ?row (filter (\<lambda>(i, r). pj_session_id r = sid) t))" for t
    by (induction t)
      (auto simp: update_where_def journal_columns_def journal_times_def split: if_splits option.splits)
  then show ?thesis by (simp add: journal_view_def)
qed

interpretation journal: replayed journal_view "\<lambda>_. replay_journal"
proof
  fix env c w
  assume returned: "fst (pg_call env c w)" "\<And>n v. c \<noteq> InitSession n v"
  show "journal_view (session_uuid w) (conn (snd (pg_call env c w))) =
      replay_journal (env, c) (journal_view (session_uuid w) (conn w))"
  proof (cases c)
    case (JournalStatus k status remark)
    with returned show ?thesis
      by (auto elim!: outcome_returned simp: pg_update_edr_journal_entry_status_def and_then_Inr Let_def journal_marked
          simp del: replay_journal.simps split: if_splits)
  qed (use returned in \<open>auto elim!: outcome_returned split: if_splits
      simp: pg_calls journal_view_def journal_times_def logged_times_def column_defs and_then_Inr Let_def\<close>)
qed

lemma points_released:
  "points_view sid (db\<lparr>db_assignments := update_where (\<lambda>_ r. pa_session_id r = sid \<and>
       pa_operating_point_id r = p \<and> pa_client_id r = k \<and> pa_released_at r = None)
     (\<lambda>r. r\<lparr>pa_released_at := Some (pg_now env)\<rparr>) (db_assignments db)\<rparr>) =
   replay_points (env, ReleasePoint p k) (points_view sid db)"
proof -
  have "map (\<lambda>(i, r). (i, pa_operating_point_id r, pa_station_sid r, pa_client_id r, pa_assigned_at r, pa_released_at r))
      (filter (\<lambda>(i, r). pa_session_id r = sid) (update_where (\<lambda>_ r. pa_session_id r = sid \<and>
         pa_operating_point_id r = p \<and> pa_client_id r = k \<and> pa_released_at r = None)
       (\<lambda>r. r\<lparr>pa_released_at := Some (pg_now env)\<rparr>) t)) =
    replay_points (env, ReleasePoint p k)
      (map (\<lambda>(i, r). (i, pa_operating_point_id r, pa_station_sid r, pa_client_id r, pa_assigned_at r, pa_released_at r))
        (filter (\<lambda>(i, r). pa_session_id r = sid) t))" for t
    by (induction t) (auto simp: update_where_def split: if_splits)
  then show ?thesis by (simp add: points_view_def)
qed

interpretation points: replayed points_view "\<lambda>_. replay_points"
proof
  fix env c w
  assume returned: "fst (pg_call env c w)" "\<And>n v. c \<noteq> InitSession n v"
  show "points_view (session_uuid w) (conn (snd (pg_call env c w))) =
      replay_points (env, c) (points_view (session_uuid w) (conn w))"
  proof (cases c)
    case (ReleasePoint p k)
    with returned show ?thesis
      by (auto elim!: outcome_returned simp: pg_release_operating_point_def and_then_Inr points_released
          simp del: replay_points.simps)
  qed (use returned in \<open>auto elim!: outcome_returned split: if_splits
      simp: pg_calls points_view_def and_then_Inr Let_def\<close>)
qed

lemma init_session_views:
  assumes "pg_wf (conn w)" and "pg_init_session env n v w = Inr (sid, w')"
  shows "session_uuid w' = sid" "events_view sid (conn w') = []" "journal_view sid (conn w') = []"
    "points_view sid (conn w') = []"
proof -
  from assms(2) have w': "\<not> has_session sid (conn w)" "session_uuid w' = sid"
    "\<exists>s. conn w' = (conn w)\<lparr>db_sessions := s\<rparr>"
    by (auto simp: pg_init_session_def split: if_splits)
  show "session_uuid w' = sid" by (rule w'(2))
  have none: "filter (\<lambda>(i, r). s r = sid) t = []" if "in_sessions (conn w) s (map snd t)" for s t
    using that w'(1) by (auto simp: in_sessions_def filter_empty_conv)
  show "events_view sid (conn w') = []" "journal_view sid (conn w') = []" "points_view sid (conn w') = []"
    using w'(3) assms(1) by (auto simp: events_view_def journal_view_def points_view_def pg_wf_def none)
qed

section \<open>Seeding and the timetable\<close>

text \<open>Seeding a weekday adds one pending entry per template of that day, in the order of the table, and
  returns their number.\<close>

lemma seeded_entries:
  assumes "pg_seed_edr_entries_for_operating_day env d w = Inr (n, w')"
  shows "1 \<le> d \<and> d \<le> 7 \<and> n = int (length (templates_on d (conn w))) \<and>
    map snd (db_edr_entries (conn w')) =
      map snd (db_edr_entries (conn w)) @ map (seeded_entry env (session_uuid w)) (templates_on d (conn w))"
  using assms
  by (auto simp: pg_seed_edr_entries_for_operating_day_def and_then_Inr insert_for_session_Inr
      insert_rows_Inr check_iso_weekday_def split: if_splits)

definition find_template :: "string \<Rightarrow> int \<Rightarrow> PgDatabase \<Rightarrow> PgTemplate option" where
  "find_template n u db = List.find (\<lambda>t. template_key t = (n, u)) (map snd (db_templates db))"

lemma find_upsert_template:
  assumes "upsert_template env t tbl = Inr tbl'"
  shows "List.find (\<lambda>t. template_key t = key) (map snd tbl') =
    (if key = template_key t then Some t else List.find (\<lambda>t. template_key t = key) (map snd tbl))"
proof (cases "template_key t \<in> template_key ` snd ` set tbl")
  case True
  have "List.find (\<lambda>t. template_key t = key)
      (map snd (update_where (\<lambda>_ r. template_key r = template_key t) (\<lambda>_. t) xs)) =
    (if key = template_key t \<and> list_ex (\<lambda>r. template_key (snd r) = key) xs then Some t
     else List.find (\<lambda>t. template_key t = key) (map snd xs))" for xs
    by (induction xs) (auto simp: update_where_def)
  moreover have "list_ex (\<lambda>r. template_key (snd r) = template_key t) tbl"
    using True by (force simp: list_ex_iff)
  ultimately show ?thesis using True assms by (auto simp: upsert_template_def)
next
  case False
  then have "List.find (\<lambda>r. template_key r = template_key t) (map snd tbl) = None"
    unfolding find_None_iff by (auto simp: image_iff)
  with False assms show ?thesis by (auto simp: upsert_template_def find_append split: option.split)
qed

lemma operating_days_accepted:
  "check_operating_days days = Inr u \<Longrightarrow> smallint_array (pg_smallint_array_literal days) = Some days"
  by (rule smallint_array_literal)
    (auto simp: check_operating_days_def list_ex_iff list_all_iff split: if_splits)

lemma template_key_columns [simp]:
  "template_key \<lparr>pm_train_number = n, pm_station_uid = u, pm_operating_point_id = a, pm_scheduled_arrival = b,
     pm_scheduled_departure = c, pm_track_number = d, pm_stop_type = e, pm_operating_days = f\<rparr> = (n, u)"
  by (simp add: template_key_def)

text \<open>A template is found under its key as it was last given.\<close>

lemma upserted_template:
  assumes "pg_upsert_timetable_template env u w = Inr (x, w')"
  shows "find_template n k (conn w') =
    (if (n, k) = (tu_train_number u, int64 (tu_station_uid u))
     then Some \<lparr>pm_train_number = n, pm_station_uid = k, pm_operating_point_id = tu_operating_point_id u,
       pm_scheduled_arrival = (case tu_scheduled_arrival_secs u of None \<Rightarrow> None
          | Some s \<Rightarrow> Option.bind (pg_text_to_double env s) (pg_make_interval env)),
       pm_scheduled_departure =
         the (Option.bind (pg_text_to_double env (tu_scheduled_departure_secs u)) (pg_make_interval env)),
       pm_track_number = tu_track_number u, pm_stop_type = tu_stop_type u,
       pm_operating_days = tu_operating_days u\<rparr>
     else find_template n k (conn w))"
  using assms
  by (auto simp: pg_upsert_timetable_template_def and_then_Inr find_template_def find_upsert_template
      operating_days_accepted optional_interval_def secs_interval_def
      split: if_splits option.splits)

section \<open>Properties\<close>

text \<open>
  C11.  Whatever calls are made, an entry of the EDR is never lost and never goes back: its planned
  columns stay, an entry that is departed keeps its status and its actual times, one that has arrived
  stays arrived or departs and keeps its arrival.\<close>

theorem edr_entries_only_advance:
  assumes "map_of (db_edr_entries (conn w)) i = Some r"
  shows "\<exists>r'. map_of (db_edr_entries (conn (pg_run calls w))) i = Some r' \<and> edr_plan r' = edr_plan r \<and>
    (edr_status r = ''DEPARTED'' \<longrightarrow> edr_status r' = ''DEPARTED'' \<and>
       edr_actual_departure r' = edr_actual_departure r \<and> edr_actual_arrival r' = edr_actual_arrival r) \<and>
    (edr_status r = ''ARRIVED'' \<longrightarrow> edr_status r' \<in> {''ARRIVED'', ''DEPARTED''} \<and>
       edr_actual_arrival r' = edr_actual_arrival r)"
proof -
  from edr.pg_run_rel [of w calls] assms obtain r'
    where "map_of (db_edr_entries (conn (pg_run calls w))) i = Some r'" "edr_advances r r'"
    unfolding edr_progress_def by blast
  then show ?thesis by (auto simp: edr_advances_def edr_rank_def split: if_splits)
qed

definition sample_env :: PgEnv where
  "sample_env = \<lparr>pg_up = True, pg_now = 7, pg_uuid = ''u1'', pg_nextval = int, pg_text_to_double = (\<lambda>_. None),
     pg_make_interval = (\<lambda>_. Some 0), pg_jsonb = Some, pg_sha256 = Some\<rparr>"

definition departed_entry :: PgEdrEntry where
  "departed_entry =
     \<lparr>edr_session_id = ''u1'', edr_train_number = ''IC 1'', edr_station_uid = 5, edr_operating_point_id = None,
      edr_scheduled_arrival = None, edr_actual_arrival = None, edr_scheduled_departure = 10,
      edr_actual_departure = Some 11, edr_track_number = None, edr_track_clear_time = None,
      edr_stop_type = ''COMMERCIAL'', edr_status = ''DEPARTED'', edr_updated_at = 3\<rparr>"

definition empty_database :: PgDatabase where
  "empty_database = \<lparr>db_sessions = [], db_events = [], db_telegrams = [], db_edr_entries = [], db_journal = [],
     db_track_state = [], db_snapshots = [], db_chat = [], db_assignments = [], db_templates = []\<rparr>"

definition sample_pg_writer :: PgDbWriter where
  "sample_pg_writer = \<lparr>conn = empty_database\<lparr>db_edr_entries := [(1, departed_entry)]\<rparr>, session_uuid = ''u1''\<rparr>"

theorem edr_entries_only_advance_witness:
  "\<exists>r'. map_of (db_edr_entries (conn (pg_run
      [(sample_env, Arrival ''IC 1'' 5 9), (sample_env, Departure ''IC 1'' 5 10)] sample_pg_writer))) 1 = Some r' \<and>
    edr_status r' = ''DEPARTED'' \<and> edr_actual_departure r' = Some 11 \<and> edr_actual_arrival r' = None"
  using edr_entries_only_advance [of sample_pg_writer 1 departed_entry
      "[(sample_env, Arrival ''IC 1'' 5 9), (sample_env, Departure ''IC 1'' 5 10)]"]
  by (auto simp: sample_pg_writer_def departed_entry_def)

text \<open>
  C12.  For the calls of one session after its start, the tables of PostgreSQL hold for that session what the
  in-memory writer logs of the calls that returned: events, telegrams with their kilometre markers, journal
  rows, snapshots, chat messages and operating-point assignments in their order, and per track section the
  last value written.  Row by row, the events with their audit hashes, the journal with its scheduled and
  actual times, notes and status, and the assignments with their beginning and end are those the returned
  calls give when they are carried out one after the other on empty tables, so a status update and a release
  change exactly the rows they name.  (The entries of the EDR are the subject of C11; the timetable is not a
  table of the session.)\<close>

theorem tables_match_log:
  assumes "pg_wf (conn w)" and "pg_init_session env n v w = Inr (sid, w')"
    and "\<And>e c. (e, c) \<in> set calls \<Longrightarrow> pg_jsonb e = jsonb \<and> (\<forall>m k. c \<noteq> InitSession m k)"
  shows "stored jsonb (pg_run calls w') (pg_log calls w') \<and>
    events_view sid (conn (pg_run calls w')) = fold (replay_events sid) (returned_calls calls w') [] \<and>
    journal_view sid (conn (pg_run calls w')) = fold replay_journal (returned_calls calls w') [] \<and>
    points_view sid (conn (pg_run calls w')) = fold replay_points (returned_calls calls w') []"
proof -
  have no_init: "c \<noteq> InitSession m k" if "(e, c) \<in> set calls" for e c m k using assms(3) [OF that] by blast
  note start = init_session_views [OF assms(1,2)]
  have "stored jsonb (pg_run calls w') (pg_log calls w')"
    unfolding pg_log_def by (rule stored_run [OF init_session_stored [OF assms(1,2)] assms(3)])
  with events.run [where calls = calls and w = w'] journal.run [where calls = calls and w = w']
    points.run [where calls = calls and w = w'] no_init
  show ?thesis by (simp add: start)
qed

definition sample_calls :: "(PgEnv \<times> DbCall) list" where
  "sample_calls =
     [(sample_env, AssignPoint ''Ldz'' ''S1'' ''a''), (sample_env, AppendChat ''a'' ''BROADCAST'' None ''hello'' 4),
      (sample_env\<lparr>pg_up := False\<rparr>, ReleasePoint ''Ldz'' ''a''),
      (sample_env\<lparr>pg_now := 9\<rparr>, ReleasePoint ''Ldz'' ''a'')]"

theorem tables_match_log_witness:
  "points_view ''u1'' (conn (pg_run sample_calls
     (snd (projr (pg_init_session sample_env ''S'' 1 (new_pg_writer empty_database)))))) =
   [(0, ''Ldz'', ''S1'', ''a'', 7, Some 9)]"
proof -
  let ?init = "pg_init_session sample_env ''S'' 1 (new_pg_writer empty_database)"
  have init: "?init = Inr (''u1'', snd (projr ?init))"
    by (simp add: pg_init_session_def transaction_def sample_env_def has_session_def new_pg_writer_def
        empty_database_def)
  have "list_all (\<lambda>(e, c). pg_jsonb e = Some \<and> (\<forall>m k. c \<noteq> InitSession m k)) sample_calls"
    by (simp add: sample_calls_def sample_env_def)
  then have calls: "pg_jsonb e = Some \<and> (\<forall>m k. c \<noteq> InitSession m k)" if "(e, c) \<in> set sample_calls" for e c
    using that by (auto simp: list_all_iff)
  have wf: "pg_wf (conn (new_pg_writer empty_database))"
    by (simp add: pg_wf_def new_pg_writer_def empty_database_def keyed_def in_sessions_def)
  have "returned_calls sample_calls (snd (projr ?init)) = [sample_calls ! 0, sample_calls ! 1, sample_calls ! 3]"
    by (simp add: sample_calls_def pg_calls pg_init_session_def transaction_def outcome_def and_then_def uuid_cast_def
        insert_for_session_def insert_rows_def fresh_in_def has_session_def sample_env_def new_pg_writer_def
        empty_database_def)
  moreover have "points_view ''u1'' (conn (pg_run sample_calls (snd (projr ?init)))) =
      fold replay_points (returned_calls sample_calls (snd (projr ?init))) []"
    using tables_match_log [OF wf init calls] by blast
  ultimately show ?thesis by (simp add: sample_calls_def sample_env_def)
qed

text \<open>A session that is over is never touched again, and the logs are only appended to.\<close>

lemma finished_sessions_are_kept:
  assumes "has_session sid (conn w)" and "sid \<noteq> session_uuid w"
  shows "session_rows sid (pg_run calls w) = session_rows sid w"
  using others.pg_run_rel [of w calls] assms unfolding others_kept_def by blast

lemma logs_are_append_only:
  "prefix (db_events (conn w)) (db_events (conn (pg_run calls w)))"
  "prefix (db_telegrams (conn w)) (db_telegrams (conn (pg_run calls w)))"
  using logs.pg_run_rel [of w calls] by (simp_all add: logs_grow_def)

lemma schema_is_kept: "pg_wf (conn w) \<Longrightarrow> pg_wf (conn (pg_run calls w))"
  using wf.pg_run_rel [of w calls] by simp

text \<open>
  The schema keeps one EDR row per train and station only if the day is seeded once: a second seeding
  adds the rows again, and both are then updated together.  An operating point can be assigned to
  two clients at a time.\<close>

lemma seeding_twice_duplicates:
  assumes "pg_seed_edr_entries_for_operating_day e d w = Inr (n, w1)"
    and "pg_seed_edr_entries_for_operating_day e' d w1 = Inr (n', w2)"
    and "db_templates (conn w1) = db_templates (conn w)" and "session_uuid w1 = session_uuid w"
  shows "map snd (db_edr_entries (conn w2)) = map snd (db_edr_entries (conn w)) @
    map (seeded_entry e (session_uuid w)) (templates_on d (conn w)) @
    map (seeded_entry e' (session_uuid w)) (templates_on d (conn w))"
  using seeded_entries [OF assms(1)] seeded_entries [OF assms(2)] assms(3,4) by (simp add: templates_on_def)

lemma operating_point_held_twice:
  assumes "pg_assign_operating_point e p s c w = Inr (i, w1)"
    and "pg_assign_operating_point e' p s c' w1 = Inr (i', w2)"
  shows "i \<noteq> i' \<and> (\<exists>a a'. (i, a) \<in> set (db_assignments (conn w2)) \<and> (i', a') \<in> set (db_assignments (conn w2)) \<and>
    pa_operating_point_id a = p \<and> pa_operating_point_id a' = p \<and> pa_client_id a = c \<and> pa_client_id a' = c' \<and>
    pa_released_at a = None \<and> pa_released_at a' = None)"
  using assms by (fastforce simp: pg_assign_operating_point_def fresh_in_def)

text \<open>A lost connection makes every call throw, with the tables as they were; nothing on the ENGINE or
  the IO thread catches it.\<close>

lemma lost_connection_throws:
  assumes "\<not> pg_up env"
  shows "fst (pg_call env c w) = False \<and> snd (pg_call env c w) = w"
  using assms
  by (cases c) (auto simp: outcome_def transaction_def update_edr_def pg_init_session_def
      pg_seed_edr_entries_for_operating_day_def pg_write_domain_event_def pg_write_dispatch_telegram_def
      pg_update_edr_track_clear_time_def pg_update_edr_departure_def pg_update_edr_arrival_def
      pg_append_edr_journal_entry_def pg_update_edr_journal_entry_status_def pg_upsert_pip_track_state_def
      pg_save_snapshot_def pg_append_chat_message_def pg_assign_operating_point_def
      pg_release_operating_point_def pg_upsert_timetable_template_def and_then_def split: sum.splits)

end
