(* ===== verification/Server_Lifecycle.thy ===== *)
theory Server_Lifecycle
  imports Session_Server Pg_Storage
begin

text \<open>
  The threads of the server: the ENGINE thread, \<^verbatim>\<open>EngineLoop::start\<close>, \<^verbatim>\<open>stop\<close> and
  \<^verbatim>\<open>run\<close> of \<^verbatim>\<open>engine/src/engine_loop.cpp\<close>, and the order in which
  \<^verbatim>\<open>SessionServer::start\<close> and \<^verbatim>\<open>stop\<close> of
  \<^verbatim>\<open>server/src/session_server.cpp\<close> construct, start, join and release the subsystems.

  The loop of the ENGINE thread takes what its stop token reads at each test; its schedule takes the
  time each tick needs.  The lifecycle of the server interleaves the actions of the main thread with
  events of the terminal, ENGINE and IO threads: an event that needs a subsystem which the main
  thread has not yet made or has already released is a fault.
\<close>

section \<open>The ENGINE thread\<close>

text \<open>\<^verbatim>\<open>TICK_PERIOD\<close> in milliseconds.\<close>

definition TICK_PERIOD :: int where
  "TICK_PERIOD = 50"

text \<open>\<^verbatim>\<open>while (!stoken.stop_requested()) { do_tick(); ... }\<close>: one reading of the token per test.\<close>

fun engine_run :: "bool list \<Rightarrow> 'sys IControlSystem \<Rightarrow> 'sys EngineLoop \<Rightarrow> 'sys EngineLoop \<times> TickOutput list" where
  "engine_run [] ctl lp = (lp, [])"
| "engine_run (stop_requested # rest) ctl lp =
     (if stop_requested then (lp, [])
      else let (lp1, out) = do_tick ctl lp; (lp2, outs) = engine_run rest ctl lp1 in (lp2, out # outs))"

text \<open>The times at which the ticks begin: the thread sleeps until \<^verbatim>\<open>next_tick\<close>, which moves by the
  period whether or not the tick was late.\<close>

fun tick_times :: "int \<Rightarrow> int \<Rightarrow> int list \<Rightarrow> int list" where
  "tick_times now next_tick [] = []"
| "tick_times now next_tick (cost # costs) =
     now # tick_times (max (now + cost) next_tick) (next_tick + TICK_PERIOD) costs"

definition engine_schedule :: "int \<Rightarrow> int list \<Rightarrow> int list" where
  "engine_schedule now costs = tick_times now (now + TICK_PERIOD) costs"

text \<open>The members \<^verbatim>\<open>running_\<close> and \<^verbatim>\<open>thread_\<close>, the stop state of the token, and where the
  thread is.\<close>

datatype ThreadPc = AtTest | InTick | Sleeping | Returned

record EngineThread =
  et_running :: bool
  et_thread :: "ThreadPc option"
  et_stop_requested :: bool
  et_joining :: bool
  et_ticks :: nat

definition new_engine_thread :: EngineThread where
  "new_engine_thread =
     \<lparr>et_running = False, et_thread = None, et_stop_requested = False, et_joining = False, et_ticks = 0\<rparr>"

definition engine_start :: "EngineThread \<Rightarrow> EngineThread" where
  "engine_start t =
     (if et_running t then t
      else t\<lparr>et_running := True, et_thread := Some AtTest, et_stop_requested := False\<rparr>)"

text \<open>\<^verbatim>\<open>stop\<close> up to the join; the join returns when the thread has.\<close>

definition engine_stop :: "EngineThread \<Rightarrow> EngineThread" where
  "engine_stop t =
     (if \<not> et_running t then t
      else t\<lparr>et_running := False, et_stop_requested := True, et_joining := et_thread t \<noteq> None\<rparr>)"

definition engine_join :: "EngineThread \<Rightarrow> EngineThread" where
  "engine_join t =
     (if et_joining t \<and> et_thread t = Some Returned then t\<lparr>et_thread := None, et_joining := False\<rparr> else t)"

text \<open>One step of the thread.  The sleep ends at its time or, as the stop callback notifies the
  condition variable, when a stop is requested.\<close>

definition engine_thread_step :: "EngineThread \<Rightarrow> EngineThread" where
  "engine_thread_step t =
     (case et_thread t of
        Some AtTest \<Rightarrow> t\<lparr>et_thread := Some (if et_stop_requested t then Returned else InTick)\<rparr>
      | Some InTick \<Rightarrow> t\<lparr>et_thread := Some Sleeping, et_ticks := et_ticks t + 1\<rparr>
      | Some Sleeping \<Rightarrow> t\<lparr>et_thread := Some AtTest\<rparr>
      | _ \<Rightarrow> t)"

text \<open>The owner calls \<^verbatim>\<open>start\<close> and \<^verbatim>\<open>stop\<close> one after the other: while it joins, only
  the thread moves.\<close>

inductive engine_thread_run :: "EngineThread \<Rightarrow> EngineThread \<Rightarrow> bool" where
  et_init: "engine_thread_run t t"
| et_start: "engine_thread_run t u \<Longrightarrow> \<not> et_joining u \<Longrightarrow> engine_thread_run t (engine_start u)"
| et_stop: "engine_thread_run t u \<Longrightarrow> \<not> et_joining u \<Longrightarrow> engine_thread_run t (engine_stop u)"
| et_join: "engine_thread_run t u \<Longrightarrow> engine_thread_run t (engine_join u)"
| et_step: "engine_thread_run t u \<Longrightarrow> engine_thread_run t (engine_thread_step u)"

section \<open>Subsystems and threads of the server\<close>

datatype Subsystem = DB_WRITER | CONTROL | GATEWAY | DISPATCH_BUS | EXCHANGE_MGR | EDR_COORDINATOR
  | PIP_WRITER | DISPATCH_COORDINATOR | DISPATCH_CHANNEL | ENGINE_LOOP | USER_STORE
  | COMMAND_REGISTRY | TERMINAL_SESSION | TERMINAL

datatype ServerThread = IO_THREAD | ENGINE_THREAD | TERMINAL_THREAD

fun thread_owner :: "ServerThread \<Rightarrow> Subsystem" where
  "thread_owner IO_THREAD = GATEWAY"
| "thread_owner ENGINE_THREAD = ENGINE_LOOP"
| "thread_owner TERMINAL_THREAD = TERMINAL"

text \<open>What the main thread does: \<^verbatim>\<open>make_unique\<close>, \<^verbatim>\<open>start\<close>,
  \<^verbatim>\<open>if (x) { x->stop(); ... }\<close>, \<^verbatim>\<open>reset\<close> and \<^verbatim>\<open>cmd_queue_.close()\<close>.\<close>

datatype MainAction = MakeUnique Subsystem | StartThread ServerThread | StopThread ServerThread
  | Reset Subsystem | CloseQueue

definition start_actions :: "MainAction list" where
  "start_actions =
     [MakeUnique DB_WRITER, MakeUnique CONTROL, MakeUnique GATEWAY, MakeUnique DISPATCH_BUS,
      MakeUnique EXCHANGE_MGR, MakeUnique EDR_COORDINATOR, MakeUnique PIP_WRITER,
      MakeUnique DISPATCH_COORDINATOR, MakeUnique DISPATCH_CHANNEL, MakeUnique ENGINE_LOOP,
      StartThread IO_THREAD, StartThread ENGINE_THREAD,
      MakeUnique USER_STORE, MakeUnique COMMAND_REGISTRY, MakeUnique TERMINAL_SESSION,
      MakeUnique TERMINAL, StartThread TERMINAL_THREAD]"

definition stop_actions :: "MainAction list" where
  "stop_actions =
     [StopThread TERMINAL_THREAD, Reset TERMINAL, Reset TERMINAL_SESSION, Reset COMMAND_REGISTRY,
      Reset USER_STORE, StopThread ENGINE_THREAD, Reset ENGINE_LOOP, Reset DISPATCH_CHANNEL,
      Reset DISPATCH_COORDINATOR, Reset PIP_WRITER, Reset EDR_COORDINATOR, Reset EXCHANGE_MGR,
      StopThread IO_THREAD, Reset GATEWAY, Reset DISPATCH_BUS, Reset CONTROL, Reset DB_WRITER, CloseQueue]"

text \<open>\<^verbatim>\<open>run()\<close> starts, waits for the signal and stops; the destructor stops again.\<close>

definition server_actions :: "MainAction list" where
  "server_actions = start_actions @ stop_actions @ stop_actions"

text \<open>What the other threads react to, and the subsystems each reaction reaches through the pointers
  of the server: a line of the terminal; a tick with its callbacks; a frame of a client other than
  the dispatch channel's; and a dispatch frame, whose handler dereferences
  \<^verbatim>\<open>dispatch_channel_\<close>.\<close>

datatype ThreadEvent = TerminalLine | EngineTick | ClientFrame | DispatchFrame

fun event_thread :: "ThreadEvent \<Rightarrow> ServerThread" where
  "event_thread TerminalLine = TERMINAL_THREAD"
| "event_thread EngineTick = ENGINE_THREAD"
| "event_thread ClientFrame = IO_THREAD"
| "event_thread DispatchFrame = IO_THREAD"

fun event_uses :: "ThreadEvent \<Rightarrow> Subsystem list" where
  "event_uses TerminalLine = [TERMINAL, TERMINAL_SESSION, COMMAND_REGISTRY, USER_STORE, ENGINE_LOOP]"
| "event_uses EngineTick = [ENGINE_LOOP, CONTROL, GATEWAY, DISPATCH_BUS, PIP_WRITER, DB_WRITER]"
| "event_uses ClientFrame = [GATEWAY]"
| "event_uses DispatchFrame =
     [GATEWAY, DISPATCH_CHANNEL, DISPATCH_COORDINATOR, EXCHANGE_MGR, EDR_COORDINATOR, DB_WRITER]"

record ServerProcess =
  sp_todo :: "MainAction list"
  sp_alive :: "Subsystem list"
  sp_threads :: "ServerThread list"
  sp_queue_closed :: bool
  sp_fault :: "ThreadEvent option"

definition server_process :: "MainAction list \<Rightarrow> ServerProcess" where
  "server_process actions =
     \<lparr>sp_todo = actions, sp_alive = [], sp_threads = [], sp_queue_closed = False, sp_fault = None\<rparr>"

text \<open>A join returns when the thread is between two events.\<close>

fun main_action :: "MainAction \<Rightarrow> ServerProcess \<Rightarrow> ServerProcess" where
  "main_action (MakeUnique c) s = s\<lparr>sp_alive := c # sp_alive s\<rparr>"
| "main_action (StartThread t) s = s\<lparr>sp_threads := t # sp_threads s\<rparr>"
| "main_action (StopThread t) s =
     (if thread_owner t \<in> set (sp_alive s) then s\<lparr>sp_threads := removeAll t (sp_threads s)\<rparr> else s)"
| "main_action (Reset c) s = s\<lparr>sp_alive := removeAll c (sp_alive s)\<rparr>"
| "main_action CloseQueue s = s\<lparr>sp_queue_closed := True\<rparr>"

definition thread_event :: "ThreadEvent \<Rightarrow> ServerProcess \<Rightarrow> ServerProcess" where
  "thread_event e s = (if set (event_uses e) \<subseteq> set (sp_alive s) then s else s\<lparr>sp_fault := Some e\<rparr>)"

inductive server_step :: "ServerProcess \<Rightarrow> ServerProcess \<Rightarrow> bool" where
  main_step: "sp_fault s = None \<Longrightarrow> sp_todo s = a # rest \<Longrightarrow>
    server_step s (main_action a (s\<lparr>sp_todo := rest\<rparr>))"
| event_step: "sp_fault s = None \<Longrightarrow> event_thread e \<in> set (sp_threads s) \<Longrightarrow>
    server_step s (thread_event e s)"

inductive_simps server_step_simps: "server_step s t"

section \<open>Registering the session\<close>

text \<open>\<^verbatim>\<open>current_iso_weekday\<close>: the C library counts the days from Sunday as 0.\<close>

definition current_iso_weekday :: "int \<Rightarrow> int" where
  "current_iso_weekday tm_wday = (if tm_wday = 0 then 7 else tm_wday)"

datatype IDbWriter = PgWriter PgDbWriter | NullWriter NullDbWriter

text \<open>Steps 0 and 1a of \<^verbatim>\<open>start\<close>: the writer the connection string asks for, the row of the
  session, the EDR entries of the day.  The result is the session's identifier, the number of seeded
  rows and the writer.\<close>

definition make_db_writer :: "string \<Rightarrow> PgDatabase \<Rightarrow> IDbWriter" where
  "make_db_writer connection_string database =
     (if connection_string \<noteq> [] then PgWriter (new_pg_writer database) else NullWriter new_db_writer)"

definition register_session ::
    "PgEnv \<Rightarrow> PgEnv \<Rightarrow> string \<Rightarrow> int \<Rightarrow> IDbWriter \<Rightarrow> pg_error + string \<times> int \<times> IDbWriter" where
  "register_session env1 env2 station_sid tm_wday w =
     (case w of
        PgWriter pg \<Rightarrow>
          and_then (pg_init_session env1 station_sid 1 pg) (\<lambda>(session_uuid, pg1).
          and_then (pg_seed_edr_entries_for_operating_day env2 (current_iso_weekday tm_wday) pg1) (\<lambda>(seeded_rows, pg2).
            Inr (session_uuid, seeded_rows, PgWriter pg2)))
      | NullWriter db \<Rightarrow>
          (let (session_uuid, db1) = init_session station_sid 1 db;
               (seeded_rows, db2) = seed_edr_entries_for_operating_day (current_iso_weekday tm_wday) db1
           in Inr (session_uuid, seeded_rows, NullWriter db2)))"

text \<open>A server that starts on PostgreSQL has its own session, and the entries of that session are the
  templates of the day, all pending.\<close>

lemma started_session_is_seeded:
  assumes "pg_wf database"
    and "register_session e1 e2 sid d (make_db_writer c database) = Inr (uuid, n, PgWriter pg)"
  shows "session_uuid pg = uuid \<and> \<not> has_session uuid database \<and> has_session uuid (conn pg) \<and>
    n = int (length (templates_on (current_iso_weekday d) database)) \<and>
    mine edr_session_id uuid (db_edr_entries (conn pg)) =
      map (seeded_entry e2 uuid) (templates_on (current_iso_weekday d) database)"
proof -
  from assms(2) obtain pg1 where init: "pg_init_session e1 sid 1 (new_pg_writer database) = Inr (uuid, pg1)"
    and seed: "pg_seed_edr_entries_for_operating_day e2 (current_iso_weekday d) pg1 = Inr (n, pg)"
    by (auto simp: register_session_def make_db_writer_def and_then_Inr init_session_def
        seed_edr_entries_for_operating_day_def split: if_splits IDbWriter.splits)
  from init have pg1: "session_uuid pg1 = uuid" "\<not> has_session uuid database" "has_session uuid (conn pg1)"
      "db_edr_entries (conn pg1) = db_edr_entries database" "db_templates (conn pg1) = db_templates database"
    by (auto simp: pg_init_session_def new_pg_writer_def has_session_def split: if_splits)
  have none: "mine edr_session_id uuid (db_edr_entries database) = []"
    by (rule mine_empty [OF _ pg1(2)]) (use assms(1) in \<open>simp add: pg_wf_def\<close>)
  from seed have "session_uuid pg = session_uuid pg1" "db_sessions (conn pg) = db_sessions (conn pg1)"
    by (auto simp: pg_seed_edr_entries_for_operating_day_def and_then_Inr)
  with seeded_entries [OF seed] pg1 none show ?thesis
    by (simp add: mine_def has_session_def templates_on_def filter_map seeded_entry_def comp_def)
qed

section \<open>Ticks\<close>

lemma engine_run_ticks:
  "fst (engine_run (replicate k False @ True # rest) ctl lp) = do_ticks k ctl lp"
  "length (snd (engine_run (replicate k False @ True # rest) ctl lp)) = k"
  by (induction k arbitrary: lp) (simp_all add: case_prod_beta Let_def)

lemma tick_times_on_schedule:
  assumes "list_all (\<lambda>c. c \<le> TICK_PERIOD) costs"
  shows "tick_times now (now + TICK_PERIOD) costs = map (\<lambda>k. now + int k * TICK_PERIOD) [0..<length costs]"
  using assms
proof (induction costs arbitrary: now)
  case (Cons c costs)
  have "tick_times (max (now + c) (now + TICK_PERIOD)) (now + TICK_PERIOD + TICK_PERIOD) costs =
      map (\<lambda>k. now + TICK_PERIOD + int k * TICK_PERIOD) [0..<length costs]"
    using Cons.IH [of "now + TICK_PERIOD"] Cons.prems by (simp add: max_absorb2)
  then show ?case
    by (simp add: upt_conv_Cons map_Suc_upt [symmetric] algebra_simps del: upt_Suc)
qed simp

text \<open>Ticks that take at most the period begin every 50 milliseconds, without drift; no tick begins
  early.\<close>

lemma ticks_on_schedule:
  assumes "list_all (\<lambda>c. c \<le> TICK_PERIOD) costs"
  shows "engine_schedule now costs = map (\<lambda>k. now + int k * 50) [0..<length costs]"
  using tick_times_on_schedule [OF assms, of now] by (simp add: engine_schedule_def TICK_PERIOD_def)

lemma tick_times_not_early:
  assumes "k < length costs" and "t \<le> now" and "t + TICK_PERIOD \<le> next_tick"
  shows "t + int k * TICK_PERIOD \<le> tick_times now next_tick costs ! k"
  using assms
proof (induction costs arbitrary: now next_tick t k)
  case (Cons c costs)
  show ?case
  proof (cases k)
    case (Suc j)
    have "t + TICK_PERIOD + int j * TICK_PERIOD \<le>
        tick_times (max (now + c) next_tick) (next_tick + TICK_PERIOD) costs ! j"
      using Cons.prems Suc by (intro Cons.IH) auto
    then show ?thesis by (simp add: Suc algebra_simps)
  qed (use Cons.prems in simp)
qed simp

section \<open>Stopping the ENGINE thread\<close>

definition engine_thread_inv :: "EngineThread \<Rightarrow> bool" where
  "engine_thread_inv t \<longleftrightarrow> (et_running t \<longrightarrow> et_thread t \<noteq> None \<and> \<not> et_joining t) \<and>
     (et_joining t \<longrightarrow> et_thread t \<noteq> None \<and> et_stop_requested t) \<and>
     (et_thread t \<noteq> None \<longrightarrow> et_running t \<or> et_joining t)"

lemma engine_thread_inv_run:
  "engine_thread_run t u \<Longrightarrow> engine_thread_inv t \<Longrightarrow> engine_thread_inv u"
proof (induction rule: engine_thread_run.induct)
  case (et_step t u)
  then show ?case
    by (cases "et_thread u"; cases "the (et_thread u)") (auto simp: engine_thread_inv_def engine_thread_step_def)
qed (auto simp: engine_thread_inv_def engine_start_def engine_stop_def engine_join_def)

text \<open>Once a stop is requested the thread finishes within three of its own steps and completes at most
  the tick it is in; then the join returns and no thread is left.\<close>

lemma stop_returns:
  assumes "engine_thread_run new_engine_thread t" and "et_running t"
  shows "\<exists>k\<le>3. \<exists>u. u = engine_join ((engine_thread_step ^^ k) (engine_stop t)) \<and>
    et_thread u = None \<and> \<not> et_joining u \<and> et_ticks u \<le> et_ticks t + 1"
proof -
  have "engine_thread_inv t"
    using engine_thread_inv_run [OF assms(1)] by (simp add: new_engine_thread_def engine_thread_inv_def)
  with assms(2) obtain pc where pc: "et_thread t = Some pc" by (auto simp: engine_thread_inv_def)
  let ?k = "(case pc of AtTest \<Rightarrow> 1 | InTick \<Rightarrow> 3 | Sleeping \<Rightarrow> 2 | Returned \<Rightarrow> 0) :: nat"
  have "et_thread (engine_join ((engine_thread_step ^^ ?k) (engine_stop t))) = None \<and>
      \<not> et_joining (engine_join ((engine_thread_step ^^ ?k) (engine_stop t))) \<and>
      et_ticks (engine_join ((engine_thread_step ^^ ?k) (engine_stop t))) \<le> et_ticks t + 1"
    using assms(2) pc
    by (cases pc) (simp_all add: engine_stop_def engine_join_def engine_thread_step_def eval_nat_numeral)
  moreover have "?k \<le> 3" by (simp split: ThreadPc.split)
  ultimately show ?thesis by blast
qed

section \<open>Starting and stopping the server\<close>

text \<open>An event is safe along a list of actions if, after every prefix, its thread does not run or all
  it needs is there.\<close>

definition event_ok :: "ThreadEvent \<Rightarrow> ServerProcess \<Rightarrow> bool" where
  "event_ok e s \<longleftrightarrow> (event_thread e \<in> set (sp_threads s) \<longrightarrow> set (event_uses e) \<subseteq> set (sp_alive s))"

fun runs_safely :: "ThreadEvent \<Rightarrow> MainAction list \<Rightarrow> ServerProcess \<Rightarrow> bool" where
  "runs_safely e [] s = event_ok e s"
| "runs_safely e (a # as) s = (event_ok e s \<and> runs_safely e as (main_action a s))"

lemma runs_safely_now: "runs_safely e as s \<Longrightarrow> event_ok e s"
  by (cases as) auto

lemma main_action_todo: "main_action a (s\<lparr>sp_todo := as\<rparr>) = (main_action a s)\<lparr>sp_todo := as\<rparr>"
  by (cases a) auto

lemma runs_safely_cong:
  "sp_alive s = sp_alive t \<Longrightarrow> sp_threads s = sp_threads t \<Longrightarrow> runs_safely e as s = runs_safely e as t"
proof (induction as arbitrary: s t)
  case (Cons a as)
  have "runs_safely e as (main_action a s) = runs_safely e as (main_action a t)"
    using Cons.prems by (intro Cons.IH) (cases a; simp)+
  then show ?case using Cons.prems by (simp add: event_ok_def)
qed (simp add: event_ok_def)

lemma server_step_safe:
  assumes "server_step s t" and "runs_safely e (sp_todo s) s" and "sp_fault s \<noteq> Some e"
  shows "runs_safely e (sp_todo t) t \<and> sp_fault t \<noteq> Some e"
  using assms(1)
proof cases
  case (main_step a rest)
  then have "runs_safely e rest (main_action a s)" using assms(2) by simp
  moreover have "sp_fault (main_action a s) = sp_fault s" by (cases a) auto
  ultimately show ?thesis using main_step assms(3)
    by (simp add: main_action_todo runs_safely_cong [of "(main_action a s)\<lparr>sp_todo := rest\<rparr>" "main_action a s"])
next
  case (event_step e')
  have "runs_safely e as (s\<lparr>sp_fault := f\<rparr>) = runs_safely e as s" for as f by (rule runs_safely_cong) simp_all
  moreover have "e' \<noteq> e" if "\<not> set (event_uses e') \<subseteq> set (sp_alive s)"
    using that runs_safely_now [OF assms(2)] event_step(3) by (auto simp: event_ok_def)
  ultimately show ?thesis using event_step assms(2,3) by (auto simp: thread_event_def)
qed

lemma server_runs_safe:
  assumes "server_step\<^sup>*\<^sup>* (server_process actions) s" and "runs_safely e actions (server_process actions)"
  shows "sp_fault s \<noteq> Some e"
proof -
  have "runs_safely e (sp_todo s) s \<and> sp_fault s \<noteq> Some e"
    using assms(1)
  proof (induction rule: rtranclp_induct)
    case base
    then show ?case using assms(2) by (simp add: server_process_def)
  next
    case (step t u)
    then show ?case using server_step_safe [of t u e] by blast
  qed
  then show ?thesis ..
qed

lemma server_actions_safe:
  assumes "e \<noteq> DispatchFrame"
  shows "runs_safely e server_actions (server_process server_actions)"
  using assms
  by (cases e) (simp_all add: server_actions_def start_actions_def stop_actions_def server_process_def event_ok_def)

definition final_state where
  "final_state s = (let u = fold main_action (sp_todo s) s in (sp_threads u, sp_alive u, sp_queue_closed u))"

lemma fold_main_action_fields:
  "fold main_action as (s\<lparr>sp_todo := x\<rparr>) = (fold main_action as s)\<lparr>sp_todo := x\<rparr>"
  "fold main_action as (s\<lparr>sp_fault := f\<rparr>) = (fold main_action as s)\<lparr>sp_fault := f\<rparr>"
proof -
  have "main_action a (s\<lparr>sp_fault := f\<rparr>) = (main_action a s)\<lparr>sp_fault := f\<rparr>" for a s by (cases a) auto
  then show "fold main_action as (s\<lparr>sp_todo := x\<rparr>) = (fold main_action as s)\<lparr>sp_todo := x\<rparr>"
    "fold main_action as (s\<lparr>sp_fault := f\<rparr>) = (fold main_action as s)\<lparr>sp_fault := f\<rparr>"
    by (induction as arbitrary: s) (simp_all add: main_action_todo)
qed

lemma final_state_step:
  assumes "server_step s t"
  shows "final_state t = final_state s"
  using assms
proof cases
  case (main_step a rest)
  have "sp_todo (main_action a x) = sp_todo x" for x by (cases a) auto
  then show ?thesis using main_step by (simp add: final_state_def main_action_todo fold_main_action_fields Let_def)
qed (simp add: final_state_def thread_event_def fold_main_action_fields Let_def)

lemma final_state_server:
  assumes "server_step\<^sup>*\<^sup>* (server_process server_actions) s"
  shows "final_state s = ([], [], True)"
  using assms
proof (induction rule: rtranclp_induct)
  case base
  show ?case
    by (simp add: final_state_def server_process_def server_actions_def start_actions_def stop_actions_def)
next
  case (step t u)
  then show ?case by (simp add: final_state_step)
qed

lemma server_runs_main:
  assumes "sp_fault s = None" and "sp_todo s = as @ bs"
  shows "server_step\<^sup>*\<^sup>* s ((fold main_action as s)\<lparr>sp_todo := bs\<rparr>)"
  using assms
proof (induction as arbitrary: s)
  case (Cons a as)
  have "sp_fault (main_action a s) = sp_fault s" by (cases a) auto
  then have "server_step\<^sup>*\<^sup>* (main_action a (s\<lparr>sp_todo := as @ bs\<rparr>))
      ((fold main_action as (main_action a (s\<lparr>sp_todo := as @ bs\<rparr>)))\<lparr>sp_todo := bs\<rparr>)"
    using Cons by (intro Cons.IH) (simp_all add: main_action_todo)
  moreover have "server_step s (main_action a (s\<lparr>sp_todo := as @ bs\<rparr>))"
    using Cons.prems by (simp add: main_step)
  ultimately show ?case by (simp add: main_action_todo fold_main_action_fields converse_rtranclp_into_rtranclp)
next
  case Nil
  then have "s\<lparr>sp_todo := bs\<rparr> = s" by (cases s) simp
  then show ?case by simp
qed

text \<open>
  C10.  From the first line of \<^verbatim>\<open>start\<close> to the end of \<^verbatim>\<open>stop\<close>, however the
  threads interleave, the terminal never runs a line, the ENGINE thread never ticks and the IO thread
  never handles a client's frame other than a dispatch frame with a subsystem it needs missing; and
  when the actions are done no thread runs and no subsystem is left.\<close>

theorem threads_use_live_subsystems:
  assumes "server_step\<^sup>*\<^sup>* (server_process server_actions) s"
  shows "sp_fault s \<in> {None, Some DispatchFrame} \<and>
    (sp_todo s = [] \<longrightarrow> sp_threads s = [] \<and> sp_alive s = [] \<and> sp_queue_closed s)"
proof -
  have "sp_fault s \<noteq> Some e" if "e \<noteq> DispatchFrame" for e
    using server_runs_safe [OF assms] server_actions_safe [OF that] .
  then have "sp_fault s \<in> {None, Some DispatchFrame}" by (cases "sp_fault s") auto
  then show ?thesis using final_state_server [OF assms] by (auto simp: final_state_def)
qed

theorem threads_use_live_subsystems_witness:
  "sp_threads (fold main_action server_actions (server_process server_actions)\<lparr>sp_todo := []\<rparr>) = [] \<and>
   sp_fault (fold main_action server_actions (server_process server_actions)\<lparr>sp_todo := []\<rparr>)
     \<in> {None, Some DispatchFrame}"
proof -
  have "server_step\<^sup>*\<^sup>* (server_process server_actions)
      (fold main_action server_actions (server_process server_actions)\<lparr>sp_todo := []\<rparr>)"
    by (rule server_runs_main) (simp_all add: server_process_def)
  from threads_use_live_subsystems [OF this] show ?thesis by simp
qed

text \<open>The window: between the release of the dispatch channel and the stop of the gateway the IO thread
  still handles frames, and a dispatch frame then reaches a pointer that is null.\<close>

lemma dispatch_frame_during_stop_faults:
  "\<exists>s. server_step\<^sup>*\<^sup>* (server_process server_actions) s \<and> sp_fault s = Some DispatchFrame"
proof -
  let ?before = "start_actions @ take 8 stop_actions"
  let ?s = "(fold main_action ?before (server_process server_actions))\<lparr>sp_todo := drop 8 stop_actions @ stop_actions\<rparr>"
  have "server_actions = ?before @ drop 8 stop_actions @ stop_actions"
    by (simp add: server_actions_def)
  then have "server_step\<^sup>*\<^sup>* (server_process server_actions) ?s"
    by (intro server_runs_main) (simp_all add: server_process_def)
  moreover have "sp_fault ?s = None" "event_thread DispatchFrame \<in> set (sp_threads ?s)"
    "sp_fault (thread_event DispatchFrame ?s) = Some DispatchFrame"
    by (simp_all add: start_actions_def stop_actions_def server_process_def thread_event_def)
  ultimately show ?thesis by (meson event_step rtranclp.rtrancl_into_rtrancl)
qed

end
