(* ===== verification/Spec2Isabelle.thy ===== *)
theory Spec2Isabelle
  imports Route_Properties Block_Line Dispatch_Channel Server_Properties Event_Dispatcher Timetable
    Validation_Completeness Panel_Properties Editor_Window Uid_Window Reserved_Messages Server_Lifecycle
begin

text \<open>
  A model of the simulation server of a railway control-room game, with the theorems that make its
  core correct.  The server runs one session: an engine thread ticks twenty times a second over a
  world state of tracks, switches, signals, derailers, block sections, routes and trains; players
  send commands, which an interlocking accepts or refuses; the state changes of a tick are broadcast.
  Paths below are relative to \<^verbatim>\<open>src/\<close>.

  \<^bold>\<open>How the program is put together.\<close>
  \<^verbatim>\<open>EngineLoop::do_tick\<close> drains the \<^verbatim>\<open>PriorityCommandQueue\<close>, asks
  the \<^verbatim>\<open>IControlSystem\<close> of the scenario (EbiLock X4 or ESTW ML8) to check and
  execute each command, applies the resulting \<^verbatim>\<open>DeviceStateChange\<close> values to the
  \<^verbatim>\<open>EngineState\<close>, lets the control system do its timed work, drains the fleet
  commands, ticks the trains and publishes a snapshot.  Both control systems are thin dispatchers
  over the shared rules of \<^verbatim>\<open>srk/common\<close>, which search routes in the topology graph.
  Around the engine the server reads frames from TCP, parses them to commands, publishes the changes
  as events and the state as snapshots, and keeps the telegram exchange between neighbouring dispatch
  areas.

  \<^bold>\<open>Theories, in the order of their imports.\<close>

  \<^item> \<open>Prelude\<close>: machine integers, decimal printing, and \<^verbatim>\<open>std::unordered_map\<close> as an
    association list whose order is the iteration order; locale \<open>keyed_container\<close>.
  \<^item> \<open>Types\<close>, \<open>Operator_Codes\<close>, \<open>Ml8_Codes\<close>, \<open>Commands\<close>, \<open>Track_Model\<close>: the vocabulary of
    \<^verbatim>\<open>engine/include/engine/core/\<close>
    (\<^verbatim>\<open>types.hpp\<close>, \<^verbatim>\<open>command.hpp\<close>, \<^verbatim>\<open>track_model.hpp\<close>).
  \<^item> \<open>Engine_State\<close>: \<^verbatim>\<open>engine/src/engine_state.cpp\<close>, every lookup and mutator, with the
    lookup rules \<open>engine_simps\<close>, well-formedness \<open>wf_state\<close> and the immutable \<open>topology\<close>.
  \<^item> \<open>State_Applier\<close>: \<^verbatim>\<open>DeviceStateChange\<close> and the visitor of
    \<^verbatim>\<open>state_applier.hpp\<close>; what each change can touch.
  \<^item> \<open>Route_Graph\<close>, \<open>Route_Search\<close>, \<open>Route_Properties\<close>: \<^verbatim>\<open>srk/common/src/route_graph.cpp\<close>.
    The queue loop terminates by the measure \<open>bfs_measure\<close> (queue length plus unvisited nodes);
    the walk back through the predecessor map runs on fuel, the length of that map, which
    \<open>bfs_total\<close> shows to be enough.
  \<^item> \<open>Device_Rules\<close>: rules R1 to R10 and the tick helpers of
    \<^verbatim>\<open>srk/common/src/device_rules.cpp\<close>, messages included.
  \<^item> \<open>Control_Systems\<close>: \<^verbatim>\<open>ebilock_system.cpp\<close>, \<^verbatim>\<open>ml8_system.cpp\<close>, the interface
    record \<open>IControlSystem\<close> and the registry of \<^verbatim>\<open>control_system_registry.cpp\<close>.
  \<^item> \<open>Sample_Station\<close>: a station with one switch and a crossover, the inputs of the witnesses.
  \<^item> \<open>Interlocking_Safety\<close>, \<open>Route_Cancellation\<close>: what accepted commands guarantee, and where the
    protection of routes has gaps.
  \<^item> \<open>Switch_Machines\<close>, \<open>Interlocking_Runs\<close>, \<open>Run_Properties\<close>: the loop over all switch machines
    refines one timer per switch; the locales \<open>interlocking\<close> (an invariant kept by accepted
    commands, ticks and occupancy reports) and \<open>switch_drives\<close>, interpreted for both systems.
  \<^item> \<open>Block_Line\<close>: the SHL-12 line block as the step relation \<open>line_step\<close>, refined by R8 to R10, beside the
    one of the documents, \<open>documented_step\<close>, and the cases in which the two differ, \<open>departs\<close>.
  \<^item> \<open>Command_Queues\<close>: \<^verbatim>\<open>priority_command_queue.hpp\<close> and \<^verbatim>\<open>event_queue.hpp\<close>; both
    interpret the locale \<open>channel\<close>, and the buckets refine an abstract priority queue.
  \<^item> \<open>Floats\<close>, \<open>Train_Physics\<close>, \<open>Train_Sim\<close>: rounding to single and double precision (locale
    \<open>binary_format\<close>), doubles with infinities and NaN, the integrator and
    driver of \<^verbatim>\<open>engine/include/engine/physics/\<close>, and \<^verbatim>\<open>engine/src/train_sim.cpp\<close>.
  \<^item> \<open>Train_Fleet\<close>, \<open>Fleet_Properties\<close>: \<^verbatim>\<open>engine/src/train_fleet.cpp\<close>; the fleet changes the
    state only by occupancy reports (\<open>occupancy_steps\<close>).
  \<^item> \<open>Engine_Loop\<close>: \<^verbatim>\<open>EngineLoop::do_tick\<close> of \<^verbatim>\<open>engine/src/engine_loop.cpp\<close>; a tick
    drains at most \<open>MAX_CMDS_PER_TICK = 64\<close> commands; the invariants of the interlocking lift to
    any number of ticks.
  \<^item> \<open>Frame\<close>: \<^verbatim>\<open>server/src/frame.cpp\<close>, the CRC and the frame codec.
  \<^item> \<open>Dispatch_Exchange\<close>: \<^verbatim>\<open>server/src/dispatch_exchange_manager.cpp\<close> against the protocol
    \<open>exchange_step\<close>, and \<^verbatim>\<open>server/src/ownership_guard.cpp\<close>.

  \<^item> \<open>Proto_Library\<close> and \<open>Proto_Common\<close>, \<open>Proto_Commands\<close>, \<open>Proto_Session\<close>, \<open>Proto_Dispatch\<close>,
    \<open>Proto_Events\<close>, \<open>Proto_Snapshot\<close>: the generated tables of \<^verbatim>\<open>autogens/proto/\<close> over
    the FlatBuffers runtime, which is third-party code and so a parameter (\<open>FlatBuffers\<close>); what a
    reader finds in a table that was built is the hypothesis \<open>fb_reads_back\<close>, met by \<open>tree_runtime\<close>.
  \<^item> \<open>Wire_Codes\<close>, \<open>Command_Ingress\<close>: enumerations as bytes, and
    \<^verbatim>\<open>server/src/command_ingress.cpp\<close>.
  \<^item> \<open>Snapshot_Service\<close>: \<^verbatim>\<open>engine/src/snapshot_service.cpp\<close>, with the client's reading of it.
  \<^item> \<open>Transport_Gateway\<close>, \<open>Session_Stream\<close>, \<open>Gateway_Safety\<close>:
    \<^verbatim>\<open>server/src/transport_gateway.cpp\<close>.  The handlers of the IO thread are functions on the
    gateway, posted work is a queue of tasks, a socket is the list of frames written to it; a read brings bytes
    only to a session that asked for them (\<open>deliver\<close>).
  \<^item> \<open>Db_Writer\<close>: the rows and writers of \<^verbatim>\<open>server/include/server/db_writer.hpp\<close>.
  \<^item> \<open>Pg_Writer\<close>, \<open>Pg_Properties\<close>, \<open>Pg_Storage\<close>: \<^verbatim>\<open>server/src/pg_db_writer.cpp\<close> over the
    tables of \<^verbatim>\<open>docker/init.sql\<close>, one function per method and statement; the specification
    \<open>pg_step\<close>, whose consequences for runs the locales \<open>run_order\<close> and \<open>pg_order\<close> carry; the
    comparison with the log of the in-memory writer and with replays of the returned calls (locale
    \<open>replayed\<close>).
  \<^item> \<open>Dispatch_Coordinator\<close>, \<open>Dispatch_Channel\<close>, \<open>Dispatch_Bus\<close>: telegrams and domain events on
    their way between engine, clients and database, \<^verbatim>\<open>server/src/dispatch_*.cpp\<close> and
    \<^verbatim>\<open>edr_coordinator.cpp\<close>.
  \<^item> \<open>Json_Library\<close>: the JSON library and the file system as far as the loaders call them, third-party
    code and so a parameter (\<open>Json\<close>, \<open>Files\<close>); \<open>json_laws\<close> is met by \<open>json_tree\<close>.
  \<^item> \<open>Fleet_Registry\<close>, \<open>Fleet_Loading\<close>: \<^verbatim>\<open>engine/src/fleet_registry.cpp\<close>; errors are values, and
    \<open>fleet_ok\<close> is what a loaded fleet satisfies.
  \<^item> \<open>Topology_Loader\<close>, \<open>Topology_Properties\<close>: \<^verbatim>\<open>engine/src/topology_loader.cpp\<close>; the locale
    \<open>loading\<close> lifts an invariant of the object loaders to a whole world.
  \<^item> \<open>Snapshot_View\<close>: the view \<^verbatim>\<open>IStateView\<close> with \<^verbatim>\<open>engine_snapshot.cpp\<close> and
    \<^verbatim>\<open>spawn_resolver.cpp\<close>.
  \<^item> \<open>Terminal\<close>, \<open>Terminal_Properties\<close>: \<^verbatim>\<open>server/src/terminal/\<close>; the locale
    \<open>terminal_command\<close> is the contract of the commands.
  \<^item> \<open>Session_Server\<close>, \<open>Server_Properties\<close>: \<^verbatim>\<open>server/src/session_server.cpp\<close>, the command line,
    the start and the runs of the whole server (\<open>server_run\<close>), to which the invariants of the
    interlocking carry over from the loaded world.
  \<^item> \<open>Server_Lifecycle\<close>: the ENGINE thread (\<^verbatim>\<open>EngineLoop::run\<close>, \<^verbatim>\<open>start\<close>,
    \<^verbatim>\<open>stop\<close>), the registration of the session, and \<^verbatim>\<open>SessionServer::start\<close> and
    \<^verbatim>\<open>stop\<close> as actions of the main thread interleaved with the events of the other threads.
  \<^item> \<open>Event_Dispatcher\<close>: \<^verbatim>\<open>event_dispatcher.hpp\<close>; a handler may subscribe and unsubscribe
    while an event is delivered.
  \<^item> \<open>Timetable\<close>: \<^verbatim>\<open>engine/timetable/timetable_catalog.hpp\<close> and its loader.
  \<^item> \<open>Scenario_Validation\<close>, \<open>Validation_Properties\<close>, \<open>Validation_Completeness\<close>:
    \<^verbatim>\<open>libscenario_validation/src/\<close>, and what its verdict means for the world the topology loader
    makes of the same files.
  \<^item> \<open>Track_Layout\<close>, \<open>Track_Panel\<close>, \<open>Panel_Properties\<close>: \<^verbatim>\<open>libtrackview/src/\<close>, from the layout
    file over the render model to the items of the scene, drawn from a view of the engine state.
  \<^item> \<open>Uid_Tools\<close>, \<open>Fleet_Editor\<close>, \<open>Fleet_Editor_Properties\<close>: the UID services and data sources of
    \<^verbatim>\<open>tools/shared/\<close> and the controller and persistence of \<^verbatim>\<open>tools/vehicle-browser/application/\<close>
    over a disk of files; \<open>edit_laws\<close> is what saving relies on of the JSON library, met by \<open>json_tree_edit\<close>.
  \<^item> \<open>Editor_Panels\<close>, \<open>Editor_Properties\<close>: the models and panels of the vehicle browser, with the text
    functions of Qt as a parameter (\<open>QtText\<close>), and the way of a consist from the editor to the engine.
  \<^item> \<open>Editor_Window\<close>: the tables, buttons and dialogs of the vehicle browser as one window, its runs
    (\<open>browser_run\<close>) and what a run keeps (\<open>browser_ok\<close>); what a vehicle is that the dialog has saved.
  \<^item> \<open>Uid_Window\<close>: the window of \<^verbatim>\<open>tools/uid-generator/\<close>, its form, result and table, and its
    runs (\<open>uid_window_run\<close>); a click shows a free UID or disables the button.
  \<^item> \<open>Proto_Ownership\<close>, \<open>Proto_Chat\<close>, \<open>Proto_Voice\<close>, \<open>Reserved_Messages\<close>: the tables of the
    protocol that nothing sends yet.

  \<^bold>\<open>Conventions.\<close>
  Classes and structs are records of their data members; a method takes the record and returns it
  updated, next to its result.  A nullable pointer is an option, a thrown exception the left side of
  a sum.  Ticks, UIDs, CRC and frame fields keep their width; C++ \<^verbatim>\<open>int\<close> counters are
  \<open>int\<close>, as their values stay far below \<open>2 ^ 31\<close>.  A float is a real number and every operation is
  rounded by \<open>f32\<close>; infinities and NaN are left out of the trains, so the theorems on them ask for a
  positive mass, while the coordinates of the track view are doubles with all their values.  The functions with a mutex are atomic operations, so a run of threads is a sequence of them.

  \<^bold>\<open>What the theorems show.\<close>
  Safety of the interlocking (C1, C2, C3, C27): an accepted command never throws a locked or
  occupied switch, a route sets, locks and releases exactly what it needs, and a locked switch never
  moves in any run of a server under EbiLock, whatever files it has loaded.  Loading (C13, C16,
  C33): what a loaded world and fleet satisfy, and how loading can fail; what the scenario
  validators promise for it (C14, C15).  Route search (C25, C26, C39): sound, complete and
  total.  Timing, ticks and queues (C28 to C30).  Trains (C31, C32).  Telegrams and line block (C5,
  C7, C8).  The terminal (C6, C20).  The server: who may command (C4), how bytes become frames and
  commands (C17, C18, C24, C37, C38, C40), what clients and database are told (C9, C19,
  C21), in which order it starts and stops (C10).  The database (C11, C12): what the tables hold
  after any calls.  The panel shows the state of the engine (C22, C23). The editors (C34, C35): what they
  save is what was entered, up to blanks and the category, and when the engine loads it; the generator of
  UIDs (C36).  More theorems stand in
  the theories without a number, among them those on behaviour that the comments or documents of the
  program describe differently: the gaps in route protection in \<open>Route_Cancellation\<close>,
  the trains lost in a crossover in \<open>Fleet_Properties\<close>, the consist that is spawned
  twice in \<open>Terminal_Properties\<close>, the server that a client can end in
  \<open>Gateway_Safety\<close>, the exchanges that never close in \<open>Dispatch_Exchange\<close>,
  the vehicle that replaces another in \<open>Editor_Properties\<close>.

  \<^bold>\<open>Not modelled.\<close>
  Sockets, signals and the memory model of the threads, whose operations under a mutex are taken as
  atomic; what PostgreSQL computes beyond the statements of the writer; the object API of the generated
  headers, which nothing calls; exceptions the directory iterator may throw while the fleet is collected, the
  overflow of the \<^verbatim>\<open>int\<close> sums of a consist, the sign of a JSON zero; the layout of Qt widgets and the painting of bitmaps, of which only
  the size is modelled; the client and the scenario editor, which are placeholders.
\<close>

end
